(* ===== verification/Prelude.thy ===== *)
theory Prelude
  imports Main "HOL-Library.Finite_Map" "HOL-Library.Char_ord" "HOL-Library.List_Lexorder"
begin

text \<open>
  Shared ground of the development: the exceptions of the repository as values, the
  result type of fallible operations, the string primitives the validators use, and
  generic lemmas about the searches and fixed orders the components share.

  Every Python exception the modelled code raises is a value \<open>Err class message\<close>;
  an operation that may raise returns a sum whose left side is that value.  The message
  is the constant part of the source's message.
\<close>

section \<open>Exceptions and results\<close>

datatype exn =
    ContractViolation | BudgetExceeded | LedgerIntegrityError | LedgerConflict
  | LedgerBusy | LeaseContended | DecisionLogError | DecisionLogBusy
  | AutonomousEvolutionError | IntegrityError | ReceiptConflict | ConcurrentWriterError
  | AlignmentError | RegistryViolation | RegistryConflict | RegistryBusy
  | AgentProgramViolation | ValueError | KeyError | TypeError | IndexError
  | ExecutionInterrupted | EvaluatorInfrastructureError | ZeroDivisionError | OverflowError | AttributeError
  | UnboundLocalError | StrategyViolation | PortfolioViolation

datatype err = Err exn string

type_synonym 'a res = "err + 'a"

fun exn_of :: "err \<Rightarrow> exn" where
  "exn_of (Err x m) = x"

text \<open>
  \<open>except ContractViolation\<close> also catches the subclasses the repository declares.
\<close>

definition is_contract_violation :: "exn \<Rightarrow> bool" where
  "is_contract_violation x \<longleftrightarrow> x \<in>
     {ContractViolation, BudgetExceeded, LedgerIntegrityError, LedgerConflict, LedgerBusy,
      LeaseContended, DecisionLogError, DecisionLogBusy, AutonomousEvolutionError, PortfolioViolation}"

text \<open>
  \<open>except (KeyError, TypeError, ValueError)\<close>: \<open>ContractViolation\<close> and the registry,
  alignment and AgentProgram violations are subclasses of \<open>ValueError\<close>.
\<close>

definition is_value_error :: "exn \<Rightarrow> bool" where
  "is_value_error x \<longleftrightarrow> is_contract_violation x \<or> x \<in>
     {ValueError, AlignmentError, RegistryViolation, RegistryConflict, RegistryBusy,
      AgentProgramViolation, StrategyViolation}"

definition is_decode_error :: "exn \<Rightarrow> bool" where
  "is_decode_error x \<longleftrightarrow> is_value_error x \<or> x = KeyError \<or> x = TypeError"

definition bind :: "'a res \<Rightarrow> ('a \<Rightarrow> 'b res) \<Rightarrow> 'b res" where
  "bind m f = (case m of Inl e \<Rightarrow> Inl e | Inr x \<Rightarrow> f x)"

definition raise :: "exn \<Rightarrow> string \<Rightarrow> 'a res" where
  "raise x m = Inl (Err x m)"

text \<open>\<open>require c x m\<close>: raise \<open>x\<close> unless \<open>c\<close> holds.\<close>

definition require :: "bool \<Rightarrow> exn \<Rightarrow> string \<Rightarrow> unit res" where
  "require c x m = (if c then Inr () else Inl (Err x m))"

text \<open>\<open>try: m except E: raise x m'\<close>, for the exceptions that satisfy \<open>p\<close>.\<close>

definition rewrap :: "(exn \<Rightarrow> bool) \<Rightarrow> exn \<Rightarrow> string \<Rightarrow> 'a res \<Rightarrow> 'a res" where
  "rewrap p x m r =
     (case r of Inl e \<Rightarrow> (if p (exn_of e) then Inl (Err x m) else Inl e) | Inr v \<Rightarrow> Inr v)"

fun is_ok :: "'a res \<Rightarrow> bool" where
  "is_ok (Inl e) = False"
| "is_ok (Inr x) = True"

lemma is_ok_iff: "is_ok r \<longleftrightarrow> (\<exists>x. r = Inr x)"
  by (cases r) auto

text \<open>A loop whose body may raise, results collected in order.\<close>

fun mapM :: "('a \<Rightarrow> 'b res) \<Rightarrow> 'a list \<Rightarrow> 'b list res" where
  "mapM f [] = Inr []"
| "mapM f (x # xs) = bind (f x) (\<lambda>y. bind (mapM f xs) (\<lambda>ys. Inr (y # ys)))"

text \<open>A loop of checks: the first that raises stops it.\<close>

fun all_checks :: "unit res list \<Rightarrow> unit res" where
  "all_checks [] = Inr ()"
| "all_checks (c # cs) = bind c (\<lambda>_. all_checks cs)"

named_theorems res_simps \<open>unfolding of the result combinators\<close>

lemma bind_Inl [simp]: "bind (Inl e) f = Inl e"
  by (simp add: bind_def)

lemma bind_Inr [simp]: "bind (Inr x) f = f x"
  by (simp add: bind_def)

lemma bind_eq_Inr: "bind m f = Inr y \<longleftrightarrow> (\<exists>x. m = Inr x \<and> f x = Inr y)"
  by (cases m) auto

lemma bind_eq_Inl: "bind m f = Inl e \<longleftrightarrow> m = Inl e \<or> (\<exists>x. m = Inr x \<and> f x = Inl e)"
  by (cases m) auto

lemma require_eq_Inr [res_simps]: "require c x m = Inr u \<longleftrightarrow> c"
  by (simp add: require_def)

lemma require_eq_Inl [res_simps]: "require c x m = Inl e \<longleftrightarrow> \<not> c \<and> e = Err x m"
  by (auto simp: require_def)

lemma require_True [simp]: "require True x m = Inr ()"
  by (simp add: require_def)

lemma require_False [simp]: "require False x m = Inl (Err x m)"
  by (simp add: require_def)

lemma raise_neq_Inr [simp]: "raise x m \<noteq> Inr y"
  by (simp add: raise_def)

lemma rewrap_eq_Inr [res_simps]: "rewrap p x m r = Inr v \<longleftrightarrow> r = Inr v"
  by (auto simp: rewrap_def split: sum.splits if_splits)

lemma rewrap_Inr [simp]: "rewrap p x m (Inr v) = Inr v"
  by (simp add: rewrap_def)

lemma all_checks_eq_Inr [res_simps]:
  "all_checks cs = Inr u \<longleftrightarrow> (\<forall>c \<in> set cs. c = Inr ())"
  by (induction cs) (auto simp: bind_eq_Inr)

lemma mapM_eq_Inr:
  "mapM f xs = Inr ys \<longleftrightarrow> list_all2 (\<lambda>x y. f x = Inr y) xs ys"
proof (induction xs arbitrary: ys)
  case Nil
  then show ?case by (cases ys) auto
next
  case (Cons x xs)
  then show ?case by (cases ys) (auto simp: bind_eq_Inr)
qed

lemma mapM_left: "mapM f xs = Inr ys \<Longrightarrow> x \<in> set xs \<Longrightarrow> \<exists>y \<in> set ys. f x = Inr y"
  by (induction xs arbitrary: ys) (auto simp: bind_eq_Inr)

lemma mapM_right: "mapM f xs = Inr ys \<Longrightarrow> y \<in> set ys \<Longrightarrow> \<exists>x \<in> set xs. f x = Inr y"
  by (induction xs arbitrary: ys) (auto simp: bind_eq_Inr)

lemma mapM_length: "mapM f xs = Inr ys \<Longrightarrow> length ys = length xs"
  by (induction xs arbitrary: ys) (auto simp: bind_eq_Inr)

lemmas [res_simps] = bind_eq_Inr

lemma filter_all: "length (filter P xs) = length xs \<Longrightarrow> x \<in> set xs \<Longrightarrow> P x"
  by (metis filter_id_conv length_filter_less nat_neq_iff)

section \<open>Operations on a state\<close>

text \<open>
  An operation that changes files or an object before it may raise returns the state it
  leaves behind together with its result: \<open>obind\<close> is the sequence of two statements.
\<close>

type_synonym ('s, 'a) op = "'s \<Rightarrow> 's \<times> 'a res"

definition obind :: "('s, 'a) op \<Rightarrow> ('a \<Rightarrow> ('s, 'b) op) \<Rightarrow> ('s, 'b) op" where
  "obind m f s = (case m s of (s', r) \<Rightarrow> (case r of Inl e \<Rightarrow> (s', Inl e) | Inr x \<Rightarrow> f x s'))"

definition olift :: "'a res \<Rightarrow> ('s, 'a) op" where
  "olift r s = (s, r)"

definition oreturn :: "'a \<Rightarrow> ('s, 'a) op" where
  "oreturn x s = (s, Inr x)"

definition oread :: "('s \<Rightarrow> 'a) \<Rightarrow> ('s, 'a) op" where
  "oread f s = (s, Inr (f s))"

definition omodify :: "('s \<Rightarrow> 's) \<Rightarrow> ('s, unit) op" where
  "omodify f s = (f s, Inr ())"

lemma olift_Inr [simp]: "olift (Inr x) s = (s, Inr x)"
  by (simp add: olift_def)

lemma olift_Inl [simp]: "olift (Inl e) s = (s, Inl e)"
  by (simp add: olift_def)

lemma oreturn_apply [simp]: "oreturn x s = (s, Inr x)"
  by (simp add: oreturn_def)

lemma oread_apply [simp]: "oread f s = (s, Inr (f s))"
  by (simp add: oread_def)

lemma omodify_apply [simp]: "omodify f s = (f s, Inr ())"
  by (simp add: omodify_def)

lemma olift_eq_Inr: "olift r s = (s', Inr x) \<longleftrightarrow> s' = s \<and> r = Inr x"
  by (auto simp: olift_def)

lemma obind_Inr: "m s = (s', Inr x) \<Longrightarrow> obind m f s = f x s'"
  by (simp add: obind_def)

lemma obind_Inl: "m s = (s', Inl e) \<Longrightarrow> obind m f s = (s', Inl e)"
  by (simp add: obind_def)

lemma obind_eq_Inr:
  "obind m f s = (s', Inr y) \<longleftrightarrow> (\<exists>s1 x. m s = (s1, Inr x) \<and> f x s1 = (s', Inr y))"
  by (auto simp: obind_def split: prod.splits sum.splits)

lemma obind_olift_Inr [simp]: "obind (olift (Inr x)) f s = f x s"
  by (simp add: obind_def)

lemma obind_olift_Inl [simp]: "obind (olift (Inl e)) f s = (s, Inl e)"
  by (simp add: obind_def)

lemma obind_olift: "obind (olift r) f s = (case r of Inl e \<Rightarrow> (s, Inl e) | Inr x \<Rightarrow> f x s)"
  by (cases r) simp_all

lemma obind_oread [simp]: "obind (oread g) f s = f (g s) s"
  by (simp add: obind_def)

lemma obind_oreturn [simp]: "obind (oreturn x) f s = f x s"
  by (simp add: obind_def)

lemma obind_omodify [simp]: "obind (omodify g) f s = f () (g s)"
  by (simp add: obind_def)

section \<open>Strings\<close>

text \<open>
  A Python \<open>str\<close> is a list of characters with code points below 256 (the Latin-1
  range); \<open>strip()\<close> removes the white space of that range.
\<close>

definition is_space :: "char \<Rightarrow> bool" where
  "is_space c \<longleftrightarrow> (let n = of_char c :: nat in
     (9 \<le> n \<and> n \<le> 13) \<or> (28 \<le> n \<and> n \<le> 32) \<or> n = 133 \<or> n = 160)"

definition blank :: "string \<Rightarrow> bool" where
  "blank s \<longleftrightarrow> list_all is_space s"

definition strip :: "string \<Rightarrow> string" where
  "strip s = rev (dropWhile is_space (rev (dropWhile is_space s)))"

lemma blank_strip: "blank s \<longleftrightarrow> strip s = []"
proof
  assume "blank s"
  then have d: "dropWhile is_space s = []"
    unfolding dropWhile_eq_Nil_conv by (simp add: blank_def list_all_iff)
  show "strip s = []"
    by (simp only: strip_def d rev.simps dropWhile.simps)
next
  assume s: "strip s = []"
  show "blank s"
  proof (rule ccontr)
    assume "\<not> blank s"
    then obtain c where c: "c \<in> set s" "\<not> is_space c"
      by (auto simp: blank_def list_all_iff)
    then have "dropWhile is_space s \<noteq> []" by auto
    then obtain d ds where d: "dropWhile is_space s = d # ds"
      by (cases "dropWhile is_space s") auto
    then have "\<not> is_space d" by (metis hd_dropWhile list.discI list.sel(1))
    moreover from s have "dropWhile is_space (rev (d # ds)) = []"
      by (simp add: strip_def d)
    ultimately show False by simp
  qed
qed

lemma blank_Nil [simp]: "blank []"
  by (simp add: blank_def)

definition is_hex :: "char \<Rightarrow> bool" where
  "is_hex c \<longleftrightarrow> c \<in> set ''0123456789abcdef''"

definition is_sha256 :: "string \<Rightarrow> bool" where
  "is_sha256 s \<longleftrightarrow> length s = 64 \<and> list_all is_hex s"

text \<open>\<open>needle in haystack\<close> for strings.\<close>

fun starts_with :: "string \<Rightarrow> string \<Rightarrow> bool" where
  "starts_with [] s = True"
| "starts_with (x # xs) [] = False"
| "starts_with (x # xs) (y # ys) = (x = y \<and> starts_with xs ys)"

fun substring :: "string \<Rightarrow> string \<Rightarrow> bool" where
  "substring n [] = (n = [])"
| "substring n (c # cs) = (starts_with n (c # cs) \<or> substring n cs)"

text \<open>\<open>sep.join(parts)\<close>.\<close>

fun join_with :: "string \<Rightarrow> string list \<Rightarrow> string" where
  "join_with sep [] = []"
| "join_with sep [x] = x"
| "join_with sep (x # y # zs) = x @ sep @ join_with sep (y # zs)"

lemma starts_with_iff: "starts_with n s \<longleftrightarrow> (\<exists>t. s = n @ t)"
  by (induction n s rule: starts_with.induct) auto

lemma substring_iff: "substring n s \<longleftrightarrow> (\<exists>p t. s = p @ n @ t)"
proof (induction s)
  case Nil
  then show ?case by auto
next
  case (Cons c cs)
  show ?case
  proof
    assume "substring n (c # cs)"
    then consider "starts_with n (c # cs)" | "substring n cs" by auto
    then show "\<exists>p t. c # cs = p @ n @ t"
    proof cases
      case 1
      then obtain t where "c # cs = [] @ n @ t" by (auto simp: starts_with_iff)
      then show ?thesis by blast
    next
      case 2
      with Cons.IH obtain p t where "cs = p @ n @ t" by blast
      then have "c # cs = (c # p) @ n @ t" by simp
      then show ?thesis by blast
    qed
  next
    assume "\<exists>p t. c # cs = p @ n @ t"
    then obtain p t where eq: "c # cs = p @ n @ t" by blast
    show "substring n (c # cs)"
    proof (cases p)
      case Nil
      with eq have "starts_with n (c # cs)" by (auto simp: starts_with_iff)
      then show ?thesis by simp
    next
      case (Cons d ds)
      with eq have "cs = ds @ n @ t" by simp
      with Cons.IH show ?thesis by auto
    qed
  qed
qed

section \<open>First matches, duplicates\<close>

text \<open>\<open>next((x for x in xs if p(x)), None)\<close> is \<open>find p xs\<close>.\<close>

lemma find_append: "find p (xs @ ys) = (case find p xs of None \<Rightarrow> find p ys | Some x \<Rightarrow> Some x)"
  by (induction xs) auto

lemma find_SomeD: "find p xs = Some x \<Longrightarrow> x \<in> set xs \<and> p x"
  by (auto simp: find_Some_iff in_set_conv_nth)

lemma find_NoneD: "find p xs = None \<Longrightarrow> x \<in> set xs \<Longrightarrow> \<not> p x"
  by (auto simp: find_None_iff)

text \<open>\<open>dict.fromkeys(xs)\<close>: the first occurrences, in order.\<close>

fun uniq :: "'a list \<Rightarrow> 'a list" where
  "uniq [] = []"
| "uniq (x # xs) = x # filter (\<lambda>y. y \<noteq> x) (uniq xs)"

lemma set_uniq [simp]: "set (uniq xs) = set xs"
  by (induction xs) auto

lemma distinct_uniq [simp]: "distinct (uniq xs)"
  by (induction xs) auto

text \<open>\<open>sorted(set(xs))\<close> is \<open>sorted_list_of_set (set xs)\<close>; the sort of distinct keys.\<close>

lemma sort_set_eq: "sort (remdups xs) = sorted_list_of_set (set xs)"
  by (rule sorted_list_of_set_sort_remdups [symmetric])

lemma distinct_map_inj: "distinct (map f xs) \<Longrightarrow> x \<in> set xs \<Longrightarrow> y \<in> set xs \<Longrightarrow> f x = f y \<Longrightarrow> x = y"
  by (auto simp: distinct_map inj_on_def)

lemma find_key_unique:
  assumes "distinct (map f xs)" and "x \<in> set xs"
  shows "find (\<lambda>y. f y = f x) xs = Some x"
proof (cases "find (\<lambda>y. f y = f x) xs")
  case None
  with assms(2) show ?thesis by (auto simp: find_None_iff)
next
  case (Some y)
  then have "y \<in> set xs" and "f y = f x" by (auto dest: find_SomeD)
  with assms have "y = x" by (blast intro: distinct_map_inj)
  with Some show ?thesis by simp
qed

end
