(* ===== verification/PyFloat.thy ===== *)
theory PyFloat
  imports Prelude
begin

text \<open>
  Python's \<open>float\<close> (an IEEE-754 double).  A finite double is an integral multiple of the
  smallest subnormal \<open>2 powi -1074\<close>, and \<open>Fin n\<close> is the double of \<open>n\<close> such units, so
  addition is integer addition followed by one rounding to nearest, ties to even, at 53
  bits; the overflow threshold \<open>2 ^ 1024\<close> is \<open>2 ^ 2098\<close> units.  Comparisons with NaN are
  False and the two zeros are one value.  \<open>fsum_py\<close> is the built-in \<open>sum\<close> of Python 3.12
  and later (the versions the project requires), which compensates the lost low bits.

  The lemmas show that the rounding is exact on multiples of a power of two with 53
  significant bits, monotone at zero, and how to compute it once the bit length is known.
\<close>

section \<open>Rounding\<close>

datatype pyfloat = Fin int | PInf | NInf | NaN

fun blen :: "nat \<Rightarrow> nat" where
  "blen n = (if n = 0 then 0 else Suc (blen (n div 2)))"

declare blen.simps [simp del]

definition half_even :: "int \<Rightarrow> nat \<Rightarrow> int" where
  "half_even n k = (let q = n div 2 ^ k; r = n mod 2 ^ k
                    in if 2 * r < 2 ^ k then q else if 2 ^ k < 2 * r then q + 1
                       else if even q then q else q + 1)"

definition round_pos :: "int \<Rightarrow> int" where
  "round_pos n = (let k = blen (nat n) - 53 in half_even n k * 2 ^ k)"

definition rnd :: "int \<Rightarrow> pyfloat" where
  "rnd n = (let m = round_pos \<bar>n\<bar>
            in if 2 ^ 2098 \<le> m then (if 0 < n then PInf else NInf)
               else if 0 \<le> n then Fin m else Fin (- m))"

section \<open>Arithmetic and comparison\<close>

fun fneg :: "pyfloat \<Rightarrow> pyfloat" where
  "fneg (Fin q) = Fin (- q)"
| "fneg PInf = NInf"
| "fneg NInf = PInf"
| "fneg NaN = NaN"

fun fadd :: "pyfloat \<Rightarrow> pyfloat \<Rightarrow> pyfloat" where
  "fadd (Fin a) (Fin b) = rnd (a + b)"
| "fadd NaN y = NaN"
| "fadd x NaN = NaN"
| "fadd PInf NInf = NaN"
| "fadd NInf PInf = NaN"
| "fadd PInf y = PInf"
| "fadd NInf y = NInf"
| "fadd x PInf = PInf"
| "fadd x NInf = NInf"

definition fsub :: "pyfloat \<Rightarrow> pyfloat \<Rightarrow> pyfloat" where
  "fsub x y = fadd x (fneg y)"

fun flt :: "pyfloat \<Rightarrow> pyfloat \<Rightarrow> bool" where
  "flt (Fin a) (Fin b) \<longleftrightarrow> a < b"
| "flt (Fin a) PInf = True"
| "flt NInf (Fin b) = True"
| "flt NInf PInf = True"
| "flt x y = False"

fun feq :: "pyfloat \<Rightarrow> pyfloat \<Rightarrow> bool" where
  "feq NaN y = False"
| "feq x NaN = False"
| "feq x y = (x = y)"

definition fle :: "pyfloat \<Rightarrow> pyfloat \<Rightarrow> bool" where
  "fle x y \<longleftrightarrow> flt x y \<or> feq x y"

fun finite_float :: "pyfloat \<Rightarrow> bool" where
  "finite_float (Fin q) = True"
| "finite_float x = False"

definition fabs :: "pyfloat \<Rightarrow> pyfloat" where
  "fabs x = (case x of Fin q \<Rightarrow> Fin \<bar>q\<bar> | NInf \<Rightarrow> PInf | _ \<Rightarrow> x)"

text \<open>\<open>dyadic m e\<close> is \<open>m * 2 ^ e / 2 ^ 60\<close> as a double, for 53-bit \<open>m\<close>: a literal.\<close>

definition dyadic :: "int \<Rightarrow> nat \<Rightarrow> pyfloat" where
  "dyadic m e = Fin (m * 2 ^ (e + 1014))"

definition fzero :: pyfloat where
  "fzero = Fin 0"

definition float_of_int :: "int \<Rightarrow> pyfloat" where
  "float_of_int i = rnd (i * 2 ^ 1074)"

section \<open>The built-in sum\<close>

text \<open>
  The loop of the built-in: a running sum and the accumulated low-order error, added at
  the end when it is finite and not zero.  An empty sum is the integer 0.
\<close>

fun fsum_loop :: "pyfloat \<Rightarrow> pyfloat \<Rightarrow> pyfloat list \<Rightarrow> pyfloat" where
  "fsum_loop s c [] = (if finite_float c \<and> c \<noteq> Fin 0 then fadd s c else s)"
| "fsum_loop s c (x # xs) =
     (let t = fadd s x;
          d = (if fle (fabs x) (fabs s) then fadd (fsub s t) x else fadd (fsub x t) s)
      in fsum_loop t (fadd c d) xs)"

definition fsum_py :: "pyfloat list \<Rightarrow> pyfloat" where
  "fsum_py xs = fsum_loop (Fin 0) (Fin 0) xs"

section \<open>Bit length\<close>

lemma blen_bounds: "0 < n \<Longrightarrow> 2 ^ (blen n - 1) \<le> n \<and> n < 2 ^ blen n"
proof (induction n rule: blen.induct)
  case (1 n)
  show ?case
  proof (cases "n = 1")
    case True
    then show ?thesis by (simp add: blen.simps)
  next
    case False
    with "1.prems" have pos: "0 < n div 2" by simp
    from "1.prems" pos have IH: "2 ^ (blen (n div 2) - 1) \<le> n div 2" "n div 2 < 2 ^ blen (n div 2)"
      using "1.IH" by auto
    have b: "blen n = Suc (blen (n div 2))"
      using "1.prems" by (subst blen.simps) simp
    have p: "0 < blen (n div 2)"
      using pos by (subst blen.simps) simp
    have low: "2 ^ blen (n div 2) \<le> n"
    proof -
      have "(2::nat) ^ blen (n div 2) = 2 * 2 ^ (blen (n div 2) - 1)"
        using p by (cases "blen (n div 2)") auto
      also have "\<dots> \<le> 2 * (n div 2)" using IH(1) by simp
      also have "\<dots> \<le> n" by simp
      finally show ?thesis .
    qed
    have up: "n < 2 * 2 ^ blen (n div 2)"
    proof -
      have "n < 2 * (n div 2) + 2" by simp
      also have "\<dots> \<le> 2 * 2 ^ blen (n div 2)" using IH(2) by simp
      finally show ?thesis .
    qed
    from low up b show ?thesis by simp
  qed
qed

lemma blen_le: "n < 2 ^ k \<Longrightarrow> blen n \<le> k"
proof (rule ccontr)
  assume lt: "n < 2 ^ k" and "\<not> blen n \<le> k"
  then have k: "k \<le> blen n - 1" and n: "0 < n"
    by (auto simp: blen.simps [of 0] intro: gr0I)
  have "(2::nat) ^ k \<le> 2 ^ (blen n - 1)" using k by simp
  also have "\<dots> \<le> n" using blen_bounds [OF n] by simp
  finally show False using lt by simp
qed

lemma blen_eq: "2 ^ k \<le> n \<Longrightarrow> n < 2 ^ Suc k \<Longrightarrow> blen n = Suc k"
proof (rule antisym)
  assume ge: "2 ^ k \<le> n" and lt: "n < 2 ^ Suc k"
  show "blen n \<le> Suc k" using lt by (rule blen_le)
  have n: "0 < n" using ge by (meson less_le_trans zero_less_numeral zero_less_power)
  show "Suc k \<le> blen n"
  proof (rule ccontr)
    assume "\<not> Suc k \<le> blen n"
    then have "(2::nat) ^ blen n \<le> 2 ^ k" by simp
    with blen_bounds [OF n] ge show False by simp
  qed
qed

section \<open>Exactness\<close>

text \<open>\<open>on_grid k n\<close>: a whole multiple of \<open>2 ^ k\<close> units.\<close>

definition on_grid :: "nat \<Rightarrow> int \<Rightarrow> bool" where
  "on_grid k n \<longleftrightarrow> 2 ^ k dvd n"

lemma on_grid_add: "on_grid k a \<Longrightarrow> on_grid k b \<Longrightarrow> on_grid k (a + b)"
  by (simp add: on_grid_def)

lemma on_grid_minus [simp]: "on_grid k (- a) \<longleftrightarrow> on_grid k a"
  by (simp add: on_grid_def)

lemma on_grid_0 [simp]: "on_grid k 0"
  by (simp add: on_grid_def)

lemma half_even_exact: "2 ^ k dvd n \<Longrightarrow> half_even n k * 2 ^ k = n"
  by (auto simp: half_even_def Let_def)

lemma round_pos_exact:
  assumes g: "on_grid k n" and lt: "n < 2 ^ (k + 53)"
  shows "round_pos n = n"
proof -
  have "nat n < 2 ^ (k + 53)" using lt by (simp add: nat_less_iff)
  then have "blen (nat n) - 53 \<le> k" using blen_le [of "nat n" "k + 53"] by simp
  then have "(2::int) ^ (blen (nat n) - 53) dvd 2 ^ k" by (rule le_imp_power_dvd)
  with g have "2 ^ (blen (nat n) - 53) dvd n" by (auto simp: on_grid_def intro: dvd_trans)
  then show ?thesis by (simp add: round_pos_def Let_def half_even_exact)
qed

lemma rnd_exact:
  assumes g: "on_grid k n" and lt: "\<bar>n\<bar> < 2 ^ (k + 53)" and k: "k \<le> 2045"
  shows "rnd n = Fin n"
proof -
  have "on_grid k \<bar>n\<bar>" using g by (simp add: abs_if)
  with lt have r: "round_pos \<bar>n\<bar> = \<bar>n\<bar>" by (intro round_pos_exact)
  have "(2::int) ^ (k + 53) \<le> 2 ^ 2098" using k by (intro power_increasing) simp_all
  with lt have "\<not> 2 ^ 2098 \<le> \<bar>n\<bar>" by linarith
  with r show ?thesis by (simp add: rnd_def Let_def)
qed

lemma half_even_nonneg: "0 \<le> n \<Longrightarrow> 0 \<le> half_even n k"
  by (simp add: half_even_def Let_def pos_imp_zdiv_nonneg_iff add_nonneg_nonneg)

lemma rnd_nonneg:
  assumes "0 \<le> n" and "rnd n = Fin r"
  shows "0 \<le> r"
proof -
  have "0 \<le> round_pos \<bar>n\<bar>"
    by (simp add: round_pos_def Let_def half_even_nonneg)
  with assms show ?thesis by (auto simp: rnd_def Let_def split: if_splits)
qed

text \<open>How a rounding is computed: the bit length is known, the numbers are scaled.\<close>

lemma round_pos_scaled:
  assumes "2 ^ (52 + k) \<le> n" and "n < 2 ^ (53 + k)"
  shows "round_pos (n * 2 ^ j) = half_even n k * 2 ^ (k + j)"
proof -
  have pos: "0 < n" using assms(1) by (meson less_le_trans zero_less_numeral zero_less_power)
  have lo: "(2::nat) ^ (52 + k + j) \<le> nat (n * 2 ^ j)"
  proof -
    have "(2::int) ^ (52 + k + j) \<le> n * 2 ^ j"
      using assms(1) by (simp add: power_add)
    then show ?thesis by (simp add: nat_le_iff le_nat_iff)
  qed
  have hi: "nat (n * 2 ^ j) < 2 ^ Suc (52 + k + j)"
  proof -
    have "n * 2 ^ j < 2 ^ (53 + k) * 2 ^ j" using assms(2) by simp
    also have "\<dots> = (2::int) ^ Suc (52 + k + j)" by (simp add: power_add)
    finally show ?thesis by (simp add: nat_less_iff)
  qed
  have b: "blen (nat (n * 2 ^ j)) - 53 = k + j"
    using blen_eq [OF lo hi] by simp
  have "half_even (n * 2 ^ j) (k + j) = half_even n k"
  proof -
    have d: "n * 2 ^ j div 2 ^ (k + j) = n div (2 ^ k :: int)"
      by (simp add: power_add)
    have m: "n * 2 ^ j mod 2 ^ (k + j) = (n mod 2 ^ k) * (2 ^ j :: int)"
      by (simp add: power_add mult.commute [of _ "2 ^ j"])
    have l: "2 * (n mod 2 ^ k * 2 ^ j) < 2 ^ (k + j) \<longleftrightarrow> 2 * (n mod 2 ^ k) < (2 ^ k :: int)"
    proof -
      have "2 * (n mod 2 ^ k * 2 ^ j) < 2 ^ (k + j) \<longleftrightarrow> (2 * (n mod 2 ^ k)) * 2 ^ j < (2 ^ k * 2 ^ j :: int)"
        by (simp add: power_add)
      then show ?thesis by (simp only: mult_less_cancel_right) simp
    qed
    have g: "2 ^ (k + j) < 2 * (n mod 2 ^ k * 2 ^ j) \<longleftrightarrow> (2 ^ k :: int) < 2 * (n mod 2 ^ k)"
    proof -
      have "2 ^ (k + j) < 2 * (n mod 2 ^ k * 2 ^ j) \<longleftrightarrow> (2 ^ k * 2 ^ j :: int) < (2 * (n mod 2 ^ k)) * 2 ^ j"
        by (simp add: power_add)
      then show ?thesis by (simp only: mult_less_cancel_right) simp
    qed
    show ?thesis unfolding half_even_def Let_def d m l g ..
  qed
  with b show ?thesis by (simp add: round_pos_def Let_def)
qed

lemma rnd_scaled:
  assumes "2 ^ (52 + k) \<le> n" and "n < 2 ^ (53 + k)" and "half_even n k * 2 ^ k < 2 ^ 1000" and "j \<le> 1074"
  shows "rnd (n * 2 ^ j) = Fin (half_even n k * 2 ^ k * 2 ^ j)"
proof -
  have pos: "0 < n" using assms(1) by (meson less_le_trans zero_less_numeral zero_less_power)
  have r: "round_pos \<bar>n * 2 ^ j\<bar> = half_even n k * 2 ^ k * 2 ^ j"
    using round_pos_scaled [OF assms(1,2), of j] pos by (simp add: abs_mult power_add)
  have "half_even n k * 2 ^ k * 2 ^ j < 2 ^ 1000 * (2::int) ^ j"
    using assms(3) by (rule mult_strict_right_mono) simp
  also have "\<dots> = (2::int) ^ (1000 + j)" by (simp only: power_add)
  also have "\<dots> \<le> 2 ^ 2098" using assms(4) by (intro power_increasing) simp_all
  finally have "\<not> 2 ^ 2098 \<le> half_even n k * 2 ^ k * 2 ^ j" by linarith
  moreover have "0 \<le> n * 2 ^ j" using pos by simp
  ultimately show ?thesis unfolding rnd_def Let_def r by simp
qed

section \<open>Zero\<close>

lemma rnd_zero [simp]: "rnd 0 = Fin 0"
  using rnd_exact [of 0 0] by simp

lemma fadd_zero [simp]: "fadd fzero fzero = fzero"
  by (simp add: fzero_def)

lemma flt_zero [simp]: "\<not> flt fzero fzero" "finite_float fzero" "fle fzero fzero"
  by (simp_all add: fzero_def fle_def)

lemma fsum_zero [simp]: "fsum_py [] = fzero" "fsum_py [fzero] = fzero" "fsum_py [fzero, fzero] = fzero"
  by (simp_all add: fsum_py_def fzero_def fsub_def)

end
