(* ===== verification/Json.thy ===== *)
theory Json
  imports PyFloat
begin

text \<open>
  JSON values as the code handles them between \<open>json.loads\<close> and \<open>json.dumps\<close>, the
  dictionary accesses, Python's \<open>==\<close> on them, and the text \<open>json.dumps\<close> writes with
  \<open>ensure_ascii=False, sort_keys=True, separators=(",", ":"), allow_nan=False\<close>.

  An object is a finite map: its keys are strings, and where the code visits them the model
  visits them in sorted order, the order of every file the encoder wrote.  Text is Latin-1,
  so UTF-8 gives one or two bytes per character.
\<close>

section \<open>Values\<close>

datatype json =
    JNull | JBool bool | JInt int | JFloat pyfloat | JStr string
  | JList "json list" | JObj "(string, json) fmap"

type_synonym dict = "(string, json) fmap"

definition jobj :: "(string \<times> json) list \<Rightarrow> json" where
  "jobj kvs = JObj (fmap_of_list kvs)"

text \<open>\<open>d.get(k)\<close> and \<open>d[k]\<close>.\<close>

definition get :: "dict \<Rightarrow> string \<Rightarrow> json" where
  "get d k = (case fmlookup d k of None \<Rightarrow> JNull | Some v \<Rightarrow> v)"

definition item :: "dict \<Rightarrow> string \<Rightarrow> json res" where
  "item d k = (case fmlookup d k of None \<Rightarrow> raise KeyError k | Some v \<Rightarrow> Inr v)"

fun is_str :: "json \<Rightarrow> bool" where
  "is_str (JStr s) = True"
| "is_str j = False"

fun is_obj :: "json \<Rightarrow> bool" where
  "is_obj (JObj d) = True"
| "is_obj j = False"

text \<open>\<open>isinstance(v, str) and v.strip()\<close>.\<close>

fun is_text :: "json \<Rightarrow> bool" where
  "is_text (JStr s) = (\<not> blank s)"
| "is_text j = False"

fun is_digest :: "json \<Rightarrow> bool" where
  "is_digest (JStr s) = is_sha256 s"
| "is_digest j = False"

text \<open>Truth value of a JSON value (\<open>bool(v)\<close>, \<open>not v\<close>).\<close>

fun truthy :: "json \<Rightarrow> bool" where
  "truthy JNull = False"
| "truthy (JBool b) = b"
| "truthy (JInt i) = (i \<noteq> 0)"
| "truthy (JFloat f) = (f \<noteq> Fin 0)"
| "truthy (JStr s) = (s \<noteq> [])"
| "truthy (JList xs) = (xs \<noteq> [])"
| "truthy (JObj d) = (d \<noteq> fmempty)"

text \<open>
  Python's \<open>==\<close>: the booleans are the integers 0 and 1, and a float is equal to the
  integer it denotes.  Two values are equal when their normal forms are.
\<close>

primrec num_norm :: "json \<Rightarrow> json" where
  "num_norm JNull = JNull"
| "num_norm (JBool b) = JInt (if b then 1 else 0)"
| "num_norm (JInt i) = JInt i"
| "num_norm (JFloat f) =
     (case f of Fin n \<Rightarrow> (if n mod 2 ^ 1074 = 0 then JInt (n div 2 ^ 1074) else JFloat f)
      | _ \<Rightarrow> JFloat f)"
| "num_norm (JStr s) = JStr s"
| "num_norm (JList xs) = JList (map num_norm xs)"
| "num_norm (JObj d) = JObj (fmmap num_norm d)"

definition py_eq :: "json \<Rightarrow> json \<Rightarrow> bool" where
  "py_eq x y \<longleftrightarrow> num_norm x = num_norm y"

text \<open>No NaN or infinity anywhere: what \<open>allow_nan=False\<close> accepts.\<close>

primrec finite_json :: "json \<Rightarrow> bool" where
  "finite_json JNull = True"
| "finite_json (JBool b) = True"
| "finite_json (JInt i) = True"
| "finite_json (JFloat f) = finite_float f"
| "finite_json (JStr s) = True"
| "finite_json (JList xs) = list_all id (map finite_json xs)"
| "finite_json (JObj d) = fmpred (\<lambda>k b. b) (fmmap finite_json d)"

section \<open>Text\<close>

fun digits :: "nat \<Rightarrow> string" where
  "digits n = (if n < 10 then [char_of (48 + n)] else digits (n div 10) @ [char_of (48 + n mod 10)])"

declare digits.simps [simp del]

definition int_text :: "int \<Rightarrow> string" where
  "int_text i = (if i < 0 then ''-'' @ digits (nat (- i)) else digits (nat i))"

definition hex_digit :: "nat \<Rightarrow> char" where
  "hex_digit n = ''0123456789abcdef'' ! (n mod 16)"

text \<open>The escapes of the encoder; 34 is the quote, 92 the backslash.\<close>

definition escape_char :: "char \<Rightarrow> string" where
  "escape_char c = (let n = of_char c :: nat; b = CHR 0x5C in
     if n = 34 \<or> n = 92 then [b, c]
     else if n = 10 then [b, CHR ''n''] else if n = 13 then [b, CHR ''r'']
     else if n = 9 then [b, CHR ''t''] else if n = 8 then [b, CHR ''b'']
     else if n = 12 then [b, CHR ''f'']
     else if n < 32 then [b] @ ''u00'' @ [hex_digit (n div 16), hex_digit n]
     else [c])"

definition string_text :: "string \<Rightarrow> string" where
  "string_text s = (let q = CHR 0x22 in [q] @ concat (map escape_char s) @ [q])"

subsection \<open>Shortest digits of a float\<close>

text \<open>\<open>nearest_double p q\<close> is the double nearest to \<open>p / q\<close> units, for positive \<open>p\<close> and \<open>q\<close>.\<close>

definition round_div :: "int \<Rightarrow> int \<Rightarrow> int" where
  "round_div p q = (let a = p div q; r = p mod q in
     if 2 * r < q then a else if q < 2 * r then a + 1 else if even a then a else a + 1)"

definition nearest_double :: "int \<Rightarrow> int \<Rightarrow> int" where
  "nearest_double p q = (let k = blen (nat (p div q)) - 53 in round_div p (q * 2 ^ k) * 2 ^ k)"

text \<open>\<open>m\<close> times ten to the \<open>e\<close>, in units, as numerator and denominator.\<close>

definition dec_units :: "int \<Rightarrow> int \<Rightarrow> int \<times> int" where
  "dec_units m e = (if 0 \<le> e then (m * 10 ^ nat e * 2 ^ 1074, 1) else (m * 2 ^ 1074, 10 ^ nat (- e)))"

definition dec_double :: "int \<Rightarrow> int \<Rightarrow> int" where
  "dec_double m e = (case dec_units m e of (p, q) \<Rightarrow> nearest_double p q)"

text \<open>The decimal exponent of the leading digit.\<close>

definition lead_exp :: "int \<Rightarrow> int" where
  "lead_exp n = (if 2 ^ 1074 \<le> n then int (length (digits (nat (n div 2 ^ 1074)))) - 1
     else (case find (\<lambda>j. 2 ^ 1074 \<le> n * 10 ^ j) [1..<400] of Some j \<Rightarrow> - int j | None \<Rightarrow> - 400))"

text \<open>The one or two decimals of \<open>d\<close> digits around \<open>n\<close>, the nearer one first.\<close>

definition candidates :: "int \<Rightarrow> nat \<Rightarrow> (int \<times> int) list" where
  "candidates n d = (let e = lead_exp n - int d + 1;
       p = (if 0 \<le> e then n else n * 10 ^ nat (- e));
       q = (if 0 \<le> e then 2 ^ 1074 * 10 ^ nat e else 2 ^ 1074);
       lo = p div q; near = round_div p q
     in [(near, e), (if near = lo then lo + 1 else lo, e)])"

definition shortest :: "int \<Rightarrow> int \<times> int" where
  "shortest n = (case find (\<lambda>(m, e). dec_double m e = n) (concat (map (candidates n) [1..<18])) of
     Some c \<Rightarrow> c | None \<Rightarrow> hd (candidates n 17))"

definition strip_zeros :: "string \<Rightarrow> string" where
  "strip_zeros s = rev (dropWhile (\<lambda>c. c = CHR ''0'') (rev s))"

definition float_digits :: "int \<Rightarrow> string" where
  "float_digits n = (if n = 0 then ''0.0'' else
     (case shortest n of (m, e) \<Rightarrow>
        let s = digits (nat m); x = e + int (length s) - 1; ds = strip_zeros s in
        if x < - 4 \<or> 16 \<le> x then
          take 1 ds @ (if tl ds = [] then [] else ''.'' @ tl ds) @ ''e''
            @ (if x < 0 then ''-'' else ''+'')
            @ (if \<bar>x\<bar> < 10 then ''0'' else []) @ digits (nat \<bar>x\<bar>)
        else if x < 0 then ''0.'' @ replicate (nat (- x) - 1) (CHR ''0'') @ ds
        else let i = nat x + 1 in
          if length ds \<le> i then ds @ replicate (i - length ds) (CHR ''0'') @ ''.0''
          else take i ds @ ''.'' @ drop i ds))"

definition float_text :: "pyfloat \<Rightarrow> string" where
  "float_text f = (case f of Fin n \<Rightarrow> (if n < 0 then ''-'' @ float_digits (- n) else float_digits n)
     | PInf \<Rightarrow> ''Infinity'' | NInf \<Rightarrow> ''-Infinity'' | NaN \<Rightarrow> ''NaN'')"

subsection \<open>The encoder\<close>

primrec json_text :: "json \<Rightarrow> string" where
  "json_text JNull = ''null''"
| "json_text (JBool b) = (if b then ''true'' else ''false'')"
| "json_text (JInt i) = int_text i"
| "json_text (JFloat f) = float_text f"
| "json_text (JStr s) = string_text s"
| "json_text (JList xs) = ''['' @ join_with '','' (map json_text xs) @ '']''"
| "json_text (JObj d) = ''{'' @ join_with '',''
     (map (\<lambda>(k, t). string_text k @ '':'' @ t) (sorted_list_of_fmap (fmmap json_text d))) @ ''}''"

definition utf8 :: "string \<Rightarrow> nat list" where
  "utf8 s = concat (map (\<lambda>c. let n = of_char c :: nat in
     if n < 128 then [n] else [192 + n div 64, 128 + n mod 64]) s)"

section \<open>Facts\<close>

lemma get_jobj: "get (fmap_of_list kvs) k = (case map_of kvs k of None \<Rightarrow> JNull | Some v \<Rightarrow> v)"
  by (simp add: get_def fmlookup_of_list)

lemma item_jobj: "item (fmap_of_list kvs) k = (case map_of kvs k of None \<Rightarrow> raise KeyError k | Some v \<Rightarrow> Inr v)"
  by (simp add: item_def fmlookup_of_list)

lemma item_eq_Inr [res_simps]: "item d k = Inr v \<longleftrightarrow> fmlookup d k = Some v"
  by (auto simp: item_def split: option.splits)

lemma get_fmupd [simp]: "get (fmupd k v d) l = (if l = k then v else get d l)"
  by (simp add: get_def)

lemma item_fmupd [simp]: "item (fmupd k v d) l = (if l = k then Inr v else item d l)"
  by (simp add: item_def)

lemma get_fmempty [simp]: "get fmempty k = JNull"
  by (simp add: get_def)

lemma item_fmempty [simp]: "item fmempty k = raise KeyError k"
  by (simp add: item_def)

lemma get_fmdrop [simp]: "get (fmdrop k d) l = (if l = k then JNull else get d l)"
  by (simp add: get_def)

lemma py_eq_refl [simp]: "py_eq x x"
  by (simp add: py_eq_def)

lemma py_eq_sym: "py_eq x y \<Longrightarrow> py_eq y x"
  by (simp add: py_eq_def)

lemma py_eq_trans: "py_eq x y \<Longrightarrow> py_eq y z \<Longrightarrow> py_eq x z"
  by (simp add: py_eq_def)

lemma num_norm_JStr: "num_norm j = JStr s \<longleftrightarrow> j = JStr s"
  by (cases j) (auto split: pyfloat.splits)

lemma py_eq_JStr [simp]: "py_eq j (JStr s) \<longleftrightarrow> j = JStr s" "py_eq (JStr s) j \<longleftrightarrow> j = JStr s"
  by (auto simp: py_eq_def num_norm_JStr dest: sym)

lemma py_eq_JInt [simp]: "py_eq (JInt i) (JInt j) \<longleftrightarrow> i = j"
  by (simp add: py_eq_def)

lemma num_norm_JNull: "num_norm j = JNull \<longleftrightarrow> j = JNull"
  by (cases j) (auto split: pyfloat.splits)

lemma py_eq_JNull [simp]: "py_eq j JNull \<longleftrightarrow> j = JNull" "py_eq JNull j \<longleftrightarrow> j = JNull"
  by (auto simp: py_eq_def num_norm_JNull dest: sym)

lemma is_text_iff: "is_text j \<longleftrightarrow> (\<exists>s. j = JStr s \<and> \<not> blank s)"
  by (cases j) auto

lemma is_digest_iff: "is_digest j \<longleftrightarrow> (\<exists>s. j = JStr s \<and> is_sha256 s)"
  by (cases j) auto

lemma is_str_iff: "is_str j \<longleftrightarrow> (\<exists>s. j = JStr s)"
  by (cases j) auto

lemma finite_JObj: "finite_json (JObj d) \<longleftrightarrow> (\<forall>k v. fmlookup d k = Some v \<longrightarrow> finite_json v)"
  by (auto simp: fmpred_iff fmlookup_map)

declare finite_json.simps(7) [simp del]

lemma finite_fmupd: "finite_json v \<Longrightarrow> finite_json (JObj d) \<Longrightarrow> finite_json (JObj (fmupd k v d))"
  by (auto simp: finite_JObj split: if_splits)

lemma finite_fmempty [simp]: "finite_json (JObj fmempty)"
  by (simp add: finite_JObj)

lemma finite_fmdrop: "finite_json (JObj d) \<Longrightarrow> finite_json (JObj (fmdrop k d))"
  by (auto simp: finite_JObj split: if_splits)

lemma finite_fields: "list_all (\<lambda>(k, v). finite_json v) kvs \<Longrightarrow> finite_json (JObj (fmap_of_list kvs))"
  by (auto simp: finite_JObj fmlookup_of_list list_all_iff dest!: map_of_SomeD)

lemma finite_opt_str_list [simp]: "finite_json (JList (map JStr xs))"
  by (simp add: list_all_iff)

lemma finite_jobj: "list_all (\<lambda>(k, v). finite_json v) kvs \<Longrightarrow> finite_json (jobj kvs)"
  by (simp add: jobj_def finite_fields)

lemma fmdrop_fmupd_fresh: "fmlookup d k = None \<Longrightarrow> fmdrop k (fmupd k v d) = d"
  by (rule fmap_ext) auto

lemma fmfilter_fmupd_out: "\<not> P k \<Longrightarrow> fmfilter P (fmupd k v d) = fmfilter P d"
  by (rule fmap_ext) auto

lemma fmfilter_id: "(\<And>k v. fmlookup d k = Some v \<Longrightarrow> P k) \<Longrightarrow> fmfilter P d = d"
proof (rule fmap_ext)
  fix x
  assume P: "\<And>k v. fmlookup d k = Some v \<Longrightarrow> P k"
  show "fmlookup (fmfilter P d) x = fmlookup d x"
    using P by (cases "fmlookup d x") auto
qed

end
