(* ===== verification/Sha256.thy ===== *)
theory Sha256
  imports Json "HOL-Library.Word"
begin

text \<open>
  \<open>hashlib.sha256\<close> on 32-bit words, its hexadecimal digest, and the digest of a JSON value
  through \<open>canonical_json\<close>.  What the development uses of it is that a digest is a
  literal lowercase SHA-256 and that it is a function of the value; no theorem assumes
  that it has no collisions.
\<close>

unbundle bit_operations_syntax

section \<open>The compression function\<close>

definition rotr :: "nat \<Rightarrow> 32 word \<Rightarrow> 32 word" where
  "rotr n x = drop_bit n x OR push_bit (32 - n) x"

text \<open>
  The constants are the first 32 bits of the fractional parts of the cube roots of the first 64
  primes (the rounds) and of the square roots of the first eight (the initial state).
\<close>

fun root_bits :: "nat \<Rightarrow> nat \<Rightarrow> nat \<Rightarrow> nat \<Rightarrow> nat" where
  "root_bits k n 0 r = r"
| "root_bits k n (Suc b) r = root_bits k n b (if (r + 2 ^ b) ^ k \<le> n then r + 2 ^ b else r)"

definition primes_below :: "nat \<Rightarrow> nat list" where
  "primes_below n = filter (\<lambda>p. list_all (\<lambda>d. p mod d \<noteq> 0) [2 ..< p]) [2 ..< n]"

definition round_constants :: "32 word list" where
  "round_constants = map (\<lambda>p. of_nat (root_bits 3 (p * 2 ^ 96) 35 0)) (primes_below 312)"

definition initial_state :: "32 word list" where
  "initial_state = map (\<lambda>p. of_nat (root_bits 2 (p * 2 ^ 64) 35 0)) (primes_below 20)"

text \<open>The schedule is built from its end: \<open>extend k ws\<close> adds \<open>k\<close> words to the reversed list.\<close>

fun extend :: "nat \<Rightarrow> 32 word list \<Rightarrow> 32 word list" where
  "extend 0 ws = ws"
| "extend (Suc k) ws =
     (let w15 = ws ! 14; w2 = ws ! 1;
          s0 = rotr 7 w15 XOR rotr 18 w15 XOR drop_bit 3 w15;
          s1 = rotr 17 w2 XOR rotr 19 w2 XOR drop_bit 10 w2
      in extend k ((ws ! 15 + s0 + ws ! 6 + s1) # ws))"

fun sha_round :: "32 word list \<Rightarrow> 32 word \<times> 32 word \<Rightarrow> 32 word list" where
  "sha_round [a, b, c, d, e, f, g, h] (k, w) =
     (let s1 = rotr 6 e XOR rotr 11 e XOR rotr 25 e;
          ch = (e AND f) XOR (NOT e AND g);
          t1 = h + s1 + ch + k + w;
          s0 = rotr 2 a XOR rotr 13 a XOR rotr 22 a;
          maj = (a AND b) XOR (a AND c) XOR (b AND c);
          t2 = s0 + maj
      in [t1 + t2, a, b, c, d + t1, e, f, g])"
| "sha_round st kw = st"

definition compress :: "32 word list \<Rightarrow> 32 word list \<Rightarrow> 32 word list" where
  "compress st blk = map2 (+) st
     (foldl sha_round st (zip round_constants (rev (extend 48 (rev blk)))))"

section \<open>Padding and output\<close>

fun be_word :: "nat list \<Rightarrow> 32 word" where
  "be_word bs = foldl (\<lambda>acc b. acc * 256 + of_nat b) 0 bs"

function chunks :: "nat \<Rightarrow> 'a list \<Rightarrow> 'a list list" where
  "chunks n xs = (if xs = [] \<or> n = 0 then [] else take n xs # chunks n (drop n xs))"
  by pat_completeness auto
termination by (relation "measure (\<lambda>(n, xs). length xs)") auto

declare chunks.simps [simp del]

definition be_bytes :: "nat \<Rightarrow> nat \<Rightarrow> nat list" where
  "be_bytes k n = map (\<lambda>i. n div 256 ^ i mod 256) (rev [0..<k])"

definition pad :: "nat list \<Rightarrow> nat list" where
  "pad bs = bs @ [128] @ replicate ((119 - length bs mod 64) mod 64) 0 @ be_bytes 8 (8 * length bs)"

definition sha256_words :: "nat list \<Rightarrow> 32 word list" where
  "sha256_words bs =
     foldl (\<lambda>st blk. compress st (map be_word (chunks 4 blk))) initial_state (chunks 64 (pad bs))"

definition word_hex :: "32 word \<Rightarrow> string" where
  "word_hex w = map (\<lambda>i. hex_digit (unat (drop_bit (4 * i) w))) (rev [0..<8])"

definition sha256_hex :: "nat list \<Rightarrow> string" where
  "sha256_hex bs = concat (map word_hex (sha256_words bs))"

section \<open>The digest of a value\<close>

definition digest :: "json \<Rightarrow> string" where
  "digest j = sha256_hex (utf8 (json_text j))"

text \<open>\<open>allow_nan=False\<close>: a value that holds a NaN or an infinity has no canonical text.\<close>

definition canonical_json :: "json \<Rightarrow> string res" where
  "canonical_json j = bind (require (finite_json j) ValueError ''Out of range float values are not JSON compliant'')
     (\<lambda>_. Inr (json_text j))"

definition content_sha256 :: "json \<Rightarrow> string res" where
  "content_sha256 j = bind (canonical_json j) (\<lambda>t. Inr (sha256_hex (utf8 t)))"

section \<open>A digest is 64 hexadecimal digits\<close>

lemma sha_round_length: "length (sha_round st kw) = length st"
  by (cases "(st, kw)" rule: sha_round.cases) (auto simp: Let_def)

lemma foldl_sha_round_length: "length (foldl sha_round st kws) = length st"
  by (induction kws arbitrary: st) (auto simp: sha_round_length)

lemma compress_length: "length (compress st blk) = length st"
  by (simp add: compress_def foldl_sha_round_length)

lemma foldl_compress_length:
  "length (foldl (\<lambda>st blk. compress st (map be_word (chunks 4 blk))) st blks) = length st"
  by (induction blks arbitrary: st) (auto simp: compress_length)

lemma sha256_words_length: "length (sha256_words bs) = 8"
proof -
  have "length (primes_below 20) = 8" by code_simp
  then show ?thesis unfolding sha256_words_def foldl_compress_length by (simp add: initial_state_def)
qed

lemma is_hex_hex_digit: "is_hex (hex_digit n)"
proof -
  have "hex_digit n \<in> set ''0123456789abcdef''"
    unfolding hex_digit_def by (rule nth_mem) simp
  then show ?thesis by (simp add: is_hex_def)
qed

lemma word_hex_hex: "length (word_hex w) = 8" "list_all is_hex (word_hex w)"
  by (simp_all add: word_hex_def list_all_iff is_hex_hex_digit)

lemma concat_word_hex: "length (concat (map word_hex ws)) = 8 * length ws
    \<and> list_all is_hex (concat (map word_hex ws))"
  by (induction ws) (simp_all add: word_hex_hex)

lemma sha256_hex_is_sha256: "is_sha256 (sha256_hex bs)"
  using concat_word_hex [of "sha256_words bs"]
  by (simp add: is_sha256_def sha256_hex_def sha256_words_length)

lemma digest_is_sha256 [simp]: "is_sha256 (digest j)"
  by (simp add: digest_def sha256_hex_is_sha256)

lemma content_sha256_eq:
  "content_sha256 j = (if finite_json j then Inr (digest j)
     else Inl (Err ValueError ''Out of range float values are not JSON compliant''))"
  by (simp add: content_sha256_def canonical_json_def digest_def)

lemma content_sha256_eq_Inr [res_simps]: "content_sha256 j = Inr h \<longleftrightarrow> finite_json j \<and> h = digest j"
  by (auto simp: content_sha256_eq)

lemma is_sha256_not_blank: "is_sha256 s \<Longrightarrow> \<not> blank s"
proof -
  assume s: "is_sha256 s"
  then obtain c cs where c: "s = c # cs" "is_hex c"
    by (cases s) (auto simp: is_sha256_def)
  from c(2) have "\<not> is_space c" by (auto simp: is_hex_def is_space_def)
  with c(1) show "\<not> blank s" by (simp add: blank_def)
qed

lemma digest_not_blank [simp]: "\<not> blank (digest j)"
  by (rule is_sha256_not_blank) simp

lemma digest_not_Nil [simp]: "digest j \<noteq> []"
  using digest_not_blank [of j] by (metis blank_Nil)

end
