(* ===== verification/Contracts.thy ===== *)
theory Contracts
  imports Sha256
begin

text \<open>
  The frozen value objects of \<open>src/src/evolve/contracts.py\<close>.  A frozen dataclass is a
  record; its \<open>__post_init__\<close> is a function \<open>check_...\<close> that returns the first violated
  condition, and the constructor \<open>mk_...\<close> returns the record when every check passes.
  The JSON form of a record, which its \<open>content_sha256\<close> hashes, is a function \<open>..._json\<close>.
\<close>

section \<open>Enumerations and checks\<close>

datatype cohort = FEEDBACK | HOLDOUT | FINAL_SEALED | BURNED

datatype claim_grade = E0 | E1 | E2 | E3

datatype claim_classification = GAIN | NEUTRAL | REGRESSION | INFRA_FAILURE

fun cohort_text :: "cohort \<Rightarrow> string" where
  "cohort_text FEEDBACK = ''feedback''"
| "cohort_text HOLDOUT = ''holdout''"
| "cohort_text FINAL_SEALED = ''final-sealed''"
| "cohort_text BURNED = ''burned''"

fun grade_text :: "claim_grade \<Rightarrow> string" where
  "grade_text E0 = ''E0''"
| "grade_text E1 = ''E1''"
| "grade_text E2 = ''E2''"
| "grade_text E3 = ''E3''"

fun classification_text :: "claim_classification \<Rightarrow> string" where
  "classification_text GAIN = ''gain''"
| "classification_text NEUTRAL = ''neutral''"
| "classification_text REGRESSION = ''regression''"
| "classification_text INFRA_FAILURE = ''infra_failure''"

definition require_text :: "string \<Rightarrow> string \<Rightarrow> unit res" where
  "require_text name v = require (\<not> blank v) ContractViolation (name @ '' must be non-empty text'')"

definition require_sha256 :: "string \<Rightarrow> string \<Rightarrow> unit res" where
  "require_sha256 name v =
     require (is_sha256 v) ContractViolation (name @ '' must be a literal lowercase SHA-256'')"

definition violation_unless :: "bool \<Rightarrow> string \<Rightarrow> unit res" where
  "violation_unless c m = require c ContractViolation m"

lemma require_text_eq_Inr [res_simps]: "require_text n v = Inr u \<longleftrightarrow> \<not> blank v"
  by (simp add: require_text_def require_eq_Inr)

lemma require_sha256_eq_Inr [res_simps]: "require_sha256 n v = Inr u \<longleftrightarrow> is_sha256 v"
  by (simp add: require_sha256_def require_eq_Inr)

lemma violation_unless_eq_Inr [res_simps]: "violation_unless c m = Inr u \<longleftrightarrow> c"
  by (simp add: violation_unless_def require_eq_Inr)

text \<open>\<open>None\<close> is \<open>null\<close>; \<open>value or ""\<close> for an optional text.\<close>

fun opt_str :: "string option \<Rightarrow> json" where
  "opt_str None = JNull"
| "opt_str (Some s) = JStr s"

definition or_empty :: "string option \<Rightarrow> string" where
  "or_empty x = (case x of None \<Rightarrow> [] | Some s \<Rightarrow> s)"

definition str_list :: "string list \<Rightarrow> json" where
  "str_list xs = JList (map JStr xs)"

section \<open>Tasks, models, limits\<close>

record task_revision =
  tr_task_id :: string
  tr_revision_id :: string
  tr_project :: string
  tr_cohort :: cohort
  tr_source_sha256 :: string
  tr_evaluator_id :: string
  tr_source_uri :: "string option"

definition check_task_revision :: "task_revision \<Rightarrow> unit res" where
  "check_task_revision t = all_checks
     [require_text ''task_id'' (tr_task_id t),
      require_text ''revision_id'' (tr_revision_id t),
      require_text ''project'' (tr_project t),
      require_text ''evaluator_id'' (tr_evaluator_id t),
      require_sha256 ''source_sha256'' (tr_source_sha256 t),
      violation_unless (tr_cohort t \<noteq> BURNED) ''burned task revisions cannot enter execution'']"

definition mk_task_revision :: "task_revision \<Rightarrow> task_revision res" where
  "mk_task_revision t = bind (check_task_revision t) (\<lambda>_. Inr t)"

definition task_revision_json :: "task_revision \<Rightarrow> json" where
  "task_revision_json t = jobj
     [(''task_id'', JStr (tr_task_id t)), (''revision_id'', JStr (tr_revision_id t)),
      (''project'', JStr (tr_project t)), (''cohort'', JStr (cohort_text (tr_cohort t))),
      (''source_sha256'', JStr (tr_source_sha256 t)), (''evaluator_id'', JStr (tr_evaluator_id t)),
      (''source_uri'', opt_str (tr_source_uri t))]"

record model_identity =
  mi_provider :: string
  mi_model :: string
  mi_revision :: string

definition check_model_identity :: "model_identity \<Rightarrow> unit res" where
  "check_model_identity m = all_checks
     [require_text ''provider'' (mi_provider m), require_text ''model'' (mi_model m),
      require_text ''revision'' (mi_revision m)]"

definition model_identity_json :: "model_identity \<Rightarrow> json" where
  "model_identity_json m = jobj
     [(''provider'', JStr (mi_provider m)), (''model'', JStr (mi_model m)),
      (''revision'', JStr (mi_revision m))]"

record execution_limits =
  el_max_tokens :: int
  el_max_seconds :: int
  el_max_cost_cny :: pyfloat

definition check_execution_limits :: "execution_limits \<Rightarrow> unit res" where
  "check_execution_limits l = violation_unless
     (\<not> (el_max_tokens l < 0 \<or> el_max_seconds l \<le> 0 \<or> flt (el_max_cost_cny l) fzero))
     ''execution limits must be non-negative and bounded''"

definition execution_limits_json :: "execution_limits \<Rightarrow> json" where
  "execution_limits_json l = jobj
     [(''max_tokens'', JInt (el_max_tokens l)), (''max_seconds'', JInt (el_max_seconds l)),
      (''max_cost_cny'', JFloat (el_max_cost_cny l))]"

section \<open>Mechanism predictions\<close>

text \<open>
  \<open>mp_effect\<close> is the value that the field \<open>expected_internal_effect_json\<close> is the canonical
  text of; the text itself is \<open>json_text (mp_effect p)\<close>.
\<close>

record mechanism_prediction =
  mp_prediction_id :: string
  mp_candidate_revision_id :: string
  mp_mechanism_id :: string
  mp_observer_config_sha256 :: string
  mp_effect :: json
  mp_effect_sha256 :: string

definition check_mechanism_prediction :: "mechanism_prediction \<Rightarrow> unit res" where
  "check_mechanism_prediction p = all_checks
     [require_text ''prediction_id'' (mp_prediction_id p),
      require_text ''candidate_revision_id'' (mp_candidate_revision_id p),
      require_text ''mechanism_id'' (mp_mechanism_id p),
      require_sha256 ''observer_config_sha256'' (mp_observer_config_sha256 p),
      require_sha256 ''expected_internal_effect_sha256'' (mp_effect_sha256 p),
      violation_unless (is_obj (mp_effect p) \<and> truthy (mp_effect p))
        ''expected internal effect must be an object'',
      bind (content_sha256 (mp_effect p)) (\<lambda>h.
        violation_unless (h = mp_effect_sha256 p) ''expected internal effect SHA-256 mismatch'')]"

definition prediction_create ::
  "string \<Rightarrow> string \<Rightarrow> string \<Rightarrow> string \<Rightarrow> dict \<Rightarrow> mechanism_prediction res" where
  "prediction_create pid cand mech cfg effect =
     bind (content_sha256 (JObj effect)) (\<lambda>h.
       let p = \<lparr>mp_prediction_id = pid, mp_candidate_revision_id = cand, mp_mechanism_id = mech,
                mp_observer_config_sha256 = cfg, mp_effect = JObj effect, mp_effect_sha256 = h\<rparr>
       in bind (check_mechanism_prediction p) (\<lambda>_. Inr p))"

text \<open>
  \<open>str(v)\<close> of a JSON value: the text itself, or Python's text of the other scalars.  The
  fields it is applied to are texts; for a list or an object it stands for the JSON text
  (Python's own differs in its quotes and spaces).
\<close>

fun py_str :: "json \<Rightarrow> string" where
  "py_str (JStr s) = s"
| "py_str JNull = ''None''"
| "py_str (JBool b) = (if b then ''True'' else ''False'')"
| "py_str (JInt i) = int_text i"
| "py_str (JFloat f) = (case f of Fin n \<Rightarrow> float_text f | PInf \<Rightarrow> ''inf'' | NInf \<Rightarrow> ''-inf'' | NaN \<Rightarrow> ''nan'')"
| "py_str j = json_text j"

definition prediction_fields :: "string list" where
  "prediction_fields = [''prediction_id'', ''candidate_revision_id'', ''mechanism_id'',
     ''observer_config_sha256'', ''expected_internal_effect'', ''expected_internal_effect_sha256'']"

definition prediction_from_payload :: "dict \<Rightarrow> mechanism_prediction res" where
  "prediction_from_payload d =
     bind (violation_unless (fmdom' d = set prediction_fields)
             ''mechanism prediction payload fields are invalid'') (\<lambda>_.
     bind (violation_unless (is_obj (get d ''expected_internal_effect''))
             ''expected internal effect must be an object'') (\<lambda>_.
     bind (canonical_json (get d ''expected_internal_effect'')) (\<lambda>_.
       let p = \<lparr>mp_prediction_id = py_str (get d ''prediction_id''),
                mp_candidate_revision_id = py_str (get d ''candidate_revision_id''),
                mp_mechanism_id = py_str (get d ''mechanism_id''),
                mp_observer_config_sha256 = py_str (get d ''observer_config_sha256''),
                mp_effect = get d ''expected_internal_effect'',
                mp_effect_sha256 = py_str (get d ''expected_internal_effect_sha256'')\<rparr>
       in bind (check_mechanism_prediction p) (\<lambda>_. Inr p))))"

definition prediction_payload :: "mechanism_prediction \<Rightarrow> dict" where
  "prediction_payload p = fmap_of_list
     [(''prediction_id'', JStr (mp_prediction_id p)),
      (''candidate_revision_id'', JStr (mp_candidate_revision_id p)),
      (''mechanism_id'', JStr (mp_mechanism_id p)),
      (''observer_config_sha256'', JStr (mp_observer_config_sha256 p)),
      (''expected_internal_effect'', mp_effect p),
      (''expected_internal_effect_sha256'', JStr (mp_effect_sha256 p))]"

section \<open>Plans\<close>

record execution_plan =
  pl_plan_id :: string
  pl_campaign_id :: string
  pl_strategy_id :: string
  pl_task :: task_revision
  pl_candidate_revision_id :: string
  pl_arm :: string
  pl_model :: model_identity
  pl_context_policy_id :: string
  pl_tool_policy_id :: string
  pl_observer_policy_ids :: "string list"
  pl_native_evaluator_id :: string
  pl_limits :: execution_limits
  pl_holdout_scope :: string
  pl_metadata :: dict

definition check_execution_plan :: "execution_plan \<Rightarrow> unit res" where
  "check_execution_plan p = all_checks
     [require_text ''plan_id'' (pl_plan_id p), require_text ''campaign_id'' (pl_campaign_id p),
      require_text ''strategy_id'' (pl_strategy_id p),
      require_text ''candidate_revision_id'' (pl_candidate_revision_id p),
      require_text ''arm'' (pl_arm p), require_text ''context_policy_id'' (pl_context_policy_id p),
      require_text ''tool_policy_id'' (pl_tool_policy_id p),
      require_text ''native_evaluator_id'' (pl_native_evaluator_id p),
      require_text ''holdout_scope'' (pl_holdout_scope p),
      violation_unless (pl_observer_policy_ids p \<noteq> []) ''observer_policy_ids must not be empty'',
      violation_unless (\<not> (tr_cohort (pl_task p) \<noteq> FEEDBACK \<and> pl_holdout_scope p = ''feedback-only''))
        ''feedback-only plan cannot reference a non-feedback task'']"

definition execution_plan_json :: "execution_plan \<Rightarrow> json" where
  "execution_plan_json p = jobj
     [(''plan_id'', JStr (pl_plan_id p)), (''campaign_id'', JStr (pl_campaign_id p)),
      (''strategy_id'', JStr (pl_strategy_id p)), (''task'', task_revision_json (pl_task p)),
      (''candidate_revision_id'', JStr (pl_candidate_revision_id p)), (''arm'', JStr (pl_arm p)),
      (''model'', model_identity_json (pl_model p)),
      (''context_policy_id'', JStr (pl_context_policy_id p)),
      (''tool_policy_id'', JStr (pl_tool_policy_id p)),
      (''observer_policy_ids'', str_list (pl_observer_policy_ids p)),
      (''native_evaluator_id'', JStr (pl_native_evaluator_id p)),
      (''limits'', execution_limits_json (pl_limits p)),
      (''holdout_scope'', JStr (pl_holdout_scope p)), (''metadata'', JObj (pl_metadata p))]"

definition plan_sha256 :: "execution_plan \<Rightarrow> string res" where
  "plan_sha256 p = content_sha256 (execution_plan_json p)"


section \<open>Authorization\<close>

text \<open>A \<open>datetime\<close>: microseconds on the UTC time line, and whether it carries a zone.\<close>

datatype datetime = DT (dt_instant: int) (dt_aware: bool)

text \<open>Comparing a naive with an aware datetime raises \<open>TypeError\<close>.\<close>

definition dt_le :: "datetime \<Rightarrow> datetime \<Rightarrow> bool res" where
  "dt_le x y = bind (require (dt_aware x = dt_aware y) TypeError
      ''can't compare offset-naive and offset-aware datetimes'')
    (\<lambda>_. Inr (dt_instant x \<le> dt_instant y))"

record authorization =
  au_authorization_id :: string
  au_campaign_id :: string
  au_allowed_cohorts :: "cohort list"
  au_max_cost_cny :: pyfloat
  au_max_model_calls :: int
  au_expires_at :: datetime
  au_remote_calls_allowed :: bool

definition check_authorization :: "authorization \<Rightarrow> unit res" where
  "check_authorization a = all_checks
     [require_text ''authorization_id'' (au_authorization_id a),
      require_text ''campaign_id'' (au_campaign_id a),
      violation_unless (au_allowed_cohorts a \<noteq> []) ''allowed_cohorts must not be empty'',
      violation_unless (\<not> (BURNED \<in> set (au_allowed_cohorts a) \<or> FINAL_SEALED \<in> set (au_allowed_cohorts a)))
        ''burned/final-sealed cohorts cannot be authorized here'',
      violation_unless (\<not> (flt (au_max_cost_cny a) fzero \<or> au_max_model_calls a < 0))
        ''authorization budgets must be non-negative'',
      violation_unless (dt_aware (au_expires_at a)) ''expires_at must be timezone-aware'']"

definition assert_allows ::
  "authorization \<Rightarrow> cohort \<Rightarrow> pyfloat \<Rightarrow> int \<Rightarrow> bool \<Rightarrow> datetime \<Rightarrow> unit res" where
  "assert_allows a c cost calls remote now =
     bind (dt_le (au_expires_at a) now) (\<lambda>expired. all_checks
       [violation_unless (\<not> expired) ''authorization expired'',
        violation_unless (c \<in> set (au_allowed_cohorts a)) ''cohort is not authorized'',
        violation_unless (\<not> flt (au_max_cost_cny a) cost) ''cost budget exceeded'',
        violation_unless (\<not> au_max_model_calls a < calls) ''model call budget exceeded'',
        violation_unless (remote \<longrightarrow> au_remote_calls_allowed a) ''remote calls are not authorized''])"

section \<open>Receipts and evidence\<close>

record receipt =
  rc_receipt_id :: string
  rc_campaign_id :: string
  rc_plan_id :: string
  rc_sequence :: int
  rc_kind :: string
  rc_created_at :: string
  rc_payload :: dict
  rc_artifact_sha256 :: string
  rc_supersedes_receipt_id :: "string option"

definition check_receipt :: "receipt \<Rightarrow> unit res" where
  "check_receipt r = all_checks
     [require_text ''receipt_id'' (rc_receipt_id r), require_text ''campaign_id'' (rc_campaign_id r),
      require_text ''plan_id'' (rc_plan_id r), require_text ''kind'' (rc_kind r),
      require_text ''created_at'' (rc_created_at r),
      violation_unless (1 \<le> rc_sequence r) ''receipt sequence must start at one'',
      require_sha256 ''artifact_sha256'' (rc_artifact_sha256 r)]"

definition mk_receipt :: "receipt \<Rightarrow> receipt res" where
  "mk_receipt r = bind (check_receipt r) (\<lambda>_. Inr r)"

definition receipt_dict :: "receipt \<Rightarrow> dict" where
  "receipt_dict r = fmap_of_list
     [(''receipt_id'', JStr (rc_receipt_id r)), (''campaign_id'', JStr (rc_campaign_id r)),
      (''plan_id'', JStr (rc_plan_id r)), (''sequence'', JInt (rc_sequence r)),
      (''kind'', JStr (rc_kind r)), (''created_at'', JStr (rc_created_at r)),
      (''payload'', JObj (rc_payload r)), (''artifact_sha256'', JStr (rc_artifact_sha256 r)),
      (''supersedes_receipt_id'', opt_str (rc_supersedes_receipt_id r))]"

definition receipt_sha256 :: "receipt \<Rightarrow> string res" where
  "receipt_sha256 r = content_sha256 (JObj (receipt_dict r))"

record evidence_envelope =
  ev_evidence_id :: string
  ev_receipt_ids :: "string list"
  ev_observer_id :: string
  ev_grade :: claim_grade
  ev_payload :: dict
  ev_artifact_sha256 :: string

definition check_evidence_envelope :: "evidence_envelope \<Rightarrow> unit res" where
  "check_evidence_envelope e = all_checks
     [require_text ''evidence_id'' (ev_evidence_id e), require_text ''observer_id'' (ev_observer_id e),
      violation_unless (ev_receipt_ids e \<noteq> []) ''evidence must reference at least one receipt'',
      require_sha256 ''artifact_sha256'' (ev_artifact_sha256 e)]"

definition evidence_dict :: "evidence_envelope \<Rightarrow> dict" where
  "evidence_dict e = fmap_of_list
     [(''evidence_id'', JStr (ev_evidence_id e)), (''receipt_ids'', str_list (ev_receipt_ids e)),
      (''observer_id'', JStr (ev_observer_id e)), (''grade'', JStr (grade_text (ev_grade e))),
      (''payload'', JObj (ev_payload e)), (''artifact_sha256'', JStr (ev_artifact_sha256 e))]"

definition evidence_sha256 :: "evidence_envelope \<Rightarrow> string res" where
  "evidence_sha256 e = content_sha256 (JObj (evidence_dict e))"

section \<open>Counterfactual pairs\<close>

type_synonym lineage = "string option \<times> string option \<times> string option"

record arm_evidence =
  ae_arm :: string
  ae_campaign_id :: string
  ae_plan_id :: string
  ae_model_receipt_id :: string
  ae_model_receipt_sha256 :: string
  ae_model_artifact_sha256 :: string
  ae_external_trace_evidence_id :: string
  ae_external_trace_evidence_sha256 :: string
  ae_external_trace_receipt_id :: string
  ae_external_trace_artifact_sha256 :: string
  ae_native_outcome_evidence_id :: string
  ae_native_outcome_evidence_sha256 :: string
  ae_native_outcome_receipt_id :: string
  ae_native_outcome_artifact_sha256 :: string
  ae_prediction_sha256 :: string
  ae_prompt_bundle_sha256 :: string
  ae_candidate_prompt_sha256 :: "string option"
  ae_candidate_consumed :: bool
  ae_candidate_revision_id :: "string option"
  ae_candidate_bundle_sha256 :: "string option"
  ae_parent :: lineage

text \<open>
  \<open>ae_parent\<close> and \<open>cp_parent\<close> hold the three optional fields
  \<open>parent_harness_revision_id, parent_harness_bundle_sha256, parent_harness_prompt_sha256\<close>.
\<close>

definition check_lineage :: "string \<Rightarrow> lineage \<Rightarrow> unit res" where
  "check_lineage msg l = (case l of (r, b, p) \<Rightarrow>
     if r = None \<and> b = None \<and> p = None then Inr ()
     else all_checks
       [violation_unless (r \<noteq> None \<and> b \<noteq> None \<and> p \<noteq> None) msg,
        require_text ''parent_harness_revision_id'' (or_empty r),
        require_sha256 ''parent_harness_bundle_sha256'' (or_empty b),
        require_sha256 ''parent_harness_prompt_sha256'' (or_empty p)])"

definition check_arm_evidence :: "arm_evidence \<Rightarrow> unit res" where
  "check_arm_evidence a = all_checks
     [violation_unless (ae_arm a \<in> {''baseline'', ''taught''}) ''counterfactual arm must be baseline or taught'',
      require_text ''campaign_id'' (ae_campaign_id a), require_text ''plan_id'' (ae_plan_id a),
      require_text ''model_receipt_id'' (ae_model_receipt_id a),
      require_text ''external_trace_evidence_id'' (ae_external_trace_evidence_id a),
      require_text ''external_trace_receipt_id'' (ae_external_trace_receipt_id a),
      require_text ''native_outcome_evidence_id'' (ae_native_outcome_evidence_id a),
      require_text ''native_outcome_receipt_id'' (ae_native_outcome_receipt_id a),
      require_sha256 ''model_receipt_sha256'' (ae_model_receipt_sha256 a),
      require_sha256 ''model_artifact_sha256'' (ae_model_artifact_sha256 a),
      require_sha256 ''external_trace_evidence_sha256'' (ae_external_trace_evidence_sha256 a),
      require_sha256 ''external_trace_artifact_sha256'' (ae_external_trace_artifact_sha256 a),
      require_sha256 ''native_outcome_evidence_sha256'' (ae_native_outcome_evidence_sha256 a),
      require_sha256 ''native_outcome_artifact_sha256'' (ae_native_outcome_artifact_sha256 a),
      require_sha256 ''prediction_sha256'' (ae_prediction_sha256 a),
      require_sha256 ''prompt_bundle_sha256'' (ae_prompt_bundle_sha256 a),
      (if ae_arm a = ''baseline'' then
         violation_unless (\<not> (ae_candidate_consumed a \<or> ae_candidate_revision_id a \<noteq> None
             \<or> ae_candidate_bundle_sha256 a \<noteq> None \<or> ae_candidate_prompt_sha256 a \<noteq> None))
           ''baseline arm contains candidate lineage''
       else all_checks
         [violation_unless (ae_candidate_consumed a) ''taught arm did not consume candidate'',
          require_text ''candidate_revision_id'' (or_empty (ae_candidate_revision_id a)),
          require_sha256 ''candidate_bundle_sha256'' (or_empty (ae_candidate_bundle_sha256 a)),
          require_sha256 ''candidate_prompt_sha256'' (or_empty (ae_candidate_prompt_sha256 a))]),
      check_lineage ''parent harness lineage is incomplete'' (ae_parent a)]"

fun lineage_fields :: "lineage \<Rightarrow> (string \<times> json) list" where
  "lineage_fields (r, b, p) =
     [(''parent_harness_revision_id'', opt_str r), (''parent_harness_bundle_sha256'', opt_str b),
      (''parent_harness_prompt_sha256'', opt_str p)]"

definition arm_evidence_json :: "arm_evidence \<Rightarrow> json" where
  "arm_evidence_json a = jobj (
     [(''arm'', JStr (ae_arm a)), (''campaign_id'', JStr (ae_campaign_id a)),
      (''plan_id'', JStr (ae_plan_id a)), (''model_receipt_id'', JStr (ae_model_receipt_id a)),
      (''model_receipt_sha256'', JStr (ae_model_receipt_sha256 a)),
      (''model_artifact_sha256'', JStr (ae_model_artifact_sha256 a)),
      (''external_trace_evidence_id'', JStr (ae_external_trace_evidence_id a)),
      (''external_trace_evidence_sha256'', JStr (ae_external_trace_evidence_sha256 a)),
      (''external_trace_receipt_id'', JStr (ae_external_trace_receipt_id a)),
      (''external_trace_artifact_sha256'', JStr (ae_external_trace_artifact_sha256 a)),
      (''native_outcome_evidence_id'', JStr (ae_native_outcome_evidence_id a)),
      (''native_outcome_evidence_sha256'', JStr (ae_native_outcome_evidence_sha256 a)),
      (''native_outcome_receipt_id'', JStr (ae_native_outcome_receipt_id a)),
      (''native_outcome_artifact_sha256'', JStr (ae_native_outcome_artifact_sha256 a)),
      (''prediction_sha256'', JStr (ae_prediction_sha256 a)),
      (''prompt_bundle_sha256'', JStr (ae_prompt_bundle_sha256 a)),
      (''candidate_prompt_sha256'', opt_str (ae_candidate_prompt_sha256 a)),
      (''candidate_consumed'', JBool (ae_candidate_consumed a)),
      (''candidate_revision_id'', opt_str (ae_candidate_revision_id a)),
      (''candidate_bundle_sha256'', opt_str (ae_candidate_bundle_sha256 a))]
     @ lineage_fields (ae_parent a))"

record counterfactual_pair =
  cp_candidate_id :: string
  cp_candidate_revision_id :: string
  cp_candidate_bundle_sha256 :: string
  cp_campaign_id :: string
  cp_task_revision_id :: string
  cp_task_source_sha256 :: string
  cp_model_identity :: string
  cp_native_evaluator_id :: string
  cp_execution_config_sha256 :: string
  cp_baseline :: arm_evidence
  cp_taught :: arm_evidence
  cp_parent :: lineage

definition pair_evidence_ids :: "counterfactual_pair \<Rightarrow> string list" where
  "pair_evidence_ids p =
     [ae_external_trace_evidence_id (cp_baseline p), ae_native_outcome_evidence_id (cp_baseline p),
      ae_external_trace_evidence_id (cp_taught p), ae_native_outcome_evidence_id (cp_taught p)]"

definition pair_receipt_ids :: "counterfactual_pair \<Rightarrow> string list" where
  "pair_receipt_ids p =
     [ae_model_receipt_id (cp_baseline p), ae_external_trace_receipt_id (cp_baseline p),
      ae_native_outcome_receipt_id (cp_baseline p), ae_model_receipt_id (cp_taught p),
      ae_external_trace_receipt_id (cp_taught p), ae_native_outcome_receipt_id (cp_taught p)]"

definition check_counterfactual_pair :: "counterfactual_pair \<Rightarrow> unit res" where
  "check_counterfactual_pair p = all_checks
     [require_text ''candidate_id'' (cp_candidate_id p),
      require_text ''candidate_revision_id'' (cp_candidate_revision_id p),
      require_text ''campaign_id'' (cp_campaign_id p),
      require_text ''task_revision_id'' (cp_task_revision_id p),
      require_text ''model_identity'' (cp_model_identity p),
      require_text ''native_evaluator_id'' (cp_native_evaluator_id p),
      require_sha256 ''candidate_bundle_sha256'' (cp_candidate_bundle_sha256 p),
      require_sha256 ''task_source_sha256'' (cp_task_source_sha256 p),
      require_sha256 ''execution_config_sha256'' (cp_execution_config_sha256 p),
      violation_unless (ae_arm (cp_baseline p) = ''baseline'' \<and> ae_arm (cp_taught p) = ''taught'')
        ''counterfactual pair arm ordering is invalid'',
      violation_unless (ae_campaign_id (cp_baseline p) = cp_campaign_id p)
        ''baseline campaign identity does not match pair'',
      violation_unless (ae_campaign_id (cp_taught p) = cp_campaign_id p)
        ''taught campaign identity does not match pair'',
      violation_unless (ae_candidate_revision_id (cp_taught p) = Some (cp_candidate_revision_id p))
        ''taught candidate revision does not match pair'',
      violation_unless (ae_candidate_bundle_sha256 (cp_taught p) = Some (cp_candidate_bundle_sha256 p))
        ''taught candidate bundle does not match pair'',
      check_lineage ''pair parent harness lineage is incomplete'' (cp_parent p),
      violation_unless (ae_parent (cp_baseline p) = cp_parent p \<and> ae_parent (cp_taught p) = cp_parent p)
        ''counterfactual parent harness lineage mismatch'',
      violation_unless (ae_plan_id (cp_baseline p) \<noteq> ae_plan_id (cp_taught p))
        ''counterfactual arms must be separate executions'',
      violation_unless (card (set (pair_evidence_ids p)) = 4 \<and> card (set (pair_receipt_ids p)) = 6)
        ''counterfactual pair contains duplicate evidence or receipts'']"

definition counterfactual_pair_json :: "counterfactual_pair \<Rightarrow> json" where
  "counterfactual_pair_json p = jobj (
     [(''candidate_id'', JStr (cp_candidate_id p)),
      (''candidate_revision_id'', JStr (cp_candidate_revision_id p)),
      (''candidate_bundle_sha256'', JStr (cp_candidate_bundle_sha256 p)),
      (''campaign_id'', JStr (cp_campaign_id p)),
      (''task_revision_id'', JStr (cp_task_revision_id p)),
      (''task_source_sha256'', JStr (cp_task_source_sha256 p)),
      (''model_identity'', JStr (cp_model_identity p)),
      (''native_evaluator_id'', JStr (cp_native_evaluator_id p)),
      (''execution_config_sha256'', JStr (cp_execution_config_sha256 p)),
      (''baseline'', arm_evidence_json (cp_baseline p)), (''taught'', arm_evidence_json (cp_taught p))]
     @ lineage_fields (cp_parent p))"

definition pair_sha256 :: "counterfactual_pair \<Rightarrow> string" where
  "pair_sha256 p = digest (counterfactual_pair_json p)"

section \<open>Claims\<close>

record claim =
  cl_claim_id :: string
  cl_candidate_id :: string
  cl_grade :: claim_grade
  cl_classification :: claim_classification
  cl_evidence_ids :: "string list"
  cl_rationale :: string
  cl_supersedes_claim_id :: "string option"
  cl_pair_sha256 :: "string option"
  cl_receipt_ids :: "string list"

definition check_claim :: "bool \<Rightarrow> claim \<Rightarrow> unit res" where
  "check_claim legacy_read c = all_checks
     [require_text ''claim_id'' (cl_claim_id c), require_text ''candidate_id'' (cl_candidate_id c),
      require_text ''rationale'' (cl_rationale c),
      violation_unless (cl_evidence_ids c \<noteq> []) ''claim must reference evidence'',
      (case cl_pair_sha256 c of None \<Rightarrow> Inr () | Some h \<Rightarrow> require_sha256 ''counterfactual_pair_sha256'' h),
      all_checks (map (require_text ''counterfactual receipt id'') (cl_receipt_ids c)),
      (if cl_grade c \<in> {E2, E3} then
         (if cl_pair_sha256 c = None then
            violation_unless legacy_read ''E2/E3 claim requires complete counterfactual lineage''
          else violation_unless (length (cl_evidence_ids c) = 4 \<and> length (cl_receipt_ids c) = 6)
            ''E2/E3 claim requires all counterfactual evidence and receipts'')
       else Inr ())]"

definition mk_claim :: "bool \<Rightarrow> claim \<Rightarrow> claim res" where
  "mk_claim legacy_read c = bind (check_claim legacy_read c) (\<lambda>_. Inr c)"

definition claim_dict :: "claim \<Rightarrow> dict" where
  "claim_dict c = fmap_of_list (
     [(''claim_id'', JStr (cl_claim_id c)), (''candidate_id'', JStr (cl_candidate_id c)),
      (''grade'', JStr (grade_text (cl_grade c))),
      (''classification'', JStr (classification_text (cl_classification c))),
      (''evidence_ids'', str_list (cl_evidence_ids c)), (''rationale'', JStr (cl_rationale c)),
      (''supersedes_claim_id'', opt_str (cl_supersedes_claim_id c))]
     @ (case cl_pair_sha256 c of None \<Rightarrow> [] | Some h \<Rightarrow> [(''counterfactual_pair_sha256'', JStr h)])
     @ (if cl_receipt_ids c = [] then [] else [(''counterfactual_receipt_ids'', str_list (cl_receipt_ids c))]))"

definition claim_sha256 :: "claim \<Rightarrow> string" where
  "claim_sha256 c = digest (JObj (claim_dict c))"

end
