(* ===== verification/Budget.thy ===== *)
theory Budget
  imports Contracts
begin

text \<open>
  \<open>BudgetManager\<close> of \<open>src/src/evolve/kernel/budget_manager.py\<close>: reserve before dispatch,
  reconcile after the result.  The manager is a record; an operation that raises leaves
  it unchanged, so an operation returns the new manager or the error.

  The locale \<open>spend_authority\<close> is what a caller relies on: a successful operation leaves
  the limit alone and the spent amount within it.
\<close>

section \<open>State and operations\<close>

record budget =
  bm_max_cost :: pyfloat
  bm_max_calls :: int
  bm_reserved_cost :: pyfloat
  bm_reserved_calls :: int
  bm_spent_cost :: pyfloat
  bm_spent_calls :: int

definition budget_new :: "pyfloat \<Rightarrow> int \<Rightarrow> budget" where
  "budget_new max_cost max_calls = \<lparr>bm_max_cost = max_cost, bm_max_calls = max_calls,
     bm_reserved_cost = fzero, bm_reserved_calls = 0, bm_spent_cost = fzero, bm_spent_calls = 0\<rparr>"

definition budget_reserve :: "pyfloat \<Rightarrow> int \<Rightarrow> budget \<Rightarrow> budget res" where
  "budget_reserve cost calls b =
     (if flt cost fzero \<or> calls < 0 then raise ContractViolation ''budget reservations cannot be negative''
      else if flt (bm_max_cost b) (fadd (fadd (bm_spent_cost b) (bm_reserved_cost b)) cost)
      then raise BudgetExceeded ''campaign cost budget exhausted''
      else if bm_max_calls b < bm_spent_calls b + bm_reserved_calls b + calls
      then raise BudgetExceeded ''campaign model call budget exhausted''
      else Inr (b\<lparr>bm_reserved_cost := fadd (bm_reserved_cost b) cost,
                  bm_reserved_calls := bm_reserved_calls b + calls\<rparr>))"

definition budget_record :: "pyfloat \<Rightarrow> int \<Rightarrow> pyfloat \<Rightarrow> int \<Rightarrow> budget \<Rightarrow> budget res" where
  "budget_record res_cost res_calls cost calls b =
     (if flt res_cost fzero \<or> res_calls < 0 \<or> flt cost fzero \<or> calls < 0
      then raise ContractViolation ''budget charges cannot be negative''
      else if flt (bm_reserved_cost b) res_cost \<or> bm_reserved_calls b < res_calls
      then raise ContractViolation ''result exceeds its outstanding reservation''
      else if flt (bm_max_cost b) (fadd (bm_spent_cost b) cost)
      then raise BudgetExceeded ''actual campaign cost exceeds authorization''
      else if bm_max_calls b < bm_spent_calls b + calls
      then raise BudgetExceeded ''actual campaign model calls exceed authorization''
      else Inr (b\<lparr>bm_reserved_cost := fsub (bm_reserved_cost b) res_cost,
                  bm_reserved_calls := bm_reserved_calls b - res_calls,
                  bm_spent_cost := fadd (bm_spent_cost b) cost,
                  bm_spent_calls := bm_spent_calls b + calls\<rparr>))"

text \<open>A caller's sequence of operations; one that raises changes nothing.\<close>

datatype budget_op = Reserve pyfloat int | Record pyfloat int pyfloat int

fun budget_step :: "budget_op \<Rightarrow> budget \<Rightarrow> budget res" where
  "budget_step (Reserve c n) b = budget_reserve c n b"
| "budget_step (Record rc rn c n) b = budget_record rc rn c n b"

section \<open>The contract with a caller\<close>

locale spend_authority =
  fixes charge :: "'op \<Rightarrow> 's \<Rightarrow> 's res"
    and limit :: "'s \<Rightarrow> 'l"
    and within :: "'s \<Rightarrow> bool"
  assumes charge_limit: "charge a s = Inr s' \<Longrightarrow> limit s' = limit s"
    and charge_within: "charge a s = Inr s' \<Longrightarrow> within s \<Longrightarrow> within s'"
begin

fun charges :: "'op list \<Rightarrow> 's \<Rightarrow> 's" where
  "charges [] s = s"
| "charges (a # as) s = charges as (case charge a s of Inl e \<Rightarrow> s | Inr s' \<Rightarrow> s')"

lemma charges_limit: "limit (charges as s) = limit s"
  by (induction as arbitrary: s) (auto simp: charge_limit split: sum.splits)

lemma charges_within: "within s \<Longrightarrow> within (charges as s)"
  by (induction as arbitrary: s) (auto simp: charge_within split: sum.splits)

end

definition budget_run :: "budget_op list \<Rightarrow> budget \<Rightarrow> budget" where
  "budget_run ops b = fold (\<lambda>a s. case budget_step a s of Inl e \<Rightarrow> s | Inr s' \<Rightarrow> s') ops b"

section \<open>Spent stays within the authorization\<close>

definition spent_within :: "budget \<Rightarrow> bool" where
  "spent_within b \<longleftrightarrow> \<not> flt (bm_max_cost b) (bm_spent_cost b) \<and> bm_spent_calls b \<le> bm_max_calls b"

lemma budget_reserve_eq_Inr:
  "budget_reserve cost calls b = Inr b' \<longleftrightarrow>
     \<not> flt cost fzero \<and> 0 \<le> calls
     \<and> \<not> flt (bm_max_cost b) (fadd (fadd (bm_spent_cost b) (bm_reserved_cost b)) cost)
     \<and> bm_spent_calls b + bm_reserved_calls b + calls \<le> bm_max_calls b
     \<and> b' = b\<lparr>bm_reserved_cost := fadd (bm_reserved_cost b) cost,
              bm_reserved_calls := bm_reserved_calls b + calls\<rparr>"
  by (auto simp: budget_reserve_def)

lemma budget_record_eq_Inr:
  "budget_record rc rn cost calls b = Inr b' \<longleftrightarrow>
     \<not> flt rc fzero \<and> 0 \<le> rn \<and> \<not> flt cost fzero \<and> 0 \<le> calls
     \<and> \<not> flt (bm_reserved_cost b) rc \<and> rn \<le> bm_reserved_calls b
     \<and> \<not> flt (bm_max_cost b) (fadd (bm_spent_cost b) cost)
     \<and> bm_spent_calls b + calls \<le> bm_max_calls b
     \<and> b' = b\<lparr>bm_reserved_cost := fsub (bm_reserved_cost b) rc,
              bm_reserved_calls := bm_reserved_calls b - rn,
              bm_spent_cost := fadd (bm_spent_cost b) cost,
              bm_spent_calls := bm_spent_calls b + calls\<rparr>"
  by (auto simp: budget_record_def)

interpretation bm: spend_authority budget_step "\<lambda>b. (bm_max_cost b, bm_max_calls b)" spent_within
proof
  fix a :: budget_op and s s' :: budget
  assume ok: "budget_step a s = Inr s'"
  show "(bm_max_cost s', bm_max_calls s') = (bm_max_cost s, bm_max_calls s)"
    using ok by (cases a) (auto simp: budget_reserve_eq_Inr budget_record_eq_Inr)
  show "spent_within s \<Longrightarrow> spent_within s'"
    using ok by (cases a) (auto simp: budget_reserve_eq_Inr budget_record_eq_Inr spent_within_def)
qed

lemma budget_run_charges: "budget_run ops b = bm.charges ops b"
  unfolding budget_run_def by (induction ops arbitrary: b) (auto split: sum.splits)

section \<open>Reserved and spent together\<close>

text \<open>
  A reconciliation that charges at most what was reserved.  The reserved amounts of the
  operation sequence bound the sum of spent and reserved only under this condition.
\<close>

fun covered :: "budget_op \<Rightarrow> bool" where
  "covered (Reserve c n) = True"
| "covered (Record rc rn c n) = (n \<le> rn \<and> fle c rc)"

definition calls_within :: "budget \<Rightarrow> bool" where
  "calls_within b \<longleftrightarrow> 0 \<le> bm_reserved_calls b \<and> 0 \<le> bm_spent_calls b
     \<and> bm_spent_calls b + bm_reserved_calls b \<le> bm_max_calls b"

lemma budget_step_calls_within:
  assumes "calls_within b" and "budget_step a b = Inr b'" and "covered a"
  shows "calls_within b'"
  using assms by (cases a) (auto simp: budget_reserve_eq_Inr budget_record_eq_Inr calls_within_def)

text \<open>
  Costs on a grid of \<open>2 ^ k\<close> units (a whole number of cents of a binary unit): the float
  arithmetic is exact, so the sum is bounded as well.
\<close>

definition grid_cost :: "nat \<Rightarrow> pyfloat \<Rightarrow> bool" where
  "grid_cost k x \<longleftrightarrow> (case x of Fin n \<Rightarrow> on_grid k n \<and> 0 \<le> n \<and> n < 2 ^ (k + 52) | _ \<Rightarrow> False)"

fun units :: "pyfloat \<Rightarrow> int" where
  "units (Fin n) = n"
| "units x = 0"

lemma grid_cost_units: "grid_cost k x \<Longrightarrow> x = Fin (units x) \<and> on_grid k (units x) \<and> 0 \<le> units x \<and> units x < 2 ^ (k + 52)"
  by (cases x) (auto simp: grid_cost_def)

lemma grid_zero [simp]: "grid_cost k fzero"
  by (simp add: grid_cost_def fzero_def)

lemma fadd_grid:
  assumes "on_grid k m" and "on_grid k n" and "\<bar>m + n\<bar> < 2 ^ (k + 53)" and "k \<le> 2045"
  shows "fadd (Fin m) (Fin n) = Fin (m + n)"
  using assms by (simp add: rnd_exact [of k] on_grid_add)

fun op_costs :: "budget_op \<Rightarrow> pyfloat list" where
  "op_costs (Reserve c n) = [c]"
| "op_costs (Record rc rn c n) = [rc, c]"

definition cost_within :: "nat \<Rightarrow> budget \<Rightarrow> bool" where
  "cost_within k b \<longleftrightarrow> grid_cost k (bm_max_cost b) \<and> grid_cost k (bm_spent_cost b)
     \<and> grid_cost k (bm_reserved_cost b)
     \<and> units (bm_spent_cost b) + units (bm_reserved_cost b) \<le> units (bm_max_cost b)"

lemma budget_reserve_cost_within:
  assumes w: "cost_within k b" and ok: "budget_reserve c n b = Inr b'" and c: "grid_cost k c" and k: "k \<le> 2045"
  shows "cost_within k b'"
proof -
  obtain m where m: "bm_max_cost b = Fin m" "m < 2 ^ (k + 52)"
    using w grid_cost_units unfolding cost_within_def by blast
  obtain s where s: "bm_spent_cost b = Fin s" "on_grid k s" "0 \<le> s"
    using w grid_cost_units unfolding cost_within_def by blast
  obtain r where r: "bm_reserved_cost b = Fin r" "on_grid k r" "0 \<le> r"
    using w grid_cost_units unfolding cost_within_def by blast
  obtain x where x: "c = Fin x" "on_grid k x" "0 \<le> x" "x < 2 ^ (k + 52)"
    using c grid_cost_units by blast
  have sr: "s + r \<le> m" using w m s r by (simp add: cost_within_def)
  have p: "(2::int) ^ (k + 53) = 2 * 2 ^ (k + 52)" by (simp add: power_add)
  have a1: "fadd (Fin s) (Fin r) = Fin (s + r)"
    by (rule fadd_grid [OF s(2) r(2) _ k]) (use s r sr m p in linarith)
  have a2: "fadd (Fin (s + r)) (Fin x) = Fin (s + r + x)"
    by (rule fadd_grid [OF on_grid_add [OF s(2) r(2)] x(2) _ k]) (use s r sr m p x in linarith)
  have a3: "fadd (Fin r) (Fin x) = Fin (r + x)"
    by (rule fadd_grid [OF r(2) x(2) _ k]) (use s r sr m p x in linarith)
  from ok have le: "s + r + x \<le> m"
    by (simp add: budget_reserve_eq_Inr m s r x a1 a2 del: fadd.simps)
  from ok have b': "b' = b\<lparr>bm_reserved_cost := Fin (r + x), bm_reserved_calls := bm_reserved_calls b + n\<rparr>"
    by (simp add: budget_reserve_eq_Inr r x a3 del: fadd.simps)
  show ?thesis
    using w le m s r x on_grid_add [OF r(2) x(2)] by (simp add: b' cost_within_def grid_cost_def)
qed

lemma budget_record_cost_within:
  assumes w: "cost_within k b" and ok: "budget_record rc rn c n b = Inr b'"
    and cs: "grid_cost k rc" "grid_cost k c" "fle c rc" and k: "k \<le> 2045"
  shows "cost_within k b'"
proof -
  obtain m where m: "bm_max_cost b = Fin m" "m < 2 ^ (k + 52)"
    using w grid_cost_units unfolding cost_within_def by blast
  obtain s where s: "bm_spent_cost b = Fin s" "on_grid k s" "0 \<le> s"
    using w grid_cost_units unfolding cost_within_def by blast
  obtain r where r: "bm_reserved_cost b = Fin r" "on_grid k r" "0 \<le> r"
    using w grid_cost_units unfolding cost_within_def by blast
  obtain x where x: "rc = Fin x" "on_grid k x" "0 \<le> x" "x < 2 ^ (k + 52)"
    using cs(1) grid_cost_units by blast
  obtain y where y: "c = Fin y" "on_grid k y" "0 \<le> y"
    using cs(2) grid_cost_units by blast
  have yx: "y \<le> x" using cs(3) by (auto simp: fle_def x y)
  have sr: "s + r \<le> m" using w m s r by (simp add: cost_within_def)
  have p: "(2::int) ^ (k + 53) = 2 * 2 ^ (k + 52)" by (simp add: power_add)
  from ok have xr: "x \<le> r" by (simp add: budget_record_eq_Inr r x)
  have a1: "fsub (Fin r) (Fin x) = Fin (r - x)"
    unfolding fsub_def fneg.simps
    by (subst fadd_grid [OF r(2) _ _ k]) (use x s r sr m p xr in \<open>auto\<close>)
  have a2: "fadd (Fin s) (Fin y) = Fin (s + y)"
    by (rule fadd_grid [OF s(2) y(2) _ k]) (use s r sr m p xr yx y in linarith)
  from ok have b': "b' = b\<lparr>bm_reserved_cost := Fin (r - x), bm_reserved_calls := bm_reserved_calls b - rn,
      bm_spent_cost := Fin (s + y), bm_spent_calls := bm_spent_calls b + n\<rparr>"
    by (simp add: budget_record_eq_Inr r x s y a1 a2 del: fadd.simps)
  have g: "on_grid k (r - x)" using on_grid_add [OF r(2), of "- x"] x(2) by simp
  show ?thesis
    using w m s r x y sr xr yx g on_grid_add [OF s(2) y(2)]
    by (simp add: b' cost_within_def grid_cost_def)
qed

end
