(* ===== verification/Line_Break.thy ===== *)
theory Line_Break
  imports Contracts
begin

text \<open>
  Files of one JSON object per line.  They are written with \<open>canonical_json(record) + "\n"\<close> and read
  with \<open>splitlines()\<close>, which also splits at U+0085; the encoder leaves that character as it is, so a
  record that contains it is written as one line and read back as pieces, the first of which is
  not JSON.  The cost ledger, the decision logs, the registries and the search-parent log are all
  read in this way.  Numbers, hashes and fixed words contain no such character, so only the texts of
  a record decide whether it reads back.
\<close>

definition breaks_line :: "char \<Rightarrow> bool" where
  "breaks_line c \<longleftrightarrow> (of_char c :: nat) = 133"

text \<open>What the line written for a value reads back as; the reader stops at the first piece.\<close>

definition stored_line :: "json \<Rightarrow> json option" where
  "stored_line j = (if list_ex breaks_line (json_text j) then None else Some j)"

lemma stored_line_clean: "\<not> list_ex breaks_line (json_text j) \<Longrightarrow> stored_line j = Some j"
  by (simp add: stored_line_def)

section \<open>A line break inside a text\<close>

abbreviation has_break :: "string \<Rightarrow> bool" where
  "has_break s \<equiv> list_ex breaks_line s"

lemma has_break_string: "has_break (string_text s) \<longleftrightarrow> has_break s"
proof -
  have e: "has_break (escape_char c) \<longleftrightarrow> breaks_line c" for c
  proof -
    have h: "\<not> breaks_line (hex_digit n)" for n
      using is_hex_hex_digit [of n] by (auto simp: is_hex_def breaks_line_def)
    show ?thesis
      by (auto simp: escape_char_def Let_def h) (auto simp: breaks_line_def)
  qed
  have "has_break (concat (map escape_char s)) \<longleftrightarrow> has_break s" by (induction s) (simp_all add: e)
  then show ?thesis by (simp add: string_text_def Let_def) (simp add: breaks_line_def)
qed

lemma has_break_join: "\<not> has_break sep \<Longrightarrow> has_break (join_with sep ts) \<longleftrightarrow> (\<exists>t \<in> set ts. has_break t)"
  by (induction sep ts rule: join_with.induct) auto

lemma has_break_str_list: "has_break (json_text (JList (map JStr xs))) \<longleftrightarrow> (\<exists>x \<in> set xs. has_break x)"
proof -
  have "\<not> has_break '',''" "\<not> breaks_line CHR ''[''" "\<not> breaks_line CHR '']''" by (simp_all add: breaks_line_def)
  then show ?thesis by (simp add: has_break_join has_break_string)
qed

lemma has_break_dict:
  "has_break (json_text (JObj d)) \<longleftrightarrow> (\<exists>k v. fmlookup d k = Some v \<and> (has_break k \<or> has_break (json_text v)))"
proof -
  let ?m = "fmmap json_text d"
  have sep: "\<not> has_break '',''" "\<not> breaks_line CHR ''{''" "\<not> breaks_line CHR ''}''" "\<not> breaks_line CHR '':''"
    by (simp_all add: breaks_line_def)
  have mem: "(k, t) \<in> set (sorted_list_of_fmap m) \<longleftrightarrow> fmlookup m k = Some t" for k t and m :: "(string, string) fmap"
    by (auto simp: sorted_list_of_fmap_def fmlookup_dom_iff image_iff)
  have "has_break (json_text (JObj d)) \<longleftrightarrow> (\<exists>(k, t) \<in> set (sorted_list_of_fmap ?m). has_break k \<or> has_break t)"
    using sep by (simp add: has_break_join has_break_string case_prod_unfold bex_simps)
  then show ?thesis by (auto simp: mem Bex_def)
qed

lemma has_break_object:
  assumes "distinct (map fst kvs)"
  shows "has_break (json_text (JObj (fmap_of_list kvs))) \<longleftrightarrow> (\<exists>(k, v) \<in> set kvs. has_break k \<or> has_break (json_text v))"
  unfolding has_break_dict fmlookup_of_list using assms by (auto simp: Bex_def)

lemma has_break_fmupd:
  assumes "fmlookup d k = None"
  shows "has_break (json_text (JObj (fmupd k v d))) \<longleftrightarrow> has_break k \<or> has_break (json_text v) \<or> has_break (json_text (JObj d))"
proof -
  have "(\<exists>l x. fmlookup (fmupd k v d) l = Some x \<and> (has_break l \<or> has_break (json_text x)))
      \<longleftrightarrow> has_break k \<or> has_break (json_text v) \<or> (\<exists>l x. fmlookup d l = Some x \<and> (has_break l \<or> has_break (json_text x)))"
    using assms by (simp del: json_text.simps) (metis option.distinct(1) option.inject)
  then show ?thesis by (simp only: has_break_dict)
qed

lemma has_break_fields:
  assumes "distinct (map fst kvs)" and "list_all (\<lambda>k. \<not> has_break k) (map fst kvs)"
  shows "has_break (json_text (JObj (fmap_of_list kvs))) \<longleftrightarrow> list_ex (\<lambda>j. has_break (json_text j)) (map snd kvs)"
proof -
  have "(\<exists>(k, v) \<in> set kvs. has_break k \<or> has_break (json_text v)) \<longleftrightarrow> list_ex (\<lambda>j. has_break (json_text j)) (map snd kvs)"
    using assms(2) by (induction kvs) (auto simp del: json_text.simps)
  then show ?thesis unfolding has_break_object [OF assms(1)] .
qed

lemma has_break_hex: "is_sha256 s \<Longrightarrow> \<not> has_break s"
proof -
  have "is_hex c \<Longrightarrow> \<not> breaks_line c" for c by (auto simp: is_hex_def breaks_line_def)
  then show "is_sha256 s \<Longrightarrow> \<not> has_break s" by (auto simp: is_sha256_def list_all_iff list_ex_iff)
qed

lemma has_break_digits: "\<not> has_break (digits n)"
proof (induction n rule: digits.induct)
  case (1 n)
  have "\<not> breaks_line (char_of (48 + m))" if "m < 10" for m :: nat
    using that by (simp add: breaks_line_def)
  with 1 show ?case by (subst digits.simps) simp
qed

lemma has_break_int: "\<not> has_break (int_text i)"
  using has_break_digits by (simp add: int_text_def breaks_line_def)

lemma has_break_take: "\<not> has_break s \<Longrightarrow> \<not> has_break (take n s)" "\<not> has_break s \<Longrightarrow> \<not> has_break (drop n s)"
  "\<not> has_break s \<Longrightarrow> \<not> has_break (tl s)"
  by (auto simp: list_ex_iff dest: in_set_takeD in_set_dropD) (cases s; simp)

lemma has_break_strip: "\<not> has_break s \<Longrightarrow> \<not> has_break (strip_zeros s)"
  by (auto simp: strip_zeros_def list_ex_iff dest: set_dropWhileD)

lemma has_break_replicate: "\<not> breaks_line c \<Longrightarrow> \<not> has_break (replicate n c)"
  by (simp add: list_ex_iff)

lemma has_break_float: "\<not> has_break (float_text f)"
proof -
  have "\<not> has_break (float_digits n)" for n
  proof (cases "shortest n")
    case (Pair m e)
    have ds: "\<not> has_break (strip_zeros (digits (nat m)))" by (intro has_break_strip has_break_digits)
    have z: "\<not> breaks_line (CHR ''0'')" "\<not> breaks_line (CHR ''.'')" "\<not> breaks_line (CHR ''e'')"
      "\<not> breaks_line (CHR ''+'')" "\<not> breaks_line (CHR ''-'')" by (simp_all add: breaks_line_def)
    show ?thesis
      using has_break_take [OF ds] by (simp add: float_digits_def Pair Let_def z ds has_break_digits has_break_replicate)
  qed
  then show ?thesis by (simp add: float_text_def breaks_line_def split: pyfloat.split)
qed

text \<open>The texts of a record whose other fields are numbers, digests and fixed words.\<close>

lemmas has_break_leaf = has_break_string has_break_int has_break_float

end
