(* ===== verification/Cost_Ledger.thy ===== *)
theory Cost_Ledger
  imports Budget Line_Break
begin

text \<open>
  \<open>DurableCostLedger\<close> of \<open>src/src/evolve/kernel/budget_manager.py\<close>: a hash-chained log of
  reservations and charges with a head anchor beside it, rebuilt from disk by every
  operation.  The disk is a record: the log's lines (what \<open>json.loads\<close> makes of each),
  whether the last line is complete, the head file, and the writer lock.  The log is read
  with \<open>splitlines()\<close>: a line the ledger wrote reads back as the object it was written from
  unless its text contains U+0085 (theory Line_Break), which makes it the pieces of a line,
  the first of which is not JSON.  The head is parsed whole.
\<close>

section \<open>The disk\<close>

datatype log_line = Garbage | Parsed json

record log_file =
  lf_lines :: "log_line list"
  lf_complete :: bool

record head_file =
  hf_line :: log_line
  hf_complete :: bool

record ledger_disk =
  ld_log :: "log_file option"
  ld_head :: "head_file option"
  ld_locked :: bool

record ledger_config =
  lc_campaign_id :: string
  lc_max_cost :: pyfloat
  lc_max_calls :: int

definition genesis_sha256 :: string where
  "genesis_sha256 = replicate 64 (CHR ''0'')"

section \<open>Checks of values\<close>

definition validate_event_id :: "json \<Rightarrow> string \<Rightarrow> unit res" where
  "validate_event_id v field = violation_unless (is_text v) (field @ '' must be non-empty'')"

definition validate_amount :: "json \<Rightarrow> string \<Rightarrow> unit res" where
  "validate_amount v field = (case v of
     JInt i \<Rightarrow> (if finite_float (float_of_int i)
                then violation_unless (0 \<le> i) (field @ '' must be finite and non-negative'')
                else raise OverflowError ''int too large to convert to float'')
   | JFloat f \<Rightarrow> violation_unless (finite_float f \<and> \<not> flt f fzero) (field @ '' must be finite and non-negative'')
   | _ \<Rightarrow> raise ContractViolation (field @ '' must be finite and non-negative''))"

definition validate_calls :: "json \<Rightarrow> string \<Rightarrow> unit res" where
  "validate_calls v field = violation_unless (case v of JInt i \<Rightarrow> 0 \<le> i | _ \<Rightarrow> False)
     (field @ '' must be a non-negative integer'')"

text \<open>The number a validated amount or count stands for.\<close>

fun amount_of :: "json \<Rightarrow> pyfloat" where
  "amount_of (JFloat f) = f"
| "amount_of (JInt i) = float_of_int i"
| "amount_of j = fzero"

fun count_of :: "json \<Rightarrow> int" where
  "count_of (JInt i) = i"
| "count_of j = 0"

definition has_kind :: "string \<Rightarrow> dict \<Rightarrow> bool" where
  "has_kind k e \<longleftrightarrow> get e ''kind'' = JStr k"

definition event_sha256 :: "dict \<Rightarrow> string res" where
  "event_sha256 e = content_sha256 (JObj e)"

definition event_facts :: "dict \<Rightarrow> dict" where
  "event_facts e = fmfilter (\<lambda>k. k \<notin> {''sequence'', ''previous_event_sha256'', ''event_sha256''}) e"

section \<open>Reading\<close>

definition validate_header :: "ledger_config \<Rightarrow> dict list \<Rightarrow> unit res" where
  "validate_header c evs = (case evs of [] \<Rightarrow> raise IndexError ''tuple index out of range''
   | h # _ \<Rightarrow> require (has_kind ''opened'' h \<and> get h ''event_id'' = JStr ''ledger-open''
        \<and> get h ''campaign_id'' = JStr (lc_campaign_id c)
        \<and> py_eq (get h ''max_cost_cny'') (JFloat (lc_max_cost c))
        \<and> py_eq (get h ''max_model_calls'') (JInt (lc_max_calls c)))
      LedgerIntegrityError ''cost ledger authorization identity mismatch'')"

definition with_item :: "dict \<Rightarrow> string \<Rightarrow> (json \<Rightarrow> unit res) \<Rightarrow> unit res" where
  "with_item e k f = bind (item e k) f"

definition validate_event :: "ledger_config \<Rightarrow> dict \<Rightarrow> unit res" where
  "validate_event c e =
     rewrap (\<lambda>x. x = KeyError \<or> x = TypeError \<or> is_contract_violation x)
       LedgerIntegrityError ''invalid cost ledger event''
     (all_checks
       [with_item e ''event_id'' (\<lambda>v. validate_event_id v ''event_id''),
        with_item e ''sequence'' (\<lambda>v. validate_calls v ''sequence''),
        with_item e ''previous_event_sha256'' (\<lambda>v. bind (require (is_str v) TypeError ''expected string'')
          (\<lambda>_. violation_unless (is_digest v) ''previous_event_sha256 must be a literal lowercase SHA-256'')),
        with_item e ''campaign_id'' (\<lambda>v. require (v = JStr (lc_campaign_id c)) LedgerIntegrityError
          ''cost ledger campaign identity mismatch''),
        with_item e ''kind'' (\<lambda>kind.
          if kind = JStr ''opened'' then all_checks
            [with_item e ''max_cost_cny'' (\<lambda>v. validate_amount v ''max_cost_cny''),
             with_item e ''max_model_calls'' (\<lambda>v. validate_calls v ''max_model_calls'')]
          else if kind = JStr ''reservation'' then all_checks
            [with_item e ''cost_cny'' (\<lambda>v. validate_amount v ''reservation cost''),
             with_item e ''model_calls'' (\<lambda>v. validate_calls v ''reservation model_calls'')]
          else if kind = JStr ''charge'' then all_checks
            [with_item e ''reservation_id'' (\<lambda>v. validate_event_id v ''reservation_id''),
             with_item e ''actual_cost_cny'' (\<lambda>v. validate_amount v ''actual cost''),
             with_item e ''actual_model_calls'' (\<lambda>v. validate_calls v ''actual model_calls'')]
          else raise LedgerIntegrityError ''cost ledger event kind is invalid'')])"

definition previous_sha256 :: "dict list \<Rightarrow> json" where
  "previous_sha256 evs = (if evs = [] then JStr genesis_sha256 else get (last evs) ''event_sha256'')"

definition read_line :: "ledger_config \<Rightarrow> dict list \<Rightarrow> log_line \<Rightarrow> dict res" where
  "read_line c evs l = (case l of
     Parsed (JObj e) \<Rightarrow>
       bind (require (is_digest (get e ''event_sha256'')) LedgerIntegrityError ''cost ledger hash mismatch'') (\<lambda>_.
       bind (event_sha256 (fmdrop ''event_sha256'' e)) (\<lambda>h.
       bind (require (get e ''event_sha256'' = JStr h) LedgerIntegrityError ''cost ledger hash mismatch'') (\<lambda>_.
       bind (validate_event c e) (\<lambda>_.
       bind (require (py_eq (get e ''sequence'') (JInt (int (length evs)))) LedgerIntegrityError
               ''cost ledger sequence mismatch'') (\<lambda>_.
       bind (require (get e ''previous_event_sha256'' = previous_sha256 evs) LedgerIntegrityError
               ''cost ledger chain mismatch'') (\<lambda>_. Inr e))))))
   | _ \<Rightarrow> raise LedgerIntegrityError ''invalid cost ledger event'')"

fun read_lines :: "ledger_config \<Rightarrow> dict list \<Rightarrow> log_line list \<Rightarrow> dict list res" where
  "read_lines c evs [] = Inr evs"
| "read_lines c evs (l # ls) = bind (read_line c evs l) (\<lambda>e. read_lines c (evs @ [e]) ls)"

subsection \<open>Replay\<close>

record replay =
  rp_reservations :: "dict list"
  rp_charged :: "json list"
  rp_spent_cost :: pyfloat
  rp_spent_calls :: int

definition open_reservations :: "replay \<Rightarrow> dict list" where
  "open_reservations r = filter (\<lambda>e. get e ''event_id'' \<notin> set (rp_charged r)) (rp_reservations r)"

definition replay_event :: "dict \<Rightarrow> replay \<Rightarrow> replay res" where
  "replay_event e r =
     (if has_kind ''opened'' e then raise LedgerIntegrityError ''duplicate cost ledger genesis''
      else if has_kind ''reservation'' e then Inr (r\<lparr>rp_reservations := rp_reservations r @ [e]\<rparr>)
      else if has_kind ''charge'' e then
        (let rid = get e ''reservation_id'' in
         if rid \<notin> (\<lambda>x. get x ''event_id'') ` set (rp_reservations r)
         then raise LedgerIntegrityError ''charge references unknown reservation''
         else if rid \<in> set (rp_charged r)
         then raise LedgerIntegrityError ''reservation has duplicate charge''
         else Inr (r\<lparr>rp_charged := rid # rp_charged r,
                     rp_spent_cost := fadd (rp_spent_cost r) (amount_of (get e ''actual_cost_cny'')),
                     rp_spent_calls := rp_spent_calls r + count_of (get e ''actual_model_calls'')\<rparr>))
      else Inr r)"

definition replay_cost :: "replay \<Rightarrow> pyfloat" where
  "replay_cost r = fadd (rp_spent_cost r)
     (fsum_py (map (\<lambda>e. amount_of (get e ''cost_cny'')) (open_reservations r)))"

definition replay_calls :: "replay \<Rightarrow> int" where
  "replay_calls r = rp_spent_calls r
     + sum_list (map (\<lambda>e. count_of (get e ''model_calls'')) (open_reservations r))"

definition replay_step :: "ledger_config \<Rightarrow> dict \<Rightarrow> replay \<Rightarrow> replay res" where
  "replay_step c e r = bind (replay_event e r) (\<lambda>r'.
     bind (require (\<not> flt (lc_max_cost c) (replay_cost r')) LedgerIntegrityError
             ''cost ledger exceeds authorization'') (\<lambda>_.
     bind (require (replay_calls r' \<le> lc_max_calls c) LedgerIntegrityError
             ''cost ledger model calls exceed authorization'') (\<lambda>_. Inr r')))"

fun replay_all :: "ledger_config \<Rightarrow> dict list \<Rightarrow> replay \<Rightarrow> replay res" where
  "replay_all c [] r = Inr r"
| "replay_all c (e # es) r = bind (replay_step c e r) (replay_all c es)"

definition replay_start :: replay where
  "replay_start = \<lparr>rp_reservations = [], rp_charged = [], rp_spent_cost = fzero, rp_spent_calls = 0\<rparr>"

definition validate_replay :: "ledger_config \<Rightarrow> dict list \<Rightarrow> unit res" where
  "validate_replay c evs = bind (validate_header c evs) (\<lambda>_.
     bind (replay_all c (tl evs) replay_start) (\<lambda>_. Inr ()))"

text \<open>Everything \<open>_read_events\<close> checks of the log itself.\<close>

definition read_log :: "ledger_config \<Rightarrow> ledger_disk \<Rightarrow> dict list res" where
  "read_log c d = (case ld_log d of
     None \<Rightarrow> raise LedgerIntegrityError ''durable cost ledger is missing''
   | Some f \<Rightarrow>
       bind (require (lf_lines f = [] \<or> lf_complete f) LedgerIntegrityError
               ''durable cost ledger has a partial final event'') (\<lambda>_.
       bind (read_lines c [] (lf_lines f)) (\<lambda>evs.
       bind (require (evs \<noteq> []) LedgerIntegrityError ''durable cost ledger is empty'') (\<lambda>_.
       bind (require (distinct (map (\<lambda>e. get e ''event_id'') evs)) LedgerIntegrityError
               ''durable cost ledger has duplicate event ids'') (\<lambda>_.
       bind (validate_replay c evs) (\<lambda>_. Inr evs))))))"

section \<open>The head anchor\<close>

definition head_payload :: "ledger_config \<Rightarrow> dict \<Rightarrow> dict" where
  "head_payload c e = fmap_of_list
     [(''schema_version'', JInt 1), (''campaign_id'', JStr (lc_campaign_id c)),
      (''event_count'', JInt (count_of (get e ''sequence'') + 1)),
      (''head_event_sha256'', get e ''event_sha256'')]"

definition write_head :: "ledger_config \<Rightarrow> dict \<Rightarrow> (ledger_disk, unit) op" where
  "write_head c e = obind (olift (event_sha256 (head_payload c e))) (\<lambda>h.
     omodify (\<lambda>d. d\<lparr>ld_head := Some \<lparr>hf_line = Parsed (JObj (fmupd ''anchor_sha256'' (JStr h) (head_payload c e))),
                                   hf_complete = True\<rparr>\<rparr>))"

text \<open>
  \<open>_validate_head\<close> up to the point where it returns: \<open>True\<close> when the head names the last
  event, \<open>False\<close> when it names the event before the last one.
\<close>

definition head_current :: "ledger_config \<Rightarrow> dict list \<Rightarrow> ledger_disk \<Rightarrow> bool res" where
  "head_current c evs d = (case ld_head d of
     None \<Rightarrow> raise LedgerIntegrityError ''durable cost ledger head is missing''
   | Some f \<Rightarrow>
       bind (require (hf_complete f) LedgerIntegrityError ''durable cost ledger head is partial'') (\<lambda>_.
       case hf_line f of
         Parsed (JObj s) \<Rightarrow>
           bind (require (is_digest (get s ''anchor_sha256'')) LedgerIntegrityError
                   ''durable cost ledger head hash mismatch'') (\<lambda>_.
           bind (event_sha256 (fmdrop ''anchor_sha256'' s)) (\<lambda>h.
           bind (require (get s ''anchor_sha256'' = JStr h) LedgerIntegrityError
                   ''durable cost ledger head hash mismatch'') (\<lambda>_.
           bind (require (py_eq (get s ''schema_version'') (JInt 1)
                     \<and> get s ''campaign_id'' = JStr (lc_campaign_id c)) LedgerIntegrityError
                   ''durable cost ledger head mismatch'') (\<lambda>_.
           if py_eq (get s ''event_count'') (JInt (int (length evs)))
               \<and> get s ''head_event_sha256'' = get (last evs) ''event_sha256''
           then Inr True
           else case get s ''event_count'' of
             JInt n \<Rightarrow> (if 1 \<le> n \<and> n + 1 = int (length evs)
                  \<and> get s ''head_event_sha256'' = get (evs ! nat (n - 1)) ''event_sha256''
                then Inr False
                else raise LedgerIntegrityError ''durable cost ledger head mismatch'')
           | _ \<Rightarrow> raise LedgerIntegrityError ''durable cost ledger head mismatch''))))
       | _ \<Rightarrow> raise LedgerIntegrityError ''durable cost ledger head is invalid''))"

text \<open>\<open>with self._writer_lease(): body\<close>; the lock file is removed in any case.\<close>

definition with_lease :: "(ledger_disk, 'a) op \<Rightarrow> (ledger_disk, 'a) op" where
  "with_lease body d =
     (if ld_locked d then (d, raise LedgerBusy ''durable cost ledger writer lease is held'')
      else case body (d\<lparr>ld_locked := True\<rparr>) of (d', r) \<Rightarrow> (d'\<lparr>ld_locked := False\<rparr>, r))"

definition recover_held :: "ledger_config \<Rightarrow> dict list \<Rightarrow> (ledger_disk, unit) op" where
  "recover_held c evs = obind (oread (head_current c evs)) (\<lambda>r. obind (olift r) (\<lambda>current.
     if current then oreturn () else write_head c (last evs)))"

definition validate_head :: "ledger_config \<Rightarrow> bool \<Rightarrow> bool \<Rightarrow> dict list \<Rightarrow> (ledger_disk, unit) op" where
  "validate_head c recover held evs = obind (oread (head_current c evs)) (\<lambda>r. obind (olift r) (\<lambda>current.
     if current then oreturn ()
     else if \<not> recover then olift (raise LedgerIntegrityError ''durable cost ledger head mismatch'')
     else if held then write_head c (last evs)
     else with_lease (obind (oread (read_log c)) (\<lambda>l. obind (olift l) (\<lambda>refreshed.
            recover_held c refreshed)))))"

definition read_events :: "ledger_config \<Rightarrow> bool \<Rightarrow> bool \<Rightarrow> (ledger_disk, dict list) op" where
  "read_events c recover held = obind (oread (read_log c)) (\<lambda>l. obind (olift l) (\<lambda>evs.
     obind (validate_head c recover held evs) (\<lambda>_. oreturn evs)))"

section \<open>Appending\<close>

definition chained_event :: "dict \<Rightarrow> dict list \<Rightarrow> dict" where
  "chained_event e evs = fmupd ''previous_event_sha256'' (previous_sha256 evs)
     (fmupd ''sequence'' (JInt (int (length evs))) e)"

definition written_line :: "dict \<Rightarrow> log_line" where
  "written_line e = (case stored_line (JObj e) of None \<Rightarrow> Garbage | Some j \<Rightarrow> Parsed j)"

definition append_line :: "dict \<Rightarrow> ledger_disk \<Rightarrow> ledger_disk" where
  "append_line e d = d\<lparr>ld_log := Some (case ld_log d of
      None \<Rightarrow> \<lparr>lf_lines = [written_line e], lf_complete = True\<rparr>
    | Some f \<Rightarrow> f\<lparr>lf_lines := lf_lines f @ [written_line e], lf_complete := True\<rparr>)\<rparr>"

definition append_event :: "ledger_config \<Rightarrow> dict \<Rightarrow> dict list \<Rightarrow> (ledger_disk, unit) op" where
  "append_event c e evs = obind (olift (event_sha256 (chained_event e evs))) (\<lambda>h.
     let stored = fmupd ''event_sha256'' (JStr h) (chained_event e evs)
     in obind (omodify (append_line stored)) (\<lambda>_. write_head c stored))"

definition append_mutation ::
  "ledger_config \<Rightarrow> dict \<Rightarrow> (dict list \<Rightarrow> unit res) \<Rightarrow> (ledger_disk, bool) op" where
  "append_mutation c e validate = with_lease (
     obind (read_events c True True) (\<lambda>evs.
     obind (olift (validate_header c evs)) (\<lambda>_.
     case find (\<lambda>x. get x ''event_id'' = get e ''event_id'') evs of
       Some prior \<Rightarrow>
         (if py_eq (JObj (event_facts prior)) (JObj e) then oreturn False
          else olift (raise LedgerConflict ''conflicting immutable ledger event''))
     | None \<Rightarrow>
         obind (olift (validate evs)) (\<lambda>_.
         obind (append_event c e evs) (\<lambda>_. oreturn True)))))"

section \<open>The operations\<close>

definition ledger_snapshot_of :: "ledger_config \<Rightarrow> dict list \<Rightarrow> budget res" where
  "ledger_snapshot_of c evs = bind (validate_header c evs) (\<lambda>_.
     let charges = filter (has_kind ''charge'') evs;
         charged = map (\<lambda>e. get e ''reservation_id'') charges;
         reservations = filter (\<lambda>e. has_kind ''reservation'' e \<and> get e ''event_id'' \<notin> set charged) evs
     in Inr \<lparr>bm_max_cost = lc_max_cost c, bm_max_calls = lc_max_calls c,
             bm_reserved_cost = fsum_py (map (\<lambda>e. amount_of (get e ''cost_cny'')) reservations),
             bm_reserved_calls = sum_list (map (\<lambda>e. count_of (get e ''model_calls'')) reservations),
             bm_spent_cost = fsum_py (map (\<lambda>e. amount_of (get e ''actual_cost_cny'')) charges),
             bm_spent_calls = sum_list (map (\<lambda>e. count_of (get e ''actual_model_calls'')) charges)\<rparr>)"

definition reservation_event :: "ledger_config \<Rightarrow> string \<Rightarrow> pyfloat \<Rightarrow> int \<Rightarrow> dict" where
  "reservation_event c rid cost calls = fmap_of_list
     [(''event_id'', JStr rid), (''kind'', JStr ''reservation''), (''campaign_id'', JStr (lc_campaign_id c)),
      (''cost_cny'', JFloat cost), (''model_calls'', JInt calls)]"

definition check_reserve :: "ledger_config \<Rightarrow> pyfloat \<Rightarrow> int \<Rightarrow> dict list \<Rightarrow> unit res" where
  "check_reserve c cost calls evs = bind (ledger_snapshot_of c evs) (\<lambda>s.
     bind (require (\<not> flt (lc_max_cost c) (fadd (fadd (bm_spent_cost s) (bm_reserved_cost s)) cost))
             BudgetExceeded ''campaign cost budget exhausted'') (\<lambda>_.
     require (bm_spent_calls s + bm_reserved_calls s + calls \<le> lc_max_calls c)
             BudgetExceeded ''campaign model call budget exhausted''))"

definition ledger_reserve :: "ledger_config \<Rightarrow> string \<Rightarrow> pyfloat \<Rightarrow> int \<Rightarrow> (ledger_disk, bool) op" where
  "ledger_reserve c rid cost calls =
     obind (olift (validate_event_id (JStr rid) ''reservation_id'')) (\<lambda>_.
     obind (olift (validate_amount (JFloat cost) ''reservation cost'')) (\<lambda>_.
     obind (olift (validate_calls (JInt calls) ''reservation model_calls'')) (\<lambda>_.
     append_mutation c (reservation_event c rid cost calls) (check_reserve c cost calls))))"

definition charge_event :: "ledger_config \<Rightarrow> string \<Rightarrow> string \<Rightarrow> pyfloat \<Rightarrow> int \<Rightarrow> dict" where
  "charge_event c rid result_id cost calls = fmap_of_list
     [(''event_id'', JStr result_id), (''kind'', JStr ''charge''), (''campaign_id'', JStr (lc_campaign_id c)),
      (''reservation_id'', JStr rid), (''actual_cost_cny'', JFloat cost), (''actual_model_calls'', JInt calls)]"

definition check_charge :: "ledger_config \<Rightarrow> string \<Rightarrow> pyfloat \<Rightarrow> int \<Rightarrow> dict list \<Rightarrow> unit res" where
  "check_charge c rid cost calls evs =
     bind (require (find (\<lambda>e. has_kind ''reservation'' e \<and> get e ''event_id'' = JStr rid) evs \<noteq> None)
             ContractViolation ''charge references unknown reservation'') (\<lambda>_.
     bind (require (find (\<lambda>e. has_kind ''charge'' e \<and> get e ''reservation_id'' = JStr rid) evs = None)
             LedgerConflict ''reservation already has a result'') (\<lambda>_.
     bind (ledger_snapshot_of c evs) (\<lambda>s.
     bind (require (\<not> flt (lc_max_cost c) (fadd (bm_spent_cost s) cost))
             BudgetExceeded ''actual campaign cost exceeds authorization'') (\<lambda>_.
     require (bm_spent_calls s + calls \<le> lc_max_calls c)
             BudgetExceeded ''actual campaign model calls exceed authorization''))))"

definition ledger_record ::
  "ledger_config \<Rightarrow> string \<Rightarrow> string \<Rightarrow> pyfloat \<Rightarrow> int \<Rightarrow> (ledger_disk, bool) op" where
  "ledger_record c rid result_id cost calls =
     obind (olift (validate_event_id (JStr rid) ''reservation_id'')) (\<lambda>_.
     obind (olift (validate_event_id (JStr result_id) ''result_id'')) (\<lambda>_.
     obind (olift (validate_amount (JFloat cost) ''actual cost'')) (\<lambda>_.
     obind (olift (validate_calls (JInt calls) ''actual model_calls'')) (\<lambda>_.
     append_mutation c (charge_event c rid result_id cost calls) (check_charge c rid cost calls)))))"

text \<open>
  \<open>dispatch\<close> is the caller's side effect on its own world; it runs with the ledger closed.
\<close>

definition dispatch_once ::
  "ledger_config \<Rightarrow> string \<Rightarrow> pyfloat \<Rightarrow> int \<Rightarrow> (ledger_disk \<times> 'w, 'r) op
     \<Rightarrow> (ledger_disk \<times> 'w, bool \<times> 'r option) op" where
  "dispatch_once c rid cost calls dispatch s =
     (case ledger_reserve c rid cost calls (fst s) of (d, r) \<Rightarrow>
        obind (olift r) (\<lambda>written.
          if \<not> written then oreturn (False, None)
          else obind dispatch (\<lambda>x. oreturn (True, Some x))) (d, snd s))"

definition ledger_snapshot :: "ledger_config \<Rightarrow> (ledger_disk, budget) op" where
  "ledger_snapshot c = obind (read_events c True False) (\<lambda>evs. olift (ledger_snapshot_of c evs))"

definition ledger_events :: "ledger_config \<Rightarrow> (ledger_disk, dict list) op" where
  "ledger_events c = read_events c True False"

definition opened_event :: "ledger_config \<Rightarrow> dict" where
  "opened_event c = fmap_of_list
     [(''event_id'', JStr ''ledger-open''), (''kind'', JStr ''opened''),
      (''campaign_id'', JStr (lc_campaign_id c)), (''max_cost_cny'', JFloat (lc_max_cost c)),
      (''max_model_calls'', JInt (lc_max_calls c))]"

definition ledger_initialize :: "ledger_config \<Rightarrow> (ledger_disk, unit) op" where
  "ledger_initialize c = obind (oread ld_log) (\<lambda>log.
     if log \<noteq> None then obind (read_events c True False) (\<lambda>evs. olift (validate_header c evs))
     else obind (oread ld_head) (\<lambda>head.
       if head \<noteq> None then olift (raise LedgerIntegrityError ''cost ledger head exists without event log'')
       else with_lease (append_event c (opened_event c) [])))"

definition ledger_open :: "ledger_config \<Rightarrow> (ledger_disk, unit) op" where
  "ledger_open c =
     obind (olift (violation_unless (\<not> blank (lc_campaign_id c)) ''cost ledger campaign_id must be non-empty'')) (\<lambda>_.
     obind (olift (validate_amount (JFloat (lc_max_cost c)) ''max_cost_cny'')) (\<lambda>_.
     obind (olift (validate_calls (JInt (lc_max_calls c)) ''max_model_calls'')) (\<lambda>_.
     ledger_initialize c)))"

end
