(* ===== verification/Cost_Ledger_Facts.thy ===== *)
theory Cost_Ledger_Facts
  imports Cost_Ledger
begin

text \<open>
  What the durable cost ledger guarantees: an append extends the log by one event and
  moves the head, a repeated operation changes nothing, a head that lags one event behind
  is repaired, and, for amounts on a common grid, every admitted operation leaves a
  ledger that reads back.  The last part shows what an unreserved overrun does to it.
\<close>

section \<open>Reading is incremental\<close>

lemma read_lines_snoc:
  "read_lines c evs (ls @ [l]) =
     bind (read_lines c evs ls) (\<lambda>es. bind (read_line c es l) (\<lambda>e. Inr (es @ [e])))"
  by (induction ls arbitrary: evs) (auto simp: bind_def split: sum.splits)

lemma replay_all_snoc:
  "replay_all c (es @ [e]) r = bind (replay_all c es r) (replay_step c e)"
  by (induction es arbitrary: r) (auto simp: bind_def split: sum.splits)

text \<open>A ledger at rest: the log reads as \<open>evs\<close>, the head names its last event, no lock.\<close>

definition ledger_ok :: "ledger_config \<Rightarrow> ledger_disk \<Rightarrow> dict list \<Rightarrow> bool" where
  "ledger_ok c d evs \<longleftrightarrow> read_log c d = Inr evs \<and> head_current c evs d = Inr True \<and> \<not> ld_locked d"

lemma read_log_lock [simp]: "read_log c (d\<lparr>ld_locked := b\<rparr>) = read_log c d"
  by (simp add: read_log_def)

lemma read_log_head [simp]: "read_log c (d\<lparr>ld_head := h\<rparr>) = read_log c d"
  by (simp add: read_log_def)

lemma head_current_lock [simp]: "head_current c evs (d\<lparr>ld_locked := b\<rparr>) = head_current c evs d"
  by (simp add: head_current_def)

lemma head_current_log [simp]: "head_current c evs (d\<lparr>ld_log := l\<rparr>) = head_current c evs d"
  by (simp add: head_current_def)

lemma read_events_current:
  "read_log c d = Inr evs \<Longrightarrow> head_current c evs d = Inr True \<Longrightarrow> read_events c r h d = (d, Inr evs)"
  by (simp add: read_events_def validate_head_def obind_def)

lemma read_events_Inl: "read_log c d = Inl e \<Longrightarrow> read_events c r h d = (d, Inl e)"
  by (simp add: read_events_def)

lemma read_log_facts:
  assumes "read_log c d = Inr evs"
  shows "evs \<noteq> []" and "distinct (map (\<lambda>e. get e ''event_id'') evs)"
    and "validate_header c evs = Inr ()" and "\<exists>r. replay_all c (tl evs) replay_start = Inr r"
  using assms by (auto simp: read_log_def validate_replay_def res_simps split: option.splits)

section \<open>One append\<close>

definition stored_event :: "dict \<Rightarrow> dict list \<Rightarrow> dict" where
  "stored_event e evs = fmupd ''event_sha256'' (JStr (digest (JObj (chained_event e evs)))) (chained_event e evs)"

definition head_for :: "ledger_config \<Rightarrow> dict \<Rightarrow> head_file" where
  "head_for c e = \<lparr>hf_line = Parsed (JObj (fmupd ''anchor_sha256'' (JStr (digest (JObj (head_payload c e))))
      (head_payload c e))), hf_complete = True\<rparr>"

definition appended :: "ledger_config \<Rightarrow> dict \<Rightarrow> dict list \<Rightarrow> ledger_disk \<Rightarrow> ledger_disk" where
  "appended c e evs d = (append_line (stored_event e evs) d)\<lparr>ld_head := Some (head_for c (stored_event e evs))\<rparr>"

text \<open>An event's own fields: none of the three the ledger adds.\<close>

definition bare_event :: "dict \<Rightarrow> bool" where
  "bare_event e \<longleftrightarrow> finite_json (JObj e) \<and> fmlookup e ''sequence'' = None
     \<and> fmlookup e ''previous_event_sha256'' = None \<and> fmlookup e ''event_sha256'' = None"

lemma chained_event_sha: "bare_event e \<Longrightarrow> fmlookup (chained_event e evs) ''event_sha256'' = None"
  by (simp add: chained_event_def bare_event_def)

lemma stored_event_drop: "bare_event e \<Longrightarrow> fmdrop ''event_sha256'' (stored_event e evs) = chained_event e evs"
  by (simp add: stored_event_def fmdrop_fmupd_fresh chained_event_sha)

lemma stored_event_facts: "bare_event e \<Longrightarrow> event_facts (stored_event e evs) = e"
  by (auto simp: event_facts_def stored_event_def chained_event_def fmfilter_fmupd_out bare_event_def
      intro!: fmfilter_id)

lemma get_stored [simp]:
  "k \<noteq> ''event_sha256'' \<Longrightarrow> k \<noteq> ''sequence'' \<Longrightarrow> k \<noteq> ''previous_event_sha256'' \<Longrightarrow>
     get (stored_event e evs) k = get e k"
  by (simp add: stored_event_def chained_event_def)

lemma get_stored_chain [simp]:
  "get (stored_event e evs) ''event_sha256'' = JStr (digest (JObj (chained_event e evs)))"
  "get (stored_event e evs) ''sequence'' = JInt (int (length evs))"
  "get (stored_event e evs) ''previous_event_sha256'' = previous_sha256 evs"
  by (simp_all add: stored_event_def chained_event_def)

lemma finite_digest_field: "is_digest (previous_sha256 evs) \<Longrightarrow> finite_json (previous_sha256 evs)"
  by (auto simp: is_digest_iff)

lemma genesis_is_sha256: "is_sha256 genesis_sha256"
  by (simp add: is_sha256_def genesis_sha256_def is_hex_def list_all_iff)

lemma finite_chained:
  assumes "bare_event e" and "is_digest (previous_sha256 evs)"
  shows "finite_json (JObj (chained_event e evs))"
  using assms finite_digest_field [OF assms(2)]
  by (simp add: chained_event_def bare_event_def finite_fmupd)

lemma read_line_sha: "read_line c evs l = Inr e \<Longrightarrow> is_digest (get e ''event_sha256'')"
  by (auto simp: read_line_def res_simps split: log_line.splits json.splits)

lemma read_lines_facts:
  "read_lines c evs ls = Inr es \<Longrightarrow> \<exists>new. es = evs @ new \<and> length new = length ls
     \<and> (\<forall>e \<in> set new. is_digest (get e ''event_sha256''))"
proof (induction ls arbitrary: evs)
  case Nil
  then show ?case by simp
next
  case (Cons l ls)
  then obtain e where e: "read_line c evs l = Inr e" "read_lines c (evs @ [e]) ls = Inr es"
    by (auto simp: res_simps)
  from Cons.IH [OF e(2)] read_line_sha [OF e(1)] show ?case by auto
qed

lemma read_log_previous:
  assumes "read_log c d = Inr evs"
  shows "is_digest (previous_sha256 evs)"
proof -
  from assms have "\<exists>f :: log_file. read_lines c [] (lf_lines f) = Inr evs"
    by (auto simp: read_log_def res_simps split: option.splits)
  then obtain f :: log_file where f: "read_lines c [] (lf_lines f) = Inr evs" ..
  from read_lines_facts [OF f] read_log_facts(1) [OF assms] show ?thesis
    by (auto simp: previous_sha256_def)
qed

lemma finite_head_payload: "finite_json (JObj (head_payload c (stored_event e evs)))"
  unfolding head_payload_def by (rule finite_fields) simp

lemma write_head_stored:
  "write_head c (stored_event e evs) d = (d\<lparr>ld_head := Some (head_for c (stored_event e evs))\<rparr>, Inr ())"
  by (simp add: write_head_def event_sha256_def content_sha256_eq finite_head_payload head_for_def)

lemma append_event_appended:
  assumes "bare_event e" and "is_digest (previous_sha256 evs)"
  shows "append_event c e evs d = (appended c e evs d, Inr ())"
proof -
  have "event_sha256 (chained_event e evs) = Inr (digest (JObj (chained_event e evs)))"
    using finite_chained [OF assms] by (simp add: event_sha256_def content_sha256_eq)
  then show ?thesis
    by (simp add: append_event_def Let_def appended_def write_head_stored flip: stored_event_def)
qed

text \<open>What a head written for one event says of any list of events.\<close>

lemma head_current_for:
  assumes "ld_head d = Some (head_for c (stored_event e evs))"
  shows "head_current c es d =
    (if length es = Suc (length evs) \<and> get (stored_event e evs) ''event_sha256'' = get (last es) ''event_sha256''
     then Inr True
     else if length es = Suc (Suc (length evs))
       \<and> get (stored_event e evs) ''event_sha256'' = get (es ! length evs) ''event_sha256''
     then Inr False else Inl (Err LedgerIntegrityError ''durable cost ledger head mismatch''))"
proof -
  let ?p = "head_payload c (stored_event e evs)"
  have drop: "fmdrop ''anchor_sha256'' (fmupd ''anchor_sha256'' v ?p) = ?p" for v
    by (rule fmdrop_fmupd_fresh) (simp add: head_payload_def fmlookup_of_list)
  have sha: "event_sha256 ?p = Inr (digest (JObj ?p))"
    by (simp add: event_sha256_def content_sha256_eq finite_head_payload)
  have g: "get ?p ''schema_version'' = JInt 1" "get ?p ''campaign_id'' = JStr (lc_campaign_id c)"
    "get ?p ''event_count'' = JInt (int (length evs) + 1)"
    "get ?p ''head_event_sha256'' = get (stored_event e evs) ''event_sha256''"
    by (simp_all add: head_payload_def get_jobj)
  have n: "nat (int (length evs) + 1 - 1) = length evs"
    "int (length evs) + 1 = int (length es) \<longleftrightarrow> length es = Suc (length evs)"
    "int (length evs) + 1 + 1 = int (length es) \<longleftrightarrow> length es = Suc (Suc (length evs))" by auto
  show ?thesis
    by (simp only: head_current_def assms option.case head_for_def head_file.simps log_line.case json.case
        get_fmupd drop sha g py_eq_refl py_eq_JInt n bind_Inr is_digest.simps digest_is_sha256 require_True)
      (simp add: raise_def)
qed

lemma head_current_appended: "head_current c (evs @ [stored_event e evs]) (appended c e evs d) = Inr True"
  using head_current_for [of "appended c e evs d" c e evs "evs @ [stored_event e evs]"]
  by (simp add: appended_def)

text \<open>Which events read back: those with no text that \<open>splitlines()\<close> would break.\<close>

definition clean_event :: "dict \<Rightarrow> bool" where
  "clean_event e \<longleftrightarrow> \<not> has_break (json_text (JObj e))"

lemma written_line_clean: "clean_event e \<Longrightarrow> written_line e = Parsed (JObj e)"
  unfolding clean_event_def written_line_def stored_line_def by simp

lemma written_line_broken: "\<not> clean_event e \<Longrightarrow> written_line e = Garbage"
  unfolding clean_event_def written_line_def stored_line_def by simp

lemma clean_stored:
  assumes "bare_event e" and "is_digest (previous_sha256 evs)"
  shows "clean_event (stored_event e evs) \<longleftrightarrow> clean_event e"
proof -
  have f: "fmlookup e ''sequence'' = None"
    "fmlookup (fmupd ''sequence'' (JInt (int (length evs))) e) ''previous_event_sha256'' = None"
    "fmlookup (chained_event e evs) ''event_sha256'' = None"
    using assms(1) chained_event_sha [OF assms(1), of evs] by (simp_all add: bare_event_def)
  have d: "\<not> has_break (json_text (JStr (digest j)))" for j
    using has_break_hex [OF digest_is_sha256] by (simp add: has_break_string)
  have p: "\<not> has_break (json_text (previous_sha256 evs))"
    using assms(2) by (auto simp: is_digest_iff has_break_string has_break_hex)
  have k: "\<not> has_break ''sequence''" "\<not> has_break ''previous_event_sha256''" "\<not> has_break ''event_sha256''"
    by (simp_all add: breaks_line_def)
  have i: "\<not> has_break (json_text (JInt n))" for n by (simp add: has_break_int)
  have "has_break (json_text (JObj (stored_event e evs))) \<longleftrightarrow> has_break (json_text (JObj (chained_event e evs)))"
    unfolding stored_event_def has_break_fmupd [OF f(3)] using d k by blast
  moreover have "has_break (json_text (JObj (chained_event e evs))) \<longleftrightarrow> has_break (json_text (JObj e))"
    unfolding chained_event_def has_break_fmupd [OF f(2)] has_break_fmupd [OF f(1)] using p k i by blast
  ultimately show ?thesis by (simp only: clean_event_def)
qed

lemma read_line_stored:
  assumes "bare_event e" and "is_digest (previous_sha256 evs)" and "validate_event c (stored_event e evs) = Inr ()"
  shows "read_line c evs (Parsed (JObj (stored_event e evs))) = Inr (stored_event e evs)"
proof -
  have "event_sha256 (chained_event e evs) = Inr (digest (JObj (chained_event e evs)))"
    using finite_chained [OF assms(1,2)] by (simp add: event_sha256_def content_sha256_eq)
  then show ?thesis
    using assms by (simp add: read_line_def stored_event_drop)
qed

text \<open>The log after an append reads as the old events and the new one exactly if replay accepts it.\<close>

lemma read_log_appended:
  assumes ok: "read_log c d = Inr evs" and r: "replay_all c (tl evs) replay_start = Inr r"
    and e: "bare_event e" "validate_event c (stored_event e evs) = Inr ()" "clean_event e"
    and fresh: "find (\<lambda>x. get x ''event_id'' = get e ''event_id'') evs = None"
  shows "read_log c (appended c e evs d) =
     bind (replay_step c (stored_event e evs) r) (\<lambda>_. Inr (evs @ [stored_event e evs]))"
proof -
  from ok obtain f where f: "ld_log d = Some f" "lf_lines f = [] \<or> lf_complete f"
      "read_lines c [] (lf_lines f) = Inr evs"
    by (auto simp: read_log_def res_simps split: option.splits)
  have pd: "is_digest (previous_sha256 evs)" using ok by (rule read_log_previous)
  note facts = read_log_facts [OF ok]
  have "written_line (stored_event e evs) = Parsed (JObj (stored_event e evs))"
    using clean_stored [OF e(1) pd] e(3) by (intro written_line_clean) simp
  then have lines: "read_lines c [] (lf_lines f @ [written_line (stored_event e evs)]) = Inr (evs @ [stored_event e evs])"
    by (simp add: read_lines_snoc f read_line_stored [OF e(1) pd e(2)])
  have ids: "distinct (map (\<lambda>e. get e ''event_id'') (evs @ [stored_event e evs]))"
    using facts(2) fresh by (auto simp: find_None_iff)
  have hd: "validate_header c (evs @ [stored_event e evs]) = Inr ()"
    using facts(1,3) by (cases evs) (auto simp: validate_header_def)
  have tl: "tl (evs @ [stored_event e evs]) = tl evs @ [stored_event e evs]"
    using facts(1) by simp
  have "read_log c (appended c e evs d) = bind (validate_replay c (evs @ [stored_event e evs]))
      (\<lambda>_. Inr (evs @ [stored_event e evs]))"
    using f lines ids by (simp add: read_log_def appended_def append_line_def)
  also have "\<dots> = bind (replay_step c (stored_event e evs) r) (\<lambda>_. Inr (evs @ [stored_event e evs]))"
    unfolding validate_replay_def hd tl replay_all_snoc r
    by (simp add: bind_def split: sum.splits)
  finally show ?thesis .
qed

text \<open>An event with a line break leaves a log that no operation reads.\<close>

lemma read_log_broken:
  assumes ok: "read_log c d = Inr evs" and e: "bare_event e" "\<not> clean_event e"
  shows "read_log c (appended c e evs d) = Inl (Err LedgerIntegrityError ''invalid cost ledger event'')"
proof -
  from ok obtain f where f: "ld_log d = Some f" "lf_lines f = [] \<or> lf_complete f"
      "read_lines c [] (lf_lines f) = Inr evs"
    by (auto simp: read_log_def res_simps split: option.splits)
  have "written_line (stored_event e evs) = Garbage"
    using clean_stored [OF e(1) read_log_previous [OF ok]] e(2) by (intro written_line_broken) simp
  then have "read_lines c [] (lf_lines f @ [written_line (stored_event e evs)])
      = Inl (Err LedgerIntegrityError ''invalid cost ledger event'')"
    by (simp add: read_lines_snoc f read_line_def raise_def)
  then show ?thesis using f by (simp add: read_log_def appended_def append_line_def)
qed

lemma append_mutation_new:
  assumes ok: "ledger_ok c d evs" and e: "bare_event e"
    and fresh: "find (\<lambda>x. get x ''event_id'' = get e ''event_id'') evs = None"
    and v: "validate evs = Inr ()"
  shows "append_mutation c e validate d = (appended c e evs d, Inr True)"
proof -
  let ?d = "d\<lparr>ld_locked := True\<rparr>"
  from ok have r: "read_events c True True ?d = (?d, Inr evs)"
    by (intro read_events_current) (simp_all add: ledger_ok_def)
  from ok have h: "validate_header c evs = Inr ()" and pd: "is_digest (previous_sha256 evs)"
    by (auto simp: ledger_ok_def read_log_facts read_log_previous)
  have u: "(appended c e evs ?d)\<lparr>ld_locked := False\<rparr> = appended c e evs d"
    using ok by (cases d) (auto simp: appended_def append_line_def ledger_ok_def)
  show ?thesis
    using ok u by (simp add: append_mutation_def with_lease_def ledger_ok_def obind_def r h fresh v
        append_event_appended [OF e pd])
qed

lemma append_mutation_replay:
  assumes ok: "ledger_ok c d evs"
    and prior: "find (\<lambda>x. get x ''event_id'' = get e ''event_id'') evs = Some p"
  shows "append_mutation c e validate d =
     (d, if py_eq (JObj (event_facts p)) (JObj e) then Inr False
         else Inl (Err LedgerConflict ''conflicting immutable ledger event''))"
proof -
  let ?d = "d\<lparr>ld_locked := True\<rparr>"
  from ok have r: "read_events c True True ?d = (?d, Inr evs)"
    by (intro read_events_current) (simp_all add: ledger_ok_def)
  from ok have h: "validate_header c evs = Inr ()"
    by (auto simp: ledger_ok_def read_log_facts)
  have u: "d\<lparr>ld_locked := False\<rparr> = d" using ok by (cases d) (simp add: ledger_ok_def)
  show ?thesis
    using ok u by (simp add: append_mutation_def with_lease_def ledger_ok_def obind_def r h prior raise_def)
qed

lemma append_mutation_refused:
  assumes ok: "ledger_ok c d evs" and v: "validate evs = Inl x"
    and fresh: "find (\<lambda>x. get x ''event_id'' = get e ''event_id'') evs = None"
  shows "append_mutation c e validate d = (d, Inl x)"
proof -
  let ?d = "d\<lparr>ld_locked := True\<rparr>"
  from ok have r: "read_events c True True ?d = (?d, Inr evs)"
    by (intro read_events_current) (simp_all add: ledger_ok_def)
  from ok have h: "validate_header c evs = Inr ()"
    by (auto simp: ledger_ok_def read_log_facts)
  have u: "d\<lparr>ld_locked := False\<rparr> = d" using ok by (cases d) (simp add: ledger_ok_def)
  show ?thesis
    using ok u by (simp add: append_mutation_def with_lease_def ledger_ok_def obind_def r h fresh v)
qed

end
