(* ===== verification/Chain.thy ===== *)
theory Chain
  imports Sha256
begin

text \<open>
  The contract of the append-only logs that chain their entries by hash: the cost ledger,
  the round index and the search-parent log.  An entry carries the digest of its own body
  and the digest of the entry before it; the locale shows that the last digest and the
  length fix every entry, or exhibit two different bodies with one digest.
\<close>

locale hash_chain =
  fixes body :: "'e \<Rightarrow> json" and own :: "'e \<Rightarrow> json option" and prev :: "'e \<Rightarrow> json option"
    and genesis :: "json option"
  assumes entry_eq: "body x = body y \<Longrightarrow> own x = own y \<Longrightarrow> x = y"
    and prev_in_body: "body x = body y \<Longrightarrow> prev x = prev y"
begin

definition sealed :: "'e \<Rightarrow> bool" where
  "sealed e \<longleftrightarrow> own e = Some (JStr (digest (body e)))"

fun chained :: "json option \<Rightarrow> 'e list \<Rightarrow> bool" where
  "chained p [] = True"
| "chained p (e # es) = (prev e = p \<and> sealed e \<and> chained (own e) es)"

definition valid :: "'e list \<Rightarrow> bool" where
  "valid es \<longleftrightarrow> chained genesis es"

definition head :: "'e list \<Rightarrow> json option" where
  "head es = (if es = [] then genesis else own (last es))"

definition collision :: "'e list \<Rightarrow> 'e list \<Rightarrow> bool" where
  "collision xs ys \<longleftrightarrow> (\<exists>i < length xs. i < length ys
     \<and> body (xs ! i) \<noteq> body (ys ! i) \<and> digest (body (xs ! i)) = digest (body (ys ! i)))"

lemma chained_snoc:
  "chained p (es @ [e]) \<longleftrightarrow> chained p es \<and> prev e = (if es = [] then p else own (last es)) \<and> sealed e"
  by (induction es arbitrary: p) auto

lemma valid_snoc: "valid (es @ [e]) \<longleftrightarrow> valid es \<and> prev e = head es \<and> sealed e"
  by (simp add: valid_def head_def chained_snoc)

lemma valid_Nil [simp]: "valid []"
  by (simp add: valid_def)

lemma collision_snoc: "length xs = length ys \<Longrightarrow> collision xs ys \<Longrightarrow> collision (xs @ [x]) (ys @ [y])"
  unfolding collision_def by (metis length_append_singleton less_SucI nth_append)

lemma tamper_evident:
  "valid xs \<Longrightarrow> valid ys \<Longrightarrow> length xs = length ys \<Longrightarrow> head xs = head ys \<Longrightarrow> xs = ys \<or> collision xs ys"
proof (induction xs arbitrary: ys rule: rev_induct)
  case Nil
  then show ?case by simp
next
  case (snoc x xs)
  then obtain y zs where ys: "ys = zs @ [y]"
    by (metis length_0_conv length_append_singleton nat.distinct(1) rev_exhaust)
  with snoc.prems have len: "length xs = length zs" by simp
  from snoc.prems ys have v: "valid xs" "prev x = head xs" "sealed x" "valid zs" "prev y = head zs" "sealed y"
    by (auto simp: valid_snoc)
  from snoc.prems(4) ys have own: "own x = own y" by (simp add: head_def)
  show ?case
  proof (cases "body x = body y")
    case True
    then have "x = y" using own by (rule entry_eq)
    moreover have "head xs = head zs" using prev_in_body [OF True] v by simp
    with snoc.IH [OF v(1,4) len] have "xs = zs \<or> collision xs zs" by simp
    ultimately show ?thesis using ys len by (auto intro: collision_snoc)
  next
    case False
    moreover have "digest (body x) = digest (body y)"
      using own v(3,6) by (simp add: sealed_def)
    ultimately have "collision (xs @ [x]) (zs @ [y])"
      unfolding collision_def using len by (intro exI [of _ "length xs"]) (simp add: nth_append)
    then show ?thesis using ys by simp
  qed
qed

text \<open>A prefix of a chain is a chain: dropping the last entries is not detected by the chain alone.\<close>

lemma valid_take: "valid es \<Longrightarrow> valid (take n es)"
proof -
  have "chained p es \<Longrightarrow> chained p (take n es)" for p
    by (induction es arbitrary: p n) (auto simp: take_Cons split: nat.splits)
  then show "valid es \<Longrightarrow> valid (take n es)" by (simp add: valid_def)
qed

end

section \<open>Entries that are JSON objects\<close>

text \<open>The logs store an entry as an object whose body is everything but its \<open>event_sha256\<close>.\<close>

lemma object_entry_eq:
  assumes "JObj (fmdrop ''event_sha256'' x) = JObj (fmdrop ''event_sha256'' y)"
  shows "fmlookup x ''event_sha256'' = fmlookup y ''event_sha256'' \<Longrightarrow> x = y"
    and "fmlookup x ''previous_event_sha256'' = fmlookup y ''previous_event_sha256''"
proof -
  have l: "fmlookup x k = fmlookup y k" if "k \<noteq> ''event_sha256''" for k
    using assms that by (metis fmlookup_drop json.inject(6))
  then show "fmlookup x ''previous_event_sha256'' = fmlookup y ''previous_event_sha256''" by simp
  show "fmlookup x ''event_sha256'' = fmlookup y ''event_sha256'' \<Longrightarrow> x = y"
    using l by (intro fmap_ext) metis
qed

lemma get_JStr: "get e k = JStr s \<longleftrightarrow> fmlookup e k = Some (JStr s)"
  by (auto simp: get_def split: option.splits)

end
