(* ===== verification/Ledger_Properties.thy ===== *)
theory Ledger_Properties
  imports Cost_Ledger_Facts Chain
begin

text \<open>
  The guarantees of the cost ledger built on its single-append facts: exact replay on a
  grid, what a charge above its reservation does, dispatch at most once, recovery of a
  head that lags by one event, and evidence of tampering.
\<close>

section \<open>The replay state\<close>

definition reservations_of :: "dict list \<Rightarrow> dict list" where
  "reservations_of es = filter (has_kind ''reservation'') es"

definition charges_of :: "dict list \<Rightarrow> dict list" where
  "charges_of es = filter (has_kind ''charge'') es"

definition reserved_ids :: "replay \<Rightarrow> json set" where
  "reserved_ids r = (\<lambda>e. get e ''event_id'') ` set (rp_reservations r)"

lemma has_kind_unique: "has_kind a e \<Longrightarrow> has_kind b e \<longleftrightarrow> a = b"
  by (auto simp: has_kind_def)

lemma replay_step_eq_Inr:
  "replay_step c e r = Inr r' \<longleftrightarrow> replay_event e r = Inr r' \<and> \<not> flt (lc_max_cost c) (replay_cost r')
     \<and> replay_calls r' \<le> lc_max_calls c"
  by (auto simp: replay_step_def res_simps)

lemma replay_event_cases:
  assumes "replay_event e r = Inr r'"
  shows "(has_kind ''reservation'' e \<and> r' = r\<lparr>rp_reservations := rp_reservations r @ [e]\<rparr>)
     \<or> (has_kind ''charge'' e \<and> get e ''reservation_id'' \<in> reserved_ids r
          \<and> get e ''reservation_id'' \<notin> set (rp_charged r)
          \<and> r' = r\<lparr>rp_charged := get e ''reservation_id'' # rp_charged r,
                   rp_spent_cost := fadd (rp_spent_cost r) (amount_of (get e ''actual_cost_cny'')),
                   rp_spent_calls := rp_spent_calls r + count_of (get e ''actual_model_calls'')\<rparr>)
     \<or> (\<not> has_kind ''reservation'' e \<and> \<not> has_kind ''charge'' e \<and> r' = r)"
  using assms by (auto simp: replay_event_def reserved_ids_def Let_def raise_def split: if_splits)

lemma replay_all_fields:
  assumes "replay_all c es r = Inr r'" and "set (rp_charged r) \<subseteq> reserved_ids r"
  shows "rp_reservations r' = rp_reservations r @ reservations_of es
     \<and> set (rp_charged r') = set (rp_charged r) \<union> (\<lambda>e. get e ''reservation_id'') ` set (charges_of es)
     \<and> rp_spent_calls r' = rp_spent_calls r + sum_list (map (\<lambda>e. count_of (get e ''actual_model_calls'')) (charges_of es))
     \<and> rp_spent_cost r' = foldl fadd (rp_spent_cost r) (map (\<lambda>e. amount_of (get e ''actual_cost_cny'')) (charges_of es))
     \<and> set (rp_charged r') \<subseteq> reserved_ids r'"
  using assms
proof (induction es arbitrary: r)
  case Nil
  then show ?case by (simp add: reservations_of_def charges_of_def)
next
  case (Cons e es)
  then obtain r1 where r1: "replay_step c e r = Inr r1" "replay_all c es r1 = Inr r'"
    by (auto simp: res_simps)
  then have ev: "replay_event e r = Inr r1" by (simp add: replay_step_eq_Inr)
  then have "set (rp_charged r1) \<subseteq> reserved_ids r1"
    using Cons.prems(2) by (auto dest!: replay_event_cases simp: reserved_ids_def)
  note IH = Cons.IH [OF r1(2) this]
  from replay_event_cases [OF ev] show ?case
  proof (elim disjE conjE)
    assume k: "has_kind ''reservation'' e" and r1: "r1 = r\<lparr>rp_reservations := rp_reservations r @ [e]\<rparr>"
    have "reservations_of (e # es) = e # reservations_of es" "charges_of (e # es) = charges_of es"
      using k has_kind_unique [OF k] by (simp_all add: reservations_of_def charges_of_def)
    then show ?thesis using IH by (auto simp: r1)
  next
    assume k: "has_kind ''charge'' e" and r1: "r1 = r\<lparr>rp_charged := get e ''reservation_id'' # rp_charged r,
        rp_spent_cost := fadd (rp_spent_cost r) (amount_of (get e ''actual_cost_cny'')),
        rp_spent_calls := rp_spent_calls r + count_of (get e ''actual_model_calls'')\<rparr>"
    have "reservations_of (e # es) = reservations_of es" "charges_of (e # es) = e # charges_of es"
      using k has_kind_unique [OF k] by (simp_all add: reservations_of_def charges_of_def)
    then show ?thesis using IH by (auto simp: r1)
  next
    assume k: "\<not> has_kind ''reservation'' e" "\<not> has_kind ''charge'' e" and r1: "r1 = r"
    have "reservations_of (e # es) = reservations_of es" "charges_of (e # es) = charges_of es"
      using k by (simp_all add: reservations_of_def charges_of_def)
    then show ?thesis using IH by (auto simp: r1)
  qed
qed

lemma kinds_tl:
  assumes "validate_header c evs = Inr ()" and "k \<noteq> ''opened''"
  shows "filter (has_kind k) evs = filter (has_kind k) (tl evs)"
  using assms by (cases evs) (auto simp: validate_header_def res_simps dest: has_kind_unique)

lemma snapshot_of_replay:
  assumes h: "validate_header c evs = Inr ()" and r: "replay_all c (tl evs) replay_start = Inr r"
  shows "ledger_snapshot_of c evs = Inr
     \<lparr>bm_max_cost = lc_max_cost c, bm_max_calls = lc_max_calls c,
      bm_reserved_cost = fsum_py (map (\<lambda>e. amount_of (get e ''cost_cny'')) (open_reservations r)),
      bm_reserved_calls = sum_list (map (\<lambda>e. count_of (get e ''model_calls'')) (open_reservations r)),
      bm_spent_cost = fsum_py (map (\<lambda>e. amount_of (get e ''actual_cost_cny'')) (charges_of evs)),
      bm_spent_calls = rp_spent_calls r\<rparr>"
proof -
  have f: "rp_reservations r = reservations_of (tl evs)"
    "set (rp_charged r) = (\<lambda>e. get e ''reservation_id'') ` set (charges_of (tl evs))"
    "rp_spent_calls r = sum_list (map (\<lambda>e. count_of (get e ''actual_model_calls'')) (charges_of (tl evs)))"
    using replay_all_fields [OF r] by (auto simp: replay_start_def)
  have ch: "filter (has_kind ''charge'') evs = charges_of (tl evs)"
    using kinds_tl [OF h, of "''charge''"] by (simp add: charges_of_def)
  have rs: "filter (\<lambda>e. has_kind ''reservation'' e \<and> get e ''event_id'' \<notin> X) evs
      = filter (\<lambda>e. get e ''event_id'' \<notin> X) (reservations_of (tl evs))" for X
  proof -
    have "filter (\<lambda>e. has_kind ''reservation'' e \<and> get e ''event_id'' \<notin> X) evs
        = filter (\<lambda>e. get e ''event_id'' \<notin> X) (filter (has_kind ''reservation'') evs)"
      by (induction evs) auto
    then show ?thesis using kinds_tl [OF h, of "''reservation''"] by (simp add: reservations_of_def)
  qed
  show ?thesis
    unfolding ledger_snapshot_of_def Let_def h bind_Inr
    by (simp add: rs ch f open_reservations_def) (simp add: charges_of_def flip: kinds_tl [OF h, of "''charge''", simplified])
qed

section \<open>Exact sums\<close>

abbreviation (input) cost_units :: "dict list \<Rightarrow> int" where
  "cost_units es \<equiv> sum_list (map (\<lambda>e. units (amount_of (get e ''cost_cny''))) es)"

lemma fsum_loop_grid:
  assumes "on_grid k s" and "0 \<le> s" and "\<forall>x \<in> set xs. grid_cost k x"
    and "s + sum_list (map units xs) < 2 ^ (k + 53)" and "k \<le> 2045"
  shows "fsum_loop (Fin s) (Fin 0) xs = Fin (s + sum_list (map units xs))"
  using assms
proof (induction xs arbitrary: s)
  case Nil
  then show ?case by simp
next
  case (Cons x xs)
  then obtain n where n: "x = Fin n" "on_grid k n" "0 \<le> n"
    using grid_cost_units [of k x] by auto
  have rest: "0 \<le> sum_list (map units xs)"
    by (rule sum_list_nonneg) (use Cons.prems(3) grid_cost_units in auto)
  have t: "fadd (Fin s) x = Fin (s + n)" unfolding n(1)
    by (rule fadd_grid [of k]) (use Cons.prems rest n in auto)
  have z1: "fadd (fsub (Fin s) (Fin (s + n))) x = Fin 0"
    using n Cons.prems rest
    by (simp add: fsub_def rnd_exact [of k "- n"] rnd_exact [of k 0])
  have z2: "fadd (fsub x (Fin (s + n))) (Fin s) = Fin 0"
    using n Cons.prems rest
    by (simp add: fsub_def rnd_exact [of k "- s"] rnd_exact [of k 0])
  have z: "fadd (Fin 0) (Fin 0) = Fin 0" by (simp add: rnd_exact [of k 0] Cons.prems(5))
  have "fsum_loop (Fin s) (Fin 0) (x # xs) = fsum_loop (Fin (s + n)) (Fin 0) xs"
    by (simp only: fsum_loop.simps Let_def t z1 z2 if_cancel z)
  also have "\<dots> = Fin (s + n + sum_list (map units xs))"
    by (rule Cons.IH) (use Cons.prems n on_grid_add in auto)
  finally show ?case by (simp add: n)
qed

lemma fsum_py_grid:
  "\<forall>x \<in> set xs. grid_cost k x \<Longrightarrow> sum_list (map units xs) < 2 ^ (k + 53) \<Longrightarrow> k \<le> 2045 \<Longrightarrow>
     fsum_py xs = Fin (sum_list (map units xs))"
  using fsum_loop_grid [of k 0 xs] by (simp add: fsum_py_def)

lemma sum_list_filter_remove:
  fixes g :: "'a \<Rightarrow> int"
  assumes "distinct (map f xs)" and "x \<in> set xs" and "P x"
  shows "sum_list (map g (filter (\<lambda>y. P y \<and> f y \<noteq> f x) xs)) = sum_list (map g (filter P xs)) - g x"
  using assms
proof (induction xs)
  case Nil
  then show ?case by simp
next
  case (Cons y ys)
  show ?case
  proof (cases "x = y")
    case True
    with Cons.prems have "filter (\<lambda>z. P z \<and> f z \<noteq> f x) ys = filter P ys"
      by (intro filter_cong) (auto, metis image_eqI)
    with True Cons.prems show ?thesis by simp
  next
    case False
    with Cons.prems have "x \<in> set ys" "f y \<noteq> f x" by auto
    with Cons show ?thesis by auto
  qed
qed

section \<open>Replay is exact on a grid\<close>

definition grid_event :: "nat \<Rightarrow> dict \<Rightarrow> bool" where
  "grid_event k e \<longleftrightarrow> (has_kind ''reservation'' e \<longrightarrow> grid_cost k (amount_of (get e ''cost_cny'')))
     \<and> (has_kind ''charge'' e \<longrightarrow> grid_cost k (amount_of (get e ''actual_cost_cny'')))"

definition exact_replay :: "nat \<Rightarrow> int \<Rightarrow> replay \<Rightarrow> bool" where
  "exact_replay k M r \<longleftrightarrow> (\<exists>S. rp_spent_cost r = Fin S \<and> on_grid k S \<and> 0 \<le> S
       \<and> S + cost_units (open_reservations r) \<le> M)
     \<and> (\<forall>e \<in> set (rp_reservations r). grid_cost k (amount_of (get e ''cost_cny'')))"

lemma cost_units_nonneg:
  "\<forall>e \<in> set es. grid_cost k (amount_of (get e ''cost_cny'')) \<Longrightarrow> 0 \<le> cost_units es"
  by (rule sum_list_nonneg) (use grid_cost_units in auto)

lemma open_grid: "exact_replay k M r \<Longrightarrow> \<forall>e \<in> set (open_reservations r). grid_cost k (amount_of (get e ''cost_cny''))"
  by (auto simp: exact_replay_def open_reservations_def)

lemma cost_units_on_grid:
  "\<forall>e \<in> set es. grid_cost k (amount_of (get e ''cost_cny'')) \<Longrightarrow> on_grid k (cost_units es)"
proof (induction es)
  case Nil
  then show ?case by simp
next
  case (Cons e es)
  then show ?case using grid_cost_units [of k "amount_of (get e ''cost_cny'')"] by (simp add: on_grid_add)
qed

lemma replay_cost_grid:
  assumes "rp_spent_cost r = Fin S" and "on_grid k S" and "0 \<le> S"
    and g: "\<forall>e \<in> set (open_reservations r). grid_cost k (amount_of (get e ''cost_cny''))"
    and lt: "S + cost_units (open_reservations r) < 2 ^ (k + 53)" and k: "k \<le> 2045"
  shows "replay_cost r = Fin (S + cost_units (open_reservations r))"
proof -
  have nn: "0 \<le> cost_units (open_reservations r)" using g by (rule cost_units_nonneg)
  have "fsum_py (map (\<lambda>e. amount_of (get e ''cost_cny'')) (open_reservations r))
      = Fin (cost_units (open_reservations r))"
    using fsum_py_grid [of "map (\<lambda>e. amount_of (get e ''cost_cny'')) (open_reservations r)" k] g lt assms(3) k
    by (simp add: o_def)
  moreover have "fadd (Fin S) (Fin (cost_units (open_reservations r))) = Fin (S + cost_units (open_reservations r))"
    by (rule fadd_grid [of k]) (use assms nn cost_units_on_grid [OF g] in auto)
  ultimately show ?thesis by (simp add: replay_cost_def assms(1) del: fadd.simps)
qed

lemma filter_less_units:
  assumes "\<forall>e \<in> set es. grid_cost k (amount_of (get e ''cost_cny''))"
  shows "cost_units (filter P es) \<le> cost_units es"
  using assms
proof (induction es)
  case Nil
  then show ?case by simp
next
  case (Cons e es)
  then show ?case using grid_cost_units [of k "amount_of (get e ''cost_cny'')"] by auto
qed

lemma open_charged:
  "open_reservations (r\<lparr>rp_charged := i # rp_charged r, rp_spent_cost := x, rp_spent_calls := n\<rparr>)
     = filter (\<lambda>e. get e ''event_id'' \<noteq> i) (open_reservations r)"
  by (auto simp: open_reservations_def intro!: filter_cong)

lemma open_reserved:
  "open_reservations (r\<lparr>rp_reservations := rp_reservations r @ [e]\<rparr>)
     = open_reservations r @ (if get e ''event_id'' \<in> set (rp_charged r) then [] else [e])"
  by (simp add: open_reservations_def)

lemma replay_step_exact:
  assumes ex: "exact_replay k M r" and g: "grid_event k e" and c: "lc_max_cost c = Fin M" "M < 2 ^ (k + 52)"
    and k: "k \<le> 2045" and step: "replay_step c e r = Inr r'"
  shows "exact_replay k M r'"
proof -
  from step have ev: "replay_event e r = Inr r'" and le: "\<not> flt (Fin M) (replay_cost r')"
    by (simp_all add: replay_step_eq_Inr c)
  from ex obtain S where S: "rp_spent_cost r = Fin S" "on_grid k S" "0 \<le> S" "S + cost_units (open_reservations r) \<le> M"
    by (auto simp: exact_replay_def)
  note og = open_grid [OF ex]
  have nn: "0 \<le> cost_units (open_reservations r)" using og by (rule cost_units_nonneg)
  have p: "(2::int) ^ (k + 53) = 2 * 2 ^ (k + 52)" by (simp add: power_add)
  from replay_event_cases [OF ev] show ?thesis
  proof (elim disjE conjE)
    assume k1: "has_kind ''reservation'' e" and r': "r' = r\<lparr>rp_reservations := rp_reservations r @ [e]\<rparr>"
    have gx: "grid_cost k (amount_of (get e ''cost_cny''))" using g k1 by (simp add: grid_event_def)
    have og': "\<forall>e \<in> set (open_reservations r'). grid_cost k (amount_of (get e ''cost_cny''))"
      using og gx by (auto simp: r' open_reserved)
    have lt: "S + cost_units (open_reservations r') < 2 ^ (k + 53)"
      using S c(2) p nn grid_cost_units [OF gx] by (auto simp: r' open_reserved)
    have "replay_cost r' = Fin (S + cost_units (open_reservations r'))"
      by (rule replay_cost_grid [OF _ S(2,3) og' lt k]) (simp add: r' S)
    with le have "S + cost_units (open_reservations r') \<le> M" by simp
    with S ex gx show ?thesis by (auto simp: exact_replay_def r')
  next
    assume k1: "has_kind ''charge'' e" and r': "r' = r\<lparr>rp_charged := get e ''reservation_id'' # rp_charged r,
        rp_spent_cost := fadd (rp_spent_cost r) (amount_of (get e ''actual_cost_cny'')),
        rp_spent_calls := rp_spent_calls r + count_of (get e ''actual_model_calls'')\<rparr>"
    have gy: "grid_cost k (amount_of (get e ''actual_cost_cny''))" using g k1 by (simp add: grid_event_def)
    define Y where "Y = units (amount_of (get e ''actual_cost_cny''))"
    have Y: "amount_of (get e ''actual_cost_cny'') = Fin Y" "on_grid k Y" "0 \<le> Y" "Y < 2 ^ (k + 52)"
      using grid_cost_units [OF gy] by (auto simp: Y_def)
    have SY: "fadd (Fin S) (Fin Y) = Fin (S + Y)"
      by (rule fadd_grid [of k]) (use S Y c(2) p nn k in auto)
    have opn: "open_reservations r' = filter (\<lambda>x. get x ''event_id'' \<noteq> get e ''reservation_id'') (open_reservations r)"
      by (simp add: r' open_charged)
    have le2: "cost_units (open_reservations r') \<le> cost_units (open_reservations r)"
      unfolding opn using og by (rule filter_less_units)
    have og': "\<forall>e \<in> set (open_reservations r'). grid_cost k (amount_of (get e ''cost_cny''))"
      using og by (auto simp: opn)
    have sp: "rp_spent_cost r' = Fin (S + Y)" by (simp add: r' S Y SY del: fadd.simps)
    have lt: "S + Y + cost_units (open_reservations r') < 2 ^ (k + 53)"
      using S c(2) p nn Y le2 by linarith
    have "replay_cost r' = Fin (S + Y + cost_units (open_reservations r'))"
      by (rule replay_cost_grid [OF sp on_grid_add [OF S(2) Y(2)] _ og' lt k]) (use S Y in simp)
    with le have "S + Y + cost_units (open_reservations r') \<le> M" by simp
    with sp S Y on_grid_add [OF S(2) Y(2)] ex show ?thesis by (auto simp: exact_replay_def r')
  next
    assume "r' = r"
    with ex show ?thesis by simp
  qed
qed

lemma replay_all_exact:
  "replay_all c es r = Inr r' \<Longrightarrow> exact_replay k M r \<Longrightarrow> \<forall>e \<in> set es. grid_event k e \<Longrightarrow>
     lc_max_cost c = Fin M \<Longrightarrow> M < 2 ^ (k + 52) \<Longrightarrow> k \<le> 2045 \<Longrightarrow> exact_replay k M r'"
proof (induction es arbitrary: r)
  case Nil
  then show ?case by simp
next
  case (Cons e es)
  then obtain r1 where r1: "replay_step c e r = Inr r1" "replay_all c es r1 = Inr r'"
    by (auto simp: res_simps)
  with Cons show ?case by (auto intro: replay_step_exact)
qed

lemma exact_start: "0 \<le> M \<Longrightarrow> exact_replay k M replay_start"
  by (simp add: exact_replay_def replay_start_def open_reservations_def fzero_def)

lemma replay_all_last:
  assumes "replay_all c es r = Inr r'" and "es \<noteq> []"
  shows "replay_calls r' \<le> lc_max_calls c"
  using assms by (cases es rule: rev_cases) (auto simp: replay_all_snoc res_simps replay_step_eq_Inr)

text \<open>The running sum of replay is the sum of the charges.\<close>

abbreviation (input) charge_units :: "dict list \<Rightarrow> int" where
  "charge_units es \<equiv> sum_list (map (\<lambda>e. units (amount_of (get e ''actual_cost_cny''))) es)"

lemma replay_spent_exact:
  "replay_all c es r = Inr r' \<Longrightarrow> exact_replay k M r \<Longrightarrow> \<forall>e \<in> set es. grid_event k e \<Longrightarrow>
     lc_max_cost c = Fin M \<Longrightarrow> M < 2 ^ (k + 52) \<Longrightarrow> k \<le> 2045 \<Longrightarrow>
     units (rp_spent_cost r') = units (rp_spent_cost r) + charge_units (charges_of es)"
proof (induction es arbitrary: r)
  case Nil
  then show ?case by (simp add: charges_of_def)
next
  case (Cons e es)
  then obtain r1 where r1: "replay_step c e r = Inr r1" "replay_all c es r1 = Inr r'"
    by (auto simp: res_simps)
  from Cons.prems obtain S where S: "rp_spent_cost r = Fin S" "on_grid k S" "0 \<le> S" "S + cost_units (open_reservations r) \<le> M"
    by (auto simp: exact_replay_def)
  have nn: "0 \<le> cost_units (open_reservations r)"
    by (rule cost_units_nonneg [OF open_grid]) (rule Cons.prems)
  have p: "(2::int) ^ (k + 53) = 2 * 2 ^ (k + 52)" by (simp add: power_add)
  have ex1: "exact_replay k M r1" using Cons.prems r1(1) by (auto intro: replay_step_exact)
  have IH: "units (rp_spent_cost r') = units (rp_spent_cost r1) + charge_units (charges_of es)"
    by (rule Cons.IH [OF r1(2) ex1]) (use Cons.prems in auto)
  have "units (rp_spent_cost r1) = S + charge_units (charges_of [e])"
  proof (cases "has_kind ''charge'' e")
    case True
    define Y where "Y = units (amount_of (get e ''actual_cost_cny''))"
    have "grid_cost k (amount_of (get e ''actual_cost_cny''))"
      using Cons.prems(3) True by (auto simp: grid_event_def)
    then have Y: "amount_of (get e ''actual_cost_cny'') = Fin Y" "on_grid k Y" "0 \<le> Y" "Y < 2 ^ (k + 52)"
      using grid_cost_units by (auto simp: Y_def)
    have SY: "fadd (Fin S) (Fin Y) = Fin (S + Y)"
      by (rule fadd_grid [of k]) (use S Y Cons.prems p nn in auto)
    have "replay_event e r = Inr r1" using r1(1) by (simp add: replay_step_eq_Inr)
    then have "rp_spent_cost r1 = fadd (rp_spent_cost r) (amount_of (get e ''actual_cost_cny''))"
      using replay_event_cases True has_kind_unique [OF True, of "''reservation''"] by fastforce
    then show ?thesis using True by (simp add: S Y SY charges_of_def del: fadd.simps)
  next
    case False
    have "replay_event e r = Inr r1" using r1(1) by (simp add: replay_step_eq_Inr)
    then have "rp_spent_cost r1 = rp_spent_cost r" using replay_event_cases False by fastforce
    then show ?thesis using False by (simp add: S charges_of_def)
  qed
  then show ?case using IH S(1) by (simp add: charges_of_def)
qed

section \<open>Grid ledgers stay readable\<close>

definition grid_ledger :: "nat \<Rightarrow> ledger_config \<Rightarrow> dict list \<Rightarrow> bool" where
  "grid_ledger k c evs \<longleftrightarrow> k \<le> 2045 \<and> grid_cost k (lc_max_cost c) \<and> (\<forall>e \<in> set evs. grid_event k e)"

text \<open>What a readable grid ledger amounts to, in whole units.\<close>

lemma ledger_ok_exact:
  assumes ok: "ledger_ok c d evs" and g: "grid_ledger k c evs"
  obtains r M S where "replay_all c (tl evs) replay_start = Inr r" and "lc_max_cost c = Fin M"
    and "0 \<le> M" and "M < 2 ^ (k + 52)" and "rp_spent_cost r = Fin S" and "exact_replay k M r"
    and "on_grid k S" and "0 \<le> S" and "S + cost_units (open_reservations r) \<le> M"
    and "ledger_snapshot_of c evs = Inr
     \<lparr>bm_max_cost = lc_max_cost c, bm_max_calls = lc_max_calls c,
      bm_reserved_cost = Fin (cost_units (open_reservations r)),
      bm_reserved_calls = sum_list (map (\<lambda>e. count_of (get e ''model_calls'')) (open_reservations r)),
      bm_spent_cost = Fin S, bm_spent_calls = rp_spent_calls r\<rparr>"
proof -
  from ok have rl: "read_log c d = Inr evs" by (simp add: ledger_ok_def)
  obtain r where r: "replay_all c (tl evs) replay_start = Inr r" using read_log_facts(4) [OF rl] by blast
  note h = read_log_facts(3) [OF rl] and ne = read_log_facts(1) [OF rl]
  from g have k: "k \<le> 2045" by (simp add: grid_ledger_def)
  from g obtain M where M: "lc_max_cost c = Fin M" "0 \<le> M" "M < 2 ^ (k + 52)"
    using grid_cost_units unfolding grid_ledger_def by blast
  have ge: "\<forall>e \<in> set (tl evs). grid_event k e"
    using g list.set_sel(2) [OF ne] by (auto simp: grid_ledger_def)
  have ex: "exact_replay k M r"
    by (rule replay_all_exact [OF r exact_start [OF M(2)] ge M(1,3) k])
  then obtain S where S: "rp_spent_cost r = Fin S" "on_grid k S" "0 \<le> S" "S + cost_units (open_reservations r) \<le> M"
    by (auto simp: exact_replay_def)
  have nn: "0 \<le> cost_units (open_reservations r)" by (rule cost_units_nonneg [OF open_grid [OF ex]])
  have p: "(2::int) ^ (k + 53) = 2 * 2 ^ (k + 52)" by (simp add: power_add)
  have SC: "S = charge_units (charges_of (tl evs))"
    using replay_spent_exact [OF r exact_start [OF M(2)] ge M(1,3) k] S(1)
    by (simp add: replay_start_def fzero_def)
  have gc: "\<forall>e \<in> set (charges_of (tl evs)). grid_cost k (amount_of (get e ''actual_cost_cny''))"
    using ge by (auto simp: charges_of_def grid_event_def)
  have "fsum_py (map (\<lambda>e. amount_of (get e ''actual_cost_cny'')) (charges_of (tl evs))) = Fin S"
    using fsum_py_grid [of "map (\<lambda>e. amount_of (get e ''actual_cost_cny'')) (charges_of (tl evs))" k]
      gc S(4) nn M p k SC by (simp add: o_def)
  moreover have "fsum_py (map (\<lambda>e. amount_of (get e ''cost_cny'')) (open_reservations r))
      = Fin (cost_units (open_reservations r))"
    using fsum_py_grid [of "map (\<lambda>e. amount_of (get e ''cost_cny'')) (open_reservations r)" k]
      open_grid [OF ex] S(3,4) M p k by (simp add: o_def)
  moreover have "charges_of evs = charges_of (tl evs)"
    using kinds_tl [OF h, of "''charge''"] by (simp add: charges_of_def)
  ultimately show ?thesis
    using that [OF r M S(1) ex S(2-4)] snapshot_of_replay [OF h r] by simp
qed

lemma reservation_event_bare:
  "finite_float cost \<Longrightarrow> bare_event (reservation_event c rid cost calls)"
  by (simp add: bare_event_def reservation_event_def fmlookup_of_list finite_fmupd)

lemma reservation_event_get:
  "get (reservation_event c rid cost calls) ''event_id'' = JStr rid"
  "get (reservation_event c rid cost calls) ''kind'' = JStr ''reservation''"
  "get (reservation_event c rid cost calls) ''campaign_id'' = JStr (lc_campaign_id c)"
  "get (reservation_event c rid cost calls) ''cost_cny'' = JFloat cost"
  "get (reservation_event c rid cost calls) ''model_calls'' = JInt calls"
  by (simp_all add: reservation_event_def get_jobj)

lemma charge_event_bare: "finite_float cost \<Longrightarrow> bare_event (charge_event c rid result cost calls)"
  by (simp add: bare_event_def charge_event_def fmlookup_of_list finite_fmupd)

lemma charge_event_get:
  "get (charge_event c rid result cost calls) ''event_id'' = JStr result"
  "get (charge_event c rid result cost calls) ''kind'' = JStr ''charge''"
  "get (charge_event c rid result cost calls) ''campaign_id'' = JStr (lc_campaign_id c)"
  "get (charge_event c rid result cost calls) ''reservation_id'' = JStr rid"
  "get (charge_event c rid result cost calls) ''actual_cost_cny'' = JFloat cost"
  "get (charge_event c rid result cost calls) ''actual_model_calls'' = JInt calls"
  by (simp_all add: charge_event_def get_jobj)

text \<open>The only texts of an event are its ids.\<close>

definition clean_ids :: "ledger_config \<Rightarrow> string list \<Rightarrow> bool" where
  "clean_ids c ids \<longleftrightarrow> \<not> list_ex has_break (lc_campaign_id c # ids)"

lemma reservation_event_clean: "clean_event (reservation_event c rid cost calls) \<longleftrightarrow> clean_ids c [rid]"
proof -
  have "has_break (json_text (JObj (reservation_event c rid cost calls))) \<longleftrightarrow> has_break rid \<or> has_break (lc_campaign_id c)"
    unfolding reservation_event_def
    by (subst has_break_fields) (simp_all add: has_break_leaf breaks_line_def)
  then show ?thesis unfolding clean_event_def clean_ids_def by auto
qed

lemma charge_event_clean: "clean_event (charge_event c rid result cost calls) \<longleftrightarrow> clean_ids c [rid, result]"
proof -
  have "has_break (json_text (JObj (charge_event c rid result cost calls)))
      \<longleftrightarrow> has_break result \<or> has_break (lc_campaign_id c) \<or> has_break rid"
    unfolding charge_event_def
    by (subst has_break_fields) (simp_all add: has_break_leaf breaks_line_def)
  then show ?thesis unfolding clean_event_def clean_ids_def by auto
qed

lemma lookup_get: "get e k = v \<Longrightarrow> v \<noteq> JNull \<Longrightarrow> item e k = Inr v"
  by (auto simp: get_def item_def split: option.splits)

lemma validate_stored_reservation:
  assumes "\<not> blank rid" and "finite_float cost" and "\<not> flt cost fzero" and "0 \<le> calls"
    and pd: "is_digest (previous_sha256 evs)"
  shows "validate_event c (stored_event (reservation_event c rid cost calls) evs) = Inr ()"
proof -
  let ?e = "stored_event (reservation_event c rid cost calls) evs"
  have i: "item ?e ''event_id'' = Inr (JStr rid)" "item ?e ''kind'' = Inr (JStr ''reservation'')"
    "item ?e ''campaign_id'' = Inr (JStr (lc_campaign_id c))" "item ?e ''cost_cny'' = Inr (JFloat cost)"
    "item ?e ''model_calls'' = Inr (JInt calls)" "item ?e ''sequence'' = Inr (JInt (int (length evs)))"
    by (auto intro!: lookup_get simp: reservation_event_get)
  from pd have p: "item ?e ''previous_event_sha256'' = Inr (previous_sha256 evs)" "is_str (previous_sha256 evs)"
    by (auto intro!: lookup_get simp: is_digest_iff)
  show ?thesis
    using assms p(2) by (simp add: validate_event_def with_item_def i p(1) validate_event_id_def
        validate_calls_def validate_amount_def violation_unless_def)
qed

lemma validate_stored_charge:
  assumes "\<not> blank rid" and "\<not> blank result" and "finite_float cost" and "\<not> flt cost fzero" and "0 \<le> calls"
    and pd: "is_digest (previous_sha256 evs)"
  shows "validate_event c (stored_event (charge_event c rid result cost calls) evs) = Inr ()"
proof -
  let ?e = "stored_event (charge_event c rid result cost calls) evs"
  have i: "item ?e ''event_id'' = Inr (JStr result)" "item ?e ''kind'' = Inr (JStr ''charge'')"
    "item ?e ''campaign_id'' = Inr (JStr (lc_campaign_id c))" "item ?e ''reservation_id'' = Inr (JStr rid)"
    "item ?e ''actual_cost_cny'' = Inr (JFloat cost)" "item ?e ''actual_model_calls'' = Inr (JInt calls)"
    "item ?e ''sequence'' = Inr (JInt (int (length evs)))"
    by (auto intro!: lookup_get simp: charge_event_get)
  from pd have p: "item ?e ''previous_event_sha256'' = Inr (previous_sha256 evs)" "is_str (previous_sha256 evs)"
    by (auto intro!: lookup_get simp: is_digest_iff)
  show ?thesis
    using assms p(2) by (simp add: validate_event_def with_item_def i p(1) validate_event_id_def
        validate_calls_def validate_amount_def violation_unless_def)
qed

section \<open>The outcome of an operation on a ledger at rest\<close>

definition event_known :: "string \<Rightarrow> dict list \<Rightarrow> dict option" where
  "event_known i evs = find (\<lambda>x. get x ''event_id'' = JStr i) evs"

lemma ledger_reserve_new:
  assumes ok: "ledger_ok c d evs" and run: "ledger_reserve c rid cost calls d = (d', Inr True)"
  shows "\<not> blank rid \<and> finite_float cost \<and> \<not> flt cost fzero \<and> 0 \<le> calls \<and> event_known rid evs = None
     \<and> check_reserve c cost calls evs = Inr () \<and> d' = appended c (reservation_event c rid cost calls) evs d"
proof -
  let ?e = "reservation_event c rid cost calls"
  from run have v: "\<not> blank rid" "finite_float cost" "\<not> flt cost fzero" "0 \<le> calls"
    and m: "append_mutation c ?e (check_reserve c cost calls) d = (d', Inr True)"
    by (auto simp: ledger_reserve_def obind_eq_Inr validate_event_id_def validate_amount_def
        validate_calls_def violation_unless_eq_Inr olift_def)
  show ?thesis
  proof (cases "event_known rid evs")
    case (Some p)
    then have "find (\<lambda>x. get x ''event_id'' = get ?e ''event_id'') evs = Some p"
      by (simp add: event_known_def reservation_event_get)
    from append_mutation_replay [OF ok this] m show ?thesis by (auto split: if_splits)
  next
    case None
    then have fresh: "find (\<lambda>x. get x ''event_id'' = get ?e ''event_id'') evs = None"
      by (simp add: event_known_def reservation_event_get)
    show ?thesis
    proof (cases "check_reserve c cost calls evs")
      case (Inl x)
      from append_mutation_refused [where validate = "check_reserve c cost calls", OF ok Inl fresh] m
      show ?thesis by simp
    next
      case (Inr u)
      then have "check_reserve c cost calls evs = Inr ()" by simp
      from append_mutation_new [where validate = "check_reserve c cost calls",
          OF ok reservation_event_bare [OF v(2)] fresh this] m v None Inr
      show ?thesis by simp
    qed
  qed
qed

text \<open>A reservation that is not written leaves the disk as it is.\<close>

lemma reserve_unchanged:
  assumes ok: "ledger_ok c d evs" and no: "snd (ledger_reserve c rid cost calls d) \<noteq> Inr True"
  shows "fst (ledger_reserve c rid cost calls d) = d"
proof -
  let ?e = "reservation_event c rid cost calls"
  have m: "fst (append_mutation c ?e (check_reserve c cost calls) d) = d"
    if w: "snd (append_mutation c ?e (check_reserve c cost calls) d) \<noteq> Inr True" and f: "finite_float cost"
  proof (cases "find (\<lambda>x. get x ''event_id'' = get ?e ''event_id'') evs")
    case (Some p)
    then show ?thesis using append_mutation_replay [OF ok Some] by simp
  next
    case None
    show ?thesis
    proof (cases "check_reserve c cost calls evs")
      case (Inl x)
      then show ?thesis using append_mutation_refused [where validate = "check_reserve c cost calls", OF ok Inl None] by simp
    next
      case (Inr u)
      then have "check_reserve c cost calls evs = Inr ()" by simp
      from append_mutation_new [where validate = "check_reserve c cost calls", OF ok reservation_event_bare [OF f] None this] w
      show ?thesis by simp
    qed
  qed
  show ?thesis
    using no m by (auto simp: ledger_reserve_def obind_def olift_def validate_amount_def violation_unless_def require_eq_Inr
        split: sum.splits prod.splits if_splits)
qed

lemma find_distinct:
  "distinct (map f xs) \<Longrightarrow> x \<in> set xs \<Longrightarrow> find (\<lambda>y. f y = f x) xs = Some x"
  by (induction xs) (auto simp: rev_image_eqI)

lemma ledger_record_new:
  assumes ok: "ledger_ok c d evs" and run: "ledger_record c rid result cost calls d = (d', Inr True)"
  shows "\<not> blank rid \<and> \<not> blank result \<and> finite_float cost \<and> \<not> flt cost fzero \<and> 0 \<le> calls
     \<and> event_known result evs = None \<and> check_charge c rid cost calls evs = Inr ()
     \<and> d' = appended c (charge_event c rid result cost calls) evs d"
proof -
  let ?e = "charge_event c rid result cost calls"
  from run have v: "\<not> blank rid" "\<not> blank result" "finite_float cost" "\<not> flt cost fzero" "0 \<le> calls"
    and m: "append_mutation c ?e (check_charge c rid cost calls) d = (d', Inr True)"
    by (auto simp: ledger_record_def obind_eq_Inr validate_event_id_def validate_amount_def
        validate_calls_def violation_unless_eq_Inr olift_def)
  show ?thesis
  proof (cases "event_known result evs")
    case (Some p)
    then have "find (\<lambda>x. get x ''event_id'' = get ?e ''event_id'') evs = Some p"
      by (simp add: event_known_def charge_event_get)
    from append_mutation_replay [OF ok this] m show ?thesis by (auto split: if_splits)
  next
    case None
    then have fresh: "find (\<lambda>x. get x ''event_id'' = get ?e ''event_id'') evs = None"
      by (simp add: event_known_def charge_event_get)
    show ?thesis
    proof (cases "check_charge c rid cost calls evs")
      case (Inl x)
      from append_mutation_refused [where validate = "check_charge c rid cost calls", OF ok Inl fresh] m
      show ?thesis by simp
    next
      case (Inr u)
      then have "check_charge c rid cost calls evs = Inr ()" by simp
      from append_mutation_new [where validate = "check_charge c rid cost calls",
          OF ok charge_event_bare [OF v(3)] fresh this] m v None Inr
      show ?thesis by simp
    qed
  qed
qed

lemma appended_ok:
  assumes ok: "ledger_ok c d evs" and r: "replay_all c (tl evs) replay_start = Inr r"
    and e: "bare_event e" "validate_event c (stored_event e evs) = Inr ()" "clean_event e"
    and fresh: "find (\<lambda>x. get x ''event_id'' = get e ''event_id'') evs = None"
    and step: "replay_step c (stored_event e evs) r = Inr r'"
  shows "ledger_ok c (appended c e evs d) (evs @ [stored_event e evs])"
proof -
  from ok have rl: "read_log c d = Inr evs" and l: "\<not> ld_locked d" by (simp_all add: ledger_ok_def)
  from l have "\<not> ld_locked (appended c e evs d)" by (simp add: appended_def append_line_def)
  then show ?thesis
    using read_log_appended [OF rl r e fresh] step head_current_appended [of c evs e d]
    by (simp add: ledger_ok_def)
qed

lemma event_known_fresh_charged:
  assumes r: "replay_all c (tl evs) replay_start = Inr r" and ne: "evs \<noteq> []"
    and fresh: "event_known rid evs = None"
  shows "JStr rid \<notin> set (rp_charged r)"
proof
  assume "JStr rid \<in> set (rp_charged r)"
  then have "JStr rid \<in> reserved_ids r"
    using replay_all_fields [OF r] by (auto simp: replay_start_def)
  then obtain e where "e \<in> set (tl evs)" "get e ''event_id'' = JStr rid"
    using replay_all_fields [OF r] by (auto simp: replay_start_def reserved_ids_def reservations_of_def)
  with fresh ne list.set_sel(2) [OF ne] show False
    by (auto simp: event_known_def find_None_iff)
qed

lemma ledger_ok_facts:
  assumes "ledger_ok c d evs"
  shows "evs \<noteq> []" and "is_digest (previous_sha256 evs)" and "validate_header c evs = Inr ()"
    and "distinct (map (\<lambda>e. get e ''event_id'') evs)"
  using assms read_log_facts read_log_previous unfolding ledger_ok_def by blast+

text \<open>
  The exact account of a readable grid ledger: limit, spent and reserved units, and the
  replay state they are read from.
\<close>

definition account :: "nat \<Rightarrow> ledger_config \<Rightarrow> dict list \<Rightarrow> replay \<Rightarrow> int \<Rightarrow> int \<Rightarrow> bool" where
  "account k c evs r M S \<longleftrightarrow> replay_all c (tl evs) replay_start = Inr r \<and> lc_max_cost c = Fin M
     \<and> 0 \<le> M \<and> M < 2 ^ (k + 52) \<and> k \<le> 2045 \<and> rp_spent_cost r = Fin S \<and> exact_replay k M r
     \<and> on_grid k S \<and> 0 \<le> S \<and> S + cost_units (open_reservations r) \<le> M
     \<and> ledger_snapshot_of c evs = Inr
     \<lparr>bm_max_cost = lc_max_cost c, bm_max_calls = lc_max_calls c,
      bm_reserved_cost = Fin (cost_units (open_reservations r)),
      bm_reserved_calls = sum_list (map (\<lambda>e. count_of (get e ''model_calls'')) (open_reservations r)),
      bm_spent_cost = Fin S, bm_spent_calls = rp_spent_calls r\<rparr>"

lemma ledger_account: "ledger_ok c d evs \<Longrightarrow> grid_ledger k c evs \<Longrightarrow> \<exists>r M S. account k c evs r M S"
  by (rule ledger_ok_exact, assumption, assumption) (auto simp: account_def grid_ledger_def)

lemma grid_double: "(2::int) ^ (k + 53) = 2 * 2 ^ (k + 52)"
  by (simp add: power_add)

lemma account_open:
  assumes "account k c evs r M S"
  shows "0 \<le> cost_units (open_reservations r)" and "on_grid k (cost_units (open_reservations r))"
    and "\<forall>e \<in> set (open_reservations r). grid_cost k (amount_of (get e ''cost_cny''))"
proof -
  have "\<forall>e \<in> set (open_reservations r). grid_cost k (amount_of (get e ''cost_cny''))"
    by (rule open_grid [of k M]) (use assms in \<open>simp add: account_def\<close>)
  then show "0 \<le> cost_units (open_reservations r)" and "on_grid k (cost_units (open_reservations r))"
    and "\<forall>e \<in> set (open_reservations r). grid_cost k (amount_of (get e ''cost_cny''))"
    using cost_units_nonneg cost_units_on_grid by blast+
qed

lemma check_reserve_exact:
  assumes a: "account k c evs r M S" and X: "on_grid k X" "0 \<le> X" "X < 2 ^ (k + 52)"
    and chk: "check_reserve c (Fin X) calls evs = Inr ()"
  shows "S + cost_units (open_reservations r) + X \<le> M"
    and "rp_spent_calls r + sum_list (map (\<lambda>e. count_of (get e ''model_calls'')) (open_reservations r)) + calls \<le> lc_max_calls c"
proof -
  let ?R = "cost_units (open_reservations r)"
  note o = account_open [OF a]
  from a have f: "lc_max_cost c = Fin M" "M < 2 ^ (k + 52)" "k \<le> 2045" "on_grid k S" "0 \<le> S" "S + ?R \<le> M"
    by (simp_all add: account_def)
  have a1: "fadd (Fin S) (Fin ?R) = Fin (S + ?R)"
    by (rule fadd_grid [of k]) (use f o grid_double [of k] in auto)
  have a2: "fadd (Fin (S + ?R)) (Fin X) = Fin (S + ?R + X)"
    by (rule fadd_grid [of k]) (use f o grid_double [of k] X on_grid_add in auto)
  from chk a show "S + ?R + X \<le> M"
    and "rp_spent_calls r + sum_list (map (\<lambda>e. count_of (get e ''model_calls'')) (open_reservations r)) + calls \<le> lc_max_calls c"
    by (simp_all add: check_reserve_def account_def a1 a2 res_simps del: fadd.simps)
qed

lemma reservation_replays:
  assumes a: "account k c evs r M S" and X: "on_grid k X" "0 \<le> X" "X < 2 ^ (k + 52)"
    and s: "has_kind ''reservation'' s" "get s ''event_id'' = JStr rid" "get s ''cost_cny'' = JFloat (Fin X)"
      "get s ''model_calls'' = JInt calls"
    and fresh: "JStr rid \<notin> set (rp_charged r)" and le: "S + cost_units (open_reservations r) + X \<le> M"
    and calls: "rp_spent_calls r + sum_list (map (\<lambda>e. count_of (get e ''model_calls'')) (open_reservations r)) + calls \<le> lc_max_calls c"
  shows "\<exists>r'. replay_step c s r = Inr r'"
proof -
  define r' where "r' = r\<lparr>rp_reservations := rp_reservations r @ [s]\<rparr>"
  from a have f: "lc_max_cost c = Fin M" "M < 2 ^ (k + 52)" "k \<le> 2045" "on_grid k S" "0 \<le> S" "rp_spent_cost r = Fin S"
    by (simp_all add: account_def)
  have opn: "open_reservations r' = open_reservations r @ [s]"
    using fresh s(2) by (simp add: r'_def open_reserved)
  have og: "\<forall>e \<in> set (open_reservations r'). grid_cost k (amount_of (get e ''cost_cny''))"
    using account_open(3) [OF a] X by (auto simp: opn s grid_cost_def)
  have lt: "S + cost_units (open_reservations r') < 2 ^ (k + 53)"
    using le f X grid_double [of k] account_open(1) [OF a] by (simp add: opn s)
  have "replay_cost r' = Fin (S + cost_units (open_reservations r'))"
    by (rule replay_cost_grid [OF _ f(4,5) og lt f(3)]) (simp add: r'_def f)
  then have "\<not> flt (lc_max_cost c) (replay_cost r')" using le by (simp add: f opn s)
  moreover have "replay_calls r' \<le> lc_max_calls c"
    using calls by (simp add: replay_calls_def opn s) (simp add: r'_def)
  moreover have "replay_event s r = Inr r'"
    using s(1) has_kind_unique [OF s(1)] by (simp add: replay_event_def r'_def)
  ultimately show ?thesis by (simp add: replay_step_eq_Inr)
qed

lemma check_charge_facts:
  assumes a: "account k c evs r M S" and ok: "ledger_ok c d evs" and chk: "check_charge c rid cost calls evs = Inr ()"
  shows "JStr rid \<in> reserved_ids r" and "JStr rid \<notin> set (rp_charged r)"
proof -
  from a have r: "replay_all c (tl evs) replay_start = Inr r" by (simp add: account_def)
  note h = ledger_ok_facts(3) [OF ok]
  note f = replay_all_fields [OF r]
  from chk have "\<exists>e \<in> set evs. has_kind ''reservation'' e \<and> get e ''event_id'' = JStr rid"
    by (auto simp: check_charge_def res_simps find_Some_iff dest!: find_SomeD)
  then obtain e where "e \<in> set (filter (has_kind ''reservation'') evs)" "get e ''event_id'' = JStr rid" by auto
  then have "e \<in> set (reservations_of (tl evs))" "get e ''event_id'' = JStr rid"
    using kinds_tl [OF h, of "''reservation''"] by (simp_all add: reservations_of_def)
  then show "JStr rid \<in> reserved_ids r"
    using f by (auto simp: replay_start_def reserved_ids_def image_iff intro: sym)
  from chk have "\<forall>e \<in> set evs. has_kind ''charge'' e \<longrightarrow> get e ''reservation_id'' \<noteq> JStr rid"
    by (auto simp: check_charge_def res_simps find_None_iff)
  then have "\<forall>e \<in> set (charges_of (tl evs)). get e ''reservation_id'' \<noteq> JStr rid"
    using list.set_sel(2) [OF ledger_ok_facts(1) [OF ok]] by (auto simp: charges_of_def)
  then show "JStr rid \<notin> set (rp_charged r)"
    using f by (auto simp: replay_start_def)
qed

lemma charge_replays:
  assumes a: "account k c evs r M S" and ids: "distinct (map (\<lambda>e. get e ''event_id'') (rp_reservations r))"
    and x: "x \<in> set (rp_reservations r)" "get x ''event_id'' = JStr rid" "JStr rid \<notin> set (rp_charged r)"
    and Y: "on_grid k Y" "0 \<le> Y" "Y \<le> units (amount_of (get x ''cost_cny''))"
    and n: "calls \<le> count_of (get x ''model_calls'')" and le: "replay_calls r \<le> lc_max_calls c"
    and s: "has_kind ''charge'' s" "get s ''reservation_id'' = JStr rid" "get s ''actual_cost_cny'' = JFloat (Fin Y)"
      "get s ''actual_model_calls'' = JInt calls"
  shows "\<exists>r'. replay_step c s r = Inr r'"
proof -
  define r' where "r' = r\<lparr>rp_charged := JStr rid # rp_charged r,
     rp_spent_cost := fadd (rp_spent_cost r) (Fin Y), rp_spent_calls := rp_spent_calls r + calls\<rparr>"
  from a have f: "lc_max_cost c = Fin M" "M < 2 ^ (k + 52)" "k \<le> 2045" "on_grid k S" "0 \<le> S"
    "rp_spent_cost r = Fin S" "S + cost_units (open_reservations r) \<le> M" "0 \<le> M"
    by (simp_all add: account_def)
  have opn: "open_reservations r' = filter (\<lambda>e. get e ''event_id'' \<notin> set (rp_charged r) \<and> get e ''event_id'' \<noteq> get x ''event_id'') (rp_reservations r)"
    by (auto simp: r'_def open_reservations_def x(2) intro!: filter_cong)
  have cu: "sum_list (map g (open_reservations r')) = sum_list (map g (open_reservations r)) - g x"
    for g :: "dict \<Rightarrow> int"
    unfolding opn open_reservations_def [of r]
    by (rule sum_list_filter_remove [OF ids x(1), where g = g and P = "\<lambda>e. get e ''event_id'' \<notin> set (rp_charged r)"])
      (use x in simp)
  have og: "\<forall>e \<in> set (open_reservations r'). grid_cost k (amount_of (get e ''cost_cny''))"
    using account_open(3) [OF a] unfolding opn open_reservations_def [of r] by auto
  have nn: "0 \<le> cost_units (open_reservations r')" by (rule cost_units_nonneg [OF og])
  have tot: "S + Y + cost_units (open_reservations r') \<le> M" using cu f(7) Y(3) by simp
  have sp: "rp_spent_cost r' = Fin (S + Y)"
    unfolding r'_def using fadd_grid [OF f(4) Y(1) _ f(3)] tot nn f Y grid_double [of k]
    by (simp del: fadd.simps)
  have "replay_cost r' = Fin (S + Y + cost_units (open_reservations r'))"
    by (rule replay_cost_grid [OF sp on_grid_add [OF f(4) Y(1)] _ og _ f(3)])
      (use tot f Y grid_double [of k] in simp_all)
  then have "\<not> flt (lc_max_cost c) (replay_cost r')" using tot by (simp add: f)
  moreover have "replay_calls r' \<le> lc_max_calls c"
    using le n cu [of "\<lambda>e. count_of (get e ''model_calls'')"] by (simp add: replay_calls_def) (simp add: r'_def)
  moreover have "JStr rid \<in> (\<lambda>x. get x ''event_id'') ` set (rp_reservations r)"
    by (rule image_eqI [OF _ x(1)]) (simp add: x(2))
  then have "replay_event s r = Inr r'"
    using s x(3) has_kind_unique [OF s(1)] by (simp add: replay_event_def r'_def)
  ultimately show ?thesis by (simp add: replay_step_eq_Inr)
qed

lemma ledger_reservations_distinct:
  assumes ok: "ledger_ok c d evs" and r: "replay_all c (tl evs) replay_start = Inr r"
  shows "distinct (map (\<lambda>e. get e ''event_id'') (rp_reservations r))"
proof -
  have "distinct (map (\<lambda>e. get e ''event_id'') (tl evs))"
    using ledger_ok_facts(4) [OF ok] by (cases evs) auto
  then have "distinct (map (\<lambda>e. get e ''event_id'') (reservations_of (tl evs)))"
    unfolding reservations_of_def by (induction "tl evs") (auto simp: distinct_map_filter)
  then show ?thesis using replay_all_fields [OF r] by (simp add: replay_start_def)
qed

section \<open>Admitted operations read back\<close>

lemma reserve_readable:
  assumes ok: "ledger_ok c d evs" and g: "grid_ledger k c evs" and x: "grid_cost k cost"
    and v: "\<not> blank rid" "finite_float cost" "\<not> flt cost fzero" "0 \<le> calls"
    and fresh: "event_known rid evs = None" and chk: "check_reserve c cost calls evs = Inr ()"
    and ids: "clean_ids c [rid]"
  shows "ledger_ok c (appended c (reservation_event c rid cost calls) evs d)
      (evs @ [stored_event (reservation_event c rid cost calls) evs])
     \<and> grid_ledger k c (evs @ [stored_event (reservation_event c rid cost calls) evs])"
proof -
  let ?e = "reservation_event c rid cost calls"
  let ?s = "stored_event ?e evs"
  obtain r M S where a: "account k c evs r M S" using ledger_account [OF ok g] by blast
  then have r: "replay_all c (tl evs) replay_start = Inr r" by (simp add: account_def)
  obtain X where X: "cost = Fin X" "on_grid k X" "0 \<le> X" "X < 2 ^ (k + 52)"
    using grid_cost_units [OF x] by blast
  have kind: "has_kind ''reservation'' ?s" by (simp add: has_kind_def reservation_event_get)
  have "\<exists>r'. replay_step c ?s r = Inr r'"
    by (rule reservation_replays [OF a X(2-4) kind _ _ _ event_known_fresh_charged [OF r ledger_ok_facts(1) [OF ok] fresh]
          check_reserve_exact [OF a X(2-4)]])
      (use chk in \<open>simp_all add: reservation_event_get X\<close>)
  then obtain r' where step: "replay_step c ?s r = Inr r'" ..
  have "ledger_ok c (appended c ?e evs d) (evs @ [?s])"
    by (rule appended_ok [OF ok r reservation_event_bare [OF v(2)]
          validate_stored_reservation [OF v ledger_ok_facts(2) [OF ok]] _ _ step])
      (use fresh ids in \<open>simp_all add: event_known_def reservation_event_get reservation_event_clean\<close>)
  moreover have "grid_event k ?s"
    using x has_kind_unique [OF kind] by (simp add: grid_event_def reservation_event_get)
  ultimately show ?thesis using g by (auto simp: grid_ledger_def)
qed

lemma charge_readable:
  assumes ok: "ledger_ok c d evs" and g: "grid_ledger k c evs" and x: "grid_cost k cost"
    and v: "\<not> blank rid" "\<not> blank result" "finite_float cost" "\<not> flt cost fzero" "0 \<le> calls"
    and fresh: "event_known result evs = None" and chk: "check_charge c rid cost calls evs = Inr ()"
    and cov: "\<forall>e \<in> set evs. has_kind ''reservation'' e \<and> get e ''event_id'' = JStr rid
        \<longrightarrow> units cost \<le> units (amount_of (get e ''cost_cny'')) \<and> calls \<le> count_of (get e ''model_calls'')"
    and ids: "clean_ids c [rid, result]"
  shows "ledger_ok c (appended c (charge_event c rid result cost calls) evs d)
      (evs @ [stored_event (charge_event c rid result cost calls) evs])
     \<and> grid_ledger k c (evs @ [stored_event (charge_event c rid result cost calls) evs])"
proof -
  let ?e = "charge_event c rid result cost calls"
  let ?s = "stored_event ?e evs"
  obtain r M S where a: "account k c evs r M S" using ledger_account [OF ok g] by blast
  then have r: "replay_all c (tl evs) replay_start = Inr r" by (simp add: account_def)
  obtain Y where Y: "cost = Fin Y" "on_grid k Y" "0 \<le> Y" "Y < 2 ^ (k + 52)"
    using grid_cost_units [OF x] by blast
  from check_charge_facts(1) [OF a ok chk] obtain x where x': "x \<in> set (rp_reservations r)" "get x ''event_id'' = JStr rid"
    by (auto simp: reserved_ids_def)
  then have xt: "x \<in> set (reservations_of (tl evs))"
    using replay_all_fields [OF r] by (simp add: replay_start_def)
  then have xe: "x \<in> set evs" "has_kind ''reservation'' x"
    using list.set_sel(2) [OF ledger_ok_facts(1) [OF ok]] by (auto simp: reservations_of_def)
  have "tl evs \<noteq> []" using xt by (auto simp: reservations_of_def)
  then have le: "replay_calls r \<le> lc_max_calls c" by (rule replay_all_last [OF r])
  have kind: "has_kind ''charge'' ?s" by (simp add: has_kind_def charge_event_get)
  have "\<exists>r'. replay_step c ?s r = Inr r'"
    by (rule charge_replays [OF a ledger_reservations_distinct [OF ok r] x' check_charge_facts(2) [OF a ok chk]
          Y(2,3) _ _ le kind])
      (use cov xe x' Y in \<open>auto simp: charge_event_get\<close>)
  then obtain r' where step: "replay_step c ?s r = Inr r'" ..
  have "ledger_ok c (appended c ?e evs d) (evs @ [?s])"
    by (rule appended_ok [OF ok r charge_event_bare [OF v(3)]
          validate_stored_charge [OF v ledger_ok_facts(2) [OF ok]] _ _ step])
      (use fresh ids in \<open>simp_all add: event_known_def charge_event_get charge_event_clean\<close>)
  moreover have "grid_event k ?s"
    using x has_kind_unique [OF kind] by (simp add: grid_event_def charge_event_get)
  ultimately show ?thesis using g by (auto simp: grid_ledger_def)
qed

text \<open>A charge whose calls, with what the other open reservations hold, pass the limit.\<close>

lemma overrun_unreadable:
  assumes ok: "ledger_ok c d evs" and run: "ledger_record c rid result cost calls d = (d', Inr True)"
    and snap: "ledger_snapshot_of c evs = Inr s"
    and x: "x \<in> set evs" "has_kind ''reservation'' x" "get x ''event_id'' = JStr rid"
    and over: "lc_max_calls c < bm_spent_calls s + calls + (bm_reserved_calls s - count_of (get x ''model_calls''))"
  shows "\<exists>m. read_log c d' = Inl (Err LedgerIntegrityError m)"
proof -
  let ?e = "charge_event c rid result cost calls"
  let ?s = "stored_event ?e evs"
  from ledger_record_new [OF ok run] have v: "\<not> blank rid" "\<not> blank result" "finite_float cost" "\<not> flt cost fzero" "0 \<le> calls"
    and fresh: "event_known result evs = None" and chk: "check_charge c rid cost calls evs = Inr ()"
    and d': "d' = appended c ?e evs d" by auto
  from ok have rl: "read_log c d = Inr evs" by (simp add: ledger_ok_def)
  obtain r where r: "replay_all c (tl evs) replay_start = Inr r" using read_log_facts(4) [OF rl] by blast
  have h: "validate_header c evs = Inr ()" by (rule ledger_ok_facts [OF ok])
  have "x \<in> set (filter (has_kind ''reservation'') evs)" using x by simp
  then have xr: "x \<in> set (rp_reservations r)"
    using replay_all_fields [OF r] kinds_tl [OF h, of "''reservation''"]
    by (simp add: replay_start_def reservations_of_def)
  from chk have "\<forall>e \<in> set evs. has_kind ''charge'' e \<longrightarrow> get e ''reservation_id'' \<noteq> JStr rid"
    by (auto simp: check_charge_def res_simps find_None_iff)
  then have nc: "JStr rid \<notin> set (rp_charged r)"
    using replay_all_fields [OF r] list.set_sel(2) [OF ledger_ok_facts(1) [OF ok]]
    by (auto simp: charges_of_def replay_start_def)
  define r' where "r' = r\<lparr>rp_charged := JStr rid # rp_charged r,
     rp_spent_cost := fadd (rp_spent_cost r) cost, rp_spent_calls := rp_spent_calls r + calls\<rparr>"
  have kind: "has_kind ''charge'' ?s" by (simp add: has_kind_def charge_event_get)
  have "JStr rid \<in> (\<lambda>x. get x ''event_id'') ` set (rp_reservations r)"
    by (rule image_eqI [OF _ xr]) (simp add: x(3))
  then have ev: "replay_event ?s r = Inr r'"
    using nc kind has_kind_unique [OF kind] by (simp add: replay_event_def r'_def charge_event_get)
  have opn: "open_reservations r' = filter (\<lambda>e. get e ''event_id'' \<notin> set (rp_charged r) \<and> get e ''event_id'' \<noteq> get x ''event_id'') (rp_reservations r)"
    by (auto simp: r'_def open_reservations_def x(3) intro!: filter_cong)
  have cu: "sum_list (map (\<lambda>e. count_of (get e ''model_calls'')) (open_reservations r'))
      = sum_list (map (\<lambda>e. count_of (get e ''model_calls'')) (open_reservations r)) - count_of (get x ''model_calls'')"
    unfolding opn open_reservations_def [of r]
    by (rule sum_list_filter_remove [OF ledger_reservations_distinct [OF ok r] xr,
          where P = "\<lambda>e. get e ''event_id'' \<notin> set (rp_charged r)"]) (use nc x in simp)
  from snap snapshot_of_replay [OF h r] over have "lc_max_calls c < replay_calls r'"
    by (auto simp: replay_calls_def cu) (simp add: r'_def)
  then have "\<exists>m. replay_step c ?s r = Inl (Err LedgerIntegrityError m)"
    by (cases "flt (lc_max_cost c) (replay_cost r')") (simp_all add: replay_step_def ev)
  then show ?thesis
    using read_log_appended [OF rl r charge_event_bare [OF v(3)]
        validate_stored_charge [OF v ledger_ok_facts(2) [OF ok]]] fresh
      read_log_broken [OF rl charge_event_bare [OF v(3), of c rid result calls]]
    by (cases "clean_event ?e") (auto simp: d' event_known_def charge_event_get)
qed

section \<open>Opening a ledger\<close>

definition empty_disk :: ledger_disk where
  "empty_disk = \<lparr>ld_log = None, ld_head = None, ld_locked = False\<rparr>"

definition config_ok :: "ledger_config \<Rightarrow> bool" where
  "config_ok c \<longleftrightarrow> \<not> blank (lc_campaign_id c) \<and> finite_float (lc_max_cost c)
     \<and> \<not> flt (lc_max_cost c) fzero \<and> 0 \<le> lc_max_calls c \<and> clean_ids c []"

lemma opened_event_get:
  "get (opened_event c) ''event_id'' = JStr ''ledger-open''"
  "get (opened_event c) ''kind'' = JStr ''opened''"
  "get (opened_event c) ''campaign_id'' = JStr (lc_campaign_id c)"
  "get (opened_event c) ''max_cost_cny'' = JFloat (lc_max_cost c)"
  "get (opened_event c) ''max_model_calls'' = JInt (lc_max_calls c)"
  by (simp_all add: opened_event_def get_jobj)

lemma opened_event_bare: "config_ok c \<Longrightarrow> bare_event (opened_event c)"
  by (simp add: config_ok_def bare_event_def opened_event_def fmlookup_of_list finite_fmupd)

lemma opened_event_clean: "clean_event (opened_event c) \<longleftrightarrow> clean_ids c []"
proof -
  have "has_break (json_text (JObj (opened_event c))) \<longleftrightarrow> has_break (lc_campaign_id c)"
    unfolding opened_event_def
    by (subst has_break_fields) (simp_all add: has_break_leaf breaks_line_def)
  then show ?thesis unfolding clean_event_def clean_ids_def by simp
qed

lemma previous_genesis: "is_digest (previous_sha256 [])"
  by (simp add: previous_sha256_def genesis_is_sha256)

lemma validate_stored_opened:
  assumes "config_ok c"
  shows "validate_event c (stored_event (opened_event c) []) = Inr ()"
proof -
  let ?e = "stored_event (opened_event c) []"
  have i: "item ?e ''event_id'' = Inr (JStr ''ledger-open'')" "item ?e ''kind'' = Inr (JStr ''opened'')"
    "item ?e ''campaign_id'' = Inr (JStr (lc_campaign_id c))" "item ?e ''max_cost_cny'' = Inr (JFloat (lc_max_cost c))"
    "item ?e ''max_model_calls'' = Inr (JInt (lc_max_calls c))" "item ?e ''sequence'' = Inr (JInt 0)"
    "item ?e ''previous_event_sha256'' = Inr (JStr genesis_sha256)"
    by (auto intro!: lookup_get simp: opened_event_get previous_sha256_def)
  have b: "\<not> blank ''ledger-open''" by (simp add: blank_def is_space_def)
  show ?thesis
    using assms by (simp add: validate_event_def with_item_def i b validate_event_id_def genesis_is_sha256
        validate_calls_def validate_amount_def violation_unless_def config_ok_def)
qed

lemma opened_ok:
  assumes c: "config_ok c"
  shows "ledger_open c empty_disk = (appended c (opened_event c) [] empty_disk, Inr ())
     \<and> ledger_ok c (appended c (opened_event c) [] empty_disk) [stored_event (opened_event c) []]"
proof
  let ?e = "opened_event c"
  let ?d = "empty_disk\<lparr>ld_locked := True\<rparr>"
  have "(appended c ?e [] ?d)\<lparr>ld_locked := False\<rparr> = appended c ?e [] empty_disk"
    by (simp add: appended_def append_line_def empty_disk_def)
  then show "ledger_open c empty_disk = (appended c ?e [] empty_disk, Inr ())"
    using c by (simp add: ledger_open_def ledger_initialize_def with_lease_def
        append_event_appended [OF opened_event_bare [OF c] previous_genesis] config_ok_def
        validate_amount_def validate_calls_def violation_unless_def) (simp add: empty_disk_def)
  have "written_line (stored_event ?e []) = Parsed (JObj (stored_event ?e []))"
    by (rule written_line_clean) (use c clean_stored [OF opened_event_bare [OF c] previous_genesis] in
      \<open>simp add: opened_event_clean config_ok_def\<close>)
  then have line: "read_lines c [] [written_line (stored_event ?e [])] = Inr [stored_event ?e []]"
    using read_line_stored [OF opened_event_bare [OF c] previous_genesis validate_stored_opened [OF c]] by simp
  have "read_log c (appended c ?e [] empty_disk) = Inr [stored_event ?e []]"
    using line by (simp add: read_log_def appended_def append_line_def empty_disk_def validate_replay_def
        validate_header_def opened_event_get has_kind_def)
  then show "ledger_ok c (appended c ?e [] empty_disk) [stored_event ?e []]"
    using head_current_appended [of c "[]" ?e empty_disk]
    by (simp add: ledger_ok_def appended_def append_line_def empty_disk_def)
qed

section \<open>A worked ledger\<close>

text \<open>Two model calls authorized, no cost; two reservations of one call each.\<close>

definition demo_config :: ledger_config where
  "demo_config = \<lparr>lc_campaign_id = ''c1'', lc_max_cost = fzero, lc_max_calls = 2\<rparr>"

definition demo_e0 :: dict where "demo_e0 = stored_event (opened_event demo_config) []"
definition demo_e1 :: dict where "demo_e1 = stored_event (reservation_event demo_config ''r1'' fzero 1) [demo_e0]"
definition demo_e2 :: dict where
  "demo_e2 = stored_event (reservation_event demo_config ''r2'' fzero 1) [demo_e0, demo_e1]"

definition demo_d0 :: ledger_disk where "demo_d0 = appended demo_config (opened_event demo_config) [] empty_disk"
definition demo_d1 :: ledger_disk where
  "demo_d1 = appended demo_config (reservation_event demo_config ''r1'' fzero 1) [demo_e0] demo_d0"
definition demo_d2 :: ledger_disk where
  "demo_d2 = appended demo_config (reservation_event demo_config ''r2'' fzero 1) [demo_e0, demo_e1] demo_d1"

lemma blank_demo [simp]: "\<not> blank ''c1''" "\<not> blank ''r1''" "\<not> blank ''r2''" "\<not> blank ''x1''" "\<not> blank ''x2''"
  by (simp_all add: blank_def is_space_def)

lemma clean_demo [simp]: "clean_ids demo_config [''r1'']" "clean_ids demo_config [''r2'']" "clean_ids demo_config [''r1'', ''x1'']"
  by (simp_all add: clean_ids_def demo_config_def breaks_line_def)

lemmas demo_defs = demo_e0_def demo_e1_def demo_e2_def opened_event_get reservation_event_get
  has_kind_def demo_config_def ledger_snapshot_of_def validate_header_def Let_def

lemma demo_0: "ledger_ok demo_config demo_d0 [demo_e0]" "grid_ledger 0 demo_config [demo_e0]"
proof -
  have "config_ok demo_config" by (simp add: config_ok_def demo_config_def clean_ids_def breaks_line_def)
  from opened_ok [OF this] show "ledger_ok demo_config demo_d0 [demo_e0]"
    by (simp add: demo_d0_def demo_e0_def)
  show "grid_ledger 0 demo_config [demo_e0]"
    by (simp add: grid_ledger_def grid_event_def demo_defs)
qed

lemma demo_checks:
  "event_known ''r1'' [demo_e0] = None" "check_reserve demo_config fzero 1 [demo_e0] = Inr ()"
  "event_known ''r2'' [demo_e0, demo_e1] = None" "check_reserve demo_config fzero 1 [demo_e0, demo_e1] = Inr ()"
  by (simp_all add: event_known_def check_reserve_def demo_defs)

lemma demo_1: "ledger_ok demo_config demo_d1 [demo_e0, demo_e1]" "grid_ledger 0 demo_config [demo_e0, demo_e1]"
  using reserve_readable [OF demo_0 grid_zero blank_demo(2), of 1] demo_checks
  by (simp_all add: demo_d1_def demo_e1_def)

lemma demo_2: "ledger_ok demo_config demo_d2 [demo_e0, demo_e1, demo_e2]"
  "grid_ledger 0 demo_config [demo_e0, demo_e1, demo_e2]"
  using reserve_readable [OF demo_1 grid_zero blank_demo(3), of 1] demo_checks
  by (simp_all add: demo_d2_def demo_e2_def)

lemma reserve_run:
  assumes ok: "ledger_ok c d evs" and v: "\<not> blank rid" "finite_float cost" "\<not> flt cost fzero" "0 \<le> calls"
    and fresh: "event_known rid evs = None" and chk: "check_reserve c cost calls evs = Inr ()"
  shows "ledger_reserve c rid cost calls d = (appended c (reservation_event c rid cost calls) evs d, Inr True)"
proof -
  have "find (\<lambda>x. get x ''event_id'' = get (reservation_event c rid cost calls) ''event_id'') evs = None"
    using fresh by (simp add: event_known_def reservation_event_get)
  from append_mutation_new [where validate = "check_reserve c cost calls",
      OF ok reservation_event_bare [OF v(2)] this chk] v
  show ?thesis
    by (simp add: ledger_reserve_def validate_event_id_def validate_amount_def validate_calls_def violation_unless_def)
qed

lemma record_run:
  assumes ok: "ledger_ok c d evs" and v: "\<not> blank rid" "\<not> blank result" "finite_float cost" "\<not> flt cost fzero" "0 \<le> calls"
    and fresh: "event_known result evs = None" and chk: "check_charge c rid cost calls evs = Inr ()"
  shows "ledger_record c rid result cost calls d = (appended c (charge_event c rid result cost calls) evs d, Inr True)"
proof -
  have "find (\<lambda>x. get x ''event_id'' = get (charge_event c rid result cost calls) ''event_id'') evs = None"
    using fresh by (simp add: event_known_def charge_event_get)
  from append_mutation_new [where validate = "check_charge c rid cost calls",
      OF ok charge_event_bare [OF v(3)] this chk] v
  show ?thesis
    by (simp add: ledger_record_def validate_event_id_def validate_amount_def validate_calls_def violation_unless_def)
qed

lemma reserve_known:
  assumes ok: "ledger_ok c d evs" and v: "\<not> blank rid" "finite_float cost" "\<not> flt cost fzero" "0 \<le> calls"
    and known: "event_known rid evs = Some p"
  shows "ledger_reserve c rid cost calls d =
    (d, if py_eq (JObj (event_facts p)) (JObj (reservation_event c rid cost calls)) then Inr False
        else Inl (Err LedgerConflict ''conflicting immutable ledger event''))"
proof -
  have "find (\<lambda>x. get x ''event_id'' = get (reservation_event c rid cost calls) ''event_id'') evs = Some p"
    using known by (simp add: event_known_def reservation_event_get)
  from append_mutation_replay [OF ok this, of "check_reserve c cost calls"] v
  show ?thesis
    by (simp add: ledger_reserve_def validate_event_id_def validate_amount_def validate_calls_def violation_unless_def)
qed

interpretation lg: hash_chain "\<lambda>e. JObj (fmdrop ''event_sha256'' e)" "\<lambda>e. fmlookup e ''event_sha256''"
  "\<lambda>e. fmlookup e ''previous_event_sha256''" "Some (JStr genesis_sha256)"
  by unfold_locales (fact object_entry_eq)+

lemma read_lines_chain: "read_lines c evs ls = Inr es \<Longrightarrow> lg.valid evs \<Longrightarrow> lg.valid es"
proof (induction ls arbitrary: evs)
  case Nil
  then show ?case by simp
next
  case (Cons l ls)
  then obtain e where e: "read_line c evs l = Inr e" "read_lines c (evs @ [e]) ls = Inr es"
    by (auto simp: res_simps)
  then obtain h where h: "is_digest (get e ''event_sha256'')" "h = digest (JObj (fmdrop ''event_sha256'' e))"
    "get e ''event_sha256'' = JStr h" "get e ''previous_event_sha256'' = previous_sha256 evs"
    by (auto simp: read_line_def res_simps event_sha256_def split: log_line.splits json.splits)
  have s: "lg.sealed e" using h by (simp add: lg.sealed_def get_JStr)
  have "fmlookup e ''previous_event_sha256'' = lg.head evs"
  proof (cases "evs = []")
    case True
    with h(4) show ?thesis by (simp add: previous_sha256_def lg.head_def get_JStr)
  next
    case False
    then obtain zs z where z: "evs = zs @ [z]" by (metis rev_exhaust)
    with Cons.prems(2) have "lg.sealed z" by (simp add: lg.valid_snoc)
    then have "fmlookup z ''event_sha256'' = Some (JStr (digest (JObj (fmdrop ''event_sha256'' z))))"
      by (simp add: lg.sealed_def)
    with h(4) z show ?thesis by (simp add: previous_sha256_def lg.head_def get_JStr get_def [of z])
  qed
  then have "lg.valid (evs @ [e])" using Cons.prems(2) s by (simp add: lg.valid_snoc)
  with Cons.IH e(2) show ?case by blast
qed

lemma read_log_chain: "read_log c d = Inr evs \<Longrightarrow> lg.valid evs"
  by (auto simp: read_log_def res_simps split: option.splits dest!: read_lines_chain)

end
