(* ===== verification/Ledger_Claims.thy ===== *)
theory Ledger_Claims
  imports Ledger_Properties
begin

text \<open>
  The properties of the two spending authorities, \<open>BudgetManager\<close> and
  \<open>DurableCostLedger\<close>, each with an instance on a concrete run.
\<close>

section \<open>BudgetManager\<close>

text \<open>
  C9: Whatever sequence of reservations and reconciliations a caller issues, accepted or
  refused, the manager's limits do not change, the spent cost is never above its limit and
  the spent model calls never above theirs.
\<close>

theorem budget_spent_bounded:
  "bm_max_cost (budget_run ops (budget_new m n)) = m \<and> bm_max_calls (budget_run ops (budget_new m n)) = n
     \<and> (\<not> flt m fzero \<and> 0 \<le> n \<longrightarrow>
          \<not> flt m (bm_spent_cost (budget_run ops (budget_new m n)))
          \<and> bm_spent_calls (budget_run ops (budget_new m n)) \<le> n)"
proof -
  let ?b = "budget_new m n"
  have l: "(bm_max_cost (budget_run ops ?b), bm_max_calls (budget_run ops ?b)) = (m, n)"
    using bm.charges_limit [of ops ?b] by (simp add: budget_run_charges budget_new_def)
  have w: "\<not> flt m fzero \<and> 0 \<le> n \<Longrightarrow> spent_within (budget_run ops ?b)"
    unfolding budget_run_charges by (rule bm.charges_within) (simp add: spent_within_def budget_new_def)
  from l w show ?thesis by (auto simp: spent_within_def)
qed

lemma budget_spent_bounded_witness:
  "bm_spent_calls (budget_run [Reserve fzero 2, Record fzero 2 fzero 1] (budget_new fzero 3)) \<le> 3"
  using budget_spent_bounded [of "[Reserve fzero 2, Record fzero 2 fzero 1]" fzero 3] by simp

text \<open>
  When every reconciliation stays within its reservation and all amounts lie on one
  binary grid, spent and reserved together never pass either limit, after any sequence of
  operations, so no authorized campaign can be committed beyond its authorization.
\<close>

theorem budget_commitments_bounded:
  assumes "k \<le> 2045" and "grid_cost k m" and "0 \<le> n"
    and "\<forall>a \<in> set ops. covered a \<and> (\<forall>x \<in> set (op_costs a). grid_cost k x)"
  shows "let b = budget_run ops (budget_new m n) in
     units (bm_spent_cost b) + units (bm_reserved_cost b) \<le> units m
     \<and> bm_spent_calls b + bm_reserved_calls b \<le> n"
proof -
  have step: "cost_within k b' \<and> calls_within b'"
    if "budget_step a b = Inr b'" "cost_within k b \<and> calls_within b" "a \<in> set ops" for a b b'
  proof -
    from that(3) assms(4) have c: "covered a" "\<forall>x \<in> set (op_costs a). grid_cost k x" by auto
    have "cost_within k b'"
    proof (cases a)
      case (Reserve x i)
      with that c show ?thesis by (auto intro: budget_reserve_cost_within [OF _ _ _ assms(1)])
    next
      case (Record rc rn x i)
      with that c have r: "cost_within k b" "budget_record rc rn x i b = Inr b'" "grid_cost k rc"
        "grid_cost k x" "fle x rc" by simp_all
      show ?thesis by (rule budget_record_cost_within [OF r assms(1)])
    qed
    moreover from that budget_step_calls_within [of b a b'] c(1) have "calls_within b'" by simp
    ultimately show ?thesis ..
  qed
  have run: "cost_within k (bm.charges as b) \<and> calls_within (bm.charges as b)"
    if "set as \<subseteq> set ops" "cost_within k b \<and> calls_within b" for as b
    using that
  proof (induction as arbitrary: b)
    case Nil
    then show ?case by simp
  next
    case (Cons a as)
    then show ?case using step [of a b] by (cases "budget_step a b") auto
  qed
  have "cost_within k (budget_new m n) \<and> calls_within (budget_new m n)"
    using assms(2,3) grid_cost_units [OF assms(2)]
    by (auto simp: cost_within_def calls_within_def budget_new_def fzero_def grid_cost_def)
  with run [of ops] have r: "cost_within k (budget_run ops (budget_new m n))" "calls_within (budget_run ops (budget_new m n))"
    by (simp_all add: budget_run_charges)
  have l: "bm_max_cost (budget_run ops (budget_new m n)) = m" "bm_max_calls (budget_run ops (budget_new m n)) = n"
    using bm.charges_limit [of ops "budget_new m n"] by (simp_all add: budget_run_charges budget_new_def)
  show ?thesis using r l by (simp add: cost_within_def calls_within_def Let_def)
qed

lemma grid_dyadic: "0 \<le> m \<Longrightarrow> m < 2 ^ 52 \<Longrightarrow> e + 1014 = k \<Longrightarrow> grid_cost k (dyadic m e)"
proof -
  assume m: "0 \<le> m" "m < 2 ^ 52" and e: "e + 1014 = k"
  have "m * 2 ^ k < 2 ^ 52 * 2 ^ k" using m(2) by (rule mult_strict_right_mono) simp
  also have "\<dots> = (2::int) ^ (k + 52)" by (simp only: power_add mult.commute)
  finally show ?thesis using m(1) unfolding dyadic_def e by (simp add: grid_cost_def on_grid_def)
qed

lemma budget_commitments_bounded_witness:
  "let b = budget_run [Reserve (dyadic 1 60) 2, Record (dyadic 1 60) 1 (dyadic 1 60) 1] (budget_new (dyadic 2 60) 3)
   in units (bm_spent_cost b) + units (bm_reserved_cost b) \<le> units (dyadic 2 60)
     \<and> bm_spent_calls b + bm_reserved_calls b \<le> 3"
proof (rule budget_commitments_bounded [of 1074])
  have g: "grid_cost 1074 (dyadic 1 60)" "grid_cost 1074 (dyadic 2 60)"
    by (rule grid_dyadic; simp)+
  then show "grid_cost 1074 (dyadic 2 60)" by simp
  show "\<forall>a \<in> set [Reserve (dyadic 1 60) 2, Record (dyadic 1 60) 1 (dyadic 1 60) 1].
      covered a \<and> (\<forall>x \<in> set (op_costs a). grid_cost 1074 x)"
    using g by (simp add: fle_def dyadic_def)
qed simp_all

section \<open>DurableCostLedger\<close>

text \<open>
  C4: When the costs lie on one binary grid, an admitted reservation whose id and campaign id contain no
  U+0085 leaves a ledger at rest whose log reads back as the old events followed by the reservation,
  again on the grid; with a U+0085 in one of the two ids it leaves a log that no later operation reads.
\<close>

theorem reserve_keeps_ledger_readable:
  assumes "ledger_ok c d evs" and "grid_ledger k c evs" and "grid_cost k cost"
    and "ledger_reserve c rid cost calls d = (d', Inr True)"
  shows "if clean_ids c [rid]
     then \<exists>e. ledger_ok c d' (evs @ [e]) \<and> event_facts e = reservation_event c rid cost calls
       \<and> grid_ledger k c (evs @ [e])
     else \<forall>recover held. read_events c recover held d'
       = (d', Inl (Err LedgerIntegrityError ''invalid cost ledger event''))"
proof (cases "clean_ids c [rid]")
  case True
  note new = ledger_reserve_new [OF assms(1,4)]
  let ?e = "stored_event (reservation_event c rid cost calls) evs"
  have "ledger_ok c d' (evs @ [?e]) \<and> grid_ledger k c (evs @ [?e])"
    using new reserve_readable [OF assms(1-3), of rid calls] True by blast
  moreover have "event_facts ?e = reservation_event c rid cost calls"
    using new by (intro stored_event_facts reservation_event_bare) simp
  ultimately show ?thesis using True by auto
next
  case False
  have "read_log c d = Inr evs" using assms(1) by (simp add: ledger_ok_def)
  with False ledger_reserve_new [OF assms(1,4)] read_log_broken [of c d evs "reservation_event c rid cost calls"]
  have "read_log c d' = Inl (Err LedgerIntegrityError ''invalid cost ledger event'')"
    by (simp add: reservation_event_clean reservation_event_bare)
  with False show ?thesis by (simp add: read_events_Inl)
qed

lemma reserve_keeps_ledger_readable_witness:
  "\<exists>e. ledger_ok demo_config demo_d2 ([demo_e0, demo_e1] @ [e])
     \<and> event_facts e = reservation_event demo_config ''r2'' fzero 1
     \<and> grid_ledger 0 demo_config ([demo_e0, demo_e1] @ [e])"
proof -
  have "ledger_reserve demo_config ''r2'' fzero 1 demo_d1 = (demo_d2, Inr True)"
    using reserve_run [OF demo_1(1) blank_demo(3), of fzero 1] demo_checks by (simp add: demo_d2_def)
  from reserve_keeps_ledger_readable [OF demo_1 grid_zero this] show ?thesis by simp
qed

text \<open>
  On a grid of costs, an admitted charge that stays within its reservation, in cost and
  in model calls, leaves a ledger at rest whose log reads back with the charge at its end.
\<close>

theorem covered_charge_keeps_ledger_readable:
  assumes "ledger_ok c d evs" and "grid_ledger k c evs" and "grid_cost k cost"
    and "ledger_record c rid result cost calls d = (d', Inr True)"
    and "\<forall>e \<in> set evs. has_kind ''reservation'' e \<and> get e ''event_id'' = JStr rid
        \<longrightarrow> units cost \<le> units (amount_of (get e ''cost_cny'')) \<and> calls \<le> count_of (get e ''model_calls'')"
    and "clean_ids c [rid, result]"
  shows "\<exists>e. ledger_ok c d' (evs @ [e]) \<and> event_facts e = charge_event c rid result cost calls
     \<and> grid_ledger k c (evs @ [e])"
  using ledger_record_new [OF assms(1,4)] charge_readable [OF assms(1-3) _ _ _ _ _ _ _ assms(5,6)]
    stored_event_facts [OF charge_event_bare] by blast

lemma demo_charge:
  "ledger_record demo_config ''r1'' ''x1'' fzero n demo_d2 =
     (appended demo_config (charge_event demo_config ''r1'' ''x1'' fzero n) [demo_e0, demo_e1, demo_e2] demo_d2, Inr True)"
  if "0 \<le> n" "n \<le> 2"
  by (rule record_run [OF demo_2(1) blank_demo(2,4)])
    (use that in \<open>simp_all add: event_known_def check_charge_def demo_defs\<close>)

lemma covered_charge_keeps_ledger_readable_witness:
  "\<exists>e. ledger_ok demo_config (fst (ledger_record demo_config ''r1'' ''x1'' fzero 1 demo_d2)) ([demo_e0, demo_e1, demo_e2] @ [e])
     \<and> event_facts e = charge_event demo_config ''r1'' ''x1'' fzero 1
     \<and> grid_ledger 0 demo_config ([demo_e0, demo_e1, demo_e2] @ [e])"
  by (rule covered_charge_keeps_ledger_readable [OF demo_2 grid_zero _ _ clean_demo(3)])
    (use demo_charge [of 1] in \<open>simp_all add: demo_defs fzero_def\<close>)

text \<open>
  C5: A charge that \<open>record\<close> admits, but whose model calls together with the calls the other
  open reservations hold pass the authorization, leaves a ledger that no later operation
  can read: reading the log back is an integrity error.
\<close>

theorem overrun_charge_bricks_ledger:
  assumes "ledger_ok c d evs" and "ledger_record c rid result cost calls d = (d', Inr True)"
    and "ledger_snapshot_of c evs = Inr s"
    and "x \<in> set evs" and "has_kind ''reservation'' x" and "get x ''event_id'' = JStr rid"
    and "lc_max_calls c < bm_spent_calls s + calls + (bm_reserved_calls s - count_of (get x ''model_calls''))"
  shows "\<exists>m. \<forall>recover held. read_events c recover held d' = (d', Inl (Err LedgerIntegrityError m))"
  using overrun_unreadable [OF assms] by (auto intro: read_events_Inl)

lemma overrun_charge_bricks_ledger_witness:
  "snd (ledger_record demo_config ''r1'' ''x1'' fzero 2 demo_d2) = Inr True
   \<and> (\<exists>m. \<forall>recover held. read_events demo_config recover held (fst (ledger_record demo_config ''r1'' ''x1'' fzero 2 demo_d2))
        = (fst (ledger_record demo_config ''r1'' ''x1'' fzero 2 demo_d2), Inl (Err LedgerIntegrityError m)))"
proof
  show "snd (ledger_record demo_config ''r1'' ''x1'' fzero 2 demo_d2) = Inr True"
    using demo_charge [of 2] by simp
  show "\<exists>m. \<forall>recover held. read_events demo_config recover held (fst (ledger_record demo_config ''r1'' ''x1'' fzero 2 demo_d2))
        = (fst (ledger_record demo_config ''r1'' ''x1'' fzero 2 demo_d2), Inl (Err LedgerIntegrityError m))"
    by (rule overrun_charge_bricks_ledger [OF demo_2(1), where rid = "''r1''" and x = demo_e1 and calls = 2 and
          s = "\<lparr>bm_max_cost = fzero, bm_max_calls = 2, bm_reserved_cost = fzero, bm_reserved_calls = 2,
            bm_spent_cost = fzero, bm_spent_calls = 0\<rparr>"])
      (use demo_charge [of 2] in \<open>simp_all add: demo_defs\<close>)
qed

subsection \<open>Dispatch at most once\<close>

text \<open>What \<open>dispatch_once\<close> returns when it did not run the caller's dispatch.\<close>

definition suppressed :: "(bool \<times> 'r option) res \<Rightarrow> bool" where
  "suppressed r \<longleftrightarrow> r = Inr (False, None) \<or> (\<exists>x. r = Inl x)"

lemma reserve_logged:
  assumes "\<And>es. read_log c D = Inr es \<Longrightarrow> \<exists>x \<in> set es. get x ''event_id'' = JStr rid"
  shows "snd (ledger_reserve c rid cost calls D) \<noteq> Inr True"
proof
  assume "snd (ledger_reserve c rid cost calls D) = Inr True"
  then obtain D' where run: "ledger_reserve c rid cost calls D = (D', Inr True)" by (metis prod.collapse)
  then obtain es where es: "read_log c D = Inr es"
    and "find (\<lambda>x. get x ''event_id'' = JStr rid) es = None"
    by (auto simp: ledger_reserve_def append_mutation_def with_lease_def read_events_def obind_eq_Inr olift_def
        reservation_event_get raise_def split: if_splits option.splits prod.splits)
  with assms [OF es] show False by (auto simp: find_None_iff)
qed

lemma dispatch_suppressed:
  assumes "snd (ledger_reserve c rid cost calls D) \<noteq> Inr True"
  shows "\<exists>D' r. suppressed r \<and> (\<forall>dispatch w. dispatch_once c rid cost calls dispatch (D, w) = ((D', w), r))"
proof (cases "ledger_reserve c rid cost calls D")
  case (Pair D' r)
  show ?thesis
  proof (cases r)
    case (Inl x)
    then show ?thesis
      by (intro exI [of _ D'] exI [of _ "Inl x"]) (simp add: Pair dispatch_once_def suppressed_def)
  next
    case (Inr b)
    with assms Pair have "\<not> b" by simp
    with Inr show ?thesis
      by (intro exI [of _ D'] exI [of _ "Inr (False, None)"]) (simp add: Pair dispatch_once_def suppressed_def)
  qed
qed

text \<open>As long as the log is only appended to, whoever reads it finds the event or cannot read it.\<close>

lemma read_log_extended:
  assumes "ld_log D = Some g" and "lf_lines g = ls @ written_line e # added" and "read_log c D = Inr es"
  shows "e \<in> set es"
proof -
  have split: "read_lines c evs (xs @ ys) = bind (read_lines c evs xs) (\<lambda>es. read_lines c es ys)" for evs xs ys
    by (induction xs arbitrary: evs) (auto simp: bind_def split: sum.splits)
  from assms have "read_lines c [] (ls @ written_line e # added) = Inr es"
    by (auto simp: read_log_def res_simps)
  then obtain es0 x where x: "read_line c es0 (written_line e) = Inr x" "read_lines c (es0 @ [x]) added = Inr es"
    by (auto simp: split res_simps)
  from x(1) have "x = e"
    by (cases "clean_event e") (auto simp: written_line_clean written_line_broken read_line_def res_simps)
  with read_lines_facts [OF x(2)] show ?thesis by auto
qed

text \<open>
  C1: On a ledger at rest, \<open>dispatch_once\<close> either does not run the caller's dispatch and leaves the disk as it
  is, whatever the dispatch; or it first appends the reservation to the log and then runs the dispatch
  once, passing on its result or its exception.  From then on, as long as lines are only appended to that log,
  and whatever else happens to the disk (other writers, a head that lags or is lost, a held lock, a
  reservation that cannot be read back), no further call with that reservation id, for whatever amounts,
  runs a dispatch: it returns \<open>(False, None)\<close> or raises; and on every later ledger at rest that holds the
  reservation the same call returns \<open>(False, None)\<close> and changes nothing.
\<close>

theorem dispatch_at_most_once:
  assumes "ledger_ok c d evs"
  shows "(\<exists>r :: (bool \<times> 'r option) res. suppressed r
        \<and> (\<forall>dispatch (w :: 'w). dispatch_once c rid cost calls dispatch (d, w) = ((d, w), r)))
   \<or> (\<exists>d' f f' e. ld_log d = Some f \<and> ld_log d' = Some f' \<and> lf_lines f' = lf_lines f @ [written_line e]
        \<and> event_facts e = reservation_event c rid cost calls
        \<and> (\<forall>dispatch (w :: 'w). dispatch_once c rid cost calls dispatch (d, w)
             = obind dispatch (\<lambda>x :: 'r. oreturn (True, Some x)) (d', w))
        \<and> (\<forall>D g added cost' calls'. ld_log D = Some g \<and> lf_lines g = lf_lines f' @ added
             \<longrightarrow> (\<exists>D' (r :: (bool \<times> 'r option) res). suppressed r
                  \<and> (\<forall>again (w :: 'w). dispatch_once c rid cost' calls' again (D, w) = ((D', w), r))))
        \<and> (\<forall>D evs'. ledger_ok c D evs' \<and> e \<in> set evs'
             \<longrightarrow> (\<forall>again (w :: 'w). dispatch_once c rid cost calls again (D, w)
                  = ((D, w), Inr (False, None :: 'r option)))))"
proof (cases "ledger_reserve c rid cost calls d = (fst (ledger_reserve c rid cost calls d), Inr True)")
  case False
  then have n: "snd (ledger_reserve c rid cost calls d) \<noteq> Inr True" by (metis prod.collapse)
  from reserve_unchanged [OF assms this] have u: "fst (ledger_reserve c rid cost calls d) = d" .
  from dispatch_suppressed [OF n] obtain D' and r :: "(bool \<times> 'r option) res" where r: "suppressed r"
    "\<forall>dispatch (w :: 'w). dispatch_once c rid cost calls dispatch (d, w) = ((D', w), r)" by blast
  have "D' = d"
  proof -
    have "fst (fst (dispatch_once c rid cost calls (\<lambda>s. (s, undefined)) (d, undefined :: 'w))) = d" if "\<not> b"
      "ledger_reserve c rid cost calls d = (d, Inr b)" for b
      using that by (simp add: dispatch_once_def)
    then show ?thesis using r(2) n u
      by (cases "ledger_reserve c rid cost calls d"; cases "snd (ledger_reserve c rid cost calls d)")
        (auto simp: dispatch_once_def)
  qed
  with r show ?thesis by blast
next
  case True
  then obtain d' where run: "ledger_reserve c rid cost calls d = (d', Inr True)" by blast
  note new = ledger_reserve_new [OF assms run]
  let ?e = "stored_event (reservation_event c rid cost calls) evs"
  have fe: "event_facts ?e = reservation_event c rid cost calls"
    using new by (intro stored_event_facts reservation_event_bare) simp
  have id: "get ?e ''event_id'' = JStr rid" by (simp add: reservation_event_get)
  from assms obtain f where f: "ld_log d = Some f" by (auto simp: ledger_ok_def read_log_def split: option.splits)
  obtain f' where f': "ld_log d' = Some f'" "lf_lines f' = lf_lines f @ [written_line ?e]"
    using new f by (auto simp: appended_def append_line_def)
  have once: "dispatch_once c rid cost calls dispatch (d, w) = obind dispatch (\<lambda>x. oreturn (True, Some x)) (d', w)"
    for dispatch :: "(ledger_disk \<times> 'w, 'r) op" and w
    by (simp add: dispatch_once_def run)
  have later: "\<exists>D' (r :: (bool \<times> 'r option) res). suppressed r
      \<and> (\<forall>again (w :: 'w). dispatch_once c rid cost' calls' again (D, w) = ((D', w), r))"
    if "ld_log D = Some g" "lf_lines g = lf_lines f' @ added" for D g added cost' calls'
  proof (rule dispatch_suppressed [OF reserve_logged])
    fix es assume "read_log c D = Inr es"
    then have "?e \<in> set es" by (rule read_log_extended [OF that(1), rotated]) (use that(2) f'(2) in simp)
    then show "\<exists>x \<in> set es. get x ''event_id'' = JStr rid" using id by blast
  qed
  have rest: "dispatch_once c rid cost calls again (D, w) = ((D, w), Inr (False, None))"
    if "ledger_ok c D evs'" "?e \<in> set evs'" for D evs' and again :: "(ledger_disk \<times> 'w, 'r) op" and w
  proof -
    have "event_known rid evs' = Some ?e"
      using find_distinct [OF ledger_ok_facts(4) [OF that(1)] that(2)] by (simp add: event_known_def id)
    with reserve_known [OF that(1)] new fe have "ledger_reserve c rid cost calls D = (D, Inr False)" by simp
    then show ?thesis by (simp add: dispatch_once_def)
  qed
  show ?thesis
    by (rule disjI2, rule exI [of _ d'], rule exI [of _ f], rule exI [of _ f'], rule exI [of _ ?e], intro conjI allI impI)
      (fact f, fact f'(1), fact f'(2), fact fe, fact once, (erule conjE, fact later), (erule conjE, fact rest))
qed

lemma dispatch_at_most_once_witness:
  "\<exists>d' f f' e. ld_log demo_d0 = Some f \<and> ld_log d' = Some f' \<and> lf_lines f' = lf_lines f @ [written_line e]
     \<and> event_facts e = reservation_event demo_config ''r1'' fzero 1
     \<and> dispatch_once demo_config ''r1'' fzero 1 (\<lambda>(l, n). ((l, n + 1), Inr n)) (demo_d0, 5 :: nat) = ((d', 6), Inr (True, Some (5 :: nat)))
     \<and> (\<forall>D g added. ld_log D = Some g \<and> lf_lines g = lf_lines f' @ added \<longrightarrow>
          (\<exists>D' (r :: (bool \<times> nat option) res). suppressed r \<and> (\<forall>again (w :: nat). dispatch_once demo_config ''r1'' fzero 2 again (D, w) = ((D', w), r))))"
proof -
  have "ledger_reserve demo_config ''r1'' fzero 1 demo_d0 = (demo_d1, Inr True)"
    using reserve_run [OF demo_0(1) blank_demo(2), of fzero 1] demo_checks by (simp add: demo_d1_def)
  then have "\<not> (\<exists>r :: (bool \<times> nat option) res. suppressed r \<and> (\<forall>dispatch (w :: nat).
      dispatch_once demo_config ''r1'' fzero 1 dispatch (demo_d0, w) = ((demo_d0, w), r)))"
    by (auto simp: dispatch_once_def suppressed_def dest!: spec [of _ "\<lambda>s. (s, Inr 0)"] split: prod.splits)
      (simp add: obind_def oreturn_def)+
  note none = this
  from dispatch_at_most_once [where 'r = nat and 'w = nat, OF demo_0(1), of "''r1''" fzero 1] show ?thesis
  proof (elim disjE exE conjE, goal_cases)
    case (1 r)
    with none show ?case by blast
  next
    case (2 d' f f' e)
    have run: "dispatch_once demo_config ''r1'' fzero 1 (\<lambda>(l, n). ((l, n + 1), Inr n)) (demo_d0, 5 :: nat) = ((d', 6), Inr (True, Some (5 :: nat)))"
      by (simp add: 2(5) obind_def oreturn_def)
    show ?case
      by (rule exI [of _ d'], rule exI [of _ f], rule exI [of _ f'], rule exI [of _ e], intro conjI allI impI)
        (fact 2(1-4) run | rule 2(6) [rule_format])+
  qed
qed

subsection \<open>A crash between the append and the head\<close>



text \<open>
  C3: Two ledgers that both read, of the same length and with the same last event hash, hold
  the same events, or exhibit two different event bodies with one SHA-256.
\<close>

theorem ledger_tamper_evident:
  assumes "read_log c d = Inr xs" and "read_log c' d' = Inr ys" and "length xs = length ys"
    and "get (last xs) ''event_sha256'' = get (last ys) ''event_sha256''"
  shows "xs = ys \<or> (\<exists>i < length xs. fmdrop ''event_sha256'' (xs ! i) \<noteq> fmdrop ''event_sha256'' (ys ! i)
     \<and> digest (JObj (fmdrop ''event_sha256'' (xs ! i))) = digest (JObj (fmdrop ''event_sha256'' (ys ! i))))"
proof -
  have v: "lg.valid xs" "lg.valid ys" using assms read_log_chain by blast+
  have ne: "xs \<noteq> []" "ys \<noteq> []" using read_log_facts(1) assms(1,2) by blast+
  have sealed: "\<exists>h. get (last zs) ''event_sha256'' = JStr h" if "lg.valid zs" "zs \<noteq> []" for zs
    using that by (cases zs rule: rev_cases) (auto simp: lg.valid_snoc lg.sealed_def get_JStr)
  obtain h where h: "get (last xs) ''event_sha256'' = JStr h" using sealed [OF v(1) ne(1)] by blast
  with assms(4) have "get (last ys) ''event_sha256'' = JStr h" by simp
  with h ne have "lg.head xs = lg.head ys" by (simp add: lg.head_def get_JStr)
  then show ?thesis
    using lg.tamper_evident [OF v assms(3)] assms(3) by (auto simp: lg.collision_def)
qed

lemma ledger_tamper_evident_witness:
  "[demo_e0, demo_e1] = [demo_e0, demo_e1] \<or> (\<exists>i < length [demo_e0, demo_e1].
     fmdrop ''event_sha256'' ([demo_e0, demo_e1] ! i) \<noteq> fmdrop ''event_sha256'' ([demo_e0, demo_e1] ! i)
     \<and> digest (JObj (fmdrop ''event_sha256'' ([demo_e0, demo_e1] ! i)))
       = digest (JObj (fmdrop ''event_sha256'' ([demo_e0, demo_e1] ! i))))"
  by (rule ledger_tamper_evident [of demo_config demo_d1 _ demo_config demo_d1])
    (use demo_1(1) in \<open>simp_all add: ledger_ok_def\<close>)

end
