(* ===== verification/Lease.thy ===== *)
theory Lease
  imports Contracts
begin

text \<open>
  \<open>FileLeaseManager\<close> of \<open>src/src/evolve/kernel/lease_manager.py\<close>: one lease file per
  campaign, created exclusively, removed only by the holder of its token.  The directory
  is a map from campaign ids to what the file's text denotes (\<open>None\<close> when it is not JSON).
  The fresh token and the text of a time stamp are arguments.
\<close>

type_synonym lease_dir = "(string, json option) fmap"

record lease =
  le_campaign_id :: string
  le_owner_id :: string
  le_token :: string
  le_acquired_at :: string
  le_expires_at :: string

definition lease_json :: "lease \<Rightarrow> json" where
  "lease_json l = jobj [(''campaign_id'', JStr (le_campaign_id l)), (''owner_id'', JStr (le_owner_id l)),
     (''token'', JStr (le_token l)), (''acquired_at'', JStr (le_acquired_at l)),
     (''expires_at'', JStr (le_expires_at l))]"

definition safe_name :: "string \<Rightarrow> bool" where
  "safe_name i \<longleftrightarrow> i \<noteq> [] \<and> CHR ''/'' \<notin> set i \<and> CHR 0x5C \<notin> set i"

definition lease_path :: "string \<Rightarrow> unit res" where
  "lease_path i = violation_unless (safe_name i) ''campaign_id is not safe for a lease path''"

definition dt_plus :: "datetime \<Rightarrow> int \<Rightarrow> datetime" where
  "dt_plus t us = DT (dt_instant t + us) (dt_aware t)"

text \<open>\<open>existing.get(k)\<close> on the parsed file: a value that is not an object has no \<open>get\<close>.\<close>

definition obj_get :: "json \<Rightarrow> string \<Rightarrow> json res" where
  "obj_get j k = (case j of JObj d \<Rightarrow> Inr (get d k) | _ \<Rightarrow> raise AttributeError ''get'')"

definition lease_acquire ::
  "(datetime \<Rightarrow> string) \<Rightarrow> string \<Rightarrow> string \<Rightarrow> string \<Rightarrow> datetime \<Rightarrow> int \<Rightarrow> (lease_dir, lease) op" where
  "lease_acquire isoformat token campaign owner now ttl =
     obind (olift (violation_unless (\<not> blank owner) ''owner_id must be non-empty text'')) (\<lambda>_.
     obind (olift (violation_unless (dt_aware now \<and> 0 < ttl) ''lease requires aware time and positive ttl'')) (\<lambda>_.
     let l = \<lparr>le_campaign_id = campaign, le_owner_id = owner, le_token = token,
              le_acquired_at = isoformat now, le_expires_at = isoformat (dt_plus now ttl)\<rparr>
     in obind (olift (lease_path campaign)) (\<lambda>_.
        obind (oread (\<lambda>d. fmlookup d campaign)) (\<lambda>held. case held of
          Some f \<Rightarrow>
            obind (olift (case f of None \<Rightarrow> Inr (JStr ''an unreadable lease'')
                          | Some j \<Rightarrow> obj_get j ''owner_id'')) (\<lambda>_.
            olift (raise LeaseContended ''campaign lease is held''))
        | None \<Rightarrow> obind (omodify (fmupd campaign (Some (lease_json l)))) (\<lambda>_. oreturn l)))))"

definition lease_release :: "string \<Rightarrow> string \<Rightarrow> (lease_dir, unit) op" where
  "lease_release campaign token =
     obind (olift (lease_path campaign)) (\<lambda>_.
     obind (oread (\<lambda>d. fmlookup d campaign)) (\<lambda>held. case held of
       None \<Rightarrow> olift (raise ContractViolation ''campaign lease does not exist'')
     | Some None \<Rightarrow> olift (raise ContractViolation ''campaign lease cannot be verified'')
     | Some (Some j) \<Rightarrow>
         obind (olift (obj_get j ''token'')) (\<lambda>t.
         obind (olift (violation_unless (t = JStr token) ''lease token does not own this campaign'')) (\<lambda>_.
         omodify (fmdrop campaign)))))"

section \<open>Mutual exclusion\<close>

text \<open>The token that owns a campaign, when its lease file was written by \<open>acquire\<close>.\<close>

definition lease_holder :: "lease_dir \<Rightarrow> string \<Rightarrow> string option" where
  "lease_holder d i = (case fmlookup d i of
     Some (Some (JObj l)) \<Rightarrow> (case get l ''token'' of JStr t \<Rightarrow> Some t | _ \<Rightarrow> None) | _ \<Rightarrow> None)"

lemma lease_json_get:
  "\<exists>l. lease_json x = JObj l \<and> get l ''token'' = JStr (le_token x) \<and> get l ''owner_id'' = JStr (le_owner_id x)"
  by (simp add: lease_json_def jobj_def get_jobj)

lemma lease_acquire_ok:
  assumes "lease_acquire fmt token campaign owner now ttl d = (d', Inr l)"
  shows "fmlookup d campaign = None \<and> safe_name campaign \<and> le_token l = token
     \<and> d' = fmupd campaign (Some (lease_json l)) d"
  using assms by (auto simp: lease_acquire_def Let_def obind_eq_Inr olift_def lease_path_def raise_def
      violation_unless_eq_Inr split: option.splits)

lemma lease_acquire_held:
  assumes "lease_holder d campaign = Some t"
  shows "\<exists>e. lease_acquire fmt token campaign owner now ttl d = (d, Inl e)
     \<and> is_contract_violation (exn_of e)"
proof -
  from assms obtain l where l: "fmlookup d campaign = Some (Some (JObj l))"
    by (auto simp: lease_holder_def split: option.splits json.splits)
  show ?thesis
    by (auto simp: lease_acquire_def Let_def violation_unless_def require_def lease_path_def l obj_get_def
        raise_def is_contract_violation_def obind_def)
qed

lemma lease_release_ok:
  assumes "lease_release campaign token d = (d', Inr u)"
  shows "lease_holder d campaign = Some token \<and> d' = fmdrop campaign d"
  using assms by (auto simp: lease_release_def obind_eq_Inr olift_def lease_path_def violation_unless_eq_Inr
      lease_holder_def obj_get_def raise_def split: option.splits json.splits)

lemma lease_release_unchanged:
  assumes "lease_release campaign token d = (d', Inl e)"
  shows "d' = d"
  using assms by (auto simp: lease_release_def obind_def olift_def split: option.splits sum.splits prod.splits)

text \<open>A history of attempts by any number of processes on one directory.\<close>

datatype lease_call =
    Acquire (lc_token: string) string string datetime int
  | Release string string

fun lease_step :: "(datetime \<Rightarrow> string) \<Rightarrow> lease_call \<Rightarrow> lease_dir \<Rightarrow> lease_dir \<times> bool" where
  "lease_step fmt (Acquire token i owner now ttl) d =
     (case lease_acquire fmt token i owner now ttl d of (d', r) \<Rightarrow> (d', is_ok r))"
| "lease_step fmt (Release i token) d = (case lease_release i token d of (d', r) \<Rightarrow> (d', is_ok r))"

fun lease_run :: "(datetime \<Rightarrow> string) \<Rightarrow> lease_call list \<Rightarrow> lease_dir \<Rightarrow> lease_dir" where
  "lease_run fmt [] d = d"
| "lease_run fmt (c # cs) d = lease_run fmt cs (fst (lease_step fmt c d))"

lemma lease_acquire_err: "lease_acquire fmt token i owner now ttl d = (d', Inl e) \<Longrightarrow> d' = d"
  by (auto simp: lease_acquire_def Let_def obind_def olift_def split: option.splits sum.splits prod.splits)

text \<open>Only a release with its token takes a lease away.\<close>

lemma lease_step_keeps:
  assumes h: "lease_holder d i = Some t" and c: "c \<noteq> Release i t"
  shows "lease_holder (fst (lease_step fmt c d)) i = Some t"
proof (cases c)
  case (Acquire token j owner now ttl)
  obtain d' r where r: "lease_acquire fmt token j owner now ttl d = (d', r)" by fastforce
  show ?thesis
  proof (cases r)
    case (Inl e)
    with r h lease_acquire_err [OF r [unfolded Inl]] show ?thesis by (simp add: Acquire)
  next
    case (Inr l)
    with lease_acquire_ok [OF r [unfolded Inr]] h have "j \<noteq> i"
      by (auto simp: lease_holder_def)
    with lease_acquire_ok [OF r [unfolded Inr]] r h show ?thesis by (simp add: Acquire lease_holder_def)
  qed
next
  case (Release j token)
  obtain d' r where r: "lease_release j token d = (d', r)" by fastforce
  show ?thesis
  proof (cases r)
    case (Inl e)
    with r h lease_release_unchanged [OF r [unfolded Inl]] show ?thesis by (simp add: Release)
  next
    case (Inr l)
    with lease_release_ok [OF r [unfolded Inr]] h c Release have "j \<noteq> i" by auto
    with lease_release_ok [OF r [unfolded Inr]] r h show ?thesis by (simp add: Release lease_holder_def)
  qed
qed

text \<open>
  C10: Once a process holds a campaign's lease, it keeps it through any history of attempts
  that does not release it with its own token: every \<open>acquire\<close> of that campaign by anyone
  is refused and changes nothing, so a campaign never has two writers.
\<close>

theorem lease_mutual_exclusion:
  assumes "lease_acquire fmt t i owner now ttl d = (d', Inr l)" and "Release i t \<notin> set cs"
  shows "lease_holder (lease_run fmt cs d') i = Some t
     \<and> (\<forall>t2 owner2 now2 ttl2. \<exists>e. is_contract_violation (exn_of e) \<and>
          lease_acquire fmt t2 i owner2 now2 ttl2 (lease_run fmt cs d') = (lease_run fmt cs d', Inl e))"
proof -
  have "lease_holder d' i = Some t"
    using lease_acquire_ok [OF assms(1)] lease_json_get [of l] by (auto simp: lease_holder_def)
  with assms(2) have "lease_holder (lease_run fmt cs d') i = Some t"
    by (induction cs arbitrary: d') (auto simp: lease_step_keeps)
  then show ?thesis using lease_acquire_held by blast
qed

lemma lease_mutual_exclusion_witness:
  "lease_holder (lease_run (\<lambda>_. ''now'')
      [Acquire ''t2'' ''c1'' ''bob'' (DT 7 True) 60, Release ''c1'' ''t2'']
      (fst (lease_acquire (\<lambda>_. ''now'') ''t1'' ''c1'' ''ann'' (DT 5 True) 60 fmempty))) ''c1'' = Some ''t1''"
proof -
  have "\<exists>l. lease_acquire (\<lambda>_. ''now'') ''t1'' ''c1'' ''ann'' (DT 5 True) 60 fmempty
      = (fst (lease_acquire (\<lambda>_. ''now'') ''t1'' ''c1'' ''ann'' (DT 5 True) 60 fmempty), Inr l)"
    by (simp add: lease_acquire_def Let_def violation_unless_def lease_path_def safe_name_def blank_def is_space_def)
  then obtain l where "lease_acquire (\<lambda>_. ''now'') ''t1'' ''c1'' ''ann'' (DT 5 True) 60 fmempty
      = (fst (lease_acquire (\<lambda>_. ''now'') ''t1'' ''c1'' ''ann'' (DT 5 True) 60 fmempty), Inr l)" ..
  from lease_mutual_exclusion [OF this, of "[Acquire ''t2'' ''c1'' ''bob'' (DT 7 True) 60, Release ''c1'' ''t2'']"]
  show ?thesis by (simp del: lease_run.simps)
qed

end
