(* ===== verification/Checkpoint.thy ===== *)
theory Checkpoint
  imports Lease
begin

text \<open>
  \<open>CheckpointManager\<close> of \<open>src/src/evolve/kernel/checkpoint_manager.py\<close>: one document per
  campaign that carries the digest of its payload.  The directory maps a campaign id to
  what the document's text denotes (\<open>None\<close> when it is not JSON); the write is atomic.
\<close>

type_synonym checkpoint_dir = "(string, json option) fmap"

definition checkpoint_path :: "string \<Rightarrow> unit res" where
  "checkpoint_path i = violation_unless (safe_name i) ''campaign_id is not safe for a checkpoint path''"

definition checkpoint_document :: "dict \<Rightarrow> string \<Rightarrow> json" where
  "checkpoint_document payload h = jobj
     [(''schema_version'', JInt 1), (''payload'', JObj payload), (''payload_sha256'', JStr h)]"

definition checkpoint_save :: "string \<Rightarrow> dict \<Rightarrow> (checkpoint_dir, unit) op" where
  "checkpoint_save i payload =
     obind (olift (content_sha256 (JObj payload))) (\<lambda>h.
     obind (olift (canonical_json (checkpoint_document payload h))) (\<lambda>_.
     obind (olift (checkpoint_path i)) (\<lambda>_.
     omodify (fmupd i (Some (checkpoint_document payload h))))))"

definition checkpoint_load :: "string \<Rightarrow> (checkpoint_dir, dict) op" where
  "checkpoint_load i =
     obind (olift (checkpoint_path i)) (\<lambda>_.
     obind (oread (\<lambda>d. fmlookup d i)) (\<lambda>f. case f of
       None \<Rightarrow> olift (raise ContractViolation ''checkpoint does not exist'')
     | Some None \<Rightarrow> olift (raise ValueError ''Expecting value'')
     | Some (Some j) \<Rightarrow>
         obind (olift (obj_get j ''schema_version'')) (\<lambda>v.
         obind (olift (violation_unless (py_eq v (JInt 1)) ''unsupported checkpoint schema'')) (\<lambda>_.
         obind (olift (obj_get j ''payload'')) (\<lambda>payload.
         obind (olift (content_sha256 payload)) (\<lambda>actual.
         obind (olift (obj_get j ''payload_sha256'')) (\<lambda>h.
         obind (olift (violation_unless (h = JStr actual) ''checkpoint hash mismatch'')) (\<lambda>_.
         case payload of JObj p \<Rightarrow> oreturn p
         | _ \<Rightarrow> olift (raise ContractViolation ''checkpoint payload must be an object'')))))))))"

lemma checkpoint_save_ok:
  "finite_json (JObj p) \<Longrightarrow> safe_name i \<Longrightarrow>
     checkpoint_save i p d = (fmupd i (Some (checkpoint_document p (digest (JObj p)))) d, Inr ())"
  by (simp add: checkpoint_save_def content_sha256_eq canonical_json_def checkpoint_path_def violation_unless_def
      checkpoint_document_def jobj_def finite_fmupd)

lemma checkpoint_save_cases:
  "checkpoint_save i p d = (d', r) \<Longrightarrow> r = Inr () \<and> finite_json (JObj p) \<and> safe_name i
     \<or> d' = d \<and> (\<exists>e. r = Inl e)"
  by (cases "finite_json (JObj p)"; cases "safe_name i")
    (auto simp: checkpoint_save_ok, auto simp: checkpoint_save_def content_sha256_eq checkpoint_path_def
      violation_unless_def canonical_json_def obind_def olift_def require_def split: if_splits)

lemma checkpoint_load_saved:
  "finite_json (JObj p) \<Longrightarrow> safe_name i \<Longrightarrow>
     checkpoint_load i (fmupd i (Some (checkpoint_document p (digest (JObj p)))) d)
       = (fmupd i (Some (checkpoint_document p (digest (JObj p)))) d, Inr p)"
  by (simp add: checkpoint_load_def checkpoint_path_def violation_unless_def checkpoint_document_def jobj_def
      obj_get_def get_jobj content_sha256_eq)

text \<open>
  What \<open>load\<close> returns for a campaign is a payload whose digest the stored document
  carries, and it is what the last successful \<open>save\<close> of that campaign wrote; a save of
  another campaign does not change it.
\<close>

theorem checkpoint_roundtrip:
  assumes "checkpoint_save i p d = (d1, Inr ())" and "checkpoint_save j q d1 = (d2, r)" and "j \<noteq> i"
  shows "checkpoint_load i d2 = (d2, Inr p)"
proof -
  from checkpoint_save_cases [OF assms(1)] have p: "finite_json (JObj p)" "safe_name i" by auto
  with assms(1) have d1: "d1 = fmupd i (Some (checkpoint_document p (digest (JObj p)))) d"
    by (simp add: checkpoint_save_ok)
  have "d2 = d1 \<or> d2 = fmupd j (Some (checkpoint_document q (digest (JObj q)))) d1"
    using checkpoint_save_cases [OF assms(2)] assms(2) by (auto simp: checkpoint_save_ok)
  then have "fmlookup d2 i = Some (Some (checkpoint_document p (digest (JObj p))))"
    using d1 assms(3) by auto
  with p show ?thesis
    by (simp add: checkpoint_load_def checkpoint_path_def violation_unless_def checkpoint_document_def jobj_def
        obj_get_def get_jobj content_sha256_eq)
qed

lemma checkpoint_roundtrip_witness:
  "snd (checkpoint_load ''a'' (fst (checkpoint_save ''b'' fmempty
      (fst (checkpoint_save ''a'' (fmap_of_list [(''n'', JInt 3)]) fmempty))))) = Inr (fmap_of_list [(''n'', JInt 3)])"
proof -
  have "checkpoint_save ''a'' (fmap_of_list [(''n'', JInt 3)]) fmempty
      = (fst (checkpoint_save ''a'' (fmap_of_list [(''n'', JInt 3)]) fmempty), Inr ())"
    by (simp add: checkpoint_save_ok safe_name_def finite_fmupd)
  moreover obtain d2 r where "checkpoint_save ''b'' fmempty
      (fst (checkpoint_save ''a'' (fmap_of_list [(''n'', JInt 3)]) fmempty)) = (d2, r)" by fastforce
  ultimately show ?thesis
    using checkpoint_roundtrip [of "''a''" "fmap_of_list [(''n'', JInt 3)]" fmempty _ "''b''" fmempty d2 r] by simp
qed

end
