(* ===== verification/Campaign.thy ===== *)
theory Campaign
  imports Budget Checkpoint
begin

text \<open>
  \<open>CampaignController\<close> of \<open>src/src/evolve/kernel/campaign_controller.py\<close>: the lifecycle of a
  campaign, its work items and budget, and the checkpoint written after every change.
  The state of an operation is the controller together with the checkpoint directory; an
  operation that raises after changing the controller leaves the change, as in the source.
  Numbers in a checkpoint are the floats and integers they were written from (the default
  budget amount 0 is the float 0.0).
\<close>

section \<open>State\<close>

datatype campaign_status =
  CREATED | RUNNING | PAUSED | COMPLETED | FAILED | BLOCKED | CANCELLED | PARTIAL

definition terminal_statuses :: "campaign_status set" where
  "terminal_statuses = {COMPLETED, FAILED, BLOCKED, CANCELLED, PARTIAL}"

fun status_text :: "campaign_status \<Rightarrow> string" where
  "status_text CREATED = ''created''"
| "status_text RUNNING = ''running''"
| "status_text PAUSED = ''paused''"
| "status_text COMPLETED = ''completed''"
| "status_text FAILED = ''failed''"
| "status_text BLOCKED = ''blocked''"
| "status_text CANCELLED = ''cancelled''"
| "status_text PARTIAL = ''partial''"

definition all_statuses :: "campaign_status list" where
  "all_statuses = [CREATED, RUNNING, PAUSED, COMPLETED, FAILED, BLOCKED, CANCELLED, PARTIAL]"

text \<open>\<open>CampaignStatus(text)\<close>.\<close>

definition status_of_text :: "json \<Rightarrow> campaign_status res" where
  "status_of_text j = (case find (\<lambda>s. j = JStr (status_text s)) all_statuses of
     Some s \<Rightarrow> Inr s | None \<Rightarrow> raise ValueError ''is not a valid CampaignStatus'')"

record work_item =
  wi_plan_id :: string
  wi_plan_sha256 :: string
  wi_arm :: string
  wi_status :: string
  wi_reserved_cost :: pyfloat
  wi_reserved_calls :: int
  wi_actual_cost :: "pyfloat option"
  wi_actual_calls :: "int option"

record campaign =
  cc_campaign_id :: string
  cc_authorization :: authorization
  cc_now :: datetime
  cc_has_checkpoints :: bool
  cc_status :: campaign_status
  cc_reason :: "string option"
  cc_budget :: budget
  cc_items :: "work_item list"

type_synonym campaign_world = "campaign \<times> checkpoint_dir"

text \<open>The dictionary of work items, in insertion order.\<close>

definition item_get :: "string \<Rightarrow> campaign \<Rightarrow> work_item option" where
  "item_get i c = find (\<lambda>w. wi_plan_id w = i) (cc_items c)"

definition item_put :: "work_item \<Rightarrow> work_item list \<Rightarrow> work_item list" where
  "item_put w ws = (if find (\<lambda>x. wi_plan_id x = wi_plan_id w) ws = None then ws @ [w]
     else map (\<lambda>x. if wi_plan_id x = wi_plan_id w then w else x) ws)"

section \<open>The checkpoint\<close>

fun opt_float :: "pyfloat option \<Rightarrow> json" where
  "opt_float None = JNull" | "opt_float (Some f) = JFloat f"

fun opt_int :: "int option \<Rightarrow> json" where
  "opt_int None = JNull" | "opt_int (Some i) = JInt i"

definition item_json :: "work_item \<Rightarrow> json" where
  "item_json w = jobj
     [(''plan_id'', JStr (wi_plan_id w)), (''plan_sha256'', JStr (wi_plan_sha256 w)),
      (''arm'', JStr (wi_arm w)), (''status'', JStr (wi_status w)),
      (''reserved_cost_cny'', JFloat (wi_reserved_cost w)),
      (''reserved_model_calls'', JInt (wi_reserved_calls w)),
      (''actual_cost_cny'', opt_float (wi_actual_cost w)),
      (''actual_model_calls'', opt_int (wi_actual_calls w))]"

definition budget_json :: "budget \<Rightarrow> json" where
  "budget_json b = jobj
     [(''max_cost_cny'', JFloat (bm_max_cost b)), (''max_model_calls'', JInt (bm_max_calls b)),
      (''reserved_cost_cny'', JFloat (bm_reserved_cost b)), (''reserved_model_calls'', JInt (bm_reserved_calls b)),
      (''spent_cost_cny'', JFloat (bm_spent_cost b)), (''spent_model_calls'', JInt (bm_spent_calls b))]"

definition campaign_payload :: "campaign \<Rightarrow> dict" where
  "campaign_payload c = fmap_of_list
     [(''campaign_id'', JStr (cc_campaign_id c)),
      (''authorization_id'', JStr (au_authorization_id (cc_authorization c))),
      (''status'', JStr (status_text (cc_status c))), (''reason'', opt_str (cc_reason c)),
      (''budget'', budget_json (cc_budget c)), (''work_items'', JList (map item_json (cc_items c)))]"

definition campaign_save :: "(campaign_world, unit) op" where
  "campaign_save w = (case w of (c, d) \<Rightarrow>
     if cc_has_checkpoints c
     then (case checkpoint_save (cc_campaign_id c) (campaign_payload c) d of (d', r) \<Rightarrow> ((c, d'), r))
     else ((c, d), Inr ()))"

section \<open>Operations\<close>

definition ctl_read :: "(campaign \<Rightarrow> 'a res) \<Rightarrow> (campaign_world, 'a) op" where
  "ctl_read f = obind (oread (\<lambda>w. f (fst w))) olift"

definition ctl_modify :: "(campaign \<Rightarrow> campaign) \<Rightarrow> (campaign_world, unit) op" where
  "ctl_modify f = omodify (\<lambda>(c, d). (f c, d))"

definition new_controller ::
  "string \<Rightarrow> authorization \<Rightarrow> datetime \<Rightarrow> bool \<Rightarrow> campaign_status \<Rightarrow> string option \<Rightarrow> budget \<Rightarrow> work_item list
     \<Rightarrow> campaign res" where
  "new_controller i a now ck st reason b ws =
     bind (violation_unless (au_campaign_id a = i) ''authorization campaign does not match controller'') (\<lambda>_.
     bind (assert_allows a (hd (au_allowed_cohorts a)) fzero 0 False now) (\<lambda>_.
     Inr \<lparr>cc_campaign_id = i, cc_authorization = a, cc_now = now, cc_has_checkpoints = ck, cc_status = st,
          cc_reason = reason, cc_budget = b, cc_items = ws\<rparr>))"

definition campaign_create ::
  "string \<Rightarrow> authorization \<Rightarrow> datetime \<Rightarrow> bool \<Rightarrow> checkpoint_dir \<Rightarrow> campaign_world res" where
  "campaign_create i a now ck d =
     bind (new_controller i a now ck CREATED None (budget_new (au_max_cost_cny a) (au_max_model_calls a)) [])
       (\<lambda>c. case campaign_save (c, d) of (w, r) \<Rightarrow> bind r (\<lambda>_. Inr w))"

definition require_running :: "campaign \<Rightarrow> unit res" where
  "require_running c = all_checks
     [violation_unless (cc_status c \<notin> terminal_statuses) ''campaign is terminal'',
      violation_unless (cc_status c = RUNNING) ''campaign must be running'']"

definition campaign_start :: "(campaign_world, unit) op" where
  "campaign_start =
     obind (ctl_read (\<lambda>c. violation_unless (cc_status c \<in> {CREATED, PAUSED}) ''cannot start campaign'')) (\<lambda>_.
     obind (ctl_modify (\<lambda>c. c\<lparr>cc_status := RUNNING, cc_reason := None\<rparr>)) (\<lambda>_. campaign_save))"

definition campaign_pause :: "string \<Rightarrow> (campaign_world, unit) op" where
  "campaign_pause reason =
     obind (ctl_read require_running) (\<lambda>_.
     obind (ctl_modify (\<lambda>c. c\<lparr>cc_status := PAUSED, cc_reason := Some reason\<rparr>)) (\<lambda>_. campaign_save))"

definition remote_call :: "bool option \<Rightarrow> execution_plan \<Rightarrow> bool" where
  "remote_call remote p = (case remote of Some b \<Rightarrow> b
     | None \<Rightarrow> mi_provider (pl_model p) \<notin> {''local'', ''local-mlx'', ''mlx''})"

definition pending_item :: "execution_plan \<Rightarrow> string \<Rightarrow> int \<Rightarrow> work_item" where
  "pending_item p h calls = \<lparr>wi_plan_id = pl_plan_id p, wi_plan_sha256 = h, wi_arm = pl_arm p,
     wi_status = ''pending'', wi_reserved_cost = el_max_cost_cny (pl_limits p), wi_reserved_calls = calls,
     wi_actual_cost = None, wi_actual_calls = None\<rparr>"

definition campaign_submit :: "execution_plan \<Rightarrow> int \<Rightarrow> bool option \<Rightarrow> (campaign_world, bool) op" where
  "campaign_submit p calls remote =
     obind (ctl_read require_running) (\<lambda>_.
     obind (ctl_read (\<lambda>c. violation_unless (pl_campaign_id p = cc_campaign_id c)
              ''execution plan campaign does not match controller'')) (\<lambda>_.
     obind (ctl_read (\<lambda>c. Inr (item_get (pl_plan_id p) c))) (\<lambda>existing. case existing of
       Some w \<Rightarrow>
         obind (olift (plan_sha256 p)) (\<lambda>h.
         obind (olift (violation_unless (wi_plan_sha256 w = h) ''duplicate plan_id has conflicting content'')) (\<lambda>_.
         oreturn False))
     | None \<Rightarrow>
         obind (ctl_read (\<lambda>c. assert_allows (cc_authorization c) (tr_cohort (pl_task p)) fzero 0
                  (remote_call remote p) (cc_now c))) (\<lambda>_.
         obind (ctl_read (\<lambda>c. budget_reserve (el_max_cost_cny (pl_limits p)) calls (cc_budget c))) (\<lambda>b.
         obind (ctl_modify (\<lambda>c. c\<lparr>cc_budget := b\<rparr>)) (\<lambda>_.
         obind (olift (plan_sha256 p)) (\<lambda>h.
         obind (ctl_modify (\<lambda>c. c\<lparr>cc_items := item_put (pending_item p h calls) (cc_items c)\<rparr>)) (\<lambda>_.
         obind campaign_save (\<lambda>_. oreturn True)))))))))"

definition done_status :: "bool \<Rightarrow> string" where
  "done_status succeeded = (if succeeded then ''completed'' else ''failed'')"

definition same_result :: "work_item \<Rightarrow> pyfloat \<Rightarrow> int \<Rightarrow> bool \<Rightarrow> bool" where
  "same_result w cost calls succeeded \<longleftrightarrow>
     (case wi_actual_cost w of None \<Rightarrow> False | Some x \<Rightarrow> feq x cost)
     \<and> wi_actual_calls w = Some calls \<and> wi_status w = done_status succeeded"

definition campaign_record :: "string \<Rightarrow> pyfloat \<Rightarrow> int \<Rightarrow> bool \<Rightarrow> (campaign_world, unit) op" where
  "campaign_record i cost calls succeeded =
     obind (ctl_read require_running) (\<lambda>_.
     obind (ctl_read (\<lambda>c. Inr (item_get i c))) (\<lambda>found. case found of
       None \<Rightarrow> olift (raise ContractViolation ''cannot record an unknown execution plan'')
     | Some w \<Rightarrow>
         if wi_status w \<in> {''completed'', ''failed''} then
           olift (violation_unless (same_result w cost calls succeeded)
             ''execution result already recorded with other facts'')
         else
           obind (ctl_read (\<lambda>c. budget_record (wi_reserved_cost w) (wi_reserved_calls w) cost calls (cc_budget c))) (\<lambda>b.
           obind (ctl_modify (\<lambda>c. c\<lparr>cc_budget := b, cc_items := item_put
               (w\<lparr>wi_status := done_status succeeded, wi_actual_cost := Some cost, wi_actual_calls := Some calls\<rparr>)
               (cc_items c)\<rparr>)) (\<lambda>_. campaign_save))))"

definition finalize_check :: "campaign_status \<Rightarrow> campaign \<Rightarrow> unit res" where
  "finalize_check st c = all_checks
     [violation_unless (cc_status c \<notin> terminal_statuses) ''campaign is already terminal'',
      violation_unless (st \<in> terminal_statuses) ''final campaign status must be terminal'',
      violation_unless (\<not> (st = COMPLETED \<and> (\<exists>w \<in> set (cc_items c). wi_status w \<noteq> ''completed'')))
        ''completed campaign has unfinished work'']"

definition campaign_finalize :: "campaign_status \<Rightarrow> string option \<Rightarrow> (campaign_world, unit) op" where
  "campaign_finalize st reason =
     obind (ctl_read (finalize_check st)) (\<lambda>_.
     obind (ctl_modify (\<lambda>c. c\<lparr>cc_status := st, cc_reason := reason\<rparr>)) (\<lambda>_. campaign_save))"

definition campaign_mark_partial :: "string \<Rightarrow> (campaign_world, unit) op" where
  "campaign_mark_partial reason = campaign_finalize PARTIAL (Some reason)"

section \<open>Resuming\<close>

text \<open>
  \<open>WorkItemSnapshot(**item)\<close> and \<open>BudgetManager(**budget)\<close>: the keywords must be the
  parameters.  A value of another type than the one written is a \<open>TypeError\<close> here.
\<close>

fun text_of :: "json \<Rightarrow> string res" where
  "text_of (JStr s) = Inr s" | "text_of j = raise TypeError ''str''"

fun int_of_json :: "json \<Rightarrow> int res" where
  "int_of_json (JInt i) = Inr i" | "int_of_json j = raise TypeError ''int''"

fun float_of_json :: "json \<Rightarrow> pyfloat res" where
  "float_of_json (JFloat f) = Inr f" | "float_of_json (JInt i) = Inr (float_of_int i)"
| "float_of_json j = raise TypeError ''float''"

definition opt_of :: "(json \<Rightarrow> 'a res) \<Rightarrow> json \<Rightarrow> 'a option res" where
  "opt_of f j = (if j = JNull then Inr None else bind (f j) (\<lambda>x. Inr (Some x)))"

text \<open>\<open>keyword_fields\<close>: an object whose keys are among the parameters; \<open>field_or\<close>: a parameter with a default.\<close>

definition keyword_fields :: "string list \<Rightarrow> json \<Rightarrow> dict res" where
  "keyword_fields ks j = (case j of JObj d \<Rightarrow>
       bind (require (fmdom' d \<subseteq> set ks) TypeError ''got an unexpected keyword argument'') (\<lambda>_. Inr d)
     | _ \<Rightarrow> raise TypeError ''argument after ** must be a mapping'')"

definition field :: "dict \<Rightarrow> string \<Rightarrow> (json \<Rightarrow> 'a res) \<Rightarrow> 'a res" where
  "field d k f = (case fmlookup d k of
     None \<Rightarrow> raise TypeError ''missing a required argument'' | Some v \<Rightarrow> f v)"

definition field_or :: "dict \<Rightarrow> string \<Rightarrow> 'a \<Rightarrow> (json \<Rightarrow> 'a res) \<Rightarrow> 'a res" where
  "field_or d k x f = (case fmlookup d k of None \<Rightarrow> Inr x | Some v \<Rightarrow> f v)"

definition item_of_json :: "json \<Rightarrow> work_item res" where
  "item_of_json j =
     bind (keyword_fields [''plan_id'', ''plan_sha256'', ''arm'', ''status'', ''reserved_cost_cny'',
             ''reserved_model_calls'', ''actual_cost_cny'', ''actual_model_calls''] j) (\<lambda>d.
     bind (field d ''plan_id'' text_of) (\<lambda>pid.
     bind (field d ''plan_sha256'' text_of) (\<lambda>h.
     bind (field d ''arm'' text_of) (\<lambda>arm.
     bind (field d ''status'' text_of) (\<lambda>st.
     bind (field d ''reserved_cost_cny'' float_of_json) (\<lambda>rc.
     bind (field d ''reserved_model_calls'' int_of_json) (\<lambda>rn.
     bind (field_or d ''actual_cost_cny'' None (opt_of float_of_json)) (\<lambda>ac.
     bind (field_or d ''actual_model_calls'' None (opt_of int_of_json)) (\<lambda>an.
     Inr \<lparr>wi_plan_id = pid, wi_plan_sha256 = h, wi_arm = arm, wi_status = st, wi_reserved_cost = rc,
          wi_reserved_calls = rn, wi_actual_cost = ac, wi_actual_calls = an\<rparr>)))))))))"

definition budget_of_json :: "json \<Rightarrow> budget res" where
  "budget_of_json j =
     bind (keyword_fields [''max_cost_cny'', ''max_model_calls'', ''reserved_cost_cny'',
             ''reserved_model_calls'', ''spent_cost_cny'', ''spent_model_calls''] j) (\<lambda>d.
     bind (field d ''max_cost_cny'' float_of_json) (\<lambda>m.
     bind (field d ''max_model_calls'' int_of_json) (\<lambda>n.
     bind (field_or d ''reserved_cost_cny'' fzero float_of_json) (\<lambda>rc.
     bind (field_or d ''reserved_model_calls'' 0 int_of_json) (\<lambda>rn.
     bind (field_or d ''spent_cost_cny'' fzero float_of_json) (\<lambda>sc.
     bind (field_or d ''spent_model_calls'' 0 int_of_json) (\<lambda>sn.
     Inr \<lparr>bm_max_cost = m, bm_max_calls = n, bm_reserved_cost = rc, bm_reserved_calls = rn,
          bm_spent_cost = sc, bm_spent_calls = sn\<rparr>)))))))"

fun json_items :: "json \<Rightarrow> json list res" where
  "json_items (JList xs) = Inr xs" | "json_items j = raise TypeError ''object is not iterable''"

definition campaign_resume ::
  "string \<Rightarrow> authorization \<Rightarrow> datetime \<Rightarrow> checkpoint_dir \<Rightarrow> campaign res" where
  "campaign_resume i a now d =
     bind (snd (checkpoint_load i d)) (\<lambda>p.
     bind (violation_unless (get p ''campaign_id'' = JStr i) ''checkpoint campaign identity mismatch'') (\<lambda>_.
     bind (violation_unless (get p ''authorization_id'' = JStr (au_authorization_id a))
             ''checkpoint authorization identity mismatch'') (\<lambda>_.
     bind (item p ''budget'') (\<lambda>bj.
     bind (bind (field_or p ''work_items'' [] json_items) (mapM item_of_json)) (\<lambda>ws.
     bind (bind (item p ''status'') status_of_text) (\<lambda>st.
     bind (opt_of text_of (get p ''reason'')) (\<lambda>reason.
     bind (budget_of_json bj) (\<lambda>b.
     new_controller i a now True st reason b (fold item_put ws [])))))))))"

section \<open>What an operation does to the controller\<close>

lemma ctl_read_apply [simp]: "obind (ctl_read f) g (c, d) = (case f c of Inl e \<Rightarrow> ((c, d), Inl e) | Inr x \<Rightarrow> g x (c, d))"
  by (simp add: ctl_read_def obind_def split: sum.splits)

lemma ctl_modify_apply [simp]: "obind (ctl_modify f) g (c, d) = g () (f c, d)"
  by (simp add: ctl_modify_def)

lemma campaign_save_fst: "campaign_save (c, d) = ((c', d'), r) \<Longrightarrow> c' = c"
  by (auto simp: campaign_save_def split: if_splits prod.splits)

lemma obind_save_fst: "obind campaign_save f (c, d) = ((c', d'), r) \<Longrightarrow>
    (\<And>w. fst (fst (f () w)) = fst w) \<Longrightarrow> c' = c"
  by (auto simp: obind_def split: prod.splits sum.splits dest!: campaign_save_fst) (metis fst_conv)

lemma require_running_eq: "require_running c = Inr u \<longleftrightarrow> cc_status c = RUNNING"
  by (auto simp: require_running_def res_simps terminal_statuses_def)

lemma campaign_start_cases:
  assumes "campaign_start (c, d) = ((c', d'), r)"
  shows "c' = c \<and> (\<exists>e. r = Inl e) \<or> cc_status c \<in> {CREATED, PAUSED} \<and> c' = c\<lparr>cc_status := RUNNING, cc_reason := None\<rparr>"
  using assms by (cases "cc_status c \<in> {CREATED, PAUSED}")
    (auto simp: campaign_start_def violation_unless_def require_def dest!: campaign_save_fst)

lemma campaign_pause_cases:
  assumes "campaign_pause m (c, d) = ((c', d'), r)"
  shows "c' = c \<and> (\<exists>e. r = Inl e) \<or> cc_status c = RUNNING \<and> c' = c\<lparr>cc_status := PAUSED, cc_reason := Some m\<rparr>"
proof (cases "require_running c")
  case (Inl e)
  with assms show ?thesis by (simp add: campaign_pause_def) metis
next
  case (Inr u)
  with assms show ?thesis by (auto simp: campaign_pause_def require_running_eq dest!: campaign_save_fst)
qed

lemma campaign_submit_cases:
  assumes "campaign_submit p n remote (c, d) = ((c', d'), r)"
  shows "c' = c \<or> cc_status c = RUNNING \<and> item_get (pl_plan_id p) c = None \<and>
     (\<exists>b. budget_reserve (el_max_cost_cny (pl_limits p)) n (cc_budget c) = Inr b \<and>
        (c' = c\<lparr>cc_budget := b\<rparr> \<or>
         (\<exists>h. c' = c\<lparr>cc_budget := b, cc_items := item_put (pending_item p h n) (cc_items c)\<rparr>)))"
proof (cases "require_running c")
  case (Inl e)
  with assms show ?thesis by (simp add: campaign_submit_def)
next
  case (Inr u)
  then have run: "cc_status c = RUNNING" by (simp add: require_running_eq)
  show ?thesis
  proof (cases "item_get (pl_plan_id p) c")
    case (Some w)
    have "(case pl_campaign_id p = cc_campaign_id c of _ \<Rightarrow> obind (olift (plan_sha256 p)) (\<lambda>h.
         obind (olift (violation_unless (wi_plan_sha256 w = h) ''duplicate plan_id has conflicting content'')) (\<lambda>_.
         oreturn False)) (c, d)) = ((x, y), z) \<Longrightarrow> x = c" for x y z
      by (cases "plan_sha256 p") (auto simp: violation_unless_def require_def obind_olift split: if_splits)
    with assms Inr Some show ?thesis
      by (cases "pl_campaign_id p = cc_campaign_id c") (auto simp: campaign_submit_def violation_unless_def)
  next
    case None
    note assms' = assms [unfolded campaign_submit_def, simplified Inr None ctl_read_apply sum.case option.case]
    show ?thesis
    proof (cases "budget_reserve (el_max_cost_cny (pl_limits p)) n (cc_budget c)")
      case (Inl e)
      with assms' show ?thesis by (auto split: sum.splits)
    next
      case (Inr b)
      have save: "obind campaign_save (\<lambda>_. oreturn True) (x, d) = ((c', d'), r) \<Longrightarrow> c' = x" for x
        by (erule obind_save_fst) simp
      from assms' Inr run None show ?thesis
        by (cases "plan_sha256 p") (auto split: sum.splits dest!: save)
    qed
  qed
qed

lemma campaign_record_cases:
  assumes "campaign_record i cost n ok (c, d) = ((c', d'), r)"
  shows "c' = c \<or> cc_status c = RUNNING \<and>
     (\<exists>w b. item_get i c = Some w \<and> wi_status w \<notin> {''completed'', ''failed''}
        \<and> budget_record (wi_reserved_cost w) (wi_reserved_calls w) cost n (cc_budget c) = Inr b
        \<and> c' = c\<lparr>cc_budget := b, cc_items := item_put
            (w\<lparr>wi_status := done_status ok, wi_actual_cost := Some cost, wi_actual_calls := Some n\<rparr>) (cc_items c)\<rparr>)"
proof (cases "require_running c")
  case (Inl e)
  with assms show ?thesis by (simp add: campaign_record_def)
next
  case (Inr u)
  then have run: "cc_status c = RUNNING" by (simp add: require_running_eq)
  show ?thesis
  proof (cases "item_get i c")
    case None
    with assms Inr show ?thesis by (simp add: campaign_record_def olift_def)
  next
    case (Some w)
    with assms Inr run show ?thesis
      by (auto simp: campaign_record_def olift_def split: sum.splits if_splits dest!: campaign_save_fst)
  qed
qed

lemma campaign_finalize_cases:
  assumes "campaign_finalize st m (c, d) = ((c', d'), r)"
  shows "c' = c \<and> (\<exists>e. r = Inl e) \<or> cc_status c \<notin> terminal_statuses \<and> st \<in> terminal_statuses
     \<and> (st = COMPLETED \<longrightarrow> (\<forall>w \<in> set (cc_items c). wi_status w = ''completed''))
     \<and> c' = c\<lparr>cc_status := st, cc_reason := m\<rparr>"
proof (cases "finalize_check st c")
  case (Inl e)
  with assms show ?thesis by (simp add: campaign_finalize_def) metis
next
  case (Inr u)
  then have "cc_status c \<notin> terminal_statuses \<and> st \<in> terminal_statuses
     \<and> (st = COMPLETED \<longrightarrow> (\<forall>w \<in> set (cc_items c). wi_status w = ''completed''))"
    by (auto simp: finalize_check_def res_simps)
  with assms Inr show ?thesis by (auto simp: campaign_finalize_def dest!: campaign_save_fst)
qed


section \<open>Lifecycle as a step relation\<close>

inductive campaign_step :: "campaign_world \<Rightarrow> campaign_world \<Rightarrow> bool" where
  step_start: "campaign_start w = (w', r) \<Longrightarrow> campaign_step w w'"
| step_pause: "campaign_pause m w = (w', r) \<Longrightarrow> campaign_step w w'"
| step_submit: "campaign_submit p n remote w = (w', r) \<Longrightarrow> campaign_step w w'"
| step_record: "campaign_record i cost n ok w = (w', r) \<Longrightarrow> campaign_step w w'"
| step_finalize: "campaign_finalize st m' w = (w', r) \<Longrightarrow> campaign_step w w'"

inductive_cases campaign_stepE: "campaign_step w w'"

inductive campaign_reachable :: "string \<Rightarrow> authorization \<Rightarrow> datetime \<Rightarrow> campaign_world \<Rightarrow> bool"
  for i a now where
  reach_create: "campaign_create i a now ck d = Inr w \<Longrightarrow> campaign_reachable i a now w"
| reach_step: "campaign_reachable i a now w \<Longrightarrow> campaign_step w w' \<Longrightarrow> campaign_reachable i a now w'"

definition pending :: "work_item list \<Rightarrow> work_item list" where
  "pending ws = filter (\<lambda>w. wi_status w = ''pending'') ws"

definition settled :: "work_item list \<Rightarrow> work_item list" where
  "settled ws = filter (\<lambda>w. wi_status w \<noteq> ''pending'') ws"

definition calls_settled :: "work_item \<Rightarrow> int" where
  "calls_settled w = (case wi_actual_calls w of None \<Rightarrow> 0 | Some n \<Rightarrow> n)"

text \<open>
  The invariant: one item per plan, its three states, nothing unfinished in a completed
  campaign, the spent calls are those of the settled items, and every pending item's
  reservation is still held by the budget.
\<close>

definition campaign_inv :: "campaign \<Rightarrow> bool" where
  "campaign_inv c \<longleftrightarrow> distinct (map wi_plan_id (cc_items c))
     \<and> (\<forall>w \<in> set (cc_items c). wi_status w \<in> {''pending'', ''completed'', ''failed''} \<and> 0 \<le> wi_reserved_calls w)
     \<and> (cc_status c = COMPLETED \<longrightarrow> (\<forall>w \<in> set (cc_items c). wi_status w = ''completed''))
     \<and> spent_within (cc_budget c)
     \<and> bm_spent_calls (cc_budget c) = sum_list (map calls_settled (settled (cc_items c)))
     \<and> sum_list (map wi_reserved_calls (pending (cc_items c))) \<le> bm_reserved_calls (cc_budget c)"

lemma item_put_new: "find (\<lambda>x. wi_plan_id x = wi_plan_id w) ws = None \<Longrightarrow> item_put w ws = ws @ [w]"
  by (simp add: item_put_def)

lemma item_put_old:
  assumes "distinct (map wi_plan_id ws)" and "x \<in> set ws" and "wi_plan_id x = wi_plan_id w"
  shows "\<exists>us vs. ws = us @ [x] @ vs \<and> item_put w ws = us @ [w] @ vs"
proof -
  from assms(2) obtain us vs where ws: "ws = us @ x # vs" by (auto dest: split_list)
  have "find (\<lambda>y. wi_plan_id y = wi_plan_id w) ws \<noteq> None" using assms(2,3) by (auto simp: find_None_iff)
  moreover have "map (\<lambda>y. if wi_plan_id y = wi_plan_id w then w else y) us = us"
    "map (\<lambda>y. if wi_plan_id y = wi_plan_id w then w else y) vs = vs"
    using assms(1,3) by (auto simp: ws intro!: map_idI, (metis image_eqI)+)
  ultimately show ?thesis using ws assms(3) by (intro exI) (auto simp: item_put_def)
qed

lemma campaign_inv_submit:
  assumes inv: "campaign_inv c" and run: "cc_status c = RUNNING" and new: "item_get (pl_plan_id p) c = None"
    and b: "budget_reserve (el_max_cost_cny (pl_limits p)) n (cc_budget c) = Inr b"
  shows "campaign_inv (c\<lparr>cc_budget := b\<rparr>)"
    and "campaign_inv (c\<lparr>cc_budget := b, cc_items := item_put (pending_item p h n) (cc_items c)\<rparr>)"
proof -
  have put: "item_put (pending_item p h n) (cc_items c) = cc_items c @ [pending_item p h n]"
    using new by (intro item_put_new) (simp add: item_get_def pending_item_def)
  have fresh: "pl_plan_id p \<notin> wi_plan_id ` set (cc_items c)"
    using new by (auto simp: item_get_def find_None_iff)
  have w: "spent_within b" using inv bm.charge_within [of "Reserve (el_max_cost_cny (pl_limits p)) n"] b
    by (auto simp: campaign_inv_def)
  show "campaign_inv (c\<lparr>cc_budget := b\<rparr>)"
    using inv b w by (auto simp: campaign_inv_def budget_reserve_eq_Inr)
  show "campaign_inv (c\<lparr>cc_budget := b, cc_items := item_put (pending_item p h n) (cc_items c)\<rparr>)"
    using inv b w fresh run unfolding put
    by (auto simp: campaign_inv_def budget_reserve_eq_Inr pending_item_def pending_def settled_def)
qed

lemma campaign_inv_record:
  assumes inv: "campaign_inv c" and run: "cc_status c = RUNNING" and w: "item_get i c = Some w"
    and st: "wi_status w \<notin> {''completed'', ''failed''}"
    and b: "budget_record (wi_reserved_cost w) (wi_reserved_calls w) cost n (cc_budget c) = Inr b"
  shows "campaign_inv (c\<lparr>cc_budget := b, cc_items := item_put
            (w\<lparr>wi_status := done_status ok, wi_actual_cost := Some cost, wi_actual_calls := Some n\<rparr>) (cc_items c)\<rparr>)"
proof -
  let ?w = "w\<lparr>wi_status := done_status ok, wi_actual_cost := Some cost, wi_actual_calls := Some n\<rparr>"
  have in_items: "w \<in> set (cc_items c)" using w find_SomeD unfolding item_get_def by fastforce
  with inv st have pend: "wi_status w = ''pending''" by (auto simp: campaign_inv_def)
  from inv in_items obtain us vs where s: "cc_items c = us @ [w] @ vs" "item_put ?w (cc_items c) = us @ [?w] @ vs"
    using item_put_old [of "cc_items c" w ?w] by (auto simp: campaign_inv_def)
  have sw: "spent_within b" using inv bm.charge_within [of "Record (wi_reserved_cost w) (wi_reserved_calls w) cost n"] b
    by (auto simp: campaign_inv_def)
  have d: "done_status ok \<noteq> ''pending''" "done_status ok \<in> {''completed'', ''failed''}"
    by (simp_all add: done_status_def)
  have pe: "pending (us @ [w] @ vs) = pending us @ [w] @ pending vs" "pending (us @ [?w] @ vs) = pending us @ pending vs"
    using pend d by (simp_all add: pending_def)
  have se: "settled (us @ [w] @ vs) = settled us @ settled vs" "settled (us @ [?w] @ vs) = settled us @ [?w] @ settled vs"
    using pend d by (simp_all add: settled_def)
  have id: "map wi_plan_id (us @ [?w] @ vs) = map wi_plan_id (us @ [w] @ vs)" by simp
  have all: "\<forall>x \<in> set (us @ [?w] @ vs). wi_status x \<in> {''pending'', ''completed'', ''failed''} \<and> 0 \<le> wi_reserved_calls x"
    using inv d unfolding campaign_inv_def s(1) by auto
  note s2 = s(2) [unfolded s(1)]
  from b have b': "bm_spent_calls b = bm_spent_calls (cc_budget c) + n"
    "bm_reserved_calls b = bm_reserved_calls (cc_budget c) - wi_reserved_calls w"
    by (auto simp: budget_record_eq_Inr)
  from inv have i: "distinct (map wi_plan_id (us @ [w] @ vs))"
    "bm_spent_calls (cc_budget c) = sum_list (map calls_settled (settled (us @ [w] @ vs)))"
    "sum_list (map wi_reserved_calls (pending (us @ [w] @ vs))) \<le> bm_reserved_calls (cc_budget c)"
    unfolding campaign_inv_def s(1) by blast+
  have "bm_spent_calls b = sum_list (map calls_settled (settled (us @ [?w] @ vs)))"
    unfolding b' i(2) se by (simp add: calls_settled_def)
  moreover have "sum_list (map wi_reserved_calls (pending (us @ [?w] @ vs))) \<le> bm_reserved_calls b"
    using i(3) unfolding b' pe by simp
  moreover have "distinct (map wi_plan_id (us @ [?w] @ vs))" unfolding id by (rule i(1))
  ultimately show ?thesis
    using all sw run unfolding campaign_inv_def by (simp only: campaign.simps s s2) simp
qed

lemma campaign_inv_step: "campaign_step (c, d) (c', d') \<Longrightarrow> campaign_inv c \<Longrightarrow> campaign_inv c'"
proof (erule campaign_stepE)
  fix r
  assume "campaign_start (c, d) = ((c', d'), r)" and "campaign_inv c"
  then show "campaign_inv c'" by (auto simp: campaign_inv_def dest!: campaign_start_cases)
next
  fix m r
  assume "campaign_pause m (c, d) = ((c', d'), r)" and "campaign_inv c"
  then show "campaign_inv c'" by (auto simp: campaign_inv_def dest!: campaign_pause_cases)
next
  fix p n remote r
  assume "campaign_submit p n remote (c, d) = ((c', d'), r)" and "campaign_inv c"
  then show "campaign_inv c'" by (auto dest!: campaign_submit_cases intro: campaign_inv_submit)
next
  fix i cost n ok r
  assume "campaign_record i cost n ok (c, d) = ((c', d'), r)" and "campaign_inv c"
  then show "campaign_inv c'" by (auto dest!: campaign_record_cases intro: campaign_inv_record)
next
  fix st m r
  assume "campaign_finalize st m (c, d) = ((c', d'), r)" and "campaign_inv c"
  then show "campaign_inv c'" by (auto simp: campaign_inv_def dest!: campaign_finalize_cases)
qed

lemma campaign_create_ok:
  assumes "campaign_create i a now ck d = Inr (c, d')"
  shows "c = \<lparr>cc_campaign_id = i, cc_authorization = a, cc_now = now, cc_has_checkpoints = ck, cc_status = CREATED,
          cc_reason = None, cc_budget = budget_new (au_max_cost_cny a) (au_max_model_calls a), cc_items = []\<rparr>"
  using assms by (auto simp: campaign_create_def new_controller_def res_simps split: prod.splits dest!: campaign_save_fst)

lemma campaign_reachable_inv:
  assumes "campaign_reachable i a now w" and "check_authorization a = Inr ()"
  shows "campaign_inv (fst w)"
  using assms(1)
proof (induction rule: campaign_reachable.induct)
  case (reach_create ck d w)
  then have w: "fst w = \<lparr>cc_campaign_id = i, cc_authorization = a, cc_now = now, cc_has_checkpoints = ck,
      cc_status = CREATED, cc_reason = None,
      cc_budget = budget_new (au_max_cost_cny a) (au_max_model_calls a), cc_items = []\<rparr>"
    by (cases w) (auto dest: campaign_create_ok)
  have "\<not> flt (au_max_cost_cny a) fzero" "0 \<le> au_max_model_calls a"
    using assms(2) by (auto simp: check_authorization_def res_simps)
  then show ?case by (simp add: w campaign_inv_def budget_new_def spent_within_def pending_def settled_def)
next
  case (reach_step w w')
  then show ?case by (cases w; cases w') (auto intro: campaign_inv_step)
qed

end
