(* ===== verification/Campaign_Claims.thy ===== *)
theory Campaign_Claims
  imports Campaign
begin

text \<open>
  The properties of the campaign lifecycle, with instances on a small campaign, and what a
  plan without a canonical text does to the budget.
\<close>

section \<open>A worked campaign\<close>

definition demo_auth :: authorization where
  "demo_auth = \<lparr>au_authorization_id = ''a1'', au_campaign_id = ''c1'', au_allowed_cohorts = [FEEDBACK],
     au_max_cost_cny = fzero, au_max_model_calls = 3, au_expires_at = DT 100 True, au_remote_calls_allowed = False\<rparr>"

definition demo_now :: datetime where "demo_now = DT 5 True"

definition demo_plan :: "pyfloat \<Rightarrow> execution_plan" where
  "demo_plan cost = \<lparr>pl_plan_id = ''p1'', pl_campaign_id = ''c1'', pl_strategy_id = ''s'',
     pl_task = \<lparr>tr_task_id = ''t'', tr_revision_id = ''r'', tr_project = ''pr'', tr_cohort = FEEDBACK,
       tr_source_sha256 = ''h'', tr_evaluator_id = ''e'', tr_source_uri = None\<rparr>,
     pl_candidate_revision_id = ''cr'', pl_arm = ''baseline'',
     pl_model = \<lparr>mi_provider = ''local'', mi_model = ''m'', mi_revision = ''1''\<rparr>,
     pl_context_policy_id = ''x'', pl_tool_policy_id = ''y'', pl_observer_policy_ids = [''o''],
     pl_native_evaluator_id = ''n'',
     pl_limits = \<lparr>el_max_tokens = 1, el_max_seconds = 1, el_max_cost_cny = cost\<rparr>,
     pl_holdout_scope = ''feedback-only'', pl_metadata = fmempty\<rparr>"

definition demo_campaign :: campaign where
  "demo_campaign = \<lparr>cc_campaign_id = ''c1'', cc_authorization = demo_auth, cc_now = demo_now,
     cc_has_checkpoints = False, cc_status = CREATED, cc_reason = None, cc_budget = budget_new fzero 3, cc_items = []\<rparr>"

lemma demo_auth_ok: "check_authorization demo_auth = Inr ()"
  by (simp add: check_authorization_def demo_auth_def require_text_def violation_unless_def blank_def is_space_def fzero_def)

lemma demo_allows: "assert_allows demo_auth FEEDBACK fzero 0 False demo_now = Inr ()"
  by (simp add: assert_allows_def dt_le_def demo_auth_def demo_now_def violation_unless_def fzero_def)

lemma demo_create: "campaign_create ''c1'' demo_auth demo_now False fmempty = Inr (demo_campaign, fmempty)"
  using demo_allows by (simp add: campaign_create_def new_controller_def violation_unless_def demo_campaign_def
      campaign_save_def) (simp add: demo_auth_def)

lemma demo_start: "campaign_start (demo_campaign, fmempty) = ((demo_campaign\<lparr>cc_status := RUNNING\<rparr>, fmempty), Inr ())"
  by (simp add: campaign_start_def violation_unless_def demo_campaign_def campaign_save_def)

lemma demo_reachable: "campaign_reachable ''c1'' demo_auth demo_now (demo_campaign\<lparr>cc_status := RUNNING\<rparr>, fmempty)"
  by (rule reach_step [OF reach_create [OF demo_create] step_start [OF demo_start]])

section \<open>Lifecycle\<close>

text \<open>
  C6: In every state a campaign can reach from its creation, by any sequence of operations
  that succeed or raise, there is one work item per plan, a completed campaign has only
  completed items, the spent model calls are exactly those of the settled items and within
  the authorization, the spent cost is not above its limit, and the budget still holds the
  reservation of every pending item.
\<close>

theorem campaign_reachable_accounting:
  assumes "check_authorization a = Inr ()" and "campaign_reachable i a now (c, d)"
  shows "distinct (map wi_plan_id (cc_items c))
     \<and> (cc_status c = COMPLETED \<longrightarrow> (\<forall>w \<in> set (cc_items c). wi_status w = ''completed''))
     \<and> bm_spent_calls (cc_budget c) = sum_list (map calls_settled (settled (cc_items c)))
     \<and> bm_spent_calls (cc_budget c) \<le> bm_max_calls (cc_budget c)
     \<and> \<not> flt (bm_max_cost (cc_budget c)) (bm_spent_cost (cc_budget c))
     \<and> sum_list (map wi_reserved_calls (pending (cc_items c))) \<le> bm_reserved_calls (cc_budget c)"
  using campaign_reachable_inv [OF assms(2,1)] by (auto simp: campaign_inv_def spent_within_def)

lemma campaign_reachable_accounting_witness:
  "bm_spent_calls (cc_budget (demo_campaign\<lparr>cc_status := RUNNING\<rparr>)) \<le> bm_max_calls (cc_budget (demo_campaign\<lparr>cc_status := RUNNING\<rparr>))"
  using campaign_reachable_accounting [OF demo_auth_ok demo_reachable] by blast

text \<open>
  C7: A terminal campaign is final: every operation on it raises and leaves the controller
  and its checkpoint as they are.
\<close>

theorem terminal_campaign_absorbing:
  assumes "cc_status c \<in> terminal_statuses" and "campaign_step (c, d) (c', d')"
  shows "c' = c \<and> d' = d \<and> \<not> is_ok (snd (campaign_start (c, d))) \<and> \<not> is_ok (snd (campaign_pause m (c, d)))
     \<and> \<not> is_ok (snd (campaign_submit p n remote (c, d))) \<and> \<not> is_ok (snd (campaign_record i cost k ok (c, d)))
     \<and> \<not> is_ok (snd (campaign_finalize st reason (c, d)))"
proof -
  have run: "\<exists>e. require_running c = Inl e" using assms(1) by (simp add: require_running_def violation_unless_def)
  have fin: "\<exists>e. finalize_check st c = Inl e" for st using assms(1) by (simp add: finalize_check_def violation_unless_def)
  have start: "\<exists>e. violation_unless (cc_status c \<in> {CREATED, PAUSED}) ''cannot start campaign'' = Inl e"
    using assms(1) by (auto simp: violation_unless_def terminal_statuses_def)
  have raised: "\<exists>e. campaign_start (c, d) = ((c, d), Inl e)" "\<exists>e. campaign_pause m (c, d) = ((c, d), Inl e)"
    "\<exists>e. campaign_submit p n remote (c, d) = ((c, d), Inl e)" "\<exists>e. campaign_record i cost k ok (c, d) = ((c, d), Inl e)"
    "\<exists>e. campaign_finalize st reason (c, d) = ((c, d), Inl e)" for m p n remote i cost k ok st reason
    using run fin [of st] start
    by (auto simp: campaign_start_def campaign_pause_def campaign_submit_def campaign_record_def campaign_finalize_def)
  have "c' = c \<and> d' = d"
    by (rule campaign_stepE [OF assms(2)]) (use raised in \<open>metis Pair_inject\<close>)+
  with raised show ?thesis by (metis is_ok.simps(1) snd_conv)
qed

lemma terminal_campaign_absorbing_witness:
  "fst (campaign_start (demo_campaign\<lparr>cc_status := FAILED\<rparr>, fmempty)) = (demo_campaign\<lparr>cc_status := FAILED\<rparr>, fmempty)
   \<and> \<not> is_ok (snd (campaign_submit (demo_plan fzero) 1 None (demo_campaign\<lparr>cc_status := FAILED\<rparr>, fmempty)))"
proof -
  obtain c' d' r where s: "campaign_start (demo_campaign\<lparr>cc_status := FAILED\<rparr>, fmempty) = ((c', d'), r)"
    by (metis prod.collapse)
  have t: "cc_status (demo_campaign\<lparr>cc_status := FAILED\<rparr>) \<in> terminal_statuses" by (simp add: terminal_statuses_def)
  from terminal_campaign_absorbing [OF t step_start [OF s]] s show ?thesis by simp
qed

lemma campaign_submit_True:
  assumes "campaign_submit p n remote (c, d) = ((c', d'), Inr True)"
  shows "cc_status c = RUNNING \<and> pl_campaign_id p = cc_campaign_id c \<and> item_get (pl_plan_id p) c = None
     \<and> (\<exists>b h. plan_sha256 p = Inr h
          \<and> c' = c\<lparr>cc_budget := b, cc_items := cc_items c @ [pending_item p h n]\<rparr>)"
proof -
  have save: "obind campaign_save (\<lambda>_. oreturn True) (x, d) = ((c', d'), Inr True) \<Longrightarrow> c' = x" for x
    by (erule obind_save_fst) simp
  have run: "cc_status c = RUNNING" and cid: "pl_campaign_id p = cc_campaign_id c"
    using assms by (auto simp: campaign_submit_def violation_unless_eq_Inr split: sum.splits dest!: sym [of "Inr _" "require_running c"])
      (metis require_running_eq)+
  have new: "item_get (pl_plan_id p) c = None"
  proof (rule ccontr)
    assume "item_get (pl_plan_id p) c \<noteq> None"
    then obtain w where "item_get (pl_plan_id p) c = Some w" by auto
    with assms show False
      by (auto simp: campaign_submit_def obind_olift split: sum.splits)
  qed
  from assms run cid new show ?thesis
    by (auto simp: campaign_submit_def obind_olift split: sum.splits dest!: save)
      (simp add: item_put_new item_get_def pending_item_def, blast)
qed

text \<open>
  A plan that was admitted is admitted once: submitting it again returns \<open>False\<close> and
  changes nothing, and a different plan under the same id is refused without a change.
\<close>

theorem submit_idempotent:
  assumes "campaign_submit p n remote (c, d) = ((c', d'), Inr True)"
  shows "campaign_submit p n2 remote2 (c', d') = ((c', d'), Inr False)
     \<and> (\<forall>q h. pl_plan_id q = pl_plan_id p \<and> pl_campaign_id q = pl_campaign_id p \<and> plan_sha256 q = Inr h
          \<and> plan_sha256 p \<noteq> Inr h \<longrightarrow>
          campaign_submit q n2 remote2 (c', d') =
            ((c', d'), Inl (Err ContractViolation ''duplicate plan_id has conflicting content'')))"
proof -
  from campaign_submit_True [OF assms] obtain b h where
    run: "cc_status c = RUNNING" and cid: "pl_campaign_id p = cc_campaign_id c"
    and new: "item_get (pl_plan_id p) c = None" and h: "plan_sha256 p = Inr h"
    and c': "c' = c\<lparr>cc_budget := b, cc_items := cc_items c @ [pending_item p h n]\<rparr>" by blast
  have rr: "require_running c' = Inr ()" using run by (simp add: c' require_running_eq)
  have found: "item_get (pl_plan_id p) c' = Some (pending_item p h n)"
    using new by (simp add: c' item_get_def find_append pending_item_def)
  have cid': "cc_campaign_id c' = cc_campaign_id c" and sha: "wi_plan_sha256 (pending_item p h n) = h"
    by (simp_all add: c' pending_item_def)
  show ?thesis
    using rr found cid cid' sha h by (auto simp: campaign_submit_def violation_unless_def obind_olift)
qed

definition demo_running :: campaign where
  "demo_running = demo_campaign\<lparr>cc_status := RUNNING\<rparr>"

lemma demo_plan_sha: "\<exists>h. plan_sha256 (demo_plan fzero) = Inr h"
  by (simp add: plan_sha256_def content_sha256_eq execution_plan_json_def jobj_def finite_fmupd demo_plan_def
      task_revision_json_def model_identity_json_def execution_limits_json_def str_list_def)

lemma obind_no_checkpoint: "\<not> cc_has_checkpoints c \<Longrightarrow> obind campaign_save f (c, d) = f () (c, d)"
  by (simp add: obind_def campaign_save_def)

lemma demo_submit:
  "\<exists>c'. campaign_submit (demo_plan fzero) 1 None (demo_running, fmempty) = ((c', fmempty), Inr True)"
proof -
  have rr: "require_running demo_running = Inr ()" by (simp add: demo_running_def require_running_eq)
  have b: "\<exists>b. budget_reserve fzero 1 (cc_budget demo_running) = Inr b"
    by (simp add: budget_reserve_def demo_running_def demo_campaign_def budget_new_def)
  have r: "remote_call None (demo_plan fzero) = False" by (simp add: remote_call_def demo_plan_def)
  have i: "pl_campaign_id (demo_plan fzero) = cc_campaign_id demo_running" "tr_cohort (pl_task (demo_plan fzero)) = FEEDBACK"
    "el_max_cost_cny (pl_limits (demo_plan fzero)) = fzero" "cc_authorization demo_running = demo_auth"
    "cc_now demo_running = demo_now" "item_get (pl_plan_id (demo_plan fzero)) demo_running = None"
    "\<not> cc_has_checkpoints demo_running"
    by (simp_all add: demo_plan_def demo_running_def demo_campaign_def item_get_def)
  show ?thesis
    using rr b r i demo_plan_sha demo_allows
    by (auto simp: campaign_submit_def violation_unless_def obind_no_checkpoint)
qed

lemma submit_idempotent_witness:
  "\<exists>w. campaign_submit (demo_plan fzero) 1 None (demo_running, fmempty) = (w, Inr True)
     \<and> campaign_submit (demo_plan fzero) 2 None w = (w, Inr False)"
proof -
  obtain c' where s: "campaign_submit (demo_plan fzero) 1 None (demo_running, fmempty) = ((c', fmempty), Inr True)"
    using demo_submit by blast
  from submit_idempotent [OF s] s show ?thesis by blast
qed

section \<open>Resuming from a checkpoint\<close>

lemma status_roundtrip: "status_of_text (JStr (status_text s)) = Inr s"
  by (cases s) (simp_all add: status_of_text_def all_statuses_def)

lemma opt_roundtrip:
  "opt_of text_of (opt_str x) = Inr x" "opt_of float_of_json (opt_float y) = Inr y" "opt_of int_of_json (opt_int z) = Inr z"
  by (cases x; cases y; cases z; simp add: opt_of_def)+

lemma item_roundtrip: "item_of_json (item_json w) = Inr w"
  by (simp add: item_of_json_def item_json_def jobj_def keyword_fields_def field_def field_or_def fmlookup_of_list
      opt_roundtrip)

lemma budget_roundtrip: "budget_of_json (budget_json b) = Inr b"
  by (simp add: budget_of_json_def budget_json_def jobj_def keyword_fields_def field_def field_or_def fmlookup_of_list)

lemma mapM_item_roundtrip: "mapM item_of_json (map item_json ws) = Inr ws"
  by (induction ws) (simp_all add: item_roundtrip)

lemma fold_item_put:
  "distinct (map wi_plan_id (acc @ ws)) \<Longrightarrow> fold item_put ws acc = acc @ ws"
proof (induction ws arbitrary: acc)
  case Nil
  then show ?case by simp
next
  case (Cons w ws)
  then have "wi_plan_id w \<notin> wi_plan_id ` set acc" by auto
  then have "\<forall>x \<in> set acc. wi_plan_id x \<noteq> wi_plan_id w" by (metis image_eqI)
  then have "item_put w acc = acc @ [w]" by (intro item_put_new) (simp add: find_None_iff)
  with Cons show ?case by simp
qed

text \<open>
  C8: A campaign that has checkpointed resumes as it was: loading its checkpoint, with an
  authorization of the same identity that is still valid, rebuilds the same status, reason,
  budget and work items in the same order.
\<close>

theorem checkpoint_resume:
  assumes "distinct (map wi_plan_id (cc_items c))" and "cc_has_checkpoints c"
    and "campaign_save (c, d) = ((c', d'), Inr ())"
    and "au_authorization_id a = au_authorization_id (cc_authorization c)" and "au_campaign_id a = cc_campaign_id c"
    and "assert_allows a (hd (au_allowed_cohorts a)) fzero 0 False now = Inr ()"
  shows "campaign_resume (cc_campaign_id c) a now d' = Inr (c\<lparr>cc_authorization := a, cc_now := now\<rparr>)"
proof -
  have save: "checkpoint_save (cc_campaign_id c) (campaign_payload c) d = (d', Inr ())"
    using assms(2,3) by (auto simp: campaign_save_def split: prod.splits)
  with checkpoint_save_cases [OF save] have f: "finite_json (JObj (campaign_payload c))" "safe_name (cc_campaign_id c)" by auto
  with save have "snd (checkpoint_load (cc_campaign_id c) d') = Inr (campaign_payload c)"
    by (auto simp: checkpoint_save_ok checkpoint_load_saved)
  moreover have "get (campaign_payload c) ''campaign_id'' = JStr (cc_campaign_id c)"
    "get (campaign_payload c) ''authorization_id'' = JStr (au_authorization_id a)"
    "item (campaign_payload c) ''budget'' = Inr (budget_json (cc_budget c))"
    "field_or (campaign_payload c) ''work_items'' [] json_items = Inr (map item_json (cc_items c))"
    "item (campaign_payload c) ''status'' = Inr (JStr (status_text (cc_status c)))"
    "get (campaign_payload c) ''reason'' = opt_str (cc_reason c)"
    using assms(4) by (simp_all add: campaign_payload_def get_jobj item_jobj field_or_def fmlookup_of_list)
  moreover have "fold item_put (cc_items c) [] = cc_items c"
    using fold_item_put [of "[]" "cc_items c"] assms(1) by simp
  ultimately show ?thesis
    using assms(2,5,6)
    by (simp add: campaign_resume_def violation_unless_def mapM_item_roundtrip status_roundtrip opt_roundtrip
        budget_roundtrip new_controller_def)
qed

lemma checkpoint_resume_witness:
  "campaign_resume ''c1'' demo_auth demo_now (snd (fst (campaign_save (demo_campaign\<lparr>cc_has_checkpoints := True\<rparr>, fmempty))))
     = Inr (demo_campaign\<lparr>cc_has_checkpoints := True\<rparr>)"
proof -
  let ?c = "demo_campaign\<lparr>cc_has_checkpoints := True\<rparr>"
  have f: "finite_json (JObj (campaign_payload ?c))" "safe_name ''c1''"
    by (simp_all add: campaign_payload_def demo_campaign_def budget_json_def budget_new_def jobj_def finite_fmupd safe_name_def)
  then have s: "campaign_save (?c, fmempty)
      = ((?c, fmupd ''c1'' (Some (checkpoint_document (campaign_payload ?c) (digest (JObj (campaign_payload ?c))))) fmempty), Inr ())"
    by (simp add: campaign_save_def checkpoint_save_ok) (simp add: demo_campaign_def checkpoint_save_ok)
  have h: "hd (au_allowed_cohorts demo_auth) = FEEDBACK" by (simp add: demo_auth_def)
  from checkpoint_resume [OF _ _ s, of demo_auth demo_now] s show ?thesis
    using demo_allows h by (simp add: demo_campaign_def) (simp add: demo_auth_def)
qed

section \<open>A plan without canonical text\<close>

text \<open>
  A plan whose cost limit is NaN passes the limit's own check and every budget check;
  its submission then raises because it has no canonical text, after the budget was
  changed: no work item exists, the reserved calls are kept, and from then on the cost
  limit refuses no reservation, however large.
\<close>

theorem nan_plan_disables_cost_limit:
  assumes "el_max_cost_cny (pl_limits p) = NaN" and "0 \<le> n"
    and "cc_status c = RUNNING" and "pl_campaign_id p = cc_campaign_id c" and "item_get (pl_plan_id p) c = None"
    and "assert_allows (cc_authorization c) (tr_cohort (pl_task p)) fzero 0 (remote_call remote p) (cc_now c) = Inr ()"
    and "bm_spent_calls (cc_budget c) + bm_reserved_calls (cc_budget c) + n \<le> bm_max_calls (cc_budget c)"
  shows "\<exists>c' e. campaign_submit p n remote (c, d) = ((c', d), Inl e) \<and> exn_of e = ValueError
     \<and> cc_items c' = cc_items c
     \<and> cc_budget c' = (cc_budget c)\<lparr>bm_reserved_cost := NaN, bm_reserved_calls := bm_reserved_calls (cc_budget c) + n\<rparr>
     \<and> (\<forall>cost m. \<not> flt cost fzero \<and> 0 \<le> m
          \<and> bm_spent_calls (cc_budget c') + bm_reserved_calls (cc_budget c') + m \<le> bm_max_calls (cc_budget c')
          \<longrightarrow> is_ok (budget_reserve cost m (cc_budget c')))"
proof -
  have nan: "fadd x NaN = NaN" "fadd NaN x = NaN" "\<not> flt x NaN" "\<not> flt NaN x" for x by (cases x; simp)+
  let ?b = "(cc_budget c)\<lparr>bm_reserved_cost := NaN, bm_reserved_calls := bm_reserved_calls (cc_budget c) + n\<rparr>"
  have b: "budget_reserve NaN n (cc_budget c) = Inr ?b"
    using assms(2,7) by (simp add: budget_reserve_eq_Inr nan)
  have fin: "\<not> finite_json (execution_plan_json p)"
    unfolding execution_plan_json_def jobj_def finite_JObj
    by (rule notI, drule spec [of _ "''limits''"])
      (simp add: fmlookup_of_list execution_limits_json_def jobj_def finite_JObj assms(1), drule spec [of _ "''max_cost_cny''"], simp)
  have rr: "require_running c = Inr ()" using assms(3) by (simp add: require_running_eq)
  have "campaign_submit p n remote (c, d) = ((c\<lparr>cc_budget := ?b\<rparr>, d),
      Inl (Err ValueError ''Out of range float values are not JSON compliant''))"
    using assms rr b fin by (simp add: campaign_submit_def violation_unless_def plan_sha256_def content_sha256_eq)
  moreover have "is_ok (budget_reserve cost m ?b)"
    if "\<not> flt cost fzero" "0 \<le> m" "bm_spent_calls ?b + bm_reserved_calls ?b + m \<le> bm_max_calls ?b" for cost m
    using that by (simp add: budget_reserve_def nan)
  ultimately show ?thesis by (intro exI [of _ "c\<lparr>cc_budget := ?b\<rparr>"]) auto
qed

lemma nan_plan_disables_cost_limit_witness:
  "check_execution_limits (pl_limits (demo_plan NaN)) = Inr ()
   \<and> (\<exists>c' e. campaign_submit (demo_plan NaN) 1 None (demo_running, fmempty) = ((c', fmempty), Inl e)
        \<and> is_ok (budget_reserve (dyadic 1 1000) 1 (cc_budget c')))"
proof
  show "check_execution_limits (pl_limits (demo_plan NaN)) = Inr ()"
    by (simp add: check_execution_limits_def demo_plan_def violation_unless_def fzero_def)
  have r: "remote_call None (demo_plan NaN) = False" by (simp add: remote_call_def demo_plan_def)
  have i: "cc_authorization demo_running = demo_auth" "cc_now demo_running = demo_now"
    "tr_cohort (pl_task (demo_plan NaN)) = FEEDBACK" "cc_budget demo_running = budget_new fzero 3"
    "el_max_cost_cny (pl_limits (demo_plan NaN)) = NaN" "cc_status demo_running = RUNNING"
    "pl_campaign_id (demo_plan NaN) = cc_campaign_id demo_running" "item_get (pl_plan_id (demo_plan NaN)) demo_running = None"
    by (simp_all add: demo_plan_def demo_running_def demo_campaign_def item_get_def)
  have a: "assert_allows (cc_authorization demo_running) (tr_cohort (pl_task (demo_plan NaN))) fzero 0
      (remote_call None (demo_plan NaN)) (cc_now demo_running) = Inr ()"
    using demo_allows by (simp add: r i)
  have "bm_spent_calls (cc_budget demo_running) + bm_reserved_calls (cc_budget demo_running) + 1
      \<le> bm_max_calls (cc_budget demo_running)"
    by (simp add: i budget_new_def)
  from nan_plan_disables_cost_limit [OF i(5) _ i(6-8) a this, of fmempty]
  show "\<exists>c' e. campaign_submit (demo_plan NaN) 1 None (demo_running, fmempty) = ((c', fmempty), Inl e)
        \<and> is_ok (budget_reserve (dyadic 1 1000) 1 (cc_budget c'))"
    by (auto simp: i budget_new_def dyadic_def fzero_def)
qed

end
