(* ===== verification/Append_Only.thy ===== *)
theory Append_Only
  imports Contracts
begin

text \<open>
  The contract the append-only record logs share: the receipt log, the evidence and claim
  logs and the decision log.  A log is read as a list of records with distinct keys; adding
  a record under a new key appends it, adding one under a known key changes nothing and
  succeeds exactly when the record is the known one.
\<close>

locale append_only =
  fixes read :: "'s \<Rightarrow> 'e list res" and add :: "'x \<Rightarrow> ('s, 'r) op"
    and entry :: "'x \<Rightarrow> 'e" and key :: "'e \<Rightarrow> 'k" and same :: "'e \<Rightarrow> 'e \<Rightarrow> bool"
  assumes add_new: "read s = Inr es \<Longrightarrow> key (entry x) \<notin> key ` set es \<Longrightarrow> add x s = (s', Inr r) \<Longrightarrow>
      read s' = Inr (es @ [entry x])"
    and add_known: "read s = Inr es \<Longrightarrow> e \<in> set es \<Longrightarrow> key e = key (entry x) \<Longrightarrow> add x s = (s', q) \<Longrightarrow>
      read s' = Inr es \<and> (is_ok q \<longrightarrow> same e (entry x))"
    and add_failed: "read s = Inr es \<Longrightarrow> add x s = (s', Inl err) \<Longrightarrow> read s' = Inr es"
    and keys_distinct: "read s = Inr es \<Longrightarrow> distinct (map key es)"
begin

text \<open>Any sequence of additions, those that raise included.\<close>

fun adds :: "'x list \<Rightarrow> 's \<Rightarrow> 's" where
  "adds [] s = s"
| "adds (x # xs) s = adds xs (fst (add x s))"

lemma add_extends:
  assumes "read s = Inr es"
  shows "\<exists>new. read (fst (add x s)) = Inr (es @ new) \<and> set new \<subseteq> {entry x}"
proof -
  obtain s' r where a: "add x s = (s', r)" by fastforce
  show ?thesis
  proof (cases "key (entry x) \<in> key ` set es")
    case True
    then obtain e where "e \<in> set es" "key e = key (entry x)" by force
    with add_known [OF assms _ _ a] a show ?thesis by (intro exI [of _ "[]"]) simp
  next
    case False
    show ?thesis
    proof (cases r)
      case (Inl err)
      with add_failed [OF assms] a show ?thesis by (intro exI [of _ "[]"]) simp
    next
      case (Inr v)
      with add_new [OF assms False] a show ?thesis by (intro exI [of _ "[entry x]"]) simp
    qed
  qed
qed

lemma adds_extend:
  assumes "read s = Inr es"
  shows "\<exists>new. read (adds xs s) = Inr (es @ new) \<and> set new \<subseteq> entry ` set xs"
  using assms
proof (induction xs arbitrary: s es)
  case Nil
  then show ?case by (intro exI [of _ "[]"]) simp
next
  case (Cons x xs)
  obtain new where new: "read (fst (add x s)) = Inr (es @ new)" "set new \<subseteq> {entry x}"
    using add_extends [OF Cons.prems] by blast
  obtain more where "read (adds xs (fst (add x s))) = Inr ((es @ new) @ more)" "set more \<subseteq> entry ` set xs"
    using Cons.IH [OF new(1)] by blast
  with new(2) show ?case by (intro exI [of _ "new @ more"]) auto
qed

text \<open>A record that was stored stays stored, whatever is added after it.\<close>

lemma stored_stays:
  assumes "read s = Inr es" and "e \<in> set es"
  shows "\<exists>es'. read (adds xs s) = Inr es' \<and> e \<in> set es' \<and> distinct (map key es')"
proof -
  obtain new where r: "read (adds xs s) = Inr (es @ new)" using adds_extend [OF assms(1)] by blast
  from keys_distinct [OF r] r assms(2) show ?thesis by (intro exI [of _ "es @ new"]) simp
qed

text \<open>A successful addition is found under its key, now and later.\<close>

lemma added_found:
  assumes "read s = Inr es" and "add x s = (s', Inr r)"
  shows "\<exists>es' e. read s' = Inr es' \<and> find (\<lambda>y. key y = key (entry x)) es' = Some e \<and> (e = entry x \<or> same e (entry x))"
proof (cases "key (entry x) \<in> key ` set es")
  case True
  then obtain e where e: "e \<in> set es" "key e = key (entry x)" by force
  with add_known [OF assms(1) e assms(2)] have s': "read s' = Inr es" "same e (entry x)" by simp_all
  have "find (\<lambda>y. key y = key e) es = Some e" using find_key_unique [OF keys_distinct [OF assms(1)] e(1)] .
  with s' e show ?thesis by (intro exI [of _ es] exI [of _ e]) simp
next
  case False
  with add_new [OF assms(1) _ assms(2)] have s': "read s' = Inr (es @ [entry x])" by simp
  have "find (\<lambda>y. key y = key (entry x)) (es @ [entry x]) = Some (entry x)"
    using find_key_unique [OF keys_distinct [OF s'], of "entry x"] by simp
  with s' show ?thesis by (intro exI) auto
qed

end

end
