(* ===== verification/Receipt_Store.thy ===== *)
theory Receipt_Store
  imports Append_Only
begin

text \<open>
  \<open>ReceiptStore\<close> of \<open>src/src/evolve/evidence/receipt_store.py\<close>: an append-only log of
  receipts and the artifacts they name, stored under their SHA-256.  The store is a record:
  what each line of the log denotes (\<open>None\<close> for a line that is not JSON), the artifact
  files, and the writer lock.  A line the store wrote reads back as the object written.
\<close>

section \<open>State\<close>

record receipt_store =
  rs_log :: "json option list"
  rs_artifacts :: "(string, nat list) fmap"
  rs_locked :: bool

text \<open>Dataclass equality: the payload is compared with Python's \<open>==\<close>.\<close>

definition receipt_eq :: "receipt \<Rightarrow> receipt \<Rightarrow> bool" where
  "receipt_eq r s \<longleftrightarrow> r\<lparr>rc_payload := fmempty\<rparr> = s\<lparr>rc_payload := fmempty\<rparr>
     \<and> py_eq (JObj (rc_payload r)) (JObj (rc_payload s))"

text \<open>\<open>Receipt(**record["receipt"])\<close>.  A value of another type than the field's is a \<open>TypeError\<close>.\<close>

fun str_value :: "json \<Rightarrow> string res" where
  "str_value (JStr s) = Inr s" | "str_value j = raise TypeError ''str''"

fun int_value :: "json \<Rightarrow> int res" where
  "int_value (JInt i) = Inr i" | "int_value j = raise TypeError ''int''"

fun dict_value :: "json \<Rightarrow> dict res" where
  "dict_value (JObj d) = Inr d" | "dict_value j = raise TypeError ''dict''"

fun list_value :: "json \<Rightarrow> json list res" where
  "list_value (JList xs) = Inr xs" | "list_value j = raise TypeError ''list''"

fun opt_value :: "json \<Rightarrow> string option res" where
  "opt_value JNull = Inr None" | "opt_value (JStr s) = Inr (Some s)" | "opt_value j = raise TypeError ''str''"

definition the_item :: "dict \<Rightarrow> string \<Rightarrow> (json \<Rightarrow> 'a res) \<Rightarrow> 'a res" where
  "the_item d k f = bind (item d k) f"

definition receipt_fields :: "string list" where
  "receipt_fields = [''receipt_id'', ''campaign_id'', ''plan_id'', ''sequence'', ''kind'', ''created_at'',
     ''payload'', ''artifact_sha256'', ''supersedes_receipt_id'']"

definition receipt_of_json :: "json \<Rightarrow> receipt res" where
  "receipt_of_json j =
     bind (dict_value j) (\<lambda>d.
     bind (require (fmdom' d \<subseteq> set receipt_fields) TypeError ''unexpected keyword argument'') (\<lambda>_.
     bind (the_item d ''receipt_id'' str_value) (\<lambda>rid.
     bind (the_item d ''campaign_id'' str_value) (\<lambda>cid.
     bind (the_item d ''plan_id'' str_value) (\<lambda>pid.
     bind (the_item d ''sequence'' int_value) (\<lambda>sq.
     bind (the_item d ''kind'' str_value) (\<lambda>kind.
     bind (the_item d ''created_at'' str_value) (\<lambda>at.
     bind (the_item d ''payload'' dict_value) (\<lambda>payload.
     bind (the_item d ''artifact_sha256'' str_value) (\<lambda>art.
     bind (opt_value (get d ''supersedes_receipt_id'')) (\<lambda>sup.
     mk_receipt \<lparr>rc_receipt_id = rid, rc_campaign_id = cid, rc_plan_id = pid, rc_sequence = sq, rc_kind = kind,
       rc_created_at = at, rc_payload = payload, rc_artifact_sha256 = art, rc_supersedes_receipt_id = sup\<rparr>)))))))))))"

section \<open>Reading\<close>

definition verify_artifact :: "string \<Rightarrow> nat list option \<Rightarrow> receipt_store \<Rightarrow> nat list res" where
  "verify_artifact h expected s = (case fmlookup (rs_artifacts s) h of
     None \<Rightarrow> raise IntegrityError ''missing artifact''
   | Some content \<Rightarrow>
       bind (require (sha256_hex content = h) IntegrityError ''artifact hash mismatch'') (\<lambda>_.
       bind (require (expected = None \<or> expected = Some content) IntegrityError ''artifact content mismatch'') (\<lambda>_.
       Inr content)))"

definition parse_receipt_line :: "json option \<Rightarrow> (receipt \<times> json) res" where
  "parse_receipt_line l = rewrap is_decode_error IntegrityError ''invalid receipt record''
     (case l of None \<Rightarrow> raise ValueError ''Expecting value''
      | Some j \<Rightarrow> bind (dict_value j) (\<lambda>record.
          bind (the_item record ''receipt'' receipt_of_json) (\<lambda>r.
          bind (item record ''receipt_sha256'') (\<lambda>h. Inr (r, h)))))"

fun read_receipts :: "receipt_store \<Rightarrow> receipt list \<Rightarrow> json option list \<Rightarrow> receipt list res" where
  "read_receipts s acc [] = Inr acc"
| "read_receipts s acc (l # ls) =
     bind (parse_receipt_line l) (\<lambda>(r, h).
     bind (receipt_sha256 r) (\<lambda>actual.
     bind (require (h = JStr actual) IntegrityError ''receipt hash mismatch'') (\<lambda>_.
     case find (\<lambda>x. rc_receipt_id x = rc_receipt_id r) acc of
       Some prior \<Rightarrow>
         bind (require (receipt_eq prior r) ReceiptConflict ''receipt appears with conflicting content'') (\<lambda>_.
         read_receipts s acc ls)
     | None \<Rightarrow>
         bind (verify_artifact (rc_artifact_sha256 r) None s) (\<lambda>_.
         read_receipts s (acc @ [r]) ls))))"

definition list_receipts :: "receipt_store \<Rightarrow> receipt list res" where
  "list_receipts s = read_receipts s [] (rs_log s)"

definition receipts_for :: "string \<Rightarrow> receipt_store \<Rightarrow> receipt list res" where
  "receipts_for p s = bind (list_receipts s) (\<lambda>rs. Inr (filter (\<lambda>r. rc_plan_id r = p) rs))"

definition read_artifact :: "string \<Rightarrow> receipt_store \<Rightarrow> nat list res" where
  "read_artifact h s = verify_artifact h None s"

section \<open>Appending\<close>

definition acquire_writer :: "(receipt_store, 'a) op \<Rightarrow> (receipt_store, 'a) op" where
  "acquire_writer body s =
     (if rs_locked s then (s, raise ConcurrentWriterError ''receipt writer lease already held'')
      else case body (s\<lparr>rs_locked := True\<rparr>) of (s', r) \<Rightarrow> (s'\<lparr>rs_locked := False\<rparr>, r))"

definition write_content_addressed :: "string \<Rightarrow> nat list \<Rightarrow> (receipt_store, unit) op" where
  "write_content_addressed h content s = (case fmlookup (rs_artifacts s) h of
     Some existing \<Rightarrow> (s, require (existing = content) IntegrityError ''artifact collision'')
   | None \<Rightarrow> (s\<lparr>rs_artifacts := fmupd h content (rs_artifacts s)\<rparr>, Inr ()))"

definition receipt_line :: "receipt \<Rightarrow> string \<Rightarrow> json" where
  "receipt_line r h = jobj [(''receipt'', JObj (receipt_dict r)), (''receipt_sha256'', JStr h)]"

definition append_body :: "receipt \<Rightarrow> nat list \<Rightarrow> (receipt_store, receipt) op" where
  "append_body r artifact = obind (oread list_receipts) (\<lambda>l. obind (olift l) (\<lambda>rs.
     case find (\<lambda>x. rc_receipt_id x = rc_receipt_id r) rs of
       Some prior \<Rightarrow>
         obind (olift (require (receipt_eq prior r) ReceiptConflict ''receipt already has different content'')) (\<lambda>_.
         obind (oread (verify_artifact (rc_artifact_sha256 prior) (Some artifact))) (\<lambda>v.
         obind (olift v) (\<lambda>_. oreturn prior)))
     | None \<Rightarrow>
         obind (write_content_addressed (rc_artifact_sha256 r) artifact) (\<lambda>_.
         obind (olift (receipt_sha256 r)) (\<lambda>h.
         obind (omodify (\<lambda>s. s\<lparr>rs_log := rs_log s @ [Some (receipt_line r h)]\<rparr>)) (\<lambda>_. oreturn r)))))"

definition append_receipt :: "receipt \<times> nat list \<Rightarrow> (receipt_store, receipt) op" where
  "append_receipt ra = (case ra of (r, artifact) \<Rightarrow>
     obind (olift (require (sha256_hex artifact = rc_artifact_sha256 r) IntegrityError ''artifact SHA-256 mismatch''))
       (\<lambda>_. acquire_writer (append_body r artifact)))"

section \<open>Facts\<close>

lemma receipt_eq_refl [simp]: "receipt_eq r r"
  by (simp add: receipt_eq_def)

lemma receipt_eq_id: "receipt_eq r s \<Longrightarrow> rc_receipt_id r = rc_receipt_id s \<and> rc_artifact_sha256 r = rc_artifact_sha256 s"
  by (auto simp: receipt_eq_def) (metis receipt.select_convs receipt.surjective receipt.update_convs(7))+

lemma fmdom_receipt_dict: "fmdom' (receipt_dict r) = set receipt_fields"
  by (auto simp: receipt_dict_def receipt_fields_def)

lemma opt_value_opt_str [simp]: "opt_value (opt_str x) = Inr x"
  by (cases x) simp_all

lemma receipt_decode: "check_receipt r = Inr () \<Longrightarrow> receipt_of_json (JObj (receipt_dict r)) = Inr r"
proof -
  assume ok: "check_receipt r = Inr ()"
  have g: "get (receipt_dict r) ''supersedes_receipt_id'' = opt_str (rc_supersedes_receipt_id r)"
    "item (receipt_dict r) ''receipt_id'' = Inr (JStr (rc_receipt_id r))"
    "item (receipt_dict r) ''campaign_id'' = Inr (JStr (rc_campaign_id r))"
    "item (receipt_dict r) ''plan_id'' = Inr (JStr (rc_plan_id r))"
    "item (receipt_dict r) ''sequence'' = Inr (JInt (rc_sequence r))"
    "item (receipt_dict r) ''kind'' = Inr (JStr (rc_kind r))"
    "item (receipt_dict r) ''created_at'' = Inr (JStr (rc_created_at r))"
    "item (receipt_dict r) ''payload'' = Inr (JObj (rc_payload r))"
    "item (receipt_dict r) ''artifact_sha256'' = Inr (JStr (rc_artifact_sha256 r))"
    by (simp_all add: receipt_dict_def)
  have r: "\<lparr>rc_receipt_id = rc_receipt_id r, rc_campaign_id = rc_campaign_id r, rc_plan_id = rc_plan_id r,
      rc_sequence = rc_sequence r, rc_kind = rc_kind r, rc_created_at = rc_created_at r, rc_payload = rc_payload r,
      rc_artifact_sha256 = rc_artifact_sha256 r, rc_supersedes_receipt_id = rc_supersedes_receipt_id r\<rparr> = r"
    by (cases r) simp
  show ?thesis
    using ok by (simp add: receipt_of_json_def fmdom_receipt_dict the_item_def g mk_receipt_def r)
qed

lemma parse_own_line:
  "check_receipt r = Inr () \<Longrightarrow> parse_receipt_line (Some (receipt_line r h)) = Inr (r, JStr h)"
  by (simp add: parse_receipt_line_def receipt_line_def jobj_def the_item_def receipt_decode)

lemma read_receipts_snoc:
  "read_receipts s acc (ls @ [l]) = bind (read_receipts s acc ls) (\<lambda>rs. read_receipts s rs [l])"
proof (induction ls arbitrary: acc)
  case Nil
  then show ?case by simp
next
  case (Cons k ks)
  then show ?case
    by (auto simp: bind_def split: sum.splits prod.splits option.splits)
qed

text \<open>What a readable log holds: checked receipts, one per id, each with its artifact.\<close>

definition receipts_sound :: "receipt_store \<Rightarrow> receipt list \<Rightarrow> bool" where
  "receipts_sound s rs \<longleftrightarrow> distinct (map rc_receipt_id rs)
     \<and> (\<forall>r \<in> set rs. \<exists>a. fmlookup (rs_artifacts s) (rc_artifact_sha256 r) = Some a
          \<and> sha256_hex a = rc_artifact_sha256 r)"

lemma verify_artifact_eq_Inr:
  "verify_artifact h x s = Inr a \<longleftrightarrow> fmlookup (rs_artifacts s) h = Some a \<and> sha256_hex a = h \<and> (x = None \<or> x = Some a)"
  by (auto simp: verify_artifact_def res_simps raise_def split: option.splits)

lemma read_receipts_sound:
  "read_receipts s acc ls = Inr rs \<Longrightarrow> receipts_sound s acc \<Longrightarrow> receipts_sound s rs"
proof (induction ls arbitrary: acc)
  case Nil
  then show ?case by simp
next
  case (Cons l ls)
  from Cons.prems(1) obtain r h where p: "parse_receipt_line l = Inr (r, h)"
    by (auto simp: res_simps)
  show ?case
  proof (cases "find (\<lambda>x. rc_receipt_id x = rc_receipt_id r) acc")
    case (Some prior)
    with Cons p show ?thesis by (auto simp: res_simps)
  next
    case None
    with Cons.prems p obtain a where a: "verify_artifact (rc_artifact_sha256 r) None s = Inr a"
      "read_receipts s (acc @ [r]) ls = Inr rs"
      by (auto simp: res_simps)
    have "receipts_sound s (acc @ [r])"
      using Cons.prems(2) None a(1) by (auto simp: receipts_sound_def find_None_iff verify_artifact_eq_Inr)
    with Cons.IH a(2) show ?thesis by blast
  qed
qed

lemma list_receipts_sound: "list_receipts s = Inr rs \<Longrightarrow> receipts_sound s rs"
  unfolding list_receipts_def by (erule read_receipts_sound) (simp add: receipts_sound_def)

text \<open>Reading depends on the artifacts it meets only, so a new artifact disturbs nothing.\<close>

lemma read_receipts_more_artifacts:
  "read_receipts s acc ls = Inr rs \<Longrightarrow> rs_artifacts s \<subseteq>\<^sub>f rs_artifacts s' \<Longrightarrow> read_receipts s' acc ls = Inr rs"
proof (induction ls arbitrary: acc)
  case Nil
  then show ?case by simp
next
  case (Cons l ls)
  have v: "verify_artifact h None s = Inr a \<Longrightarrow> verify_artifact h None s' = Inr a" for h a
    using Cons.prems(2) by (auto simp: verify_artifact_eq_Inr fmsubset_alt_def fmpred_iff)
  from Cons.prems(1) obtain r h where p: "parse_receipt_line l = Inr (r, h)"
    by (auto simp: res_simps)
  show ?case
    using Cons p v by (cases "find (\<lambda>x. rc_receipt_id x = rc_receipt_id r) acc") (fastforce simp: res_simps)+
qed

lemma receipt_artifact: "list_receipts s = Inr rs \<Longrightarrow> r \<in> set rs \<Longrightarrow>
    \<exists>a. read_artifact (rc_artifact_sha256 r) s = Inr a \<and> sha256_hex a = rc_artifact_sha256 r"
  using list_receipts_sound by (fastforce simp: receipts_sound_def read_artifact_def verify_artifact_eq_Inr)

definition in_writer :: "receipt_store \<Rightarrow> receipt_store" where
  "in_writer s = s\<lparr>rs_locked := True\<rparr>"

lemma list_receipts_lock [simp]: "list_receipts (s\<lparr>rs_locked := b\<rparr>) = list_receipts s"
proof -
  have "read_receipts (s\<lparr>rs_locked := b\<rparr>) acc ls = read_receipts s acc ls" for acc ls
  proof (induction ls arbitrary: acc)
    case (Cons l ls)
    have v: "verify_artifact h x (s\<lparr>rs_locked := b\<rparr>) = verify_artifact h x s" for h x
      by (simp add: verify_artifact_def)
    show ?case using Cons v by (simp add: bind_def split: sum.split prod.split option.split)
  qed simp
  then show ?thesis by (simp add: list_receipts_def)
qed

lemma verify_artifact_lock [simp]: "verify_artifact h x (s\<lparr>rs_locked := b\<rparr>) = verify_artifact h x s"
  by (simp add: verify_artifact_def)

text \<open>The three outcomes of an append to a readable, unlocked store.\<close>

lemma append_receipt_eq:
  "append_receipt (r, a) s =
     (if sha256_hex a \<noteq> rc_artifact_sha256 r then (s, Inl (Err IntegrityError ''artifact SHA-256 mismatch''))
      else if rs_locked s then (s, Inl (Err ConcurrentWriterError ''receipt writer lease already held''))
      else case append_body r a (s\<lparr>rs_locked := True\<rparr>) of (s', q) \<Rightarrow> (s'\<lparr>rs_locked := False\<rparr>, q))"
  by (simp add: append_receipt_def acquire_writer_def raise_def)

lemma append_known:
  assumes s: "list_receipts s = Inr rs" and prior: "find (\<lambda>x. rc_receipt_id x = rc_receipt_id r) rs = Some prior"
    and run: "append_receipt (r, a) s = (s', q)"
  shows "s' = s \<and> (is_ok q \<longrightarrow> receipt_eq prior r \<and> q = Inr prior)"
proof -
  have "append_body r a t = (t, q') \<and> (is_ok q' \<longrightarrow> receipt_eq prior r \<and> q' = Inr prior)"
    if "append_body r a t = (t', q')" "t = s\<lparr>rs_locked := True\<rparr>" for t t' q'
    using that by (auto simp: append_body_def s prior obind_olift require_def split: sum.splits if_splits)
  with run show ?thesis by (cases s) (auto simp: append_receipt_eq split: if_splits prod.splits)
qed

definition with_receipt :: "receipt \<Rightarrow> nat list \<Rightarrow> receipt_store \<Rightarrow> receipt_store" where
  "with_receipt r a s = s\<lparr>rs_artifacts := fmupd (rc_artifact_sha256 r) a (rs_artifacts s),
     rs_log := rs_log s @ [Some (receipt_line r (digest (JObj (receipt_dict r))))]\<rparr>"

text \<open>A failed append may leave its artifact behind, but never a log line.\<close>

lemma append_body_new:
  assumes s: "list_receipts s = Inr rs" and new: "find (\<lambda>x. rc_receipt_id x = rc_receipt_id r) rs = None"
  shows "append_body r a s =
    (case fmlookup (rs_artifacts s) (rc_artifact_sha256 r) of
       Some x \<Rightarrow> if x \<noteq> a then (s, Inl (Err IntegrityError ''artifact collision''))
                 else (case receipt_sha256 r of Inl e \<Rightarrow> (s, Inl e) | Inr h \<Rightarrow> (with_receipt r a s, Inr r))
     | None \<Rightarrow> (case receipt_sha256 r of
          Inl e \<Rightarrow> (s\<lparr>rs_artifacts := fmupd (rc_artifact_sha256 r) a (rs_artifacts s)\<rparr>, Inl e)
        | Inr h \<Rightarrow> (with_receipt r a s, Inr r)))"
proof -
  have same: "fmlookup (rs_artifacts s) h = Some x \<Longrightarrow> s\<lparr>rs_artifacts := fmupd h x (rs_artifacts s)\<rparr> = s" for h x
    by (cases s) (auto intro!: fmap_ext split: if_splits)
  have w: "obind (write_content_addressed h a) f s = (case write_content_addressed h a s of
      (s', Inl e) \<Rightarrow> (s', Inl e) | (s', Inr u) \<Rightarrow> f () s')" for h and f :: "unit \<Rightarrow> (receipt_store, receipt) op"
    by (simp add: obind_def split: prod.split sum.split)
  show ?thesis
    by (cases "fmlookup (rs_artifacts s) (rc_artifact_sha256 r)"; cases "receipt_sha256 r")
      (auto simp: append_body_def s new w write_content_addressed_def require_def obind_olift with_receipt_def
        receipt_sha256_def content_sha256_eq same split: if_splits)
qed

lemma append_new:
  assumes s: "list_receipts s = Inr rs" and new: "find (\<lambda>x. rc_receipt_id x = rc_receipt_id r) rs = None"
    and run: "append_receipt (r, a) s = (s', Inr q)"
  shows "q = r \<and> sha256_hex a = rc_artifact_sha256 r \<and> s' = with_receipt r a s \<and> \<not> rs_locked s
     \<and> finite_json (JObj (receipt_dict r)) \<and> fmlookup (rs_artifacts s) (rc_artifact_sha256 r) \<in> {None, Some a}"
proof -
  let ?t = "s\<lparr>rs_locked := True\<rparr>"
  have t: "list_receipts ?t = Inr rs" using s by simp
  have w: "\<not> rs_locked s \<Longrightarrow> (with_receipt r a ?t)\<lparr>rs_locked := False\<rparr> = with_receipt r a s"
    by (cases s) (simp add: with_receipt_def)
  from run w show ?thesis
    by (auto simp: append_receipt_eq append_body_new [OF t new] receipt_sha256_def content_sha256_eq
        split: if_splits option.splits sum.splits)
qed

lemma append_err:
  assumes s: "list_receipts s = Inr rs" and run: "append_receipt (r, a) s = (s', Inl e)"
  shows "rs_log s' = rs_log s \<and> rs_artifacts s \<subseteq>\<^sub>f rs_artifacts s'"
proof (cases "find (\<lambda>x. rc_receipt_id x = rc_receipt_id r) rs")
  case (Some prior)
  with append_known [OF s Some run] show ?thesis by (simp add: fmsubset_alt_def fmpred_iff)
next
  case None
  have t: "list_receipts (s\<lparr>rs_locked := True\<rparr>) = Inr rs" using s by simp
  from run show ?thesis
    by (auto simp: append_receipt_eq append_body_new [OF t None] fmsubset_alt_def fmpred_iff
        split: if_splits option.splits sum.splits)
qed

lemma list_receipts_with_receipt:
  assumes s: "list_receipts s = Inr rs" and new: "find (\<lambda>x. rc_receipt_id x = rc_receipt_id r) rs = None"
    and r: "check_receipt r = Inr ()" "finite_json (JObj (receipt_dict r))" "sha256_hex a = rc_artifact_sha256 r"
    and art: "fmlookup (rs_artifacts s) (rc_artifact_sha256 r) \<in> {None, Some a}"
  shows "list_receipts (with_receipt r a s) = Inr (rs @ [r])"
proof -
  have sub: "rs_artifacts s \<subseteq>\<^sub>f rs_artifacts (with_receipt r a s)"
    using art by (auto simp: with_receipt_def fmsubset_alt_def fmpred_iff)
  have "read_receipts (with_receipt r a s) [] (rs_log s) = Inr rs"
    by (rule read_receipts_more_artifacts [OF _ sub]) (use s in \<open>simp add: list_receipts_def\<close>)
  moreover have "verify_artifact (rc_artifact_sha256 r) None (with_receipt r a s) = Inr a"
    using r(3) by (simp add: verify_artifact_eq_Inr with_receipt_def)
  ultimately show ?thesis
    using r new by (simp add: list_receipts_def [of "with_receipt r a s"])
      (simp add: with_receipt_def [of r a s] read_receipts_snoc parse_own_line receipt_sha256_def content_sha256_eq)
qed

section \<open>The store as an append-only log\<close>

text \<open>A caller constructs the receipt, which checks it, and appends it with its artifact.\<close>

definition submit_receipt :: "receipt \<times> nat list \<Rightarrow> (receipt_store, receipt) op" where
  "submit_receipt ra = obind (olift (mk_receipt (fst ra))) (\<lambda>r. append_receipt (r, snd ra))"

lemma mk_receipt_eq_Inr: "mk_receipt r = Inr r' \<longleftrightarrow> check_receipt r = Inr () \<and> r' = r"
  by (auto simp: mk_receipt_def res_simps)

lemma submit_receipt_cases:
  "submit_receipt ra s = (case check_receipt (fst ra) of Inl e \<Rightarrow> (s, Inl e) | Inr u \<Rightarrow> append_receipt ra s)"
  by (cases "check_receipt (fst ra)") (simp_all add: submit_receipt_def mk_receipt_def)

lemma list_receipts_same_log:
  assumes "list_receipts s = Inr rs" and "rs_log s' = rs_log s" and "rs_artifacts s \<subseteq>\<^sub>f rs_artifacts s'"
  shows "list_receipts s' = Inr rs"
  using read_receipts_more_artifacts [OF _ assms(3)] assms(1,2) by (simp add: list_receipts_def)

interpretation rl: append_only list_receipts submit_receipt fst rc_receipt_id receipt_eq
proof
  fix s s' :: receipt_store and es x r
  assume es: "list_receipts s = Inr es" and new: "rc_receipt_id (fst x) \<notin> rc_receipt_id ` set es"
    and run: "submit_receipt x s = (s', Inr r)"
  have f: "find (\<lambda>y. rc_receipt_id y = rc_receipt_id (fst x)) es = None" using new by (auto simp: find_None_iff image_iff)
  from run have c: "check_receipt (fst x) = Inr ()" "append_receipt (fst x, snd x) s = (s', Inr r)"
    by (auto simp: submit_receipt_cases split: sum.splits)
  from append_new [OF es f c(2)] list_receipts_with_receipt [OF es f c(1)]
  show "list_receipts s' = Inr (es @ [fst x])" by simp
next
  fix s s' :: receipt_store and es e x q
  assume es: "list_receipts s = Inr es" and e: "e \<in> set es" "rc_receipt_id e = rc_receipt_id (fst x)"
    and run: "submit_receipt x s = (s', q)"
  have "distinct (map rc_receipt_id es)" using list_receipts_sound [OF es] by (simp add: receipts_sound_def)
  from find_key_unique [OF this e(1)] have f: "find (\<lambda>y. rc_receipt_id y = rc_receipt_id (fst x)) es = Some e"
    by (simp add: e(2))
  show "list_receipts s' = Inr es \<and> (is_ok q \<longrightarrow> receipt_eq e (fst x))"
  proof (cases "check_receipt (fst x)")
    case (Inl err)
    with run es show ?thesis by (auto simp: submit_receipt_cases)
  next
    case (Inr u)
    with run have "append_receipt (fst x, snd x) s = (s', q)" by (simp add: submit_receipt_cases)
    from append_known [OF es f this] es show ?thesis by simp
  qed
next
  fix s s' :: receipt_store and es x err
  assume es: "list_receipts s = Inr es" and run: "submit_receipt x s = (s', Inl err)"
  show "list_receipts s' = Inr es"
  proof (cases "check_receipt (fst x)")
    case (Inl e)
    with run es show ?thesis by (simp add: submit_receipt_cases)
  next
    case (Inr u)
    with run have "append_receipt (fst x, snd x) s = (s', Inl err)" by (simp add: submit_receipt_cases)
    from append_err [OF es this] show ?thesis by (intro list_receipts_same_log [OF es]) auto
  qed
next
  fix s es
  assume "list_receipts s = Inr es"
  then show "distinct (map rc_receipt_id es)" using list_receipts_sound by (simp add: receipts_sound_def)
qed

section \<open>Properties\<close>

text \<open>
  Nothing that is appended later, accepted or refused, removes, reorders or changes a
  stored receipt: the receipts read before are a prefix of those read after, ids stay
  distinct, and every receipt's artifact is still there and hashes to its name.
\<close>

theorem receipts_append_only:
  assumes "list_receipts s = Inr rs"
  shows "\<exists>new. list_receipts (rl.adds xs s) = Inr (rs @ new) \<and> set new \<subseteq> fst ` set xs
     \<and> distinct (map rc_receipt_id (rs @ new))
     \<and> (\<forall>r \<in> set (rs @ new). \<exists>a. read_artifact (rc_artifact_sha256 r) (rl.adds xs s) = Inr a
          \<and> sha256_hex a = rc_artifact_sha256 r)"
proof -
  obtain new where n: "list_receipts (rl.adds xs s) = Inr (rs @ new)" "set new \<subseteq> fst ` set xs"
    using rl.adds_extend [OF assms] by blast
  from rl.keys_distinct [OF n(1)] receipt_artifact [OF n(1)] n show ?thesis by blast
qed

definition demo_receipt :: receipt where
  "demo_receipt = \<lparr>rc_receipt_id = ''r1'', rc_campaign_id = ''c1'', rc_plan_id = ''p1'', rc_sequence = 1,
     rc_kind = ''model'', rc_created_at = ''t'', rc_payload = fmempty, rc_artifact_sha256 = sha256_hex [7],
     rc_supersedes_receipt_id = None\<rparr>"

definition empty_store :: receipt_store where
  "empty_store = \<lparr>rs_log = [], rs_artifacts = fmempty, rs_locked = False\<rparr>"

lemma demo_receipt_ok: "check_receipt demo_receipt = Inr ()" "finite_json (JObj (receipt_dict demo_receipt))"
  by (simp_all add: check_receipt_def demo_receipt_def require_text_def require_sha256_def violation_unless_def
      blank_def is_space_def sha256_hex_is_sha256 receipt_dict_def finite_fmupd)

lemma empty_store_list: "list_receipts empty_store = Inr []"
  by (simp add: list_receipts_def empty_store_def)

lemma demo_append: "append_receipt (demo_receipt, [7]) empty_store = (with_receipt demo_receipt [7] empty_store, Inr demo_receipt)"
proof -
  have t: "list_receipts (empty_store\<lparr>rs_locked := True\<rparr>) = Inr []" using empty_store_list by simp
  have f: "find (\<lambda>x. rc_receipt_id x = rc_receipt_id demo_receipt) [] = None" by simp
  have sha: "receipt_sha256 demo_receipt = Inr (digest (JObj (receipt_dict demo_receipt)))"
    using demo_receipt_ok(2) by (simp add: receipt_sha256_def content_sha256_eq)
  have e: "sha256_hex [7] = rc_artifact_sha256 demo_receipt" "\<not> rs_locked empty_store"
    "fmlookup (rs_artifacts (empty_store\<lparr>rs_locked := True\<rparr>)) (rc_artifact_sha256 demo_receipt) = None"
    by (simp_all add: demo_receipt_def empty_store_def)
  have u: "(with_receipt demo_receipt [7] (empty_store\<lparr>rs_locked := True\<rparr>))\<lparr>rs_locked := False\<rparr> = with_receipt demo_receipt [7] empty_store"
    by (simp add: with_receipt_def empty_store_def)
  show ?thesis
    by (simp only: append_receipt_eq append_body_new [OF t f] sha e option.case sum.case prod.case u if_False simp_thms)
qed

lemma receipts_append_only_witness:
  "\<exists>new. list_receipts (rl.adds [(demo_receipt, [7]), (demo_receipt, [9])] empty_store) = Inr ([] @ new)
     \<and> set new \<subseteq> fst ` set [(demo_receipt, [7 :: nat]), (demo_receipt, [9])]"
  using receipts_append_only [OF empty_store_list, of "[(demo_receipt, [7]), (demo_receipt, [9])]"] by blast

text \<open>
  A receipt that was appended is read back by its id with the content it was appended
  with; appending it again returns it without a change, and appending other content under
  its id is refused without a change.
\<close>

theorem receipt_append_once:
  assumes "list_receipts s = Inr rs" and "check_receipt r = Inr ()"
    and "rc_receipt_id r \<notin> rc_receipt_id ` set rs" and "append_receipt (r, a) s = (s', Inr q)"
  shows "list_receipts s' = Inr (rs @ [r]) \<and> read_artifact (rc_artifact_sha256 r) s' = Inr a
     \<and> append_receipt (r, a) s' = (s', Inr r)
     \<and> (\<forall>r2 a2. rc_receipt_id r2 = rc_receipt_id r \<and> \<not> receipt_eq r r2 \<longrightarrow>
          (\<exists>e. append_receipt (r2, a2) s' = (s', Inl e)))"
proof -
  have f: "find (\<lambda>x. rc_receipt_id x = rc_receipt_id r) rs = None" using assms(3) by (auto simp: find_None_iff image_iff)
  note n = append_new [OF assms(1) f assms(4)]
  have s': "s' = with_receipt r a s" "\<not> rs_locked s'" and sha: "sha256_hex a = rc_artifact_sha256 r"
    using n by (auto simp: with_receipt_def)
  have l: "list_receipts s' = Inr (rs @ [r])"
    using n list_receipts_with_receipt [OF assms(1) f assms(2)] by simp
  have found: "find (\<lambda>x. rc_receipt_id x = rc_receipt_id r) (rs @ [r]) = Some r"
    using f by (simp add: find_append)
  have art: "verify_artifact (rc_artifact_sha256 r) e s' = Inr a" if "e = None \<or> e = Some a" for e
    using sha that by (simp add: verify_artifact_eq_Inr s'(1) with_receipt_def)
  have unlock: "s'\<lparr>rs_locked := False\<rparr> = s'" using s'(2) by (cases s') simp
  have again: "append_receipt (r, a) s' = (s', Inr r)"
    using s'(2) sha art [of "Some a"] unlock
    by (simp add: append_receipt_eq append_body_def l found obind_olift require_def)
  have "\<exists>e. append_receipt (r2, a2) s' = (s', Inl e)"
    if r2: "rc_receipt_id r2 = rc_receipt_id r" "\<not> receipt_eq r r2" for r2 a2
  proof -
    obtain t q2 where run: "append_receipt (r2, a2) s' = (t, q2)" by fastforce
    have "find (\<lambda>x. rc_receipt_id x = rc_receipt_id r2) (rs @ [r]) = Some r" using found r2 by simp
    from append_known [OF l this run] r2(2) run show ?thesis by (cases q2) auto
  qed
  with l again art [of None] show ?thesis by (simp add: read_artifact_def)
qed

lemma receipt_append_once_witness:
  "list_receipts (with_receipt demo_receipt [7] empty_store) = Inr [demo_receipt]
   \<and> append_receipt (demo_receipt, [7]) (with_receipt demo_receipt [7] empty_store)
       = (with_receipt demo_receipt [7] empty_store, Inr demo_receipt)"
  using receipt_append_once [OF empty_store_list demo_receipt_ok(1) _ demo_append] by simp

end
