(* ===== verification/Counterfactual.thy ===== *)
theory Counterfactual
  imports Contracts
begin

text \<open>
  The alignment of native evidence (\<open>src/src/evolve/alignment/native_pair.py\<close>) and the
  construction of a matched counterfactual pair from stored receipts and evidence
  (\<open>src/src/evolve/evidence/counterfactual.py\<close>).  Both are pure and fail closed.
\<close>

section \<open>Native alignment\<close>

definition matched_identity_fields :: "string list" where
  "matched_identity_fields = [''task_revision_id'', ''task_source_sha256'', ''model_identity'',
     ''native_evaluator_id'', ''execution_config_sha256'']"

record native_pair =
  np_baseline :: evidence_envelope
  np_taught :: evidence_envelope
  np_identity :: "(string \<times> json) list"

definition alignment_unless :: "bool \<Rightarrow> string \<Rightarrow> unit res" where
  "alignment_unless c m = require c AlignmentError m"

definition check_native :: "string \<Rightarrow> evidence_envelope \<Rightarrow> unit res" where
  "check_native label e = all_checks (
     [alignment_unless (ev_observer_id e = ''native-v1'') (label @ '' is not native-v1 evidence''),
      alignment_unless (get (ev_payload e) ''arm'' = JStr label) (label @ '' evidence has another arm'')]
     @ map (\<lambda>f. alignment_unless (fmlookup (ev_payload e) f \<noteq> None) (label @ '' evidence is missing '' @ f))
         (matched_identity_fields @ [''resolved'', ''evaluator_error'']))"

definition align_native_pair :: "evidence_envelope \<Rightarrow> evidence_envelope \<Rightarrow> native_pair res" where
  "align_native_pair b t =
     bind (check_native ''baseline'' b) (\<lambda>_.
     bind (check_native ''taught'' t) (\<lambda>_.
     bind (all_checks (map (\<lambda>f. alignment_unless (py_eq (get (ev_payload b) f) (get (ev_payload t) f))
             (''unmatched '' @ f)) matched_identity_fields)) (\<lambda>_.
     Inr \<lparr>np_baseline = b, np_taught = t,
          np_identity = map (\<lambda>f. (f, get (ev_payload b) f)) matched_identity_fields\<rparr>)))"

section \<open>Counterfactual arms\<close>

definition only_receipt_id :: "evidence_envelope \<Rightarrow> string res" where
  "only_receipt_id e = (case ev_receipt_ids e of [r] \<Rightarrow> Inr r
     | _ \<Rightarrow> raise ContractViolation ''evidence must bind one receipt'')"

text \<open>The payload without what the observer projected onto it.\<close>

definition receipt_payload_of :: "evidence_envelope \<Rightarrow> dict" where
  "receipt_payload_of e = fmdrop ''receipt_kind'' (fmdrop ''plan_id'' (fmdrop ''campaign_id'' (ev_payload e)))"

definition validate_evidence :: "string \<Rightarrow> string \<Rightarrow> evidence_envelope \<Rightarrow> unit res" where
  "validate_evidence arm observer e =
     bind (violation_unless (ev_observer_id e = observer) ''evidence is not from the observer'') (\<lambda>_.
     bind (violation_unless (get (ev_payload e) ''arm'' = JStr arm) ''evidence arm identity mismatch'') (\<lambda>_.
     bind (content_sha256 (JObj (receipt_payload_of e))) (\<lambda>h.
     bind (violation_unless (ev_artifact_sha256 e = h) ''artifact does not bind projected receipt payload'') (\<lambda>_.
     bind (only_receipt_id e) (\<lambda>_. Inr ())))))"

definition literal_sha256 :: "json \<Rightarrow> string res" where
  "literal_sha256 v = (case v of
     JStr s \<Rightarrow> if is_sha256 s then Inr s else raise ContractViolation ''prediction must be literal SHA-256''
   | _ \<Rightarrow> raise ContractViolation ''prediction must be literal SHA-256'')"

definition prediction_sha256 :: "dict \<Rightarrow> string res" where
  "prediction_sha256 d = literal_sha256
     (case fmlookup d ''prediction_sha256'' of Some v \<Rightarrow> v | None \<Rightarrow> get d ''patch_sha256'')"

definition payload_parent_harness :: "dict \<Rightarrow> lineage res" where
  "payload_parent_harness d =
     (let r = get d ''parent_harness_revision_id''; b = get d ''parent_harness_bundle_sha256'';
          p = get d ''parent_harness_prompt_sha256'' in
      if r = JNull \<and> b = JNull \<and> p = JNull then Inr (None, None, None)
      else case (r, b, p) of
        (JStr r', JStr b', JStr p') \<Rightarrow>
          bind (violation_unless (r' \<noteq> [] \<and> b' \<noteq> [] \<and> p' \<noteq> []) ''parent harness lineage is incomplete'') (\<lambda>_.
          bind (literal_sha256 b) (\<lambda>_. bind (literal_sha256 p) (\<lambda>_. Inr (Some r', Some b', Some p'))))
      | _ \<Rightarrow> raise ContractViolation ''parent harness lineage is incomplete'')"

definition text_sha256 :: "string \<Rightarrow> string" where
  "text_sha256 s = sha256_hex (utf8 s)"

fun nonempty_texts :: "json \<Rightarrow> string list option" where
  "nonempty_texts (JList xs) =
     (if xs \<noteq> [] \<and> list_all (\<lambda>x. case x of JStr s \<Rightarrow> s \<noteq> [] | _ \<Rightarrow> False) xs
      then Some (map py_str xs) else None)"
| "nonempty_texts j = None"

definition newline :: char where "newline = CHR 0x0A"

text \<open>The prompts of the payload, bound to their hashes.\<close>

definition bound_prompts :: "dict \<Rightarrow> string list res" where
  "bound_prompts d = (case (nonempty_texts (get d ''prompt_texts''), get d ''prompt_sha256'') of
     (Some texts, JList hs) \<Rightarrow>
       bind (violation_unless (length hs = length texts) ''prompt evidence is missing or invalid'') (\<lambda>_.
       bind (violation_unless (hs = map (JStr \<circ> text_sha256) texts) ''prompt hashes do not bind prompt bytes'') (\<lambda>_.
       Inr texts))
   | _ \<Rightarrow> raise ContractViolation ''prompt evidence is missing or invalid'')"

definition baseline_prompt_lineage :: "dict \<Rightarrow> string list \<Rightarrow> string \<Rightarrow> string \<Rightarrow> unit res" where
  "baseline_prompt_lineage d texts crev bundle =
     (let joined = join_with [newline] texts; compiled = get d ''compiled_artifact_sha256'' in all_checks
       [violation_unless (get d ''candidate_prompt'' = JNull \<and> get d ''candidate_prompt_sha256'' = JNull)
          ''baseline prompt contains candidate projection metadata'',
        violation_unless (compiled = JNull \<or> compiled = JObj fmempty) ''baseline prompt contains compiled candidate artifacts'',
        violation_unless (\<not> (substring ''COMPILED-CANDIDATE:'' joined \<or> substring crev joined \<or> substring bundle joined))
          ''baseline prompt leaks candidate projection'',
        (if get d ''parent_harness_prompt_sha256'' = JNull then Inr ()
         else case get d ''parent_harness_prompt'' of
           JStr pp \<Rightarrow> all_checks
             [violation_unless (pp \<noteq> []) ''baseline parent harness prompt is missing'',
              violation_unless (get d ''parent_harness_prompt_sha256'' = JStr (text_sha256 pp))
                ''baseline parent harness prompt hash mismatch'',
              violation_unless (substring ''BASELINE-HARNESS:'' joined \<and> (\<exists>t \<in> set texts. substring pp t))
                ''baseline prompt did not consume parent harness projection'']
         | _ \<Rightarrow> raise ContractViolation ''baseline parent harness prompt is missing'')])"

definition taught_prompt_lineage :: "dict \<Rightarrow> string list \<Rightarrow> string \<Rightarrow> string \<Rightarrow> string res" where
  "taught_prompt_lineage d texts crev bundle =
     (let joined = join_with [newline] texts in case get d ''candidate_prompt'' of
        JStr cp \<Rightarrow>
          bind (all_checks
            [violation_unless (cp \<noteq> []) ''taught candidate projection is missing'',
             violation_unless (get d ''candidate_prompt_sha256'' = JStr (text_sha256 cp))
               ''taught candidate projection hash mismatch'',
             violation_unless (substring crev cp \<and> substring bundle cp) ''taught candidate projection identity mismatch'',
             violation_unless (substring ''COMPILED-CANDIDATE:'' joined \<and> (\<exists>t \<in> set texts. substring cp t))
               ''taught prompt did not consume candidate projection'',
             violation_unless (\<not> substring ''BASELINE-HARNESS:'' joined)
               ''taught prompt consumed baseline harness projection'',
             (case get d ''compiled_artifact_sha256'' of
                JObj c \<Rightarrow> violation_unless (c \<noteq> fmempty \<and> fmpred (\<lambda>k v. is_digest v) c)
                  ''taught compiled candidate artifacts are missing''
              | _ \<Rightarrow> raise ContractViolation ''taught compiled candidate artifacts are missing'')])
            (\<lambda>_. Inr (text_sha256 cp))
      | _ \<Rightarrow> raise ContractViolation ''taught candidate projection is missing'')"

definition validate_prompt_lineage :: "string \<Rightarrow> dict \<Rightarrow> string \<Rightarrow> string \<Rightarrow> (string \<times> string option) res" where
  "validate_prompt_lineage arm d crev bundle =
     bind (bound_prompts d) (\<lambda>texts.
     if arm = ''baseline'' then
       bind (baseline_prompt_lineage d texts crev bundle) (\<lambda>_. Inr (digest (str_list texts), None))
     else
       bind (taught_prompt_lineage d texts crev bundle) (\<lambda>h. Inr (digest (str_list texts), Some h)))"

definition model_identity_text :: "dict \<Rightarrow> string" where
  "model_identity_text d = py_str (get d ''provider'') @ ''/'' @ py_str (get d ''model'') @ ''@'' @ py_str (get d ''revision'')"

definition mirrored_fields :: "string list" where
  "mirrored_fields = [''candidate_consumed'', ''candidate_revision_id'', ''candidate_bundle_sha256'',
     ''prompt_texts'', ''prompt_sha256'', ''candidate_prompt'', ''candidate_prompt_sha256'',
     ''compiled_artifact_sha256'']"

fun opt_text :: "json \<Rightarrow> string option" where
  "opt_text (JStr s) = Some s"
| "opt_text j = None"

text \<open>Evidence of one observer refers to the model call of its arm.\<close>

definition bound_to_model :: "receipt \<Rightarrow> evidence_envelope \<Rightarrow> unit res" where
  "bound_to_model model e = all_checks
     [violation_unless (get (ev_payload e) ''campaign_id'' = JStr (rc_campaign_id model)) ''campaign does not match model'',
      violation_unless (get (ev_payload e) ''plan_id'' = JStr (rc_plan_id model)) ''plan does not match model'',
      violation_unless (get (ev_payload e) ''model_receipt_id'' = JStr (rc_receipt_id model)) ''does not reference model receipt'',
      violation_unless (get (ev_payload e) ''model_artifact_sha256'' = JStr (rc_artifact_sha256 model))
        ''does not bind model artifact'']"

definition build_arm ::
  "string \<Rightarrow> receipt \<Rightarrow> evidence_envelope \<Rightarrow> evidence_envelope \<Rightarrow> string \<Rightarrow> string \<Rightarrow> arm_evidence res" where
  "build_arm arm model ext nv crev bundle =
     (let mp = rc_payload model; ep = ev_payload ext; np = ev_payload nv in
     bind (violation_unless (rc_kind model = ''model'') ''model receipt has another kind'') (\<lambda>_.
     bind (content_sha256 (JObj mp)) (\<lambda>mh.
     bind (violation_unless (rc_artifact_sha256 model = mh) ''model receipt artifact does not bind payload'') (\<lambda>_.
     bind (validate_evidence arm ''external-trace-v1'' ext) (\<lambda>_.
     bind (validate_evidence arm ''native-v1'' nv) (\<lambda>_.
     bind (bound_to_model model ext) (\<lambda>_.
     bind (bound_to_model model nv) (\<lambda>_.
     bind (violation_unless (py_eq (get ep ''task_revision_id'') (get np ''task_revision_id''))
             ''trace/native task identity mismatch'') (\<lambda>_.
     bind (violation_unless (get np ''model_identity'' = JStr (model_identity_text mp)) ''native model identity mismatch'') (\<lambda>_.
     bind (prediction_sha256 mp) (\<lambda>p1.
     bind (prediction_sha256 ep) (\<lambda>p2.
     bind (prediction_sha256 np) (\<lambda>p3.
     bind (violation_unless (p1 = p2 \<and> p2 = p3) ''prediction artifact lineage mismatch'') (\<lambda>_.
     bind (validate_prompt_lineage arm mp crev bundle) (\<lambda>(bundle_h, cand_h).
     bind (case get mp ''candidate_consumed'' of JBool c \<Rightarrow> Inr c
           | _ \<Rightarrow> raise ContractViolation ''model candidate_consumed must be boolean'') (\<lambda>consumed.
     bind (all_checks (map (\<lambda>f. violation_unless (py_eq (get ep f) (get mp f))
             (''external '' @ f @ '' lineage does not match model'')) mirrored_fields)) (\<lambda>_.
     bind (payload_parent_harness mp) (\<lambda>parent.
     bind (payload_parent_harness ep) (\<lambda>parent2.
     bind (violation_unless (parent2 = parent) ''external parent harness lineage does not match model'') (\<lambda>_.
     bind (payload_parent_harness np) (\<lambda>parent3.
     bind (violation_unless (parent3 = parent) ''native parent harness lineage does not match model'') (\<lambda>_.
     bind (if arm = ''baseline''
           then violation_unless (\<not> consumed \<and> get mp ''candidate_revision_id'' = JNull
                  \<and> get mp ''candidate_bundle_sha256'' = JNull) ''baseline arm contains candidate lineage''
           else violation_unless (consumed \<and> get mp ''candidate_revision_id'' = JStr crev
                  \<and> get mp ''candidate_bundle_sha256'' = JStr bundle)
                  ''taught arm candidate lineage does not match pair'') (\<lambda>_.
     bind (receipt_sha256 model) (\<lambda>rh.
     bind (evidence_sha256 ext) (\<lambda>eh.
     bind (only_receipt_id ext) (\<lambda>er.
     bind (evidence_sha256 nv) (\<lambda>nh.
     bind (only_receipt_id nv) (\<lambda>nr.
     let a = \<lparr>ae_arm = arm, ae_campaign_id = rc_campaign_id model, ae_plan_id = rc_plan_id model,
       ae_model_receipt_id = rc_receipt_id model, ae_model_receipt_sha256 = rh,
       ae_model_artifact_sha256 = rc_artifact_sha256 model,
       ae_external_trace_evidence_id = ev_evidence_id ext, ae_external_trace_evidence_sha256 = eh,
       ae_external_trace_receipt_id = er, ae_external_trace_artifact_sha256 = ev_artifact_sha256 ext,
       ae_native_outcome_evidence_id = ev_evidence_id nv, ae_native_outcome_evidence_sha256 = nh,
       ae_native_outcome_receipt_id = nr, ae_native_outcome_artifact_sha256 = ev_artifact_sha256 nv,
       ae_prediction_sha256 = p1, ae_prompt_bundle_sha256 = bundle_h, ae_candidate_prompt_sha256 = cand_h,
       ae_candidate_consumed = consumed, ae_candidate_revision_id = opt_text (get mp ''candidate_revision_id''),
       ae_candidate_bundle_sha256 = opt_text (get mp ''candidate_bundle_sha256''), ae_parent = parent\<rparr>
     in bind (check_arm_evidence a) (\<lambda>_. Inr a)))))))))))))))))))))))))))))"

section \<open>The pair\<close>

definition build_matched_counterfactual_pair ::
  "string \<Rightarrow> string \<Rightarrow> string \<Rightarrow> receipt \<Rightarrow> evidence_envelope \<Rightarrow> evidence_envelope
     \<Rightarrow> receipt \<Rightarrow> evidence_envelope \<Rightarrow> evidence_envelope \<Rightarrow> counterfactual_pair res" where
  "build_matched_counterfactual_pair cand crev bundle bm be bn tm te tn =
     bind (build_arm ''baseline'' bm be bn crev bundle) (\<lambda>b.
     bind (build_arm ''taught'' tm te tn crev bundle) (\<lambda>t.
     bind (all_checks (map (\<lambda>f.
             if fmlookup (ev_payload bn) f = None \<or> fmlookup (ev_payload tn) f = None
             then raise ContractViolation ''counterfactual native evidence is missing a field''
             else violation_unless (py_eq (get (ev_payload bn) f) (get (ev_payload tn) f))
               ''counterfactual arms have unmatched identity'') matched_identity_fields)) (\<lambda>_.
     bind (violation_unless (ae_campaign_id b = ae_campaign_id t) ''counterfactual arms have unmatched campaign_id'') (\<lambda>_.
     bind (violation_unless (ae_parent b = ae_parent t) ''counterfactual arms have unmatched parent harness'') (\<lambda>_.
     let p = \<lparr>cp_candidate_id = cand, cp_candidate_revision_id = crev, cp_candidate_bundle_sha256 = bundle,
       cp_campaign_id = ae_campaign_id b, cp_task_revision_id = py_str (get (ev_payload bn) ''task_revision_id''),
       cp_task_source_sha256 = py_str (get (ev_payload bn) ''task_source_sha256''),
       cp_model_identity = py_str (get (ev_payload bn) ''model_identity''),
       cp_native_evaluator_id = py_str (get (ev_payload bn) ''native_evaluator_id''),
       cp_execution_config_sha256 = py_str (get (ev_payload bn) ''execution_config_sha256''),
       cp_baseline = b, cp_taught = t, cp_parent = ae_parent b\<rparr>
     in bind (check_counterfactual_pair p) (\<lambda>_. Inr p))))))"

end
