(* ===== verification/Evidence_Graph.thy ===== *)
theory Evidence_Graph
  imports Receipt_Store Counterfactual
begin

text \<open>
  \<open>EvidenceGraph\<close> of \<open>src/src/evolve/evidence/evidence_graph.py\<close>: append-only logs of
  evidence envelopes and claims, their projections, and the checks of a rebuild against
  the receipts.  The two files are lists of lines (\<open>None\<close> for a line that is not JSON); the
  generic \<open>_append\<close> and \<open>_read\<close> are generic here too, over a record type with its JSON form.
\<close>

section \<open>Generic records\<close>

text \<open>A record type: its id, JSON form, reader and equality.\<close>

record 'r record_type =
  rt_id :: "'r \<Rightarrow> string"
  rt_dict :: "'r \<Rightarrow> dict"
  rt_of :: "dict \<Rightarrow> 'r res"
  rt_eq :: "'r \<Rightarrow> 'r \<Rightarrow> bool"

definition record_sha256 :: "'r record_type \<Rightarrow> 'r \<Rightarrow> string res" where
  "record_sha256 t x = content_sha256 (JObj (rt_dict t x))"

definition parse_record :: "'r record_type \<Rightarrow> json option \<Rightarrow> ('r \<times> json) res" where
  "parse_record t l = rewrap is_decode_error IntegrityError ''invalid graph record''
     (case l of None \<Rightarrow> raise ValueError ''Expecting value''
      | Some j \<Rightarrow> bind (dict_value j) (\<lambda>raw.
          bind (bind (the_item raw ''value'' dict_value) (rt_of t)) (\<lambda>x.
          bind (item raw ''content_sha256'') (\<lambda>h. Inr (x, h)))))"

fun read_records :: "'r record_type \<Rightarrow> 'r list \<Rightarrow> json option list \<Rightarrow> 'r list res" where
  "read_records t acc [] = Inr acc"
| "read_records t acc (l # ls) =
     bind (parse_record t l) (\<lambda>(x, h).
     bind (record_sha256 t x) (\<lambda>actual.
     bind (require (h = JStr actual) IntegrityError ''graph record hash mismatch'') (\<lambda>_.
     case find (\<lambda>y. rt_id t y = rt_id t x) acc of
       Some prior \<Rightarrow>
         bind (require (rt_eq t prior x) ReceiptConflict ''immutable graph record conflict'') (\<lambda>_.
         read_records t acc ls)
     | None \<Rightarrow> read_records t (acc @ [x]) ls)))"

definition record_line :: "'r record_type \<Rightarrow> 'r \<Rightarrow> string \<Rightarrow> json" where
  "record_line t x h = jobj [(''content_sha256'', JStr h), (''value'', JObj (rt_dict t x))]"

definition append_record :: "'r record_type \<Rightarrow> 'r list \<Rightarrow> 'r \<Rightarrow> (json option list, unit) op" where
  "append_record t existing x = (case find (\<lambda>y. rt_id t y = rt_id t x) existing of
     Some prior \<Rightarrow> olift (require (rt_eq t prior x) ReceiptConflict ''immutable record conflict'')
   | None \<Rightarrow>
       obind (olift (record_sha256 t x)) (\<lambda>h.
       omodify (\<lambda>ls. ls @ [Some (record_line t x h)])))"

text \<open>What the two instances below have to provide.\<close>

definition record_type_ok :: "'r record_type \<Rightarrow> ('r \<Rightarrow> bool) \<Rightarrow> bool" where
  "record_type_ok t valid \<longleftrightarrow> (\<forall>x. valid x \<longrightarrow> rt_of t (rt_dict t x) = Inr x) \<and> (\<forall>x. rt_eq t x x)
     \<and> (\<forall>d x. rt_of t d = Inr x \<longrightarrow> valid x)"

lemma parse_own_record:
  "rt_of t (rt_dict t x) = Inr x \<Longrightarrow> parse_record t (Some (record_line t x h)) = Inr (x, JStr h)"
  by (simp add: parse_record_def record_line_def jobj_def the_item_def)

lemma read_records_snoc:
  "read_records t acc (ls @ [l]) = bind (read_records t acc ls) (\<lambda>xs. read_records t xs [l])"
proof (induction ls arbitrary: acc)
  case Nil
  then show ?case by simp
next
  case (Cons k ks)
  then show ?case by (auto simp: bind_def split: sum.splits prod.splits option.splits)
qed

lemma read_records_inv:
  "read_records t acc ls = Inr xs \<Longrightarrow> record_type_ok t valid \<Longrightarrow> distinct (map (rt_id t) acc) \<Longrightarrow> \<forall>x \<in> set acc. valid x \<Longrightarrow>
     distinct (map (rt_id t) xs) \<and> (\<forall>x \<in> set xs. valid x)"
proof (induction ls arbitrary: acc)
  case Nil
  then show ?case by simp
next
  case (Cons l ls)
  from Cons.prems(1) obtain x h where p: "parse_record t l = Inr (x, h)" by (auto simp: res_simps)
  then have v: "valid x" using Cons.prems(2)
    by (auto simp: parse_record_def record_type_ok_def res_simps the_item_def split: option.splits)
  show ?case
  proof (cases "find (\<lambda>y. rt_id t y = rt_id t x) acc")
    case (Some prior)
    with Cons p show ?thesis by (auto simp: res_simps)
  next
    case None
    with Cons.prems p have r: "read_records t (acc @ [x]) ls = Inr xs" by (auto simp: res_simps)
    show ?thesis
      by (rule Cons.IH [OF r Cons.prems(2)]) (use Cons.prems None v in \<open>auto simp: find_None_iff\<close>)
  qed
qed

lemma append_record_cases:
  assumes ok: "record_type_ok t valid" and xs: "read_records t [] ls = Inr xs" and v: "valid x"
    and run: "append_record t xs x ls = (ls', r)"
  shows "case find (\<lambda>y. rt_id t y = rt_id t x) xs of
      Some prior \<Rightarrow> ls' = ls \<and> (is_ok r \<longleftrightarrow> rt_eq t prior x)
    | None \<Rightarrow> (if finite_json (JObj (rt_dict t x)) then r = Inr () \<and> read_records t [] ls' = Inr (xs @ [x])
         else ls' = ls \<and> \<not> is_ok r)"
proof (cases "find (\<lambda>y. rt_id t y = rt_id t x) xs")
  case (Some prior)
  with run show ?thesis by (auto simp: append_record_def olift_def require_def split: if_splits)
next
  case None
  have of: "rt_of t (rt_dict t x) = Inr x" using ok v by (simp add: record_type_ok_def)
  show ?thesis
  proof (cases "finite_json (JObj (rt_dict t x))")
    case True
    with run None have l: "ls' = ls @ [Some (record_line t x (digest (JObj (rt_dict t x))))]" "r = Inr ()"
      by (auto simp: append_record_def record_sha256_def content_sha256_eq)
    with None True xs show ?thesis
      by (simp add: read_records_snoc parse_own_record [OF of] record_sha256_def content_sha256_eq)
  next
    case False
    with run None show ?thesis by (auto simp: append_record_def record_sha256_def content_sha256_eq)
  qed
qed

section \<open>Evidence and claims as records\<close>

definition text_list :: "json \<Rightarrow> string list res" where
  "text_list j = bind (list_value j) (mapM str_value)"

definition grade_of_text :: "json \<Rightarrow> claim_grade res" where
  "grade_of_text j = (case find (\<lambda>g. j = JStr (grade_text g)) [E0, E1, E2, E3] of
     Some g \<Rightarrow> Inr g | None \<Rightarrow> raise ValueError ''is not a valid ClaimGrade'')"

definition classification_of_text :: "json \<Rightarrow> claim_classification res" where
  "classification_of_text j = (case find (\<lambda>c. j = JStr (classification_text c)) [GAIN, NEUTRAL, REGRESSION, INFRA_FAILURE] of
     Some c \<Rightarrow> Inr c | None \<Rightarrow> raise ValueError ''is not a valid ClaimClassification'')"

definition mk_evidence :: "evidence_envelope \<Rightarrow> evidence_envelope res" where
  "mk_evidence e = bind (check_evidence_envelope e) (\<lambda>_. Inr e)"

definition evidence_of_dict :: "dict \<Rightarrow> evidence_envelope res" where
  "evidence_of_dict d =
     bind (the_item d ''evidence_id'' str_value) (\<lambda>eid.
     bind (the_item d ''receipt_ids'' text_list) (\<lambda>rids.
     bind (the_item d ''observer_id'' str_value) (\<lambda>obs.
     bind (the_item d ''grade'' grade_of_text) (\<lambda>g.
     bind (the_item d ''payload'' dict_value) (\<lambda>payload.
     bind (the_item d ''artifact_sha256'' str_value) (\<lambda>art.
     mk_evidence \<lparr>ev_evidence_id = eid, ev_receipt_ids = rids, ev_observer_id = obs, ev_grade = g,
       ev_payload = payload, ev_artifact_sha256 = art\<rparr>))))))"

definition evidence_eq :: "evidence_envelope \<Rightarrow> evidence_envelope \<Rightarrow> bool" where
  "evidence_eq x y \<longleftrightarrow> x\<lparr>ev_payload := fmempty\<rparr> = y\<lparr>ev_payload := fmempty\<rparr>
     \<and> py_eq (JObj (ev_payload x)) (JObj (ev_payload y))"

definition evidence_type :: "evidence_envelope record_type" where
  "evidence_type = \<lparr>rt_id = ev_evidence_id, rt_dict = evidence_dict, rt_of = evidence_of_dict, rt_eq = evidence_eq\<rparr>"

text \<open>A claim line without a pair hash is a legacy one, if the graph allows them.\<close>

definition claim_of_dict :: "bool \<Rightarrow> dict \<Rightarrow> claim res" where
  "claim_of_dict allow_legacy d =
     bind (the_item d ''claim_id'' str_value) (\<lambda>cid.
     bind (the_item d ''candidate_id'' str_value) (\<lambda>cand.
     bind (the_item d ''grade'' grade_of_text) (\<lambda>g.
     bind (the_item d ''classification'' classification_of_text) (\<lambda>cls.
     bind (the_item d ''evidence_ids'' text_list) (\<lambda>eids.
     bind (the_item d ''rationale'' str_value) (\<lambda>why.
     bind (the_item d ''supersedes_claim_id'' opt_value) (\<lambda>sup.
     bind (opt_value (get d ''counterfactual_pair_sha256'')) (\<lambda>h.
     bind (case fmlookup d ''counterfactual_receipt_ids'' of None \<Rightarrow> Inr [] | Some j \<Rightarrow> text_list j) (\<lambda>rids.
     mk_claim (allow_legacy \<and> fmlookup d ''counterfactual_pair_sha256'' = None)
       \<lparr>cl_claim_id = cid, cl_candidate_id = cand, cl_grade = g, cl_classification = cls, cl_evidence_ids = eids,
        cl_rationale = why, cl_supersedes_claim_id = sup, cl_pair_sha256 = h, cl_receipt_ids = rids\<rparr>)))))))))"

definition claim_type :: "bool \<Rightarrow> claim record_type" where
  "claim_type legacy = \<lparr>rt_id = cl_claim_id, rt_dict = claim_dict, rt_of = claim_of_dict legacy, rt_eq = (=)\<rparr>"

lemma text_list_roundtrip: "text_list (str_list xs) = Inr xs"
proof -
  have "mapM str_value (map JStr xs) = Inr xs" by (induction xs) simp_all
  then show ?thesis by (simp add: text_list_def str_list_def)
qed

lemma grade_roundtrip: "grade_of_text (JStr (grade_text g)) = Inr g"
  by (cases g) (simp_all add: grade_of_text_def)

lemma classification_roundtrip: "classification_of_text (JStr (classification_text c)) = Inr c"
  by (cases c) (simp_all add: classification_of_text_def)

section \<open>The graph\<close>

record evidence_graph =
  eg_evidence :: "json option list"
  eg_claims :: "json option list"
  eg_legacy :: bool

definition list_evidence :: "evidence_graph \<Rightarrow> evidence_envelope list res" where
  "list_evidence g = read_records evidence_type [] (eg_evidence g)"

definition list_claims :: "evidence_graph \<Rightarrow> claim list res" where
  "list_claims g = read_records (claim_type (eg_legacy g)) [] (eg_claims g)"

definition append_evidence :: "evidence_envelope \<Rightarrow> (evidence_graph, evidence_envelope) op" where
  "append_evidence e = obind (oread list_evidence) (\<lambda>l. obind (olift l) (\<lambda>es.
     obind (\<lambda>g. case append_record evidence_type es e (eg_evidence g) of (ls, r) \<Rightarrow> (g\<lparr>eg_evidence := ls\<rparr>, r))
       (\<lambda>_. oreturn e)))"

definition integrity_unless :: "bool \<Rightarrow> string \<Rightarrow> unit res" where
  "integrity_unless c m = require c IntegrityError m"

definition pair_expected :: "counterfactual_pair \<Rightarrow> (string \<times> string) list" where
  "pair_expected p =
     [(ae_external_trace_evidence_id (cp_baseline p), ae_external_trace_evidence_sha256 (cp_baseline p)),
      (ae_native_outcome_evidence_id (cp_baseline p), ae_native_outcome_evidence_sha256 (cp_baseline p)),
      (ae_external_trace_evidence_id (cp_taught p), ae_external_trace_evidence_sha256 (cp_taught p)),
      (ae_native_outcome_evidence_id (cp_taught p), ae_native_outcome_evidence_sha256 (cp_taught p))]"

definition evidence_by_id :: "evidence_envelope list \<Rightarrow> string \<Rightarrow> evidence_envelope option" where
  "evidence_by_id es i = find (\<lambda>e. ev_evidence_id e = i) es"

definition frozen_in :: "evidence_envelope list \<Rightarrow> string \<times> string \<Rightarrow> bool" where
  "frozen_in es ih \<longleftrightarrow> (case evidence_by_id es (fst ih) of None \<Rightarrow> False
     | Some e \<Rightarrow> evidence_sha256 e = Inr (snd ih))"

definition validate_appended_counterfactual :: "claim \<Rightarrow> counterfactual_pair \<Rightarrow> evidence_envelope list \<Rightarrow> unit res" where
  "validate_appended_counterfactual c p es = all_checks
     [integrity_unless (cp_candidate_id p = cl_candidate_id c \<and> Some (pair_sha256 p) = cl_pair_sha256 c
        \<and> pair_evidence_ids p = cl_evidence_ids c \<and> pair_receipt_ids p = cl_receipt_ids c)
        ''claim does not bind the supplied counterfactual pair'',
      integrity_unless (list_all (frozen_in es) (pair_expected p))
        ''counterfactual pair evidence is not frozen in graph'']"

definition check_supersession :: "claim list \<Rightarrow> claim \<Rightarrow> unit res" where
  "check_supersession existing c = (case cl_supersedes_claim_id c of None \<Rightarrow> Inr ()
   | Some i \<Rightarrow> (case find (\<lambda>x. cl_claim_id x = i) existing of
       None \<Rightarrow> raise IntegrityError ''superseded claim does not exist''
     | Some prior \<Rightarrow> integrity_unless (cl_candidate_id prior = cl_candidate_id c)
         ''a claim can only supersede the same candidate''))"

definition append_claim :: "claim \<times> counterfactual_pair option \<Rightarrow> (evidence_graph, claim) op" where
  "append_claim cp = (case cp of (c, pair) \<Rightarrow>
     obind (oread list_claims) (\<lambda>l. obind (olift l) (\<lambda>existing.
     obind (if cl_grade c \<in> {E2, E3} then (case pair of
              None \<Rightarrow> olift (raise IntegrityError ''new E2/E3 claim requires the complete counterfactual pair'')
            | Some p \<Rightarrow> obind (oread list_evidence) (\<lambda>le. obind (olift le) (\<lambda>es.
                olift (validate_appended_counterfactual c p es))))
            else oreturn ()) (\<lambda>_.
     obind (olift (check_supersession existing c)) (\<lambda>_.
     obind (\<lambda>g. case append_record (claim_type (eg_legacy g)) existing c (eg_claims g) of
              (ls, r) \<Rightarrow> (g\<lparr>eg_claims := ls\<rparr>, r)) (\<lambda>_. oreturn c))))))"

subsection \<open>Projections\<close>

definition evidence_for_receipt :: "string \<Rightarrow> evidence_graph \<Rightarrow> evidence_envelope list res" where
  "evidence_for_receipt i g = bind (list_evidence g) (\<lambda>es. Inr (filter (\<lambda>e. i \<in> set (ev_receipt_ids e)) es))"

definition evidence_by_observer :: "string \<Rightarrow> evidence_graph \<Rightarrow> evidence_envelope list res" where
  "evidence_by_observer o' g = bind (list_evidence g) (\<lambda>es. Inr (filter (\<lambda>e. ev_observer_id e = o') es))"

definition evidence_for_plan :: "string \<Rightarrow> evidence_graph \<Rightarrow> evidence_envelope list res" where
  "evidence_for_plan p g = bind (list_evidence g) (\<lambda>es. Inr (filter (\<lambda>e. get (ev_payload e) ''plan_id'' = JStr p) es))"

definition claims_for_candidate :: "string \<Rightarrow> evidence_graph \<Rightarrow> claim list res" where
  "claims_for_candidate i g = bind (list_claims g) (\<lambda>cs. Inr (filter (\<lambda>c. cl_candidate_id c = i) cs))"

definition unsuperseded :: "claim list \<Rightarrow> claim list" where
  "unsuperseded cs = filter (\<lambda>c. Some (cl_claim_id c) \<notin> set (map cl_supersedes_claim_id cs)) cs"

definition latest_claims :: "evidence_graph \<Rightarrow> claim list res" where
  "latest_claims g = bind (list_claims g) (\<lambda>cs. Inr (unsuperseded cs))"

definition classification_counts :: "evidence_graph \<Rightarrow> (claim_classification \<Rightarrow> nat) res" where
  "classification_counts g = bind (latest_claims g) (\<lambda>cs.
     Inr (\<lambda>k. length (filter (\<lambda>c. cl_classification c = k) cs)))"

subsection \<open>Rebuild\<close>

definition receipt_by_id :: "receipt list \<Rightarrow> string \<Rightarrow> receipt option" where
  "receipt_by_id rs i = find (\<lambda>r. rc_receipt_id r = i) rs"

definition check_envelope_backed :: "receipt_store \<Rightarrow> receipt list \<Rightarrow> evidence_envelope \<Rightarrow> unit res" where
  "check_envelope_backed s rs e = all_checks
     [integrity_unless (list_all (\<lambda>i. receipt_by_id rs i \<noteq> None) (ev_receipt_ids e)) ''evidence references missing receipt'',
      integrity_unless (list_ex (\<lambda>i. case receipt_by_id rs i of None \<Rightarrow> False
         | Some r \<Rightarrow> rc_artifact_sha256 r = ev_artifact_sha256 e) (ev_receipt_ids e))
        ''evidence artifact is not backed by receipt'',
      bind (read_artifact (ev_artifact_sha256 e) s) (\<lambda>_. Inr ())]"

definition only_typed_receipt :: "receipt list \<Rightarrow> evidence_envelope \<Rightarrow> string \<Rightarrow> receipt res" where
  "only_typed_receipt rs e kind = (case ev_receipt_ids e of
     [i] \<Rightarrow> (case receipt_by_id rs i of
        None \<Rightarrow> raise IntegrityError ''receipt is missing''
      | Some r \<Rightarrow> bind (all_checks
          [integrity_unless (rc_kind r = kind) ''receipt kind mismatch'',
           integrity_unless (rc_artifact_sha256 r = ev_artifact_sha256 e) ''artifact binding mismatch'',
           integrity_unless (get (ev_payload e) ''plan_id'' = JStr (rc_plan_id r)) ''plan binding mismatch''])
          (\<lambda>_. Inr r))
   | _ \<Rightarrow> raise IntegrityError ''evidence must bind one receipt'')"

definition arm_receipts_typed :: "receipt list \<Rightarrow> evidence_envelope \<Rightarrow> evidence_envelope \<Rightarrow> unit res" where
  "arm_receipts_typed rs ext nv =
     bind (only_typed_receipt rs ext ''external_trace'') (\<lambda>er.
     bind (only_typed_receipt rs nv ''native_evaluation'') (\<lambda>nr.
     integrity_unless (rc_plan_id er = rc_plan_id nr) ''receipt plan mismatch''))"

definition model_receipt_of :: "receipt list \<Rightarrow> evidence_envelope \<Rightarrow> receipt res" where
  "model_receipt_of rs e = bind (item (ev_payload e) ''model_receipt_id'') (\<lambda>v.
     case receipt_by_id rs (py_str v) of None \<Rightarrow> raise KeyError ''model receipt'' | Some r \<Rightarrow> Inr r)"

definition rebuild_pair ::
  "claim \<Rightarrow> receipt list \<Rightarrow> evidence_envelope \<Rightarrow> evidence_envelope \<Rightarrow> evidence_envelope \<Rightarrow> evidence_envelope
     \<Rightarrow> counterfactual_pair res" where
  "rebuild_pair c rs be bn te tn =
     rewrap (\<lambda>x. x = KeyError \<or> x = TypeError \<or> is_contract_violation x) IntegrityError ''counterfactual lineage is invalid'' (
     bind (arm_receipts_typed rs be bn) (\<lambda>_.
     bind (arm_receipts_typed rs te tn) (\<lambda>_.
     bind (model_receipt_of rs be) (\<lambda>bm.
     bind (model_receipt_of rs te) (\<lambda>tm.
     bind (integrity_unless (rc_kind bm = ''model'' \<and> rc_kind tm = ''model'') ''model receipt kind mismatch'') (\<lambda>_.
     bind (the_item (rc_payload tm) ''candidate_revision_id'' str_value) (\<lambda>crev.
     bind (the_item (rc_payload tm) ''candidate_bundle_sha256'' str_value) (\<lambda>bundle.
     build_matched_counterfactual_pair (cl_candidate_id c) crev bundle bm be bn tm te tn))))))))"

definition pair_classification :: "bool \<Rightarrow> bool \<Rightarrow> claim_classification" where
  "pair_classification baseline taught =
     (if \<not> baseline \<and> taught then GAIN else if baseline \<and> \<not> taught then REGRESSION else NEUTRAL)"

definition no_evaluator_error :: "dict \<Rightarrow> bool" where
  "no_evaluator_error d \<longleftrightarrow> get d ''evaluator_error'' = JNull \<or> get d ''evaluator_error'' = JStr []"

definition only_evidence :: "evidence_envelope list \<Rightarrow> string \<Rightarrow> string \<Rightarrow> evidence_envelope res" where
  "only_evidence sel arm observer = (case filter (\<lambda>e. ev_observer_id e = observer \<and> get (ev_payload e) ''arm'' = JStr arm) sel of
     [e] \<Rightarrow> Inr e | _ \<Rightarrow> raise IntegrityError ''incomplete counterfactual evidence'')"

definition rebuild_counterfactual_binding :: "claim \<Rightarrow> evidence_envelope list \<Rightarrow> receipt list \<Rightarrow> unit res" where
  "rebuild_counterfactual_binding c es rs =
     bind (mapM (\<lambda>i. case evidence_by_id es i of None \<Rightarrow> raise KeyError i | Some e \<Rightarrow> Inr e) (cl_evidence_ids c)) (\<lambda>sel.
     bind (only_evidence sel ''baseline'' ''external-trace-v1'') (\<lambda>be.
     bind (only_evidence sel ''baseline'' ''native-v1'') (\<lambda>bn.
     bind (only_evidence sel ''taught'' ''external-trace-v1'') (\<lambda>te.
     bind (only_evidence sel ''taught'' ''native-v1'') (\<lambda>tn.
     bind (rebuild_pair c rs be bn te tn) (\<lambda>p.
     bind (all_checks
       [integrity_unless (pair_evidence_ids p = cl_evidence_ids c) ''counterfactual evidence order mismatch'',
        integrity_unless (pair_receipt_ids p = cl_receipt_ids c) ''counterfactual receipt binding mismatch'',
        integrity_unless (Some (pair_sha256 p) = cl_pair_sha256 c) ''counterfactual pair hash mismatch'',
        integrity_unless (no_evaluator_error (ev_payload bn) \<and> no_evaluator_error (ev_payload tn))
          ''binds infrastructure failure as E2'']) (\<lambda>_.
     case (get (ev_payload bn) ''resolved'', get (ev_payload tn) ''resolved'') of
       (JBool b, JBool t) \<Rightarrow> integrity_unless (cl_classification c = pair_classification b t)
          ''classification does not match native outcomes''
     | _ \<Rightarrow> raise IntegrityError ''invalid native outcome types'')))))))"

definition check_claim_bound :: "claim list \<Rightarrow> evidence_envelope list \<Rightarrow> receipt list \<Rightarrow> claim \<Rightarrow> unit res" where
  "check_claim_bound cs es rs c = all_checks
     [integrity_unless (list_all (\<lambda>i. evidence_by_id es i \<noteq> None) (cl_evidence_ids c)) ''claim references missing evidence'',
      (case cl_supersedes_claim_id c of None \<Rightarrow> Inr ()
       | Some i \<Rightarrow> integrity_unless (case find (\<lambda>x. cl_claim_id x = i) cs of None \<Rightarrow> False
            | Some prior \<Rightarrow> cl_candidate_id prior = cl_candidate_id c) ''claim has invalid supersession target''),
      (if cl_pair_sha256 c = None then Inr () else rebuild_counterfactual_binding c es rs)]"

definition graph_rebuild :: "receipt_store \<Rightarrow> evidence_graph \<Rightarrow> evidence_graph res" where
  "graph_rebuild s g =
     bind (list_receipts s) (\<lambda>rs.
     bind (list_evidence g) (\<lambda>es.
     bind (all_checks (map (check_envelope_backed s rs) es)) (\<lambda>_.
     bind (list_claims g) (\<lambda>cs.
     bind (all_checks (map (check_claim_bound cs es rs) cs)) (\<lambda>_. Inr g)))))"

end
