(* ===== verification/Claim_Engine.thy ===== *)
theory Claim_Engine
  imports Evidence_Graph
begin

text \<open>
  \<open>ClaimEngine\<close> of \<open>src/src/evolve/evidence/claim_engine.py\<close>: the classification of an
  aligned native pair, its claim, and the append to the evidence graph.
\<close>

definition classify_outcomes :: "bool \<Rightarrow> bool \<Rightarrow> claim_classification \<times> string" where
  "classify_outcomes b t =
     (if \<not> b \<and> t then (GAIN, ''baseline failed and taught resolved'')
      else if b \<and> \<not> t then (REGRESSION, ''baseline resolved and taught failed'')
      else if b then (NEUTRAL, ''baseline and taught both resolved'')
      else (NEUTRAL, ''baseline and taught both failed''))"

definition evaluator_errors :: "native_pair \<Rightarrow> json list" where
  "evaluator_errors p = filter (\<lambda>v. v \<noteq> JNull \<and> v \<noteq> JStr [])
     [get (ev_payload (np_baseline p)) ''evaluator_error'', get (ev_payload (np_taught p)) ''evaluator_error'']"

definition classify_native :: "native_pair \<Rightarrow> (claim_classification \<times> string) res" where
  "classify_native p =
     (if evaluator_errors p \<noteq> []
      then Inr (INFRA_FAILURE, ''native evaluator infrastructure error: '' @ join_with ''; '' (map py_str (evaluator_errors p)))
      else case (get (ev_payload (np_baseline p)) ''resolved'', get (ev_payload (np_taught p)) ''resolved'') of
        (JBool b, JBool t) \<Rightarrow> Inr (classify_outcomes b t)
      | _ \<Rightarrow> raise ContractViolation ''native resolved fields must be booleans when evaluator_error is empty'')"

text \<open>\<open>getattr(counterfactual_pair, field)\<close> for the matched identity fields.\<close>

definition pair_identity :: "counterfactual_pair \<Rightarrow> string \<Rightarrow> string" where
  "pair_identity p f =
     (if f = ''task_revision_id'' then cp_task_revision_id p
      else if f = ''task_source_sha256'' then cp_task_source_sha256 p
      else if f = ''model_identity'' then cp_model_identity p
      else if f = ''native_evaluator_id'' then cp_native_evaluator_id p
      else cp_execution_config_sha256 p)"

definition validate_counterfactual_binding :: "string \<Rightarrow> native_pair \<Rightarrow> counterfactual_pair \<Rightarrow> unit res" where
  "validate_counterfactual_binding cand np p = all_checks
     [violation_unless (cp_candidate_id p = cand) ''counterfactual candidate does not match claim'',
      violation_unless (ae_native_outcome_evidence_id (cp_baseline p) = ev_evidence_id (np_baseline np)
        \<and> ae_native_outcome_evidence_id (cp_taught p) = ev_evidence_id (np_taught np))
        ''counterfactual native evidence does not match pair'',
      violation_unless (list_all (\<lambda>(f, v). v = JStr (pair_identity p f)) (np_identity np))
        ''counterfactual identity does not match native alignment'']"

definition arm_expected :: "arm_evidence \<Rightarrow> (string \<times> string \<times> string \<times> string) list" where
  "arm_expected a =
     [(ae_external_trace_evidence_id a, ae_external_trace_evidence_sha256 a, ae_external_trace_receipt_id a,
       ae_external_trace_artifact_sha256 a),
      (ae_native_outcome_evidence_id a, ae_native_outcome_evidence_sha256 a, ae_native_outcome_receipt_id a,
       ae_native_outcome_artifact_sha256 a)]"

definition validate_graph_binding :: "counterfactual_pair \<Rightarrow> evidence_graph \<Rightarrow> unit res" where
  "validate_graph_binding p g = bind (list_evidence g) (\<lambda>es.
     violation_unless (list_all (\<lambda>(i, h, r, a). case evidence_by_id es i of None \<Rightarrow> False
         | Some e \<Rightarrow> evidence_sha256 e = Inr h \<and> ev_receipt_ids e = [r] \<and> ev_artifact_sha256 e = a)
         (arm_expected (cp_baseline p) @ arm_expected (cp_taught p)))
       ''counterfactual evidence is not frozen in EvidenceGraph'')"

definition claim_identity :: "string \<Rightarrow> claim_classification \<Rightarrow> string list \<Rightarrow> string option \<Rightarrow> string option \<Rightarrow> string" where
  "claim_identity cand cls eids h prior = digest (jobj
     [(''candidate_id'', JStr cand), (''classification'', JStr (classification_text cls)),
      (''evidence_ids'', str_list eids), (''counterfactual_pair_sha256'', opt_str h),
      (''supersedes_claim_id'', opt_str prior)])"

definition claim_for ::
  "string \<Rightarrow> native_pair \<Rightarrow> counterfactual_pair option \<Rightarrow> claim option \<Rightarrow> claim_classification \<Rightarrow> string \<Rightarrow> claim" where
  "claim_for cand np cp prior cls why =
     (let eids = (case cp of Some p \<Rightarrow> pair_evidence_ids p
                  | None \<Rightarrow> [ev_evidence_id (np_baseline np), ev_evidence_id (np_taught np)]);
          h = map_option pair_sha256 cp; s = map_option cl_claim_id prior
      in \<lparr>cl_claim_id = ''claim-'' @ claim_identity cand cls eids h s, cl_candidate_id = cand,
          cl_grade = (if cp \<noteq> None \<and> cls \<noteq> INFRA_FAILURE then E2 else E1), cl_classification = cls,
          cl_evidence_ids = eids, cl_rationale = why, cl_supersedes_claim_id = s, cl_pair_sha256 = h,
          cl_receipt_ids = (case cp of Some p \<Rightarrow> pair_receipt_ids p | None \<Rightarrow> [])\<rparr>)"

definition classify_pair ::
  "string \<Rightarrow> native_pair \<Rightarrow> counterfactual_pair option \<Rightarrow> claim option \<Rightarrow> (evidence_graph, claim) op" where
  "classify_pair cand np cp prior =
     obind (olift (classify_native np)) (\<lambda>(cls, why).
     obind (case cp of Some p \<Rightarrow>
              (if cls \<noteq> INFRA_FAILURE then
                 obind (olift (validate_counterfactual_binding cand np p)) (\<lambda>_.
                 obind (oread (validate_graph_binding p)) olift)
               else oreturn ())
            | None \<Rightarrow> oreturn ()) (\<lambda>_.
     obind (olift (mk_claim False (claim_for cand np cp prior cls why))) (\<lambda>c.
     append_claim (c, cp))))"

end
