(* ===== verification/Evidence_Facts.thy ===== *)
theory Evidence_Facts
  imports Claim_Engine
begin

text \<open>
  What a built arm, a built pair, an appended claim and a successful rebuild imply, and the
  evidence and claim logs as instances of the append-only contract.
\<close>

section \<open>Arms and pairs\<close>

lemma build_arm_bound:
  assumes "build_arm arm model ext nv crev bundle = Inr a"
  shows "ae_arm a = arm \<and> ae_campaign_id a = rc_campaign_id model \<and> ae_plan_id a = rc_plan_id model
     \<and> ae_model_receipt_id a = rc_receipt_id model
     \<and> ae_external_trace_evidence_id a = ev_evidence_id ext \<and> ae_native_outcome_evidence_id a = ev_evidence_id nv
     \<and> evidence_sha256 ext = Inr (ae_external_trace_evidence_sha256 a)
     \<and> evidence_sha256 nv = Inr (ae_native_outcome_evidence_sha256 a)
     \<and> ev_receipt_ids ext = [ae_external_trace_receipt_id a] \<and> ev_receipt_ids nv = [ae_native_outcome_receipt_id a]
     \<and> ae_external_trace_artifact_sha256 a = ev_artifact_sha256 ext
     \<and> ae_native_outcome_artifact_sha256 a = ev_artifact_sha256 nv
     \<and> content_sha256 (JObj (rc_payload model)) = Inr (rc_artifact_sha256 model)
     \<and> prediction_sha256 (rc_payload model) = Inr (ae_prediction_sha256 a)
     \<and> prediction_sha256 (ev_payload ext) = Inr (ae_prediction_sha256 a)
     \<and> prediction_sha256 (ev_payload nv) = Inr (ae_prediction_sha256 a)
     \<and> validate_prompt_lineage arm (rc_payload model) crev bundle = Inr (ae_prompt_bundle_sha256 a, ae_candidate_prompt_sha256 a)
     \<and> check_arm_evidence a = Inr ()"
  using assms
  by (auto simp: build_arm_def Let_def bind_eq_Inr violation_unless_eq_Inr only_receipt_id_def raise_def split: list.splits)

lemma build_pair_arms:
  assumes "build_matched_counterfactual_pair cand crev bundle bm be bn tm te tn = Inr p"
  shows "build_arm ''baseline'' bm be bn crev bundle = Inr (cp_baseline p)
     \<and> build_arm ''taught'' tm te tn crev bundle = Inr (cp_taught p)
     \<and> check_counterfactual_pair p = Inr () \<and> cp_candidate_id p = cand
     \<and> cp_candidate_revision_id p = crev \<and> cp_candidate_bundle_sha256 p = bundle
     \<and> (\<forall>f \<in> set matched_identity_fields. fmlookup (ev_payload bn) f \<noteq> None \<and> fmlookup (ev_payload tn) f \<noteq> None
          \<and> py_eq (get (ev_payload bn) f) (get (ev_payload tn) f))"
proof -
  let ?f = "\<lambda>f. if fmlookup (ev_payload bn) f = None \<or> fmlookup (ev_payload tn) f = None
      then raise ContractViolation ''counterfactual native evidence is missing a field''
      else violation_unless (py_eq (get (ev_payload bn) f) (get (ev_payload tn) f)) ''counterfactual arms have unmatched identity''"
  have f: "?f f = Inr () \<longleftrightarrow> fmlookup (ev_payload bn) f \<noteq> None \<and> fmlookup (ev_payload tn) f \<noteq> None
      \<and> py_eq (get (ev_payload bn) f) (get (ev_payload tn) f)" for f
    by (simp add: violation_unless_eq_Inr raise_def)
  obtain b t where b: "build_arm ''baseline'' bm be bn crev bundle = Inr b"
    and t: "build_arm ''taught'' tm te tn crev bundle = Inr t"
    and c: "all_checks (map ?f matched_identity_fields) = Inr ()"
    using assms by (auto simp: build_matched_counterfactual_pair_def bind_eq_Inr)
  from c have "\<forall>f \<in> set matched_identity_fields. ?f f = Inr ()"
    unfolding all_checks_eq_Inr set_map by blast
  then have m: "\<forall>f \<in> set matched_identity_fields. fmlookup (ev_payload bn) f \<noteq> None
      \<and> fmlookup (ev_payload tn) f \<noteq> None \<and> py_eq (get (ev_payload bn) f) (get (ev_payload tn) f)"
    unfolding f .
  from assms b t c have "p = \<lparr>cp_candidate_id = cand, cp_candidate_revision_id = crev, cp_candidate_bundle_sha256 = bundle,
       cp_campaign_id = ae_campaign_id b, cp_task_revision_id = py_str (get (ev_payload bn) ''task_revision_id''),
       cp_task_source_sha256 = py_str (get (ev_payload bn) ''task_source_sha256''),
       cp_model_identity = py_str (get (ev_payload bn) ''model_identity''),
       cp_native_evaluator_id = py_str (get (ev_payload bn) ''native_evaluator_id''),
       cp_execution_config_sha256 = py_str (get (ev_payload bn) ''execution_config_sha256''),
       cp_baseline = b, cp_taught = t, cp_parent = ae_parent b\<rparr> \<and> check_counterfactual_pair p = Inr ()"
    unfolding build_matched_counterfactual_pair_def Let_def
    by (simp del: all_checks_eq_Inr add: bind_eq_Inr) metis
  note pr = this
  then have k: "cp_baseline p = b \<and> cp_taught p = t \<and> cp_candidate_id p = cand \<and> cp_candidate_revision_id p = crev
      \<and> cp_candidate_bundle_sha256 p = bundle"
    by (metis counterfactual_pair.select_convs)
  from pr have "check_counterfactual_pair p = Inr ()" ..
  with k b t m show ?thesis by simp
qed

lemma build_pair_ids:
  assumes "build_matched_counterfactual_pair cand crev bundle bm be bn tm te tn = Inr p"
  shows "pair_evidence_ids p = [ev_evidence_id be, ev_evidence_id bn, ev_evidence_id te, ev_evidence_id tn]
     \<and> pair_receipt_ids p = [rc_receipt_id bm, hd (ev_receipt_ids be), hd (ev_receipt_ids bn),
          rc_receipt_id tm, hd (ev_receipt_ids te), hd (ev_receipt_ids tn)]"
proof -
  from build_pair_arms [OF assms] have b: "build_arm ''baseline'' bm be bn crev bundle = Inr (cp_baseline p)"
    and t: "build_arm ''taught'' tm te tn crev bundle = Inr (cp_taught p)" by blast+
  from build_arm_bound [OF b] build_arm_bound [OF t] show ?thesis
    by (simp add: pair_evidence_ids_def pair_receipt_ids_def)
qed

text \<open>A text inside a joined text.\<close>

lemma substring_refl [simp]: "substring s s"
  unfolding substring_iff by (intro exI [of _ "[]"]) simp

lemma substring_trans: "substring a b \<Longrightarrow> substring b c \<Longrightarrow> substring a c"
  unfolding substring_iff by (metis append.assoc)

lemma substring_join: "t \<in> set ts \<Longrightarrow> substring t (join_with sep ts)"
proof (induction sep ts rule: join_with.induct)
  case (3 sep x y zs)
  show ?case
  proof (cases "t = x")
    case True
    then have "join_with sep (x # y # zs) = [] @ t @ (sep @ join_with sep (y # zs))" by simp
    then show ?thesis unfolding substring_iff by blast
  next
    case False
    with 3 have "substring t (join_with sep (y # zs))" by auto
    then show ?thesis unfolding substring_iff by (metis append.assoc join_with.simps(3))
  qed
qed auto

lemma baseline_prompts_clean:
  assumes "validate_prompt_lineage ''baseline'' d crev bundle = Inr (h, c)"
  shows "\<exists>texts. nonempty_texts (get d ''prompt_texts'') = Some texts \<and> c = None
     \<and> (\<forall>t \<in> set texts. \<not> substring ''COMPILED-CANDIDATE:'' t \<and> \<not> substring crev t \<and> \<not> substring bundle t)"
proof -
  from assms obtain texts where b: "bound_prompts d = Inr texts"
    and l: "baseline_prompt_lineage d texts crev bundle = Inr ()" and c: "c = None"
    by (auto simp: validate_prompt_lineage_def bind_eq_Inr)
  from b have t: "nonempty_texts (get d ''prompt_texts'') = Some texts"
    by (auto simp: bound_prompts_def bind_eq_Inr raise_def split: option.splits json.splits)
  from l have "\<not> substring ''COMPILED-CANDIDATE:'' (join_with [newline] texts)"
    "\<not> substring crev (join_with [newline] texts)" "\<not> substring bundle (join_with [newline] texts)"
    by (auto simp: baseline_prompt_lineage_def Let_def bind_eq_Inr violation_unless_eq_Inr)
  then have "\<forall>t \<in> set texts. \<not> substring ''COMPILED-CANDIDATE:'' t \<and> \<not> substring crev t \<and> \<not> substring bundle t"
    using substring_trans substring_join by blast
  with t c show ?thesis by blast
qed

lemma taught_prompts_consume:
  assumes "validate_prompt_lineage ''taught'' d crev bundle = Inr (h, c)"
  shows "\<exists>texts cp. nonempty_texts (get d ''prompt_texts'') = Some texts \<and> get d ''candidate_prompt'' = JStr cp
     \<and> c = Some (text_sha256 cp) \<and> substring crev cp \<and> substring bundle cp \<and> (\<exists>t \<in> set texts. substring cp t)
     \<and> (\<forall>t \<in> set texts. \<not> substring ''BASELINE-HARNESS:'' t)"
proof -
  from assms obtain texts h' where b: "bound_prompts d = Inr texts"
    and l: "taught_prompt_lineage d texts crev bundle = Inr h'" and c: "c = Some h'"
    by (auto simp: validate_prompt_lineage_def bind_eq_Inr)
  from b have t: "nonempty_texts (get d ''prompt_texts'') = Some texts"
    by (auto simp: bound_prompts_def bind_eq_Inr raise_def split: option.splits json.splits)
  from l obtain cp where cp: "get d ''candidate_prompt'' = JStr cp"
    by (auto simp: taught_prompt_lineage_def Let_def raise_def split: json.splits)
  with l have f: "h' = text_sha256 cp" "substring crev cp" "substring bundle cp" "\<exists>t \<in> set texts. substring cp t"
    "\<not> substring ''BASELINE-HARNESS:'' (join_with [newline] texts)"
    by (auto simp: taught_prompt_lineage_def Let_def bind_eq_Inr all_checks_eq_Inr violation_unless_eq_Inr)
  then have "\<forall>t \<in> set texts. \<not> substring ''BASELINE-HARNESS:'' t"
    using substring_trans substring_join by blast
  with t cp f c show ?thesis by blast
qed

section \<open>Evidence and claim logs\<close>

lemma evidence_decode: "check_evidence_envelope e = Inr () \<Longrightarrow> evidence_of_dict (evidence_dict e) = Inr e"
proof -
  assume ok: "check_evidence_envelope e = Inr ()"
  have r: "\<lparr>ev_evidence_id = ev_evidence_id e, ev_receipt_ids = ev_receipt_ids e, ev_observer_id = ev_observer_id e,
      ev_grade = ev_grade e, ev_payload = ev_payload e, ev_artifact_sha256 = ev_artifact_sha256 e\<rparr> = e"
    by (cases e) simp
  show ?thesis
    using ok by (simp add: evidence_of_dict_def evidence_dict_def the_item_def text_list_roundtrip grade_roundtrip
        mk_evidence_def r)
qed

lemma claim_decode:
  assumes "check_claim legacy c = Inr ()"
  shows "claim_of_dict legacy (claim_dict c) = Inr c"
proof -
  have item: "item (claim_dict c) ''claim_id'' = Inr (JStr (cl_claim_id c))"
    "item (claim_dict c) ''candidate_id'' = Inr (JStr (cl_candidate_id c))"
    "item (claim_dict c) ''grade'' = Inr (JStr (grade_text (cl_grade c)))"
    "item (claim_dict c) ''classification'' = Inr (JStr (classification_text (cl_classification c)))"
    "item (claim_dict c) ''evidence_ids'' = Inr (str_list (cl_evidence_ids c))"
    "item (claim_dict c) ''rationale'' = Inr (JStr (cl_rationale c))"
    "item (claim_dict c) ''supersedes_claim_id'' = Inr (opt_str (cl_supersedes_claim_id c))"
    by (simp_all add: claim_dict_def)
  have pair: "fmlookup (claim_dict c) ''counterfactual_pair_sha256'' = map_option JStr (cl_pair_sha256 c)"
    by (cases "cl_pair_sha256 c"; cases "cl_receipt_ids c = []") (simp_all add: claim_dict_def)
  have rids: "fmlookup (claim_dict c) ''counterfactual_receipt_ids''
      = (if cl_receipt_ids c = [] then None else Some (str_list (cl_receipt_ids c)))"
    by (cases "cl_pair_sha256 c") (simp_all add: claim_dict_def)
  have ok: "check_claim (legacy \<and> cl_pair_sha256 c = None) c = Inr ()"
    using assms by (cases "cl_pair_sha256 c") (auto simp: check_claim_def)
  have r: "\<lparr>cl_claim_id = cl_claim_id c, cl_candidate_id = cl_candidate_id c, cl_grade = cl_grade c,
      cl_classification = cl_classification c, cl_evidence_ids = cl_evidence_ids c, cl_rationale = cl_rationale c,
      cl_supersedes_claim_id = cl_supersedes_claim_id c, cl_pair_sha256 = cl_pair_sha256 c,
      cl_receipt_ids = cl_receipt_ids c\<rparr> = c" by (cases c) simp
  have h: "opt_value (get (claim_dict c) ''counterfactual_pair_sha256'') = Inr (cl_pair_sha256 c)"
    by (cases "cl_pair_sha256 c") (simp_all add: get_def pair)
  have rs: "(case fmlookup (claim_dict c) ''counterfactual_receipt_ids'' of None \<Rightarrow> Inr [] | Some j \<Rightarrow> text_list j)
      = Inr (cl_receipt_ids c)"
    by (simp add: rids text_list_roundtrip)
  have p: "fmlookup (claim_dict c) ''counterfactual_pair_sha256'' = None \<longleftrightarrow> cl_pair_sha256 c = None"
    by (simp add: pair)
  show ?thesis
    using ok by (simp add: claim_of_dict_def the_item_def item text_list_roundtrip grade_roundtrip
        classification_roundtrip h p rs mk_claim_def r)
qed

lemma evidence_type_ok: "record_type_ok evidence_type (\<lambda>e. check_evidence_envelope e = Inr ())"
proof -
  have "evidence_of_dict d = Inr x \<Longrightarrow> check_evidence_envelope x = Inr ()" for d x
    by (auto simp: evidence_of_dict_def mk_evidence_def the_item_def bind_eq_Inr)
  then show ?thesis by (simp add: record_type_ok_def evidence_type_def evidence_decode evidence_eq_def)
qed

lemma claim_type_ok: "record_type_ok (claim_type legacy) (\<lambda>c. check_claim legacy c = Inr ())"
proof -
  have legacy: "check_claim (legacy \<and> b) c = Inr () \<Longrightarrow> check_claim legacy c = Inr ()" for b c
    by (cases b) (auto simp: check_claim_def res_simps)
  have "claim_of_dict legacy d = Inr x \<Longrightarrow> check_claim legacy x = Inr ()" for d x
    by (auto simp: claim_of_dict_def mk_claim_def the_item_def bind_eq_Inr dest: legacy)
  then show ?thesis by (simp add: record_type_ok_def claim_type_def claim_decode)
qed

section \<open>Appends\<close>

text \<open>A caller constructs the record, which checks it, and appends it.\<close>

definition submit_evidence :: "evidence_envelope \<Rightarrow> (evidence_graph, evidence_envelope) op" where
  "submit_evidence e = obind (olift (mk_evidence e)) append_evidence"

definition submit_claim :: "claim \<times> counterfactual_pair option \<Rightarrow> (evidence_graph, claim) op" where
  "submit_claim cp = obind (olift (mk_claim False (fst cp))) (\<lambda>c. append_claim (c, snd cp))"

lemma append_evidence_run:
  assumes es: "list_evidence g = Inr es" and v: "check_evidence_envelope e = Inr ()"
    and run: "append_evidence e g = (g', r)"
  shows "case find (\<lambda>y. ev_evidence_id y = ev_evidence_id e) es of
      Some prior \<Rightarrow> g' = g \<and> (is_ok r \<longleftrightarrow> evidence_eq prior e)
    | None \<Rightarrow> (if finite_json (JObj (evidence_dict e)) then r = Inr e \<and> list_evidence g' = Inr (es @ [e])
           \<and> eg_claims g' = eg_claims g \<and> eg_legacy g' = eg_legacy g
         else g' = g \<and> \<not> is_ok r)"
proof -
  obtain ls q where a: "append_record evidence_type es e (eg_evidence g) = (ls, q)" by fastforce
  from run have r: "g' = g\<lparr>eg_evidence := ls\<rparr>" "r = (case q of Inl x \<Rightarrow> Inl x | Inr _ \<Rightarrow> Inr e)"
    by (auto simp: append_evidence_def es a obind_def split: sum.splits)
  have rt: "rt_id evidence_type = ev_evidence_id" "rt_eq evidence_type = evidence_eq" "rt_dict evidence_type = evidence_dict"
    by (simp_all add: evidence_type_def)
  have g: "g\<lparr>eg_evidence := eg_evidence g\<rparr> = g" by simp
  from append_record_cases [OF evidence_type_ok es [unfolded list_evidence_def] v a] r g
  show ?thesis
    by (auto simp: rt list_evidence_def is_ok_iff split: option.splits if_splits sum.splits)
qed

lemma append_claim_run:
  assumes cs: "list_claims g = Inr cs" and v: "check_claim (eg_legacy g) c = Inr ()"
    and run: "append_claim (c, pair) g = (g', r)"
  shows "(\<exists>e. g' = g \<and> r = Inl e) \<or>
     (r = Inr c \<and> eg_evidence g' = eg_evidence g \<and> eg_legacy g' = eg_legacy g \<and> check_supersession cs c = Inr ()
      \<and> (cl_grade c \<in> {E2, E3} \<longrightarrow> (\<exists>p es. pair = Some p \<and> list_evidence g = Inr es
            \<and> validate_appended_counterfactual c p es = Inr ()))
      \<and> (case find (\<lambda>y. cl_claim_id y = cl_claim_id c) cs of
           Some prior \<Rightarrow> g' = g \<and> prior = c | None \<Rightarrow> list_claims g' = Inr (cs @ [c])))"
proof -
  obtain ls q where a: "append_record (claim_type (eg_legacy g)) cs c (eg_claims g) = (ls, q)" by fastforce
  have rt: "rt_id (claim_type l) = cl_claim_id" "rt_eq (claim_type l) = (=)" for l
    by (simp_all add: claim_type_def)
  have fin: "finite_json (JObj (claim_dict c))"
    by (cases "cl_pair_sha256 c"; cases "cl_receipt_ids c = []"; cases "cl_supersedes_claim_id c")
      (simp_all add: claim_dict_def finite_fmupd str_list_def list_all_iff)
  have app: "case find (\<lambda>y. cl_claim_id y = cl_claim_id c) cs of
      Some prior \<Rightarrow> ls = eg_claims g \<and> (is_ok q \<longleftrightarrow> prior = c)
    | None \<Rightarrow> q = Inr () \<and> read_records (claim_type (eg_legacy g)) [] ls = Inr (cs @ [c])"
    using append_record_cases [OF claim_type_ok cs [unfolded list_claims_def] v a] fin
    by (simp add: rt claim_type_def split: option.splits)
  define gate where "gate = (if cl_grade c \<in> {E2, E3} then (case pair of
       None \<Rightarrow> Inl (Err IntegrityError ''new E2/E3 claim requires the complete counterfactual pair'')
     | Some p \<Rightarrow> bind (list_evidence g) (validate_appended_counterfactual c p)) else Inr ())"
  have run': "append_claim (c, pair) g =
      (case gate of Inl e \<Rightarrow> (g, Inl e) | Inr u \<Rightarrow>
         (case check_supersession cs c of Inl e \<Rightarrow> (g, Inl e)
          | Inr u \<Rightarrow> (g\<lparr>eg_claims := ls\<rparr>, case q of Inl x \<Rightarrow> Inl x | Inr _ \<Rightarrow> Inr c)))"
    unfolding append_claim_def gate_def
    by (cases pair; cases "list_evidence g") (auto simp: cs a obind_olift raise_def obind_def olift_def split: sum.splits)
  have g: "g\<lparr>eg_claims := eg_claims g\<rparr> = g" by simp
  show ?thesis
  proof (cases "gate = Inr () \<and> check_supersession cs c = Inr () \<and> is_ok q")
    case False
    then show ?thesis
      using run run' app g by (auto simp: is_ok_iff split: sum.splits option.splits)
  next
    case True
    then have "cl_grade c \<in> {E2, E3} \<longrightarrow> (\<exists>p es. pair = Some p \<and> list_evidence g = Inr es
            \<and> validate_appended_counterfactual c p es = Inr ())"
      by (auto simp: gate_def bind_eq_Inr split: option.splits)
    with True run run' app g show ?thesis
      by (auto simp: is_ok_iff list_claims_def split: option.splits)
  qed
qed

end
