(* ===== verification/Evidence_Claims.thy ===== *)
theory Evidence_Claims
  imports Evidence_Facts
begin

text \<open>
  The evidence and claim logs as instances of the append-only contract, and the properties of
  the evidence graph and the claim engine.
\<close>

lemma list_evidence_inv: "list_evidence g = Inr es \<Longrightarrow> distinct (map ev_evidence_id es)"
  using read_records_inv [OF _ evidence_type_ok, of "[]" "eg_evidence g" es]
  by (simp add: list_evidence_def evidence_type_def)

lemma list_claims_inv:
  "list_claims g = Inr cs \<Longrightarrow> distinct (map cl_claim_id cs) \<and> (\<forall>c \<in> set cs. check_claim (eg_legacy g) c = Inr ())"
  using read_records_inv [OF _ claim_type_ok, of "eg_legacy g" "[]" "eg_claims g" cs]
  by (simp add: list_claims_def claim_type_def)

lemma check_claim_legacy: "check_claim False c = Inr () \<Longrightarrow> check_claim legacy c = Inr ()"
  by (cases legacy) (auto simp: check_claim_def res_simps)

lemma submit_evidence_cases:
  "submit_evidence e g = (case check_evidence_envelope e of Inl x \<Rightarrow> (g, Inl x) | Inr u \<Rightarrow> append_evidence e g)"
  by (simp add: submit_evidence_def mk_evidence_def obind_olift bind_def split: sum.splits)

lemma submit_claim_cases:
  "submit_claim cp g = (case check_claim False (fst cp) of Inl x \<Rightarrow> (g, Inl x) | Inr u \<Rightarrow> append_claim cp g)"
  by (simp add: submit_claim_def mk_claim_def obind_olift bind_def split: sum.splits)

interpretation ev: append_only list_evidence submit_evidence id ev_evidence_id evidence_eq
proof
  fix g g' :: evidence_graph and es x r
  assume es: "list_evidence g = Inr es" and n: "ev_evidence_id (id x) \<notin> ev_evidence_id ` set es"
    and run: "submit_evidence x g = (g', Inr r)"
  from n have f: "find (\<lambda>y. ev_evidence_id y = ev_evidence_id x) es = None" by (auto simp: find_None_iff image_iff)
  from run have v: "check_evidence_envelope x = Inr ()" "append_evidence x g = (g', Inr r)"
    by (auto simp: submit_evidence_cases split: sum.splits)
  from append_evidence_run [OF es v] f show "list_evidence g' = Inr (es @ [id x])" by (auto split: if_splits)
next
  fix g g' :: evidence_graph and es e x q
  assume es: "list_evidence g = Inr es" and e: "e \<in> set es" "ev_evidence_id e = ev_evidence_id (id x)"
    and run: "submit_evidence x g = (g', q)"
  from find_key_unique [OF list_evidence_inv [OF es] e(1)] e(2)
  have f: "find (\<lambda>y. ev_evidence_id y = ev_evidence_id x) es = Some e" by simp
  show "list_evidence g' = Inr es \<and> (is_ok q \<longrightarrow> evidence_eq e (id x))"
  proof (cases "check_evidence_envelope x")
    case (Inl err)
    with run es show ?thesis by (auto simp: submit_evidence_cases)
  next
    case (Inr u)
    with run have "append_evidence x g = (g', q)" by (simp add: submit_evidence_cases)
    from append_evidence_run [OF es _ this] Inr f es show ?thesis by simp
  qed
next
  fix g g' :: evidence_graph and es x err
  assume es: "list_evidence g = Inr es" and run: "submit_evidence x g = (g', Inl err)"
  show "list_evidence g' = Inr es"
  proof (cases "check_evidence_envelope x")
    case (Inl err)
    with run es show ?thesis by (auto simp: submit_evidence_cases)
  next
    case (Inr u)
    with run have "append_evidence x g = (g', Inl err)" by (simp add: submit_evidence_cases)
    from append_evidence_run [OF es _ this] Inr es show ?thesis by (auto split: option.splits if_splits)
  qed
next
  show "list_evidence g = Inr es \<Longrightarrow> distinct (map ev_evidence_id es)" for g :: evidence_graph and es
    by (rule list_evidence_inv)
qed

interpretation clm: append_only list_claims submit_claim fst cl_claim_id "(=)"
proof
  fix g g' :: evidence_graph and cs x r
  assume cs: "list_claims g = Inr cs" and n: "cl_claim_id (fst x) \<notin> cl_claim_id ` set cs"
    and run: "submit_claim x g = (g', Inr r)"
  from n have f: "find (\<lambda>y. cl_claim_id y = cl_claim_id (fst x)) cs = None" by (auto simp: find_None_iff image_iff)
  from run have v: "check_claim False (fst x) = Inr ()" "append_claim (fst x, snd x) g = (g', Inr r)"
    by (auto simp: submit_claim_cases split: sum.splits)
  from append_claim_run [OF cs check_claim_legacy [OF v(1)] v(2)] f
  show "list_claims g' = Inr (cs @ [fst x])" by auto
next
  fix g g' :: evidence_graph and cs e q and x :: "claim \<times> counterfactual_pair option"
  assume cs: "list_claims g = Inr cs" and e: "e \<in> set cs" "cl_claim_id e = cl_claim_id (fst x)"
    and run: "submit_claim x g = (g', q)"
  from find_key_unique [OF conjunct1 [OF list_claims_inv [OF cs]] e(1)] e(2)
  have f: "find (\<lambda>y. cl_claim_id y = cl_claim_id (fst x)) cs = Some e" by simp
  show "list_claims g' = Inr cs \<and> (is_ok q \<longrightarrow> e = fst x)"
  proof (cases "check_claim False (fst x)")
    case (Inl err)
    with run cs show ?thesis by (auto simp: submit_claim_cases)
  next
    case (Inr u)
    with run have a: "append_claim (fst x, snd x) g = (g', q)" by (simp add: submit_claim_cases)
    from Inr have "check_claim (eg_legacy g) (fst x) = Inr ()" by (simp add: check_claim_legacy)
    from append_claim_run [OF cs this a] f cs show ?thesis by auto
  qed
next
  fix g g' :: evidence_graph and cs x err
  assume cs: "list_claims g = Inr cs" and run: "submit_claim x g = (g', Inl err)"
  show "list_claims g' = Inr cs"
  proof (cases "check_claim False (fst x)")
    case (Inl err)
    with run cs show ?thesis by (auto simp: submit_claim_cases)
  next
    case (Inr u)
    with run have a: "append_claim (fst x, snd x) g = (g', Inl err)" by (simp add: submit_claim_cases)
    from Inr have "check_claim (eg_legacy g) (fst x) = Inr ()" by (simp add: check_claim_legacy)
    from append_claim_run [OF cs this a] cs show ?thesis by auto
  qed
next
  show "list_claims g = Inr cs \<Longrightarrow> distinct (map cl_claim_id cs)" for g :: evidence_graph and cs
    using list_claims_inv by blast
qed

section \<open>Facts\<close>

lemma classify_pair_run:
  assumes "classify_pair cand np cp prior g = (g', Inr c)"
  shows "\<exists>cls why. classify_native np = Inr (cls, why) \<and> c = claim_for cand np cp prior cls why
     \<and> check_claim False c = Inr () \<and> append_claim (c, cp) g = (g', Inr c)
     \<and> (\<forall>p. cp = Some p \<and> cls \<noteq> INFRA_FAILURE \<longrightarrow>
          validate_counterfactual_binding cand np p = Inr () \<and> validate_graph_binding p g = Inr ())"
proof -
  obtain cls why where n: "classify_native np = Inr (cls, why)"
    using assms by (cases "classify_native np") (auto simp: classify_pair_def obind_olift)
  let ?c = "claim_for cand np cp prior cls why"
  have a: "append_claim (x, y) g = (h, Inr z) \<Longrightarrow> z = x" for x y h z
    by (auto simp: append_claim_def obind_eq_Inr)
  have "check_claim False ?c = Inr () \<and> append_claim (?c, cp) g = (g', Inr c)
     \<and> (\<forall>p. cp = Some p \<and> cls \<noteq> INFRA_FAILURE \<longrightarrow>
          validate_counterfactual_binding cand np p = Inr () \<and> validate_graph_binding p g = Inr ())"
    using assms n
    by (auto simp: classify_pair_def obind_eq_Inr olift_eq_Inr mk_claim_def bind_eq_Inr split: option.splits if_splits)
  with n a show ?thesis by blast
qed

lemma rebuild_binding_facts:
  assumes "rebuild_counterfactual_binding c es rs = Inr ()"
  shows "\<exists>be bn te tn bm tm crev bdl p b t.
     {be, bn, te, tn} \<subseteq> set es \<and> {bm, tm} \<subseteq> set rs \<and> rc_kind bm = ''model'' \<and> rc_kind tm = ''model''
     \<and> build_matched_counterfactual_pair (cl_candidate_id c) crev bdl bm be bn tm te tn = Inr p
     \<and> pair_evidence_ids p = cl_evidence_ids c \<and> pair_receipt_ids p = cl_receipt_ids c
     \<and> cl_pair_sha256 c = Some (pair_sha256 p)
     \<and> no_evaluator_error (ev_payload bn) \<and> no_evaluator_error (ev_payload tn)
     \<and> get (ev_payload bn) ''resolved'' = JBool b \<and> get (ev_payload tn) ''resolved'' = JBool t
     \<and> cl_classification c = pair_classification b t"
proof -
  let ?look = "\<lambda>i. case evidence_by_id es i of None \<Rightarrow> raise KeyError i | Some e \<Rightarrow> Inr e"
  from assms obtain sel be bn te tn p where sel: "mapM ?look (cl_evidence_ids c) = Inr sel"
    and o1: "only_evidence sel ''baseline'' ''external-trace-v1'' = Inr be"
    and o2: "only_evidence sel ''baseline'' ''native-v1'' = Inr bn"
    and o3: "only_evidence sel ''taught'' ''external-trace-v1'' = Inr te"
    and o4: "only_evidence sel ''taught'' ''native-v1'' = Inr tn"
    and p: "rebuild_pair c rs be bn te tn = Inr p"
    by (auto simp: rebuild_counterfactual_binding_def bind_eq_Inr)
  have sub: "set sel \<subseteq> set es"
  proof
    fix e
    assume "e \<in> set sel"
    with sel obtain i where "?look i = Inr e"
      by (auto simp: mapM_eq_Inr list_all2_conv_all_nth in_set_conv_nth)
    then show "e \<in> set es" by (auto simp: evidence_by_id_def dest: find_SomeD split: option.splits)
  qed
  have only: "e \<in> set es" if "only_evidence sel arm obs = Inr e" for arm obs e
  proof -
    from that have "filter (\<lambda>e. ev_observer_id e = obs \<and> get (ev_payload e) ''arm'' = JStr arm) sel = [e]"
      by (auto simp: only_evidence_def split: list.splits)
    then have "e \<in> set (filter (\<lambda>e. ev_observer_id e = obs \<and> get (ev_payload e) ''arm'' = JStr arm) sel)" by simp
    with sub show ?thesis by auto
  qed
  have model: "m \<in> set rs" if "model_receipt_of rs e = Inr m" for e m
    using that by (auto simp: model_receipt_of_def bind_eq_Inr receipt_by_id_def dest: find_SomeD split: option.splits)
  from p obtain bm tm crev bdl where m: "model_receipt_of rs be = Inr bm" "model_receipt_of rs te = Inr tm"
    "rc_kind bm = ''model''" "rc_kind tm = ''model''"
    and build: "build_matched_counterfactual_pair (cl_candidate_id c) crev bdl bm be bn tm te tn = Inr p"
    by (auto simp: rebuild_pair_def rewrap_eq_Inr bind_eq_Inr integrity_unless_def require_eq_Inr)
  from assms sel o1 o2 o3 o4 p obtain b t where
    "pair_evidence_ids p = cl_evidence_ids c" "pair_receipt_ids p = cl_receipt_ids c"
    "cl_pair_sha256 c = Some (pair_sha256 p)" "no_evaluator_error (ev_payload bn)" "no_evaluator_error (ev_payload tn)"
    "get (ev_payload bn) ''resolved'' = JBool b" "get (ev_payload tn) ''resolved'' = JBool t"
    "cl_classification c = pair_classification b t"
    by (auto simp: rebuild_counterfactual_binding_def bind_eq_Inr all_checks_eq_Inr integrity_unless_def require_eq_Inr
        split: json.splits)
  with m build only [OF o1] only [OF o2] only [OF o3] only [OF o4] model [OF m(1)] model [OF m(2)] show ?thesis
    by blast
qed

lemma graph_rebuild_facts:
  assumes "graph_rebuild s g = Inr h"
  shows "\<exists>rs es cs. list_receipts s = Inr rs \<and> list_evidence g = Inr es \<and> list_claims g = Inr cs \<and> h = g
     \<and> (\<forall>e \<in> set es. check_envelope_backed s rs e = Inr ()) \<and> (\<forall>c \<in> set cs. check_claim_bound cs es rs c = Inr ())"
  using assms by (auto simp: graph_rebuild_def bind_eq_Inr all_checks_eq_Inr)

lemma pair_classification_not_infra: "pair_classification b t \<noteq> INFRA_FAILURE"
  by (simp add: pair_classification_def)

end
