(* ===== verification/Evidence_Demo.thy ===== *)
theory Evidence_Demo
  imports Evidence_Claims
begin

text \<open>
  One complete counterfactual experiment: two model calls, the traces and native outcomes of both
  arms, their receipts and the claim they support.  The properties of the evidence graph are
  applied to it.
\<close>

section \<open>Logs of given records\<close>

lemma read_own_receipts:
  assumes "\<And>r. r \<in> set rs \<Longrightarrow> check_receipt r = Inr () \<and> finite_json (JObj (receipt_dict r))
      \<and> (\<exists>a. verify_artifact (rc_artifact_sha256 r) None s = Inr a)"
    and "distinct (map rc_receipt_id (acc @ rs))"
  shows "read_receipts s acc (map (\<lambda>r. Some (receipt_line r (digest (JObj (receipt_dict r))))) rs) = Inr (acc @ rs)"
  using assms
proof (induction rs arbitrary: acc)
  case Nil
  then show ?case by simp
next
  case (Cons r rs)
  have f: "find (\<lambda>x. rc_receipt_id x = rc_receipt_id r) acc = None"
    using Cons.prems(2) by (auto simp: find_None_iff image_iff)
  have r: "check_receipt r = Inr ()" "finite_json (JObj (receipt_dict r))" using Cons.prems(1) by auto
  obtain a where a: "verify_artifact (rc_artifact_sha256 r) None s = Inr a" using Cons.prems(1) by auto
  have p: "parse_receipt_line (Some (receipt_line r h)) = Inr (r, JStr h)" for h
    by (rule parse_own_line [OF r(1)])
  have "read_receipts s (acc @ [r]) (map (\<lambda>r. Some (receipt_line r (digest (JObj (receipt_dict r))))) rs) = Inr ((acc @ [r]) @ rs)"
    by (rule Cons.IH) (use Cons.prems in auto)
  with f r a p show ?case by (simp add: receipt_sha256_def content_sha256_eq)
qed

lemma read_own_records:
  assumes "\<And>x. x \<in> set xs \<Longrightarrow> rt_of t (rt_dict t x) = Inr x \<and> finite_json (JObj (rt_dict t x))"
    and "distinct (map (rt_id t) (acc @ xs))"
  shows "read_records t acc (map (\<lambda>x. Some (record_line t x (digest (JObj (rt_dict t x))))) xs) = Inr (acc @ xs)"
  using assms
proof (induction xs arbitrary: acc)
  case Nil
  then show ?case by simp
next
  case (Cons x xs)
  have f: "find (\<lambda>y. rt_id t y = rt_id t x) acc = None"
    using Cons.prems(2) by (auto simp: find_None_iff image_iff)
  have x: "rt_of t (rt_dict t x) = Inr x" "finite_json (JObj (rt_dict t x))" using Cons.prems(1) by auto
  have "read_records t (acc @ [x]) (map (\<lambda>x. Some (record_line t x (digest (JObj (rt_dict t x))))) xs) = Inr ((acc @ [x]) @ xs)"
    by (rule Cons.IH) (use Cons.prems in auto)
  with f x show ?case by (simp add: parse_own_record [OF x(1)] record_sha256_def content_sha256_eq)
qed

definition artifact_files :: "nat list list \<Rightarrow> (string, nat list) fmap" where
  "artifact_files as = fmap_of_list (map (\<lambda>a. (sha256_hex a, a)) as)"

lemma artifact_files_verify:
  assumes "a \<in> set as" and "rs_artifacts s = artifact_files as"
  shows "\<exists>c. verify_artifact (sha256_hex a) None s = Inr c"
proof -
  have "sha256_hex a \<in> fst ` set (map (\<lambda>a. (sha256_hex a, a)) as)" using assms(1) by force
  then obtain c where c: "map_of (map (\<lambda>a. (sha256_hex a, a)) as) (sha256_hex a) = Some c"
    by (metis map_of_eq_None_iff option.exhaust)
  then have "(sha256_hex a, c) \<in> set (map (\<lambda>a. (sha256_hex a, a)) as)" by (rule map_of_SomeD)
  with c assms(2) show ?thesis
    by (auto simp: verify_artifact_eq_Inr artifact_files_def fmlookup_of_list)
qed

section \<open>The experiment\<close>

definition d_sha :: string where "d_sha = replicate 64 CHR ''0''"

definition d_prompt :: string where "d_prompt = ''COMPILED-CANDIDATE: rev-1 '' @ d_sha"

definition d_model_payload :: "bool \<Rightarrow> dict" where
  "d_model_payload taught = fmap_of_list (
     [(''provider'', JStr ''p''), (''model'', JStr ''m''), (''revision'', JStr ''v''),
      (''prediction_sha256'', JStr d_sha), (''candidate_consumed'', JBool taught),
      (''arm'', JStr (if taught then ''taught'' else ''baseline''))]
     @ (if taught then
          [(''prompt_texts'', JList [JStr d_prompt]), (''prompt_sha256'', JList [JStr (text_sha256 d_prompt)]),
           (''candidate_prompt'', JStr d_prompt), (''candidate_prompt_sha256'', JStr (text_sha256 d_prompt)),
           (''candidate_revision_id'', JStr ''rev-1''), (''candidate_bundle_sha256'', JStr d_sha),
           (''compiled_artifact_sha256'', jobj [(''skill'', JStr d_sha)])]
        else [(''prompt_texts'', JList [JStr ''solve'']), (''prompt_sha256'', JList [JStr (text_sha256 ''solve'')])]))"

definition d_id :: "string \<Rightarrow> bool \<Rightarrow> string" where
  "d_id s taught = s @ (if taught then ''-t'' else ''-b'')"

definition d_receipt :: "string \<Rightarrow> string \<Rightarrow> bool \<Rightarrow> dict \<Rightarrow> receipt" where
  "d_receipt i kind taught payload = \<lparr>rc_receipt_id = d_id i taught, rc_campaign_id = ''c1'', rc_plan_id = d_id ''plan'' taught,
     rc_sequence = 1, rc_kind = kind, rc_created_at = ''t'', rc_payload = payload,
     rc_artifact_sha256 = digest (JObj payload), rc_supersedes_receipt_id = None\<rparr>"

definition d_model :: "bool \<Rightarrow> receipt" where
  "d_model taught = d_receipt ''m'' ''model'' taught (d_model_payload taught)"

definition d_common :: "bool \<Rightarrow> (string \<times> json) list" where
  "d_common taught =
     [(''arm'', JStr (if taught then ''taught'' else ''baseline'')), (''task_revision_id'', JStr ''task''),
      (''model_receipt_id'', JStr (d_id ''m'' taught)), (''model_artifact_sha256'', JStr (digest (JObj (d_model_payload taught)))),
      (''prediction_sha256'', JStr d_sha)]"

definition d_trace_payload :: "bool \<Rightarrow> dict" where
  "d_trace_payload taught = fmap_of_list (d_common taught @ map (\<lambda>f. (f, get (d_model_payload taught) f)) mirrored_fields)"

definition d_native_payload :: "bool \<Rightarrow> dict" where
  "d_native_payload taught = fmap_of_list (d_common taught @
     [(''task_source_sha256'', JStr d_sha), (''model_identity'', JStr ''p/m@v''), (''native_evaluator_id'', JStr ''native''),
      (''execution_config_sha256'', JStr d_sha), (''resolved'', JBool taught), (''evaluator_error'', JNull)])"

text \<open>What the observers project onto a receipt's payload.\<close>

definition d_evidence :: "string \<Rightarrow> string \<Rightarrow> string \<Rightarrow> string \<Rightarrow> bool \<Rightarrow> dict \<Rightarrow> evidence_envelope" where
  "d_evidence i ri obs kind taught payload = \<lparr>ev_evidence_id = d_id i taught, ev_receipt_ids = [d_id ri taught], ev_observer_id = obs,
     ev_grade = E1, ev_payload = fmupd ''receipt_kind'' (JStr kind) (fmupd ''plan_id'' (JStr (d_id ''plan'' taught))
       (fmupd ''campaign_id'' (JStr ''c1'') payload)), ev_artifact_sha256 = digest (JObj payload)\<rparr>"

definition d_trace :: "bool \<Rightarrow> evidence_envelope" where
  "d_trace taught = d_evidence ''ext'' ''x'' ''external-trace-v1'' ''external_trace'' taught (d_trace_payload taught)"

definition d_native :: "bool \<Rightarrow> evidence_envelope" where
  "d_native taught = d_evidence ''nat'' ''n'' ''native-v1'' ''native_evaluation'' taught (d_native_payload taught)"

definition d_receipts :: "receipt list" where
  "d_receipts = [d_model False, d_receipt ''x'' ''external_trace'' False (d_trace_payload False),
     d_receipt ''n'' ''native_evaluation'' False (d_native_payload False),
     d_model True, d_receipt ''x'' ''external_trace'' True (d_trace_payload True),
     d_receipt ''n'' ''native_evaluation'' True (d_native_payload True)]"

definition d_envelopes :: "evidence_envelope list" where
  "d_envelopes = [d_trace False, d_native False, d_trace True, d_native True]"

definition d_store :: receipt_store where
  "d_store = \<lparr>rs_log = map (\<lambda>r. Some (receipt_line r (digest (JObj (receipt_dict r))))) d_receipts,
     rs_artifacts = artifact_files (map (\<lambda>r. utf8 (json_text (JObj (rc_payload r)))) d_receipts), rs_locked = False\<rparr>"

definition d_graph :: evidence_graph where
  "d_graph = \<lparr>eg_evidence = map (\<lambda>e. Some (record_line evidence_type e (digest (JObj (evidence_dict e))))) d_envelopes,
     eg_claims = [], eg_legacy = False\<rparr>"

lemma d_sha_ok [simp]: "is_sha256 d_sha" "d_sha \<noteq> []" "\<not> blank d_sha" "length d_sha = 64"
  by (simp_all add: d_sha_def is_sha256_def is_hex_def blank_def is_space_def list_all_iff)

lemma d_id_inj [simp]: "d_id s t = d_id s' t' \<longleftrightarrow> s = s' \<and> t = t'" "\<not> blank (d_id s t)" "d_id s t \<noteq> []"
  by (auto simp: d_id_def blank_def is_space_def)

lemma d_prompt_facts [simp]:
  "d_prompt \<noteq> []" "substring ''rev-1'' d_prompt" "substring d_sha d_prompt" "substring ''COMPILED-CANDIDATE:'' d_prompt"
  "\<not> substring ''BASELINE-HARNESS:'' d_prompt"
proof -
  show "d_prompt \<noteq> []" by (simp add: d_prompt_def)
  show "substring ''rev-1'' d_prompt" unfolding substring_iff d_prompt_def
    by (rule exI [of _ "''COMPILED-CANDIDATE: ''"], rule exI [of _ "'' '' @ d_sha"]) simp
  show "substring d_sha d_prompt" unfolding substring_iff d_prompt_def
    by (rule exI [of _ "''COMPILED-CANDIDATE: rev-1 ''"], rule exI [of _ "[]"]) simp
  show "substring ''COMPILED-CANDIDATE:'' d_prompt" unfolding substring_iff d_prompt_def
    by (rule exI [of _ "[]"], rule exI [of _ "'' rev-1 '' @ d_sha"]) simp
  show "\<not> substring ''BASELINE-HARNESS:'' d_prompt" by code_simp
qed

lemma d_solve_facts [simp]:
  "\<not> substring ''COMPILED-CANDIDATE:'' ''solve''" "\<not> substring ''rev-1'' ''solve''" "\<not> substring d_sha ''solve''"
  by code_simp+

lemmas d_defs = d_model_payload_def d_common_def d_trace_payload_def d_native_payload_def

lemma d_model_payload_finite: "finite_json (JObj (d_model_payload t))"
  unfolding d_model_payload_def by (rule finite_fields) (simp add: jobj_def finite_fmupd)

lemma d_get_model [simp]:
  "get (d_model_payload t) ''provider'' = JStr ''p''" "get (d_model_payload t) ''model'' = JStr ''m''"
  "get (d_model_payload t) ''revision'' = JStr ''v''"
  "fmlookup (d_model_payload t) ''prediction_sha256'' = Some (JStr d_sha)"
  "get (d_model_payload t) ''candidate_consumed'' = JBool t"
  "get (d_model_payload t) ''arm'' = JStr (if t then ''taught'' else ''baseline'')"
  "get (d_model_payload t) ''prompt_texts'' = JList [JStr (if t then d_prompt else ''solve'')]"
  "get (d_model_payload t) ''prompt_sha256'' = JList [JStr (text_sha256 (if t then d_prompt else ''solve''))]"
  "get (d_model_payload t) ''candidate_prompt'' = (if t then JStr d_prompt else JNull)"
  "get (d_model_payload t) ''candidate_prompt_sha256'' = (if t then JStr (text_sha256 d_prompt) else JNull)"
  "get (d_model_payload t) ''candidate_revision_id'' = (if t then JStr ''rev-1'' else JNull)"
  "get (d_model_payload t) ''candidate_bundle_sha256'' = (if t then JStr d_sha else JNull)"
  "get (d_model_payload t) ''compiled_artifact_sha256'' = (if t then jobj [(''skill'', JStr d_sha)] else JNull)"
  "get (d_model_payload t) ''parent_harness_revision_id'' = JNull"
  "get (d_model_payload t) ''parent_harness_bundle_sha256'' = JNull"
  "get (d_model_payload t) ''parent_harness_prompt_sha256'' = JNull"
  "fmlookup (d_model_payload t) ''candidate_revision_id'' = (if t then Some (JStr ''rev-1'') else None)"
  "fmlookup (d_model_payload t) ''candidate_bundle_sha256'' = (if t then Some (JStr d_sha) else None)"
  by (simp_all add: d_model_payload_def get_jobj fmlookup_of_list)

lemma d_get_common:
  "get (fmap_of_list (d_common t @ kvs)) ''arm'' = JStr (if t then ''taught'' else ''baseline'')"
  "get (fmap_of_list (d_common t @ kvs)) ''task_revision_id'' = JStr ''task''"
  "get (fmap_of_list (d_common t @ kvs)) ''model_receipt_id'' = JStr (d_id ''m'' t)"
  "get (fmap_of_list (d_common t @ kvs)) ''model_artifact_sha256'' = JStr (digest (JObj (d_model_payload t)))"
  "fmlookup (fmap_of_list (d_common t @ kvs)) ''prediction_sha256'' = Some (JStr d_sha)"
  "fmlookup (fmap_of_list (d_common t @ kvs)) ''model_receipt_id'' = Some (JStr (d_id ''m'' t))"
  "fmlookup (fmap_of_list (d_common t @ kvs)) ''task_revision_id'' = Some (JStr ''task'')"
  by (simp_all add: d_common_def get_jobj fmlookup_of_list)

lemmas d_get_trace [simp] = d_get_common [where kvs = "map (\<lambda>f. (f, get (d_model_payload t) f)) mirrored_fields" and t = t for t,
  folded d_trace_payload_def]

lemmas d_get_native [simp] = d_get_common [where kvs = "[(''task_source_sha256'', JStr d_sha), (''model_identity'', JStr ''p/m@v''),
      (''native_evaluator_id'', JStr ''native''), (''execution_config_sha256'', JStr d_sha), (''resolved'', JBool t),
      (''evaluator_error'', JNull)]" and t = t for t, folded d_native_payload_def]

lemma d_get_mirrored [simp]: "f \<in> set mirrored_fields \<Longrightarrow> get (d_trace_payload t) f = get (d_model_payload t) f"
proof -
  assume f: "f \<in> set mirrored_fields"
  have "map_of (d_common t) f = None" using f by (auto simp: d_common_def mirrored_fields_def)
  moreover have "map_of (map (\<lambda>f. (f, get (d_model_payload t) f)) mirrored_fields) f = Some (get (d_model_payload t) f)"
    using f by (simp add: map_of_map_restrict)
  ultimately show ?thesis by (simp add: d_trace_payload_def get_jobj map_add_def del: fmap_of_list_app)
qed

lemma d_get_parent [simp]:
  "get (d_trace_payload t) ''parent_harness_revision_id'' = JNull" "get (d_trace_payload t) ''parent_harness_bundle_sha256'' = JNull"
  "get (d_trace_payload t) ''parent_harness_prompt_sha256'' = JNull"
  "get (d_native_payload t) ''parent_harness_revision_id'' = JNull" "get (d_native_payload t) ''parent_harness_bundle_sha256'' = JNull"
  "get (d_native_payload t) ''parent_harness_prompt_sha256'' = JNull"
  by (simp_all add: d_trace_payload_def d_native_payload_def d_common_def mirrored_fields_def get_jobj)

lemma d_get_outcome [simp]:
  "get (d_native_payload t) ''model_identity'' = JStr ''p/m@v''" "get (d_native_payload t) ''task_source_sha256'' = JStr d_sha"
  "get (d_native_payload t) ''native_evaluator_id'' = JStr ''native''" "get (d_native_payload t) ''execution_config_sha256'' = JStr d_sha"
  "get (d_native_payload t) ''resolved'' = JBool t" "get (d_native_payload t) ''evaluator_error'' = JNull"
  "fmlookup (d_native_payload t) ''model_identity'' = Some (JStr ''p/m@v'')"
  "fmlookup (d_native_payload t) ''task_source_sha256'' = Some (JStr d_sha)"
  "fmlookup (d_native_payload t) ''native_evaluator_id'' = Some (JStr ''native'')"
  "fmlookup (d_native_payload t) ''execution_config_sha256'' = Some (JStr d_sha)"
  "fmlookup (d_native_payload t) ''resolved'' = Some (JBool t)" "fmlookup (d_native_payload t) ''evaluator_error'' = Some JNull"
  by (simp_all add: d_native_payload_def d_common_def get_jobj fmlookup_of_list)

lemma d_fresh [simp]:
  "fmlookup (d_trace_payload t) ''campaign_id'' = None" "fmlookup (d_trace_payload t) ''plan_id'' = None"
  "fmlookup (d_trace_payload t) ''receipt_kind'' = None" "fmlookup (d_native_payload t) ''campaign_id'' = None"
  "fmlookup (d_native_payload t) ''plan_id'' = None" "fmlookup (d_native_payload t) ''receipt_kind'' = None"
  by (simp_all add: d_trace_payload_def d_native_payload_def d_common_def mirrored_fields_def fmlookup_of_list)

lemma d_trace_finite: "finite_json (JObj (d_trace_payload t))"
  unfolding d_trace_payload_def by (rule finite_fields) (auto simp: d_common_def mirrored_fields_def jobj_def finite_fmupd)

lemma d_native_finite: "finite_json (JObj (d_native_payload t))"
  unfolding d_native_payload_def by (rule finite_fields) (simp add: d_common_def)

lemma d_receipt_payload:
  assumes "\<forall>k \<in> {''campaign_id'', ''plan_id'', ''receipt_kind''}. fmlookup p k = None"
  shows "receipt_payload_of (d_evidence i ri obs kind t p) = p"
  using assms by (intro fmap_ext) (auto simp: receipt_payload_of_def d_evidence_def)

section \<open>The pair\<close>

lemma d_evidence_fields [simp]:
  "ev_evidence_id (d_evidence i ri obs kind t p) = d_id i t" "ev_receipt_ids (d_evidence i ri obs kind t p) = [d_id ri t]"
  "ev_observer_id (d_evidence i ri obs kind t p) = obs" "ev_artifact_sha256 (d_evidence i ri obs kind t p) = digest (JObj p)"
  "get (ev_payload (d_evidence i ri obs kind t p)) ''campaign_id'' = JStr ''c1''"
  "get (ev_payload (d_evidence i ri obs kind t p)) ''plan_id'' = JStr (d_id ''plan'' t)"
  by (simp_all add: d_evidence_def)

lemma d_evidence_payload:
  "k \<notin> {''campaign_id'', ''plan_id'', ''receipt_kind''} \<Longrightarrow> get (ev_payload (d_evidence i ri obs kind t p)) k = get p k"
  "k \<notin> {''campaign_id'', ''plan_id'', ''receipt_kind''} \<Longrightarrow> fmlookup (ev_payload (d_evidence i ri obs kind t p)) k = fmlookup p k"
  by (auto simp: d_evidence_def)

lemma d_model_fields [simp]:
  "rc_receipt_id (d_model t) = d_id ''m'' t" "rc_campaign_id (d_model t) = ''c1''" "rc_plan_id (d_model t) = d_id ''plan'' t"
  "rc_kind (d_model t) = ''model''" "rc_payload (d_model t) = d_model_payload t"
  "rc_artifact_sha256 (d_model t) = digest (JObj (d_model_payload t))"
  by (simp_all add: d_model_def d_receipt_def)

lemma d_receipt_finite: "finite_json (JObj p) \<Longrightarrow> finite_json (JObj (receipt_dict (d_receipt i kind t p)))"
  by (simp add: d_receipt_def receipt_dict_def finite_fmupd)

lemma d_evidence_finite: "finite_json (JObj p) \<Longrightarrow> finite_json (JObj (evidence_dict (d_evidence i ri obs kind t p)))"
  by (simp add: d_evidence_def evidence_dict_def finite_fmupd str_list_def list_all_iff)

lemma d_validate:
  "validate_evidence (if t then ''taught'' else ''baseline'') ''external-trace-v1'' (d_trace t) = Inr ()"
  "validate_evidence (if t then ''taught'' else ''baseline'') ''native-v1'' (d_native t) = Inr ()"
  by (simp_all add: validate_evidence_def d_trace_def d_native_def d_receipt_payload d_evidence_payload violation_unless_def
      content_sha256_eq d_trace_finite d_native_finite only_receipt_id_def)

lemma d_bound:
  "bound_to_model (d_model t) (d_trace t) = Inr ()" "bound_to_model (d_model t) (d_native t) = Inr ()"
  by (simp_all add: bound_to_model_def d_trace_def d_native_def d_evidence_payload violation_unless_def)

lemma d_compiled: "fmpred (\<lambda>k. is_digest) (fmupd k (JStr d_sha) fmempty)"
  by (rule fmpred_upd) simp_all

lemma d_lineage:
  "validate_prompt_lineage ''baseline'' (d_model_payload False) ''rev-1'' d_sha = Inr (digest (str_list [''solve'']), None)"
  "validate_prompt_lineage ''taught'' (d_model_payload True) ''rev-1'' d_sha
     = Inr (digest (str_list [d_prompt]), Some (text_sha256 d_prompt))"
  by (simp_all add: validate_prompt_lineage_def bound_prompts_def baseline_prompt_lineage_def taught_prompt_lineage_def
      violation_unless_def jobj_def Let_def d_compiled
      del: substring.simps)

lemma d_mirrored:
  "all_checks (map (\<lambda>f. violation_unless (py_eq (get (ev_payload (d_trace t)) f) (get (d_model_payload t) f)) (m f)) mirrored_fields)
     = Inr ()"
proof -
  have "f \<in> set mirrored_fields \<Longrightarrow> get (ev_payload (d_trace t)) f = get (d_model_payload t) f" for f
    using d_get_mirrored [of f t] by (auto simp: d_trace_def d_evidence_payload mirrored_fields_def)
  then show ?thesis by (auto simp: all_checks_eq_Inr violation_unless_def)
qed

lemma d_parent:
  "payload_parent_harness (d_model_payload t) = Inr (None, None, None)"
  "payload_parent_harness (ev_payload (d_trace t)) = Inr (None, None, None)"
  "payload_parent_harness (ev_payload (d_native t)) = Inr (None, None, None)"
  by (simp_all add: payload_parent_harness_def d_trace_def d_native_def d_evidence_payload)

lemma d_prediction:
  "prediction_sha256 (d_model_payload t) = Inr d_sha" "prediction_sha256 (ev_payload (d_trace t)) = Inr d_sha"
  "prediction_sha256 (ev_payload (d_native t)) = Inr d_sha"
  by (simp_all add: prediction_sha256_def literal_sha256_def d_trace_def d_native_def d_evidence_payload)

definition d_arm :: "bool \<Rightarrow> arm_evidence" where
  "d_arm t = \<lparr>ae_arm = (if t then ''taught'' else ''baseline''), ae_campaign_id = ''c1'', ae_plan_id = d_id ''plan'' t,
     ae_model_receipt_id = d_id ''m'' t, ae_model_receipt_sha256 = digest (JObj (receipt_dict (d_model t))),
     ae_model_artifact_sha256 = digest (JObj (d_model_payload t)),
     ae_external_trace_evidence_id = d_id ''ext'' t, ae_external_trace_evidence_sha256 = digest (JObj (evidence_dict (d_trace t))),
     ae_external_trace_receipt_id = d_id ''x'' t, ae_external_trace_artifact_sha256 = digest (JObj (d_trace_payload t)),
     ae_native_outcome_evidence_id = d_id ''nat'' t, ae_native_outcome_evidence_sha256 = digest (JObj (evidence_dict (d_native t))),
     ae_native_outcome_receipt_id = d_id ''n'' t, ae_native_outcome_artifact_sha256 = digest (JObj (d_native_payload t)),
     ae_prediction_sha256 = d_sha, ae_prompt_bundle_sha256 = digest (str_list [if t then d_prompt else ''solve'']),
     ae_candidate_prompt_sha256 = (if t then Some (text_sha256 d_prompt) else None), ae_candidate_consumed = t,
     ae_candidate_revision_id = (if t then Some ''rev-1'' else None),
     ae_candidate_bundle_sha256 = (if t then Some d_sha else None), ae_parent = (None, None, None)\<rparr>"

lemma d_arm_check: "check_arm_evidence (d_arm t) = Inr ()"
proof -
  have "\<not> blank ''c1''" "\<not> blank ''rev-1''" by code_simp+
  then show ?thesis
    by (simp add: check_arm_evidence_def d_arm_def require_text_def require_sha256_def violation_unless_def check_lineage_def
      text_sha256_def sha256_hex_is_sha256 or_empty_def)
qed

lemma d_sha_values:
  "receipt_sha256 (d_model t) = Inr (digest (JObj (receipt_dict (d_model t))))"
  "evidence_sha256 (d_trace t) = Inr (digest (JObj (evidence_dict (d_trace t))))"
  "evidence_sha256 (d_native t) = Inr (digest (JObj (evidence_dict (d_native t))))"
  by (simp_all add: receipt_sha256_def evidence_sha256_def content_sha256_eq d_model_def d_trace_def d_native_def
      d_receipt_finite d_evidence_finite d_model_payload_finite d_trace_finite d_native_finite)

lemma d_build_arm:
  "build_arm (if t then ''taught'' else ''baseline'') (d_model t) (d_trace t) (d_native t) ''rev-1'' d_sha = Inr (d_arm t)"
proof -
  have id: "py_eq (get (ev_payload (d_trace u)) ''task_revision_id'') (get (ev_payload (d_native u)) ''task_revision_id'')"
    "get (ev_payload (d_native u)) ''model_identity'' = JStr (model_identity_text (d_model_payload u))" for u
    by (simp_all add: d_trace_def d_native_def d_evidence_payload model_identity_text_def)
  have o: "only_receipt_id (d_trace u) = Inr (d_id ''x'' u)" "only_receipt_id (d_native u) = Inr (d_id ''n'' u)" for u
    by (simp_all add: only_receipt_id_def d_trace_def d_native_def)
  have f: "ev_evidence_id (d_trace u) = d_id ''ext'' u" "ev_evidence_id (d_native u) = d_id ''nat'' u"
    "ev_artifact_sha256 (d_trace u) = digest (JObj (d_trace_payload u))"
    "ev_artifact_sha256 (d_native u) = digest (JObj (d_native_payload u))" for u
    by (simp_all add: d_trace_def d_native_def)
  have c: "content_sha256 (JObj (d_model_payload u)) = Inr (digest (JObj (d_model_payload u)))" for u
    by (simp add: content_sha256_eq d_model_payload_finite)
  have check: "check_arm_evidence (d_arm t) = Inr ()" by (rule d_arm_check)
  have v: "violation_unless True m = Inr ()" for m by (simp add: violation_unless_def)
  show ?thesis
    using d_validate [of True] d_validate [of False] check
    by (cases t) (simp_all add: build_arm_def Let_def c d_bound d_prediction d_lineage d_mirrored d_parent d_sha_values id o f
        v d_arm_def del: d_id_inj)
qed

definition d_pair :: counterfactual_pair where
  "d_pair = \<lparr>cp_candidate_id = ''cand'', cp_candidate_revision_id = ''rev-1'', cp_candidate_bundle_sha256 = d_sha,
     cp_campaign_id = ''c1'', cp_task_revision_id = ''task'', cp_task_source_sha256 = d_sha, cp_model_identity = ''p/m@v'',
     cp_native_evaluator_id = ''native'', cp_execution_config_sha256 = d_sha, cp_baseline = d_arm False,
     cp_taught = d_arm True, cp_parent = (None, None, None)\<rparr>"

lemma d_pair_ids:
  "pair_evidence_ids d_pair = [d_id ''ext'' False, d_id ''nat'' False, d_id ''ext'' True, d_id ''nat'' True]"
  "pair_receipt_ids d_pair = [d_id ''m'' False, d_id ''x'' False, d_id ''n'' False, d_id ''m'' True, d_id ''x'' True, d_id ''n'' True]"
  by (simp_all add: pair_evidence_ids_def pair_receipt_ids_def d_pair_def d_arm_def)

lemma d_pair_check: "check_counterfactual_pair d_pair = Inr ()"
proof -
  have "\<not> blank ''c1''" "\<not> blank ''cand''" "\<not> blank ''rev-1''" "\<not> blank ''task''" "\<not> blank ''p/m@v''" "\<not> blank ''native''"
    by code_simp+
  then show ?thesis
    by (simp add: check_counterfactual_pair_def d_pair_ids require_text_def require_sha256_def violation_unless_def
        check_lineage_def) (simp add: d_pair_def d_arm_def)
qed

lemma d_native_fields:
  "get (ev_payload (d_native t)) ''task_revision_id'' = JStr ''task''" "get (ev_payload (d_native t)) ''task_source_sha256'' = JStr d_sha"
  "get (ev_payload (d_native t)) ''model_identity'' = JStr ''p/m@v''" "get (ev_payload (d_native t)) ''native_evaluator_id'' = JStr ''native''"
  "get (ev_payload (d_native t)) ''execution_config_sha256'' = JStr d_sha"
  "get (ev_payload (d_native t)) ''resolved'' = JBool t" "get (ev_payload (d_native t)) ''evaluator_error'' = JNull"
  "get (ev_payload (d_native t)) ''arm'' = JStr (if t then ''taught'' else ''baseline'')"
  by (simp_all add: d_native_def d_evidence_payload)

lemma d_native_present:
  "f \<in> set (matched_identity_fields @ [''resolved'', ''evaluator_error'']) \<Longrightarrow> \<exists>v. fmlookup (ev_payload (d_native t)) f = Some v"
proof -
  have "list_all (\<lambda>f. \<exists>v. fmlookup (ev_payload (d_native t)) f = Some v) (matched_identity_fields @ [''resolved'', ''evaluator_error''])"
    by (simp add: matched_identity_fields_def d_native_def d_evidence_payload)
  then show "f \<in> set (matched_identity_fields @ [''resolved'', ''evaluator_error'']) \<Longrightarrow> \<exists>v. fmlookup (ev_payload (d_native t)) f = Some v"
    unfolding list_all_iff by blast
qed

lemma d_build_pair:
  "build_matched_counterfactual_pair ''cand'' ''rev-1'' d_sha (d_model False) (d_trace False) (d_native False)
     (d_model True) (d_trace True) (d_native True) = Inr d_pair"
proof -
  have b: "build_arm ''baseline'' (d_model False) (d_trace False) (d_native False) ''rev-1'' d_sha = Inr (d_arm False)"
    "build_arm ''taught'' (d_model True) (d_trace True) (d_native True) ''rev-1'' d_sha = Inr (d_arm True)"
    using d_build_arm [of False] d_build_arm [of True] by simp_all
  have m: "fmlookup (ev_payload (d_native False)) f \<noteq> None \<and> fmlookup (ev_payload (d_native True)) f \<noteq> None
      \<and> get (ev_payload (d_native False)) f = get (ev_payload (d_native True)) f" if "f \<in> set matched_identity_fields" for f
  proof -
    have "list_all (\<lambda>f. get (ev_payload (d_native False)) f = get (ev_payload (d_native True)) f) matched_identity_fields"
      by (simp add: matched_identity_fields_def d_native_fields)
    with that d_native_present [of f False] d_native_present [of f True] show ?thesis by (auto simp: list_all_iff)
  qed
  have checks: "all_checks (map (\<lambda>f. if fmlookup (ev_payload (d_native False)) f = None \<or> fmlookup (ev_payload (d_native True)) f = None
             then raise ContractViolation ''counterfactual native evidence is missing a field''
             else violation_unless (py_eq (get (ev_payload (d_native False)) f) (get (ev_payload (d_native True)) f))
               ''counterfactual arms have unmatched identity'') matched_identity_fields) = Inr ()"
    unfolding all_checks_eq_Inr set_map using m by (fastforce simp: violation_unless_def)
  have a: "ae_campaign_id (d_arm t) = ''c1''" "ae_parent (d_arm t) = (None, None, None)" for t by (simp_all add: d_arm_def)
  have v: "violation_unless True x = Inr ()" for x by (simp add: violation_unless_def)
  show ?thesis
    unfolding build_matched_counterfactual_pair_def b checks bind_Inr a d_native_fields py_str.simps Let_def
    by (simp add: v d_pair_check d_pair_def [symmetric])
qed

section \<open>The stores\<close>

lemma d_receipt_check:
  assumes "kind \<noteq> []" "\<not> blank kind"
  shows "check_receipt (d_receipt i kind t p) = Inr ()"
proof -
  have "\<not> blank ''c1''" "\<not> blank ''t''" by code_simp+
  with assms show ?thesis
    by (simp add: check_receipt_def d_receipt_def require_text_def require_sha256_def violation_unless_def)
qed

lemma d_store_list: "list_receipts d_store = Inr d_receipts"
proof -
  have kinds: "\<not> blank ''model''" "\<not> blank ''external_trace''" "\<not> blank ''native_evaluation''" by code_simp+
  have ok: "check_receipt r = Inr () \<and> finite_json (JObj (receipt_dict r))
      \<and> rc_artifact_sha256 r = sha256_hex (utf8 (json_text (JObj (rc_payload r))))" if "r \<in> set d_receipts" for r
  proof -
    have art: "rc_artifact_sha256 (d_receipt i k t p) = sha256_hex (utf8 (json_text (JObj (rc_payload (d_receipt i k t p)))))"
      for i k t p by (simp add: d_receipt_def digest_def)
    from that consider t where "r = d_receipt ''m'' ''model'' t (d_model_payload t)"
      | t where "r = d_receipt ''x'' ''external_trace'' t (d_trace_payload t)"
      | t where "r = d_receipt ''n'' ''native_evaluation'' t (d_native_payload t)"
      by (auto simp: d_receipts_def d_model_def)
    then show ?thesis
      by cases (simp_all add: d_receipt_check kinds art d_receipt_finite d_model_payload_finite d_trace_finite d_native_finite)
  qed
  have art: "\<exists>a. verify_artifact (rc_artifact_sha256 r) None d_store = Inr a" if "r \<in> set d_receipts" for r
    using artifact_files_verify [of "utf8 (json_text (JObj (rc_payload r)))"
        "map (\<lambda>r. utf8 (json_text (JObj (rc_payload r)))) d_receipts" d_store] ok [OF that] that
    by (simp add: d_store_def)
  have "distinct (map rc_receipt_id ([] @ d_receipts))"
    by (simp add: d_receipts_def d_model_def d_receipt_def)
  from read_own_receipts [OF _ this, of d_store] ok art show ?thesis
    by (simp add: list_receipts_def) (simp add: d_store_def)
qed

lemma d_envelope_ok:
  assumes "e \<in> set d_envelopes"
  shows "check_evidence_envelope e = Inr () \<and> finite_json (JObj (evidence_dict e))"
proof -
  have obs: "\<not> blank ''external-trace-v1''" "\<not> blank ''native-v1''" by code_simp+
  from assms consider t where "e = d_trace t" | t where "e = d_native t" by (auto simp: d_envelopes_def)
  then show ?thesis
    by cases (simp_all add: d_trace_def d_native_def check_evidence_envelope_def require_text_def require_sha256_def
        violation_unless_def obs d_evidence_finite d_trace_finite d_native_finite)
qed

lemma d_graph_evidence: "list_evidence d_graph = Inr d_envelopes"
proof -
  have t: "rt_of evidence_type = evidence_of_dict" "rt_dict evidence_type = evidence_dict" "rt_id evidence_type = ev_evidence_id"
    by (simp_all add: evidence_type_def)
  have "distinct (map ev_evidence_id ([] @ d_envelopes))"
    by (simp add: d_envelopes_def d_trace_def d_native_def)
  with read_own_records [of d_envelopes evidence_type "[]"] d_envelope_ok show ?thesis
    by (simp add: t evidence_decode list_evidence_def d_graph_def)
qed

lemma d_graph_claims: "list_claims d_graph = Inr []"
  by (simp add: list_claims_def d_graph_def)

section \<open>The claim\<close>

definition d_np :: native_pair where
  "d_np = \<lparr>np_baseline = d_native False, np_taught = d_native True,
     np_identity = map (\<lambda>f. (f, get (ev_payload (d_native False)) f)) matched_identity_fields\<rparr>"

definition d_claim :: claim where
  "d_claim = claim_for ''cand'' d_np (Some d_pair) None GAIN ''baseline failed and taught resolved''"

definition d_claimed :: evidence_graph where
  "d_claimed = d_graph\<lparr>eg_claims := [Some (record_line (claim_type False) d_claim (digest (JObj (claim_dict d_claim))))]\<rparr>"

lemma d_classify_native: "classify_native d_np = Inr (GAIN, ''baseline failed and taught resolved'')"
  by (simp add: classify_native_def evaluator_errors_def d_np_def d_native_fields classify_outcomes_def)

lemma d_claim_fields:
  "cl_candidate_id d_claim = ''cand''" "cl_grade d_claim = E2" "cl_classification d_claim = GAIN"
  "cl_evidence_ids d_claim = pair_evidence_ids d_pair" "cl_receipt_ids d_claim = pair_receipt_ids d_pair"
  "cl_pair_sha256 d_claim = Some (pair_sha256 d_pair)" "cl_supersedes_claim_id d_claim = None"
  by (simp_all add: d_claim_def claim_for_def Let_def)

lemma pair_sha256_ok: "is_sha256 (pair_sha256 p)"
  by (simp add: pair_sha256_def)

lemma d_claim_check: "check_claim False d_claim = Inr ()"
proof -
  have w: "\<not> blank ''cand''" "\<not> blank ''baseline failed and taught resolved''" by code_simp+
  have i: "\<not> blank (cl_claim_id d_claim)"
    by (simp add: d_claim_def claim_for_def Let_def blank_def is_space_def)
  have r: "cl_rationale d_claim = ''baseline failed and taught resolved''" by (simp add: d_claim_def claim_for_def Let_def)
  show ?thesis
    by (simp add: check_claim_def d_claim_fields d_pair_ids r i w require_text_def require_sha256_def violation_unless_def pair_sha256_ok)
qed

lemma d_by_id: "evidence_by_id d_envelopes (d_id ''ext'' t) = Some (d_trace t)"
  "evidence_by_id d_envelopes (d_id ''nat'' t) = Some (d_native t)"
  by (cases t; simp add: evidence_by_id_def d_envelopes_def d_trace_def d_native_def)+

lemma d_arm_fields:
  "ae_external_trace_evidence_id (d_arm t) = d_id ''ext'' t" "ae_native_outcome_evidence_id (d_arm t) = d_id ''nat'' t"
  "evidence_sha256 (d_trace t) = Inr (ae_external_trace_evidence_sha256 (d_arm t))"
  "evidence_sha256 (d_native t) = Inr (ae_native_outcome_evidence_sha256 (d_arm t))"
  "ev_receipt_ids (d_trace t) = [ae_external_trace_receipt_id (d_arm t)]"
  "ev_receipt_ids (d_native t) = [ae_native_outcome_receipt_id (d_arm t)]"
  "ev_artifact_sha256 (d_trace t) = ae_external_trace_artifact_sha256 (d_arm t)"
  "ev_artifact_sha256 (d_native t) = ae_native_outcome_artifact_sha256 (d_arm t)"
  by (simp_all add: d_sha_values) (simp_all add: d_arm_def d_trace_def d_native_def)

lemma d_pair_arms: "cp_baseline d_pair = d_arm False" "cp_taught d_pair = d_arm True" "cp_candidate_id d_pair = ''cand''"
  by (simp_all add: d_pair_def)

lemma d_frozen: "list_all (frozen_in d_envelopes) (pair_expected d_pair)"
  by (simp add: pair_expected_def frozen_in_def d_pair_arms d_arm_fields d_by_id)

lemma d_validated: "validate_appended_counterfactual d_claim d_pair d_envelopes = Inr ()"
  by (simp add: validate_appended_counterfactual_def d_claim_fields d_pair_arms d_frozen integrity_unless_def)

lemma d_claim_finite: "finite_json (JObj (claim_dict d_claim))"
  by (simp add: claim_dict_def d_claim_fields finite_fmupd str_list_def list_all_iff)

lemma d_append: "append_claim (d_claim, Some d_pair) d_graph = (d_claimed, Inr d_claim)"
  by (simp add: append_claim_def d_graph_claims d_graph_evidence d_claim_fields obind_olift d_validated check_supersession_def
      append_record_def record_sha256_def content_sha256_eq claim_type_def d_claim_finite obind_def)
    (simp add: d_claimed_def d_graph_def claim_type_def)

lemma d_identity: "list_all (\<lambda>(f, v). v = JStr (pair_identity d_pair f)) (np_identity d_np)"
  by (simp add: d_np_def matched_identity_fields_def d_native_fields pair_identity_def d_pair_def)

lemma d_classify: "classify_pair ''cand'' d_np (Some d_pair) None d_graph = (d_claimed, Inr d_claim)"
proof -
  have b: "validate_counterfactual_binding ''cand'' d_np d_pair = Inr ()"
    by (simp add: validate_counterfactual_binding_def d_identity d_pair_arms violation_unless_def d_arm_fields)
      (simp add: d_np_def d_native_def)
  have g: "validate_graph_binding d_pair d_graph = Inr ()"
    by (simp add: validate_graph_binding_def d_graph_evidence arm_expected_def d_pair_arms d_arm_fields d_by_id violation_unless_def)
  show ?thesis
    by (simp add: classify_pair_def d_classify_native b mk_claim_def d_claim_check flip: d_claim_def)
      (simp add: obind_def olift_def oread_def g d_append)
qed

lemma d_claimed_lists: "list_claims d_claimed = Inr [d_claim]" "list_evidence d_claimed = Inr d_envelopes"
proof -
  from append_claim_run [OF d_graph_claims _ d_append] d_claim_check show "list_claims d_claimed = Inr [d_claim]"
    by (simp add: d_graph_def)
  show "list_evidence d_claimed = Inr d_envelopes"
    using d_graph_evidence by (simp add: d_claimed_def list_evidence_def)
qed

section \<open>The rebuild\<close>

lemma d_receipt_by_id:
  "receipt_by_id d_receipts (d_id ''m'' t) = Some (d_model t)"
  "receipt_by_id d_receipts (d_id ''x'' t) = Some (d_receipt ''x'' ''external_trace'' t (d_trace_payload t))"
  "receipt_by_id d_receipts (d_id ''n'' t) = Some (d_receipt ''n'' ''native_evaluation'' t (d_native_payload t))"
  by (cases t; simp add: receipt_by_id_def d_receipts_def d_receipt_def d_model_def)+

lemma d_backed: "e \<in> set d_envelopes \<Longrightarrow> check_envelope_backed d_store d_receipts e = Inr ()"
proof -
  assume e: "e \<in> set d_envelopes"
  have art: "\<exists>a. read_artifact (rc_artifact_sha256 r) d_store = Inr a" if "r \<in> set d_receipts" for r
    using receipt_artifact [OF d_store_list that] by blast
  from e consider t where "e = d_trace t" | t where "e = d_native t" by (auto simp: d_envelopes_def)
  then show ?thesis
  proof cases
    case 1
    have "d_receipt ''x'' ''external_trace'' t (d_trace_payload t) \<in> set d_receipts" by (cases t) (simp_all add: d_receipts_def)
    from art [OF this] 1 show ?thesis
      by (auto simp: check_envelope_backed_def d_trace_def integrity_unless_def d_receipt_by_id) (simp_all add: d_receipt_def)
  next
    case 2
    have "d_receipt ''n'' ''native_evaluation'' t (d_native_payload t) \<in> set d_receipts" by (cases t) (simp_all add: d_receipts_def)
    from art [OF this] 2 show ?thesis
      by (auto simp: check_envelope_backed_def d_native_def integrity_unless_def d_receipt_by_id) (simp_all add: d_receipt_def)
  qed
qed

lemma d_selected: "mapM (\<lambda>i. case evidence_by_id d_envelopes i of None \<Rightarrow> raise KeyError i | Some e \<Rightarrow> Inr e) (cl_evidence_ids d_claim)
    = Inr d_envelopes"
  by (simp add: d_claim_fields d_pair_ids d_by_id) (simp add: d_envelopes_def)

lemma d_arm_text: "get (ev_payload (d_trace t)) ''arm'' = JStr (if t then ''taught'' else ''baseline'')"
  by (simp add: d_trace_def d_evidence_payload)

lemma d_observers: "ev_observer_id (d_trace t) = ''external-trace-v1''" "ev_observer_id (d_native t) = ''native-v1''"
  by (simp_all add: d_trace_def d_native_def)

lemma d_only:
  "only_evidence d_envelopes ''baseline'' ''external-trace-v1'' = Inr (d_trace False)"
  "only_evidence d_envelopes ''baseline'' ''native-v1'' = Inr (d_native False)"
  "only_evidence d_envelopes ''taught'' ''external-trace-v1'' = Inr (d_trace True)"
  "only_evidence d_envelopes ''taught'' ''native-v1'' = Inr (d_native True)"
  by (simp_all add: only_evidence_def d_envelopes_def d_observers d_arm_text d_native_fields)

lemma d_typed: "arm_receipts_typed d_receipts (d_trace t) (d_native t) = Inr ()"
proof -
  have k: "rc_kind (d_receipt i k t p) = k" "rc_plan_id (d_receipt i k t p) = d_id ''plan'' t"
    "rc_artifact_sha256 (d_receipt i k t p) = digest (JObj p)" for i k t p by (simp_all add: d_receipt_def)
  show ?thesis
    by (simp add: arm_receipts_typed_def only_typed_receipt_def d_trace_def d_native_def d_receipt_by_id integrity_unless_def k)
qed

lemma d_model_receipt: "model_receipt_of d_receipts (d_trace t) = Inr (d_model t)"
proof -
  have "item (ev_payload (d_trace t)) ''model_receipt_id'' = Inr (JStr (d_id ''m'' t))"
    by (simp add: d_trace_def d_evidence_payload item_eq_Inr)
  then show ?thesis by (simp add: model_receipt_of_def d_receipt_by_id)
qed

lemma d_rebuild_pair:
  "rebuild_pair d_claim d_receipts (d_trace False) (d_native False) (d_trace True) (d_native True) = Inr d_pair"
proof -
  have i: "item (d_model_payload True) ''candidate_revision_id'' = Inr (JStr ''rev-1'')"
    "item (d_model_payload True) ''candidate_bundle_sha256'' = Inr (JStr d_sha)"
    by (simp_all add: item_eq_Inr)
  show ?thesis
    by (simp add: rebuild_pair_def d_typed d_model_receipt integrity_unless_def the_item_def i d_claim_fields d_build_pair)
qed

lemma d_rebuild: "graph_rebuild d_store d_claimed = Inr d_claimed"
proof -
  have binding: "rebuild_counterfactual_binding d_claim d_envelopes d_receipts = Inr ()"
    unfolding rebuild_counterfactual_binding_def d_selected bind_Inr d_only d_rebuild_pair
    by (simp add: d_claim_fields d_native_fields no_evaluator_error_def integrity_unless_def pair_classification_def)
  have "check_claim_bound [d_claim] d_envelopes d_receipts d_claim = Inr ()"
    by (simp add: check_claim_bound_def binding d_claim_fields d_pair_ids d_by_id integrity_unless_def)
  moreover have "all_checks (map (check_envelope_backed d_store d_receipts) d_envelopes) = Inr ()"
    using d_backed by (auto simp: all_checks_eq_Inr)
  ultimately show ?thesis by (simp add: graph_rebuild_def d_store_list d_claimed_lists)
qed

end
