(* ===== verification/Evidence_Properties.thy ===== *)
theory Evidence_Properties
  imports Evidence_Demo
begin

text \<open>
  What the evidence graph, the matched pair and the claim engine promise.
\<close>

lemma adds_claims_frozen:
  assumes "list_claims g = Inr cs" and "list_evidence g = Inr es"
  shows "\<exists>new. list_claims (clm.adds xs g) = Inr (cs @ new) \<and> list_evidence (clm.adds xs g) = Inr es
     \<and> (\<forall>c \<in> set new. cl_grade c \<in> {E2, E3} \<longrightarrow>
          (\<exists>p. (c, Some p) \<in> set xs \<and> validate_appended_counterfactual c p es = Inr ()))"
  using assms
proof (induction xs arbitrary: g cs)
  case Nil
  then show ?case by (intro exI [of _ "[]"]) simp
next
  case (Cons x xs)
  obtain c pair where x: "x = (c, pair)" by (cases x)
  obtain g' r where run: "submit_claim x g = (g', r)" by fastforce
  have "\<exists>new. list_claims g' = Inr (cs @ new) \<and> list_evidence g' = Inr es \<and> set new \<subseteq> {c}
      \<and> (new \<noteq> [] \<and> cl_grade c \<in> {E2, E3} \<longrightarrow> (\<exists>p. pair = Some p \<and> validate_appended_counterfactual c p es = Inr ()))"
  proof (cases "check_claim False c")
    case (Inl e)
    with run x Cons.prems show ?thesis by (intro exI [of _ "[]"]) (auto simp: submit_claim_cases)
  next
    case (Inr u)
    with run x have a: "append_claim (c, pair) g = (g', r)" by (simp add: submit_claim_cases)
    from Inr have "check_claim (eg_legacy g) c = Inr ()" by (simp add: check_claim_legacy)
    from append_claim_run [OF Cons.prems(1) this a] show ?thesis
    proof (elim disjE exE conjE)
      fix e
      assume "g' = g"
      with Cons.prems show ?thesis by (intro exI [of _ "[]"]) simp
    next
      assume ev: "eg_evidence g' = eg_evidence g" and gr: "cl_grade c \<in> {E2, E3} \<longrightarrow> (\<exists>p es. pair = Some p
          \<and> list_evidence g = Inr es \<and> validate_appended_counterfactual c p es = Inr ())"
        and f: "case find (\<lambda>y. cl_claim_id y = cl_claim_id c) cs of
           Some prior \<Rightarrow> g' = g \<and> prior = c | None \<Rightarrow> list_claims g' = Inr (cs @ [c])"
      show ?thesis
      proof (cases "find (\<lambda>y. cl_claim_id y = cl_claim_id c) cs")
        case None
        with ev gr f Cons.prems show ?thesis
          by (intro exI [of _ "[c]"]) (auto simp: list_evidence_def)
      next
        case (Some prior)
        with f Cons.prems show ?thesis by (intro exI [of _ "[]"]) simp
      qed
    qed
  qed
  then obtain new where n: "list_claims g' = Inr (cs @ new)" "list_evidence g' = Inr es" "set new \<subseteq> {c}"
    and fr: "new \<noteq> [] \<and> cl_grade c \<in> {E2, E3} \<longrightarrow> (\<exists>p. pair = Some p \<and> validate_appended_counterfactual c p es = Inr ())"
    by blast
  from Cons.IH [OF n(1,2)] obtain more where m: "list_claims (clm.adds xs g') = Inr ((cs @ new) @ more)"
    "list_evidence (clm.adds xs g') = Inr es"
    "\<forall>c \<in> set more. cl_grade c \<in> {E2, E3} \<longrightarrow>
          (\<exists>p. (c, Some p) \<in> set xs \<and> validate_appended_counterfactual c p es = Inr ())" by blast
  have "\<forall>d \<in> set new. cl_grade d \<in> {E2, E3} \<longrightarrow>
      (\<exists>p. (d, Some p) \<in> set (x # xs) \<and> validate_appended_counterfactual d p es = Inr ())"
    using n(3) fr x by (cases "new = []") auto
  with m run show ?case by (intro exI [of _ "new @ more"]) auto
qed

text \<open>
  Whatever claims are appended, accepted or refused, the claims read before stay a prefix
  of those read after and the evidence does not change, and every new claim of grade E2 or E3
  was appended with a counterfactual pair that has the claim's candidate, pair hash, evidence
  and receipts and whose four evidence envelopes are in the graph with the hashes the pair
  recorded.
\<close>

theorem new_claims_bind_frozen_evidence:
  assumes "list_claims g = Inr cs" and "list_evidence g = Inr es"
  shows "\<exists>new. list_claims (clm.adds xs g) = Inr (cs @ new) \<and> list_evidence (clm.adds xs g) = Inr es
     \<and> (\<forall>c \<in> set new. cl_grade c \<in> {E2, E3} \<longrightarrow>
          (\<exists>p. (c, Some p) \<in> set xs \<and> cp_candidate_id p = cl_candidate_id c \<and> cl_pair_sha256 c = Some (pair_sha256 p)
             \<and> cl_evidence_ids c = pair_evidence_ids p \<and> cl_receipt_ids c = pair_receipt_ids p
             \<and> (\<forall>(i, h) \<in> set (pair_expected p). \<exists>e \<in> set es. ev_evidence_id e = i \<and> evidence_sha256 e = Inr h)))"
proof -
  have v: "cp_candidate_id p = cl_candidate_id c \<and> cl_pair_sha256 c = Some (pair_sha256 p)
      \<and> cl_evidence_ids c = pair_evidence_ids p \<and> cl_receipt_ids c = pair_receipt_ids p
      \<and> (\<forall>(i, h) \<in> set (pair_expected p). \<exists>e \<in> set es. ev_evidence_id e = i \<and> evidence_sha256 e = Inr h)"
    if "validate_appended_counterfactual c p es = Inr ()" for c p
  proof -
    from that have c: "cp_candidate_id p = cl_candidate_id c \<and> cl_pair_sha256 c = Some (pair_sha256 p)
      \<and> cl_evidence_ids c = pair_evidence_ids p \<and> cl_receipt_ids c = pair_receipt_ids p"
      and f: "list_all (frozen_in es) (pair_expected p)"
      by (auto simp: validate_appended_counterfactual_def bind_eq_Inr integrity_unless_def require_eq_Inr)
    have "\<exists>e \<in> set es. ev_evidence_id e = i \<and> evidence_sha256 e = Inr h" if "(i, h) \<in> set (pair_expected p)" for i h
      using f that by (fastforce simp: list_all_iff frozen_in_def evidence_by_id_def dest: find_SomeD split: option.splits)
    with c show ?thesis by auto
  qed
  from adds_claims_frozen [OF assms, of xs] v show ?thesis by meson
qed

lemma new_claims_bind_frozen_evidence_witness:
  "\<exists>new. list_claims (clm.adds [(d_claim, Some d_pair)] d_graph) = Inr ([] @ new)
     \<and> list_evidence (clm.adds [(d_claim, Some d_pair)] d_graph) = Inr d_envelopes"
  using new_claims_bind_frozen_evidence [OF d_graph_claims d_graph_evidence, of "[(d_claim, Some d_pair)]"] by blast

text \<open>
  The claim engine's claim follows the native outcomes: an evaluator error in either arm
  gives INFRA_FAILURE at grade E1; otherwise both outcomes are booleans, the classification
  is the one a rebuild recomputes, and the grade is E2 exactly when a counterfactual pair was
  given.
\<close>

theorem classify_pair_outcome:
  assumes "classify_pair cand np cp prior g = (g', Inr c)"
  shows "if evaluator_errors np \<noteq> [] then cl_classification c = INFRA_FAILURE \<and> cl_grade c = E1
     else \<exists>b t. get (ev_payload (np_baseline np)) ''resolved'' = JBool b \<and> get (ev_payload (np_taught np)) ''resolved'' = JBool t
       \<and> cl_classification c = pair_classification b t \<and> (cl_grade c = E2 \<longleftrightarrow> cp \<noteq> None) \<and> cl_grade c \<in> {E1, E2}"
proof -
  obtain cls why where n: "classify_native np = Inr (cls, why)" and c: "c = claim_for cand np cp prior cls why"
    using classify_pair_run [OF assms] by blast
  show ?thesis
  proof (cases "evaluator_errors np = []")
    case False
    with n c show ?thesis by (auto simp: classify_native_def claim_for_def Let_def)
  next
    case True
    with n obtain b t where r: "get (ev_payload (np_baseline np)) ''resolved'' = JBool b"
        "get (ev_payload (np_taught np)) ''resolved'' = JBool t" "(cls, why) = classify_outcomes b t"
      by (auto simp: classify_native_def split: json.splits)
    then have "cls = pair_classification b t" "cls \<noteq> INFRA_FAILURE"
      by (auto simp: classify_outcomes_def pair_classification_def split: if_splits)
    with True r c show ?thesis by (cases cp) (auto simp: claim_for_def Let_def)
  qed
qed

lemma classify_pair_outcome_witness:
  "if evaluator_errors d_np \<noteq> [] then cl_classification d_claim = INFRA_FAILURE \<and> cl_grade d_claim = E1
     else \<exists>b t. get (ev_payload (np_baseline d_np)) ''resolved'' = JBool b \<and> get (ev_payload (np_taught d_np)) ''resolved'' = JBool t
       \<and> cl_classification d_claim = pair_classification b t \<and> (cl_grade d_claim = E2 \<longleftrightarrow> Some d_pair \<noteq> None)
       \<and> cl_grade d_claim \<in> {E1, E2}"
  by (rule classify_pair_outcome [OF d_classify])

text \<open>
  C11: After a rebuild succeeds, every claim that names a counterfactual pair is the claim of
  stored records: four envelopes of the graph and two model receipts of the receipt store
  rebuild the pair with the claim's hash, evidence and receipts, no arm has an evaluator
  error, the classification is that of the two native outcomes, and each envelope's artifact
  is one of its receipts' and still stored.
\<close>

theorem rebuild_backs_claims:
  assumes "graph_rebuild s g = Inr h" and "list_claims g = Inr cs" and "c \<in> set cs" and "cl_pair_sha256 c \<noteq> None"
  shows "\<exists>es rs be bn te tn bm tm crev bdl p b t.
     list_evidence g = Inr es \<and> list_receipts s = Inr rs \<and> {be, bn, te, tn} \<subseteq> set es \<and> {bm, tm} \<subseteq> set rs
     \<and> build_matched_counterfactual_pair (cl_candidate_id c) crev bdl bm be bn tm te tn = Inr p
     \<and> cl_pair_sha256 c = Some (pair_sha256 p) \<and> pair_evidence_ids p = cl_evidence_ids c \<and> pair_receipt_ids p = cl_receipt_ids c
     \<and> no_evaluator_error (ev_payload bn) \<and> no_evaluator_error (ev_payload tn)
     \<and> get (ev_payload bn) ''resolved'' = JBool b \<and> get (ev_payload tn) ''resolved'' = JBool t
     \<and> cl_classification c = pair_classification b t
     \<and> (\<forall>e \<in> {be, bn, te, tn}. (\<exists>r \<in> set rs. rc_receipt_id r \<in> set (ev_receipt_ids e)
          \<and> rc_artifact_sha256 r = ev_artifact_sha256 e)
          \<and> (\<exists>a. read_artifact (ev_artifact_sha256 e) s = Inr a))"
proof -
  from graph_rebuild_facts [OF assms(1)] assms(2) obtain rs es where l: "list_receipts s = Inr rs" "list_evidence g = Inr es"
    and be: "\<forall>e \<in> set es. check_envelope_backed s rs e = Inr ()" and bc: "\<forall>c \<in> set cs. check_claim_bound cs es rs c = Inr ()"
    by auto
  from bc assms(3,4) have "rebuild_counterfactual_binding c es rs = Inr ()"
    by (auto simp: check_claim_bound_def bind_eq_Inr)
  from rebuild_binding_facts [OF this] obtain be bn te tn bm tm crev bdl p b t where
    b: "{be, bn, te, tn} \<subseteq> set es" "{bm, tm} \<subseteq> set rs"
      "build_matched_counterfactual_pair (cl_candidate_id c) crev bdl bm be bn tm te tn = Inr p"
      "cl_pair_sha256 c = Some (pair_sha256 p)" "pair_evidence_ids p = cl_evidence_ids c" "pair_receipt_ids p = cl_receipt_ids c"
      "no_evaluator_error (ev_payload bn)" "no_evaluator_error (ev_payload tn)"
      "get (ev_payload bn) ''resolved'' = JBool b" "get (ev_payload tn) ''resolved'' = JBool t"
      "cl_classification c = pair_classification b t"
    by (elim exE conjE) (rule that)
  have "(\<exists>r \<in> set rs. rc_receipt_id r \<in> set (ev_receipt_ids e) \<and> rc_artifact_sha256 r = ev_artifact_sha256 e)
      \<and> (\<exists>a. read_artifact (ev_artifact_sha256 e) s = Inr a)" if e: "e \<in> set es" for e
  proof -
    from be e have "list_ex (\<lambda>i. case receipt_by_id rs i of None \<Rightarrow> False
        | Some r \<Rightarrow> rc_artifact_sha256 r = ev_artifact_sha256 e) (ev_receipt_ids e)"
      and "\<exists>a. read_artifact (ev_artifact_sha256 e) s = Inr a"
      by (auto simp: check_envelope_backed_def bind_eq_Inr integrity_unless_def require_eq_Inr)
    then show ?thesis
      by (fastforce simp: list_ex_iff receipt_by_id_def dest: find_SomeD split: option.splits)
  qed
  with b(1) have "\<forall>e \<in> {be, bn, te, tn}. (\<exists>r \<in> set rs. rc_receipt_id r \<in> set (ev_receipt_ids e)
          \<and> rc_artifact_sha256 r = ev_artifact_sha256 e) \<and> (\<exists>a. read_artifact (ev_artifact_sha256 e) s = Inr a)"
    by (meson subsetD)
  with b l show ?thesis
    by (intro exI [of _ es] exI [of _ rs] exI [of _ be] exI [of _ bn] exI [of _ te] exI [of _ tn] exI [of _ bm]
        exI [of _ tm] exI [of _ crev] exI [of _ bdl] exI [of _ p] exI [of _ b] exI [of _ t] conjI)
qed

lemma rebuild_backs_claims_witness:
  "\<exists>es rs. list_evidence d_claimed = Inr es \<and> list_receipts d_store = Inr rs"
  using rebuild_backs_claims [OF d_rebuild d_claimed_lists(1), of d_claim] by (auto simp: d_claim_fields)

text \<open>
  C13: A claim the engine appends for an evaluator error together with a counterfactual pair
  carries the pair's hash without any check of the pair, and no rebuild of the graph succeeds
  from then on, whatever claims are appended later.
\<close>

theorem infra_claim_with_pair_blocks_rebuild:
  assumes "list_claims g = Inr cs" and "evaluator_errors np \<noteq> []"
    and "classify_pair cand np (Some p) prior g = (g', Inr c)"
  shows "cl_classification c = INFRA_FAILURE \<and> cl_pair_sha256 c = Some (pair_sha256 p)
     \<and> \<not> is_ok (graph_rebuild s (clm.adds xs g'))"
proof -
  obtain cls why where n: "classify_native np = Inr (cls, why)" and c: "c = claim_for cand np (Some p) prior cls why"
    and ok: "check_claim False c = Inr ()" and a: "append_claim (c, Some p) g = (g', Inr c)"
    using classify_pair_run [OF assms(3)] by blast
  have f: "cl_classification c = INFRA_FAILURE" "cl_pair_sha256 c = Some (pair_sha256 p)"
    using n assms(2) c by (auto simp: classify_native_def claim_for_def Let_def)
  have "\<exists>cs'. list_claims g' = Inr cs' \<and> c \<in> set cs'"
  proof (cases "find (\<lambda>y. cl_claim_id y = cl_claim_id c) cs")
    case None
    with append_claim_run [OF assms(1) check_claim_legacy [OF ok] a] show ?thesis by auto
  next
    case (Some y)
    with append_claim_run [OF assms(1) check_claim_legacy [OF ok] a] assms(1) show ?thesis
      by (auto dest: find_SomeD)
  qed
  then obtain cs' where "list_claims g' = Inr cs'" "c \<in> set cs'" by blast
  from clm.stored_stays [OF this] obtain cs2 where l: "list_claims (clm.adds xs g') = Inr cs2" "c \<in> set cs2" by blast
  have "\<not> is_ok (graph_rebuild s (clm.adds xs g'))"
  proof
    assume "is_ok (graph_rebuild s (clm.adds xs g'))"
    then obtain h where "graph_rebuild s (clm.adds xs g') = Inr h" by (auto simp: is_ok_iff)
    from graph_rebuild_facts [OF this] l f(2) obtain rs es where "rebuild_counterfactual_binding c es rs = Inr ()"
      by (auto simp: check_claim_bound_def bind_eq_Inr)
    from rebuild_binding_facts [OF this] f(1) pair_classification_not_infra show False by metis
  qed
  with f show ?thesis by blast
qed

definition d_failed :: native_pair where
  "d_failed = d_np\<lparr>np_taught := (d_native True)\<lparr>ev_payload := fmupd ''evaluator_error'' (JStr ''timeout'') (ev_payload (d_native True))\<rparr>\<rparr>"

lemma infra_claim_with_pair_blocks_rebuild_witness:
  "\<exists>g' c. classify_pair ''cand'' d_failed (Some d_pair) None d_graph = (g', Inr c) \<and> cl_classification c = INFRA_FAILURE
     \<and> \<not> is_ok (graph_rebuild d_store (clm.adds [] g'))"
proof -
  let ?why = "''native evaluator infrastructure error: timeout''"
  let ?c = "claim_for ''cand'' d_failed (Some d_pair) None INFRA_FAILURE ?why"
  have e: "evaluator_errors d_failed = [JStr ''timeout'']"
    by (simp add: evaluator_errors_def d_failed_def d_np_def d_native_fields)
  have w: "\<not> blank ''cand''" "\<not> blank ?why" by code_simp+
  have f: "cl_candidate_id ?c = ''cand''" "cl_grade ?c = E1" "cl_classification ?c = INFRA_FAILURE" "cl_rationale ?c = ?why"
    "cl_evidence_ids ?c = pair_evidence_ids d_pair" "cl_receipt_ids ?c = pair_receipt_ids d_pair"
    "cl_pair_sha256 ?c = Some (pair_sha256 d_pair)" "cl_supersedes_claim_id ?c = None" "\<not> blank (cl_claim_id ?c)"
    by (simp_all add: claim_for_def Let_def) (simp add: blank_def is_space_def)
  have ok: "check_claim False ?c = Inr ()"
    using w f by (simp add: check_claim_def d_pair_ids require_text_def require_sha256_def violation_unless_def pair_sha256_ok)
  have fin: "finite_json (JObj (claim_dict ?c))"
    by (simp add: claim_dict_def f finite_fmupd str_list_def list_all_iff)
  obtain g' where run: "append_claim (?c, Some d_pair) d_graph = (g', Inr ?c)"
    by (simp add: append_claim_def d_graph_claims f check_supersession_def append_record_def
        record_sha256_def content_sha256_eq claim_type_def fin obind_def)
  have "classify_pair ''cand'' d_failed (Some d_pair) None d_graph = (g', Inr ?c)"
    by (simp add: classify_pair_def classify_native_def e mk_claim_def ok run)
  from this infra_claim_with_pair_blocks_rebuild [OF d_graph_claims _ this, of d_store "[]"] e f(3)
  show ?thesis by auto
qed

text \<open>
  A claim that supersedes another replaces it in the projection of current claims: after
  the append, the current claims are those before without the superseded one, followed by
  the new one.
\<close>

theorem superseding_claim_replaces:
  assumes "list_claims g = Inr cs" and "check_claim False c = Inr ()" and "append_claim (c, pair) g = (g', Inr c')"
    and "cl_claim_id c \<notin> cl_claim_id ` set cs" and "\<forall>x \<in> set cs. cl_supersedes_claim_id x \<noteq> Some (cl_claim_id c)"
  shows "latest_claims g' = Inr (filter (\<lambda>x. cl_supersedes_claim_id c \<noteq> Some (cl_claim_id x)) (unsuperseded cs) @ [c])
     \<and> (\<forall>i. cl_supersedes_claim_id c = Some i \<longrightarrow>
          (\<exists>x \<in> set cs. cl_claim_id x = i \<and> cl_candidate_id x = cl_candidate_id c))"
proof -
  have f: "find (\<lambda>y. cl_claim_id y = cl_claim_id c) cs = None" using assms(4) by (auto simp: find_None_iff image_iff)
  from append_claim_run [OF assms(1) check_claim_legacy [OF assms(2)] assms(3)] f
  have l: "list_claims g' = Inr (cs @ [c])" and sup: "check_supersession cs c = Inr ()" by auto
  have s: "\<exists>x \<in> set cs. cl_claim_id x = i \<and> cl_candidate_id x = cl_candidate_id c" if "cl_supersedes_claim_id c = Some i" for i
    using sup that
    by (auto simp: check_supersession_def integrity_unless_def require_eq_Inr dest: find_SomeD split: option.splits)
  then have self: "cl_supersedes_claim_id c \<noteq> Some (cl_claim_id c)" using assms(4) by (metis imageI)
  have "unsuperseded (cs @ [c]) = filter (\<lambda>x. cl_supersedes_claim_id c \<noteq> Some (cl_claim_id x)) (unsuperseded cs) @ [c]"
    using assms(5) self by (auto simp: unsuperseded_def image_iff intro!: filter_cong)
  with l s show ?thesis by (simp add: latest_claims_def)
qed

lemma superseding_claim_replaces_witness:
  "latest_claims d_claimed = Inr [d_claim]"
  using superseding_claim_replaces [OF d_graph_claims d_claim_check d_append]
  by (simp add: unsuperseded_def)

text \<open>
  C12: In a matched counterfactual pair the baseline never saw the candidate and the taught arm
  did: no baseline prompt contains the candidate marker, the candidate's revision or its
  bundle hash, some taught prompt contains the candidate's projection, which names both, and
  the arms are separate executions with the same parent harness, matching in task, source,
  model, evaluator and configuration.
\<close>

theorem matched_pair_isolates_candidate:
  assumes "build_matched_counterfactual_pair cand crev bdl bm be bn tm te tn = Inr p"
  shows "(\<exists>texts. nonempty_texts (get (rc_payload bm) ''prompt_texts'') = Some texts
       \<and> (\<forall>t \<in> set texts. \<not> substring ''COMPILED-CANDIDATE:'' t \<and> \<not> substring crev t \<and> \<not> substring bdl t))
     \<and> (\<exists>texts cp. nonempty_texts (get (rc_payload tm) ''prompt_texts'') = Some texts
       \<and> get (rc_payload tm) ''candidate_prompt'' = JStr cp \<and> substring crev cp \<and> substring bdl cp
       \<and> (\<exists>t \<in> set texts. substring cp t) \<and> (\<forall>t \<in> set texts. \<not> substring ''BASELINE-HARNESS:'' t))
     \<and> rc_plan_id bm \<noteq> rc_plan_id tm \<and> ae_parent (cp_baseline p) = ae_parent (cp_taught p)
     \<and> (\<forall>f \<in> set matched_identity_fields. py_eq (get (ev_payload bn) f) (get (ev_payload tn) f))"
proof -
  from build_pair_arms [OF assms] have b: "build_arm ''baseline'' bm be bn crev bdl = Inr (cp_baseline p)"
    and t: "build_arm ''taught'' tm te tn crev bdl = Inr (cp_taught p)"
    and c: "check_counterfactual_pair p = Inr ()"
    and m: "\<forall>f \<in> set matched_identity_fields. py_eq (get (ev_payload bn) f) (get (ev_payload tn) f)" by blast+
  from c have "ae_plan_id (cp_baseline p) \<noteq> ae_plan_id (cp_taught p)" "ae_parent (cp_baseline p) = ae_parent (cp_taught p)"
    by (auto simp: check_counterfactual_pair_def bind_eq_Inr violation_unless_eq_Inr)
  note sep = this
  from build_arm_bound [OF b] have lb: "validate_prompt_lineage ''baseline'' (rc_payload bm) crev bdl
      = Inr (ae_prompt_bundle_sha256 (cp_baseline p), ae_candidate_prompt_sha256 (cp_baseline p))"
    and pb: "ae_plan_id (cp_baseline p) = rc_plan_id bm" by blast+
  from build_arm_bound [OF t] have lt: "validate_prompt_lineage ''taught'' (rc_payload tm) crev bdl
      = Inr (ae_prompt_bundle_sha256 (cp_taught p), ae_candidate_prompt_sha256 (cp_taught p))"
    and pt: "ae_plan_id (cp_taught p) = rc_plan_id tm" by blast+
  from baseline_prompts_clean [OF lb] have 1: "\<exists>texts. nonempty_texts (get (rc_payload bm) ''prompt_texts'') = Some texts
       \<and> (\<forall>t \<in> set texts. \<not> substring ''COMPILED-CANDIDATE:'' t \<and> \<not> substring crev t \<and> \<not> substring bdl t)"
    by blast
  from taught_prompts_consume [OF lt] have 2: "\<exists>texts cp. nonempty_texts (get (rc_payload tm) ''prompt_texts'') = Some texts
       \<and> get (rc_payload tm) ''candidate_prompt'' = JStr cp \<and> substring crev cp \<and> substring bdl cp
       \<and> (\<exists>t \<in> set texts. substring cp t) \<and> (\<forall>t \<in> set texts. \<not> substring ''BASELINE-HARNESS:'' t)"
    by blast
  from sep pb pt have 3: "rc_plan_id bm \<noteq> rc_plan_id tm" by simp
  show ?thesis by (intro conjI 1 2 3 sep(2) m)
qed

lemma matched_pair_isolates_candidate_witness:
  "\<exists>texts. nonempty_texts (get (rc_payload (d_model False)) ''prompt_texts'') = Some texts
       \<and> (\<forall>t \<in> set texts. \<not> substring ''COMPILED-CANDIDATE:'' t \<and> \<not> substring ''rev-1'' t \<and> \<not> substring d_sha t)"
  using matched_pair_isolates_candidate [OF d_build_pair] by blast

end
