(* ===== verification/Line_Log.thy ===== *)
theory Line_Log
  imports Evidence_Graph Line_Break
begin

text \<open>
  The JSON-lines logs of governance and of the registries: every line holds a record and the
  hash of its content.  The files are read with \<open>read_text().splitlines()\<close>, so a record whose
  text contains U+0085 does not read back (theory Line_Break).
\<close>

fun entry_dict :: "json \<Rightarrow> dict res" where
  "entry_dict (JObj d) = Inr d"
| "entry_dict (JList xs) = raise TypeError ''str object cannot be interpreted as an integer''"
| "entry_dict j = raise AttributeError ''pop''"

text \<open>A line is parsed into its record, its payload without the hash, and the hash.\<close>

definition parse_entry :: "(dict \<Rightarrow> 'r res) \<Rightarrow> exn \<Rightarrow> string \<Rightarrow> json option \<Rightarrow> ('r \<times> dict \<times> json) res" where
  "parse_entry of_dict x msg l = rewrap is_decode_error x msg
     (case l of None \<Rightarrow> raise ValueError ''Expecting value''
      | Some j \<Rightarrow> bind (entry_dict j) (\<lambda>d.
          bind (item d ''record_sha256'') (\<lambda>h.
          bind (of_dict (fmdrop ''record_sha256'' d)) (\<lambda>r. Inr (r, fmdrop ''record_sha256'' d, h)))))"

definition entry_line :: "dict \<Rightarrow> json" where
  "entry_line d = JObj (fmupd ''record_sha256'' (JStr (digest (JObj d))) d)"

record line_file =
  lf_lines :: "json option list"
  lf_locked :: bool

text \<open>The writer lease around a body; it is released whatever the body does.\<close>

definition with_writer :: "exn \<Rightarrow> string \<Rightarrow> (line_file, 'a) op \<Rightarrow> (line_file, 'a) op" where
  "with_writer x msg body f =
     (if lf_locked f then (f, Inl (Err x msg))
      else case body (f\<lparr>lf_locked := True\<rparr>) of (f', r) \<Rightarrow> (f'\<lparr>lf_locked := False\<rparr>, r))"

definition write_entry :: "dict \<Rightarrow> (line_file, unit) op" where
  "write_entry d = omodify (\<lambda>f. f\<lparr>lf_lines := lf_lines f @ [stored_line (entry_line d)]\<rparr>)"

lemma parse_own_entry:
  assumes "of_dict d = Inr r" and "fmlookup d ''record_sha256'' = None"
  shows "parse_entry of_dict x msg (Some (entry_line d)) = Inr (r, d, JStr (digest (JObj d)))"
  using assms by (simp add: parse_entry_def entry_line_def fmdrop_fmupd_fresh)

lemma with_writer_free:
  "\<not> lf_locked f \<Longrightarrow> with_writer x msg body f = (case body (f\<lparr>lf_locked := True\<rparr>) of (f', r) \<Rightarrow> (f'\<lparr>lf_locked := False\<rparr>, r))"
  by (simp add: with_writer_def)

end
