(* ===== verification/Grade_Machine.thy ===== *)
theory Grade_Machine
  imports Claim_Engine "HOL-Library.AList"
begin

text \<open>
  \<open>EvidenceGradeMachine\<close> of \<open>src/src/evolve/evidence/grade_machine.py\<close>: the grade of a candidate,
  projected from its current claims, the evidence they name, the receipts and the verdicts of
  the trusted observer.  The observer is the injected \<open>TrustedObserverVerifier\<close>, an argument of
  the model; its two methods may raise.
\<close>

text \<open>\<open>ClaimGrade\<close> values compare as their texts do.\<close>

fun grade_rank :: "claim_grade \<Rightarrow> nat" where
  "grade_rank E0 = 0" | "grade_rank E1 = 1" | "grade_rank E2 = 2" | "grade_rank E3 = 3"

instantiation claim_grade :: linorder
begin

definition less_eq_claim_grade :: "claim_grade \<Rightarrow> claim_grade \<Rightarrow> bool" where
  "less_eq_claim_grade g h \<longleftrightarrow> grade_rank g \<le> grade_rank h"

definition less_claim_grade :: "claim_grade \<Rightarrow> claim_grade \<Rightarrow> bool" where
  "less_claim_grade g h \<longleftrightarrow> grade_rank g < grade_rank h"

instance
proof
  fix g h k :: claim_grade
  show "(g < h) = (g \<le> h \<and> \<not> h \<le> g)" by (auto simp: less_eq_claim_grade_def less_claim_grade_def)
  show "g \<le> g" by (simp add: less_eq_claim_grade_def)
  show "g \<le> h \<Longrightarrow> h \<le> k \<Longrightarrow> g \<le> k" by (simp add: less_eq_claim_grade_def)
  show "g \<le> h \<Longrightarrow> h \<le> g \<Longrightarrow> g = h" by (cases g; cases h) (simp_all add: less_eq_claim_grade_def)
  show "g \<le> h \<or> h \<le> g" by (auto simp: less_eq_claim_grade_def)
qed

end

section \<open>Data\<close>

record evidence_state =
  es_candidate_id :: string
  es_grade :: claim_grade
  es_classification :: string
  es_claim_ids :: "string list"
  es_task_revision_ids :: "string list"
  es_task_count :: nat
  es_project_count :: nat
  es_gain_count :: nat
  es_neutral_count :: nat
  es_regression_count :: nat
  es_infra_count :: nat
  es_mechanism_id :: "string option"
  es_prediction_consistent :: nat
  es_prediction_evidence_ids :: "string list"
  es_e3_eligible :: bool
  es_rationale :: string

record trusted_verifier =
  tv_evidence :: "evidence_envelope \<Rightarrow> bool res"
  tv_lineage :: "(string \<Rightarrow> nat list res) \<Rightarrow> evidence_envelope \<Rightarrow> receipt \<Rightarrow> receipt \<Rightarrow> receipt \<Rightarrow> bool res"

fun filterM :: "('a \<Rightarrow> bool res) \<Rightarrow> 'a list \<Rightarrow> 'a list res" where
  "filterM p [] = Inr []"
| "filterM p (x # xs) = bind (p x) (\<lambda>b. bind (filterM p xs) (\<lambda>ys. Inr (if b then x # ys else ys)))"

fun hashable :: "json \<Rightarrow> bool" where
  "hashable (JList xs) = False" | "hashable (JObj d) = False" | "hashable j = True"

section \<open>The prediction evidence of a task\<close>

definition model_subject :: "evidence_envelope \<Rightarrow> (string \<times> string) option" where
  "model_subject e = (case (get (ev_payload e) ''model_receipt_id'', get (ev_payload e) ''model_artifact_sha256'') of
     (JStr r, JStr a) \<Rightarrow> if \<not> blank r \<and> is_sha256 a then Some (r, a) else None | _ \<Rightarrow> None)"

text \<open>Evidence of one observer for a task, a plan and a mechanism.\<close>

definition about_plan :: "string \<Rightarrow> string \<Rightarrow> string \<Rightarrow> string \<Rightarrow> evidence_envelope \<Rightarrow> bool" where
  "about_plan observer task plan mech e \<longleftrightarrow> ev_observer_id e = observer
     \<and> get (ev_payload e) ''task_revision_id'' = JStr task \<and> get (ev_payload e) ''plan_id'' = JStr plan
     \<and> get (ev_payload e) ''mechanism_id'' = JStr mech"

text \<open>What the three observations of a plan must agree on, before the receipts are looked at.\<close>

definition same_subject :: "evidence_envelope \<Rightarrow> evidence_envelope \<Rightarrow> evidence_envelope \<Rightarrow> bool" where
  "same_subject nv ext jl \<longleftrightarrow> model_subject nv \<noteq> None \<and> model_subject ext = model_subject nv \<and> model_subject jl = model_subject nv
     \<and> get (ev_payload ext) ''prediction_sha256'' = get (ev_payload nv) ''prediction_sha256''
     \<and> get (ev_payload jl) ''prediction_sha256'' = get (ev_payload nv) ''prediction_sha256''"

definition lineage_receipts :: "receipt list \<Rightarrow> evidence_envelope \<Rightarrow> (receipt \<times> receipt \<times> receipt) option" where
  "lineage_receipts rs jl =
     (case (ev_receipt_ids jl, get (ev_payload jl) ''mechanism_prediction_receipt_id'', get (ev_payload jl) ''model_receipt_id'') of
        ([o'], JStr p, JStr m) \<Rightarrow>
          (case (receipt_by_id rs o', receipt_by_id rs p, receipt_by_id rs m) of
             (Some ro, Some rp, Some rm) \<Rightarrow> Some (ro, rp, rm) | _ \<Rightarrow> None)
      | _ \<Rightarrow> None)"

definition nonempty_list :: "json \<Rightarrow> bool" where
  "nonempty_list j = (case j of JList xs \<Rightarrow> xs \<noteq> [] | _ \<Rightarrow> False)"

definition agrees :: "string option \<Rightarrow> string \<Rightarrow> bool" where
  "agrees x y \<longleftrightarrow> x = None \<or> x = Some y"

text \<open>
  The checks after the trusted observer's: the candidate and the expected effect are those of
  the plans seen before (\<open>eff\<close>, \<open>cand\<close>), and the effect is consistent in the taught arm only.
\<close>

definition plan_effect ::
  "string option \<times> string option \<Rightarrow> evidence_envelope \<Rightarrow> evidence_envelope \<Rightarrow> evidence_envelope \<Rightarrow> receipt
     \<Rightarrow> (string option \<times> string option) option" where
  "plan_effect st nv ext jl pred = (case st of (eff, cand) \<Rightarrow>
     (case fmlookup (rc_payload pred) ''candidate_revision_id'' of None \<Rightarrow> None
      | Some v \<Rightarrow> let c = py_str v; taught = (get (ev_payload nv) ''arm'' = JStr ''taught'') in
          if \<not> agrees cand c \<or> (taught \<and> get (ev_payload ext) ''candidate_revision_id'' \<noteq> JStr c) then None
          else (case get (ev_payload jl) ''expected_internal_effect_sha256'' of
             JStr e \<Rightarrow>
               if is_sha256 e \<and> is_digest (get (ev_payload jl) ''observed_internal_effect_sha256'')
                  \<and> is_digest (get (ev_payload jl) ''raw_trace_sha256'') \<and> nonempty_list (get (ev_payload jl) ''locations'')
                  \<and> agrees eff e \<and> get (ev_payload jl) ''effect_consistent'' = JBool taught
               then Some (Some e, Some c) else None
           | _ \<Rightarrow> None)))"

record prediction_context =
  pc_evidence :: "evidence_envelope list"
  pc_task :: string
  pc_mechanism :: string
  pc_claim_ids :: "string list"
  pc_verifier :: trusted_verifier
  pc_receipts :: "receipt list"
  pc_reader :: "string \<Rightarrow> nat list res"

definition native_rows :: "prediction_context \<Rightarrow> evidence_envelope list" where
  "native_rows c = filter (\<lambda>e. ev_evidence_id e \<in> set (pc_claim_ids c) \<and> ev_observer_id e = ''native-v1''
     \<and> get (ev_payload e) ''task_revision_id'' = JStr (pc_task c) \<and> is_digest (get (ev_payload e) ''prediction_sha256''))
     (pc_evidence c)"

text \<open>One plan: \<open>None\<close> is the early \<open>return ()\<close>.\<close>

definition plan_evidence ::
  "prediction_context \<Rightarrow> string \<Rightarrow> string option \<times> string option
     \<Rightarrow> ((string option \<times> string option) \<times> string list) option res" where
  "plan_evidence c plan st =
     (let nv = filter (\<lambda>e. get (ev_payload e) ''plan_id'' = JStr plan) (native_rows c);
          ext = filter (\<lambda>e. ev_evidence_id e \<in> set (pc_claim_ids c)
                  \<and> about_plan ''external-trace-v1'' (pc_task c) plan (pc_mechanism c) e) (pc_evidence c)
      in bind (filterM (\<lambda>e. if about_plan ''trusted-jlens-v1'' (pc_task c) plan (pc_mechanism c) e
                             then tv_evidence (pc_verifier c) e else Inr False) (pc_evidence c)) (\<lambda>jl.
      case (nv, ext, jl) of
        ([n], [x], [i]) \<Rightarrow>
          if \<not> same_subject n x i then Inr None
          else (case lineage_receipts (pc_receipts c) i of None \<Rightarrow> Inr None
           | Some (ro, rp, rm) \<Rightarrow>
               bind (tv_lineage (pc_verifier c) (pc_reader c) i ro rp rm) (\<lambda>ok.
               if \<not> ok then Inr None
               else Inr (map_option (\<lambda>st'. (st', [ev_evidence_id n, ev_evidence_id x, ev_evidence_id i]))
                      (plan_effect st n x i rp))))
      | _ \<Rightarrow> Inr None))"

fun plans_evidence ::
  "prediction_context \<Rightarrow> string list \<Rightarrow> string option \<times> string option \<Rightarrow> string list \<Rightarrow> string list res" where
  "plans_evidence c [] st acc = Inr acc"
| "plans_evidence c (p # ps) st acc = bind (plan_evidence c p st) (\<lambda>r.
     case r of None \<Rightarrow> Inr [] | Some (st', ids) \<Rightarrow> plans_evidence c ps st' (acc @ ids))"

fun plan_text :: "json \<Rightarrow> string option" where
  "plan_text (JStr p) = (if p = [] then None else Some p)" | "plan_text j = None"

definition task_prediction_evidence :: "prediction_context \<Rightarrow> string list res" where
  "task_prediction_evidence c =
     (let rows = native_rows c; plans = map (\<lambda>e. plan_text (get (ev_payload e) ''plan_id'')) rows;
          arms = map (\<lambda>e. get (ev_payload e) ''arm'') rows
      in if None \<in> set plans then Inr []
         else if card (set plans) \<noteq> 2 then Inr []
         else bind (require (list_all hashable arms) TypeError ''unhashable type'') (\<lambda>_.
           if set arms \<noteq> {JStr ''baseline'', JStr ''taught''} then Inr []
           else plans_evidence c (sorted_list_of_set (set (map the plans))) (None, None) []))"

section \<open>The aggregate\<close>

definition aggregate_classification :: "nat \<Rightarrow> nat \<Rightarrow> nat \<Rightarrow> string" where
  "aggregate_classification infra regression gain =
     (if infra \<noteq> 0 then ''infra_failure'' else if regression \<noteq> 0 then ''regression''
      else if gain \<noteq> 0 then ''gain'' else ''neutral'')"

definition claim_tasks :: "evidence_envelope list \<Rightarrow> claim \<Rightarrow> string list" where
  "claim_tasks es c = remdups (filter (\<lambda>t. t \<noteq> [])
     (concat (map (\<lambda>i. case evidence_by_id es i of None \<Rightarrow> []
        | Some e \<Rightarrow> [case fmlookup (ev_payload e) ''task_revision_id'' of None \<Rightarrow> [] | Some v \<Rightarrow> py_str v]) (cl_evidence_ids c))))"

fun bind_tasks :: "evidence_envelope list \<Rightarrow> (string \<times> claim) list \<Rightarrow> claim list \<Rightarrow> (string \<times> claim) list res" where
  "bind_tasks es acc [] = Inr acc"
| "bind_tasks es acc (c # cs) = (case claim_tasks es c of
     [t] \<Rightarrow> (case map_of acc t of
         None \<Rightarrow> bind_tasks es (acc @ [(t, c)]) cs
       | Some prior \<Rightarrow>
           if cl_claim_id prior \<noteq> cl_claim_id c then raise IntegrityError ''multiple latest claims bind task revision''
           else bind_tasks es (AList.update t c acc) cs)
   | _ \<Rightarrow> raise IntegrityError ''claim must bind exactly one task revision'')"

definition task_project_set :: "(string \<times> claim) list \<Rightarrow> dict \<Rightarrow> json list res" where
  "task_project_set tcs projects =
     bind (require (list_all (\<lambda>(t, c). fmlookup projects t \<noteq> None) tcs) ContractViolation ''task project identity missing'') (\<lambda>_.
     let ps = map (\<lambda>(t, c). get projects t) tcs in
     bind (require (list_all hashable ps) TypeError ''unhashable type'') (\<lambda>_.
     bind (require (list_all is_text ps) ContractViolation ''task project identities must be non-empty'') (\<lambda>_.
     Inr (remdups ps))))"

definition count_class :: "(string \<times> claim) list \<Rightarrow> claim_classification \<Rightarrow> nat" where
  "count_class tcs k = length (filter (\<lambda>(t, c). cl_classification c = k) tcs)"

definition empty_state :: "string \<Rightarrow> string option \<Rightarrow> evidence_state" where
  "empty_state cand mech = \<lparr>es_candidate_id = cand, es_grade = E0, es_classification = ''insufficient_evidence'',
     es_claim_ids = [], es_task_revision_ids = [], es_task_count = 0, es_project_count = 0, es_gain_count = 0,
     es_neutral_count = 0, es_regression_count = 0, es_infra_count = 0, es_mechanism_id = mech,
     es_prediction_consistent = 0, es_prediction_evidence_ids = [], es_e3_eligible = False,
     es_rationale = ''no matched native claims''\<rparr>"

record grade_machine =
  gm_graph :: evidence_graph
  gm_verifier :: "trusted_verifier option"
  gm_store :: "receipt_store option"

text \<open>\<open>_task_prediction_evidence\<close> as \<open>aggregate\<close> calls it: without a mechanism, verifier or store it returns nothing.\<close>

definition prediction_of_task ::
  "grade_machine \<Rightarrow> evidence_envelope list \<Rightarrow> receipt list \<Rightarrow> string option \<Rightarrow> string \<times> claim \<Rightarrow> string list res" where
  "prediction_of_task m es rs mech tc = (case (mech, gm_verifier m, gm_store m) of
     (Some k, Some v, Some s) \<Rightarrow>
       if blank k then Inr []
       else task_prediction_evidence \<lparr>pc_evidence = es, pc_task = fst tc, pc_mechanism = k,
         pc_claim_ids = cl_evidence_ids (snd tc), pc_verifier = v, pc_receipts = rs, pc_reader = \<lambda>h. read_artifact h s\<rparr>
   | _ \<Rightarrow> Inr [])"

definition nat_text :: "nat \<Rightarrow> string" where "nat_text n = int_text (int n)"

definition state_rationale :: "nat \<Rightarrow> nat \<Rightarrow> (claim_classification \<Rightarrow> nat) \<Rightarrow> bool \<Rightarrow> nat \<Rightarrow> string" where
  "state_rationale tasks projects n rebuilt consistent =
     nat_text tasks @ '' matched native task(s) across '' @ nat_text projects @ '' project(s); gain='' @ nat_text (n GAIN)
     @ '', neutral='' @ nat_text (n NEUTRAL) @ '', regression='' @ nat_text (n REGRESSION)
     @ '', infra='' @ nat_text (n INFRA_FAILURE) @ '', counterfactual_rebuilt='' @ (if rebuilt then ''True'' else ''False'')
     @ '', prediction_consistent='' @ nat_text consistent @ ''/'' @ nat_text tasks"

definition aggregate :: "grade_machine \<Rightarrow> string \<Rightarrow> dict \<Rightarrow> string option \<Rightarrow> evidence_state res" where
  "aggregate m cand projects mech =
     bind (violation_unless (\<not> blank cand) ''candidate_id must be non-empty'') (\<lambda>_.
     bind (latest_claims (gm_graph m)) (\<lambda>latest.
     let claims = filter (\<lambda>c. cl_candidate_id c = cand) latest in
     if claims = [] then Inr (empty_state cand mech)
     else
     bind (list_evidence (gm_graph m)) (\<lambda>es.
     bind (bind_tasks es [] claims) (\<lambda>tcs.
     bind (task_project_set tcs projects) (\<lambda>ps.
     bind (case gm_store m of None \<Rightarrow> Inr [] | Some s \<Rightarrow> list_receipts s) (\<lambda>rs.
     bind (mapM (prediction_of_task m es rs mech) tcs) (\<lambda>preds.
     let n = count_class tcs; tasks = length tcs; consistent = length (filter (\<lambda>ids. ids \<noteq> []) preds);
         valid = list_all (\<lambda>(t, c). E2 \<le> cl_grade c) tcs
     in
     bind (case gm_store m of
             Some s \<Rightarrow> if valid then bind (graph_rebuild s ((gm_graph m)\<lparr>eg_legacy := False\<rparr>)) (\<lambda>_. Inr True) else Inr False
           | None \<Rightarrow> Inr False) (\<lambda>rebuilt.
     let e3 = (case mech of None \<Rightarrow> False | Some k \<Rightarrow> \<not> blank k) \<and> 3 \<le> tasks \<and> 2 \<le> length ps \<and> 2 \<le> n GAIN
                \<and> n REGRESSION = 0 \<and> n INFRA_FAILURE = 0 \<and> valid \<and> rebuilt \<and> consistent = tasks
     in Inr \<lparr>es_candidate_id = cand,
          es_grade = (if n INFRA_FAILURE \<noteq> 0 then E1 else if e3 then E3 else if valid then E2 else E1),
          es_classification = aggregate_classification (n INFRA_FAILURE) (n REGRESSION) (n GAIN),
          es_claim_ids = sort (map (\<lambda>(t, c). cl_claim_id c) tcs), es_task_revision_ids = sort (map fst tcs),
          es_task_count = tasks, es_project_count = length ps, es_gain_count = n GAIN, es_neutral_count = n NEUTRAL,
          es_regression_count = n REGRESSION, es_infra_count = n INFRA_FAILURE, es_mechanism_id = mech,
          es_prediction_consistent = consistent, es_prediction_evidence_ids = sort (concat preds), es_e3_eligible = e3,
          es_rationale = state_rationale tasks (length ps) n rebuilt consistent\<rparr>))))))))"

end
