(* ===== verification/Decisions.thy ===== *)
theory Decisions
  imports Line_Log Grade_Machine
begin

text \<open>
  \<open>src/src/evolve/governance/decisions.py\<close>: immutable promotion decisions, their append-only
  log and the authority that signs approvals with HMAC-SHA-256.
\<close>

section \<open>Decisions\<close>

datatype gate_decision = APPROVED | HUMAN_APPROVAL_REQUIRED | NO_CHANGE | REJECTED | BLOCKED

fun gate_text :: "gate_decision \<Rightarrow> string" where
  "gate_text APPROVED = ''approved''"
| "gate_text HUMAN_APPROVAL_REQUIRED = ''human_approval_required''"
| "gate_text NO_CHANGE = ''no_change''"
| "gate_text REJECTED = ''rejected''"
| "gate_text BLOCKED = ''blocked''"

record promotion_decision =
  pd_decision_id :: string
  pd_candidate_id :: string
  pd_candidate_revision_id :: string
  pd_gate :: gate_decision
  pd_grade :: claim_grade
  pd_claim_ids :: "string list"
  pd_prediction_evidence_ids :: "string list"
  pd_human_approval :: bool
  pd_decided_at :: string
  pd_rationale :: string
  pd_evidence_state_sha256 :: "string option"
  pd_authority_key_id :: "string option"
  pd_signature :: "string option"

definition optional_sha256 :: "string \<Rightarrow> string option \<Rightarrow> unit res" where
  "optional_sha256 name v = (case v of None \<Rightarrow> Inr () | Some s \<Rightarrow> violation_unless (is_sha256 s) (name @ '' must be a literal SHA-256''))"

definition check_promotion_decision :: "promotion_decision \<Rightarrow> unit res" where
  "check_promotion_decision d = all_checks
     [violation_unless (list_all (\<lambda>v. \<not> blank v) [pd_decision_id d, pd_candidate_id d, pd_candidate_revision_id d,
        pd_decided_at d, pd_rationale d]) ''promotion decision identities must be non-empty'',
      violation_unless (pd_claim_ids d \<noteq> []) ''promotion decision must reference claims'',
      optional_sha256 ''evidence_state_sha256'' (pd_evidence_state_sha256 d),
      optional_sha256 ''authority_signature_hmac_sha256'' (pd_signature d),
      (case pd_authority_key_id d of None \<Rightarrow> Inr () | Some k \<Rightarrow> violation_unless (\<not> blank k) ''authority_key_id must be non-empty'')]"

definition mk_decision :: "promotion_decision \<Rightarrow> promotion_decision res" where
  "mk_decision d = bind (check_promotion_decision d) (\<lambda>_. Inr d)"

definition decision_dict :: "promotion_decision \<Rightarrow> dict" where
  "decision_dict d = fmap_of_list
     [(''decision_id'', JStr (pd_decision_id d)), (''candidate_id'', JStr (pd_candidate_id d)),
      (''candidate_revision_id'', JStr (pd_candidate_revision_id d)), (''gate_decision'', JStr (gate_text (pd_gate d))),
      (''evidence_grade'', JStr (grade_text (pd_grade d))), (''claim_ids'', str_list (pd_claim_ids d)),
      (''prediction_evidence_ids'', str_list (pd_prediction_evidence_ids d)),
      (''human_approval'', JBool (pd_human_approval d)), (''decided_at'', JStr (pd_decided_at d)),
      (''rationale'', JStr (pd_rationale d)), (''evidence_state_sha256'', opt_str (pd_evidence_state_sha256 d)),
      (''authority_key_id'', opt_str (pd_authority_key_id d)),
      (''authority_signature_hmac_sha256'', opt_str (pd_signature d))]"

definition decision_sha256 :: "promotion_decision \<Rightarrow> string" where
  "decision_sha256 d = digest (JObj (decision_dict d))"

section \<open>The authority\<close>

unbundle bit_operations_syntax

text \<open>\<open>hmac.new(key, message, sha256).hexdigest()\<close>, with the block size of SHA-256.\<close>

definition word_bytes :: "32 word \<Rightarrow> nat list" where
  "word_bytes w = map (\<lambda>i. unat (drop_bit (8 * i) w) mod 256) (rev [0..<4])"

definition hmac_sha256 :: "nat list \<Rightarrow> nat list \<Rightarrow> string" where
  "hmac_sha256 key message =
     (let k = (if length key > 64 then concat (map word_bytes (sha256_words key)) else key);
          padded = k @ replicate (64 - length k) 0;
          inner = concat (map word_bytes (sha256_words (map (\<lambda>b. b XOR 54) padded @ message)))
      in sha256_hex (map (\<lambda>b. b XOR 92) padded @ inner))"

record authority =
  ga_key_id :: string
  ga_secret :: "nat list"

definition check_authority :: "authority \<Rightarrow> unit res" where
  "check_authority a = all_checks
     [violation_unless (\<not> blank (ga_key_id a)) ''governance authority key_id must be non-empty'',
      violation_unless (32 \<le> length (ga_secret a)) ''governance authority secret_key must contain at least 32 bytes'']"

definition signing_payload :: "promotion_decision \<Rightarrow> dict" where
  "signing_payload d = fmdrop ''authority_signature_hmac_sha256'' (decision_dict d)"

definition decision_signature :: "authority \<Rightarrow> promotion_decision \<Rightarrow> string" where
  "decision_signature a d = hmac_sha256 (ga_secret a) (utf8 (json_text (JObj (signing_payload d))))"

text \<open>\<open>dataclasses.replace\<close> constructs anew and so checks again.\<close>

definition sign_decision :: "authority \<Rightarrow> promotion_decision \<Rightarrow> promotion_decision res" where
  "sign_decision a d =
     bind (mk_decision (d\<lparr>pd_authority_key_id := Some (ga_key_id a), pd_signature := None\<rparr>)) (\<lambda>u.
     mk_decision (u\<lparr>pd_signature := Some (decision_signature a u)\<rparr>))"

definition verify_decision :: "authority \<Rightarrow> promotion_decision \<Rightarrow> bool" where
  "verify_decision a d = (case pd_signature d of None \<Rightarrow> False
     | Some s \<Rightarrow> pd_authority_key_id d = Some (ga_key_id a) \<and> s = decision_signature a (d\<lparr>pd_signature := None\<rparr>))"

section \<open>The log\<close>

definition gate_of_text :: "json \<Rightarrow> gate_decision res" where
  "gate_of_text j = (case find (\<lambda>g. j = JStr (gate_text g)) [APPROVED, HUMAN_APPROVAL_REQUIRED, NO_CHANGE, REJECTED, BLOCKED] of
     Some g \<Rightarrow> Inr g | None \<Rightarrow> raise ValueError ''is not a valid GateDecision'')"

fun bool_value :: "json \<Rightarrow> bool res" where
  "bool_value (JBool b) = Inr b" | "bool_value j = raise TypeError ''bool''"

definition decision_of_dict :: "dict \<Rightarrow> promotion_decision res" where
  "decision_of_dict p =
     bind (the_item p ''decision_id'' str_value) (\<lambda>did.
     bind (the_item p ''candidate_id'' str_value) (\<lambda>cid.
     bind (the_item p ''candidate_revision_id'' str_value) (\<lambda>crev.
     bind (the_item p ''gate_decision'' gate_of_text) (\<lambda>g.
     bind (the_item p ''evidence_grade'' grade_of_text) (\<lambda>gr.
     bind (the_item p ''claim_ids'' text_list) (\<lambda>cids.
     bind (case fmlookup p ''prediction_evidence_ids'' of None \<Rightarrow> Inr [] | Some j \<Rightarrow> text_list j) (\<lambda>pids.
     bind (the_item p ''human_approval'' bool_value) (\<lambda>h.
     bind (the_item p ''decided_at'' str_value) (\<lambda>at.
     bind (the_item p ''rationale'' str_value) (\<lambda>why.
     bind (opt_value (get p ''evidence_state_sha256'')) (\<lambda>es.
     bind (opt_value (get p ''authority_key_id'')) (\<lambda>key.
     bind (opt_value (get p ''authority_signature_hmac_sha256'')) (\<lambda>sig.
     mk_decision \<lparr>pd_decision_id = did, pd_candidate_id = cid, pd_candidate_revision_id = crev, pd_gate = g, pd_grade = gr,
       pd_claim_ids = cids, pd_prediction_evidence_ids = pids, pd_human_approval = h, pd_decided_at = at,
       pd_rationale = why, pd_evidence_state_sha256 = es, pd_authority_key_id = key, pd_signature = sig\<rparr>)))))))))))))"

definition log_unless :: "bool \<Rightarrow> string \<Rightarrow> unit res" where
  "log_unless c m = require c DecisionLogError m"

definition verify_authoritative :: "authority option \<Rightarrow> promotion_decision \<Rightarrow> unit res" where
  "verify_authoritative a d = (if pd_gate d \<noteq> APPROVED then Inr ()
     else log_unless (case a of None \<Rightarrow> False | Some k \<Rightarrow> pd_evidence_state_sha256 d \<noteq> None \<and> verify_decision k d)
       ''approved promotion decision lacks valid governance authority'')"

definition legacy_fields :: "string list" where
  "legacy_fields = [''prediction_evidence_ids'', ''evidence_state_sha256'', ''authority_key_id'', ''authority_signature_hmac_sha256'']"

definition decision_hashes :: "promotion_decision \<Rightarrow> dict \<Rightarrow> string list res" where
  "decision_hashes d original =
     (if \<exists>k \<in> set legacy_fields. fmlookup original k = None
      then bind (content_sha256 (JObj original)) (\<lambda>h. Inr [decision_sha256 d, h]) else Inr [decision_sha256 d])"

fun read_decisions :: "authority option \<Rightarrow> promotion_decision list \<Rightarrow> json option list \<Rightarrow> promotion_decision list res" where
  "read_decisions a acc [] = Inr acc"
| "read_decisions a acc (l # ls) =
     bind (parse_entry decision_of_dict DecisionLogError ''invalid promotion decision'' l) (\<lambda>(d, original, expected).
     bind (decision_hashes d original) (\<lambda>valid.
     bind (log_unless (\<exists>h \<in> set valid. is_sha256 h \<and> expected = JStr h) ''promotion decision hash mismatch'') (\<lambda>_.
     bind (verify_authoritative a d) (\<lambda>_.
     read_decisions a (acc @ [d]) ls))))"

definition all_decisions :: "authority option \<Rightarrow> line_file \<Rightarrow> promotion_decision list res" where
  "all_decisions a f = bind (read_decisions a [] (lf_lines f)) (\<lambda>ds.
     bind (log_unless (distinct (map pd_decision_id ds)) ''duplicate promotion decision identity'') (\<lambda>_. Inr ds))"

text \<open>\<open>existing\<close>: nothing, the same decision (then \<open>append\<close> returns), or another (then it raises).\<close>

definition known_decision :: "promotion_decision \<Rightarrow> promotion_decision list \<Rightarrow> bool res" where
  "known_decision d ds = (case find (\<lambda>x. pd_decision_id x = pd_decision_id d) ds of
     None \<Rightarrow> Inr False
   | Some e \<Rightarrow> if e = d then Inr True else raise DecisionLogError ''conflicting immutable promotion decision'')"

definition decision_append :: "authority option \<Rightarrow> promotion_decision \<Rightarrow> (line_file, bool) op" where
  "decision_append a d =
     obind (olift (verify_authoritative a d)) (\<lambda>_.
     obind (oread (\<lambda>f. bind (all_decisions a f) (known_decision d))) (\<lambda>k. obind (olift k) (\<lambda>known.
     if known then oreturn False
     else with_writer DecisionLogBusy ''promotion decision writer lease is held''
       (obind (oread (\<lambda>f. bind (all_decisions a f) (known_decision d))) (\<lambda>k. obind (olift k) (\<lambda>known.
        if known then oreturn False
        else obind (write_entry (decision_dict d)) (\<lambda>_. oreturn True)))))))"

definition verified_approved :: "authority option \<Rightarrow> string \<Rightarrow> line_file \<Rightarrow> promotion_decision res" where
  "verified_approved a i f = bind (all_decisions a f) (\<lambda>ds.
     case filter (\<lambda>d. pd_decision_id d = i) ds of
       [d] \<Rightarrow> bind (log_unless (pd_gate d = APPROVED) ''promotion decision is not approved'') (\<lambda>_.
              bind (verify_authoritative a d) (\<lambda>_. Inr d))
     | _ \<Rightarrow> raise DecisionLogError ''approved promotion decision is missing or ambiguous'')"

definition decision_identity :: "json \<Rightarrow> string" where
  "decision_identity payload = ''decision-'' @ digest payload"

section \<open>Facts\<close>

lemma gate_roundtrip: "gate_of_text (JStr (gate_text g)) = Inr g"
  by (cases g) (simp_all add: gate_of_text_def)

lemma decision_decode:
  assumes "check_promotion_decision d = Inr ()"
  shows "decision_of_dict (decision_dict d) = Inr d"
proof -
  have r: "\<lparr>pd_decision_id = pd_decision_id d, pd_candidate_id = pd_candidate_id d,
      pd_candidate_revision_id = pd_candidate_revision_id d, pd_gate = pd_gate d, pd_grade = pd_grade d,
      pd_claim_ids = pd_claim_ids d, pd_prediction_evidence_ids = pd_prediction_evidence_ids d,
      pd_human_approval = pd_human_approval d, pd_decided_at = pd_decided_at d, pd_rationale = pd_rationale d,
      pd_evidence_state_sha256 = pd_evidence_state_sha256 d, pd_authority_key_id = pd_authority_key_id d,
      pd_signature = pd_signature d\<rparr> = d" by (cases d) simp
  show ?thesis
    using assms by (simp add: decision_of_dict_def decision_dict_def the_item_def text_list_roundtrip gate_roundtrip grade_roundtrip mk_decision_def r)
qed

lemma decision_dict_finite: "finite_json (JObj (decision_dict d))"
proof -
  have o: "finite_json (opt_str x)" for x by (cases x) simp_all
  show ?thesis by (simp add: decision_dict_def finite_fmupd str_list_def list_all_iff o)
qed

lemma decision_dict_fields: "fmlookup (decision_dict d) ''record_sha256'' = None"
  "k \<in> set legacy_fields \<Longrightarrow> fmlookup (decision_dict d) k \<noteq> None"
  by (auto simp: decision_dict_def legacy_fields_def)

end
