(* ===== verification/Registry.thy ===== *)
theory Registry
  imports Decisions
begin

text \<open>
  \<open>src/src/evolve/registry\<close>: the immutable records of candidates, capabilities, rejections and
  agent programs, and their append-only registries.  A registry is a JSON-lines file with a
  writer lease; the capability and rejection registries also consult the decision log.
\<close>

section \<open>Records\<close>

definition registry_unless :: "bool \<Rightarrow> string \<Rightarrow> unit res" where
  "registry_unless c m = require c RegistryViolation m"

definition validate_record :: "string list \<Rightarrow> string \<Rightarrow> bool \<Rightarrow> unit res" where
  "validate_record identity artifact active = all_checks
     [registry_unless (list_all (\<lambda>v. \<not> blank v) identity) ''registry identities must be non-empty text'',
      registry_unless (is_sha256 artifact) ''artifact_sha256 must be a literal lowercase SHA-256'',
      registry_unless (\<not> active) ''new registry revisions must be inactive'']"

record candidate_record =
  cr_candidate_id :: string
  cr_revision_id :: string
  cr_candidate_kind :: string
  cr_source_claim_ids :: "string list"
  cr_artifact_sha256 :: string
  cr_active :: bool

definition check_candidate_record :: "candidate_record \<Rightarrow> unit res" where
  "check_candidate_record r = bind (validate_record [cr_candidate_id r, cr_revision_id r, cr_candidate_kind r]
       (cr_artifact_sha256 r) (cr_active r)) (\<lambda>_.
     registry_unless (cr_source_claim_ids r \<noteq> []) ''candidate must reference at least one source claim'')"

definition candidate_record_dict :: "candidate_record \<Rightarrow> dict" where
  "candidate_record_dict r = fmap_of_list
     [(''candidate_id'', JStr (cr_candidate_id r)), (''revision_id'', JStr (cr_revision_id r)),
      (''candidate_kind'', JStr (cr_candidate_kind r)), (''source_claim_ids'', str_list (cr_source_claim_ids r)),
      (''artifact_sha256'', JStr (cr_artifact_sha256 r)), (''active'', JBool (cr_active r))]"

record capability_record =
  cap_capability_id :: string
  cap_revision_id :: string
  cap_capability_kind :: string
  cap_evidence_claim_ids :: "string list"
  cap_artifact_sha256 :: string
  cap_promotion_decision_id :: "string option"
  cap_source_candidate_id :: "string option"
  cap_active :: bool

definition check_capability_record :: "capability_record \<Rightarrow> unit res" where
  "check_capability_record r = bind (validate_record [cap_capability_id r, cap_revision_id r, cap_capability_kind r]
       (cap_artifact_sha256 r) (cap_active r)) (\<lambda>_. all_checks
     [registry_unless (cap_evidence_claim_ids r \<noteq> []) ''capability must reference evidence claims'',
      registry_unless (case cap_promotion_decision_id r of None \<Rightarrow> True | Some i \<Rightarrow> \<not> blank i)
        ''promotion_decision_id must be non-empty'',
      registry_unless (case cap_source_candidate_id r of None \<Rightarrow> True | Some i \<Rightarrow> \<not> blank i)
        ''source_candidate_id must be non-empty''])"

definition capability_record_dict :: "capability_record \<Rightarrow> dict" where
  "capability_record_dict r = fmap_of_list
     [(''capability_id'', JStr (cap_capability_id r)), (''revision_id'', JStr (cap_revision_id r)),
      (''capability_kind'', JStr (cap_capability_kind r)), (''evidence_claim_ids'', str_list (cap_evidence_claim_ids r)),
      (''artifact_sha256'', JStr (cap_artifact_sha256 r)), (''promotion_decision_id'', opt_str (cap_promotion_decision_id r)),
      (''source_candidate_id'', opt_str (cap_source_candidate_id r)), (''active'', JBool (cap_active r))]"

record rejected_record =
  rj_candidate_id :: string
  rj_revision_id :: string
  rj_candidate_kind :: string
  rj_evidence_claim_ids :: "string list"
  rj_promotion_decision_id :: string
  rj_reason :: string
  rj_artifact_sha256 :: string
  rj_active :: bool

definition check_rejected_record :: "rejected_record \<Rightarrow> unit res" where
  "check_rejected_record r = bind (validate_record [rj_candidate_id r, rj_revision_id r, rj_candidate_kind r]
       (rj_artifact_sha256 r) (rj_active r)) (\<lambda>_. all_checks
     [registry_unless (rj_evidence_claim_ids r \<noteq> []) ''rejected candidate must reference evidence claims'',
      registry_unless (\<not> blank (rj_promotion_decision_id r) \<and> \<not> blank (rj_reason r))
        ''rejection must reference a decision and reason''])"

definition rejected_record_dict :: "rejected_record \<Rightarrow> dict" where
  "rejected_record_dict r = fmap_of_list
     [(''candidate_id'', JStr (rj_candidate_id r)), (''revision_id'', JStr (rj_revision_id r)),
      (''candidate_kind'', JStr (rj_candidate_kind r)), (''evidence_claim_ids'', str_list (rj_evidence_claim_ids r)),
      (''promotion_decision_id'', JStr (rj_promotion_decision_id r)), (''reason'', JStr (rj_reason r)),
      (''artifact_sha256'', JStr (rj_artifact_sha256 r)), (''active'', JBool (rj_active r))]"

record program_record =
  pr_program_id :: string
  pr_revision_id :: string
  pr_parent_revision_id :: "string option"
  pr_capability_revision_ids :: "string list"
  pr_artifact_sha256 :: string
  pr_active :: bool

definition check_program_record :: "program_record \<Rightarrow> unit res" where
  "check_program_record r = bind (validate_record [pr_program_id r, pr_revision_id r] (pr_artifact_sha256 r) (pr_active r)) (\<lambda>_.
     registry_unless (pr_parent_revision_id r \<noteq> Some (pr_revision_id r)) ''AgentProgram revision cannot be its own parent'')"

definition program_record_dict :: "program_record \<Rightarrow> dict" where
  "program_record_dict r = fmap_of_list
     [(''program_id'', JStr (pr_program_id r)), (''revision_id'', JStr (pr_revision_id r)),
      (''parent_revision_id'', opt_str (pr_parent_revision_id r)),
      (''capability_revision_ids'', str_list (pr_capability_revision_ids r)),
      (''artifact_sha256'', JStr (pr_artifact_sha256 r)), (''active'', JBool (pr_active r))]"

section \<open>Registries\<close>

text \<open>What the four registries differ in: the constructor (the payload as keyword arguments), form, key, legacy lines.\<close>

record 'r registry_type =
  gt_dict :: "'r \<Rightarrow> dict"
  gt_of :: "dict \<Rightarrow> 'r res"
  gt_key :: "'r \<Rightarrow> string \<times> string"
  gt_legacy :: "dict \<Rightarrow> bool"

definition only_fields :: "string list \<Rightarrow> dict \<Rightarrow> unit res" where
  "only_fields fs d = require (fmdom' d \<subseteq> set fs) TypeError ''unexpected keyword argument''"

definition opt_field :: "dict \<Rightarrow> string \<Rightarrow> string option res" where
  "opt_field d k = opt_value (get d k)"

definition active_field :: "dict \<Rightarrow> bool res" where
  "active_field d = (case fmlookup d ''active'' of None \<Rightarrow> Inr False | Some j \<Rightarrow> bool_value j)"

definition candidate_of_dict :: "dict \<Rightarrow> candidate_record res" where
  "candidate_of_dict d =
     bind (only_fields [''candidate_id'', ''revision_id'', ''candidate_kind'', ''source_claim_ids'', ''artifact_sha256'', ''active''] d) (\<lambda>_.
     bind (the_item d ''candidate_id'' str_value) (\<lambda>c. bind (the_item d ''revision_id'' str_value) (\<lambda>r.
     bind (the_item d ''candidate_kind'' str_value) (\<lambda>k. bind (the_item d ''source_claim_ids'' text_list) (\<lambda>ids.
     bind (the_item d ''artifact_sha256'' str_value) (\<lambda>a. bind (active_field d) (\<lambda>act.
     let x = \<lparr>cr_candidate_id = c, cr_revision_id = r, cr_candidate_kind = k, cr_source_claim_ids = ids,
       cr_artifact_sha256 = a, cr_active = act\<rparr> in bind (check_candidate_record x) (\<lambda>_. Inr x))))))))"

definition capability_of_dict :: "dict \<Rightarrow> capability_record res" where
  "capability_of_dict d =
     bind (only_fields [''capability_id'', ''revision_id'', ''capability_kind'', ''evidence_claim_ids'', ''artifact_sha256'',
       ''promotion_decision_id'', ''source_candidate_id'', ''active''] d) (\<lambda>_.
     bind (the_item d ''capability_id'' str_value) (\<lambda>c. bind (the_item d ''revision_id'' str_value) (\<lambda>r.
     bind (the_item d ''capability_kind'' str_value) (\<lambda>k. bind (the_item d ''evidence_claim_ids'' text_list) (\<lambda>ids.
     bind (the_item d ''artifact_sha256'' str_value) (\<lambda>a. bind (opt_field d ''promotion_decision_id'') (\<lambda>p.
     bind (opt_field d ''source_candidate_id'') (\<lambda>s. bind (active_field d) (\<lambda>act.
     let x = \<lparr>cap_capability_id = c, cap_revision_id = r, cap_capability_kind = k, cap_evidence_claim_ids = ids,
       cap_artifact_sha256 = a, cap_promotion_decision_id = p, cap_source_candidate_id = s, cap_active = act\<rparr>
     in bind (check_capability_record x) (\<lambda>_. Inr x))))))))))"

definition rejected_of_dict :: "dict \<Rightarrow> rejected_record res" where
  "rejected_of_dict d =
     bind (only_fields [''candidate_id'', ''revision_id'', ''candidate_kind'', ''evidence_claim_ids'', ''promotion_decision_id'',
       ''reason'', ''artifact_sha256'', ''active''] d) (\<lambda>_.
     bind (the_item d ''candidate_id'' str_value) (\<lambda>c. bind (the_item d ''revision_id'' str_value) (\<lambda>r.
     bind (the_item d ''candidate_kind'' str_value) (\<lambda>k. bind (the_item d ''evidence_claim_ids'' text_list) (\<lambda>ids.
     bind (the_item d ''promotion_decision_id'' str_value) (\<lambda>p. bind (the_item d ''reason'' str_value) (\<lambda>why.
     bind (the_item d ''artifact_sha256'' str_value) (\<lambda>a. bind (active_field d) (\<lambda>act.
     let x = \<lparr>rj_candidate_id = c, rj_revision_id = r, rj_candidate_kind = k, rj_evidence_claim_ids = ids,
       rj_promotion_decision_id = p, rj_reason = why, rj_artifact_sha256 = a, rj_active = act\<rparr>
     in bind (check_rejected_record x) (\<lambda>_. Inr x))))))))))"

definition program_of_dict :: "dict \<Rightarrow> program_record res" where
  "program_of_dict d =
     bind (only_fields [''program_id'', ''revision_id'', ''parent_revision_id'', ''capability_revision_ids'', ''artifact_sha256'',
       ''active''] d) (\<lambda>_.
     bind (the_item d ''program_id'' str_value) (\<lambda>p. bind (the_item d ''revision_id'' str_value) (\<lambda>r.
     bind (the_item d ''parent_revision_id'' opt_value) (\<lambda>par. bind (the_item d ''capability_revision_ids'' text_list) (\<lambda>ids.
     bind (the_item d ''artifact_sha256'' str_value) (\<lambda>a. bind (active_field d) (\<lambda>act.
     let x = \<lparr>pr_program_id = p, pr_revision_id = r, pr_parent_revision_id = par, pr_capability_revision_ids = ids,
       pr_artifact_sha256 = a, pr_active = act\<rparr> in bind (check_program_record x) (\<lambda>_. Inr x))))))))"

definition candidate_registry :: "candidate_record registry_type" where
  "candidate_registry = \<lparr>gt_dict = candidate_record_dict, gt_of = candidate_of_dict,
     gt_key = (\<lambda>r. (cr_candidate_id r, cr_revision_id r)), gt_legacy = (\<lambda>_. False)\<rparr>"

definition capability_registry :: "capability_record registry_type" where
  "capability_registry = \<lparr>gt_dict = capability_record_dict, gt_of = capability_of_dict,
     gt_key = (\<lambda>r. (cap_capability_id r, cap_revision_id r)), gt_legacy = (\<lambda>d. fmlookup d ''promotion_decision_id'' = None)\<rparr>"

definition rejected_registry :: "rejected_record registry_type" where
  "rejected_registry = \<lparr>gt_dict = rejected_record_dict, gt_of = rejected_of_dict,
     gt_key = (\<lambda>r. (rj_candidate_id r, rj_revision_id r)), gt_legacy = (\<lambda>_. False)\<rparr>"

definition program_registry :: "program_record registry_type" where
  "program_registry = \<lparr>gt_dict = program_record_dict, gt_of = program_of_dict,
     gt_key = (\<lambda>r. (pr_program_id r, pr_revision_id r)), gt_legacy = (\<lambda>_. False)\<rparr>"

text \<open>A hash that is a list or an object cannot be looked up in the set of valid hashes.\<close>

fun registry_read :: "'r registry_type \<Rightarrow> 'r list \<Rightarrow> json option list \<Rightarrow> 'r list res" where
  "registry_read t acc [] = Inr acc"
| "registry_read t acc (l # ls) =
     bind (parse_entry (gt_of t) RegistryViolation ''invalid registry entry'' l) (\<lambda>(r, payload, expected).
     bind (content_sha256 (JObj (gt_dict t r))) (\<lambda>own.
     bind (if gt_legacy t payload then bind (content_sha256 (JObj payload)) (\<lambda>h. Inr [own, h]) else Inr [own]) (\<lambda>valid.
     bind (require (hashable expected) TypeError ''unhashable type'') (\<lambda>_.
     bind (registry_unless (\<exists>h \<in> set valid. expected = JStr h) ''registry hash mismatch'') (\<lambda>_.
     registry_read t (acc @ [r]) ls)))))"

definition registry_all :: "'r registry_type \<Rightarrow> line_file \<Rightarrow> 'r list res" where
  "registry_all t f = registry_read t [] (lf_lines f)"

text \<open>\<open>_by_key\<close>: the last record with a key.\<close>

definition registry_get :: "'r registry_type \<Rightarrow> string \<times> string \<Rightarrow> line_file \<Rightarrow> 'r option res" where
  "registry_get t k f = bind (registry_all t f) (\<lambda>rs. Inr (find (\<lambda>r. gt_key t r = k) (rev rs)))"

definition known_record :: "'r registry_type \<Rightarrow> 'r \<Rightarrow> line_file \<Rightarrow> bool res" where
  "known_record t r f = bind (registry_get t (gt_key t r) f) (\<lambda>e. case e of
     None \<Rightarrow> Inr False
   | Some x \<Rightarrow> if x = r then Inr True else raise RegistryConflict ''conflicting immutable revision'')"

definition registry_append :: "'r registry_type \<Rightarrow> 'r \<Rightarrow> (line_file, bool) op" where
  "registry_append t r =
     obind (oread (known_record t r)) (\<lambda>k. obind (olift k) (\<lambda>known.
     if known then oreturn False
     else with_writer RegistryBusy ''writer lease already held''
       (obind (oread (known_record t r)) (\<lambda>k. obind (olift k) (\<lambda>known.
        if known then oreturn False
        else obind (olift (content_sha256 (JObj (gt_dict t r)))) (\<lambda>_.
             obind (write_entry (gt_dict t r)) (\<lambda>_. oreturn True)))))))"

section \<open>Authoritative registries\<close>

text \<open>A decision log: its authority and its file.\<close>

type_synonym decision_log = "authority option \<times> line_file"

definition decision_for :: "decision_log option \<Rightarrow> string \<Rightarrow> promotion_decision res" where
  "decision_for lg i = (case lg of None \<Rightarrow> raise RegistryViolation ''authoritative registry requires a decision log''
   | Some (a, f) \<Rightarrow> bind (all_decisions a f) (\<lambda>ds. case filter (\<lambda>d. pd_decision_id d = i) ds of
       [d] \<Rightarrow> Inr d | _ \<Rightarrow> raise RegistryViolation ''promotion decision is missing or ambiguous''))"

definition approved_decision_for :: "decision_log option \<Rightarrow> string \<Rightarrow> promotion_decision res" where
  "approved_decision_for lg i = (case lg of
     None \<Rightarrow> raise RegistryViolation ''capability registry requires authoritative promotion decision log''
   | Some (a, f) \<Rightarrow> rewrap is_contract_violation RegistryViolation
       ''capability promotion decision authority verification failed'' (verified_approved a i f))"

definition capability_append :: "decision_log option \<Rightarrow> capability_record \<Rightarrow> (line_file, bool) op" where
  "capability_append lg r =
     obind (olift (case (cap_promotion_decision_id r, cap_source_candidate_id r) of
       (Some i, Some c) \<Rightarrow> bind (approved_decision_for lg i) (\<lambda>d.
          registry_unless (pd_gate d = APPROVED \<and> pd_grade d = E3 \<and> pd_prediction_evidence_ids d \<noteq> [] \<and> pd_human_approval d
            \<and> pd_candidate_id d = c \<and> pd_candidate_revision_id d = cap_revision_id r
            \<and> set (pd_claim_ids d) = set (cap_evidence_claim_ids r)) ''capability promotion decision identity mismatch'')
     | _ \<Rightarrow> raise RegistryViolation ''authoritative capability writes require promotion decision identity'')) (\<lambda>_.
     registry_append capability_registry r)"

definition rejected_append :: "decision_log option \<Rightarrow> rejected_record \<Rightarrow> (line_file, bool) op" where
  "rejected_append lg r =
     obind (olift (bind (decision_for lg (rj_promotion_decision_id r)) (\<lambda>d.
       registry_unless (pd_gate d = REJECTED \<and> pd_candidate_id d = rj_candidate_id r
         \<and> pd_candidate_revision_id d = rj_revision_id r \<and> set (pd_claim_ids d) = set (rj_evidence_claim_ids r))
         ''rejected promotion decision identity mismatch''))) (\<lambda>_.
     registry_append rejected_registry r)"

end
