(* ===== verification/Governance.thy ===== *)
theory Governance
  imports Registry
begin

text \<open>
  \<open>GovernanceService\<close> of \<open>src/src/evolve/governance/__init__.py\<close>: the gate over claims and
  aggregated evidence, the signed decision, and the records a decision may become.
\<close>

definition evidence_state_dict :: "evidence_state \<Rightarrow> dict" where
  "evidence_state_dict s = fmap_of_list
     [(''candidate_id'', JStr (es_candidate_id s)), (''grade'', JStr (grade_text (es_grade s))),
      (''classification'', JStr (es_classification s)), (''claim_ids'', str_list (es_claim_ids s)),
      (''task_revision_ids'', str_list (es_task_revision_ids s)), (''task_count'', JInt (int (es_task_count s))),
      (''project_count'', JInt (int (es_project_count s))), (''gain_count'', JInt (int (es_gain_count s))),
      (''neutral_count'', JInt (int (es_neutral_count s))), (''regression_count'', JInt (int (es_regression_count s))),
      (''infra_failure_count'', JInt (int (es_infra_count s))), (''mechanism_id'', opt_str (es_mechanism_id s)),
      (''prediction_consistent_task_count'', JInt (int (es_prediction_consistent s))),
      (''prediction_evidence_ids'', str_list (es_prediction_evidence_ids s)), (''e3_eligible'', JBool (es_e3_eligible s)),
      (''rationale'', JStr (es_rationale s))]"

section \<open>The gate\<close>

definition has_class :: "claim_classification \<Rightarrow> claim list \<Rightarrow> bool" where
  "has_class k rows \<longleftrightarrow> list_ex (\<lambda>c. cl_classification c = k) rows"

definition evaluate :: "string \<Rightarrow> claim list \<Rightarrow> bool \<Rightarrow> bool \<Rightarrow> claim_grade option \<Rightarrow> gate_decision res" where
  "evaluate cand rows active human grade =
     bind (violation_unless (\<not> blank cand) ''candidate_id must be non-empty'') (\<lambda>_.
     bind (violation_unless (\<not> active) ''candidates must enter governance inactive'') (\<lambda>_.
     bind (violation_unless (rows \<noteq> [] \<and> list_all (\<lambda>c. cl_candidate_id c = cand) rows) ''claims must match the candidate'') (\<lambda>_.
     Inr (if has_class INFRA_FAILURE rows then BLOCKED
          else if has_class REGRESSION rows then REJECTED
          else if has_class NEUTRAL rows then NO_CHANGE
          else if \<not> list_all (\<lambda>c. cl_classification c = GAIN) rows then REJECTED
          else let highest = (case grade of Some g \<Rightarrow> g | None \<Rightarrow> Max (set (map cl_grade rows)))
               in if \<not> human \<or> highest < E3 then HUMAN_APPROVAL_REQUIRED else APPROVED))))"

definition count_rows :: "claim list \<Rightarrow> claim_classification \<Rightarrow> nat" where
  "count_rows rows k = length (filter (\<lambda>c. cl_classification c = k) rows)"

definition validate_evidence_state :: "evidence_state \<Rightarrow> claim list \<Rightarrow> unit res" where
  "validate_evidence_state s rows = all_checks
     [violation_unless (es_task_count s = length rows \<and> es_gain_count s = count_rows rows GAIN
        \<and> es_neutral_count s = count_rows rows NEUTRAL \<and> es_regression_count s = count_rows rows REGRESSION
        \<and> es_infra_count s = count_rows rows INFRA_FAILURE) ''aggregate evidence classification counts mismatch'',
      violation_unless (es_infra_count s = 0 \<or> es_grade s = E1) ''infrastructure evidence cannot exceed E1'',
      violation_unless (es_grade s \<noteq> E3 \<or> (es_e3_eligible s \<and> 3 \<le> es_task_count s \<and> 2 \<le> es_project_count s
        \<and> 2 \<le> es_gain_count s \<and> es_regression_count s = 0 \<and> es_infra_count s = 0
        \<and> es_prediction_consistent s = es_task_count s \<and> 2 * es_task_count s \<le> length (es_prediction_evidence_ids s)
        \<and> es_mechanism_id s \<notin> {None, Some []})) ''E3 evidence does not satisfy mechanism replay gates'']"

section \<open>The decision\<close>

definition identity_payload ::
  "candidate_record \<Rightarrow> gate_decision \<Rightarrow> evidence_state \<Rightarrow> string list \<Rightarrow> bool \<Rightarrow> string \<Rightarrow> string \<Rightarrow> string option \<Rightarrow> json" where
  "identity_payload c gate ev ids human at why key = jobj
     [(''candidate_id'', JStr (cr_candidate_id c)), (''candidate_revision_id'', JStr (cr_revision_id c)),
      (''gate_decision'', JStr (gate_text gate)), (''evidence_grade'', JStr (grade_text (es_grade ev))),
      (''claim_ids'', str_list ids), (''prediction_evidence_ids'', str_list (es_prediction_evidence_ids ev)),
      (''human_approval'', JBool human), (''decided_at'', JStr at), (''rationale'', JStr why),
      (''evidence_state_sha256'', JStr (digest (JObj (evidence_state_dict ev)))), (''authority_key_id'', opt_str key)]"

definition proposed_decision ::
  "authority option \<Rightarrow> candidate_record \<Rightarrow> evidence_state \<Rightarrow> claim list \<Rightarrow> bool \<Rightarrow> string \<Rightarrow> gate_decision \<Rightarrow> promotion_decision" where
  "proposed_decision auth c ev rows human at gate =
     (let ids = sort (map cl_claim_id rows); why = gate_text gate @ '': '' @ es_rationale ev; key = map_option ga_key_id auth
      in \<lparr>pd_decision_id = decision_identity (identity_payload c gate ev ids human at why key),
          pd_candidate_id = cr_candidate_id c, pd_candidate_revision_id = cr_revision_id c, pd_gate = gate,
          pd_grade = es_grade ev, pd_claim_ids = ids, pd_prediction_evidence_ids = es_prediction_evidence_ids ev,
          pd_human_approval = human, pd_decided_at = at, pd_rationale = why,
          pd_evidence_state_sha256 = Some (digest (JObj (evidence_state_dict ev))), pd_authority_key_id = key,
          pd_signature = None\<rparr>)"

definition decide_checks :: "candidate_record \<Rightarrow> evidence_state \<Rightarrow> claim list \<Rightarrow> unit res" where
  "decide_checks c ev rows = all_checks
     [violation_unless (es_candidate_id ev = cr_candidate_id c) ''aggregate evidence candidate identity mismatch'',
      violation_unless (sort (map cl_claim_id rows) = sort (es_claim_ids ev)) ''aggregate evidence claim identity mismatch'',
      violation_unless (set (cr_source_claim_ids c) = set (map cl_claim_id rows)) ''candidate source claims do not match governance'',
      validate_evidence_state ev rows]"

text \<open>\<open>auth\<close> is the service's authority, \<open>log_auth\<close> that of the log.\<close>

definition decide ::
  "authority option \<Rightarrow> authority option \<Rightarrow> candidate_record \<Rightarrow> evidence_state \<Rightarrow> claim list \<Rightarrow> bool \<Rightarrow> string
     \<Rightarrow> (line_file, promotion_decision) op" where
  "decide auth log_auth c ev rows human at =
     obind (olift (bind (decide_checks c ev rows) (\<lambda>_.
       bind (evaluate (cr_candidate_id c) rows (cr_active c) human (Some (es_grade ev))) (\<lambda>gate.
       bind (mk_decision (proposed_decision auth c ev rows human at gate)) (\<lambda>d.
       if gate = APPROVED then (case auth of
            None \<Rightarrow> raise ContractViolation ''approved decisions require configured governance authority''
          | Some a \<Rightarrow> sign_decision a d)
       else Inr d))))) (\<lambda>d.
     obind (decision_append log_auth d) (\<lambda>_. oreturn d))"

definition validate_decision_candidate :: "candidate_record \<Rightarrow> promotion_decision \<Rightarrow> unit res" where
  "validate_decision_candidate c d = violation_unless (pd_candidate_id d = cr_candidate_id c
     \<and> pd_candidate_revision_id d = cr_revision_id c \<and> set (pd_claim_ids d) = set (cr_source_claim_ids c))
     ''promotion decision candidate identity mismatch''"

definition to_capability :: "candidate_record \<Rightarrow> promotion_decision \<Rightarrow> string \<Rightarrow> capability_record res" where
  "to_capability c d cap =
     bind (validate_decision_candidate c d) (\<lambda>_.
     bind (violation_unless (pd_gate d = APPROVED) ''only approved decisions create capabilities'') (\<lambda>_.
     let r = \<lparr>cap_capability_id = cap, cap_revision_id = cr_revision_id c, cap_capability_kind = cr_candidate_kind c,
       cap_evidence_claim_ids = pd_claim_ids d, cap_artifact_sha256 = cr_artifact_sha256 c,
       cap_promotion_decision_id = Some (pd_decision_id d), cap_source_candidate_id = Some (cr_candidate_id c), cap_active = False\<rparr>
     in bind (check_capability_record r) (\<lambda>_. Inr r)))"

definition to_rejected :: "candidate_record \<Rightarrow> promotion_decision \<Rightarrow> rejected_record res" where
  "to_rejected c d =
     bind (validate_decision_candidate c d) (\<lambda>_.
     bind (violation_unless (pd_gate d = REJECTED) ''only rejected decisions create rejected records'') (\<lambda>_.
     let r = \<lparr>rj_candidate_id = cr_candidate_id c, rj_revision_id = cr_revision_id c, rj_candidate_kind = cr_candidate_kind c,
       rj_evidence_claim_ids = pd_claim_ids d, rj_promotion_decision_id = pd_decision_id d, rj_reason = pd_rationale d,
       rj_artifact_sha256 = cr_artifact_sha256 c, rj_active = False\<rparr>
     in bind (check_rejected_record r) (\<lambda>_. Inr r)))"

end
