(* ===== verification/Grade_Facts.thy ===== *)
theory Grade_Facts
  imports Grade_Machine Evidence_Demo
begin

text \<open>
  What a grade projection is computed from: the claims it binds to tasks, the prediction
  evidence a task needs, and the rebuild behind grade E3.
\<close>

section \<open>The claims of the tasks\<close>

lemma bind_tasks_spec:
  assumes "bind_tasks es acc cs = Inr tcs" and "distinct (map cl_claim_id (map snd acc @ cs))" and "distinct (map fst acc)"
  shows "map snd tcs = map snd acc @ cs \<and> distinct (map fst tcs) \<and> (\<forall>(t, c) \<in> set tcs - set acc. claim_tasks es c = [t])"
  using assms
proof (induction cs arbitrary: acc)
  case Nil
  then show ?case by simp
next
  case (Cons c cs)
  from Cons.prems(1) obtain t where t: "claim_tasks es c = [t]" by (auto simp: raise_def split: list.splits)
  have new: "map_of acc t = None"
  proof (rule ccontr)
    assume "map_of acc t \<noteq> None"
    then obtain prior where p: "map_of acc t = Some prior" by auto
    then have "prior \<in> set (map snd acc)" by (auto dest: map_of_SomeD intro: rev_image_eqI)
    then have "cl_claim_id prior \<in> set (map cl_claim_id (map snd acc))"
      unfolding set_map [of cl_claim_id] by (rule imageI)
    moreover from Cons.prems(2) have "cl_claim_id c \<notin> set (map cl_claim_id (map snd acc))"
      unfolding map_append distinct_append list.map list.set by blast
    ultimately have "cl_claim_id prior \<noteq> cl_claim_id c" by metis
    with Cons.prems(1) t p show False by (simp add: raise_def)
  qed
  then have f: "t \<notin> fst ` set acc" by (simp add: map_of_eq_None_iff)
  from Cons.prems(1) t new have b: "bind_tasks es (acc @ [(t, c)]) cs = Inr tcs" by simp
  have "map snd tcs = map snd (acc @ [(t, c)]) @ cs \<and> distinct (map fst tcs)
      \<and> (\<forall>(u, d) \<in> set tcs - set (acc @ [(t, c)]). claim_tasks es d = [u])"
    by (rule Cons.IH [OF b]) (use Cons.prems f in auto)
  with t show ?case by auto
qed

lemma latest_of_candidate:
  assumes "latest_claims g = Inr latest"
  shows "distinct (map cl_claim_id (filter P latest)) \<and> (\<exists>cs. list_claims g = Inr cs \<and> set latest \<subseteq> set cs)"
proof -
  from assms obtain cs where cs: "list_claims g = Inr cs" "latest = unsuperseded cs"
    by (auto simp: latest_claims_def bind_eq_Inr)
  from list_claims_inv [OF cs(1)] have "distinct (map cl_claim_id cs)" by blast
  then have "distinct (map cl_claim_id (filter P latest))"
    by (simp add: cs(2) unsuperseded_def distinct_map_filter)
  with cs show ?thesis by (auto simp: unsuperseded_def)
qed

section \<open>Prediction evidence\<close>

text \<open>What the trusted observer has established of one plan.\<close>

definition plan_trusted :: "prediction_context \<Rightarrow> string \<Rightarrow> string \<Rightarrow> evidence_envelope \<Rightarrow> bool" where
  "plan_trusted c plan arm i \<longleftrightarrow> i \<in> set (pc_evidence c)
     \<and> about_plan ''trusted-jlens-v1'' (pc_task c) plan (pc_mechanism c) i
     \<and> tv_evidence (pc_verifier c) i = Inr True
     \<and> (\<exists>ro rp rm. {ro, rp, rm} \<subseteq> set (pc_receipts c) \<and> tv_lineage (pc_verifier c) (pc_reader c) i ro rp rm = Inr True)
     \<and> get (ev_payload i) ''effect_consistent'' = JBool (arm = ''taught'')"

lemma filterM_set: "filterM p xs = Inr ys \<Longrightarrow> set ys = {x \<in> set xs. p x = Inr True} "
proof (induction xs arbitrary: ys)
  case Nil
  then show ?case by simp
next
  case (Cons x xs)
  then obtain b zs where "p x = Inr b" "filterM p xs = Inr zs" "ys = (if b then x # zs else zs)"
    by (auto simp: bind_eq_Inr)
  moreover from this(2) have "set zs = {x \<in> set xs. p x = Inr True}" by (rule Cons.IH)
  ultimately show ?case by (cases b) auto
qed

lemma plan_evidence_trusted:
  assumes "plan_evidence c plan st = Inr (Some (st', ids))"
  shows "length ids = 3 \<and> (\<exists>n i. filter (\<lambda>e. get (ev_payload e) ''plan_id'' = JStr plan) (native_rows c) = [n]
     \<and> plan_trusted c plan (if get (ev_payload n) ''arm'' = JStr ''taught'' then ''taught'' else ''baseline'') i)"
proof -
  let ?p = "\<lambda>e. if about_plan ''trusted-jlens-v1'' (pc_task c) plan (pc_mechanism c) e then tv_evidence (pc_verifier c) e else Inr False"
  from assms obtain jl where j: "filterM ?p (pc_evidence c) = Inr jl"
    by (auto simp: plan_evidence_def Let_def bind_eq_Inr)
  from assms j obtain n x i where n: "filter (\<lambda>e. get (ev_payload e) ''plan_id'' = JStr plan) (native_rows c) = [n]"
    and jl: "jl = [i]" and ids: "ids = [ev_evidence_id n, ev_evidence_id x, ev_evidence_id i]"
    and l: "\<exists>ro rp rm. lineage_receipts (pc_receipts c) i = Some (ro, rp, rm)
      \<and> tv_lineage (pc_verifier c) (pc_reader c) i ro rp rm = Inr True \<and> plan_effect st n x i rp = Some st'"
    by (auto simp: plan_evidence_def Let_def bind_eq_Inr split: list.splits option.splits if_splits)
  have "i \<in> set jl" by (simp add: jl)
  then have i: "i \<in> set (pc_evidence c)" "?p i = Inr True" unfolding filterM_set [OF j] by blast+
  from l obtain ro rp rm where r: "lineage_receipts (pc_receipts c) i = Some (ro, rp, rm)"
    "tv_lineage (pc_verifier c) (pc_reader c) i ro rp rm = Inr True" "plan_effect st n x i rp = Some st'" by blast
  from r(1) have sub: "{ro, rp, rm} \<subseteq> set (pc_receipts c)"
    by (auto simp: lineage_receipts_def receipt_by_id_def dest: find_SomeD split: list.splits json.splits option.splits)
  from r(3) have "get (ev_payload i) ''effect_consistent'' = JBool (get (ev_payload n) ''arm'' = JStr ''taught'')"
    by (auto simp: plan_effect_def Let_def split: prod.splits option.splits if_splits json.splits)
  then have e: "get (ev_payload i) ''effect_consistent''
      = JBool ((if get (ev_payload n) ''arm'' = JStr ''taught'' then ''taught'' else ''baseline'') = ''taught'')" by simp
  from i have a: "about_plan ''trusted-jlens-v1'' (pc_task c) plan (pc_mechanism c) i" "tv_evidence (pc_verifier c) i = Inr True"
    by (simp_all split: if_splits)
  have "plan_trusted c plan (if get (ev_payload n) ''arm'' = JStr ''taught'' then ''taught'' else ''baseline'') i"
    unfolding plan_trusted_def using i(1) a e sub r(2) by blast
  moreover have "length ids = 3" by (simp add: ids)
  ultimately show ?thesis using n by blast
qed

lemma plans_evidence_trusted:
  assumes "plans_evidence c ps st acc = Inr ids" and "ids \<noteq> []" and "ps \<noteq> []"
  shows "length ids = length acc + 3 * length ps \<and> (\<forall>p \<in> set ps. \<exists>st st' ids. plan_evidence c p st = Inr (Some (st', ids)))"
  using assms
proof (induction ps arbitrary: st acc)
  case Nil
  then show ?case by simp
next
  case (Cons p ps)
  from Cons.prems obtain st' ids' where p: "plan_evidence c p st = Inr (Some (st', ids'))"
    and r: "plans_evidence c ps st' (acc @ ids') = Inr ids"
    by (auto simp: bind_eq_Inr split: option.splits)
  show ?case
  proof (cases "ps = []")
    case True
    with r plan_evidence_trusted [OF p] have "length ids = length acc + 3 * length (p # ps)" by auto
    moreover have "\<forall>q \<in> set (p # ps). \<exists>st st' ids. plan_evidence c q st = Inr (Some (st', ids))"
      using p True by (auto simp del: split_paired_Ex)
    ultimately show ?thesis ..
  next
    case False
    from Cons.IH [OF r Cons.prems(2) False] plan_evidence_trusted [OF p]
    have "length ids = length acc + 3 * length (p # ps)" by auto
    moreover have "\<forall>q \<in> set (p # ps). \<exists>st st' ids. plan_evidence c q st = Inr (Some (st', ids))"
      using p Cons.IH [OF r Cons.prems(2) False] by (auto simp del: split_paired_Ex)
    ultimately show ?thesis ..
  qed
qed

lemma task_prediction_trusted:
  assumes "task_prediction_evidence c = Inr ids" and "ids \<noteq> []"
  shows "length ids = 6 \<and> (\<forall>arm \<in> {''baseline'', ''taught''}. \<exists>plan i. plan_trusted c plan arm i)"
proof -
  let ?plans = "map (\<lambda>e. plan_text (get (ev_payload e) ''plan_id'')) (native_rows c)"
  let ?arms = "map (\<lambda>e. get (ev_payload e) ''arm'') (native_rows c)"
  from assms have n: "None \<notin> set ?plans" and two: "card (set ?plans) = 2"
    and arms: "set ?arms = {JStr ''baseline'', JStr ''taught''}"
    and p: "plans_evidence c (sorted_list_of_set (set (map the ?plans))) (None, None) [] = Inr ids"
    by (auto simp: task_prediction_evidence_def Let_def bind_eq_Inr split: if_splits)
  let ?ps = "sorted_list_of_set (set (map the ?plans))"
  have "inj_on the (set ?plans)"
  proof (rule inj_onI)
    fix x y
    assume "x \<in> set ?plans" "y \<in> set ?plans" "the x = the y"
    moreover from this n have "x \<noteq> None" "y \<noteq> None" by metis+
    ultimately show "x = y" by (metis option.collapse)
  qed
  then have "card (set (map the ?plans)) = 2" using two by (simp only: set_map card_image)
  then have len: "length ?ps = 2" by simp
  then have "?ps \<noteq> []" by (metis length_0_conv zero_neq_numeral)
  from plans_evidence_trusted [OF p assms(2) this] len have l: "length ids = 6"
    and t: "\<forall>q \<in> set ?ps. \<exists>st st' ids. plan_evidence c q st = Inr (Some (st', ids))" by auto
  have "\<exists>plan i. plan_trusted c plan arm i" if arm: "arm \<in> {''baseline'', ''taught''}" for arm
  proof -
    from arm have "JStr arm \<in> set ?arms" unfolding arms by auto
    then obtain e where e: "e \<in> set (native_rows c)" "get (ev_payload e) ''arm'' = JStr arm" by auto
    from e(1) n obtain q where q: "plan_text (get (ev_payload e) ''plan_id'') = Some q" by (fastforce simp: image_iff)
    then have pl: "get (ev_payload e) ''plan_id'' = JStr q"
      by (cases "get (ev_payload e) ''plan_id''") (auto split: if_splits)
    have "q \<in> set ?ps" using e(1) q by (auto simp: image_iff intro!: bexI [of _ e])
    then obtain st st' ids' where pe: "plan_evidence c q st = Inr (Some (st', ids'))" using t by blast
    from plan_evidence_trusted [OF pe] obtain n' i where
      n': "filter (\<lambda>e. get (ev_payload e) ''plan_id'' = JStr q) (native_rows c) = [n']"
      and i: "plan_trusted c q (if get (ev_payload n') ''arm'' = JStr ''taught'' then ''taught'' else ''baseline'') i" by blast
    have "e \<in> set (filter (\<lambda>e. get (ev_payload e) ''plan_id'' = JStr q) (native_rows c))" using e(1) pl by simp
    then have "n' = e" unfolding n' by simp
    with i e(2) have "plan_trusted c q (if arm = ''taught'' then ''taught'' else ''baseline'') i" by simp
    with arm have "plan_trusted c q arm i" by (cases "arm = ''taught''") simp_all
    then show ?thesis by blast
  qed
  with l show ?thesis by blast
qed

section \<open>The strict rebuild\<close>

lemma claim_of_dict_strict: "claim_of_dict False d = Inr c \<Longrightarrow> claim_of_dict b d = Inr c"
  by (auto simp: claim_of_dict_def bind_eq_Inr mk_claim_def dest: check_claim_legacy split: option.splits)

lemma read_claims_strict:
  "read_records (claim_type False) acc ls = Inr cs \<Longrightarrow> read_records (claim_type b) acc ls = Inr cs"
proof (induction ls arbitrary: acc)
  case Nil
  then show ?case by simp
next
  case (Cons l ls)
  have t: "rt_id (claim_type b) = rt_id (claim_type False)" "rt_eq (claim_type b) = rt_eq (claim_type False)"
    "record_sha256 (claim_type b) = record_sha256 (claim_type False)"
    by (simp_all add: claim_type_def record_sha256_def fun_eq_iff)
  have p: "parse_record (claim_type False) l = Inr x \<Longrightarrow> parse_record (claim_type b) l = Inr x" for x
    by (auto simp: parse_record_def claim_type_def bind_eq_Inr the_item_def rewrap_eq_Inr split: option.splits
        intro: claim_of_dict_strict)
  from Cons.prems obtain a h where f: "parse_record (claim_type False) l = Inr (a, h)" by (auto simp: bind_eq_Inr)
  show ?case
    using Cons.prems f p [OF f] Cons.IH
    by (cases "find (\<lambda>y. rt_id (claim_type False) y = rt_id (claim_type False) a) acc") (auto simp: bind_eq_Inr t)
qed

lemma strict_rebuild_backs:
  assumes "graph_rebuild s (g\<lparr>eg_legacy := False\<rparr>) = Inr h" and "list_claims g = Inr cs" and "c \<in> set cs" and "E2 \<le> cl_grade c"
  shows "\<exists>es rs. list_evidence g = Inr es \<and> list_receipts s = Inr rs \<and> rebuild_counterfactual_binding c es rs = Inr ()"
proof -
  from graph_rebuild_facts [OF assms(1)] obtain rs es cs' where l: "list_receipts s = Inr rs"
    "list_evidence (g\<lparr>eg_legacy := False\<rparr>) = Inr es" "list_claims (g\<lparr>eg_legacy := False\<rparr>) = Inr cs'"
    and b: "\<forall>c \<in> set cs'. check_claim_bound cs' es rs c = Inr ()" by blast
  from l(3) have r: "read_records (claim_type False) [] (eg_claims g) = Inr cs'" by (simp add: list_claims_def)
  from read_claims_strict [OF r, of "eg_legacy g"] assms(2) have "cs' = cs" by (simp add: list_claims_def)
  with assms(3) b have bound: "check_claim_bound cs' es rs c = Inr ()" and c: "c \<in> set cs'" by auto
  from list_claims_inv [OF l(3)] c have "check_claim False c = Inr ()" by simp
  moreover from assms(4) have "cl_grade c \<in> {E2, E3}" by (cases "cl_grade c") (simp_all add: less_eq_claim_grade_def)
  ultimately have "cl_pair_sha256 c \<noteq> None"
    by (auto simp: check_claim_def bind_eq_Inr violation_unless_eq_Inr split: if_splits)
  with bound l show ?thesis by (auto simp: check_claim_bound_def bind_eq_Inr list_evidence_def)
qed

end
