(* ===== verification/Governance_Claims.thy ===== *)
theory Governance_Claims
  imports Governance Grade_Facts
begin

text \<open>
  The decision log under appends, the contents of a decision that was taken, the records the
  registries accept, and the projection that governance validates.
\<close>

section \<open>The decision log\<close>

lemma read_decisions_snoc:
  "read_decisions a acc (ls @ [l]) = bind (read_decisions a acc ls) (\<lambda>ds. read_decisions a ds [l])"
proof (induction ls arbitrary: acc)
  case Nil
  then show ?case by simp
next
  case (Cons k ks)
  then show ?case by (auto simp: bind_def split: sum.splits prod.splits)
qed

lemma read_decisions_own:
  assumes "check_promotion_decision d = Inr ()" and "verify_authoritative a d = Inr ()"
  shows "read_decisions a acc [Some (entry_line (decision_dict d))] = Inr (acc @ [d])"
proof -
  have h: "decision_hashes d (decision_dict d) = Inr [decision_sha256 d]"
  proof -
    have "\<not> (\<exists>k \<in> set legacy_fields. fmlookup (decision_dict d) k = None)" using decision_dict_fields(2) by blast
    then show ?thesis unfolding decision_hashes_def by (simp only: if_False)
  qed
  show ?thesis
    using assms parse_own_entry [where of_dict = decision_of_dict, OF decision_decode [OF assms(1)] decision_dict_fields(1)]
    by (simp add: h log_unless_def decision_sha256_def)
qed

lemma read_decisions_inv:
  "read_decisions a acc ls = Inr ds \<Longrightarrow> (\<forall>d \<in> set acc. check_promotion_decision d = Inr () \<and> verify_authoritative a d = Inr ())
     \<Longrightarrow> (\<forall>d \<in> set ds. check_promotion_decision d = Inr () \<and> verify_authoritative a d = Inr ())"
proof (induction ls arbitrary: acc)
  case Nil
  then show ?case by simp
next
  case (Cons l ls)
  let ?parse = "parse_entry decision_of_dict DecisionLogError ''invalid promotion decision'' l"
  from Cons.prems(1) obtain d p h where e: "?parse = Inr (d, p, h)" by (cases ?parse) auto
  with Cons.prems(1) have v: "verify_authoritative a d = Inr ()" and r: "read_decisions a (acc @ [d]) ls = Inr ds"
    by (simp_all add: bind_eq_Inr del: split_paired_Ex) blast+
  from e have "check_promotion_decision d = Inr ()"
    by (auto simp: parse_entry_def rewrap_eq_Inr bind_eq_Inr decision_of_dict_def mk_decision_def split: option.splits)
  with Cons.prems(2) v show ?case by (intro Cons.IH [OF r]) auto
qed

lemma all_decisions_inv:
  assumes "all_decisions a f = Inr ds"
  shows "distinct (map pd_decision_id ds)
     \<and> (\<forall>d \<in> set ds. check_promotion_decision d = Inr () \<and> verify_authoritative a d = Inr ())"
  using assms read_decisions_inv [of a "[]" "lf_lines f" ds]
  by (auto simp: all_decisions_def bind_eq_Inr log_unless_def require_eq_Inr)

lemma all_decisions_lock [simp]: "all_decisions a (f\<lparr>lf_locked := b\<rparr>) = all_decisions a f"
  by (simp add: all_decisions_def)

definition with_decision :: "promotion_decision \<Rightarrow> line_file \<Rightarrow> line_file" where
  "with_decision d f = f\<lparr>lf_lines := lf_lines f @ [stored_line (entry_line (decision_dict d))]\<rparr>"

text \<open>The outcomes of an append to a readable log.\<close>

lemma decision_append_run:
  assumes ds: "all_decisions a f = Inr ds" and run: "decision_append a d f = (f', r)"
  shows "(f' = f \<and> (r = Inr False \<and> d \<in> set ds \<or> \<not> is_ok r))
     \<or> (f' = with_decision d f \<and> r = Inr True \<and> \<not> lf_locked f \<and> verify_authoritative a d = Inr ()
        \<and> pd_decision_id d \<notin> pd_decision_id ` set ds)"
proof (cases "verify_authoritative a d")
  case (Inl e)
  with run show ?thesis by (auto simp: decision_append_def)
next
  case (Inr u)
  show ?thesis
  proof (cases "find (\<lambda>x. pd_decision_id x = pd_decision_id d) ds")
    case (Some e)
    with run Inr ds show ?thesis
      by (auto simp: decision_append_def known_decision_def raise_def split: if_splits dest: find_SomeD)
  next
    case None
    then have k: "known_decision d ds = Inr False" by (simp add: known_decision_def)
    have u: "\<not> lf_locked f \<Longrightarrow> f\<lparr>lf_lines := xs, lf_locked := False\<rparr> = f\<lparr>lf_lines := xs\<rparr>" for xs
      by (cases f) simp
    have "decision_append a d f = (if lf_locked f
        then (f, Inl (Err DecisionLogBusy ''promotion decision writer lease is held'')) else (with_decision d f, Inr True))"
      by (simp add: decision_append_def Inr ds k with_writer_def write_entry_def with_decision_def u)
    with run Inr None show ?thesis by (auto simp: find_None_iff image_iff split: if_splits)
  qed
qed

lemma all_decisions_with:
  assumes "all_decisions a f = Inr ds" and "check_promotion_decision d = Inr ()" and "verify_authoritative a d = Inr ()"
    and "pd_decision_id d \<notin> pd_decision_id ` set ds" and "stored_line (entry_line (decision_dict d)) \<noteq> None"
  shows "all_decisions a (with_decision d f) = Inr (ds @ [d])"
proof -
  from assms(5) have s: "stored_line (entry_line (decision_dict d)) = Some (entry_line (decision_dict d))"
    by (auto simp: stored_line_def split: if_splits)
  have "read_decisions a [] (lf_lines f @ [Some (entry_line (decision_dict d))]) = Inr (ds @ [d])"
    unfolding read_decisions_snoc using assms(1) read_decisions_own [OF assms(2,3), of ds]
    by (auto simp: all_decisions_def bind_eq_Inr)
  moreover have "distinct (map pd_decision_id (ds @ [d]))" using all_decisions_inv [OF assms(1)] assms(4) by auto
  ultimately show ?thesis by (simp add: all_decisions_def with_decision_def s log_unless_def)
qed

lemma all_decisions_broken:
  assumes "stored_line (entry_line (decision_dict d)) = None"
  shows "\<not> is_ok (all_decisions a (with_decision d f))"
proof -
  have "\<not> is_ok (read_decisions a [] (lf_lines f @ [None]))"
    unfolding read_decisions_snoc
    by (auto simp: is_ok_iff bind_eq_Inr parse_entry_def rewrap_eq_Inr)
  with assms show ?thesis by (auto simp: all_decisions_def with_decision_def is_ok_iff bind_eq_Inr)
qed

section \<open>Signatures\<close>

lemma sign_verify:
  assumes "sign_decision a d = Inr s"
  shows "verify_decision a s \<and> check_promotion_decision s = Inr ()
     \<and> s = d\<lparr>pd_authority_key_id := pd_authority_key_id s, pd_signature := pd_signature s\<rparr>"
proof -
  from assms obtain u where u: "u = d\<lparr>pd_authority_key_id := Some (ga_key_id a), pd_signature := None\<rparr>"
    and s: "s = u\<lparr>pd_signature := Some (decision_signature a u)\<rparr>" and c: "check_promotion_decision s = Inr ()"
    by (auto simp: sign_decision_def mk_decision_def bind_eq_Inr)
  from s have "s\<lparr>pd_signature := None\<rparr> = u" by (simp add: u)
  with u s c show ?thesis by (simp add: verify_decision_def)
qed

lemma sign_fields:
  assumes "sign_decision a d = Inr s"
  shows "pd_decision_id s = pd_decision_id d \<and> pd_candidate_id s = pd_candidate_id d
     \<and> pd_candidate_revision_id s = pd_candidate_revision_id d \<and> pd_gate s = pd_gate d \<and> pd_grade s = pd_grade d
     \<and> pd_claim_ids s = pd_claim_ids d \<and> pd_prediction_evidence_ids s = pd_prediction_evidence_ids d
     \<and> pd_human_approval s = pd_human_approval d \<and> pd_evidence_state_sha256 s = pd_evidence_state_sha256 d"
  using assms by (auto simp: sign_decision_def mk_decision_def bind_eq_Inr)

section \<open>Decisions taken\<close>

lemma decide_facts:
  assumes "decide auth log_auth c ev rows human at f = (f', Inr d)"
  shows "\<exists>gate p. decide_checks c ev rows = Inr ()
     \<and> evaluate (cr_candidate_id c) rows (cr_active c) human (Some (es_grade ev)) = Inr gate
     \<and> p = proposed_decision auth c ev rows human at gate \<and> check_promotion_decision p = Inr ()
     \<and> (if gate = APPROVED then \<exists>a. auth = Some a \<and> sign_decision a p = Inr d else d = p)
     \<and> (\<exists>b. decision_append log_auth d f = (f', Inr b))"
  using assms
  by (auto simp: decide_def obind_eq_Inr olift_eq_Inr bind_eq_Inr mk_decision_def raise_def oreturn_def
      split: if_splits option.splits)

lemma evaluate_approved:
  assumes "evaluate cand rows active human grade = Inr APPROVED"
  shows "\<not> active \<and> human \<and> rows \<noteq> [] \<and> (\<forall>c \<in> set rows. cl_candidate_id c = cand \<and> cl_classification c = GAIN)
     \<and> (grade = Some g \<longrightarrow> g = E3)"
proof -
  have "g = E3" if "\<not> g < E3" for g using that by (cases g) (simp_all add: less_claim_grade_def)
  with assms show ?thesis
    by (auto simp: evaluate_def bind_eq_Inr violation_unless_eq_Inr Let_def list_all_iff split: if_splits)
qed

section \<open>The projection\<close>

text \<open>Everything a run of \<open>aggregate\<close> over at least one claim went through, and the fields it set.\<close>

definition aggregate_run ::
  "grade_machine \<Rightarrow> string \<Rightarrow> dict \<Rightarrow> string option \<Rightarrow> evidence_state \<Rightarrow> claim list \<Rightarrow> evidence_envelope list
     \<Rightarrow> (string \<times> claim) list \<Rightarrow> json list \<Rightarrow> receipt list \<Rightarrow> string list list \<Rightarrow> bool \<Rightarrow> bool" where
  "aggregate_run m cand projects mech st latest es tcs ps rs preds rebuilt \<longleftrightarrow>
     latest_claims (gm_graph m) = Inr latest \<and> list_evidence (gm_graph m) = Inr es
     \<and> bind_tasks es [] (filter (\<lambda>c. cl_candidate_id c = cand) latest) = Inr tcs
     \<and> task_project_set tcs projects = Inr ps
     \<and> (case gm_store m of None \<Rightarrow> Inr [] | Some s \<Rightarrow> list_receipts s) = Inr rs
     \<and> mapM (prediction_of_task m es rs mech) tcs = Inr preds
     \<and> (rebuilt \<longrightarrow> (\<exists>s h. gm_store m = Some s \<and> graph_rebuild s ((gm_graph m)\<lparr>eg_legacy := False\<rparr>) = Inr h))
     \<and> (list_all (\<lambda>(t, c). E2 \<le> cl_grade c) tcs \<and> gm_store m \<noteq> None \<longrightarrow> rebuilt)
     \<and> (es_e3_eligible st \<longleftrightarrow> (case mech of None \<Rightarrow> False | Some k \<Rightarrow> \<not> blank k) \<and> 3 \<le> length tcs \<and> 2 \<le> length ps
          \<and> 2 \<le> count_class tcs GAIN \<and> count_class tcs REGRESSION = 0 \<and> count_class tcs INFRA_FAILURE = 0
          \<and> list_all (\<lambda>(t, c). E2 \<le> cl_grade c) tcs \<and> rebuilt \<and> length (filter (\<lambda>ids. ids \<noteq> []) preds) = length tcs)
     \<and> es_grade st = (if count_class tcs INFRA_FAILURE \<noteq> 0 then E1 else if es_e3_eligible st then E3
          else if list_all (\<lambda>(t, c). E2 \<le> cl_grade c) tcs then E2 else E1)
     \<and> es_candidate_id st = cand \<and> es_claim_ids st = sort (map (\<lambda>(t, c). cl_claim_id c) tcs)
     \<and> es_task_count st = length tcs \<and> es_project_count st = length ps \<and> es_gain_count st = count_class tcs GAIN
     \<and> es_neutral_count st = count_class tcs NEUTRAL \<and> es_regression_count st = count_class tcs REGRESSION
     \<and> es_infra_count st = count_class tcs INFRA_FAILURE \<and> es_mechanism_id st = mech
     \<and> es_prediction_consistent st = length (filter (\<lambda>ids. ids \<noteq> []) preds)
     \<and> es_prediction_evidence_ids st = sort (concat preds)"

lemma aggregate_facts:
  assumes run: "aggregate m cand projects mech = Inr st" and l: "latest_claims (gm_graph m) = Inr latest"
    and ne: "filter (\<lambda>c. cl_candidate_id c = cand) latest \<noteq> []"
  shows "\<exists>es tcs ps rs preds rebuilt. aggregate_run m cand projects mech st latest es tcs ps rs preds rebuilt"
proof -
  let ?rb = "\<lambda>tcs. case gm_store m of
             Some s \<Rightarrow> if list_all (\<lambda>(t, c). E2 \<le> cl_grade c) tcs
               then bind (graph_rebuild s ((gm_graph m)\<lparr>eg_legacy := False\<rparr>)) (\<lambda>_. Inr True) else Inr False
           | None \<Rightarrow> Inr False"
  from run l ne obtain es tcs ps rs preds rebuilt where r: "list_evidence (gm_graph m) = Inr es"
    "bind_tasks es [] (filter (\<lambda>c. cl_candidate_id c = cand) latest) = Inr tcs"
    "task_project_set tcs projects = Inr ps" "(case gm_store m of None \<Rightarrow> Inr [] | Some s \<Rightarrow> list_receipts s) = Inr rs"
    "mapM (prediction_of_task m es rs mech) tcs = Inr preds" and b: "?rb tcs = Inr rebuilt"
    by (auto simp: aggregate_def bind_eq_Inr Let_def)
  from b have b': "(rebuilt \<longrightarrow> (\<exists>s h. gm_store m = Some s \<and> graph_rebuild s ((gm_graph m)\<lparr>eg_legacy := False\<rparr>) = Inr h))
     \<and> (list_all (\<lambda>(t, c). E2 \<le> cl_grade c) tcs \<and> gm_store m \<noteq> None \<longrightarrow> rebuilt)"
    by (auto simp: bind_eq_Inr split: option.splits if_splits)
  have "aggregate_run m cand projects mech st latest es tcs ps rs preds rebuilt"
    unfolding aggregate_run_def
  proof (intro conjI l r b' [THEN conjunct1] b' [THEN conjunct2])
  qed (use run l ne r b in \<open>simp_all add: aggregate_def Let_def violation_unless_def bind_eq_Inr require_eq_Inr\<close>,
      auto)
  then show ?thesis by blast
qed

lemma aggregate_graded:
  assumes "aggregate m cand projects mech = Inr st" and "es_grade st \<noteq> E0"
  shows "\<exists>latest. latest_claims (gm_graph m) = Inr latest \<and> filter (\<lambda>c. cl_candidate_id c = cand) latest \<noteq> []"
proof -
  from assms(1) obtain latest where l: "latest_claims (gm_graph m) = Inr latest" by (auto simp: aggregate_def bind_eq_Inr)
  have "filter (\<lambda>c. cl_candidate_id c = cand) latest \<noteq> []"
  proof
    assume "filter (\<lambda>c. cl_candidate_id c = cand) latest = []"
    with assms(1) l have "st = empty_state cand mech" by (simp add: aggregate_def bind_eq_Inr)
    with assms(2) show False by (simp add: empty_state_def)
  qed
  with l show ?thesis by blast
qed


text \<open>
  The properties of the grade projection, the promotion gate, the decision log and the
  authoritative registries.
\<close>

section \<open>The grade projection\<close>

lemma aggregate_tasks:
  assumes "bind_tasks es [] (filter (\<lambda>c. cl_candidate_id c = cand) latest) = Inr tcs" and "latest_claims g = Inr latest"
  shows "map snd tcs = filter (\<lambda>c. cl_candidate_id c = cand) latest \<and> distinct (map fst tcs)
     \<and> (\<forall>(t, c) \<in> set tcs. claim_tasks es c = [t]) \<and> (\<exists>cs. list_claims g = Inr cs \<and> set (map snd tcs) \<subseteq> set cs)"
proof -
  note l = latest_of_candidate [OF assms(2), of "\<lambda>c. cl_candidate_id c = cand"]
  from bind_tasks_spec [OF assms(1)] l have "map snd tcs = filter (\<lambda>c. cl_candidate_id c = cand) latest \<and> distinct (map fst tcs)
     \<and> (\<forall>(t, c) \<in> set tcs. claim_tasks es c = [t])" by simp
  with l show ?thesis by auto
qed

text \<open>
  C15: A grade of E2 or E3 that a machine with a receipt store projects rests on stored records:
  every counted claim is a current claim of the candidate, one per task, and rebuilds from the
  receipts.  Grade E3 moreover means at least three tasks in two projects, two gains and no
  regression or infrastructure failure, and in both arms of every task an observation the
  trusted observer accepted with its receipts, whose effect is consistent in the taught arm
  and not in the baseline.
\<close>

theorem grade_rests_on_stored_evidence:
  assumes "aggregate m cand projects mech = Inr st" and "E2 \<le> es_grade st" and "gm_store m = Some s"
  shows "\<exists>latest es rs tcs. latest_claims (gm_graph m) = Inr latest \<and> list_evidence (gm_graph m) = Inr es
     \<and> list_receipts s = Inr rs \<and> map snd tcs = filter (\<lambda>c. cl_candidate_id c = cand) latest \<and> distinct (map fst tcs)
     \<and> (\<forall>(t, c) \<in> set tcs. claim_tasks es c = [t] \<and> E2 \<le> cl_grade c \<and> rebuild_counterfactual_binding c es rs = Inr ())
     \<and> (es_grade st = E3 \<longrightarrow> 3 \<le> length tcs \<and> 2 \<le> card (get projects ` fst ` set tcs) \<and> 2 \<le> count_class tcs GAIN
          \<and> count_class tcs REGRESSION = 0 \<and> count_class tcs INFRA_FAILURE = 0
          \<and> (\<exists>k v. mech = Some k \<and> gm_verifier m = Some v \<and> (\<forall>(t, c) \<in> set tcs. \<forall>arm \<in> {''baseline'', ''taught''}.
               \<exists>plan i. plan_trusted \<lparr>pc_evidence = es, pc_task = t, pc_mechanism = k, pc_claim_ids = cl_evidence_ids c,
                 pc_verifier = v, pc_receipts = rs, pc_reader = \<lambda>h. read_artifact h s\<rparr> plan arm i)))"
proof -
  from assms(2) have "es_grade st \<noteq> E0" by (auto simp: less_eq_claim_grade_def)
  from aggregate_graded [OF assms(1) this] aggregate_facts [OF assms(1)] obtain latest es tcs ps rs preds rebuilt where
    run: "aggregate_run m cand projects mech st latest es tcs ps rs preds rebuilt" by blast
  note r = run [unfolded aggregate_run_def]
  from r have l: "latest_claims (gm_graph m) = Inr latest" "list_evidence (gm_graph m) = Inr es"
      "bind_tasks es [] (filter (\<lambda>c. cl_candidate_id c = cand) latest) = Inr tcs" "task_project_set tcs projects = Inr ps"
      "list_receipts s = Inr rs" "mapM (prediction_of_task m es rs mech) tcs = Inr preds"
    and st: "es_grade st = (if count_class tcs INFRA_FAILURE \<noteq> 0 then E1 else if es_e3_eligible st then E3
          else if list_all (\<lambda>(t, c). E2 \<le> cl_grade c) tcs then E2 else E1)" using assms(3) by simp_all
  note t = aggregate_tasks [OF l(3,1)]
  have valid: "list_all (\<lambda>(t, c). E2 \<le> cl_grade c) tcs"
    using assms(2) r by (auto simp: less_eq_claim_grade_def split: if_splits)
  then have "\<exists>s h. gm_store m = Some s \<and> graph_rebuild s ((gm_graph m)\<lparr>eg_legacy := False\<rparr>) = Inr h"
    using r assms(3) by simp
  then obtain h where "graph_rebuild s ((gm_graph m)\<lparr>eg_legacy := False\<rparr>) = Inr h" using assms(3) by auto
  note backed = strict_rebuild_backs [OF this]
  from t obtain cs where cs: "list_claims (gm_graph m) = Inr cs" "set (map snd tcs) \<subseteq> set cs" by blast
  have rebuilt: "rebuild_counterfactual_binding c es rs = Inr ()" if "(t', c) \<in> set tcs" for t' c
  proof -
    from that cs(2) have "c \<in> set cs" by force
    moreover from that valid have "E2 \<le> cl_grade c" by (auto simp: list_all_iff)
    ultimately show ?thesis using backed [OF cs(1)] l(2,5) by auto
  qed
  have e3: "3 \<le> length tcs \<and> 2 \<le> card (get projects ` fst ` set tcs) \<and> 2 \<le> count_class tcs GAIN
          \<and> count_class tcs REGRESSION = 0 \<and> count_class tcs INFRA_FAILURE = 0
          \<and> (\<exists>k v. mech = Some k \<and> gm_verifier m = Some v \<and> (\<forall>(t, c) \<in> set tcs. \<forall>arm \<in> {''baseline'', ''taught''}.
               \<exists>plan i. plan_trusted \<lparr>pc_evidence = es, pc_task = t, pc_mechanism = k, pc_claim_ids = cl_evidence_ids c,
                 pc_verifier = v, pc_receipts = rs, pc_reader = \<lambda>h. read_artifact h s\<rparr> plan arm i))"
    if "es_grade st = E3"
  proof -
    from that st have "es_e3_eligible st" by (auto split: if_splits)
    with r obtain k where n: "mech = Some k" "\<not> blank k" "3 \<le> length tcs" "2 \<le> length ps" "2 \<le> count_class tcs GAIN"
      "count_class tcs REGRESSION = 0" "count_class tcs INFRA_FAILURE = 0" "length (filter (\<lambda>ids. ids \<noteq> []) preds) = length tcs"
      by (auto split: option.splits)
    have ps: "length ps = card (get projects ` fst ` set tcs)"
      using l(4) by (auto simp: task_project_set_def bind_eq_Inr Let_def length_remdups_card_conv image_image case_prod_unfold)
    have "length preds = length tcs" using mapM_length [OF l(6)] .
    with n(8) have ne: "ids \<noteq> []" if "ids \<in> set preds" for ids using filter_all [OF _ that, of "\<lambda>ids. ids \<noteq> []"] by simp
    have pred: "\<exists>ids. ids \<noteq> [] \<and> prediction_of_task m es rs mech x = Inr ids" if "x \<in> set tcs" for x
      using mapM_left [OF l(6) that] ne by blast
    obtain x where "x \<in> set tcs" using n(3) by (metis list.set_intros(1) list.size(3) neq_Nil_conv not_numeral_le_zero)
    from pred [OF this] n(1,2) obtain v where v: "gm_verifier m = Some v"
      by (auto simp: prediction_of_task_def split: option.splits)
    have "\<exists>plan i. plan_trusted \<lparr>pc_evidence = es, pc_task = t, pc_mechanism = k, pc_claim_ids = cl_evidence_ids c,
                 pc_verifier = v, pc_receipts = rs, pc_reader = \<lambda>h. read_artifact h s\<rparr> plan arm i"
      if "(t, c) \<in> set tcs" "arm \<in> {''baseline'', ''taught''}" for t c arm
    proof -
      from pred [OF that(1)] n(1,2) v assms(3) obtain ids where "ids \<noteq> []" "task_prediction_evidence
          \<lparr>pc_evidence = es, pc_task = t, pc_mechanism = k, pc_claim_ids = cl_evidence_ids c,
                 pc_verifier = v, pc_receipts = rs, pc_reader = \<lambda>h. read_artifact h s\<rparr> = Inr ids"
        by (auto simp: prediction_of_task_def)
      from task_prediction_trusted [OF this(2,1)] that(2) show ?thesis by blast
    qed
    with n v ps show ?thesis by auto
  qed
  from t rebuilt valid have "\<forall>(t, c) \<in> set tcs. claim_tasks es c = [t] \<and> E2 \<le> cl_grade c
      \<and> rebuild_counterfactual_binding c es rs = Inr ()" by (fastforce simp: list_all_iff)
  with l t e3 show ?thesis
    by (intro exI [of _ latest] exI [of _ es] exI [of _ rs] exI [of _ tcs]) simp
qed

definition d_machine :: grade_machine where
  "d_machine = \<lparr>gm_graph = d_claimed, gm_verifier = None, gm_store = Some d_store\<rparr>"

definition d_projects :: dict where "d_projects = fmap_of_list [(''task'', JStr ''project'')]"

lemma d_aggregate: "\<exists>st. aggregate d_machine ''cand'' d_projects None = Inr st \<and> es_grade st = E2"
proof -
  have c: "\<not> blank ''cand''" "\<not> blank ''project''" by code_simp+
  have u: "unsuperseded [d_claim] = [d_claim]" by (simp add: unsuperseded_def d_claim_fields)
  have f: "fmlookup (ev_payload (d_trace t)) ''task_revision_id'' = Some (JStr ''task'')"
    "fmlookup (ev_payload (d_native t)) ''task_revision_id'' = Some (JStr ''task'')" for t
    by (simp_all add: d_trace_def d_native_def d_evidence_payload)
  have t: "claim_tasks d_envelopes d_claim = [''task'']"
    by (simp add: claim_tasks_def d_claim_fields d_pair_ids d_by_id f)
  have g: "d_claimed\<lparr>eg_legacy := False\<rparr> = d_claimed" by (simp add: d_claimed_def d_graph_def)
  have p: "task_project_set [(''task'', d_claim)] d_projects = Inr [JStr ''project'']"
    by (simp add: task_project_set_def d_projects_def is_text_iff c get_def)
  have n: "count_class [(''task'', d_claim)] INFRA_FAILURE = 0"
    by (simp add: count_class_def d_claim_fields)
  show ?thesis
    by (simp add: aggregate_def c violation_unless_def d_machine_def latest_claims_def d_claimed_lists u Let_def d_claim_fields t p
        d_store_list prediction_of_task_def g d_rebuild n)
qed

lemma grade_rests_on_stored_evidence_witness:
  "\<exists>es rs. list_evidence d_claimed = Inr es \<and> list_receipts d_store = Inr rs \<and> rebuild_counterfactual_binding d_claim es rs = Inr ()"
proof -
  from d_aggregate obtain st where "aggregate d_machine ''cand'' d_projects None = Inr st" "E2 \<le> es_grade st" by auto
  from grade_rests_on_stored_evidence [OF this, of d_store] obtain latest es rs and tcs :: "(string \<times> claim) list" where
    l: "latest_claims d_claimed = Inr latest" "list_evidence d_claimed = Inr es" "list_receipts d_store = Inr rs"
    and t: "map snd tcs = filter (\<lambda>c. cl_candidate_id c = ''cand'') latest"
    and b: "\<forall>(t, c) \<in> set tcs. claim_tasks es c = [t] \<and> E2 \<le> cl_grade c \<and> rebuild_counterfactual_binding c es rs = Inr ()"
    unfolding d_machine_def by auto
  have "latest = [d_claim]" using l(1) by (simp add: latest_claims_def d_claimed_lists unsuperseded_def d_claim_fields)
  with t have "map snd tcs = [d_claim]" by (simp add: d_claim_fields)
  then have "d_claim \<in> set (map snd tcs)" by simp
  with b l show ?thesis by auto
qed

text \<open>
  C17: What a grade machine projects is what governance accepts: over the candidate's current
  claims, the counts, the cap of infrastructure failures and the conditions of E3 that
  \<open>_validate_evidence_state\<close> checks always hold, and the state names those claims.
\<close>

theorem projection_passes_governance:
  assumes "aggregate m cand projects mech = Inr st" and "latest_claims (gm_graph m) = Inr latest"
    and "rows = filter (\<lambda>c. cl_candidate_id c = cand) latest" and "rows \<noteq> []"
  shows "validate_evidence_state st rows = Inr () \<and> es_candidate_id st = cand \<and> es_claim_ids st = sort (map cl_claim_id rows)"
proof -
  from aggregate_facts [OF assms(1,2)] assms(3,4) obtain es tcs ps rs preds rebuilt where
    run: "aggregate_run m cand projects mech st latest es tcs ps rs preds rebuilt" by blast
  then have b: "bind_tasks es [] (filter (\<lambda>c. cl_candidate_id c = cand) latest) = Inr tcs" "task_project_set tcs projects = Inr ps"
      "mapM (prediction_of_task m es rs mech) tcs = Inr preds"
    and e3: "es_e3_eligible st \<longrightarrow> (case mech of None \<Rightarrow> False | Some k \<Rightarrow> \<not> blank k) \<and> 3 \<le> length tcs \<and> 2 \<le> length ps
          \<and> 2 \<le> count_class tcs GAIN \<and> count_class tcs REGRESSION = 0 \<and> count_class tcs INFRA_FAILURE = 0
          \<and> length (filter (\<lambda>ids. ids \<noteq> []) preds) = length tcs"
    by (simp_all add: aggregate_run_def)
  from aggregate_tasks [OF b(1) assms(2)] assms(3) have rows: "map snd tcs = rows" by simp
  have n: "count_class tcs k = count_rows rows k" for k
    by (simp add: rows [symmetric] count_class_def count_rows_def filter_map comp_def case_prod_unfold)
  have ids: "map (\<lambda>(t, c). cl_claim_id c) tcs = map cl_claim_id rows"
    by (simp add: rows [symmetric] case_prod_unfold)
  have len: "length tcs = length rows" by (simp add: rows [symmetric])
  have six: "2 * length tcs \<le> length (concat preds)" if "length (filter (\<lambda>ids. ids \<noteq> []) preds) = length tcs"
  proof -
    have eq: "length preds = length tcs" using mapM_length [OF b(3)] .
    have "length ids = 6" if ids: "ids \<in> set preds" for ids
    proof -
      from mapM_right [OF b(3) ids] obtain x where x: "prediction_of_task m es rs mech x = Inr ids" by blast
      have "ids \<noteq> []" using filter_all [OF _ ids, of "\<lambda>ids. ids \<noteq> []"] \<open>length (filter (\<lambda>ids. ids \<noteq> []) preds) = length tcs\<close> eq by simp
      with x obtain pc where "task_prediction_evidence pc = Inr ids"
        by (auto simp: prediction_of_task_def split: option.splits if_splits)
      from task_prediction_trusted [OF this \<open>ids \<noteq> []\<close>] show ?thesis ..
    qed
    then have "length (concat preds) = 6 * length preds" by (induction preds) auto
    with eq show ?thesis by simp
  qed
  from run have g: "es_grade st = (if es_infra_count st \<noteq> 0 then E1 else if es_e3_eligible st then E3
            else if list_all (\<lambda>(t, c). E2 \<le> cl_grade c) tcs then E2 else E1)"
    "es_task_count st = length rows" "es_gain_count st = count_rows rows GAIN" "es_neutral_count st = count_rows rows NEUTRAL"
    "es_regression_count st = count_rows rows REGRESSION" "es_infra_count st = count_rows rows INFRA_FAILURE"
    "es_project_count st = length ps" "es_mechanism_id st = mech" "es_candidate_id st = cand"
    "es_claim_ids st = sort (map cl_claim_id rows)" "es_prediction_evidence_ids st = sort (concat preds)"
    "es_prediction_consistent st = length (filter (\<lambda>ids. ids \<noteq> []) preds)"
    by (simp_all add: aggregate_run_def n ids len)
  have e: "es_grade st = E3 \<Longrightarrow> es_e3_eligible st" using g(1) by (auto split: if_splits)
  have m: "es_e3_eligible st \<Longrightarrow> mech \<notin> {None, Some []}" using e3 by (auto split: option.splits)
  have i: "es_infra_count st = 0 \<or> es_grade st = E1" using g(1) by simp
  have "es_grade st \<noteq> E3 \<or> (es_e3_eligible st \<and> 3 \<le> es_task_count st \<and> 2 \<le> es_project_count s'
        \<and> 2 \<le> es_gain_count st \<and> es_regression_count st = 0 \<and> es_infra_count st = 0
        \<and> es_prediction_consistent st = es_task_count st \<and> 2 * es_task_count st \<le> length (es_prediction_evidence_ids st)
        \<and> es_mechanism_id st \<notin> {None, Some []})" if "s' = st" for s'
    using e3 six e m that by (auto simp: g(2-) len n)
  from this [OF refl] i have "validate_evidence_state st rows = Inr ()"
    unfolding validate_evidence_state_def by (simp add: violation_unless_def g(2-6))
  with g show ?thesis by simp
qed

lemma projection_passes_governance_witness:
  "\<exists>st. aggregate d_machine ''cand'' d_projects None = Inr st \<and> validate_evidence_state st [d_claim] = Inr ()"
proof -
  from d_aggregate obtain st where st: "aggregate d_machine ''cand'' d_projects None = Inr st" by blast
  have "latest_claims (gm_graph d_machine) = Inr [d_claim]"
    by (simp add: d_machine_def latest_claims_def d_claimed_lists unsuperseded_def d_claim_fields)
  from projection_passes_governance [OF st this, of "[d_claim]"] st show ?thesis by (auto simp: d_claim_fields)
qed

end
