(* ===== verification/Promotion_Claims.thy ===== *)
theory Promotion_Claims
  imports Governance_Claims
begin

text \<open>
  From an approved decision to a capability: the grounds of an approval, its signature, the
  decision log, and what the capability registry demands.
\<close>

section \<open>Line breaks in a decision\<close>

definition decision_texts :: "promotion_decision \<Rightarrow> string list" where
  "decision_texts d = [pd_decision_id d, pd_candidate_id d, pd_candidate_revision_id d, pd_decided_at d, pd_rationale d]
     @ pd_claim_ids d @ pd_prediction_evidence_ids d @ (case pd_authority_key_id d of None \<Rightarrow> [] | Some k \<Rightarrow> [k])"

lemma decision_breaks:
  assumes "check_promotion_decision d = Inr ()"
  shows "stored_line (entry_line (decision_dict d)) = None \<longleftrightarrow> (\<exists>s \<in> set (decision_texts d). has_break s)"
proof -
  let ?kvs = "(''record_sha256'', JStr (digest (JObj (decision_dict d)))) #
     [(''decision_id'', JStr (pd_decision_id d)), (''candidate_id'', JStr (pd_candidate_id d)),
      (''candidate_revision_id'', JStr (pd_candidate_revision_id d)), (''gate_decision'', JStr (gate_text (pd_gate d))),
      (''evidence_grade'', JStr (grade_text (pd_grade d))), (''claim_ids'', str_list (pd_claim_ids d)),
      (''prediction_evidence_ids'', str_list (pd_prediction_evidence_ids d)),
      (''human_approval'', JBool (pd_human_approval d)), (''decided_at'', JStr (pd_decided_at d)),
      (''rationale'', JStr (pd_rationale d)), (''evidence_state_sha256'', opt_str (pd_evidence_state_sha256 d)),
      (''authority_key_id'', opt_str (pd_authority_key_id d)),
      (''authority_signature_hmac_sha256'', opt_str (pd_signature d))]"
  have e: "entry_line (decision_dict d) = JObj (fmap_of_list ?kvs)"
    unfolding entry_line_def decision_dict_def by simp
  have dist: "distinct (map fst ?kvs)" by simp
  have sha: "\<not> has_break (json_text (opt_str (pd_evidence_state_sha256 d)))" "\<not> has_break (json_text (opt_str (pd_signature d)))"
    using assms
    by (auto simp: check_promotion_decision_def bind_eq_Inr optional_sha256_def violation_unless_eq_Inr has_break_string
        has_break_hex breaks_line_def split: option.splits)
  have fixed: "\<not> has_break (gate_text g)" "\<not> has_break (grade_text h)" "\<not> has_break (json_text (JBool b))" for g h b
    by ((cases g; simp add: breaks_line_def), (cases h; simp add: breaks_line_def), (cases b; simp add: breaks_line_def))
  have opt: "has_break (json_text (opt_str x)) \<longleftrightarrow> (\<exists>s \<in> set (case x of None \<Rightarrow> [] | Some k \<Rightarrow> [k]). has_break s)" for x
    by (cases x) (simp_all add: has_break_string breaks_line_def)
  have keys: "list_all (\<lambda>k. \<not> has_break k) (map fst ?kvs)" by (simp add: breaks_line_def)
  have "stored_line (entry_line (decision_dict d)) = None \<longleftrightarrow> has_break (json_text (JObj (fmap_of_list ?kvs)))"
    unfolding e by (simp add: stored_line_def del: json_text.simps)
  also have "\<dots> \<longleftrightarrow> list_ex (\<lambda>j. has_break (json_text j)) (map snd ?kvs)"
    by (rule has_break_fields [OF dist keys])
  also have "\<dots> \<longleftrightarrow> (\<exists>s \<in> set (decision_texts d). has_break s)"
    using sha fixed(3)
    by (simp add: decision_texts_def has_break_string fixed has_break_hex has_break_str_list [folded str_list_def] opt bex_Un
        del: json_text.simps(2,6,7)) blast
  finally show ?thesis .
qed

section \<open>A decision in the small\<close>

text \<open>Three gains over two projects, an E3 state about them, and an empty log.\<close>

definition g_key :: authority where "g_key = \<lparr>ga_key_id = ''key'', ga_secret = replicate 32 7\<rparr>"

definition g_claim :: "string \<Rightarrow> claim" where
  "g_claim i = \<lparr>cl_claim_id = i, cl_candidate_id = ''cand'', cl_grade = E2, cl_classification = GAIN, cl_evidence_ids = [''e''],
     cl_rationale = ''r'', cl_supersedes_claim_id = None, cl_pair_sha256 = None, cl_receipt_ids = []\<rparr>"

definition g_rows :: "claim list" where "g_rows = map g_claim [''c1'', ''c2'', ''c3'']"

definition g_candidate :: candidate_record where
  "g_candidate = \<lparr>cr_candidate_id = ''cand'', cr_revision_id = ''rev'', cr_candidate_kind = ''skill'',
     cr_source_claim_ids = [''c1'', ''c2'', ''c3''], cr_artifact_sha256 = digest JNull, cr_active = False\<rparr>"

definition g_state :: evidence_state where
  "g_state = \<lparr>es_candidate_id = ''cand'', es_grade = E3, es_classification = ''gain'', es_claim_ids = [''c1'', ''c2'', ''c3''],
     es_task_revision_ids = [''t1'', ''t2'', ''t3''], es_task_count = 3, es_project_count = 2, es_gain_count = 3,
     es_neutral_count = 0, es_regression_count = 0, es_infra_count = 0, es_mechanism_id = Some ''mech'',
     es_prediction_consistent = 3, es_prediction_evidence_ids = replicate 18 ''p'', es_e3_eligible = True, es_rationale = ''three gains''\<rparr>"

definition g_log :: line_file where "g_log = \<lparr>lf_lines = [], lf_locked = False\<rparr>"

definition g_unsigned :: promotion_decision where
  "g_unsigned = proposed_decision (Some g_key) g_candidate g_state g_rows True ''now'' APPROVED"

definition g_decision :: promotion_decision where
  "g_decision = g_unsigned\<lparr>pd_signature := Some (decision_signature g_key g_unsigned)\<rparr>"

lemma g_unsigned_fields [simp]:
  "pd_candidate_id g_unsigned = ''cand''" "pd_candidate_revision_id g_unsigned = ''rev''" "pd_gate g_unsigned = APPROVED"
  "pd_grade g_unsigned = E3" "pd_claim_ids g_unsigned = [''c1'', ''c2'', ''c3'']"
  "pd_prediction_evidence_ids g_unsigned = replicate 18 ''p''" "pd_human_approval g_unsigned"
  "pd_decided_at g_unsigned = ''now''" "pd_rationale g_unsigned = ''approved: three gains''"
  "pd_evidence_state_sha256 g_unsigned = Some (digest (JObj (evidence_state_dict g_state)))"
  "pd_authority_key_id g_unsigned = Some ''key''" "pd_signature g_unsigned = None"
proof -
  have s: "sort [''c1'', ''c2'', ''c3''] = [''c1'', ''c2'', ''c3'' :: string]" by code_simp
  show "pd_candidate_id g_unsigned = ''cand''" "pd_candidate_revision_id g_unsigned = ''rev''" "pd_gate g_unsigned = APPROVED"
    "pd_grade g_unsigned = E3" "pd_claim_ids g_unsigned = [''c1'', ''c2'', ''c3'']"
    "pd_prediction_evidence_ids g_unsigned = replicate 18 ''p''" "pd_human_approval g_unsigned"
    "pd_decided_at g_unsigned = ''now''" "pd_rationale g_unsigned = ''approved: three gains''"
    "pd_evidence_state_sha256 g_unsigned = Some (digest (JObj (evidence_state_dict g_state)))"
    "pd_authority_key_id g_unsigned = Some ''key''" "pd_signature g_unsigned = None"
    by (simp_all add: g_unsigned_def proposed_decision_def Let_def g_candidate_def g_state_def g_rows_def g_claim_def g_key_def s)
qed

lemma g_id: "\<exists>j. pd_decision_id g_unsigned = ''decision-'' @ digest j"
  unfolding g_unsigned_def by (auto simp: proposed_decision_def Let_def decision_identity_def)

lemma g_unsigned_check: "check_promotion_decision g_unsigned = Inr ()"
proof -
  have b: "\<not> blank ''cand''" "\<not> blank ''rev''" "\<not> blank ''now''" "\<not> blank ''approved: three gains''" "\<not> blank ''key''" by code_simp+
  have "\<not> blank (pd_decision_id g_unsigned)" using g_id by (auto simp: blank_def is_space_def)
  then show ?thesis by (simp add: check_promotion_decision_def violation_unless_def b optional_sha256_def)
qed

lemma g_decision_check: "check_promotion_decision g_decision = Inr ()"
  using g_unsigned_check
  by (simp add: g_decision_def check_promotion_decision_def bind_eq_Inr violation_unless_eq_Inr optional_sha256_def decision_signature_def
      hmac_sha256_def Let_def sha256_hex_is_sha256)

lemma g_sign: "sign_decision g_key g_unsigned = Inr g_decision"
proof -
  have "g_unsigned\<lparr>pd_authority_key_id := Some (ga_key_id g_key), pd_signature := None\<rparr> = g_unsigned"
    using g_unsigned_fields(11,12) by (cases g_unsigned) (simp add: g_key_def)
  then show ?thesis
    using g_unsigned_check g_decision_check by (simp add: sign_decision_def mk_decision_def flip: g_decision_def)
qed

lemma g_verify: "verify_authoritative (Some g_key) g_decision = Inr ()"
  using sign_verify [OF g_sign] by (simp add: verify_authoritative_def log_unless_def g_decision_def)

lemma g_texts: "\<not> (\<exists>s \<in> set (decision_texts g_decision). has_break s)"
proof -
  obtain j where j: "pd_decision_id g_unsigned = ''decision-'' @ digest j" using g_id by blast
  have "\<not> has_break (digest j)" by (simp add: has_break_hex)
  then show ?thesis by (simp add: decision_texts_def g_decision_def j breaks_line_def)
qed

lemma g_empty: "all_decisions (Some g_key) g_log = Inr []"
  by (simp add: all_decisions_def g_log_def log_unless_def)

lemma g_append: "decision_append (Some g_key) g_decision g_log = (with_decision g_decision g_log, Inr True)"
  by (simp add: decision_append_def g_verify g_empty known_decision_def with_writer_def write_entry_def with_decision_def)
    (simp add: g_log_def)

lemma g_decide: "decide (Some g_key) (Some g_key) g_candidate g_state g_rows True ''now'' g_log
    = (with_decision g_decision g_log, Inr g_decision)"
proof -
  have k: "decide_checks g_candidate g_state g_rows = Inr ()"
    by (simp add: decide_checks_def violation_unless_def validate_evidence_state_def count_rows_def g_candidate_def g_state_def
        g_rows_def g_claim_def)
  have "\<not> blank ''cand''" by code_simp
  then have e: "evaluate ''cand'' g_rows False True (Some E3) = Inr APPROVED"
    by (simp add: evaluate_def violation_unless_def has_class_def g_rows_def g_claim_def Let_def less_claim_grade_def)
  have f: "cr_candidate_id g_candidate = ''cand''" "cr_active g_candidate = False" "es_grade g_state = E3"
    by (simp_all add: g_candidate_def g_state_def)
  show ?thesis
    by (simp add: decide_def k e f mk_decision_def g_unsigned_check g_sign flip: g_unsigned_def) (simp add: obind_def g_append)
qed

section \<open>The decision log\<close>

text \<open>
  C18: A decision the log takes is appended behind the decisions it held; the log can be read
  from then on exactly when no text of the decision contains the line break U+0085, and then
  it ends with the decision, repeating the append changes nothing, and a different decision
  under the same id is refused.
\<close>

theorem decision_log_readable_iff_no_line_break:
  assumes "all_decisions a f = Inr ds" and "check_promotion_decision d = Inr ()" and "decision_append a d f = (f', Inr True)"
  shows "(is_ok (all_decisions a f') \<longleftrightarrow> \<not> (\<exists>s \<in> set (decision_texts d). has_break s))
     \<and> (is_ok (all_decisions a f') \<longrightarrow> all_decisions a f' = Inr (ds @ [d]) \<and> decision_append a d f' = (f', Inr False)
          \<and> (\<forall>e. pd_decision_id e = pd_decision_id d \<and> e \<noteq> d \<longrightarrow> (\<exists>x. decision_append a e f' = (f', Inl x))))"
proof -
  from decision_append_run [OF assms(1,3)] have f': "f' = with_decision d f" and v: "verify_authoritative a d = Inr ()"
    and new: "pd_decision_id d \<notin> pd_decision_id ` set ds" by auto
  note b = decision_breaks [OF assms(2)]
  show ?thesis
  proof (cases "stored_line (entry_line (decision_dict d)) = None")
    case True
    with all_decisions_broken [OF True, of a f] b show ?thesis by (auto simp: f')
  next
    case False
    from all_decisions_with [OF assms(1,2) v new False] have r: "all_decisions a f' = Inr (ds @ [d])" by (simp add: f')
    have again: "\<exists>x. decision_append a e f' = (f', Inl x)" if e: "pd_decision_id e = pd_decision_id d" "e \<noteq> d" for e
    proof -
      obtain g q where run: "decision_append a e f' = (g, q)" by fastforce
      have "e \<notin> set (ds @ [d])" using new e by (auto simp: image_iff)
      with decision_append_run [OF r run] e(1) have "g = f'" "\<not> is_ok q" by auto
      with run show ?thesis by (cases q) auto
    qed
    obtain g q where run: "decision_append a d f' = (g, q)" by fastforce
    have "find (\<lambda>x. pd_decision_id x = pd_decision_id d) ds = None" using new by (auto simp: find_None_iff image_iff)
    then have "verify_authoritative a d = Inr () \<and> find (\<lambda>x. pd_decision_id x = pd_decision_id d) (ds @ [d]) = Some d"
      using v by (simp add: find_append)
    with r have "decision_append a d f' = (f', Inr False)"
      by (simp add: decision_append_def known_decision_def)
    with r again b False show ?thesis by simp
  qed
qed

lemma decision_log_readable_iff_no_line_break_witness:
  "all_decisions (Some g_key) (with_decision g_decision g_log) = Inr [g_decision]
     \<and> decision_append (Some g_key) g_decision (with_decision g_decision g_log) = (with_decision g_decision g_log, Inr False)"
  using decision_log_readable_iff_no_line_break [OF g_empty g_decision_check g_append] g_texts by auto

section \<open>Signatures\<close>

text \<open>
  What the authority signs it verifies, a signature does not change the decision, and a
  decision that verifies under the same signature has the same signed text unless it exhibits
  two different messages with one HMAC under the key.
\<close>

theorem signature_verifies_and_binds:
  assumes "sign_decision k d = Inr s"
  shows "verify_decision k s \<and> s = d\<lparr>pd_authority_key_id := Some (ga_key_id k), pd_signature := pd_signature s\<rparr>
     \<and> (\<forall>e. verify_decision k e \<and> pd_signature e = pd_signature s \<longrightarrow>
          json_text (JObj (signing_payload (e\<lparr>pd_signature := None\<rparr>))) = json_text (JObj (signing_payload (s\<lparr>pd_signature := None\<rparr>)))
          \<or> (\<exists>x y. x \<noteq> y \<and> hmac_sha256 (ga_secret k) (utf8 x) = hmac_sha256 (ga_secret k) (utf8 y)))"
proof -
  note v = sign_verify [OF assms]
  then have key: "pd_authority_key_id s = Some (ga_key_id k)" by (auto simp: verify_decision_def split: option.splits)
  have "json_text (JObj (signing_payload (e\<lparr>pd_signature := None\<rparr>))) = json_text (JObj (signing_payload (s\<lparr>pd_signature := None\<rparr>)))
          \<or> (\<exists>x y. x \<noteq> y \<and> hmac_sha256 (ga_secret k) (utf8 x) = hmac_sha256 (ga_secret k) (utf8 y))"
    if "verify_decision k e" "pd_signature e = pd_signature s" for e
  proof -
    from that v have "decision_signature k (e\<lparr>pd_signature := None\<rparr>) = decision_signature k (s\<lparr>pd_signature := None\<rparr>)"
      by (auto simp: verify_decision_def split: option.splits)
    then show ?thesis unfolding decision_signature_def by blast
  qed
  with v key show ?thesis by simp
qed

lemma signature_verifies_and_binds_witness:
  "verify_decision g_key g_decision
     \<and> g_decision = g_unsigned\<lparr>pd_authority_key_id := Some (ga_key_id g_key), pd_signature := pd_signature g_decision\<rparr>"
  using signature_verifies_and_binds [OF g_sign] by blast

section \<open>Approvals\<close>

text \<open>
  An approved decision means: a human approved, the evidence has grade E3 and satisfies
  the conditions of E3 against the very claims decided on, every one of which belongs to the
  inactive candidate and is a gain, the candidate names exactly these claims as its sources,
  and the decision carries a signature of the service's authority.
\<close>

theorem approval_grounds:
  assumes "decide auth log_auth c ev rows human at f = (f', Inr d)" and "pd_gate d = APPROVED"
  shows "human \<and> pd_human_approval d \<and> es_grade ev = E3 \<and> pd_grade d = E3 \<and> es_e3_eligible ev \<and> 3 \<le> length rows
     \<and> 2 \<le> es_project_count ev \<and> length (pd_prediction_evidence_ids d) \<ge> 2 * length rows
     \<and> (\<forall>x \<in> set rows. cl_candidate_id x = cr_candidate_id c \<and> cl_classification x = GAIN) \<and> \<not> cr_active c
     \<and> set (cr_source_claim_ids c) = cl_claim_id ` set rows \<and> set (pd_claim_ids d) = cl_claim_id ` set rows
     \<and> pd_candidate_id d = cr_candidate_id c \<and> pd_candidate_revision_id d = cr_revision_id c
     \<and> (\<exists>k. auth = Some k \<and> verify_decision k d)"
proof -
  from decide_facts [OF assms(1)] obtain gate p where k: "decide_checks c ev rows = Inr ()"
    and e: "evaluate (cr_candidate_id c) rows (cr_active c) human (Some (es_grade ev)) = Inr gate"
    and p: "p = proposed_decision auth c ev rows human at gate"
    and s: "if gate = APPROVED then \<exists>a. auth = Some a \<and> sign_decision a p = Inr d else d = p" by blast
  have gp: "pd_gate p = gate" by (simp add: p proposed_decision_def Let_def)
  have gate: "gate = APPROVED"
  proof (rule ccontr)
    assume "gate \<noteq> APPROVED"
    with s gp assms(2) show False by simp
  qed
  with s obtain a where a: "auth = Some a" "sign_decision a p = Inr d" by auto
  note v = sign_verify [OF a(2)]
  from sign_fields [OF a(2)] have d: "pd_grade d = es_grade ev" "pd_human_approval d = human" "pd_claim_ids d = sort (map cl_claim_id rows)"
    "pd_candidate_id d = cr_candidate_id c" "pd_candidate_revision_id d = cr_revision_id c"
    "pd_prediction_evidence_ids d = es_prediction_evidence_ids ev"
    by (simp_all add: p proposed_decision_def Let_def)
  from evaluate_approved [OF e [unfolded gate], of "es_grade ev"] have ap: "\<not> cr_active c" "human" "es_grade ev = E3"
    "\<forall>x \<in> set rows. cl_candidate_id x = cr_candidate_id c \<and> cl_classification x = GAIN" by auto
  from k ap(3) have "es_e3_eligible ev \<and> 3 \<le> length rows \<and> 2 \<le> es_project_count ev
      \<and> 2 * length rows \<le> length (es_prediction_evidence_ids ev) \<and> set (cr_source_claim_ids c) = set (map cl_claim_id rows)"
    by (auto simp: decide_checks_def validate_evidence_state_def bind_eq_Inr violation_unless_eq_Inr)
  with ap d a v show ?thesis by auto
qed

lemma approval_grounds_witness: "\<exists>k. Some g_key = Some k \<and> verify_decision k g_decision \<and> set (pd_claim_ids g_decision) = {''c1'', ''c2'', ''c3''}"
proof -
  have "pd_gate g_decision = APPROVED" by (simp add: g_decision_def)
  from approval_grounds [OF g_decide this] show ?thesis by (simp add: g_rows_def g_claim_def)
qed

text \<open>
  C14: The capability registry takes a capability only for a decision that its log holds exactly
  once, that is approved at grade E3 by a human with prediction evidence, verifies under the
  log's authority, and is about this candidate, revision and set of claims.
\<close>

theorem capability_needs_signed_approval:
  assumes "capability_append lg r f = (f', Inr b)"
  shows "\<exists>k lf ds d i. lg = Some (Some k, lf) \<and> all_decisions (Some k) lf = Inr ds \<and> d \<in> set ds
     \<and> cap_promotion_decision_id r = Some i \<and> filter (\<lambda>x. pd_decision_id x = i) ds = [d]
     \<and> pd_gate d = APPROVED \<and> pd_grade d = E3 \<and> pd_human_approval d \<and> pd_prediction_evidence_ids d \<noteq> []
     \<and> verify_decision k d \<and> cap_source_candidate_id r = Some (pd_candidate_id d)
     \<and> pd_candidate_revision_id d = cap_revision_id r \<and> set (pd_claim_ids d) = set (cap_evidence_claim_ids r)"
proof -
  from assms obtain i c d where i: "cap_promotion_decision_id r = Some i" "cap_source_candidate_id r = Some c"
    and ap: "approved_decision_for lg i = Inr d"
    and g: "pd_gate d = APPROVED \<and> pd_grade d = E3 \<and> pd_prediction_evidence_ids d \<noteq> [] \<and> pd_human_approval d
            \<and> pd_candidate_id d = c \<and> pd_candidate_revision_id d = cap_revision_id r
            \<and> set (pd_claim_ids d) = set (cap_evidence_claim_ids r)"
    by (auto simp: capability_append_def obind_eq_Inr olift_eq_Inr bind_eq_Inr registry_unless_def require_eq_Inr raise_def
        split: option.splits)
  from ap obtain a lf where lg: "lg = Some (a, lf)" and v: "verified_approved a i lf = Inr d"
    by (auto simp: approved_decision_for_def raise_def rewrap_eq_Inr split: option.splits)
  from v obtain ds where ds1: "all_decisions a lf = Inr ds"
    and vd: "(case filter (\<lambda>d. pd_decision_id d = i) ds of
       [d] \<Rightarrow> bind (log_unless (pd_gate d = APPROVED) ''promotion decision is not approved'') (\<lambda>_.
              bind (verify_authoritative a d) (\<lambda>_. Inr d))
     | _ \<Rightarrow> raise DecisionLogError ''approved promotion decision is missing or ambiguous'') = Inr d"
    by (auto simp: verified_approved_def bind_eq_Inr)
  from vd have one: "filter (\<lambda>d. pd_decision_id d = i) ds = [d]" and va: "verify_authoritative a d = Inr ()"
    by (simp_all add: bind_eq_Inr split: list.split_asm)
  note ds = ds1 one
  from va g obtain k where k: "a = Some k" "verify_decision k d"
    by (auto simp: verify_authoritative_def log_unless_def require_eq_Inr split: option.splits)
  have "d \<in> set (filter (\<lambda>x. pd_decision_id x = i) ds)" by (simp add: ds(2))
  then have "d \<in> set ds" by simp
  with i lg ds k g show ?thesis by blast
qed

text \<open>
  C16: And it takes every such capability: when a decision with one authority approves a
  candidate, its texts contain no line break, and the registry is readable and unlocked and
  does not know the revision, then the capability made of the candidate and the decision is
  appended.
\<close>

theorem approval_becomes_capability:
  assumes "decide (Some k) (Some k) c ev rows human at f = (f', Inr d)" and "pd_gate d = APPROVED"
    and "all_decisions (Some k) f = Inr ds" and "\<not> (\<exists>s \<in> set (decision_texts d). has_break s)"
    and "check_candidate_record c = Inr ()" and "\<not> blank cap"
    and "registry_all capability_registry g = Inr rs" and "\<not> lf_locked g"
    and "\<forall>x \<in> set rs. (cap_capability_id x, cap_revision_id x) \<noteq> (cap, cr_revision_id c)"
  shows "\<exists>r g'. to_capability c d cap = Inr r \<and> capability_append (Some (Some k, f')) r g = (g', Inr True)
     \<and> cap_evidence_claim_ids r = sort (map cl_claim_id rows) \<and> cap_artifact_sha256 r = cr_artifact_sha256 c"
proof -
  from decide_facts [OF assms(1)] obtain gate p b where kc: "decide_checks c ev rows = Inr ()"
    and e: "evaluate (cr_candidate_id c) rows (cr_active c) human (Some (es_grade ev)) = Inr gate"
    and p: "p = proposed_decision (Some k) c ev rows human at gate"
    and s: "if gate = APPROVED then \<exists>a. Some k = Some a \<and> sign_decision a p = Inr d else d = p"
    and ap: "decision_append (Some k) d f = (f', Inr b)" by blast
  have "pd_gate p = gate" by (simp add: p proposed_decision_def Let_def)
  with s assms(2) have gate: "gate = APPROVED" by (metis (full_types))
  with s have sg: "sign_decision k p = Inr d" by simp
  note v = sign_verify [OF sg]
  from sign_fields [OF sg] have d: "pd_grade d = es_grade ev" "pd_human_approval d = human" "pd_claim_ids d = sort (map cl_claim_id rows)"
    "pd_candidate_id d = cr_candidate_id c" "pd_candidate_revision_id d = cr_revision_id c"
    "pd_prediction_evidence_ids d = es_prediction_evidence_ids ev" "pd_evidence_state_sha256 d \<noteq> None"
    by (simp_all add: p proposed_decision_def Let_def)
  from evaluate_approved [OF e [unfolded gate], of "es_grade ev"] have av: "human" "es_grade ev = E3" "rows \<noteq> []" by auto
  from kc av(2) have chk: "2 * length rows \<le> length (es_prediction_evidence_ids ev)" "set (cr_source_claim_ids c) = set (map cl_claim_id rows)"
    by (auto simp: decide_checks_def validate_evidence_state_def bind_eq_Inr violation_unless_eq_Inr)
  have pred: "es_prediction_evidence_ids ev \<noteq> []" using chk(1) av(3) by (cases rows) auto
  have va: "verify_authoritative (Some k) d = Inr ()"
    using v d(7) by (simp add: verify_authoritative_def log_unless_def)
  have stored: "stored_line (entry_line (decision_dict d)) \<noteq> None" using decision_breaks v assms(4) by blast
  from decision_append_run [OF assms(3) ap] all_decisions_with [OF assms(3) _ va _ stored] v assms(3)
  obtain ds' where ds': "all_decisions (Some k) f' = Inr ds'" "d \<in> set ds'" by fastforce
  have one: "filter (\<lambda>x. pd_decision_id x = pd_decision_id d) ds' = [d]"
    using all_decisions_inv [OF ds'(1)] ds'(2)
    by (induction ds') (auto simp: filter_empty_conv image_iff)
  define r where "r = \<lparr>cap_capability_id = cap, cap_revision_id = cr_revision_id c, cap_capability_kind = cr_candidate_kind c,
       cap_evidence_claim_ids = pd_claim_ids d, cap_artifact_sha256 = cr_artifact_sha256 c,
       cap_promotion_decision_id = Some (pd_decision_id d), cap_source_candidate_id = Some (cr_candidate_id c), cap_active = False\<rparr>"
  have ids: "\<not> blank (pd_decision_id d)" "\<not> blank (pd_candidate_id d)" using v
    by (auto simp: check_promotion_decision_def bind_eq_Inr violation_unless_eq_Inr)
  have ne: "sort (map cl_claim_id rows) \<noteq> []" using av(3) by (metis length_0_conv length_sort length_map)
  have cc: "check_capability_record r = Inr ()"
    using assms(5,6) ids d(4) ne
    by (auto simp: check_candidate_record_def check_capability_record_def validate_record_def r_def registry_unless_def
        bind_eq_Inr require_eq_Inr d(3))
  have cap: "to_capability c d cap = Inr r"
    using cc by (simp add: to_capability_def validate_decision_candidate_def d assms(2) chk(2) violation_unless_def Let_def flip: r_def)
      (simp add: r_def d)
  have known: "known_record capability_registry r g = Inr False"
  proof -
    have "find (\<lambda>x. gt_key capability_registry x = gt_key capability_registry r) (rev rs) = None"
      using assms(9) by (auto simp: find_None_iff capability_registry_def r_def)
    then show ?thesis by (simp add: known_record_def registry_get_def assms(7))
  qed
  have known': "known_record capability_registry r (g\<lparr>lf_locked := True\<rparr>) = Inr False"
    using known by (simp add: known_record_def registry_get_def registry_all_def)
  have fin: "content_sha256 (JObj (gt_dict capability_registry r)) = Inr (digest (JObj (gt_dict capability_registry r)))"
    by (simp add: content_sha256_eq capability_registry_def capability_record_dict_def r_def finite_fmupd str_list_def list_all_iff)
  have "\<exists>g'. registry_append capability_registry r g = (g', Inr True)"
    using assms(8) by (simp add: registry_append_def known known' with_writer_def fin write_entry_def)
  moreover have "approved_decision_for (Some (Some k, f')) (pd_decision_id d) = Inr d"
    using one va by (simp add: approved_decision_for_def verified_approved_def ds' assms(2) log_unless_def)
  ultimately have "\<exists>g'. capability_append (Some (Some k, f')) r g = (g', Inr True)"
    by (simp add: capability_append_def r_def registry_unless_def assms(2) d av pred)
  with cap show ?thesis by (auto simp: r_def d)
qed

definition g_capability :: capability_record where
  "g_capability = \<lparr>cap_capability_id = ''cap'', cap_revision_id = ''rev'', cap_capability_kind = ''skill'',
     cap_evidence_claim_ids = [''c1'', ''c2'', ''c3''], cap_artifact_sha256 = digest JNull,
     cap_promotion_decision_id = Some (pd_decision_id g_decision), cap_source_candidate_id = Some ''cand'', cap_active = False\<rparr>"

lemma g_to_capability: "to_capability g_candidate g_decision ''cap'' = Inr r \<Longrightarrow> r = g_capability"
  by (auto simp: to_capability_def Let_def bind_eq_Inr g_capability_def g_candidate_def g_decision_def)

lemma approval_becomes_capability_witness:
  "\<exists>g'. capability_append (Some (Some g_key, with_decision g_decision g_log)) g_capability g_log = (g', Inr True)"
proof -
  have a: "pd_gate g_decision = APPROVED" by (simp add: g_decision_def)
  have b: "\<not> blank ''cand''" "\<not> blank ''rev''" "\<not> blank ''skill''" "\<not> blank ''cap''" by code_simp+
  have c: "check_candidate_record g_candidate = Inr ()"
    by (simp add: check_candidate_record_def validate_record_def registry_unless_def g_candidate_def b)
  have l: "registry_all capability_registry g_log = Inr []" by (simp add: registry_all_def g_log_def registry_unless_def)
  have u: "\<not> lf_locked g_log" by (simp add: g_log_def)
  from approval_becomes_capability [OF g_decide a g_empty g_texts c b(4) l u] obtain r g' where
    r: "to_capability g_candidate g_decision ''cap'' = Inr r"
      "capability_append (Some (Some g_key, with_decision g_decision g_log)) r g_log = (g', Inr True)" by auto
  from g_to_capability [OF r(1)] r(2) show ?thesis by auto
qed

lemma g_capability_append:
  "\<exists>g'. capability_append (Some (Some g_key, with_decision g_decision g_log)) g_capability g_log = (g', Inr True)"
proof -
  have "stored_line (entry_line (decision_dict g_decision)) \<noteq> None" using decision_breaks [OF g_decision_check] g_texts by blast
  from all_decisions_with [OF g_empty g_decision_check g_verify _ this]
  have ds: "all_decisions (Some g_key) (with_decision g_decision g_log) = Inr [g_decision]" by simp
  then have d: "approved_decision_for (Some (Some g_key, with_decision g_decision g_log)) (pd_decision_id g_decision) = Inr g_decision"
    using g_verify by (simp add: approved_decision_for_def verified_approved_def log_unless_def g_decision_def)
  have k: "known_record capability_registry g_capability (g_log\<lparr>lf_locked := b\<rparr>) = Inr False" for b
    by (simp add: known_record_def registry_get_def registry_all_def g_log_def)
  have "finite_json (JObj (gt_dict capability_registry g_capability))"
    by (simp add: capability_registry_def capability_record_dict_def g_capability_def finite_fmupd str_list_def list_all_iff)
  then have "\<exists>h. content_sha256 (JObj (gt_dict capability_registry g_capability)) = Inr h" by (simp add: content_sha256_eq)
  then have "\<exists>g'. registry_append capability_registry g_capability g_log = (g', Inr True)"
    using k [of False] k [of True] by (auto simp: registry_append_def with_writer_def write_entry_def g_log_def)
  with d show ?thesis
    by (simp add: capability_append_def registry_unless_def) (simp add: g_capability_def g_decision_def registry_unless_def)
qed

lemma capability_needs_signed_approval_witness:
  "\<exists>d i. cap_promotion_decision_id g_capability = Some i \<and> pd_decision_id d = i \<and> verify_decision g_key d"
proof -
  from g_capability_append obtain g' where
    "capability_append (Some (Some g_key, with_decision g_decision g_log)) g_capability g_log = (g', Inr True)" ..
  from capability_needs_signed_approval [OF this] obtain d i ds where "cap_promotion_decision_id g_capability = Some i"
    "filter (\<lambda>x. pd_decision_id x = i) ds = [d]" "verify_decision g_key d" by auto
  then show ?thesis by (metis (mono_tags) filter_id_conv list.set_intros(1) mem_Collect_eq set_filter)
qed

end
