(* ===== verification/Goal.thy ===== *)
theory Goal
  imports Evidence_Graph
begin

text \<open>
  \<open>src/src/evolve/autonomous/goal.py\<close>: the state of a product goal and the file that keeps it.
  A write replaces the whole file in one step; the file is what \<open>json.loads\<close> makes of its
  text (\<open>None\<close> when it is not JSON).
\<close>

section \<open>Data\<close>

datatype goal_status =
    GOAL_ACTIVE | GOAL_REACHED | NO_PROGRESS | BUDGET_EXHAUSTED | MAX_ROUNDS_REACHED | MAX_CONSECUTIVE_INFRA
  | MAX_SAME_FAILURE | DISK_LIMIT | STOPPED_BY_USER | BLOCKED_INTEGRITY

fun goal_status_text :: "goal_status \<Rightarrow> string" where
  "goal_status_text GOAL_ACTIVE = ''active''"
| "goal_status_text GOAL_REACHED = ''goal_reached''"
| "goal_status_text NO_PROGRESS = ''no_progress''"
| "goal_status_text BUDGET_EXHAUSTED = ''budget_exhausted''"
| "goal_status_text MAX_ROUNDS_REACHED = ''max_rounds_reached''"
| "goal_status_text MAX_CONSECUTIVE_INFRA = ''max_consecutive_infra_failures''"
| "goal_status_text MAX_SAME_FAILURE = ''max_same_failure_signature''"
| "goal_status_text DISK_LIMIT = ''disk_limit''"
| "goal_status_text STOPPED_BY_USER = ''stopped_by_user''"
| "goal_status_text BLOCKED_INTEGRITY = ''blocked_integrity''"

definition goal_statuses :: "goal_status list" where
  "goal_statuses = [GOAL_ACTIVE, GOAL_REACHED, NO_PROGRESS, BUDGET_EXHAUSTED, MAX_ROUNDS_REACHED, MAX_CONSECUTIVE_INFRA,
     MAX_SAME_FAILURE, DISK_LIMIT, STOPPED_BY_USER, BLOCKED_INTEGRITY]"

record goal_state =
  gs_schema_version :: int
  gs_goal_id :: string
  gs_status :: goal_status
  gs_next_round_index :: int
  gs_rounds_completed :: int
  gs_no_progress_rounds :: int
  gs_consecutive_infra :: int
  gs_native_gain_task_ids :: "string list"
  gs_best_candidate :: "string option"
  gs_best_bundle :: "string option"
  gs_failure_signature :: "string option"
  gs_failure_signature_rounds :: int
  gs_unresolvable :: "string list"

definition goal_state_dict :: "goal_state \<Rightarrow> dict" where
  "goal_state_dict s = fmap_of_list
     [(''schema_version'', JInt (gs_schema_version s)), (''goal_id'', JStr (gs_goal_id s)),
      (''status'', JStr (goal_status_text (gs_status s))), (''next_round_index'', JInt (gs_next_round_index s)),
      (''rounds_completed'', JInt (gs_rounds_completed s)), (''no_progress_rounds'', JInt (gs_no_progress_rounds s)),
      (''consecutive_infra_failures'', JInt (gs_consecutive_infra s)),
      (''native_gain_task_ids'', str_list (gs_native_gain_task_ids s)),
      (''best_candidate_revision_id'', opt_str (gs_best_candidate s)), (''best_bundle_sha256'', opt_str (gs_best_bundle s)),
      (''same_failure_signature_sha256'', opt_str (gs_failure_signature s)),
      (''same_failure_signature_rounds'', JInt (gs_failure_signature_rounds s)),
      (''student_unresolvable_task_ids'', str_list (gs_unresolvable s))]"

section \<open>Python's \<open>int\<close>\<close>

definition digit_value :: "char \<Rightarrow> nat option" where
  "digit_value c = (let n = of_char c :: nat in if 48 \<le> n \<and> n \<le> 57 then Some (n - 48) else None)"

text \<open>Decimal digits with single underscores between them.\<close>

fun decimal_value :: "int \<Rightarrow> bool \<Rightarrow> string \<Rightarrow> int option" where
  "decimal_value n started [] = (if started then Some n else None)"
| "decimal_value n started (c # cs) = (case digit_value c of
     Some d \<Rightarrow> decimal_value (10 * n + int d) True cs
   | None \<Rightarrow> if c = CHR ''_'' \<and> started then decimal_value n False cs else None)"

definition int_of_text :: "string \<Rightarrow> int option" where
  "int_of_text s = (case strip s of
     [] \<Rightarrow> None
   | c # cs \<Rightarrow> if c = CHR ''-'' then map_option uminus (decimal_value 0 False cs)
              else if c = CHR ''+'' then decimal_value 0 False cs else decimal_value 0 False (c # cs))"

definition truncate_float :: "pyfloat \<Rightarrow> int res" where
  "truncate_float x = (case x of
     Fin n \<Rightarrow> Inr (if n < 0 then - (- n div 2 ^ 1074) else n div 2 ^ 1074)
   | NaN \<Rightarrow> raise ValueError ''cannot convert float NaN to integer''
   | _ \<Rightarrow> raise OverflowError ''cannot convert float infinity to integer'')"

fun int_cast :: "json \<Rightarrow> int res" where
  "int_cast (JInt i) = Inr i"
| "int_cast (JBool b) = Inr (if b then 1 else 0)"
| "int_cast (JFloat x) = truncate_float x"
| "int_cast (JStr s) = (case int_of_text s of Some i \<Rightarrow> Inr i | None \<Rightarrow> raise ValueError ''invalid literal for int()'')"
| "int_cast j = raise TypeError ''int() argument''"

section \<open>The store\<close>

text \<open>\<open>None\<close>: there is no file; \<open>Some None\<close>: a file that is not JSON.\<close>

type_synonym goal_file = "json option option"

definition initial_goal :: "string \<Rightarrow> goal_state" where
  "initial_goal g = \<lparr>gs_schema_version = 1, gs_goal_id = g, gs_status = GOAL_ACTIVE, gs_next_round_index = 0,
     gs_rounds_completed = 0, gs_no_progress_rounds = 0, gs_consecutive_infra = 0, gs_native_gain_task_ids = [],
     gs_best_candidate = None, gs_best_bundle = None, gs_failure_signature = None, gs_failure_signature_rounds = 0,
     gs_unresolvable = []\<rparr>"

definition status_of_json :: "json \<Rightarrow> goal_status res" where
  "status_of_json j = (let t = (if j = JStr ''blocked_infrastructure'' then JStr ''max_consecutive_infra_failures'' else j)
     in case find (\<lambda>s. t = JStr (goal_status_text s)) goal_statuses of
       Some s \<Rightarrow> Inr s | None \<Rightarrow> raise ValueError ''is not a valid GoalRunStatus'')"

definition goal_of_dict :: "dict \<Rightarrow> goal_state res" where
  "goal_of_dict d =
     bind (item d ''status'') (\<lambda>st.
     bind (the_item d ''schema_version'' int_cast) (\<lambda>v.
     bind (the_item d ''goal_id'' (\<lambda>j. Inr (py_str j))) (\<lambda>g.
     bind (status_of_json st) (\<lambda>s.
     bind (the_item d ''next_round_index'' int_cast) (\<lambda>n.
     bind (the_item d ''rounds_completed'' int_cast) (\<lambda>r.
     bind (the_item d ''no_progress_rounds'' int_cast) (\<lambda>p.
     bind (the_item d ''consecutive_infra_failures'' int_cast) (\<lambda>i.
     bind (the_item d ''native_gain_task_ids'' text_list) (\<lambda>ids.
     bind (the_item d ''best_candidate_revision_id'' opt_value) (\<lambda>c.
     bind (the_item d ''best_bundle_sha256'' opt_value) (\<lambda>b.
     bind (opt_value (get d ''same_failure_signature_sha256'')) (\<lambda>f.
     bind (case fmlookup d ''same_failure_signature_rounds'' of None \<Rightarrow> Inr 0 | Some j \<Rightarrow> int_cast j) (\<lambda>fr.
     bind (case fmlookup d ''student_unresolvable_task_ids'' of None \<Rightarrow> Inr [] | Some j \<Rightarrow> text_list j) (\<lambda>u.
     Inr \<lparr>gs_schema_version = v, gs_goal_id = g, gs_status = s, gs_next_round_index = n, gs_rounds_completed = r,
       gs_no_progress_rounds = p, gs_consecutive_infra = i, gs_native_gain_task_ids = ids, gs_best_candidate = c,
       gs_best_bundle = b, gs_failure_signature = f, gs_failure_signature_rounds = fr, gs_unresolvable = u\<rparr>))))))))))))))"

definition goal_write :: "goal_state \<Rightarrow> (goal_file, unit) op" where
  "goal_write s = omodify (\<lambda>_. Some (Some (JObj (goal_state_dict s))))"

definition goal_load :: "string \<Rightarrow> (goal_file, goal_state) op" where
  "goal_load g = obind (oread id) (\<lambda>f. case f of
     None \<Rightarrow> obind (goal_write (initial_goal g)) (\<lambda>_. oreturn (initial_goal g))
   | Some j \<Rightarrow> olift (bind (rewrap is_decode_error AutonomousEvolutionError ''evolution state is invalid''
         (case j of None \<Rightarrow> raise ValueError ''Expecting value''
          | Some (JObj d) \<Rightarrow> goal_of_dict d
          | Some _ \<Rightarrow> raise TypeError ''indices must be integers'')) (\<lambda>s.
       bind (require (gs_schema_version s = 1 \<and> gs_goal_id s = g) AutonomousEvolutionError ''evolution state goal identity mismatch'') (\<lambda>_.
       Inr s))))"

section \<open>Facts\<close>

lemma goal_status_roundtrip: "status_of_json (JStr (goal_status_text s)) = Inr s"
  by (cases s) (simp_all add: status_of_json_def goal_statuses_def Let_def)

lemma goal_decode: "goal_of_dict (goal_state_dict s) = Inr s"
proof -
  have r: "\<lparr>gs_schema_version = gs_schema_version s, gs_goal_id = gs_goal_id s, gs_status = gs_status s,
       gs_next_round_index = gs_next_round_index s, gs_rounds_completed = gs_rounds_completed s,
       gs_no_progress_rounds = gs_no_progress_rounds s, gs_consecutive_infra = gs_consecutive_infra s,
       gs_native_gain_task_ids = gs_native_gain_task_ids s, gs_best_candidate = gs_best_candidate s,
       gs_best_bundle = gs_best_bundle s, gs_failure_signature = gs_failure_signature s,
       gs_failure_signature_rounds = gs_failure_signature_rounds s, gs_unresolvable = gs_unresolvable s\<rparr> = s" by (cases s) simp
  show ?thesis
    by (simp add: goal_of_dict_def goal_state_dict_def the_item_def goal_status_roundtrip text_list_roundtrip r)
qed

lemma goal_load_written:
  "gs_schema_version s = 1 \<Longrightarrow> gs_goal_id s = g \<Longrightarrow>
     goal_load g (Some (Some (JObj (goal_state_dict s)))) = (Some (Some (JObj (goal_state_dict s))), Inr s)"
  by (simp add: goal_load_def goal_decode)

lemma goal_load_same: "goal_load g f = (f', Inr s) \<Longrightarrow> gs_schema_version s = 1 \<and> gs_goal_id s = g \<and> (f \<noteq> None \<longrightarrow> f' = f)
    \<and> goal_load g f' = (f', Inr s)"
  by (auto simp: goal_load_def goal_write_def obind_eq_Inr olift_eq_Inr bind_eq_Inr require_eq_Inr initial_goal_def
      goal_decode oreturn_def obind_olift split: option.splits)

end
