(* ===== verification/Index_Log.thy ===== *)
theory Index_Log
  imports Chain Line_Log
begin

text \<open>
  \<open>HashChainIndex\<close> of \<open>src/src/evolve/autonomous/state.py\<close>: the single-writer JSON-lines index
  from which the autonomous loop rebuilds its state.  The file is a list of lines, whether its
  last line is complete, and the writer lock; as in the other logs a line whose text contains
  U+0085 is read back as pieces (\<open>decode().splitlines()\<close>).
\<close>

section \<open>Reading\<close>

record index_log =
  ix_lines :: "json option list"
  ix_complete :: bool
  ix_locked :: bool

definition index_genesis :: string where
  "index_genesis = replicate 64 (CHR ''0'')"

definition index_unless :: "bool \<Rightarrow> string \<Rightarrow> unit res" where
  "index_unless c m = require c AutonomousEvolutionError m"

definition index_previous :: "dict list \<Rightarrow> json" where
  "index_previous rows = (if rows = [] then JStr index_genesis else get (last rows) ''event_sha256'')"

definition index_row :: "string \<Rightarrow> dict list \<Rightarrow> json option \<Rightarrow> dict res" where
  "index_row i rows l = (case l of
     None \<Rightarrow> raise AutonomousEvolutionError ''autonomous index line is invalid''
   | Some (JObj stored) \<Rightarrow>
       let event = fmdrop ''event_sha256'' stored in
       bind (index_unless (get event ''index_id'' = JStr i \<and> py_eq (get event ''sequence'') (JInt (int (length rows)))
              \<and> get event ''previous_event_sha256'' = index_previous rows \<and> is_str (get stored ''event_sha256''))
              ''autonomous index chain mismatch'') (\<lambda>_.
       bind (content_sha256 (JObj event)) (\<lambda>h.
       bind (index_unless (get stored ''event_sha256'' = JStr h) ''autonomous index chain mismatch'') (\<lambda>_.
       bind (index_unless (is_str (get event ''event_id'') \<and> get event ''event_id'' \<noteq> JStr []
              \<and> get event ''event_id'' \<notin> (\<lambda>r. get r ''event_id'') ` set rows)
              ''autonomous index event identity conflict'') (\<lambda>_. Inr stored))))
   | Some _ \<Rightarrow> raise AutonomousEvolutionError ''autonomous index row must be an object'')"

fun index_read :: "string \<Rightarrow> dict list \<Rightarrow> json option list \<Rightarrow> dict list res" where
  "index_read i rows [] = Inr rows"
| "index_read i rows (l # ls) = bind (index_row i rows l) (\<lambda>r. index_read i (rows @ [r]) ls)"

definition index_rows :: "string \<Rightarrow> index_log \<Rightarrow> dict list res" where
  "index_rows i f =
     bind (index_unless (ix_lines f = [] \<or> ix_complete f) ''autonomous index has a partial tail'') (\<lambda>_.
     index_read i [] (ix_lines f))"

section \<open>Appending\<close>

definition index_event :: "string \<Rightarrow> dict list \<Rightarrow> string \<Rightarrow> dict \<Rightarrow> dict" where
  "index_event i rows eid payload = fmap_of_list
     [(''index_id'', JStr i), (''sequence'', JInt (int (length rows))),
      (''previous_event_sha256'', index_previous rows), (''event_id'', JStr eid), (''payload'', JObj payload)]"

definition index_stored :: "string \<Rightarrow> dict list \<Rightarrow> string \<Rightarrow> dict \<Rightarrow> dict" where
  "index_stored i rows eid payload =
     fmupd ''event_sha256'' (JStr (digest (JObj (index_event i rows eid payload)))) (index_event i rows eid payload)"

definition index_writer :: "(index_log, 'a) op \<Rightarrow> (index_log, 'a) op" where
  "index_writer body f =
     (if ix_locked f then (f, raise AutonomousEvolutionError ''autonomous index writer is already active'')
      else case body (f\<lparr>ix_locked := True\<rparr>) of (f', r) \<Rightarrow> (f'\<lparr>ix_locked := False\<rparr>, r))"

definition index_append :: "string \<Rightarrow> string \<Rightarrow> dict \<Rightarrow> (index_log, bool) op" where
  "index_append i eid payload =
     obind (olift (index_unless (eid \<noteq> []) ''autonomous index event_id is empty'')) (\<lambda>_.
     index_writer (obind (oread (index_rows i)) (\<lambda>r. obind (olift r) (\<lambda>rows.
       case find (\<lambda>row. get row ''event_id'' = JStr eid) rows of
         Some prior \<Rightarrow>
           obind (olift (index_unless (py_eq (get prior ''payload'') (JObj payload)) ''autonomous index immutable event conflict'')) (\<lambda>_.
           oreturn False)
       | None \<Rightarrow>
           obind (olift (content_sha256 (JObj (index_event i rows eid payload)))) (\<lambda>_.
           obind (omodify (\<lambda>f. f\<lparr>ix_lines := ix_lines f @ [stored_line (JObj (index_stored i rows eid payload))],
                                   ix_complete := True\<rparr>)) (\<lambda>_. oreturn True))))))"

section \<open>The chain of the rows\<close>

interpretation ix: hash_chain "\<lambda>e. JObj (fmdrop ''event_sha256'' e)" "\<lambda>e. fmlookup e ''event_sha256''"
  "\<lambda>e. fmlookup e ''previous_event_sha256''" "Some (JStr index_genesis)"
  by unfold_locales (fact object_entry_eq)+

lemma index_row_facts:
  assumes "index_row i rows l = Inr r"
  shows "l = Some (JObj r) \<and> get r ''index_id'' = JStr i \<and> get r ''previous_event_sha256'' = index_previous rows
     \<and> get r ''event_sha256'' = JStr (digest (JObj (fmdrop ''event_sha256'' r)))
     \<and> get r ''event_id'' \<notin> (\<lambda>r. get r ''event_id'') ` set rows \<and> (\<exists>e. e \<noteq> [] \<and> get r ''event_id'' = JStr e)"
  using assms
  by (auto simp: index_row_def index_unless_def res_simps is_str_iff Let_def split: option.splits json.splits)

lemma index_previous_head: "ix.valid rows \<Longrightarrow> get r ''previous_event_sha256'' = index_previous rows
    \<Longrightarrow> fmlookup r ''previous_event_sha256'' = ix.head rows"
proof (cases rows rule: rev_cases)
  case Nil
  then show "get r ''previous_event_sha256'' = index_previous rows \<Longrightarrow> ?thesis"
    by (simp add: index_previous_def ix.head_def get_JStr)
next
  case (snoc zs z)
  assume v: "ix.valid rows" and g: "get r ''previous_event_sha256'' = index_previous rows"
  from v snoc have "fmlookup z ''event_sha256'' = Some (JStr (digest (JObj (fmdrop ''event_sha256'' z))))"
    by (simp add: ix.valid_snoc ix.sealed_def)
  with g snoc show ?thesis by (simp add: index_previous_def ix.head_def get_JStr get_def [of z])
qed

lemma index_read_valid:
  "index_read i rows ls = Inr rs \<Longrightarrow> ix.valid rows \<Longrightarrow> distinct (map (\<lambda>r. get r ''event_id'') rows)
    \<Longrightarrow> ix.valid rs \<and> distinct (map (\<lambda>r. get r ''event_id'') rs)"
proof (induction ls arbitrary: rows)
  case Nil
  then show ?case by simp
next
  case (Cons l ls)
  then obtain r where r: "index_row i rows l = Inr r" "index_read i (rows @ [r]) ls = Inr rs" by (auto simp: res_simps)
  note f = index_row_facts [OF r(1)]
  have "ix.valid (rows @ [r])"
    using Cons.prems(2) index_previous_head [OF Cons.prems(2)] f by (simp add: ix.valid_snoc ix.sealed_def get_JStr)
  with Cons.IH [OF r(2)] Cons.prems(3) f show ?case by auto
qed

lemma index_rows_valid: "index_rows i f = Inr rs \<Longrightarrow> ix.valid rs \<and> distinct (map (\<lambda>r. get r ''event_id'') rs)"
  by (auto simp: index_rows_def res_simps dest: index_read_valid)

lemma index_read_snoc: "index_read i rows (ls @ [l]) = bind (index_read i rows ls) (\<lambda>rs. bind (index_row i rs l) (\<lambda>r. Inr (rs @ [r])))"
  by (induction ls arbitrary: rows) (auto simp: bind_def split: sum.splits)

lemma index_rows_length: "index_rows i f = Inr rs \<Longrightarrow> length rs = length (ix_lines f)"
proof -
  have "index_read i rows ls = Inr rs \<Longrightarrow> length rs = length rows + length ls" for rows ls rs
    by (induction ls arbitrary: rows) (auto simp: res_simps)
  then show "index_rows i f = Inr rs \<Longrightarrow> length rs = length (ix_lines f)" by (auto simp: index_rows_def res_simps)
qed

lemma index_rows_lock [simp]: "index_rows i (f\<lparr>ix_locked := b\<rparr>) = index_rows i f"
  by (simp add: index_rows_def)

section \<open>What an append does\<close>

definition with_row :: "string \<Rightarrow> dict list \<Rightarrow> string \<Rightarrow> dict \<Rightarrow> index_log \<Rightarrow> index_log" where
  "with_row i rows eid payload f =
     f\<lparr>ix_lines := ix_lines f @ [stored_line (JObj (index_stored i rows eid payload))], ix_complete := True\<rparr>"

lemma index_append_run:
  assumes "index_rows i f = Inr rows" and "\<not> ix_locked f" and "eid \<noteq> []"
  shows "index_append i eid payload f =
    (case find (\<lambda>row. get row ''event_id'' = JStr eid) rows of
       Some prior \<Rightarrow> if py_eq (get prior ''payload'') (JObj payload) then (f, Inr False)
          else (f, Inl (Err AutonomousEvolutionError ''autonomous index immutable event conflict''))
     | None \<Rightarrow> (case content_sha256 (JObj (index_event i rows eid payload)) of Inl e \<Rightarrow> (f, Inl e)
          | Inr h \<Rightarrow> (with_row i rows eid payload f, Inr True)))"
proof -
  have u: "f\<lparr>ix_locked := False\<rparr> = f" "f\<lparr>ix_lines := xs, ix_complete := True, ix_locked := False\<rparr> = f\<lparr>ix_lines := xs, ix_complete := True\<rparr>"
    for xs using assms(2) by (cases f; simp)+
  show ?thesis
    using assms
    by (auto simp: index_append_def index_writer_def index_unless_def with_row_def u obind_olift split: option.splits sum.splits)
qed

lemma own_row:
  assumes "eid \<noteq> []" and "find (\<lambda>row. get row ''event_id'' = JStr eid) rows = None" and "is_str (index_previous rows)"
    and "finite_json (JObj (index_event i rows eid payload))"
  shows "index_row i rows (Some (JObj (index_stored i rows eid payload))) = Inr (index_stored i rows eid payload)"
proof -
  let ?e = "index_event i rows eid payload"
  have l: "fmlookup ?e ''event_sha256'' = None" by (simp add: index_event_def)
  have g: "get ?e ''index_id'' = JStr i" "get ?e ''sequence'' = JInt (int (length rows))"
    "get ?e ''previous_event_sha256'' = index_previous rows" "get ?e ''event_id'' = JStr eid"
    by (simp_all add: index_event_def get_def)
  have "JStr eid \<notin> (\<lambda>r. get r ''event_id'') ` set rows" using assms(2) by (auto simp: find_None_iff image_iff)
  with assms g l show ?thesis
    by (simp add: index_row_def index_stored_def fmdrop_fmupd_fresh index_unless_def content_sha256_eq Let_def)
qed

lemma index_previous_str: "ix.valid rows \<Longrightarrow> is_str (index_previous rows)"
proof (cases rows rule: rev_cases)
  case (snoc zs z)
  assume "ix.valid rows"
  with snoc show ?thesis by (auto simp: index_previous_def ix.valid_snoc ix.sealed_def get_def)
qed (simp add: index_previous_def)

lemma index_rows_with_row:
  assumes rs: "index_rows i f = Inr rows" and "eid \<noteq> []" and "find (\<lambda>row. get row ''event_id'' = JStr eid) rows = None"
    and "finite_json (JObj (index_event i rows eid payload))"
  shows "index_rows i (with_row i rows eid payload f) =
    (if stored_line (JObj (index_stored i rows eid payload)) = None
     then raise AutonomousEvolutionError ''autonomous index line is invalid'' else Inr (rows @ [index_stored i rows eid payload]))"
proof -
  have "is_str (index_previous rows)" using index_rows_valid [OF rs] index_previous_str by blast
  note own = own_row [OF assms(2,3) this assms(4)]
  have r: "index_read i [] (ix_lines f) = Inr rows" using rs by (auto simp: index_rows_def res_simps)
  have none: "index_row i rows None = raise AutonomousEvolutionError ''autonomous index line is invalid''" by (simp add: index_row_def)
  show ?thesis
  proof (cases "stored_line (JObj (index_stored i rows eid payload))")
    case None
    then show ?thesis by (simp add: index_rows_def with_row_def index_read_snoc r none index_unless_def raise_def)
  next
    case (Some j)
    then have "j = JObj (index_stored i rows eid payload)" by (simp add: stored_line_def split: if_splits)
    with Some show ?thesis by (simp add: index_rows_def with_row_def index_read_snoc r own index_unless_def)
  qed
qed

section \<open>Line breaks in a row\<close>

lemma int_text_no_break: "\<not> has_break (int_text n)"
proof -
  have "\<not> has_break (digits n)" for n
  proof (induction n rule: digits.induct)
    case (1 n)
    have "\<not> breaks_line (char_of (48 + k))" if "k < 10" for k :: nat using that by (simp add: breaks_line_def)
    then have "\<not> breaks_line (char_of (48 + n mod 10))" "n < 10 \<Longrightarrow> \<not> breaks_line (char_of (48 + n))" by simp_all
    with 1 show ?case by (subst digits.simps) simp
  qed
  then show ?thesis by (simp add: int_text_def breaks_line_def)
qed

lemma index_stored_breaks:
  assumes "ix.valid rows"
  shows "stored_line (JObj (index_stored i rows eid payload)) = None
     \<longleftrightarrow> has_break i \<or> has_break eid \<or> has_break (json_text (JObj payload))"
proof -
  let ?kvs = "[(''event_sha256'', JStr (digest (JObj (index_event i rows eid payload)))), (''index_id'', JStr i),
      (''sequence'', JInt (int (length rows))), (''previous_event_sha256'', index_previous rows), (''event_id'', JStr eid),
      (''payload'', JObj payload)]"
  have e: "index_stored i rows eid payload = fmap_of_list ?kvs" by (simp add: index_stored_def index_event_def)
  have dist: "distinct (map fst ?kvs)" by simp
  have keys: "list_all (\<lambda>k. \<not> has_break k) (map fst ?kvs)" by (simp add: breaks_line_def)
  have prev: "\<not> has_break (json_text (index_previous rows))"
  proof (cases rows rule: rev_cases)
    case Nil
    then show ?thesis by (simp add: index_previous_def has_break_string) (simp add: index_genesis_def breaks_line_def list_ex_iff)
  next
    case (snoc zs z)
    with assms have "get z ''event_sha256'' = JStr (digest (JObj (fmdrop ''event_sha256'' z)))"
      by (simp add: ix.valid_snoc ix.sealed_def get_JStr)
    with snoc show ?thesis by (simp add: index_previous_def has_break_string has_break_hex)
  qed
  have "stored_line (JObj (index_stored i rows eid payload)) = None \<longleftrightarrow> has_break (json_text (JObj (fmap_of_list ?kvs)))"
    unfolding e by (simp add: stored_line_def del: json_text.simps)
  also have "\<dots> \<longleftrightarrow> list_ex (\<lambda>j. has_break (json_text j)) (map snd ?kvs)" by (rule has_break_fields [OF dist keys])
  also have "\<dots> \<longleftrightarrow> has_break i \<or> has_break eid \<or> has_break (json_text (JObj payload))"
    using prev by (simp add: has_break_string has_break_hex int_text_no_break del: json_text.simps(7))
  finally show ?thesis .
qed

section \<open>Properties\<close>

text \<open>
  What the index appends it reads back: the rows it held, then one row with the event id
  and payload; the file stays readable exactly when no text of the event contains U+0085.
  Appending the same event again changes nothing, and another payload under the id is refused.
\<close>

theorem index_append_reads_back:
  assumes "index_rows i f = Inr rows" and "index_append i eid payload f = (f', Inr True)"
  shows "(is_ok (index_rows i f') \<longleftrightarrow> \<not> (has_break i \<or> has_break eid \<or> has_break (json_text (JObj payload))))
     \<and> (is_ok (index_rows i f') \<longrightarrow>
          (\<exists>row. index_rows i f' = Inr (rows @ [row]) \<and> get row ''event_id'' = JStr eid \<and> get row ''payload'' = JObj payload)
          \<and> index_append i eid payload f' = (f', Inr False)
          \<and> (\<forall>other. \<not> py_eq (JObj other) (JObj payload) \<longrightarrow> (\<exists>x. index_append i eid other f' = (f', Inl x))))"
proof -
  have a: "eid \<noteq> []" "\<not> ix_locked f"
    using assms(2) by (auto simp: index_append_def index_unless_def obind_olift index_writer_def raise_def split: if_splits sum.splits)
  note run = index_append_run [OF assms(1) a(2,1)]
  with assms(2) have f: "find (\<lambda>row. get row ''event_id'' = JStr eid) rows = None"
    "finite_json (JObj (index_event i rows eid payload))" "f' = with_row i rows eid payload f"
    by (auto simp: content_sha256_eq split: option.splits if_splits)
  have u: "\<not> ix_locked f'" using a(2) by (simp add: f(3) with_row_def)
  note r = index_rows_with_row [OF assms(1) a(1) f(1,2), folded f(3)]
  note b = index_stored_breaks [OF index_rows_valid [OF assms(1), THEN conjunct1], of i eid payload]
  let ?row = "index_stored i rows eid payload"
  have g: "get ?row ''event_id'' = JStr eid" "get ?row ''payload'' = JObj payload"
    by (simp_all add: index_stored_def index_event_def get_def)
  show ?thesis
  proof (cases "stored_line (JObj ?row) = None")
    case True
    with r b show ?thesis by (simp add: raise_def del: json_text.simps)
  next
    case False
    with r have rows': "index_rows i f' = Inr (rows @ [?row])" by simp
    have find: "find (\<lambda>row. get row ''event_id'' = JStr eid) (rows @ [?row]) = Some ?row" using f(1) g by (simp add: find_append)
    have "index_append i eid other f' = (if py_eq (JObj payload) (JObj other) then (f', Inr False)
        else (f', Inl (Err AutonomousEvolutionError ''autonomous index immutable event conflict'')))" for other
      by (simp add: index_append_run [OF rows' u a(1)] find g)
    moreover have "py_eq (JObj payload) (JObj other) \<longleftrightarrow> py_eq (JObj other) (JObj payload)" for other by (auto intro: py_eq_sym)
    ultimately show ?thesis using rows' g False b by (auto simp del: json_text.simps)
  qed
qed

definition demo_index :: index_log where
  "demo_index = \<lparr>ix_lines = [], ix_complete = True, ix_locked = False\<rparr>"

definition demo_round :: index_log where
  "demo_round = with_row ''g'' [] ''round-0000'' fmempty demo_index"

lemma demo_facts:
  "index_rows ''g'' demo_index = Inr []" "index_append ''g'' ''round-0000'' fmempty demo_index = (demo_round, Inr True)"
  "\<not> (has_break ''g'' \<or> has_break ''round-0000'' \<or> has_break (json_text (JObj fmempty)))"
  "index_rows ''g'' demo_round = Inr [index_stored ''g'' [] ''round-0000'' fmempty]"
proof -
  show r: "index_rows ''g'' demo_index = Inr []" by (simp add: index_rows_def index_unless_def demo_index_def)
  have f: "finite_json (JObj (index_event ''g'' [] ''round-0000'' fmempty))"
    by (simp add: index_event_def finite_fmupd index_previous_def)
  show "index_append ''g'' ''round-0000'' fmempty demo_index = (demo_round, Inr True)"
    using index_append_run [OF r, of "''round-0000''" fmempty] f by (simp add: content_sha256_eq demo_index_def demo_round_def)
  show b: "\<not> (has_break ''g'' \<or> has_break ''round-0000'' \<or> has_break (json_text (JObj fmempty)))"
    by (simp add: breaks_line_def, code_simp)
  have "stored_line (JObj (index_stored ''g'' [] ''round-0000'' fmempty)) \<noteq> None"
    using index_stored_breaks [of "[]" "''g''" "''round-0000''" fmempty] b by simp
  with index_rows_with_row [OF r _ _ f] show "index_rows ''g'' demo_round = Inr [index_stored ''g'' [] ''round-0000'' fmempty]"
    by (simp add: demo_round_def)
qed

lemma index_append_reads_back_witness:
  "\<exists>row. index_rows ''g'' demo_round = Inr [row] \<and> get row ''event_id'' = JStr ''round-0000''
     \<and> index_append ''g'' ''round-0000'' fmempty demo_round = (demo_round, Inr False)"
  using index_append_reads_back [OF demo_facts(1,2)] demo_facts(3) by (auto simp del: json_text.simps)

text \<open>
  The index is tamper-evident: two readable files with equally many lines whose last rows
  carry the same hash have the same rows, or exhibit two different rows with one SHA-256.
\<close>

theorem index_tamper_evident:
  assumes "index_rows i f = Inr rs" and "index_rows i' f' = Inr rs'" and "length (ix_lines f) = length (ix_lines f')"
    and "index_previous rs = index_previous rs'"
  shows "rs = rs' \<or> (\<exists>x \<in> set rs. \<exists>y \<in> set rs'. fmdrop ''event_sha256'' x \<noteq> fmdrop ''event_sha256'' y
     \<and> digest (JObj (fmdrop ''event_sha256'' x)) = digest (JObj (fmdrop ''event_sha256'' y)))"
proof -
  have v: "ix.valid rs" "ix.valid rs'" "length rs = length rs'"
    using index_rows_valid index_rows_length assms by auto
  have "ix.head rs = ix.head rs'"
  proof (cases rs rule: rev_cases)
    case Nil
    with v(3) show ?thesis by (simp add: ix.head_def)
  next
    case (snoc zs z)
    with v(3) obtain ws w where w: "rs' = ws @ [w]" by (metis append_is_Nil_conv length_0_conv not_Cons_self2 rev_exhaust)
    from v snoc w assms(4) show ?thesis by (auto simp: ix.head_def index_previous_def ix.valid_snoc ix.sealed_def get_def)
  qed
  from ix.tamper_evident [OF v this] show ?thesis by (auto simp: ix.collision_def) (metis nth_mem)
qed

lemma index_tamper_evident_witness:
  "\<exists>rs rs'. index_rows ''g'' demo_round = Inr rs \<and> index_rows ''g'' (demo_round\<lparr>ix_locked := True\<rparr>) = Inr rs'
     \<and> (rs = rs' \<or> (\<exists>x \<in> set rs. \<exists>y \<in> set rs'. fmdrop ''event_sha256'' x \<noteq> fmdrop ''event_sha256'' y
       \<and> digest (JObj (fmdrop ''event_sha256'' x)) = digest (JObj (fmdrop ''event_sha256'' y))))"
proof -
  have l: "index_rows ''g'' (demo_round\<lparr>ix_locked := True\<rparr>) = Inr [index_stored ''g'' [] ''round-0000'' fmempty]"
    by (simp add: demo_facts)
  show ?thesis
    using index_tamper_evident [OF demo_facts(4) l] demo_facts(4) l by fastforce
qed

end
