(* ===== verification/Outcome_Verifier.thy ===== *)
theory Outcome_Verifier
  imports Evidence_Claims Grade_Machine
begin

text \<open>
  \<open>src/src/evolve/autonomous/verification.py\<close>: before the outer loop consumes the result of a
  campaign, \<open>CampaignOutcomeVerifier\<close> rebuilds the receipts and the evidence of the round and
  matches the claims of the result with the claims of the graph.
\<close>

section \<open>Definitions\<close>

record verified_claim =
  vc_task_id :: string
  vc_claim_id :: string
  vc_classification :: string
  vc_grade :: string
  vc_pair_sha256 :: "string option"
  vc_receipt_ids :: "string list"

definition auto_unless :: "bool \<Rightarrow> string \<Rightarrow> unit res" where
  "auto_unless c m = require c AutonomousEvolutionError m"

text \<open>\<open>tuple(v)\<close>; the keys of an object are taken in sorted order.\<close>

fun tuple_of :: "json \<Rightarrow> json list res" where
  "tuple_of (JList xs) = Inr xs"
| "tuple_of (JStr s) = Inr (map (\<lambda>c. JStr [c]) s)"
| "tuple_of (JObj d) = Inr (map JStr (sorted_list_of_fset (fmdom d)))"
| "tuple_of j = raise TypeError ''object is not iterable''"

definition campaign_safe :: "dict \<Rightarrow> unit res" where
  "campaign_safe result = all_checks
     [auto_unless (list_all (\<lambda>k. get result k = JBool False) [''holdout_opened'', ''burned_holdout_opened'', ''capability_active''])
        ''campaign safety invariant was not independently preserved'',
      auto_unless (get result ''campaign_status'' = JStr ''completed'') ''campaign did not complete'',
      auto_unless (get result ''execution_statuses'' = JList (replicate 6 (JStr ''completed'')))
        ''campaign did not complete six executions'']"

definition replay_campaign :: "receipt_store \<Rightarrow> evidence_graph \<Rightarrow> (receipt list \<times> claim list) res" where
  "replay_campaign s g = rewrap (\<lambda>_. True) AutonomousEvolutionError ''campaign authoritative receipt/evidence replay failed''
     (bind (graph_rebuild s (g\<lparr>eg_legacy := False\<rparr>)) (\<lambda>_.
      bind (list_receipts s) (\<lambda>rs. bind (latest_claims g) (\<lambda>cs. Inr (rs, cs)))))"

text \<open>\<open>{evidence_by_id[i].payload.get("task_revision_id") for i in claim.evidence_ids}\<close>.\<close>

definition claim_revisions :: "evidence_envelope list \<Rightarrow> claim \<Rightarrow> json list res" where
  "claim_revisions es c = mapM (\<lambda>i. case evidence_by_id es i of
       None \<Rightarrow> raise KeyError i
     | Some e \<Rightarrow> let v = get (ev_payload e) ''task_revision_id'' in
         bind (require (hashable v) TypeError ''unhashable type'') (\<lambda>_. Inr v)) (cl_evidence_ids c)"

text \<open>A row of the result, with its four texts, against the claim of the graph.\<close>

definition match_claim ::
  "evidence_envelope list \<Rightarrow> string \<Rightarrow> dict \<Rightarrow> string \<Rightarrow> string \<Rightarrow> string \<Rightarrow> claim \<Rightarrow> verified_claim res" where
  "match_claim es cand d t tr k c =
     bind (claim_revisions es c) (\<lambda>revs.
     bind (auto_unless (cl_candidate_id c = cand \<and> classification_text (cl_classification c) = k
         \<and> set revs = {JStr tr} \<and> get d ''grade'' = JStr (grade_text (cl_grade c))
         \<and> get d ''counterfactual_pair_sha256'' = opt_str (cl_pair_sha256 c))
       ''campaign claim projection disagrees with authoritative graph'') (\<lambda>_.
     bind (case fmlookup d ''counterfactual_receipt_ids'' of None \<Rightarrow> Inr [] | Some v \<Rightarrow> tuple_of v) (\<lambda>ids.
     bind (auto_unless (ids = map JStr (cl_receipt_ids c))
       ''campaign claim projection disagrees with authoritative graph'') (\<lambda>_.
     bind (auto_unless (cl_classification c = INFRA_FAILURE \<or> (cl_grade c \<in> {E2, E3} \<and> cl_pair_sha256 c \<noteq> None
         \<and> length (cl_evidence_ids c) = 4 \<and> length (cl_receipt_ids c) = 6))
       ''native campaign claim lacks complete E2 counterfactual lineage'') (\<lambda>_.
     Inr \<lparr>vc_task_id = t, vc_claim_id = cl_claim_id c, vc_classification = k, vc_grade = grade_text (cl_grade c),
       vc_pair_sha256 = cl_pair_sha256 c, vc_receipt_ids = cl_receipt_ids c\<rparr>)))))"

definition claim_of_row :: "evidence_envelope list \<Rightarrow> claim list \<Rightarrow> string \<Rightarrow> json \<Rightarrow> verified_claim res" where
  "claim_of_row es cs cand row = (case row of
     JObj d \<Rightarrow> (case (get d ''task_id'', get d ''task_revision_id'', get d ''claim_id'', get d ''classification'') of
        (JStr t, JStr tr, JStr i, JStr k) \<Rightarrow> (case find (\<lambda>c. cl_claim_id c = i) (rev cs) of
            None \<Rightarrow> raise AutonomousEvolutionError ''campaign claim projection disagrees with authoritative graph''
          | Some c \<Rightarrow> match_claim es cand d t tr k c)
      | _ \<Rightarrow> raise AutonomousEvolutionError ''campaign claim identity is invalid'')
   | _ \<Rightarrow> raise AutonomousEvolutionError ''campaign claim projection is invalid'')"

definition model_receipts :: "string \<Rightarrow> receipt list \<Rightarrow> receipt list" where
  "model_receipts arm rs = filter (\<lambda>r. rc_kind r = ''model'' \<and> get (rc_payload r) ''arm'' = JStr arm) rs"

definition baseline_clean :: "receipt \<Rightarrow> bool" where
  "baseline_clean r \<longleftrightarrow> get (rc_payload r) ''candidate_consumed'' = JBool False
     \<and> list_all (\<lambda>k. get (rc_payload r) k = JNull) [''candidate_revision_id'', ''candidate_bundle_sha256'', ''candidate_prompt'']"

definition taught_bound :: "string \<Rightarrow> string \<Rightarrow> receipt \<Rightarrow> bool" where
  "taught_bound crev bdl r \<longleftrightarrow> get (rc_payload r) ''candidate_consumed'' = JBool True
     \<and> get (rc_payload r) ''candidate_revision_id'' = JStr crev \<and> get (rc_payload r) ''candidate_bundle_sha256'' = JStr bdl"

definition verify_model_receipts :: "receipt list \<Rightarrow> string \<Rightarrow> string \<Rightarrow> nat \<Rightarrow> unit res" where
  "verify_model_receipts rs crev bdl n = all_checks
     [auto_unless (length (model_receipts ''baseline'' rs) = n \<and> length (model_receipts ''taught'' rs) = n)
        ''campaign model receipt pairing is incomplete'',
      auto_unless (list_all baseline_clean (model_receipts ''baseline'' rs)) ''baseline model receipt consumed proposed candidate content'',
      auto_unless (list_all (taught_bound crev bdl) (model_receipts ''taught'' rs)) ''taught model receipt candidate lineage mismatch'']"

definition campaign_rows :: "dict \<Rightarrow> string list \<Rightarrow> json list res" where
  "campaign_rows result selected = (case get result ''claims'' of
     JList rows \<Rightarrow> bind (auto_unless (length rows = length selected) ''campaign claim projection is incomplete'') (\<lambda>_. Inr rows)
   | _ \<Rightarrow> raise AutonomousEvolutionError ''campaign claim projection is incomplete'')"

definition verify_campaign ::
  "receipt_store \<Rightarrow> evidence_graph \<Rightarrow> dict \<Rightarrow> string list \<Rightarrow> string \<Rightarrow> string \<Rightarrow> string \<Rightarrow> verified_claim list res" where
  "verify_campaign s g result selected cand crev bdl =
     bind (campaign_safe result) (\<lambda>_.
     bind (replay_campaign s g) (\<lambda>(rs, cs).
     bind (auto_unless (rs \<noteq> [] \<and> cs \<noteq> []) ''campaign has no authoritative receipts or claims'') (\<lambda>_.
     bind (list_evidence g) (\<lambda>es.
     bind (campaign_rows result selected) (\<lambda>rows.
     bind (mapM (claim_of_row es cs cand) rows) (\<lambda>vs.
     bind (auto_unless (vc_task_id ` set vs = set selected) ''campaign claims do not match selected feedback tasks'') (\<lambda>_.
     bind (verify_model_receipts rs crev bdl (length selected)) (\<lambda>_. Inr vs))))))))"

section \<open>Facts\<close>

lemma claim_of_row_cases:
  assumes "claim_of_row es cs cand row = Inr v"
  obtains d t tr i k c where "row = JObj d" and "get d ''task_id'' = JStr t" and "get d ''task_revision_id'' = JStr tr"
    and "get d ''claim_id'' = JStr i" and "get d ''classification'' = JStr k" and "find (\<lambda>c. cl_claim_id c = i) (rev cs) = Some c"
    and "match_claim es cand d t tr k c = Inr v"
  using assms by (auto simp: claim_of_row_def split: json.splits option.splits)

lemma match_claim_eq_Inr:
  "match_claim es cand d t tr k c = Inr v \<longleftrightarrow> (\<exists>revs. claim_revisions es c = Inr revs \<and> set revs = {JStr tr}
     \<and> cl_candidate_id c = cand \<and> classification_text (cl_classification c) = k \<and> get d ''grade'' = JStr (grade_text (cl_grade c))
     \<and> get d ''counterfactual_pair_sha256'' = opt_str (cl_pair_sha256 c)
     \<and> (case fmlookup d ''counterfactual_receipt_ids'' of None \<Rightarrow> Inr [] | Some v \<Rightarrow> tuple_of v) = Inr (map JStr (cl_receipt_ids c))
     \<and> (cl_classification c = INFRA_FAILURE \<or> (cl_grade c \<in> {E2, E3} \<and> cl_pair_sha256 c \<noteq> None
         \<and> length (cl_evidence_ids c) = 4 \<and> length (cl_receipt_ids c) = 6))
     \<and> v = \<lparr>vc_task_id = t, vc_claim_id = cl_claim_id c, vc_classification = k, vc_grade = grade_text (cl_grade c),
       vc_pair_sha256 = cl_pair_sha256 c, vc_receipt_ids = cl_receipt_ids c\<rparr>)"
  unfolding match_claim_def auto_unless_def bind_eq_Inr require_eq_Inr by blast

lemma claim_of_row_facts:
  assumes "claim_of_row es cs cand row = Inr v"
  shows "\<exists>c tr revs. c \<in> set cs \<and> cl_claim_id c = vc_claim_id v \<and> cl_candidate_id c = cand
     \<and> vc_classification v = classification_text (cl_classification c) \<and> vc_grade v = grade_text (cl_grade c)
     \<and> vc_pair_sha256 v = cl_pair_sha256 c \<and> vc_receipt_ids v = cl_receipt_ids c
     \<and> claim_revisions es c = Inr revs \<and> set revs = {JStr tr}
     \<and> (cl_classification c = INFRA_FAILURE \<or> (cl_grade c \<in> {E2, E3} \<and> cl_pair_sha256 c \<noteq> None))"
proof -
  from assms obtain d t tr i k c where c: "find (\<lambda>c. cl_claim_id c = i) (rev cs) = Some c"
    and m: "match_claim es cand d t tr k c = Inr v" by (rule claim_of_row_cases)
  from find_SomeD [OF c] have "c \<in> set cs" by simp
  with m show ?thesis unfolding match_claim_eq_Inr
    by (elim exE conjE) (intro exI [of _ c] exI [of _ tr], auto)
qed

lemma verify_campaign_facts:
  assumes "verify_campaign s g result selected cand crev bdl = Inr vs"
  shows "\<exists>rs cs es rows h. graph_rebuild s (g\<lparr>eg_legacy := False\<rparr>) = Inr h \<and> list_receipts s = Inr rs \<and> latest_claims g = Inr cs
     \<and> list_evidence g = Inr es \<and> campaign_rows result selected = Inr rows \<and> mapM (claim_of_row es cs cand) rows = Inr vs
     \<and> vc_task_id ` set vs = set selected \<and> length vs = length selected \<and> campaign_safe result = Inr ()
     \<and> verify_model_receipts rs crev bdl (length selected) = Inr () \<and> rs \<noteq> [] \<and> cs \<noteq> []"
proof -
  from assms obtain rs cs es rows where f: "campaign_safe result = Inr ()" "replay_campaign s g = Inr (rs, cs)"
    "rs \<noteq> [] \<and> cs \<noteq> []" "list_evidence g = Inr es" "campaign_rows result selected = Inr rows"
    "mapM (claim_of_row es cs cand) rows = Inr vs" "vc_task_id ` set vs = set selected"
    "verify_model_receipts rs crev bdl (length selected) = Inr ()"
    by (auto simp: verify_campaign_def auto_unless_def bind_eq_Inr require_eq_Inr)
  from f(5) have "length rows = length selected"
    by (auto simp: campaign_rows_def auto_unless_def bind_eq_Inr require_eq_Inr split: json.splits)
  with mapM_length [OF f(6)] have l: "length vs = length selected" by simp
  from f(2) obtain h where "graph_rebuild s (g\<lparr>eg_legacy := False\<rparr>) = Inr h" "list_receipts s = Inr rs" "latest_claims g = Inr cs"
    by (auto simp: replay_campaign_def rewrap_eq_Inr bind_eq_Inr)
  with f l show ?thesis by blast
qed

end
