(* ===== verification/Outcome_Claims.thy ===== *)
theory Outcome_Claims
  imports Outcome_Verifier Grade_Facts Evidence_Demo
begin

text \<open>
  What a verified campaign result rests on, and what the verifier does not bind.
\<close>

section \<open>The claims of a verified result\<close>

text \<open>
  C19: When the verifier accepts a campaign result, it returns one claim per selected task, each of
  them a current claim of the graph about the candidate with the classification, grade, pair hash
  and receipts of the graph; every one that is not an infrastructure failure is rebuilt from stored
  receipts and evidence; and the round holds one model receipt per task and arm, those of the
  baseline free of candidate content and those of the taught arm bound to the candidate's bundle.
\<close>

theorem verified_claims_backed:
  assumes "verify_campaign s g result selected cand crev bdl = Inr vs"
  shows "\<exists>rs es cs. list_receipts s = Inr rs \<and> list_evidence g = Inr es \<and> latest_claims g = Inr cs
     \<and> length vs = length selected \<and> vc_task_id ` set vs = set selected
     \<and> (\<forall>v \<in> set vs. \<exists>c \<in> set cs. cl_claim_id c = vc_claim_id v \<and> cl_candidate_id c = cand
          \<and> vc_classification v = classification_text (cl_classification c) \<and> vc_grade v = grade_text (cl_grade c)
          \<and> vc_pair_sha256 v = cl_pair_sha256 c \<and> vc_receipt_ids v = cl_receipt_ids c
          \<and> (cl_classification c \<noteq> INFRA_FAILURE \<longrightarrow> rebuild_counterfactual_binding c es rs = Inr ()))
     \<and> length (model_receipts ''baseline'' rs) = length selected \<and> length (model_receipts ''taught'' rs) = length selected
     \<and> (\<forall>r \<in> set (model_receipts ''baseline'' rs). baseline_clean r)
     \<and> (\<forall>r \<in> set (model_receipts ''taught'' rs). taught_bound crev bdl r)"
proof -
  from verify_campaign_facts [OF assms] obtain rs cs es rows h where f: "graph_rebuild s (g\<lparr>eg_legacy := False\<rparr>) = Inr h"
    "list_receipts s = Inr rs" "latest_claims g = Inr cs" "list_evidence g = Inr es"
    "mapM (claim_of_row es cs cand) rows = Inr vs" "vc_task_id ` set vs = set selected" "length vs = length selected"
    "verify_model_receipts rs crev bdl (length selected) = Inr ()" by blast
  from f(3) obtain all where all: "list_claims g = Inr all" "set cs \<subseteq> set all"
    by (auto simp: latest_claims_def bind_eq_Inr unsuperseded_def)
  have claims: "\<exists>c \<in> set cs. cl_claim_id c = vc_claim_id v \<and> cl_candidate_id c = cand
          \<and> vc_classification v = classification_text (cl_classification c) \<and> vc_grade v = grade_text (cl_grade c)
          \<and> vc_pair_sha256 v = cl_pair_sha256 c \<and> vc_receipt_ids v = cl_receipt_ids c
          \<and> (cl_classification c \<noteq> INFRA_FAILURE \<longrightarrow> rebuild_counterfactual_binding c es rs = Inr ())" if "v \<in> set vs" for v
  proof -
    from mapM_right [OF f(5) that] obtain row where "claim_of_row es cs cand row = Inr v" by blast
    from claim_of_row_facts [OF this] obtain c where c: "c \<in> set cs" "cl_claim_id c = vc_claim_id v" "cl_candidate_id c = cand"
      "vc_classification v = classification_text (cl_classification c)" "vc_grade v = grade_text (cl_grade c)"
      "vc_pair_sha256 v = cl_pair_sha256 c" "vc_receipt_ids v = cl_receipt_ids c"
      and g: "cl_classification c = INFRA_FAILURE \<or> (cl_grade c \<in> {E2, E3} \<and> cl_pair_sha256 c \<noteq> None)" by blast
    have "rebuild_counterfactual_binding c es rs = Inr ()" if "cl_classification c \<noteq> INFRA_FAILURE"
    proof -
      from that g have "E2 \<le> cl_grade c" by (auto simp: less_eq_claim_grade_def)
      from strict_rebuild_backs [OF f(1) all(1) _ this] c(1) all(2) f(2,4) show ?thesis by auto
    qed
    with c show ?thesis by blast
  qed
  from f(8) have "length (model_receipts ''baseline'' rs) = length selected \<and> length (model_receipts ''taught'' rs) = length selected
     \<and> (\<forall>r \<in> set (model_receipts ''baseline'' rs). baseline_clean r)
     \<and> (\<forall>r \<in> set (model_receipts ''taught'' rs). taught_bound crev bdl r)"
    by (simp add: verify_model_receipts_def auto_unless_def bind_eq_Inr require_eq_Inr list_all_iff)
  with f claims show ?thesis by (intro exI [of _ rs] exI [of _ es] exI [of _ cs]) simp
qed

section \<open>A verified result in the small\<close>

definition d_row :: json where
  "d_row = JObj (fmap_of_list
     [(''task_id'', JStr ''task-a''), (''task_revision_id'', JStr ''task''), (''claim_id'', JStr (cl_claim_id d_claim)),
      (''classification'', JStr ''gain''), (''grade'', JStr ''E2''), (''counterfactual_pair_sha256'', JStr (pair_sha256 d_pair)),
      (''counterfactual_receipt_ids'', str_list (pair_receipt_ids d_pair))])"

definition d_result :: dict where
  "d_result = fmap_of_list
     [(''holdout_opened'', JBool False), (''burned_holdout_opened'', JBool False), (''capability_active'', JBool False),
      (''campaign_status'', JStr ''completed''), (''execution_statuses'', JList (replicate 6 (JStr ''completed''))),
      (''claims'', JList [d_row])]"

definition d_verified :: verified_claim where
  "d_verified = \<lparr>vc_task_id = ''task-a'', vc_claim_id = cl_claim_id d_claim, vc_classification = ''gain'', vc_grade = ''E2'',
     vc_pair_sha256 = Some (pair_sha256 d_pair), vc_receipt_ids = pair_receipt_ids d_pair\<rparr>"

lemma d_claim_revisions: "claim_revisions d_envelopes d_claim = Inr (replicate 4 (JStr ''task''))"
proof -
  have "get (ev_payload (d_trace t)) ''task_revision_id'' = JStr ''task''" "get (ev_payload (d_native t)) ''task_revision_id'' = JStr ''task''" for t
    by (simp_all add: d_trace_def d_native_def d_evidence_payload)
  then show ?thesis by (simp add: claim_revisions_def d_claim_fields d_pair_ids d_by_id numeral_eq_Suc)
qed

lemma d_claim_of_row: "claim_of_row d_envelopes [d_claim] ''cand'' d_row = Inr d_verified"
  by (simp add: claim_of_row_def d_row_def get_def d_claim_revisions match_claim_def d_claim_fields auto_unless_def str_list_def d_verified_def)
    (simp add: d_pair_ids)

lemma d_verify_model_receipts: "verify_model_receipts d_receipts ''rev-1'' d_sha 1 = Inr ()"
proof -
  have k: "rc_kind (d_receipt i k t p) = k" for i k t p by (simp add: d_receipt_def)
  have "model_receipts ''baseline'' d_receipts = [d_model False]" "model_receipts ''taught'' d_receipts = [d_model True]"
    by (simp_all add: model_receipts_def d_receipts_def k)
  then show ?thesis by (simp add: verify_model_receipts_def baseline_clean_def taught_bound_def auto_unless_def)
qed

lemma d_verify_campaign: "verify_campaign d_store d_claimed d_result [''task-a''] ''cand'' ''rev-1'' d_sha = Inr [d_verified]"
proof -
  have g: "d_claimed\<lparr>eg_legacy := False\<rparr> = d_claimed" by (simp add: d_claimed_def d_graph_def)
  have u: "unsuperseded [d_claim] = [d_claim]" by (simp add: unsuperseded_def d_claim_fields)
  have r: "replay_campaign d_store d_claimed = Inr (d_receipts, [d_claim])"
    by (simp add: replay_campaign_def g d_rebuild d_store_list latest_claims_def d_claimed_lists u)
  have s: "campaign_safe d_result = Inr ()" by (simp add: campaign_safe_def d_result_def get_def auto_unless_def)
  have c: "campaign_rows d_result [''task-a''] = Inr [d_row]" by (simp add: campaign_rows_def d_result_def get_def auto_unless_def)
  have n: "d_receipts \<noteq> []" by (simp add: d_receipts_def)
  show ?thesis
    by (simp add: verify_campaign_def s r c n d_claimed_lists d_claim_of_row auto_unless_def)
      (simp add: d_verified_def d_verify_model_receipts [simplified])
qed

lemma verified_claims_backed_witness:
  "\<exists>rs es. list_receipts d_store = Inr rs \<and> list_evidence d_claimed = Inr es \<and> rebuild_counterfactual_binding d_claim es rs = Inr ()"
proof -
  from verified_claims_backed [OF d_verify_campaign] obtain rs es cs where l: "list_receipts d_store = Inr rs"
    "list_evidence d_claimed = Inr es" "latest_claims d_claimed = Inr cs"
    and b: "\<forall>v \<in> set [d_verified]. \<exists>c \<in> set cs. cl_claim_id c = vc_claim_id v \<and> cl_candidate_id c = ''cand''
          \<and> vc_classification v = classification_text (cl_classification c) \<and> vc_grade v = grade_text (cl_grade c)
          \<and> vc_pair_sha256 v = cl_pair_sha256 c \<and> vc_receipt_ids v = cl_receipt_ids c
          \<and> (cl_classification c \<noteq> INFRA_FAILURE \<longrightarrow> rebuild_counterfactual_binding c es rs = Inr ())" by (elim exE conjE)
  have "cs = [d_claim]" using l(3) by (simp add: latest_claims_def d_claimed_lists unsuperseded_def d_claim_fields)
  with b have "rebuild_counterfactual_binding d_claim es rs = Inr ()" by (simp add: d_claim_fields)
  with l show ?thesis by blast
qed

section \<open>Task names\<close>

definition rename_row :: "(string \<Rightarrow> string) \<Rightarrow> json \<Rightarrow> json" where
  "rename_row p j = (case j of
     JObj d \<Rightarrow> (case get d ''task_id'' of JStr t \<Rightarrow> JObj (fmupd ''task_id'' (JStr (p t)) d) | _ \<Rightarrow> j) | _ \<Rightarrow> j)"

definition rename_result :: "(string \<Rightarrow> string) \<Rightarrow> dict \<Rightarrow> dict" where
  "rename_result p result = (case get result ''claims'' of
     JList rows \<Rightarrow> fmupd ''claims'' (JList (map (rename_row p) rows)) result | _ \<Rightarrow> result)"

lemma claim_of_renamed_row:
  assumes "claim_of_row es cs cand row = Inr v"
  shows "claim_of_row es cs cand (rename_row p row) = Inr (v\<lparr>vc_task_id := p (vc_task_id v)\<rparr>)"
proof -
  from assms obtain d t tr i k c where row: "row = JObj d" "get d ''task_id'' = JStr t" "get d ''task_revision_id'' = JStr tr"
    "get d ''claim_id'' = JStr i" "get d ''classification'' = JStr k" "find (\<lambda>c. cl_claim_id c = i) (rev cs) = Some c"
    and m: "match_claim es cand d t tr k c = Inr v" by (rule claim_of_row_cases)
  from m have "match_claim es cand (fmupd ''task_id'' (JStr (p t)) d) (p t) tr k c = Inr (v\<lparr>vc_task_id := p (vc_task_id v)\<rparr>)"
    unfolding match_claim_eq_Inr by auto
  then show ?thesis by (simp add: rename_row_def row claim_of_row_def)
qed

text \<open>
  The verifier does not bind the names of the tasks, although every claim is bound to one task
  revision: whenever it accepts a result for some tasks, it accepts the same claims for any other
  task names, so that gains can be attributed to tasks they were not measured on.
\<close>

theorem verifier_ignores_task_names:
  assumes "verify_campaign s g result selected cand crev bdl = Inr vs"
    and "length other = length selected" and "p ` set selected = set other"
  shows "verify_campaign s g (rename_result p result) other cand crev bdl = Inr (map (\<lambda>v. v\<lparr>vc_task_id := p (vc_task_id v)\<rparr>) vs)"
proof -
  from assms(1) obtain rs cs es rows where f: "campaign_safe result = Inr ()" "replay_campaign s g = Inr (rs, cs)"
    "rs \<noteq> [] \<and> cs \<noteq> []" "list_evidence g = Inr es" "campaign_rows result selected = Inr rows"
    "mapM (claim_of_row es cs cand) rows = Inr vs" "vc_task_id ` set vs = set selected"
    "verify_model_receipts rs crev bdl (length selected) = Inr ()"
    by (auto simp: verify_campaign_def auto_unless_def bind_eq_Inr require_eq_Inr)
  from f(5) have rows: "get result ''claims'' = JList rows" "length rows = length selected"
    by (auto simp: campaign_rows_def auto_unless_def bind_eq_Inr require_eq_Inr split: json.splits)
  then have "rename_result p result = fmupd ''claims'' (JList (map (rename_row p) rows)) result" by (simp add: rename_result_def)
  then have r: "campaign_rows (rename_result p result) other = Inr (map (rename_row p) rows)"
    "campaign_safe (rename_result p result) = Inr ()"
    using rows f(1) assms(2) by (simp_all add: campaign_rows_def campaign_safe_def auto_unless_def)
  have "list_all2 (\<lambda>x y. claim_of_row es cs cand x = Inr y) rows vs" using f(6) by (simp add: mapM_eq_Inr)
  then have m: "mapM (claim_of_row es cs cand) (map (rename_row p) rows) = Inr (map (\<lambda>v. v\<lparr>vc_task_id := p (vc_task_id v)\<rparr>) vs)"
    unfolding mapM_eq_Inr list.rel_map by (rule list_all2_mono) (rule claim_of_renamed_row)
  have "vc_task_id ` set (map (\<lambda>v. v\<lparr>vc_task_id := p (vc_task_id v)\<rparr>) vs) = p ` vc_task_id ` set vs" by (simp add: image_image)
  also have "\<dots> = set other" using f(7) assms(3) by simp
  finally show ?thesis using f r m assms(2) by (simp add: verify_campaign_def auto_unless_def)
qed

lemma verifier_ignores_task_names_witness:
  "verify_campaign d_store d_claimed (rename_result (\<lambda>t. ''task-z'') d_result) [''task-z''] ''cand'' ''rev-1'' d_sha
     = Inr [d_verified\<lparr>vc_task_id := ''task-z''\<rparr>]"
  using verifier_ignores_task_names [OF d_verify_campaign, of "[''task-z'']" "\<lambda>t. ''task-z''"] by simp

end
