(* ===== verification/Task_Selector.thy ===== *)
theory Task_Selector
  imports Outcome_Verifier "HOL-Library.Product_Lexorder"
begin

text \<open>
  \<open>src/src/evolve/autonomous/task_selector.py\<close>: the feedback task pool and the deterministic,
  replayable choice of the tasks of a round.  A task is the JSON object of its row; the paths of
  task sources are resolved by the operating system, so whether a source lies in the configured
  pool is a parameter (\<open>inside\<close>).
\<close>

section \<open>The pool\<close>

record selector =
  sl_tasks :: "dict list"
  sl_pool_sha256 :: string
  sl_runtime :: dict

definition forbidden_terms :: "string list" where
  "forbidden_terms = [''holdout'', ''final-sealed'', ''final_sealed'', ''r076'', ''r078'', ''burned'']"

text \<open>\<open>str.casefold\<close> on Latin-1 text, up to the micro sign, which no forbidden term contains.\<close>

definition casefold_char :: "char \<Rightarrow> string" where
  "casefold_char c = (let n = of_char c :: nat in
     if 65 \<le> n \<and> n \<le> 90 \<or> 192 \<le> n \<and> n \<le> 222 \<and> n \<noteq> 215 then [char_of (n + 32)]
     else if n = 223 then ''ss'' else [c])"

definition casefold :: "string \<Rightarrow> string" where
  "casefold s = concat (map casefold_char s)"

definition mentions_forbidden :: "string \<Rightarrow> bool" where
  "mentions_forbidden text \<longleftrightarrow> list_ex (\<lambda>w. substring w (casefold text)) forbidden_terms"

definition check_cost :: "dict \<Rightarrow> unit res" where
  "check_cost t = (case (case fmlookup t ''estimated_cost'' of None \<Rightarrow> JInt 0 | Some v \<Rightarrow> v) of
     JInt i \<Rightarrow> if finite_float (float_of_int i) then auto_unless (0 \<le> i) ''task estimated_cost must be finite and non-negative''
              else raise OverflowError ''int too large to convert to float''
   | JFloat f \<Rightarrow> auto_unless (finite_float f \<and> \<not> flt f fzero) ''task estimated_cost must be finite and non-negative''
   | _ \<Rightarrow> raise AutonomousEvolutionError ''task estimated_cost must be finite and non-negative'')"

fun nonempty_text :: "json \<Rightarrow> bool" where
  "nonempty_text (JStr s) = (s \<noteq> [])" | "nonempty_text j = False"

definition check_source :: "(string \<Rightarrow> bool) option \<Rightarrow> json \<Rightarrow> unit res" where
  "check_source inside uri = (case inside of None \<Rightarrow> Inr ()
     | Some f \<Rightarrow> (case uri of
         JStr u \<Rightarrow> bind (auto_unless (u \<noteq> []) ''task source_uri is required by the configured source pool'') (\<lambda>_.
                  auto_unless (f u) ''task source is outside the configured source pool'')
       | _ \<Rightarrow> raise AutonomousEvolutionError ''task source_uri is required by the configured source pool''))"

definition normalize_task :: "(string \<Rightarrow> bool) option \<Rightarrow> json set \<Rightarrow> json \<Rightarrow> dict res" where
  "normalize_task inside seen row = (case row of
     JObj t \<Rightarrow>
       bind (check_cost t) (\<lambda>_.
       bind (canonical_json (JObj t)) (\<lambda>text.
       bind (auto_unless (get t ''cohort'' = JStr ''feedback'' \<and> \<not> mentions_forbidden text) ''task pool contains a forbidden cohort'') (\<lambda>_.
       bind (auto_unless (nonempty_text (get t ''instance_id'') \<and> get t ''instance_id'' \<notin> seen) ''task identities must be unique'') (\<lambda>_.
       bind (auto_unless (nonempty_text (get t ''project'')) ''task project must be non-empty'') (\<lambda>_.
       bind (check_source inside (get t ''source_uri'')) (\<lambda>_.
       Inr (fmupd ''task_fingerprint_sha256'' (JStr (digest (JObj t))) t)))))))
   | _ \<Rightarrow> raise AutonomousEvolutionError ''feedback task row must be an object'')"

fun normalize_tasks :: "(string \<Rightarrow> bool) option \<Rightarrow> dict list \<Rightarrow> json list \<Rightarrow> dict list res" where
  "normalize_tasks inside acc [] = Inr acc"
| "normalize_tasks inside acc (r # rs) =
     bind (normalize_task inside ((\<lambda>t. get t ''instance_id'') ` set acc) r) (\<lambda>t. normalize_tasks inside (acc @ [t]) rs)"

definition pool_rows :: "json \<Rightarrow> (json \<times> dict) res" where
  "pool_rows j = (case j of
     JObj d \<Rightarrow> (case fmlookup d ''runtime'' of
         None \<Rightarrow> Inr (get d ''tasks'', fmempty)
       | Some (JObj r) \<Rightarrow> Inr (get d ''tasks'', r)
       | Some _ \<Rightarrow> raise AutonomousEvolutionError ''task pool runtime must be an object'')
   | _ \<Rightarrow> Inr (j, fmempty))"

definition selector_new :: "(string \<Rightarrow> bool) option \<Rightarrow> json option \<Rightarrow> selector res" where
  "selector_new inside file = (case file of
     None \<Rightarrow> raise AutonomousEvolutionError ''feedback task pool is unreadable''
   | Some j \<Rightarrow> bind (pool_rows j) (\<lambda>(rows, runtime). (case rows of
       JList rs \<Rightarrow>
         bind (auto_unless (rs \<noteq> []) ''feedback task pool must be a non-empty list'') (\<lambda>_.
         bind (normalize_tasks inside [] rs) (\<lambda>ts.
         bind (content_sha256 (JList (map JObj ts))) (\<lambda>h.
         Inr \<lparr>sl_tasks = ts, sl_pool_sha256 = h, sl_runtime = runtime\<rparr>)))
     | _ \<Rightarrow> raise AutonomousEvolutionError ''feedback task pool must be a non-empty list'')))"

section \<open>The context of a selection\<close>

record selection_context =
  sc_claims :: "dict list"
  sc_best_revision :: "string option"
  sc_supported :: "string list"
  sc_failure_counts :: "(string, int) fmap"
  sc_goal_gap :: int
  sc_selection_counts :: "(string, int) fmap"
  sc_repeat_cap :: int
  sc_excluded :: "string list"

definition check_history :: "dict \<Rightarrow> unit res" where
  "check_history c =
     bind (rewrap (\<lambda>x. x = TypeError \<or> is_value_error x) AutonomousEvolutionError ''historical claims must be canonical JSON objects''
       (canonical_json (JObj c))) (\<lambda>_.
     bind (auto_unless (nonempty_text (get c ''task_id'')) ''historical claim task_id must be non-empty'') (\<lambda>_.
     auto_unless (nonempty_text (get c ''classification'')) ''historical claim classification must be non-empty''))"

definition check_task_ids :: "string \<Rightarrow> string list \<Rightarrow> unit res" where
  "check_task_ids name ids = bind (auto_unless ([] \<notin> set ids) (name @ '' must contain non-empty strings'')) (\<lambda>_.
     auto_unless (distinct ids) (name @ '' must not contain duplicates''))"

definition check_counts :: "string \<Rightarrow> (string, int) fmap \<Rightarrow> unit res" where
  "check_counts name m = bind (auto_unless (fmlookup m [] = None) (name @ '' keys must be non-empty strings'')) (\<lambda>_.
     auto_unless (fmpred (\<lambda>k n. 0 \<le> n) m) (name @ '' values must be non-negative integers''))"

definition mk_context :: "selection_context \<Rightarrow> selection_context res" where
  "mk_context c = bind (all_checks (map check_history (sc_claims c))) (\<lambda>_.
     bind (auto_unless (sc_best_revision c \<noteq> Some []) ''current best revision id must be non-empty when present'') (\<lambda>_.
     bind (check_task_ids ''current best supported task ids'' (sc_supported c)) (\<lambda>_.
     bind (check_counts ''failure signature counts'' (sc_failure_counts c)) (\<lambda>_.
     bind (check_counts ''task selection counts'' (sc_selection_counts c)) (\<lambda>_.
     bind (check_task_ids ''excluded task ids'' (sc_excluded c)) (\<lambda>_.
     bind (auto_unless (0 \<le> sc_goal_gap c) ''goal gap must be a non-negative integer'') (\<lambda>_.
     bind (auto_unless (0 < sc_repeat_cap c) ''repeat hard cap must be a positive integer'') (\<lambda>_.
     Inr (c\<lparr>sc_supported := sort (sc_supported c)\<rparr>)))))))))"

definition counts_json :: "(string, int) fmap \<Rightarrow> json" where
  "counts_json m = JObj (fmmap JInt m)"

definition context_payload :: "selection_context \<Rightarrow> (string \<times> json) list" where
  "context_payload c =
     [(''historical_claims'', JList (map JObj (sc_claims c))), (''current_best_revision_id'', opt_str (sc_best_revision c)),
      (''current_best_supported_task_ids'', str_list (sc_supported c)),
      (''failure_signature_counts'', counts_json (sc_failure_counts c)), (''goal_gap'', JInt (sc_goal_gap c)),
      (''task_selection_counts'', counts_json (sc_selection_counts c)), (''repeat_hard_cap'', JInt (sc_repeat_cap c))]
     @ (if sc_excluded c = [] then [] else [(''excluded_task_ids'', str_list (sc_excluded c))])"

section \<open>Selection\<close>

record task_selection =
  ts_selection_id :: string
  ts_round_index :: int
  ts_context_sha256 :: string
  ts_context :: dict
  ts_task_ids :: "string list"
  ts_projects :: "string list"
  ts_reason :: "string list"
  ts_excluded :: "string list"
  ts_tasks :: "dict list"

definition task_id_of :: "dict \<Rightarrow> string" where
  "task_id_of t = py_str (get t ''instance_id'')"

definition project_of :: "dict \<Rightarrow> string" where
  "project_of t = py_str (get t ''project'')"

text \<open>\<open>float(task.get("estimated_cost", 0))\<close>, as a key to sort by.\<close>

definition cost_key :: "dict \<Rightarrow> int" where
  "cost_key t = (case fmlookup t ''estimated_cost'' of
     Some (JInt i) \<Rightarrow> (case float_of_int i of Fin n \<Rightarrow> n | _ \<Rightarrow> 0) | Some (JFloat (Fin n)) \<Rightarrow> n | _ \<Rightarrow> 0)"

definition last_class :: "dict list \<Rightarrow> string \<Rightarrow> string option" where
  "last_class claims t = map_option (\<lambda>c. py_str (get c ''classification''))
     (find (\<lambda>c. py_str (get c ''task_id'') = t) (rev claims))"

definition history_rank :: "dict list \<Rightarrow> dict \<Rightarrow> nat" where
  "history_rank claims t = (if last_class claims (task_id_of t) \<in> {Some ''regression'', Some ''neutral''} then 0 else 1)"

definition count_in :: "(string, int) fmap \<Rightarrow> dict \<Rightarrow> int" where
  "count_in m t = (case fmlookup m (task_id_of t) of None \<Rightarrow> 0 | Some n \<Rightarrow> n)"

definition selectable :: "selection_context \<Rightarrow> dict \<Rightarrow> bool" where
  "selectable c t \<longleftrightarrow> count_in (sc_selection_counts c) t < sc_repeat_cap c \<and> task_id_of t \<notin> set (sc_excluded c)"

definition context_key :: "selection_context \<Rightarrow> dict \<Rightarrow> nat \<times> nat \<times> int \<times> int \<times> int \<times> string" where
  "context_key c t = (if 0 < sc_goal_gap c \<and> task_id_of t \<notin> set (sc_supported c) then 0 else 1, history_rank (sc_claims c) t,
     - count_in (sc_failure_counts c) t, count_in (sc_selection_counts c) t, cost_key t, task_id_of t)"

definition ranked_context :: "selection_context \<Rightarrow> dict list \<Rightarrow> dict list" where
  "ranked_context c ts = sort_key (context_key c) (filter (selectable c) ts)"

definition ranked_rotation :: "dict list \<Rightarrow> int \<Rightarrow> int \<Rightarrow> dict list \<Rightarrow> dict list" where
  "ranked_rotation claims rix n ts =
     (let ranked = sort_key (\<lambda>t. (history_rank claims t, cost_key t, task_id_of t)) ts
      in rotate (nat ((rix * n) mod int (length ranked))) ranked)"

text \<open>With more than one task, the first one and the first one of another project come first.\<close>

fun diverse_start :: "dict list \<Rightarrow> dict list" where
  "diverse_start [] = []"
| "diverse_start (t # ts) = t # (case find (\<lambda>u. project_of u \<noteq> project_of t) ts of None \<Rightarrow> [] | Some u \<Rightarrow> [u])"

fun fill_selection :: "nat \<Rightarrow> dict list \<Rightarrow> dict list \<Rightarrow> dict list" where
  "fill_selection n sel [] = sel"
| "fill_selection n sel (t # ts) = (if length sel = n then sel
     else fill_selection n (if t \<in> set sel then sel else sel @ [t]) ts)"

definition chosen :: "nat \<Rightarrow> dict list \<Rightarrow> dict list" where
  "chosen n ranked = fill_selection n (if 1 < n then diverse_start ranked else []) ranked"

definition context_reasons :: "selection_context \<Rightarrow> string list" where
  "context_reasons c =
     [''feedback-only''] @ (if sc_excluded c = [] then [] else [''excluded-task-count='' @ nat_text (card (set (sc_excluded c)))])
     @ [''goal-gap='' @ int_text (sc_goal_gap c),
        ''current-best='' @ (case sc_best_revision c of None \<Rightarrow> ''none'' | Some r \<Rightarrow> if r = [] then ''none'' else r),
        ''unsupported-current-best-first'', ''historical-regression-neutral-first'', ''repeated-failure-first'', ''least-selected-first'',
        ''cost-ascending'', ''repeat-hard-cap='' @ int_text (sc_repeat_cap c), ''project-diversity'', ''deterministic-context-replay'']"

definition selection_of :: "selector \<Rightarrow> int \<Rightarrow> nat \<Rightarrow> dict list \<Rightarrow> dict \<Rightarrow> string list \<Rightarrow> task_selection res" where
  "selection_of sl rix n ranked ctx reasons =
     (let sel = chosen n ranked; ids = map task_id_of sel; projects = sorted_list_of_set (project_of ` set sel) in
      bind (auto_unless (n \<le> length ranked) ''repeat hard cap leaves too few selectable tasks'') (\<lambda>_.
      bind (auto_unless (length sel = n \<and> (1 < n \<longrightarrow> 2 \<le> card (project_of ` set sel))) ''selected tasks must cover at least two projects'') (\<lambda>_.
      bind (content_sha256 (JObj ctx)) (\<lambda>h.
      Inr \<lparr>ts_selection_id = ''selection-'' @ take 24 (digest (jobj
             [(''round_index'', JInt rix), (''task_pool_sha256'', JStr (sl_pool_sha256 sl)), (''selected_task_ids'', str_list ids),
              (''ranked_selectable_task_ids'', str_list (map task_id_of ranked)), (''selection_context_sha256'', JStr h)])),
           ts_round_index = rix, ts_context_sha256 = h, ts_context = ctx, ts_task_ids = ids, ts_projects = projects,
           ts_reason = reasons, ts_excluded = map task_id_of (filter (\<lambda>t. t \<notin> set sel) (sl_tasks sl)), ts_tasks = sel\<rparr>))))"

definition select_tasks ::
  "selector \<Rightarrow> int \<Rightarrow> int \<Rightarrow> dict list option \<Rightarrow> selection_context option \<Rightarrow> task_selection res" where
  "select_tasks sl rix count prior ctx =
     bind (auto_unless (0 \<le> rix \<and> 0 < count \<and> count \<le> int (length (sl_tasks sl))) ''task selection bounds are invalid'') (\<lambda>_.
     bind (auto_unless (ctx = None \<or> prior = None) ''selection accepts either context or prior_claims, not both'') (\<lambda>_.
     case ctx of
       None \<Rightarrow> let claims = (case prior of None \<Rightarrow> [] | Some cs \<Rightarrow> cs) in
         selection_of sl rix (nat count) (ranked_rotation claims rix count (sl_tasks sl))
           (fmap_of_list [(''schema_version'', JInt 1), (''mode'', JStr ''compatibility-prior-claims''),
              (''historical_claims'', JList (map JObj claims))])
           [''feedback-only'', ''project-diversity'', ''deterministic-round-rotation'']
     | Some c \<Rightarrow> selection_of sl rix (nat count) (ranked_context c (sl_tasks sl))
           (fmap_of_list ([(''schema_version'', JInt 1), (''mode'', JStr ''stateful-v1'')] @ context_payload c)) (context_reasons c)))"

end
