(* ===== verification/Feedback.thy ===== *)
theory Feedback
  imports Outcome_Verifier Task_Selector
begin

text \<open>
  \<open>src/src/evolve/autonomous/next_round.py\<close>: the feedback of a campaign, projected from the
  round's receipts, and the facts by which two rounds are recognised as the same failure.
\<close>

section \<open>Checked fields\<close>

definition required_text :: "json \<Rightarrow> string res" where
  "required_text j = (case j of JStr s \<Rightarrow> if s = [] then raise AutonomousEvolutionError ''campaign feedback field is invalid'' else Inr s
     | _ \<Rightarrow> raise AutonomousEvolutionError ''campaign feedback field is invalid'')"

definition optional_text :: "json \<Rightarrow> string option res" where
  "optional_text j = (if j = JNull then Inr None else bind (required_text j) (\<lambda>s. Inr (Some s)))"

definition optional_bool :: "json \<Rightarrow> bool option res" where
  "optional_bool j = (case j of JNull \<Rightarrow> Inr None | JBool b \<Rightarrow> Inr (Some b)
     | _ \<Rightarrow> raise AutonomousEvolutionError ''campaign feedback field is invalid'')"

definition optional_digest :: "json \<Rightarrow> string option res" where
  "optional_digest j = (case j of JNull \<Rightarrow> Inr None
     | JStr s \<Rightarrow> if is_sha256 s then Inr (Some s) else raise AutonomousEvolutionError ''campaign feedback field is not SHA-256''
     | _ \<Rightarrow> raise AutonomousEvolutionError ''campaign feedback field is not SHA-256'')"

definition required_digest :: "json \<Rightarrow> string res" where
  "required_digest j = bind (optional_digest j) (\<lambda>h. case h of
     None \<Rightarrow> raise AutonomousEvolutionError ''campaign feedback field is missing'' | Some s \<Rightarrow> Inr s)"

definition failure_categories :: "string list" where
  "failure_categories = [''empty_patch'', ''expression-used-for-statement'', ''malformed-hunk'', ''selector-no-match'', ''unresolved'']"

definition failure_category :: "json \<Rightarrow> (string option \<times> string option) res" where
  "failure_category j = bind (optional_text j) (\<lambda>raw. case raw of
     None \<Rightarrow> Inr (None, None)
   | Some r \<Rightarrow> let n = casefold (strip r) in
       if n \<in> set failure_categories then Inr (Some n, None) else Inr (Some ''other'', Some (text_sha256 r)))"

fun opt_bool :: "bool option \<Rightarrow> json" where
  "opt_bool None = JNull" | "opt_bool (Some b) = JBool b"

definition only_receipt :: "receipt list \<Rightarrow> string \<Rightarrow> receipt res" where
  "only_receipt rs kind = (case filter (\<lambda>r. rc_kind r = kind) rs of
     [r] \<Rightarrow> Inr r | _ \<Rightarrow> raise AutonomousEvolutionError ''campaign feedback plan requires one receipt of each kind'')"

definition rget :: "receipt \<Rightarrow> string \<Rightarrow> json" where
  "rget r k = get (rc_payload r) k"

section \<open>The directory of a round\<close>

text \<open>JSON files by name (\<open>None\<close> for text that is not JSON), and the stores below the directory.\<close>

record round_dir =
  rd_files :: "(string, json option) fmap"
  rd_store :: receipt_store
  rd_graph :: evidence_graph
  rd_prescreen :: receipt_store

definition load_json_object :: "round_dir \<Rightarrow> string \<Rightarrow> dict res" where
  "load_json_object rd name = (case fmlookup (rd_files rd) name of
     Some (Some (JObj d)) \<Rightarrow> Inr d
   | Some (Some _) \<Rightarrow> raise AutonomousEvolutionError ''frozen autonomous artifact is not an object''
   | _ \<Rightarrow> raise AutonomousEvolutionError ''frozen autonomous artifact is unreadable'')"

section \<open>Infrastructure failures\<close>

definition evaluator_failed :: "receipt \<Rightarrow> bool" where
  "evaluator_failed r \<longleftrightarrow> rc_kind r = ''native_evaluation'' \<and> rget r ''evaluator_error'' \<notin> {JNull, JStr []}"

definition of_plan :: "receipt list \<Rightarrow> string \<Rightarrow> receipt list" where
  "of_plan rs plan = filter (\<lambda>r. rc_plan_id r = plan) rs"

definition infra_failure_row :: "string \<Rightarrow> receipt list \<Rightarrow> json option res" where
  "infra_failure_row plan prs = (case find evaluator_failed prs of None \<Rightarrow> Inr None
   | Some nv \<Rightarrow>
       bind (only_receipt prs ''model'') (\<lambda>md.
       bind (only_receipt prs ''execution_terminal'') (\<lambda>tm.
       bind (auto_unless (rget nv ''model_receipt_id'' = JStr (rc_receipt_id md)
           \<and> rget nv ''model_artifact_sha256'' = JStr (rc_artifact_sha256 md)
           \<and> py_eq (rget nv ''task_revision_id'') (rget md ''task_revision_id'') \<and> py_eq (rget nv ''arm'') (rget md ''arm'')
           \<and> rget tm ''status'' = JStr ''infra_failure'') ''infrastructure failure receipt lineage is inconsistent'') (\<lambda>_.
       bind (failure_category (rget nv ''evaluator_error'')) (\<lambda>(err, raw).
       bind (required_text (rget md ''task_revision_id'')) (\<lambda>tr.
       bind (required_text (rget md ''arm'')) (\<lambda>arm.
       bind (receipt_sha256 md) (\<lambda>mh. bind (receipt_sha256 nv) (\<lambda>nh. bind (receipt_sha256 tm) (\<lambda>th.
       Inr (Some (jobj
         [(''plan_id'', JStr plan), (''task_revision_id'', JStr tr), (''arm'', JStr arm), (''execution_status'', JStr ''infra_failure''),
          (''model_receipt_id'', JStr (rc_receipt_id md)), (''model_receipt_sha256'', JStr mh),
          (''model_artifact_sha256'', JStr (rc_artifact_sha256 md)), (''native_receipt_id'', JStr (rc_receipt_id nv)),
          (''native_receipt_sha256'', JStr nh), (''native_artifact_sha256'', JStr (rc_artifact_sha256 nv)),
          (''execution_terminal_receipt_id'', JStr (rc_receipt_id tm)), (''execution_terminal_receipt_sha256'', JStr th),
          (''evaluator_error'', opt_str err), (''evaluator_error_raw_sha256'', opt_str raw)]))))))))))))"

definition infrastructure_feedback :: "round_dir \<Rightarrow> dict res" where
  "infrastructure_feedback rd =
     bind (list_receipts (rd_store rd)) (\<lambda>rs.
     bind (auto_unless (rs \<noteq> []) ''infrastructure failure has no authoritative receipts'') (\<lambda>_.
     bind (auto_unless (card (rc_campaign_id ` set rs) = 1) ''infrastructure failure campaign identity is ambiguous'') (\<lambda>_.
     bind (rewrap (\<lambda>_. True) AutonomousEvolutionError ''infrastructure failure evidence replay failed''
       (graph_rebuild (rd_store rd) ((rd_graph rd)\<lparr>eg_legacy := False\<rparr>))) (\<lambda>_.
     bind (mapM (\<lambda>plan. infra_failure_row plan (of_plan rs plan)) (sorted_list_of_set (rc_plan_id ` set rs))) (\<lambda>rows.
     let failures = concat (map (\<lambda>r. case r of None \<Rightarrow> [] | Some j \<Rightarrow> [j]) rows) in
     bind (auto_unless (failures \<noteq> []) ''campaign failure is not an authoritative evaluator failure'') (\<lambda>_.
     Inr (fmap_of_list [(''schema_version'', JInt 1), (''campaign_id'', JStr (rc_campaign_id (hd rs))),
       (''campaign_status'', JStr ''infra_failure''), (''task_pairs'', JList []), (''infrastructure_failures'', JList failures)])))))))"

section \<open>Completed campaigns\<close>

definition mirrored_in_trace :: "string list" where
  "mirrored_in_trace = [''candidate_consumed'', ''candidate_revision_id'', ''candidate_bundle_sha256'', ''structural_valid'', ''failure_reason'']"

text \<open>One plan: the task revision and arm it ran, and the facts of its four receipts.\<close>

definition arm_row :: "string \<Rightarrow> receipt list \<Rightarrow> ((string \<times> string) \<times> dict) res" where
  "arm_row plan prs =
     bind (only_receipt prs ''model'') (\<lambda>md.
     bind (required_text (rget md ''task_revision_id'')) (\<lambda>tr.
     bind (required_text (rget md ''arm'')) (\<lambda>arm.
     bind (auto_unless (arm \<in> {''baseline'', ''taught''}) ''campaign model receipt has invalid arm'') (\<lambda>_.
     bind (only_receipt prs ''external_trace'') (\<lambda>ext.
     bind (only_receipt prs ''native_evaluation'') (\<lambda>nv.
     bind (only_receipt prs ''execution_terminal'') (\<lambda>tm.
     bind (optional_digest (rget md ''patch_sha256'')) (\<lambda>patch.
     bind (auto_unless (list_all (\<lambda>r. rget r ''model_receipt_id'' = JStr (rc_receipt_id md)
            \<and> rget r ''model_artifact_sha256'' = JStr (rc_artifact_sha256 md) \<and> rget r ''task_revision_id'' = JStr tr
            \<and> rget r ''arm'' = JStr arm \<and> rget r ''prediction_sha256'' = opt_str patch) [ext, nv]
          \<and> rget ext ''patch_sha256'' = opt_str patch) ''campaign feedback receipt lineage is inconsistent'') (\<lambda>_.
     bind (auto_unless (list_all (\<lambda>f. py_eq (rget ext f) (rget md f)) mirrored_in_trace)
       ''campaign external trace disagrees with model receipt'') (\<lambda>_.
     bind (failure_category (rget md ''failure_reason'')) (\<lambda>(fr, frh).
     bind (failure_category (if rget nv ''native_error'' = JNull then rget nv ''evaluator_error'' else rget nv ''native_error'')) (\<lambda>(ne, neh).
     bind (required_text (rget tm ''status'')) (\<lambda>st.
     bind (receipt_sha256 tm) (\<lambda>th. bind (receipt_sha256 md) (\<lambda>mh. bind (receipt_sha256 ext) (\<lambda>eh.
     bind (optional_bool (rget md ''candidate_consumed'')) (\<lambda>cc.
     bind (optional_text (rget md ''candidate_revision_id'')) (\<lambda>crev.
     bind (optional_digest (rget md ''candidate_bundle_sha256'')) (\<lambda>bdl.
     bind (optional_bool (rget md ''structural_valid'')) (\<lambda>sv.
     bind (receipt_sha256 nv) (\<lambda>nh.
     bind (optional_bool (rget nv ''resolved'')) (\<lambda>res.
     bind (optional_digest (rget nv ''native_report_sha256'')) (\<lambda>nrep.
     bind (optional_digest (rget nv ''official_receipt_sha256'')) (\<lambda>off.
     Inr ((tr, arm), fmap_of_list
       [(''plan_id'', JStr plan), (''execution_status'', JStr st), (''execution_terminal_receipt_id'', JStr (rc_receipt_id tm)),
        (''execution_terminal_receipt_sha256'', JStr th), (''model_receipt_id'', JStr (rc_receipt_id md)),
        (''model_receipt_sha256'', JStr mh), (''model_artifact_sha256'', JStr (rc_artifact_sha256 md)),
        (''external_trace_receipt_id'', JStr (rc_receipt_id ext)), (''external_trace_receipt_sha256'', JStr eh),
        (''external_trace_artifact_sha256'', JStr (rc_artifact_sha256 ext)), (''candidate_consumed'', opt_bool cc),
        (''candidate_revision_id'', opt_str crev), (''candidate_bundle_sha256'', opt_str bdl), (''patch_sha256'', opt_str patch),
        (''structural_valid'', opt_bool sv), (''failure_reason'', opt_str fr), (''failure_reason_raw_sha256'', opt_str frh),
        (''native_receipt_id'', JStr (rc_receipt_id nv)), (''native_receipt_sha256'', JStr nh),
        (''native_artifact_sha256'', JStr (rc_artifact_sha256 nv)), (''resolved'', opt_bool res), (''native_error'', opt_str ne),
        (''native_error_raw_sha256'', opt_str neh), (''native_report_sha256'', opt_str nrep),
        (''official_receipt_sha256'', opt_str off)])))))))))))))))))))))))))"

type_synonym arm_table = "((string \<times> string) \<times> dict) list"

fun arm_rows :: "receipt list \<Rightarrow> arm_table \<Rightarrow> string list \<Rightarrow> arm_table res" where
  "arm_rows rs acc [] = Inr acc"
| "arm_rows rs acc (plan # plans) = bind (arm_row plan (of_plan rs plan)) (\<lambda>(k, row).
     bind (auto_unless (map_of acc k = None) ''campaign feedback contains duplicate arm'') (\<lambda>_. arm_rows rs (acc @ [(k, row)]) plans))"

definition paired_receipts :: "dict \<Rightarrow> dict \<Rightarrow> json set" where
  "paired_receipts b t = set (concat (map (\<lambda>d. map (get d) [''model_receipt_id'', ''external_trace_receipt_id'', ''native_receipt_id'']) [b, t]))"

definition pair_row :: "verified_claim \<Rightarrow> string \<Rightarrow> dict \<Rightarrow> dict \<Rightarrow> json" where
  "pair_row v tr b t = jobj
     [(''task_id'', JStr (vc_task_id v)), (''task_revision_id'', JStr tr), (''baseline'', JObj b), (''taught'', JObj t),
      (''claim'', jobj [(''claim_id'', JStr (vc_claim_id v)), (''classification'', JStr (vc_classification v)),
         (''grade'', JStr (vc_grade v)), (''counterfactual_pair_sha256'', opt_str (vc_pair_sha256 v)),
         (''counterfactual_receipt_ids'', str_list (vc_receipt_ids v))])]"

fun pair_rows :: "verified_claim list \<Rightarrow> arm_table \<Rightarrow> json list \<Rightarrow> json list \<Rightarrow> (json list \<times> arm_table) res" where
  "pair_rows vs arms acc [] = Inr (acc, arms)"
| "pair_rows vs arms acc (row # rows) = (case row of
     JObj d \<Rightarrow>
       bind (required_text (get d ''claim_id'')) (\<lambda>i.
       case find (\<lambda>v. vc_claim_id v = i) (rev vs) of
         None \<Rightarrow> raise AutonomousEvolutionError ''campaign feedback claim was not independently verified''
       | Some v \<Rightarrow>
           bind (required_text (get d ''task_revision_id'')) (\<lambda>tr.
           case (map_of arms (tr, ''baseline''), map_of arms (tr, ''taught'')) of
             (Some b, Some t) \<Rightarrow>
               bind (auto_unless (length (vc_receipt_ids v) = 6 \<and> JStr ` set (vc_receipt_ids v) = paired_receipts b t)
                 ''campaign counterfactual receipts do not bind the projected pair'') (\<lambda>_.
               pair_rows vs (filter (\<lambda>e. fst e \<notin> {(tr, ''baseline''), (tr, ''taught'')}) arms) (acc @ [pair_row v tr b t]) rows)
           | _ \<Rightarrow> raise AutonomousEvolutionError ''campaign feedback has an incomplete paired execution''))
   | _ \<Rightarrow> raise AutonomousEvolutionError ''campaign feedback claim binding is invalid'')"

section \<open>Screened-out candidates\<close>

definition prescreen_feedback :: "round_dir \<Rightarrow> dict \<Rightarrow> string \<Rightarrow> json res" where
  "prescreen_feedback rd ps cand =
     bind (required_text (get ps ''status'')) (\<lambda>st.
     case get ps ''model_receipt_ids'' of JList [mid] \<Rightarrow>
       bind (auto_unless (st = ''completed'') ''screened-out candidate lacks one completed prescreen model receipt'') (\<lambda>_.
       bind (list_receipts (rd_prescreen rd)) (\<lambda>rs.
       case find (\<lambda>r. JStr (rc_receipt_id r) = mid \<and> rc_kind r = ''model'') rs of
         None \<Rightarrow> raise AutonomousEvolutionError ''screened-out candidate model receipt is missing''
       | Some md \<Rightarrow>
         (let prs = of_plan rs (rc_plan_id md) in
         bind (only_receipt prs ''external_trace'') (\<lambda>ext.
         bind (only_receipt prs ''execution_terminal'') (\<lambda>tm.
         bind (required_text (get ps ''candidate_revision_id'')) (\<lambda>crev.
         bind (required_digest (get ps ''candidate_bundle_sha256'')) (\<lambda>bdl.
         bind (optional_digest (rget md ''patch_sha256'')) (\<lambda>patch.
         bind (optional_bool (rget md ''structural_valid'')) (\<lambda>sv.
         bind (auto_unless (rget md ''candidate_consumed'' = JBool True \<and> rget md ''candidate_revision_id'' = JStr crev
             \<and> rget md ''candidate_bundle_sha256'' = JStr bdl) ''screened-out candidate receipt lineage is inconsistent'') (\<lambda>_.
         bind (optional_bool (get ps ''structural_valid'')) (\<lambda>psv.
         bind (auto_unless (sv = psv \<and> rget ext ''model_receipt_id'' = JStr (rc_receipt_id md)
             \<and> rget ext ''model_artifact_sha256'' = JStr (rc_artifact_sha256 md) \<and> rget ext ''prediction_sha256'' = opt_str patch
             \<and> rget ext ''patch_sha256'' = opt_str patch \<and> rget tm ''status'' = JStr ''completed'')
           ''screened-out candidate receipt lineage is inconsistent'') (\<lambda>_.
         bind (failure_category (rget md ''failure_reason'')) (\<lambda>(fr, frh).
         bind (required_text (rget md ''task_revision_id'')) (\<lambda>tr.
         bind (receipt_sha256 md) (\<lambda>mh. bind (receipt_sha256 ext) (\<lambda>eh. bind (receipt_sha256 tm) (\<lambda>th.
         bind (optional_bool (get ps ''patch_applicable'')) (\<lambda>pa.
         Inr (jobj
           [(''candidate_id'', JStr cand), (''candidate_revision_id'', JStr crev), (''candidate_bundle_sha256'', JStr bdl),
            (''task_revision_id'', JStr tr), (''plan_id'', JStr (rc_plan_id md)), (''model_receipt_id'', JStr (rc_receipt_id md)),
            (''model_receipt_sha256'', JStr mh), (''model_artifact_sha256'', JStr (rc_artifact_sha256 md)),
            (''external_trace_receipt_id'', JStr (rc_receipt_id ext)), (''external_trace_receipt_sha256'', JStr eh),
            (''execution_terminal_receipt_id'', JStr (rc_receipt_id tm)), (''execution_terminal_receipt_sha256'', JStr th),
            (''patch_sha256'', opt_str patch), (''structural_valid'', opt_bool sv), (''patch_applicable'', opt_bool pa),
            (''failure_reason'', opt_str fr), (''failure_reason_raw_sha256'', opt_str frh)])))))))))))))))))))
     | _ \<Rightarrow> raise AutonomousEvolutionError ''screened-out candidate lacks one completed prescreen model receipt'')"

section \<open>The projection\<close>

definition feedback_head :: "string option \<Rightarrow> string option \<Rightarrow> json list \<Rightarrow> dict" where
  "feedback_head cid st pairs = fmap_of_list
     [(''schema_version'', JInt 1), (''campaign_id'', opt_str cid), (''campaign_status'', opt_str st), (''task_pairs'', JList pairs)]"

definition campaign_feedback :: "round_dir \<Rightarrow> dict \<Rightarrow> verified_claim list \<Rightarrow> dict \<Rightarrow> string \<Rightarrow> dict res" where
  "campaign_feedback rd result vs ps cand =
     bind (optional_text (get result ''campaign_status'')) (\<lambda>st.
     bind (optional_text (get result ''campaign_id'')) (\<lambda>cid.
     if vs = [] then
       (if st = Some ''screened_out'' then bind (prescreen_feedback rd ps cand) (\<lambda>p. Inr (fmupd ''prescreen'' p (feedback_head cid st [])))
        else Inr (feedback_head cid st []))
     else (case cid of
       None \<Rightarrow> raise AutonomousEvolutionError ''completed campaign feedback has no campaign id''
     | Some c \<Rightarrow>
         bind (list_receipts (rd_store rd)) (\<lambda>rs.
         bind (auto_unless (list_all (\<lambda>r. rc_campaign_id r = c) rs) ''campaign receipt identity mismatch'') (\<lambda>_.
         bind (arm_rows rs [] (uniq (map rc_plan_id rs))) (\<lambda>arms.
         (case get result ''claims'' of
           JList rows \<Rightarrow>
             bind (pair_rows vs arms [] rows) (\<lambda>(pairs, rest).
             bind (auto_unless (rest = [] \<and> length pairs = length vs) ''campaign feedback does not cover every verified task pair'') (\<lambda>_.
             Inr (feedback_head cid st pairs)))
         | _ \<Rightarrow> raise AutonomousEvolutionError ''campaign feedback claim binding is missing'')))))))"

section \<open>Failure facts\<close>

text \<open>The items of a sequence; an object, a number or null is not one, and a text has none that count.\<close>

fun sequence_items :: "json \<Rightarrow> json list option" where
  "sequence_items (JList xs) = Some xs" | "sequence_items (JStr s) = Some []" | "sequence_items j = None"

definition only_objects :: "json list \<Rightarrow> dict list" where
  "only_objects xs = concat (map (\<lambda>j. case j of JObj d \<Rightarrow> [d] | _ \<Rightarrow> []) xs)"

definition fields_of :: "string list \<Rightarrow> dict \<Rightarrow> json" where
  "fields_of ks d = jobj (map (\<lambda>k. (k, get d k)) ks)"

definition arm_facts :: "dict \<Rightarrow> string \<Rightarrow> (string \<times> json) list" where
  "arm_facts pair arm = (case get pair arm of
     JObj d \<Rightarrow> [(arm, fields_of [''execution_status'', ''patch_sha256'', ''structural_valid'', ''failure_reason'', ''resolved'',
        ''native_error'', ''native_report_sha256'', ''official_receipt_sha256''] d)]
   | _ \<Rightarrow> [])"

definition pair_facts :: "dict \<Rightarrow> json" where
  "pair_facts pair = jobj ([(''task_id'', get pair ''task_id''), (''task_revision_id'', get pair ''task_revision_id'')]
     @ arm_facts pair ''baseline'' @ arm_facts pair ''taught'')"

definition campaign_failure_facts :: "dict \<Rightarrow> json list" where
  "campaign_failure_facts fb =
     (case sequence_items (case fmlookup fb ''task_pairs'' of None \<Rightarrow> JList [] | Some j \<Rightarrow> j) of
        None \<Rightarrow> []
      | Some pairs \<Rightarrow> map pair_facts (only_objects pairs)
          @ (case get fb ''prescreen'' of
               JObj p \<Rightarrow> [jobj [(''prescreen'', fields_of [''candidate_revision_id'', ''candidate_bundle_sha256'', ''task_revision_id'',
                  ''patch_sha256'', ''structural_valid'', ''patch_applicable'', ''failure_reason''] p)]]
             | _ \<Rightarrow> [])
          @ (case sequence_items (get fb ''infrastructure_failures'') of
               None \<Rightarrow> []
             | Some fs \<Rightarrow> map (\<lambda>f. jobj [(''infrastructure_failure'', fields_of [''task_revision_id'', ''arm'', ''execution_status'',
                  ''evaluator_error'', ''evaluator_error_raw_sha256''] f)]) (only_objects fs)))"

section \<open>The feedback rebuilt from a sealed round\<close>

fun dict_of :: "json \<Rightarrow> dict res" where
  "dict_of (JObj d) = Inr d" | "dict_of j = raise TypeError ''object is not iterable''"

definition selected_ids_of :: "dict \<Rightarrow> string list res" where
  "selected_ids_of sel = (case get sel ''selected_task_ids'' of
     JList xs \<Rightarrow> bind (auto_unless (list_all nonempty_text xs) ''legacy round task selection is invalid'') (\<lambda>_. Inr (map py_str xs))
   | _ \<Rightarrow> raise AutonomousEvolutionError ''legacy round task selection is invalid'')"

definition rebuild_feedback :: "round_dir \<Rightarrow> string \<Rightarrow> string \<Rightarrow> string \<Rightarrow> dict res" where
  "rebuild_feedback rd cand crev bdl =
     bind (load_json_object rd ''CAMPAIGN-RESULT.json'') (\<lambda>result.
     if get result ''campaign_status'' = JStr ''baseline_failed'' then
       bind (case fmlookup result ''failed_task_ids'' of None \<Rightarrow> Inr [] | Some v \<Rightarrow> tuple_of v) (\<lambda>failed.
       bind (case fmlookup result ''failure_reasons'' of None \<Rightarrow> Inr fmempty | Some v \<Rightarrow> dict_of v) (\<lambda>reasons.
       Inr (fmap_of_list [(''schema_version'', JInt 1), (''campaign_id'', get result ''campaign_id''),
         (''campaign_status'', JStr ''baseline_failed''), (''task_pairs'', JList []), (''failed_task_ids'', JList failed),
         (''failure_reasons'', JObj reasons)])))
     else
     bind (load_json_object rd ''PRESCREEN-RESULT.json'') (\<lambda>ps.
     if get result ''campaign_status'' = JStr ''infra_failure'' then infrastructure_feedback rd
     else
     bind (if get result ''campaign_status'' = JStr ''screened_out'' then Inr []
           else if get result ''campaign_status'' = JStr ''completed'' then
             bind (load_json_object rd ''TASK-SELECTION.json'') (\<lambda>sel.
             bind (selected_ids_of sel) (\<lambda>ids.
             bind (required_text (JStr cand)) (\<lambda>c. bind (required_text (JStr crev)) (\<lambda>r. bind (required_digest (JStr bdl)) (\<lambda>b.
             verify_campaign (rd_store rd) (rd_graph rd) result ids c r b)))))
           else raise AutonomousEvolutionError ''legacy round campaign status cannot produce feedback'') (\<lambda>vs.
     bind (required_text (JStr cand)) (\<lambda>c. campaign_feedback rd result vs ps c))))"

definition teacher_task_fields :: "string list" where
  "teacher_task_fields = [''schema_version'', ''instance_id'', ''task_id'', ''project'', ''repo'', ''benchmark_id'', ''cohort'',
     ''base_revision'', ''benchmark_base_commit'', ''source_revision'', ''instruction'', ''instruction_sha256'', ''allowed_targets'',
     ''catalog_fingerprint'', ''fingerprint'', ''task_fingerprint_sha256'', ''estimated_cost'', ''mechanism_route'', ''route'']"

definition teacher_task :: "dict \<Rightarrow> dict" where
  "teacher_task t = fmfilter (\<lambda>k. k \<in> set teacher_task_fields) t"

end
