(* ===== verification/Output.thy ===== *)
theory Output
  imports Feedback
begin

text \<open>
  \<open>src/src/evolve/autonomous/output.py\<close>: frozen artifacts and the projection of the best harness.
  A directory of JSON files is a map from names to what \<open>json.loads\<close> makes of the text (every
  writer of the package writes canonical text, so equal values are equal files); a compiled
  revision in a directory is what \<open>CompiledRevision.load\<close> returns for it.
\<close>

section \<open>Frozen files\<close>

type_synonym files = "(string, json option) fmap"

definition freeze_json :: "string \<Rightarrow> dict \<Rightarrow> (files, unit) op" where
  "freeze_json name payload =
     obind (olift (canonical_json (JObj payload))) (\<lambda>_.
     obind (oread (\<lambda>fs. fmlookup fs name)) (\<lambda>f. case f of
       Some old \<Rightarrow> olift (auto_unless (old = Some (JObj payload)) ''immutable autonomous artifact conflict'')
     | None \<Rightarrow> omodify (fmupd name (Some (JObj payload)))))"

section \<open>The best harness\<close>

record compiled =
  cm_candidate_id :: string
  cm_revision_id :: string
  cm_parent_id :: string
  cm_bundle :: string
  cm_operator_id :: string
  cm_routes :: "(string \<times> string) list"
  cm_memory :: bool
  cm_synthesized :: "string list"

text \<open>\<open>bd_harness\<close>: no file, a file that is not JSON, or its value.\<close>

record best_dir =
  bd_harness :: "json option option"
  bd_compiled :: "compiled option"

definition load_compiled :: "compiled option \<Rightarrow> compiled res" where
  "load_compiled c = (case c of None \<Rightarrow> raise ContractViolation ''compiled revision manifest is unreadable'' | Some r \<Rightarrow> Inr r)"

definition best_fields :: "string list" where
  "best_fields = [''schema_version'', ''harness_kind'', ''model_identity_sha256'', ''candidate_id'', ''candidate_revision_id'',
     ''compiled_bundle_sha256'', ''skill_path'', ''operator_path'', ''router_path'', ''memory_policy_path'', ''supported_task_signatures'',
     ''native_gain_task_ids'', ''regression_task_ids'', ''source_claim_ids'', ''active'']"

definition harness_paths :: "string list" where
  "harness_paths = [''skill_path'', ''operator_path'', ''router_path'', ''memory_policy_path'']"

definition harness_lists :: "string list" where
  "harness_lists = [''supported_task_signatures'', ''native_gain_task_ids'', ''regression_task_ids'', ''source_claim_ids'']"

definition memory_path :: "compiled \<Rightarrow> json" where
  "memory_path c = (if cm_memory c then JStr ''COMPILED-MEMORY-POLICY.json'' else JNull)"

definition compiled_paths :: "compiled \<Rightarrow> (string \<times> json) list" where
  "compiled_paths c = [(''skill_path'', JStr ''COMPILED-SKILL.json''), (''operator_path'', JStr ''COMPILED-OPERATOR.json''),
     (''router_path'', JStr ''COMPILED-ROUTER.json''), (''memory_policy_path'', memory_path c)]"

definition sorted_strings :: "string list \<Rightarrow> json" where
  "sorted_strings xs = str_list (sort xs)"

definition class_tasks :: "string \<Rightarrow> verified_claim list \<Rightarrow> string list" where
  "class_tasks k vs = map vc_task_id (filter (\<lambda>v. vc_classification v = k) vs)"

definition best_harness :: "string \<Rightarrow> compiled \<Rightarrow> verified_claim list \<Rightarrow> dict" where
  "best_harness mid c vs = fmap_of_list
     ([(''schema_version'', JInt 1), (''harness_kind'', JStr ''compiled-candidate''), (''model_identity_sha256'', JStr mid),
       (''candidate_id'', JStr (cm_candidate_id c)), (''candidate_revision_id'', JStr (cm_revision_id c)),
       (''compiled_bundle_sha256'', JStr (cm_bundle c))] @ compiled_paths c
      @ [(''supported_task_signatures'', str_list (sorted_list_of_set (vc_task_id ` set vs))),
         (''native_gain_task_ids'', sorted_strings (class_tasks ''gain'' vs)),
         (''regression_task_ids'', sorted_strings (class_tasks ''regression'' vs)),
         (''source_claim_ids'', str_list (map vc_claim_id vs)), (''active'', JBool False)])"

text \<open>The compiled artifacts of the round replace those of the directory, then the harness file is replaced.\<close>

definition export_best :: "string \<Rightarrow> compiled option \<Rightarrow> compiled \<Rightarrow> verified_claim list \<Rightarrow> (best_dir, unit) op" where
  "export_best mid in_round cand vs =
     obind (olift (load_compiled in_round)) (\<lambda>c.
     obind (olift (auto_unless (cm_candidate_id c = cm_candidate_id cand \<and> cm_revision_id c = cm_revision_id cand
         \<and> cm_bundle c = cm_bundle cand) ''best Harness compiled identity mismatch'')) (\<lambda>_.
     obind (omodify (\<lambda>b. b\<lparr>bd_compiled := Some c\<rparr>)) (\<lambda>_.
     omodify (\<lambda>b. b\<lparr>bd_harness := Some (Some (JObj (best_harness mid c vs)))\<rparr>))))"

definition empty_definition :: json where
  "empty_definition = jobj [(''kind'', JStr ''empty-harness''), (''revision_id'', JStr ''empty-harness-v1''), (''external_intervention'', JNull)]"

definition empty_harness :: "string \<Rightarrow> dict" where
  "empty_harness mid = fmap_of_list
     ([(''schema_version'', JInt 1), (''harness_kind'', JStr ''empty''), (''model_identity_sha256'', JStr mid), (''candidate_id'', JNull),
       (''candidate_revision_id'', JStr ''empty-harness-v1''), (''compiled_bundle_sha256'', JStr (digest empty_definition))]
      @ map (\<lambda>k. (k, JNull)) harness_paths @ map (\<lambda>k. (k, JList [])) harness_lists @ [(''active'', JBool False)])"

definition export_empty :: "string \<Rightarrow> (best_dir, unit) op" where
  "export_empty mid = omodify (\<lambda>b. b\<lparr>bd_harness := Some (Some (JObj (empty_harness mid)))\<rparr>)"

section \<open>Verifying the projection\<close>

definition unique_texts :: "json \<Rightarrow> bool" where
  "unique_texts j \<longleftrightarrow> (case j of JList xs \<Rightarrow> list_all nonempty_text xs \<and> distinct xs | _ \<Rightarrow> False)"

definition authority_text :: "json \<Rightarrow> string res" where
  "authority_text j = (case j of JStr s \<Rightarrow> bind (violation_unless (s \<noteq> []) ''BEST-HARNESS authoritative field is invalid'') (\<lambda>_. Inr s)
     | _ \<Rightarrow> raise ContractViolation ''BEST-HARNESS authoritative field is invalid'')"

definition claim_object :: "json \<Rightarrow> dict res" where
  "claim_object j = (case j of JObj d \<Rightarrow> Inr d | _ \<Rightarrow> raise ContractViolation ''BEST-HARNESS authoritative claim is invalid'')"

definition claim_projection :: "json list \<Rightarrow> (string \<times> json) list res" where
  "claim_projection claims =
     bind (mapM claim_object claims) (\<lambda>rows.
     bind (mapM (\<lambda>r. authority_text (get r ''task_id'')) rows) (\<lambda>tasks.
     bind (mapM (\<lambda>r. authority_text (get r ''claim_id'')) rows) (\<lambda>ids.
     bind (violation_unless (tasks \<noteq> [] \<and> distinct tasks \<and> distinct ids) ''BEST-HARNESS authoritative claims must be non-empty and unique'') (\<lambda>_.
     let of_class = (\<lambda>k. map fst (filter (\<lambda>(t, r). get r ''classification'' = JStr k) (zip tasks rows))) in
     Inr [(''supported_task_signatures'', str_list (sorted_list_of_set (set tasks))),
          (''native_gain_task_ids'', sorted_strings (of_class ''gain'')),
          (''regression_task_ids'', sorted_strings (of_class ''regression'')), (''source_claim_ids'', str_list ids)]))))"

definition verify_accepted_round :: "dict \<Rightarrow> dict \<Rightarrow> unit res" where
  "verify_accepted_round h r =
     bind (violation_unless (get r ''accepted_as_best'' = JBool True
         \<and> list_all (\<lambda>k. py_eq (get r k) (get h k)) [''candidate_id'', ''candidate_revision_id'', ''compiled_bundle_sha256''])
       ''BEST-HARNESS authoritative round projection mismatch'') (\<lambda>_.
     case get r ''claims'' of
       JList claims \<Rightarrow> bind (claim_projection claims) (\<lambda>expected.
         violation_unless (list_all (\<lambda>(k, v). get h k = v) expected) ''BEST-HARNESS authoritative round projection mismatch'')
     | _ \<Rightarrow> raise ContractViolation ''BEST-HARNESS authoritative round projection mismatch'')"

definition verify_empty_round :: "dict \<Rightarrow> dict \<Rightarrow> unit res" where
  "verify_empty_round h r = violation_unless (get r ''accepted_as_best'' = JBool False \<and> get r ''candidate_id'' = JNull
     \<and> get r ''candidate_revision_id'' = JStr ''empty-harness-v1'' \<and> py_eq (get r ''compiled_bundle_sha256'') (get h ''compiled_bundle_sha256'')
     \<and> get r ''claims'' \<in> {JNull, JList []}) ''BEST-HARNESS authoritative round projection mismatch''"

definition verify_best_empty :: "dict \<Rightarrow> dict option \<Rightarrow> unit res" where
  "verify_best_empty h accepted =
     bind (violation_unless (get h ''candidate_id'' = JNull \<and> get h ''candidate_revision_id'' = JStr ''empty-harness-v1''
         \<and> get h ''compiled_bundle_sha256'' = JStr (digest empty_definition) \<and> list_all (\<lambda>k. get h k = JNull) harness_paths)
       ''empty BEST-HARNESS identity is invalid'') (\<lambda>_.
     bind (violation_unless (list_all (\<lambda>k. get h k = JList []) harness_lists) ''empty BEST-HARNESS list projection is invalid'') (\<lambda>_.
     case accepted of None \<Rightarrow> Inr () | Some r \<Rightarrow> verify_empty_round h r))"

definition verify_best_compiled :: "dict \<Rightarrow> compiled option \<Rightarrow> dict option \<Rightarrow> compiled res" where
  "verify_best_compiled h stored accepted =
     bind (load_compiled stored) (\<lambda>c.
     bind (violation_unless (get h ''candidate_id'' = JStr (cm_candidate_id c) \<and> get h ''candidate_revision_id'' = JStr (cm_revision_id c)
         \<and> get h ''compiled_bundle_sha256'' = JStr (cm_bundle c)) ''BEST-HARNESS compiled identity mismatch'') (\<lambda>_.
     bind (violation_unless (list_all (\<lambda>(k, v). get h k = v) (compiled_paths c)) ''BEST-HARNESS artifact projection mismatch'') (\<lambda>_.
     bind (violation_unless (list_all (\<lambda>k. unique_texts (get h k)) harness_lists) ''BEST-HARNESS list is invalid'') (\<lambda>_.
     bind (case accepted of None \<Rightarrow> Inr () | Some r \<Rightarrow> verify_accepted_round h r) (\<lambda>_. Inr c)))))"

definition verify_best :: "best_dir \<Rightarrow> string \<Rightarrow> dict option \<Rightarrow> compiled option res" where
  "verify_best b mid accepted = (case bd_harness b of
     Some (Some j) \<Rightarrow> (case j of
       JObj h \<Rightarrow>
         bind (violation_unless (fset (fmdom h) = set best_fields \<and> py_eq (get h ''schema_version'') (JInt 1)) ''BEST-HARNESS schema is invalid'') (\<lambda>_.
         bind (violation_unless (get h ''model_identity_sha256'' = JStr mid) ''BEST-HARNESS model identity mismatch'') (\<lambda>_.
         bind (violation_unless (get h ''active'' = JBool False) ''BEST-HARNESS must remain inactive'') (\<lambda>_.
         if get h ''harness_kind'' = JStr ''empty'' then bind (verify_best_empty h accepted) (\<lambda>_. Inr None)
         else bind (violation_unless (get h ''harness_kind'' = JStr ''compiled-candidate'') ''BEST-HARNESS kind is unsupported'') (\<lambda>_.
           bind (verify_best_compiled h (bd_compiled b) accepted) (\<lambda>c. Inr (Some c))))))
     | _ \<Rightarrow> raise ContractViolation ''BEST-HARNESS schema is invalid'')
   | _ \<Rightarrow> raise ContractViolation ''BEST-HARNESS is unreadable'')"

end
