(* ===== verification/Run_Config.thy ===== *)
theory Run_Config
  imports Outcome_Verifier
begin

text \<open>
  \<open>src/src/evolve/autonomous/config.py\<close>: the strict configuration of an autonomous run.  The file
  is what \<open>json.loads\<close> makes of its text (\<open>None\<close>: unreadable); the operating system's answers
  about paths are a record of parameters.
\<close>

section \<open>Fields\<close>

record path_oracle =
  po_resolve :: "string \<Rightarrow> string"
  po_is_file :: "string \<Rightarrow> bool"
  po_is_dir :: "string \<Rightarrow> bool"

definition config_object :: "string \<Rightarrow> string list \<Rightarrow> string list \<Rightarrow> json \<Rightarrow> dict res" where
  "config_object name required optional j = (case j of
     JObj d \<Rightarrow> bind (auto_unless (set required \<subseteq> fset (fmdom d) \<and> fset (fmdom d) \<subseteq> set required \<union> set optional)
       (name @ '' fields are invalid'')) (\<lambda>_. Inr d)
   | _ \<Rightarrow> raise AutonomousEvolutionError (name @ '' fields are invalid''))"

definition config_text :: "string \<Rightarrow> json \<Rightarrow> string res" where
  "config_text name j = (case j of
     JStr s \<Rightarrow> bind (auto_unless (\<not> blank s) (name @ '' must be non-empty text'')) (\<lambda>_. Inr s)
   | _ \<Rightarrow> raise AutonomousEvolutionError (name @ '' must be non-empty text''))"

definition config_task_ids :: "string \<Rightarrow> json \<Rightarrow> string list res" where
  "config_task_ids name j = (case j of
     JList xs \<Rightarrow> bind (auto_unless (list_all (\<lambda>x. is_str x \<and> x \<noteq> JStr []) xs) (name @ '' must be a list of non-empty task ids''))
       (\<lambda>_. Inr (uniq (map py_str xs)))
   | _ \<Rightarrow> raise AutonomousEvolutionError (name @ '' must be a list of non-empty task ids''))"

text \<open>\<open>float(value)\<close> of a number: an integer beyond the doubles raises.\<close>

definition as_float :: "string \<Rightarrow> json \<Rightarrow> pyfloat res" where
  "as_float m j = (case j of
     JInt i \<Rightarrow> bind (require (finite_float (float_of_int i)) OverflowError ''int too large to convert to float'') (\<lambda>_. Inr (float_of_int i))
   | JFloat f \<Rightarrow> Inr f
   | _ \<Rightarrow> raise AutonomousEvolutionError m)"

text \<open>\<open>value <= 0\<close> and \<open>value < 0\<close> on the number itself: a NaN is neither.\<close>

fun number_le_zero :: "json \<Rightarrow> bool" where
  "number_le_zero (JInt i) = (i \<le> 0)" | "number_le_zero (JFloat f) = fle f fzero" | "number_le_zero j = False"

fun number_lt_zero :: "json \<Rightarrow> bool" where
  "number_lt_zero (JInt i) = (i < 0)" | "number_lt_zero (JFloat f) = flt f fzero" | "number_lt_zero j = False"

definition config_positive_float :: "string \<Rightarrow> json \<Rightarrow> pyfloat res" where
  "config_positive_float name j = bind (auto_unless (\<not> number_le_zero j) (name @ '' must be a positive number'')) (\<lambda>_.
     as_float (name @ '' must be a positive number'') j)"

definition in_temperature_range :: "pyfloat \<Rightarrow> bool" where
  "in_temperature_range f \<longleftrightarrow> fle fzero f \<and> fle f (float_of_int 2)"

definition config_temperature :: "string \<Rightarrow> json \<Rightarrow> pyfloat res" where
  "config_temperature m j = bind (as_float m j) (\<lambda>f. bind (auto_unless (in_temperature_range f) m) (\<lambda>_. Inr f))"

definition config_schedule :: "string \<Rightarrow> json \<Rightarrow> pyfloat list res" where
  "config_schedule name j = (case j of
     JList xs \<Rightarrow> bind (auto_unless (xs \<noteq> []) (name @ '' must be a non-empty list'')) (\<lambda>_.
       mapM (config_temperature (name @ '' entries must be numbers in [0, 2]'')) xs)
   | _ \<Rightarrow> raise AutonomousEvolutionError (name @ '' must be a non-empty list''))"

definition config_int :: "string \<Rightarrow> int \<Rightarrow> json \<Rightarrow> int res" where
  "config_int name least j = (let m = (if least = 0 then name @ '' must be a non-negative integer'' else name @ '' must be a positive integer'')
     in case j of JInt i \<Rightarrow> bind (auto_unless (least \<le> i) m) (\<lambda>_. Inr i) | _ \<Rightarrow> raise AutonomousEvolutionError m)"

definition config_path :: "path_oracle \<Rightarrow> string \<Rightarrow> bool \<Rightarrow> json \<Rightarrow> string res" where
  "config_path os name file j = bind (config_text name j) (\<lambda>s. let p = po_resolve os s in
     bind (auto_unless (if file then po_is_file os p else po_is_dir os p)
       (name @ (if file then '' must be an existing file'' else '' must be an existing directory''))) (\<lambda>_. Inr p))"

text \<open>\<open>Path(name).name == name\<close>, for a non-empty name.\<close>

definition plain_name :: "string \<Rightarrow> bool" where
  "plain_name s \<longleftrightarrow> s \<noteq> [] \<and> s \<noteq> ''.'' \<and> CHR ''/'' \<notin> set s"

definition config_or :: "dict \<Rightarrow> string \<Rightarrow> json \<Rightarrow> json" where
  "config_or d k v = (case fmlookup d k of None \<Rightarrow> v | Some j \<Rightarrow> j)"

section \<open>The configuration\<close>

record goal_config =
  gc_goal_id :: string
  gc_description :: string
  gc_target :: int
  gc_max_rounds :: int
  gc_patience :: int
  gc_max_infra :: int
  gc_max_same :: int
  gc_disk_limit :: int
  gc_excluded :: "string list"

record model_config =
  mc_provider :: string
  mc_path :: string
  mc_identity_files :: "string list"

record swe_config =
  sw_task_pool :: string
  sw_source_pool :: string
  sw_harness :: string
  sw_evaluator :: string
  sw_cohort :: string

record teacher_config =
  tc_provider :: string
  tc_model :: string
  tc_endpoint :: string
  tc_api_key_env :: string
  tc_budget :: pyfloat
  tc_max_output_tokens :: int
  tc_timeout :: pyfloat
  tc_max_retries :: int
  tc_retry_delay :: pyfloat
  tc_temperature :: pyfloat
  tc_schedule :: "pyfloat list"

record execution_config =
  ec_tasks :: int
  ec_prescreen :: int
  ec_finalists :: int
  ec_seed :: int

record run_config =
  cf_goal :: goal_config
  cf_model :: model_config
  cf_swe :: swe_config
  cf_teacher :: teacher_config
  cf_execution :: execution_config

definition goal_required :: "string list" where
  "goal_required = [''goal_id'', ''description'', ''target_native_gains'', ''max_rounds'', ''no_progress_patience'']"

definition goal_optional :: "string list" where
  "goal_optional = [''max_consecutive_infra_failures'', ''max_same_failure_signature'', ''disk_limit_bytes'']"

definition load_goal :: "dict \<Rightarrow> goal_config res" where
  "load_goal d =
     bind (config_text ''goal.goal_id'' (get d ''goal_id'')) (\<lambda>g.
     bind (config_text ''goal.description'' (get d ''description'')) (\<lambda>t.
     bind (config_int ''goal.target_native_gains'' 1 (get d ''target_native_gains'')) (\<lambda>n.
     bind (config_int ''goal.max_rounds'' 1 (get d ''max_rounds'')) (\<lambda>r.
     bind (config_int ''goal.no_progress_patience'' 1 (get d ''no_progress_patience'')) (\<lambda>p.
     bind (config_int ''goal.max_consecutive_infra_failures'' 1 (config_or d ''max_consecutive_infra_failures'' (JInt 3))) (\<lambda>i.
     bind (config_int ''goal.max_same_failure_signature'' 1 (config_or d ''max_same_failure_signature'' (JInt 5))) (\<lambda>s.
     bind (config_task_ids ''goal.excluded_task_ids'' (config_or d ''excluded_task_ids'' (JList []))) (\<lambda>x.
     bind (config_int ''goal.disk_limit_bytes'' 1 (config_or d ''disk_limit_bytes'' (JInt (10 * 1024 * 1024 * 1024)))) (\<lambda>b.
     Inr \<lparr>gc_goal_id = g, gc_description = t, gc_target = n, gc_max_rounds = r, gc_patience = p, gc_max_infra = i,
          gc_max_same = s, gc_disk_limit = b, gc_excluded = x\<rparr>)))))))))"

definition load_identity_files :: "path_oracle \<Rightarrow> dict \<Rightarrow> (string list \<times> string) res" where
  "load_identity_files os d = (case get d ''model_identity_files'' of
     JList xs \<Rightarrow>
       bind (auto_unless (xs \<noteq> [] \<and> list_all (\<lambda>x. is_str x \<and> plain_name (py_str x)) xs \<and> distinct (map py_str xs))
         ''model_identity_files must be unique file names'') (\<lambda>_.
       bind (config_path os ''model.model_path'' False (get d ''model_path'')) (\<lambda>p.
       bind (auto_unless (list_all (\<lambda>x. po_is_file os (p @ ''/'' @ py_str x)) xs) ''model identity file is missing: '') (\<lambda>_.
       Inr (map py_str xs, p))))
   | _ \<Rightarrow> raise AutonomousEvolutionError ''model_identity_files must be unique file names'')"

definition load_model :: "string list \<Rightarrow> string \<Rightarrow> dict \<Rightarrow> model_config res" where
  "load_model files path d = bind (config_text ''model.provider'' (get d ''provider'')) (\<lambda>p.
     Inr \<lparr>mc_provider = p, mc_path = path, mc_identity_files = files\<rparr>)"

definition load_swe :: "path_oracle \<Rightarrow> string \<Rightarrow> dict \<Rightarrow> swe_config res" where
  "load_swe os cohort d =
     bind (config_path os ''swe_bench.task_pool'' True (get d ''task_pool'')) (\<lambda>t.
     bind (config_path os ''swe_bench.source_pool'' False (get d ''source_pool'')) (\<lambda>s.
     bind (config_path os ''swe_bench.official_harness'' False (get d ''official_harness'')) (\<lambda>h.
     bind (config_path os ''swe_bench.official_evaluator'' True (get d ''official_evaluator'')) (\<lambda>e.
     Inr \<lparr>sw_task_pool = t, sw_source_pool = s, sw_harness = h, sw_evaluator = e, sw_cohort = cohort\<rparr>))))"

definition teacher_required :: "string list" where
  "teacher_required = [''provider'', ''model'', ''endpoint'', ''api_key_env'', ''budget_cny'', ''max_output_tokens'']"

definition teacher_optional :: "string list" where
  "teacher_optional = [''timeout_seconds'', ''max_retries'', ''retry_base_delay'', ''temperature'', ''temperature_schedule'']"

definition load_teacher :: "dict \<Rightarrow> teacher_config res" where
  "load_teacher d =
     bind (config_text ''teacher.provider'' (get d ''provider'')) (\<lambda>p.
     bind (config_text ''teacher.model'' (get d ''model'')) (\<lambda>m.
     bind (config_text ''teacher.endpoint'' (get d ''endpoint'')) (\<lambda>e.
     bind (config_text ''teacher.api_key_env'' (get d ''api_key_env'')) (\<lambda>k.
     bind (as_float ''teacher.budget_cny must be non-negative'' (get d ''budget_cny'')) (\<lambda>b.
     bind (config_int ''teacher.max_output_tokens'' 1 (get d ''max_output_tokens'')) (\<lambda>n.
     bind (config_positive_float ''teacher.timeout_seconds'' (config_or d ''timeout_seconds'' (JInt 60))) (\<lambda>t.
     bind (config_int ''teacher.max_retries'' 1 (config_or d ''max_retries'' (JInt 3))) (\<lambda>r.
     bind (config_positive_float ''teacher.retry_base_delay'' (config_or d ''retry_base_delay'' (JInt 1))) (\<lambda>y.
     bind (config_temperature ''teacher.temperature must be a number in [0, 2]'' (config_or d ''temperature'' (JInt 0))) (\<lambda>u.
     bind (config_schedule ''teacher.temperature_schedule'' (config_or d ''temperature_schedule'' (JList [JInt 0]))) (\<lambda>s.
     Inr \<lparr>tc_provider = p, tc_model = m, tc_endpoint = e, tc_api_key_env = k, tc_budget = b, tc_max_output_tokens = n,
          tc_timeout = t, tc_max_retries = r, tc_retry_delay = y, tc_temperature = u, tc_schedule = s\<rparr>)))))))))))"

definition load_execution :: "dict \<Rightarrow> int \<times> int \<times> int \<Rightarrow> execution_config res" where
  "load_execution d n = (case n of (tasks, screens, finalists) \<Rightarrow>
     bind (config_int ''execution.seed'' 0 (get d ''seed'')) (\<lambda>s.
     Inr \<lparr>ec_tasks = tasks, ec_prescreen = screens, ec_finalists = finalists, ec_seed = s\<rparr>))"

text \<open>The counts of a campaign: three paired tasks, at most one screening, one finalist.\<close>

definition load_counts :: "dict \<Rightarrow> (int \<times> int \<times> int) res" where
  "load_counts d =
     bind (config_int ''execution.tasks_per_campaign'' 1 (get d ''tasks_per_campaign'')) (\<lambda>t.
     bind (auto_unless (t = 3) ''paired autonomous campaigns require exactly three tasks'') (\<lambda>_.
     bind (config_int ''execution.qwen_prescreen_count'' 0 (get d ''qwen_prescreen_count'')) (\<lambda>q.
     bind (config_int ''execution.native_finalist_count'' 1 (get d ''native_finalist_count'')) (\<lambda>f.
     bind (auto_unless (q \<in> {0, 1} \<and> f = 1) ''single-candidate search requires qwen_prescreen_count 0 or 1 and native_finalist_count 1'') (\<lambda>_.
     Inr (t, q, f))))))"

definition load_cohort :: "dict \<Rightarrow> string res" where
  "load_cohort d = bind (config_text ''swe_bench.cohort'' (get d ''cohort'')) (\<lambda>c.
     bind (auto_unless (c = ''feedback'') ''autonomous evolution is feedback-only'') (\<lambda>_. Inr c))"

definition is_number :: "json \<Rightarrow> bool" where
  "is_number j \<longleftrightarrow> (case j of JInt i \<Rightarrow> True | JFloat f \<Rightarrow> True | _ \<Rightarrow> False)"

definition load_sections :: "path_oracle \<Rightarrow> dict \<Rightarrow> dict \<Rightarrow> dict \<Rightarrow> dict \<Rightarrow> dict \<Rightarrow> run_config res" where
  "load_sections os goal model swe teacher exec =
     bind (load_identity_files os model) (\<lambda>(files, path).
     bind (load_cohort swe) (\<lambda>cohort.
     bind (auto_unless (is_number (get teacher ''budget_cny'') \<and> \<not> number_lt_zero (get teacher ''budget_cny''))
       ''teacher.budget_cny must be non-negative'') (\<lambda>_.
     bind (load_counts exec) (\<lambda>counts.
     bind (load_goal goal) (\<lambda>g. bind (load_model files path model) (\<lambda>m. bind (load_swe os cohort swe) (\<lambda>s.
     bind (load_teacher teacher) (\<lambda>t. bind (load_execution exec counts) (\<lambda>e.
     Inr \<lparr>cf_goal = g, cf_model = m, cf_swe = s, cf_teacher = t, cf_execution = e\<rparr>)))))))))"

definition config_load :: "path_oracle \<Rightarrow> json option \<Rightarrow> run_config res" where
  "config_load os file = (case file of
     None \<Rightarrow> raise AutonomousEvolutionError ''autonomous evolution config is unreadable''
   | Some j \<Rightarrow>
       bind (config_object ''autonomous evolution config'' [''schema_version'', ''goal'', ''model'', ''swe_bench'', ''teacher'', ''execution''] [] j) (\<lambda>root.
       bind (auto_unless (py_eq (get root ''schema_version'') (JInt 1)) ''autonomous evolution config schema is unsupported'') (\<lambda>_.
       bind (config_object ''goal'' goal_required goal_optional (get root ''goal'')) (\<lambda>goal.
       bind (config_object ''model'' [''provider'', ''model_path'', ''model_identity_files''] [] (get root ''model'')) (\<lambda>model.
       bind (config_object ''swe_bench'' [''task_pool'', ''source_pool'', ''official_harness'', ''official_evaluator'', ''cohort''] [] (get root ''swe_bench'')) (\<lambda>swe.
       bind (config_object ''teacher'' teacher_required teacher_optional (get root ''teacher'')) (\<lambda>teacher.
       bind (config_object ''execution'' [''tasks_per_campaign'', ''qwen_prescreen_count'', ''native_finalist_count'', ''seed''] [] (get root ''execution'')) (\<lambda>exec.
       load_sections os goal model swe teacher exec))))))))"

section \<open>What a loaded configuration satisfies\<close>

definition goal_ok :: "goal_config \<Rightarrow> bool" where
  "goal_ok g \<longleftrightarrow> \<not> blank (gc_goal_id g) \<and> 1 \<le> gc_target g \<and> 1 \<le> gc_max_rounds g \<and> 1 \<le> gc_patience g \<and> 1 \<le> gc_max_infra g
     \<and> 1 \<le> gc_max_same g \<and> 1 \<le> gc_disk_limit g"

definition config_ok :: "run_config \<Rightarrow> bool" where
  "config_ok c \<longleftrightarrow> goal_ok (cf_goal c) \<and> sw_cohort (cf_swe c) = ''feedback''
     \<and> mc_identity_files (cf_model c) \<noteq> [] \<and> distinct (mc_identity_files (cf_model c))
     \<and> \<not> flt (tc_budget (cf_teacher c)) fzero
     \<and> list_all in_temperature_range (tc_temperature (cf_teacher c) # tc_schedule (cf_teacher c)) \<and> tc_schedule (cf_teacher c) \<noteq> []
     \<and> ec_tasks (cf_execution c) = 3 \<and> ec_prescreen (cf_execution c) \<in> {0, 1} \<and> ec_finalists (cf_execution c) = 1"

named_theorems config_simps \<open>inversion of the field checks\<close>

lemma auto_unless_Inr [config_simps]: "auto_unless c m = Inr u \<longleftrightarrow> c"
  by (simp add: auto_unless_def require_eq_Inr)

lemma config_int_Inr [config_simps]: "config_int n l j = Inr i \<longleftrightarrow> j = JInt i \<and> l \<le> i"
  by (cases j) (auto simp: config_int_def Let_def bind_eq_Inr auto_unless_Inr)

lemma config_text_Inr [config_simps]: "config_text n j = Inr s \<longleftrightarrow> j = JStr s \<and> \<not> blank s"
  by (cases j) (auto simp: config_text_def bind_eq_Inr auto_unless_Inr)

lemma config_object_Inr [config_simps]: "config_object n r p j = Inr d \<longleftrightarrow>
    j = JObj d \<and> set r \<subseteq> fset (fmdom d) \<and> fset (fmdom d) \<subseteq> set r \<union> set p"
  by (cases j) (auto simp: config_object_def bind_eq_Inr auto_unless_Inr)

lemma config_object_Inl: "config_object n r p j = Inl e \<Longrightarrow> \<exists>m. e = Err AutonomousEvolutionError m"
  by (cases j) (auto simp: config_object_def bind_eq_Inl auto_unless_def require_eq_Inl raise_def)

lemma config_temperature_Inr: "config_temperature m j = Inr f \<Longrightarrow> in_temperature_range f"
  by (auto simp: config_temperature_def bind_eq_Inr auto_unless_Inr)

lemma mapM_list_all: "mapM f xs = Inr ys \<Longrightarrow> (\<And>x y. f x = Inr y \<Longrightarrow> P y) \<Longrightarrow> list_all P ys \<and> length ys = length xs"
  by (induction xs arbitrary: ys) (auto simp: bind_eq_Inr)

lemma config_schedule_Inr: "config_schedule m j = Inr fs \<Longrightarrow> fs \<noteq> [] \<and> list_all in_temperature_range fs"
proof -
  assume "config_schedule m j = Inr fs"
  then obtain xs where "xs \<noteq> []" "mapM (config_temperature (m @ '' entries must be numbers in [0, 2]'')) xs = Inr fs"
    by (cases j) (auto simp: config_schedule_def bind_eq_Inr auto_unless_Inr)
  moreover from this(2) have "list_all in_temperature_range fs \<and> length fs = length xs"
    by (rule mapM_list_all) (rule config_temperature_Inr)
  ultimately show ?thesis by auto
qed

lemma nonneg_budget: "is_number j \<Longrightarrow> \<not> number_lt_zero j \<Longrightarrow> as_float m j = Inr b \<Longrightarrow> \<not> flt b fzero"
proof (cases j)
  case (JInt i)
  moreover assume "is_number j" "\<not> number_lt_zero j" "as_float m j = Inr b"
  ultimately have i: "0 \<le> i" and b: "finite_float b" "b = float_of_int i"
    by (auto simp: as_float_def bind_eq_Inr require_eq_Inr)
  from b(1) obtain r where r: "b = Fin r" by (cases b; simp)
  have "0 \<le> i * 2 ^ 1074" using i by simp
  then have "0 \<le> r" using r b(2) unfolding float_of_int_def by (metis rnd_nonneg)
  with r show ?thesis by (simp add: fzero_def)
qed (auto simp: is_number_def as_float_def)

lemma load_goal_ok: "load_goal d = Inr g \<Longrightarrow> goal_ok g"
  by (auto simp: load_goal_def goal_ok_def bind_eq_Inr config_simps)

lemma load_goal_excluded: "load_goal d = Inr g \<Longrightarrow> fmlookup d ''excluded_task_ids'' = None \<Longrightarrow> gc_excluded g = []"
  by (auto simp: load_goal_def bind_eq_Inr config_simps config_task_ids_def config_or_def)

lemma load_teacher_ok: "load_teacher d = Inr t \<Longrightarrow>
    as_float ''teacher.budget_cny must be non-negative'' (get d ''budget_cny'') = Inr (tc_budget t)
    \<and> in_temperature_range (tc_temperature t) \<and> tc_schedule t \<noteq> [] \<and> list_all in_temperature_range (tc_schedule t)"
  by (auto simp: load_teacher_def bind_eq_Inr dest: config_temperature_Inr config_schedule_Inr)

lemma load_identity_files_ok: "load_identity_files os d = Inr (files, p) \<Longrightarrow> files \<noteq> [] \<and> distinct files"
  by (auto simp: load_identity_files_def bind_eq_Inr config_simps split: json.splits)

lemma load_sections_ok:
  assumes "load_sections os goal model swe teacher exec = Inr c"
  shows "config_ok c \<and> load_goal goal = Inr (cf_goal c)"
proof -
  obtain files path cohort g m s t e counts where
    1: "load_identity_files os model = Inr (files, path)" and 2: "load_cohort swe = Inr cohort"
    and 3: "is_number (get teacher ''budget_cny'')" "\<not> number_lt_zero (get teacher ''budget_cny'')"
    and 4: "load_counts exec = Inr counts" and 5: "load_goal goal = Inr g" and 6: "load_model files path model = Inr m"
    and 7: "load_swe os cohort swe = Inr s" and 8: "load_teacher teacher = Inr t" and 9: "load_execution exec counts = Inr e"
    and c: "c = \<lparr>cf_goal = g, cf_model = m, cf_swe = s, cf_teacher = t, cf_execution = e\<rparr>"
    using assms by (auto simp: load_sections_def bind_eq_Inr auto_unless_Inr)
  from 6 have "mc_identity_files m = files" by (auto simp: load_model_def bind_eq_Inr)
  moreover from 2 7 have "sw_cohort s = ''feedback''" by (auto simp: load_swe_def load_cohort_def bind_eq_Inr auto_unless_Inr)
  moreover from 4 9 have "ec_tasks e = 3 \<and> ec_prescreen e \<in> {0, 1} \<and> ec_finalists e = 1"
    by (auto simp: load_execution_def load_counts_def bind_eq_Inr auto_unless_Inr)
  ultimately show ?thesis
    using load_identity_files_ok [OF 1] load_goal_ok [OF 5] load_teacher_ok [OF 8]
      nonneg_budget [OF 3, of "''teacher.budget_cny must be non-negative''"] 5
    by (simp add: c config_ok_def)
qed

text \<open>A configuration that loads is within its bounds (three tasks per campaign, at most one screening, positive round,
  patience and failure limits, temperatures between 0 and 2, the feedback cohort) and its goal excludes no task: a goal row
  that names \<open>excluded_task_ids\<close> is always refused, although the loader reads that field.\<close>

theorem excluded_tasks_unreachable:
  "(\<forall>c. config_load os file = Inr c \<longrightarrow> config_ok c \<and> gc_excluded (cf_goal c) = [])
   \<and> (file = Some (JObj root) \<and> get root ''goal'' = JObj goal \<and> ''excluded_task_ids'' \<in> fset (fmdom goal)
        \<longrightarrow> (\<exists>m. config_load os file = Inl (Err AutonomousEvolutionError m)))"
proof (intro conjI allI impI)
  fix c assume "config_load os file = Inr c"
  then obtain d model swe teacher exec where "load_sections os d model swe teacher exec = Inr c"
    and "fset (fmdom d) \<subseteq> set goal_required \<union> set goal_optional"
    by (auto simp: config_load_def bind_eq_Inr config_simps split: option.splits)
  moreover from this(2) have "fmlookup d ''excluded_task_ids'' = None"
    by (auto simp: goal_required_def goal_optional_def fmlookup_dom_iff subset_iff)
  ultimately show "config_ok c" "gc_excluded (cf_goal c) = []"
    using load_sections_ok load_goal_excluded by blast+
next
  assume a: "file = Some (JObj root) \<and> get root ''goal'' = JObj goal \<and> ''excluded_task_ids'' \<in> fset (fmdom goal)"
  then have "\<not> fset (fmdom goal) \<subseteq> set goal_required \<union> set goal_optional"
    by (auto simp: goal_required_def goal_optional_def)
  then have "\<exists>m. config_object ''goal'' goal_required goal_optional (get root ''goal'') = Inl (Err AutonomousEvolutionError m)"
    using a by (simp add: config_object_def auto_unless_def)
  with a show "\<exists>m. config_load os file = Inl (Err AutonomousEvolutionError m)"
    by (auto simp: config_load_def config_object_def [of "''autonomous evolution config''"] auto_unless_def require_def)
qed


definition demo_os :: path_oracle where
  "demo_os = \<lparr>po_resolve = id, po_is_file = (\<lambda>p. True), po_is_dir = (\<lambda>p. True)\<rparr>"

definition demo_config_file :: "(string \<times> json) list \<Rightarrow> dict" where
  "demo_config_file extra = fmap_of_list
     [(''schema_version'', JInt 1),
      (''goal'', jobj ([(''goal_id'', JStr ''goal-1''), (''description'', JStr ''improve''), (''target_native_gains'', JInt 2),
         (''max_rounds'', JInt 4), (''no_progress_patience'', JInt 3)] @ extra)),
      (''model'', jobj [(''provider'', JStr ''qwen''), (''model_path'', JStr ''/m''), (''model_identity_files'', JList [JStr ''config.json''])]),
      (''swe_bench'', jobj [(''task_pool'', JStr ''/t''), (''source_pool'', JStr ''/s''), (''official_harness'', JStr ''/h''),
         (''official_evaluator'', JStr ''/e''), (''cohort'', JStr ''feedback'')]),
      (''teacher'', jobj [(''provider'', JStr ''frozen''), (''model'', JStr ''m''), (''endpoint'', JStr ''/x''), (''api_key_env'', JStr ''K''),
         (''budget_cny'', JInt 0), (''max_output_tokens'', JInt 100)]),
      (''execution'', jobj [(''tasks_per_campaign'', JInt 3), (''qwen_prescreen_count'', JInt 1), (''native_finalist_count'', JInt 1),
         (''seed'', JInt 7)])]"

definition demo_goal :: goal_config where
  "demo_goal = \<lparr>gc_goal_id = ''goal-1'', gc_description = ''improve'', gc_target = 2, gc_max_rounds = 4, gc_patience = 3,
     gc_max_infra = 3, gc_max_same = 5, gc_disk_limit = 10737418240, gc_excluded = []\<rparr>"

lemma demo_floats:
  "float_of_int 0 = fzero" "in_temperature_range fzero" "finite_float (float_of_int 60)" "finite_float (float_of_int 1)"
  "finite_float fzero" "\<not> flt fzero fzero"
proof -
  show "float_of_int 0 = fzero" by (simp add: float_of_int_def fzero_def)
  have "rnd (2 * 2 ^ 1074) = Fin (2 * 2 ^ 1074)" "rnd (60 * 2 ^ 1074) = Fin (60 * 2 ^ 1074)" "rnd (1 * 2 ^ 1074) = Fin (1 * 2 ^ 1074)"
    by (rule rnd_exact [where k = 1074]; simp add: on_grid_def)+
  then show "in_temperature_range fzero" "finite_float (float_of_int 60)" "finite_float (float_of_int 1)"
    by (simp_all add: in_temperature_range_def float_of_int_def fzero_def fle_def)
qed (simp_all add: fzero_def)

definition demo_config :: run_config where
  "demo_config = \<lparr>cf_goal = demo_goal,
     cf_model = \<lparr>mc_provider = ''qwen'', mc_path = ''/m'', mc_identity_files = [''config.json'']\<rparr>,
     cf_swe = \<lparr>sw_task_pool = ''/t'', sw_source_pool = ''/s'', sw_harness = ''/h'', sw_evaluator = ''/e'', sw_cohort = ''feedback''\<rparr>,
     cf_teacher = \<lparr>tc_provider = ''frozen'', tc_model = ''m'', tc_endpoint = ''/x'', tc_api_key_env = ''K'', tc_budget = fzero,
       tc_max_output_tokens = 100, tc_timeout = float_of_int 60, tc_max_retries = 3, tc_retry_delay = float_of_int 1,
       tc_temperature = fzero, tc_schedule = [fzero]\<rparr>,
     cf_execution = \<lparr>ec_tasks = 3, ec_prescreen = 1, ec_finalists = 1, ec_seed = 7\<rparr>\<rparr>"

lemma demo_config_loads: "config_load demo_os (Some (JObj (demo_config_file []))) = Inr demo_config"
  by (simp add: config_load_def demo_config_file_def bind_eq_Inr config_simps get_def jobj_def goal_required_def goal_optional_def
      teacher_required_def teacher_optional_def load_sections_def load_identity_files_def load_cohort_def load_counts_def
      load_goal_def load_model_def load_swe_def load_teacher_def load_execution_def config_or_def config_task_ids_def config_path_def
      config_positive_float_def config_temperature_def config_schedule_def as_float_def require_eq_Inr demo_floats
      is_number_def plain_name_def demo_os_def demo_config_def demo_goal_def blank_def is_space_def Let_def)

text \<open>The demonstration file loads without a list of excluded tasks and is refused with one.\<close>

theorem excluded_tasks_unreachable_witness:
  "config_load demo_os (Some (JObj (demo_config_file []))) = Inr demo_config \<and> config_ok demo_config
   \<and> (\<exists>m. config_load demo_os (Some (JObj (demo_config_file [(''excluded_task_ids'', JList [JStr ''t1''])]))) = Inl (Err AutonomousEvolutionError m))"
proof -
  let ?x = "[(''excluded_task_ids'', JList [JStr ''t1''])]"
  obtain d where d: "get (demo_config_file ?x) ''goal'' = JObj d" "''excluded_task_ids'' \<in> fset (fmdom d)"
    by (simp add: demo_config_file_def get_def jobj_def)
  show ?thesis
    using excluded_tasks_unreachable [of demo_os "Some (JObj (demo_config_file []))"]
      excluded_tasks_unreachable [of demo_os "Some (JObj (demo_config_file ?x))" "demo_config_file ?x" d] demo_config_loads d by blast
qed

end
