(* ===== verification/Rounds.thy ===== *)
theory Rounds
  imports Output Run_Config Goal Index_Log
begin

text \<open>
  \<open>src/src/evolve/autonomous/runner.py\<close>, the rounds of a run: what a baseline, a screening and a
  campaign report, the payload a round leaves in the round index, the goal state after it, and
  the state recovered from the indexed payloads on a restart.
\<close>

section \<open>Reports of the executor\<close>

record baseline_result =
  bl_task_ids :: "string list"
  bl_model_receipt_ids :: "string list"
  bl_native_receipt_ids :: "string list"
  bl_native_outcomes :: "dict list"
  bl_failure_signatures :: "dict list"
  bl_replayed :: bool
  bl_failed :: "string list"
  bl_reasons :: "(string \<times> string) list"

record prescreen_result =
  ps_candidate_revision_id :: string
  ps_candidate_bundle :: string
  ps_model_receipt_ids :: "string list"
  ps_structural_valid :: bool
  ps_patch_applicable :: bool
  ps_replayed :: bool
  ps_status :: string

text \<open>\<open>failure_reasons\<close> is a dict in insertion order.\<close>

definition reasons_json :: "(string \<times> string) list \<Rightarrow> json" where
  "reasons_json rs = jobj (map (\<lambda>(t, r). (t, JStr r)) rs)"

definition baseline_payload :: "baseline_result \<Rightarrow> dict" where
  "baseline_payload b = fmap_of_list
     [(''schema_version'', JInt 1), (''task_ids'', str_list (bl_task_ids b)), (''model_receipt_ids'', str_list (bl_model_receipt_ids b)),
      (''native_receipt_ids'', str_list (bl_native_receipt_ids b)), (''native_outcomes'', JList (map JObj (bl_native_outcomes b))),
      (''failure_signatures'', JList (map JObj (bl_failure_signatures b))), (''replayed'', JBool (bl_replayed b)),
      (''failed_task_ids'', str_list (bl_failed b)), (''failure_reasons'', reasons_json (bl_reasons b))]"

definition prescreen_payload :: "prescreen_result \<Rightarrow> dict" where
  "prescreen_payload p = fmap_of_list
     [(''schema_version'', JInt 1), (''candidate_revision_id'', JStr (ps_candidate_revision_id p)),
      (''candidate_bundle_sha256'', JStr (ps_candidate_bundle p)), (''model_receipt_ids'', str_list (ps_model_receipt_ids p)),
      (''structural_valid'', JBool (ps_structural_valid p)), (''patch_applicable'', JBool (ps_patch_applicable p)),
      (''replayed'', JBool (ps_replayed p)), (''status'', JStr (ps_status p))]"

definition validate_baseline :: "baseline_result \<Rightarrow> string list \<Rightarrow> unit res" where
  "validate_baseline b selected =
     bind (auto_unless (set (bl_task_ids b) = set selected) ''baseline result task selection mismatch'') (\<lambda>_.
     if bl_failed b \<noteq> [] then Inr ()
     else
     bind (auto_unless (length (bl_model_receipt_ids b) = length selected) ''baseline did not produce real model receipts'') (\<lambda>_.
     auto_unless (length (bl_native_receipt_ids b) = length selected) ''baseline did not produce native receipts''))"

definition validate_prescreen :: "prescreen_result \<Rightarrow> compiled \<Rightarrow> unit res" where
  "validate_prescreen p c = auto_unless (ps_candidate_revision_id p = cm_revision_id c \<and> ps_candidate_bundle p = cm_bundle c
     \<and> ps_model_receipt_ids p \<noteq> []) ''Qwen prescreen did not produce candidate-bound model receipts''"

definition skipped_prescreen :: "compiled \<Rightarrow> prescreen_result" where
  "skipped_prescreen c = \<lparr>ps_candidate_revision_id = cm_revision_id c, ps_candidate_bundle = cm_bundle c, ps_model_receipt_ids = [],
     ps_structural_valid = True, ps_patch_applicable = True, ps_replayed = False, ps_status = ''skipped''\<rparr>"

section \<open>The worth of a campaign\<close>

definition fitness :: "verified_claim list \<Rightarrow> int" where
  "fitness vs = sum_list (map (\<lambda>v. if vc_classification v = ''gain'' then 10
      else if vc_classification v = ''regression'' then - 100 else 0) vs)"

definition acceptable_advance :: "verified_claim list \<Rightarrow> bool" where
  "acceptable_advance vs \<longleftrightarrow> (let ks = map vc_classification vs in
     ''gain'' \<in> set ks \<and> ''regression'' \<notin> set ks \<and> ''infra_failure'' \<notin> set ks)"

definition outcome_of_classes :: "string list \<Rightarrow> string" where
  "outcome_of_classes ks = (if ''infra_failure'' \<in> set ks then ''infra_failure'' else if ''regression'' \<in> set ks then ''regression''
     else if ''gain'' \<in> set ks then ''gain'' else ''neutral'')"

definition round_outcome :: "verified_claim list \<Rightarrow> bool \<Rightarrow> string" where
  "round_outcome vs infra = (if infra then ''infra_failure'' else outcome_of_classes (map vc_classification vs))"

text \<open>\<open>_round_outcome_rows\<close>, for payloads that carry no outcome.\<close>

definition row_class :: "json \<Rightarrow> string res" where
  "row_class j = (case j of
     JObj d \<Rightarrow> (case get d ''classification'' of JStr s \<Rightarrow> Inr s
       | _ \<Rightarrow> raise AutonomousEvolutionError ''checkpoint claim classification is invalid'')
   | _ \<Rightarrow> raise AutonomousEvolutionError ''checkpoint claim is invalid'')"

definition round_outcome_rows :: "json \<Rightarrow> string res" where
  "round_outcome_rows j = (case j of
     JList rows \<Rightarrow> bind (mapM row_class rows) (\<lambda>ks. Inr (outcome_of_classes ks))
   | _ \<Rightarrow> raise AutonomousEvolutionError ''checkpoint claims are invalid'')"

definition claim_row :: "verified_claim \<Rightarrow> json" where
  "claim_row v = jobj
     [(''task_id'', JStr (vc_task_id v)), (''claim_id'', JStr (vc_claim_id v)), (''classification'', JStr (vc_classification v)),
      (''grade'', JStr (vc_grade v)), (''counterfactual_pair_sha256'', opt_str (vc_pair_sha256 v)),
      (''counterfactual_receipt_ids'', str_list (vc_receipt_ids v))]"

section \<open>Task names\<close>

definition unresolvable_reasons :: "string list" where
  "unresolvable_reasons = [''operator-class-mismatch'', ''expression-used-for-statement'', ''unresolved'', ''plan-too-large'',
     ''semantic-oracle-rejected'', ''structural-rejected'', ''json-malformed'', ''selector-no-match'', ''unrelated-symbol'',
     ''apply-fail'', ''no-op'', ''unbound-name'', ''empty-patch'', ''no-cell'']"

text \<open>\<open>str(task.get("task_id") or task["instance_id"])\<close> to \<open>str(task["instance_id"])\<close>; the last entry wins.\<close>

definition instance_names :: "dict list \<Rightarrow> (string \<times> string) list" where
  "instance_names ts = map (\<lambda>t. (py_str (if truthy (get t ''task_id'') then get t ''task_id'' else get t ''instance_id''), task_id_of t)) ts"

definition instance_of :: "dict list \<Rightarrow> string \<Rightarrow> string" where
  "instance_of ts i = (case find (\<lambda>e. fst e = i) (rev (instance_names ts)) of None \<Rightarrow> i | Some e \<Rightarrow> snd e)"

text \<open>\<open>{key(t): reason for t, reason in reasons.items()}\<close>: the first place, the last value of a key.\<close>

fun dict_entries :: "(string \<times> 'v) list \<Rightarrow> (string \<times> 'v) list \<Rightarrow> (string \<times> 'v) list" where
  "dict_entries acc [] = acc"
| "dict_entries acc ((k, v) # es) = dict_entries (if k \<in> fst ` set acc then map (\<lambda>(x, w). (x, if x = k then v else w)) acc
     else acc @ [(k, v)]) es"

definition failed_instances :: "dict list \<Rightarrow> baseline_result \<Rightarrow> string list" where
  "failed_instances ts b = uniq (map (instance_of ts) (bl_failed b))"

definition instance_reasons :: "dict list \<Rightarrow> baseline_result \<Rightarrow> (string \<times> string) list" where
  "instance_reasons ts b = dict_entries [] (map (\<lambda>(t, r). (instance_of ts t, r)) (bl_reasons b))"

definition has_infra_reason :: "baseline_result \<Rightarrow> bool" where
  "has_infra_reason b \<longleftrightarrow> list_ex (\<lambda>(t, r). r \<notin> set unresolvable_reasons) (bl_reasons b)"

definition newly_unresolvable :: "dict list \<Rightarrow> baseline_result \<Rightarrow> string list" where
  "newly_unresolvable ts b = map (instance_of ts \<circ> fst) (filter (\<lambda>(t, r). r \<in> set unresolvable_reasons) (bl_reasons b))"

section \<open>The state after a round\<close>

definition same_failure_count :: "goal_state \<Rightarrow> string \<Rightarrow> int" where
  "same_failure_count st sig = (if gs_failure_signature st = Some sig then gs_failure_signature_rounds st + 1 else 1)"

definition stop_status :: "goal_config \<Rightarrow> goal_state \<Rightarrow> goal_status" where
  "stop_status g st = (if gc_patience g \<le> gs_no_progress_rounds st then NO_PROGRESS
     else if gc_max_infra g \<le> gs_consecutive_infra st then MAX_CONSECUTIVE_INFRA
     else if gc_max_same g \<le> gs_failure_signature_rounds st then MAX_SAME_FAILURE else GOAL_ACTIVE)"

definition after_failed_baseline :: "goal_config \<Rightarrow> goal_state \<Rightarrow> string set \<Rightarrow> int \<Rightarrow> string \<Rightarrow> bool \<Rightarrow> string list \<Rightarrow> goal_state" where
  "after_failed_baseline g st gained r sig infra unresolvable =
     (let next = \<lparr>gs_schema_version = 1, gs_goal_id = gs_goal_id st, gs_status = GOAL_ACTIVE, gs_next_round_index = r + 1,
        gs_rounds_completed = r + 1, gs_no_progress_rounds = gs_no_progress_rounds st + 1,
        gs_consecutive_infra = (if infra then gs_consecutive_infra st + 1 else 0),
        gs_native_gain_task_ids = sorted_list_of_set gained, gs_best_candidate = gs_best_candidate st, gs_best_bundle = gs_best_bundle st,
        gs_failure_signature = Some sig, gs_failure_signature_rounds = same_failure_count st sig,
        gs_unresolvable = sorted_list_of_set (set (gs_unresolvable st) \<union> set unresolvable)\<rparr>
      in next\<lparr>gs_status := stop_status g next\<rparr>)"

definition after_campaign :: "goal_config \<Rightarrow> goal_state \<Rightarrow> string set \<Rightarrow> int \<Rightarrow> string \<Rightarrow> bool \<Rightarrow> (string \<times> string) option \<Rightarrow> goal_state" where
  "after_campaign g st gained r sig infra accepted =
     (let next = \<lparr>gs_schema_version = 1, gs_goal_id = gs_goal_id st, gs_status = GOAL_ACTIVE, gs_next_round_index = r + 1,
        gs_rounds_completed = r + 1, gs_no_progress_rounds = (if accepted = None then gs_no_progress_rounds st + 1 else 0),
        gs_consecutive_infra = (if infra then gs_consecutive_infra st + 1 else 0),
        gs_native_gain_task_ids = sorted_list_of_set gained,
        gs_best_candidate = (case accepted of None \<Rightarrow> gs_best_candidate st | Some (rid, b) \<Rightarrow> Some rid),
        gs_best_bundle = (case accepted of None \<Rightarrow> gs_best_bundle st | Some (rid, b) \<Rightarrow> Some b),
        gs_failure_signature = Some sig, gs_failure_signature_rounds = same_failure_count st sig, gs_unresolvable = gs_unresolvable st\<rparr>
      in next\<lparr>gs_status := (if gc_target g \<le> int (card gained) then GOAL_REACHED else stop_status g next)\<rparr>)"

section \<open>The payload of a round\<close>

definition failed_feedback :: "string \<Rightarrow> string list \<Rightarrow> (string \<times> string) list \<Rightarrow> dict" where
  "failed_feedback cid failed reasons = fmap_of_list
     [(''schema_version'', JInt 1), (''campaign_id'', JStr cid), (''campaign_status'', JStr ''baseline_failed''),
      (''task_pairs'', JList []), (''failed_task_ids'', str_list failed), (''failure_reasons'', reasons_json reasons)]"

definition failed_signature :: "string list \<Rightarrow> (string \<times> string) list \<Rightarrow> string" where
  "failed_signature failed reasons = digest (jobj [(''baseline_failed'', sorted_strings failed), (''reasons'', reasons_json reasons)])"

definition failed_payload ::
  "int \<Rightarrow> string \<Rightarrow> baseline_result \<Rightarrow> string \<Rightarrow> goal_state \<Rightarrow> string \<Rightarrow> string list \<Rightarrow> (string \<times> string) list \<Rightarrow> dict" where
  "failed_payload r selection b parent st cid failed reasons = fmap_of_list
     [(''schema_version'', JInt 1), (''round_index'', JInt r), (''selection_id'', JStr selection), (''baseline_replayed'', JBool (bl_replayed b)),
      (''candidate_id'', JStr []), (''candidate_revision_id'', JStr []), (''parent_revision_id'', JStr parent),
      (''compiled_bundle_sha256'', JStr []), (''prescreen'', jobj []), (''claims'', JList []),
      (''campaign_feedback'', JObj (failed_feedback cid failed reasons)), (''fitness'', JInt 0), (''round_outcome'', JStr ''neutral''),
      (''accepted_as_best'', JBool False), (''best_candidate_revision_id'', opt_str (gs_best_candidate st)),
      (''best_bundle_sha256'', opt_str (gs_best_bundle st)), (''campaign_status'', JStr ''baseline_failed''),
      (''failure_signature_sha256'', JStr (failed_signature failed reasons)), (''baseline_failed_task_ids'', str_list failed),
      (''baseline_failure_reasons'', reasons_json reasons)]"

definition failed_result :: "string \<Rightarrow> string list \<Rightarrow> (string \<times> string) list \<Rightarrow> dict" where
  "failed_result cid failed reasons = fmap_of_list
     [(''schema_version'', JInt 1), (''campaign_id'', JStr cid), (''campaign_status'', JStr ''baseline_failed''), (''claims'', JList []),
      (''capability_active'', JBool False), (''holdout_opened'', JBool False), (''burned_holdout_opened'', JBool False),
      (''failed_task_ids'', str_list failed), (''failure_reasons'', reasons_json reasons)]"

record campaign_report =
  cr_status :: json
  cr_claims :: "verified_claim list"
  cr_infra :: bool
  cr_feedback :: dict
  cr_signature :: string
  cr_prescreen :: prescreen_result

definition campaign_signature :: "baseline_result \<Rightarrow> dict \<Rightarrow> string res" where
  "campaign_signature b fb = content_sha256 (jobj
     [(''baseline_failure_signatures'', JList (map JObj (bl_failure_signatures b))),
      (''paired_model_native_failures'', JList (campaign_failure_facts fb))])"

definition advances :: "campaign_report \<Rightarrow> int option \<Rightarrow> bool" where
  "advances cr best \<longleftrightarrow> acceptable_advance (cr_claims cr) \<and> (case best of None \<Rightarrow> True | Some f \<Rightarrow> f < fitness (cr_claims cr))"

definition settled_payload ::
  "int \<Rightarrow> string \<Rightarrow> baseline_result \<Rightarrow> string \<Rightarrow> compiled \<Rightarrow> campaign_report \<Rightarrow> bool \<Rightarrow> goal_state \<Rightarrow> dict" where
  "settled_payload r selection b parent c cr accepted st = fmap_of_list
     [(''schema_version'', JInt 1), (''round_index'', JInt r), (''selection_id'', JStr selection), (''baseline_replayed'', JBool (bl_replayed b)),
      (''candidate_id'', JStr (cm_candidate_id c)), (''candidate_revision_id'', JStr (cm_revision_id c)),
      (''parent_revision_id'', JStr parent), (''compiled_bundle_sha256'', JStr (cm_bundle c)),
      (''prescreen'', JObj (prescreen_payload (cr_prescreen cr))), (''claims'', JList (map claim_row (cr_claims cr))),
      (''campaign_feedback'', JObj (cr_feedback cr)), (''fitness'', JInt (fitness (cr_claims cr))),
      (''round_outcome'', JStr (round_outcome (cr_claims cr) (cr_infra cr))), (''accepted_as_best'', JBool accepted),
      (''best_candidate_revision_id'', if accepted then JStr (cm_revision_id c) else opt_str (gs_best_candidate st)),
      (''best_bundle_sha256'', if accepted then JStr (cm_bundle c) else opt_str (gs_best_bundle st)),
      (''campaign_status'', cr_status cr), (''failure_signature_sha256'', JStr (cr_signature cr))]"

section \<open>Recovery from the indexed payloads\<close>

text \<open>The tail rules, over the payloads from the last one back.\<close>

definition tail_no_progress :: "dict list \<Rightarrow> int" where
  "tail_no_progress ps = int (length (takeWhile (\<lambda>p. \<not> truthy (get p ''accepted_as_best'')) (rev ps)))"

definition signature_of :: "dict \<Rightarrow> string option" where
  "signature_of p = (case get p ''failure_signature_sha256'' of JStr s \<Rightarrow> Some s | _ \<Rightarrow> None)"

definition tail_same_failure :: "dict list \<Rightarrow> string option \<times> int" where
  "tail_same_failure ps = (case rev ps of
     [] \<Rightarrow> (None, 0)
   | p # qs \<Rightarrow> (case signature_of p of None \<Rightarrow> (None, 0)
       | Some s \<Rightarrow> (Some s, int (length (takeWhile (\<lambda>q. signature_of q = Some s) (p # qs))))))"

definition payload_outcome :: "dict \<Rightarrow> json res" where
  "payload_outcome p = (if get p ''round_outcome'' = JNull
     then bind (round_outcome_rows (case fmlookup p ''claims'' of None \<Rightarrow> JList [] | Some j \<Rightarrow> j)) (\<lambda>s. Inr (JStr s))
     else Inr (get p ''round_outcome''))"

fun tail_infra :: "dict list \<Rightarrow> int res" where
  "tail_infra [] = Inr 0"
| "tail_infra (p # ps) = bind (payload_outcome p) (\<lambda>v. if v = JStr ''infra_failure'' then bind (tail_infra ps) (\<lambda>n. Inr (n + 1)) else Inr 0)"

text \<open>The items of \<open>payload.get(key, [])\<close>; its truth and \<open>get\<close> are those of the payload values.\<close>

definition payload_items :: "dict \<Rightarrow> string \<Rightarrow> json list res" where
  "payload_items p k = (case fmlookup p k of None \<Rightarrow> Inr [] | Some j \<Rightarrow> tuple_of j)"

definition gain_tasks :: "dict \<Rightarrow> string list res" where
  "gain_tasks p = (if truthy (get p ''accepted_as_best'') then
     bind (payload_items p ''claims'') (\<lambda>rows.
     bind (mapM (\<lambda>j. case j of
         JObj d \<Rightarrow> if get d ''classification'' = JStr ''gain'' then bind (item d ''task_id'') (\<lambda>t. Inr [py_str t]) else Inr []
       | _ \<Rightarrow> raise AttributeError ''object has no attribute get'') rows) (\<lambda>xs. Inr (concat xs)))
   else Inr [])"

definition failed_tasks :: "dict \<Rightarrow> string list res" where
  "failed_tasks p = bind (payload_items p ''baseline_failed_task_ids'') (\<lambda>xs. Inr (map py_str xs))"

text \<open>\<open>last.get(key)\<close> of a payload the loop wrote: a text or \<open>None\<close>.\<close>

definition recovered_status :: "goal_config \<Rightarrow> nat \<Rightarrow> string set \<Rightarrow> goal_state \<Rightarrow> goal_status" where
  "recovered_status g n gained st =
     (if gc_target g \<le> int (card gained) then GOAL_REACHED
      else if stop_status g st \<noteq> GOAL_ACTIVE then stop_status g st
      else if gc_max_rounds g \<le> int n then MAX_ROUNDS_REACHED else GOAL_ACTIVE)"

definition recover_state :: "goal_config \<Rightarrow> goal_state \<Rightarrow> dict list \<Rightarrow> goal_state res" where
  "recover_state g st ps =
     bind (mapM gain_tasks ps) (\<lambda>gains.
     bind (tail_infra (rev ps)) (\<lambda>infra.
     bind (mapM failed_tasks ps) (\<lambda>fails.
     bind (opt_value (get (last ps) ''best_candidate_revision_id'')) (\<lambda>cand.
     bind (opt_value (get (last ps) ''best_bundle_sha256'')) (\<lambda>bdl.
     let gained = set (concat gains);
         next = \<lparr>gs_schema_version = gs_schema_version st, gs_goal_id = gs_goal_id st, gs_status = GOAL_ACTIVE,
           gs_next_round_index = int (length ps), gs_rounds_completed = int (length ps), gs_no_progress_rounds = tail_no_progress ps,
           gs_consecutive_infra = infra, gs_native_gain_task_ids = sorted_list_of_set gained, gs_best_candidate = cand,
           gs_best_bundle = bdl, gs_failure_signature = fst (tail_same_failure ps),
           gs_failure_signature_rounds = snd (tail_same_failure ps), gs_unresolvable = sorted_list_of_set (set (concat fails))\<rparr>
     in Inr (next\<lparr>gs_status := recovered_status g (length ps) gained next\<rparr>))))))"

definition externally_terminal :: "goal_status set" where
  "externally_terminal = {BUDGET_EXHAUSTED, DISK_LIMIT, STOPPED_BY_USER, BLOCKED_INTEGRITY}"

definition validate_checkpoint :: "goal_state \<Rightarrow> goal_state \<Rightarrow> unit res" where
  "validate_checkpoint st recovered =
     bind (auto_unless (st\<lparr>gs_status := GOAL_ACTIVE\<rparr> = recovered\<lparr>gs_status := GOAL_ACTIVE\<rparr>)
       ''evolution state disagrees with verified round checkpoint'') (\<lambda>_.
     auto_unless (gs_status st \<in> externally_terminal \<or> gs_status st = gs_status recovered)
       ''evolution status disagrees with verified round checkpoint'')"

section \<open>The variables of the loop\<close>

record loop_vars =
  lv_state :: goal_state
  lv_prior_claims :: "json list"
  lv_historical :: "json list"
  lv_prior_feedback :: dict
  lv_rejected :: "string list"
  lv_best_fitness :: "int option"
  lv_best_payload :: "dict option"
  lv_selection_counts :: "(string, int) fmap"
  lv_failure_counts :: "(string, int) fmap"
  lv_gained :: "string set"
  lv_prescreen :: "prescreen_result option"

definition counted :: "(string, int) fmap \<Rightarrow> string \<Rightarrow> (string, int) fmap" where
  "counted m t = fmupd t ((case fmlookup m t of None \<Rightarrow> 0 | Some n \<Rightarrow> n) + 1) m"

definition count_all :: "string list \<Rightarrow> (string, int) fmap \<Rightarrow> (string, int) fmap" where
  "count_all ts m = fold (\<lambda>t m. counted m t) ts m"

definition failing_pair :: "json \<Rightarrow> string list res" where
  "failing_pair j = (case j of
     JObj p \<Rightarrow>
       bind (auto_unless (nonempty_text (get p ''task_id'') \<and> is_obj (get p ''claim'')) ''campaign feedback failure identity is invalid'') (\<lambda>_.
       Inr (case get p ''claim'' of JObj c \<Rightarrow> if get c ''classification'' = JStr ''gain'' then [] else [py_str (get p ''task_id'')] | _ \<Rightarrow> []))
   | _ \<Rightarrow> raise AutonomousEvolutionError ''campaign feedback task pair is invalid'')"

definition accumulate_failures :: "dict \<Rightarrow> (string, int) fmap \<Rightarrow> (string, int) fmap res" where
  "accumulate_failures fb m = (case (case fmlookup fb ''task_pairs'' of None \<Rightarrow> JList [] | Some j \<Rightarrow> j) of
     JList pairs \<Rightarrow> bind (mapM failing_pair pairs) (\<lambda>xs. Inr (count_all (concat xs) m))
   | _ \<Rightarrow> raise AutonomousEvolutionError ''campaign feedback task pairs are invalid'')"

definition parent_of :: "goal_state \<Rightarrow> string" where
  "parent_of st = (case gs_best_candidate st of None \<Rightarrow> ''empty-harness-v1'' | Some r \<Rightarrow> if r = [] then ''empty-harness-v1'' else r)"

definition padded :: "nat \<Rightarrow> string \<Rightarrow> string" where
  "padded n s = replicate (n - length s) (CHR ''0'') @ s"

definition round_name :: "int \<Rightarrow> string" where
  "round_name r = padded 4 (int_text r)"

definition failed_campaign_id :: "goal_state \<Rightarrow> int \<Rightarrow> string" where
  "failed_campaign_id st r = gs_goal_id st @ ''-r'' @ round_name r @ ''-baseline-failed''"

text \<open>A round whose baseline failed: its payload and the variables after it.\<close>

definition failed_round :: "goal_config \<Rightarrow> loop_vars \<Rightarrow> int \<Rightarrow> task_selection \<Rightarrow> baseline_result \<Rightarrow> dict \<times> loop_vars" where
  "failed_round g lv r sel b =
     (let st = lv_state lv; failed = failed_instances (ts_tasks sel) b; reasons = instance_reasons (ts_tasks sel) b;
          cid = failed_campaign_id st r
      in (failed_payload r (ts_selection_id sel) b (parent_of st) st cid failed reasons,
          lv\<lparr>lv_state := after_failed_baseline g st (lv_gained lv) r (failed_signature failed reasons) (has_infra_reason b)
               (newly_unresolvable (ts_tasks sel) b),
             lv_prior_claims := [], lv_prior_feedback := failed_feedback cid failed reasons,
             lv_selection_counts := count_all (ts_task_ids sel) (lv_selection_counts lv)\<rparr>))"

definition campaign_accepted :: "loop_vars \<Rightarrow> campaign_report \<Rightarrow> bool" where
  "campaign_accepted lv cr = advances cr (lv_best_fitness lv)"

definition campaign_row :: "loop_vars \<Rightarrow> int \<Rightarrow> task_selection \<Rightarrow> baseline_result \<Rightarrow> compiled \<Rightarrow> campaign_report \<Rightarrow> dict" where
  "campaign_row lv r sel b c cr =
     settled_payload r (ts_selection_id sel) b (parent_of (lv_state lv)) c cr (campaign_accepted lv cr) (lv_state lv)"

text \<open>A round whose campaign was judged; the failure counts may refuse the feedback.\<close>

definition campaign_round ::
  "goal_config \<Rightarrow> loop_vars \<Rightarrow> int \<Rightarrow> task_selection \<Rightarrow> baseline_result \<Rightarrow> compiled \<Rightarrow> campaign_report \<Rightarrow> loop_vars res" where
  "campaign_round g lv r sel b c cr =
     (let acc = campaign_accepted lv cr; st = lv_state lv; row = campaign_row lv r sel b c cr;
          gained = (if acc then lv_gained lv \<union> set (class_tasks ''gain'' (cr_claims cr)) else lv_gained lv)
      in bind (accumulate_failures (cr_feedback cr) (lv_failure_counts lv)) (\<lambda>failures.
         Inr (lv\<lparr>lv_state := after_campaign g st gained r (cr_signature cr) (round_outcome (cr_claims cr) (cr_infra cr) = ''infra_failure'')
                   (if acc then Some (cm_revision_id c, cm_bundle c) else None),
                lv_prior_claims := map claim_row (cr_claims cr), lv_historical := lv_historical lv @ map claim_row (cr_claims cr),
                lv_prior_feedback := cr_feedback cr,
                lv_rejected := (if acc then lv_rejected lv else lv_rejected lv @ [cm_candidate_id c]),
                lv_best_fitness := (if acc then Some (fitness (cr_claims cr)) else lv_best_fitness lv),
                lv_best_payload := (if acc then Some row else lv_best_payload lv),
                lv_selection_counts := count_all (ts_task_ids sel) (lv_selection_counts lv),
                lv_failure_counts := failures, lv_gained := gained,
                lv_prescreen := Some (cr_prescreen cr)\<rparr>)))"

definition fresh_vars :: "goal_state \<Rightarrow> loop_vars" where
  "fresh_vars st = \<lparr>lv_state = st, lv_prior_claims = [], lv_historical = [], lv_prior_feedback = fmempty, lv_rejected = [],
     lv_best_fitness = None, lv_best_payload = None, lv_selection_counts = fmempty, lv_failure_counts = fmempty,
     lv_gained = set (gs_native_gain_task_ids st), lv_prescreen = None\<rparr>"

text \<open>The rounds a run may have completed: the payloads it indexed and the variables it reached.  A
  round is only begun in an active state and before the last round; \<open>P\<close> tells which failed
  baselines are considered.\<close>

inductive rounds_played :: "goal_config \<Rightarrow> (task_selection \<Rightarrow> baseline_result \<Rightarrow> bool) \<Rightarrow> dict list \<Rightarrow> loop_vars \<Rightarrow> bool" for g P where
  no_round: "rounds_played g P [] (fresh_vars (initial_goal (gc_goal_id g)))"
| baseline_failed: "rounds_played g P ps lv \<Longrightarrow> gs_status (lv_state lv) = GOAL_ACTIVE \<Longrightarrow> int (length ps) < gc_max_rounds g \<Longrightarrow> P sel b
    \<Longrightarrow> failed_round g lv (int (length ps)) sel b = (p, lv') \<Longrightarrow> rounds_played g P (ps @ [p]) lv'"
| campaign_judged: "rounds_played g P ps lv \<Longrightarrow> gs_status (lv_state lv) = GOAL_ACTIVE \<Longrightarrow> int (length ps) < gc_max_rounds g
    \<Longrightarrow> campaign_round g lv (int (length ps)) sel b c cr = Inr lv'
    \<Longrightarrow> rounds_played g P (ps @ [campaign_row lv (int (length ps)) sel b c cr]) lv'"

end
