(* ===== verification/Run.thy ===== *)
theory Run
  imports Rounds
begin

text \<open>
  \<open>src/src/evolve/autonomous/runner.py\<close>, the run: one round over the files of the output
  directory, the loop, and what a restart rebuilds.  The executor (model, evaluator), the Teacher
  with the compilation of its answer and the operating system are the parameters of
  \<open>round_world\<close>; an exception of theirs is a value.
\<close>

section \<open>The output directory\<close>

record round_files =
  rx_dir :: round_dir
  rx_compiled :: "compiled option"
  rx_sealed :: bool

record run_files =
  rf_root :: files
  rf_state :: goal_file
  rf_rounds :: index_log
  rf_selections :: index_log
  rf_teacher :: index_log
  rf_best :: best_dir
  rf_round :: "int \<Rightarrow> round_files"
  rf_sealed :: bool

text \<open>An operation on a part of the state.\<close>

definition ozoom :: "('s \<Rightarrow> 't) \<Rightarrow> ('t \<Rightarrow> 's \<Rightarrow> 's) \<Rightarrow> ('t, 'a) op \<Rightarrow> ('s, 'a) op" where
  "ozoom part put m s = (case m (part s) of (t, r) \<Rightarrow> (put t s, r))"

definition on_state :: "(goal_file, 'a) op \<Rightarrow> (run_files, 'a) op" where
  "on_state = ozoom rf_state (\<lambda>x f. f\<lparr>rf_state := x\<rparr>)"

definition on_rounds :: "(index_log, 'a) op \<Rightarrow> (run_files, 'a) op" where
  "on_rounds = ozoom rf_rounds (\<lambda>x f. f\<lparr>rf_rounds := x\<rparr>)"

definition on_selections :: "(index_log, 'a) op \<Rightarrow> (run_files, 'a) op" where
  "on_selections = ozoom rf_selections (\<lambda>x f. f\<lparr>rf_selections := x\<rparr>)"

definition on_teacher :: "(index_log, 'a) op \<Rightarrow> (run_files, 'a) op" where
  "on_teacher = ozoom rf_teacher (\<lambda>x f. f\<lparr>rf_teacher := x\<rparr>)"

definition on_best :: "(best_dir, 'a) op \<Rightarrow> (run_files, 'a) op" where
  "on_best = ozoom rf_best (\<lambda>x f. f\<lparr>rf_best := x\<rparr>)"

definition on_root :: "(files, 'a) op \<Rightarrow> (run_files, 'a) op" where
  "on_root = ozoom rf_root (\<lambda>x f. f\<lparr>rf_root := x\<rparr>)"

definition on_round :: "int \<Rightarrow> (round_files, 'a) op \<Rightarrow> (run_files, 'a) op" where
  "on_round r = ozoom (\<lambda>f. rf_round f r) (\<lambda>x f. f\<lparr>rf_round := (rf_round f)(r := x)\<rparr>)"

definition on_dir :: "(round_dir, 'a) op \<Rightarrow> (round_files, 'a) op" where
  "on_dir = ozoom rx_dir (\<lambda>d x. x\<lparr>rx_dir := d\<rparr>)"

text \<open>A frozen file of the round; a new file makes an earlier manifest incomplete, not wrong.\<close>

definition freeze_round :: "string \<Rightarrow> dict \<Rightarrow> (round_files, unit) op" where
  "freeze_round name payload = on_dir (ozoom rd_files (\<lambda>fs d. d\<lparr>rd_files := fs\<rparr>) (freeze_json name payload))"

definition seal_round :: "(round_files, unit) op" where
  "seal_round = omodify (\<lambda>x. x\<lparr>rx_sealed := True\<rparr>)"

definition has_file :: "round_files \<Rightarrow> string \<Rightarrow> bool" where
  "has_file x name \<longleftrightarrow> fmlookup (rd_files (rx_dir x)) name \<noteq> None"

section \<open>Frozen reports read back\<close>

definition baseline_of_dict :: "dict \<Rightarrow> baseline_result res" where
  "baseline_of_dict d = rewrap (\<lambda>x. x = KeyError \<or> x = TypeError) AutonomousEvolutionError ''frozen baseline result is invalid''
     (bind (the_item d ''task_ids'' text_list) (\<lambda>ts. bind (the_item d ''model_receipt_ids'' text_list) (\<lambda>ms.
      bind (the_item d ''native_receipt_ids'' text_list) (\<lambda>ns.
      bind (the_item d ''native_outcomes'' (\<lambda>j. bind (tuple_of j) (mapM dict_of))) (\<lambda>os.
      bind (the_item d ''failure_signatures'' (\<lambda>j. bind (tuple_of j) (mapM dict_of))) (\<lambda>fs.
      bind (item d ''replayed'') (\<lambda>rp.
      bind (text_list (config_or d ''failed_task_ids'' (JList []))) (\<lambda>bad.
      bind (dict_of (config_or d ''failure_reasons'' (jobj []))) (\<lambda>rs.
      bind (mapM (\<lambda>(k, v). bind (str_value v) (\<lambda>s. Inr (k, s))) (sorted_list_of_fmap rs)) (\<lambda>reasons.
      Inr \<lparr>bl_task_ids = ts, bl_model_receipt_ids = ms, bl_native_receipt_ids = ns, bl_native_outcomes = os,
        bl_failure_signatures = fs, bl_replayed = truthy rp, bl_failed = bad, bl_reasons = reasons\<rparr>))))))))))"

definition prescreen_of_dict :: "dict \<Rightarrow> prescreen_result res" where
  "prescreen_of_dict d = rewrap (\<lambda>x. x = KeyError \<or> x = TypeError) AutonomousEvolutionError ''frozen prescreen result is invalid''
     (bind (item d ''candidate_revision_id'') (\<lambda>cr. bind (item d ''candidate_bundle_sha256'') (\<lambda>cb.
      bind (the_item d ''model_receipt_ids'' text_list) (\<lambda>ms. bind (item d ''structural_valid'') (\<lambda>sv.
      bind (item d ''patch_applicable'') (\<lambda>pa. bind (item d ''replayed'') (\<lambda>rp. bind (item d ''status'') (\<lambda>st.
      Inr \<lparr>ps_candidate_revision_id = py_str cr, ps_candidate_bundle = py_str cb, ps_model_receipt_ids = ms,
        ps_structural_valid = truthy sv, ps_patch_applicable = truthy pa, ps_replayed = truthy rp, ps_status = py_str st\<rparr>))))))))"

section \<open>What the run is given\<close>

record run_setup =
  su_config :: run_config
  su_selector :: selector
  su_model_sha256 :: string
  su_model_files :: dict
  su_config_sha256 :: string
  su_head :: string
  su_clean :: bool
  su_evidence_mode :: string
  su_executor :: string
  su_spent :: json

record round_world =
  rw_disk :: int
  rw_runtime :: "(string \<times> string) option res"
  rw_teacher :: "(string \<times> string) res"
  rw_baseline :: "task_selection \<Rightarrow> string \<Rightarrow> (round_dir, baseline_result) op"
  rw_propose :: "dict \<Rightarrow> dict res"
  rw_compile :: "dict \<Rightarrow> task_selection \<Rightarrow> string \<Rightarrow> compiled res"
  rw_prescreen :: "compiled \<Rightarrow> (round_dir, prescreen_result) op"
  rw_paired :: "compiled \<Rightarrow> (round_dir, dict) op"

abbreviation goal_of :: "run_setup \<Rightarrow> goal_config" where
  "goal_of su \<equiv> cf_goal (su_config su)"

definition goal_fields :: "goal_config \<Rightarrow> (string \<times> json) list" where
  "goal_fields g = [(''goal_id'', JStr (gc_goal_id g)), (''description'', JStr (gc_description g)),
     (''target_native_gains'', JInt (gc_target g)), (''max_rounds'', JInt (gc_max_rounds g)), (''no_progress_patience'', JInt (gc_patience g)),
     (''max_consecutive_infra_failures'', JInt (gc_max_infra g)), (''max_same_failure_signature'', JInt (gc_max_same g)),
     (''disk_limit_bytes'', JInt (gc_disk_limit g)), (''excluded_task_ids'', str_list (gc_excluded g))]"

definition goal_document :: "run_setup \<Rightarrow> dict" where
  "goal_document su = fmap_of_list ([(''schema_version'', JInt 1)] @ goal_fields (goal_of su)
     @ [(''model_identity_sha256'', JStr (su_model_sha256 su)), (''model_identity_files'', JObj (su_model_files su)),
        (''source_commit_sha'', JStr (su_head su)), (''config_sha256'', JStr (su_config_sha256 su)), (''feedback_only'', JBool True),
        (''no_weight_training'', JBool True)])"

section \<open>The end of a run\<close>

definition is_real :: "run_setup \<Rightarrow> bool" where
  "is_real su \<longleftrightarrow> starts_with ''real-'' (su_evidence_mode su)"

definition result_document :: "run_setup \<Rightarrow> bool \<Rightarrow> goal_state \<Rightarrow> dict" where
  "result_document su best st = fmap_of_list
     [(''schema_version'', JInt 1), (''goal_id'', JStr (gs_goal_id st)), (''status'', JStr (goal_status_text (gs_status st))),
      (''rounds_completed'', JInt (gs_rounds_completed st)), (''native_gain_task_count'', JInt (int (length (gs_native_gain_task_ids st)))),
      (''native_gain_task_ids'', str_list (gs_native_gain_task_ids st)), (''best_candidate_revision_id'', opt_str (gs_best_candidate st)),
      (''best_bundle_sha256'', opt_str (gs_best_bundle st)),
      (''best_harness_path'', if best then JStr ''best/BEST-HARNESS.json'' else JNull),
      (''teacher_provider'', JStr (tc_provider (cf_teacher (su_config su)))), (''teacher_model'', JStr (tc_model (cf_teacher (su_config su)))),
      (''teacher_spend_cny'', su_spent su), (''holdout_opened'', JBool False), (''skill_active'', JBool False),
      (''evidence_mode'', JStr (su_evidence_mode su)),
      (''product_status'', JStr (if gs_status st = GOAL_REACHED then (if is_real su then ''autonomous_loop_verified'' else ''offline_e2e_verified'')
         else ''partial''))]"

definition write_result :: "run_setup \<Rightarrow> goal_state \<Rightarrow> (run_files, dict) op" where
  "write_result su st =
     obind (oread (\<lambda>f. result_document su (bd_harness (rf_best f) \<noteq> None) st)) (\<lambda>d.
     obind (olift (canonical_json (JObj d))) (\<lambda>_.
     obind (omodify (\<lambda>f. f\<lparr>rf_root := fmupd ''EVOLUTION-RESULT.json'' (Some (JObj d)) (rf_root f), rf_sealed := True\<rparr>)) (\<lambda>_.
     oreturn d)))"

definition stop_run :: "run_setup \<Rightarrow> goal_state \<Rightarrow> (run_files, dict) op" where
  "stop_run su st = obind (on_state (goal_write st)) (\<lambda>_. write_result su st)"

definition exn_name :: "exn \<Rightarrow> string" where
  "exn_name x = (case x of
     ContractViolation \<Rightarrow> ''ContractViolation'' | BudgetExceeded \<Rightarrow> ''BudgetExceeded'' | LedgerIntegrityError \<Rightarrow> ''LedgerIntegrityError''
   | LedgerConflict \<Rightarrow> ''LedgerConflict'' | LedgerBusy \<Rightarrow> ''LedgerBusy'' | LeaseContended \<Rightarrow> ''LeaseContended''
   | DecisionLogError \<Rightarrow> ''DecisionLogError'' | DecisionLogBusy \<Rightarrow> ''DecisionLogBusy'' | AutonomousEvolutionError \<Rightarrow> ''AutonomousEvolutionError''
   | _ \<Rightarrow> ''Exception'')"

fun err_text :: "err \<Rightarrow> string" where
  "err_text (Err x m) = m"

text \<open>The causes of an exception are not kept by the model and are left null.\<close>

definition block_document :: "string \<Rightarrow> err \<Rightarrow> goal_state \<Rightarrow> dict" where
  "block_document phase e st = fmap_of_list
     [(''schema_version'', JInt 1), (''phase'', JStr phase), (''error_type'', JStr (exn_name (exn_of e))), (''error'', JStr (err_text e)),
      (''cause_type'', JNull), (''cause'', JNull), (''cause_code'', JNull), (''best_candidate_revision_id'', opt_str (gs_best_candidate st)),
      (''best_bundle_sha256'', opt_str (gs_best_bundle st)), (''best_advanced'', JBool False)]"

definition block_integrity :: "run_setup \<Rightarrow> goal_state \<Rightarrow> int \<Rightarrow> string \<Rightarrow> err \<Rightarrow> (run_files, dict) op" where
  "block_integrity su st r phase e =
     obind (on_round r (freeze_round ''INTEGRITY-BLOCK.json'' (block_document phase e st))) (\<lambda>_.
     obind (on_round r seal_round) (\<lambda>_. stop_run su (st\<lparr>gs_status := BLOCKED_INTEGRITY\<rparr>)))"

end
