(* ===== verification/Run_Round.thy ===== *)
theory Run_Round
  imports Run
begin

text \<open>
  \<open>src/src/evolve/autonomous/runner.py\<close>: \<open>AutonomousEvolutionRunner.run\<close>, its steps in the
  order of the code.
\<close>

section \<open>Preflight and selection\<close>

definition repeat_hard_cap :: "int \<Rightarrow> int \<Rightarrow> int \<Rightarrow> int" where
  "repeat_hard_cap rounds tasks pool = max 1 ((rounds * tasks + pool - 1) div pool)"

definition best_task :: "json \<Rightarrow> string res" where
  "best_task j = (case j of
     JObj d \<Rightarrow> bind (auto_unless (nonempty_text (get d ''task_id'')) ''accepted best claim task is invalid'') (\<lambda>_. Inr (py_str (get d ''task_id'')))
   | _ \<Rightarrow> raise AutonomousEvolutionError ''accepted best claim is invalid'')"

definition claim_task_ids :: "dict \<Rightarrow> string list res" where
  "claim_task_ids p = (case get p ''claims'' of
     JList rows \<Rightarrow> bind (mapM best_task rows) (\<lambda>ts. Inr (sorted_list_of_set (set ts)))
   | _ \<Rightarrow> raise AutonomousEvolutionError ''accepted best claims are invalid'')"

definition round_context :: "run_setup \<Rightarrow> loop_vars \<Rightarrow> selection_context res" where
  "round_context su lv =
     (let g = goal_of su; st = lv_state lv in
     bind (case lv_best_payload lv of None \<Rightarrow> Inr [] | Some p \<Rightarrow> claim_task_ids p) (\<lambda>supported.
     bind (mapM (\<lambda>j. case j of JObj d \<Rightarrow> Inr d | _ \<Rightarrow> raise AutonomousEvolutionError ''historical claims must contain only objects'')
       (lv_historical lv)) (\<lambda>claims.
     mk_context \<lparr>sc_claims = claims, sc_best_revision = gs_best_candidate st, sc_supported = supported,
       sc_failure_counts = lv_failure_counts lv, sc_goal_gap = max 0 (gc_target g - int (card (lv_gained lv))),
       sc_selection_counts = lv_selection_counts lv,
       sc_repeat_cap = repeat_hard_cap (gc_max_rounds g) (ec_tasks (cf_execution (su_config su))) (int (length (sl_tasks (su_selector su)))),
       sc_excluded = uniq (gs_unresolvable st @ gc_excluded g)\<rparr>)))"

definition selection_payload :: "task_selection \<Rightarrow> dict" where
  "selection_payload s = fmap_of_list
     [(''schema_version'', JInt 1), (''selection_id'', JStr (ts_selection_id s)), (''round_index'', JInt (ts_round_index s)),
      (''selection_context_sha256'', JStr (ts_context_sha256 s)), (''selection_context'', JObj (ts_context s)),
      (''selected_task_ids'', str_list (ts_task_ids s)), (''selected_projects'', str_list (ts_projects s)),
      (''selection_reason'', str_list (ts_reason s)), (''excluded'', str_list (ts_excluded s)), (''tasks'', JList (map JObj (ts_tasks s)))]"

definition round_selection :: "run_setup \<Rightarrow> loop_vars \<Rightarrow> int \<Rightarrow> task_selection res" where
  "round_selection su lv r = bind (round_context su lv) (\<lambda>c.
     select_tasks (su_selector su) r (ec_tasks (cf_execution (su_config su))) None (Some c))"

definition identity_digest :: "string \<Rightarrow> bool" where
  "identity_digest = is_sha256"

definition healthy :: "string \<Rightarrow> string \<Rightarrow> json" where
  "healthy mode i = jobj [(''status'', JStr ''healthy''), (''mode'', JStr mode), (''identity_sha256'', JStr i)]"

definition fixture_identity :: "run_setup \<Rightarrow> string \<Rightarrow> string" where
  "fixture_identity su part = digest (jobj [(''executor'', JStr (su_executor su)), (''component'', JStr part)])"

definition runtime_identity :: "run_setup \<Rightarrow> round_world \<Rightarrow> (string \<times> string \<times> string) res" where
  "runtime_identity su w = bind (rw_runtime w) (\<lambda>rt. case rt of
     Some (q, n) \<Rightarrow> Inr (''real-runtime'', q, n)
   | None \<Rightarrow> if su_evidence_mode su = ''test-fixture''
       then Inr (''injected-test-fixture'', fixture_identity su ''qwen'', fixture_identity su ''native'')
       else raise AutonomousEvolutionError ''real autonomous executor does not implement runtime preflight'')"

definition preflight_payload :: "run_setup \<Rightarrow> round_world \<Rightarrow> int \<Rightarrow> task_selection \<Rightarrow> dict res" where
  "preflight_payload su w r sel =
     bind (runtime_identity su w) (\<lambda>(mode, q, n).
     bind (auto_unless (identity_digest q) ''Qwen preflight identity is invalid'') (\<lambda>_.
     bind (auto_unless (identity_digest n) ''native preflight identity is invalid'') (\<lambda>_.
     bind (rw_teacher w) (\<lambda>(tmode, t).
     let core = [(''schema_version'', JInt 1), (''status'', JStr ''healthy''), (''round_index'', JInt r),
           (''selection_id'', JStr (ts_selection_id sel)), (''config_sha256'', JStr (su_config_sha256 su)),
           (''components'', jobj [(''teacher'', healthy tmode t), (''qwen'', healthy mode q), (''native'', healthy mode n)])]
     in Inr (fmap_of_list (core @ [(''preflight_sha256'', JStr (digest (jobj core)))]))))))"

section \<open>The baseline\<close>

definition load_file :: "string \<Rightarrow> (round_files, dict) op" where
  "load_file name = obind (oread (\<lambda>x. load_json_object (rx_dir x) name)) olift"

definition run_baseline :: "round_world \<Rightarrow> task_selection \<Rightarrow> string \<Rightarrow> (round_files, baseline_result) op" where
  "run_baseline w sel parent =
     obind (oread (\<lambda>x. has_file x ''BASELINE-RESULT.json'')) (\<lambda>there.
     obind (if there then obind (load_file ''BASELINE-RESULT.json'') (\<lambda>d. olift (baseline_of_dict d))
            else obind (on_dir (rw_baseline w sel parent)) (\<lambda>b.
              obind (olift (validate_baseline b (ts_task_ids sel))) (\<lambda>_.
              obind (freeze_round ''BASELINE-RESULT.json'' (baseline_payload b)) (\<lambda>_. oreturn b)))) (\<lambda>b.
     obind (olift (validate_baseline b (ts_task_ids sel))) (\<lambda>_. oreturn b)))"

text \<open>A round may go on, or end the run with its result.\<close>

datatype round_end = Next_round loop_vars | Run_over dict

definition end_round :: "run_setup \<Rightarrow> loop_vars \<Rightarrow> (run_files, round_end) op" where
  "end_round su lv =
     obind (on_state (goal_write (lv_state lv))) (\<lambda>_.
     if gs_status (lv_state lv) = GOAL_ACTIVE then oreturn (Next_round lv)
     else obind (write_result su (lv_state lv)) (\<lambda>d. oreturn (Run_over d)))"

definition round_event :: "int \<Rightarrow> string" where
  "round_event r = ''round-'' @ round_name r"

definition index_round :: "run_setup \<Rightarrow> int \<Rightarrow> dict \<Rightarrow> (run_files, bool) op" where
  "index_round su r row = on_rounds (index_append (gc_goal_id (goal_of su) @ '':rounds:v1'') (round_event r) row)"

definition finish_failed :: "run_setup \<Rightarrow> loop_vars \<Rightarrow> int \<Rightarrow> task_selection \<Rightarrow> baseline_result \<Rightarrow> (run_files, round_end) op" where
  "finish_failed su lv r sel b =
     (let (row, lv') = failed_round (goal_of su) lv r sel b; failed = failed_instances (ts_tasks sel) b;
          reasons = instance_reasons (ts_tasks sel) b
      in
     obind (on_round r (freeze_round ''BASELINE-RESULT.json'' (baseline_payload b))) (\<lambda>_.
     obind (on_round r (freeze_round ''CAMPAIGN-RESULT.json'' (failed_result (failed_campaign_id (lv_state lv) r) failed reasons))) (\<lambda>_.
     obind (on_round r (freeze_round ''AUTONOMOUS-ROUND-RESULT.json'' row)) (\<lambda>_.
     obind (on_round r seal_round) (\<lambda>_.
     obind (index_round su r row) (\<lambda>_. end_round su lv'))))))"

section \<open>The proposal\<close>

definition round_temperature :: "pyfloat list \<Rightarrow> int \<Rightarrow> pyfloat" where
  "round_temperature schedule r = (if schedule = [] then fzero else schedule ! nat (r mod int (length schedule)))"

definition is_regression :: "json \<Rightarrow> bool" where
  "is_regression j = (case j of JObj d \<Rightarrow> get d ''classification'' = JStr ''regression'' | _ \<Rightarrow> False)"

definition failure_package :: "run_setup \<Rightarrow> loop_vars \<Rightarrow> int \<Rightarrow> task_selection \<Rightarrow> baseline_result \<Rightarrow> dict" where
  "failure_package su lv r sel b = (let st = lv_state lv in fmap_of_list
     [(''schema_version'', JInt 1), (''goal'', jobj (goal_fields (goal_of su))), (''round_index'', JInt r),
      (''model_identity_sha256'', JStr (su_model_sha256 su)),
      (''current_best_harness'', jobj [(''candidate_revision_id'', opt_str (gs_best_candidate st)),
         (''compiled_bundle_sha256'', opt_str (gs_best_bundle st))]),
      (''no_progress_rounds'', JInt (gs_no_progress_rounds st)), (''selected_tasks'', JList (map (JObj \<circ> teacher_task) (ts_tasks sel))),
      (''baseline'', JObj (baseline_payload b)), (''prior_claims'', JList (lv_prior_claims lv)),
      (''prior_campaign_feedback'', JObj (lv_prior_feedback lv)), (''failure_signatures'', JList (map JObj (bl_failure_signatures b))),
      (''regressions'', JList (filter is_regression (lv_prior_claims lv))), (''rejected_candidate_ids'', str_list (lv_rejected lv)),
      (''temperature'', JFloat (round_temperature (tc_schedule (cf_teacher (su_config su))) r)),
      (''constraints'', jobj (map (\<lambda>k. (k, JBool True)) [''feedback_only'', ''no_weight_training'', ''candidate_inactive'',
         ''do_not_modify_evaluator'', ''candidate_must_be_structurally_new'']))])"

definition request_id :: "run_setup \<Rightarrow> int \<Rightarrow> string" where
  "request_id su r = gc_goal_id (goal_of su) @ ''-round-'' @ round_name r"

definition teacher_row :: "dict \<Rightarrow> compiled \<Rightarrow> dict" where
  "teacher_row p c = fmupd ''candidate_id'' (JStr (cm_candidate_id c)) (fmupd ''candidate_revision_id'' (JStr (cm_revision_id c))
     (fmupd ''compiled_bundle_sha256'' (JStr (cm_bundle c)) p))"

definition router_repair :: "int \<Rightarrow> task_selection \<Rightarrow> compiled \<Rightarrow> dict" where
  "router_repair r sel c = fmap_of_list
     [(''schema_version'', JInt 1), (''round_index'', JInt r), (''candidate_id'', JStr (cm_candidate_id c)),
      (''candidate_revision_id'', JStr (cm_revision_id c)), (''compiled_bundle_sha256'', JStr (cm_bundle c)),
      (''route_operator_id'', JStr (case cm_routes c of [] \<Rightarrow> [] | (t, i) # es \<Rightarrow> i)),
      (''teacher_routed_task_ids'', str_list (filter (\<lambda>t. t \<notin> set (cm_synthesized c)) (ts_task_ids sel))),
      (''synthesized_task_ids'', str_list (cm_synthesized c)),
      (''source'', JStr ''deterministic Router repair of a schema-valid Teacher response; no additional paid call'')]"

definition copy_compiled :: "compiled \<Rightarrow> (round_files, unit) op" where
  "copy_compiled c = obind (oread rx_compiled) (\<lambda>old. case old of
     None \<Rightarrow> omodify (\<lambda>x. x\<lparr>rx_compiled := Some c\<rparr>)
   | Some d \<Rightarrow> olift (auto_unless (d = c) ''immutable round artifact conflict''))"

section \<open>Screening and campaign\<close>

definition fetch_prescreen :: "run_setup \<Rightarrow> round_world \<Rightarrow> compiled \<Rightarrow> (round_files, prescreen_result) op" where
  "fetch_prescreen su w c =
     obind (oread (\<lambda>x. has_file x ''PRESCREEN-RESULT.json'')) (\<lambda>there.
     if there then obind (load_file ''PRESCREEN-RESULT.json'') (\<lambda>d. olift (prescreen_of_dict d))
     else if ec_prescreen (cf_execution (su_config su)) = 0 then oreturn (skipped_prescreen c)
     else on_dir (rw_prescreen w c))"

text \<open>What is checked once the screening is known: a frozen one only when it completed.\<close>

definition check_prescreen :: "run_setup \<Rightarrow> bool \<Rightarrow> prescreen_result \<Rightarrow> compiled \<Rightarrow> unit res" where
  "check_prescreen su there p c =
     (if there then (if ps_status p = ''completed'' then validate_prescreen p c else Inr ())
      else if ec_prescreen (cf_execution (su_config su)) = 0 then Inr () else validate_prescreen p c)"

definition run_campaign :: "run_setup \<Rightarrow> round_world \<Rightarrow> task_selection \<Rightarrow> compiled \<Rightarrow> prescreen_result \<Rightarrow> (round_files, dict \<times> verified_claim list) op" where
  "run_campaign su w sel c p =
     (if \<not> (ps_structural_valid p \<and> ps_patch_applicable p)
      then oreturn (fmap_of_list [(''campaign_status'', JStr ''screened_out''), (''claims'', JList [])], [])
      else
      obind (oread (\<lambda>x. has_file x ''CAMPAIGN-RESULT.json'')) (\<lambda>there.
      obind (if there then load_file ''CAMPAIGN-RESULT.json'' else on_dir (rw_paired w c)) (\<lambda>result.
      obind (freeze_round ''CAMPAIGN-RESULT.json'' result) (\<lambda>_.
      obind (oread (\<lambda>x. verify_campaign (rd_store (rx_dir x)) (rd_graph (rx_dir x)) result (ts_task_ids sel) (cm_candidate_id c)
        (cm_revision_id c) (cm_bundle c))) (\<lambda>v. obind (olift v) (\<lambda>vs. oreturn (result, vs)))))))"

text \<open>The body of the \<open>try\<close>: the screening, if it was reached, and what the rest returned or raised.\<close>

definition try_campaign :: "run_setup \<Rightarrow> round_world \<Rightarrow> task_selection \<Rightarrow> compiled \<Rightarrow> round_files
    \<Rightarrow> round_files \<times> prescreen_result option \<times> (dict \<times> verified_claim list) res" where
  "try_campaign su w sel c x = (case fetch_prescreen su w c x of
     (x', Inl e) \<Rightarrow> (x', None, Inl e)
   | (x', Inr p) \<Rightarrow> (case obind (olift (check_prescreen su (has_file x ''PRESCREEN-RESULT.json'') p c)) (\<lambda>_.
         obind (freeze_round ''PRESCREEN-RESULT.json'' (prescreen_payload p)) (\<lambda>_. run_campaign su w sel c p)) x' of
       (x'', v) \<Rightarrow> (x'', Some p, v)))"

definition failure_statuses :: "dict \<Rightarrow> json list" where
  "failure_statuses fb = (case get fb ''infrastructure_failures'' of
     JList rows \<Rightarrow> map (\<lambda>j. case j of JObj d \<Rightarrow> get d ''execution_status'' | _ \<Rightarrow> JNull) rows | _ \<Rightarrow> [])"

definition infra_result :: "dict \<Rightarrow> err \<Rightarrow> dict" where
  "infra_result fb e = fmap_of_list
     [(''campaign_id'', get fb ''campaign_id''), (''campaign_status'', JStr ''infra_failure''), (''execution_statuses'', JList (failure_statuses fb)),
      (''claims'', JList []), (''capability_active'', JBool False), (''holdout_opened'', JBool False), (''burned_holdout_opened'', JBool False),
      (''failure_error_type'', JStr (exn_name (exn_of e))), (''failure_error_sha256'', JStr (text_sha256 (err_text e)))]"

text \<open>A campaign as the round goes on with it: its screening, its result, its claims and, for an
  infrastructure failure, the feedback that proves it; or the error that blocks the run.\<close>

datatype judged = Judged "prescreen_result option" dict "verified_claim list" "dict option" | Blocked err

definition judge_campaign :: "run_setup \<Rightarrow> round_world \<Rightarrow> task_selection \<Rightarrow> compiled \<Rightarrow> (round_files, judged) op" where
  "judge_campaign su w sel c x = (case try_campaign su w sel c x of
     (x', p, Inr (result, vs)) \<Rightarrow> (x', Inr (Judged p result vs None))
   | (x', p, Inl e) \<Rightarrow>
       if \<not> is_contract_violation (exn_of e) then (x', Inl e)
       else (case infrastructure_feedback (rx_dir x') of
           Inr fb \<Rightarrow> (x', Inr (Judged p (infra_result fb e) [] (Some fb)))
         | Inl e' \<Rightarrow> (x', if is_contract_violation (exn_of e') then Inr (Blocked e) else Inl e')))"

definition round_feedback :: "round_dir \<Rightarrow> prescreen_result option \<Rightarrow> dict \<Rightarrow> verified_claim list \<Rightarrow> dict option \<Rightarrow> compiled \<Rightarrow> dict res" where
  "round_feedback d p result vs infra c = (case infra of
     Some fb \<Rightarrow> Inr fb
   | None \<Rightarrow> (case p of None \<Rightarrow> raise UnboundLocalError ''prescreen'' | Some ps \<Rightarrow>
       campaign_feedback d result vs (prescreen_payload ps) (cm_candidate_id c)))"

section \<open>The end of a judged round\<close>

definition best_authority :: "loop_vars \<Rightarrow> campaign_report \<Rightarrow> dict \<Rightarrow> dict option" where
  "best_authority lv cr row = (if campaign_accepted lv cr then Some row else lv_best_payload lv)"

definition finish_judged ::
  "run_setup \<Rightarrow> loop_vars \<Rightarrow> int \<Rightarrow> task_selection \<Rightarrow> baseline_result \<Rightarrow> compiled \<Rightarrow> campaign_report \<Rightarrow> (run_files, round_end) op" where
  "finish_judged su lv r sel b c cr =
     (let row = campaign_row lv r sel b c cr; mid = su_model_sha256 su in
     obind (if campaign_accepted lv cr then obind (oread (\<lambda>f. rx_compiled (rf_round f r))) (\<lambda>k. on_best (export_best mid k c (cr_claims cr)))
            else oreturn ()) (\<lambda>_.
     obind (oread (\<lambda>f. verify_best (rf_best f) mid (best_authority lv cr row))) (\<lambda>v. obind (olift v) (\<lambda>_.
     obind (on_round r (freeze_round ''AUTONOMOUS-ROUND-RESULT.json'' row)) (\<lambda>_.
     obind (on_round r seal_round) (\<lambda>_.
     obind (index_round su r row) (\<lambda>_.
     obind (olift (campaign_round (goal_of su) lv r sel b c cr)) (\<lambda>lv'. end_round su lv'))))))))"

definition over :: "(run_files, dict) op \<Rightarrow> (run_files, round_end) op" where
  "over m = obind m (\<lambda>d. oreturn (Run_over d))"

text \<open>The local \<open>prescreen\<close> of the loop: what this round bound, else what an earlier round of the same
  process left bound.  A campaign that failed before its own screening is reported with the earlier
  one, and only the first such round of a process finds the name unbound.\<close>

definition bound_prescreen :: "loop_vars \<Rightarrow> prescreen_result option \<Rightarrow> prescreen_result option" where
  "bound_prescreen lv p = (case p of Some ps \<Rightarrow> Some ps | None \<Rightarrow> lv_prescreen lv)"

definition report_campaign ::
  "run_setup \<Rightarrow> loop_vars \<Rightarrow> int \<Rightarrow> task_selection \<Rightarrow> baseline_result \<Rightarrow> compiled \<Rightarrow> judged \<Rightarrow> (run_files, round_end) op" where
  "report_campaign su lv r sel b c j = (case j of
     Blocked e \<Rightarrow> over (block_integrity su (lv_state lv) r ''model-native-lineage'' e)
   | Judged q result vs infra \<Rightarrow>
       let p = bound_prescreen lv q in
       obind (on_round r (freeze_round ''CAMPAIGN-RESULT.json'' result)) (\<lambda>_.
       obind (oread (\<lambda>f. round_feedback (rx_dir (rf_round f r)) p result vs infra c)) (\<lambda>v. case v of
         Inl e \<Rightarrow> if is_contract_violation (exn_of e) then over (block_integrity su (lv_state lv) r ''campaign-feedback-lineage'' e) else olift (Inl e)
       | Inr fb \<Rightarrow>
           obind (olift (campaign_signature b fb)) (\<lambda>sig.
           case p of None \<Rightarrow> olift (raise UnboundLocalError ''prescreen'')
           | Some ps \<Rightarrow> finish_judged su lv r sel b c
               \<lparr>cr_status = get result ''campaign_status'', cr_claims = vs, cr_infra = (infra \<noteq> None), cr_feedback = fb,
                cr_signature = sig, cr_prescreen = ps\<rparr>))))"

section \<open>One round\<close>

definition screen_candidate ::
  "run_setup \<Rightarrow> round_world \<Rightarrow> loop_vars \<Rightarrow> int \<Rightarrow> task_selection \<Rightarrow> baseline_result \<Rightarrow> dict \<Rightarrow> compiled \<Rightarrow> (run_files, round_end) op" where
  "screen_candidate su w lv r sel b proposal c =
     obind (on_teacher (index_append (gc_goal_id (goal_of su) @ '':teacher-calls:v1'') (request_id su r) (teacher_row proposal c))) (\<lambda>_.
     obind (if cm_synthesized c = [] then oreturn () else on_round r (freeze_round ''ROUTER-REPAIR.json'' (router_repair r sel c))) (\<lambda>_.
     if \<not> set (ts_task_ids sel) \<subseteq> fst ` set (cm_routes c)
     then over (block_integrity su (lv_state lv) r ''candidate-compilation''
        (Err AutonomousEvolutionError ''compiled Teacher Router does not cover selected feedback tasks''))
     else
     obind (on_round r (copy_compiled c)) (\<lambda>_.
     obind (on_round r (judge_campaign su w sel c)) (\<lambda>j. report_campaign su lv r sel b c j))))"

definition propose_candidate ::
  "run_setup \<Rightarrow> round_world \<Rightarrow> loop_vars \<Rightarrow> int \<Rightarrow> task_selection \<Rightarrow> baseline_result \<Rightarrow> (run_files, round_end) op" where
  "propose_candidate su w lv r sel b =
     obind (on_round r (freeze_round ''FAILURE-PACKAGE.json'' (failure_package su lv r sel b))) (\<lambda>_.
     case rw_propose w (failure_package su lv r sel b) of
       Inl e \<Rightarrow> if exn_of e = BudgetExceeded then over (stop_run su ((lv_state lv)\<lparr>gs_status := BUDGET_EXHAUSTED\<rparr>))
         else if is_contract_violation (exn_of e) then over (block_integrity su (lv_state lv) r ''teacher-proposal'' e) else olift (Inl e)
     | Inr proposal \<Rightarrow> (case rw_compile w proposal sel (parent_of (lv_state lv)) of
         Inl e \<Rightarrow> if is_contract_violation (exn_of e) then over (block_integrity su (lv_state lv) r ''candidate-compilation'' e) else olift (Inl e)
       | Inr c \<Rightarrow> screen_candidate su w lv r sel b proposal c))"

definition play_round :: "run_setup \<Rightarrow> round_world \<Rightarrow> loop_vars \<Rightarrow> int \<Rightarrow> (run_files, round_end) op" where
  "play_round su w lv r =
     (if gc_disk_limit (goal_of su) \<le> rw_disk w then over (stop_run su ((lv_state lv)\<lparr>gs_status := DISK_LIMIT\<rparr>))
      else
      obind (olift (round_selection su lv r)) (\<lambda>sel.
      obind (on_round r (freeze_round ''TASK-SELECTION.json'' (selection_payload sel))) (\<lambda>_.
      obind (on_selections (index_append (gc_goal_id (goal_of su) @ '':task-selections:v1'') (ts_selection_id sel) (selection_payload sel))) (\<lambda>_.
      obind (olift (preflight_payload su w r sel)) (\<lambda>health.
      obind (on_round r (freeze_round ''PREFLIGHT-HEALTH.json'' health)) (\<lambda>_.
      obind (on_round r (run_baseline w sel (parent_of (lv_state lv)))) (\<lambda>b.
      if bl_failed b \<noteq> [] then finish_failed su lv r sel b else propose_candidate su w lv r sel b)))))))"

section \<open>The loop\<close>

text \<open>\<open>for current_round in range(next, max_rounds)\<close>, over the number of rounds left.\<close>

fun run_rounds :: "run_setup \<Rightarrow> (int \<Rightarrow> round_world) \<Rightarrow> loop_vars \<Rightarrow> int \<Rightarrow> nat \<Rightarrow> (run_files, dict) op" where
  "run_rounds su w lv r 0 = stop_run su ((lv_state lv)\<lparr>gs_status := MAX_ROUNDS_REACHED\<rparr>)"
| "run_rounds su w lv r (Suc n) = obind (play_round su (w r) lv r) (\<lambda>e. case e of
     Run_over d \<Rightarrow> oreturn d | Next_round lv' \<Rightarrow> run_rounds su w lv' (r + 1) n)"

section \<open>What a restart rebuilds\<close>

definition text_or_empty :: "json \<Rightarrow> string" where
  "text_or_empty j = (case j of JStr s \<Rightarrow> s | _ \<Rightarrow> [])"

definition round_selected :: "dict \<Rightarrow> string list res" where
  "round_selected sel = (case get sel ''selected_task_ids'' of
     JList xs \<Rightarrow> bind (auto_unless (list_all nonempty_text xs) ''round task selection is invalid'') (\<lambda>_. Inr (map py_str xs))
   | _ \<Rightarrow> raise AutonomousEvolutionError ''round task selection is invalid'')"

definition settled_feedback :: "dict \<Rightarrow> dict \<Rightarrow> dict res" where
  "settled_feedback payload rebuilt = (case get payload ''campaign_feedback'' of
     JNull \<Rightarrow> Inr rebuilt
   | j \<Rightarrow> bind (auto_unless (py_eq j (JObj rebuilt)) ''round campaign feedback disagrees with receipts'') (\<lambda>_.
       case j of JObj d \<Rightarrow> Inr d | _ \<Rightarrow> raise AutonomousEvolutionError ''round campaign feedback projection is invalid''))"

definition replay_round :: "round_files \<Rightarrow> dict \<Rightarrow> int \<Rightarrow> loop_vars \<Rightarrow> loop_vars res" where
  "replay_round x payload r lv =
     bind (auto_unless (py_eq (get payload ''round_index'') (JInt r)) ''round index sequence drift'') (\<lambda>_.
     bind (violation_unless (rx_sealed x) ''manifest is unreadable'') (\<lambda>_.
     bind (load_json_object (rx_dir x) ''AUTONOMOUS-ROUND-RESULT.json'') (\<lambda>result.
     bind (auto_unless (py_eq (JObj (if fmlookup payload ''campaign_feedback'' = None then fmdrop ''campaign_feedback'' result else result))
        (JObj payload)) ''round result disagrees with indexed checkpoint'') (\<lambda>_.
     bind (payload_items payload ''claims'') (\<lambda>prior.
     bind (load_json_object (rx_dir x) ''TASK-SELECTION.json'') (\<lambda>sel.
     bind (auto_unless (py_eq (get sel ''selection_id'') (get payload ''selection_id'')) ''round task selection identity drift'') (\<lambda>_.
     bind (round_selected sel) (\<lambda>ids.
     bind (rebuild_feedback (rx_dir x) (text_or_empty (get payload ''candidate_id'')) (text_or_empty (get payload ''candidate_revision_id''))
        (text_or_empty (get payload ''compiled_bundle_sha256''))) (\<lambda>rebuilt.
     bind (settled_feedback payload rebuilt) (\<lambda>fb.
     bind (accumulate_failures fb (lv_failure_counts lv)) (\<lambda>failures.
     let lv' = lv\<lparr>lv_prior_claims := prior, lv_historical := lv_historical lv @ prior, lv_prior_feedback := fb,
           lv_selection_counts := count_all ids (lv_selection_counts lv), lv_failure_counts := failures\<rparr>
     in if truthy (get payload ''accepted_as_best'')
        then bind (the_item payload ''fitness'' int_cast) (\<lambda>fit. Inr (lv'\<lparr>lv_best_fitness := Some fit, lv_best_payload := Some payload\<rparr>))
        else Inr (if truthy (get payload ''candidate_id'') then lv'\<lparr>lv_rejected := lv_rejected lv @ [py_str (get payload ''candidate_id'')]\<rparr>
                  else lv'))))))))))))"

fun replay_rounds :: "(int \<Rightarrow> round_files) \<Rightarrow> dict list \<Rightarrow> int \<Rightarrow> loop_vars \<Rightarrow> loop_vars res" where
  "replay_rounds files [] r lv = Inr lv"
| "replay_rounds files (p # ps) r lv = bind (replay_round (files r) p r lv) (\<lambda>lv'. replay_rounds files ps (r + 1) lv')"

definition row_payload :: "dict \<Rightarrow> dict res" where
  "row_payload row = bind (item row ''payload'') dict_value"

definition rebuild_rounds :: "run_setup \<Rightarrow> goal_state \<Rightarrow> (run_files, loop_vars) op" where
  "rebuild_rounds su st =
     obind (oread (\<lambda>f. index_rows (gc_goal_id (goal_of su) @ '':rounds:v1'') (rf_rounds f))) (\<lambda>v. obind (olift v) (\<lambda>rows.
     obind (olift (auto_unless (int (length rows) \<in> {gs_rounds_completed st, gs_rounds_completed st + 1})
       ''evolution state disagrees with the round index'')) (\<lambda>_.
     obind (olift (mapM row_payload rows)) (\<lambda>ps.
     obind (oread (\<lambda>f. replay_rounds (rf_round f) ps 0 (fresh_vars st))) (\<lambda>v. obind (olift v) (\<lambda>lv.
     if ps = [] then oreturn lv
     else obind (olift (recover_state (goal_of su) st ps)) (\<lambda>recovered.
       if int (length ps) = gs_rounds_completed st + 1
       then obind (on_state (goal_write recovered)) (\<lambda>_. oreturn (lv\<lparr>lv_state := recovered, lv_gained := set (gs_native_gain_task_ids recovered)\<rparr>))
       else obind (olift (validate_checkpoint st recovered)) (\<lambda>_. oreturn lv))))))))"

definition verify_best_projection :: "run_setup \<Rightarrow> best_dir \<Rightarrow> loop_vars \<Rightarrow> unit res" where
  "verify_best_projection su b lv = (let st = lv_state lv; mid = su_model_sha256 su in case lv_best_payload lv of
     None \<Rightarrow>
       bind (violation_unless (gs_best_candidate st = None) ''state names a best candidate without authority'') (\<lambda>_.
       bind (verify_best b mid None) (\<lambda>c. violation_unless (c = None) ''compiled BEST-HARNESS has no accepted round authority''))
   | Some p \<Rightarrow>
       bind (violation_unless (get p ''candidate_revision_id'' = opt_str (gs_best_candidate st)
          \<and> get p ''compiled_bundle_sha256'' = opt_str (gs_best_bundle st)) ''state and accepted best authority disagree'') (\<lambda>_.
       bind (verify_best b mid (Some p)) (\<lambda>_. Inr ())))"

definition terminal_result :: "(run_files, dict) op" where
  "terminal_result =
     obind (oread (\<lambda>f. fmlookup (rf_root f) ''EVOLUTION-RESULT.json'')) (\<lambda>v. case v of
       None \<Rightarrow> olift (raise AutonomousEvolutionError ''terminal state has no evolution result'')
     | Some j \<Rightarrow> obind (oread rf_sealed) (\<lambda>s. obind (olift (violation_unless s ''manifest is unreadable'')) (\<lambda>_.
         olift (case j of Some (JObj d) \<Rightarrow> Inr d | _ \<Rightarrow> raise ValueError ''Expecting value''))))"

definition start_run :: "run_setup \<Rightarrow> (run_files, loop_vars) op" where
  "start_run su =
     obind (olift (auto_unless (su_clean su) ''autonomous evolution requires a clean committed worktree'')) (\<lambda>_.
     obind (on_root (freeze_json ''GOAL.json'' (goal_document su))) (\<lambda>_.
     obind (oread (\<lambda>f. bd_harness (rf_best f) = None)) (\<lambda>none.
     obind (if none then on_best (export_empty (su_model_sha256 su)) else oreturn ()) (\<lambda>_.
     obind (on_state (goal_load (gc_goal_id (goal_of su)))) (\<lambda>st. rebuild_rounds su st)))))"

definition run :: "run_setup \<Rightarrow> (int \<Rightarrow> round_world) \<Rightarrow> (run_files, dict) op" where
  "run su w =
     obind (start_run su) (\<lambda>lv. obind (oread (\<lambda>f. verify_best_projection su (rf_best f) lv)) (\<lambda>v.
     (let st = lv_state lv in case v of
       Inl e \<Rightarrow> if is_contract_violation (exn_of e) then block_integrity su st (gs_next_round_index st) ''best-harness-projection'' e else olift (Inl e)
     | Inr u \<Rightarrow>
         if gs_status st \<noteq> GOAL_ACTIVE then terminal_result
         else run_rounds su w lv (gs_next_round_index st) (nat (gc_max_rounds (goal_of su) - gs_next_round_index st)))))"

end
