(* ===== verification/Round_Facts.thy ===== *)
theory Round_Facts
  imports Rounds
begin

text \<open>
  The payloads of the rounds and the state recovered from them.
\<close>

section \<open>Fields of the payloads\<close>

lemma failed_payload_get:
  "get (failed_payload r s b parent st cid failed reasons) ''accepted_as_best'' = JBool False"
  "get (failed_payload r s b parent st cid failed reasons) ''round_outcome'' = JStr ''neutral''"
  "get (failed_payload r s b parent st cid failed reasons) ''failure_signature_sha256'' = JStr (failed_signature failed reasons)"
  "fmlookup (failed_payload r s b parent st cid failed reasons) ''baseline_failed_task_ids'' = Some (str_list failed)"
  "get (failed_payload r s b parent st cid failed reasons) ''best_candidate_revision_id'' = opt_str (gs_best_candidate st)"
  "get (failed_payload r s b parent st cid failed reasons) ''best_bundle_sha256'' = opt_str (gs_best_bundle st)"
  "get (failed_payload r s b parent st cid failed reasons) ''round_index'' = JInt r"
  by (simp_all add: failed_payload_def get_def)

lemma campaign_payload_get:
  "get (settled_payload r s b parent c cr acc st) ''accepted_as_best'' = JBool acc"
  "get (settled_payload r s b parent c cr acc st) ''round_outcome'' = JStr (round_outcome (cr_claims cr) (cr_infra cr))"
  "get (settled_payload r s b parent c cr acc st) ''failure_signature_sha256'' = JStr (cr_signature cr)"
  "fmlookup (settled_payload r s b parent c cr acc st) ''baseline_failed_task_ids'' = None"
  "fmlookup (settled_payload r s b parent c cr acc st) ''claims'' = Some (JList (map claim_row (cr_claims cr)))"
  "get (settled_payload r s b parent c cr acc st) ''best_candidate_revision_id''
     = (if acc then JStr (cm_revision_id c) else opt_str (gs_best_candidate st))"
  "get (settled_payload r s b parent c cr acc st) ''best_bundle_sha256'' = (if acc then JStr (cm_bundle c) else opt_str (gs_best_bundle st))"
  "get (settled_payload r s b parent c cr acc st) ''round_index'' = JInt r"
  by (simp_all add: settled_payload_def get_def)

lemma claim_row_get: "claim_row v = JObj d \<Longrightarrow> get d ''classification'' = JStr (vc_classification v)
    \<and> fmlookup d ''task_id'' = Some (JStr (vc_task_id v))"
  by (auto simp: claim_row_def jobj_def get_def)

lemma claim_row_obj: "\<exists>d. claim_row v = JObj d"
  by (simp add: claim_row_def jobj_def)

section \<open>The tail rules\<close>

lemma mapM_snoc: "mapM f xs = Inr ys \<Longrightarrow> f x = Inr y \<Longrightarrow> mapM f (xs @ [x]) = Inr (ys @ [y])"
  by (induction xs arbitrary: ys) (auto simp: bind_eq_Inr)

lemma tail_no_progress_snoc:
  "tail_no_progress (ps @ [p]) = (if truthy (get p ''accepted_as_best'') then 0 else tail_no_progress ps + 1)"
  by (simp add: tail_no_progress_def)

lemma tail_same_failure_snoc: "signature_of p = Some s \<Longrightarrow>
    tail_same_failure (ps @ [p]) = (Some s, if fst (tail_same_failure ps) = Some s then snd (tail_same_failure ps) + 1 else 1)"
proof (cases "rev ps")
  case (Cons q qs)
  assume p: "signature_of p = Some s"
  show ?thesis
  proof (cases "signature_of q = Some s")
    case True
    with p Cons show ?thesis by (simp add: tail_same_failure_def)
  next
    case False
    then have "fst (tail_same_failure ps) \<noteq> Some s" by (cases "signature_of q") (simp_all add: tail_same_failure_def Cons)
    with False p Cons show ?thesis by (simp add: tail_same_failure_def)
  qed
qed (simp add: tail_same_failure_def)

lemma mapM_single: "(\<And>x. x \<in> set xs \<Longrightarrow> f x = Inr (g x)) \<Longrightarrow> mapM f xs = Inr (map g xs)"
  by (induction xs) auto

lemma gain_tasks_campaign: "gain_tasks (settled_payload r s b parent c cr acc st)
    = Inr (if acc then class_tasks ''gain'' (cr_claims cr) else [])"
proof -
  let ?f = "\<lambda>j. case j of JObj d \<Rightarrow> if get d ''classification'' = JStr ''gain'' then bind (item d ''task_id'') (\<lambda>t. Inr [py_str t]) else Inr []
       | _ \<Rightarrow> raise AttributeError ''object has no attribute get''"
  have f: "?f (claim_row v) = Inr (if vc_classification v = ''gain'' then [vc_task_id v] else [])" for v
    by (simp add: claim_row_def jobj_def get_def item_def)
  have "mapM ?f (map claim_row vs) = Inr (map (\<lambda>v. if vc_classification v = ''gain'' then [vc_task_id v] else []) vs)" for vs
    by (induction vs) (simp_all add: f)
  moreover have "concat (map (\<lambda>v. if vc_classification v = ''gain'' then [vc_task_id v] else []) vs) = class_tasks ''gain'' vs" for vs
    by (induction vs) (simp_all add: class_tasks_def)
  ultimately show ?thesis by (simp add: gain_tasks_def payload_items_def campaign_payload_get)
qed

lemma gain_tasks_failed: "gain_tasks (failed_payload r s b parent st cid failed reasons) = Inr []"
  by (simp add: gain_tasks_def failed_payload_get)

lemma failed_tasks_campaign: "failed_tasks (settled_payload r s b parent c cr acc st) = Inr []"
  by (simp add: failed_tasks_def payload_items_def campaign_payload_get)

lemma failed_tasks_failed: "failed_tasks (failed_payload r s b parent st cid failed reasons) = Inr failed"
  by (simp add: failed_tasks_def payload_items_def failed_payload_get str_list_def comp_def)

lemma payload_outcome_failed: "payload_outcome (failed_payload r s b parent st cid failed reasons) = Inr (JStr ''neutral'')"
  by (simp add: payload_outcome_def failed_payload_get)

lemma payload_outcome_campaign:
  "payload_outcome (settled_payload r s b parent c cr acc st) = Inr (JStr (round_outcome (cr_claims cr) (cr_infra cr)))"
  by (simp add: payload_outcome_def campaign_payload_get)

section \<open>The state agrees with the payloads\<close>

text \<open>What every history keeps, whatever the failed baselines were.\<close>

definition counters_agree :: "goal_config \<Rightarrow> dict list \<Rightarrow> loop_vars \<Rightarrow> bool" where
  "counters_agree g ps lv \<longleftrightarrow> (let st = lv_state lv in
     gs_schema_version st = 1 \<and> gs_goal_id st = gc_goal_id g \<and> gs_next_round_index st = int (length ps) \<and> gs_rounds_completed st = int (length ps)
     \<and> tail_no_progress ps = gs_no_progress_rounds st \<and> tail_same_failure ps = (gs_failure_signature st, gs_failure_signature_rounds st)
     \<and> 0 \<le> gs_consecutive_infra st \<and> finite (lv_gained lv) \<and> gs_native_gain_task_ids st = sorted_list_of_set (lv_gained lv)
     \<and> (\<exists>gains. mapM gain_tasks ps = Inr gains \<and> set (concat gains) = lv_gained lv)
     \<and> (ps \<noteq> [] \<longrightarrow> get (last ps) ''best_candidate_revision_id'' = opt_str (gs_best_candidate st)
          \<and> get (last ps) ''best_bundle_sha256'' = opt_str (gs_best_bundle st)
          \<and> gs_status st = (if gc_target g \<le> int (card (lv_gained lv)) then GOAL_REACHED else stop_status g st)))"

lemma stop_status_update [simp]: "stop_status g (st\<lparr>gs_status := x\<rparr>) = stop_status g st"
  by (simp add: stop_status_def)

lemma after_failed_fields [simp]:
  "gs_schema_version (after_failed_baseline g st gained r sig infra u) = 1"
  "gs_goal_id (after_failed_baseline g st gained r sig infra u) = gs_goal_id st"
  "gs_next_round_index (after_failed_baseline g st gained r sig infra u) = r + 1"
  "gs_rounds_completed (after_failed_baseline g st gained r sig infra u) = r + 1"
  "gs_no_progress_rounds (after_failed_baseline g st gained r sig infra u) = gs_no_progress_rounds st + 1"
  "gs_consecutive_infra (after_failed_baseline g st gained r sig infra u) = (if infra then gs_consecutive_infra st + 1 else 0)"
  "gs_native_gain_task_ids (after_failed_baseline g st gained r sig infra u) = sorted_list_of_set gained"
  "gs_best_candidate (after_failed_baseline g st gained r sig infra u) = gs_best_candidate st"
  "gs_best_bundle (after_failed_baseline g st gained r sig infra u) = gs_best_bundle st"
  "gs_failure_signature (after_failed_baseline g st gained r sig infra u) = Some sig"
  "gs_failure_signature_rounds (after_failed_baseline g st gained r sig infra u) = same_failure_count st sig"
  "gs_unresolvable (after_failed_baseline g st gained r sig infra u) = sorted_list_of_set (set (gs_unresolvable st) \<union> set u)"
  by (simp_all add: after_failed_baseline_def Let_def)

lemma after_failed_status: "gs_status (after_failed_baseline g st gained r sig infra u) = stop_status g (after_failed_baseline g st gained r sig infra u)"
  by (simp add: after_failed_baseline_def Let_def stop_status_def)

lemma after_campaign_fields [simp]:
  "gs_schema_version (after_campaign g st gained r sig infra a) = 1"
  "gs_goal_id (after_campaign g st gained r sig infra a) = gs_goal_id st"
  "gs_next_round_index (after_campaign g st gained r sig infra a) = r + 1"
  "gs_rounds_completed (after_campaign g st gained r sig infra a) = r + 1"
  "gs_no_progress_rounds (after_campaign g st gained r sig infra a) = (if a = None then gs_no_progress_rounds st + 1 else 0)"
  "gs_consecutive_infra (after_campaign g st gained r sig infra a) = (if infra then gs_consecutive_infra st + 1 else 0)"
  "gs_native_gain_task_ids (after_campaign g st gained r sig infra a) = sorted_list_of_set gained"
  "gs_best_candidate (after_campaign g st gained r sig infra a) = (case a of None \<Rightarrow> gs_best_candidate st | Some (rid, b) \<Rightarrow> Some rid)"
  "gs_best_bundle (after_campaign g st gained r sig infra a) = (case a of None \<Rightarrow> gs_best_bundle st | Some (rid, b) \<Rightarrow> Some b)"
  "gs_failure_signature (after_campaign g st gained r sig infra a) = Some sig"
  "gs_failure_signature_rounds (after_campaign g st gained r sig infra a) = same_failure_count st sig"
  "gs_unresolvable (after_campaign g st gained r sig infra a) = gs_unresolvable st"
  by (simp_all add: after_campaign_def Let_def)

lemma after_campaign_status: "gs_status (after_campaign g st gained r sig infra a)
    = (if gc_target g \<le> int (card gained) then GOAL_REACHED else stop_status g (after_campaign g st gained r sig infra a))"
  by (simp add: after_campaign_def Let_def stop_status_def)

lemma failed_roundD: "failed_round g lv r sel b = (p, lv') \<Longrightarrow>
    p = failed_payload r (ts_selection_id sel) b (parent_of (lv_state lv)) (lv_state lv) (failed_campaign_id (lv_state lv) r)
          (failed_instances (ts_tasks sel) b) (instance_reasons (ts_tasks sel) b)
    \<and> lv_state lv' = after_failed_baseline g (lv_state lv) (lv_gained lv) r
          (failed_signature (failed_instances (ts_tasks sel) b) (instance_reasons (ts_tasks sel) b)) (has_infra_reason b)
          (newly_unresolvable (ts_tasks sel) b)
    \<and> lv_gained lv' = lv_gained lv"
  by (auto simp: failed_round_def Let_def)

lemma campaign_roundD: "campaign_round g lv r sel b c cr = Inr lv' \<Longrightarrow>
    lv_gained lv' = (if campaign_accepted lv cr then lv_gained lv \<union> set (class_tasks ''gain'' (cr_claims cr)) else lv_gained lv)
    \<and> lv_state lv' = after_campaign g (lv_state lv) (lv_gained lv') r (cr_signature cr)
          (round_outcome (cr_claims cr) (cr_infra cr) = ''infra_failure'')
          (if campaign_accepted lv cr then Some (cm_revision_id c, cm_bundle c) else None)"
  by (auto simp: campaign_round_def Let_def bind_eq_Inr)

lemma signature_failed [simp]: "signature_of (failed_payload r s b parent st cid failed reasons) = Some (failed_signature failed reasons)"
  by (simp add: signature_of_def failed_payload_get)

lemma signature_campaign [simp]: "signature_of (settled_payload r s b parent c cr acc st) = Some (cr_signature cr)"
  by (simp add: signature_of_def campaign_payload_get)

lemma same_failure_count_eq: "tail_same_failure ps = (gs_failure_signature st, gs_failure_signature_rounds st) \<Longrightarrow> signature_of p = Some s
    \<Longrightarrow> tail_same_failure (ps @ [p]) = (Some s, same_failure_count st s)"
  by (simp add: tail_same_failure_snoc same_failure_count_def)

lemma below_target:
  assumes "counters_agree g ps lv" and "gs_status (lv_state lv) = GOAL_ACTIVE" and "1 \<le> gc_target g"
  shows "int (card (lv_gained lv)) < gc_target g"
proof (cases "ps = []")
  case True
  with assms(1) have "lv_gained lv = {}" by (auto simp: counters_agree_def Let_def)
  with assms(3) show ?thesis by simp
next
  case False
  with assms(1,2) show ?thesis by (auto simp: counters_agree_def Let_def split: if_splits)
qed

lemma counters_agree_failed:
  assumes "counters_agree g ps lv" and "gs_status (lv_state lv) = GOAL_ACTIVE" and "1 \<le> gc_target g"
    and "failed_round g lv (int (length ps)) sel b = (p, lv')"
  shows "counters_agree g (ps @ [p]) lv'"
proof -
  note below = below_target [OF assms(1-3)]
  obtain gains where "mapM gain_tasks ps = Inr gains" "set (concat gains) = lv_gained lv"
    using assms(1) by (auto simp: counters_agree_def Let_def)
  moreover from assms(4) have "gain_tasks p = Inr []" by (auto simp: failed_round_def Let_def gain_tasks_failed)
  ultimately have "\<exists>gains. mapM gain_tasks (ps @ [p]) = Inr gains \<and> set (concat gains) = lv_gained lv"
    by (intro exI [of _ "gains @ [[]]"]) (simp add: mapM_snoc)
  with assms(1) below failed_roundD [OF assms(4)] show ?thesis
    by (simp add: counters_agree_def Let_def tail_no_progress_snoc failed_payload_get same_failure_count_eq after_failed_status)
qed

lemma counters_agree_campaign:
  assumes "counters_agree g ps lv" and "campaign_round g lv (int (length ps)) sel b c cr = Inr lv'"
  shows "counters_agree g (ps @ [campaign_row lv (int (length ps)) sel b c cr]) lv'"
proof -
  let ?acc = "campaign_accepted lv cr" let ?p = "campaign_row lv (int (length ps)) sel b c cr"
  obtain gains where "mapM gain_tasks ps = Inr gains" "set (concat gains) = lv_gained lv"
    using assms(1) by (auto simp: counters_agree_def Let_def)
  moreover have "gain_tasks ?p = Inr (if ?acc then class_tasks ''gain'' (cr_claims cr) else [])"
    by (simp add: campaign_row_def gain_tasks_campaign)
  moreover note d = campaign_roundD [OF assms(2)]
  ultimately have "\<exists>gains. mapM gain_tasks (ps @ [?p]) = Inr gains \<and> set (concat gains) = lv_gained lv'"
    by (intro exI [of _ "gains @ [if ?acc then class_tasks ''gain'' (cr_claims cr) else []]"]) (simp add: mapM_snoc)
  with assms(1) d show ?thesis
    by (simp add: counters_agree_def Let_def tail_no_progress_snoc campaign_row_def campaign_payload_get same_failure_count_eq
        after_campaign_status)
qed

lemma rounds_counters:
  "rounds_played g P ps lv \<Longrightarrow> 1 \<le> gc_target g \<Longrightarrow> counters_agree g ps lv"
proof (induction rule: rounds_played.induct)
  case no_round
  then show ?case
    by (simp add: counters_agree_def fresh_vars_def initial_goal_def tail_no_progress_def tail_same_failure_def)
next
  case baseline_failed
  then show ?case using counters_agree_failed by blast
next
  case campaign_judged
  then show ?case using counters_agree_campaign by blast
qed

section \<open>Infrastructure failures and unresolvable tasks\<close>

lemma failed_tasks_total: "rounds_played g P ps lv \<Longrightarrow> \<exists>fails. mapM failed_tasks ps = Inr fails"
proof (induction rule: rounds_played.induct)
  case no_round
  then show ?case by simp
next
  case (baseline_failed ps lv sel b p lv')
  then have "failed_tasks p = Inr (failed_instances (ts_tasks sel) b)" by (auto dest!: failed_roundD simp: failed_tasks_failed)
  with baseline_failed.IH show ?case by (blast intro: mapM_snoc)
next
  case (campaign_judged ps lv sel b c cr lv')
  then obtain fails where "mapM failed_tasks ps = Inr fails" by blast
  then have "mapM failed_tasks (ps @ [campaign_row lv (int (length ps)) sel b c cr]) = Inr (fails @ [[]])"
    unfolding campaign_row_def by (rule mapM_snoc) (rule failed_tasks_campaign)
  then show ?case by blast
qed

text \<open>The baselines whose failed tasks all failed for a reason that is the student's.\<close>

definition student_failure :: "task_selection \<Rightarrow> baseline_result \<Rightarrow> bool" where
  "student_failure sel b \<longleftrightarrow> list_all (\<lambda>(t, r). r \<in> set unresolvable_reasons) (bl_reasons b) \<and> set (bl_failed b) = fst ` set (bl_reasons b)"

lemma student_failure_facts:
  assumes "student_failure sel b"
  shows "\<not> has_infra_reason b \<and> set (newly_unresolvable ts b) = set (failed_instances ts b)"
proof -
  from assms have a: "list_all (\<lambda>(t, r). r \<in> set unresolvable_reasons) (bl_reasons b)" and s: "set (bl_failed b) = fst ` set (bl_reasons b)"
    by (simp_all add: student_failure_def)
  from a have "filter (\<lambda>(t, r). r \<in> set unresolvable_reasons) (bl_reasons b) = bl_reasons b" by (simp add: list_all_iff filter_id_conv)
  with a s show ?thesis
    by (force simp: has_infra_reason_def newly_unresolvable_def failed_instances_def list_all_iff list_ex_iff)
qed

definition failures_agree :: "dict list \<Rightarrow> loop_vars \<Rightarrow> bool" where
  "failures_agree ps lv \<longleftrightarrow> tail_infra (rev ps) = Inr (gs_consecutive_infra (lv_state lv))
     \<and> (\<exists>fails. mapM failed_tasks ps = Inr fails \<and> gs_unresolvable (lv_state lv) = sorted_list_of_set (set (concat fails)))"

lemma rounds_failures: "rounds_played g student_failure ps lv \<Longrightarrow> failures_agree ps lv"
proof (induction rule: rounds_played.induct)
  case no_round
  then show ?case by (simp add: failures_agree_def fresh_vars_def initial_goal_def)
next
  case (baseline_failed ps lv sel b p lv')
  note d = failed_roundD [OF baseline_failed.hyps(5)] and st = student_failure_facts [OF baseline_failed.hyps(4), of "ts_tasks sel"]
  from baseline_failed.IH obtain fails where f: "mapM failed_tasks ps = Inr fails"
    "gs_unresolvable (lv_state lv) = sorted_list_of_set (set (concat fails))" by (auto simp: failures_agree_def)
  from d have "failed_tasks p = Inr (failed_instances (ts_tasks sel) b)" by (simp add: failed_tasks_failed)
  with f(1) have "mapM failed_tasks (ps @ [p]) = Inr (fails @ [failed_instances (ts_tasks sel) b])" by (rule mapM_snoc)
  with d st f(2) show ?case by (auto simp: failures_agree_def payload_outcome_failed Un_commute)
next
  case (campaign_judged ps lv sel b c cr lv')
  note d = campaign_roundD [OF campaign_judged.hyps(4)]
  from campaign_judged.IH obtain fails where f: "mapM failed_tasks ps = Inr fails"
    "gs_unresolvable (lv_state lv) = sorted_list_of_set (set (concat fails))" by (auto simp: failures_agree_def)
  from f(1) have "mapM failed_tasks (ps @ [campaign_row lv (int (length ps)) sel b c cr]) = Inr (fails @ [[]])"
    unfolding campaign_row_def by (rule mapM_snoc) (rule failed_tasks_campaign)
  with d f(2) campaign_judged.IH show ?case by (auto simp: failures_agree_def campaign_row_def payload_outcome_campaign)
qed

section \<open>Recovery\<close>

lemma recover_exact:
  assumes "rounds_played g student_failure ps lv" and "1 \<le> gc_target g" and "ps \<noteq> []"
    and "gs_schema_version st = 1" and "gs_goal_id st = gc_goal_id g"
  shows "recover_state g st ps = Inr ((lv_state lv)\<lparr>gs_status :=
     (if gs_status (lv_state lv) = GOAL_ACTIVE \<and> gc_max_rounds g \<le> int (length ps) then MAX_ROUNDS_REACHED else gs_status (lv_state lv))\<rparr>)"
proof -
  note c = rounds_counters [OF assms(1,2)] and f = rounds_failures [OF assms(1)]
  let ?s = "lv_state lv"
  obtain gains where gains: "mapM gain_tasks ps = Inr gains" "set (concat gains) = lv_gained lv"
    using c by (auto simp: counters_agree_def Let_def)
  obtain fails where fails: "mapM failed_tasks ps = Inr fails" "gs_unresolvable ?s = sorted_list_of_set (set (concat fails))"
    using f by (auto simp: failures_agree_def)
  have st: "gs_status ?s = (if gc_target g \<le> int (card (lv_gained lv)) then GOAL_REACHED else stop_status g ?s)"
    using c assms(3) by (simp add: counters_agree_def Let_def)
  let ?next = "?s\<lparr>gs_status := GOAL_ACTIVE\<rparr>"
  have "\<lparr>gs_schema_version = gs_schema_version st, gs_goal_id = gs_goal_id st, gs_status = GOAL_ACTIVE,
           gs_next_round_index = int (length ps), gs_rounds_completed = int (length ps), gs_no_progress_rounds = tail_no_progress ps,
           gs_consecutive_infra = gs_consecutive_infra ?s, gs_native_gain_task_ids = sorted_list_of_set (lv_gained lv),
           gs_best_candidate = gs_best_candidate ?s, gs_best_bundle = gs_best_bundle ?s, gs_failure_signature = fst (tail_same_failure ps),
           gs_failure_signature_rounds = snd (tail_same_failure ps), gs_unresolvable = sorted_list_of_set (set (concat fails))\<rparr> = ?next"
    using c assms(4,5) fails(2) by (intro goal_state.equality) (simp_all add: counters_agree_def Let_def)
  moreover have "opt_value (get (last ps) ''best_candidate_revision_id'') = Inr (gs_best_candidate ?s)"
    "opt_value (get (last ps) ''best_bundle_sha256'') = Inr (gs_best_bundle ?s)"
    using c assms(3) by (simp_all add: counters_agree_def Let_def)
  moreover have "tail_infra (rev ps) = Inr (gs_consecutive_infra ?s)" using f by (simp add: failures_agree_def)
  ultimately have "recover_state g st ps = Inr (?next\<lparr>gs_status := recovered_status g (length ps) (lv_gained lv) ?next\<rparr>)"
    unfolding recover_state_def Let_def gains fails(1) bind_Inr gains(2) by (simp only: bind_Inr)
  then show ?thesis using st by (simp add: recovered_status_def)
qed

lemma recover_infra_mismatch:
  assumes "rounds_played g P ps lv" and "1 \<le> gc_target g" and "gs_status (lv_state lv) = GOAL_ACTIVE"
    and "failed_round g lv (int (length ps)) sel b = (p, lv')" and "has_infra_reason b"
  shows "\<exists>r m. recover_state g (lv_state lv') (ps @ [p]) = Inr r \<and> validate_checkpoint (lv_state lv') r = Inl (Err AutonomousEvolutionError m)"
proof -
  note d = failed_roundD [OF assms(4)]
  have c: "counters_agree g (ps @ [p]) lv'" using counters_agree_failed [OF rounds_counters [OF assms(1,2)] assms(3,2,4)] .
  obtain gains where gains: "mapM gain_tasks (ps @ [p]) = Inr gains" using c by (auto simp: counters_agree_def Let_def)
  obtain fails where "mapM failed_tasks ps = Inr fails" using failed_tasks_total [OF assms(1)] by blast
  then have fails: "mapM failed_tasks (ps @ [p]) = Inr (fails @ [failed_instances (ts_tasks sel) b])"
    by (rule mapM_snoc) (simp add: d failed_tasks_failed)
  have infra: "tail_infra (rev (ps @ [p])) = Inr 0" by (simp add: d payload_outcome_failed)
  have best: "opt_value (get p ''best_candidate_revision_id'') = Inr (gs_best_candidate (lv_state lv))"
    "opt_value (get p ''best_bundle_sha256'') = Inr (gs_best_bundle (lv_state lv))" by (simp_all add: d failed_payload_get)
  obtain r where r: "recover_state g (lv_state lv') (ps @ [p]) = Inr r" "gs_consecutive_infra r = 0"
    using infra by (simp add: recover_state_def gains fails best Let_def)
  have "0 \<le> gs_consecutive_infra (lv_state lv)" using rounds_counters [OF assms(1,2)] by (simp add: counters_agree_def Let_def)
  then have "gs_consecutive_infra (lv_state lv') \<noteq> gs_consecutive_infra r" using d r(2) assms(5) by simp
  then have "(lv_state lv')\<lparr>gs_status := GOAL_ACTIVE\<rparr> \<noteq> r\<lparr>gs_status := GOAL_ACTIVE\<rparr>"
    by (metis goal_state.select_convs(7) goal_state.surjective goal_state.update_convs(3))
  with r show ?thesis by (auto simp: validate_checkpoint_def auto_unless_def)
qed

end
