(* ===== verification/Run_Facts.thy ===== *)
theory Run_Facts
  imports Run_Round Round_Facts
begin

text \<open>
  What a round leaves behind: a new row of the index and the state file, or a finished run.
\<close>

section \<open>Operations on parts\<close>

lemma ozoom_eq: "ozoom part put m s = (s', r) \<longleftrightarrow> (\<exists>t. m (part s) = (t, r) \<and> s' = put t s)"
  by (auto simp: ozoom_def split: prod.splits)

lemma obind_ozoom: "obind (ozoom part put m) k s = (case m (part s) of (t, Inl e) \<Rightarrow> (put t s, Inl e) | (t, Inr x) \<Rightarrow> k x (put t s))"
  by (auto simp: obind_def ozoom_def split: prod.splits sum.splits)

text \<open>The parts an operation leaves alone.\<close>

definition keeps :: "('s \<Rightarrow> 'p) \<Rightarrow> ('s, 'a) op \<Rightarrow> bool" where
  "keeps part m \<longleftrightarrow> (\<forall>s. part (fst (m s)) = part s)"

named_theorems keeps_rules \<open>what leaves a part alone\<close>

lemma keepsD: "keeps part m \<Longrightarrow> m s = (s', r) \<Longrightarrow> part s' = part s"
  by (metis fst_conv keeps_def)

lemma keeps_obind [keeps_rules]: "keeps part m \<Longrightarrow> (\<And>x. keeps part (k x)) \<Longrightarrow> keeps part (obind m k)"
  by (auto simp: keeps_def obind_def split: prod.splits sum.splits) (metis fst_conv)+

lemma keeps_basic [keeps_rules]: "keeps part (olift r)" "keeps part (oread g)" "keeps part (oreturn x)"
  by (simp_all add: keeps_def olift_def)

lemma keeps_if [keeps_rules]: "(b \<Longrightarrow> keeps part m) \<Longrightarrow> (\<not> b \<Longrightarrow> keeps part n) \<Longrightarrow> keeps part (if b then m else n)"
  by simp

lemma keeps_zoom: "(\<And>t s. part (put t s) = part s) \<Longrightarrow> keeps part (ozoom p put m)"
  by (simp add: keeps_def ozoom_def split: prod.splits)

lemma keeps_rounds [keeps_rules]:
  "keeps rf_rounds (on_round r m)" "keeps rf_rounds (on_best n)" "keeps rf_rounds (on_state p)" "keeps rf_rounds (on_root q)"
  "keeps rf_rounds (on_selections t)" "keeps rf_rounds (on_teacher t)"
  by (simp_all add: on_round_def on_best_def on_state_def on_root_def on_selections_def on_teacher_def keeps_zoom)

lemma keeps_state [keeps_rules]:
  "keeps rf_state (on_round r m)" "keeps rf_state (on_best n)" "keeps rf_state (on_rounds p)" "keeps rf_state (on_root q)"
  "keeps rf_state (on_selections t)" "keeps rf_state (on_teacher t)"
  by (simp_all add: on_round_def on_best_def on_rounds_def on_root_def on_selections_def on_teacher_def keeps_zoom)

lemma on_state_write: "obind (on_state (goal_write st)) k f = k () (f\<lparr>rf_state := Some (Some (JObj (goal_state_dict st)))\<rparr>)"
  by (simp add: on_state_def obind_ozoom goal_write_def)

section \<open>Appending to an index\<close>

lemma index_append_free: "index_append i eid payload f = (f', Inr b) \<Longrightarrow> eid \<noteq> [] \<and> \<not> ix_locked f"
  by (auto simp: index_append_def index_unless_def obind_olift index_writer_def raise_def split: if_splits sum.splits)

lemma index_append_new:
  assumes "index_rows i f = Inr rows" and "index_append i eid payload f = (f', Inr True)"
  shows "f' = with_row i rows eid payload f \<and> finite_json (JObj (index_event i rows eid payload))
    \<and> find (\<lambda>row. get row ''event_id'' = JStr eid) rows = None \<and> eid \<noteq> [] \<and> \<not> ix_locked f"
  using assms(2) index_append_free [OF assms(2)] index_append_run [OF assms(1)]
  by (auto simp: content_sha256_eq split: option.splits if_splits)

lemma index_append_old: "index_append i eid payload f = (f', Inr False) \<Longrightarrow> index_rows i f = Inr rows \<Longrightarrow> f' = f"
  using index_append_free [of i eid payload f f' False] index_append_run [of i f rows eid payload]
  by (auto simp: content_sha256_eq split: option.splits if_splits)

lemma index_append_row:
  assumes "index_rows i f = Inr rows" and "index_append i eid payload f = (f', Inr True)" and "index_rows i f' = Inr rows'"
  shows "rows' = rows @ [index_stored i rows eid payload]"
proof -
  note new = index_append_new [OF assms(1,2)]
  then have "index_rows i (with_row i rows eid payload f) = Inr rows'" using assms(3) by simp
  with new index_rows_with_row [OF assms(1), of eid payload] show ?thesis by (auto simp: raise_def split: if_splits)
qed

lemma index_stored_payload: "row_payload (index_stored i rows eid payload) = Inr payload"
  by (simp add: row_payload_def item_def index_stored_def index_event_def)

section \<open>Finished runs\<close>

definition finished :: "run_setup \<Rightarrow> int \<Rightarrow> run_files \<Rightarrow> dict \<Rightarrow> bool" where
  "finished su most f d \<longleftrightarrow> (\<exists>st. rf_state f = Some (Some (JObj (goal_state_dict st))) \<and> gs_status st \<noteq> GOAL_ACTIVE
     \<and> gs_rounds_completed st \<le> most \<and> d = result_document su (bd_harness (rf_best f) \<noteq> None) st
     \<and> fmlookup (rf_root f) ''EVOLUTION-RESULT.json'' = Some (Some (JObj d)) \<and> rf_sealed f)"

lemma write_result_finished:
  assumes "write_result su st f = (f', Inr d)" and "rf_state f = Some (Some (JObj (goal_state_dict st)))" and "gs_status st \<noteq> GOAL_ACTIVE"
    and "gs_rounds_completed st \<le> most"
  shows "finished su most f' d"
  using assms by (auto simp: write_result_def finished_def obind_olift split: sum.splits)

lemma stop_run_finished:
  assumes "stop_run su st f = (f', Inr d)" and "gs_status st \<noteq> GOAL_ACTIVE" and "gs_rounds_completed st \<le> most"
  shows "finished su most f' d"
  using assms by (auto simp: stop_run_def on_state_write intro: write_result_finished)

lemma block_finished:
  assumes "block_integrity su st r phase e f = (f', Inr d)" and "gs_rounds_completed st \<le> most"
  shows "finished su most f' d"
  using assms by (auto simp: block_integrity_def obind_eq_Inr intro: stop_run_finished)

lemma over_eq: "over m f = (f', Inr e) \<longleftrightarrow> (\<exists>d. m f = (f', Inr d) \<and> e = Run_over d)"
  by (auto simp: over_def obind_eq_Inr)

section \<open>The end of a round\<close>

definition continued :: "loop_vars \<Rightarrow> run_files \<Rightarrow> bool" where
  "continued lv f \<longleftrightarrow> rf_state f = Some (Some (JObj (goal_state_dict (lv_state lv)))) \<and> gs_status (lv_state lv) = GOAL_ACTIVE"

lemma end_round_cases:
  assumes "end_round su lv f = (f', Inr e)" and "gs_rounds_completed (lv_state lv) \<le> most"
  shows "(e = Next_round lv \<and> continued lv f' \<and> rf_rounds f' = rf_rounds f) \<or> (\<exists>d. e = Run_over d \<and> finished su most f' d \<and> rf_rounds f' = rf_rounds f
     \<and> rf_state f' = Some (Some (JObj (goal_state_dict (lv_state lv)))))"
proof (cases "gs_status (lv_state lv) = GOAL_ACTIVE")
  case True
  with assms show ?thesis by (auto simp: end_round_def on_state_write continued_def)
next
  case False
  with assms(1) obtain d where d: "write_result su (lv_state lv) (f\<lparr>rf_state := Some (Some (JObj (goal_state_dict (lv_state lv))))\<rparr>) = (f', Inr d)"
    "e = Run_over d" by (auto simp: end_round_def on_state_write obind_eq_Inr)
  then have "rf_rounds f' = rf_rounds f \<and> rf_state f' = Some (Some (JObj (goal_state_dict (lv_state lv))))"
    by (auto simp: write_result_def obind_olift split: sum.splits)
  with write_result_finished [OF d(1) _ False assms(2)] d(2) show ?thesis by simp
qed

text \<open>The index after a round: as it was, when the row was there, or with one row more.\<close>

definition round_indexed :: "run_setup \<Rightarrow> int \<Rightarrow> dict \<Rightarrow> index_log \<Rightarrow> index_log \<Rightarrow> bool" where
  "round_indexed su r row x x' \<longleftrightarrow> (\<exists>b. index_append (gc_goal_id (goal_of su) @ '':rounds:v1'') (round_event r) row x = (x', Inr b))"

lemma index_round_eq: "index_round su r row f = (f', Inr b) \<longleftrightarrow>
    (\<exists>x. index_append (gc_goal_id (goal_of su) @ '':rounds:v1'') (round_event r) row (rf_rounds f) = (x, Inr b) \<and> f' = f\<lparr>rf_rounds := x\<rparr>)"
  by (auto simp: index_round_def on_rounds_def ozoom_eq)

lemma finish_failed_cases:
  assumes "finish_failed su lv r sel b f = (f', Inr e)" and "failed_round (goal_of su) lv r sel b = (row, lv')"
  shows "round_indexed su r row (rf_rounds f) (rf_rounds f')
    \<and> rf_state f' = Some (Some (JObj (goal_state_dict (lv_state lv'))))
    \<and> (e = Next_round lv' \<and> continued lv' f' \<or> (\<exists>d. e = Run_over d \<and> finished su (r + 1) f' d))"
proof -
  obtain f1 f2 f3 f4 f5 u where steps:
    "on_round r (freeze_round ''BASELINE-RESULT.json'' (baseline_payload b)) f = (f1, Inr ())"
    "on_round r (freeze_round ''CAMPAIGN-RESULT.json'' (failed_result (failed_campaign_id (lv_state lv) r)
        (failed_instances (ts_tasks sel) b) (instance_reasons (ts_tasks sel) b))) f1 = (f2, Inr ())"
    "on_round r (freeze_round ''AUTONOMOUS-ROUND-RESULT.json'' row) f2 = (f3, Inr ())"
    "on_round r seal_round f3 = (f4, Inr ())" "index_round su r row f4 = (f5, Inr u)" "end_round su lv' f5 = (f', Inr e)"
    using assms by (auto simp: finish_failed_def Let_def obind_eq_Inr)
  have "rf_rounds f4 = rf_rounds f" using steps(1-4) keepsD [OF keeps_rounds(1)] by metis
  with steps(5) have i: "round_indexed su r row (rf_rounds f) (rf_rounds f5)" by (auto simp: index_round_eq round_indexed_def)
  have "gs_rounds_completed (lv_state lv') \<le> r + 1" using failed_roundD [OF assms(2)] by simp
  from end_round_cases [OF steps(6) this] i show ?thesis by (auto simp: continued_def)
qed

lemma finish_judged_cases:
  assumes "finish_judged su lv r sel b c cr f = (f', Inr e)"
  obtains lv' where "campaign_round (goal_of su) lv r sel b c cr = Inr lv'" "round_indexed su r (campaign_row lv r sel b c cr) (rf_rounds f) (rf_rounds f')"
    "rf_state f' = Some (Some (JObj (goal_state_dict (lv_state lv'))))"
    "e = Next_round lv' \<and> continued lv' f' \<or> (\<exists>d. e = Run_over d \<and> finished su (r + 1) f' d)"
proof -
  let ?row = "campaign_row lv r sel b c cr"
  obtain f1 f2 f3 f4 u lv' where steps:
    "(if campaign_accepted lv cr then obind (oread (\<lambda>f. rx_compiled (rf_round f r))) (\<lambda>k. on_best (export_best (su_model_sha256 su) k c (cr_claims cr)))
            else oreturn ()) f = (f1, Inr ())"
    "on_round r (freeze_round ''AUTONOMOUS-ROUND-RESULT.json'' ?row) f1 = (f2, Inr ())"
    "on_round r seal_round f2 = (f3, Inr ())" "index_round su r ?row f3 = (f4, Inr u)"
    "campaign_round (goal_of su) lv r sel b c cr = Inr lv'" "end_round su lv' f4 = (f', Inr e)"
    using assms by (auto simp: finish_judged_def Let_def obind_eq_Inr olift_eq_Inr)
  have k: "keeps rf_rounds (if campaign_accepted lv cr then obind (oread (\<lambda>f. rx_compiled (rf_round f r))) (\<lambda>k. on_best (export_best (su_model_sha256 su) k c (cr_claims cr)))
            else oreturn ())" by (intro keeps_rules)
  have "rf_rounds f3 = rf_rounds f" using keepsD [OF k steps(1)] steps(2,3) keepsD [OF keeps_rounds(1)] by metis
  with steps(4) have i: "round_indexed su r ?row (rf_rounds f) (rf_rounds f4)" by (auto simp: index_round_eq round_indexed_def)
  have "gs_rounds_completed (lv_state lv') \<le> r + 1" using campaign_roundD [OF steps(5)] by simp
  from end_round_cases [OF steps(6) this] i show ?thesis by (intro that [OF steps(5)]) (auto simp: continued_def)
qed


section \<open>One round\<close>

text \<open>How a round that is followed by another one came to its variables, and its row of the index.\<close>

definition went_on :: "run_setup \<Rightarrow> loop_vars \<Rightarrow> int \<Rightarrow> run_files \<Rightarrow> loop_vars \<Rightarrow> run_files \<Rightarrow> bool" where
  "went_on su lv r f lv' f' \<longleftrightarrow> continued lv' f' \<and> (\<exists>sel b.
     (\<exists>row. bl_failed b \<noteq> [] \<and> failed_round (goal_of su) lv r sel b = (row, lv') \<and> round_indexed su r row (rf_rounds f) (rf_rounds f'))
   \<or> (\<exists>c cr. campaign_round (goal_of su) lv r sel b c cr = Inr lv'
        \<and> round_indexed su r (campaign_row lv r sel b c cr) (rf_rounds f) (rf_rounds f')))"

definition round_ended :: "run_setup \<Rightarrow> loop_vars \<Rightarrow> int \<Rightarrow> run_files \<Rightarrow> round_end \<Rightarrow> run_files \<Rightarrow> bool" where
  "round_ended su lv r f e f' \<longleftrightarrow> (case e of Next_round lv' \<Rightarrow> went_on su lv r f lv' f' | Run_over d \<Rightarrow> finished su (r + 1) f' d)"

lemma round_ended_rounds: "round_ended su lv r f e f' \<Longrightarrow> rf_rounds f = rf_rounds f0 \<Longrightarrow> round_ended su lv r f0 e f'"
  by (auto simp: round_ended_def went_on_def split: round_end.splits)

lemma over_ended: "over m f = (f', Inr e) \<Longrightarrow> (\<And>d. m f = (f', Inr d) \<Longrightarrow> finished su (r + 1) f' d) \<Longrightarrow> round_ended su lv r f e f'"
  by (auto simp: over_eq round_ended_def)

lemma stop_ended: "over (stop_run su st) f = (f', Inr e) \<Longrightarrow> gs_status st \<noteq> GOAL_ACTIVE \<Longrightarrow> gs_rounds_completed st \<le> r \<Longrightarrow> round_ended su lv r f e f'"
  by (auto intro!: over_ended stop_run_finished)

lemma block_ended: "over (block_integrity su st q phase x) f = (f', Inr e) \<Longrightarrow> gs_rounds_completed st \<le> r \<Longrightarrow> round_ended su lv r f e f'"
  by (auto intro!: over_ended block_finished)

lemma went_on_failed: "bl_failed b \<noteq> [] \<Longrightarrow> failed_round (goal_of su) lv r sel b = (row, lv') \<Longrightarrow> continued lv' f'
    \<Longrightarrow> round_indexed su r row (rf_rounds f) (rf_rounds f') \<Longrightarrow> went_on su lv r f lv' f'"
  unfolding went_on_def by blast

lemma went_on_campaign: "campaign_round (goal_of su) lv r sel b c cr = Inr lv' \<Longrightarrow> continued lv' f'
    \<Longrightarrow> round_indexed su r (campaign_row lv r sel b c cr) (rf_rounds f) (rf_rounds f') \<Longrightarrow> went_on su lv r f lv' f'"
  unfolding went_on_def by blast

lemma finish_failed_ended:
  assumes "finish_failed su lv r sel b f = (f', Inr e)" and "bl_failed b \<noteq> []"
  shows "round_ended su lv r f e f'"
proof -
  obtain row lv' where row: "failed_round (goal_of su) lv r sel b = (row, lv')" by fastforce
  from finish_failed_cases [OF assms(1) row] show ?thesis
    using went_on_failed [OF assms(2) row] by (auto simp: round_ended_def)
qed

lemma finish_judged_ended:
  assumes "finish_judged su lv r sel b c cr f = (f', Inr e)"
  shows "round_ended su lv r f e f'"
  using assms by (rule finish_judged_cases) (auto simp: round_ended_def intro: went_on_campaign)

lemma report_campaign_ended:
  assumes "report_campaign su lv r sel b c j f = (f', Inr e)" and "gs_rounds_completed (lv_state lv) \<le> r"
  shows "round_ended su lv r f e f'"
proof (cases j)
  case (Blocked x)
  with assms show ?thesis by (auto simp: report_campaign_def intro: block_ended)
next
  case (Judged q result vs infra)
  obtain p where p: "bound_prescreen lv q = p" by simp
  from Judged assms(1) obtain f1 where f1: "on_round r (freeze_round ''CAMPAIGN-RESULT.json'' result) f = (f1, Inr ())"
    and rest: "(case round_feedback (rx_dir (rf_round f1 r)) p result vs infra c of
         Inl e \<Rightarrow> if is_contract_violation (exn_of e) then over (block_integrity su (lv_state lv) r ''campaign-feedback-lineage'' e) else olift (Inl e)
       | Inr fb \<Rightarrow> obind (olift (campaign_signature b fb)) (\<lambda>sig.
           case p of None \<Rightarrow> olift (raise UnboundLocalError ''prescreen'')
           | Some ps \<Rightarrow> finish_judged su lv r sel b c
               \<lparr>cr_status = get result ''campaign_status'', cr_claims = vs, cr_infra = (infra \<noteq> None), cr_feedback = fb,
                cr_signature = sig, cr_prescreen = ps\<rparr>)) f1 = (f', Inr e)"
    by (auto simp: report_campaign_def p Let_def obind_eq_Inr)
  have same: "rf_rounds f1 = rf_rounds f" using f1 keepsD [OF keeps_rounds(1)] by metis
  have "round_ended su lv r f1 e f'"
  proof (cases "round_feedback (rx_dir (rf_round f1 r)) p result vs infra c")
    case (Inl x)
    with rest assms(2) show ?thesis by (auto intro: block_ended split: if_splits)
  next
    case (Inr fb)
    with rest show ?thesis by (cases p) (auto simp: obind_eq_Inr olift_eq_Inr intro: finish_judged_ended)
  qed
  then show ?thesis using same by (rule round_ended_rounds)
qed

lemma screen_candidate_ended:
  assumes "screen_candidate su w lv r sel b q c f = (f', Inr e)" and "gs_rounds_completed (lv_state lv) \<le> r"
  shows "round_ended su lv r f e f'"
proof -
  obtain f1 f2 u where steps:
    "on_teacher (index_append (gc_goal_id (goal_of su) @ '':teacher-calls:v1'') (request_id su r) (teacher_row q c)) f = (f1, Inr u)"
    "(if cm_synthesized c = [] then oreturn () else on_round r (freeze_round ''ROUTER-REPAIR.json'' (router_repair r sel c))) f1 = (f2, Inr ())"
    and rest: "(if \<not> set (ts_task_ids sel) \<subseteq> fst ` set (cm_routes c)
      then over (block_integrity su (lv_state lv) r ''candidate-compilation''
        (Err AutonomousEvolutionError ''compiled Teacher Router does not cover selected feedback tasks''))
      else obind (on_round r (copy_compiled c)) (\<lambda>_. obind (on_round r (judge_campaign su w sel c)) (report_campaign su lv r sel b c))) f2 = (f', Inr e)"
    using assms(1) by (auto simp: screen_candidate_def obind_eq_Inr)
  have k: "keeps rf_rounds (if cm_synthesized c = [] then oreturn () else on_round r (freeze_round ''ROUTER-REPAIR.json'' (router_repair r sel c)))"
    by (intro keeps_rules)
  have same: "rf_rounds f2 = rf_rounds f" using keepsD [OF keeps_rounds(6) steps(1)] keepsD [OF k steps(2)] by simp
  have "round_ended su lv r f2 e f'"
  proof (cases "set (ts_task_ids sel) \<subseteq> fst ` set (cm_routes c)")
    case False
    with rest assms(2) show ?thesis by (auto intro: block_ended)
  next
    case True
    with rest obtain f3 f4 j where "on_round r (copy_compiled c) f2 = (f3, Inr ())" "on_round r (judge_campaign su w sel c) f3 = (f4, Inr j)"
      and e: "report_campaign su lv r sel b c j f4 = (f', Inr e)" by (auto simp: obind_eq_Inr)
    then have "rf_rounds f4 = rf_rounds f2" using keepsD [OF keeps_rounds(1)] by metis
    with report_campaign_ended [OF e assms(2)] show ?thesis by (rule round_ended_rounds)
  qed
  then show ?thesis using same by (rule round_ended_rounds)
qed

lemma propose_candidate_ended:
  assumes "propose_candidate su w lv r sel b f = (f', Inr e)" and "gs_rounds_completed (lv_state lv) \<le> r"
  shows "round_ended su lv r f e f'"
proof -
  let ?pkg = "failure_package su lv r sel b"
  obtain f1 where f1: "on_round r (freeze_round ''FAILURE-PACKAGE.json'' ?pkg) f = (f1, Inr ())"
    and rest: "(case rw_propose w ?pkg of
       Inl e \<Rightarrow> if exn_of e = BudgetExceeded then over (stop_run su ((lv_state lv)\<lparr>gs_status := BUDGET_EXHAUSTED\<rparr>))
         else if is_contract_violation (exn_of e) then over (block_integrity su (lv_state lv) r ''teacher-proposal'' e) else olift (Inl e)
     | Inr proposal \<Rightarrow> (case rw_compile w proposal sel (parent_of (lv_state lv)) of
         Inl e \<Rightarrow> if is_contract_violation (exn_of e) then over (block_integrity su (lv_state lv) r ''candidate-compilation'' e) else olift (Inl e)
       | Inr c \<Rightarrow> screen_candidate su w lv r sel b proposal c)) f1 = (f', Inr e)"
    using assms(1) by (auto simp: propose_candidate_def obind_eq_Inr)
  have same: "rf_rounds f1 = rf_rounds f" using f1 keepsD [OF keeps_rounds(1)] by metis
  have "round_ended su lv r f1 e f'"
  proof (cases "rw_propose w ?pkg")
    case (Inl x)
    with rest assms(2) show ?thesis by (auto intro: block_ended stop_ended split: if_splits)
  next
    case (Inr q)
    show ?thesis
    proof (cases "rw_compile w q sel (parent_of (lv_state lv))")
      case (Inl x)
      with Inr rest assms(2) show ?thesis by (auto intro: block_ended split: if_splits)
    next
      case c: (Inr c)
      with Inr rest assms(2) show ?thesis by (simp add: screen_candidate_ended)
    qed
  qed
  then show ?thesis using same by (rule round_ended_rounds)
qed

lemma play_round_ended:
  assumes "play_round su w lv r f = (f', Inr e)" and "gs_rounds_completed (lv_state lv) \<le> r"
  shows "round_ended su lv r f e f'"
proof (cases "gc_disk_limit (goal_of su) \<le> rw_disk w")
  case True
  with assms show ?thesis by (auto simp: play_round_def intro: stop_ended)
next
  case False
  with assms(1) obtain sel health f1 f2 f3 f4 b u where
    "on_round r (freeze_round ''TASK-SELECTION.json'' (selection_payload sel)) f = (f1, Inr ())"
    "on_selections (index_append (gc_goal_id (goal_of su) @ '':task-selections:v1'') (ts_selection_id sel) (selection_payload sel)) f1 = (f2, Inr u)"
    "on_round r (freeze_round ''PREFLIGHT-HEALTH.json'' health) f2 = (f3, Inr ())"
    "on_round r (run_baseline w sel (parent_of (lv_state lv))) f3 = (f4, Inr b)"
    and rest: "(if bl_failed b \<noteq> [] then finish_failed su lv r sel b else propose_candidate su w lv r sel b) f4 = (f', Inr e)"
    by (auto simp: play_round_def obind_eq_Inr olift_eq_Inr)
  then have same: "rf_rounds f4 = rf_rounds f" using keepsD [OF keeps_rounds(1)] keepsD [OF keeps_rounds(5)] by metis
  have "round_ended su lv r f4 e f'"
    using rest assms(2) by (cases "bl_failed b = []") (simp_all add: finish_failed_ended propose_candidate_ended)
  then show ?thesis using same by (rule round_ended_rounds)
qed

lemma went_on_counts: "went_on su lv r f lv' f' \<Longrightarrow> gs_rounds_completed (lv_state lv') = r + 1"
  by (auto simp: went_on_def dest: failed_roundD campaign_roundD)

lemma run_rounds_finished:
  "run_rounds su w lv r n f = (f', Inr d) \<Longrightarrow> gs_rounds_completed (lv_state lv) \<le> r \<Longrightarrow> finished su (r + int n) f' d"
proof (induction n arbitrary: lv r f)
  case 0
  then show ?case by (auto intro: stop_run_finished)
next
  case (Suc n)
  from Suc.prems(1) obtain f1 e where e: "play_round su (w r) lv r f = (f1, Inr e)"
    and rest: "(case e of Run_over d \<Rightarrow> oreturn d | Next_round lv' \<Rightarrow> run_rounds su w lv' (r + 1) n) f1 = (f', Inr d)"
    by (auto simp: obind_eq_Inr)
  note ended = play_round_ended [OF e Suc.prems(2)]
  show ?case
  proof (cases e)
    case (Run_over d')
    with rest ended have "finished su (r + 1) f' d" by (auto simp: round_ended_def)
    then show ?thesis by (auto simp: finished_def)
  next
    case (Next_round lv')
    with rest ended Suc.IH [of lv' "r + 1" f1] went_on_counts show ?thesis by (fastforce simp: round_ended_def algebra_simps)
  qed
qed

end
