(* ===== verification/Selector_Claims.thy ===== *)
theory Selector_Claims
  imports Task_Selector
begin

text \<open>
  What the task selector promises: when a selection succeeds and what it selects.
\<close>

section \<open>The choice from a ranked list\<close>

lemma fill_selection_facts:
  "distinct sel \<Longrightarrow> length sel \<le> n \<Longrightarrow>
     (\<exists>zs. fill_selection n sel ts = sel @ zs) \<and> distinct (fill_selection n sel ts)
     \<and> set (fill_selection n sel ts) \<subseteq> set sel \<union> set ts
     \<and> length (fill_selection n sel ts) = min n (card (set sel \<union> set ts))"
proof (induction ts arbitrary: sel)
  case Nil
  then show ?case by (simp add: distinct_card)
next
  case (Cons t ts)
  show ?case
  proof (cases "length sel = n")
    case True
    have "n \<le> card (set sel \<union> set (t # ts))"
      using True distinct_card [OF Cons.prems(1)] card_mono [OF _ Un_upper1 [of "set sel" "set (t # ts)"]]
      by (simp del: Un_insert_right)
    with True Cons.prems show ?thesis by (simp add: subset_insertI2)
  next
    case False
    show ?thesis
    proof (cases "t \<in> set sel")
      case True
      then have "set sel \<union> set (t # ts) = set sel \<union> set ts" by auto
      with Cons.IH [OF Cons.prems] False True show ?thesis by auto
    next
      case out: False
      have "distinct (sel @ [t])" "length (sel @ [t]) \<le> n" using Cons.prems False out by auto
      from Cons.IH [OF this] False out show ?thesis by auto
    qed
  qed
qed

lemma diverse_start_facts:
  assumes "ts \<noteq> []"
  shows "distinct (diverse_start ts) \<and> set (diverse_start ts) \<subseteq> set ts \<and> length (diverse_start ts) \<le> 2
     \<and> hd (diverse_start ts) = hd ts \<and> diverse_start ts \<noteq> []
     \<and> (1 < card (project_of ` set ts) \<longrightarrow> 1 < card (project_of ` set (diverse_start ts)))"
proof -
  from assms obtain t us where ts: "ts = t # us" by (cases ts) auto
  show ?thesis
  proof (cases "find (\<lambda>u. project_of u \<noteq> project_of t) us")
    case None
    then have "project_of ` set ts \<subseteq> {project_of t}" by (auto simp: ts find_None_iff)
    then have "card (project_of ` set ts) \<le> 1" using card_mono [of "{project_of t}"] by fastforce
    with None show ?thesis by (simp add: ts)
  next
    case (Some u)
    then have "u \<in> set us" "project_of u \<noteq> project_of t" by (auto dest: find_SomeD)
    with Some show ?thesis by (auto simp: ts)
  qed
qed

lemma chosen_facts:
  assumes "0 < n" and "n \<le> length ranked" and "distinct ranked"
  shows "distinct (chosen n ranked) \<and> set (chosen n ranked) \<subseteq> set ranked \<and> length (chosen n ranked) = n
     \<and> hd (chosen n ranked) = hd ranked
     \<and> (1 < n \<and> 1 < card (project_of ` set ranked) \<longrightarrow> 1 < card (project_of ` set (chosen n ranked)))"
proof -
  define start where "start = (if 1 < n then diverse_start ranked else [])"
  have ne: "ranked \<noteq> []" using assms by auto
  note d = diverse_start_facts [OF ne]
  have s: "distinct start" "length start \<le> n" "set start \<subseteq> set ranked" using d by (auto simp: start_def)
  note f = fill_selection_facts [OF s(1,2), of ranked]
  obtain zs where zs: "chosen n ranked = start @ zs" using f by (auto simp: chosen_def start_def)
  have "set start \<union> set ranked = set ranked" using s(3) by auto
  with f assms(2,3) have l: "length (chosen n ranked) = n" by (simp add: chosen_def start_def distinct_card)
  have "hd (chosen n ranked) = hd ranked"
  proof (cases "1 < n")
    case True
    with d zs show ?thesis by (simp add: start_def)
  next
    case False
    then have "n = 1" using assms by simp
    moreover obtain t ts where "ranked = t # ts" using ne by (cases ranked) auto
    ultimately show ?thesis by (cases ts) (simp_all add: chosen_def)
  qed
  moreover have "1 < card (project_of ` set (chosen n ranked))" if "1 < n" "1 < card (project_of ` set ranked)"
  proof -
    have "1 < card (project_of ` set start)" using d that by (simp add: start_def)
    also have "\<dots> \<le> card (project_of ` set (chosen n ranked))" using zs by (intro card_mono) auto
    finally show ?thesis .
  qed
  ultimately show ?thesis using f l s(3) by (auto simp: chosen_def start_def)
qed

section \<open>Contexts and pools\<close>

definition context_wf :: "selection_context \<Rightarrow> bool" where
  "context_wf c \<longleftrightarrow> list_all (\<lambda>d. finite_json (JObj d)) (sc_claims c)"

lemma mk_context_wf: "mk_context c0 = Inr c \<Longrightarrow> context_wf c"
  by (auto simp: mk_context_def context_wf_def bind_eq_Inr all_checks_eq_Inr check_history_def rewrap_eq_Inr canonical_json_def
      list_all_iff require_eq_Inr split: if_splits)

lemma context_payload_finite: "context_wf c \<Longrightarrow>
    finite_json (JObj (fmap_of_list ([(''schema_version'', JInt 1), (''mode'', JStr ''stateful-v1'')] @ context_payload c)))"
  by (rule finite_fields, cases "sc_best_revision c") (auto simp: context_payload_def context_wf_def str_list_def counts_json_def
      list_all_iff finite_JObj fmlookup_map)

lemma normalize_tasks_ids: "normalize_tasks inside acc rows = Inr ts \<Longrightarrow> distinct (map (\<lambda>t. get t ''instance_id'') acc)
    \<Longrightarrow> list_all (\<lambda>t. is_str (get t ''instance_id'')) acc
    \<Longrightarrow> distinct (map (\<lambda>t. get t ''instance_id'') ts) \<and> list_all (\<lambda>t. is_str (get t ''instance_id'')) ts"
proof (induction rows arbitrary: acc)
  case Nil
  then show ?case by simp
next
  case (Cons r rs)
  then obtain t where t: "normalize_task inside ((\<lambda>t. get t ''instance_id'') ` set acc) r = Inr t"
    and r: "normalize_tasks inside (acc @ [t]) rs = Inr ts" by (auto simp: bind_eq_Inr)
  have "get t ''instance_id'' \<notin> (\<lambda>t. get t ''instance_id'') ` set acc \<and> is_str (get t ''instance_id'')"
    using t by (cases r) (auto simp: normalize_task_def bind_eq_Inr auto_unless_def require_eq_Inr get_def is_str_iff
        elim!: nonempty_text.elims)
  with Cons.IH [OF r] Cons.prems(2,3) show ?case by auto
qed

lemma selector_new_ids:
  assumes "selector_new inside file = Inr sl"
  shows "distinct (map task_id_of (sl_tasks sl)) \<and> distinct (sl_tasks sl)"
proof -
  from assms obtain j a b where "file = Some j" "pool_rows j = Inr (a, b)"
    by (cases "file") (auto simp: selector_new_def bind_eq_Inr)
  with assms obtain rs where "normalize_tasks inside [] rs = Inr (sl_tasks sl)"
    by (cases a) (auto simp: selector_new_def bind_eq_Inr)
  then have d: "distinct (map (\<lambda>t. get t ''instance_id'') (sl_tasks sl))" and s: "list_all (\<lambda>t. is_str (get t ''instance_id'')) (sl_tasks sl)"
    using normalize_tasks_ids by fastforce+
  have str: "\<exists>u. x = JStr u" if "x \<in> (\<lambda>t. get t ''instance_id'') ` set (sl_tasks sl)" for x
    using s that by (auto simp: list_all_iff is_str_iff)
  have "inj_on py_str ((\<lambda>t. get t ''instance_id'') ` set (sl_tasks sl))"
    by (rule inj_onI) (metis str py_str.simps(1))
  with d have "distinct (map py_str (map (\<lambda>t. get t ''instance_id'') (sl_tasks sl)))" by (simp add: distinct_map comp_inj_on)
  then have "distinct (map task_id_of (sl_tasks sl))" by (simp add: task_id_of_def [abs_def] comp_def)
  then show ?thesis by (simp add: distinct_map)
qed


section \<open>Selections\<close>

lemma selection_of_Inr: "selection_of sl rix n ranked ctx reasons = Inr s \<longleftrightarrow>
    n \<le> length ranked \<and> length (chosen n ranked) = n \<and> (1 < n \<longrightarrow> 2 \<le> card (project_of ` set (chosen n ranked)))
    \<and> finite_json (JObj ctx)
    \<and> s = \<lparr>ts_selection_id = ''selection-'' @ take 24 (digest (jobj
             [(''round_index'', JInt rix), (''task_pool_sha256'', JStr (sl_pool_sha256 sl)),
              (''selected_task_ids'', str_list (map task_id_of (chosen n ranked))),
              (''ranked_selectable_task_ids'', str_list (map task_id_of ranked)), (''selection_context_sha256'', JStr (digest (JObj ctx)))])),
           ts_round_index = rix, ts_context_sha256 = digest (JObj ctx), ts_context = ctx, ts_task_ids = map task_id_of (chosen n ranked),
           ts_projects = sorted_list_of_set (project_of ` set (chosen n ranked)), ts_reason = reasons,
           ts_excluded = map task_id_of (filter (\<lambda>t. t \<notin> set (chosen n ranked)) (sl_tasks sl)), ts_tasks = chosen n ranked\<rparr>"
  by (auto simp: selection_of_def Let_def bind_eq_Inr auto_unless_def require_eq_Inr content_sha256_eq_Inr)

definition selection_possible :: "selector \<Rightarrow> int \<Rightarrow> int \<Rightarrow> selection_context \<Rightarrow> bool" where
  "selection_possible sl rix n c \<longleftrightarrow> 0 \<le> rix \<and> 0 < n \<and> n \<le> int (length (filter (selectable c) (sl_tasks sl)))
     \<and> (1 < n \<longrightarrow> (\<exists>t \<in> set (sl_tasks sl). \<exists>u \<in> set (sl_tasks sl). selectable c t \<and> selectable c u \<and> project_of t \<noteq> project_of u))"

text \<open>What a selection keeps: \<open>n\<close> different tasks of the pool, none excluded or at its repeat cap, of two projects,
  the best ranked of them first.\<close>

definition selection_sound :: "selector \<Rightarrow> int \<Rightarrow> selection_context \<Rightarrow> task_selection \<Rightarrow> bool" where
  "selection_sound sl n c s \<longleftrightarrow> int (length (ts_tasks s)) = n \<and> distinct (ts_task_ids s)
     \<and> ts_task_ids s = map task_id_of (ts_tasks s) \<and> set (ts_tasks s) \<subseteq> {t \<in> set (sl_tasks sl). selectable c t}
     \<and> (1 < n \<longrightarrow> 2 \<le> length (ts_projects s)) \<and> set (ts_projects s) = project_of ` set (ts_tasks s)
     \<and> (\<forall>t \<in> set (sl_tasks sl). selectable c t \<longrightarrow> context_key c (hd (ts_tasks s)) \<le> context_key c t)"

lemma ranked_context_facts:
  assumes "distinct (sl_tasks sl)"
  shows "distinct (ranked_context c (sl_tasks sl)) \<and> set (ranked_context c (sl_tasks sl)) = {t \<in> set (sl_tasks sl). selectable c t}
     \<and> length (ranked_context c (sl_tasks sl)) = length (filter (selectable c) (sl_tasks sl))
     \<and> (ranked_context c (sl_tasks sl) \<noteq> [] \<longrightarrow> (\<forall>t \<in> set (sl_tasks sl). selectable c t \<longrightarrow>
          context_key c (hd (ranked_context c (sl_tasks sl))) \<le> context_key c t))"
proof -
  have s: "sorted (map (context_key c) (ranked_context c (sl_tasks sl)))" by (simp add: ranked_context_def)
  have m: "set (ranked_context c (sl_tasks sl)) = {t \<in> set (sl_tasks sl). selectable c t}" by (auto simp: ranked_context_def)
  have "context_key c (hd ts) \<le> context_key c t" if "sorted (map (context_key c) ts)" "t \<in> set ts" for t ts
    using that by (cases ts) auto
  with s m have "\<forall>t \<in> set (sl_tasks sl). selectable c t \<longrightarrow> context_key c (hd (ranked_context c (sl_tasks sl))) \<le> context_key c t"
    by blast
  with m assms show ?thesis by (simp add: ranked_context_def)
qed

lemma two_values: "finite A \<Longrightarrow> 1 < card A \<longleftrightarrow> (\<exists>x \<in> A. \<exists>y \<in> A. x \<noteq> y)"
  using card_le_Suc0_iff_eq [of A] by (auto simp: not_le [symmetric])

text \<open>C20: From a loaded pool and a checked context, a selection of n tasks succeeds exactly when n tasks are below the
  repeat cap and not excluded and, for more than one, two of these belong to different projects; it then consists of n
  different tasks of the pool that are below the cap and not excluded, covers two projects and starts with the best
  ranked selectable task.\<close>

theorem selection_exact:
  assumes "selector_new inside file = Inr sl" and "mk_context c0 = Inr c"
  shows "((\<exists>s. select_tasks sl rix n None (Some c) = Inr s) \<longleftrightarrow> selection_possible sl rix n c)
    \<and> (\<forall>s. select_tasks sl rix n None (Some c) = Inr s \<longrightarrow> selection_sound sl n c s)"
proof -
  let ?ctx = "fmap_of_list ([(''schema_version'', JInt 1), (''mode'', JStr ''stateful-v1'')] @ context_payload c)"
  define ranked where "ranked = ranked_context c (sl_tasks sl)"
  note ids = selector_new_ids [OF assms(1)]
  have r: "distinct ranked" "set ranked = {t \<in> set (sl_tasks sl). selectable c t}"
    "length ranked = length (filter (selectable c) (sl_tasks sl))"
    "ranked \<noteq> [] \<longrightarrow> (\<forall>t \<in> set (sl_tasks sl). selectable c t \<longrightarrow> context_key c (hd ranked) \<le> context_key c t)"
    using ranked_context_facts [of sl c] ids by (simp_all add: ranked_def)
  have fin: "finite_json (JObj ?ctx)" using mk_context_wf [OF assms(2)] by (rule context_payload_finite)
  have sel: "select_tasks sl rix n None (Some c) = Inr s \<longleftrightarrow> 0 \<le> rix \<and> 0 < n \<and> n \<le> int (length (sl_tasks sl))
      \<and> selection_of sl rix (nat n) ranked ?ctx (context_reasons c) = Inr s" for s
    by (auto simp: select_tasks_def bind_eq_Inr auto_unless_def require_eq_Inr ranked_def)
  have two: "1 < card (project_of ` set ranked) \<longleftrightarrow> (\<exists>t \<in> set (sl_tasks sl). \<exists>u \<in> set (sl_tasks sl).
      selectable c t \<and> selectable c u \<and> project_of t \<noteq> project_of u)"
    by (subst two_values) (auto simp: r(2))
  have sound: "selection_sound sl n c s" if s: "select_tasks sl rix n None (Some c) = Inr s" for s
  proof -
    have n: "0 < n" "nat n \<le> length ranked" "2 \<le> card (project_of ` set (chosen (nat n) ranked)) \<or> \<not> 1 < n"
      and fields: "ts_tasks s = chosen (nat n) ranked" "ts_task_ids s = map task_id_of (chosen (nat n) ranked)"
        "ts_projects s = sorted_list_of_set (project_of ` set (chosen (nat n) ranked))"
      using s by (auto simp: sel selection_of_Inr)
    have f: "distinct (chosen (nat n) ranked)" "set (chosen (nat n) ranked) \<subseteq> set ranked" "length (chosen (nat n) ranked) = nat n"
      "hd (chosen (nat n) ranked) = hd ranked"
      using chosen_facts [of "nat n" ranked] n r(1) by auto
    have "inj_on task_id_of (set (sl_tasks sl))" using ids by (simp add: distinct_map)
    then have "distinct (map task_id_of (chosen (nat n) ranked))"
      using f(1,2) r(2) by (auto simp: distinct_map inj_on_def subset_iff)
    moreover have "ranked \<noteq> []" using n by auto
    ultimately show ?thesis using n f r(2,4) by (auto simp: selection_sound_def fields)
  qed
  have "(\<exists>s. select_tasks sl rix n None (Some c) = Inr s) \<longleftrightarrow> selection_possible sl rix n c"
  proof
    assume "\<exists>s. select_tasks sl rix n None (Some c) = Inr s"
    then obtain s where s: "select_tasks sl rix n None (Some c) = Inr s" by blast
    then have b: "0 \<le> rix" "0 < n" "nat n \<le> length ranked" "1 < n \<Longrightarrow> 2 \<le> card (project_of ` set (chosen (nat n) ranked))"
      by (auto simp: sel selection_of_Inr)
    have "1 < card (project_of ` set ranked)" if "1 < n"
    proof -
      have "card (project_of ` set (chosen (nat n) ranked)) \<le> card (project_of ` set ranked)"
        using chosen_facts [of "nat n" ranked] b r(1) by (intro card_mono) auto
      with b(4) [OF that] show ?thesis by simp
    qed
    with b r(3) two show "selection_possible sl rix n c" by (auto simp: selection_possible_def)
  next
    assume p: "selection_possible sl rix n c"
    then have b: "0 \<le> rix" "0 < n" "nat n \<le> length ranked" "1 < n \<Longrightarrow> 1 < card (project_of ` set ranked)"
      using r(3) two by (auto simp: selection_possible_def)
    have "n \<le> int (length (sl_tasks sl))" using b(3) r(3) length_filter_le [of "selectable c" "sl_tasks sl"] by linarith
    with b fin chosen_facts [of "nat n" ranked] r(1) show "\<exists>s. select_tasks sl rix n None (Some c) = Inr s"
      by (auto simp: sel selection_of_Inr)
  qed
  with sound show ?thesis by blast
qed


definition demo_row :: "string \<times> string \<Rightarrow> dict" where
  "demo_row x = fmap_of_list [(''instance_id'', JStr (fst x)), (''project'', JStr (snd x)), (''cohort'', JStr ''feedback'')]"

definition demo_task :: "string \<times> string \<Rightarrow> dict" where
  "demo_task x = fmupd ''task_fingerprint_sha256'' (JStr (digest (JObj (demo_row x)))) (demo_row x)"

definition demo_names :: "(string \<times> string) list" where
  "demo_names = [(''t1'', ''a''), (''t2'', ''a''), (''t3'', ''b'')]"

definition demo_selector :: selector where
  "demo_selector = \<lparr>sl_tasks = map demo_task demo_names, sl_pool_sha256 = digest (JList (map (JObj \<circ> demo_task) demo_names)),
     sl_runtime = fmempty\<rparr>"

definition demo_context :: selection_context where
  "demo_context = \<lparr>sc_claims = [], sc_best_revision = None, sc_supported = [], sc_failure_counts = fmempty, sc_goal_gap = 1,
     sc_selection_counts = fmap_of_list [(''t1'', 1)], sc_repeat_cap = 1, sc_excluded = []\<rparr>"

lemma demo_pool_clean: "list_all (\<lambda>x. \<not> mentions_forbidden (json_text (JObj (demo_row x)))) demo_names"
  by code_simp

lemma demo_fields: "get (demo_row x) ''instance_id'' = JStr (fst x)" "get (demo_row x) ''project'' = JStr (snd x)"
  "get (demo_row x) ''cohort'' = JStr ''feedback''" "fmlookup (demo_row x) ''estimated_cost'' = None"
  "get (demo_task x) ''instance_id'' = JStr (fst x)" "get (demo_task x) ''project'' = JStr (snd x)"
  "finite_json (JObj (demo_row x))" "finite_json (JObj (demo_task x))"
  by (auto simp: demo_task_def demo_row_def get_def finite_JObj split: if_splits)

lemma demo_normalize: "\<not> mentions_forbidden (json_text (JObj (demo_row x))) \<Longrightarrow> fst x \<noteq> [] \<Longrightarrow> snd x \<noteq> [] \<Longrightarrow> JStr (fst x) \<notin> seen
    \<Longrightarrow> normalize_task None seen (JObj (demo_row x)) = Inr (demo_task x)"
  by (simp add: normalize_task_def check_cost_def demo_fields canonical_json_def auto_unless_def check_source_def demo_task_def
      float_of_int_def)

lemma demo_selector_new: "selector_new None (Some (JList (map (JObj \<circ> demo_row) demo_names))) = Inr demo_selector"
  using demo_pool_clean
  by (simp add: selector_new_def pool_rows_def auto_unless_def demo_names_def demo_normalize demo_fields content_sha256_eq_Inr
     bind_eq_Inr demo_selector_def)

lemma demo_context_new: "mk_context demo_context = Inr demo_context"
  by code_simp


theorem selection_exact_witness:
  "(\<exists>s. select_tasks demo_selector 0 2 None (Some demo_context) = Inr s)
   \<and> \<not> (\<exists>s. select_tasks demo_selector 0 3 None (Some demo_context) = Inr s)"
proof -
  have t: "task_id_of (demo_task x) = fst x" "project_of (demo_task x) = snd x" for x
    by (simp_all add: task_id_of_def project_of_def demo_fields)
  have sel: "selectable demo_context (demo_task x) \<longleftrightarrow> fst x \<noteq> ''t1''" for x
    by (simp add: selectable_def count_in_def t demo_context_def)
  show ?thesis
    unfolding selection_exact [OF demo_selector_new demo_context_new, THEN conjunct1] selection_possible_def
    by (simp add: demo_selector_def demo_names_def sel t)
qed

end
