(* ===== verification/Run_Claims.thy ===== *)
theory Run_Claims
  imports Run_Facts Selector_Claims
begin

text \<open>
  The properties of the run: it ends, its best harness only advances, and what a restart makes of
  the rounds it recorded.
\<close>

section \<open>The loop ends\<close>

text \<open>C23: The loop ends: with n rounds left it either raises or finishes within these n rounds in a terminal status, which
  the state file holds, with the result document of that state written and the output directory sealed.\<close>

theorem loop_ends:
  assumes "run_rounds su w lv r n f = (f', Inr d)" and "gs_rounds_completed (lv_state lv) \<le> r"
  shows "\<exists>st. rf_state f' = Some (Some (JObj (goal_state_dict st))) \<and> gs_status st \<noteq> GOAL_ACTIVE
    \<and> gs_rounds_completed st \<le> r + int n \<and> d = result_document su (bd_harness (rf_best f') \<noteq> None) st
    \<and> fmlookup (rf_root f') ''EVOLUTION-RESULT.json'' = Some (Some (JObj d)) \<and> rf_sealed f'"
  using run_rounds_finished [OF assms] by (simp add: finished_def)

section \<open>Demonstration values\<close>

definition demo_setup :: run_setup where
  "demo_setup = \<lparr>su_config = demo_config, su_selector = demo_selector, su_model_sha256 = ''m'', su_model_files = fmempty,
     su_config_sha256 = ''c'', su_head = ''h'', su_clean = True, su_evidence_mode = ''test-fixture'', su_executor = ''e'', su_spent = JInt 0\<rparr>"

definition demo_dir :: round_files where
  "demo_dir = \<lparr>rx_dir = \<lparr>rd_files = fmempty, rd_store = empty_store, rd_graph = \<lparr>eg_evidence = [], eg_claims = [], eg_legacy = False\<rparr>,
     rd_prescreen = empty_store\<rparr>, rx_compiled = None, rx_sealed = False\<rparr>"

definition demo_files :: run_files where
  "demo_files = \<lparr>rf_root = fmempty, rf_state = None, rf_rounds = demo_index, rf_selections = demo_index, rf_teacher = demo_index,
     rf_best = \<lparr>bd_harness = None, bd_compiled = None\<rparr>, rf_round = (\<lambda>r. demo_dir), rf_sealed = False\<rparr>"

definition demo_vars :: loop_vars where
  "demo_vars = fresh_vars (initial_goal (gc_goal_id demo_goal))"

text \<open>A world with no room left on the disk.\<close>

definition full_disk :: round_world where
  "full_disk = \<lparr>rw_disk = 10737418240, rw_runtime = Inr None, rw_teacher = Inr ([], []),
     rw_baseline = (\<lambda>sel r d. (d, Inl (Err ContractViolation []))), rw_propose = (\<lambda>p. Inl (Err BudgetExceeded [])),
     rw_compile = (\<lambda>p sel r. Inl (Err ContractViolation [])), rw_prescreen = (\<lambda>c d. (d, Inl (Err ContractViolation []))),
     rw_paired = (\<lambda>c d. (d, Inl (Err ContractViolation [])))\<rparr>"

theorem loop_ends_witness:
  "\<exists>f' d st. run_rounds demo_setup (\<lambda>r. full_disk) demo_vars 0 4 demo_files = (f', Inr d)
     \<and> rf_state f' = Some (Some (JObj (goal_state_dict st))) \<and> gs_status st \<noteq> GOAL_ACTIVE \<and> gs_rounds_completed st \<le> 4"
proof -
  have g: "goal_of demo_setup = demo_goal" by (simp add: demo_setup_def demo_config_def)
  have d: "gc_disk_limit demo_goal \<le> rw_disk full_disk" by (simp add: demo_goal_def full_disk_def)
  have fin: "finite_json (JObj (result_document demo_setup b st))" for b st
    unfolding result_document_def
    by (rule finite_fields, cases "gs_best_candidate st"; cases "gs_best_bundle st") (simp_all add: str_list_def demo_setup_def comp_def list_all_iff)
  have stop: "\<exists>f' d. stop_run demo_setup st f = (f', Inr d)" for st f
    by (simp add: stop_run_def on_state_write write_result_def canonical_json_def fin obind_olift del: json_text.simps)
  obtain f' r where "play_round demo_setup full_disk demo_vars 0 demo_files = (f', Inr (Run_over r))"
    using stop by (fastforce simp: play_round_def g d over_eq)
  then have r: "run_rounds demo_setup (\<lambda>r. full_disk) demo_vars 0 4 demo_files = (f', Inr r)"
    by (simp add: numeral_eq_Suc obind_def)
  have "gs_rounds_completed (lv_state demo_vars) \<le> 0" by (simp add: demo_vars_def fresh_vars_def initial_goal_def)
  from loop_ends [OF r this] r show ?thesis by auto
qed

section \<open>A failed baseline that was the infrastructure's\<close>

lemma run_stuck:
  assumes "rf_state f = Some (Some (JObj (goal_state_dict st)))" and "gs_schema_version st = 1" and "gs_goal_id st = gc_goal_id (goal_of su)"
    and "\<And>f'. rf_rounds f' = rf_rounds f \<Longrightarrow> \<exists>x. snd (rebuild_rounds su st f') = Inl x"
  shows "\<exists>x. snd (run su w f) = Inl x"
proof -
  define prep where "prep = obind (olift (auto_unless (su_clean su) ''autonomous evolution requires a clean committed worktree'')) (\<lambda>_.
     obind (on_root (freeze_json ''GOAL.json'' (goal_document su))) (\<lambda>_.
     obind (oread (\<lambda>f. bd_harness (rf_best f) = None)) (\<lambda>none. if none then on_best (export_empty (su_model_sha256 su)) else oreturn ())))"
  have k: "keeps rf_rounds prep" "keeps rf_state prep" by (simp_all add: prep_def keeps_rules)
  have split: "start_run su = obind prep (\<lambda>_. obind (on_state (goal_load (gc_goal_id (goal_of su)))) (rebuild_rounds su))"
    by (rule ext) (simp add: start_run_def prep_def obind_def olift_def split: prod.splits sum.splits)
  obtain f1 r where p: "prep f = (f1, r)" by fastforce
  have f1: "rf_rounds f1 = rf_rounds f" "rf_state f1 = rf_state f" using keepsD [OF k(1) p] keepsD [OF k(2) p] by auto
  have "\<exists>x. snd (start_run su f) = Inl x"
  proof (cases r)
    case (Inl x)
    then show ?thesis by (simp add: split p obind_def)
  next
    case (Inr u)
    have "on_state (goal_load (gc_goal_id (goal_of su))) f1 = (f1, Inr st)"
      using assms(1-3) f1(2) by (simp add: on_state_def ozoom_def goal_load_written)
    then show ?thesis using Inr assms(4) [OF f1(1)] by (simp add: split p obind_def)
  qed
  then show ?thesis by (cases "start_run su f") (auto simp: run_def obind_def)
qed

lemma rebuild_stuck:
  assumes "index_rows (gc_goal_id (goal_of su) @ '':rounds:v1'') (rf_rounds f) = Inr rows" and "mapM row_payload rows = Inr ps"
    and "ps \<noteq> []" and "int (length ps) = gs_rounds_completed st"
    and "recover_state (goal_of su) st ps = Inr s" and "validate_checkpoint st s = Inl x"
  shows "\<exists>x. snd (rebuild_rounds su st f) = Inl x"
proof -
  have "length rows = length ps" using assms(2) by (simp add: mapM_length)
  with assms show ?thesis
    by (cases "replay_rounds (rf_round f) ps 0 (fresh_vars st)") (simp_all add: rebuild_rounds_def auto_unless_def)
qed

text \<open>C22: A round whose baseline failed for a reason that is not the student's blocks every restart: whatever the world, a run
  started on the files that round left behind raises, because the state counts an infrastructure failure that the recovery
  from the round index does not.\<close>

theorem infra_baseline_blocks_restart:
  assumes "rounds_played (goal_of su) P ps lv" and "1 \<le> gc_target (goal_of su)" and "gs_status (lv_state lv) = GOAL_ACTIVE"
    and "has_infra_reason b"
    and "index_rows (gc_goal_id (goal_of su) @ '':rounds:v1'') (rf_rounds f) = Inr rows" and "mapM row_payload rows = Inr ps"
    and "finish_failed su lv (int (length ps)) sel b f = (f', Inr e)"
  shows "\<exists>x. snd (run su w f') = Inl x"
proof -
  let ?i = "gc_goal_id (goal_of su) @ '':rounds:v1''"
  obtain p lv' where row: "failed_round (goal_of su) lv (int (length ps)) sel b = (p, lv')" by fastforce
  note f' = finish_failed_cases [OF assms(7) row, THEN conjunct1] finish_failed_cases [OF assms(7) row, THEN conjunct2, THEN conjunct1]
  note d = failed_roundD [OF row] and counters = rounds_counters [OF assms(1,2)]
  have id: "gs_schema_version (lv_state lv') = 1" "gs_goal_id (lv_state lv') = gc_goal_id (goal_of su)"
    "gs_rounds_completed (lv_state lv') = int (length ps) + 1"
    using d counters by (simp_all add: counters_agree_def Let_def)
  obtain s m where s: "recover_state (goal_of su) (lv_state lv') (ps @ [p]) = Inr s" "validate_checkpoint (lv_state lv') s = Inl (Err AutonomousEvolutionError m)"
    using recover_infra_mismatch [OF assms(1-3) row assms(4)] by blast
  obtain new where append: "index_append ?i (round_event (int (length ps))) p (rf_rounds f) = (rf_rounds f', Inr new)"
    using f'(1) by (auto simp: round_indexed_def)
  have "\<exists>x. snd (rebuild_rounds su (lv_state lv') f2) = Inl x" if "rf_rounds f2 = rf_rounds f'" for f2
  proof (cases "index_rows ?i (rf_rounds f')")
    case (Inl x)
    with that show ?thesis by (simp add: rebuild_rounds_def)
  next
    case (Inr rows')
    show ?thesis
    proof (cases new)
      case True
      with append have "rows' = rows @ [index_stored ?i rows (round_event (int (length ps))) p]"
        using index_append_row [OF assms(5) _ Inr] by simp
      then have "mapM row_payload rows' = Inr (ps @ [p])" using assms(6) by (simp add: mapM_snoc index_stored_payload)
      then show ?thesis using rebuild_stuck [OF _ _ _ _ s(1,2)] Inr that id(3) by simp
    next
      case False
      with append assms(5) have "rf_rounds f' = rf_rounds f" using index_append_old by simp
      with Inr assms(5,6) have "length rows' = length ps" by (simp add: mapM_length)
      with Inr that id(3) show ?thesis by (simp add: rebuild_rounds_def auto_unless_def)
    qed
  qed
  then show ?thesis using f'(2) id by (intro run_stuck) auto
qed


lemma finite_str_list: "finite_json (str_list xs)"
  by (simp add: str_list_def comp_def list_all_iff)

lemma finite_reasons: "finite_json (reasons_json rs)"
  by (simp add: reasons_json_def finite_jobj list_all_iff split: prod.splits)

lemma finite_opt_str: "finite_json (opt_str x)"
  by (cases x) simp_all

lemma finite_failed_row: "finite_json (JObj (failed_payload r s b parent st cid failed reasons))"
  "finite_json (JObj (failed_result cid failed reasons))" "finite_json (JObj (failed_feedback cid failed reasons))"
proof -
  show f: "finite_json (JObj (failed_feedback cid failed reasons))"
    unfolding failed_feedback_def by (rule finite_fields) (simp add: finite_str_list finite_reasons)
  show "finite_json (JObj (failed_result cid failed reasons))"
    unfolding failed_result_def by (rule finite_fields) (simp add: finite_str_list finite_reasons)
  show "finite_json (JObj (failed_payload r s b parent st cid failed reasons))"
    unfolding failed_payload_def by (rule finite_fields) (simp add: finite_str_list finite_reasons finite_opt_str f finite_jobj)
qed

lemma freeze_round_new: "finite_json (JObj p) \<Longrightarrow> fmlookup (rd_files (rx_dir x)) name = None \<Longrightarrow>
    freeze_round name p x = (x\<lparr>rx_dir := (rx_dir x)\<lparr>rd_files := fmupd name (Some (JObj p)) (rd_files (rx_dir x))\<rparr>\<rparr>, Inr ())"
  by (simp add: freeze_round_def on_dir_def ozoom_def freeze_json_def canonical_json_def)

lemma index_append_first:
  assumes "finite_json (JObj p)" and "eid \<noteq> []"
  shows "\<exists>x. index_append i eid p demo_index = (x, Inr True)"
proof -
  have r: "index_rows i demo_index = Inr []" by (simp add: index_rows_def index_unless_def demo_index_def)
  have "finite_json (JObj (index_event i [] eid p))" by (simp add: index_event_def finite_fmupd index_previous_def assms(1))
  with index_append_run [OF r _ assms(2)] show ?thesis by (simp add: content_sha256_eq demo_index_def)
qed

definition demo_failed :: baseline_result where
  "demo_failed = \<lparr>bl_task_ids = [''t1''], bl_model_receipt_ids = [], bl_native_receipt_ids = [], bl_native_outcomes = [],
     bl_failure_signatures = [], bl_replayed = False, bl_failed = [''t1''], bl_reasons = [(''t1'', ''evaluator-timeout'')]\<rparr>"

definition demo_selection :: task_selection where
  "demo_selection = \<lparr>ts_selection_id = ''s'', ts_round_index = 0, ts_context_sha256 = ''c'', ts_context = fmempty, ts_task_ids = [''t1''],
     ts_projects = [''a''], ts_reason = [], ts_excluded = [], ts_tasks = [demo_task (''t1'', ''a'')]\<rparr>"

lemma demo_finish: "\<exists>f' e. finish_failed demo_setup demo_vars 0 demo_selection demo_failed demo_files = (f', Inr e)"
proof -
  let ?g = "goal_of demo_setup"
  obtain row lv' where row: "failed_round ?g demo_vars 0 demo_selection demo_failed = (row, lv')" by fastforce
  have b: "finite_json (JObj (baseline_payload demo_failed))"
    unfolding baseline_payload_def by (rule finite_fields) (simp add: finite_str_list finite_reasons demo_failed_def)
  have fin: "finite_json (JObj row)" using failed_roundD [OF row] by (simp add: finite_failed_row)
  have g: "?g = demo_goal" by (simp add: demo_setup_def demo_config_def)
  have active: "gs_status (lv_state lv') = GOAL_ACTIVE"
    using failed_roundD [OF row] by (simp add: after_failed_status stop_status_def g demo_goal_def demo_vars_def fresh_vars_def initial_goal_def
        same_failure_count_def)
  obtain x where x: "index_append (gc_goal_id demo_goal @ '':rounds:v1'') (round_event 0) row demo_index = (x, Inr True)"
    using index_append_first [OF fin, of "round_event 0"] by (auto simp: round_event_def)
  show ?thesis
    by (simp add: finish_failed_def row [unfolded g] Let_def on_round_def obind_ozoom freeze_round_new b fin finite_failed_row demo_files_def demo_dir_def
        seal_round_def index_round_def on_rounds_def g x end_round_def on_state_write active)
qed

theorem infra_baseline_blocks_restart_witness:
  "\<exists>f' e x. finish_failed demo_setup demo_vars 0 demo_selection demo_failed demo_files = (f', Inr e)
     \<and> snd (run demo_setup (\<lambda>r. full_disk) f') = Inl x"
proof -
  have g: "goal_of demo_setup = demo_goal" by (simp add: demo_setup_def demo_config_def)
  have played: "rounds_played (goal_of demo_setup) (\<lambda>_ _. True) [] demo_vars"
    unfolding g demo_vars_def by (rule rounds_played.no_round)
  have h: "1 \<le> gc_target (goal_of demo_setup)" "gs_status (lv_state demo_vars) = GOAL_ACTIVE" "has_infra_reason demo_failed"
    by (simp_all add: g demo_goal_def demo_vars_def fresh_vars_def initial_goal_def has_infra_reason_def demo_failed_def unresolvable_reasons_def)
  have i: "index_rows (gc_goal_id (goal_of demo_setup) @ '':rounds:v1'') (rf_rounds demo_files) = Inr []"
    by (simp add: demo_files_def demo_index_def index_rows_def index_unless_def)
  obtain f' e where f': "finish_failed demo_setup demo_vars 0 demo_selection demo_failed demo_files = (f', Inr e)" using demo_finish by blast
  from infra_baseline_blocks_restart [OF played h i _, of demo_selection f' e "\<lambda>r. full_disk"] f' show ?thesis by auto
qed

section \<open>The best harness\<close>

definition accepted_rows :: "dict list \<Rightarrow> dict list" where
  "accepted_rows ps = filter (\<lambda>p. get p ''accepted_as_best'' = JBool True) ps"

definition fitness_of :: "dict \<Rightarrow> int" where
  "fitness_of p = (case get p ''fitness'' of JInt i \<Rightarrow> i | _ \<Rightarrow> 0)"

definition advancing :: "dict \<Rightarrow> bool" where
  "advancing p \<longleftrightarrow> (\<exists>vs. get p ''claims'' = JList (map claim_row vs) \<and> acceptable_advance vs \<and> fitness_of p = fitness vs) \<and> 10 \<le> fitness_of p"

lemma advance_fitness: "acceptable_advance vs \<Longrightarrow> 10 \<le> fitness vs"
proof -
  assume a: "acceptable_advance vs"
  have nonneg: "''regression'' \<notin> vc_classification ` set us \<Longrightarrow> 0 \<le> fitness us" for us
    by (induction us) (auto simp: fitness_def)
  from a obtain v where v: "v \<in> set vs" "vc_classification v = ''gain''" by (auto simp: acceptable_advance_def Let_def)
  then obtain xs ys where vs: "vs = xs @ v # ys" by (meson split_list)
  have "0 \<le> fitness xs" "0 \<le> fitness ys" using a nonneg [of xs] nonneg [of ys] by (auto simp: acceptable_advance_def Let_def vs)
  then show ?thesis using v(2) by (simp add: fitness_def vs)
qed

definition best_agrees :: "dict list \<Rightarrow> loop_vars \<Rightarrow> bool" where
  "best_agrees ps lv \<longleftrightarrow> sorted_wrt (<) (map fitness_of (accepted_rows ps)) \<and> list_all advancing (accepted_rows ps)
     \<and> (if accepted_rows ps = [] then lv_best_payload lv = None \<and> lv_best_fitness lv = None
          \<and> gs_best_candidate (lv_state lv) = None \<and> gs_best_bundle (lv_state lv) = None
        else lv_best_payload lv = Some (last (accepted_rows ps)) \<and> lv_best_fitness lv = Some (fitness_of (last (accepted_rows ps)))
          \<and> get (last (accepted_rows ps)) ''candidate_revision_id'' = opt_str (gs_best_candidate (lv_state lv))
          \<and> get (last (accepted_rows ps)) ''compiled_bundle_sha256'' = opt_str (gs_best_bundle (lv_state lv)))"

lemma campaign_row_fields:
  "get (campaign_row lv r sel b c cr) ''accepted_as_best'' = JBool (campaign_accepted lv cr)"
  "fitness_of (campaign_row lv r sel b c cr) = fitness (cr_claims cr)"
  "get (campaign_row lv r sel b c cr) ''claims'' = JList (map claim_row (cr_claims cr))"
  "get (campaign_row lv r sel b c cr) ''candidate_revision_id'' = JStr (cm_revision_id c)"
  "get (campaign_row lv r sel b c cr) ''compiled_bundle_sha256'' = JStr (cm_bundle c)"
  by (simp_all add: campaign_row_def settled_payload_def fitness_of_def get_def)

lemma campaign_best:
  assumes "campaign_round g lv r sel b c cr = Inr lv'"
  shows "lv_best_payload lv' = (if campaign_accepted lv cr then Some (campaign_row lv r sel b c cr) else lv_best_payload lv)
    \<and> lv_best_fitness lv' = (if campaign_accepted lv cr then Some (fitness (cr_claims cr)) else lv_best_fitness lv)"
  using assms by (auto simp: campaign_round_def Let_def bind_eq_Inr)

lemma failed_best: "failed_round g lv r sel b = (p, lv') \<Longrightarrow> lv_best_payload lv' = lv_best_payload lv \<and> lv_best_fitness lv' = lv_best_fitness lv"
  by (auto simp: failed_round_def Let_def)

lemma accepted_snoc: "accepted_rows (ps @ [p]) = (if get p ''accepted_as_best'' = JBool True then accepted_rows ps @ [p] else accepted_rows ps)"
  by (simp add: accepted_rows_def)

lemma sorted_wrt_last: "sorted_wrt (<) (map f xs) \<Longrightarrow> x \<in> set xs \<Longrightarrow> (f x :: int) \<le> f (last xs)"
  by (induction xs) (auto intro: less_imp_le)

lemma rounds_best: "rounds_played g P ps lv \<Longrightarrow> best_agrees ps lv"
proof (induction rule: rounds_played.induct)
  case no_round
  then show ?case by (simp add: best_agrees_def accepted_rows_def fresh_vars_def initial_goal_def)
next
  case (baseline_failed ps lv sel b p lv')
  note d = failed_roundD [OF baseline_failed.hyps(5)] and e = failed_best [OF baseline_failed.hyps(5)]
  from d have "accepted_rows (ps @ [p]) = accepted_rows ps" by (simp add: accepted_snoc failed_payload_get)
  with baseline_failed.IH d e show ?case by (simp add: best_agrees_def)
next
  case (campaign_judged ps lv sel b c cr lv')
  let ?p = "campaign_row lv (int (length ps)) sel b c cr"
  note d = campaign_roundD [OF campaign_judged.hyps(4)] and e = campaign_best [OF campaign_judged.hyps(4)]
  show ?case
  proof (cases "campaign_accepted lv cr")
    case False
    then have "accepted_rows (ps @ [?p]) = accepted_rows ps" by (simp add: accepted_snoc campaign_row_fields)
    with campaign_judged.IH d e False show ?thesis by (simp add: best_agrees_def)
  next
    case True
    then have acc: "accepted_rows (ps @ [?p]) = accepted_rows ps @ [?p]" by (simp add: accepted_snoc campaign_row_fields)
    have adv: "acceptable_advance (cr_claims cr)" "\<forall>x. lv_best_fitness lv = Some x \<longrightarrow> x < fitness (cr_claims cr)"
      using True by (auto simp: campaign_accepted_def advances_def)
    have "fitness_of q < fitness_of ?p" if "q \<in> set (accepted_rows ps)" for q
    proof -
      have "fitness_of q \<le> fitness_of (last (accepted_rows ps))" using campaign_judged.IH sorted_wrt_last [OF _ that]
        by (simp add: best_agrees_def)
      also have "\<dots> < fitness_of ?p" using campaign_judged.IH that adv(2) by (auto simp: best_agrees_def campaign_row_fields split: if_splits)
      finally show ?thesis .
    qed
    moreover have "advancing ?p" using adv(1) advance_fitness [OF adv(1)] by (auto simp: advancing_def campaign_row_fields)
    ultimately show ?thesis
      using campaign_judged.IH d e True by (simp add: best_agrees_def acc sorted_wrt_append campaign_row_fields)
  qed
qed

text \<open>C24: The best harness only advances: in every history of rounds the accepted rounds have claims with a gain and without
  regression or infrastructure failure, each is strictly fitter than the accepted ones before it, and the last of them is the
  best harness that the loop and the goal state name (none before the first).\<close>

theorem best_only_advances:
  assumes "rounds_played g P ps lv"
  shows "sorted_wrt (<) (map fitness_of (accepted_rows ps)) \<and> list_all advancing (accepted_rows ps)
    \<and> lv_best_payload lv = (if accepted_rows ps = [] then None else Some (last (accepted_rows ps)))
    \<and> (accepted_rows ps = [] \<longrightarrow> gs_best_candidate (lv_state lv) = None)
    \<and> (accepted_rows ps \<noteq> [] \<longrightarrow> get (last (accepted_rows ps)) ''candidate_revision_id'' = opt_str (gs_best_candidate (lv_state lv))
         \<and> get (last (accepted_rows ps)) ''compiled_bundle_sha256'' = opt_str (gs_best_bundle (lv_state lv)))"
  using rounds_best [OF assms] by (simp add: best_agrees_def)

section \<open>Recovery\<close>

text \<open>C21: Whenever every failed baseline so far failed for reasons of the student, the state recovered from the indexed payloads
  is the live state of the loop, except that after the last round an active state is recovered as finished.\<close>

theorem recovery_is_live:
  assumes "rounds_played g student_failure ps lv" and "1 \<le> gc_target g" and "ps \<noteq> []"
    and "gs_schema_version st = 1" and "gs_goal_id st = gc_goal_id g"
  shows "recover_state g st ps = Inr ((lv_state lv)\<lparr>gs_status :=
     (if gs_status (lv_state lv) = GOAL_ACTIVE \<and> gc_max_rounds g \<le> int (length ps) then MAX_ROUNDS_REACHED else gs_status (lv_state lv))\<rparr>)"
  using assms by (rule recover_exact)

definition demo_student :: baseline_result where
  "demo_student = demo_failed\<lparr>bl_reasons := [(''t1'', ''no-op'')]\<rparr>"

definition demo_claim :: verified_claim where
  "demo_claim = \<lparr>vc_task_id = ''t1'', vc_claim_id = ''k1'', vc_classification = ''gain'', vc_grade = ''E2'', vc_pair_sha256 = None, vc_receipt_ids = []\<rparr>"

definition demo_compiled :: compiled where
  "demo_compiled = \<lparr>cm_candidate_id = ''c1'', cm_revision_id = ''c1-r0001'', cm_parent_id = ''empty-harness-v1'', cm_bundle = ''b1'',
     cm_operator_id = ''o'', cm_routes = [(''t1'', ''o'')], cm_memory = False, cm_synthesized = []\<rparr>"

definition demo_report :: campaign_report where
  "demo_report = \<lparr>cr_status = JStr ''completed'', cr_claims = [demo_claim], cr_infra = False, cr_feedback = fmempty, cr_signature = ''x'',
     cr_prescreen = skipped_prescreen demo_compiled\<rparr>"

text \<open>A failed baseline, then a campaign that gains a task.\<close>

lemma demo_history:
  "\<exists>p lv q lv'. failed_round demo_goal demo_vars 0 demo_selection demo_student = (p, lv) \<and> rounds_played demo_goal student_failure [p] lv
     \<and> rounds_played demo_goal student_failure [p, q] lv' \<and> accepted_rows [p, q] = [q] \<and> gs_status (lv_state lv') = GOAL_ACTIVE"
proof -
  obtain p lv where p: "failed_round demo_goal demo_vars 0 demo_selection demo_student = (p, lv)" by fastforce
  note d = failed_roundD [OF p] and b = failed_best [OF p]
  have start: "rounds_played demo_goal student_failure [] demo_vars" unfolding demo_vars_def by (rule rounds_played.no_round)
  have one: "rounds_played demo_goal student_failure [p] lv"
    using rounds_played.baseline_failed [OF start, of demo_selection demo_student p lv] p
    by (simp add: demo_vars_def fresh_vars_def initial_goal_def demo_goal_def student_failure_def demo_student_def demo_failed_def
        unresolvable_reasons_def)
  have act: "gs_status (lv_state lv) = GOAL_ACTIVE"
    using d by (simp add: after_failed_status stop_status_def demo_goal_def demo_vars_def fresh_vars_def initial_goal_def same_failure_count_def
        has_infra_reason_def demo_student_def unresolvable_reasons_def)
  have "\<exists>lv'. campaign_round demo_goal lv 1 demo_selection demo_student demo_compiled demo_report = Inr lv'"
    by (simp add: campaign_round_def Let_def accumulate_failures_def demo_report_def)
  then obtain lv' where q: "campaign_round demo_goal lv 1 demo_selection demo_student demo_compiled demo_report = Inr lv'" by blast
  let ?q = "campaign_row lv 1 demo_selection demo_student demo_compiled demo_report"
  have two: "rounds_played demo_goal student_failure [p, ?q] lv'"
    using rounds_played.campaign_judged [OF one act, of demo_selection demo_student demo_compiled demo_report lv'] q
    by (simp add: demo_goal_def)
  have acc: "campaign_accepted lv demo_report"
    using b by (simp add: campaign_accepted_def advances_def acceptable_advance_def demo_report_def demo_claim_def demo_vars_def fresh_vars_def)
  then have "accepted_rows [p, ?q] = [?q]" by (simp add: accepted_rows_def campaign_row_fields d failed_payload_get)
  moreover have "gs_status (lv_state lv') = GOAL_ACTIVE"
  proof -
    have start: "lv_gained demo_vars = {}" "gs_failure_signature (lv_state demo_vars) = None" "gs_no_progress_rounds (lv_state demo_vars) = 0"
      by (simp_all add: demo_vars_def fresh_vars_def initial_goal_def)
    have gain: "class_tasks ''gain'' (cr_claims demo_report) = [''t1'']" by (simp add: class_tasks_def demo_report_def demo_claim_def)
    have "lv_gained lv = {}" using d start by simp
    then have g: "lv_gained lv' = {''t1''}" using campaign_roundD [OF q] acc gain by simp
    have out: "round_outcome (cr_claims demo_report) (cr_infra demo_report) = ''gain''"
      by (simp add: round_outcome_def outcome_of_classes_def demo_report_def demo_claim_def)
    have s: "gs_failure_signature_rounds (lv_state lv) = 1" using d start by (simp add: same_failure_count_def)
    have "gs_status (lv_state lv') = (if gc_target demo_goal \<le> int (card {''t1''}) then GOAL_REACHED else stop_status demo_goal (lv_state lv'))"
      using campaign_roundD [OF q] g after_campaign_status by metis
    also have "\<dots> = GOAL_ACTIVE" using campaign_roundD [OF q] acc out s by (simp add: stop_status_def demo_goal_def same_failure_count_def)
    finally show ?thesis .
  qed
  ultimately show ?thesis using p one two by blast
qed

theorem best_only_advances_witness:
  "\<exists>p q lv. rounds_played demo_goal student_failure [p, q] lv \<and> advancing q \<and> lv_best_payload lv = Some q"
proof -
  obtain p q lv where h: "rounds_played demo_goal student_failure [p, q] lv" "accepted_rows [p, q] = [q]" using demo_history by blast
  from best_only_advances [OF h(1)] h show ?thesis by auto
qed

theorem recovery_is_live_witness:
  "\<exists>ps lv. length ps = 2 \<and> rounds_played demo_goal student_failure ps lv \<and> recover_state demo_goal (initial_goal ''goal-1'') ps = Inr (lv_state lv)"
proof -
  obtain p q lv where h: "rounds_played demo_goal student_failure [p, q] lv" "gs_status (lv_state lv) = GOAL_ACTIVE" using demo_history by blast
  have i: "1 \<le> gc_target demo_goal" "gs_schema_version (initial_goal ''goal-1'') = 1" "gs_goal_id (initial_goal ''goal-1'') = gc_goal_id demo_goal"
    by (simp_all add: demo_goal_def initial_goal_def)
  from recovery_is_live [OF h(1) i(1) _ i(2,3)] h have "recover_state demo_goal (initial_goal ''goal-1'') [p, q] = Inr (lv_state lv)"
    by (simp add: demo_goal_def)
  with h(1) show ?thesis by (intro exI [of _ "[p, q]"] exI [of _ lv]) simp
qed

end
