(* ===== verification/Teacher_Exchange.thy ===== *)
theory Teacher_Exchange
  imports Run_Config
begin

text \<open>
  \<open>src/src/evolve/proposals/candidate_chain.py\<close>, first part: the specification a candidate is compiled
  under, the receipt of a Teacher exchange, the Operator and the Router of its candidate.

  A file whose bytes matter is its text together with what \<open>json.loads\<close> makes of it (\<open>None\<close>: not
  JSON, or not UTF-8).  The fields of a frozen set are visited in the order of the list here.
\<close>

section \<open>Checks\<close>

record text_file =
  tf_text :: string
  tf_json :: "json option"

definition file_sha256 :: "text_file \<Rightarrow> string" where
  "file_sha256 f = sha256_hex (utf8 (tf_text f))"

text \<open>\<open>_encoded\<close>: the canonical text and a line feed.\<close>

definition encoded :: "json \<Rightarrow> text_file res" where
  "encoded j = bind (canonical_json j) (\<lambda>t. Inr \<lparr>tf_text = t @ [CHR 0x0A], tf_json = Some j\<rparr>)"

text \<open>\<open>==\<close> of parsed values: a NaN is equal to nothing.\<close>

primrec nan_free :: "json \<Rightarrow> bool" where
  "nan_free JNull = True"
| "nan_free (JBool b) = True"
| "nan_free (JInt i) = True"
| "nan_free (JFloat f) = (f \<noteq> NaN)"
| "nan_free (JStr s) = True"
| "nan_free (JList xs) = list_all id (map nan_free xs)"
| "nan_free (JObj d) = fmpred (\<lambda>k b. b) (fmmap nan_free d)"

definition same_value :: "json \<Rightarrow> json \<Rightarrow> bool" where
  "same_value x y \<longleftrightarrow> py_eq x y \<and> nan_free x"

text \<open>\<open>_require_text\<close> on a parsed value.\<close>

definition text_field :: "string \<Rightarrow> json \<Rightarrow> string res" where
  "text_field name j = (case j of
     JStr s \<Rightarrow> bind (violation_unless (\<not> blank s) (name @ '' must be non-empty text'')) (\<lambda>_. Inr s)
   | _ \<Rightarrow> raise ContractViolation (name @ '' must be non-empty text''))"

definition is_alnum :: "char \<Rightarrow> bool" where
  "is_alnum c \<longleftrightarrow> (let n = of_char c :: nat in (48 \<le> n \<and> n \<le> 57) \<or> (65 \<le> n \<and> n \<le> 90) \<or> (97 \<le> n \<and> n \<le> 122))"

text \<open>\<open>[A-Za-z0-9][A-Za-z0-9._-]{0,127}\<close>, matched in full.\<close>

definition is_identifier :: "string \<Rightarrow> bool" where
  "is_identifier s \<longleftrightarrow> s \<noteq> [] \<and> length s \<le> 128 \<and> is_alnum (hd s) \<and> list_all (\<lambda>c. is_alnum c \<or> c \<in> set ''._-'') (tl s)"

definition require_identifier :: "string \<Rightarrow> string \<Rightarrow> unit res" where
  "require_identifier name s = violation_unless (is_identifier s) (name @ '' is not a safe immutable identifier'')"

definition identifier_field :: "string \<Rightarrow> json \<Rightarrow> string res" where
  "identifier_field name j = bind (text_field name j) (\<lambda>s. bind (require_identifier name s) (\<lambda>_. Inr s))"

lemma require_identifier_eq_Inr [res_simps]: "require_identifier n s = Inr u \<longleftrightarrow> is_identifier s"
  by (simp add: require_identifier_def violation_unless_eq_Inr)

lemma text_field_eq_Inr [res_simps]: "text_field n j = Inr s \<longleftrightarrow> j = JStr s \<and> \<not> blank s"
  by (cases j) (auto simp: text_field_def res_simps)

lemma identifier_field_eq_Inr [res_simps]: "identifier_field n j = Inr s \<longleftrightarrow> j = JStr s \<and> \<not> blank s \<and> is_identifier s"
  by (auto simp: identifier_field_def res_simps)

lemma same_value_refl: "nan_free x \<Longrightarrow> same_value x x"
  by (simp add: same_value_def)

lemma same_value_JStr [simp]: "same_value (JStr s) j \<longleftrightarrow> j = JStr s" "same_value j (JStr s) \<longleftrightarrow> j = JStr s"
  by (auto simp: same_value_def)

section \<open>The specification\<close>

text \<open>\<open>sp_operator_id\<close>, \<open>sp_instruction\<close> and \<open>sp_routes\<close> are the bridge for candidates of schema 1.\<close>

record compile_spec =
  sp_candidate_id :: string
  sp_revision_id :: string
  sp_parent_id :: string
  sp_cohort :: cohort
  sp_operator_id :: string
  sp_instruction :: string
  sp_routes :: "(string \<times> string) list"
  sp_required :: "string list"

fun check_required :: "string list \<Rightarrow> string list \<Rightarrow> unit res" where
  "check_required seen [] = Inr ()"
| "check_required seen (t # ts) = bind (require_identifier ''required route task_id'' t) (\<lambda>_.
     bind (violation_unless (t \<notin> set seen) ''required route task IDs must be unique'') (\<lambda>_. check_required (t # seen) ts))"

fun check_spec_routes :: "string \<Rightarrow> string list \<Rightarrow> (string \<times> string) list \<Rightarrow> unit res" where
  "check_spec_routes oid seen [] = Inr ()"
| "check_spec_routes oid seen ((t, r) # rs) = bind (require_identifier ''route task_id'' t) (\<lambda>_.
     bind (violation_unless (t \<notin> set seen) ''candidate router task IDs must be unique'') (\<lambda>_.
     bind (violation_unless (r = oid) ''candidate router references another operator'') (\<lambda>_. check_spec_routes oid (t # seen) rs)))"

definition check_bridge :: "compile_spec \<Rightarrow> unit res" where
  "check_bridge s = (if sp_operator_id s = [] \<and> sp_instruction s = [] \<and> sp_routes s = [] then Inr () else
     bind (identifier_field ''operator_id'' (JStr (sp_operator_id s))) (\<lambda>_.
     bind (text_field ''operator_instruction'' (JStr (sp_instruction s))) (\<lambda>_.
     bind (violation_unless (sp_routes s \<noteq> []) ''legacy candidate router must contain routes'') (\<lambda>_.
     check_spec_routes (sp_operator_id s) [] (sp_routes s)))))"

definition check_compile_spec :: "compile_spec \<Rightarrow> unit res" where
  "check_compile_spec s = all_checks
     [bind (identifier_field ''candidate_id'' (JStr (sp_candidate_id s))) (\<lambda>_. Inr ()),
      bind (identifier_field ''revision_id'' (JStr (sp_revision_id s))) (\<lambda>_. Inr ()),
      bind (identifier_field ''parent_revision_id'' (JStr (sp_parent_id s))) (\<lambda>_. Inr ()),
      violation_unless (sp_cohort s = FEEDBACK) ''candidate compilation is feedback-only'',
      check_required [] (sp_required s),
      check_bridge s]"

definition routes_json :: "(string \<times> string) list \<Rightarrow> json" where
  "routes_json rs = JList (map (\<lambda>(t, r). JList [JStr t, JStr r]) rs)"

definition spec_dict :: "compile_spec \<Rightarrow> dict" where
  "spec_dict s = fmap_of_list
     ([(''candidate_id'', JStr (sp_candidate_id s)), (''revision_id'', JStr (sp_revision_id s)),
       (''parent_revision_id'', JStr (sp_parent_id s)), (''cohort'', JStr (cohort_text (sp_cohort s))),
       (''operator_id'', JStr (sp_operator_id s)), (''operator_instruction'', JStr (sp_instruction s)),
       (''routes'', routes_json (sp_routes s))]
      @ (if sp_required s = [] then [] else [(''required_route_task_ids'', str_list (sp_required s))]))"

definition spec_json :: "compile_spec \<Rightarrow> json" where
  "spec_json s = JObj (spec_dict s)"

text \<open>\<open>_routes\<close>.\<close>

definition route_of :: "json \<Rightarrow> (string \<times> string) res" where
  "route_of j = (case j of JList [a, b] \<Rightarrow> Inr (py_str a, py_str b) | _ \<Rightarrow> raise ContractViolation ''compiled route entry is invalid'')"

definition routes_of :: "json \<Rightarrow> (string \<times> string) list res" where
  "routes_of j = (case j of JList xs \<Rightarrow> mapM route_of xs | _ \<Rightarrow> raise ContractViolation ''compiled routes are invalid'')"

fun cohort_of :: "json \<Rightarrow> cohort res" where
  "cohort_of j = (if j = JStr ''feedback'' then Inr FEEDBACK else if j = JStr ''holdout'' then Inr HOLDOUT
     else if j = JStr ''final-sealed'' then Inr FINAL_SEALED else if j = JStr ''burned'' then Inr BURNED
     else raise ValueError ''is not a valid Cohort'')"

text \<open>
  The stored specification: the fields are taken in the order of the call, then the constructor
  checks them.  An \<open>operator_id\<close> or instruction that is not a text is a \<open>TypeError\<close> here.
\<close>

definition stored_spec :: "dict \<Rightarrow> compile_spec res" where
  "stored_spec d =
     bind (item d ''candidate_id'') (\<lambda>c. bind (item d ''revision_id'') (\<lambda>r. bind (item d ''parent_revision_id'') (\<lambda>p.
     bind (the_item d ''cohort'' cohort_of) (\<lambda>co.
     bind (routes_of (config_or d ''routes'' (JList []))) (\<lambda>rs.
     bind (tuple_of (config_or d ''required_route_task_ids'' (JList []))) (\<lambda>req.
     bind (identifier_field ''candidate_id'' c) (\<lambda>c. bind (identifier_field ''revision_id'' r) (\<lambda>r.
     bind (identifier_field ''parent_revision_id'' p) (\<lambda>p.
     bind (str_value (config_or d ''operator_id'' (JStr []))) (\<lambda>oid.
     bind (str_value (config_or d ''operator_instruction'' (JStr []))) (\<lambda>ins.
     bind (mapM str_value req) (\<lambda>req.
     let s = \<lparr>sp_candidate_id = c, sp_revision_id = r, sp_parent_id = p, sp_cohort = co, sp_operator_id = oid,
       sp_instruction = ins, sp_routes = rs, sp_required = req\<rparr>
     in bind (check_compile_spec s) (\<lambda>_. Inr s)))))))))))))"

section \<open>The receipt of a Teacher exchange\<close>

record teacher_exchange =
  te_candidate :: dict
  te_schema :: nat
  te_provider :: string
  te_model :: string
  te_usage :: dict
  te_network_calls :: json
  te_pricing :: dict
  te_cost :: pyfloat

definition v1_fields :: "string list" where
  "v1_fields = [''protocol'', ''prompt_template'', ''skill_text'', ''eval_note'']"

definition effect_fields :: "string list" where
  "effect_fields = [''expected_external_effect'', ''expected_internal_effect'', ''falsification'']"

definition v2_fields :: "string list" where
  "v2_fields = v1_fields @ [''operator'', ''router'', ''memory_policy'', ''preconditions''] @ effect_fields"

fun nonempty_obj :: "json \<Rightarrow> bool" where
  "nonempty_obj (JObj d) = (d \<noteq> fmempty)" | "nonempty_obj j = False"

fun nonempty_items :: "json \<Rightarrow> bool" where
  "nonempty_items (JList xs) = (xs \<noteq> [])" | "nonempty_items j = False"

definition empty_value :: "json \<Rightarrow> bool" where
  "empty_value j \<longleftrightarrow> j = JNull \<or> j = JStr [] \<or> j = JList [] \<or> j = JObj fmempty"

text \<open>The contents of a candidate; its fields are those of one of the two schemas.\<close>

definition check_candidate_v2 :: "dict \<Rightarrow> unit res" where
  "check_candidate_v2 c = all_checks
     ([violation_unless (nonempty_obj (get c ''operator'')) ''candidate operator must be an object'',
       violation_unless (nonempty_obj (get c ''router'')) ''candidate router must be an object'',
       violation_unless (get c ''memory_policy'' = JNull \<or> nonempty_obj (get c ''memory_policy'')) ''candidate memory_policy must be an object or null'',
       violation_unless (nonempty_items (get c ''preconditions'')) ''candidate preconditions are invalid'']
      @ map (\<lambda>n. violation_unless (\<not> empty_value (get c n)) (''candidate '' @ n @ '' must be non-empty'')) effect_fields)"

definition candidate_schema :: "json \<Rightarrow> (dict \<times> nat) res" where
  "candidate_schema j = (case j of
     JObj c \<Rightarrow> if fmdom' c = set v1_fields then Inr (c, 1) else if fmdom' c = set v2_fields then Inr (c, 2)
       else raise ContractViolation ''Teacher candidate fields are invalid''
   | _ \<Rightarrow> raise ContractViolation ''Teacher candidate fields are invalid'')"

text \<open>\<open>float(value)\<close> of a number that is not a boolean.\<close>

definition number_float :: "string \<Rightarrow> json \<Rightarrow> pyfloat res" where
  "number_float m j = (case j of
     JInt i \<Rightarrow> bind (require (finite_float (float_of_int i)) OverflowError ''int too large to convert to float'') (\<lambda>_. Inr (float_of_int i))
   | JFloat f \<Rightarrow> Inr f
   | _ \<Rightarrow> raise ContractViolation m)"

definition cost_of :: "string \<Rightarrow> json \<Rightarrow> pyfloat res" where
  "cost_of m j = bind (number_float m j) (\<lambda>f. bind (violation_unless (\<not> flt f fzero \<and> finite_float f) m) (\<lambda>_. Inr f))"

fun token_count :: "json \<Rightarrow> bool" where
  "token_count (JInt i) = (0 \<le> i)" | "token_count j = False"

definition check_usage :: "json \<Rightarrow> dict res" where
  "check_usage j = (case j of
     JObj u \<Rightarrow> bind (all_checks (map (\<lambda>n. violation_unless (token_count (get u n)) (''Teacher usage '' @ n @ '' is invalid''))
       [''prompt_tokens'', ''completion_tokens'', ''total_tokens''])) (\<lambda>_. Inr u)
   | _ \<Rightarrow> raise ContractViolation ''Teacher usage is invalid'')"

definition check_pricing :: "json \<Rightarrow> dict res" where
  "check_pricing j = (case j of
     JObj p \<Rightarrow> bind (violation_unless (p \<noteq> fmempty) ''Teacher pricing is invalid'') (\<lambda>_.
       bind (mapM (\<lambda>(k, v). cost_of ''Teacher pricing is invalid'' v) (sorted_list_of_fmap p)) (\<lambda>_. Inr p))
   | _ \<Rightarrow> raise ContractViolation ''Teacher pricing is invalid'')"

definition check_receipt_hash :: "dict \<Rightarrow> unit res" where
  "check_receipt_hash r = (if get r ''receipt_sha256'' = JNull then Inr () else
     bind (content_sha256 (JObj (fmdrop ''receipt_sha256'' r))) (\<lambda>h.
     violation_unless (get r ''receipt_sha256'' = JStr h) ''Teacher response hash mismatch''))"

definition check_candidate_hash :: "dict \<Rightarrow> dict \<Rightarrow> unit res" where
  "check_candidate_hash r c = (if get r ''candidate_sha256'' = JNull then Inr () else
     bind (content_sha256 (JObj c)) (\<lambda>h.
     violation_unless (get r ''candidate_sha256'' = JStr h) ''Teacher candidate hash mismatch''))"

definition parse_response :: "dict \<Rightarrow> dict \<Rightarrow> string \<Rightarrow> teacher_exchange res" where
  "parse_response req r req_sha =
     bind (check_receipt_hash r) (\<lambda>_.
     bind (violation_unless (get r ''request_sha256'' = JStr req_sha) ''Teacher response request hash mismatch'') (\<lambda>_.
     bind (violation_unless (get r ''candidate_status'' = JStr ''inactive'' \<and> get r ''auto_activate'' = JBool False)
       ''Teacher candidate must be inactive'') (\<lambda>_.
     bind (text_field ''Teacher provider'' (get r ''provider'')) (\<lambda>prov.
     bind (text_field ''Teacher model'' (get r ''model'')) (\<lambda>mdl.
     bind (violation_unless (get req ''model'' = JStr mdl) ''Teacher model identity mismatch'') (\<lambda>_.
     bind (candidate_schema (get r ''candidate'')) (\<lambda>(c, v).
     bind (check_candidate_hash r c) (\<lambda>_.
     bind (mapM (\<lambda>n. text_field (''candidate '' @ n) (get c n)) v1_fields) (\<lambda>_.
     bind (if v = 2 then check_candidate_v2 c else Inr ()) (\<lambda>_.
     bind (check_usage (get r ''usage'')) (\<lambda>u.
     bind (violation_unless (py_eq (get r ''network_calls'') (JInt 1)) ''Teacher network call count is invalid'') (\<lambda>_.
     bind (check_pricing (get r ''pricing_cny_per_million'')) (\<lambda>p.
     bind (cost_of ''Teacher cost is invalid'' (get r ''estimated_cost_cny'')) (\<lambda>cost.
     Inr \<lparr>te_candidate = c, te_schema = v, te_provider = prov, te_model = mdl, te_usage = u,
       te_network_calls = get r ''network_calls'', te_pricing = p, te_cost = cost\<rparr>))))))))))))))"

definition parse_exchange :: "json \<Rightarrow> json \<Rightarrow> string \<Rightarrow> teacher_exchange res" where
  "parse_exchange req resp req_sha = (case (req, resp) of
     (JObj q, JObj r) \<Rightarrow> parse_response q r req_sha
   | _ \<Rightarrow> raise ContractViolation ''Teacher request/response must be JSON objects'')"

section \<open>The Operator and the Router of a candidate\<close>

record operator_part =
  op_id :: string
  op_kind :: string
  op_arguments :: "string list"
  op_instruction :: string

definition arguments_of :: "json \<Rightarrow> string list res" where
  "arguments_of j = (case j of
     JList xs \<Rightarrow> bind (violation_unless (list_all is_text xs) ''candidate Operator arguments are invalid'') (\<lambda>_. Inr (map py_str xs))
   | _ \<Rightarrow> raise ContractViolation ''candidate Operator arguments are invalid'')"

definition operator_of :: "json \<Rightarrow> operator_part res" where
  "operator_of j = (case j of
     JObj d \<Rightarrow>
       bind (identifier_field ''candidate Operator id'' (config_or d ''id'' (get d ''operator_id''))) (\<lambda>i.
       bind (text_field ''candidate Operator kind'' (config_or d ''kind'' (JStr ''zero-arg''))) (\<lambda>k.
       bind (arguments_of (config_or d ''arguments'' (JList []))) (\<lambda>a.
       bind (text_field ''candidate Operator instruction'' (get d ''instruction'')) (\<lambda>ins.
       Inr \<lparr>op_id = i, op_kind = k, op_arguments = a, op_instruction = ins\<rparr>))))
   | _ \<Rightarrow> raise ContractViolation ''candidate Operator is invalid'')"

text \<open>\<open>_repair_routes\<close> and the tasks it adds.\<close>

definition missing_tasks :: "(string \<times> string) list \<Rightarrow> string list \<Rightarrow> string list" where
  "missing_tasks routes required = filter (\<lambda>t. t \<notin> fst ` set routes) required"

definition repair_routes :: "(string \<times> string) list \<Rightarrow> string list \<Rightarrow> string \<Rightarrow> (string \<times> string) list" where
  "repair_routes routes required oid = routes @ map (\<lambda>t. (t, oid)) (missing_tasks routes required)"

definition normalize_route_key :: "string \<Rightarrow> string list \<Rightarrow> string res" where
  "normalize_route_key key required = (if key \<in> set required then Inr key else
     case filter (\<lambda>t. substring t key) required of
       [t] \<Rightarrow> Inr t
     | _ \<Rightarrow> raise ContractViolation ''candidate Router task_id is not a safe immutable identifier'')"

text \<open>A row of the Router: an object with the two fields, or a pair.\<close>

definition route_row :: "json \<Rightarrow> (json \<times> json) res" where
  "route_row j = (case j of
     JObj d \<Rightarrow> if fmdom' d = {''task_id'', ''operator_id''} then Inr (get d ''task_id'', get d ''operator_id'')
       else raise ContractViolation ''candidate Router route is invalid''
   | JList [a, b] \<Rightarrow> Inr (a, b)
   | _ \<Rightarrow> raise ContractViolation ''candidate Router route is invalid'')"

definition route_key :: "json \<Rightarrow> string list \<Rightarrow> string res" where
  "route_key j required = bind (text_field ''candidate Router task_id'' j) (\<lambda>t.
     if required \<noteq> [] then normalize_route_key t required
     else bind (require_identifier ''candidate Router task_id'' t) (\<lambda>_. Inr t))"

definition candidate_route :: "string \<Rightarrow> string list \<Rightarrow> json \<Rightarrow> (string \<times> string) res" where
  "candidate_route oid required j = bind (route_row j) (\<lambda>(t, r). bind (route_key t required) (\<lambda>t.
     bind (violation_unless (r = JStr oid) ''candidate Router references another Operator'') (\<lambda>_. Inr (t, oid))))"

text \<open>
  The rows of the Router.  The code visits the items of an object in the order in which the response
  file lists them; the proposal client is the only writer of that file and writes it with sorted
  keys (\<open>_atomic_write\<close> of \<open>canonical_json\<close>), so that order is the sorted one.  A response written by hand
  with its keys in another order gives the same routes in that other order.
\<close>

definition router_rows :: "json \<Rightarrow> json list res" where
  "router_rows raw = (case (case raw of JObj d \<Rightarrow> JList (map (\<lambda>(k, v). JList [JStr k, v]) (sorted_list_of_fmap d)) | _ \<Rightarrow> raw) of
     JList rows \<Rightarrow> bind (violation_unless (rows \<noteq> []) ''candidate Router routes are invalid'') (\<lambda>_. Inr rows)
   | _ \<Rightarrow> raise ContractViolation ''candidate Router routes are invalid'')"

definition candidate_routes :: "json \<Rightarrow> string \<Rightarrow> string list \<Rightarrow> (string \<times> string) list res" where
  "candidate_routes j oid required = (case j of
     JObj d \<Rightarrow> bind (violation_unless (d \<noteq> fmempty) ''candidate Router is invalid'') (\<lambda>_.
       bind (router_rows (if fmdom' d = {''routes''} then get d ''routes'' else j)) (\<lambda>rows.
       bind (mapM (candidate_route oid required) rows) (\<lambda>routes.
       bind (violation_unless (distinct (map fst routes)) ''candidate Router task IDs must be unique'') (\<lambda>_. Inr routes))))
   | _ \<Rightarrow> raise ContractViolation ''candidate Router is invalid'')"

end
