(* ===== verification/Compiler.thy ===== *)
theory Compiler
  imports Teacher_Exchange
begin

text \<open>
  \<open>src/src/evolve/proposals/candidate_chain.py\<close>, second part: the change set of a candidate, the
  compiled assets, the loader that checks a bundle against its Teacher exchange, and the compiler.

  A bundle is the directory of one revision: a map from file names to files.  The fields of a
  loaded asset are the values its file holds; the ones a constructor or the loader checks are
  checked here.
\<close>

section \<open>The change set\<close>

record change_set =
  cg_candidate_id :: string
  cg_revision_id :: string
  cg_parent_id :: string
  cg_candidate_sha :: json
  cg_spec_sha :: json
  cg_protocol :: string
  cg_prompt :: string
  cg_skill :: string
  cg_note :: string
  cg_operator_id :: string
  cg_instruction :: string
  cg_routes :: "(string \<times> string) list"
  cg_active :: json
  cg_kind :: json
  cg_arguments :: "json list"
  cg_memory :: json
  cg_preconditions :: "json list"
  cg_external :: json
  cg_internal :: json
  cg_falsification :: json
  cg_synthesized :: "json list"
  cg_request_sha :: json
  cg_response_sha :: json
  cg_lineage :: json

definition change_set_dict :: "change_set \<Rightarrow> dict" where
  "change_set_dict g = fmap_of_list
     ([(''candidate_id'', JStr (cg_candidate_id g)), (''revision_id'', JStr (cg_revision_id g)),
       (''parent_revision_id'', JStr (cg_parent_id g)), (''source_candidate_sha256'', cg_candidate_sha g),
       (''compile_spec_sha256'', cg_spec_sha g), (''protocol'', JStr (cg_protocol g)), (''prompt_template'', JStr (cg_prompt g)),
       (''skill_text'', JStr (cg_skill g)), (''eval_note'', JStr (cg_note g)), (''operator_id'', JStr (cg_operator_id g)),
       (''operator_instruction'', JStr (cg_instruction g)), (''routes'', routes_json (cg_routes g)), (''active'', cg_active g),
       (''operator_kind'', cg_kind g), (''operator_arguments'', JList (cg_arguments g)), (''memory_policy'', cg_memory g),
       (''preconditions'', JList (cg_preconditions g)), (''expected_external_effect'', cg_external g),
       (''expected_internal_effect'', cg_internal g), (''falsification'', cg_falsification g),
       (''source_request_sha256'', cg_request_sha g), (''source_response_sha256'', cg_response_sha g),
       (''lineage_sha256'', cg_lineage g)]
      @ (if cg_synthesized g = [] then [] else [(''synthesized_task_ids'', JList (cg_synthesized g))]))"

definition change_set_json :: "change_set \<Rightarrow> json" where
  "change_set_json g = JObj (change_set_dict g)"

definition check_hash_field :: "string \<Rightarrow> json \<Rightarrow> unit res" where
  "check_hash_field name j = (if \<not> truthy j then Inr () else case j of
     JStr s \<Rightarrow> violation_unless (is_sha256 s) (name @ '' must be a literal SHA-256'')
   | _ \<Rightarrow> raise TypeError ''expected string or bytes-like object'')"

text \<open>\<open>__post_init__\<close>.\<close>

definition check_change_set :: "change_set \<Rightarrow> unit res" where
  "check_change_set g = all_checks
     ([bind (identifier_field ''candidate_id'' (JStr (cg_candidate_id g))) (\<lambda>_. Inr ()),
       bind (identifier_field ''revision_id'' (JStr (cg_revision_id g))) (\<lambda>_. Inr ()),
       bind (identifier_field ''parent_revision_id'' (JStr (cg_parent_id g))) (\<lambda>_. Inr ()),
       bind (identifier_field ''operator_id'' (JStr (cg_operator_id g))) (\<lambda>_. Inr ()),
       require_text ''protocol'' (cg_protocol g), require_text ''prompt_template'' (cg_prompt g),
       require_text ''skill_text'' (cg_skill g), require_text ''eval_note'' (cg_note g),
       require_text ''operator_instruction'' (cg_instruction g),
       check_hash_field ''source_candidate_sha256'' (cg_candidate_sha g), check_hash_field ''compile_spec_sha256'' (cg_spec_sha g),
       check_hash_field ''source_request_sha256'' (cg_request_sha g), check_hash_field ''source_response_sha256'' (cg_response_sha g),
       check_hash_field ''lineage_sha256'' (cg_lineage g),
       violation_unless (\<not> truthy (cg_active g)) ''compiled candidate must remain inactive'',
       violation_unless (cg_routes g \<noteq> [] \<and> list_all (\<lambda>(t, r). r = cg_operator_id g) (cg_routes g))
         ''candidate routes must select its Operator''])"

definition change_set_required :: "string list" where
  "change_set_required = [''candidate_id'', ''revision_id'', ''parent_revision_id'', ''source_candidate_sha256'', ''compile_spec_sha256'',
     ''protocol'', ''prompt_template'', ''skill_text'', ''eval_note'', ''operator_id'', ''operator_instruction'', ''routes'']"

definition change_set_optional :: "string list" where
  "change_set_optional = [''active'', ''operator_kind'', ''operator_arguments'', ''memory_policy'', ''preconditions'',
     ''expected_external_effect'', ''expected_internal_effect'', ''falsification'', ''synthesized_task_ids'',
     ''source_request_sha256'', ''source_response_sha256'', ''lineage_sha256'']"

text \<open>The keywords of a constructor: none missing, none unknown.\<close>

definition check_keywords :: "string list \<Rightarrow> string list \<Rightarrow> dict \<Rightarrow> unit res" where
  "check_keywords required optional d = all_checks
     [require (fmdom' d \<subseteq> set required \<union> set optional) TypeError ''got an unexpected keyword argument'',
      require (set required \<subseteq> fmdom' d) TypeError ''missing required argument'']"

text \<open>\<open>CandidateChangeSet(**{...})\<close> over the stored change set.\<close>

definition stored_change_set :: "dict \<Rightarrow> change_set res" where
  "stored_change_set d =
     bind (the_item d ''routes'' routes_of) (\<lambda>rs.
     bind (tuple_of (config_or d ''operator_arguments'' (JList []))) (\<lambda>args.
     bind (tuple_of (config_or d ''preconditions'' (JList []))) (\<lambda>pre.
     bind (tuple_of (config_or d ''synthesized_task_ids'' (JList []))) (\<lambda>syn.
     bind (check_keywords change_set_required change_set_optional d) (\<lambda>_.
     bind (identifier_field ''candidate_id'' (get d ''candidate_id'')) (\<lambda>c.
     bind (identifier_field ''revision_id'' (get d ''revision_id'')) (\<lambda>r.
     bind (identifier_field ''parent_revision_id'' (get d ''parent_revision_id'')) (\<lambda>p.
     bind (identifier_field ''operator_id'' (get d ''operator_id'')) (\<lambda>oid.
     bind (text_field ''protocol'' (get d ''protocol'')) (\<lambda>pr.
     bind (text_field ''prompt_template'' (get d ''prompt_template'')) (\<lambda>pt.
     bind (text_field ''skill_text'' (get d ''skill_text'')) (\<lambda>sk.
     bind (text_field ''eval_note'' (get d ''eval_note'')) (\<lambda>en.
     bind (text_field ''operator_instruction'' (get d ''operator_instruction'')) (\<lambda>ins.
     let g = \<lparr>cg_candidate_id = c, cg_revision_id = r, cg_parent_id = p, cg_candidate_sha = get d ''source_candidate_sha256'',
       cg_spec_sha = get d ''compile_spec_sha256'', cg_protocol = pr, cg_prompt = pt, cg_skill = sk, cg_note = en, cg_operator_id = oid,
       cg_instruction = ins, cg_routes = rs, cg_active = config_or d ''active'' (JBool False),
       cg_kind = config_or d ''operator_kind'' (JStr ''zero-arg''), cg_arguments = args, cg_memory = get d ''memory_policy'',
       cg_preconditions = pre, cg_external = get d ''expected_external_effect'', cg_internal = get d ''expected_internal_effect'',
       cg_falsification = get d ''falsification'', cg_synthesized = syn,
       cg_request_sha = config_or d ''source_request_sha256'' (JStr []), cg_response_sha = config_or d ''source_response_sha256'' (JStr []),
       cg_lineage = config_or d ''lineage_sha256'' (JStr [])\<rparr>
     in bind (check_change_set g) (\<lambda>_. Inr g)))))))))))))))"

section \<open>The compiled assets\<close>

record compiled_skill =
  sk_candidate_id :: json
  sk_revision_id :: json
  sk_parent_id :: json
  sk_protocol :: json
  sk_prompt :: json
  sk_text :: json
  sk_preconditions :: "json list"
  sk_external :: json
  sk_internal :: json
  sk_falsification :: json
  sk_lineage :: json

record compiled_operator =
  co_candidate_id :: json
  co_revision_id :: json
  co_operator_id :: json
  co_kind :: json
  co_arguments :: "json list"
  co_instruction :: json
  co_parent_id :: json
  co_lineage :: json

record compiled_router =
  ro_candidate_id :: json
  ro_revision_id :: json
  ro_routes :: "(string \<times> string) list"
  ro_parent_id :: json
  ro_lineage :: json

record compiled_memory =
  my_candidate_id :: json
  my_revision_id :: json
  my_parent_id :: json
  my_policy :: json
  my_lineage :: json

text \<open>\<open>_compiled_encoded\<close> and \<open>_without_metadata\<close>.\<close>

definition asset_dict :: "string \<Rightarrow> (string \<times> json) list \<Rightarrow> dict" where
  "asset_dict kind kvs = fmap_of_list ([(''schema_version'', JInt 1), (''artifact_kind'', JStr kind)] @ kvs)"

definition without_metadata :: "string \<Rightarrow> dict \<Rightarrow> dict res" where
  "without_metadata kind d =
     bind (violation_unless (py_eq (get d ''schema_version'') (JInt 1)) ''compiled artifact schema is invalid'') (\<lambda>_.
     bind (violation_unless (get d ''artifact_kind'' = JStr kind) ''compiled artifact kind is invalid'') (\<lambda>_.
     Inr (fmdrop ''artifact_kind'' (fmdrop ''schema_version'' d))))"

definition skill_fields :: "compiled_skill \<Rightarrow> (string \<times> json) list" where
  "skill_fields s = [(''candidate_id'', sk_candidate_id s), (''revision_id'', sk_revision_id s), (''parent_revision_id'', sk_parent_id s),
     (''protocol'', sk_protocol s), (''prompt_template'', sk_prompt s), (''skill_text'', sk_text s),
     (''preconditions'', JList (sk_preconditions s)), (''expected_external_effect'', sk_external s),
     (''expected_internal_effect'', sk_internal s), (''falsification'', sk_falsification s), (''lineage_sha256'', sk_lineage s)]"

definition operator_fields :: "compiled_operator \<Rightarrow> (string \<times> json) list" where
  "operator_fields p = [(''candidate_id'', co_candidate_id p), (''revision_id'', co_revision_id p), (''operator_id'', co_operator_id p),
     (''kind'', co_kind p), (''arguments'', JList (co_arguments p)), (''instruction'', co_instruction p),
     (''parent_revision_id'', co_parent_id p), (''lineage_sha256'', co_lineage p)]"

definition router_fields :: "compiled_router \<Rightarrow> (string \<times> json) list" where
  "router_fields r = [(''candidate_id'', ro_candidate_id r), (''revision_id'', ro_revision_id r), (''routes'', routes_json (ro_routes r)),
     (''parent_revision_id'', ro_parent_id r), (''lineage_sha256'', ro_lineage r)]"

definition memory_fields :: "compiled_memory \<Rightarrow> (string \<times> json) list" where
  "memory_fields m = [(''candidate_id'', my_candidate_id m), (''revision_id'', my_revision_id m), (''parent_revision_id'', my_parent_id m),
     (''policy'', my_policy m), (''lineage_sha256'', my_lineage m)]"

definition stored_skill :: "dict \<Rightarrow> compiled_skill res" where
  "stored_skill d =
     bind (tuple_of (config_or d ''preconditions'' (JList []))) (\<lambda>pre.
     bind (check_keywords [''candidate_id'', ''revision_id'', ''parent_revision_id'', ''protocol'', ''prompt_template'', ''skill_text'']
       [''preconditions'', ''expected_external_effect'', ''expected_internal_effect'', ''falsification'', ''lineage_sha256''] d) (\<lambda>_.
     Inr \<lparr>sk_candidate_id = get d ''candidate_id'', sk_revision_id = get d ''revision_id'', sk_parent_id = get d ''parent_revision_id'',
       sk_protocol = get d ''protocol'', sk_prompt = get d ''prompt_template'', sk_text = get d ''skill_text'', sk_preconditions = pre,
       sk_external = get d ''expected_external_effect'', sk_internal = get d ''expected_internal_effect'',
       sk_falsification = get d ''falsification'', sk_lineage = config_or d ''lineage_sha256'' (JStr [])\<rparr>))"

definition stored_operator :: "dict \<Rightarrow> compiled_operator res" where
  "stored_operator d =
     bind (the_item d ''arguments'' tuple_of) (\<lambda>args.
     bind (check_keywords [''candidate_id'', ''revision_id'', ''operator_id'', ''kind'', ''arguments'', ''instruction'']
       [''parent_revision_id'', ''lineage_sha256''] d) (\<lambda>_.
     Inr \<lparr>co_candidate_id = get d ''candidate_id'', co_revision_id = get d ''revision_id'', co_operator_id = get d ''operator_id'',
       co_kind = get d ''kind'', co_arguments = args, co_instruction = get d ''instruction'',
       co_parent_id = config_or d ''parent_revision_id'' (JStr []), co_lineage = config_or d ''lineage_sha256'' (JStr [])\<rparr>))"

definition stored_router :: "dict \<Rightarrow> compiled_router res" where
  "stored_router d =
     bind (the_item d ''routes'' routes_of) (\<lambda>rs.
     bind (check_keywords [''candidate_id'', ''revision_id'', ''routes''] [''parent_revision_id'', ''lineage_sha256''] d) (\<lambda>_.
     Inr \<lparr>ro_candidate_id = get d ''candidate_id'', ro_revision_id = get d ''revision_id'', ro_routes = rs,
       ro_parent_id = config_or d ''parent_revision_id'' (JStr []), ro_lineage = config_or d ''lineage_sha256'' (JStr [])\<rparr>))"

definition stored_memory :: "dict \<Rightarrow> compiled_memory res" where
  "stored_memory d =
     bind (check_keywords [''candidate_id'', ''revision_id'', ''parent_revision_id'', ''policy'', ''lineage_sha256''] [] d) (\<lambda>_.
     Inr \<lparr>my_candidate_id = get d ''candidate_id'', my_revision_id = get d ''revision_id'', my_parent_id = get d ''parent_revision_id'',
       my_policy = get d ''policy'', my_lineage = get d ''lineage_sha256''\<rparr>)"

section \<open>Checks of the projection\<close>

text \<open>\<open>x not in {"", y}\<close> hashes \<open>x\<close>.\<close>

definition parent_in :: "json \<Rightarrow> string \<Rightarrow> bool res" where
  "parent_in j p = bind (require (hashable j) TypeError ''unhashable type'') (\<lambda>_. Inr (j = JStr [] \<or> j = JStr p))"

definition skill_derived :: "change_set \<Rightarrow> compiled_skill \<Rightarrow> bool" where
  "skill_derived g s \<longleftrightarrow> sk_parent_id s = JStr (cg_parent_id g) \<and> sk_protocol s = JStr (cg_protocol g)
     \<and> sk_prompt s = JStr (cg_prompt g) \<and> sk_text s = JStr (cg_skill g)
     \<and> same_value (JList (sk_preconditions s)) (JList (cg_preconditions g)) \<and> same_value (sk_external s) (cg_external g)
     \<and> same_value (sk_internal s) (cg_internal g) \<and> same_value (sk_falsification s) (cg_falsification g)"

definition operator_derived :: "change_set \<Rightarrow> compiled_operator \<Rightarrow> bool" where
  "operator_derived g p \<longleftrightarrow> same_value (co_kind p) (cg_kind g) \<and> same_value (JList (co_arguments p)) (JList (cg_arguments g))
     \<and> co_operator_id p = JStr (cg_operator_id g) \<and> co_instruction p = JStr (cg_instruction g)"

definition check_memory :: "change_set \<Rightarrow> compiled_memory option \<Rightarrow> unit res" where
  "check_memory g mo = (case mo of None \<Rightarrow> Inr () | Some m \<Rightarrow>
     violation_unless (my_candidate_id m = JStr (cg_candidate_id g) \<and> my_revision_id m = JStr (cg_revision_id g)
       \<and> my_parent_id m = JStr (cg_parent_id g) \<and> same_value (my_policy m) (cg_memory g))
       ''compiled Memory Policy is not derived from the change set'')"

definition check_projection ::
  "change_set \<Rightarrow> compiled_skill \<Rightarrow> compiled_operator \<Rightarrow> compiled_router \<Rightarrow> compiled_memory option \<Rightarrow> unit res" where
  "check_projection g s p r mo =
     bind (violation_unless (list_all (\<lambda>(c, v). c = JStr (cg_candidate_id g) \<and> v = JStr (cg_revision_id g))
         [(sk_candidate_id s, sk_revision_id s), (co_candidate_id p, co_revision_id p), (ro_candidate_id r, ro_revision_id r)])
       ''compiled candidate lineage identity mismatch'') (\<lambda>_.
     bind (violation_unless (skill_derived g s) ''compiled Skill is not derived from the change set'') (\<lambda>_.
     bind (violation_unless (operator_derived g p) ''compiled Operator is not derived from the change set'') (\<lambda>_.
     bind (parent_in (co_parent_id p) (cg_parent_id g)) (\<lambda>b.
     bind (violation_unless b ''compiled Operator is not derived from the change set'') (\<lambda>_.
     bind (violation_unless (ro_routes r = cg_routes g) ''compiled Router is not derived from the change set'') (\<lambda>_.
     bind (parent_in (ro_parent_id r) (cg_parent_id g)) (\<lambda>b.
     bind (violation_unless (b \<and> list_all (\<lambda>(t, q). JStr q = co_operator_id p) (ro_routes r)) ''compiled Router is not derived from the change set'') (\<lambda>_.
     bind (violation_unless ((mo = None) = (cg_memory g = JNull)) ''compiled Memory Policy presence is invalid'') (\<lambda>_.
     check_memory g mo)))))))))"

text \<open>What the exchange and the specification say the candidate is.\<close>

record candidate_projection =
  pj_operator_id :: string
  pj_kind :: string
  pj_arguments :: "string list"
  pj_instruction :: string
  pj_routes :: "(string \<times> string) list"
  pj_synthesized :: "string list"
  pj_memory :: json
  pj_preconditions :: "json list"
  pj_external :: json
  pj_internal :: json
  pj_falsification :: json

definition bridge_projection :: "compile_spec \<Rightarrow> candidate_projection" where
  "bridge_projection s = \<lparr>pj_operator_id = sp_operator_id s, pj_kind = ''zero-arg'', pj_arguments = [],
     pj_instruction = sp_instruction s, pj_routes = sp_routes s, pj_synthesized = [], pj_memory = JNull, pj_preconditions = [],
     pj_external = JNull, pj_internal = JNull, pj_falsification = JNull\<rparr>"

definition harness_projection :: "dict \<Rightarrow> compile_spec \<Rightarrow> candidate_projection res" where
  "harness_projection c s =
     bind (operator_of (get c ''operator'')) (\<lambda>p.
     bind (candidate_routes (get c ''router'') (op_id p) (sp_required s)) (\<lambda>rs.
     bind (list_value (get c ''preconditions'')) (\<lambda>pre.
     Inr \<lparr>pj_operator_id = op_id p, pj_kind = op_kind p, pj_arguments = op_arguments p, pj_instruction = op_instruction p,
       pj_routes = repair_routes rs (sp_required s) (op_id p), pj_synthesized = missing_tasks rs (sp_required s),
       pj_memory = get c ''memory_policy'', pj_preconditions = pre, pj_external = get c ''expected_external_effect'',
       pj_internal = get c ''expected_internal_effect'', pj_falsification = get c ''falsification''\<rparr>)))"

definition projection_values :: "candidate_projection \<Rightarrow> json list" where
  "projection_values j = [JStr (pj_operator_id j), JStr (pj_kind j), str_list (pj_arguments j), JStr (pj_instruction j),
     routes_json (pj_routes j), pj_memory j, JList (pj_preconditions j), pj_external j, pj_internal j, pj_falsification j]"

definition change_set_values :: "change_set \<Rightarrow> json list" where
  "change_set_values g = [JStr (cg_operator_id g), cg_kind g, JList (cg_arguments g), JStr (cg_instruction g),
     routes_json (cg_routes g), cg_memory g, JList (cg_preconditions g), cg_external g, cg_internal g, cg_falsification g]"

definition check_change_source :: "change_set \<Rightarrow> teacher_exchange \<Rightarrow> compile_spec \<Rightarrow> unit res" where
  "check_change_source g t s =
     bind (violation_unless (get (te_candidate t) ''protocol'' = JStr (cg_protocol g) \<and> get (te_candidate t) ''prompt_template'' = JStr (cg_prompt g)
         \<and> get (te_candidate t) ''skill_text'' = JStr (cg_skill g) \<and> get (te_candidate t) ''eval_note'' = JStr (cg_note g))
       ''compiled change set source projection mismatch'') (\<lambda>_.
     bind (content_sha256 (JObj (te_candidate t))) (\<lambda>ch.
     bind (violation_unless (cg_candidate_sha g = JStr ch) ''compiled change set source projection mismatch'') (\<lambda>_.
     bind (content_sha256 (spec_json s)) (\<lambda>sh.
     bind (violation_unless (cg_spec_sha g = JStr sh) ''compiled change set source projection mismatch'') (\<lambda>_.
     bind (if te_schema t = 1 then Inr (bridge_projection s) else harness_projection (te_candidate t) s) (\<lambda>j.
     bind (violation_unless (te_schema t = 1 \<or> same_value (JList (cg_synthesized g)) (str_list (pj_synthesized j)))
       ''compiled Router repair projection mismatch'') (\<lambda>_.
     violation_unless (same_value (JList (change_set_values g)) (JList (projection_values j)))
       ''compiled Harness source projection mismatch'')))))))"

end
