(* ===== verification/Bundle.thy ===== *)
theory Bundle
  imports Compiler
begin

text \<open>
  \<open>src/src/evolve/proposals/candidate_chain.py\<close>, third part: \<open>CompiledRevision.load\<close> and
  \<open>CandidateCompiler.compile\<close> over the directory of one revision.
\<close>

section \<open>The loader\<close>

type_synonym bundle_dir = "(string, text_file) fmap"

record compiled_revision =
  cv_change_set :: change_set
  cv_skill :: compiled_skill
  cv_operator :: compiled_operator
  cv_router :: compiled_router
  cv_provider :: string
  cv_model :: string
  cv_cost :: pyfloat
  cv_artifacts :: "(string \<times> string) list"
  cv_bundle :: string
  cv_memory :: "compiled_memory option"
  cv_synthesized :: "json list"
  cv_lineage :: string

definition read_manifest :: "bundle_dir \<Rightarrow> (string \<times> dict) res" where
  "read_manifest b = (case fmlookup b ''COMPILED-REVISION.json'' of
     None \<Rightarrow> raise ContractViolation ''compiled revision manifest is unreadable''
   | Some f \<Rightarrow> (case tf_json f of
       None \<Rightarrow> raise ContractViolation ''compiled revision manifest is unreadable''
     | Some (JObj m) \<Rightarrow>
         bind (require (hashable (get m ''schema_version'')) TypeError ''unhashable type'') (\<lambda>_.
         bind (violation_unless (py_eq (get m ''schema_version'') (JInt 1) \<or> py_eq (get m ''schema_version'') (JInt 2))
           ''compiled revision manifest is invalid'') (\<lambda>_. Inr (file_sha256 f, m)))
     | Some _ \<Rightarrow> raise ContractViolation ''compiled revision manifest is invalid''))"

text \<open>\<open>Path(name).name == name\<close>: also the empty name, which no file has.\<close>

definition own_name :: "string \<Rightarrow> bool" where
  "own_name s \<longleftrightarrow> s \<noteq> ''.'' \<and> CHR ''/'' \<notin> set s"

definition artifact_entry :: "bundle_dir \<Rightarrow> json \<Rightarrow> (string \<times> string) res" where
  "artifact_entry b j = (case j of
     JObj e \<Rightarrow> if fmdom' e \<noteq> {''path'', ''sha256''} then raise ContractViolation ''compiled artifact entry is invalid''
       else (case (get e ''path'', get e ''sha256'') of
         (JStr n, JStr h) \<Rightarrow>
           bind (violation_unless (own_name n \<and> is_sha256 h) ''compiled artifact identity is invalid'') (\<lambda>_.
           case fmlookup b n of None \<Rightarrow> raise ContractViolation ''compiled artifact is missing''
           | Some f \<Rightarrow> bind (violation_unless (file_sha256 f = h) ''compiled artifact hash mismatch'') (\<lambda>_. Inr (n, h)))
       | _ \<Rightarrow> raise ContractViolation ''compiled artifact identity is invalid'')
   | _ \<Rightarrow> raise ContractViolation ''compiled artifact entry is invalid'')"

definition artifact_names :: "bool \<Rightarrow> string list" where
  "artifact_names memory = [''TEACHER-REQUEST.json'', ''TEACHER-RESPONSE.json'', ''COMPILE-SPEC.json'', ''MODEL-RECEIPT.json'',
     ''COST-RECEIPT.json'', ''CANDIDATE-CHANGESET.json'', ''COMPILED-SKILL.json'', ''COMPILED-OPERATOR.json'', ''COMPILED-ROUTER.json'']
     @ (if memory then [''COMPILED-MEMORY-POLICY.json''] else [])"

definition with_memory :: "dict \<Rightarrow> bool" where
  "with_memory m \<longleftrightarrow> get m ''memory_policy_present'' = JBool True"

definition read_artifacts :: "bundle_dir \<Rightarrow> dict \<Rightarrow> (string \<times> string) list res" where
  "read_artifacts b m = (case get m ''artifacts'' of
     JList (x # xs) \<Rightarrow>
       bind (mapM (artifact_entry b) (x # xs)) (\<lambda>as.
       bind (violation_unless (length as = length (artifact_names (with_memory m)) \<and> set (map fst as) = set (artifact_names (with_memory m)))
         ''compiled revision artifact set is incomplete'') (\<lambda>_. Inr as))
   | _ \<Rightarrow> raise ContractViolation ''compiled revision artifacts are missing'')"

text \<open>\<open>_artifact_bytes\<close> and \<open>_artifact_json\<close>: the file of a name of the manifest.\<close>

definition artifact_file :: "bundle_dir \<Rightarrow> (string \<times> string) list \<Rightarrow> string \<Rightarrow> text_file res" where
  "artifact_file b as n = bind (violation_unless (n \<in> fst ` set as) ''compiled artifact manifest omits'') (\<lambda>_.
     case fmlookup b n of None \<Rightarrow> raise KeyError n | Some f \<Rightarrow> Inr f)"

definition artifact_json :: "bundle_dir \<Rightarrow> (string \<times> string) list \<Rightarrow> string \<Rightarrow> dict res" where
  "artifact_json b as n = bind (artifact_file b as n) (\<lambda>f. case tf_json f of
     None \<Rightarrow> raise ContractViolation ''compiled artifact is invalid JSON''
   | Some (JObj d) \<Rightarrow> Inr d
   | Some _ \<Rightarrow> raise ContractViolation ''compiled artifact must be an object'')"

definition model_receipt_json :: "teacher_exchange \<Rightarrow> string \<Rightarrow> string \<Rightarrow> json" where
  "model_receipt_json t qh rh = jobj [(''schema_version'', JInt 1), (''provider'', JStr (te_provider t)), (''model'', JStr (te_model t)),
     (''usage'', JObj (te_usage t)), (''network_calls'', te_network_calls t), (''request_sha256'', JStr qh), (''response_sha256'', JStr rh)]"

definition cost_receipt_json :: "teacher_exchange \<Rightarrow> json" where
  "cost_receipt_json t = jobj [(''schema_version'', JInt 1), (''currency'', JStr ''CNY''), (''cost_kind'', JStr ''estimated''),
     (''cost_cny'', JFloat (te_cost t)), (''pricing_cny_per_million'', JObj (te_pricing t)),
     (''source'', JStr ''TEACHER-RESPONSE.json:estimated_cost_cny'')]"

text \<open>The exchange of the bundle, with the hashes of its two files.\<close>

definition load_exchange :: "bundle_dir \<Rightarrow> dict \<Rightarrow> (string \<times> string) list \<Rightarrow> (teacher_exchange \<times> string \<times> string) res" where
  "load_exchange b m as =
     bind (artifact_file b as ''TEACHER-REQUEST.json'') (\<lambda>q.
     bind (artifact_file b as ''TEACHER-RESPONSE.json'') (\<lambda>r.
     bind (violation_unless (get m ''request_sha256'' = JStr (file_sha256 q) \<and> get m ''response_sha256'' = JStr (file_sha256 r))
       ''compiled Teacher lineage hash mismatch'') (\<lambda>_.
     case (tf_json q, tf_json r) of
       (Some qj, Some rj) \<Rightarrow>
         bind (parse_exchange qj rj (file_sha256 q)) (\<lambda>t.
         bind (violation_unless (get m ''provider'' = JStr (te_provider t) \<and> get m ''model'' = JStr (te_model t)
             \<and> same_value (get m ''cost_cny'') (JFloat (te_cost t))) ''compiled Teacher projection identity mismatch'') (\<lambda>_.
         bind (artifact_json b as ''MODEL-RECEIPT.json'') (\<lambda>mr.
         bind (violation_unless (same_value (JObj mr) (model_receipt_json t (file_sha256 q) (file_sha256 r))) ''compiled model receipt identity mismatch'') (\<lambda>_.
         bind (artifact_json b as ''COST-RECEIPT.json'') (\<lambda>cr.
         bind (violation_unless (same_value (JObj cr) (cost_receipt_json t)) ''compiled cost receipt identity mismatch'') (\<lambda>_.
         Inr (t, file_sha256 q, file_sha256 r)))))))
     | _ \<Rightarrow> raise ContractViolation ''compiled Teacher lineage is invalid JSON'')))"

definition load_spec :: "bundle_dir \<Rightarrow> dict \<Rightarrow> (string \<times> string) list \<Rightarrow> compile_spec res" where
  "load_spec b m as =
     bind (artifact_json b as ''COMPILE-SPEC.json'') (\<lambda>d.
     bind (stored_spec d) (\<lambda>s.
     bind (content_sha256 (spec_json s)) (\<lambda>h.
     bind (violation_unless (get m ''compile_spec_sha256'' = JStr h) ''compiled CompileSpec identity mismatch'') (\<lambda>_. Inr s))))"

definition load_change_set :: "bundle_dir \<Rightarrow> dict \<Rightarrow> (string \<times> string) list \<Rightarrow> teacher_exchange \<Rightarrow> compile_spec \<Rightarrow> change_set res" where
  "load_change_set b m as t s =
     bind (artifact_json b as ''CANDIDATE-CHANGESET.json'') (\<lambda>d.
     bind (stored_change_set d) (\<lambda>g.
     bind (check_change_source g t s) (\<lambda>_.
     bind (content_sha256 (change_set_json g)) (\<lambda>h.
     bind (violation_unless (get m ''revision_sha256'' = JStr h) ''compiled candidate revision identity mismatch'') (\<lambda>_.
     bind (violation_unless (get m ''candidate_id'' = JStr (cg_candidate_id g) \<and> get m ''revision_id'' = JStr (cg_revision_id g)
         \<and> get m ''parent_revision_id'' = JStr (cg_parent_id g) \<and> sp_candidate_id s = cg_candidate_id g
         \<and> sp_revision_id s = cg_revision_id g \<and> sp_parent_id s = cg_parent_id g) ''compiled revision lineage identity mismatch'') (\<lambda>_.
     Inr g))))))"

definition load_asset :: "bundle_dir \<Rightarrow> (string \<times> string) list \<Rightarrow> string \<Rightarrow> string \<Rightarrow> (dict \<Rightarrow> 'a res) \<Rightarrow> 'a res" where
  "load_asset b as n kind f = bind (artifact_json b as n) (\<lambda>d. bind (without_metadata kind d) f)"

definition load_memory :: "bundle_dir \<Rightarrow> dict \<Rightarrow> (string \<times> string) list \<Rightarrow> compiled_memory option res" where
  "load_memory b m as = (if with_memory m
     then bind (load_asset b as ''COMPILED-MEMORY-POLICY.json'' ''memory_policy'' stored_memory) (\<lambda>y. Inr (Some y)) else Inr None)"

text \<open>The lineage of a bundle of schema 2.\<close>

definition lineage_json :: "compile_spec \<Rightarrow> string \<Rightarrow> string \<Rightarrow> string \<Rightarrow> string \<Rightarrow> json" where
  "lineage_json s ch sh qh rh = jobj [(''parent_revision_id'', JStr (sp_parent_id s)), (''source_candidate_sha256'', JStr ch),
     (''compile_spec_sha256'', JStr sh), (''request_sha256'', JStr qh), (''response_sha256'', JStr rh)]"

definition check_bundle_lineage ::
  "dict \<Rightarrow> teacher_exchange \<Rightarrow> compile_spec \<Rightarrow> string \<Rightarrow> string \<Rightarrow> change_set \<Rightarrow> json list \<Rightarrow> string res" where
  "check_bundle_lineage m t s qh rh g lineages = (if \<not> py_eq (get m ''schema_version'') (JInt 2) then Inr [] else
     bind (content_sha256 (JObj (te_candidate t))) (\<lambda>ch.
     bind (content_sha256 (spec_json s)) (\<lambda>sh.
     bind (content_sha256 (lineage_json s ch sh qh rh)) (\<lambda>lh.
     bind (violation_unless (same_value (get m ''lineage'') (lineage_json s ch sh qh rh) \<and> get m ''lineage_sha256'' = JStr lh)
       ''compiled candidate lineage hash mismatch'') (\<lambda>_.
     bind (violation_unless (cg_candidate_sha g = JStr ch \<and> cg_spec_sha g = JStr sh \<and> cg_parent_id g = sp_parent_id s
         \<and> get m ''parent_revision_id'' = JStr (sp_parent_id s) \<and> cg_request_sha g = JStr qh \<and> cg_response_sha g = JStr rh
         \<and> cg_lineage g = JStr lh \<and> list_all (\<lambda>l. l = JStr lh) lineages) ''compiled artifact lineage is incomplete'') (\<lambda>_.
     Inr lh))))))"

definition load_revision :: "bundle_dir \<Rightarrow> compiled_revision res" where
  "load_revision b =
     bind (read_manifest b) (\<lambda>(bh, m).
     bind (read_artifacts b m) (\<lambda>as.
     bind (load_exchange b m as) (\<lambda>(t, qh, rh).
     bind (load_spec b m as) (\<lambda>s.
     bind (load_change_set b m as t s) (\<lambda>g.
     bind (load_asset b as ''COMPILED-SKILL.json'' ''skill'' stored_skill) (\<lambda>sk.
     bind (load_asset b as ''COMPILED-OPERATOR.json'' ''operator'' stored_operator) (\<lambda>op.
     bind (load_asset b as ''COMPILED-ROUTER.json'' ''router'' stored_router) (\<lambda>ro.
     bind (load_memory b m as) (\<lambda>my.
     bind (check_projection g sk op ro my) (\<lambda>_.
     bind (check_bundle_lineage m t s qh rh g ([sk_lineage sk, co_lineage op, ro_lineage ro] @ (case my of None \<Rightarrow> [] | Some y \<Rightarrow> [my_lineage y]))) (\<lambda>lh.
     bind (text_field ''manifest provider'' (get m ''provider'')) (\<lambda>prov.
     bind (text_field ''manifest model'' (get m ''model'')) (\<lambda>mdl.
     bind (cost_of ''Teacher cost is invalid'' (get m ''cost_cny'')) (\<lambda>cost.
     Inr \<lparr>cv_change_set = g, cv_skill = sk, cv_operator = op, cv_router = ro, cv_provider = prov, cv_model = mdl, cv_cost = cost,
       cv_artifacts = as, cv_bundle = bh, cv_memory = my, cv_synthesized = cg_synthesized g, cv_lineage = lh\<rparr>))))))))))))))"

section \<open>The compiler\<close>

definition spec_projection :: "teacher_exchange \<Rightarrow> compile_spec \<Rightarrow> candidate_projection res" where
  "spec_projection t s = (if te_schema t = 1 then
       bind (violation_unless (sp_operator_id s \<noteq> [] \<and> sp_instruction s \<noteq> [] \<and> sp_routes s \<noteq> [])
         ''v1 Teacher candidate requires the legacy CompileSpec bridge'') (\<lambda>_. Inr (bridge_projection s))
     else harness_projection (te_candidate t) s)"

definition new_change_set ::
  "teacher_exchange \<Rightarrow> compile_spec \<Rightarrow> candidate_projection \<Rightarrow> string \<Rightarrow> string \<Rightarrow> string \<Rightarrow> string \<Rightarrow> string \<Rightarrow> change_set" where
  "new_change_set t s j ch sh qh rh lh = \<lparr>cg_candidate_id = sp_candidate_id s, cg_revision_id = sp_revision_id s,
     cg_parent_id = sp_parent_id s, cg_candidate_sha = JStr ch, cg_spec_sha = JStr sh,
     cg_protocol = py_str (get (te_candidate t) ''protocol''), cg_prompt = py_str (get (te_candidate t) ''prompt_template''),
     cg_skill = py_str (get (te_candidate t) ''skill_text''), cg_note = py_str (get (te_candidate t) ''eval_note''),
     cg_operator_id = pj_operator_id j, cg_instruction = pj_instruction j, cg_routes = pj_routes j, cg_active = JBool False,
     cg_kind = JStr (pj_kind j), cg_arguments = map JStr (pj_arguments j), cg_memory = pj_memory j,
     cg_preconditions = pj_preconditions j, cg_external = pj_external j, cg_internal = pj_internal j,
     cg_falsification = pj_falsification j, cg_synthesized = map JStr (pj_synthesized j),
     cg_request_sha = JStr qh, cg_response_sha = JStr rh, cg_lineage = JStr lh\<rparr>"

definition skill_asset :: "change_set \<Rightarrow> string \<Rightarrow> compiled_skill" where
  "skill_asset g lh = \<lparr>sk_candidate_id = JStr (cg_candidate_id g), sk_revision_id = JStr (cg_revision_id g),
     sk_parent_id = JStr (cg_parent_id g), sk_protocol = JStr (cg_protocol g), sk_prompt = JStr (cg_prompt g), sk_text = JStr (cg_skill g),
     sk_preconditions = cg_preconditions g, sk_external = cg_external g, sk_internal = cg_internal g,
     sk_falsification = cg_falsification g, sk_lineage = JStr lh\<rparr>"

definition operator_asset :: "change_set \<Rightarrow> string \<Rightarrow> compiled_operator" where
  "operator_asset g lh = \<lparr>co_candidate_id = JStr (cg_candidate_id g), co_revision_id = JStr (cg_revision_id g),
     co_operator_id = JStr (cg_operator_id g), co_kind = cg_kind g, co_arguments = cg_arguments g,
     co_instruction = JStr (cg_instruction g), co_parent_id = JStr (cg_parent_id g), co_lineage = JStr lh\<rparr>"

definition router_asset :: "change_set \<Rightarrow> string \<Rightarrow> compiled_router" where
  "router_asset g lh = \<lparr>ro_candidate_id = JStr (cg_candidate_id g), ro_revision_id = JStr (cg_revision_id g), ro_routes = cg_routes g,
     ro_parent_id = JStr (cg_parent_id g), ro_lineage = JStr lh\<rparr>"

definition memory_asset :: "change_set \<Rightarrow> string \<Rightarrow> compiled_memory option" where
  "memory_asset g lh = (if cg_memory g = JNull then None else Some \<lparr>my_candidate_id = JStr (cg_candidate_id g),
     my_revision_id = JStr (cg_revision_id g), my_parent_id = JStr (cg_parent_id g), my_policy = cg_memory g, my_lineage = JStr lh\<rparr>)"

text \<open>The files of a bundle, in the order they are written.\<close>

definition asset_values :: "teacher_exchange \<Rightarrow> compile_spec \<Rightarrow> change_set \<Rightarrow> string \<Rightarrow> string \<Rightarrow> string \<Rightarrow> (string \<times> json) list" where
  "asset_values t s g qh rh lh =
     [(''COMPILE-SPEC.json'', spec_json s), (''MODEL-RECEIPT.json'', model_receipt_json t qh rh), (''COST-RECEIPT.json'', cost_receipt_json t),
      (''CANDIDATE-CHANGESET.json'', change_set_json g), (''COMPILED-SKILL.json'', JObj (asset_dict ''skill'' (skill_fields (skill_asset g lh)))),
      (''COMPILED-OPERATOR.json'', JObj (asset_dict ''operator'' (operator_fields (operator_asset g lh)))),
      (''COMPILED-ROUTER.json'', JObj (asset_dict ''router'' (router_fields (router_asset g lh))))]
     @ (case memory_asset g lh of None \<Rightarrow> [] | Some y \<Rightarrow> [(''COMPILED-MEMORY-POLICY.json'', JObj (asset_dict ''memory_policy'' (memory_fields y)))])"

definition manifest_dict ::
  "teacher_exchange \<Rightarrow> compile_spec \<Rightarrow> change_set \<Rightarrow> string \<Rightarrow> json \<Rightarrow> string \<Rightarrow> string \<Rightarrow> string \<Rightarrow> string \<Rightarrow> (string \<times> text_file) list \<Rightarrow> dict" where
  "manifest_dict t s g gh lin sh qh rh lh files = fmap_of_list
     [(''schema_version'', JInt 2), (''candidate_id'', JStr (cg_candidate_id g)), (''revision_id'', JStr (cg_revision_id g)),
      (''parent_revision_id'', JStr (cg_parent_id g)), (''revision_sha256'', JStr gh), (''compile_spec_sha256'', JStr sh),
      (''request_sha256'', JStr qh), (''response_sha256'', JStr rh), (''lineage'', lin), (''lineage_sha256'', JStr lh),
      (''memory_policy_present'', JBool (cg_memory g \<noteq> JNull)), (''provider'', JStr (te_provider t)), (''model'', JStr (te_model t)),
      (''cost_cny'', JFloat (te_cost t)),
      (''artifacts'', JList (map (\<lambda>(n, f). jobj [(''path'', JStr n), (''sha256'', JStr (file_sha256 f))]) files))]"

text \<open>\<open>_freeze\<close>: create the file, or find the same bytes in it.\<close>

definition freeze_file :: "string \<Rightarrow> text_file \<Rightarrow> (bundle_dir, unit) op" where
  "freeze_file n f = obind (oread (\<lambda>b. fmlookup b n)) (\<lambda>old. case old of
     None \<Rightarrow> omodify (fmupd n f)
   | Some g \<Rightarrow> olift (violation_unless (tf_text g = tf_text f) ''immutable compiled artifact conflict''))"

fun freeze_files :: "(string \<times> text_file) list \<Rightarrow> (bundle_dir, unit) op" where
  "freeze_files [] = oreturn ()"
| "freeze_files ((n, f) # fs) = obind (freeze_file n f) (\<lambda>_. freeze_files fs)"

text \<open>Everything the compiler computes before it writes.\<close>

definition compile_files :: "text_file \<Rightarrow> text_file \<Rightarrow> compile_spec \<Rightarrow> (string \<times> text_file) list res" where
  "compile_files q r s = (case (tf_json q, tf_json r) of
     (Some qj, Some rj) \<Rightarrow>
       let qh = file_sha256 q; rh = file_sha256 r in
       bind (parse_exchange qj rj qh) (\<lambda>t.
       bind (spec_projection t s) (\<lambda>j.
       bind (content_sha256 (JObj (te_candidate t))) (\<lambda>ch.
       bind (content_sha256 (spec_json s)) (\<lambda>sh.
       let lin = lineage_json s ch sh qh rh in
       bind (content_sha256 lin) (\<lambda>lh.
       let g = new_change_set t s j ch sh qh rh lh in
       bind (check_change_set g) (\<lambda>_.
       bind (check_projection g (skill_asset g lh) (operator_asset g lh) (router_asset g lh) (memory_asset g lh)) (\<lambda>_.
       bind (mapM (\<lambda>(n, v). bind (encoded v) (\<lambda>f. Inr (n, f))) (asset_values t s g qh rh lh)) (\<lambda>vs.
       let files = [(''TEACHER-REQUEST.json'', q), (''TEACHER-RESPONSE.json'', r)] @ vs in
       bind (content_sha256 (change_set_json g)) (\<lambda>gh.
       bind (encoded (JObj (manifest_dict t s g gh lin sh qh rh lh files))) (\<lambda>mf.
       Inr (files @ [(''COMPILED-REVISION.json'', mf)])))))))))))
   | _ \<Rightarrow> raise ContractViolation ''Teacher request/response is unreadable'')"

text \<open>\<open>CandidateCompiler.compile\<close>; a source file that cannot be read is \<open>None\<close>.\<close>

definition compile_candidate :: "text_file option \<Rightarrow> text_file option \<Rightarrow> compile_spec \<Rightarrow> (bundle_dir, compiled_revision) op" where
  "compile_candidate q r s = (case (q, r) of
     (Some q, Some r) \<Rightarrow>
       obind (olift (compile_files q r s)) (\<lambda>files.
       obind (freeze_files files) (\<lambda>_.
       obind (oread load_revision) olift))
   | _ \<Rightarrow> olift (raise ContractViolation ''Teacher request/response is unreadable''))"

end
