(* ===== verification/Bundle_Load.thy ===== *)
theory Bundle_Load
  imports Bundle
begin

text \<open>
  The stored specification, change set and assets read back, and what the parts of the loader make
  of a bundle the compiler wrote.
\<close>

section \<open>Finite values\<close>

lemma finite_nan_free: "finite_json j \<Longrightarrow> nan_free j"
proof (induction j)
  case (JFloat f)
  then show ?case by (cases f) auto
next
  case (JList xs)
  then show ?case by (simp add: list_all_iff)
next
  case (JObj d)
  from JObj.prems have "\<And>k v. fmlookup d k = Some v \<Longrightarrow> finite_json v" by (auto simp: finite_JObj)
  with JObj.IH show ?case by (auto simp: fmpred_iff fmlookup_map fmran'_def dest: fmran'I)
qed simp_all

lemma finite_same: "finite_json j \<Longrightarrow> same_value j j"
  by (simp add: same_value_refl finite_nan_free)

lemma finite_get: "finite_json (JObj d) \<Longrightarrow> finite_json (get d k)"
  by (auto simp: finite_JObj get_def split: option.splits)

lemma encoded_eq_Inr: "encoded j = Inr f \<longleftrightarrow> finite_json j \<and> f = \<lparr>tf_text = json_text j @ [CHR 0x0A], tf_json = Some j\<rparr>"
  by (auto simp: encoded_def canonical_json_def res_simps)

lemma config_or_fmupd [simp]: "config_or (fmupd k v d) l x = (if l = k then v else config_or d l x)"
  by (simp add: config_or_def)

lemma config_or_fmempty [simp]: "config_or fmempty l x = x"
  by (simp add: config_or_def)

section \<open>Round trips\<close>

lemma routes_roundtrip [simp]: "routes_of (routes_json rs) = Inr rs"
  unfolding routes_of_def routes_json_def by (induction rs) (auto simp: route_of_def)

lemma texts_roundtrip [simp]: "mapM str_value (map JStr xs) = Inr xs"
  by (induction xs) simp_all

lemma spec_roundtrip:
  assumes "check_compile_spec s = Inr ()"
  shows "stored_spec (spec_dict s) = Inr s"
proof -
  have f: "sp_cohort s = FEEDBACK" "identifier_field n (JStr (sp_candidate_id s)) = Inr (sp_candidate_id s)"
    "identifier_field n (JStr (sp_revision_id s)) = Inr (sp_revision_id s)"
    "identifier_field n (JStr (sp_parent_id s)) = Inr (sp_parent_id s)" for n
    using assms by (auto simp: check_compile_spec_def res_simps)
  show ?thesis
    using assms f unfolding stored_spec_def spec_dict_def the_item_def
    by (cases s; cases "sp_required s = []") (auto simp: str_list_def Let_def)
qed

lemma change_set_lookups:
  shows "item (change_set_dict g) ''routes'' = Inr (routes_json (cg_routes g))"
    "get (change_set_dict g) ''candidate_id'' = JStr (cg_candidate_id g)"
    "get (change_set_dict g) ''revision_id'' = JStr (cg_revision_id g)"
    "get (change_set_dict g) ''parent_revision_id'' = JStr (cg_parent_id g)"
    "get (change_set_dict g) ''source_candidate_sha256'' = cg_candidate_sha g"
    "get (change_set_dict g) ''compile_spec_sha256'' = cg_spec_sha g"
    "get (change_set_dict g) ''protocol'' = JStr (cg_protocol g)"
    "get (change_set_dict g) ''prompt_template'' = JStr (cg_prompt g)"
    "get (change_set_dict g) ''skill_text'' = JStr (cg_skill g)"
    "get (change_set_dict g) ''eval_note'' = JStr (cg_note g)"
    "get (change_set_dict g) ''operator_id'' = JStr (cg_operator_id g)"
    "get (change_set_dict g) ''operator_instruction'' = JStr (cg_instruction g)"
    "get (change_set_dict g) ''memory_policy'' = cg_memory g"
    "get (change_set_dict g) ''expected_external_effect'' = cg_external g"
    "get (change_set_dict g) ''expected_internal_effect'' = cg_internal g"
    "get (change_set_dict g) ''falsification'' = cg_falsification g"
    "config_or (change_set_dict g) ''active'' (JBool False) = cg_active g"
    "config_or (change_set_dict g) ''operator_kind'' (JStr ''zero-arg'') = cg_kind g"
    "config_or (change_set_dict g) ''operator_arguments'' (JList []) = JList (cg_arguments g)"
    "config_or (change_set_dict g) ''preconditions'' (JList []) = JList (cg_preconditions g)"
    "config_or (change_set_dict g) ''source_request_sha256'' (JStr []) = cg_request_sha g"
    "config_or (change_set_dict g) ''source_response_sha256'' (JStr []) = cg_response_sha g"
    "config_or (change_set_dict g) ''lineage_sha256'' (JStr []) = cg_lineage g"
    "config_or (change_set_dict g) ''synthesized_task_ids'' (JList []) = JList (cg_synthesized g)"
  unfolding change_set_dict_def by simp_all

lemma change_set_keywords: "check_keywords change_set_required change_set_optional (change_set_dict g) = Inr ()"
  by (cases "cg_synthesized g = []")
    (auto simp: change_set_dict_def check_keywords_def change_set_required_def change_set_optional_def res_simps)

lemma change_set_roundtrip:
  assumes "check_change_set g = Inr ()"
  shows "stored_change_set (change_set_dict g) = Inr g"
proof -
  have f: "identifier_field n (JStr (cg_candidate_id g)) = Inr (cg_candidate_id g)"
    "identifier_field n (JStr (cg_revision_id g)) = Inr (cg_revision_id g)"
    "identifier_field n (JStr (cg_parent_id g)) = Inr (cg_parent_id g)"
    "identifier_field n (JStr (cg_operator_id g)) = Inr (cg_operator_id g)"
    "text_field n (JStr (cg_protocol g)) = Inr (cg_protocol g)" "text_field n (JStr (cg_prompt g)) = Inr (cg_prompt g)"
    "text_field n (JStr (cg_skill g)) = Inr (cg_skill g)" "text_field n (JStr (cg_note g)) = Inr (cg_note g)"
    "text_field n (JStr (cg_instruction g)) = Inr (cg_instruction g)" for n
    using assms by (auto simp: check_change_set_def res_simps)
  show ?thesis
    using assms f unfolding stored_change_set_def the_item_def
    by (cases g) (simp add: change_set_lookups change_set_keywords Let_def)
qed

lemma asset_metadata:
  assumes "''schema_version'' \<notin> fst ` set kvs" and "''artifact_kind'' \<notin> fst ` set kvs"
  shows "without_metadata kind (asset_dict kind kvs) = Inr (fmap_of_list kvs)"
proof -
  have n: "fmlookup (fmap_of_list kvs) ''schema_version'' = None" "fmlookup (fmap_of_list kvs) ''artifact_kind'' = None"
    using assms by (auto simp: fmlookup_of_list map_of_eq_None_iff)
  have "fmdrop ''artifact_kind'' (fmdrop ''schema_version'' (asset_dict kind kvs)) = fmap_of_list kvs"
    using n by (intro fmap_ext) (auto simp: asset_dict_def)
  then show ?thesis by (simp add: without_metadata_def asset_dict_def violation_unless_def)
qed

lemma skill_roundtrip: "bind (without_metadata ''skill'' (asset_dict ''skill'' (skill_fields x))) stored_skill = Inr x"
proof -
  have "without_metadata ''skill'' (asset_dict ''skill'' (skill_fields x)) = Inr (fmap_of_list (skill_fields x))"
    by (rule asset_metadata) (simp_all add: skill_fields_def)
  then show ?thesis
    by (cases x) (simp add: stored_skill_def skill_fields_def check_keywords_def require_def)
qed

lemma operator_roundtrip: "bind (without_metadata ''operator'' (asset_dict ''operator'' (operator_fields x))) stored_operator = Inr x"
proof -
  have "without_metadata ''operator'' (asset_dict ''operator'' (operator_fields x)) = Inr (fmap_of_list (operator_fields x))"
    by (rule asset_metadata) (simp_all add: operator_fields_def)
  then show ?thesis
    by (cases x) (simp add: stored_operator_def operator_fields_def check_keywords_def require_def the_item_def)
qed

lemma router_roundtrip: "bind (without_metadata ''router'' (asset_dict ''router'' (router_fields x))) stored_router = Inr x"
proof -
  have "without_metadata ''router'' (asset_dict ''router'' (router_fields x)) = Inr (fmap_of_list (router_fields x))"
    by (rule asset_metadata) (simp_all add: router_fields_def)
  then show ?thesis
    by (cases x) (simp add: stored_router_def router_fields_def check_keywords_def require_def the_item_def)
qed

lemma memory_roundtrip:
  "bind (without_metadata ''memory_policy'' (asset_dict ''memory_policy'' (memory_fields x))) stored_memory = Inr x"
proof -
  have "without_metadata ''memory_policy'' (asset_dict ''memory_policy'' (memory_fields x)) = Inr (fmap_of_list (memory_fields x))"
    by (rule asset_metadata) (simp_all add: memory_fields_def)
  then show ?thesis
    by (cases x) (simp add: stored_memory_def memory_fields_def check_keywords_def require_def)
qed

section \<open>The files of a bundle\<close>

abbreviation hashes :: "(string \<times> text_file) list \<Rightarrow> (string \<times> string) list" where
  "hashes files \<equiv> map (\<lambda>(n, f). (n, file_sha256 f)) files"

definition holds :: "bundle_dir \<Rightarrow> (string \<times> text_file) list \<Rightarrow> bool" where
  "holds b files \<longleftrightarrow> (\<forall>(n, f) \<in> set files. fmlookup b n = Some f)"

lemma holds_lookup: "holds b files \<Longrightarrow> (n, f) \<in> set files \<Longrightarrow> fmlookup b n = Some f"
  by (auto simp: holds_def)

lemma file_sha256_ok [simp]: "is_sha256 (file_sha256 f)"
  by (simp add: file_sha256_def sha256_hex_is_sha256)

lemma artifact_entries:
  assumes "holds b files" and "list_all own_name (map fst files)"
  shows "mapM (artifact_entry b) (map (\<lambda>(n, f). jobj [(''path'', JStr n), (''sha256'', JStr (file_sha256 f))]) files) = Inr (hashes files)"
  using assms
proof (induction files)
  case (Cons x xs)
  obtain n f where x: "x = (n, f)" by (cases x)
  have "holds b xs" "fmlookup b n = Some f" "own_name n" using Cons.prems by (auto simp: holds_def x)
  moreover have "list_all own_name (map fst xs)" using Cons.prems by simp
  ultimately show ?case
    using Cons.IH by (simp add: x artifact_entry_def jobj_def violation_unless_def)
qed simp

lemma read_artifacts_ok:
  assumes "holds b files" and "list_all own_name (map fst files)" and "map fst files = artifact_names (with_memory m)"
    and "get m ''artifacts'' = JList (map (\<lambda>(n, f). jobj [(''path'', JStr n), (''sha256'', JStr (file_sha256 f))]) files)"
  shows "read_artifacts b m = Inr (hashes files)"
proof -
  obtain x xs where x: "files = x # xs" using assms(3) by (cases files) (auto simp: artifact_names_def)
  have fst: "map fst (hashes files) = map fst files" by (induction files) auto
  have "length files = length (artifact_names (with_memory m))" by (metis assms(3) length_map)
  with artifact_entries [OF assms(1,2)] assms(3,4) x fst show ?thesis
    by (auto simp: read_artifacts_def violation_unless_def simp flip: set_map)
qed

lemma artifact_file_ok: "holds b files \<Longrightarrow> (n, f) \<in> set files \<Longrightarrow> artifact_file b (hashes files) n = Inr f"
  by (force simp: artifact_file_def violation_unless_def require_def image_iff dest: holds_lookup)

lemma artifact_json_ok:
  "holds b files \<Longrightarrow> (n, f) \<in> set files \<Longrightarrow> tf_json f = Some (JObj d) \<Longrightarrow> artifact_json b (hashes files) n = Inr d"
  by (simp add: artifact_json_def artifact_file_ok)


text \<open>
  The stages of the loader on a bundle whose files are those the compiler computed.
\<close>

section \<open>What was computed\<close>

abbreviation written :: "json \<Rightarrow> text_file" where
  "written v \<equiv> \<lparr>tf_text = json_text v @ [CHR 0x0A], tf_json = Some v\<rparr>"

lemma encoded_all:
  "mapM (\<lambda>(n, v). bind (encoded v) (\<lambda>f. Inr (n, f))) xs = Inr ys
     \<longleftrightarrow> (\<forall>(n, v) \<in> set xs. finite_json v) \<and> ys = map (\<lambda>(n, v). (n, written v)) xs"
  by (induction xs arbitrary: ys) (auto simp: encoded_eq_Inr bind_eq_Inr)

text \<open>Everything behind a list of compiled files.\<close>

record compile_trace =
  ct_exchange :: teacher_exchange
  ct_projection :: candidate_projection
  ct_candidate :: string
  ct_spec :: string
  ct_lineage :: string
  ct_revision :: string
  ct_change_set :: change_set

definition bundle_files :: "text_file \<Rightarrow> text_file \<Rightarrow> compile_spec \<Rightarrow> compile_trace \<Rightarrow> (string \<times> text_file) list" where
  "bundle_files q r s c = [(''TEACHER-REQUEST.json'', q), (''TEACHER-RESPONSE.json'', r)]
     @ map (\<lambda>(n, v). (n, written v)) (asset_values (ct_exchange c) s (ct_change_set c) (file_sha256 q) (file_sha256 r) (ct_lineage c))"

abbreviation trace_lineage :: "text_file \<Rightarrow> text_file \<Rightarrow> compile_spec \<Rightarrow> compile_trace \<Rightarrow> json" where
  "trace_lineage q r s c \<equiv> lineage_json s (ct_candidate c) (ct_spec c) (file_sha256 q) (file_sha256 r)"

abbreviation trace_manifest :: "text_file \<Rightarrow> text_file \<Rightarrow> compile_spec \<Rightarrow> compile_trace \<Rightarrow> dict" where
  "trace_manifest q r s c \<equiv> manifest_dict (ct_exchange c) s (ct_change_set c) (ct_revision c) (trace_lineage q r s c) (ct_spec c)
     (file_sha256 q) (file_sha256 r) (ct_lineage c) (bundle_files q r s c)"

definition compiled_from :: "text_file \<Rightarrow> text_file \<Rightarrow> compile_spec \<Rightarrow> compile_trace \<Rightarrow> bool" where
  "compiled_from q r s c \<longleftrightarrow> (\<exists>qj rj. tf_json q = Some qj \<and> tf_json r = Some rj
     \<and> parse_exchange qj rj (file_sha256 q) = Inr (ct_exchange c))
   \<and> spec_projection (ct_exchange c) s = Inr (ct_projection c)
   \<and> content_sha256 (JObj (te_candidate (ct_exchange c))) = Inr (ct_candidate c)
   \<and> content_sha256 (spec_json s) = Inr (ct_spec c)
   \<and> content_sha256 (trace_lineage q r s c) = Inr (ct_lineage c)
   \<and> ct_change_set c = new_change_set (ct_exchange c) s (ct_projection c) (ct_candidate c) (ct_spec c) (file_sha256 q) (file_sha256 r) (ct_lineage c)
   \<and> check_change_set (ct_change_set c) = Inr ()
   \<and> check_projection (ct_change_set c) (skill_asset (ct_change_set c) (ct_lineage c)) (operator_asset (ct_change_set c) (ct_lineage c))
       (router_asset (ct_change_set c) (ct_lineage c)) (memory_asset (ct_change_set c) (ct_lineage c)) = Inr ()
   \<and> (\<forall>(n, v) \<in> set (asset_values (ct_exchange c) s (ct_change_set c) (file_sha256 q) (file_sha256 r) (ct_lineage c)). finite_json v)
   \<and> content_sha256 (change_set_json (ct_change_set c)) = Inr (ct_revision c)
   \<and> finite_json (JObj (trace_manifest q r s c))"

lemma compile_files_iff:
  "compile_files q r s = Inr files \<longleftrightarrow> (\<exists>c. compiled_from q r s c
     \<and> files = bundle_files q r s c @ [(''COMPILED-REVISION.json'', written (JObj (trace_manifest q r s c)))])" (is "?l \<longleftrightarrow> ?r")
proof
  assume l: ?l
  then obtain qj rj where j: "tf_json q = Some qj" "tf_json r = Some rj"
    by (auto simp: compile_files_def split: option.splits)
  let ?g = "\<lambda>t p ch sh lh. new_change_set t s p ch sh (file_sha256 q) (file_sha256 r) lh"
  from l obtain t p ch sh lh vs gh mf where
    e: "parse_exchange qj rj (file_sha256 q) = Inr t" "spec_projection t s = Inr p" "content_sha256 (JObj (te_candidate t)) = Inr ch"
      "content_sha256 (spec_json s) = Inr sh" "content_sha256 (lineage_json s ch sh (file_sha256 q) (file_sha256 r)) = Inr lh"
    and g: "check_change_set (?g t p ch sh lh) = Inr ()"
      "check_projection (?g t p ch sh lh) (skill_asset (?g t p ch sh lh) lh) (operator_asset (?g t p ch sh lh) lh) (router_asset (?g t p ch sh lh) lh) (memory_asset (?g t p ch sh lh) lh) = Inr ()"
    and w: "mapM (\<lambda>(n, v). bind (encoded v) (\<lambda>f. Inr (n, f))) (asset_values t s (?g t p ch sh lh) (file_sha256 q) (file_sha256 r) lh) = Inr vs"
      "content_sha256 (change_set_json (?g t p ch sh lh)) = Inr gh"
      "encoded (JObj (manifest_dict t s (?g t p ch sh lh) gh (lineage_json s ch sh (file_sha256 q) (file_sha256 r)) sh (file_sha256 q) (file_sha256 r) lh
         ([(''TEACHER-REQUEST.json'', q), (''TEACHER-RESPONSE.json'', r)] @ vs))) = Inr mf"
    and f: "files = ([(''TEACHER-REQUEST.json'', q), (''TEACHER-RESPONSE.json'', r)] @ vs) @ [(''COMPILED-REVISION.json'', mf)]"
    by (simp add: compile_files_def j Let_def bind_eq_Inr) blast
  let ?c = "\<lparr>ct_exchange = t, ct_projection = p, ct_candidate = ch, ct_spec = sh, ct_lineage = lh, ct_revision = gh, ct_change_set = (?g t p ch sh lh)\<rparr>"
  have "compiled_from q r s ?c"
    using j e g w by (auto simp: compiled_from_def encoded_all encoded_eq_Inr bundle_files_def)
  moreover have "files = bundle_files q r s ?c @ [(''COMPILED-REVISION.json'', written (JObj (trace_manifest q r s ?c)))]"
    using f w by (auto simp: encoded_all encoded_eq_Inr bundle_files_def)
  ultimately show ?r by blast
next
  assume ?r
  then obtain c where c: "compiled_from q r s c"
    and f: "files = bundle_files q r s c @ [(''COMPILED-REVISION.json'', written (JObj (trace_manifest q r s c)))]" by blast
  define vs where "vs = map (\<lambda>(n, v). (n, written v)) (asset_values (ct_exchange c) s (ct_change_set c) (file_sha256 q) (file_sha256 r) (ct_lineage c))"
  have "mapM (\<lambda>(n, v). bind (encoded v) (\<lambda>f. Inr (n, f)))
      (asset_values (ct_exchange c) s (ct_change_set c) (file_sha256 q) (file_sha256 r) (ct_lineage c)) = Inr vs"
    using c by (auto simp: compiled_from_def encoded_all vs_def)
  moreover have "encoded (JObj (trace_manifest q r s c)) = Inr (written (JObj (trace_manifest q r s c)))"
    using c unfolding compiled_from_def encoded_eq_Inr by blast
  ultimately show ?l using c f
    by (auto simp: compile_files_def compiled_from_def Let_def bundle_files_def vs_def simp del: json_text.simps)
qed

section \<open>The stages of the loader\<close>

lemma parse_facts:
  assumes "parse_exchange qj rj h = Inr t"
  shows "te_schema t = 1 \<or> te_schema t = 2"
    and "n \<in> set v1_fields \<Longrightarrow> \<exists>x. get (te_candidate t) n = JStr x \<and> \<not> blank x"
    and "te_schema t = 2 \<Longrightarrow> nonempty_items (get (te_candidate t) ''preconditions'')"
    and "\<not> blank (te_provider t)" and "\<not> blank (te_model t)"
    and "\<not> flt (te_cost t) fzero" and "finite_float (te_cost t)"
proof -
  obtain q r where "qj = JObj q" "rj = JObj r"
    using assms by (cases "(qj, rj)" rule: prod.exhaust) (auto simp: parse_exchange_def split: json.splits)
  with assms have
    c: "candidate_schema (get r ''candidate'') = Inr (te_candidate t, te_schema t)"
      "\<exists>ys. mapM (\<lambda>n. text_field (''candidate '' @ n) (get (te_candidate t) n)) v1_fields = Inr ys"
      "te_schema t = 2 \<Longrightarrow> check_candidate_v2 (te_candidate t) = Inr ()"
    and p: "\<not> blank (te_provider t)" "\<not> blank (te_model t)"
    and k: "cost_of ''Teacher cost is invalid'' (get r ''estimated_cost_cny'') = Inr (te_cost t)"
    by (auto simp: parse_exchange_def parse_response_def res_simps)
  show "te_schema t = 1 \<or> te_schema t = 2"
    using c(1) by (auto simp: candidate_schema_def split: json.splits if_splits)
  show "n \<in> set v1_fields \<Longrightarrow> \<exists>x. get (te_candidate t) n = JStr x \<and> \<not> blank x"
    using c(2) by (auto dest: mapM_left simp: res_simps)
  show "te_schema t = 2 \<Longrightarrow> nonempty_items (get (te_candidate t) ''preconditions'')"
    using c(3) by (auto simp: check_candidate_v2_def res_simps)
  show "\<not> blank (te_provider t)" "\<not> blank (te_model t)" by fact+
  show "\<not> flt (te_cost t) fzero" "finite_float (te_cost t)"
    using k by (auto simp: cost_of_def res_simps)
qed

lemma manifest_lookups:
  "get (manifest_dict t s g gh lin sh qh rh lh files) ''schema_version'' = JInt 2"
  "get (manifest_dict t s g gh lin sh qh rh lh files) ''candidate_id'' = JStr (cg_candidate_id g)"
  "get (manifest_dict t s g gh lin sh qh rh lh files) ''revision_id'' = JStr (cg_revision_id g)"
  "get (manifest_dict t s g gh lin sh qh rh lh files) ''parent_revision_id'' = JStr (cg_parent_id g)"
  "get (manifest_dict t s g gh lin sh qh rh lh files) ''revision_sha256'' = JStr gh"
  "get (manifest_dict t s g gh lin sh qh rh lh files) ''compile_spec_sha256'' = JStr sh"
  "get (manifest_dict t s g gh lin sh qh rh lh files) ''request_sha256'' = JStr qh"
  "get (manifest_dict t s g gh lin sh qh rh lh files) ''response_sha256'' = JStr rh"
  "get (manifest_dict t s g gh lin sh qh rh lh files) ''lineage'' = lin"
  "get (manifest_dict t s g gh lin sh qh rh lh files) ''lineage_sha256'' = JStr lh"
  "get (manifest_dict t s g gh lin sh qh rh lh files) ''memory_policy_present'' = JBool (cg_memory g \<noteq> JNull)"
  "get (manifest_dict t s g gh lin sh qh rh lh files) ''provider'' = JStr (te_provider t)"
  "get (manifest_dict t s g gh lin sh qh rh lh files) ''model'' = JStr (te_model t)"
  "get (manifest_dict t s g gh lin sh qh rh lh files) ''cost_cny'' = JFloat (te_cost t)"
  "get (manifest_dict t s g gh lin sh qh rh lh files) ''artifacts''
     = JList (map (\<lambda>(n, f). jobj [(''path'', JStr n), (''sha256'', JStr (file_sha256 f))]) files)"
  unfolding manifest_dict_def by simp_all

lemma bundle_names: "map fst (bundle_files q r s c) = artifact_names (cg_memory (ct_change_set c) \<noteq> JNull)"
  by (simp add: bundle_files_def asset_values_def artifact_names_def memory_asset_def case_prod_unfold)

lemma bundle_own_names: "list_all own_name (map fst (bundle_files q r s c))"
  unfolding bundle_names by (simp add: artifact_names_def own_name_def)

lemma loaded_artifacts:
  assumes "holds b (bundle_files q r s c)"
  shows "read_artifacts b (trace_manifest q r s c) = Inr (hashes (bundle_files q r s c))"
  by (rule read_artifacts_ok [OF assms bundle_own_names]) (simp_all add: bundle_names manifest_lookups with_memory_def)

lemma bundle_value:
  assumes "(n, JObj d) \<in> set (asset_values (ct_exchange c) s (ct_change_set c) (file_sha256 q) (file_sha256 r) (ct_lineage c))"
    and "holds b (bundle_files q r s c)"
  shows "artifact_json b (hashes (bundle_files q r s c)) n = Inr d"
  by (rule artifact_json_ok [OF assms(2), of n "written (JObj d)"]) (use assms(1) in \<open>force simp: bundle_files_def\<close>, simp)

lemma loaded_exchange:
  assumes "compiled_from q r s c" and "holds b (bundle_files q r s c)"
  shows "load_exchange b (trace_manifest q r s c) (hashes (bundle_files q r s c)) = Inr (ct_exchange c, file_sha256 q, file_sha256 r)"
proof -
  let ?t = "ct_exchange c"
  obtain qj rj where p: "tf_json q = Some qj" "tf_json r = Some rj" "parse_exchange qj rj (file_sha256 q) = Inr ?t"
    using assms(1) by (auto simp: compiled_from_def)
  have f: "artifact_file b (hashes (bundle_files q r s c)) ''TEACHER-REQUEST.json'' = Inr q"
    "artifact_file b (hashes (bundle_files q r s c)) ''TEACHER-RESPONSE.json'' = Inr r"
    by (rule artifact_file_ok [OF assms(2)], simp add: bundle_files_def)+
  obtain mr cr where m: "model_receipt_json ?t (file_sha256 q) (file_sha256 r) = JObj mr" "cost_receipt_json ?t = JObj cr"
    by (simp add: model_receipt_json_def cost_receipt_json_def jobj_def)
  have j: "artifact_json b (hashes (bundle_files q r s c)) ''MODEL-RECEIPT.json'' = Inr mr"
    "artifact_json b (hashes (bundle_files q r s c)) ''COST-RECEIPT.json'' = Inr cr"
    by (rule bundle_value [OF _ assms(2)], simp add: asset_values_def m)+
  have "finite_json (JObj mr)" "finite_json (JObj cr)"
    using assms(1) m by (auto simp: compiled_from_def asset_values_def)
  moreover have "finite_json (JFloat (te_cost ?t))" using parse_facts(7) [OF p(3)] by simp
  ultimately show ?thesis
    using p f j m by (simp add: load_exchange_def manifest_lookups violation_unless_def finite_same)
qed

lemma loaded_spec:
  assumes "compiled_from q r s c" and "holds b (bundle_files q r s c)" and "check_compile_spec s = Inr ()"
  shows "load_spec b (trace_manifest q r s c) (hashes (bundle_files q r s c)) = Inr s"
proof -
  have "artifact_json b (hashes (bundle_files q r s c)) ''COMPILE-SPEC.json'' = Inr (spec_dict s)"
    by (rule bundle_value [OF _ assms(2)]) (simp add: asset_values_def spec_json_def)
  with spec_roundtrip [OF assms(3)] assms(1) show ?thesis
    by (auto simp: load_spec_def manifest_lookups violation_unless_def compiled_from_def)
qed

lemma change_set_finite:
  assumes "finite_json (change_set_json g)"
  shows "finite_json (JList (change_set_values g))" and "finite_json (JList (cg_synthesized g))"
proof -
  have d: "finite_json (JObj (change_set_dict g))" using assms by (simp add: change_set_json_def)
  have g: "finite_json (get (change_set_dict g) k)" for k by (rule finite_get [OF d])
  have i: "item (change_set_dict g) k = Inr v \<Longrightarrow> finite_json v" for k v
    using d by (auto simp: finite_JObj res_simps)
  have o: "config_or (change_set_dict g) k x = v \<Longrightarrow> finite_json x \<Longrightarrow> finite_json v" for k x v
    using d by (auto simp: finite_JObj config_or_def split: option.splits)
  show "finite_json (JList (change_set_values g))"
    using g [of "''memory_policy''"] g [of "''expected_external_effect''"] g [of "''expected_internal_effect''"] g [of "''falsification''"]
      i [of "''routes''"] o [of "''operator_kind''" "JStr ''zero-arg''"] o [of "''operator_arguments''" "JList []"]
      o [of "''preconditions''" "JList []"]
    by (simp add: change_set_lookups change_set_values_def)
  show "finite_json (JList (cg_synthesized g))"
    using o [of "''synthesized_task_ids''" "JList []"] by (simp add: change_set_lookups)
qed

lemma source_ok:
  assumes "compiled_from q r s c"
  shows "check_change_source (ct_change_set c) (ct_exchange c) s = Inr ()"
proof -
  let ?t = "ct_exchange c" and ?g = "ct_change_set c" and ?j = "ct_projection c"
  note k = assms [unfolded compiled_from_def]
  from k obtain qj rj where p: "parse_exchange qj rj (file_sha256 q) = Inr ?t" by blast
  have "te_schema ?t = 1 \<or> te_schema ?t = 2" by (rule parse_facts(1) [OF p])
  with k have j: "(if te_schema ?t = 1 then Inr (bridge_projection s) else harness_projection (te_candidate ?t) s) = Inr ?j"
    by (auto simp: spec_projection_def res_simps)
  have n: "get (te_candidate ?t) ''protocol'' = JStr (cg_protocol ?g)" "get (te_candidate ?t) ''prompt_template'' = JStr (cg_prompt ?g)"
    "get (te_candidate ?t) ''skill_text'' = JStr (cg_skill ?g)" "get (te_candidate ?t) ''eval_note'' = JStr (cg_note ?g)"
    using k parse_facts(2) [OF p, of "''protocol''"] parse_facts(2) [OF p, of "''prompt_template''"]
      parse_facts(2) [OF p, of "''skill_text''"] parse_facts(2) [OF p, of "''eval_note''"]
    by (auto simp: v1_fields_def new_change_set_def)
  have h: "cg_candidate_sha ?g = JStr (ct_candidate c)" "cg_spec_sha ?g = JStr (ct_spec c)"
    "content_sha256 (JObj (te_candidate ?t)) = Inr (ct_candidate c)" "content_sha256 (spec_json s) = Inr (ct_spec c)"
    using k by (auto simp: new_change_set_def)
  have v: "change_set_values ?g = projection_values ?j" "JList (cg_synthesized ?g) = str_list (pj_synthesized ?j)"
    using k by (auto simp: new_change_set_def change_set_values_def projection_values_def str_list_def)
  have "finite_json (change_set_json ?g)" using k by (auto simp: res_simps)
  from change_set_finite [OF this] have
    "same_value (JList (change_set_values ?g)) (JList (projection_values ?j))"
    "same_value (JList (cg_synthesized ?g)) (str_list (pj_synthesized ?j))"
    unfolding v(1) v(2) [symmetric] by (blast intro: finite_same)+
  with j n h show ?thesis by (simp add: check_change_source_def violation_unless_def)
qed

lemma trace_ids:
  assumes "compiled_from q r s c"
  shows "cg_candidate_id (ct_change_set c) = sp_candidate_id s" "cg_revision_id (ct_change_set c) = sp_revision_id s"
    "cg_parent_id (ct_change_set c) = sp_parent_id s" "cg_candidate_sha (ct_change_set c) = JStr (ct_candidate c)"
    "cg_spec_sha (ct_change_set c) = JStr (ct_spec c)" "cg_request_sha (ct_change_set c) = JStr (file_sha256 q)"
    "cg_response_sha (ct_change_set c) = JStr (file_sha256 r)" "cg_lineage (ct_change_set c) = JStr (ct_lineage c)"
  using assms by (auto simp: compiled_from_def new_change_set_def)

lemma loaded_change_set:
  assumes "compiled_from q r s c" and "holds b (bundle_files q r s c)"
  shows "load_change_set b (trace_manifest q r s c) (hashes (bundle_files q r s c)) (ct_exchange c) s = Inr (ct_change_set c)"
proof -
  have k: "check_change_set (ct_change_set c) = Inr ()" "content_sha256 (change_set_json (ct_change_set c)) = Inr (ct_revision c)"
    using assms(1) by (auto simp: compiled_from_def)
  have "artifact_json b (hashes (bundle_files q r s c)) ''CANDIDATE-CHANGESET.json'' = Inr (change_set_dict (ct_change_set c))"
    by (rule bundle_value [OF _ assms(2)]) (simp add: asset_values_def change_set_json_def)
  with change_set_roundtrip [OF k(1)] source_ok [OF assms(1)] k(2) trace_ids [OF assms(1)] show ?thesis
    by (simp add: load_change_set_def manifest_lookups violation_unless_def)
qed

lemma loaded_assets:
  assumes "holds b (bundle_files q r s c)"
  shows "load_asset b (hashes (bundle_files q r s c)) ''COMPILED-SKILL.json'' ''skill'' stored_skill
      = Inr (skill_asset (ct_change_set c) (ct_lineage c))"
    and "load_asset b (hashes (bundle_files q r s c)) ''COMPILED-OPERATOR.json'' ''operator'' stored_operator
      = Inr (operator_asset (ct_change_set c) (ct_lineage c))"
    and "load_asset b (hashes (bundle_files q r s c)) ''COMPILED-ROUTER.json'' ''router'' stored_router
      = Inr (router_asset (ct_change_set c) (ct_lineage c))"
    and "load_memory b (trace_manifest q r s c) (hashes (bundle_files q r s c)) = Inr (memory_asset (ct_change_set c) (ct_lineage c))"
proof -
  let ?g = "ct_change_set c" and ?l = "ct_lineage c" and ?a = "hashes (bundle_files q r s c)"
  have "artifact_json b ?a ''COMPILED-SKILL.json'' = Inr (asset_dict ''skill'' (skill_fields (skill_asset ?g ?l)))"
    "artifact_json b ?a ''COMPILED-OPERATOR.json'' = Inr (asset_dict ''operator'' (operator_fields (operator_asset ?g ?l)))"
    "artifact_json b ?a ''COMPILED-ROUTER.json'' = Inr (asset_dict ''router'' (router_fields (router_asset ?g ?l)))"
    by (rule bundle_value [OF _ assms], simp add: asset_values_def)+
  then show "load_asset b ?a ''COMPILED-SKILL.json'' ''skill'' stored_skill = Inr (skill_asset ?g ?l)"
    "load_asset b ?a ''COMPILED-OPERATOR.json'' ''operator'' stored_operator = Inr (operator_asset ?g ?l)"
    "load_asset b ?a ''COMPILED-ROUTER.json'' ''router'' stored_router = Inr (router_asset ?g ?l)"
    by (simp_all add: load_asset_def skill_roundtrip operator_roundtrip router_roundtrip)
  show "load_memory b (trace_manifest q r s c) ?a = Inr (memory_asset ?g ?l)"
  proof (cases "cg_memory ?g = JNull")
    case False
    then obtain y where y: "memory_asset ?g ?l = Some y" by (simp add: memory_asset_def)
    have "artifact_json b ?a ''COMPILED-MEMORY-POLICY.json'' = Inr (asset_dict ''memory_policy'' (memory_fields y))"
      by (rule bundle_value [OF _ assms]) (simp add: asset_values_def y)
    with False y show ?thesis
      by (simp add: load_memory_def manifest_lookups with_memory_def load_asset_def memory_roundtrip)
  qed (simp add: load_memory_def manifest_lookups with_memory_def memory_asset_def)
qed

lemma lineage_ok:
  assumes "compiled_from q r s c"
  shows "check_bundle_lineage (trace_manifest q r s c) (ct_exchange c) s (file_sha256 q) (file_sha256 r) (ct_change_set c)
    ([sk_lineage (skill_asset (ct_change_set c) (ct_lineage c)), co_lineage (operator_asset (ct_change_set c) (ct_lineage c)),
      ro_lineage (router_asset (ct_change_set c) (ct_lineage c))]
     @ (case memory_asset (ct_change_set c) (ct_lineage c) of None \<Rightarrow> [] | Some y \<Rightarrow> [my_lineage y])) = Inr (ct_lineage c)"
proof -
  note k = assms [unfolded compiled_from_def]
  have h: "content_sha256 (JObj (te_candidate (ct_exchange c))) = Inr (ct_candidate c)" "content_sha256 (spec_json s) = Inr (ct_spec c)"
    "content_sha256 (trace_lineage q r s c) = Inr (ct_lineage c)"
    using k by blast+
  have "same_value (trace_lineage q r s c) (trace_lineage q r s c)" using h(3) by (auto simp: res_simps intro: finite_same)
  with h trace_ids [OF assms] show ?thesis
    by (simp add: check_bundle_lineage_def manifest_lookups violation_unless_def skill_asset_def operator_asset_def router_asset_def memory_asset_def)
qed

section \<open>The loader accepts what the compiler computed\<close>

definition revision_of_trace :: "text_file \<Rightarrow> text_file \<Rightarrow> compile_spec \<Rightarrow> compile_trace \<Rightarrow> compiled_revision" where
  "revision_of_trace q r s c = \<lparr>cv_change_set = ct_change_set c, cv_skill = skill_asset (ct_change_set c) (ct_lineage c),
     cv_operator = operator_asset (ct_change_set c) (ct_lineage c), cv_router = router_asset (ct_change_set c) (ct_lineage c),
     cv_provider = te_provider (ct_exchange c), cv_model = te_model (ct_exchange c), cv_cost = te_cost (ct_exchange c),
     cv_artifacts = hashes (bundle_files q r s c), cv_bundle = file_sha256 (written (JObj (trace_manifest q r s c))),
     cv_memory = memory_asset (ct_change_set c) (ct_lineage c), cv_synthesized = cg_synthesized (ct_change_set c), cv_lineage = ct_lineage c\<rparr>"

lemma loads_back:
  assumes "compiled_from q r s c" and "check_compile_spec s = Inr ()" and "holds b (bundle_files q r s c)"
    and "fmlookup b ''COMPILED-REVISION.json'' = Some (written (JObj (trace_manifest q r s c)))"
  shows "load_revision b = Inr (revision_of_trace q r s c)"
proof -
  let ?t = "ct_exchange c" and ?M = "written (JObj (trace_manifest q r s c))"
  note k = assms(1) [unfolded compiled_from_def]
  from k obtain qj rj where p: "parse_exchange qj rj (file_sha256 q) = Inr ?t" by blast
  have m: "read_manifest b = Inr (file_sha256 ?M, trace_manifest q r s c)"
    using assms(4) by (simp add: read_manifest_def manifest_lookups violation_unless_def del: json_text.simps)
  have i: "text_field ''manifest provider'' (JStr (te_provider ?t)) = Inr (te_provider ?t)"
    "text_field ''manifest model'' (JStr (te_model ?t)) = Inr (te_model ?t)"
    "cost_of ''Teacher cost is invalid'' (JFloat (te_cost ?t)) = Inr (te_cost ?t)"
    using parse_facts(4-7) [OF p] by (auto simp: res_simps cost_of_def number_float_def violation_unless_def)
  have j: "check_projection (ct_change_set c) (skill_asset (ct_change_set c) (ct_lineage c)) (operator_asset (ct_change_set c) (ct_lineage c))
      (router_asset (ct_change_set c) (ct_lineage c)) (memory_asset (ct_change_set c) (ct_lineage c)) = Inr ()"
    using k by blast
  show ?thesis
    unfolding load_revision_def m revision_of_trace_def
    by (simp add: loaded_artifacts [OF assms(3)] loaded_exchange [OF assms(1,3)] loaded_spec [OF assms(1,3,2)]
      loaded_change_set [OF assms(1,3)] loaded_assets [OF assms(3)] j lineage_ok [OF assms(1), simplified] manifest_lookups i del: json_text.simps)
qed

end
