(* ===== verification/Bundle_Demo.thy ===== *)
theory Bundle_Demo
  imports Bundle_Load
begin

text \<open>
  One compiled candidate: two required tasks, of which the Teacher's Router names one by a derived
  key and forgets the other.
\<close>

definition x_request :: text_file where
  "x_request = written (jobj [(''model'', JStr ''m'')])"

definition x_candidate :: dict where
  "x_candidate = fmap_of_list [(''protocol'', JStr ''p''), (''prompt_template'', JStr ''t''), (''skill_text'', JStr ''s''),
     (''eval_note'', JStr ''n''), (''operator'', jobj [(''id'', JStr ''op''), (''instruction'', JStr ''do'')]),
     (''router'', jobj [(''round1-a'', JStr ''op'')]), (''memory_policy'', jobj [(''keep'', JInt 1)]),
     (''preconditions'', JList [JStr ''c'']), (''expected_external_effect'', JStr ''e''),
     (''expected_internal_effect'', JStr ''i''), (''falsification'', JStr ''f'')]"

definition x_usage :: dict where
  "x_usage = fmap_of_list [(''prompt_tokens'', JInt 1), (''completion_tokens'', JInt 1), (''total_tokens'', JInt 2)]"

definition x_pricing :: dict where
  "x_pricing = fmap_of_list [(''input'', JFloat (Fin 0))]"

definition x_reply :: dict where
  "x_reply = fmap_of_list [(''request_sha256'', JStr (file_sha256 x_request)), (''candidate_status'', JStr ''inactive''),
     (''auto_activate'', JBool False), (''provider'', JStr ''q''), (''model'', JStr ''m''), (''candidate'', JObj x_candidate),
     (''usage'', JObj x_usage), (''network_calls'', JInt 1), (''pricing_cny_per_million'', JObj x_pricing),
     (''estimated_cost_cny'', JFloat (Fin 0))]"

definition x_response :: text_file where
  "x_response = written (JObj x_reply)"

definition x_spec :: compile_spec where
  "x_spec = \<lparr>sp_candidate_id = ''c'', sp_revision_id = ''r'', sp_parent_id = ''p'', sp_cohort = FEEDBACK, sp_operator_id = [],
     sp_instruction = [], sp_routes = [], sp_required = [''a'', ''b'']\<rparr>"

definition x_exchange :: teacher_exchange where
  "x_exchange = \<lparr>te_candidate = x_candidate, te_schema = 2, te_provider = ''q'', te_model = ''m'', te_usage = x_usage,
     te_network_calls = JInt 1, te_pricing = x_pricing, te_cost = Fin 0\<rparr>"

definition x_projection :: candidate_projection where
  "x_projection = \<lparr>pj_operator_id = ''op'', pj_kind = ''zero-arg'', pj_arguments = [], pj_instruction = ''do'',
     pj_routes = [(''a'', ''op''), (''b'', ''op'')], pj_synthesized = [''b''], pj_memory = jobj [(''keep'', JInt 1)],
     pj_preconditions = [JStr ''c''], pj_external = JStr ''e'', pj_internal = JStr ''i'', pj_falsification = JStr ''f''\<rparr>"

definition x_lineage :: string where
  "x_lineage = digest (lineage_json x_spec (digest (JObj x_candidate)) (digest (spec_json x_spec)) (file_sha256 x_request) (file_sha256 x_response))"

definition x_change_set :: change_set where
  "x_change_set = new_change_set x_exchange x_spec x_projection (digest (JObj x_candidate)) (digest (spec_json x_spec))
     (file_sha256 x_request) (file_sha256 x_response) x_lineage"

definition x_trace :: compile_trace where
  "x_trace = \<lparr>ct_exchange = x_exchange, ct_projection = x_projection, ct_candidate = digest (JObj x_candidate),
     ct_spec = digest (spec_json x_spec), ct_lineage = x_lineage, ct_revision = digest (change_set_json x_change_set),
     ct_change_set = x_change_set\<rparr>"

lemma x_spec_ok: "check_compile_spec x_spec = Inr ()"
  by (simp add: check_compile_spec_def x_spec_def identifier_field_def text_field_def violation_unless_def require_identifier_def
    is_identifier_def is_alnum_def blank_def is_space_def check_bridge_def Let_def)

lemma single_key: "sorted_list_of_fmap (fmupd k v fmempty) = [(k, v)]"
proof -
  have "sorted_list_of_fset {|k|} = [k]" by (simp add: sorted_list_of_fset.rep_eq)
  then show ?thesis by (simp add: sorted_list_of_fmap_def)
qed

lemma x_reply_lookups:
  "get x_reply ''receipt_sha256'' = JNull" "get x_reply ''candidate_sha256'' = JNull"
  "get x_reply ''request_sha256'' = JStr (file_sha256 x_request)" "get x_reply ''candidate_status'' = JStr ''inactive''"
  "get x_reply ''auto_activate'' = JBool False" "get x_reply ''provider'' = JStr ''q''" "get x_reply ''model'' = JStr ''m''"
  "get x_reply ''candidate'' = JObj x_candidate" "get x_reply ''usage'' = JObj x_usage" "get x_reply ''network_calls'' = JInt 1"
  "get x_reply ''pricing_cny_per_million'' = JObj x_pricing" "get x_reply ''estimated_cost_cny'' = JFloat (Fin 0)"
  by (simp_all add: x_reply_def)

lemma x_candidate_lookups:
  "get x_candidate ''protocol'' = JStr ''p''" "get x_candidate ''prompt_template'' = JStr ''t''"
  "get x_candidate ''skill_text'' = JStr ''s''" "get x_candidate ''eval_note'' = JStr ''n''"
  "get x_candidate ''operator'' = jobj [(''id'', JStr ''op''), (''instruction'', JStr ''do'')]"
  "get x_candidate ''router'' = jobj [(''round1-a'', JStr ''op'')]" "get x_candidate ''memory_policy'' = jobj [(''keep'', JInt 1)]"
  "get x_candidate ''preconditions'' = JList [JStr ''c'']" "get x_candidate ''expected_external_effect'' = JStr ''e''"
  "get x_candidate ''expected_internal_effect'' = JStr ''i''" "get x_candidate ''falsification'' = JStr ''f''"
  by (simp_all add: x_candidate_def)

lemma short_text: "\<not> is_space c \<Longrightarrow> text_field n (JStr [c]) = Inr [c]"
  by (simp add: text_field_def violation_unless_def blank_def)

lemma not_spaces: "\<not> is_space CHR ''q''" "\<not> is_space CHR ''m''" "\<not> is_space CHR ''p''" "\<not> is_space CHR ''t''" "\<not> is_space CHR ''s''"
  "\<not> is_space CHR ''n''"
  by (simp_all add: is_space_def)

lemma x_schema: "candidate_schema (JObj x_candidate) = Inr (x_candidate, 2)"
proof -
  have "fmdom' x_candidate = set v2_fields" by (simp add: x_candidate_def v1_fields_def v2_fields_def effect_fields_def)
  moreover have "''router'' \<in> set v2_fields" "''router'' \<notin> set v1_fields" by (simp_all add: v1_fields_def v2_fields_def)
  then have "set v2_fields \<noteq> set v1_fields" by blast
  ultimately show ?thesis by (simp add: candidate_schema_def)
qed

lemma x_texts: "mapM (\<lambda>n. text_field (''candidate '' @ n) (get x_candidate n)) v1_fields = Inr [''p'', ''t'', ''s'', ''n'']"
  by (simp add: v1_fields_def x_candidate_lookups short_text not_spaces)

lemma x_v2: "check_candidate_v2 x_candidate = Inr ()"
  by (simp add: check_candidate_v2_def x_candidate_lookups jobj_def effect_fields_def empty_value_def violation_unless_def)

lemma x_numbers:
  "check_usage (JObj x_usage) = Inr x_usage" "check_pricing (JObj x_pricing) = Inr x_pricing"
  "cost_of ''Teacher cost is invalid'' (JFloat (Fin 0)) = Inr (Fin 0)"
  by (simp_all add: check_usage_def x_usage_def check_pricing_def x_pricing_def violation_unless_def single_key cost_of_def number_float_def fzero_def)

lemma x_parse: "parse_exchange (jobj [(''model'', JStr ''m'')]) (JObj x_reply) (file_sha256 x_request) = Inr x_exchange"
  unfolding x_exchange_def parse_exchange_def jobj_def prod.case json.case parse_response_def check_receipt_hash_def check_candidate_hash_def
    x_reply_lookups x_schema x_numbers violation_unless_def
  by (simp add: x_texts [unfolded append_Cons append_Nil] x_v2 short_text not_spaces del: mapM.simps)

lemma x_projected: "spec_projection x_exchange x_spec = Inr x_projection"
proof -
  have o: "operator_of (get x_candidate ''operator'') = Inr \<lparr>op_id = ''op'', op_kind = ''zero-arg'', op_arguments = [], op_instruction = ''do''\<rparr>"
    by (simp add: operator_of_def x_candidate_lookups jobj_def identifier_field_def text_field_def violation_unless_def require_identifier_def
      is_identifier_def is_alnum_def blank_def is_space_def arguments_of_def Let_def)
  have r: "candidate_routes (get x_candidate ''router'') ''op'' [''a'', ''b''] = Inr [(''a'', ''op'')]"
    by (simp add: candidate_routes_def x_candidate_lookups jobj_def violation_unless_def router_rows_def single_key
      candidate_route_def route_row_def route_key_def text_field_def blank_def is_space_def normalize_route_key_def)
  show ?thesis
    by (simp add: spec_projection_def harness_projection_def x_exchange_def x_spec_def o r)
      (simp add: x_projection_def x_candidate_lookups repair_routes_def missing_tasks_def)
qed

lemma x_fields:
  "cg_candidate_id x_change_set = ''c''" "cg_revision_id x_change_set = ''r''" "cg_parent_id x_change_set = ''p''"
  "cg_candidate_sha x_change_set = JStr (digest (JObj x_candidate))" "cg_spec_sha x_change_set = JStr (digest (spec_json x_spec))"
  "cg_protocol x_change_set = ''p''" "cg_prompt x_change_set = ''t''" "cg_skill x_change_set = ''s''" "cg_note x_change_set = ''n''"
  "cg_operator_id x_change_set = ''op''" "cg_instruction x_change_set = ''do''"
  "cg_routes x_change_set = [(''a'', ''op''), (''b'', ''op'')]" "cg_active x_change_set = JBool False" "cg_kind x_change_set = JStr ''zero-arg''"
  "cg_arguments x_change_set = []" "cg_memory x_change_set = jobj [(''keep'', JInt 1)]" "cg_preconditions x_change_set = [JStr ''c'']"
  "cg_external x_change_set = JStr ''e''" "cg_internal x_change_set = JStr ''i''" "cg_falsification x_change_set = JStr ''f''"
  "cg_synthesized x_change_set = [JStr ''b'']" "cg_request_sha x_change_set = JStr (file_sha256 x_request)"
  "cg_response_sha x_change_set = JStr (file_sha256 x_response)" "cg_lineage x_change_set = JStr x_lineage"
  by (simp_all add: x_change_set_def new_change_set_def x_exchange_def x_spec_def x_projection_def x_candidate_lookups)

lemma x_checked: "check_change_set x_change_set = Inr ()"
proof -
  have "is_sha256 x_lineage" by (simp add: x_lineage_def)
  then show ?thesis
    by (simp add: check_change_set_def x_fields check_hash_field_def identifier_field_def text_field_def require_text_def require_def
      violation_unless_def require_identifier_def is_identifier_def is_alnum_def blank_def is_space_def Let_def)
qed

lemma x_memory: "memory_asset x_change_set x_lineage = Some \<lparr>my_candidate_id = JStr ''c'', my_revision_id = JStr ''r'',
    my_parent_id = JStr ''p'', my_policy = jobj [(''keep'', JInt 1)], my_lineage = JStr x_lineage\<rparr>"
  by (simp add: memory_asset_def x_fields jobj_def)

lemma x_projection_ok: "check_projection x_change_set (skill_asset x_change_set x_lineage) (operator_asset x_change_set x_lineage)
    (router_asset x_change_set x_lineage) (memory_asset x_change_set x_lineage) = Inr ()"
proof -
  have k: "same_value (jobj [(''keep'', JInt 1)]) (jobj [(''keep'', JInt 1)])" by (rule finite_same) (simp add: finite_jobj)
  have n: "jobj [(''keep'', JInt 1)] \<noteq> JNull" by (simp add: jobj_def)
  show ?thesis
  unfolding x_memory
  by (simp add: k n check_projection_def skill_asset_def operator_asset_def router_asset_def x_fields violation_unless_def skill_derived_def
    operator_derived_def parent_in_def check_memory_def finite_same)
qed

lemma x_finite: "finite_json (JObj x_candidate)" "finite_json (JObj x_usage)" "finite_json (JObj x_pricing)"
  "finite_json (spec_json x_spec)" "finite_json (change_set_json x_change_set)"
proof -
  have k: "finite_json (jobj [(''keep'', JInt 1)])" by (simp add: finite_jobj)
  show "finite_json (JObj x_candidate)"
    unfolding x_candidate_def by (rule finite_fields) (simp add: finite_jobj)
  show "finite_json (JObj x_usage)" "finite_json (JObj x_pricing)"
    unfolding x_usage_def x_pricing_def by (rule finite_fields, simp)+
  show "finite_json (spec_json x_spec)"
    unfolding spec_json_def spec_dict_def by (rule finite_fields) (simp add: x_spec_def routes_json_def str_list_def)
  show "finite_json (change_set_json x_change_set)"
    unfolding change_set_json_def change_set_dict_def x_fields by (rule finite_fields) (simp add: routes_json_def k)
qed

lemma x_compiled: "compiled_from x_request x_response x_spec x_trace"
proof -
  let ?q = "file_sha256 x_request" and ?r = "file_sha256 x_response"
  have l: "finite_json (lineage_json x_spec ch sh ?q ?r)" for ch sh
    by (simp add: lineage_json_def finite_jobj)
  have a: "\<forall>(n, v) \<in> set (asset_values x_exchange x_spec x_change_set ?q ?r x_lineage). finite_json v"
    unfolding asset_values_def x_memory
    by (simp add: x_finite)
      (simp add: x_exchange_def model_receipt_json_def cost_receipt_json_def asset_dict_def skill_fields_def operator_fields_def router_fields_def
        memory_fields_def skill_asset_def operator_asset_def router_asset_def x_fields routes_json_def finite_jobj finite_fmupd x_finite)
  have m: "finite_json (JObj (manifest_dict x_exchange x_spec x_change_set gh (lineage_json x_spec ch sh ?q ?r) sh ?q ?r lh files))" for gh ch sh lh files
    unfolding manifest_dict_def
    by (rule finite_fields) (simp add: x_exchange_def l list_all_iff finite_jobj case_prod_unfold)
  have p: "parse_exchange (jobj [(''model'', JStr ''m'')]) (JObj x_reply) ?q = Inr x_exchange" by (rule x_parse)
  have j: "tf_json x_request = Some (jobj [(''model'', JStr ''m'')])" "tf_json x_response = Some (JObj x_reply)"
    by (simp_all add: x_request_def x_response_def)
  have e: "te_candidate x_exchange = x_candidate" by (simp add: x_exchange_def)
  have h: "content_sha256 (JObj x_candidate) = Inr (digest (JObj x_candidate))" "content_sha256 (spec_json x_spec) = Inr (digest (spec_json x_spec))"
    "content_sha256 (change_set_json x_change_set) = Inr (digest (change_set_json x_change_set))"
    "content_sha256 (lineage_json x_spec (digest (JObj x_candidate)) (digest (spec_json x_spec)) ?q ?r) = Inr x_lineage"
    by (simp_all add: content_sha256_eq_Inr x_finite l x_lineage_def)
  show ?thesis
    unfolding compiled_from_def x_trace_def compile_trace.simps e
    by (intro conjI exI)
      (fact j p x_projected h x_change_set_def x_checked x_projection_ok a m)+
qed

definition x_files :: "(string \<times> text_file) list" where
  "x_files = bundle_files x_request x_response x_spec x_trace
     @ [(''COMPILED-REVISION.json'', written (JObj (trace_manifest x_request x_response x_spec x_trace)))]"

lemma x_compile_files: "compile_files x_request x_response x_spec = Inr x_files"
  using x_compiled by (auto simp: compile_files_iff x_files_def)

lemma distinct_lookup: "distinct (map fst files) \<Longrightarrow> (n, f) \<in> set files \<Longrightarrow> fmlookup (fmap_of_list files) n = Some f"
  unfolding fmlookup_of_list by (rule map_of_is_SomeI)

lemma files_hold:
  assumes "distinct (map fst (bundle_files q r s c @ [(''COMPILED-REVISION.json'', f)]))"
  shows "holds (fmap_of_list (bundle_files q r s c @ [(''COMPILED-REVISION.json'', f)])) (bundle_files q r s c)"
    and "fmlookup (fmap_of_list (bundle_files q r s c @ [(''COMPILED-REVISION.json'', f)])) ''COMPILED-REVISION.json'' = Some f"
  using distinct_lookup [OF assms] by (auto simp: holds_def)

lemma bundle_distinct: "distinct (map fst (bundle_files q r s c @ [(''COMPILED-REVISION.json'', f)]))"
  by (simp add: bundle_names artifact_names_def)

lemma x_loads: "load_revision (fmap_of_list x_files) = Inr (revision_of_trace x_request x_response x_spec x_trace)"
  unfolding x_files_def
  by (rule loads_back [OF x_compiled x_spec_ok files_hold [OF bundle_distinct]])

lemma x_routes: "ro_routes (cv_router (revision_of_trace x_request x_response x_spec x_trace)) = [(''a'', ''op''), (''b'', ''op'')]"
  by (simp add: revision_of_trace_def router_asset_def x_trace_def x_fields)

text \<open>The same bundle with a file of another name beside it.\<close>

lemma holds_beside: "holds b files \<Longrightarrow> n \<notin> fst ` set files \<Longrightarrow> holds (fmupd n f b) files"
  by (force simp: holds_def)

lemma x_loads_noted: "load_revision (fmupd ''NOTES'' x_request (fmap_of_list x_files)) = Inr (revision_of_trace x_request x_response x_spec x_trace)"
proof (rule loads_back [OF x_compiled x_spec_ok])
  have "''NOTES'' \<notin> fst ` set (bundle_files x_request x_response x_spec x_trace)"
    unfolding set_map [symmetric] bundle_names by (simp add: artifact_names_def)
  then show "holds (fmupd ''NOTES'' x_request (fmap_of_list x_files)) (bundle_files x_request x_response x_spec x_trace)"
    unfolding x_files_def by (rule holds_beside [OF files_hold(1) [OF bundle_distinct]])
  show "fmlookup (fmupd ''NOTES'' x_request (fmap_of_list x_files)) ''COMPILED-REVISION.json''
      = Some (written (JObj (trace_manifest x_request x_response x_spec x_trace)))"
    using files_hold(2) [OF bundle_distinct, of x_request x_response x_spec x_trace] unfolding x_files_def by simp
qed

end
