(* ===== verification/Bundle_Claims.thy ===== *)
theory Bundle_Claims
  imports Bundle_Demo
begin

text \<open>
  What a compiled bundle promises: the compiler's output loads, also after a crash and on a second
  run; its Router covers the required tasks; its hash fixes every loaded value.
\<close>

section \<open>Freezing files\<close>

lemma add_lookup: "fmlookup (m ++\<^sub>f m') k = (case fmlookup m' k of None \<Rightarrow> fmlookup m k | Some v \<Rightarrow> Some v)"
  by (cases "fmlookup m' k") (auto simp: fmdom_notI fmdomI)

definition file_agrees :: "bundle_dir \<Rightarrow> (string \<times> text_file) list \<Rightarrow> bool" where
  "file_agrees b files \<longleftrightarrow> (\<forall>(n, f) \<in> set files. fmlookup b n = None \<or> fmlookup b n = Some f)"

lemma freeze_file_agrees: "fmlookup b n = None \<or> fmlookup b n = Some f \<Longrightarrow> freeze_file n f b = (fmupd n f b, Inr ())"
  by (auto simp: freeze_file_def violation_unless_def intro!: fmap_ext)

lemma freeze_files_agrees:
  assumes "file_agrees b files" and "distinct (map fst files)"
  shows "freeze_files files b = (b ++\<^sub>f fmap_of_list files, Inr ())"
  using assms
proof (induction files arbitrary: b)
  case (Cons x xs)
  obtain n f where x: "x = (n, f)" by (cases x)
  have "file_agrees (fmupd n f b) xs"
    using Cons.prems by (force simp: file_agrees_def x)
  moreover have "fmupd n f b ++\<^sub>f fmap_of_list xs = b ++\<^sub>f fmap_of_list (x # xs)"
  proof (rule fmap_ext)
    fix k
    have "fmlookup (fmap_of_list xs) n = None"
      using Cons.prems(2) by (simp add: x fmlookup_of_list map_of_eq_None_iff)
    then show "fmlookup (fmupd n f b ++\<^sub>f fmap_of_list xs) k = fmlookup (b ++\<^sub>f fmap_of_list (x # xs)) k"
      unfolding add_lookup x by (auto split: option.splits simp del: fmlookup_of_list)
  qed
  ultimately show ?case
    using Cons freeze_file_agrees [of b n f] by (auto simp: x file_agrees_def obind_def)
qed simp

lemma prefix_agrees: "distinct (map fst files) \<Longrightarrow> file_agrees (fmap_of_list (take n files)) files"
proof -
  assume d: "distinct (map fst files)"
  have "map_of (take n files) k = None \<or> map_of (take n files) k = Some f" if "(k, f) \<in> set files" for k f
  proof (cases "map_of (take n files) k")
    case (Some g)
    then have "(k, g) \<in> set files" by (meson in_set_takeD map_of_SomeD)
    with that d have "g = f" by (metis map_of_is_SomeI option.inject)
    with Some show ?thesis by simp
  qed simp
  then show ?thesis by (auto simp: file_agrees_def fmlookup_of_list)
qed

lemma prefix_completed:
  assumes "distinct (map fst files)"
  shows "fmap_of_list (take n files) ++\<^sub>f fmap_of_list files = fmap_of_list files"
proof (rule fmap_ext)
  fix k
  have "fst ` set (take n files) \<subseteq> fst ` set files" by (auto dest: in_set_takeD)
  then have "fmlookup (fmap_of_list files) k = None \<Longrightarrow> fmlookup (fmap_of_list (take n files)) k = None"
    by (force simp: fmlookup_of_list map_of_eq_None_iff)
  then show "fmlookup (fmap_of_list (take n files) ++\<^sub>f fmap_of_list files) k = fmlookup (fmap_of_list files) k"
    unfolding add_lookup by (cases "fmlookup (fmap_of_list files) k") simp_all
qed

section \<open>Routes\<close>

lemma normalize_route_key_sound:
  "normalize_route_key k required = Inr t \<Longrightarrow> t \<in> set required \<and> substring t k"
proof -
  assume n: "normalize_route_key k required = Inr t"
  show ?thesis
  proof (cases "k \<in> set required")
    case True
    with n have "t = k" by (simp add: normalize_route_key_def)
    moreover have "substring k k" using substring_iff [of k k] by (metis append_Nil append_Nil2)
    ultimately show ?thesis using True by simp
  next
    case False
    with n have "filter (\<lambda>t. substring t k) required = [t]"
      by (auto simp: normalize_route_key_def split: list.splits)
    then have "t \<in> set (filter (\<lambda>t. substring t k) required)" by simp
    then show ?thesis by simp
  qed
qed

lemma candidate_routes_sound:
  assumes "candidate_routes j oid required = Inr rs"
  shows "distinct (map fst rs)" and "list_all (\<lambda>(t, r). r = oid) rs" and "required \<noteq> [] \<Longrightarrow> fst ` set rs \<subseteq> set required"
proof -
  obtain rows where m: "mapM (candidate_route oid required) rows = Inr rs" and d: "distinct (map fst rs)"
    using assms by (auto simp: candidate_routes_def res_simps split: json.splits)
  show "distinct (map fst rs)" by (rule d)
  have "\<exists>row. candidate_route oid required row = Inr x" if "x \<in> set rs" for x
    using mapM_right [OF m that] by blast
  then have r: "snd x = oid \<and> (required \<noteq> [] \<longrightarrow> fst x \<in> set required)" if "x \<in> set rs" for x
    using that by (fastforce simp: candidate_route_def route_key_def res_simps dest: normalize_route_key_sound)
  then show "list_all (\<lambda>(t, r). r = oid) rs" by (auto simp: list_all_iff)
  show "fst ` set rs \<subseteq> set required" if "required \<noteq> []" using r that by auto
qed

lemma required_distinct: "check_required seen ts = Inr () \<Longrightarrow> distinct ts \<and> set ts \<inter> set seen = {}"
proof (induction ts arbitrary: seen)
  case (Cons a ts)
  then have "a \<notin> set seen" and c: "check_required (a # seen) ts = Inr ()" by (auto simp: res_simps)
  with Cons.IH [OF c] show ?case by auto
qed simp

lemma repaired_routes:
  assumes "candidate_routes j oid required = Inr rs" and "distinct required" and "required \<noteq> []"
  shows "distinct (map fst (repair_routes rs required oid))" and "fst ` set (repair_routes rs required oid) = set required"
proof -
  have m: "map fst (repair_routes rs required oid) = map fst rs @ missing_tasks rs required"
    by (simp add: repair_routes_def comp_def)
  show "distinct (map fst (repair_routes rs required oid))"
    using candidate_routes_sound(1) [OF assms(1)] assms(2) unfolding m by (auto simp: missing_tasks_def)
  have "fst ` set (repair_routes rs required oid) = fst ` set rs \<union> set (missing_tasks rs required)"
    by (metis m image_set set_append)
  also have "\<dots> = set required"
    using candidate_routes_sound(3) [OF assms(1,3)] by (auto simp: missing_tasks_def)
  finally show "fst ` set (repair_routes rs required oid) = set required" .
qed

section \<open>What a loaded revision rests on\<close>

lemma loaded_parts:
  assumes "load_revision b = Inr v"
  obtains m as t qh rh s lh where "read_manifest b = Inr (cv_bundle v, m)" "read_artifacts b m = Inr as"
    "load_exchange b m as = Inr (t, qh, rh)" "load_spec b m as = Inr s"
    "load_change_set b m as t s = Inr (cv_change_set v)"
    "check_projection (cv_change_set v) (cv_skill v) (cv_operator v) (cv_router v) (cv_memory v) = Inr ()"
  using assms unfolding load_revision_def by (auto simp: bind_eq_Inr)

lemma load_spec_checked: "load_spec b m as = Inr s \<Longrightarrow> check_compile_spec s = Inr ()"
  by (auto simp: load_spec_def stored_spec_def res_simps Let_def)

lemma load_change_set_source:
  "load_change_set b m as t s = Inr g \<Longrightarrow> check_change_source g t s = Inr () \<and> check_change_set g = Inr ()"
  by (auto simp: load_change_set_def stored_change_set_def res_simps Let_def)

lemma routes_json_inj [simp]: "routes_json rs = routes_json rs' \<longleftrightarrow> rs = rs'"
proof -
  have "inj (\<lambda>(t, r). JList [JStr t, JStr r])" by (auto intro: injI)
  then show ?thesis by (simp add: routes_json_def inj_map_eq_map)
qed

lemma routes_norm: "num_norm (routes_json rs) = routes_json rs"
  by (simp add: routes_json_def case_prod_unfold comp_def)

lemma same_routes: "same_value (JList (change_set_values g)) (JList (projection_values j)) \<Longrightarrow>
    cg_operator_id g = pj_operator_id j \<and> cg_routes g = pj_routes j"
  by (auto simp: same_value_def py_eq_def change_set_values_def projection_values_def routes_norm)

section \<open>The loaded values depend on the named files only\<close>

lemma artifact_file_cong:
  assumes "\<And>n. n \<in> fst ` set as \<Longrightarrow> fmlookup b n = fmlookup b' n"
  shows "artifact_file b as = artifact_file b' as" and "artifact_json b as = artifact_json b' as"
proof -
  show "artifact_file b as = artifact_file b' as"
    by (rule ext) (auto simp: artifact_file_def assms bind_def violation_unless_def require_def)
  then show "artifact_json b as = artifact_json b' as" by (simp add: fun_eq_iff artifact_json_def)
qed

lemma artifact_entry_named:
  assumes "artifact_entry b j = Inr (n, h)"
  shows "\<exists>f. fmlookup b n = Some f \<and> file_sha256 f = h" and "\<exists>e. j = JObj e \<and> get e ''path'' = JStr n \<and> get e ''sha256'' = JStr h"
  using assms by (auto simp: artifact_entry_def res_simps split: json.splits if_splits option.splits)

lemma artifact_entry_eq: "artifact_entry b j = Inr x \<Longrightarrow> artifact_entry b' j = Inr y \<Longrightarrow> x = y"
  using artifact_entry_named(2) [of b j "fst x" "snd x"] artifact_entry_named(2) [of b' j "fst y" "snd y"]
  by (auto simp: prod_eq_iff)

lemma artifact_entries_eq: "mapM (artifact_entry b) js = Inr xs \<Longrightarrow> mapM (artifact_entry b') js = Inr ys \<Longrightarrow> xs = ys"
  by (induction js arbitrary: xs ys) (auto simp: bind_eq_Inr dest: artifact_entry_eq)

lemma read_artifacts_named:
  assumes "read_artifacts b m = Inr as" and "(n, h) \<in> set as"
  shows "\<exists>f. fmlookup b n = Some f \<and> file_sha256 f = h"
proof -
  obtain js where "mapM (artifact_entry b) js = Inr as"
    using assms(1) by (auto simp: read_artifacts_def res_simps split: json.splits list.splits simp del: mapM.simps)
  from mapM_right [OF this assms(2)] show ?thesis by (auto dest: artifact_entry_named(1))
qed

lemma read_artifacts_eq: "read_artifacts b m = Inr as \<Longrightarrow> read_artifacts b' m = Inr as' \<Longrightarrow> as = as'"
  unfolding read_artifacts_def
  by (cases "get m ''artifacts''") (auto simp: bind_eq_Inr res_simps split: list.splits dest: artifact_entries_eq artifact_entry_eq)

text \<open>What \<open>load_revision\<close> does once the manifest and the entries are read.\<close>

lemma load_revision_cong:
  assumes "read_manifest b = read_manifest b'" and "\<And>h m. read_manifest b = Inr (h, m) \<Longrightarrow> read_artifacts b m = read_artifacts b' m"
    and "\<And>h m as n. read_manifest b = Inr (h, m) \<Longrightarrow> read_artifacts b m = Inr as \<Longrightarrow> n \<in> fst ` set as \<Longrightarrow> fmlookup b n = fmlookup b' n"
  shows "load_revision b = load_revision b'"
proof (cases "read_manifest b")
  case (Inr hm)
  obtain h m where m: "read_manifest b = Inr (h, m)" using Inr by (cases hm) simp
  show ?thesis
  proof (cases "read_artifacts b m")
    case (Inr as)
    have c: "artifact_file b as = artifact_file b' as" "artifact_json b as = artifact_json b' as"
      by (rule artifact_file_cong, erule assms(3) [OF m Inr])+
    have "load_asset b as n k f = load_asset b' as n k f" for n k and f :: "dict \<Rightarrow> 'x res"
      by (simp add: load_asset_def c)
    moreover have "load_exchange b m as = load_exchange b' m as" unfolding load_exchange_def c by (rule refl)
    moreover have "load_spec b m as = load_spec b' m as" by (simp add: load_spec_def c)
    moreover have "load_change_set b m as = load_change_set b' m as" by (simp add: load_change_set_def fun_eq_iff c)
    moreover have "load_memory b m as = load_memory b' m as" by (simp add: load_memory_def load_asset_def c)
    ultimately show ?thesis
      using m Inr assms(1) assms(2) [OF m] by (simp add: load_revision_def load_asset_def c)
  qed (use m assms(1) assms(2) [OF m] in \<open>simp add: load_revision_def\<close>)
qed (use assms(1) in \<open>simp add: load_revision_def\<close>)

text \<open>The Router of every bundle the loader accepts covers the required tasks exactly: for a candidate of schema 2
  compiled with required tasks, the routed tasks are those tasks, each once; every route, of either schema, leads to the
  Operator of the bundle, and the candidate is inactive.\<close>

theorem loaded_router_covers:
  assumes "load_revision b = Inr v"
  shows "\<exists>m as t qh rh s. read_manifest b = Inr (cv_bundle v, m) \<and> read_artifacts b m = Inr as
    \<and> load_exchange b m as = Inr (t, qh, rh) \<and> load_spec b m as = Inr s
    \<and> (te_schema t = 2 \<and> sp_required s \<noteq> [] \<longrightarrow>
        distinct (map fst (ro_routes (cv_router v))) \<and> fst ` set (ro_routes (cv_router v)) = set (sp_required s))
    \<and> list_all (\<lambda>(task, operator). co_operator_id (cv_operator v) = JStr operator) (ro_routes (cv_router v))
    \<and> \<not> truthy (cg_active (cv_change_set v))"
proof -
  obtain m as t qh rh s where
    p: "read_manifest b = Inr (cv_bundle v, m)" "read_artifacts b m = Inr as" "load_exchange b m as = Inr (t, qh, rh)" "load_spec b m as = Inr s"
    and g: "load_change_set b m as t s = Inr (cv_change_set v)"
    and j: "check_projection (cv_change_set v) (cv_skill v) (cv_operator v) (cv_router v) (cv_memory v) = Inr ()"
    using loaded_parts [OF assms] by metis
  have r: "ro_routes (cv_router v) = cg_routes (cv_change_set v)"
    "list_all (\<lambda>(task, operator). co_operator_id (cv_operator v) = JStr operator) (ro_routes (cv_router v))"
    using j by (auto simp: check_projection_def res_simps list_all_iff)
  have a: "\<not> truthy (cg_active (cv_change_set v))"
    using load_change_set_source [OF g] by (simp add: check_change_set_def res_simps)
  have "distinct (map fst (cg_routes (cv_change_set v))) \<and> fst ` set (cg_routes (cv_change_set v)) = set (sp_required s)"
    if c: "te_schema t = 2" "sp_required s \<noteq> []"
  proof -
    from load_change_set_source [OF g] c obtain h where
      "harness_projection (te_candidate t) s = Inr h" "cg_routes (cv_change_set v) = pj_routes h"
      by (auto simp: check_change_source_def res_simps dest: same_routes)
    then obtain i rs where "candidate_routes (get (te_candidate t) ''router'') i (sp_required s) = Inr rs"
      "cg_routes (cv_change_set v) = repair_routes rs (sp_required s) i"
      by (auto simp: harness_projection_def res_simps)
    moreover have "distinct (sp_required s)"
      using load_spec_checked [OF p(4)] required_distinct [of "[]"] by (simp add: check_compile_spec_def res_simps)
    ultimately show ?thesis using repaired_routes c(2) by simp
  qed
  with p r a show ?thesis by auto
qed


theorem loaded_router_covers_witness:
  "load_revision (fmap_of_list x_files) = Inr (revision_of_trace x_request x_response x_spec x_trace)
   \<and> list_all (\<lambda>(task, operator). co_operator_id (cv_operator (revision_of_trace x_request x_response x_spec x_trace)) = JStr operator)
      [(''a'', ''op''), (''b'', ''op'')]"
  using loaded_router_covers [OF x_loads] x_loads unfolding x_routes by blast

text \<open>C25: The compiler's output always loads: when the compiler computed the files of a bundle for a valid specification,
  then from any prefix of these files, the empty directory, a crash after any write or the whole bundle included, a run
  completes the same bundle and returns the same loaded revision.\<close>

theorem compile_completes_and_loads:
  assumes "compile_files q r s = Inr files" and "check_compile_spec s = Inr ()"
  shows "\<exists>rev. load_revision (fmap_of_list files) = Inr rev
    \<and> (\<forall>n. compile_candidate (Some q) (Some r) s (fmap_of_list (take n files)) = (fmap_of_list files, Inr rev))
    \<and> ro_routes (cv_router rev) = cg_routes (cv_change_set rev) \<and> cg_revision_id (cv_change_set rev) = sp_revision_id s"
proof -
  from assms(1) obtain c where c: "compiled_from q r s c"
    and f: "files = bundle_files q r s c @ [(''COMPILED-REVISION.json'', written (JObj (trace_manifest q r s c)))]"
    by (auto simp: compile_files_iff)
  have d: "distinct (map fst files)" unfolding f by (rule bundle_distinct)
  have l: "load_revision (fmap_of_list files) = Inr (revision_of_trace q r s c)"
    unfolding f by (rule loads_back [OF c assms(2) files_hold [OF bundle_distinct]])
  have "compile_candidate (Some q) (Some r) s (fmap_of_list (take n files)) = (fmap_of_list files, Inr (revision_of_trace q r s c))" for n
    by (simp add: compile_candidate_def assms(1) obind_def freeze_files_agrees [OF prefix_agrees [OF d] d] prefix_completed [OF d] l)
  with l trace_ids(2) [OF c] show ?thesis by (auto simp: revision_of_trace_def router_asset_def)
qed

theorem compile_completes_and_loads_witness:
  "\<exists>rev. compile_candidate (Some x_request) (Some x_response) x_spec (fmap_of_list (take 3 x_files)) = (fmap_of_list x_files, Inr rev)"
  using compile_completes_and_loads [OF x_compile_files x_spec_ok] by blast

text \<open>The bundle hash binds the revision: two bundles that load with the same bundle hash load to the same revision, down to
  every field of every asset, or two different texts have one SHA-256.  The last case, one text that is read as two values, is
  none of a deterministic parser.\<close>

theorem bundle_hash_binds_revision:
  assumes "load_revision b = Inr v" and "load_revision b' = Inr v'" and "cv_bundle v = cv_bundle v'"
  shows "v = v' \<or> (\<exists>x y. x \<noteq> y \<and> sha256_hex (utf8 x) = sha256_hex (utf8 y))
    \<or> (\<exists>n f g. fmlookup b n = Some f \<and> fmlookup b' n = Some g \<and> tf_text f = tf_text g \<and> tf_json f \<noteq> tf_json g)"
proof (rule ccontr)
  assume n: "\<not> ?thesis"
  have same: "f = g" if "fmlookup b n = Some f" "fmlookup b' n = Some g" "file_sha256 f = file_sha256 g" for n f g
    using that n by (cases f; cases g) (force simp: file_sha256_def)
  obtain m as m' as' where m: "read_manifest b = Inr (cv_bundle v, m)" "read_artifacts b m = Inr as"
    "read_manifest b' = Inr (cv_bundle v', m')" "read_artifacts b' m' = Inr as'"
    using loaded_parts [OF assms(1)] loaded_parts [OF assms(2)] by metis
  obtain f g where "fmlookup b ''COMPILED-REVISION.json'' = Some f" "file_sha256 f = cv_bundle v" "tf_json f = Some (JObj m)"
    "fmlookup b' ''COMPILED-REVISION.json'' = Some g" "file_sha256 g = cv_bundle v'" "tf_json g = Some (JObj m')"
    using m(1,3) by (auto simp: read_manifest_def res_simps split: option.splits json.splits)
  then have mm: "m' = m" using same [of "''COMPILED-REVISION.json''" f g] assms(3) by simp
  have aa: "as' = as" using m(2,4) mm by (auto dest: read_artifacts_eq)
  have "fmlookup b n = fmlookup b' n" if "n \<in> fst ` set as" for n
  proof -
    from that obtain h where h: "(n, h) \<in> set as" by auto
    obtain f f' where "fmlookup b n = Some f" "file_sha256 f = h" "fmlookup b' n = Some f'" "file_sha256 f' = h"
      using read_artifacts_named [OF m(2) h] read_artifacts_named [OF m(4), of n h] h aa by auto
    with same [of n f f'] show ?thesis by simp
  qed
  then have "load_revision b = load_revision b'"
    using m mm aa assms(3) by (intro load_revision_cong) auto
  with assms(1,2) n show False by simp
qed

theorem bundle_hash_binds_revision_witness:
  "\<exists>v v'. load_revision (fmap_of_list x_files) = Inr v \<and> load_revision (fmupd ''NOTES'' x_request (fmap_of_list x_files)) = Inr v'
    \<and> (v = v' \<or> (\<exists>x y. x \<noteq> y \<and> sha256_hex (utf8 x) = sha256_hex (utf8 y))
      \<or> (\<exists>n f g. fmlookup (fmap_of_list x_files) n = Some f \<and> fmlookup (fmupd ''NOTES'' x_request (fmap_of_list x_files)) n = Some g
          \<and> tf_text f = tf_text g \<and> tf_json f \<noteq> tf_json g))"
  by (intro exI conjI, rule x_loads, rule x_loads_noted, rule bundle_hash_binds_revision [OF x_loads x_loads_noted refl])

end
