(* ===== verification/Execution.thy ===== *)
theory Execution
  imports Evidence_Graph Teacher_Exchange Goal
begin

text \<open>
  \<open>src/src/evolve/observers/observer_hub.py\<close>: observers turn receipts into evidence, and the hub appends
  the evidence to its graph.  An observer is a function on receipts; the observers of the source are
  instances of \<open>observe_receipt\<close>.  A hub without a graph only reports.
\<close>

section \<open>Observers\<close>

type_synonym observer = "receipt \<Rightarrow> evidence_envelope option res"

record receipt_observer =
  ro_observer_id :: string
  ro_kinds :: "string list"
  ro_grade :: claim_grade

definition observation_id :: "string \<Rightarrow> string \<Rightarrow> string" where
  "observation_id o' h = ''evidence-'' @ sha256_hex (utf8 (o' @ [CHR 0x00] @ h))"

definition observation_payload :: "receipt \<Rightarrow> dict" where
  "observation_payload r = fmap_of_list
     [(''campaign_id'', JStr (rc_campaign_id r)), (''plan_id'', JStr (rc_plan_id r)), (''receipt_kind'', JStr (rc_kind r))] ++\<^sub>f rc_payload r"

definition observe_receipt :: "receipt_observer \<Rightarrow> observer" where
  "observe_receipt o' r = (if rc_kind r \<notin> set (ro_kinds o') then Inr None else
     bind (receipt_sha256 r) (\<lambda>h.
     bind (mk_evidence \<lparr>ev_evidence_id = observation_id (ro_observer_id o') h, ev_receipt_ids = [rc_receipt_id r],
       ev_observer_id = ro_observer_id o', ev_grade = ro_grade o', ev_payload = observation_payload r,
       ev_artifact_sha256 = rc_artifact_sha256 r\<rparr>) (\<lambda>e. Inr (Some e))))"

definition external_trace_observer :: receipt_observer where
  "external_trace_observer = \<lparr>ro_observer_id = ''external-trace-v1'', ro_kinds = [''external_trace''], ro_grade = E0\<rparr>"

definition jacobian_lens_observer :: receipt_observer where
  "jacobian_lens_observer = \<lparr>ro_observer_id = ''jlens-v1'', ro_kinds = [''jlens'', ''internal_trace''], ro_grade = E0\<rparr>"

definition native_outcome_observer :: receipt_observer where
  "native_outcome_observer = \<lparr>ro_observer_id = ''native-v1'', ro_kinds = [''native_evaluation''], ro_grade = E1\<rparr>"

definition cost_observer :: receipt_observer where
  "cost_observer = \<lparr>ro_observer_id = ''cost-v1'', ro_kinds = [''cost'', ''model_usage''], ro_grade = E0\<rparr>"

definition safety_observer :: receipt_observer where
  "safety_observer = \<lparr>ro_observer_id = ''safety-v1'', ro_kinds = [''safety''], ro_grade = E0\<rparr>"

section \<open>The hub\<close>

definition graph_append :: "evidence_envelope \<Rightarrow> (evidence_graph option, unit) op" where
  "graph_append e g = (case g of
     None \<Rightarrow> (None, Inr ())
   | Some g \<Rightarrow> (case append_evidence e g of (g', r) \<Rightarrow> (Some g', bind r (\<lambda>_. Inr ()))))"

fun graph_appends :: "evidence_envelope list \<Rightarrow> (evidence_graph option, unit) op" where
  "graph_appends [] = oreturn ()"
| "graph_appends (e # es) = obind (graph_append e) (\<lambda>_. graph_appends es)"

definition emitted :: "observer list \<Rightarrow> receipt \<Rightarrow> evidence_envelope list res" where
  "emitted obs r = bind (mapM (\<lambda>o'. o' r) obs) (\<lambda>es. Inr (List.map_filter id es))"

definition hub_observe :: "observer list \<Rightarrow> receipt \<Rightarrow> (evidence_graph option, evidence_envelope list) op" where
  "hub_observe obs r = obind (olift (emitted obs r)) (\<lambda>es. obind (graph_appends es) (\<lambda>_. oreturn es))"


text \<open>
  \<open>src/src/evolve/runtime/execution_runtime.py\<close>: the execution of a frozen plan.  Every stage leaves a
  receipt before the next one starts, and an execution that finds receipts of the plan goes on after
  them.  The model transport, the workspace manager and the evaluator are parameters that change an
  outside world; the receipt sink and the graph are the ones of the development.
\<close>

section \<open>The runtime and its adapters\<close>

datatype adapter_call = Materialize | Infer | Evaluate

record 'w adapters =
  ad_remote :: bool
  ad_evaluator_id :: string
  ad_materialize :: "execution_plan \<Rightarrow> ('w, dict) op"
  ad_infer :: "execution_plan \<Rightarrow> dict \<Rightarrow> ('w, dict) op"
  ad_evaluate :: "execution_plan \<Rightarrow> dict \<Rightarrow> dict \<Rightarrow> ('w, dict) op"
  ad_clock :: "('w, datetime) op"
  ad_file :: "string \<Rightarrow> 'w \<Rightarrow> (string \<times> nat list \<times> json option) option"
  ad_observers :: "observer list"

text \<open>
  \<open>ad_file\<close> is the file a path leads to: its resolved name, its bytes and what \<open>json.loads\<close> makes of them.

  The state of an execution: the world, the store and the graph, and the local variables of the
  source: the appender's receipts, evidence and next sequence, and \<open>model_receipt\<close>.  \<open>ex_calls\<close> is a
  history: which adapter was called for which plan, and the appender's receipts at that time.  The
  operations only extend it.
\<close>

record 'w execution =
  ex_world :: 'w
  ex_store :: receipt_store
  ex_graph :: "evidence_graph option"
  ex_receipts :: "receipt list"
  ex_evidence :: "evidence_envelope list"
  ex_sequence :: int
  ex_model :: "receipt option"
  ex_calls :: "(adapter_call \<times> execution_plan \<times> receipt list) list"

definition on_world :: "('w, 'a) op \<Rightarrow> ('w execution, 'a) op" where
  "on_world m s = (case m (ex_world s) of (w, r) \<Rightarrow> (s\<lparr>ex_world := w\<rparr>, r))"

definition on_store :: "(receipt_store, 'a) op \<Rightarrow> ('w execution, 'a) op" where
  "on_store m s = (case m (ex_store s) of (t, r) \<Rightarrow> (s\<lparr>ex_store := t\<rparr>, r))"

definition on_graph :: "(evidence_graph option, 'a) op \<Rightarrow> ('w execution, 'a) op" where
  "on_graph m s = (case m (ex_graph s) of (g, r) \<Rightarrow> (s\<lparr>ex_graph := g\<rparr>, r))"

definition calling :: "adapter_call \<Rightarrow> execution_plan \<Rightarrow> ('w, 'a) op \<Rightarrow> ('w execution, 'a) op" where
  "calling c p m = obind (omodify (\<lambda>s. s\<lparr>ex_calls := ex_calls s @ [(c, p, ex_receipts s)]\<rparr>)) (\<lambda>_. on_world m)"

record execution_result =
  er_status :: string
  er_receipts :: "receipt list"
  er_evidence :: "evidence_envelope list"
  er_replayed :: bool

section \<open>Time stamps\<close>

text \<open>\<open>datetime.isoformat\<close> in UTC; the instants are counted from 1970.\<close>

definition two_digits :: "int \<Rightarrow> string" where
  "two_digits n = (if n < 10 then ''0'' else []) @ int_text n"

definition zero_padded :: "nat \<Rightarrow> int \<Rightarrow> string" where
  "zero_padded k n = replicate (k - length (int_text n)) CHR ''0'' @ int_text n"

text \<open>The date of a day: the days since 1 March of a year divisible by 400.\<close>

definition civil_date :: "int \<Rightarrow> int \<times> int \<times> int" where
  "civil_date days = (let z = days + 719468; era = z div 146097; doe = z mod 146097;
     yoe = (doe - doe div 1460 + doe div 36524 - doe div 146096) div 365;
     doy = doe - (365 * yoe + yoe div 4 - yoe div 100); mp = (5 * doy + 2) div 153;
     d = doy - (153 * mp + 2) div 5 + 1; m = (if mp < 10 then mp + 3 else mp - 9)
     in (yoe + era * 400 + (if m \<le> 2 then 1 else 0), m, d))"

definition iso_instant :: "int \<Rightarrow> string" where
  "iso_instant us = (let secs = us div 1000000; frac = us mod 1000000; (y, m, d) = civil_date (secs div 86400); t = secs mod 86400 in
     zero_padded 4 y @ ''-'' @ two_digits m @ ''-'' @ two_digits d @ ''T'' @ two_digits (t div 3600) @ '':'' @ two_digits (t mod 3600 div 60)
     @ '':'' @ two_digits (t mod 60) @ (if frac = 0 then [] else ''.'' @ zero_padded 6 frac) @ ''Z'')"

definition runtime_isoformat :: "datetime \<Rightarrow> string res" where
  "runtime_isoformat t = bind (violation_unless (dt_aware t) ''runtime clock must return a timezone-aware value'') (\<lambda>_. Inr (iso_instant (dt_instant t)))"

section \<open>Appending receipts\<close>

definition runtime_receipt_identity :: "string \<Rightarrow> string \<Rightarrow> int \<Rightarrow> string \<Rightarrow> dict \<Rightarrow> (nat list \<times> string \<times> string) res" where
  "runtime_receipt_identity campaign plan sq kind payload =
     bind (canonical_json (JObj payload)) (\<lambda>t. let a = sha256_hex (utf8 t) in
     bind (content_sha256 (jobj [(''campaign_id'', JStr campaign), (''plan_id'', JStr plan), (''sequence'', JInt sq), (''kind'', JStr kind),
       (''artifact_sha256'', JStr a)])) (\<lambda>h. Inr (utf8 t, a, ''receipt-'' @ h)))"

text \<open>The sink stores the receipt, and the appender notes what the sink returns.\<close>

definition record_receipt :: "receipt \<times> nat list \<Rightarrow> ('w execution, receipt) op" where
  "record_receipt x = obind (on_store (submit_receipt x)) (\<lambda>r.
     obind (omodify (\<lambda>s. s\<lparr>ex_receipts := ex_receipts s @ [r], ex_sequence := ex_sequence s + 1\<rparr>)) (\<lambda>_. oreturn r))"

definition append_control :: "'w adapters \<Rightarrow> execution_plan \<Rightarrow> string \<Rightarrow> dict \<Rightarrow> ('w execution, receipt) op" where
  "append_control ad p kind payload = obind (oread ex_sequence) (\<lambda>sq.
     obind (olift (runtime_receipt_identity (pl_campaign_id p) (pl_plan_id p) sq kind payload)) (\<lambda>(artifact, a, i).
     obind (on_world (ad_clock ad)) (\<lambda>now.
     obind (olift (runtime_isoformat now)) (\<lambda>at.
     record_receipt (\<lparr>rc_receipt_id = i, rc_campaign_id = pl_campaign_id p, rc_plan_id = pl_plan_id p, rc_sequence = sq,
       rc_kind = kind, rc_created_at = at, rc_payload = payload, rc_artifact_sha256 = a, rc_supersedes_receipt_id = None\<rparr>, artifact)))))"

definition append_fact :: "'w adapters \<Rightarrow> execution_plan \<Rightarrow> string \<Rightarrow> dict \<Rightarrow> ('w execution, receipt) op" where
  "append_fact ad p kind payload = obind (append_control ad p kind payload) (\<lambda>r.
     obind (on_graph (hub_observe (ad_observers ad) r)) (\<lambda>es.
     obind (omodify (\<lambda>s. s\<lparr>ex_evidence := ex_evidence s @ es\<rparr>)) (\<lambda>_. oreturn r)))"

definition finish_with :: "string \<Rightarrow> ('w execution, execution_result) op" where
  "finish_with st = oread (\<lambda>s. \<lparr>er_status = st, er_receipts = ex_receipts s, er_evidence = ex_evidence s, er_replayed = False\<rparr>)"

definition terminate :: "'w adapters \<Rightarrow> execution_plan \<Rightarrow> dict \<Rightarrow> string \<Rightarrow> ('w execution, execution_result) op" where
  "terminate ad p payload st = obind (append_control ad p ''execution_terminal'' payload) (\<lambda>_. finish_with st)"

section \<open>The stages\<close>

text \<open>\<open>existing_by_kind.get\<close>: the last receipt of a kind.\<close>

definition by_kind :: "string \<Rightarrow> receipt list \<Rightarrow> receipt option" where
  "by_kind k rs = find (\<lambda>r. rc_kind r = k) (rev rs)"

definition sha_field :: "string \<Rightarrow> json \<Rightarrow> string res" where
  "sha_field name j = (case j of JStr h \<Rightarrow> bind (violation_unless (is_sha256 h) (name @ '' must be a literal SHA-256'')) (\<lambda>_. Inr h)
     | _ \<Rightarrow> raise ContractViolation (name @ '' must be a literal SHA-256''))"

definition model_prediction_sha256 :: "dict \<Rightarrow> string option res" where
  "model_prediction_sha256 out = (if get out ''patch'' = JNull \<and> get out ''patch_sha256'' = JNull then Inr None
     else (case get out ''patch'' of
       JStr t \<Rightarrow> bind (sha_field ''model prediction'' (get out ''patch_sha256'')) (\<lambda>h.
         bind (violation_unless (sha256_hex (utf8 t) = h) ''model prediction artifact hash mismatch'') (\<lambda>_. Inr (Some h)))
     | _ \<Rightarrow> raise ContractViolation ''model prediction patch must be literal text''))"

definition workspace_stage :: "'w adapters \<Rightarrow> execution_plan \<Rightarrow> receipt list \<Rightarrow> ('w execution, receipt) op" where
  "workspace_stage ad p old = (case by_kind ''workspace'' old of
     None \<Rightarrow> obind (calling Materialize p (ad_materialize ad p)) (\<lambda>m.
       obind (olift (plan_sha256 p)) (\<lambda>h. append_fact ad p ''workspace'' (fmupd ''plan_sha256'' (JStr h) m)))
   | Some r \<Rightarrow> olift (bind (plan_sha256 p) (\<lambda>h.
       bind (violation_unless (get (rc_payload r) ''plan_sha256'' = JStr h) ''resume plan does not match workspace receipt'') (\<lambda>_. Inr r))))"

definition prediction_stage :: "'w adapters \<Rightarrow> execution_plan \<Rightarrow> mechanism_prediction option \<Rightarrow> receipt list \<Rightarrow> ('w execution, unit) op" where
  "prediction_stage ad p pred old = (case (pred, by_kind ''mechanism_prediction'' old) of
     (Some q, None) \<Rightarrow> obind (oread ex_model) (\<lambda>m.
       obind (olift (violation_unless (m = None) ''mechanism prediction was not frozen before model dispatch'')) (\<lambda>_.
       obind (append_fact ad p ''mechanism_prediction'' (prediction_payload q)) (\<lambda>_. oreturn ())))
   | _ \<Rightarrow> oreturn ())"

definition model_stage :: "'w adapters \<Rightarrow> execution_plan \<Rightarrow> receipt \<Rightarrow> ('w execution, receipt) op" where
  "model_stage ad p ws = obind (oread ex_model) (\<lambda>m. case m of
     Some r \<Rightarrow> oreturn r
   | None \<Rightarrow> obind (calling Infer p (ad_infer ad p (rc_payload ws))) (\<lambda>out.
       obind (append_fact ad p ''model'' (out ++\<^sub>f fmap_of_list [(''provider'', JStr (mi_provider (pl_model p))),
         (''model'', JStr (mi_model (pl_model p))), (''revision'', JStr (mi_revision (pl_model p)))])) (\<lambda>r.
       obind (omodify (\<lambda>s. s\<lparr>ex_model := Some r\<rparr>)) (\<lambda>_. oreturn r))))"

definition trace_names :: "string list" where
  "trace_names = [''raw_output_path'', ''raw_output_sha256'', ''prompt_paths'', ''prompt_texts'', ''prompt_sha256'', ''patch'', ''patch_sha256'',
     ''structural_valid'', ''failure_reason'', ''mechanism'', ''condition_id'', ''candidate_consumed'', ''candidate_bundle_sha256'',
     ''candidate_revision_id'', ''candidate_prompt'', ''candidate_prompt_sha256'', ''compiled_artifact_sha256'', ''model_identity_sha256'',
     ''parent_harness_revision_id'', ''parent_harness_bundle_sha256'', ''parent_harness_prompt'', ''parent_harness_prompt_sha256'']"

definition model_link :: "receipt \<Rightarrow> (string \<times> json) list" where
  "model_link m = [(''model_receipt_id'', JStr (rc_receipt_id m)), (''model_artifact_sha256'', JStr (rc_artifact_sha256 m))]"

definition trace_payload :: "execution_plan \<Rightarrow> receipt \<Rightarrow> dict res" where
  "trace_payload p m = (let out = rc_payload m in
     bind (model_prediction_sha256 out) (\<lambda>h.
     let mech = config_or out ''mechanism_id'' (get (pl_metadata p) ''mechanism_id'') in
     Inr (fmap_of_list (model_link m @ [(''arm'', JStr (pl_arm p)), (''task_revision_id'', JStr (tr_revision_id (pl_task p)))])
       ++\<^sub>f fmap_of_list ((if mech = JNull then [] else [(''mechanism_id'', mech)])
         @ (case h of None \<Rightarrow> [] | Some x \<Rightarrow> [(''prediction_sha256'', JStr x), (''observation_sha256'', JStr x)]))
       ++\<^sub>f fmrestrict_set (set trace_names) out)))"

definition trace_stage :: "'w adapters \<Rightarrow> execution_plan \<Rightarrow> receipt list \<Rightarrow> receipt \<Rightarrow> ('w execution, unit) op" where
  "trace_stage ad p old m = (case by_kind ''external_trace'' old of
     None \<Rightarrow> obind (olift (trace_payload p m)) (\<lambda>d. obind (append_fact ad p ''external_trace'' d) (\<lambda>_. oreturn ()))
   | Some r \<Rightarrow> olift (violation_unless (get (rc_payload r) ''model_receipt_id'' = JStr (rc_receipt_id m)) ''resume external trace identity mismatch''))"

definition internal_payload :: "'w adapters \<Rightarrow> execution_plan \<Rightarrow> receipt \<Rightarrow> json \<Rightarrow> 'w \<Rightarrow> dict res" where
  "internal_payload ad p m j w = (case j of JObj d \<Rightarrow>
       bind (case get d ''artifact_path'' of JStr t \<Rightarrow> if t = [] then raise ContractViolation ''internal trace artifact path is missing'' else Inr t
         | _ \<Rightarrow> raise ContractViolation ''internal trace artifact path is missing'') (\<lambda>path.
       case ad_file ad path w of None \<Rightarrow> raise ContractViolation ''internal trace artifact is missing''
       | Some (name, bytes, parsed) \<Rightarrow>
         bind (sha_field ''internal trace artifact'' (get d ''artifact_sha256'')) (\<lambda>h.
         bind (violation_unless (sha256_hex bytes = h) ''internal trace artifact hash mismatch'') (\<lambda>_.
         bind (case parsed of None \<Rightarrow> raise ContractViolation ''internal trace artifact is invalid'' | Some (JObj t) \<Rightarrow> Inr t
           | _ \<Rightarrow> raise ContractViolation ''internal trace artifact must be an object'') (\<lambda>t.
         bind (sha_field ''internal prediction'' (get t ''prediction_sha256'')) (\<lambda>x.
         bind (case config_or d ''mechanism_id'' (get (pl_metadata p) ''mechanism_id'') of
             JStr mech \<Rightarrow> if blank mech then raise ContractViolation ''internal trace mechanism is missing'' else Inr mech
           | _ \<Rightarrow> raise ContractViolation ''internal trace mechanism is missing'') (\<lambda>mech.
         Inr (d ++\<^sub>f fmap_of_list [(''arm'', JStr (pl_arm p)), (''task_revision_id'', JStr (tr_revision_id (pl_task p))),
           (''mechanism_id'', JStr mech), (''model_receipt_id'', JStr (rc_receipt_id m)), (''artifact_path'', JStr name),
           (''artifact_sha256'', JStr h), (''prediction_sha256'', JStr x), (''observation_sha256'', JStr x)])))))))
   | _ \<Rightarrow> raise ContractViolation ''internal trace must be a mapping'')"

definition internal_stage :: "'w adapters \<Rightarrow> execution_plan \<Rightarrow> receipt list \<Rightarrow> receipt \<Rightarrow> ('w execution, unit) op" where
  "internal_stage ad p old m = (let j = get (rc_payload m) ''internal_trace'' in
     case by_kind ''internal_trace'' old of
       None \<Rightarrow> if j = JNull then oreturn ()
         else obind (oread (\<lambda>s. internal_payload ad p m j (ex_world s))) (\<lambda>d. obind (olift d) (\<lambda>d.
           obind (append_fact ad p ''internal_trace'' d) (\<lambda>_. oreturn ())))
     | Some _ \<Rightarrow> olift (violation_unless (j \<noteq> JNull) ''resume internal trace identity mismatch''))"

definition validated_cost :: "json \<Rightarrow> pyfloat res" where
  "validated_cost j = bind (number_float ''model cost must be numeric'' j) (\<lambda>f.
     bind (violation_unless (\<not> flt f fzero \<and> finite_float f) ''model cost must be finite and non-negative'') (\<lambda>_. Inr f))"

definition cost_payload :: "execution_plan \<Rightarrow> receipt \<Rightarrow> dict res" where
  "cost_payload p m = (let out = rc_payload m in
     bind (validated_cost (config_or out ''cost_cny'' (JInt 0))) (\<lambda>c.
     bind (int_cast (config_or out ''input_tokens'' (JInt 0))) (\<lambda>i.
     bind (int_cast (config_or out ''output_tokens'' (JInt 0))) (\<lambda>k.
     Inr (fmap_of_list [(''cost_cny'', JFloat c), (''input_tokens'', JInt i), (''output_tokens'', JInt k), (''provider'', JStr (mi_provider (pl_model p))),
       (''model'', JStr (mi_model (pl_model p))), (''revision'', JStr (mi_revision (pl_model p)))])))))"

definition cost_stage :: "'w adapters \<Rightarrow> execution_plan \<Rightarrow> receipt list \<Rightarrow> receipt \<Rightarrow> ('w execution, receipt) op" where
  "cost_stage ad p old m = (case by_kind ''cost'' old of
     None \<Rightarrow> obind (olift (cost_payload p m)) (append_fact ad p ''cost'') | Some r \<Rightarrow> oreturn r)"

text \<open>\<open>float(v)\<close>.  The runtime stores a float; the text of a number in a stored receipt is not converted here.\<close>

fun float_cast :: "json \<Rightarrow> pyfloat res" where
  "float_cast (JFloat f) = Inr f"
| "float_cast (JInt i) = bind (require (finite_float (float_of_int i)) OverflowError ''int too large to convert to float'') (\<lambda>_. Inr (float_of_int i))"
| "float_cast (JBool b) = Inr (float_of_int (if b then 1 else 0))"
| "float_cast (JStr s) = raise ValueError ''could not convert string to float''"
| "float_cast j = raise TypeError ''float() argument''"

definition over_limit :: "execution_plan \<Rightarrow> receipt \<Rightarrow> bool res" where
  "over_limit p c = bind (the_item (rc_payload c) ''cost_cny'' float_cast) (\<lambda>f. Inr (flt (el_max_cost_cny (pl_limits p)) f))"

definition native_execution_identity :: "execution_plan \<Rightarrow> (string \<times> json) list res" where
  "native_execution_identity p =
     bind (content_sha256 (jobj [(''context_policy_id'', JStr (pl_context_policy_id p)), (''tool_policy_id'', JStr (pl_tool_policy_id p)),
       (''observer_policy_ids'', str_list (pl_observer_policy_ids p)), (''limits'', execution_limits_json (pl_limits p)),
       (''holdout_scope'', JStr (pl_holdout_scope p))])) (\<lambda>h.
     Inr [(''arm'', JStr (pl_arm p)), (''task_revision_id'', JStr (tr_revision_id (pl_task p))),
       (''task_source_sha256'', JStr (tr_source_sha256 (pl_task p))),
       (''model_identity'', JStr (mi_provider (pl_model p) @ ''/'' @ mi_model (pl_model p) @ ''@'' @ mi_revision (pl_model p))),
       (''native_evaluator_id'', JStr (pl_native_evaluator_id p)), (''execution_config_sha256'', JStr h)])"

definition parent_names :: "string list" where
  "parent_names = [''parent_harness_revision_id'', ''parent_harness_bundle_sha256'', ''parent_harness_prompt_sha256'']"

definition native_payload :: "execution_plan \<Rightarrow> receipt \<Rightarrow> dict \<Rightarrow> dict res" where
  "native_payload p m d = (let out = rc_payload m; np = config_or d ''prediction_sha256'' (get d ''patch_sha256'') in
     bind (if np = JNull then Inr d else
       bind (sha_field ''native prediction'' np) (\<lambda>h.
       bind (model_prediction_sha256 out) (\<lambda>x.
       bind (violation_unless (x = Some h) ''native prediction does not match model artifact'') (\<lambda>_.
       Inr (fmupd ''prediction_sha256'' (JStr h) d))))) (\<lambda>d.
     bind (native_execution_identity p) (\<lambda>idn.
     Inr (fmupd ''evaluator_error'' JNull (d ++\<^sub>f fmap_of_list (idn @ model_link m) ++\<^sub>f fmrestrict_set (set parent_names) out)))))"

definition native_stage :: "'w adapters \<Rightarrow> execution_plan \<Rightarrow> receipt list \<Rightarrow> receipt \<Rightarrow> receipt \<Rightarrow> ('w execution, unit) op" where
  "native_stage ad p old ws m = (case by_kind ''native_evaluation'' old of
     None \<Rightarrow> obind (calling Evaluate p (ad_evaluate ad p (rc_payload ws) (rc_payload m))) (\<lambda>d.
       obind (olift (native_payload p m d)) (\<lambda>d. obind (append_fact ad p ''native_evaluation'' d) (\<lambda>_. oreturn ())))
   | Some _ \<Rightarrow> oreturn ())"

section \<open>An execution\<close>

definition status_payload :: "string \<Rightarrow> dict" where
  "status_payload st = fmap_of_list [(''status'', JStr st)]"

text \<open>After the cost: the plan's limit, the mode, the evaluation.\<close>

definition settle_stage :: "'w adapters \<Rightarrow> execution_plan \<Rightarrow> receipt list \<Rightarrow> receipt \<Rightarrow> receipt \<Rightarrow> receipt \<Rightarrow> ('w execution, execution_result) op" where
  "settle_stage ad p old ws m c = obind (olift (over_limit p c)) (\<lambda>over.
     if over then terminate ad p (fmupd ''reason'' (JStr ''actual model cost exceeded the plan limit'') (status_payload ''budget_exhausted'')) ''budget_exhausted''
     else let mode = config_or (pl_metadata p) ''execution_mode'' (JStr ''full'') in
       if mode = JStr ''model-only-prescreen'' then
         terminate ad p (fmupd ''execution_mode'' (JStr ''model-only-prescreen'') (status_payload ''completed'')) ''completed''
       else obind (olift (violation_unless (mode = JStr ''full'') ''unsupported execution mode'')) (\<lambda>_.
         obind (native_stage ad p old ws m) (\<lambda>_. terminate ad p (status_payload ''completed'') ''completed'')))"

definition execute_stages :: "'w adapters \<Rightarrow> execution_plan \<Rightarrow> mechanism_prediction option \<Rightarrow> receipt list \<Rightarrow> ('w execution, execution_result) op" where
  "execute_stages ad p pred old =
     obind (workspace_stage ad p old) (\<lambda>ws.
     obind (prediction_stage ad p pred old) (\<lambda>_.
     obind (model_stage ad p ws) (\<lambda>m.
     obind (trace_stage ad p old m) (\<lambda>_.
     obind (internal_stage ad p old m) (\<lambda>_.
     obind (cost_stage ad p old m) (\<lambda>c.
     settle_stage ad p old ws m c))))))"

definition interrupted :: "'w adapters \<Rightarrow> execution_plan \<Rightarrow> string \<Rightarrow> ('w execution, execution_result) op" where
  "interrupted ad p msg = obind (append_control ad p ''execution_partial''
     (fmap_of_list [(''status'', JStr ''partial''), (''reason'', JStr msg), (''retryable'', JBool True)])) (\<lambda>_. finish_with ''partial'')"

definition evaluator_failure :: "'w adapters \<Rightarrow> execution_plan \<Rightarrow> string \<Rightarrow> ('w execution, execution_result) op" where
  "evaluator_failure ad p msg = obind (oread ex_model) (\<lambda>m. case m of
     None \<Rightarrow> olift (raise ContractViolation ''evaluator infrastructure error occurred before model receipt'')
   | Some m \<Rightarrow> obind (olift (native_execution_identity p)) (\<lambda>idn.
       obind (append_fact ad p ''native_evaluation'' (fmap_of_list (idn @ model_link m @ [(''resolved'', JBool False),
         (''evaluator_error'', JStr (''EvaluatorInfrastructureError: '' @ msg))]))) (\<lambda>_.
       terminate ad p (fmupd ''reason'' (JStr msg) (status_payload ''infra_failure'')) ''infra_failure'')))"

text \<open>\<open>try\<close> ... \<open>except\<close>.\<close>

definition execute_guarded :: "'w adapters \<Rightarrow> execution_plan \<Rightarrow> mechanism_prediction option \<Rightarrow> receipt list \<Rightarrow> ('w execution, execution_result) op" where
  "execute_guarded ad p pred old s = (case execute_stages ad p pred old s of
     (s', Inl (Err ExecutionInterrupted msg)) \<Rightarrow> interrupted ad p msg s'
   | (s', Inl (Err EvaluatorInfrastructureError msg)) \<Rightarrow> evaluator_failure ad p msg s'
   | (s', r) \<Rightarrow> (s', r))"

definition singleton_kinds :: "string list" where
  "singleton_kinds = [''workspace'', ''mechanism_prediction'', ''model'', ''external_trace'', ''internal_trace'', ''cost'',
     ''native_evaluation'', ''execution_terminal'']"

definition check_singletons :: "receipt list \<Rightarrow> unit res" where
  "check_singletons old = all_checks (map (\<lambda>k. violation_unless (length (filter (\<lambda>r. rc_kind r = k) old) \<le> 1)
     (''resume contains duplicate '' @ k @ '' receipts'')) singleton_kinds)"

definition check_admission :: "'w adapters \<Rightarrow> execution_plan \<Rightarrow> authorization \<Rightarrow> ('w execution, unit) op" where
  "check_admission ad p au =
     obind (olift (violation_unless (pl_campaign_id p = au_campaign_id au) ''authorization campaign does not match execution plan'')) (\<lambda>_.
     obind (olift (violation_unless (pl_native_evaluator_id p = tr_evaluator_id (pl_task p)) ''plan evaluator does not match frozen task evaluator'')) (\<lambda>_.
     obind (olift (violation_unless (ad_evaluator_id ad = pl_native_evaluator_id p) ''runtime evaluator identity does not match execution plan'')) (\<lambda>_.
     obind (on_world (ad_clock ad)) (\<lambda>now.
     olift (assert_allows au (tr_cohort (pl_task p)) (el_max_cost_cny (pl_limits p)) 1 (ad_remote ad) now)))))"

definition check_prediction :: "mechanism_prediction option \<Rightarrow> receipt option \<Rightarrow> unit res" where
  "check_prediction pred old = (case (pred, old) of
     (None, Some _) \<Rightarrow> raise ContractViolation ''resume mechanism prediction identity mismatch''
   | (Some q, Some r) \<Rightarrow> violation_unless (py_eq (JObj (rc_payload r)) (JObj (prediction_payload q))) ''mechanism prediction identity drift''
   | _ \<Rightarrow> Inr ())"

definition terminal_replay :: "execution_plan \<Rightarrow> mechanism_prediction option \<Rightarrow> receipt list \<Rightarrow> receipt \<Rightarrow> execution_result res" where
  "terminal_replay p pred old t =
     bind (violation_unless (pred = None \<or> by_kind ''mechanism_prediction'' old \<noteq> None) ''terminal replay is missing mechanism prediction receipt'') (\<lambda>_.
     bind (case by_kind ''workspace'' old of None \<Rightarrow> raise ContractViolation ''terminal replay plan identity mismatch''
       | Some w \<Rightarrow> bind (plan_sha256 p) (\<lambda>h. violation_unless (get (rc_payload w) ''plan_sha256'' = JStr h) ''terminal replay plan identity mismatch'')) (\<lambda>_.
     bind (item (rc_payload t) ''status'') (\<lambda>st.
     Inr \<lparr>er_status = py_str st, er_receipts = old, er_evidence = [], er_replayed = True\<rparr>)))"

definition begin_with :: "receipt list \<Rightarrow> 'w execution \<Rightarrow> 'w execution" where
  "begin_with old s = s\<lparr>ex_receipts := old, ex_evidence := [], ex_sequence := fold max (map rc_sequence old) 0 + 1,
     ex_model := by_kind ''model'' old\<rparr>"

definition execute :: "'w adapters \<Rightarrow> execution_plan \<Rightarrow> authorization \<Rightarrow> mechanism_prediction option \<Rightarrow> ('w execution, execution_result) op" where
  "execute ad p au pred =
     obind (oread (\<lambda>s. receipts_for (pl_plan_id p) (ex_store s))) (\<lambda>l. obind (olift l) (\<lambda>found.
     let old = sort_key rc_sequence found in
     obind (olift (check_singletons old)) (\<lambda>_.
     obind (check_admission ad p au) (\<lambda>_.
     obind (olift (check_prediction pred (by_kind ''mechanism_prediction'' old))) (\<lambda>_.
     case by_kind ''execution_terminal'' old of
       Some t \<Rightarrow> olift (terminal_replay p pred old t)
     | None \<Rightarrow> obind (omodify (begin_with old)) (\<lambda>_. execute_guarded ad p pred old))))))"

end
