(* ===== verification/Tournament.thy ===== *)
theory Tournament
  imports Execution
begin

text \<open>
  \<open>src/src/evolve/agent_program/tournament.py\<close>: the tournament of AgentProgram revisions, decided only
  from a complete matrix of matched executions.  Sets of JSON values are lists compared with
  Python's \<open>==\<close>; an unhashable element raises.
\<close>

section \<open>Decisions\<close>

definition program_unless :: "bool \<Rightarrow> string \<Rightarrow> unit res" where
  "program_unless c m = require c AgentProgramViolation m"

record tournament_decision =
  td_decision_id :: string
  td_sha256 :: string
  td_tournament_id :: string
  td_campaign_id :: string
  td_program_id :: string
  td_scope :: string
  td_parent :: string
  td_participants :: "string list"
  td_tasks :: "string list"
  td_plan_ids :: "string list"
  td_receipt_ids :: "string list"
  td_bundles :: "(string \<times> string) list"
  td_config_sha256 :: string
  td_matched_sha256 :: string
  td_policy :: string
  td_scores :: "(string \<times> pyfloat) list"
  td_winner :: string
  td_advanced :: bool

definition tournament_identity :: "tournament_decision \<Rightarrow> json" where
  "tournament_identity d = jobj
     [(''tournament_id'', JStr (td_tournament_id d)), (''campaign_id'', JStr (td_campaign_id d)), (''program_id'', JStr (td_program_id d)),
      (''execution_scope'', JStr (td_scope d)), (''parent_revision_id'', JStr (td_parent d)),
      (''participant_revision_ids'', str_list (td_participants d)), (''task_revision_ids'', str_list (td_tasks d)),
      (''plan_ids'', str_list (td_plan_ids d)), (''receipt_ids'', str_list (td_receipt_ids d)),
      (''program_bundle_sha256'', routes_json (td_bundles d)), (''tournament_config_sha256'', JStr (td_config_sha256 d)),
      (''matched_config_sha256'', JStr (td_matched_sha256 d)), (''score_policy_id'', JStr (td_policy d)),
      (''scores'', JList (map (\<lambda>(r, s). JList [JStr r, JFloat s]) (td_scores d))), (''winner_revision_id'', JStr (td_winner d)),
      (''advanced'', JBool (td_advanced d))]"

definition decision_name :: "string \<Rightarrow> string" where
  "decision_name h = ''tournament-decision-'' @ take 24 h"

definition check_tournament_decision :: "tournament_decision \<Rightarrow> unit res" where
  "check_tournament_decision d =
     bind (content_sha256 (tournament_identity d)) (\<lambda>h.
     bind (program_unless (td_sha256 d = h) ''tournament decision hash mismatch'') (\<lambda>_.
     bind (program_unless (td_decision_id d = decision_name h) ''tournament decision identity mismatch'') (\<lambda>_.
     bind (program_unless (td_scope d = ''fixture'') ''fixture tournament scope mismatch'') (\<lambda>_.
     bind (require (td_participants d \<noteq> []) IndexError ''tuple index out of range'') (\<lambda>_.
     bind (program_unless (hd (td_participants d) = td_parent d) ''tournament parent ordering mismatch'') (\<lambda>_.
     bind (program_unless (td_winner d \<in> set (td_participants d)) ''tournament winner is not a participant'') (\<lambda>_.
     program_unless (td_advanced d = (td_winner d \<noteq> td_parent d)) ''tournament advance outcome mismatch'')))))))"

section \<open>The plans\<close>

definition meta :: "execution_plan \<Rightarrow> string \<Rightarrow> json" where
  "meta p k = get (pl_metadata p) k"

text \<open>\<open>len({f(p) for p in plans}) == 1\<close>, for values.\<close>

definition one_value :: "json list \<Rightarrow> string \<Rightarrow> unit res" where
  "one_value vs m = bind (require (list_all hashable vs) TypeError ''unhashable type'') (\<lambda>_.
     program_unless (vs \<noteq> [] \<and> list_all (same_value (hd vs)) vs) m)"

definition matched_config :: "execution_plan \<Rightarrow> string res" where
  "matched_config p = content_sha256 (jobj
     [(''strategy_id'', JStr (pl_strategy_id p)), (''model'', model_identity_json (pl_model p)),
      (''context_policy_id'', JStr (pl_context_policy_id p)), (''tool_policy_id'', JStr (pl_tool_policy_id p)),
      (''observer_policy_ids'', str_list (pl_observer_policy_ids p)), (''native_evaluator_id'', JStr (pl_native_evaluator_id p)),
      (''limits'', execution_limits_json (pl_limits p)), (''holdout_scope'', JStr (pl_holdout_scope p)),
      (''execution_profile'', meta p ''execution_profile''), (''tournament_config_sha256'', meta p ''tournament_config_sha256'')])"

definition arm_revisions :: "string \<Rightarrow> execution_plan list \<Rightarrow> string list" where
  "arm_revisions arm ps = uniq (map pl_candidate_revision_id (filter (\<lambda>p. pl_arm p = arm) ps))"

definition cell_of :: "execution_plan \<Rightarrow> string \<times> string" where
  "cell_of p = (tr_revision_id (pl_task p), pl_candidate_revision_id p)"

definition check_identity :: "execution_plan list \<Rightarrow> (string \<times> string \<times> string) res" where
  "check_identity ps =
     bind (program_unless (distinct (map pl_plan_id ps)) ''tournament contains duplicate plans'') (\<lambda>_.
     bind (require (list_all hashable (map (\<lambda>p. meta p ''tournament_id'') ps) \<and> list_all hashable (map (\<lambda>p. meta p ''tournament_config_sha256'') ps))
       TypeError ''unhashable type'') (\<lambda>_.
     bind (program_unless (list_all (\<lambda>p. pl_campaign_id p = pl_campaign_id (hd ps)) ps) ''tournament campaign identity drift'') (\<lambda>_.
     bind (one_value (map (\<lambda>p. meta p ''tournament_id'') ps) ''tournament campaign identity drift'') (\<lambda>_.
     bind (one_value (map (\<lambda>p. meta p ''tournament_config_sha256'') ps) ''tournament configuration drift'') (\<lambda>_.
     bind (case meta (hd ps) ''tournament_id'' of JStr t \<Rightarrow> if t = [] then raise AgentProgramViolation ''tournament_id is missing'' else Inr t
       | _ \<Rightarrow> raise AgentProgramViolation ''tournament_id is missing'') (\<lambda>t.
     bind (case meta (hd ps) ''tournament_config_sha256'' of
         JStr c \<Rightarrow> if length c = 64 then Inr c else raise AgentProgramViolation ''tournament config hash is invalid''
       | _ \<Rightarrow> raise AgentProgramViolation ''tournament config hash is invalid'') (\<lambda>c.
     bind (mapM matched_config ps) (\<lambda>ms.
     bind (program_unless (list_all (\<lambda>m. m = hd ms) ms) ''tournament matched execution config drift'') (\<lambda>_.
     Inr (t, c, hd ms))))))))))"

definition check_matrix :: "execution_plan list \<Rightarrow> (string \<times> string list \<times> string list) res" where
  "check_matrix ps = (let parents = arm_revisions ''search-parent'' ps; cands = arm_revisions ''candidate'' ps in
     bind (program_unless (length parents = 1 \<and> cands \<noteq> []) ''tournament requires parent and candidates'') (\<lambda>_.
     bind (program_unless (list_all (\<lambda>p. pl_arm p = ''search-parent'' \<or> pl_arm p = ''candidate'') ps) ''tournament arm is invalid'') (\<lambda>_.
     let parent = hd parents; parts = parent # cands; tasks = uniq (map (\<lambda>p. tr_revision_id (pl_task p)) ps); cells = map cell_of ps in
     bind (program_unless (distinct parts) ''tournament revisions are duplicated'') (\<lambda>_.
     bind (program_unless (distinct cells) ''tournament contains duplicate execution cells'') (\<lambda>_.
     bind (program_unless (set cells = set (List.product tasks parts)) ''tournament execution matrix is incomplete'') (\<lambda>_.
     Inr (parent, parts, tasks)))))))"

section \<open>The executions\<close>

definition model_receipt :: "execution_plan \<Rightarrow> execution_result \<Rightarrow> receipt res" where
  "model_receipt p e =
     bind (program_unless (list_all (\<lambda>r. rc_plan_id r = pl_plan_id p \<and> rc_campaign_id r = pl_campaign_id p) (er_receipts e))
       ''tournament receipt identity drift'') (\<lambda>_.
     case filter (\<lambda>r. rc_kind r = ''model'') (er_receipts e) of
       [r] \<Rightarrow> bind (content_sha256 (JObj (rc_payload r))) (\<lambda>h.
         bind (program_unless (rc_artifact_sha256 r = h) ''tournament model receipt artifact drift'') (\<lambda>_. Inr r))
     | _ \<Rightarrow> raise AgentProgramViolation ''tournament requires one model receipt per cell'')"

definition fixture_score :: "json \<Rightarrow> pyfloat res" where
  "fixture_score j = bind (case j of
       JInt i \<Rightarrow> bind (require (finite_float (float_of_int i)) OverflowError ''int too large to convert to float'') (\<lambda>_. Inr (float_of_int i))
     | JFloat f \<Rightarrow> Inr f
     | _ \<Rightarrow> raise AgentProgramViolation ''tournament fixture score is invalid'') (\<lambda>f.
     bind (program_unless (finite_float f) ''tournament fixture score is invalid'') (\<lambda>_. Inr f))"

definition program_hash_fields :: "string list" where
  "program_hash_fields = [''program_prompt_sha256'', ''program_context_sha256'', ''program_tool_policy_sha256'', ''program_capabilities_sha256'']"

text \<open>One cell: the revision, its score, the program, its bundle and the receipt.\<close>

record tournament_cell =
  ce_revision :: string
  ce_score :: pyfloat
  ce_program :: string
  ce_bundle :: string
  ce_receipt :: string

definition judge_cell :: "string \<Rightarrow> execution_plan \<Rightarrow> execution_result \<Rightarrow> tournament_cell res" where
  "judge_cell parent p e =
     bind (program_unless (er_status e = ''completed'') ''tournament contains a partial execution'') (\<lambda>_.
     bind (model_receipt p e) (\<lambda>r. let y = rc_payload r in
     bind (program_unless (get y ''execution_scope'' = JStr ''fixture'') ''tournament execution scope drift'') (\<lambda>_.
     bind (program_unless (get y ''revision_id'' = JStr (pl_candidate_revision_id p)) ''tournament program revision drift'') (\<lambda>_.
     bind (program_unless (same_value (get y ''program_bundle_sha256'') (meta p ''program_bundle_sha256'')) ''tournament program bundle drift'') (\<lambda>_.
     bind (program_unless (pl_arm p = ''candidate'' \<longrightarrow> get y ''parent_revision_id'' = JStr parent) ''candidate tournament parent drift'') (\<lambda>_.
     bind (all_checks (map (\<lambda>n. program_unless (same_value (get y n) (meta p n)) (''tournament '' @ n @ '' drift'')) program_hash_fields)) (\<lambda>_.
     bind (fixture_score (get y ''fixture_score'')) (\<lambda>s.
     bind (case get y ''program_id'' of JStr i \<Rightarrow> if i = [] then raise AgentProgramViolation ''tournament program_id is missing'' else Inr i
       | _ \<Rightarrow> raise AgentProgramViolation ''tournament program_id is missing'') (\<lambda>i.
     bind (item y ''program_bundle_sha256'') (\<lambda>b.
     Inr \<lparr>ce_revision = pl_candidate_revision_id p, ce_score = s, ce_program = i, ce_bundle = py_str b, ce_receipt = rc_receipt_id r\<rparr>))))))))))"

text \<open>The loop over the cells, each checked against the bundle its revision had before.\<close>

fun judge_cells :: "string \<Rightarrow> tournament_cell list \<Rightarrow> (execution_plan \<times> execution_result) list \<Rightarrow> tournament_cell list res" where
  "judge_cells parent done [] = Inr done"
| "judge_cells parent done ((p, e) # rest) =
     bind (judge_cell parent p e) (\<lambda>c.
     bind (program_unless (list_all (\<lambda>d. ce_revision d = ce_revision c \<longrightarrow> ce_bundle d = ce_bundle c) done) ''tournament revision bundle drift'') (\<lambda>_.
     judge_cells parent (done @ [c]) rest))"

section \<open>The winner\<close>

text \<open>A double divided by a positive count.\<close>

definition fdiv_count :: "pyfloat \<Rightarrow> nat \<Rightarrow> pyfloat" where
  "fdiv_count x n = (case x of
     Fin a \<Rightarrow> Fin (if a < 0 then - nearest_double (- a) (int n) else nearest_double a (int n))
   | _ \<Rightarrow> x)"

definition mean_score :: "tournament_cell list \<Rightarrow> string \<Rightarrow> pyfloat" where
  "mean_score cells r = (let xs = map ce_score (filter (\<lambda>c. ce_revision c = r) cells) in fdiv_count (fsum_py xs) (length xs))"

text \<open>\<open>max\<close>: the first of the greatest, by \<open>>\<close>.\<close>

definition max_score :: "pyfloat list \<Rightarrow> pyfloat" where
  "max_score xs = foldl (\<lambda>m x. if flt m x then x else m) (hd xs) (tl xs)"

definition tied_revisions :: "(string \<times> pyfloat) list \<Rightarrow> string list" where
  "tied_revisions rows = map fst (filter (\<lambda>(r, s). feq s (max_score (map snd rows))) rows)"

definition pick_winner :: "string \<Rightarrow> (string \<times> pyfloat) list \<Rightarrow> string res" where
  "pick_winner parent rows = (let tied = tied_revisions rows in
     if parent \<in> set tied then Inr parent
     else bind (require (tied \<noteq> []) ValueError ''min() arg is an empty sequence'') (\<lambda>_. Inr (hd (sort tied))))"

definition bundle_of :: "tournament_cell list \<Rightarrow> string \<Rightarrow> string" where
  "bundle_of cells r = (case find (\<lambda>c. ce_revision c = r) cells of Some c \<Rightarrow> ce_bundle c | None \<Rightarrow> [])"

text \<open>A decision gets its name and its digest, and is checked.\<close>

definition seal_decision :: "tournament_decision \<Rightarrow> tournament_decision res" where
  "seal_decision d = bind (content_sha256 (tournament_identity d)) (\<lambda>h.
     let d = d\<lparr>td_decision_id := decision_name h, td_sha256 := h\<rparr> in bind (check_tournament_decision d) (\<lambda>_. Inr d))"

definition decide_tournament :: "execution_plan list \<Rightarrow> execution_result list \<Rightarrow> tournament_decision res" where
  "decide_tournament ps es =
     bind (program_unless (ps \<noteq> [] \<and> length ps = length es) ''tournament execution matrix is incomplete'') (\<lambda>_.
     bind (check_identity ps) (\<lambda>(tid, cfg, matched).
     bind (check_matrix ps) (\<lambda>(parent, parts, tasks).
     bind (judge_cells parent [] (zip ps es)) (\<lambda>cells.
     bind (program_unless (list_all (\<lambda>c. ce_program c = ce_program (hd cells)) cells) ''tournament mixes AgentProgram identities'') (\<lambda>_.
     let rows = map (\<lambda>r. (r, mean_score cells r)) parts in
     bind (pick_winner parent rows) (\<lambda>w.
     seal_decision \<lparr>td_decision_id = [], td_sha256 = [], td_tournament_id = tid, td_campaign_id = pl_campaign_id (hd ps),
         td_program_id = ce_program (hd cells), td_scope = ''fixture'', td_parent = parent, td_participants = parts, td_tasks = tasks,
         td_plan_ids = map pl_plan_id ps, td_receipt_ids = map ce_receipt cells, td_bundles = map (\<lambda>r. (r, bundle_of cells r)) parts,
         td_config_sha256 = cfg, td_matched_sha256 = matched, td_policy = ''fixture-mean-score-v1'', td_scores = rows,
         td_winner = w, td_advanced = (w \<noteq> parent)\<rparr>))))))"

end
