(* ===== verification/Search_Parent.thy ===== *)
theory Search_Parent
  imports Tournament Index_Log
begin

text \<open>
  \<open>src/src/evolve/agent_program/search_parent.py\<close>: the append-only log of the advances of the search
  parent, one hash chain per program.  A line is what \<open>json.loads\<close> makes of it; as in the other
  logs a text that contains U+0085 is read back as pieces.
\<close>

section \<open>Reading\<close>

record parent_log =
  pg_lines :: "json option list"
  pg_locked :: bool

text \<open>The constructor.\<close>

definition parent_log_open :: "string \<Rightarrow> unit res" where
  "parent_log_open i = program_unless (\<not> blank i) ''search-parent program_id is invalid''"

definition event_fields :: "string list" where
  "event_fields = [''sequence'', ''program_id'', ''tournament_id'', ''execution_scope'', ''previous_parent_revision_id'',
     ''selected_revision_id'', ''decision_sha256'', ''previous_event_sha256'', ''event_sha256'']"

definition last_hash :: "dict list \<Rightarrow> json" where
  "last_hash es = (if es = [] then JNull else get (last es) ''event_sha256'')"

definition bad_event :: "dict list \<Rightarrow> 'a res" where
  "bad_event es = raise AgentProgramViolation (''invalid search-parent event at line '' @ int_text (int (length es) + 1))"

definition parent_event :: "string \<Rightarrow> dict list \<Rightarrow> json option \<Rightarrow> dict res" where
  "parent_event i es l = (case l of
     Some (JObj e) \<Rightarrow>
       bind (if fmdom' e = set event_fields then Inr () else bad_event es) (\<lambda>_.
       bind (program_unless (get e ''program_id'' = JStr i) ''search-parent program identity drift'') (\<lambda>_.
       bind (program_unless (get e ''execution_scope'' = JStr ''fixture'') ''search-parent scope drift'') (\<lambda>_.
       bind (program_unless (py_eq (get e ''sequence'') (JInt (int (length es) + 1))) ''search-parent sequence drift'') (\<lambda>_.
       bind (program_unless (same_value (get e ''previous_event_sha256'') (last_hash es)) ''search-parent hash chain fork'') (\<lambda>_.
       bind (content_sha256 (JObj (fmdrop ''event_sha256'' e))) (\<lambda>h.
       bind (program_unless (get e ''event_sha256'' = JStr h) ''search-parent event hash mismatch'') (\<lambda>_.
       bind (program_unless (es \<noteq> [] \<longrightarrow> same_value (get e ''previous_parent_revision_id'') (get (last es) ''selected_revision_id''))
         ''search-parent revision chain fork'') (\<lambda>_. Inr e))))))))
   | _ \<Rightarrow> bad_event es)"

fun parent_read :: "string \<Rightarrow> dict list \<Rightarrow> json option list \<Rightarrow> dict list res" where
  "parent_read i es [] = Inr es"
| "parent_read i es (l # ls) = bind (parent_event i es l) (\<lambda>e. parent_read i (es @ [e]) ls)"

definition parent_events :: "string \<Rightarrow> parent_log \<Rightarrow> dict list res" where
  "parent_events i f = parent_read i [] (pg_lines f)"

definition current_parent :: "string \<Rightarrow> parent_log \<Rightarrow> json res" where
  "current_parent i f = bind (parent_events i f) (\<lambda>es. Inr (if es = [] then JNull else get (last es) ''selected_revision_id''))"

section \<open>Appending\<close>

definition parent_new :: "string \<Rightarrow> dict list \<Rightarrow> tournament_decision \<Rightarrow> dict" where
  "parent_new i es d = fmap_of_list
     [(''sequence'', JInt (int (length es) + 1)), (''program_id'', JStr i), (''tournament_id'', JStr (td_tournament_id d)),
      (''execution_scope'', JStr ''fixture''), (''previous_parent_revision_id'', JStr (td_parent d)),
      (''selected_revision_id'', JStr (td_winner d)), (''decision_sha256'', JStr (td_sha256 d)),
      (''previous_event_sha256'', last_hash es)]"

definition parent_stored :: "string \<Rightarrow> dict list \<Rightarrow> tournament_decision \<Rightarrow> dict" where
  "parent_stored i es d = fmupd ''event_sha256'' (JStr (digest (JObj (parent_new i es d)))) (parent_new i es d)"

definition check_append :: "string \<Rightarrow> tournament_decision \<Rightarrow> unit res" where
  "check_append i d =
     bind (content_sha256 (tournament_identity d)) (\<lambda>h.
     bind (program_unless (td_sha256 d = h) ''tournament decision hash mismatch'') (\<lambda>_.
     bind (program_unless (td_program_id d = i) ''search-parent program identity drift'') (\<lambda>_.
     program_unless (td_scope d = ''fixture'') ''search-parent accepts fixture decisions only'')))"

text \<open>
  An append reads the log and decides (\<open>parent_prepare\<close>: \<open>None\<close> is a replay); then, under the lease, it
  reads the log again (\<open>parent_recheck\<close>) and writes one line (\<open>parent_write\<close>), whole.  The source compares
  the two readings with \<open>==\<close>; events that are \<open>==\<close> carry one digest, so they are one JSON value unless two
  texts share a digest.
\<close>

definition parent_prepare :: "string \<Rightarrow> tournament_decision \<Rightarrow> parent_log \<Rightarrow> dict list option res" where
  "parent_prepare i d f =
     bind (check_append i d) (\<lambda>_.
     bind (parent_events i f) (\<lambda>es.
     let matching = filter (\<lambda>e. get e ''tournament_id'' = JStr (td_tournament_id d)) es in
     if matching \<noteq> [] then
       bind (program_unless (length matching = 1 \<and> get (hd matching) ''decision_sha256'' = JStr (td_sha256 d))
         ''conflicting tournament decision replay'') (\<lambda>_. Inr None)
     else
       bind (program_unless (es = [] \<or> get (last es) ''selected_revision_id'' = JStr (td_parent d)) ''search-parent fork detected'') (\<lambda>_.
       bind (content_sha256 (JObj (parent_new i es d))) (\<lambda>_. Inr (Some es)))))"

definition parent_recheck :: "string \<Rightarrow> dict list \<Rightarrow> parent_log \<Rightarrow> unit res" where
  "parent_recheck i es f = bind (parent_events i f) (\<lambda>again.
     program_unless (again = es) ''search-parent changed during append'')"

definition parent_write :: "string \<Rightarrow> tournament_decision \<Rightarrow> dict list \<Rightarrow> (parent_log, unit) op" where
  "parent_write i d es =
     obind (olift (canonical_json (JObj (parent_stored i es d)))) (\<lambda>_.
     omodify (\<lambda>f. f\<lparr>pg_lines := pg_lines f @ [stored_line (JObj (parent_stored i es d))]\<rparr>))"

definition parent_lease :: "(parent_log, unit) op" where
  "parent_lease f = (if pg_locked f then (f, raise AgentProgramViolation ''search-parent writer lease is busy'')
     else (f\<lparr>pg_locked := True\<rparr>, Inr ()))"

definition parent_release :: "parent_log \<Rightarrow> parent_log" where
  "parent_release f = f\<lparr>pg_locked := False\<rparr>"

definition parent_append :: "string \<Rightarrow> tournament_decision \<Rightarrow> (parent_log, bool) op" where
  "parent_append i d =
     obind (oread (parent_prepare i d)) (\<lambda>r. obind (olift r) (\<lambda>r. case r of
       None \<Rightarrow> oreturn False
     | Some es \<Rightarrow> obind parent_lease (\<lambda>_. \<lambda>f.
         case obind (oread (parent_recheck i es)) (\<lambda>r. obind (olift r) (\<lambda>_. parent_write i d es)) f of
           (f', r) \<Rightarrow> (parent_release f', bind r (\<lambda>_. Inr True)))))"

section \<open>Several writers\<close>

text \<open>
  Writers that append at the same time, each with its decision: what a writer has done so far.  A
  writer may also die at any point, and then a lease it holds stays.
\<close>

datatype parent_writer = Idle | Prepared "dict list" | Leased "dict list" | Rechecked "dict list" | Wrote | Ended

record parent_system =
  sy_log :: parent_log
  sy_writers :: "nat \<Rightarrow> parent_writer"

definition move :: "nat \<Rightarrow> parent_writer \<Rightarrow> parent_log \<Rightarrow> parent_system \<Rightarrow> parent_system" where
  "move w x f s = \<lparr>sy_log = f, sy_writers = (sy_writers s)(w := x)\<rparr>"

inductive parent_step :: "string \<Rightarrow> (nat \<Rightarrow> tournament_decision) \<Rightarrow> parent_system \<Rightarrow> parent_system \<Rightarrow> bool" for i ds where
  prepare: "sy_writers s w = Idle \<Longrightarrow> parent_prepare i (ds w) (sy_log s) = Inr (Some es)
    \<Longrightarrow> parent_step i ds s (move w (Prepared es) (sy_log s) s)"
| refuse: "sy_writers s w = Idle \<Longrightarrow> \<forall>es. parent_prepare i (ds w) (sy_log s) \<noteq> Inr (Some es)
    \<Longrightarrow> parent_step i ds s (move w Ended (sy_log s) s)"
| lease: "sy_writers s w = Prepared es \<Longrightarrow> parent_lease (sy_log s) = (f, Inr ()) \<Longrightarrow> parent_step i ds s (move w (Leased es) f s)"
| busy: "sy_writers s w = Prepared es \<Longrightarrow> parent_lease (sy_log s) = (f, Inl e) \<Longrightarrow> parent_step i ds s (move w Ended f s)"
| recheck: "sy_writers s w = Leased es \<Longrightarrow> parent_recheck i es (sy_log s) = Inr ()
    \<Longrightarrow> parent_step i ds s (move w (Rechecked es) (sy_log s) s)"
| changed: "sy_writers s w = Leased es \<Longrightarrow> parent_recheck i es (sy_log s) = Inl e
    \<Longrightarrow> parent_step i ds s (move w Ended (parent_release (sy_log s)) s)"
| append: "sy_writers s w = Rechecked es \<Longrightarrow> parent_write i (ds w) es (sy_log s) = (f, Inr ()) \<Longrightarrow> parent_step i ds s (move w Wrote f s)"
| fail: "sy_writers s w = Rechecked es \<Longrightarrow> parent_write i (ds w) es (sy_log s) = (f, Inl e)
    \<Longrightarrow> parent_step i ds s (move w Ended (parent_release f) s)"
| release: "sy_writers s w = Wrote \<Longrightarrow> parent_step i ds s (move w Ended (parent_release (sy_log s)) s)"
| death: "parent_step i ds s (move w Ended (sy_log s) s)"

end
