(* ===== verification/Parent_Claims.thy ===== *)
theory Parent_Claims
  imports Search_Parent
begin

text \<open>
  What the search-parent log promises: a readable log stays readable, whatever the interleaving of
  its writers and wherever they die; its events form one hash chain.
\<close>

section \<open>The chain of the events\<close>

interpretation sp: hash_chain "\<lambda>e. JObj (fmdrop ''event_sha256'' e)" "\<lambda>e. fmlookup e ''event_sha256''"
  "\<lambda>e. fmlookup e ''previous_event_sha256''" "Some JNull"
  by unfold_locales (fact object_entry_eq)+

lemma parent_event_facts:
  assumes "parent_event i es l = Inr e"
  shows "l = Some (JObj e)" and "fmdom' e = set event_fields" and "get e ''program_id'' = JStr i"
    and "get e ''event_sha256'' = JStr (digest (JObj (fmdrop ''event_sha256'' e)))"
    and "same_value (get e ''previous_event_sha256'') (last_hash es)"
    and "es \<noteq> [] \<Longrightarrow> same_value (get e ''previous_parent_revision_id'') (get (last es) ''selected_revision_id'')"
  using assms by (auto simp: parent_event_def bad_event_def program_unless_def res_simps split: option.splits json.splits if_splits)

lemma event_lookup: "k \<in> fmdom' e \<Longrightarrow> fmlookup e k = Some (get e k)"
  by (auto simp: get_def fmlookup_dom'_iff)

lemma valid_last_hash: "sp.valid es \<Longrightarrow> sp.head es = Some (last_hash es) \<and> (last_hash es = JNull \<or> (\<exists>h. is_sha256 h \<and> last_hash es = JStr h))"
proof (cases es rule: rev_cases)
  case Nil
  then show ?thesis by (simp add: sp.head_def last_hash_def)
next
  case (snoc zs z)
  moreover assume "sp.valid es"
  ultimately have "fmlookup z ''event_sha256'' = Some (JStr (digest (JObj (fmdrop ''event_sha256'' z))))"
    by (simp add: sp.valid_snoc sp.sealed_def)
  with snoc show ?thesis by (auto simp: sp.head_def last_hash_def get_def)
qed

lemma event_valid:
  assumes "sp.valid es" and "parent_event i es l = Inr e"
  shows "sp.valid (es @ [e])"
proof -
  note f = parent_event_facts [OF assms(2)]
  have d: "''event_sha256'' \<in> fmdom' e" "''previous_event_sha256'' \<in> fmdom' e" by (simp_all add: f(2) event_fields_def)
  have "get e ''previous_event_sha256'' = last_hash es"
    using f(5) valid_last_hash [OF assms(1)] by (auto simp: same_value_def)
  then have "fmlookup e ''previous_event_sha256'' = sp.head es"
    using valid_last_hash [OF assms(1)] event_lookup [OF d(2)] by simp
  moreover have "sp.sealed e" using f(4) event_lookup [OF d(1)] by (simp add: sp.sealed_def)
  ultimately show ?thesis using assms(1) by (simp add: sp.valid_snoc)
qed

lemma read_valid: "parent_read i es ls = Inr rs \<Longrightarrow> sp.valid es \<Longrightarrow> sp.valid rs"
proof (induction ls arbitrary: es)
  case (Cons l ls)
  then obtain e where "parent_event i es l = Inr e" "parent_read i (es @ [e]) ls = Inr rs" by (auto simp: res_simps)
  then show ?case using Cons.IH Cons.prems(2) event_valid by blast
qed simp

lemma read_snoc: "parent_read i es (ls @ [l]) = bind (parent_read i es ls) (\<lambda>rs. bind (parent_event i rs l) (\<lambda>e. Inr (rs @ [e])))"
proof (induction ls arbitrary: es)
  case (Cons a ls)
  then show ?case by (cases "parent_event i es a") simp_all
qed simp

text \<open>Every event but the first starts from the revision the event before it selected.\<close>

definition parents_linked :: "dict list \<Rightarrow> bool" where
  "parents_linked es \<longleftrightarrow>
     successively (\<lambda>x y. same_value (get y ''previous_parent_revision_id'') (get x ''selected_revision_id'')) es"

lemma linked_snoc:
  "parents_linked (es @ [e]) \<longleftrightarrow> parents_linked es
     \<and> (es \<noteq> [] \<longrightarrow> same_value (get e ''previous_parent_revision_id'') (get (last es) ''selected_revision_id''))"
  by (auto simp: parents_linked_def successively_append_iff)

lemma read_linked: "parent_read i es ls = Inr rs \<Longrightarrow> parents_linked es \<Longrightarrow> parents_linked rs"
proof (induction ls arbitrary: es)
  case (Cons l ls)
  then obtain e where e: "parent_event i es l = Inr e" "parent_read i (es @ [e]) ls = Inr rs" by (auto simp: res_simps)
  have "parents_linked (es @ [e])" using Cons.prems(2) parent_event_facts(6) [OF e(1)] by (simp add: linked_snoc)
  with Cons.IH e(2) show ?case by blast
qed simp

lemma events_chain:
  assumes "parent_events i f = Inr es"
  shows "sp.valid es" and "parents_linked es"
  using read_valid [of i "[]"] read_linked [of i "[]"] assms by (auto simp: parent_events_def parents_linked_def)

section \<open>A written event reads back\<close>

definition clean_decision :: "string \<Rightarrow> tournament_decision \<Rightarrow> bool" where
  "clean_decision i d \<longleftrightarrow> \<not> has_break i \<and> \<not> has_break (td_tournament_id d) \<and> \<not> has_break (td_parent d) \<and> \<not> has_break (td_winner d)"

text \<open>What a writer has established before it takes the lease.\<close>

definition prepared_ok :: "string \<Rightarrow> tournament_decision \<Rightarrow> dict list \<Rightarrow> bool" where
  "prepared_ok i d es \<longleftrightarrow> is_sha256 (td_sha256 d) \<and> JStr (td_tournament_id d) \<notin> (\<lambda>e. get e ''tournament_id'') ` set es
     \<and> (es \<noteq> [] \<longrightarrow> get (last es) ''selected_revision_id'' = JStr (td_parent d)) \<and> finite_json (JObj (parent_new i es d))"

lemma prepare_ok: "parent_prepare i d f = Inr (Some es) \<Longrightarrow> prepared_ok i d es"
  by (auto simp: parent_prepare_def check_append_def program_unless_def res_simps Let_def prepared_ok_def filter_empty_conv split: if_splits)

lemma stored_lookups:
  "get (parent_stored i es d) ''tournament_id'' = JStr (td_tournament_id d)"
  "get (parent_stored i es d) ''selected_revision_id'' = JStr (td_winner d)"
  "get (parent_stored i es d) ''decision_sha256'' = JStr (td_sha256 d)"
  by (simp_all add: parent_stored_def parent_new_def)

lemma stored_event_reads:
  assumes "prepared_ok i d es" and "sp.valid es"
  shows "parent_event i es (Some (JObj (parent_stored i es d))) = Inr (parent_stored i es d)"
proof -
  let ?e = "parent_stored i es d"
  have drop: "fmdrop ''event_sha256'' ?e = parent_new i es d"
    unfolding parent_stored_def by (rule fmdrop_fmupd_fresh) (simp add: parent_new_def)
  have dom: "fmdom' ?e = set event_fields" by (auto simp: parent_stored_def parent_new_def event_fields_def)
  have nan: "same_value (last_hash es) (last_hash es)" using valid_last_hash [OF assms(2)] by (auto simp: same_value_def)
  have "content_sha256 (JObj (parent_new i es d)) = Inr (digest (JObj (parent_new i es d)))"
    using assms(1) by (simp add: prepared_ok_def content_sha256_eq_Inr)
  then show ?thesis
    using assms(1) nan dom
    by (auto simp: parent_event_def drop program_unless_def prepared_ok_def)
      (auto simp: parent_stored_def parent_new_def)
qed

lemma stored_event_clean:
  assumes "prepared_ok i d es" and "sp.valid es" and "clean_decision i d"
  shows "stored_line (JObj (parent_stored i es d)) = Some (JObj (parent_stored i es d))"
proof (rule stored_line_clean)
  let ?kvs = "[(''event_sha256'', JStr (digest (JObj (parent_new i es d)))), (''sequence'', JInt (int (length es) + 1)), (''program_id'', JStr i),
     (''tournament_id'', JStr (td_tournament_id d)), (''execution_scope'', JStr ''fixture''), (''previous_parent_revision_id'', JStr (td_parent d)),
     (''selected_revision_id'', JStr (td_winner d)), (''decision_sha256'', JStr (td_sha256 d)), (''previous_event_sha256'', last_hash es)]"
  have e: "parent_stored i es d = fmap_of_list ?kvs"
    by (simp add: parent_stored_def parent_new_def)
  have h: "\<not> has_break (json_text (last_hash es))"
    using valid_last_hash [OF assms(2)] has_break_hex by (auto simp: has_break_string breaks_line_def)
  have "distinct (map fst ?kvs)" "list_all (\<lambda>k. \<not> has_break k) (map fst ?kvs)"
    by (simp_all add: breaks_line_def)
  from has_break_fields [OF this] show "\<not> has_break (json_text (JObj (parent_stored i es d)))"
    unfolding e using assms(1,3) h
    by (simp add: clean_decision_def prepared_ok_def has_break_string has_break_hex int_text_no_break breaks_line_def del: json_text.simps(7))
qed

section \<open>Interleaved writers\<close>

abbreviation tournament_ids :: "dict list \<Rightarrow> json list" where
  "tournament_ids es \<equiv> map (\<lambda>e. get e ''tournament_id'') es"

fun writer_ok :: "string \<Rightarrow> tournament_decision \<Rightarrow> bool \<Rightarrow> dict list \<Rightarrow> parent_writer \<Rightarrow> bool" where
  "writer_ok i d locked now (Prepared es) = prepared_ok i d es"
| "writer_ok i d locked now (Leased es) = (prepared_ok i d es \<and> locked)"
| "writer_ok i d locked now (Rechecked es) = (prepared_ok i d es \<and> locked \<and> es = now)"
| "writer_ok i d locked now Wrote = locked"
| "writer_ok i d locked now x = True"

fun holds_lease :: "parent_writer \<Rightarrow> bool" where
  "holds_lease (Leased es) = True" | "holds_lease (Rechecked es) = True" | "holds_lease Wrote = True" | "holds_lease x = False"

definition event_from :: "(nat \<Rightarrow> tournament_decision) \<Rightarrow> dict \<Rightarrow> bool" where
  "event_from ds e \<longleftrightarrow> (\<exists>w. get e ''decision_sha256'' = JStr (td_sha256 (ds w)) \<and> get e ''selected_revision_id'' = JStr (td_winner (ds w)))"

definition parent_safe :: "string \<Rightarrow> (nat \<Rightarrow> tournament_decision) \<Rightarrow> dict list \<Rightarrow> dict list \<Rightarrow> parent_system \<Rightarrow> bool" where
  "parent_safe i ds es0 es s \<longleftrightarrow> parent_events i (sy_log s) = Inr (es0 @ es) \<and> distinct (tournament_ids (es0 @ es))
     \<and> list_all (event_from ds) es \<and> (\<forall>w. writer_ok i (ds w) (pg_locked (sy_log s)) (es0 @ es) (sy_writers s w))
     \<and> (\<forall>v w. holds_lease (sy_writers s v) \<and> holds_lease (sy_writers s w) \<longrightarrow> v = w)"

lemma holder_locked: "writer_ok i d l now x \<Longrightarrow> holds_lease x \<Longrightarrow> l"
  by (cases x) simp_all

lemma unleased_ok: "writer_ok i d l now x \<Longrightarrow> \<not> holds_lease x \<Longrightarrow> writer_ok i d l' now' x"
  by (cases x) simp_all

lemma events_lock [simp]: "parent_events i (f\<lparr>pg_locked := b\<rparr>) = parent_events i f"
  by (simp add: parent_events_def)

lemma parent_safeD:
  assumes "parent_safe i ds es0 es s"
  shows "parent_events i (sy_log s) = Inr (es0 @ es)" and "distinct (tournament_ids (es0 @ es))" and "list_all (event_from ds) es"
    and "writer_ok i (ds w) (pg_locked (sy_log s)) (es0 @ es) (sy_writers s w)"
    and "holds_lease (sy_writers s v) \<Longrightarrow> holds_lease (sy_writers s w) \<Longrightarrow> v = w"
  using assms unfolding parent_safe_def by blast+

lemma parent_safe_moveI:
  assumes "parent_events i f = Inr (es0 @ es)" and "distinct (tournament_ids (es0 @ es))" and "list_all (event_from ds) es"
    and "writer_ok i (ds w) (pg_locked f) (es0 @ es) x"
    and "\<And>v. v \<noteq> w \<Longrightarrow> writer_ok i (ds v) (pg_locked f) (es0 @ es) (sy_writers s v)"
    and "\<And>v u. holds_lease (((sy_writers s)(w := x)) v) \<Longrightarrow> holds_lease (((sy_writers s)(w := x)) u) \<Longrightarrow> v = u"
  shows "parent_safe i ds es0 es (move w x f s)"
  using assms unfolding parent_safe_def move_def parent_system.simps by (metis fun_upd_apply)

lemma unleased_others:
  assumes "parent_safe i ds es0 es s" and "holds_lease (sy_writers s w)" and "v \<noteq> w"
  shows "\<not> holds_lease (sy_writers s v)"
  using parent_safeD(5) [OF assms(1)] assms(2,3) by blast

text \<open>A step that leaves the lines alone and gives the lease to at most the moving writer.\<close>

lemma safe_move:
  assumes "parent_safe i ds es0 es s" and "pg_lines f = pg_lines (sy_log s)"
    and "writer_ok i (ds w) (pg_locked f) (es0 @ es) x"
    and "pg_locked f = pg_locked (sy_log s) \<or> (\<forall>v. v \<noteq> w \<longrightarrow> \<not> holds_lease (sy_writers s v))"
    and "holds_lease x \<longrightarrow> holds_lease (sy_writers s w) \<or> (\<forall>v. \<not> holds_lease (sy_writers s v))"
  shows "parent_safe i ds es0 es (move w x f s)"
proof (rule parent_safe_moveI)
  show "parent_events i f = Inr (es0 @ es)" using parent_safeD(1) [OF assms(1)] by (simp add: parent_events_def assms(2))
  show "writer_ok i (ds v) (pg_locked f) (es0 @ es) (sy_writers s v)" if "v \<noteq> w" for v
  proof (cases "holds_lease (sy_writers s v)")
    case True
    then have "pg_locked f = pg_locked (sy_log s)" using assms(4) that by blast
    then show ?thesis using parent_safeD(4) [OF assms(1), of v] by simp
  qed (rule unleased_ok [OF parent_safeD(4) [OF assms(1)]])
  show "v = u" if "holds_lease (((sy_writers s)(w := x)) v)" "holds_lease (((sy_writers s)(w := x)) u)" for v u
    using that assms(5) parent_safeD(5) [OF assms(1)] by (metis fun_upd_apply)
qed (use parent_safeD [OF assms(1)] assms(3) in blast)+

lemma safe_write:
  assumes "parent_safe i ds es0 es s" and "sy_writers s w = Rechecked x" and "parent_write i (ds w) x (sy_log s) = (f, Inr ())"
    and "clean_decision i (ds w)"
  shows "parent_safe i ds es0 (es @ [parent_stored i x (ds w)]) (move w Wrote f s)"
proof -
  let ?e = "parent_stored i x (ds w)"
  have w: "prepared_ok i (ds w) x" "pg_locked (sy_log s)" "x = es0 @ es"
    using parent_safeD(4) [OF assms(1), of w] unfolding assms(2) writer_ok.simps by blast+
  have r: "parent_events i (sy_log s) = Inr x" using parent_safeD(1) [OF assms(1)] w(3) by simp
  have v: "sp.valid x" by (rule events_chain(1) [OF r])
  have f: "f = (sy_log s)\<lparr>pg_lines := pg_lines (sy_log s) @ [Some (JObj ?e)]\<rparr>"
    using assms(3) stored_event_clean [OF w(1) v assms(4)]
    by (auto simp: parent_write_def obind_def olift_def split: sum.splits)
  have h: "holds_lease (sy_writers s w)" by (simp add: assms(2))
  show ?thesis
  proof (rule parent_safe_moveI)
    show "parent_events i f = Inr (es0 @ es @ [?e])"
      using r stored_event_reads [OF w(1) v] w(3) by (simp add: f parent_events_def read_snoc)
    have "JStr (td_tournament_id (ds w)) \<notin> (\<lambda>e. get e ''tournament_id'') ` set (es0 @ es)"
      using w(1,3) by (simp add: prepared_ok_def)
    then show "distinct (tournament_ids (es0 @ es @ [?e]))"
      using parent_safeD(2) [OF assms(1)] by (auto simp: stored_lookups)
    show "list_all (event_from ds) (es @ [?e])"
      using parent_safeD(3) [OF assms(1)] by (auto simp: event_from_def stored_lookups)
    show "writer_ok i (ds w) (pg_locked f) (es0 @ es @ [?e]) Wrote" using w(2) by (simp add: f)
    show "writer_ok i (ds u) (pg_locked f) (es0 @ es @ [?e]) (sy_writers s u)" if "u \<noteq> w" for u
      by (rule unleased_ok [OF parent_safeD(4) [OF assms(1)] unleased_others [OF assms(1) h that]])
    show "v = u" if "holds_lease (((sy_writers s)(w := Wrote)) v)" "holds_lease (((sy_writers s)(w := Wrote)) u)" for v u
      using that unleased_others [OF assms(1) h] by (metis fun_upd_apply)
  qed
qed

lemma safe_step:
  assumes "parent_step i ds s s'" and "parent_safe i ds es0 es s" and "\<forall>w. clean_decision i (ds w)"
  shows "\<exists>es'. parent_safe i ds es0 es' s'"
  using assms(1)
proof cases
  case (prepare w x)
  have "parent_safe i ds es0 es s'" unfolding prepare(1)
    by (rule safe_move [OF assms(2)]) (simp_all add: prepare_ok [OF prepare(3)])
  then show ?thesis by blast
next
  case (refuse w)
  have "parent_safe i ds es0 es s'" unfolding refuse(1) by (rule safe_move [OF assms(2)]) simp_all
  then show ?thesis by blast
next
  case (lease w x f)
  then have f: "f = (sy_log s)\<lparr>pg_locked := True\<rparr>" "\<not> pg_locked (sy_log s)" by (auto simp: parent_lease_def raise_def split: if_splits)
  have n: "\<not> holds_lease (sy_writers s v)" for v
    using holder_locked [OF parent_safeD(4) [OF assms(2), of v]] f(2) by blast
  have "prepared_ok i (ds w) x" using parent_safeD(4) [OF assms(2), of w] by (simp add: lease)
  then have "parent_safe i ds es0 es s'" unfolding lease(1) f(1)
    by (intro safe_move [OF assms(2)]) (simp_all add: n)
  then show ?thesis by blast
next
  case (busy w x f e)
  then have "f = sy_log s" by (auto simp: parent_lease_def split: if_splits)
  then have "parent_safe i ds es0 es s'" unfolding busy(1) by (intro safe_move [OF assms(2)]) simp_all
  then show ?thesis by blast
next
  case (recheck w x)
  have e: "es0 @ es = x"
    using recheck(3) parent_safeD(1) [OF assms(2)] by (simp add: parent_recheck_def program_unless_def require_eq_Inr)
  have k: "writer_ok i (ds w) (pg_locked (sy_log s)) (es0 @ es) (Rechecked x)"
    using parent_safeD(4) [OF assms(2), of w] unfolding recheck(2) e writer_ok.simps by blast
  have "parent_safe i ds es0 es s'" unfolding recheck(1)
    by (rule safe_move [OF assms(2) _ k]) (simp_all add: recheck(2))
  then show ?thesis by blast
next
  case (changed w x e)
  have "parent_safe i ds es0 es s'" unfolding changed(1)
    by (rule safe_move [OF assms(2)]) (use unleased_others [OF assms(2), of w] changed(2) in \<open>simp_all add: parent_release_def\<close>)
  then show ?thesis by blast
next
  case (append w x f)
  show ?thesis unfolding append(1) using safe_write [OF assms(2) append(2,3)] assms(3) by blast
next
  case (fail w x f e)
  have f: "f = sy_log s" using fail(3) by (auto simp: parent_write_def obind_def olift_def split: sum.splits)
  have "parent_safe i ds es0 es s'" unfolding fail(1) f
    by (rule safe_move [OF assms(2)]) (use unleased_others [OF assms(2), of w] fail(2) in \<open>simp_all add: parent_release_def\<close>)
  then show ?thesis by blast
next
  case (release w)
  have "parent_safe i ds es0 es s'" unfolding release(1)
    by (rule safe_move [OF assms(2)]) (use unleased_others [OF assms(2), of w] release(2) in \<open>simp_all add: parent_release_def\<close>)
  then show ?thesis by blast
next
  case (death w)
  have "parent_safe i ds es0 es s'" unfolding death(1) by (rule safe_move [OF assms(2)]) simp_all
  then show ?thesis by blast
qed

section \<open>Properties\<close>

text \<open>C26: The search-parent log survives its writers, when no program, tournament or revision id they write contains U+0085 (the character at which
  the reader would split the line): from a readable log, whatever the interleaving of any number of writers, each reading, taking the lease, rechecking,
  writing and releasing, and wherever they die, the log stays readable, as the old events followed by events of the writers' decisions, no tournament
  twice, every advance from the revision the one before it selected.\<close>

theorem parent_log_survives_writers:
  assumes "parent_events i (sy_log s0) = Inr es0" and "distinct (map (\<lambda>e. get e ''tournament_id'') es0)"
    and "\<forall>w. sy_writers s0 w = Idle" and "\<forall>w. clean_decision i (ds w)" and "(parent_step i ds)\<^sup>*\<^sup>* s0 s"
  shows "\<exists>es. parent_events i (sy_log s) = Inr (es0 @ es) \<and> distinct (map (\<lambda>e. get e ''tournament_id'') (es0 @ es))
    \<and> parents_linked (es0 @ es)
    \<and> (\<forall>e \<in> set es. \<exists>w. get e ''decision_sha256'' = JStr (td_sha256 (ds w)) \<and> get e ''selected_revision_id'' = JStr (td_winner (ds w)))"
proof -
  have "\<exists>es. parent_safe i ds es0 es s" using assms(5)
  proof (induction rule: rtranclp_induct)
    case base
    have "parent_safe i ds es0 [] s0" using assms(1-3) by (simp add: parent_safe_def)
    then show ?case by blast
  next
    case (step x y)
    then show ?case using safe_step assms(4) by blast
  qed
  then obtain es where s: "parent_safe i ds es0 es s" by blast
  show ?thesis
    using parent_safeD(1,2) [OF s] parent_safeD(3) [OF s, unfolded list_all_iff event_from_def] events_chain(2) [OF parent_safeD(1) [OF s]]
    by blast
qed

text \<open>A decision of a tournament of two revisions, one per writer.\<close>

definition demo_draft :: "nat \<Rightarrow> tournament_decision" where
  "demo_draft w = \<lparr>td_decision_id = [], td_sha256 = [], td_tournament_id = (if w = 0 then ''t0'' else ''t1''), td_campaign_id = ''c'',
     td_program_id = ''prog'', td_scope = ''fixture'', td_parent = ''base'', td_participants = [''base'', ''next''],
     td_tasks = [''task''], td_plan_ids = [''p1'', ''p2''], td_receipt_ids = [''r1'', ''r2''], td_bundles = [(''base'', ''b1''), (''next'', ''b2'')],
     td_config_sha256 = replicate 64 CHR ''0'', td_matched_sha256 = replicate 64 CHR ''1'', td_policy = ''fixture-mean-score-v1'',
     td_scores = [(''base'', Fin 0), (''next'', Fin 1)], td_winner = ''next'', td_advanced = True\<rparr>"

definition demo_decision :: "nat \<Rightarrow> tournament_decision" where
  "demo_decision w = (let h = digest (tournament_identity (demo_draft w)) in (demo_draft w)\<lparr>td_decision_id := decision_name h, td_sha256 := h\<rparr>)"

lemma identity_finite:
  assumes "list_all finite_float (map snd (td_scores d))"
  shows "finite_json (tournament_identity d)"
  unfolding tournament_identity_def by (rule finite_jobj) (use assms in \<open>auto simp: list_all_iff routes_json_def str_list_def\<close>)

lemma demo_decision_fields [simp]:
  "td_program_id (demo_decision w) = ''prog''" "td_parent (demo_decision w) = ''base''" "td_winner (demo_decision w) = ''next''"
  "td_scope (demo_decision w) = ''fixture''" "td_tournament_id (demo_decision w) = (if w = 0 then ''t0'' else ''t1'')"
  "td_sha256 (demo_decision w) = digest (tournament_identity (demo_decision w))"
  by (simp_all add: demo_decision_def demo_draft_def Let_def tournament_identity_def)

lemma demo_check: "check_append ''prog'' (demo_decision w) = Inr ()"
proof -
  have "finite_json (tournament_identity (demo_decision w))"
    by (rule identity_finite) (simp add: demo_decision_def demo_draft_def Let_def)
  then show ?thesis by (simp add: check_append_def content_sha256_eq program_unless_def)
qed

lemma demo_prepared: "parent_prepare ''prog'' (demo_decision w) \<lparr>pg_lines = [], pg_locked = l\<rparr> = Inr (Some [])"
proof -
  have "finite_json (JObj (parent_new ''prog'' [] (demo_decision w)))"
    unfolding parent_new_def by (rule finite_fields) (simp add: last_hash_def)
  then have "content_sha256 (JObj (parent_new ''prog'' [] (demo_decision w))) = Inr (digest (JObj (parent_new ''prog'' [] (demo_decision w))))"
    by (simp add: content_sha256_eq_Inr)
  then show ?thesis by (simp add: parent_prepare_def demo_check parent_events_def Let_def program_unless_def)
qed

lemma demo_clean: "clean_decision ''prog'' (demo_decision w)"
  by (simp add: clean_decision_def breaks_line_def)

lemma demo_written:
  "parent_write ''prog'' (demo_decision w) [] \<lparr>pg_lines = [], pg_locked = True\<rparr>
     = (\<lparr>pg_lines = [Some (JObj (parent_stored ''prog'' [] (demo_decision w)))], pg_locked = True\<rparr>, Inr ())"
proof -
  note ok = prepare_ok [OF demo_prepared [of w True]]
  have "finite_json (JObj (parent_stored ''prog'' [] (demo_decision w)))"
    unfolding parent_stored_def by (rule finite_fmupd) (use ok in \<open>simp_all add: prepared_ok_def\<close>)
  moreover have "stored_line (JObj (parent_stored ''prog'' [] (demo_decision w))) = Some (JObj (parent_stored ''prog'' [] (demo_decision w)))"
    by (rule stored_event_clean [OF ok _ demo_clean]) simp
  ultimately show ?thesis by (simp add: parent_write_def canonical_json_def del: json_text.simps)
qed

lemma demo_reread:
  "parent_events ''prog'' \<lparr>pg_lines = [Some (JObj (parent_stored ''prog'' [] (demo_decision w)))], pg_locked = l\<rparr>
     = Inr [parent_stored ''prog'' [] (demo_decision w)]"
  using stored_event_reads [OF prepare_ok [OF demo_prepared [of w l]]] by (simp add: parent_events_def)

text \<open>
  Two writers prepare on the empty log; the first appends, and the second then takes the lease, finds
  the log changed and gives up.
\<close>

lemma parent_log_survives_writers_witness:
  "\<exists>s. (parent_step ''prog'' demo_decision)\<^sup>*\<^sup>* \<lparr>sy_log = \<lparr>pg_lines = [], pg_locked = False\<rparr>, sy_writers = \<lambda>_. Idle\<rparr> s
     \<and> pg_lines (sy_log s) = [Some (JObj (parent_stored ''prog'' [] (demo_decision 0)))] \<and> sy_writers s 1 = Ended
     \<and> (\<exists>es. parent_events ''prog'' (sy_log s) = Inr es \<and> distinct (map (\<lambda>e. get e ''tournament_id'') es) \<and> parents_linked es)"
proof -
  let ?st = "parent_step ''prog'' demo_decision" and ?e = "parent_stored ''prog'' [] (demo_decision 0)"
  let ?f0 = "\<lparr>pg_lines = [], pg_locked = False\<rparr>" and ?l0 = "\<lparr>pg_lines = [], pg_locked = True\<rparr>"
  let ?f1 = "\<lparr>pg_lines = [Some (JObj ?e)], pg_locked = False\<rparr>" and ?l1 = "\<lparr>pg_lines = [Some (JObj ?e)], pg_locked = True\<rparr>"
  let ?s0 = "\<lparr>sy_log = ?f0, sy_writers = \<lambda>_. Idle\<rparr>"
  let ?s1 = "move 0 (Prepared []) ?f0 ?s0" let ?s2 = "move 1 (Prepared []) ?f0 ?s1"
  let ?s3 = "move 0 (Leased []) ?l0 ?s2" let ?s4 = "move 0 (Rechecked []) ?l0 ?s3"
  let ?s5 = "move 0 Wrote ?l1 ?s4" let ?s6 = "move 0 Ended ?f1 ?s5"
  let ?s7 = "move 1 (Leased []) ?l1 ?s6" let ?s8 = "move 1 Ended ?f1 ?s7"
  have m: "sy_log (move w x f s) = f" "sy_writers (move w x f s) v = (if v = w then x else sy_writers s v)" for w x f s v
    by (simp_all add: move_def)
  have "?st ?s0 ?s1" using prepare [of ?s0 0 "''prog''" demo_decision "[]"] demo_prepared by simp
  moreover have "?st ?s1 ?s2" using prepare [of ?s1 1 "''prog''" demo_decision "[]"] demo_prepared by (simp add: m)
  moreover have "?st ?s2 ?s3" using lease [of ?s2 0 "[]" ?l0 "''prog''" demo_decision] by (simp add: m parent_lease_def)
  moreover have "?st ?s3 ?s4" using recheck [of ?s3 0 "[]" "''prog''" demo_decision]
    by (simp add: m parent_recheck_def parent_events_def program_unless_def)
  moreover have "?st ?s4 ?s5" using append [of ?s4 0 "[]" "''prog''" demo_decision ?l1] demo_written by (simp add: m)
  moreover have "?st ?s5 ?s6" using release [of ?s5 0 "''prog''" demo_decision] by (simp add: m parent_release_def)
  moreover have "?st ?s6 ?s7" using lease [of ?s6 1 "[]" ?l1 "''prog''" demo_decision] by (simp add: m parent_lease_def)
  moreover have "parent_recheck ''prog'' [] ?l1 = Inl (Err AgentProgramViolation ''search-parent changed during append'')"
    by (simp add: parent_recheck_def demo_reread program_unless_def require_def raise_def)
  then have "?st ?s7 ?s8" using changed [of ?s7 1 "[]" "''prog''" _ demo_decision] by (simp add: m parent_release_def)
  ultimately have "?st\<^sup>*\<^sup>* ?s0 ?s8" by (meson converse_rtranclp_into_rtranclp rtranclp.rtrancl_refl)
  note reached = this
  have e: "parent_events ''prog'' (sy_log ?s0) = Inr []" "\<forall>w. sy_writers ?s0 w = Idle" "\<forall>w. clean_decision ''prog'' (demo_decision w)"
    by (simp_all add: parent_events_def demo_clean)
  have d: "distinct (map (\<lambda>e. get e ''tournament_id'') [])" by simp
  have "pg_lines (sy_log ?s8) = [Some (JObj ?e)]" "sy_writers ?s8 1 = Ended" by (simp_all add: m)
  then show ?thesis using reached parent_log_survives_writers [OF e(1) d e(2,3) reached] unfolding append_Nil by blast
qed

end
