(* ===== verification/Tournament_Claims.thy ===== *)
theory Tournament_Claims
  imports Parent_Claims Bundle_Load
begin

text \<open>
  What a decided tournament rests on, and the step from a decision to an advance of the search parent.
\<close>

section \<open>The greatest score\<close>

lemma finite_floatE: "finite_float f \<Longrightarrow> (\<And>a. f = Fin a \<Longrightarrow> P) \<Longrightarrow> P"
  by (cases f) auto

lemma max_fold:
  "list_all finite_float (m # xs) \<Longrightarrow> (let r = foldl (\<lambda>m x. if flt m x then x else m) m xs in
     r \<in> set (m # xs) \<and> (\<forall>x \<in> set (m # xs). \<not> flt r x))"
proof (induction xs arbitrary: m)
  case Nil
  then show ?case by (auto elim: finite_floatE)
next
  case (Cons x xs)
  let ?n = "if flt m x then x else m"
  have f: "list_all finite_float (?n # xs)" using Cons.prems by simp
  obtain a b where ab: "m = Fin a" "x = Fin b" using Cons.prems by (auto elim!: finite_floatE)
  let ?r = "foldl (\<lambda>m x. if flt m x then x else m) ?n xs"
  have r: "?r \<in> set (?n # xs)" "\<forall>y \<in> set (?n # xs). \<not> flt ?r y" using Cons.IH [OF f] by (simp_all add: Let_def)
  have "finite_float ?r" using r(1) f unfolding list_all_iff by blast
  then obtain c where c: "?r = Fin c" by (auto elim: finite_floatE)
  have "\<not> flt ?r ?n" using r(2) by simp
  then have "\<not> flt ?r m" "\<not> flt ?r x" unfolding c by (auto simp: ab split: if_splits)
  with r have "\<forall>y \<in> set (m # x # xs). \<not> flt ?r y" by simp
  moreover have "?r \<in> set (m # x # xs)" using r(1) by (cases "flt m x") auto
  ultimately show ?case unfolding Let_def foldl.simps by blast
qed

lemma max_score_greatest:
  assumes "list_all finite_float xs" and "xs \<noteq> []"
  shows "max_score xs \<in> set xs" and "x \<in> set xs \<Longrightarrow> \<not> flt (max_score xs) x"
proof -
  obtain m ys where xs: "xs = m # ys" using assms(2) by (cases xs) auto
  note f = max_fold [OF assms(1) [unfolded xs], unfolded Let_def]
  show "max_score xs \<in> set xs" using f by (simp add: max_score_def xs)
  show "x \<in> set xs \<Longrightarrow> \<not> flt (max_score xs) x" using f by (auto simp: max_score_def xs)
qed

lemma finite_feq: "finite_float f \<Longrightarrow> finite_float g \<Longrightarrow> feq f g \<longleftrightarrow> f = g"
  by (auto elim!: finite_floatE)

lemma finite_trichotomy: "finite_float f \<Longrightarrow> finite_float g \<Longrightarrow> \<not> flt f g \<Longrightarrow> f \<noteq> g \<Longrightarrow> flt g f"
  by (auto elim!: finite_floatE)

lemma tied_iff:
  assumes "list_all finite_float (map snd rows)" and "rows \<noteq> []"
  shows "r \<in> set (tied_revisions rows) \<longleftrightarrow> (r, max_score (map snd rows)) \<in> set rows"
proof -
  have m: "finite_float (max_score (map snd rows))"
    using max_score_greatest(1) [OF assms(1)] assms by (auto simp: list_all_iff)
  have "feq s (max_score (map snd rows)) \<longleftrightarrow> s = max_score (map snd rows)" if "(q, s) \<in> set rows" for q s
    using that assms(1) m by (intro finite_feq) (auto simp: list_all_iff)
  then show ?thesis by (force simp: tied_revisions_def)
qed

text \<open>What the choice of the winner means: nothing scores higher, and the parent keeps a tie.\<close>

lemma winner_facts:
  assumes "pick_winner parent rows = Inr w" and "list_all finite_float (map snd rows)" and "distinct (map fst rows)"
    and "rows \<noteq> []"
  shows "\<exists>m. (w, m) \<in> set rows \<and> (\<forall>(r, s) \<in> set rows. \<not> flt m s \<and> (w \<noteq> parent \<and> r = parent \<longrightarrow> flt s m)
    \<and> (w \<noteq> parent \<and> s = m \<longrightarrow> w \<le> r))"
proof -
  let ?m = "max_score (map snd rows)" and ?t = "tied_revisions rows"
  note tied = tied_iff [OF assms(2,4)]
  have w: "w \<in> set ?t" and least: "w \<noteq> parent \<Longrightarrow> parent \<notin> set ?t \<and> w = hd (sort ?t)"
  proof -
    have h: "hd (sort ?t) \<in> set ?t" if "?t \<noteq> []"
    proof -
      have "length (sort ?t) = length ?t" by simp
      with that have "sort ?t \<noteq> []" by (cases "sort ?t") auto
      then have "hd (sort ?t) \<in> set (sort ?t)" by (rule hd_in_set)
      then show ?thesis by simp
    qed
    then show "w \<in> set ?t" and "w \<noteq> parent \<Longrightarrow> parent \<notin> set ?t \<and> w = hd (sort ?t)"
      using assms(1) by (auto simp: pick_winner_def Let_def res_simps split: if_splits)
  qed
  have fin: "finite_float s" if "(r, s) \<in> set rows" for r s using that assms(2) by (auto simp: list_all_iff)
  have wm: "(w, ?m) \<in> set rows" using w tied by blast
  have top: "\<not> flt ?m s" if "(r, s) \<in> set rows" for r s
    using max_score_greatest(2) [OF assms(2), of s] that assms(4) by force
  have "flt s ?m" if "(parent, s) \<in> set rows" "w \<noteq> parent" for s
  proof -
    have "s \<noteq> ?m" using that least tied by blast
    then show ?thesis using finite_trichotomy [OF fin [OF wm] fin [OF that(1)]] top [OF that(1)] by blast
  qed
  moreover have "w \<le> r" if "(r, ?m) \<in> set rows" "w \<noteq> parent" for r
  proof -
    have "r \<in> set (sort ?t)" using that tied by simp
    moreover have "sorted (sort ?t)" by simp
    ultimately have "hd (sort ?t) \<le> r" by (cases "sort ?t") auto
    then show ?thesis using least that(2) by simp
  qed
  ultimately show ?thesis using wm top by (intro exI [of _ ?m]) auto
qed

section \<open>The matrix\<close>

lemma matrix_facts:
  assumes "check_matrix ps = Inr (parent, parts, tasks)"
  shows "parts \<noteq> []" and "hd parts = parent" and "distinct parts" and "distinct (map cell_of ps)"
    and "set (map cell_of ps) = set tasks \<times> set parts"
  using assms by (auto simp: check_matrix_def Let_def program_unless_def res_simps)

lemma matrix_complete:
  assumes "check_matrix ps = Inr (parent, parts, tasks)" and "t \<in> set tasks" and "r \<in> set parts"
  shows "\<exists>!p. p \<in> set ps \<and> cell_of p = (t, r)"
proof -
  have "(t, r) \<in> cell_of ` set ps" using matrix_facts(5) [OF assms(1)] assms(2,3) by simp
  then obtain p where p: "p \<in> set ps" "cell_of p = (t, r)" by force
  moreover have "q = p" if "q \<in> set ps" "cell_of q = (t, r)" for q
    using distinct_map_inj [OF matrix_facts(4) [OF assms(1)] that(1) p(1)] that p by simp
  ultimately show ?thesis by blast
qed

text \<open>The parts of a decision that was made.\<close>

lemma sealed_decision:
  assumes "seal_decision d = Inr e"
  shows "e = d\<lparr>td_decision_id := decision_name (digest (tournament_identity d)), td_sha256 := digest (tournament_identity d)\<rparr>"
    and "finite_json (tournament_identity d)" and "check_tournament_decision e = Inr ()"
  using assms by (auto simp: seal_decision_def Let_def res_simps)

lemma identity_sealed [simp]: "tournament_identity (d\<lparr>td_decision_id := n, td_sha256 := h\<rparr>) = tournament_identity d"
  by (simp add: tournament_identity_def)

lemma decided_parts:
  assumes "decide_tournament ps es = Inr d"
  shows "check_matrix ps = Inr (td_parent d, td_participants d, td_tasks d)"
    and "pick_winner (td_parent d) (td_scores d) = Inr (td_winner d)"
    and "map fst (td_scores d) = td_participants d" and "finite_json (tournament_identity d)"
    and "check_tournament_decision d = Inr ()"
proof -
  obtain tid cfg m parent parts tasks cells w where
    c: "check_matrix ps = Inr (parent, parts, tasks)" and
    w: "pick_winner parent (map (\<lambda>r. (r, mean_score cells r)) parts) = Inr w" and
    s: "seal_decision \<lparr>td_decision_id = [], td_sha256 = [], td_tournament_id = tid, td_campaign_id = pl_campaign_id (hd ps),
         td_program_id = ce_program (hd cells), td_scope = ''fixture'', td_parent = parent, td_participants = parts, td_tasks = tasks,
         td_plan_ids = map pl_plan_id ps, td_receipt_ids = map ce_receipt cells, td_bundles = map (\<lambda>r. (r, bundle_of cells r)) parts,
         td_config_sha256 = cfg, td_matched_sha256 = m, td_policy = ''fixture-mean-score-v1'',
         td_scores = map (\<lambda>r. (r, mean_score cells r)) parts,
         td_winner = w, td_advanced = (w \<noteq> parent)\<rparr> = Inr d"
    using assms by (simp add: decide_tournament_def bind_eq_Inr Let_def split: prod.splits) blast
  note f = sealed_decision [OF s]
  show "check_matrix ps = Inr (td_parent d, td_participants d, td_tasks d)" using c by (simp add: f(1))
  show "pick_winner (td_parent d) (td_scores d) = Inr (td_winner d)" using w by (simp add: f(1))
  show "map fst (td_scores d) = td_participants d" by (simp add: f(1) comp_def)
  show "finite_json (tournament_identity d)" using f(2) unfolding f(1) identity_sealed .
  show "check_tournament_decision d = Inr ()" by (rule f(3))
qed

lemma identity_scores:
  "\<exists>i. tournament_identity d = JObj i \<and> get i ''scores'' = JList (map (\<lambda>(r, s). JList [JStr r, JFloat s]) (td_scores d))"
  unfolding tournament_identity_def jobj_def by (intro exI conjI, rule refl) (simp only: get_def fmlookup_of_list, simp)

lemma scores_finite: "finite_json (tournament_identity d) \<Longrightarrow> list_all finite_float (map snd (td_scores d))"
proof -
  assume f: "finite_json (tournament_identity d)"
  obtain i where i: "tournament_identity d = JObj i" and
    g: "get i ''scores'' = JList (map (\<lambda>(r, s). JList [JStr r, JFloat s]) (td_scores d))" using identity_scores by blast
  have "finite_json (get i ''scores'')" by (rule finite_get) (use f in \<open>simp only: i\<close>)
  then show ?thesis unfolding g by (auto simp: list_all_iff)
qed

section \<open>A tournament\<close>

text \<open>One task, the parent at score zero and a candidate above it.\<close>

definition demo_entry :: "string \<Rightarrow> string \<Rightarrow> execution_plan" where
  "demo_entry arm r = \<lparr>pl_plan_id = ''plan-'' @ r, pl_campaign_id = ''c'', pl_strategy_id = ''s'',
     pl_task = \<lparr>tr_task_id = ''t'', tr_revision_id = ''task'', tr_project = ''pr'', tr_cohort = FEEDBACK,
       tr_source_sha256 = ''h'', tr_evaluator_id = ''e'', tr_source_uri = None\<rparr>,
     pl_candidate_revision_id = r, pl_arm = arm,
     pl_model = \<lparr>mi_provider = ''local'', mi_model = ''m'', mi_revision = ''1''\<rparr>,
     pl_context_policy_id = ''x'', pl_tool_policy_id = ''y'', pl_observer_policy_ids = [''o''], pl_native_evaluator_id = ''n'',
     pl_limits = \<lparr>el_max_tokens = 1, el_max_seconds = 1, el_max_cost_cny = Fin 0\<rparr>, pl_holdout_scope = ''feedback-only'',
     pl_metadata = fmap_of_list [(''tournament_id'', JStr ''t0''), (''tournament_config_sha256'', JStr (replicate 64 CHR ''0'')),
       (''program_bundle_sha256'', JStr (''bundle-'' @ r))]\<rparr>"

definition demo_model_payload :: "string \<Rightarrow> int \<Rightarrow> dict" where
  "demo_model_payload r s = fmap_of_list
     [(''execution_scope'', JStr ''fixture''), (''revision_id'', JStr r), (''program_bundle_sha256'', JStr (''bundle-'' @ r)),
      (''parent_revision_id'', JStr ''base''), (''fixture_score'', JFloat (Fin s)), (''program_id'', JStr ''prog'')]"

definition demo_model_receipt :: "string \<Rightarrow> int \<Rightarrow> receipt" where
  "demo_model_receipt r s = \<lparr>rc_receipt_id = ''receipt-'' @ r, rc_campaign_id = ''c'', rc_plan_id = ''plan-'' @ r, rc_sequence = 1,
     rc_kind = ''model'', rc_created_at = ''now'', rc_payload = demo_model_payload r s,
     rc_artifact_sha256 = digest (JObj (demo_model_payload r s)), rc_supersedes_receipt_id = None\<rparr>"

definition demo_result :: "receipt \<Rightarrow> execution_result" where
  "demo_result r = \<lparr>er_status = ''completed'', er_receipts = [r], er_evidence = [], er_replayed = False\<rparr>"

definition demo_plans :: "execution_plan list" where
  "demo_plans = [demo_entry ''search-parent'' ''base'', demo_entry ''candidate'' ''next'']"

definition demo_results :: "execution_result list" where
  "demo_results = [demo_result (demo_model_receipt ''base'' 0), demo_result (demo_model_receipt ''next'' 4)]"

lemma demo_entry_parts [simp]:
  "pl_plan_id (demo_entry a r) = ''plan-'' @ r" "pl_campaign_id (demo_entry a r) = ''c''" "pl_arm (demo_entry a r) = a"
  "pl_candidate_revision_id (demo_entry a r) = r" "tr_revision_id (pl_task (demo_entry a r)) = ''task''"
  "meta (demo_entry a r) ''tournament_id'' = JStr ''t0''" "meta (demo_entry a r) ''tournament_config_sha256'' = JStr (replicate 64 CHR ''0'')"
  "meta (demo_entry a r) ''program_bundle_sha256'' = JStr (''bundle-'' @ r)" "meta (demo_entry a r) ''execution_profile'' = JNull"
  "k \<in> set program_hash_fields \<Longrightarrow> meta (demo_entry a r) k = JNull"
  by (auto simp: demo_entry_def meta_def get_def fmlookup_of_list program_hash_fields_def)

lemma demo_model_payload_parts [simp]:
  "get (demo_model_payload r s) ''execution_scope'' = JStr ''fixture''" "get (demo_model_payload r s) ''revision_id'' = JStr r"
  "get (demo_model_payload r s) ''program_bundle_sha256'' = JStr (''bundle-'' @ r)"
  "item (demo_model_payload r s) ''program_bundle_sha256'' = Inr (JStr (''bundle-'' @ r))"
  "get (demo_model_payload r s) ''parent_revision_id'' = JStr ''base''" "get (demo_model_payload r s) ''fixture_score'' = JFloat (Fin s)"
  "get (demo_model_payload r s) ''program_id'' = JStr ''prog''" "k \<in> set program_hash_fields \<Longrightarrow> get (demo_model_payload r s) k = JNull"
  by (auto simp: demo_model_payload_def get_def item_def fmlookup_of_list program_hash_fields_def)

lemma demo_matched: "\<exists>m. \<forall>a r. matched_config (demo_entry a r) = Inr m"
proof -
  have same: "matched_config (demo_entry a r) = matched_config (demo_entry [] [])" for a r
    unfolding matched_config_def demo_entry_parts by (simp only: demo_entry_def execution_plan.simps)
  have "\<exists>m. matched_config (demo_entry [] []) = Inr m"
    unfolding matched_config_def content_sha256_eq_Inr demo_entry_parts
    by (intro exI conjI finite_jobj)
      (simp add: demo_entry_def model_identity_json_def execution_limits_json_def finite_jobj str_list_def, rule refl)
  with same show ?thesis by metis
qed

lemma demo_identity: "\<exists>m. check_identity demo_plans = Inr (''t0'', replicate 64 CHR ''0'', m)"
proof -
  obtain m where "\<forall>a r. matched_config (demo_entry a r) = Inr m" using demo_matched by blast
  then show ?thesis by (simp add: check_identity_def demo_plans_def program_unless_def one_value_def)
qed

lemma demo_matrix: "check_matrix demo_plans = Inr (''base'', [''base'', ''next''], [''task''])"
  by (simp add: check_matrix_def demo_plans_def arm_revisions_def program_unless_def cell_of_def Let_def)

lemma demo_judged:
  assumes "a = ''candidate'' \<or> r = ''base''"
  shows "judge_cell ''base'' (demo_entry a r) (demo_result (demo_model_receipt r s))
    = Inr \<lparr>ce_revision = r, ce_score = Fin s, ce_program = ''prog'', ce_bundle = ''bundle-'' @ r, ce_receipt = ''receipt-'' @ r\<rparr>"
proof -
  have "finite_json (JObj (demo_model_payload r s))" unfolding demo_model_payload_def by (rule finite_fields) simp
  then have r: "model_receipt (demo_entry a r) (demo_result (demo_model_receipt r s)) = Inr (demo_model_receipt r s)"
    by (simp add: model_receipt_def demo_result_def demo_model_receipt_def program_unless_def content_sha256_eq)
  have p: "rc_payload (demo_model_receipt r s) = demo_model_payload r s" "rc_receipt_id (demo_model_receipt r s) = ''receipt-'' @ r"
    by (simp_all add: demo_model_receipt_def)
  have h: "all_checks (map (\<lambda>n. program_unless (same_value (get (demo_model_payload r s) n) (meta (demo_entry a r) n)) (f n)) program_hash_fields) = Inr ()" for f
    by (simp add: program_hash_fields_def program_unless_def same_value_def py_eq_def)
  show ?thesis
    unfolding judge_cell_def r
    by (simp only: demo_result_def execution_result.simps Let_def p h bind_Inr) (use assms in \<open>simp add: program_unless_def fixture_score_def\<close>)
qed

lemma demo_cells:
  "judge_cells ''base'' [] (zip demo_plans demo_results)
     = Inr [\<lparr>ce_revision = ''base'', ce_score = Fin 0, ce_program = ''prog'', ce_bundle = ''bundle-base'', ce_receipt = ''receipt-base''\<rparr>,
         \<lparr>ce_revision = ''next'', ce_score = Fin 4, ce_program = ''prog'', ce_bundle = ''bundle-next'', ce_receipt = ''receipt-next''\<rparr>]"
  by (simp add: demo_plans_def demo_results_def demo_judged program_unless_def)

lemma seal_decision_ok:
  assumes "finite_json (tournament_identity d)" and "td_scope d = ''fixture''" and "td_participants d \<noteq> []"
    and "hd (td_participants d) = td_parent d" and "td_winner d \<in> set (td_participants d)" and "td_advanced d = (td_winner d \<noteq> td_parent d)"
  shows "\<exists>h. is_sha256 h \<and> seal_decision d = Inr (d\<lparr>td_decision_id := decision_name h, td_sha256 := h\<rparr>)"
  using assms by (intro exI [of _ "digest (tournament_identity d)"])
    (simp add: seal_decision_def Let_def content_sha256_eq check_tournament_decision_def program_unless_def)

lemma demo_mean: "fdiv_count (fsum_py [Fin 0]) 1 = Fin 0" "fdiv_count (fsum_py [Fin 4]) 1 = Fin 4"
proof -
  have r: "rnd n = Fin n" if "\<bar>n\<bar> \<le> 4" for n using that rnd_exact [of 0 n] by (simp add: on_grid_def)
  show "fdiv_count (fsum_py [Fin 0]) 1 = Fin 0" "fdiv_count (fsum_py [Fin 4]) 1 = Fin 4"
    by (simp_all add: fsum_py_def r fsub_def fle_def fabs_def fdiv_count_def nearest_double_def round_div_def blen.simps Let_def)
qed

lemma demo_decided:
  "\<exists>d. decide_tournament demo_plans demo_results = Inr d \<and> td_program_id d = ''prog'' \<and> td_tournament_id d = ''t0''
     \<and> td_parent d = ''base'' \<and> td_winner d = ''next'' \<and> td_participants d = [''base'', ''next''] \<and> td_tasks d = [''task'']"
proof -
  let ?cells = "[\<lparr>ce_revision = ''base'', ce_score = Fin 0, ce_program = ''prog'', ce_bundle = ''bundle-base'', ce_receipt = ''receipt-base''\<rparr>,
         \<lparr>ce_revision = ''next'', ce_score = Fin 4, ce_program = ''prog'', ce_bundle = ''bundle-next'', ce_receipt = ''receipt-next''\<rparr>]"
  obtain m where i: "check_identity demo_plans = Inr (''t0'', replicate 64 CHR ''0'', m)" using demo_identity by blast
  have rows: "map (\<lambda>r. (r, mean_score ?cells r)) [''base'', ''next''] = [(''base'', Fin 0), (''next'', Fin 4)]"
    using demo_mean by (simp add: mean_score_def)
  have w: "pick_winner ''base'' [(''base'', Fin 0), (''next'', Fin 4)] = Inr ''next''"
    by (simp add: pick_winner_def tied_revisions_def max_score_def)
  let ?d = "\<lparr>td_decision_id = [], td_sha256 = [], td_tournament_id = ''t0'', td_campaign_id = pl_campaign_id (hd demo_plans),
         td_program_id = ce_program (hd ?cells), td_scope = ''fixture'', td_parent = ''base'', td_participants = [''base'', ''next''], td_tasks = [''task''],
         td_plan_ids = map pl_plan_id demo_plans, td_receipt_ids = map ce_receipt ?cells, td_bundles = map (\<lambda>r. (r, bundle_of ?cells r)) [''base'', ''next''],
         td_config_sha256 = replicate 64 CHR ''0'', td_matched_sha256 = m, td_policy = ''fixture-mean-score-v1'', td_scores = [(''base'', Fin 0), (''next'', Fin 4)],
         td_winner = ''next'', td_advanced = (''next'' \<noteq> ''base'')\<rparr>"
  have "decide_tournament demo_plans demo_results = seal_decision ?d"
    unfolding decide_tournament_def i demo_matrix by (simp only: bind_Inr prod.case demo_cells rows w Let_def) (simp add: demo_plans_def demo_results_def program_unless_def)
  moreover obtain h where "seal_decision ?d = Inr (?d\<lparr>td_decision_id := decision_name h, td_sha256 := h\<rparr>)"
    using seal_decision_ok [OF identity_finite, of ?d] by auto
  ultimately show ?thesis by simp
qed

section \<open>Properties\<close>

text \<open>A decided tournament rests on a complete matched matrix and on its scores: every task was executed once for every
  participant, the winner is a participant that no participant outscores, it outscores the parent unless it is the
  parent, it has the least name of those that tie, and the decision carries its own digest.\<close>

theorem tournament_winner_is_best:
  assumes "decide_tournament ps es = Inr d"
  shows "(\<forall>t \<in> set (td_tasks d). \<forall>r \<in> set (td_participants d). \<exists>!p. p \<in> set ps \<and> cell_of p = (t, r))
    \<and> td_winner d \<in> set (td_participants d) \<and> td_advanced d = (td_winner d \<noteq> td_parent d)
    \<and> (\<exists>m. (td_winner d, m) \<in> set (td_scores d) \<and> (\<forall>(r, s) \<in> set (td_scores d). \<not> flt m s
        \<and> (td_winner d \<noteq> td_parent d \<and> r = td_parent d \<longrightarrow> flt s m) \<and> (td_winner d \<noteq> td_parent d \<and> s = m \<longrightarrow> td_winner d \<le> r)))
    \<and> td_sha256 d = digest (tournament_identity d)"
proof -
  note p = decided_parts [OF assms]
  note m = matrix_facts [OF p(1)]
  have rows: "td_scores d \<noteq> []" using p(3) m(1) by auto
  have "distinct (map fst (td_scores d))" using p(3) m(3) by simp
  note w = winner_facts [OF p(2) scores_finite [OF p(4)] this rows]
  have "td_winner d \<in> set (td_participants d) \<and> td_advanced d = (td_winner d \<noteq> td_parent d) \<and> td_sha256 d = digest (tournament_identity d)"
    using p(5) by (auto simp: check_tournament_decision_def program_unless_def res_simps)
  with w show ?thesis using matrix_complete [OF p(1)] by blast
qed

lemma tournament_winner_is_best_witness:
  "\<exists>d. decide_tournament demo_plans demo_results = Inr d \<and> td_winner d = ''next'' \<and> td_advanced d
     \<and> (\<exists>m. (''next'', m) \<in> set (td_scores d) \<and> (\<forall>s. (''base'', s) \<in> set (td_scores d) \<longrightarrow> flt s m))"
proof -
  obtain d where d: "decide_tournament demo_plans demo_results = Inr d" "td_parent d = ''base''" "td_winner d = ''next''"
    using demo_decided by blast
  have n: "''next'' \<noteq> ''base''" by simp
  show ?thesis using tournament_winner_is_best [OF d(1)] d(1) n unfolding d(2,3) by (intro exI [of _ d]) (auto simp: d(3))
qed

text \<open>A decided tournament advances the search parent: on a readable log of its program whose current parent is the parent
  of the tournament, with the lease free, the append succeeds, the log then reads with the winner as the current parent,
  and appending the decision again changes nothing.\<close>

theorem decision_advances_search_parent:
  assumes "decide_tournament ps es = Inr d" and "parent_events (td_program_id d) f = Inr evs" and "\<not> pg_locked f"
    and "evs = [] \<or> get (last evs) ''selected_revision_id'' = JStr (td_parent d)"
    and "JStr (td_tournament_id d) \<notin> (\<lambda>e. get e ''tournament_id'') ` set evs" and "clean_decision (td_program_id d) d"
  shows "\<exists>f'. parent_append (td_program_id d) d f = (f', Inr True)
    \<and> current_parent (td_program_id d) f' = Inr (JStr (td_winner d))
    \<and> parent_append (td_program_id d) d f' = (f', Inr False)"
proof -
  let ?i = "td_program_id d" and ?e = "parent_stored (td_program_id d) evs d"
  have c: "check_append ?i d = Inr ()" "is_sha256 (td_sha256 d)"
    using decided_parts(5) [OF assms(1)]
    by (auto simp: check_append_def check_tournament_decision_def program_unless_def res_simps)
  have v: "sp.valid evs" by (rule events_chain(1) [OF assms(2)])
  have fin: "finite_json (JObj (parent_new ?i evs d))"
    unfolding parent_new_def by (rule finite_fields) (use valid_last_hash [OF v] in auto)
  then have ok: "prepared_ok ?i d evs" using assms(4,5) c(2) by (auto simp: prepared_ok_def)
  have m: "filter (\<lambda>e. get e ''tournament_id'' = JStr (td_tournament_id d)) evs = []"
    using assms(5) by (force simp: filter_empty_conv)
  define f' where "f' = f\<lparr>pg_lines := pg_lines f @ [Some (JObj ?e)]\<rparr>"
  have prep: "parent_prepare ?i d f = Inr (Some evs)"
    using assms(2,4) c(1) m fin by (auto simp: parent_prepare_def Let_def program_unless_def content_sha256_eq_Inr require_def canonical_json_def content_sha256_def)
  have fin': "finite_json (JObj ?e)" unfolding parent_stored_def by (rule finite_fmupd [OF _ fin]) simp
  have w: "obind (oread (parent_recheck ?i evs)) (\<lambda>r. obind (olift r) (\<lambda>_. parent_write ?i d evs)) (f\<lparr>pg_locked := True\<rparr>)
      = (f'\<lparr>pg_locked := True\<rparr>, Inr ())"
    using assms(2) fin' stored_event_clean [OF ok v assms(6)]
    by (simp add: parent_recheck_def program_unless_def parent_write_def canonical_json_def f'_def del: json_text.simps)
  have "f'\<lparr>pg_locked := False\<rparr> = f'" using assms(3) by (simp add: f'_def)
  then have a: "parent_append ?i d f = (f', Inr True)"
    using assms(3) prep w by (simp add: parent_append_def obind_def [of parent_lease] parent_lease_def parent_release_def)
  have r: "parent_events ?i f' = Inr (evs @ [?e])"
    using assms(2) stored_event_reads [OF ok v] by (simp add: f'_def parent_events_def read_snoc)
  have "current_parent ?i f' = Inr (JStr (td_winner d))" by (simp add: current_parent_def r stored_lookups)
  moreover have "parent_prepare ?i d f' = Inr None"
    using c(1) m r by (simp add: parent_prepare_def Let_def stored_lookups program_unless_def)
  then have "parent_append ?i d f' = (f', Inr False)" by (simp add: parent_append_def)
  ultimately show ?thesis using a by blast
qed

lemma decision_advances_search_parent_witness:
  "\<exists>d f'. decide_tournament demo_plans demo_results = Inr d
     \<and> parent_append ''prog'' d \<lparr>pg_lines = [], pg_locked = False\<rparr> = (f', Inr True) \<and> current_parent ''prog'' f' = Inr (JStr ''next'')
     \<and> parent_append ''prog'' d f' = (f', Inr False)"
proof -
  obtain d where d: "decide_tournament demo_plans demo_results = Inr d" "td_program_id d = ''prog''" "td_tournament_id d = ''t0''"
    "td_parent d = ''base''" "td_winner d = ''next''" using demo_decided by blast
  have "clean_decision ''prog'' d" by (simp add: clean_decision_def d(3-5) breaks_line_def)
  then show ?thesis
    using decision_advances_search_parent [OF d(1), of "\<lparr>pg_lines = [], pg_locked = False\<rparr>" "[]"] d(1)
    unfolding d(2,5) by (auto simp: parent_events_def)
qed

end
