(* ===== verification/Strategy.thy ===== *)
theory Strategy
  imports Execution
begin

text \<open>
  \<open>src/src/evolve/strategies/base.py\<close>, \<open>skill_paired.py\<close> and \<open>legacy_import.py\<close>: what a strategy is,
  and the two that plan from the values of a context alone.

  An input of a context is a JSON value or a tuple of them; \<open>str()\<close> of an input is \<open>py_str\<close> of it.
\<close>

section \<open>The strategy seam\<close>

definition strategy_unless :: "bool \<Rightarrow> string \<Rightarrow> unit res" where
  "strategy_unless c m = require c StrategyViolation m"

lemma strategy_unless_eq [res_simps]: "strategy_unless c m = Inr u \<longleftrightarrow> c"
  by (simp add: strategy_unless_def require_eq_Inr)

lemma strategy_unless_True [simp]: "strategy_unless True m = Inr ()"
  by (simp add: strategy_unless_def)

lemma strategy_unless_False [simp]: "strategy_unless False m = Inl (Err StrategyViolation m)"
  by (simp add: strategy_unless_def)

datatype strategy_phase = BASELINE_ONLY | EXPERIMENT

datatype strategy_status = LIVE | COMPATIBILITY | NOT_YET_LIVE

datatype input_value = Plain json | TupleOf "json list"

fun input_json :: "input_value \<Rightarrow> json" where
  "input_json (Plain j) = j" | "input_json (TupleOf js) = JList js"

record strategy_context =
  sc_campaign_id :: string
  sc_task :: task_revision
  sc_model :: model_identity
  sc_context_policy_id :: string
  sc_tool_policy_id :: string
  sc_observer_policy_ids :: "string list"
  sc_limits :: execution_limits
  sc_phase :: strategy_phase
  sc_inputs :: "(string, input_value) fmap"

definition check_context :: "strategy_context \<Rightarrow> unit res" where
  "check_context c = all_checks
     [strategy_unless (\<not> blank (sc_campaign_id c)) ''campaign_id must be non-empty text'',
      strategy_unless (\<not> blank (sc_context_policy_id c)) ''context_policy_id must be non-empty text'',
      strategy_unless (\<not> blank (sc_tool_policy_id c)) ''tool_policy_id must be non-empty text'',
      strategy_unless (sc_observer_policy_ids c \<noteq> []) ''observer_policy_ids must not be empty'']"

record strategy_result =
  sr_strategy_id :: string
  sr_campaign_id :: string
  sr_receipt_ids :: "string list"
  sr_observations :: dict

record strategy_decision =
  sd_strategy_id :: string
  sd_status :: strategy_status
  sd_action :: string
  sd_reason :: string
  sd_claim_ids :: "string list"

text \<open>\<open>interpret\<close> is called with a context and receipts, or, in the old form, with the receipts alone.\<close>

datatype interpreted = InContext strategy_context "receipt list" | Alone "receipt list" "receipt list option"

record strategy =
  sg_strategy_id :: string
  sg_status :: strategy_status
  sg_plan :: "strategy_context \<Rightarrow> execution_plan list res"
  sg_interpret :: "interpreted \<Rightarrow> strategy_result res"
  sg_next_action :: "strategy_context \<Rightarrow> claim list \<Rightarrow> strategy_decision res"

fun interpretation_inputs :: "interpreted \<Rightarrow> (string \<times> receipt list) res" where
  "interpretation_inputs (InContext c rs) =
     bind (strategy_unless (\<forall>r \<in> set rs. rc_campaign_id r = sc_campaign_id c) ''receipt campaign does not match strategy context'') (\<lambda>_.
     Inr (sc_campaign_id c, rs))"
| "interpretation_inputs (Alone rs other) =
     bind (strategy_unless (other = None) ''interpret received ambiguous receipt arguments'') (\<lambda>_.
     bind (strategy_unless (length (remdups (map rc_campaign_id rs)) \<le> 1) ''receipts span multiple campaigns'') (\<lambda>_.
     Inr (case rs of [] \<Rightarrow> ''unspecified'' | r # _ \<Rightarrow> rc_campaign_id r, rs)))"

definition advisory_decision :: "string \<Rightarrow> strategy_status \<Rightarrow> string \<Rightarrow> string \<Rightarrow> claim list \<Rightarrow> strategy_decision" where
  "advisory_decision i st action reason cls = \<lparr>sd_strategy_id = i, sd_status = st, sd_action = action, sd_reason = reason,
     sd_claim_ids = map cl_claim_id cls\<rparr>"

text \<open>The inputs a strategy requires, and the ones it does not know.\<close>

definition check_inputs :: "string \<Rightarrow> string list \<Rightarrow> string list \<Rightarrow> strategy_context \<Rightarrow> unit res" where
  "check_inputs m required optional c = strategy_unless (set required \<subseteq> fmdom' (sc_inputs c) \<and> fmdom' (sc_inputs c) \<subseteq> set required \<union> set optional) m"

definition input_text :: "string \<Rightarrow> strategy_context \<Rightarrow> string" where
  "input_text k c = (case fmlookup (sc_inputs c) k of None \<Rightarrow> ''None'' | Some v \<Rightarrow> py_str (input_json v))"

text \<open>An optional input that must be a mapping when it is there; \<open>x or {}\<close>.\<close>

definition mapping_input :: "string \<Rightarrow> strategy_context \<Rightarrow> dict res" where
  "mapping_input k c = (case fmlookup (sc_inputs c) k of None \<Rightarrow> Inr fmempty | Some (Plain JNull) \<Rightarrow> Inr fmempty
     | Some (Plain (JObj d)) \<Rightarrow> Inr d | _ \<Rightarrow> raise StrategyViolation (k @ '' must be a mapping''))"

text \<open>The identity of a plan: the first 24 digits of the hash of a tuple of texts.\<close>

definition short_plan_id :: "string list \<Rightarrow> string res" where
  "short_plan_id parts = bind (canonical_json (str_list parts)) (\<lambda>t. Inr (''plan-'' @ take 24 (sha256_hex (utf8 t))))"

definition plan_in :: "string \<Rightarrow> strategy_context \<Rightarrow> string \<Rightarrow> string \<Rightarrow> string \<Rightarrow> dict \<Rightarrow> execution_plan res" where
  "plan_in strategy_id c i candidate arm metadata =
     (let p = \<lparr>pl_plan_id = i, pl_campaign_id = sc_campaign_id c, pl_strategy_id = strategy_id, pl_task = sc_task c,
        pl_candidate_revision_id = candidate, pl_arm = arm, pl_model = sc_model c, pl_context_policy_id = sc_context_policy_id c,
        pl_tool_policy_id = sc_tool_policy_id c, pl_observer_policy_ids = sc_observer_policy_ids c,
        pl_native_evaluator_id = tr_evaluator_id (sc_task c), pl_limits = sc_limits c, pl_holdout_scope = ''feedback-only'',
        pl_metadata = metadata\<rparr>
     in bind (check_execution_plan p) (\<lambda>_. Inr p))"

section \<open>Skill pairs\<close>

definition skill_arm :: "strategy_context \<Rightarrow> dict \<Rightarrow> string \<Rightarrow> string \<Rightarrow> execution_plan res" where
  "skill_arm c metadata arm candidate =
     bind (short_plan_id [sc_campaign_id c, tr_revision_id (sc_task c), candidate, arm]) (\<lambda>i.
     plan_in ''skill-paired-v3'' c i candidate arm metadata)"

definition validate_matched_pair :: "execution_plan \<Rightarrow> execution_plan \<Rightarrow> unit res" where
  "validate_matched_pair b t = all_checks
     [strategy_unless (pl_arm b = ''baseline'' \<and> pl_arm t = ''taught'') ''matched pair must be ordered baseline then taught'',
      strategy_unless (pl_campaign_id b = pl_campaign_id t) ''matched invariant differs: campaign_id'',
      strategy_unless (pl_strategy_id b = pl_strategy_id t) ''matched invariant differs: strategy_id'',
      strategy_unless (pl_task b = pl_task t) ''matched invariant differs: task'',
      strategy_unless (pl_model b = pl_model t) ''matched invariant differs: model'',
      strategy_unless (pl_context_policy_id b = pl_context_policy_id t) ''matched invariant differs: context_policy_id'',
      strategy_unless (pl_tool_policy_id b = pl_tool_policy_id t) ''matched invariant differs: tool_policy_id'',
      strategy_unless (pl_observer_policy_ids b = pl_observer_policy_ids t) ''matched invariant differs: observer_policy_ids'',
      strategy_unless (pl_native_evaluator_id b = pl_native_evaluator_id t) ''matched invariant differs: native_evaluator_id'',
      strategy_unless (pl_limits b = pl_limits t) ''matched invariant differs: limits'',
      strategy_unless (pl_holdout_scope b = pl_holdout_scope t) ''matched invariant differs: holdout_scope'',
      if py_eq (JObj (pl_metadata b)) (JObj (pl_metadata t)) then Inr ()
      else if \<not> py_eq (get (pl_metadata b) ''generation_config'') (get (pl_metadata t) ''generation_config'')
      then raise StrategyViolation ''matched invariant differs: generation_config''
      else raise StrategyViolation ''matched invariant differs: plan_metadata'',
      strategy_unless (tr_cohort (pl_task b) = FEEDBACK) ''matched pair must use a feedback task'']"

definition skill_plans :: "strategy_context \<Rightarrow> string \<Rightarrow> string option \<Rightarrow> dict \<Rightarrow> dict \<Rightarrow> execution_plan list res" where
  "skill_plans c baseline taught generation metadata =
     bind (strategy_unless (tr_cohort (sc_task c) = FEEDBACK) ''Skill paired plans are restricted to feedback tasks'') (\<lambda>_.
     bind (strategy_unless (fmlookup metadata ''generation_config'' = None) ''plan_metadata cannot replace generation_config'') (\<lambda>_.
     let metadata = fmupd ''generation_config'' (JObj generation) metadata in
     bind (skill_arm c metadata ''baseline'' baseline) (\<lambda>b. case taught of
       None \<Rightarrow> Inr [b]
     | Some i \<Rightarrow> bind (skill_arm c metadata ''taught'' i) (\<lambda>t. bind (validate_matched_pair b t) (\<lambda>_. Inr [b, t])))))"

definition skill_paired_plan :: "strategy_context \<Rightarrow> execution_plan list res" where
  "skill_paired_plan c =
     bind (check_inputs ''skill paired inputs invalid'' (''baseline_revision_id'' # (if sc_phase c = EXPERIMENT then [''taught_revision_id''] else []))
       [''generation_config'', ''plan_metadata''] c) (\<lambda>_.
     bind (mapping_input ''generation_config'' c) (\<lambda>generation.
     bind (mapping_input ''plan_metadata'' c) (\<lambda>metadata.
     skill_plans c (input_text ''baseline_revision_id'' c) (if sc_phase c = EXPERIMENT then Some (input_text ''taught_revision_id'' c) else None)
       generation metadata)))"

definition build_pair :: "strategy_context \<Rightarrow> string \<Rightarrow> string \<Rightarrow> dict \<Rightarrow> dict \<Rightarrow> (execution_plan \<times> execution_plan) res" where
  "build_pair c baseline taught generation metadata = (let c = c\<lparr>sc_phase := EXPERIMENT, sc_inputs := fmap_of_list
       [(''baseline_revision_id'', Plain (JStr baseline)), (''taught_revision_id'', Plain (JStr taught)),
        (''generation_config'', Plain (JObj generation)), (''plan_metadata'', Plain (JObj metadata))]\<rparr> in
     bind (check_context c) (\<lambda>_. bind (skill_paired_plan c) (\<lambda>ps. case ps of [b, t] \<Rightarrow> Inr (b, t)
       | _ \<Rightarrow> raise StrategyViolation ''paired planning did not produce two arms'')))"

definition skill_paired_interpret :: "interpreted \<Rightarrow> strategy_result res" where
  "skill_paired_interpret x = bind (interpretation_inputs x) (\<lambda>(i, rs). Inr \<lparr>sr_strategy_id = ''skill-paired-v3'', sr_campaign_id = i,
     sr_receipt_ids = map rc_receipt_id rs, sr_observations = fmap_of_list [(''arm_receipt_count'', JInt (int (length rs)))]\<rparr>)"

definition skill_paired :: strategy where
  "skill_paired = \<lparr>sg_strategy_id = ''skill-paired-v3'', sg_status = LIVE, sg_plan = skill_paired_plan, sg_interpret = skill_paired_interpret,
     sg_next_action = (\<lambda>c cls. Inr (advisory_decision ''skill-paired-v3'' LIVE ''await-authoritative-claims''
       ''promotion remains owned by the Claim and Governance authorities'' cls))\<rparr>"

section \<open>Legacy imports\<close>

definition legacy_inputs :: "string list" where
  "legacy_inputs = [''imported_revision_id'', ''legacy_artifact_sha256'', ''provenance_uri'']"

definition legacy_plans :: "strategy_context \<Rightarrow> string \<Rightarrow> string \<Rightarrow> string \<Rightarrow> execution_plan list res" where
  "legacy_plans c imported h uri =
     bind (strategy_unless (tr_cohort (sc_task c) = FEEDBACK) ''Legacy import execution is restricted to feedback tasks'') (\<lambda>_.
     bind (strategy_unless (is_sha256 h) ''legacy artifact must have a literal SHA-256'') (\<lambda>_.
     bind (strategy_unless (\<not> blank uri) ''legacy import requires provenance'') (\<lambda>_.
     bind (short_plan_id [sc_campaign_id c, tr_revision_id (sc_task c), imported, h]) (\<lambda>i.
     bind (plan_in ''legacy-import-v3'' c i imported ''legacy-replay'' (fmap_of_list [(''legacy_artifact_sha256'', JStr h),
       (''provenance_uri'', JStr uri), (''compatibility_mode'', JStr ''replay'')])) (\<lambda>p. Inr [p])))))"

definition legacy_plan :: "strategy_context \<Rightarrow> execution_plan list res" where
  "legacy_plan c =
     bind (strategy_unless (fmdom' (sc_inputs c) = set legacy_inputs)
       ''legacy import inputs must be imported_revision_id, legacy_artifact_sha256, and provenance_uri'') (\<lambda>_.
     legacy_plans c (input_text ''imported_revision_id'' c) (input_text ''legacy_artifact_sha256'' c) (input_text ''provenance_uri'' c))"

text \<open>\<open>context.inputs.get\<close>; a tuple equals no value of a payload, and its hash is no text.\<close>

definition legacy_expected :: "strategy_context \<Rightarrow> (string \<times> input_value) list" where
  "legacy_expected c = map (\<lambda>k. (k, case fmlookup (sc_inputs c) k of None \<Rightarrow> Plain JNull | Some v \<Rightarrow> v)) legacy_inputs
     @ [(''claims_created'', Plain (JInt 0)), (''candidates_created'', Plain (JInt 0))]"

fun same_input :: "json \<Rightarrow> input_value \<Rightarrow> bool" where
  "same_input j (Plain x) \<longleftrightarrow> py_eq j x" | "same_input j (TupleOf xs) \<longleftrightarrow> False"

definition legacy_observed :: "interpreted \<Rightarrow> receipt \<Rightarrow> dict res" where
  "legacy_observed x r = (case x of Alone _ _ \<Rightarrow> Inr fmempty
     | InContext c _ \<Rightarrow>
        bind (strategy_unless (\<forall>(k, v) \<in> set (legacy_expected c). same_input (get (rc_payload r) k) v) ''legacy import receipt lineage mismatch'') (\<lambda>_.
        bind (strategy_unless (fmlookup (sc_inputs c) ''legacy_artifact_sha256'' = Some (Plain (JStr (rc_artifact_sha256 r))))
          ''legacy import artifact identity mismatch'') (\<lambda>_.
        Inr (fmap_of_list (map (\<lambda>(k, v). (k, input_json v)) (legacy_expected c))))))"

definition legacy_interpret :: "interpreted \<Rightarrow> strategy_result res" where
  "legacy_interpret x = bind (interpretation_inputs x) (\<lambda>(i, rs).
     bind (case rs of [] \<Rightarrow> Inr fmempty | [r] \<Rightarrow>
         bind (strategy_unless (rc_kind r = ''legacy_import'') ''legacy import interpretation requires one import receipt'') (\<lambda>_. legacy_observed x r)
       | _ \<Rightarrow> raise StrategyViolation ''legacy import interpretation requires one import receipt'') (\<lambda>seen.
     Inr \<lparr>sr_strategy_id = ''legacy-import-v3'', sr_campaign_id = i, sr_receipt_ids = map rc_receipt_id rs,
       sr_observations = fmap_of_list [(''replayed_receipt_count'', JInt (int (length rs)))] ++\<^sub>f seen\<rparr>))"

definition legacy_import :: strategy where
  "legacy_import = \<lparr>sg_strategy_id = ''legacy-import-v3'', sg_status = COMPATIBILITY, sg_plan = legacy_plan, sg_interpret = legacy_interpret,
     sg_next_action = (\<lambda>c cls. Inr (advisory_decision ''legacy-import-v3'' COMPATIBILITY ''use-legacy-replay''
       ''legacy import remains a read-only compatibility path'' cls))\<rparr>"

end
