(* ===== verification/Campaign_Runner.thy ===== *)
theory Campaign_Runner
  imports Strategy Campaign
begin

text \<open>
  \<open>src/src/evolve/campaigns/runner.py\<close>: a strategy plans, the controller admits each plan, the runtime
  executes it, the controller records what it cost.  The runtime is any \<open>RuntimeEntry\<close>; the theory ends
  with the one of the repository.

  The snapshot in a result is the controller at that time.
\<close>

section \<open>Specification and result\<close>

datatype campaign_run_status = RUN_COMPLETED | RUN_PARTIAL | RUN_COMPATIBILITY | RUN_NOT_YET_LIVE

record campaign_spec =
  cs_campaign_id :: string
  cs_contexts :: "strategy_context list"
  cs_authorization :: authorization
  cs_claims :: "claim list"
  cs_prediction :: "mechanism_prediction option"

definition check_campaign_spec :: "campaign_spec \<Rightarrow> unit res" where
  "check_campaign_spec s = all_checks
     [violation_unless (\<not> blank (cs_campaign_id s)) ''campaign_id must be non-empty text'',
      violation_unless (cs_contexts s \<noteq> []) ''campaign spec requires at least one context'',
      violation_unless (au_campaign_id (cs_authorization s) = cs_campaign_id s) ''campaign spec authorization identity mismatch'',
      violation_unless (\<forall>c \<in> set (cs_contexts s). sc_campaign_id c = cs_campaign_id s) ''strategy context campaign identity mismatch'']"

record campaign_run =
  cr_campaign_id :: string
  cr_status :: campaign_run_status
  cr_plans :: "execution_plan list"
  cr_executions :: "execution_result list"
  cr_receipts :: "receipt list"
  cr_interpretations :: "strategy_result list"
  cr_decisions :: "strategy_decision list"
  cr_claims :: "claim list"
  cr_snapshot :: "campaign option"
  cr_reason :: "string option"

section \<open>The runtime and the state of a run\<close>

text \<open>\<open>rt_reserved\<close> is what \<open>reserved_model_calls\<close> of the runtime gives, the number 1 when it has no such attribute.\<close>

record 'w runtime_entry =
  rt_execute :: "execution_plan \<Rightarrow> authorization \<Rightarrow> mechanism_prediction option \<Rightarrow> ('w, execution_result) op"
  rt_remote :: "bool option"
  rt_reserved :: "execution_plan \<Rightarrow> json"

text \<open>\<open>rn_started\<close> is a history: the plans handed to the runtime, with the controller at that time.\<close>

record 'w runner =
  rn_world :: 'w
  rn_controller :: campaign_world
  rn_started :: "(execution_plan \<times> campaign) list"

definition on_runtime :: "('w, 'a) op \<Rightarrow> ('w runner, 'a) op" where
  "on_runtime m s = (case m (rn_world s) of (w, r) \<Rightarrow> (s\<lparr>rn_world := w\<rparr>, r))"

definition on_controller :: "(campaign_world, 'a) op \<Rightarrow> ('w runner, 'a) op" where
  "on_controller m s = (case m (rn_controller s) of (c, r) \<Rightarrow> (s\<lparr>rn_controller := c\<rparr>, r))"

definition controller :: "'w runner \<Rightarrow> campaign" where
  "controller s = fst (rn_controller s)"

section \<open>Plans\<close>

definition validate_plans :: "campaign_spec \<Rightarrow> strategy \<Rightarrow> execution_plan list \<Rightarrow> unit res" where
  "validate_plans spec st ps = all_checks
     [violation_unless (ps \<noteq> []) ''strategy produced no execution plans'',
      violation_unless (distinct (map pl_plan_id ps)) ''strategy produced duplicate plan identities'',
      violation_unless (\<forall>p \<in> set ps. pl_campaign_id p = cs_campaign_id spec) ''strategy plan campaign identity mismatch'',
      violation_unless (\<forall>p \<in> set ps. pl_strategy_id p = sg_strategy_id st) ''strategy plan strategy identity mismatch'']"

definition validate_controller :: "campaign_spec \<Rightarrow> campaign \<Rightarrow> unit res" where
  "validate_controller spec c = all_checks
     [violation_unless (cc_campaign_id c = cs_campaign_id spec) ''CampaignController campaign identity mismatch'',
      violation_unless (au_authorization_id (cc_authorization c) = au_authorization_id (cs_authorization spec))
        ''CampaignController authorization identity mismatch'']"

section \<open>One plan\<close>

definition execution_cost :: "execution_result \<Rightarrow> pyfloat res" where
  "execution_cost e = (case filter (\<lambda>r. rc_kind r = ''cost'') (er_receipts e) of
     [] \<Rightarrow> Inr fzero | [c] \<Rightarrow> the_item (rc_payload c) ''cost_cny'' float_cast
   | _ \<Rightarrow> raise ContractViolation ''ExecutionRuntime returned duplicate cost receipts'')"

definition execution_model_calls :: "execution_result \<Rightarrow> int" where
  "execution_model_calls e = int (length (filter (\<lambda>r. rc_kind r = ''model'') (er_receipts e)))"

definition reserved_model_calls :: "'w runtime_entry \<Rightarrow> execution_plan \<Rightarrow> int res" where
  "reserved_model_calls rt p = (case rt_reserved rt p of
     JInt n \<Rightarrow> bind (violation_unless (0 \<le> n) ''runtime model-call reservation is invalid'') (\<lambda>_. Inr n)
   | _ \<Rightarrow> raise ContractViolation ''runtime model-call reservation is invalid'')"

definition starting :: "'w runtime_entry \<Rightarrow> campaign_spec \<Rightarrow> execution_plan \<Rightarrow> ('w runner, execution_result) op" where
  "starting rt spec p = obind (omodify (\<lambda>s. s\<lparr>rn_started := rn_started s @ [(p, controller s)]\<rparr>)) (\<lambda>_.
     on_runtime (rt_execute rt p (cs_authorization spec) (cs_prediction spec)))"

definition submit_plan :: "'w runtime_entry \<Rightarrow> execution_plan \<Rightarrow> ('w runner, unit) op" where
  "submit_plan rt p = obind (olift (reserved_model_calls rt p)) (\<lambda>n.
     obind (on_controller (campaign_submit p n (rt_remote rt))) (\<lambda>_. oreturn ()))"

definition record_plan :: "execution_plan \<Rightarrow> execution_result \<Rightarrow> ('w runner, unit) op" where
  "record_plan p e = obind (olift (execution_cost e)) (\<lambda>cost.
     on_controller (campaign_record (pl_plan_id p) cost (execution_model_calls e) (er_status e = ''completed'')))"

definition run_one :: "'w runtime_entry \<Rightarrow> campaign_spec \<Rightarrow> bool \<Rightarrow> execution_plan \<Rightarrow> ('w runner, execution_result) op" where
  "run_one rt spec replay p =
     obind (if replay then oreturn () else submit_plan rt p) (\<lambda>_.
     obind (starting rt spec p) (\<lambda>e.
     obind (if replay then oreturn () else record_plan p e) (\<lambda>_. oreturn e)))"

definition failure_reason :: "execution_plan \<Rightarrow> execution_result \<Rightarrow> string" where
  "failure_reason p e = ''plan '' @ pl_plan_id p @ '' ended with '' @ er_status e"

section \<open>The loops\<close>

fun run_plans :: "'w runtime_entry \<Rightarrow> campaign_spec \<Rightarrow> bool \<Rightarrow> execution_plan list \<Rightarrow> ('w runner, execution_result list \<times> string option) op" where
  "run_plans rt spec replay [] = oreturn ([], None)"
| "run_plans rt spec replay (p # ps) = obind (run_one rt spec replay p) (\<lambda>e.
     if er_status e \<noteq> ''completed'' then oreturn ([e], Some (failure_reason p e))
     else obind (run_plans rt spec replay ps) (\<lambda>(es, f). oreturn (e # es, f)))"

text \<open>The executions of each context; the ones after a failure have none.\<close>

fun run_contexts :: "'w runtime_entry \<Rightarrow> campaign_spec \<Rightarrow> bool \<Rightarrow> execution_plan list list \<Rightarrow> ('w runner, execution_result list list \<times> string option) op" where
  "run_contexts rt spec replay [] = oreturn ([], None)"
| "run_contexts rt spec replay (ps # pss) = obind (run_plans rt spec replay ps) (\<lambda>(es, f).
     if f \<noteq> None then oreturn (es # map (\<lambda>_. []) pss, f)
     else obind (run_contexts rt spec replay pss) (\<lambda>(ess, f). oreturn (es # ess, f)))"

definition run_status :: "strategy \<Rightarrow> campaign_run_status" where
  "run_status st = (if sg_status st = COMPATIBILITY then RUN_COMPATIBILITY else RUN_COMPLETED)"

definition settle_campaign :: "strategy \<Rightarrow> bool \<Rightarrow> string option \<Rightarrow> ('w runner, campaign_run_status) op" where
  "settle_campaign st replay failure =
     (if replay then oreturn (run_status st)
      else case failure of
        None \<Rightarrow> obind (on_controller (campaign_finalize COMPLETED None)) (\<lambda>_. oreturn (run_status st))
      | Some m \<Rightarrow> obind (on_controller (campaign_mark_partial m)) (\<lambda>_. oreturn RUN_PARTIAL))"

definition start_campaign :: "('w runner, unit) op" where
  "start_campaign = obind (oread controller) (\<lambda>c.
     if cc_status c \<in> {CREATED, PAUSED} then on_controller campaign_start
     else olift (violation_unless (cc_status c \<in> {RUNNING, COMPLETED}) ''campaign runner cannot execute from this status''))"

section \<open>The results\<close>

definition interpretations :: "strategy \<Rightarrow> strategy_context list \<Rightarrow> receipt list \<Rightarrow> execution_result list list \<Rightarrow> strategy_result list res" where
  "interpretations st cs rs ess = mapM (\<lambda>(c, es). sg_interpret st (InContext c
     (filter (\<lambda>r. rc_receipt_id r \<in> rc_receipt_id ` set (concat (map er_receipts es))) rs))) (zip cs ess)"

definition next_actions :: "strategy \<Rightarrow> campaign_spec \<Rightarrow> strategy_decision list res" where
  "next_actions st spec = mapM (\<lambda>c. sg_next_action st c (cs_claims spec)) (cs_contexts spec)"

definition non_live_result :: "campaign_spec \<Rightarrow> strategy \<Rightarrow> execution_plan list \<Rightarrow> campaign_run_status \<Rightarrow> string \<Rightarrow> campaign_run res" where
  "non_live_result spec st ps status reason =
     bind (mapM (\<lambda>c. sg_interpret st (InContext c [])) (cs_contexts spec)) (\<lambda>is.
     bind (next_actions st spec) (\<lambda>ds.
     Inr \<lparr>cr_campaign_id = cs_campaign_id spec, cr_status = status, cr_plans = ps, cr_executions = [], cr_receipts = [],
       cr_interpretations = is, cr_decisions = ds, cr_claims = cs_claims spec, cr_snapshot = None, cr_reason = Some reason\<rparr>))"

definition live_result :: "campaign_spec \<Rightarrow> strategy \<Rightarrow> execution_plan list \<Rightarrow> execution_result list list \<Rightarrow> campaign_run_status \<Rightarrow> string option
     \<Rightarrow> ('w runner, campaign_run) op" where
  "live_result spec st ps ess status failure = (let es = concat ess; rs = concat (map er_receipts es) in
     obind (olift (interpretations st (cs_contexts spec) rs ess)) (\<lambda>is.
     obind (olift (next_actions st spec)) (\<lambda>ds.
     oread (\<lambda>s. \<lparr>cr_campaign_id = cs_campaign_id spec, cr_status = status, cr_plans = ps, cr_executions = es, cr_receipts = rs,
       cr_interpretations = is, cr_decisions = ds, cr_claims = cs_claims spec, cr_snapshot = Some (controller s), cr_reason = failure\<rparr>))))"

section \<open>A run\<close>

definition run_live :: "'w runtime_entry \<Rightarrow> campaign_spec \<Rightarrow> strategy \<Rightarrow> execution_plan list list \<Rightarrow> ('w runner, campaign_run) op" where
  "run_live rt spec st pss =
     obind (oread controller) (\<lambda>c. obind (olift (validate_controller spec c)) (\<lambda>_.
     let replay = cc_status c = COMPLETED in
     obind start_campaign (\<lambda>_.
     obind (run_contexts rt spec replay pss) (\<lambda>(ess, failure).
     obind (settle_campaign st replay failure) (\<lambda>status.
     live_result spec st (concat pss) ess status failure)))))"

text \<open>A runner without a runtime or without a controller, and a strategy that is not live.\<close>

definition not_live :: "campaign_spec \<Rightarrow> strategy \<Rightarrow> execution_plan list \<Rightarrow> campaign_run res" where
  "not_live spec st ps = (if sg_status st = COMPATIBILITY
     then non_live_result spec st ps RUN_COMPATIBILITY ''strategy is available only through a compatibility path''
     else non_live_result spec st ps RUN_NOT_YET_LIVE ''live execution requires both ExecutionRuntime and CampaignController authorities'')"

definition runner_run :: "'w runtime_entry option \<Rightarrow> bool \<Rightarrow> campaign_spec \<Rightarrow> strategy \<Rightarrow> ('w runner, campaign_run) op" where
  "runner_run rt controlled spec st =
     obind (olift (mapM (sg_plan st) (cs_contexts spec))) (\<lambda>pss.
     obind (olift (validate_plans spec st (concat pss))) (\<lambda>_.
     if sg_status st = NOT_YET_LIVE then
       olift (non_live_result spec st (concat pss) RUN_NOT_YET_LIVE ''strategy execution is not yet wired to an authority'')
     else case rt of
       Some r \<Rightarrow> if controlled then run_live r spec st pss else olift (not_live spec st (concat pss))
     | None \<Rightarrow> olift (not_live spec st (concat pss))))"

text \<open>The runtime of the repository: its locality is the transport's, and it declares no reservation.\<close>

definition execution_runtime :: "'w adapters \<Rightarrow> 'w execution runtime_entry" where
  "execution_runtime ad = \<lparr>rt_execute = execute ad, rt_remote = Some (ad_remote ad), rt_reserved = (\<lambda>_. JInt 1)\<rparr>"

end
