(* ===== verification/Execution_Facts.thy ===== *)
theory Execution_Facts
  imports Execution
begin

text \<open>
  What the parts of an execution keep: a relation between the state before and after that every
  elementary step keeps is kept by every stage, whether it raises or not.
\<close>

section \<open>Frames\<close>

lemma submit_extends:
  assumes "list_receipts t = Inr rs" and "submit_receipt x t = (t', r)"
  shows "\<exists>new. list_receipts t' = Inr (rs @ new) \<and> set new \<subseteq> {fst x}"
  using rl.add_extends [OF assms(1), of x] assms(2) by simp

locale execution_frame =
  fixes R :: "'w execution \<Rightarrow> 'w execution \<Rightarrow> bool" and p :: execution_plan
  assumes refl: "R s s" and trans: "R s t \<Longrightarrow> R t u \<Longrightarrow> R s u"
    and world: "R s (s\<lparr>ex_world := w\<rparr>)"
    and store: "submit_receipt x (ex_store s) = (db, Inl er) \<Longrightarrow> rc_plan_id (fst x) = pl_plan_id p \<Longrightarrow> R s (s\<lparr>ex_store := db\<rparr>)"
    and noted: "submit_receipt x (ex_store s) = (db, Inr q) \<Longrightarrow> rc_plan_id (fst x) = pl_plan_id p
      \<Longrightarrow> R s (s\<lparr>ex_store := db, ex_receipts := ex_receipts s @ [q], ex_sequence := n\<rparr>)"
    and graph: "R s (s\<lparr>ex_graph := g\<rparr>)"
    and observed: "R s (s\<lparr>ex_evidence := e\<rparr>)"
begin

definition frames :: "('w execution, 'a) op \<Rightarrow> bool" where
  "frames m \<longleftrightarrow> (\<forall>s. R s (fst (m s)))"

lemma framesD: "frames m \<Longrightarrow> m s = (s', r) \<Longrightarrow> R s s'"
  unfolding frames_def by (metis fst_conv)

lemma framesI: "(\<And>s s' r. m s = (s', r) \<Longrightarrow> R s s') \<Longrightarrow> frames m"
  unfolding frames_def by (metis prod.collapse)

lemma frames_obind: "frames m \<Longrightarrow> (\<And>x. frames (f x)) \<Longrightarrow> frames (obind m f)"
proof (rule framesI)
  fix s s' r
  assume k: "frames m" "\<And>x. frames (f x)" and run: "obind m f s = (s', r)"
  obtain t q where t: "m s = (t, q)" by fastforce
  show "R s s'"
  proof (cases q)
    case (Inl e)
    with run t framesD [OF k(1) t] show ?thesis by (simp add: obind_def)
  next
    case (Inr x)
    with run t have "f x t = (s', r)" by (simp add: obind_def)
    from trans [OF framesD [OF k(1) t] framesD [OF k(2) this]] show ?thesis .
  qed
qed

lemma frames_pure [simp, intro]: "frames (olift r)" "frames (oread f)" "frames (oreturn x)"
  by (simp_all add: frames_def olift_def refl)

lemma frames_finish [simp, intro]: "frames (finish_with st)"
  by (simp add: finish_with_def)

lemma frames_world [simp, intro]: "frames (on_world m)"
  by (simp add: frames_def on_world_def world split: prod.split)

lemma frames_graph [simp, intro]: "frames (on_graph m)"
  by (simp add: frames_def on_graph_def graph split: prod.split)

lemma frames_record: "rc_plan_id (fst x) = pl_plan_id p \<Longrightarrow> frames (record_receipt x)"
  by (auto simp: frames_def record_receipt_def on_store_def obind_def intro: store noted split: prod.split sum.split)

lemma frames_triple: "(\<And>a b c. frames (f a b c)) \<Longrightarrow> frames (case x of (a, b, c) \<Rightarrow> f a b c)"
  by (simp add: prod.case_eq_if)

lemma frames_append_control [simp, intro]: "frames (append_control ad p kind payload)"
  unfolding append_control_def
  by (intro frames_obind frames_pure frames_triple frames_world frames_record) simp

lemma frames_append_fact [simp, intro]: "frames (append_fact ad p kind payload)"
proof -
  have "frames (omodify (\<lambda>s. s\<lparr>ex_evidence := ex_evidence s @ es\<rparr>))" for es
    by (simp add: frames_def omodify_def observed)
  then show ?thesis unfolding append_fact_def
    by (intro frames_obind frames_append_control frames_graph frames_pure)
qed

lemma frames_terminate [simp, intro]: "frames (terminate ad p payload st)"
  unfolding terminate_def by (intro frames_obind frames_append_control frames_finish)

lemma frames_prediction_stage: "frames (prediction_stage ad p pred old)"
  unfolding prediction_stage_def by (auto split: option.split intro!: frames_obind)

lemma frames_trace_stage: "frames (trace_stage ad p old m)"
  unfolding trace_stage_def by (auto split: option.split intro!: frames_obind)

lemma frames_internal_stage: "frames (internal_stage ad p old m)"
  unfolding internal_stage_def by (auto simp: Let_def split: option.split intro!: frames_obind)

lemma frames_cost_stage: "frames (cost_stage ad p old m)"
  unfolding cost_stage_def by (auto split: option.split intro!: frames_obind)

lemma frames_interrupted: "frames (interrupted ad p msg)"
  unfolding interrupted_def by (intro frames_obind frames_append_control frames_finish)

lemma frames_evaluator_failure: "frames (evaluator_failure ad p msg)"
  unfolding evaluator_failure_def by (auto split: option.split intro!: frames_obind)

lemmas frames_parts = frames_prediction_stage frames_trace_stage frames_internal_stage frames_cost_stage frames_interrupted frames_evaluator_failure

text \<open>The stages that call an adapter, when the call itself is kept.\<close>

definition frames_call :: "adapter_call \<Rightarrow> bool" where
  "frames_call c \<longleftrightarrow> (\<forall>s. R s (s\<lparr>ex_calls := ex_calls s @ [(c, p, ex_receipts s)]\<rparr>))"

lemma frames_calling: "frames_call c \<Longrightarrow> frames (calling c p m)"
  unfolding calling_def by (rule frames_obind) (simp_all add: frames_def omodify_def frames_call_def world on_world_def split: prod.split)

lemma frames_workspace_stage: "frames_call Materialize \<Longrightarrow> frames (workspace_stage ad p old)"
  unfolding workspace_stage_def by (auto split: option.split intro!: frames_obind frames_calling)

lemma frames_settle_stage: "frames_call Evaluate \<Longrightarrow> frames (settle_stage ad p old ws m c)"
  unfolding settle_stage_def native_stage_def Let_def
  by (auto split: option.split intro!: frames_obind frames_calling)

lemma guarded_frames:
  assumes "\<And>t q. execute_stages ad p pred old s = (t, q) \<Longrightarrow> R s t" and "execute_guarded ad p pred old s = (s', r)"
  shows "R s s'"
proof -
  obtain t q where t: "execute_stages ad p pred old s = (t, q)" by fastforce
  have "R t s'" if "interrupted ad p msg t = (s', r) \<or> evaluator_failure ad p msg t = (s', r)" for msg
    using that framesD frames_interrupted frames_evaluator_failure by blast
  moreover have "s' = t \<or> (\<exists>msg. interrupted ad p msg t = (s', r) \<or> evaluator_failure ad p msg t = (s', r))"
    using assms(2) t by (auto simp: execute_guarded_def split: sum.splits err.splits exn.splits)
  ultimately show ?thesis using assms(1) [OF t] trans by blast
qed

lemma frames_model_stage:
  assumes "frames_call Infer" and "\<And>s m. R s (s\<lparr>ex_model := m\<rparr>)"
  shows "frames (model_stage ad p ws)"
proof -
  have "frames (omodify (\<lambda>s. s\<lparr>ex_model := m\<rparr>))" for m by (simp add: frames_def omodify_def assms(2))
  then show ?thesis
    unfolding model_stage_def by (intro frames_obind frames_pure) (auto split: option.split intro!: frames_obind frames_calling assms)
qed

lemma frames_execute_stages:
  assumes "frames_call Materialize" and "frames_call Infer" and "frames_call Evaluate" and "\<And>s m. R s (s\<lparr>ex_model := m\<rparr>)"
  shows "frames (execute_stages ad p pred old)"
  unfolding execute_stages_def
  by (intro frames_obind frames_workspace_stage frames_model_stage frames_parts frames_settle_stage assms)

end

section \<open>The frames of an execution\<close>

text \<open>The store keeps its receipts and gains receipts of the plan only.\<close>

definition store_grows :: "string \<Rightarrow> 'w execution \<Rightarrow> 'w execution \<Rightarrow> bool" where
  "store_grows i s s' \<longleftrightarrow> (\<forall>rs. list_receipts (ex_store s) = Inr rs \<longrightarrow>
     (\<exists>new. list_receipts (ex_store s') = Inr (rs @ new) \<and> list_all (\<lambda>r. rc_plan_id r = i) new))"

text \<open>The history is extended by calls of a kind.\<close>

definition calls_added :: "(adapter_call \<times> execution_plan \<times> receipt list \<Rightarrow> bool) \<Rightarrow> 'w execution \<Rightarrow> 'w execution \<Rightarrow> bool" where
  "calls_added ok s s' \<longleftrightarrow> (\<exists>cs. ex_calls s' = ex_calls s @ cs \<and> list_all ok cs)"

definition model_kept :: "'w execution \<Rightarrow> 'w execution \<Rightarrow> bool" where
  "model_kept s s' \<longleftrightarrow> ex_model s' = ex_model s"

definition receipts_kept :: "'w execution \<Rightarrow> 'w execution \<Rightarrow> bool" where
  "receipts_kept s s' \<longleftrightarrow> set (ex_receipts s) \<subseteq> set (ex_receipts s')"

lemma calls_added_same: "ex_calls s' = ex_calls s \<Longrightarrow> calls_added ok s s'"
  by (simp add: calls_added_def)

lemma calls_added_one: "ex_calls s' = ex_calls s @ [c] \<Longrightarrow> ok c \<Longrightarrow> calls_added ok s s'"
  by (simp add: calls_added_def)

lemma calls_added_trans: "calls_added ok s t \<Longrightarrow> calls_added ok t u \<Longrightarrow> calls_added ok s u"
  unfolding calls_added_def by (metis append.assoc list_all_append)

lemma store_grows_same: "ex_store s' = ex_store s \<Longrightarrow> store_grows i s s'"
  by (auto simp: store_grows_def)

lemma store_grows_trans:
  assumes "store_grows i s t" and "store_grows i t u"
  shows "store_grows i s u"
  unfolding store_grows_def
proof (intro allI impI)
  fix rs
  assume "list_receipts (ex_store s) = Inr rs"
  then obtain new where t: "list_receipts (ex_store t) = Inr (rs @ new)" "list_all (\<lambda>r. rc_plan_id r = i) new"
    using assms(1) unfolding store_grows_def by blast
  then obtain more where "list_receipts (ex_store u) = Inr ((rs @ new) @ more)" "list_all (\<lambda>r. rc_plan_id r = i) more"
    using assms(2) unfolding store_grows_def by blast
  with t(2) show "\<exists>new. list_receipts (ex_store u) = Inr (rs @ new) \<and> list_all (\<lambda>r. rc_plan_id r = i) new"
    by (intro exI [of _ "new @ more"]) simp
qed

lemma store_grows_submit:
  assumes "submit_receipt x (ex_store s) = (ex_store s', r)" and "rc_plan_id (fst x) = i"
  shows "store_grows i s s'"
  unfolding store_grows_def using submit_extends [OF _ assms(1)] assms(2) by (fastforce simp: list_all_iff)

interpretation gr: execution_frame "store_grows (pl_plan_id p)" p for p
  by unfold_locales ((rule store_grows_same, simp; fail) | (erule store_grows_trans, assumption) | (rule store_grows_submit; simp; fail))+

interpretation cl: execution_frame "calls_added ok" p for ok p
  by unfold_locales ((rule calls_added_same, simp) | (erule calls_added_trans, assumption))+

interpretation md: execution_frame model_kept p for p
  by unfold_locales (simp_all add: model_kept_def)

interpretation rk: execution_frame receipts_kept p for p
  by unfold_locales (auto simp: receipts_kept_def)

lemma stages_grow: "execute_stages ad p pred old s = (s', r) \<Longrightarrow> store_grows (pl_plan_id p) s s'"
  by (rule gr.framesD [OF gr.frames_execute_stages]) (auto simp: gr.frames_call_def intro: store_grows_same)

lemma stages_call_own:
  assumes "\<And>c rs. ok (c, p, rs)"
  shows "execute_stages ad p pred old s = (s', r) \<Longrightarrow> calls_added ok s s'"
  by (rule cl.framesD [OF cl.frames_execute_stages]) (auto simp: cl.frames_call_def assms intro: calls_added_same calls_added_one)

section \<open>The steps of an execution\<close>

lemma obindE:
  assumes "obind m f s = (s', r)"
  obtains (failed) e where "m s = (s', Inl e)" "r = Inl e" | (went_on) t x where "m s = (t, Inr x)" "f x t = (s', r)"
  using assms by (auto simp: obind_def split: prod.splits sum.splits)

text \<open>An execution that does not reach the stages changes only the world.\<close>

lemma execute_cases:
  assumes "execute ad p au pred s = (s', r)"
  obtains (stays) w where "s' = s\<lparr>ex_world := w\<rparr>"
      "\<And>v. r = Inr v \<Longrightarrow> \<exists>found t. receipts_for (pl_plan_id p) (ex_store s) = Inr found
         \<and> check_singletons (sort_key rc_sequence found) = Inr () \<and> by_kind ''execution_terminal'' (sort_key rc_sequence found) = Some t
         \<and> terminal_replay p pred (sort_key rc_sequence found) t = Inr v"
  | (runs) w old found where "receipts_for (pl_plan_id p) (ex_store s) = Inr found" "old = sort_key rc_sequence found"
      "by_kind ''execution_terminal'' old = None" "check_singletons old = Inr ()" "check_admission ad p au s = (s\<lparr>ex_world := w\<rparr>, Inr ())"
      "check_prediction pred (by_kind ''mechanism_prediction'' old) = Inr ()"
      "execute_guarded ad p pred old (begin_with old (s\<lparr>ex_world := w\<rparr>)) = (s', r)"
proof -
  have adm: "\<exists>w. t = s\<lparr>ex_world := w\<rparr>" if "check_admission ad p au s = (t, q)" for t q
  proof -
    have w: "\<exists>w. z = z\<lparr>ex_world := w\<rparr>" for z :: "'a execution" by (rule exI [of _ "ex_world z"]) simp
    show ?thesis using that unfolding check_admission_def
      by (elim obindE) (auto simp: olift_def on_world_def w split: prod.splits)
  qed
  have w: "s = s\<lparr>ex_world := ex_world s\<rparr>" by simp
  show ?thesis
  proof (cases "receipts_for (pl_plan_id p) (ex_store s)")
    case (Inl e)
    with assms have "s' = s" "r = Inl e" by (simp_all add: execute_def)
    with w stays show ?thesis by blast
  next
    case found: (Inr found)
    let ?old = "sort_key rc_sequence found"
    show ?thesis
    proof (cases "check_singletons ?old")
      case (Inl e)
      with assms found have "s' = s" "r = Inl e" by (simp_all add: execute_def Let_def)
      with w stays show ?thesis by blast
    next
      case sing: (Inr u)
      obtain t q where t: "check_admission ad p au s = (t, q)" by fastforce
      with adm obtain w where w: "t = s\<lparr>ex_world := w\<rparr>" by blast
      show ?thesis
      proof (cases q)
        case (Inl e)
        with assms found sing t w have "s' = s\<lparr>ex_world := w\<rparr>" "r = Inl e" by (simp_all add: execute_def Let_def obind_Inl [where m = "check_admission ad p au" and s = s, OF t [unfolded Inl]])
        with stays show ?thesis by blast
      next
        case (Inr v)
        have run: "obind (olift (check_prediction pred (by_kind ''mechanism_prediction'' ?old))) (\<lambda>_. case by_kind ''execution_terminal'' ?old of
            Some t \<Rightarrow> olift (terminal_replay p pred ?old t)
          | None \<Rightarrow> obind (omodify (begin_with ?old)) (\<lambda>_. execute_guarded ad p pred ?old)) (s\<lparr>ex_world := w\<rparr>) = (s', r)"
          using assms found sing t w Inr by (simp add: execute_def Let_def obind_Inr [where m = "check_admission ad p au" and s = s, OF t [unfolded Inr]])
        show ?thesis
        proof (cases "check_prediction pred (by_kind ''mechanism_prediction'' ?old)")
          case (Inl e)
          with run have "s' = s\<lparr>ex_world := w\<rparr>" "r = Inl e" by simp_all
          with stays show ?thesis by blast
        next
          case pr: (Inr x)
          show ?thesis
          proof (cases "by_kind ''execution_terminal'' ?old")
            case None
            with run pr have "execute_guarded ad p pred ?old (begin_with ?old (s\<lparr>ex_world := w\<rparr>)) = (s', r)" by simp
            with runs [OF found _ None] sing t w Inr pr show ?thesis by simp
          next
            case (Some z)
            with run pr have "s' = s\<lparr>ex_world := w\<rparr>" "r = terminal_replay p pred ?old z" by (simp_all add: olift_def)
            with stays found sing Some show ?thesis by (metis (full_types) old.unit.exhaust)
          qed
        qed
      qed
    qed
  qed
qed

lemma begin_with_simps [simp]:
  "ex_store (begin_with old s) = ex_store s" "ex_calls (begin_with old s) = ex_calls s" "ex_graph (begin_with old s) = ex_graph s"
  "ex_world (begin_with old s) = ex_world s" "ex_model (begin_with old s) = by_kind ''model'' old" "ex_receipts (begin_with old s) = old"
  "ex_evidence (begin_with old s) = []" "ex_sequence (begin_with old s) = fold max (map rc_sequence old) 0 + 1"
  by (simp_all add: begin_with_def)

lemma execute_grows:
  assumes "execute ad p au pred s = (s', r)"
  shows "store_grows (pl_plan_id p) s s'"
  using assms
proof (cases rule: execute_cases)
  case (stays w)
  then show ?thesis by (auto intro: store_grows_same)
next
  case (runs w old found)
  have "store_grows (pl_plan_id p) (begin_with old (s\<lparr>ex_world := w\<rparr>)) s'"
    by (rule gr.guarded_frames [OF stages_grow runs(7)])
  then show ?thesis by (simp add: store_grows_def)
qed

lemma execute_calls_own:
  assumes "execute ad p au pred s = (s', r)" and ok: "\<And>c rs. ok (c, p, rs)"
  shows "calls_added ok s s'"
  using assms(1)
proof (cases rule: execute_cases)
  case (stays w)
  then show ?thesis by (auto intro: calls_added_same)
next
  case (runs w old found)
  have "calls_added ok (begin_with old (s\<lparr>ex_world := w\<rparr>)) s'"
    by (rule cl.guarded_frames [OF stages_call_own runs(7)]) (rule ok)
  then show ?thesis by (simp add: calls_added_def)
qed


text \<open>
  What the runtime promises of a plan across any number of executions: the model is not called again
  once its receipt is stored, and a terminal plan is settled.
\<close>

section \<open>Receipts by kind\<close>

lemma by_kind_None: "by_kind k rs = None \<longleftrightarrow> (\<forall>r \<in> set rs. rc_kind r \<noteq> k)"
  by (auto simp: by_kind_def find_None_iff)

lemma by_kind_SomeD: "by_kind k rs = Some r \<Longrightarrow> r \<in> set rs \<and> rc_kind r = k"
  unfolding by_kind_def using find_SomeD by fastforce

lemma receipts_for_eq: "list_receipts t = Inr rs \<Longrightarrow> receipts_for i t = Inr (filter (\<lambda>r. rc_plan_id r = i) rs)"
  by (simp add: receipts_for_def)

lemma by_kind_stored:
  assumes "list_receipts t = Inr rs" and "m \<in> set rs" and "rc_plan_id m = i" and "receipts_for i t = Inr found"
  shows "by_kind (rc_kind m) (sort_key rc_sequence found) \<noteq> None"
  using assms by (auto simp: receipts_for_eq by_kind_None)

section \<open>Any number of executions\<close>

text \<open>The executions of a history, those that raise included, each with the adapters of its process.\<close>

type_synonym 'w request = "'w adapters \<times> execution_plan \<times> authorization \<times> mechanism_prediction option"

fun executions :: "'w request list \<Rightarrow> 'w execution \<Rightarrow> 'w execution" where
  "executions [] s = s"
| "executions ((ad, p, au, pred) # xs) s = executions xs (fst (execute ad p au pred s))"

definition calls_for :: "string \<Rightarrow> 'w execution \<Rightarrow> (adapter_call \<times> execution_plan \<times> receipt list) list" where
  "calls_for i s = filter (\<lambda>(c, p, rs). pl_plan_id p = i) (ex_calls s)"

definition model_calls :: "string \<Rightarrow> 'w execution \<Rightarrow> (adapter_call \<times> execution_plan \<times> receipt list) list" where
  "model_calls i s = filter (\<lambda>(c, p, rs). c = Infer) (calls_for i s)"

lemma calls_added_other: "calls_added (\<lambda>(c, q, rs). pl_plan_id q \<noteq> i) s s' \<Longrightarrow> calls_for i s' = calls_for i s"
  by (force simp: calls_added_def calls_for_def filter_empty_conv list_all_iff)

lemma calls_added_no_model: "calls_added (\<lambda>(c, q, rs). c \<noteq> Infer) s s' \<Longrightarrow> model_calls i s' = model_calls i s"
  by (force simp: calls_added_def calls_for_def model_calls_def filter_empty_conv list_all_iff)

text \<open>An execution that has its model receipt does not call the model.\<close>

abbreviation no_model_call :: "'w execution \<Rightarrow> 'w execution \<Rightarrow> bool" where
  "no_model_call \<equiv> calls_added (\<lambda>(c, q, rs). c \<noteq> Infer)"

lemma model_stage_known: "ex_model u = Some m \<Longrightarrow> model_stage ad p ws u = (u, Inr m)"
  by (simp add: model_stage_def)

lemma stages_without_model:
  assumes "execute_stages ad p pred old s = (s', r)" and "ex_model s \<noteq> None"
  shows "no_model_call s s'"
proof -
  have ws: "no_model_call s t" if "workspace_stage ad p old s = (t, q)" for t q
    by (rule cl.framesD [OF cl.frames_workspace_stage that]) (auto simp: cl.frames_call_def intro: calls_added_one)
  have set: "no_model_call u t" if "settle_stage ad p old w m c u = (t, q)" for u t w m c q
    by (rule cl.framesD [OF cl.frames_settle_stage that]) (auto simp: cl.frames_call_def intro: calls_added_one)
  note parts = cl.frames_parts [THEN cl.framesD]
  have md: "ex_model u \<noteq> None" if "workspace_stage ad p old s = (t, x)" "prediction_stage ad p pred old t = (u, y)" for t u x y
    using md.framesD [OF md.frames_workspace_stage that(1)] md.framesD [OF md.frames_prediction_stage that(2)] assms(2)
    by (simp add: md.frames_call_def model_kept_def)
  from assms(1) [unfolded execute_stages_def] show ?thesis
  proof (cases rule: obindE)
    case (failed e)
    then show ?thesis using ws by blast
  next
    case (went_on t w)
    note t = went_on
    from t(2) show ?thesis
    proof (cases rule: obindE)
      case (failed e)
      then show ?thesis using ws [OF t(1)] parts(1) calls_added_trans by blast
    next
      case (went_on u x)
      obtain m where m: "ex_model u = Some m" using md [OF t(1) went_on(1)] by blast
      have "no_model_call s u" using ws [OF t(1)] parts(1) [OF went_on(1)] calls_added_trans by blast
      moreover have "no_model_call u s'"
      proof (rule cl.framesD)
        show "obind (trace_stage ad p old m) (\<lambda>_. obind (internal_stage ad p old m) (\<lambda>_. obind (cost_stage ad p old m)
            (\<lambda>c. settle_stage ad p old w m c))) u = (s', r)"
          using went_on(2) by (simp add: obind_Inr [where m = "model_stage ad p w" and s = u, OF model_stage_known [OF m]])
      qed (intro cl.frames_obind cl.frames_parts cl.framesI; (rule set, assumption)?)
      ultimately show ?thesis by (rule calls_added_trans)
    qed
  qed
qed

lemma execution_without_model:
  assumes "execute ad p au pred s = (s', r)" and "list_receipts (ex_store s) = Inr rs"
    and "m \<in> set rs" and "rc_kind m = ''model''" and "rc_plan_id m = i"
  shows "model_calls i s' = model_calls i s"
proof (cases "pl_plan_id p = i")
  case False
  then have "calls_added (\<lambda>(c, q, rs). pl_plan_id q \<noteq> i) s s'" by (intro execute_calls_own [OF assms(1)]) simp
  then show ?thesis by (simp add: model_calls_def calls_added_other)
next
  case True
  from assms(1) show ?thesis
  proof (cases rule: execute_cases)
    case (stays w)
    then show ?thesis by (simp add: model_calls_def calls_for_def)
  next
    case (runs w old found)
    have "by_kind ''model'' old \<noteq> None"
      using by_kind_stored [OF assms(2,3,5)] runs(1,2) True by (simp add: assms(4))
    then have "no_model_call (begin_with old (s\<lparr>ex_world := w\<rparr>)) s'"
      by (intro cl.guarded_frames [OF stages_without_model runs(7)]) simp_all
    then have "no_model_call s s'" by (simp add: calls_added_def)
    then show ?thesis by (rule calls_added_no_model)
  qed
qed

lemma executions_grow: "list_receipts (ex_store s) = Inr rs \<Longrightarrow> \<exists>new. list_receipts (ex_store (fst (execute ad p au pred s))) = Inr (rs @ new)
    \<and> list_all (\<lambda>r. rc_plan_id r = pl_plan_id p) new"
  using execute_grows [of ad p au pred s] unfolding store_grows_def by (metis prod.collapse)

text \<open>An execution of a plan that has its terminal receipt.\<close>

lemma singleton_kind:
  assumes "check_singletons old = Inr ()" and "k \<in> set singleton_kinds" and "r \<in> set old" and "rc_kind r = k"
  shows "by_kind k old = Some r"
proof -
  have "length (filter (\<lambda>r. rc_kind r = k) old) \<le> 1"
    using assms(1,2) by (auto simp: check_singletons_def all_checks_eq_Inr violation_unless_eq_Inr)
  moreover have "r \<in> set (filter (\<lambda>r. rc_kind r = k) old)" using assms(3,4) by simp
  ultimately have one: "filter (\<lambda>r. rc_kind r = k) old = [r]" by (cases "filter (\<lambda>r. rc_kind r = k) old") auto
  obtain q where q: "by_kind k old = Some q" using assms(3,4) by_kind_None [of k old] by auto
  then have "q \<in> set (filter (\<lambda>r. rc_kind r = k) old)" using by_kind_SomeD by fastforce
  with one q show ?thesis by simp
qed

lemma settled_execution:
  assumes "list_receipts (ex_store s) = Inr rs" and "t \<in> set rs" and "rc_kind t = ''execution_terminal''" and "rc_plan_id t = i"
    and "execute ad p au pred s = (s', r)" and "pl_plan_id p = i"
  shows "ex_store s' = ex_store s \<and> ex_graph s' = ex_graph s \<and> ex_calls s' = ex_calls s
    \<and> (\<forall>v. r = Inr v \<longrightarrow> er_replayed v \<and> er_status v = py_str (get (rc_payload t) ''status'')
        \<and> set (er_receipts v) = {r \<in> set rs. rc_plan_id r = i})"
  using assms(5)
proof (cases rule: execute_cases)
  case (stays w)
  have "er_replayed v \<and> er_status v = py_str (get (rc_payload t) ''status'') \<and> set (er_receipts v) = {r \<in> set rs. rc_plan_id r = i}" if v: "r = Inr v" for v
  proof -
    let ?old = "sort_key rc_sequence (filter (\<lambda>r. rc_plan_id r = i) rs)"
    from stays(2) [OF v] obtain z where z: "check_singletons ?old = Inr ()" "by_kind ''execution_terminal'' ?old = Some z" "terminal_replay p pred ?old z = Inr v"
      using assms(1,6) by (auto simp: receipts_for_eq)
    have "by_kind ''execution_terminal'' ?old = Some t"
      by (rule singleton_kind [OF z(1)]) (use assms in \<open>auto simp: singleton_kinds_def\<close>)
    with z(2,3) show ?thesis by (auto simp: terminal_replay_def bind_eq_Inr item_def get_def raise_def split: option.splits)
  qed
  with stays show ?thesis by simp
next
  case (runs w old found)
  have "by_kind ''execution_terminal'' old \<noteq> None"
    using by_kind_stored [OF assms(1,2,4)] runs(1,2) assms(6) by (simp add: assms(3))
  with runs(3) show ?thesis by simp
qed

lemma settled_executions:
  assumes "list_receipts (ex_store s) = Inr rs" and "t \<in> set rs" and "rc_kind t = ''execution_terminal''" and "rc_plan_id t = i"
  shows "\<exists>new. calls_for i (executions xs s) = calls_for i s \<and> list_receipts (ex_store (executions xs s)) = Inr (rs @ new)
    \<and> list_all (\<lambda>r. rc_plan_id r \<noteq> i) new"
  using assms(1,2)
proof (induction xs arbitrary: s rs)
  case Nil
  then show ?case by (intro exI [of _ "[]"]) simp
next
  case (Cons x xs)
  obtain ad p au pred where x: "x = (ad, p, au, pred)" by (cases x) auto
  obtain s' r where run: "execute ad p au pred s = (s', r)" by fastforce
  have "\<exists>new. calls_for i s' = calls_for i s \<and> list_receipts (ex_store s') = Inr (rs @ new) \<and> list_all (\<lambda>r. rc_plan_id r \<noteq> i) new"
  proof (cases "pl_plan_id p = i")
    case True
    have "ex_store s' = ex_store s \<and> ex_calls s' = ex_calls s"
      using settled_execution [OF Cons.prems assms(3,4) run True] by blast
    with Cons.prems(1) show ?thesis by (intro exI [of _ "[]"]) (simp add: calls_for_def)
  next
    case False
    have "calls_for i s' = calls_for i s" by (rule calls_added_other, rule execute_calls_own [OF run]) (simp add: False)
    moreover obtain new where "list_receipts (ex_store s') = Inr (rs @ new)" "list_all (\<lambda>r. rc_plan_id r = pl_plan_id p) new"
      using execute_grows [OF run] Cons.prems(1) unfolding store_grows_def by blast
    ultimately show ?thesis using False by (intro exI [of _ new]) (auto simp: list_all_iff)
  qed
  then obtain new where n: "calls_for i s' = calls_for i s" "list_receipts (ex_store s') = Inr (rs @ new)" "list_all (\<lambda>r. rc_plan_id r \<noteq> i) new" by blast
  obtain more where m: "calls_for i (executions xs s') = calls_for i s'" "list_receipts (ex_store (executions xs s')) = Inr ((rs @ new) @ more)"
    "list_all (\<lambda>r. rc_plan_id r \<noteq> i) more"
    using Cons.IH [OF n(2)] Cons.prems(2) by auto
  then show ?case using n by (intro exI [of _ "new @ more"]) (simp add: x run)
qed

end
