(* ===== verification/Execution_Calls.thy ===== *)
theory Execution_Calls
  imports Execution_Facts
begin

text \<open>What is stored when an adapter is called.\<close>

section \<open>What an append returns\<close>

lemma submit_result:
  assumes "submit_receipt x t = (t', Inr r)"
  shows "receipt_eq r (fst x)" and "\<exists>rs. list_receipts t' = Inr rs \<and> r \<in> set rs"
proof -
  have a: "append_receipt (fst x, snd x) t = (t', Inr r)" and c: "check_receipt (fst x) = Inr ()"
    using assms by (auto simp: submit_receipt_cases split: sum.splits)
  obtain rs where rs: "list_receipts t = Inr rs"
    using a by (cases x; cases "list_receipts t") (auto simp: append_receipt_eq append_body_def split: if_splits prod.splits)
  have "receipt_eq r (fst x) \<and> (\<exists>rs. list_receipts t' = Inr rs \<and> r \<in> set rs)"
  proof (cases "find (\<lambda>y. rc_receipt_id y = rc_receipt_id (fst x)) rs")
    case None
    have "list_receipts t' = Inr (rs @ [fst x])"
      by (rule rl.add_new [OF rs _ assms]) (use None in \<open>auto simp: find_None_iff\<close>)
    then show ?thesis using append_new [OF rs None a] by simp
  next
    case (Some prior)
    then show ?thesis using append_known [OF rs Some a] rs find_SomeD [OF Some] by auto
  qed
  then show "receipt_eq r (fst x)" "\<exists>rs. list_receipts t' = Inr rs \<and> r \<in> set rs" by blast+
qed

lemma receipt_eqD:
  assumes "receipt_eq r q"
  shows "rc_kind r = rc_kind q" and "rc_plan_id r = rc_plan_id q" and "rc_receipt_id r = rc_receipt_id q"
    and "py_eq (JObj (rc_payload r)) (JObj (rc_payload q))"
  using assms unfolding receipt_eq_def by (cases r; cases q; simp)+

lemma record_result:
  assumes "record_receipt x s = (s', Inr r)"
  shows "receipt_eq r (fst x)" and "ex_receipts s' = ex_receipts s @ [r]" and "ex_model s' = ex_model s"
  using assms submit_result(1) by (auto simp: record_receipt_def on_store_def obind_def split: prod.splits sum.splits)

lemma append_control_result:
  assumes "append_control ad p kind payload s = (s', Inr r)"
  shows "rc_kind r = kind" and "py_eq (JObj (rc_payload r)) (JObj payload)" and "r \<in> set (ex_receipts s')"
proof -
  obtain sq i at a artifact u where "record_receipt (\<lparr>rc_receipt_id = i, rc_campaign_id = pl_campaign_id p, rc_plan_id = pl_plan_id p, rc_sequence = sq,
       rc_kind = kind, rc_created_at = at, rc_payload = payload, rc_artifact_sha256 = a, rc_supersedes_receipt_id = None\<rparr>, artifact) u = (s', Inr r)"
    using assms unfolding append_control_def by (auto simp: obind_eq_Inr olift_eq_Inr split: prod.splits)
  note x = record_result(1,2) [OF this]
  show "rc_kind r = kind" "py_eq (JObj (rc_payload r)) (JObj payload)" "r \<in> set (ex_receipts s')"
    using receipt_eqD [OF x(1)] x(2) by simp_all
qed

lemma on_parts:
  shows "on_store f s = (s', x) \<Longrightarrow> \<exists>db. s' = s\<lparr>ex_store := db\<rparr>" and "on_world g s = (s', y) \<Longrightarrow> \<exists>w. s' = s\<lparr>ex_world := w\<rparr>"
  by (auto simp: on_store_def on_world_def split: prod.splits)

lemma append_control_rest:
  assumes "append_control ad p kind payload s = (s', Inr r)"
  shows "ex_receipts s' = ex_receipts s @ [r]" and "ex_graph s' = ex_graph s" and "ex_evidence s' = ex_evidence s" and "ex_calls s' = ex_calls s"
  using assms unfolding append_control_def
  by (auto simp: obind_eq_Inr olift_eq_Inr record_receipt_def dest!: on_parts split: prod.splits)

lemma on_graph_same: "on_graph m s = (s', r) \<Longrightarrow> ex_receipts s' = ex_receipts s"
  by (auto simp: on_graph_def split: prod.splits)

lemma append_fact_result:
  assumes "append_fact ad p kind payload s = (s', Inr r)"
  shows "rc_kind r = kind" and "py_eq (JObj (rc_payload r)) (JObj payload)" and "r \<in> set (ex_receipts s')"
proof -
  obtain t where t: "append_control ad p kind payload s = (t, Inr r)" and e: "ex_receipts s' = ex_receipts t"
    using assms by (auto simp: append_fact_def obind_eq_Inr dest: on_graph_same)
  show "rc_kind r = kind" "py_eq (JObj (rc_payload r)) (JObj payload)" "r \<in> set (ex_receipts s')"
    using append_control_result [OF t] by (simp_all add: e)
qed

lemma py_eq_get: "py_eq (JObj d) (JObj e) \<Longrightarrow> py_eq (get d k) (get e k)"
proof -
  assume "py_eq (JObj d) (JObj e)"
  then have "fmmap num_norm d = fmmap num_norm e" by (simp add: py_eq_def)
  then have "map_option num_norm (fmlookup d k) = map_option num_norm (fmlookup e k)" by (metis fmlookup_map)
  then show ?thesis by (auto simp: get_def py_eq_def split: option.splits)
qed

section \<open>The ground of a call\<close>

definition workspace_known :: "execution_plan \<Rightarrow> receipt list \<Rightarrow> bool" where
  "workspace_known p known \<longleftrightarrow> (\<exists>w \<in> set known. rc_kind w = ''workspace''
     \<and> get (rc_payload w) ''plan_sha256'' = JStr (digest (execution_plan_json p)))"

definition prediction_known :: "mechanism_prediction option \<Rightarrow> receipt list \<Rightarrow> bool" where
  "prediction_known pred known \<longleftrightarrow> (\<forall>q. pred = Some q \<longrightarrow> (\<exists>r \<in> set known. rc_kind r = ''mechanism_prediction''
     \<and> py_eq (JObj (rc_payload r)) (JObj (prediction_payload q))))"

definition model_known :: "receipt list \<Rightarrow> receipt \<Rightarrow> bool" where
  "model_known known m \<longleftrightarrow> m \<in> set known \<and> rc_kind m = ''model''"

definition trace_known :: "receipt \<Rightarrow> receipt list \<Rightarrow> bool" where
  "trace_known m known \<longleftrightarrow> (\<exists>t \<in> set known. rc_kind t = ''external_trace'' \<and> get (rc_payload t) ''model_receipt_id'' = JStr (rc_receipt_id m))"

definition cost_known :: "execution_plan \<Rightarrow> receipt list \<Rightarrow> bool" where
  "cost_known p known \<longleftrightarrow> (\<exists>c \<in> set known. rc_kind c = ''cost'' \<and> over_limit p c = Inr False)"

text \<open>
  The model is called on a stored workspace of this very plan, after the prediction is frozen; the
  evaluator after the model, its trace and a cost within the plan's limit are stored.
\<close>

definition call_grounded :: "execution_plan \<Rightarrow> mechanism_prediction option \<Rightarrow> adapter_call \<times> execution_plan \<times> receipt list \<Rightarrow> bool" where
  "call_grounded p pred x \<longleftrightarrow> (case x of (c, q, known) \<Rightarrow> q = p \<and> (case c of
     Materialize \<Rightarrow> True
   | Infer \<Rightarrow> workspace_known p known \<and> prediction_known pred known
   | Evaluate \<Rightarrow> workspace_known p known \<and> prediction_known pred known
       \<and> (\<exists>m. model_known known m \<and> trace_known m known) \<and> cost_known p known))"

lemma known_mono:
  assumes "set known \<subseteq> set known'"
  shows "workspace_known p known \<Longrightarrow> workspace_known p known'" and "prediction_known pred known \<Longrightarrow> prediction_known pred known'"
    and "model_known known m \<Longrightarrow> model_known known' m" and "trace_known m known \<Longrightarrow> trace_known m known'"
    and "cost_known p known \<Longrightarrow> cost_known p known'"
  using assms unfolding workspace_known_def prediction_known_def model_known_def trace_known_def cost_known_def by blast+

lemma workspace_result:
  assumes "workspace_stage ad p old s = (t, Inr w)" and "set old \<subseteq> set (ex_receipts s)"
  shows "workspace_known p (ex_receipts t)"
proof (cases "by_kind ''workspace'' old")
  case None
  obtain u m h where h: "plan_sha256 p = Inr h" and a: "append_fact ad p ''workspace'' (fmupd ''plan_sha256'' (JStr h) m) u = (t, Inr w)"
    using assms(1) by (auto simp: workspace_stage_def None obind_eq_Inr olift_eq_Inr)
  have "get (rc_payload w) ''plan_sha256'' = JStr h"
    using py_eq_get [OF append_fact_result(2) [OF a], of "''plan_sha256''"] by simp
  then show ?thesis using append_fact_result(1,3) [OF a] h by (auto simp: workspace_known_def plan_sha256_def content_sha256_eq_Inr)
next
  case (Some r)
  then have "t = s" "\<exists>h. plan_sha256 p = Inr h \<and> get (rc_payload r) ''plan_sha256'' = JStr h"
    using assms(1) by (auto simp: workspace_stage_def olift_eq_Inr res_simps)
  then show ?thesis using by_kind_SomeD [OF Some] assms(2) by (auto simp: workspace_known_def plan_sha256_def content_sha256_eq_Inr)
qed

lemma prediction_result:
  assumes "prediction_stage ad p pred old s = (t, Inr u)" and "set old \<subseteq> set (ex_receipts s)"
    and "check_prediction pred (by_kind ''mechanism_prediction'' old) = Inr ()"
  shows "prediction_known pred (ex_receipts t)"
proof (cases pred)
  case (Some q)
  show ?thesis
  proof (cases "by_kind ''mechanism_prediction'' old")
    case None
    obtain v r where a: "append_fact ad p ''mechanism_prediction'' (prediction_payload q) v = (t, Inr r)"
      using assms(1) by (auto simp: prediction_stage_def Some None obind_eq_Inr olift_eq_Inr)
    show ?thesis using append_fact_result [OF a] by (auto simp: prediction_known_def Some)
  next
    case prior: (Some r)
    then have "t = s" "py_eq (JObj (rc_payload r)) (JObj (prediction_payload q))"
      using assms(1,3) by (auto simp: prediction_stage_def check_prediction_def Some violation_unless_eq_Inr)
    then show ?thesis using by_kind_SomeD [OF prior] assms(2) by (auto simp: prediction_known_def Some)
  qed
qed (simp add: prediction_known_def)

lemma model_result:
  assumes "model_stage ad p w s = (t, Inr m)" and "\<And>r. ex_model s = Some r \<Longrightarrow> model_known (ex_receipts s) r"
  shows "model_known (ex_receipts t) m"
proof (cases "ex_model s")
  case None
  then obtain u d v where "append_fact ad p ''model'' d u = (v, Inr m)" "ex_receipts t = ex_receipts v"
    using assms(1) by (auto simp: model_stage_def obind_eq_Inr)
  then show ?thesis using append_fact_result(1,3) by (fastforce simp: model_known_def)
next
  case (Some r)
  then show ?thesis using assms by (simp add: model_stage_known)
qed

lemma get_fmadd: "fmlookup b k = None \<Longrightarrow> get (a ++\<^sub>f b) k = get a k"
  by (simp add: get_def fmdom_notI)

lemma trace_payload_link: "trace_payload p m = Inr d \<Longrightarrow> get d ''model_receipt_id'' = JStr (rc_receipt_id m)"
proof -
  assume "trace_payload p m = Inr d"
  then obtain h where d: "d = fmap_of_list (model_link m @ [(''arm'', JStr (pl_arm p)), (''task_revision_id'', JStr (tr_revision_id (pl_task p)))])
       ++\<^sub>f fmap_of_list ((if config_or (rc_payload m) ''mechanism_id'' (get (pl_metadata p) ''mechanism_id'') = JNull then []
          else [(''mechanism_id'', config_or (rc_payload m) ''mechanism_id'' (get (pl_metadata p) ''mechanism_id''))])
         @ (case h of None \<Rightarrow> [] | Some x \<Rightarrow> [(''prediction_sha256'', JStr x), (''observation_sha256'', JStr x)]))
       ++\<^sub>f fmrestrict_set (set trace_names) (rc_payload m)"
    unfolding trace_payload_def Let_def bind_eq_Inr by blast
  show ?thesis unfolding d
    by (subst get_fmadd, simp add: trace_names_def, subst get_fmadd)
      (auto simp: fmlookup_of_list map_of_eq_None_iff model_link_def split: option.split)
qed

lemma trace_result:
  assumes "trace_stage ad p old m s = (t, Inr u)" and "set old \<subseteq> set (ex_receipts s)"
  shows "trace_known m (ex_receipts t)"
proof (cases "by_kind ''external_trace'' old")
  case None
  obtain d v r where d: "trace_payload p m = Inr d" and a: "append_fact ad p ''external_trace'' d v = (t, Inr r)"
    using assms(1) by (auto simp: trace_stage_def None obind_eq_Inr olift_eq_Inr)
  have "get d ''model_receipt_id'' = JStr (rc_receipt_id m)" by (rule trace_payload_link [OF d])
  then have "get (rc_payload r) ''model_receipt_id'' = JStr (rc_receipt_id m)"
    using py_eq_get [OF append_fact_result(2) [OF a], of "''model_receipt_id''"] by simp
  then show ?thesis using append_fact_result(1,3) [OF a] by (auto simp: trace_known_def)
next
  case (Some r)
  then have "t = s" "get (rc_payload r) ''model_receipt_id'' = JStr (rc_receipt_id m)"
    using assms(1) by (auto simp: trace_stage_def olift_eq_Inr violation_unless_eq_Inr)
  then show ?thesis using by_kind_SomeD [OF Some] assms(2) by (auto simp: trace_known_def)
qed

lemma cost_result:
  assumes "cost_stage ad p old m s = (t, Inr c)" and "set old \<subseteq> set (ex_receipts s)"
  shows "c \<in> set (ex_receipts t) \<and> rc_kind c = ''cost''"
proof (cases "by_kind ''cost'' old")
  case None
  obtain d v where "append_fact ad p ''cost'' d v = (t, Inr c)"
    using assms(1) by (auto simp: cost_stage_def None obind_eq_Inr olift_eq_Inr)
  then show ?thesis using append_fact_result(1,3) by blast
next
  case (Some r)
  then show ?thesis using assms by_kind_SomeD [OF Some] by (auto simp: cost_stage_def)
qed

section \<open>The calls of an execution\<close>

lemma over_within:
  assumes "settle_stage ad p old w m c s = (s', r)"
    and "over_limit p c = Inr False \<Longrightarrow> ok (Evaluate, p, ex_receipts s)"
  shows "calls_added ok s s'"
proof (cases "over_limit p c = Inr False")
  case True
  have t: "calls_added ok u u'" if "terminate ad p d st u = (u', q)" for u u' d st q
    by (rule cl.framesD [OF cl.frames_terminate that])
  have n: "calls_added ok s t" if "native_stage ad p old w m s = (t, q)" for t q
  proof (cases "by_kind ''native_evaluation'' old")
    case None
    let ?u = "s\<lparr>ex_calls := ex_calls s @ [(Evaluate, p, ex_receipts s)]\<rparr>"
    have "calls_added ok s ?u" by (rule calls_added_one) (use assms(2) [OF True] in simp_all)
    moreover have "obind (on_world (ad_evaluate ad p (rc_payload w) (rc_payload m))) (\<lambda>d. obind (olift (native_payload p m d)) (\<lambda>d.
        obind (append_fact ad p ''native_evaluation'' d) (\<lambda>_. oreturn ()))) ?u = (t, q)"
      using that by (simp add: native_stage_def None calling_def obind_def [of "obind _ _"] obind_def [of "on_world _"] split: prod.splits sum.splits)
    then have "calls_added ok ?u t"
      by (rule cl.framesD [rotated]) (intro cl.frames_obind cl.frames_world cl.frames_pure cl.frames_append_fact)
    ultimately show ?thesis by (rule calls_added_trans)
  next
    case (Some x)
    then show ?thesis using that by (auto simp: native_stage_def intro: calls_added_same)
  qed
  from assms(1) True show ?thesis
    unfolding settle_stage_def Let_def
    by (auto simp: obind_olift violation_unless_def require_def raise_def split: if_splits elim!: obindE
      dest!: t n intro: calls_added_same calls_added_trans)
next
  case False
  then have "over_limit p c = Inr True \<or> (\<exists>e. over_limit p c = Inl e)" by (cases "over_limit p c") auto
  with assms(1) show ?thesis
    by (auto simp: settle_stage_def intro: calls_added_same cl.framesD [OF cl.frames_terminate])
qed

lemma model_grounded:
  assumes "model_stage ad p w s = (s', r)" and "ok (Infer, p, ex_receipts s)"
  shows "calls_added ok s s'"
proof (cases "ex_model s")
  case None
  let ?u = "s\<lparr>ex_calls := ex_calls s @ [(Infer, p, ex_receipts s)]\<rparr>"
  have "calls_added ok s ?u" by (rule calls_added_one) (use assms(2) in simp_all)
  moreover have "obind (on_world (ad_infer ad p (rc_payload w))) (\<lambda>out.
       obind (append_fact ad p ''model'' (out ++\<^sub>f fmap_of_list [(''provider'', JStr (mi_provider (pl_model p))),
         (''model'', JStr (mi_model (pl_model p))), (''revision'', JStr (mi_revision (pl_model p)))])) (\<lambda>r.
       obind (omodify (\<lambda>s. s\<lparr>ex_model := Some r\<rparr>)) (\<lambda>_. oreturn r))) ?u = (s', r)"
    using assms(1) by (simp add: model_stage_def None calling_def obind_def [of "obind _ _"] obind_def [of "on_world _"] split: prod.splits sum.splits)
  then have "calls_added ok ?u s'"
    by (rule cl.framesD [rotated]) (intro cl.frames_obind cl.frames_world cl.frames_pure cl.frames_append_fact cl.framesI calls_added_same; auto simp: omodify_def)
  ultimately show ?thesis by (rule calls_added_trans)
next
  case (Some m)
  then show ?thesis using assms(1) by (auto simp: model_stage_known intro: calls_added_same)
qed

lemma kept_receipts: "rk.frames f \<Longrightarrow> f s = (t, z) \<Longrightarrow> set (ex_receipts s) \<subseteq> set (ex_receipts t)"
  by (drule (1) rk.framesD) (simp add: receipts_kept_def)

lemma kept_model: "md.frames f \<Longrightarrow> f s = (t, z) \<Longrightarrow> ex_model t = ex_model s"
  by (drule (1) md.framesD) (simp add: model_kept_def)

lemma frames_known:
  shows "workspace_stage ad p old s = (t, w) \<Longrightarrow> set (ex_receipts s) \<subseteq> set (ex_receipts t) \<and> ex_model t = ex_model s"
    and "prediction_stage ad p pred old s = (t, u) \<Longrightarrow> set (ex_receipts s) \<subseteq> set (ex_receipts t) \<and> ex_model t = ex_model s"
    and "model_stage ad p wr s = (t, x) \<Longrightarrow> set (ex_receipts s) \<subseteq> set (ex_receipts t)"
    and "trace_stage ad p old m s = (t, u) \<Longrightarrow> set (ex_receipts s) \<subseteq> set (ex_receipts t)"
    and "internal_stage ad p old m s = (t, u) \<Longrightarrow> set (ex_receipts s) \<subseteq> set (ex_receipts t)"
    and "cost_stage ad p old m s = (t, c) \<Longrightarrow> set (ex_receipts s) \<subseteq> set (ex_receipts t)"
proof -
  note r = kept_receipts and m = kept_model
  have "rk.frames (workspace_stage ad p old)" "md.frames (workspace_stage ad p old)"
    by (rule rk.frames_workspace_stage md.frames_workspace_stage, simp add: rk.frames_call_def md.frames_call_def receipts_kept_def model_kept_def)+
  then show "workspace_stage ad p old s = (t, w) \<Longrightarrow> set (ex_receipts s) \<subseteq> set (ex_receipts t) \<and> ex_model t = ex_model s"
    using r m by blast
  show "prediction_stage ad p pred old s = (t, u) \<Longrightarrow> set (ex_receipts s) \<subseteq> set (ex_receipts t) \<and> ex_model t = ex_model s"
    using r [OF rk.frames_prediction_stage] m [OF md.frames_prediction_stage] by blast
  have "rk.frames (model_stage ad p wr)"
    by (rule rk.frames_model_stage) (simp_all add: rk.frames_call_def receipts_kept_def)
  then show "model_stage ad p wr s = (t, x) \<Longrightarrow> set (ex_receipts s) \<subseteq> set (ex_receipts t)" by (rule r)
  show "trace_stage ad p old m s = (t, u) \<Longrightarrow> set (ex_receipts s) \<subseteq> set (ex_receipts t)" by (rule r [OF rk.frames_trace_stage])
  show "internal_stage ad p old m s = (t, u) \<Longrightarrow> set (ex_receipts s) \<subseteq> set (ex_receipts t)" by (rule r [OF rk.frames_internal_stage])
  show "cost_stage ad p old m s = (t, c) \<Longrightarrow> set (ex_receipts s) \<subseteq> set (ex_receipts t)" by (rule r [OF rk.frames_cost_stage])
qed

lemma stages_grounded:
  assumes "execute_stages ad p pred old s = (s', r)" and "set old \<subseteq> set (ex_receipts s)"
    and "check_prediction pred (by_kind ''mechanism_prediction'' old) = Inr ()"
    and "\<And>m. ex_model s = Some m \<Longrightarrow> model_known (ex_receipts s) m"
  shows "calls_added (call_grounded p pred) s s'"
proof -
  let ?ok = "call_grounded p pred"
  note kept = cl.frames_parts [where ok = ?ok, THEN cl.framesD]
  have ws: "calls_added ?ok s t" if "workspace_stage ad p old s = (t, q)" for t q
    by (rule cl.framesD [OF cl.frames_workspace_stage that]) (auto simp: cl.frames_call_def call_grounded_def intro: calls_added_one)
  from assms(1) [unfolded execute_stages_def] show ?thesis
  proof (cases rule: obindE)
    case (failed e)
    then show ?thesis using ws by blast
  next
    case (went_on t1 w)
    note r1 = went_on and w1 = workspace_result [OF went_on(1) assms(2)] and k1 = frames_known(1) [OF went_on(1)]
    have o1: "set old \<subseteq> set (ex_receipts t1)" using k1 assms(2) by blast
    from r1(2) show ?thesis
    proof (cases rule: obindE)
      case (failed e)
      then show ?thesis using ws [OF r1(1)] kept(1) calls_added_trans by blast
    next
      case (went_on t2 u)
      note r2 = went_on and p2 = prediction_result [OF went_on(1) o1 assms(3)] and k2 = frames_known(2) [OF went_on(1)]
      have c2: "calls_added ?ok s t2" using ws [OF r1(1)] kept(1) [OF r2(1)] by (rule calls_added_trans)
      have w2: "workspace_known p (ex_receipts t2)" using known_mono(1) w1 k2 by blast
      have m2: "model_known (ex_receipts t2) m" if "ex_model t2 = Some m" for m
        using assms(4) [of m] that k1 k2 known_mono(3) by (metis (mono_tags, lifting))
      have i2: "?ok (Infer, p, ex_receipts t2)" using w2 p2 by (simp add: call_grounded_def)
      from r2(2) show ?thesis
      proof (cases rule: obindE)
        case (failed e)
        show ?thesis by (rule calls_added_trans [OF c2 model_grounded [where ok = ?ok, OF failed(1) i2]])
      next
        case (went_on t3 m)
        note r3 = went_on and k3 = frames_known(3) [OF went_on(1)] and m3 = model_result [OF went_on(1) m2]
        have c3: "calls_added ?ok s t3" by (rule calls_added_trans [OF c2 model_grounded [where ok = ?ok, OF r3(1) i2]])
        have o3: "set old \<subseteq> set (ex_receipts t3)" using o1 k2 k3 by blast
        from r3(2) show ?thesis
        proof (cases rule: obindE)
          case (failed e)
          then show ?thesis using c3 kept(2) calls_added_trans by blast
        next
          case (went_on t4 u)
          note r4 = went_on and k4 = frames_known(4) [OF went_on(1)] and x4 = trace_result [OF went_on(1) o3]
          have c4: "calls_added ?ok s t4" using c3 kept(2) [OF r4(1)] by (rule calls_added_trans)
          from r4(2) show ?thesis
          proof (cases rule: obindE)
            case (failed e)
            then show ?thesis using c4 kept(3) calls_added_trans by blast
          next
            case (went_on t5 u)
            note r5 = went_on and k5 = frames_known(5) [OF went_on(1)]
            have c5: "calls_added ?ok s t5" using c4 kept(3) [OF r5(1)] by (rule calls_added_trans)
            from r5(2) show ?thesis
            proof (cases rule: obindE)
              case (failed e)
              then show ?thesis using c5 kept(4) calls_added_trans by blast
            next
              case (went_on t6 c)
              have o5: "set old \<subseteq> set (ex_receipts t5)" using o3 k4 k5 by blast
              note k6 = frames_known(6) [OF went_on(1)] and x6 = cost_result [OF went_on(1) o5]
              have c6: "calls_added ?ok s t6" using c5 kept(4) [OF went_on(1)] by (rule calls_added_trans)
              have up: "set (ex_receipts t2) \<subseteq> set (ex_receipts t6)" "set (ex_receipts t3) \<subseteq> set (ex_receipts t6)" "set (ex_receipts t4) \<subseteq> set (ex_receipts t6)"
                using k3 k4 k5 k6 by blast+
              have "?ok (Evaluate, p, ex_receipts t6)" if "over_limit p c = Inr False"
                using known_mono(1) [OF up(1) w2] known_mono(2) [OF up(1) p2] known_mono(3) [OF up(2) m3] known_mono(4) [OF up(3) x4] x6 that
                by (auto simp: call_grounded_def cost_known_def)
              from calls_added_trans [OF c6 over_within [where ok = ?ok, OF went_on(2) this]] show ?thesis .
            qed
          qed
        qed
      qed
    qed
  qed
qed

section \<open>Known receipts are stored\<close>

definition known_stored :: "nat \<Rightarrow> 'w execution \<Rightarrow> bool" where
  "known_stored n s \<longleftrightarrow> (\<exists>rs. list_receipts (ex_store s) = Inr rs \<and> set (ex_receipts s) \<subseteq> set rs
     \<and> n \<le> length (ex_calls s) \<and> (\<forall>(c, q, known) \<in> set (drop n (ex_calls s)). set known \<subseteq> set rs))"

lemma known_stored_cong:
  "ex_store s' = ex_store s \<Longrightarrow> ex_receipts s' = ex_receipts s \<Longrightarrow> ex_calls s' = ex_calls s \<Longrightarrow> known_stored n s \<Longrightarrow> known_stored n s'"
  by (simp add: known_stored_def)

lemma known_stored_submit:
  assumes "submit_receipt x (ex_store s) = (ex_store s', r)" and "known_stored n s" and "ex_calls s' = ex_calls s"
    and "set (ex_receipts s') \<subseteq> set (ex_receipts s) \<union> (case r of Inl e \<Rightarrow> {} | Inr q \<Rightarrow> {q})"
  shows "known_stored n s'"
proof -
  obtain rs where rs: "list_receipts (ex_store s) = Inr rs" "set (ex_receipts s) \<subseteq> set rs" "n \<le> length (ex_calls s)"
    "\<forall>(c, q, known) \<in> set (drop n (ex_calls s)). set known \<subseteq> set rs"
    using assms(2) unfolding known_stored_def by blast
  obtain new where new: "list_receipts (ex_store s') = Inr (rs @ new)" using submit_extends [OF rs(1) assms(1)] by blast
  have "q \<in> set (rs @ new)" if "r = Inr q" for q using submit_result(2) assms(1) new that by fastforce
  then have "set (ex_receipts s') \<subseteq> set (rs @ new)" using assms(4) rs(2) by (cases r) auto
  then show ?thesis using new rs(3,4) assms(3) unfolding known_stored_def by fastforce
qed

interpretation ks: execution_frame "\<lambda>s s'. known_stored n s \<longrightarrow> known_stored n s'" p for n p
proof (unfold_locales, goal_cases)
  case (4 x s db er)
  then show ?case using known_stored_submit [of x s "s\<lparr>ex_store := db\<rparr>" "Inl er"] by simp
next
  case (5 x s db q k)
  then show ?case using known_stored_submit [of x s "s\<lparr>ex_store := db, ex_receipts := ex_receipts s @ [q], ex_sequence := k\<rparr>" "Inr q"] by simp
qed (auto elim: known_stored_cong [rotated -1])

lemma known_stored_call:
  "known_stored n s \<Longrightarrow> known_stored n (s\<lparr>ex_calls := ex_calls s @ [(c, p, ex_receipts s)]\<rparr>)"
  unfolding known_stored_def by fastforce

lemma stages_known: "execute_stages ad p pred old s = (s', r) \<Longrightarrow> known_stored n s \<longrightarrow> known_stored n s'"
  by (rule ks.framesD [OF ks.frames_execute_stages])
    (auto simp: ks.frames_call_def intro: known_stored_call elim: known_stored_cong [rotated -1])

end
