(* ===== verification/Execution_Claims.thy ===== *)
theory Execution_Claims
  imports Execution_Calls
begin

text \<open>A store of receipts that share one artifact, and executions that resume on it with one append.\<close>

section \<open>A store that was written before\<close>

definition packed_store :: "nat list \<Rightarrow> receipt list \<Rightarrow> receipt_store" where
  "packed_store b rs = \<lparr>rs_log = map (\<lambda>r. Some (receipt_line r (digest (JObj (receipt_dict r))))) rs,
     rs_artifacts = fmap_of_list [(sha256_hex b, b)], rs_locked = False\<rparr>"

definition packable :: "nat list \<Rightarrow> receipt \<Rightarrow> bool" where
  "packable b r \<longleftrightarrow> check_receipt r = Inr () \<and> finite_json (JObj (receipt_dict r)) \<and> rc_artifact_sha256 r = sha256_hex b"

lemma packed_list:
  assumes "list_all (packable b) rs" and "distinct (map rc_receipt_id rs)"
  shows "list_receipts (packed_store b rs) = Inr rs"
proof -
  have "read_receipts t [] (map (\<lambda>r. Some (receipt_line r (digest (JObj (receipt_dict r))))) rs) = Inr rs"
    if "fmlookup (rs_artifacts t) (sha256_hex b) = Some b" for t
    using assms
  proof (induction rs rule: rev_induct)
    case (snoc r rs)
    then have f: "find (\<lambda>x. rc_receipt_id x = rc_receipt_id r) rs = None" by (force simp: find_None_iff image_iff)
    have "verify_artifact (rc_artifact_sha256 r) None t = Inr b"
      using that snoc.prems(1) by (simp add: verify_artifact_eq_Inr packable_def)
    with snoc f show ?case
      by (simp add: read_receipts_snoc parse_own_line receipt_sha256_def content_sha256_eq packable_def)
  qed simp
  then show ?thesis by (simp add: list_receipts_def packed_store_def)
qed

text \<open>The receipt the next append writes, and when it does.\<close>

definition next_receipt :: "execution_plan \<Rightarrow> string \<Rightarrow> int \<Rightarrow> string \<Rightarrow> dict \<Rightarrow> receipt" where
  "next_receipt p at sq kind payload =
     \<lparr>rc_receipt_id = ''receipt-'' @ digest (jobj [(''campaign_id'', JStr (pl_campaign_id p)), (''plan_id'', JStr (pl_plan_id p)), (''sequence'', JInt sq),
        (''kind'', JStr kind), (''artifact_sha256'', JStr (digest (JObj payload)))]),
      rc_campaign_id = pl_campaign_id p, rc_plan_id = pl_plan_id p, rc_sequence = sq, rc_kind = kind, rc_created_at = at, rc_payload = payload,
      rc_artifact_sha256 = digest (JObj payload), rc_supersedes_receipt_id = None\<rparr>"

lemma identity_eq:
  assumes "finite_json (JObj payload)"
  shows "runtime_receipt_identity c i sq kind payload = Inr (utf8 (json_text (JObj payload)), digest (JObj payload),
    ''receipt-'' @ digest (jobj [(''campaign_id'', JStr c), (''plan_id'', JStr i), (''sequence'', JInt sq), (''kind'', JStr kind), (''artifact_sha256'', JStr (digest (JObj payload)))]))"
proof -
  have "finite_json (jobj [(''campaign_id'', JStr c), (''plan_id'', JStr i), (''sequence'', JInt sq), (''kind'', JStr kind), (''artifact_sha256'', JStr (digest (JObj payload)))])"
    by (rule finite_jobj) simp
  then show ?thesis using assms
    by (simp add: runtime_receipt_identity_def canonical_json_def Let_def digest_def [of "JObj payload", symmetric] content_sha256_eq del: json_text.simps)
qed

lemma append_on_packed:
  assumes st: "ex_store s = packed_store (utf8 (json_text (JObj payload))) rs" and rs: "list_all (packable (utf8 (json_text (JObj payload)))) rs"
    and ids: "distinct (map rc_receipt_id rs)" "\<forall>r \<in> set rs. take 8 (rc_receipt_id r) \<noteq> ''receipt-''"
    and ck: "ad_clock ad (ex_world s) = (w, Inr (DT 0 True))" and fin: "finite_json (JObj payload)"
    and ok: "check_receipt (next_receipt p ''1970-01-01T00:00:00Z'' (ex_sequence s) kind payload) = Inr ()"
  shows "\<exists>s'. append_control ad p kind payload s = (s', Inr (next_receipt p ''1970-01-01T00:00:00Z'' (ex_sequence s) kind payload))
    \<and> ex_receipts s' = ex_receipts s @ [next_receipt p ''1970-01-01T00:00:00Z'' (ex_sequence s) kind payload]
    \<and> list_receipts (ex_store s') = Inr (rs @ [next_receipt p ''1970-01-01T00:00:00Z'' (ex_sequence s) kind payload])
    \<and> ex_calls s' = ex_calls s \<and> ex_graph s' = ex_graph s \<and> ex_evidence s' = ex_evidence s"
proof -
  define b where b: "b = utf8 (json_text (JObj payload))"
  note st = st [folded b] and rs = rs [folded b]
  let ?r = "next_receipt p ''1970-01-01T00:00:00Z'' (ex_sequence s) kind payload"
  have l: "list_receipts (ex_store s) = Inr rs" unfolding st by (rule packed_list [OF rs ids(1)])
  have h: "sha256_hex b = digest (JObj payload)" by (simp only: b digest_def)
  have f: "find (\<lambda>x. rc_receipt_id x = rc_receipt_id ?r) rs = None"
    using ids(2) by (force simp: find_None_iff next_receipt_def)
  have d: "finite_json (JObj (receipt_dict ?r))"
    unfolding receipt_dict_def by (rule finite_fields) (use fin in \<open>simp add: next_receipt_def\<close>)
  have a: "append_receipt (?r, b) (ex_store s) = (with_receipt ?r b (ex_store s), Inr ?r)"
  proof -
    have t: "list_receipts ((ex_store s)\<lparr>rs_locked := True\<rparr>) = Inr rs" using l by simp
    have u: "(with_receipt ?r b ((ex_store s)\<lparr>rs_locked := True\<rparr>))\<lparr>rs_locked := False\<rparr> = with_receipt ?r b (ex_store s)"
      by (simp add: with_receipt_def st packed_store_def)
    have e: "sha256_hex b = rc_artifact_sha256 ?r" "\<not> rs_locked (ex_store s)"
      "fmlookup (rs_artifacts ((ex_store s)\<lparr>rs_locked := True\<rparr>)) (rc_artifact_sha256 ?r) = Some b"
      "receipt_sha256 ?r = Inr (digest (JObj (receipt_dict ?r)))"
      using d by (simp_all add: next_receipt_def h st packed_store_def receipt_sha256_def content_sha256_eq)
    show ?thesis
      by (simp only: append_receipt_eq append_body_new [OF t f] e option.case sum.case prod.case u if_False simp_thms)
  qed
  have l': "list_receipts (with_receipt ?r b (ex_store s)) = Inr (rs @ [?r])"
    by (rule list_receipts_with_receipt [OF l f ok d]) (simp_all add: next_receipt_def h st packed_store_def)
  have iso: "runtime_isoformat (DT 0 True) = Inr ''1970-01-01T00:00:00Z''" by code_simp
  let ?s = "s\<lparr>ex_world := w, ex_store := with_receipt ?r b (ex_store s), ex_receipts := ex_receipts s @ [?r], ex_sequence := ex_sequence s + 1\<rparr>"
  have sub: "submit_receipt (?r, b) (ex_store s) = (with_receipt ?r b (ex_store s), Inr ?r)"
    by (simp add: submit_receipt_cases ok a)
  have rec: "record_receipt (?r, b) (s\<lparr>ex_world := w\<rparr>) = (?s, Inr ?r)"
    by (simp add: record_receipt_def obind_def [of "on_store _"] on_store_def sub)
  have clock: "on_world (ad_clock ad) s = (s\<lparr>ex_world := w\<rparr>, Inr (DT 0 True))" by (simp add: on_world_def ck)
  have "append_control ad p kind payload s = (?s, Inr ?r)"
    unfolding append_control_def
    by (simp only: obind_oread identity_eq [OF fin, folded b] obind_olift_Inr prod.case obind_Inr [where m = "on_world (ad_clock ad)" and s = s, OF clock] iso
        next_receipt_def [symmetric] rec)
  then show ?thesis using l' by (intro exI [of _ ?s]) simp
qed


text \<open>
  What the runtime promises of a plan: adapters are called on stored grounds only, the model is not called
  again once its receipt is stored, a terminal plan is settled; and what it forgets when it resumes.
\<close>

section \<open>Resuming after the evaluation\<close>

lemma check_singletons_sort: "check_singletons (sort_key rc_sequence found) = check_singletons found"
  by (simp add: check_singletons_def filter_sort)

lemma resume_after_cost:
  assumes "by_kind ''workspace'' old = Some ws" and "get (rc_payload ws) ''plan_sha256'' = JStr (digest (execution_plan_json p))"
    and "finite_json (execution_plan_json p)" and "ex_model s = Some m"
    and "by_kind ''external_trace'' old = Some t" and "get (rc_payload t) ''model_receipt_id'' = JStr (rc_receipt_id m)"
    and "by_kind ''internal_trace'' old = None" and "get (rc_payload m) ''internal_trace'' = JNull"
    and "by_kind ''cost'' old = Some c" and "over_limit p c = Inr False" 
    and "fmlookup (pl_metadata p) ''execution_mode'' = None"
  shows "execute_stages ad p None old s = obind (native_stage ad p old ws m) (\<lambda>_. terminate ad p (status_payload ''completed'') ''completed'') s"
  using assms by (simp add: execute_stages_def workspace_stage_def plan_sha256_def content_sha256_eq violation_unless_def prediction_stage_def
    obind_Inr [where m = "model_stage ad p ws" and s = s, OF model_stage_known] trace_stage_def internal_stage_def cost_stage_def settle_stage_def config_or_def)

section \<open>A run\<close>

text \<open>A plan whose first stages are stored, an authorization, and adapters of which only the evaluator is reached.\<close>

definition run_plan :: execution_plan where
  "run_plan = \<lparr>pl_plan_id = ''plan'', pl_campaign_id = ''c'', pl_strategy_id = ''s'',
     pl_task = \<lparr>tr_task_id = ''t'', tr_revision_id = ''task'', tr_project = ''pr'', tr_cohort = FEEDBACK,
       tr_source_sha256 = ''h'', tr_evaluator_id = ''e'', tr_source_uri = None\<rparr>,
     pl_candidate_revision_id = ''r'', pl_arm = ''baseline'', pl_model = \<lparr>mi_provider = ''local'', mi_model = ''m'', mi_revision = ''1''\<rparr>,
     pl_context_policy_id = ''x'', pl_tool_policy_id = ''y'', pl_observer_policy_ids = [''o''], pl_native_evaluator_id = ''e'',
     pl_limits = \<lparr>el_max_tokens = 1, el_max_seconds = 1, el_max_cost_cny = Fin 0\<rparr>, pl_holdout_scope = ''feedback-only'', pl_metadata = fmempty\<rparr>"

definition run_authorization :: authorization where
  "run_authorization = \<lparr>au_authorization_id = ''a'', au_campaign_id = ''c'', au_allowed_cohorts = [FEEDBACK], au_max_cost_cny = Fin 0,
     au_max_model_calls = 1, au_expires_at = DT 1 True, au_remote_calls_allowed = False\<rparr>"

definition run_adapters :: "unit adapters" where
  "run_adapters = \<lparr>ad_remote = False, ad_evaluator_id = ''e'', ad_materialize = \<lambda>p. oreturn fmempty, ad_infer = \<lambda>p w. oreturn fmempty,
     ad_evaluate = \<lambda>p w m. olift (raise ExecutionInterrupted ''stop''), ad_clock = oreturn (DT 0 True), ad_file = \<lambda>n w. None,
     ad_observers = [observe_receipt native_outcome_observer]\<rparr>"

definition run_receipt :: "nat list \<Rightarrow> string \<Rightarrow> int \<Rightarrow> string \<Rightarrow> dict \<Rightarrow> receipt" where
  "run_receipt b i sq kind payload = \<lparr>rc_receipt_id = i, rc_campaign_id = ''c'', rc_plan_id = ''plan'', rc_sequence = sq, rc_kind = kind,
     rc_created_at = ''t'', rc_payload = payload, rc_artifact_sha256 = sha256_hex b, rc_supersedes_receipt_id = None\<rparr>"

definition run_prefix :: "nat list \<Rightarrow> receipt list" where
  "run_prefix b = [run_receipt b ''r1'' 1 ''workspace'' (fmap_of_list [(''plan_sha256'', JStr (digest (execution_plan_json run_plan)))]),
     run_receipt b ''r2'' 2 ''model'' fmempty, run_receipt b ''r3'' 3 ''external_trace'' (fmap_of_list [(''model_receipt_id'', JStr ''r2'')]),
     run_receipt b ''r4'' 4 ''cost'' (fmap_of_list [(''cost_cny'', JFloat (Fin 0))])]"

definition run_failed :: "nat list \<Rightarrow> receipt" where
  "run_failed b = run_receipt b ''r5'' 5 ''native_evaluation'' (fmap_of_list [(''resolved'', JBool False), (''evaluator_error'', JStr ''EvaluatorInfrastructureError: x'')])"

definition run_state :: "nat list \<Rightarrow> receipt list \<Rightarrow> unit execution" where
  "run_state b rs = \<lparr>ex_world = (), ex_store = packed_store b rs, ex_graph = None, ex_receipts = [], ex_evidence = [], ex_sequence = 1,
     ex_model = None, ex_calls = []\<rparr>"

lemma run_packable: "finite_json (JObj payload) \<Longrightarrow> \<not> blank i \<Longrightarrow> \<not> blank kind \<Longrightarrow> 1 \<le> sq \<Longrightarrow> packable b (run_receipt b i sq kind payload)"
  unfolding packable_def receipt_dict_def
  by (intro conjI finite_fields) (simp_all add: run_receipt_def check_receipt_def require_text_def require_sha256_def violation_unless_def blank_def is_space_def sha256_hex_is_sha256)

lemma run_prefix_packable: "list_all (packable b) (run_prefix b @ [run_failed b])"
  by (simp add: run_prefix_def run_failed_def run_packable blank_def is_space_def finite_fmupd)

lemma run_prefix_list:
  shows "list_receipts (packed_store b (run_prefix b)) = Inr (run_prefix b)"
    and "list_receipts (packed_store b (run_prefix b @ [run_failed b])) = Inr (run_prefix b @ [run_failed b])"
  by (rule packed_list; use run_prefix_packable [of b] in \<open>simp add: run_prefix_def run_failed_def run_receipt_def\<close>)+

lemma run_prefix_facts:
  "receipts_for ''plan'' (packed_store b (run_prefix b)) = Inr (run_prefix b)"
  "receipts_for ''plan'' (packed_store b (run_prefix b @ [run_failed b])) = Inr (run_prefix b @ [run_failed b])"
  "sort_key rc_sequence (run_prefix b) = run_prefix b" "sort_key rc_sequence (run_prefix b @ [run_failed b]) = run_prefix b @ [run_failed b]"
  "check_singletons (run_prefix b) = Inr ()" "check_singletons (run_prefix b @ [run_failed b]) = Inr ()"
  by (simp_all add: receipts_for_eq [OF run_prefix_list(1)] receipts_for_eq [OF run_prefix_list(2)])
    (simp_all add: run_prefix_def run_failed_def run_receipt_def check_singletons_def singleton_kinds_def violation_unless_def)

lemma run_admitted: "check_admission run_adapters run_plan run_authorization (run_state b rs) = (run_state b rs, Inr ())"
  by (simp add: check_admission_def run_adapters_def run_plan_def run_authorization_def run_state_def violation_unless_def on_world_def
      obind_def [of "on_world _"] assert_allows_def dt_le_def)

lemma run_plan_finite: "finite_json (execution_plan_json run_plan)"
  unfolding execution_plan_json_def by (rule finite_jobj)
    (simp add: run_plan_def task_revision_json_def model_identity_json_def execution_limits_json_def finite_jobj str_list_def)

text \<open>One more receipt on a stored prefix.\<close>

lemma run_append:
  assumes "b = utf8 (json_text (JObj payload))" and "finite_json (JObj payload)" and "\<not> blank kind"
    and "rs = run_prefix b \<or> rs = run_prefix b @ [run_failed b]"
    and "ex_store s = packed_store b rs" and "1 \<le> ex_sequence s"
  shows "\<exists>s' z. append_control run_adapters run_plan kind payload s = (s', Inr z) \<and> ex_receipts s' = ex_receipts s @ [z]
    \<and> list_receipts (ex_store s') = Inr (rs @ [z]) \<and> ex_calls s' = ex_calls s"
proof -
  have p: "list_all (packable b) rs" using run_prefix_packable [of b] assms(4) by auto
  have d: "distinct (map rc_receipt_id rs)" "\<forall>r \<in> set rs. take 8 (rc_receipt_id r) \<noteq> ''receipt-''"
    using assms(4) by (auto simp: run_prefix_def run_failed_def run_receipt_def)
  have c: "ad_clock run_adapters (ex_world s) = (ex_world s, Inr (DT 0 True))" by (simp add: run_adapters_def)
  have k: "check_receipt (next_receipt run_plan ''1970-01-01T00:00:00Z'' (ex_sequence s) kind payload) = Inr ()"
    using assms(3,6) by (simp add: check_receipt_def next_receipt_def run_plan_def require_text_def require_sha256_def violation_unless_def blank_def is_space_def)
  from append_on_packed [OF assms(5) [unfolded assms(1)] p [unfolded assms(1)] d c assms(2) k] show ?thesis by blast
qed

section \<open>Properties\<close>

text \<open>C28: Once the store holds a model receipt of a plan, no sequence of executions, of whatever plans and with whatever
  adapters, authorizations and predictions, successful or not, ever calls the model for that plan again.\<close>

theorem model_never_called_again:
  assumes "list_receipts (ex_store s) = Inr rs" and "m \<in> set rs" and "rc_kind m = ''model''" and "rc_plan_id m = i"
  shows "model_calls i (executions xs s) = model_calls i s"
  using assms(1,2)
proof (induction xs arbitrary: s rs)
  case (Cons x xs)
  obtain ad p au pred where x: "x = (ad, p, au, pred)" by (cases x) auto
  obtain new where n: "list_receipts (ex_store (fst (execute ad p au pred s))) = Inr (rs @ new)" using executions_grow [OF Cons.prems(1)] by blast
  have "model_calls i (fst (execute ad p au pred s)) = model_calls i s"
    by (rule execution_without_model [OF surjective_pairing Cons.prems assms(3,4)])
  with Cons.IH [OF n] Cons.prems(2) show ?case by (simp add: x)
qed simp

lemma model_never_called_again_witness:
  "model_calls ''plan'' (executions [(run_adapters, run_plan, run_authorization, None)] (run_state [7] (run_prefix [7]))) = []"
proof -
  have m: "run_prefix [7] ! 1 \<in> set (run_prefix [7])" "rc_kind (run_prefix [7] ! 1) = ''model''" "rc_plan_id (run_prefix [7] ! 1) = ''plan''"
    by (simp_all add: run_prefix_def run_receipt_def)
  have l: "list_receipts (ex_store (run_state [7] (run_prefix [7]))) = Inr (run_prefix [7])" by (simp add: run_state_def run_prefix_list)
  have "model_calls ''plan'' (run_state [7] (run_prefix [7])) = []" by (simp add: model_calls_def calls_for_def run_state_def)
  then show ?thesis using model_never_called_again [OF l m, of "[(run_adapters, run_plan, run_authorization, None)]"] by (simp only:)
qed

text \<open>Once the store holds a terminal receipt of a plan, the plan is settled: whatever is executed afterwards, no adapter is
  called for it, its receipts stay as they are, and an execution of it changes neither the store nor the graph and
  either raises or returns the stored receipts with the stored status, marked as a replay.\<close>

theorem terminal_plan_settled:
  assumes "list_receipts (ex_store s) = Inr rs" and "t \<in> set rs" and "rc_kind t = ''execution_terminal''" and "rc_plan_id t = i"
  shows "calls_for i (executions xs s) = calls_for i s
    \<and> receipts_for i (ex_store (executions xs s)) = receipts_for i (ex_store s)
    \<and> (pl_plan_id p = i \<longrightarrow> (case execute ad p au pred (executions xs s) of (s', r) \<Rightarrow>
        ex_store s' = ex_store (executions xs s) \<and> ex_graph s' = ex_graph (executions xs s)
        \<and> (\<forall>v. r = Inr v \<longrightarrow> er_replayed v \<and> er_status v = py_str (get (rc_payload t) ''status'')
            \<and> set (er_receipts v) = {r \<in> set rs. rc_plan_id r = i})))"
proof -
  obtain new where e: "calls_for i (executions xs s) = calls_for i s" "list_receipts (ex_store (executions xs s)) = Inr (rs @ new)"
    "list_all (\<lambda>r. rc_plan_id r \<noteq> i) new"
    using settled_executions [OF assms] by blast
  have f: "filter (\<lambda>r. rc_plan_id r = i) (rs @ new) = filter (\<lambda>r. rc_plan_id r = i) rs"
    using e(3) by (auto simp: filter_empty_conv list_all_iff)
  obtain s' r where run: "execute ad p au pred (executions xs s) = (s', r)" by fastforce
  have "ex_store s' = ex_store (executions xs s) \<and> ex_graph s' = ex_graph (executions xs s)
        \<and> (\<forall>v. r = Inr v \<longrightarrow> er_replayed v \<and> er_status v = py_str (get (rc_payload t) ''status'')
            \<and> set (er_receipts v) = {r \<in> set rs. rc_plan_id r = i})" if "pl_plan_id p = i"
    using settled_execution [OF e(2) _ assms(3,4) run that] assms(2) e(3) by (auto simp: list_all_iff)
  then show ?thesis using e f run by (simp add: receipts_for_eq assms(1))
qed

text \<open>A plan that was stopped at its cost.\<close>

definition run_settled :: "nat list \<Rightarrow> receipt list" where
  "run_settled b = [run_receipt b ''r1'' 1 ''workspace'' (fmap_of_list [(''plan_sha256'', JStr (digest (execution_plan_json run_plan)))]),
     run_receipt b ''r2'' 2 ''execution_terminal'' (fmap_of_list [(''status'', JStr ''budget_exhausted'')])]"

lemma run_settled_packable: "list_all (packable b) (run_settled b)" "distinct (map rc_receipt_id (run_settled b))"
  by (simp add: run_settled_def run_packable blank_def is_space_def finite_fmupd) (simp add: run_settled_def run_receipt_def)

lemma terminal_plan_settled_witness:
  "\<exists>s' v. execute run_adapters run_plan run_authorization None (executions [] (run_state [7] (run_settled [7]))) = (s', Inr v)
     \<and> er_replayed v \<and> er_status v = ''budget_exhausted'' \<and> ex_store s' = packed_store [7] (run_settled [7]) \<and> calls_for ''plan'' s' = []"
proof -
  let ?s = "run_state [7] (run_settled [7])"
  note p = run_settled_packable [of "[7]"]
  have l: "list_receipts (ex_store ?s) = Inr (run_settled [7])" by (simp add: run_state_def packed_list [OF p])
  have t: "run_settled [7] ! Suc 0 \<in> set (run_settled [7])" "rc_kind (run_settled [7] ! Suc 0) = ''execution_terminal''" "rc_plan_id (run_settled [7] ! Suc 0) = ''plan''"
    "rc_payload (run_settled [7] ! Suc 0) = fmap_of_list [(''status'', JStr ''budget_exhausted'')]"
    by (simp_all add: run_settled_def run_receipt_def)
  have f: "receipts_for (pl_plan_id run_plan) (ex_store ?s) = Inr (run_settled [7])"
    by (simp add: receipts_for_eq [OF l] run_plan_def) (simp add: run_settled_def run_receipt_def)
  have st: "sort_key rc_sequence (run_settled [7]) = run_settled [7]" "check_singletons (run_settled [7]) = Inr ()"
    "by_kind ''workspace'' (run_settled [7]) = Some (run_settled [7] ! 0)" "by_kind ''mechanism_prediction'' (run_settled [7]) = None"
    "by_kind ''execution_terminal'' (run_settled [7]) = Some (run_settled [7] ! Suc 0)"
    by (simp_all add: run_settled_def run_receipt_def check_singletons_def singleton_kinds_def violation_unless_def by_kind_def)
  have w: "get (rc_payload (run_settled [7] ! 0)) ''plan_sha256'' = JStr (digest (execution_plan_json run_plan))" by (simp add: run_settled_def run_receipt_def)
  have r: "terminal_replay run_plan None (run_settled [7]) (run_settled [7] ! Suc 0) = Inr \<lparr>er_status = ''budget_exhausted'', er_receipts = run_settled [7], er_evidence = [], er_replayed = True\<rparr>"
    by (simp add: terminal_replay_def violation_unless_def st w plan_sha256_def content_sha256_eq run_plan_finite t(4))
  have "execute run_adapters run_plan run_authorization None ?s
      = (?s, Inr \<lparr>er_status = ''budget_exhausted'', er_receipts = run_settled [7], er_evidence = [], er_replayed = True\<rparr>)"
    by (simp add: execute_def f st Let_def obind_Inr [where m = "check_admission run_adapters run_plan run_authorization" and s = ?s, OF run_admitted]
        check_prediction_def r)
  moreover have "pl_plan_id run_plan = ''plan''" by (simp add: run_plan_def)
  ultimately show ?thesis
    using terminal_plan_settled [OF l t(1-3), of "[]" run_plan run_adapters run_authorization None] t(4)
    by (simp add: run_state_def calls_for_def)
qed

text \<open>C27: Every call of an adapter is admitted and grounded: an execution calls adapters only for its own plan and under an
  authorization that allows it; the model on a stored workspace of this very plan, after the given prediction is stored; the
  evaluator only when also a model receipt, the trace of that model receipt and a cost within the plan's limit are stored.\<close>

theorem adapter_calls_grounded:
  assumes "execute ad p au pred s = (s', r)"
  shows "\<exists>cs. ex_calls s' = ex_calls s @ cs \<and> list_all (call_grounded p pred) cs
    \<and> (\<forall>(c, q, known) \<in> set cs. \<exists>rs. list_receipts (ex_store s') = Inr rs \<and> set known \<subseteq> set rs)
    \<and> (cs \<noteq> [] \<longrightarrow> pl_campaign_id p = au_campaign_id au \<and> ad_evaluator_id ad = tr_evaluator_id (pl_task p)
        \<and> (\<exists>now. assert_allows au (tr_cohort (pl_task p)) (el_max_cost_cny (pl_limits p)) 1 (ad_remote ad) now = Inr ()))"
  using assms
proof (cases rule: execute_cases)
  case (stays w)
  then show ?thesis by simp
next
  case (runs w old found)
  let ?s = "begin_with old (s\<lparr>ex_world := w\<rparr>)" and ?n = "length (ex_calls s)"
  have "calls_added (call_grounded p pred) ?s s'"
    by (rule cl.guarded_frames [OF stages_grounded runs(7)]) (use runs(6) by_kind_SomeD in \<open>auto simp: model_known_def\<close>)
  then obtain cs where cs: "ex_calls s' = ex_calls s @ cs" "list_all (call_grounded p pred) cs" by (auto simp: calls_added_def)
  obtain rs where "list_receipts (ex_store s) = Inr rs" "found = filter (\<lambda>r. rc_plan_id r = pl_plan_id p) rs"
    using runs(1) by (auto simp: receipts_for_def bind_eq_Inr)
  then have "known_stored ?n ?s" using runs(2) by (auto simp: known_stored_def)
  moreover have "known_stored ?n ?s \<longrightarrow> known_stored ?n s'" by (rule ks.guarded_frames [OF stages_known runs(7)])
  ultimately have "\<forall>(c, q, known) \<in> set cs. \<exists>rs. list_receipts (ex_store s') = Inr rs \<and> set known \<subseteq> set rs"
    using cs(1) by (auto simp: known_stored_def)
  moreover have "pl_campaign_id p = au_campaign_id au \<and> ad_evaluator_id ad = tr_evaluator_id (pl_task p)
        \<and> (\<exists>now. assert_allows au (tr_cohort (pl_task p)) (el_max_cost_cny (pl_limits p)) 1 (ad_remote ad) now = Inr ())"
    using runs(5) by (auto simp: check_admission_def obind_eq_Inr olift_eq_Inr violation_unless_eq_Inr)
  ultimately show ?thesis using cs by blast
qed

text \<open>The evaluator is called on the stored prefix and interrupted.\<close>

lemma adapter_calls_grounded_witness:
  "\<exists>b s' r. execute run_adapters run_plan run_authorization None (run_state b (run_prefix b)) = (s', r)
     \<and> ex_calls s' = [(Evaluate, run_plan, run_prefix b)] \<and> call_grounded run_plan None (Evaluate, run_plan, run_prefix b)
     \<and> (\<exists>rs. list_receipts (ex_store s') = Inr rs \<and> set (run_prefix b) \<subseteq> set rs)"
proof -
  let ?d = "fmap_of_list [(''status'', JStr ''partial''), (''reason'', JStr ''stop''), (''retryable'', JBool True)]"
  define b where b: "b = utf8 (json_text (JObj ?d))"
  let ?s = "run_state b (run_prefix b)" and ?old = "run_prefix b"
  let ?u = "begin_with ?old ?s" and ?v = "(begin_with ?old ?s)\<lparr>ex_calls := [(Evaluate, run_plan, ?old)]\<rparr>"
  have f: "finite_json (JObj ?d)" by (rule finite_fields) simp
  have i: "fmlookup (pl_metadata run_plan) ''execution_mode'' = None" "pl_plan_id run_plan = ''plan''" by (simp_all add: run_plan_def)
  have k: "by_kind ''workspace'' ?old = Some (?old ! 0)" "by_kind ''model'' ?old = Some (?old ! 1)" "by_kind ''external_trace'' ?old = Some (?old ! 2)"
    "by_kind ''internal_trace'' ?old = None" "by_kind ''cost'' ?old = Some (?old ! 3)" "by_kind ''native_evaluation'' ?old = None"
    "by_kind ''execution_terminal'' ?old = None" "by_kind ''mechanism_prediction'' ?old = None"
    by (simp_all add: run_prefix_def run_receipt_def by_kind_def)
  have h: "get (rc_payload (?old ! 0)) ''plan_sha256'' = JStr (digest (execution_plan_json run_plan))"
    "get (rc_payload (?old ! 2)) ''model_receipt_id'' = JStr (rc_receipt_id (?old ! 1))" "get (rc_payload (?old ! 1)) ''internal_trace'' = JNull"
    "over_limit run_plan (?old ! 3) = Inr False"
    by (simp_all add: run_prefix_def run_receipt_def get_def over_limit_def the_item_def run_plan_def)
  have e: "native_stage run_adapters run_plan ?old ws m ?u = (?v, Inl (Err ExecutionInterrupted ''stop''))" for ws m
    by (simp add: native_stage_def k calling_def run_adapters_def on_world_def obind_def olift_def omodify_def raise_def run_state_def)
  have "execute_stages run_adapters run_plan None ?old ?u = (?v, Inl (Err ExecutionInterrupted ''stop''))"
    by (subst resume_after_cost [OF k(1) h(1) run_plan_finite _ k(3) h(2) k(4) h(3) k(5) h(4) i(1)])
      (simp_all add: k(2) obind_Inl [where m = "native_stage run_adapters run_plan ?old (?old ! 0) (?old ! Suc 0)" and s = ?u, OF e])
  then have g: "execute_guarded run_adapters run_plan None ?old ?u = interrupted run_adapters run_plan ''stop'' ?v" by (simp add: execute_guarded_def)
  obtain s' z where z: "append_control run_adapters run_plan ''execution_partial'' ?d ?v = (s', Inr z)" "ex_calls s' = ex_calls ?v"
    using run_append [OF b f, of "''execution_partial''" ?old ?v] by (auto simp: run_state_def blank_def is_space_def run_prefix_def run_receipt_def)
  obtain r where run: "execute run_adapters run_plan run_authorization None ?s = (s', r)"
    using z(1) by (simp add: execute_def i(2) run_state_def run_prefix_facts Let_def k check_prediction_def interrupted_def finish_with_def
      obind_Inr [where m = "check_admission run_adapters run_plan run_authorization" and s = ?s, OF run_admitted, unfolded run_state_def]
      g [unfolded run_state_def] obind_def [of "append_control _ _ _ _"])
  have "ex_calls s' = [(Evaluate, run_plan, ?old)]" using z(2) by simp
  with run adapter_calls_grounded [OF run] show ?thesis by (intro exI [of _ b] exI [of _ s'] exI [of _ r]) (auto simp: run_state_def)
qed

text \<open>C29: A resumed execution forgets an evaluator failure: when the store of a plan holds its workspace, model, trace and cost
  receipts and a native evaluation with an evaluator error, but no terminal receipt yet (as a stop between the two appends
  of the failure leaves it), executing the plan again calls no adapter, observes nothing, and ends as completed as soon as the store takes the terminal receipt.\<close>

theorem evaluator_failure_forgotten:
  assumes "receipts_for (pl_plan_id p) (ex_store s) = Inr found" and "check_singletons found = Inr ()"
    and "check_admission ad p au s = (s\<lparr>ex_world := w\<rparr>, Inr ())"
    and "{ws, m, t, c, n} \<subseteq> set found" and "map rc_kind [ws, m, t, c, n] = [''workspace'', ''model'', ''external_trace'', ''cost'', ''native_evaluation'']"
    and "\<forall>r \<in> set found. rc_kind r \<notin> {''execution_terminal'', ''mechanism_prediction'', ''internal_trace''}"
    and "get (rc_payload ws) ''plan_sha256'' = JStr (digest (execution_plan_json p))" and "finite_json (execution_plan_json p)"
    and "get (rc_payload t) ''model_receipt_id'' = JStr (rc_receipt_id m)" and "get (rc_payload m) ''internal_trace'' = JNull"
    and "over_limit p c = Inr False" and "fmlookup (pl_metadata p) ''execution_mode'' = None"
    and "get (rc_payload n) ''evaluator_error'' \<noteq> JNull"
    and "append_control ad p ''execution_terminal'' (status_payload ''completed'') (begin_with (sort_key rc_sequence found) (s\<lparr>ex_world := w\<rparr>)) = (s', Inr z)"
  shows "ex_calls s' = ex_calls s \<and> ex_graph s' = ex_graph s \<and> execute ad p au None s
    = (s', Inr \<lparr>er_status = ''completed'', er_receipts = sort_key rc_sequence found @ [z], er_evidence = [], er_replayed = False\<rparr>)"
proof -
  let ?old = "sort_key rc_sequence found"
  let ?s = "begin_with ?old (s\<lparr>ex_world := w\<rparr>)"
  have k: "by_kind (rc_kind r) ?old = Some r" if "r \<in> {ws, m, t, c, n}" for r
    by (rule singleton_kind) (use assms(2,4,5) that in \<open>auto simp: check_singletons_sort singleton_kinds_def\<close>)
  have none: "by_kind x ?old = None" if "x \<in> {''execution_terminal'', ''mechanism_prediction'', ''internal_trace''}" for x
    using assms(6) that by (fastforce simp: by_kind_None)
  have b: "by_kind ''workspace'' ?old = Some ws" "by_kind ''model'' ?old = Some m" "by_kind ''external_trace'' ?old = Some t"
    "by_kind ''cost'' ?old = Some c" "by_kind ''native_evaluation'' ?old = Some n"
    using k [of ws] k [of m] k [of t] k [of c] k [of n] assms(5) by simp_all
  have "execute_stages ad p None ?old ?s = terminate ad p (status_payload ''completed'') ''completed'' ?s"
    by (subst resume_after_cost [OF b(1) assms(7,8) _ b(3) assms(9) _ assms(10) b(4) assms(11,12)])
      (simp_all add: b(2) none native_stage_def b(5))
  moreover have "terminate ad p (status_payload ''completed'') ''completed'' ?s
      = (s', Inr \<lparr>er_status = ''completed'', er_receipts = ?old @ [z], er_evidence = [], er_replayed = False\<rparr>)"
    using append_control_rest [OF assms(14)] by (simp add: terminate_def finish_with_def
      obind_Inr [where m = "append_control ad p ''execution_terminal'' (status_payload ''completed'')" and s = ?s, OF assms(14)])
  ultimately have "execute_guarded ad p None ?old ?s
      = (s', Inr \<lparr>er_status = ''completed'', er_receipts = ?old @ [z], er_evidence = [], er_replayed = False\<rparr>)"
    by (simp add: execute_guarded_def)
  then have "execute ad p au None s = (s', Inr \<lparr>er_status = ''completed'', er_receipts = ?old @ [z], er_evidence = [], er_replayed = False\<rparr>)"
    using assms(1,2) none
    by (simp add: execute_def Let_def check_singletons_sort obind_Inr [where m = "check_admission ad p au" and s = s, OF assms(3)] check_prediction_def)
  then show ?thesis using append_control_rest [OF assms(14)] by simp
qed

lemma evaluator_failure_forgotten_witness:
  "\<exists>b s' v. execute run_adapters run_plan run_authorization None (run_state b (run_prefix b @ [run_failed b])) = (s', Inr v)
     \<and> er_status v = ''completed'' \<and> ex_calls s' = []"
proof -
  define b where b: "b = utf8 (json_text (JObj (status_payload ''completed'')))"
  let ?rs = "run_prefix b @ [run_failed b]"
  let ?s = "run_state b ?rs" and ?ws = "run_prefix b ! 0" and ?m = "run_prefix b ! 1" and ?t = "run_prefix b ! 2" and ?c = "run_prefix b ! 3"
  let ?u = "begin_with (sort_key rc_sequence ?rs) (?s\<lparr>ex_world := ()\<rparr>)"
  have f: "finite_json (JObj (status_payload ''completed''))" unfolding status_payload_def by (rule finite_fields) simp
  obtain s' z where z: "append_control run_adapters run_plan ''execution_terminal'' (status_payload ''completed'') ?u = (s', Inr z)"
    using run_append [OF b f, of "''execution_terminal''" ?rs ?u] by (auto simp: run_state_def blank_def is_space_def run_prefix_facts run_prefix_def run_failed_def run_receipt_def)
  have i: "pl_plan_id run_plan = ''plan''" "fmlookup (pl_metadata run_plan) ''execution_mode'' = None" by (simp_all add: run_plan_def)
  have h1: "receipts_for (pl_plan_id run_plan) (ex_store ?s) = Inr ?rs" by (simp add: i run_state_def run_prefix_facts)
  have h3: "check_admission run_adapters run_plan run_authorization ?s = (?s\<lparr>ex_world := ()\<rparr>, Inr ())" by (simp add: run_admitted)
  have h4: "{?ws, ?m, ?t, ?c, run_failed b} \<subseteq> set ?rs" by (simp add: run_prefix_def)
  have h5: "map rc_kind [?ws, ?m, ?t, ?c, run_failed b] = [''workspace'', ''model'', ''external_trace'', ''cost'', ''native_evaluation'']"
    "\<forall>r \<in> set ?rs. rc_kind r \<notin> {''execution_terminal'', ''mechanism_prediction'', ''internal_trace''}"
    "get (rc_payload ?t) ''model_receipt_id'' = JStr (rc_receipt_id ?m)" "get (rc_payload ?m) ''internal_trace'' = JNull"
    "get (rc_payload (run_failed b)) ''evaluator_error'' \<noteq> JNull"
    by (simp_all add: run_prefix_def run_failed_def run_receipt_def get_def)
  have h7: "get (rc_payload ?ws) ''plan_sha256'' = JStr (digest (execution_plan_json run_plan))" by (simp add: run_prefix_def run_receipt_def)
  have h11: "over_limit run_plan ?c = Inr False" by (simp add: over_limit_def run_prefix_def run_receipt_def the_item_def run_plan_def)
  note evaluator_failure_forgotten [OF h1 run_prefix_facts(6) h3 h4 h5(1,2) h7 run_plan_finite h5(3,4) h11 i(2) h5(5) z]
  then show ?thesis by (intro exI [of _ b] exI [of _ s']) (auto simp: run_state_def)
qed

end
