(* ===== verification/Runner_Facts.thy ===== *)
theory Runner_Facts
  imports Campaign_Runner Execution_Facts
begin

text \<open>
  Facts about a campaign run: the two loops are one loop over the plans, what each plan keeps the loop
  keeps, and the contract of a runtime that replays what it has settled.
\<close>

section \<open>The controller under a runner\<close>

lemma item_get_put: "item_get i (c\<lparr>cc_budget := b, cc_items := item_put w ws\<rparr>)
    = (if i = wi_plan_id w then Some w else find (\<lambda>x. wi_plan_id x = i) ws)"
proof (cases "find (\<lambda>x. wi_plan_id x = wi_plan_id w) ws")
  case None
  have "find P (xs @ [w]) = (case find P xs of None \<Rightarrow> if P w then Some w else None | Some x \<Rightarrow> Some x)" for P xs
    by (induction xs) auto
  then show ?thesis using None by (auto simp: item_get_def item_put_def split: option.split)
next
  case (Some z)
  have "find (\<lambda>x. wi_plan_id x = i) (map (\<lambda>x. if wi_plan_id x = wi_plan_id w then w else x) ws)
      = (if i = wi_plan_id w then (if \<exists>x \<in> set ws. wi_plan_id x = i then Some w else None) else find (\<lambda>x. wi_plan_id x = i) ws)"
    by (induction ws) auto
  moreover have "z \<in> set ws" "wi_plan_id z = wi_plan_id w" using find_SomeD [OF Some] by auto
  ultimately show ?thesis using Some by (auto simp: item_get_def item_put_def)
qed

lemma submit_admits:
  assumes "campaign_submit p n remote (c, d) = ((c', d'), Inr b)"
  shows "cc_status c' = RUNNING \<and> (\<exists>w. item_get (pl_plan_id p) c' = Some w \<and> plan_sha256 p = Inr (wi_plan_sha256 w))"
proof -
  have run: "require_running c = Inr ()" using assms by (cases "require_running c") (simp_all add: campaign_submit_def)
  show ?thesis
  proof (cases "item_get (pl_plan_id p) c")
    case (Some w)
    have "pl_campaign_id p = cc_campaign_id c" using assms run by (auto simp: campaign_submit_def violation_unless_def require_def split: if_splits)
    with assms run Some show ?thesis
      by (cases "plan_sha256 p") (auto simp: campaign_submit_def violation_unless_def require_def obind_olift require_running_eq split: if_splits)
  next
    case None
    obtain h where h: "plan_sha256 p = Inr h" "c' = c\<lparr>cc_budget := cc_budget c', cc_items := item_put (pending_item p h n) (cc_items c)\<rparr>"
    proof (rule that)
      have save: "obind campaign_save (\<lambda>_. oreturn True) (x, d) = ((c', d'), Inr b) \<Longrightarrow> c' = x" for x
        by (erule obind_save_fst) simp
      note a = assms [unfolded campaign_submit_def, simplified run None ctl_read_apply sum.case option.case]
      show "plan_sha256 p = Inr (projr (plan_sha256 p))" and "c' = c\<lparr>cc_budget := cc_budget c', cc_items := item_put (pending_item p (projr (plan_sha256 p)) n) (cc_items c)\<rparr>"
        using a by (cases "plan_sha256 p"; auto split: sum.splits dest!: save)+
    qed
    from run have "cc_status c' = RUNNING" by (subst h(2)) (simp add: require_running_eq)
    moreover have "item_get (pl_plan_id p) c' = Some (pending_item p h n)" by (subst h(2)) (simp add: item_get_put pending_item_def)
    ultimately show ?thesis using h(1) by (simp add: pending_item_def)
  qed
qed

text \<open>What a runner's calls of the controller leave as it is: its identity and the plans it knows.\<close>

definition controller_kept :: "campaign \<Rightarrow> campaign \<Rightarrow> bool" where
  "controller_kept c c' \<longleftrightarrow> cc_campaign_id c' = cc_campaign_id c \<and> cc_authorization c' = cc_authorization c
     \<and> wi_plan_id ` set (cc_items c) \<subseteq> wi_plan_id ` set (cc_items c')
     \<and> (cc_status c = RUNNING \<longrightarrow> cc_status c' = RUNNING)"

lemma controller_kept_refl: "controller_kept c c"
  by (simp add: controller_kept_def)

lemma controller_kept_trans: "controller_kept a b \<Longrightarrow> controller_kept b c \<Longrightarrow> controller_kept a c"
  by (auto simp: controller_kept_def)

lemma item_put_ids: "wi_plan_id ` set (item_put w ws) = insert (wi_plan_id w) (wi_plan_id ` set ws)"
  by (auto simp: item_put_def find_None_iff find_Some_iff image_iff split: if_splits) (metis+)?

lemma submit_keeps:
  assumes "campaign_submit p n remote (c, d) = ((c', d'), r)"
  shows "controller_kept c c'"
  using campaign_submit_cases [OF assms] by (auto simp: controller_kept_def item_put_ids)

lemma record_keeps:
  assumes "campaign_record i cost n ok (c, d) = ((c', d'), r)"
  shows "controller_kept c c'"
  using campaign_record_cases [OF assms] by (auto simp: controller_kept_def item_put_ids)

section \<open>One loop\<close>

lemma run_plans_append: "run_plans rt spec replay (ps @ qs) s
    = obind (run_plans rt spec replay ps) (\<lambda>(es, f). if f \<noteq> None then oreturn (es, f)
        else obind (run_plans rt spec replay qs) (\<lambda>(es', f'). oreturn (es @ es', f'))) s"
proof (induction ps arbitrary: s)
  case Nil
  then show ?case by (auto simp: obind_def split: prod.splits sum.splits)
next
  case (Cons p ps)
  then show ?case by (auto simp: obind_def split: prod.splits sum.splits)
qed

lemma run_contexts_flat: "run_plans rt spec replay (concat pss) s
    = obind (run_contexts rt spec replay pss) (\<lambda>(ess, f). oreturn (concat ess, f)) s"
proof (induction pss arbitrary: s)
  case (Cons ps pss)
  have e: "concat (map (\<lambda>_. []) pss) = []" by simp
  from Cons show ?case by (simp add: run_plans_append) (auto simp: obind_def e split: prod.splits sum.splits)
qed simp

lemma run_contexts_length: "run_contexts rt spec replay pss s = (s', Inr (ess, f)) \<Longrightarrow> length ess = length pss"
  by (induction pss arbitrary: s ess) (auto simp: obind_eq_Inr split: if_splits prod.splits)

section \<open>What every plan keeps\<close>

locale runner_frame =
  fixes R :: "'w runner \<Rightarrow> 'w runner \<Rightarrow> bool" and rt :: "'w runtime_entry" and spec :: campaign_spec and replay :: bool and ok :: "execution_plan \<Rightarrow> bool"
  assumes same: "R s s" and chain: "R s t \<Longrightarrow> R t u \<Longrightarrow> R s u"
    and one: "ok p \<Longrightarrow> run_one rt spec replay p s = (s', r) \<Longrightarrow> R s s'"
begin

lemma plans: "run_plans rt spec replay ps s = (s', r) \<Longrightarrow> list_all ok ps \<Longrightarrow> R s s'"
proof (induction ps arbitrary: s s' r)
  case Nil
  then show ?case by (simp add: same)
next
  case (Cons p ps)
  obtain t q where t: "run_one rt spec replay p s = (t, q)" by fastforce
  have st: "R s t" using one [OF _ t] Cons.prems(2) by simp
  show ?case
  proof (cases "\<exists>e. q = Inr e \<and> er_status e = ''completed''")
    case True
    then obtain e where q: "q = Inr e" "er_status e = ''completed''" by blast
    obtain u z where u: "run_plans rt spec replay ps t = (u, z)" by fastforce
    have "s' = u" using Cons.prems(1) t q u by (auto simp: obind_def split: sum.splits)
    with Cons.IH [OF u] Cons.prems(2) chain [OF st] show ?thesis by simp
  next
    case False
    then have "s' = t" using Cons.prems(1) t by (auto simp: obind_def split: sum.splits if_splits)
    with st show ?thesis by simp
  qed
qed

lemma contexts: "run_contexts rt spec replay pss s = (s', r) \<Longrightarrow> list_all ok (concat pss) \<Longrightarrow> R s s'"
proof -
  assume a: "run_contexts rt spec replay pss s = (s', r)" "list_all ok (concat pss)"
  have "\<exists>z. run_plans rt spec replay (concat pss) s = (s', z)"
    using a(1) by (simp add: run_contexts_flat obind_def split: sum.split prod.split)
  with plans a(2) show ?thesis by blast
qed

end

text \<open>The steps of one plan: handing it to the runtime, and the controller before and after.\<close>

lemma on_controller_apply: "on_controller m s = (s\<lparr>rn_controller := fst (m (rn_controller s))\<rparr>, snd (m (rn_controller s)))"
  by (simp add: on_controller_def split: prod.split)

lemma submit_plan_submits:
  assumes "submit_plan rt p s = (t, Inr u)"
  shows "\<exists>n b. campaign_submit p n (rt_remote rt) (rn_controller s) = (rn_controller t, Inr b)"
  using assms by (auto simp: submit_plan_def obind_eq_Inr olift_eq_Inr on_controller_apply) (metis prod.collapse)

lemma run_one_started:
  fixes s :: "'a runner"
  shows "rn_started (fst (run_one rt spec replay p s)) = rn_started s
    \<or> (\<exists>c. rn_started (fst (run_one rt spec replay p s)) = rn_started s @ [(p, c)]
        \<and> (replay \<and> c = controller s \<or> \<not> replay \<and> cc_status c = RUNNING
            \<and> (\<exists>w. item_get (pl_plan_id p) c = Some w \<and> plan_sha256 p = Inr (wi_plan_sha256 w))))"
proof -
  have st: "rn_started (fst (on_controller m t)) = rn_started t" for m :: "(campaign_world, 'b) op" and t :: "'a runner"
    by (simp add: on_controller_def split: prod.split)
  have rec: "rn_started (fst (record_plan p e t)) = rn_started t" for e and t :: "'a runner"
    by (cases "execution_cost e") (simp_all add: record_plan_def st)
  have go: "rn_started (fst (starting rt spec p t)) = rn_started t @ [(p, controller t)]" for t
    by (simp add: starting_def on_runtime_def split: prod.split)
  have obind_fst: "fst (obind m (\<lambda>_. oreturn e) t) = fst (m t)" for m :: "('a runner, unit) op" and e :: execution_result and t
    by (simp add: obind_def split: prod.split sum.split)
  have fin: "rn_started (fst (obind (starting rt spec p) (\<lambda>e. obind (if replay then oreturn () else record_plan p e) (\<lambda>_. oreturn e)) t))
      = rn_started t @ [(p, controller t)]" for t
    using go [of t] rec by (cases "starting rt spec p t") (auto simp: obind_def [of "starting rt spec p"] obind_fst split: sum.splits)
  show ?thesis
  proof (cases replay)
    case True
    then show ?thesis using fin [of s] by (simp add: run_one_def)
  next
    case False
    obtain t q where t: "submit_plan rt p s = (t, q)" by fastforce
    have t0: "rn_started t = rn_started s"
      using t by (auto simp: submit_plan_def obind_olift on_controller_apply obind_def [of "on_controller _"] split: sum.splits)
    show ?thesis
    proof (cases q)
      case (Inl e)
      with t t0 False show ?thesis by (simp add: run_one_def obind_def)
    next
      case (Inr u)
      with t obtain n b where n: "campaign_submit p n (rt_remote rt) (rn_controller s) = (rn_controller t, Inr b)"
      using submit_plan_submits by blast
      obtain c d c' d' where cd: "rn_controller s = (c, d)" "rn_controller t = (c', d')" by fastforce
      have "run_one rt spec replay p s = obind (starting rt spec p) (\<lambda>e. obind (if replay then oreturn () else record_plan p e) (\<lambda>_. oreturn e)) t"
        using False by (simp add: run_one_def obind_Inr [where m = "submit_plan rt p" and s = s, OF t [unfolded Inr]])
      then show ?thesis using fin [of t] t0 submit_admits [OF n [unfolded cd]] False by (auto simp: controller_def cd)
    qed
  qed
qed

definition started_adds :: "(execution_plan \<times> campaign \<Rightarrow> bool) \<Rightarrow> 'w runner \<Rightarrow> 'w runner \<Rightarrow> bool" where
  "started_adds P s s' \<longleftrightarrow> (\<exists>xs. rn_started s' = rn_started s @ xs \<and> list_all P xs)"

text \<open>The plans of a loop are handed over as the controller admitted them.\<close>

definition admitted :: "execution_plan list \<Rightarrow> execution_plan \<times> campaign \<Rightarrow> bool" where
  "admitted ps x \<longleftrightarrow> (case x of (p, c) \<Rightarrow> p \<in> set ps \<and> cc_status c = RUNNING
     \<and> (\<exists>w. item_get (pl_plan_id p) c = Some w \<and> plan_sha256 p = Inr (wi_plan_sha256 w)))"

interpretation ad: runner_frame "started_adds (admitted ps)" rt spec False "\<lambda>p. p \<in> set ps" for rt spec ps
proof unfold_locales
  fix p :: execution_plan and s s' :: "'a runner" and r
  assume "p \<in> set ps" and "run_one rt spec False p s = (s', r)"
  then show "started_adds (admitted ps) s s'"
    using run_one_started [of rt spec False p s] by (auto simp: started_adds_def admitted_def)
qed (fastforce simp: started_adds_def)+

lemma run_one_replay: "rn_controller (fst (run_one rt spec True p s)) = rn_controller s"
  by (simp add: run_one_def starting_def on_runtime_def obind_def split: prod.split sum.split)

text \<open>A replay leaves the controller alone and hands over the plans with it.\<close>

definition replayed :: "execution_plan list \<Rightarrow> 'w runner \<Rightarrow> 'w runner \<Rightarrow> bool" where
  "replayed ps s s' \<longleftrightarrow> rn_controller s' = rn_controller s \<and> started_adds (\<lambda>(p, c). p \<in> set ps \<and> c = controller s) s s'"

interpretation rp: runner_frame "replayed ps" rt spec True "\<lambda>p. p \<in> set ps" for rt spec ps
proof unfold_locales
  fix p :: execution_plan and s s' :: "'a runner" and r
  assume "p \<in> set ps" and "run_one rt spec True p s = (s', r)"
  then show "replayed ps s s'"
    using run_one_started [of rt spec True p s] run_one_replay [of rt spec p s] by (auto simp: replayed_def started_adds_def)
qed (fastforce simp: replayed_def started_adds_def controller_def)+

section \<open>The controller over the loop\<close>

lemma submit_plan_keeps: "submit_plan rt p s = (s', r) \<Longrightarrow> controller_kept (controller s) (controller s')"
  by (cases "rn_controller s"; cases "campaign_submit p (projr (reserved_model_calls rt p)) (rt_remote rt) (rn_controller s)")
    (auto simp: submit_plan_def obind_olift on_controller_apply obind_def [of "on_controller _"] controller_def controller_kept_refl
      split: sum.splits dest: submit_keeps)

lemma record_plan_keeps: "record_plan p e s = (s', r) \<Longrightarrow> controller_kept (controller s) (controller s')"
  by (cases "rn_controller s"; cases "campaign_record (pl_plan_id p) (projr (execution_cost e)) (execution_model_calls e) (er_status e = ''completed'') (rn_controller s)")
    (auto simp: record_plan_def obind_olift on_controller_apply controller_def controller_kept_refl split: sum.splits dest: record_keeps)

lemma starting_controller: "rn_controller (fst (starting rt spec p s)) = rn_controller s"
  by (simp add: starting_def on_runtime_def split: prod.split)

lemma run_one_keeps: "run_one rt spec False p s = (s', r) \<Longrightarrow> controller_kept (controller s) (controller s')"
proof -
  assume run: "run_one rt spec False p s = (s', r)"
  obtain t q where t: "submit_plan rt p s = (t, q)" by fastforce
  note k = submit_plan_keeps [OF t]
  show ?thesis
  proof (cases q)
    case (Inl e)
    with run t k show ?thesis by (simp add: run_one_def obind_def)
  next
    case (Inr x)
    obtain u z where u: "starting rt spec p t = (u, z)" by fastforce
    then have cu: "controller u = controller t" using starting_controller [of rt spec p t] by (simp add: controller_def)
    show ?thesis
    proof (cases z)
      case (Inl e)
      with run t u k cu Inr show ?thesis by (simp add: run_one_def obind_def)
    next
      case z: (Inr e)
      obtain v y where v: "record_plan p e u = (v, y)" by fastforce
      have "s' = v" using run t u v Inr z by (auto simp: run_one_def obind_def split: sum.splits)
      with k cu record_plan_keeps [OF v] show ?thesis by (auto intro: controller_kept_trans)
    qed
  qed
qed

interpretation ck: runner_frame "\<lambda>s s'. controller_kept (controller s) (controller s')" rt spec False "\<lambda>_. True" for rt spec
  by unfold_locales (auto intro: controller_kept_refl controller_kept_trans run_one_keeps)

lemma run_one_known:
  assumes "run_one rt spec False p s = (s', Inr e)"
  shows "pl_plan_id p \<in> wi_plan_id ` set (cc_items (controller s'))"
proof -
  from assms obtain t u where t: "submit_plan rt p s = (t, Inr ())" "starting rt spec p t = (u, Inr e)" "record_plan p e u = (s', Inr ())"
    by (auto simp: run_one_def obind_eq_Inr)
  from t(1) obtain n b where n: "campaign_submit p n (rt_remote rt) (rn_controller s) = (rn_controller t, Inr b)"
      using submit_plan_submits by blast
  obtain c d c' d' where cd: "rn_controller s = (c, d)" "rn_controller t = (c', d')" by fastforce
  obtain w where "item_get (pl_plan_id p) c' = Some w" using submit_admits [OF n [unfolded cd]] by blast
  then have "pl_plan_id p \<in> wi_plan_id ` set (cc_items (controller t))"
    unfolding item_get_def by (auto simp: controller_def cd dest!: find_SomeD intro: rev_image_eqI)
  moreover have "controller u = controller t" using starting_controller [of rt spec p t] t(2) by (simp add: controller_def)
  ultimately show ?thesis using record_plan_keeps [OF t(3)] by (auto simp: controller_kept_def)
qed

section \<open>How the loop ends\<close>

definition completed :: "execution_result \<Rightarrow> bool" where
  "completed e \<longleftrightarrow> er_status e = ''completed''"

definition loop_outcome :: "execution_plan list \<Rightarrow> execution_result list \<Rightarrow> string option \<Rightarrow> bool" where
  "loop_outcome ps es f \<longleftrightarrow> (case f of None \<Rightarrow> length es = length ps \<and> list_all completed es
     | Some m \<Rightarrow> \<exists>k < length ps. length es = Suc k \<and> list_all completed (take k es) \<and> \<not> completed (es ! k) \<and> m = failure_reason (ps ! k) (es ! k))"

lemma loop_outcome_Cons: "completed e \<Longrightarrow> loop_outcome ps es f \<Longrightarrow> loop_outcome (p # ps) (e # es) f"
  by (cases f) (auto simp: loop_outcome_def intro!: exI [of _ "Suc _"])

lemma run_plans_outcome: "run_plans rt spec replay ps s = (s', Inr (es, f)) \<Longrightarrow> loop_outcome ps es f"
proof (induction ps arbitrary: s es)
  case (Cons p ps)
  from Cons.prems obtain t e where t: "run_one rt spec replay p s = (t, Inr e)" by (auto simp: obind_eq_Inr)
  show ?case
  proof (cases "completed e")
    case True
    with Cons.prems t obtain es' where "run_plans rt spec replay ps t = (s', Inr (es', f))" "es = e # es'"
      by (auto simp: completed_def obind_eq_Inr)
    with Cons.IH True show ?thesis by (simp add: loop_outcome_Cons)
  next
    case False
    with Cons.prems t show ?thesis by (auto simp: completed_def obind_eq_Inr loop_outcome_def)
  qed
qed (simp add: loop_outcome_def)

lemma run_one_handed: "run_one rt spec replay p s = (s', Inr e) \<Longrightarrow> map fst (rn_started s') = map fst (rn_started s) @ [p]"
proof -
  assume r: "run_one rt spec replay p s = (s', Inr e)"
  have "rn_started (fst (on_controller m t)) = rn_started t" for m :: "(campaign_world, 'b) op" and t :: "'a runner" by (simp add: on_controller_apply)
  then have c: "rn_started t' = rn_started t" if "on_controller m t = (t', q)" for m :: "(campaign_world, 'b) op" and t t' :: "'a runner" and q
    using that by (metis fst_conv)
  from r obtain t u where "(if replay then oreturn () else submit_plan rt p) s = (t, Inr ())" "starting rt spec p t = (u, Inr e)"
    "(if replay then oreturn () else record_plan p e) u = (s', Inr ())"
    by (auto simp: run_one_def obind_eq_Inr)
  moreover from this(1) have "rn_started t = rn_started s" by (auto simp: submit_plan_def obind_eq_Inr olift_eq_Inr dest: c split: if_splits)
  moreover from calculation(3) have "rn_started s' = rn_started u" by (auto simp: record_plan_def obind_eq_Inr olift_eq_Inr dest: c split: if_splits)
  moreover from calculation(2) have "rn_started u = rn_started t @ [(p, controller t)]" by (auto simp: starting_def on_runtime_def split: prod.splits)
  ultimately show ?thesis by simp
qed

lemma run_plans_handed: "run_plans rt spec replay ps s = (s', Inr (es, f)) \<Longrightarrow>
    map fst (rn_started s') = map fst (rn_started s) @ take (length es) ps"
proof (induction ps arbitrary: s es)
  case (Cons p ps)
  from Cons.prems obtain t e where t: "run_one rt spec replay p s = (t, Inr e)" by (auto simp: obind_eq_Inr)
  note h = run_one_handed [OF t]
  show ?case
  proof (cases "completed e")
    case True
    with Cons.prems t obtain es' where "run_plans rt spec replay ps t = (s', Inr (es', f))" "es = e # es'"
      by (auto simp: completed_def obind_eq_Inr)
    with Cons.IH h show ?thesis by simp
  next
    case False
    with Cons.prems t h show ?thesis by (auto simp: completed_def obind_eq_Inr)
  qed
qed simp

lemma run_plans_known: "run_plans rt spec False ps s = (s', Inr (es, f)) \<Longrightarrow> p \<in> set (take (length es) ps)
    \<Longrightarrow> pl_plan_id p \<in> wi_plan_id ` set (cc_items (controller s'))"
proof (induction ps arbitrary: s es)
  case (Cons q ps)
  from Cons.prems obtain t e where t: "run_one rt spec False q s = (t, Inr e)" by (auto simp: obind_eq_Inr)
  note k = run_one_known [OF t]
  show ?case
  proof (cases "completed e")
    case True
    with Cons.prems t obtain es' where r: "run_plans rt spec False ps t = (s', Inr (es', f))" "es = e # es'"
      by (auto simp: completed_def obind_eq_Inr)
    have "controller_kept (controller t) (controller s')" by (rule ck.plans [OF r(1)]) (simp add: list_all_iff)
    with Cons.IH [OF r(1)] Cons.prems(2) r(2) k show ?thesis by (auto simp: controller_kept_def)
  next
    case False
    with Cons.prems t k show ?thesis by (auto simp: completed_def obind_eq_Inr)
  qed
qed simp

end
