(* ===== verification/Runner_Claims.thy ===== *)
theory Runner_Claims
  imports Campaign_Runner Execution_Claims Runner_Facts
begin

text \<open>One campaign of one plan, over the execution runtime.\<close>

section \<open>A plan that ended\<close>

definition ended_receipts :: "nat list \<Rightarrow> string \<Rightarrow> pyfloat \<Rightarrow> receipt list" where
  "ended_receipts b st x = [run_receipt b ''r1'' 1 ''workspace'' (fmap_of_list [(''plan_sha256'', JStr (digest (execution_plan_json run_plan)))]),
     run_receipt b ''r2'' 2 ''execution_terminal'' (fmap_of_list [(''status'', JStr st)]),
     run_receipt b ''r3'' 3 ''cost'' (fmap_of_list [(''cost_cny'', JFloat x)])]"

definition ended_result :: "nat list \<Rightarrow> string \<Rightarrow> pyfloat \<Rightarrow> execution_result" where
  "ended_result b st x = \<lparr>er_status = st, er_receipts = ended_receipts b st x, er_evidence = [], er_replayed = True\<rparr>"

lemma ended_list: "finite_float x \<Longrightarrow> list_receipts (packed_store b (ended_receipts b st x)) = Inr (ended_receipts b st x)"
proof (rule packed_list)
  assume "finite_float x"
  then show "list_all (packable b) (ended_receipts b st x)"
    by (simp add: ended_receipts_def run_packable blank_def is_space_def finite_fmupd)
  show "distinct (map rc_receipt_id (ended_receipts b st x))" by (simp add: ended_receipts_def run_receipt_def)
qed

lemma ended_facts:
  "sort_key rc_sequence (ended_receipts b st x) = ended_receipts b st x" "check_singletons (ended_receipts b st x) = Inr ()"
  "by_kind ''workspace'' (ended_receipts b st x) = Some (ended_receipts b st x ! 0)" "by_kind ''mechanism_prediction'' (ended_receipts b st x) = None"
  "by_kind ''execution_terminal'' (ended_receipts b st x) = Some (ended_receipts b st x ! Suc 0)"
  "get (rc_payload (ended_receipts b st x ! 0)) ''plan_sha256'' = JStr (digest (execution_plan_json run_plan))"
  "rc_payload (ended_receipts b st x ! Suc 0) = fmap_of_list [(''status'', JStr st)]"
  by (simp_all add: ended_receipts_def run_receipt_def check_singletons_def singleton_kinds_def violation_unless_def by_kind_def)

lemma ended_execute:
  assumes "finite_float x"
  shows "execute run_adapters run_plan run_authorization None (run_state b (ended_receipts b st x))
    = (run_state b (ended_receipts b st x), Inr (ended_result b st x))"
proof -
  let ?s = "run_state b (ended_receipts b st x)"
  have l: "list_receipts (ex_store ?s) = Inr (ended_receipts b st x)" by (simp add: run_state_def ended_list [OF assms])
  have f: "receipts_for (pl_plan_id run_plan) (ex_store ?s) = Inr (ended_receipts b st x)"
    by (simp add: receipts_for_eq [OF l] run_plan_def) (simp add: ended_receipts_def run_receipt_def)
  have r: "terminal_replay run_plan None (ended_receipts b st x) (ended_receipts b st x ! Suc 0) = Inr (ended_result b st x)"
    by (simp add: terminal_replay_def violation_unless_def ended_facts plan_sha256_def content_sha256_eq run_plan_finite ended_result_def)
  show ?thesis
    by (simp add: execute_def f ended_facts Let_def obind_Inr [where m = "check_admission run_adapters run_plan run_authorization" and s = ?s, OF run_admitted]
        check_prediction_def r olift_def)
qed

section \<open>Its campaign\<close>

definition run_context :: strategy_context where
  "run_context = \<lparr>sc_campaign_id = ''c'', sc_task = pl_task run_plan, sc_model = pl_model run_plan, sc_context_policy_id = ''x'',
     sc_tool_policy_id = ''y'', sc_observer_policy_ids = [''o''], sc_limits = pl_limits run_plan, sc_phase = BASELINE_ONLY, sc_inputs = fmempty\<rparr>"

definition run_spec :: campaign_spec where
  "run_spec = \<lparr>cs_campaign_id = ''c'', cs_contexts = [run_context], cs_authorization = run_authorization, cs_claims = [], cs_prediction = None\<rparr>"

definition run_strategy :: strategy where
  "run_strategy = \<lparr>sg_strategy_id = ''s'', sg_status = LIVE, sg_plan = \<lambda>_. Inr [run_plan], sg_interpret = skill_paired_interpret,
     sg_next_action = \<lambda>c cls. Inr (advisory_decision ''s'' LIVE ''await-authoritative-claims'' ''none'' cls)\<rparr>"

definition run_controller :: "campaign_status \<Rightarrow> string option \<Rightarrow> budget \<Rightarrow> work_item list \<Rightarrow> campaign" where
  "run_controller st m b ws = \<lparr>cc_campaign_id = ''c'', cc_authorization = run_authorization, cc_now = DT 0 True, cc_has_checkpoints = False,
     cc_status = st, cc_reason = m, cc_budget = b, cc_items = ws\<rparr>"

definition run_runner :: "string \<Rightarrow> pyfloat \<Rightarrow> campaign \<Rightarrow> unit execution runner" where
  "run_runner st x c = \<lparr>rn_world = run_state [7] (ended_receipts [7] st x), rn_controller = (c, fmempty), rn_started = []\<rparr>"

definition run_item :: work_item where
  "run_item = pending_item run_plan (digest (execution_plan_json run_plan)) 1"

definition run_budget :: "int \<Rightarrow> int \<Rightarrow> budget" where
  "run_budget reserved spent = \<lparr>bm_max_cost = Fin 0, bm_max_calls = 1, bm_reserved_cost = Fin 0, bm_reserved_calls = reserved, bm_spent_cost = Fin 0, bm_spent_calls = spent\<rparr>"

lemma zero_add: "fadd (Fin 0) (Fin 0) = Fin 0" "fsub (Fin 0) (Fin 0) = Fin 0" by code_simp+

lemma run_submitted: "campaign_submit run_plan 1 (Some False) (run_controller RUNNING None (run_budget 0 0) [], fmempty)
    = ((run_controller RUNNING None (run_budget 1 0) [run_item], fmempty), Inr True)"
proof -
  have a: "assert_allows run_authorization FEEDBACK fzero 0 False (DT 0 True) = Inr ()"
    by (simp add: assert_allows_def dt_le_def run_authorization_def violation_unless_def fzero_def)
  have b: "budget_reserve (el_max_cost_cny (pl_limits run_plan)) 1 (run_budget 0 0) = Inr (run_budget 1 0)"
    by (simp add: budget_reserve_def run_budget_def run_plan_def zero_add fzero_def)
  have c: "plan_sha256 run_plan = Inr (digest (execution_plan_json run_plan))" by (simp add: plan_sha256_def content_sha256_eq run_plan_finite)
  have k: "pl_campaign_id run_plan = ''c''" "tr_cohort (pl_task run_plan) = FEEDBACK" by (simp_all add: run_plan_def)
  show ?thesis
    by (simp add: campaign_submit_def run_controller_def require_running_def terminal_statuses_def violation_unless_def item_get_def a b c k remote_call_def
        item_put_def run_item_def campaign_save_def obind_def [of campaign_save])
qed

lemma run_recorded: "campaign_record ''plan'' (Fin 0) 0 True (run_controller RUNNING None (run_budget 1 0) [run_item], fmempty)
    = ((run_controller RUNNING None (run_budget 0 0) [run_item\<lparr>wi_status := ''completed'', wi_actual_cost := Some (Fin 0), wi_actual_calls := Some 0\<rparr>], fmempty), Inr ())"
  by (simp add: campaign_record_def run_controller_def require_running_def terminal_statuses_def violation_unless_def item_get_def run_item_def pending_item_def
      run_plan_def budget_record_def run_budget_def zero_add fzero_def item_put_def campaign_save_def done_status_def)

definition run_done :: campaign where
  "run_done = run_controller COMPLETED None (run_budget 0 0)
     [run_item\<lparr>wi_status := ''completed'', wi_actual_cost := Some (Fin 0), wi_actual_calls := Some 0\<rparr>]"

lemma run_interpreted: "skill_paired_interpret (InContext run_context (ended_receipts b st x)) =
    Inr \<lparr>sr_strategy_id = ''skill-paired-v3'', sr_campaign_id = ''c'', sr_receipt_ids = [''r1'', ''r2'', ''r3''],
      sr_observations = fmap_of_list [(''arm_receipt_count'', JInt 3)]\<rparr>"
  by (simp add: skill_paired_interpret_def run_context_def ended_receipts_def run_receipt_def)

lemma run_one_completes:
  "run_one (execution_runtime run_adapters) run_spec False run_plan (run_runner ''completed'' (Fin 0) (run_controller RUNNING None (run_budget 0 0) []))
    = (\<lparr>rn_world = run_state [7] (ended_receipts [7] ''completed'' (Fin 0)),
         rn_controller = (run_controller RUNNING None (run_budget 0 0) [run_item\<lparr>wi_status := ''completed'', wi_actual_cost := Some (Fin 0), wi_actual_calls := Some 0\<rparr>], fmempty),
         rn_started = [(run_plan, run_controller RUNNING None (run_budget 1 0) [run_item])]\<rparr>, Inr (ended_result [7] ''completed'' (Fin 0)))"
proof -
  have e: "execution_cost (ended_result [7] ''completed'' (Fin 0)) = Inr (Fin 0)" "execution_model_calls (ended_result [7] ''completed'' (Fin 0)) = 0"
    "er_status (ended_result [7] ''completed'' (Fin 0)) = ''completed''" "pl_plan_id run_plan = ''plan''"
    by (simp_all add: execution_cost_def execution_model_calls_def ended_result_def ended_receipts_def run_receipt_def the_item_def item_def run_plan_def)
  have k: "cs_authorization run_spec = run_authorization" "cs_prediction run_spec = None" "ad_remote run_adapters = False" by (simp_all add: run_spec_def run_adapters_def)
  have s: "submit_plan (execution_runtime run_adapters) run_plan (run_runner st x (run_controller RUNNING None (run_budget 0 0) []))
      = (run_runner st x (run_controller RUNNING None (run_budget 1 0) [run_item]), Inr ())" for st x
    by (simp add: submit_plan_def reserved_model_calls_def execution_runtime_def violation_unless_def obind_def [of "on_controller _"] on_controller_def run_runner_def
        run_submitted k)
  show ?thesis
    by (simp add: run_one_def obind_Inr [where m = "submit_plan (execution_runtime run_adapters) run_plan" and s = "run_runner st x (run_controller RUNNING None (run_budget 0 0) [])" for st x, OF s])
      (simp add: starting_def run_runner_def obind_def [of "on_runtime _"] on_runtime_def execution_runtime_def k ended_execute controller_def record_plan_def e
        obind_def [of "on_controller _"] on_controller_def run_recorded obind_def)
qed

lemma run_completes:
  "runner_run (Some (execution_runtime run_adapters)) True run_spec run_strategy (run_runner ''completed'' (Fin 0) (run_controller CREATED None (run_budget 0 0) []))
    = (\<lparr>rn_world = run_state [7] (ended_receipts [7] ''completed'' (Fin 0)), rn_controller = (run_done, fmempty),
         rn_started = [(run_plan, run_controller RUNNING None (run_budget 1 0) [run_item])]\<rparr>,
       Inr \<lparr>cr_campaign_id = ''c'', cr_status = RUN_COMPLETED, cr_plans = [run_plan], cr_executions = [ended_result [7] ''completed'' (Fin 0)],
         cr_receipts = ended_receipts [7] ''completed'' (Fin 0),
         cr_interpretations = [\<lparr>sr_strategy_id = ''skill-paired-v3'', sr_campaign_id = ''c'', sr_receipt_ids = [''r1'', ''r2'', ''r3''],
           sr_observations = fmap_of_list [(''arm_receipt_count'', JInt 3)]\<rparr>],
         cr_decisions = [advisory_decision ''s'' LIVE ''await-authoritative-claims'' ''none'' []], cr_claims = [], cr_snapshot = Some run_done, cr_reason = None\<rparr>)"
proof -
  let ?rt = "execution_runtime run_adapters"
  let ?s = "run_runner ''completed'' (Fin 0) (run_controller CREATED None (run_budget 0 0) [])"
  let ?t = "run_runner ''completed'' (Fin 0) (run_controller RUNNING None (run_budget 0 0) [])"
  have start: "start_campaign ?s = (?t, Inr ())"
    by (simp add: start_campaign_def controller_def run_runner_def run_controller_def on_controller_def campaign_start_def violation_unless_def campaign_save_def)
  have plans: "mapM (sg_plan run_strategy) (cs_contexts run_spec) = Inr [[run_plan]]" "validate_plans run_spec run_strategy [run_plan] = Inr ()"
    by (simp_all add: run_strategy_def run_spec_def validate_plans_def violation_unless_def) (simp_all add: run_plan_def)
  have c: "validate_controller run_spec (controller ?s) = Inr ()" "cc_status (controller ?s) = CREATED"
    by (simp_all add: validate_controller_def violation_unless_def run_spec_def controller_def run_runner_def run_controller_def)
  have st: "sg_status run_strategy = LIVE" "er_status (ended_result [7] ''completed'' (Fin 0)) = ''completed''" "run_status run_strategy = RUN_COMPLETED"
    "cs_campaign_id run_spec = ''c''" "cs_claims run_spec = []" "cs_contexts run_spec = [run_context]" "sg_interpret run_strategy = skill_paired_interpret"
    "sg_next_action run_strategy = (\<lambda>c cls. Inr (advisory_decision ''s'' LIVE ''await-authoritative-claims'' ''none'' cls))"
    "er_receipts (ended_result [7] ''completed'' (Fin 0)) = ended_receipts [7] ''completed'' (Fin 0)"
    by (simp_all add: run_strategy_def ended_result_def run_status_def run_spec_def)
  have loop: "run_contexts ?rt run_spec False [[run_plan]] ?t = (fst (run_one ?rt run_spec False run_plan ?t), Inr ([[ended_result [7] ''completed'' (Fin 0)]], None))"
    by (simp add: obind_def run_one_completes st)
  have all: "filter (\<lambda>r. rc_receipt_id r \<in> rc_receipt_id ` set rs) rs = rs" for rs :: "receipt list" by (simp add: filter_id_conv)
  have "runner_run (Some ?rt) True run_spec run_strategy ?s = run_live ?rt run_spec run_strategy [[run_plan]] ?s"
    by (simp add: runner_run_def plans st(1))
  also have "\<dots> = obind (run_contexts ?rt run_spec False [[run_plan]]) (\<lambda>(ess, failure). obind (settle_campaign run_strategy False failure)
      (\<lambda>status. live_result run_spec run_strategy [run_plan] ess status failure)) ?t"
    by (simp add: run_live_def Let_def c obind_Inr [where m = start_campaign and s = ?s, OF start] del: run_contexts.simps)
  also have "\<dots> = obind (settle_campaign run_strategy False None) (\<lambda>status. live_result run_spec run_strategy [run_plan]
      [[ended_result [7] ''completed'' (Fin 0)]] status None) (fst (run_one ?rt run_spec False run_plan ?t))"
    by (simp only: obind_Inr [where m = "run_contexts ?rt run_spec False [[run_plan]]" and s = ?t, OF loop] prod.case)
  finally show ?thesis unfolding run_one_completes fst_conv
    by (simp add: settle_campaign_def on_controller_def obind_def campaign_finalize_def finalize_check_def run_controller_def
        terminal_statuses_def violation_unless_def campaign_save_def ctl_read_def ctl_modify_def live_result_def Let_def interpretations_def next_actions_def st all run_interpreted controller_def run_done_def)
qed


text \<open>What a campaign run promises.\<close>

section \<open>A live run\<close>

lemma start_campaign_ok:
  assumes "start_campaign s = (t, Inr u)"
  shows "rn_started t = rn_started s \<and> rn_world t = rn_world s \<and> cc_items (controller t) = cc_items (controller s)
    \<and> (if cc_status (controller s) = COMPLETED then t = s else cc_status (controller t) = RUNNING)"
proof (cases "cc_status (controller s) \<in> {CREATED, PAUSED}")
  case True
  obtain c d c' d' where cd: "rn_controller s = (c, d)" "campaign_start (c, d) = ((c', d'), snd (campaign_start (c, d)))"
    by (metis prod.collapse)
  from True assms have t: "t = s\<lparr>rn_controller := (c', d')\<rparr>" "snd (campaign_start (c, d)) = Inr u"
    using cd(2) by (auto simp: start_campaign_def on_controller_apply cd(1))
  with campaign_start_cases [OF cd(2)] True show ?thesis by (auto simp: controller_def cd(1))
next
  case False
  with assms show ?thesis
    by (auto simp: start_campaign_def olift_eq_Inr violation_unless_eq_Inr split: if_splits)
qed

lemma start_campaign_started: "rn_started (fst (start_campaign s)) = rn_started s"
  by (simp add: start_campaign_def on_controller_apply olift_def)

lemma settle_started: "rn_started (fst (settle_campaign st replay f s)) = rn_started s"
  by (auto simp: settle_campaign_def on_controller_apply obind_def [of "on_controller _"] split: option.split sum.split)

lemma live_result_state: "fst (live_result spec st ps ess status f s) = s"
  by (simp add: live_result_def Let_def obind_olift split: sum.split)

lemma run_live_cases:
  assumes "run_live rt spec st pss s = (s', r)"
  obtains (refused) e where "s' = s" "r = Inl e" "\<not> (cc_campaign_id (controller s) = cs_campaign_id spec
      \<and> au_authorization_id (cc_authorization (controller s)) = au_authorization_id (cs_authorization spec))"
  | (unstarted) e where "start_campaign s = (s', Inl e)" "r = Inl e"
  | (stopped) t e where "start_campaign s = (t, Inr ())" "run_contexts rt spec (cc_status (controller s) = COMPLETED) pss t = (s', Inl e)" "r = Inl e"
  | (unsettled) t u ess f e where "start_campaign s = (t, Inr ())" "run_contexts rt spec (cc_status (controller s) = COMPLETED) pss t = (u, Inr (ess, f))"
      "settle_campaign st (cc_status (controller s) = COMPLETED) f u = (s', Inl e)" "r = Inl e"
  | (settled) t u ess f status where "start_campaign s = (t, Inr ())" "run_contexts rt spec (cc_status (controller s) = COMPLETED) pss t = (u, Inr (ess, f))"
      "settle_campaign st (cc_status (controller s) = COMPLETED) f u = (s', Inr status)"
      "live_result spec st (concat pss) ess status f s' = (s', r)"
proof (cases "validate_controller spec (controller s)")
  case (Inl e)
  then have "\<not> (cc_campaign_id (controller s) = cs_campaign_id spec
      \<and> au_authorization_id (cc_authorization (controller s)) = au_authorization_id (cs_authorization spec))"
    by (auto simp: validate_controller_def violation_unless_def)
  moreover have "s' = s" "r = Inl e" using assms Inl by (simp_all add: run_live_def Let_def)
  ultimately show ?thesis using refused by blast
next
  case (Inr v)
  let ?replay = "cc_status (controller s) = COMPLETED"
  have run: "obind start_campaign (\<lambda>_. obind (run_contexts rt spec ?replay pss) (\<lambda>(ess, failure).
      obind (settle_campaign st ?replay failure) (\<lambda>status. live_result spec st (concat pss) ess status failure))) s = (s', r)"
    using assms Inr by (simp add: run_live_def Let_def)
  from run show ?thesis
  proof (cases rule: obindE)
    case (failed e)
    then show ?thesis using unstarted by blast
  next
    case (went_on t u)
    note t = went_on
    from t(2) show ?thesis
    proof (cases rule: obindE)
      case (failed e)
      then show ?thesis using stopped t(1) by simp
    next
      case (went_on u x)
      obtain ess f where x: "x = (ess, f)" by fastforce
      from went_on(2) [unfolded x prod.case] show ?thesis
      proof (cases rule: obindE)
        case (failed e)
        then show ?thesis using unsettled t(1) went_on(1) x by simp
      next
        case (went_on z y)
        then have "s' = z" using live_result_state [of spec st "concat pss" ess y f z] by simp
        then show ?thesis using settled t(1) \<open>run_contexts rt spec ?replay pss t = (u, Inr x)\<close> x went_on by simp
      qed
    qed
  qed
qed

lemma runner_run_live:
  assumes "runner_run (Some rt) True spec st s = (s', r)" and "sg_status st \<noteq> NOT_YET_LIVE"
  obtains (refused) e where "s' = s" "r = Inl e"
  | (live) pss where "mapM (sg_plan st) (cs_contexts spec) = Inr pss" "validate_plans spec st (concat pss) = Inr ()" "run_live rt spec st pss s = (s', r)"
proof (cases "mapM (sg_plan st) (cs_contexts spec)")
  case (Inl e)
  with assms(1) have "s' = s" "r = Inl e" by (simp_all add: runner_run_def)
  with refused show ?thesis by blast
next
  case (Inr pss)
  then show ?thesis
  proof (cases "validate_plans spec st (concat pss)")
    case (Inl e)
    with assms(1) Inr have "s' = s" "r = Inl e" by (simp_all add: runner_run_def)
    with refused show ?thesis by blast
  next
    case v: (Inr u)
    with assms Inr live show ?thesis by (simp add: runner_run_def)
  qed
qed

lemma validated_plans:
  assumes "validate_plans spec st ps = Inr ()"
  shows "ps \<noteq> [] \<and> distinct (map pl_plan_id ps) \<and> (\<forall>p \<in> set ps. pl_campaign_id p = cs_campaign_id spec \<and> pl_strategy_id p = sg_strategy_id st)"
  using assms by (simp add: validate_plans_def res_simps)

text \<open>The plans a live run hands to the runtime, whether it raises or not.\<close>

definition handed_over :: "campaign_spec \<Rightarrow> strategy \<Rightarrow> campaign \<Rightarrow> execution_plan \<times> campaign \<Rightarrow> bool" where
  "handed_over spec st c0 x \<longleftrightarrow> (case x of (p, c) \<Rightarrow> pl_campaign_id p = cs_campaign_id spec \<and> pl_strategy_id p = sg_strategy_id st
     \<and> (if cc_status c0 = COMPLETED then c = c0
        else cc_status c = RUNNING \<and> (\<exists>w. item_get (pl_plan_id p) c = Some w \<and> plan_sha256 p = Inr (wi_plan_sha256 w))))"

lemma started_adds_mono: "started_adds P s s' \<Longrightarrow> (\<And>p c. P (p, c) \<Longrightarrow> Q (p, c)) \<Longrightarrow> started_adds Q s s'"
  by (auto simp: started_adds_def list_all_iff)

lemma loop_hands_over:
  assumes v: "validate_plans spec st (concat pss) = Inr ()" and t: "start_campaign s = (t, Inr ())"
    and run: "run_contexts rt spec (cc_status (controller s) = COMPLETED) pss t = (u, r)"
  shows "started_adds (handed_over spec st (controller s)) s u
    \<and> (cc_status (controller s) = COMPLETED \<longrightarrow> rn_controller u = rn_controller s)"
proof (cases "cc_status (controller s) = COMPLETED")
  case True
  with start_campaign_ok [OF t] have ts: "t = s" by simp
  have "replayed (concat pss) t u" by (rule rp.contexts [OF run [unfolded eqTrueI [OF True]]]) (simp add: list_all_iff)
  then have "rn_controller u = rn_controller s" "started_adds (\<lambda>(p, c). p \<in> set (concat pss) \<and> c = controller s) s u"
    by (simp_all add: replayed_def ts)
  then show ?thesis using validated_plans [OF v] True by (auto simp: handed_over_def elim!: started_adds_mono)
next
  case False
  have "started_adds (admitted (concat pss)) t u" 
    by (rule ad.contexts [where rt = rt and spec = spec and r = r]) (use run False in \<open>auto simp: list_all_iff\<close>)
  then have "started_adds (handed_over spec st (controller s)) t u"
    using validated_plans [OF v] False by (elim started_adds_mono) (auto simp: handed_over_def admitted_def)
  with False start_campaign_ok [OF t] show ?thesis by (simp add: started_adds_def)
qed

text \<open>C30: A run of a campaign that has not completed hands a plan to the runtime only after the controller has admitted exactly that plan: whether
  the run returns or raises, every plan it started has the campaign and the strategy of the run and was, at that moment, a work item of the running campaign
  with the hash of its content.  A run of a completed campaign admits nothing: it hands over the plans the strategy yields, of that campaign and
  strategy, as they are, and leaves its controller unchanged.  A campaign that has failed, is blocked, cancelled or partial starts nothing, and its run
  raises.\<close>

theorem runtime_only_after_admission:
  fixes s :: "'w runner"
  assumes "runner_run (Some rt) True spec st s = (s', r)" and "sg_status st \<noteq> NOT_YET_LIVE"
  shows "started_adds (handed_over spec st (controller s)) s s'
    \<and> (cc_status (controller s) = COMPLETED \<longrightarrow> rn_controller s' = rn_controller s)
    \<and> (cc_status (controller s) \<in> {FAILED, BLOCKED, CANCELLED, PARTIAL} \<longrightarrow> s' = s \<and> \<not> is_ok r)"
proof -
  have same: "started_adds P s s" for P by (simp add: started_adds_def)
  have st: "started_adds P s (fst (start_campaign s))" for P by (simp add: started_adds_def start_campaign_started)
  have stops: "cc_status (controller s) \<in> {CREATED, PAUSED, RUNNING, COMPLETED}" if "start_campaign s = (t, Inr ())" for t
    using that by (auto simp: start_campaign_def olift_eq_Inr violation_unless_eq_Inr split: if_splits)
  have settle: "started_adds P s z" if "settle_campaign q b f u = (z, x)" "started_adds P s u" for P q b f x and u z :: "'w runner"
    using that settle_started [of q b f u] by (simp add: started_adds_def)
  have keep: "rn_controller z = rn_controller u" if "settle_campaign q b f u = (z, x)" "b" for q b f x and u z :: "'w runner"
    using that by (simp add: settle_campaign_def)
  have bad: "s' = s" if "start_campaign s = (s', Inl e)" "cc_status (controller s) \<notin> {CREATED, PAUSED}" for e
    using that by (auto simp: start_campaign_def olift_def)
  from assms show ?thesis
  proof (cases rule: runner_run_live)
    case (refused e)
    then show ?thesis by (simp add: same)
  next
    case (live pss)
    from live(3) show ?thesis
    proof (cases rule: run_live_cases)
      case (refused e)
      then show ?thesis by (simp add: same)
    next
      case (unstarted e)
      have a: "started_adds (handed_over spec st (controller s)) s s'" using st unstarted(1) by (metis fst_conv)
      with bad [OF unstarted(1)] unstarted(2) show ?thesis by auto
    next
      case (stopped t e)
      then show ?thesis using loop_hands_over [OF live(2) stopped(1,2)] stops by auto
    next
      case (unsettled t u ess f e)
      then show ?thesis using loop_hands_over [OF live(2) unsettled(1,2)] stops [OF unsettled(1)] settle [OF unsettled(3)] keep [OF unsettled(3)] unsettled(4) by auto
    next
      case (settled t u ess f status)
      then show ?thesis using loop_hands_over [OF live(2) settled(1,2)] stops [OF settled(1)] settle [OF settled(3)] keep [OF settled(3)] by auto
    qed
  qed
qed

lemma runtime_only_after_admission_witness:
  "\<exists>s' r. runner_run (Some (execution_runtime run_adapters)) True run_spec run_strategy
      (run_runner ''completed'' (Fin 0) (run_controller CREATED None (run_budget 0 0) [])) = (s', r)
    \<and> rn_started s' = [(run_plan, run_controller RUNNING None (run_budget 1 0) [run_item])]
    \<and> list_all (handed_over run_spec run_strategy (run_controller CREATED None (run_budget 0 0) [])) (rn_started s')"
proof -
  have "sg_status run_strategy \<noteq> NOT_YET_LIVE" by (simp add: run_strategy_def)
  from runtime_only_after_admission [OF run_completes this] show ?thesis
    by (simp add: run_completes started_adds_def) (simp add: run_runner_def controller_def)
qed

section \<open>How a run ends\<close>

lemma finalize_ends:
  assumes "campaign_finalize st m (c, d) = ((c', d'), Inr u)"
  shows "cc_status c' = st \<and> cc_reason c' = m \<and> cc_items c' = cc_items c
    \<and> (st = COMPLETED \<longrightarrow> (\<forall>w \<in> set (cc_items c). wi_status w = ''completed''))"
  using campaign_finalize_cases [OF assms] assms
  by (auto simp: campaign_finalize_def finalize_check_def res_simps obind_eq_Inr olift_eq_Inr ctl_read_def ctl_modify_def dest!: campaign_save_fst)

lemma settle_ends:
  assumes "settle_campaign st False f u = (z, Inr status)"
  shows "case f of None \<Rightarrow> cc_status (controller z) = COMPLETED \<and> status = run_status st \<and> cc_items (controller z) = cc_items (controller u)
        \<and> (\<forall>w \<in> set (cc_items (controller u)). wi_status w = ''completed'')
    | Some m \<Rightarrow> cc_status (controller z) = PARTIAL \<and> cc_reason (controller z) = Some m \<and> status = RUN_PARTIAL"
proof -
  obtain c d where cd: "rn_controller u = (c, d)" by fastforce
  have fin: "case campaign_finalize x m (c, d) of (w, r) \<Rightarrow> is_ok r \<longrightarrow> cc_status (fst w) = x \<and> cc_reason (fst w) = m
      \<and> cc_items (fst w) = cc_items c \<and> (x = COMPLETED \<longrightarrow> (\<forall>w \<in> set (cc_items c). wi_status w = ''completed''))" for x m
    by (cases "campaign_finalize x m (c, d)"; cases "fst (campaign_finalize x m (c, d))")
      (auto simp: is_ok_iff dest: finalize_ends)
  show ?thesis using assms fin [of COMPLETED None] fin [of PARTIAL f]
    by (cases f) (auto simp: settle_campaign_def campaign_mark_partial_def on_controller_apply obind_def [of "on_controller _"] controller_def cd split: prod.splits sum.splits)
qed

lemma live_result_eq:
  assumes "live_result spec st ps ess status f s = (s', Inr r)"
  shows "cr_status r = status \<and> cr_plans r = ps \<and> cr_executions r = concat ess \<and> cr_reason r = f \<and> cr_snapshot r = Some (controller s)
    \<and> cr_receipts r = concat (map er_receipts (concat ess)) \<and> length (cr_interpretations r) = length (zip (cs_contexts spec) ess)"
  using assms by (auto simp: live_result_def Let_def obind_eq_Inr olift_eq_Inr interpretations_def dest: mapM_length)

lemma run_status_partial: "run_status st \<noteq> RUN_PARTIAL"
  by (simp add: run_status_def)

text \<open>C31: A live run of a campaign that is not completed yet returns in one of two ways.  Completed: every plan was started, in the
  order of the plans, every execution completed, the campaign is completed and holds a completed work item of every
  plan.  Partial: the plans were started up to the first execution that did not complete, the ones before it completed, and
  the campaign is partial with a reason that names that plan and its status.  The snapshot is the controller it leaves.\<close>

theorem campaign_run_outcome:
  assumes "runner_run (Some rt) True spec st s = (s', Inr r)" and "sg_status st \<noteq> NOT_YET_LIVE" and "cc_status (controller s) \<noteq> COMPLETED"
  shows "cr_snapshot r = Some (controller s')
    \<and> map fst (rn_started s') = map fst (rn_started s) @ take (length (cr_executions r)) (cr_plans r)
    \<and> loop_outcome (cr_plans r) (cr_executions r) (cr_reason r)
    \<and> (case cr_reason r of None \<Rightarrow> cr_status r \<noteq> RUN_PARTIAL \<and> cc_status (controller s') = COMPLETED
          \<and> (\<forall>p \<in> set (cr_plans r). \<exists>w \<in> set (cc_items (controller s')). wi_plan_id w = pl_plan_id p \<and> wi_status w = ''completed'')
        | Some m \<Rightarrow> cr_status r = RUN_PARTIAL \<and> cc_status (controller s') = PARTIAL \<and> cc_reason (controller s') = Some m)"
proof -
  from assms(1,2) obtain pss where l: "run_live rt spec st pss s = (s', Inr r)"
    by (cases rule: runner_run_live) auto
  from l obtain t u ess f status where x: "start_campaign s = (t, Inr ())" "run_contexts rt spec False pss t = (u, Inr (ess, f))"
    "settle_campaign st False f u = (s', Inr status)" "live_result spec st (concat pss) ess status f s' = (s', Inr r)"
    using assms(3) by (cases rule: run_live_cases) auto
  have run: "run_plans rt spec False (concat pss) t = (u, Inr (concat ess, f))" using x(2) by (simp add: run_contexts_flat obind_def)
  note r = live_result_eq [OF x(4)]
  note o = run_plans_outcome [OF run]
  have h: "map fst (rn_started s') = map fst (rn_started s) @ take (length (cr_executions r)) (cr_plans r)"
    using run_plans_handed [OF run] start_campaign_ok [OF x(1)] settle_started [of st False f u] x(3) r by simp
  have k: "\<exists>w \<in> set (cc_items (controller u)). wi_plan_id w = pl_plan_id p" if "f = None" "p \<in> set (concat pss)" for p
    using run_plans_known [OF run, of p] o that by (fastforce simp: loop_outcome_def)
  from settle_ends [OF x(3)] h o k r run_status_partial [of st] show ?thesis by (cases f) auto
qed

lemma campaign_run_outcome_witness:
  "\<exists>s' r. runner_run (Some (execution_runtime run_adapters)) True run_spec run_strategy
      (run_runner ''completed'' (Fin 0) (run_controller CREATED None (run_budget 0 0) [])) = (s', Inr r)
    \<and> cr_executions r = [ended_result [7] ''completed'' (Fin 0)] \<and> cc_status (controller s') = COMPLETED \<and> loop_outcome (cr_plans r) (cr_executions r) None"
proof -
  have "sg_status run_strategy \<noteq> NOT_YET_LIVE" "cc_status (controller (run_runner ''completed'' (Fin 0) (run_controller CREATED None (run_budget 0 0) []))) \<noteq> COMPLETED"
    by (simp_all add: run_strategy_def controller_def run_runner_def run_controller_def)
  from campaign_run_outcome [OF run_completes this] show ?thesis by (simp add: run_completes controller_def)
qed

end
