(* ===== verification/Runner_Replay.thy ===== *)
theory Runner_Replay
  imports Runner_Claims Execution_Calls
begin

text \<open>
  The contract a runtime keeps with the runner: a plan that ended is settled, stays settled and is only
  replayed.  The execution runtime keeps it; what follows for campaigns that are run again.
\<close>

section \<open>The contract\<close>

locale settling_runtime =
  fixes rt :: "'w runtime_entry" and settled :: "string \<Rightarrow> 'w \<Rightarrow> bool" and kept :: "'w \<Rightarrow> 'w \<Rightarrow> bool"
  assumes kept_same: "kept w w" and kept_chain: "kept w v \<Longrightarrow> kept v u \<Longrightarrow> kept w u"
    and completes: "rt_execute rt p au pred w = (w', Inr e) \<Longrightarrow> er_status e = ''completed'' \<Longrightarrow> settled (pl_plan_id p) w'"
    and stays: "settled i w \<Longrightarrow> rt_execute rt p au pred w = (w', q) \<Longrightarrow> settled i w'"
    and replays: "settled (pl_plan_id p) w \<Longrightarrow> rt_execute rt p au pred w = (w', q) \<Longrightarrow> kept w w' \<and> (\<forall>e. q = Inr e \<longrightarrow> er_replayed e)"
begin

lemma started_world: "starting rt spec p s = (s', q) \<Longrightarrow> rt_execute rt p (cs_authorization spec) (cs_prediction spec) (rn_world s) = (rn_world s', q)"
  by (auto simp: starting_def on_runtime_def split: prod.splits)

lemma one_settles:
  assumes "run_one rt spec replay p s = (s', Inr e)"
  shows "(er_status e = ''completed'' \<longrightarrow> settled (pl_plan_id p) (rn_world s')) \<and> (settled i (rn_world s) \<longrightarrow> settled i (rn_world s'))"
proof -
  have w: "rn_world t' = rn_world t" if "on_controller m t = (t', q)" for m :: "(campaign_world, 'b) op" and t t' :: "'w runner" and q
    using that by (auto simp: on_controller_apply)
  from assms obtain t u where x: "(if replay then oreturn () else submit_plan rt p) s = (t, Inr ())" "starting rt spec p t = (u, Inr e)"
    "(if replay then oreturn () else record_plan p e) u = (s', Inr ())"
    by (auto simp: run_one_def obind_eq_Inr)
  have "rn_world t = rn_world s" "rn_world s' = rn_world u"
    using x(1,3) by (auto simp: submit_plan_def record_plan_def on_controller_apply obind_eq_Inr olift_eq_Inr split: if_splits)
  with completes [OF started_world [OF x(2)]] stays [OF _ started_world [OF x(2)]] show ?thesis by auto
qed

lemma loop_settles:
  assumes "run_plans rt spec replay ps s = (s', Inr (es, f))"
  shows "(f = None \<longrightarrow> (\<forall>p \<in> set ps. settled (pl_plan_id p) (rn_world s'))) \<and> (settled i (rn_world s) \<longrightarrow> settled i (rn_world s'))"
  using assms
proof (induction ps arbitrary: s es i)
  case (Cons p ps)
  from Cons.prems obtain t e where t: "run_one rt spec replay p s = (t, Inr e)" by (auto simp: obind_eq_Inr)
  show ?case
  proof (cases "completed e")
    case True
    with Cons.prems t obtain es' where r: "run_plans rt spec replay ps t = (s', Inr (es', f))" by (auto simp: completed_def obind_eq_Inr)
    from Cons.IH [OF r] one_settles [OF t] True show ?thesis by (auto simp: completed_def)
  next
    case False
    with Cons.prems t one_settles [OF t] show ?thesis by (auto simp: completed_def obind_eq_Inr)
  qed
qed simp

lemma one_replays:
  assumes "settled (pl_plan_id p) (rn_world s)" and "run_one rt spec True p s = (s', q)"
  shows "kept (rn_world s) (rn_world s') \<and> (\<forall>i. settled i (rn_world s) \<longrightarrow> settled i (rn_world s')) \<and> (\<forall>e. q = Inr e \<longrightarrow> er_replayed e)"
proof -
  obtain u z where u: "starting rt spec p s = (u, z)" by fastforce
  with assms(2) have e: "s' = u" "\<And>e. q = Inr e \<Longrightarrow> z = Inr e" by (auto simp: run_one_def obind_def split: sum.splits)
  from replays [OF assms(1) started_world [OF u]] stays [OF _ started_world [OF u]] e show ?thesis by blast
qed

lemma loop_replays:
  assumes "run_plans rt spec True ps s = (s', q)" and "\<forall>p \<in> set ps. settled (pl_plan_id p) (rn_world s)"
  shows "kept (rn_world s) (rn_world s') \<and> (\<forall>i. settled i (rn_world s) \<longrightarrow> settled i (rn_world s')) \<and> (\<forall>es f. q = Inr (es, f) \<longrightarrow> list_all er_replayed es)"
  using assms
proof (induction ps arbitrary: s q)
  case Nil
  then show ?case by (auto simp: kept_same)
next
  case (Cons p ps)
  obtain t z where t: "run_one rt spec True p s = (t, z)" by fastforce
  have one: "kept (rn_world s) (rn_world t) \<and> (\<forall>i. settled i (rn_world s) \<longrightarrow> settled i (rn_world t)) \<and> (\<forall>e. z = Inr e \<longrightarrow> er_replayed e)"
    using one_replays [OF _ t] Cons.prems(2) by simp
  show ?case
  proof (cases "\<exists>e. z = Inr e \<and> er_status e = ''completed''")
    case True
    then obtain e where e: "z = Inr e" "er_status e = ''completed''" by blast
    obtain u x where u: "run_plans rt spec True ps t = (u, x)" by fastforce
    have i: "kept (rn_world t) (rn_world u) \<and> (\<forall>i. settled i (rn_world t) \<longrightarrow> settled i (rn_world u)) \<and> (\<forall>es f. x = Inr (es, f) \<longrightarrow> list_all er_replayed es)"
      if "u = s'" using Cons.IH [of t x] u that one Cons.prems(2) by simp
    from Cons.prems(1) t e u have s': "s' = u" "\<And>es f. q = Inr (es, f) \<Longrightarrow> \<exists>es'. x = Inr (es', f) \<and> es = e # es'"
      by (auto simp: obind_def split: sum.splits prod.splits)
    show ?thesis
    proof (intro conjI allI impI)
      show "kept (rn_world s) (rn_world s')" using i s'(1) one kept_chain by blast
      show "settled i (rn_world s')" if "settled i (rn_world s)" for i using i s'(1) one that by blast
      show "list_all er_replayed es" if "q = Inr (es, f)" for es f using i s'(1) s'(2) [OF that] one e(1) by auto
    qed
  next
    case False
    then have "s' = t" "\<And>es f. q = Inr (es, f) \<Longrightarrow> \<exists>e. z = Inr e \<and> es = [e]"
      using Cons.prems(1) t by (auto simp: obind_def split: sum.splits if_splits)
    with one show ?thesis by auto
  qed
qed

end

section \<open>The execution runtime keeps it\<close>

definition settled_in :: "string \<Rightarrow> 'w execution \<Rightarrow> bool" where
  "settled_in i w \<longleftrightarrow> (\<exists>rs. list_receipts (ex_store w) = Inr rs \<and> (\<exists>t \<in> set rs. rc_kind t = ''execution_terminal'' \<and> rc_plan_id t = i))"

definition same_facts :: "'w execution \<Rightarrow> 'w execution \<Rightarrow> bool" where
  "same_facts w v \<longleftrightarrow> ex_store v = ex_store w \<and> ex_graph v = ex_graph w \<and> ex_calls v = ex_calls w"

lemma append_control_stores:
  assumes "append_control ad p kind payload s = (s', Inr r)"
  shows "rc_kind r = kind \<and> rc_plan_id r = pl_plan_id p \<and> (\<exists>rs. list_receipts (ex_store s') = Inr rs \<and> r \<in> set rs)"
proof -
  obtain sq i at a artifact u where "record_receipt (\<lparr>rc_receipt_id = i, rc_campaign_id = pl_campaign_id p, rc_plan_id = pl_plan_id p, rc_sequence = sq,
       rc_kind = kind, rc_created_at = at, rc_payload = payload, rc_artifact_sha256 = a, rc_supersedes_receipt_id = None\<rparr>, artifact) u = (s', Inr r)"
    using assms unfolding append_control_def by (auto simp: obind_eq_Inr olift_eq_Inr split: prod.splits)
  then obtain x t where x: "submit_receipt x (ex_store u) = (ex_store s', Inr r)" "rc_kind (fst x) = kind" "rc_plan_id (fst x) = pl_plan_id p"
    by (auto simp: record_receipt_def obind_eq_Inr on_store_def split: prod.splits)
  from submit_result [OF x(1)] receipt_eqD [OF submit_result(1) [OF x(1)]] x(2,3) show ?thesis by simp
qed

lemma terminate_settles: "terminate ad p payload st s = (s', Inr e) \<Longrightarrow> settled_in (pl_plan_id p) s'"
  by (auto simp: terminate_def finish_with_def obind_eq_Inr settled_in_def dest!: append_control_stores)

lemma stages_settle:
  assumes "execute_stages ad p pred old s = (s', Inr e)"
  shows "settled_in (pl_plan_id p) s'"
proof -
  obtain ws m c t where "settle_stage ad p old ws m c t = (s', Inr e)"
    using assms by (auto simp: execute_stages_def obind_eq_Inr)
  then show ?thesis by (auto simp: settle_stage_def Let_def obind_eq_Inr olift_eq_Inr split: if_splits intro: terminate_settles)
qed

lemma execution_completes:
  assumes "execute ad p au pred s = (s', Inr e)" and "er_status e = ''completed''"
  shows "settled_in (pl_plan_id p) s'"
  using assms(1)
proof (cases rule: execute_cases)
  case (stays w)
  then obtain found t where f: "receipts_for (pl_plan_id p) (ex_store s) = Inr found" "by_kind ''execution_terminal'' (sort_key rc_sequence found) = Some t" by blast
  obtain rs where rs: "list_receipts (ex_store s) = Inr rs" using f(1) by (auto simp: receipts_for_def bind_eq_Inr)
  have "t \<in> set found" "rc_kind t = ''execution_terminal''" using by_kind_SomeD [OF f(2)] by simp_all
  with f(1) rs stays(1) show ?thesis by (auto simp: receipts_for_eq settled_in_def)
next
  case (runs w old found)
  obtain t q where t: "execute_stages ad p pred old (begin_with old (s\<lparr>ex_world := w\<rparr>)) = (t, q)" by fastforce
  have i: "er_status v = ''partial''" if "interrupted ad p m t = (z, Inr v)" for m z v
    using that by (auto simp: interrupted_def finish_with_def obind_eq_Inr)
  have f: "er_status v = ''infra_failure''" if "evaluator_failure ad p m t = (z, Inr v)" for m z v
    using that by (auto simp: evaluator_failure_def terminate_def finish_with_def obind_eq_Inr olift_eq_Inr split: option.splits)
  have "s' = t \<and> q = Inr e"
    using runs(7) t i f assms(2) by (auto simp: execute_guarded_def split: sum.splits err.splits exn.splits)
  with stages_settle t show ?thesis by blast
qed

interpretation rr: settling_runtime "execution_runtime ad" settled_in same_facts for ad
proof unfold_locales
  show "same_facts w w" for w :: "'a execution" by (simp add: same_facts_def)
  show "same_facts w v \<Longrightarrow> same_facts v u \<Longrightarrow> same_facts w u" for w v u :: "'a execution" by (simp add: same_facts_def)
  show "rt_execute (execution_runtime ad) p au pred w = (w', Inr e) \<Longrightarrow> er_status e = ''completed'' \<Longrightarrow> settled_in (pl_plan_id p) w'" for p au pred w w' e
    by (simp add: execution_runtime_def execution_completes)
  show "settled_in i w \<Longrightarrow> rt_execute (execution_runtime ad) p au pred w = (w', q) \<Longrightarrow> settled_in i w'" for i w p au pred w' q
    using execute_grows [of ad p au pred w w' q] by (fastforce simp: execution_runtime_def settled_in_def store_grows_def)
  show "settled_in (pl_plan_id p) w \<Longrightarrow> rt_execute (execution_runtime ad) p au pred w = (w', q) \<Longrightarrow> same_facts w w' \<and> (\<forall>e. q = Inr e \<longrightarrow> er_replayed e)" for p w au pred w' q
    using settled_execution [of w _ _ "pl_plan_id p" ad p au pred w' q] by (auto simp: execution_runtime_def settled_in_def same_facts_def)
qed

section \<open>Runs that follow\<close>

text \<open>Further runs of the same campaign, each with the adapters of its process, whether they return or raise.\<close>

fun reruns :: "'w adapters list \<Rightarrow> campaign_spec \<Rightarrow> strategy \<Rightarrow> 'w execution runner \<Rightarrow> 'w execution runner" where
  "reruns [] spec st s = s"
| "reruns (ad # ads) spec st s = reruns ads spec st (fst (runner_run (Some (execution_runtime ad)) True spec st s))"

lemma rerun_completed:
  assumes run: "runner_run (Some (execution_runtime ad)) True spec st s = (s', q)" and live: "sg_status st \<noteq> NOT_YET_LIVE"
    and plans: "mapM (sg_plan st) (cs_contexts spec) = Inr pss" and c: "cc_status (controller s) = COMPLETED"
    and ended: "\<forall>p \<in> set (concat pss). settled_in (pl_plan_id p) (rn_world s)"
  shows "rn_controller s' = rn_controller s \<and> same_facts (rn_world s) (rn_world s')
    \<and> (\<forall>p \<in> set (concat pss). settled_in (pl_plan_id p) (rn_world s'))
    \<and> (\<forall>r. q = Inr r \<longrightarrow> cr_status r = run_status st \<and> list_all er_replayed (cr_executions r))"
  using run live
proof (cases rule: runner_run_live)
  case (refused e)
  with ended show ?thesis by (simp add: same_facts_def)
next
  case (live pss')
  then have p: "pss' = pss" using plans by simp
  have loop: "rn_controller u = rn_controller s \<and> same_facts (rn_world s) (rn_world u) \<and> (\<forall>p \<in> set (concat pss). settled_in (pl_plan_id p) (rn_world u))
      \<and> (\<forall>ess f. x = Inr (ess, f) \<longrightarrow> list_all er_replayed (concat ess))"
    if t: "start_campaign s = (t, Inr ())" and u: "run_contexts (execution_runtime ad) spec True pss t = (u, x)" for t u x
  proof -
    have ts: "t = s" using start_campaign_ok [OF t] c by simp
    obtain y where y: "run_plans (execution_runtime ad) spec True (concat pss) s = (u, y)" "\<And>ess f. x = Inr (ess, f) \<Longrightarrow> y = Inr (concat ess, f)"
      using u by (cases x) (auto simp: run_contexts_flat obind_def ts)
    have "rn_controller u = rn_controller s" using loop_hands_over [OF live(2) t, of "execution_runtime ad" u x] u c p by simp
    with rr.loop_replays [OF y(1)] ended y(2) show ?thesis by blast
  qed
  have set: "z = u \<and> (\<forall>y. q' = Inr y \<longrightarrow> y = run_status st)" if "settle_campaign st True f u = (z, q')" for f q' and u z :: "'a execution runner"
    using that by (auto simp: settle_campaign_def)
  from live(3) show ?thesis unfolding p
  proof (cases rule: run_live_cases)
    case (refused e)
    with ended show ?thesis by (simp add: same_facts_def)
  next
    case (unstarted e)
    then have "False" using c by (simp add: start_campaign_def olift_def violation_unless_def)
    then show ?thesis ..
  next
    case (stopped t e)
    with loop [OF stopped(1), of s' "Inl e"] c show ?thesis by simp
  next
    case (unsettled t u ess f e)
    with loop [OF unsettled(1), of u "Inr (ess, f)"] set [of f u s' "Inl e"] c show ?thesis by simp
  next
    case (settled t u ess f status)
    with loop [OF settled(1), of u "Inr (ess, f)"] set [of f u s' "Inr status"] c show ?thesis by (auto dest: live_result_eq)
  qed
qed

lemma reruns_completed:
  assumes "sg_status st \<noteq> NOT_YET_LIVE" and "mapM (sg_plan st) (cs_contexts spec) = Inr pss" and "cc_status (controller s) = COMPLETED"
    and "\<forall>p \<in> set (concat pss). settled_in (pl_plan_id p) (rn_world s)"
  shows "rn_controller (reruns ads spec st s) = rn_controller s \<and> same_facts (rn_world s) (rn_world (reruns ads spec st s))
    \<and> (\<forall>p \<in> set (concat pss). settled_in (pl_plan_id p) (rn_world (reruns ads spec st s)))"
  using assms(3,4)
proof (induction ads arbitrary: s)
  case Nil
  then show ?case by (simp add: same_facts_def)
next
  case (Cons ad ads)
  let ?t = "fst (runner_run (Some (execution_runtime ad)) True spec st s)"
  have t: "rn_controller ?t = rn_controller s" "same_facts (rn_world s) (rn_world ?t)" "\<forall>p \<in> set (concat pss). settled_in (pl_plan_id p) (rn_world ?t)"
    using rerun_completed [OF surjective_pairing assms(1,2) Cons.prems] by simp_all
  then have "cc_status (controller ?t) = COMPLETED" using Cons.prems(1) by (simp add: controller_def)
  from Cons.IH [OF this t(3)] t(1,2) show ?case by (auto simp: same_facts_def)
qed

text \<open>C32: A campaign that completed is finished for good: however often it is run again, by whatever processes and adapters, the
  controller stays what it was, no adapter is called, no receipt and no evidence is added, and a run that returns reports the
  same status with executions that are all replays.\<close>

theorem completed_campaign_replays_free:
  assumes "runner_run (Some (execution_runtime ad)) True spec st s = (t, Inr r)" and "sg_status st \<noteq> NOT_YET_LIVE"
    and "cc_status (controller s) \<noteq> COMPLETED" and "cr_status r \<noteq> RUN_PARTIAL"
  shows "rn_controller (reruns ads spec st t) = rn_controller t
    \<and> ex_calls (rn_world (reruns ads spec st t)) = ex_calls (rn_world t)
    \<and> ex_store (rn_world (reruns ads spec st t)) = ex_store (rn_world t) \<and> ex_graph (rn_world (reruns ads spec st t)) = ex_graph (rn_world t)
    \<and> (\<forall>r'. snd (runner_run (Some (execution_runtime ad')) True spec st (reruns ads spec st t)) = Inr r' \<longrightarrow>
        cr_status r' = cr_status r \<and> list_all er_replayed (cr_executions r'))"
proof -
  from assms(1,2) obtain pss where l: "mapM (sg_plan st) (cs_contexts spec) = Inr pss" "run_live (execution_runtime ad) spec st pss s = (t, Inr r)"
    by (cases rule: runner_run_live) auto
  from l(2) obtain v u ess f status where x: "start_campaign s = (v, Inr ())" "run_contexts (execution_runtime ad) spec False pss v = (u, Inr (ess, f))"
    "settle_campaign st False f u = (t, Inr status)" "live_result spec st (concat pss) ess status f t = (t, Inr r)"
    using assms(3) by (cases rule: run_live_cases) auto
  have run: "run_plans (execution_runtime ad) spec False (concat pss) v = (u, Inr (concat ess, f))" using x(2) by (simp add: run_contexts_flat obind_def)
  have f: "f = None" "cc_status (controller t) = COMPLETED" "cr_status r = run_status st"
    using settle_ends [OF x(3)] live_result_eq [OF x(4)] assms(4) by (cases f; simp)+
  have "rn_world t = rn_world u" using x(3) f(1) by (auto simp: settle_campaign_def obind_eq_Inr on_controller_apply)
  then have d: "\<forall>p \<in> set (concat pss). settled_in (pl_plan_id p) (rn_world t)" using rr.loop_settles [OF run] f(1) by simp
  note re = reruns_completed [OF assms(2) l(1) f(2) d, of ads]
  have c: "cc_status (controller (reruns ads spec st t)) = COMPLETED" using re f(2) by (simp add: controller_def)
  from rerun_completed [OF surjective_pairing assms(2) l(1) c, of ad'] re f(3) show ?thesis by (auto simp: same_facts_def)
qed

lemma completed_campaign_replays_free_witness:
  "\<exists>t r. runner_run (Some (execution_runtime run_adapters)) True run_spec run_strategy
      (run_runner ''completed'' (Fin 0) (run_controller CREATED None (run_budget 0 0) [])) = (t, Inr r)
    \<and> cr_status r = RUN_COMPLETED \<and> ex_calls (rn_world (reruns [run_adapters, run_adapters] run_spec run_strategy t)) = []
    \<and> rn_controller (reruns [run_adapters, run_adapters] run_spec run_strategy t) = (run_done, fmempty)"
proof -
  have h: "sg_status run_strategy \<noteq> NOT_YET_LIVE" "cc_status (controller (run_runner ''completed'' (Fin 0) (run_controller CREATED None (run_budget 0 0) []))) \<noteq> COMPLETED"
    by (simp_all add: run_strategy_def controller_def run_runner_def run_controller_def)
  show ?thesis
    using completed_campaign_replays_free [OF run_completes h, of "[run_adapters, run_adapters]"] by (simp add: run_completes run_state_def del: reruns.simps)
qed

section \<open>A cost above the authorization\<close>

lemma over_budget_raises: "flt (bm_max_cost b) (fadd (bm_spent_cost b) x) \<Longrightarrow> budget_record rc rn x n b \<noteq> Inr b'"
  by (simp add: budget_record_eq_Inr)

lemma resubmit_same:
  assumes "item_get (pl_plan_id p) c = Some w" and "campaign_submit p n remote (c, d) = (v, q)"
  shows "v = (c, d)"
proof (cases "require_running c")
  case (Inl e)
  with assms show ?thesis by (simp add: campaign_submit_def)
next
  case (Inr u)
  show ?thesis
  proof (cases "pl_campaign_id p = cc_campaign_id c")
    case True
    with Inr assms show ?thesis
      by (cases "plan_sha256 p") (auto simp: campaign_submit_def violation_unless_def require_def obind_olift split: if_splits)
  next
    case False
    with Inr assms show ?thesis by (simp add: campaign_submit_def violation_unless_def)
  qed
qed

text \<open>A plan that an earlier run of the campaign has completed: its work item and its terminal receipt say so.\<close>

definition ended_before :: "'w execution runner \<Rightarrow> execution_plan \<Rightarrow> bool" where
  "ended_before s p \<longleftrightarrow> (\<exists>w rs t. item_get (pl_plan_id p) (controller s) = Some w \<and> wi_status w = ''completed''
     \<and> list_receipts (ex_store (rn_world s)) = Inr rs \<and> t \<in> set rs \<and> rc_kind t = ''execution_terminal'' \<and> rc_plan_id t = pl_plan_id p
     \<and> get (rc_payload t) ''status'' = JStr ''completed'')"

text \<open>A plan whose item is still pending; the store holds its terminal receipt and one cost receipt, and that cost does not fit
  into the authorization.\<close>

definition over_cost :: "'w execution runner \<Rightarrow> execution_plan \<Rightarrow> bool" where
  "over_cost s p \<longleftrightarrow> (\<exists>w rs t c x. item_get (pl_plan_id p) (controller s) = Some w \<and> wi_status w = ''pending''
     \<and> list_receipts (ex_store (rn_world s)) = Inr rs \<and> t \<in> set rs \<and> rc_kind t = ''execution_terminal'' \<and> rc_plan_id t = pl_plan_id p
     \<and> {r \<in> set rs. rc_plan_id r = pl_plan_id p \<and> rc_kind r = ''cost''} = {c} \<and> fmlookup (rc_payload c) ''cost_cny'' = Some (JFloat x)
     \<and> flt (bm_max_cost (cc_budget (controller s))) (fadd (bm_spent_cost (cc_budget (controller s))) x))"

text \<open>A running campaign whose plans before \<open>p\<close> have completed and whose plan \<open>p\<close> has cost too much.\<close>

definition overspent :: "campaign_spec \<Rightarrow> strategy \<Rightarrow> execution_plan \<Rightarrow> 'w execution runner \<Rightarrow> bool" where
  "overspent spec st p s \<longleftrightarrow> (\<exists>pss qs ps. mapM (sg_plan st) (cs_contexts spec) = Inr pss \<and> concat pss = qs @ p # ps
     \<and> cc_status (controller s) = RUNNING \<and> list_all (ended_before s) qs \<and> over_cost s p)"

definition same_state :: "'w execution runner \<Rightarrow> 'w execution runner \<Rightarrow> bool" where
  "same_state s t \<longleftrightarrow> rn_controller t = rn_controller s \<and> same_facts (rn_world s) (rn_world t)"

lemma same_state_trans: "same_state s t \<Longrightarrow> same_state t u \<Longrightarrow> same_state s u"
  by (simp add: same_state_def same_facts_def)

lemma same_state_keeps:
  assumes "same_state s t"
  shows "ended_before t p = ended_before s p" and "over_cost t p = over_cost s p" and "controller t = controller s"
  using assms by (simp_all add: same_state_def same_facts_def ended_before_def over_cost_def controller_def)

text \<open>A plan with a work item and a terminal receipt is submitted and executed again without a change.\<close>

lemma again_executed:
  assumes w: "item_get (pl_plan_id p) (controller s) = Some w"
    and t: "list_receipts (ex_store (rn_world s)) = Inr rs" "t \<in> set rs" "rc_kind t = ''execution_terminal''" "rc_plan_id t = pl_plan_id p"
    and run: "run_one (execution_runtime ad) spec False p s = (u, z)"
  shows "(\<not> is_ok z \<and> same_state s u) \<or> (\<exists>v e. same_state s v \<and> er_status e = py_str (get (rc_payload t) ''status'')
     \<and> set (er_receipts e) = {r \<in> set rs. rc_plan_id r = pl_plan_id p}
     \<and> obind (record_plan p e) (\<lambda>_. oreturn e) v = (u, z))"
proof -
  obtain cc d where cd: "rn_controller s = (cc, d)" by fastforce
  obtain s1 y where s1: "submit_plan (execution_runtime ad) p s = (s1, y)" by fastforce
  have ss: "s1 = s" using s1 resubmit_same [OF w [unfolded controller_def cd fst_conv], of 1 "Some (ad_remote ad)" d] cd
    by (cases "campaign_submit p 1 (Some (ad_remote ad)) (cc, d)")
      (auto simp: submit_plan_def reserved_model_calls_def execution_runtime_def violation_unless_def on_controller_apply obind_def [of "on_controller _"] split: sum.splits)
  show ?thesis
  proof (cases y)
    case (Inl e)
    with run s1 ss show ?thesis by (auto simp: run_one_def obind_def same_state_def same_facts_def)
  next
    case (Inr v)
    obtain s2 e2 where s2: "starting (execution_runtime ad) spec p s = (s2, e2)" by fastforce
    have ex: "execute ad p (cs_authorization spec) (cs_prediction spec) (rn_world s) = (rn_world s2, e2)"
      using rr.started_world [OF s2] by (simp add: execution_runtime_def)
    note settled = settled_execution [OF t ex refl]
    have same: "same_state s s2"
      using starting_controller [of "execution_runtime ad" spec p s] s2 settled by (simp add: same_state_def same_facts_def)
    show ?thesis
    proof (cases e2)
      case (Inl e)
      with run s1 s2 ss Inr same show ?thesis by (auto simp: run_one_def obind_def)
    next
      case e: (Inr e)
      have "run_one (execution_runtime ad) spec False p s = obind (record_plan p e) (\<lambda>_. oreturn e) s2"
        using s1 ss Inr s2 e by (auto simp: run_one_def obind_def oreturn_def split: prod.split sum.split)
      with run same settled e show ?thesis by auto
    qed
  qed
qed

lemma ended_again:
  assumes "ended_before s p" and "run_one (execution_runtime ad) spec False p s = (u, z)"
  shows "same_state s u \<and> (\<forall>e. z = Inr e \<longrightarrow> er_status e = ''completed'')"
proof -
  from assms(1) obtain w rs t where h: "item_get (pl_plan_id p) (controller s) = Some w" "wi_status w = ''completed''"
    "list_receipts (ex_store (rn_world s)) = Inr rs" "t \<in> set rs" "rc_kind t = ''execution_terminal''" "rc_plan_id t = pl_plan_id p"
    "get (rc_payload t) ''status'' = JStr ''completed''"
    unfolding ended_before_def by blast
  from again_executed [OF h(1,3-6) assms(2)] show ?thesis
  proof (elim disjE conjE exE)
    fix v e
    assume v: "same_state s v" "er_status e = py_str (get (rc_payload t) ''status'')" and m: "obind (record_plan p e) (\<lambda>_. oreturn e) v = (u, z)"
    obtain cc d where cd: "rn_controller v = (cc, d)" by fastforce
    have i: "item_get (pl_plan_id p) cc = Some w" using h(1) same_state_keeps(3) [OF v(1)] by (simp add: controller_def cd)
    have rec: "fst (campaign_record (pl_plan_id p) x n ok (cc, d)) = (cc, d)" for x n ok
      using i h(2) by (cases "require_running cc") (simp_all add: campaign_record_def olift_def)
    have "fst (record_plan p e v) = v"
    proof (cases "execution_cost e")
      case (Inr x)
      then show ?thesis using rec cd by (simp add: record_plan_def on_controller_apply)
    qed (simp add: record_plan_def)
    then have "u = v" and "z = Inr e \<or> \<not> is_ok z" using m by (auto simp: obind_def split: prod.splits sum.splits)
    then show ?thesis using v h(7) by auto
  qed auto
qed

lemma overspent_cost:
  assumes "set (er_receipts e) = {r \<in> set rs. rc_plan_id r = i}" and "{r \<in> set rs. rc_plan_id r = i \<and> rc_kind r = ''cost''} = {c}"
    and "fmlookup (rc_payload c) ''cost_cny'' = Some (JFloat x)" and "execution_cost e = Inr y"
  shows "y = x"
proof -
  have f: "set (filter (\<lambda>r. rc_kind r = ''cost'') (er_receipts e)) = {c}" using assms(1,2) by auto
  from assms(4) have "length (filter (\<lambda>r. rc_kind r = ''cost'') (er_receipts e)) \<le> 1"
    by (auto simp: execution_cost_def split: list.splits)
  with f have "filter (\<lambda>r. rc_kind r = ''cost'') (er_receipts e) = [c]"
    by (cases "filter (\<lambda>r. rc_kind r = ''cost'') (er_receipts e)") auto
  with assms(3,4) show ?thesis by (simp add: execution_cost_def the_item_def item_def)
qed

lemma over_cost_again:
  assumes o: "over_cost s p" and run: "cc_status (controller s) = RUNNING" and r1: "run_one (execution_runtime ad) spec False p s = (u, z)"
  shows "\<not> is_ok z \<and> same_state s u"
proof -
  from o obtain w rs t c x where h: "item_get (pl_plan_id p) (controller s) = Some w" "wi_status w = ''pending''"
    "list_receipts (ex_store (rn_world s)) = Inr rs" "t \<in> set rs" "rc_kind t = ''execution_terminal''" "rc_plan_id t = pl_plan_id p"
    "{r \<in> set rs. rc_plan_id r = pl_plan_id p \<and> rc_kind r = ''cost''} = {c}" "fmlookup (rc_payload c) ''cost_cny'' = Some (JFloat x)"
    "flt (bm_max_cost (cc_budget (controller s))) (fadd (bm_spent_cost (cc_budget (controller s))) x)"
    unfolding over_cost_def by blast
  from again_executed [OF h(1,3-6) r1] show ?thesis
  proof (elim disjE conjE exE)
    fix v e
    assume v: "same_state s v" and set: "set (er_receipts e) = {r \<in> set rs. rc_plan_id r = pl_plan_id p}"
      and m: "obind (record_plan p e) (\<lambda>_. oreturn e) v = (u, z)"
    obtain cc d where cd: "rn_controller v = (cc, d)" by fastforce
    note keeps = same_state_keeps(3) [OF v, unfolded controller_def cd fst_conv, symmetric]
    have "\<exists>er. record_plan p e v = (v, Inl er)"
    proof (cases "execution_cost e")
      case (Inl er)
      then show ?thesis by (simp add: record_plan_def)
    next
      case (Inr y)
      then have y: "y = x" using overspent_cost [OF set h(7,8)] by simp
      obtain er where "budget_record (wi_reserved_cost w) (wi_reserved_calls w) x (execution_model_calls e) (cc_budget cc) = Inl er"
        using over_budget_raises [OF h(9) [unfolded controller_def keeps]]
        by (cases "budget_record (wi_reserved_cost w) (wi_reserved_calls w) x (execution_model_calls e) (cc_budget cc)") auto
      then have "campaign_record (pl_plan_id p) x (execution_model_calls e) (er_status e = ''completed'') (cc, d) = ((cc, d), Inl er)"
        using h(1,2) run by (simp add: campaign_record_def controller_def keeps require_running_def terminal_statuses_def violation_unless_def)
      then show ?thesis using Inr y by (simp add: record_plan_def on_controller_apply cd)
    qed
    then have "u = v" and "\<not> is_ok z" using m by (auto simp: obind_def)
    with v show ?thesis by simp
  qed simp
qed

text \<open>The loop passes over the completed plans and raises at the one that cost too much.\<close>

lemma overspent_loop:
  assumes "list_all (ended_before s) qs" and "over_cost s p" and "cc_status (controller s) = RUNNING"
  shows "\<exists>u er. run_plans (execution_runtime ad) spec False (qs @ p # ps) s = (u, Inl er) \<and> same_state s u"
  using assms
proof (induction qs arbitrary: s)
  case Nil
  obtain u z where u: "run_one (execution_runtime ad) spec False p s = (u, z)" by fastforce
  with over_cost_again [OF Nil(2,3) u] show ?case by (cases z) (auto simp: obind_def)
next
  case (Cons q qs)
  obtain v z where v: "run_one (execution_runtime ad) spec False q s = (v, z)" by fastforce
  with Cons.prems have e: "same_state s v" "\<And>e. z = Inr e \<Longrightarrow> er_status e = ''completed''" using ended_again [OF _ v] by simp_all
  show ?case
  proof (cases z)
    case (Inl er)
    with v e(1) show ?thesis by (auto simp: obind_def)
  next
    case (Inr x)
    note k = same_state_keeps [OF e(1)]
    have "list_all (ended_before v) qs" "over_cost v p" "cc_status (controller v) = RUNNING" using Cons.prems by (simp_all add: k list_all_iff)
    from Cons.IH [OF this] obtain u er where "run_plans (execution_runtime ad) spec False (qs @ p # ps) v = (u, Inl er)" "same_state v u" by blast
    with v Inr e(2) [OF Inr] same_state_trans [OF e(1)] show ?thesis by (auto simp: obind_def)
  qed
qed

lemma overspent_run:
  assumes o: "overspent spec st p s" and run: "runner_run (Some (execution_runtime ad)) True spec st s = (s', q)" and live: "sg_status st \<noteq> NOT_YET_LIVE"
  shows "\<not> is_ok q \<and> same_state s s'"
proof -
  from o obtain pss qs ps where h: "mapM (sg_plan st) (cs_contexts spec) = Inr pss" "concat pss = qs @ p # ps"
    "cc_status (controller s) = RUNNING" "list_all (ended_before s) qs" "over_cost s p"
    unfolding overspent_def by blast
  from run live show ?thesis
  proof (cases rule: runner_run_live)
    case (refused e)
    then show ?thesis by (simp add: same_state_def same_facts_def)
  next
    case (live pss')
    then have p: "pss' = pss" using h(1) by simp
    have start: "start_campaign s = (s, Inr ())" using h(3) by (simp add: start_campaign_def violation_unless_def)
    obtain u er where u: "run_plans (execution_runtime ad) spec False (concat pss) s = (u, Inl er)" "same_state s u"
      using overspent_loop [OF h(4,5,3), of ad spec ps] h(2) by auto
    then have loop: "run_contexts (execution_runtime ad) spec False pss s = (u, Inl er)"
      by (auto simp: run_contexts_flat obind_def split: prod.splits sum.splits)
    from live(3) show ?thesis unfolding p
      by (cases rule: run_live_cases) (use h(3) start loop u(2) in \<open>auto simp: same_state_def same_facts_def\<close>)
  qed
qed

text \<open>C33: A cost that the authorization does not cover leaves a campaign stuck: when a running campaign has completed its plans
  up to some plan, and the runtime has ended that pending plan, the first or a later one, with a cost above what is left, every further run,
  by whatever process, raises without changing the controller or calling an adapter; the campaign never becomes partial and
  the cost is never accounted.\<close>

theorem overspent_campaign_stuck:
  fixes s :: "'w execution runner"
  assumes "overspent spec st p s" and "sg_status st \<noteq> NOT_YET_LIVE"
  shows "rn_controller (reruns ads spec st s) = rn_controller s \<and> same_facts (rn_world s) (rn_world (reruns ads spec st s))
    \<and> \<not> is_ok (snd (runner_run (Some (execution_runtime ad)) True spec st (reruns ads spec st s)))"
proof -
  have over: "overspent spec st p v" if "overspent spec st p u" "same_state u v" for u v :: "'w execution runner"
    using that(1) same_state_keeps [OF that(2)] by (simp add: overspent_def list_all_iff)
  have "same_state s (reruns ads spec st s)" if "overspent spec st p s" for s :: "'w execution runner"
    using that
  proof (induction ads arbitrary: s)
    case Nil
    then show ?case by (simp add: same_state_def same_facts_def)
  next
    case (Cons ad ads)
    have "same_state s (fst (runner_run (Some (execution_runtime ad)) True spec st s))"
      using overspent_run [OF Cons.prems surjective_pairing assms(2)] by blast
    with over [OF Cons.prems this] Cons.IH show ?case by (auto intro: same_state_trans)
  qed
  then have same: "same_state s (reruns ads spec st s)" using assms(1) by blast
  with overspent_run [OF over [OF assms(1) same] surjective_pairing assms(2)] show ?thesis by (simp add: same_state_def)
qed

lemma overspent_campaign_stuck_witness:
  "\<not> is_ok (snd (runner_run (Some (execution_runtime run_adapters)) True run_spec run_strategy (reruns [run_adapters] run_spec run_strategy
     (run_runner ''budget_exhausted'' (Fin 1) (run_controller RUNNING None (run_budget 1 0) [run_item])))))"
proof -
  let ?rs = "ended_receipts [7] ''budget_exhausted'' (Fin 1)"
  have f: "flt (Fin 0) (fadd (Fin 0) (Fin 1))" by code_simp
  have e: "?rs ! Suc 0 \<in> set ?rs" "rc_kind (?rs ! Suc 0) = ''execution_terminal''" "rc_plan_id (?rs ! Suc 0) = ''plan''"
    "{r \<in> set ?rs. rc_plan_id r = ''plan'' \<and> rc_kind r = ''cost''} = {?rs ! Suc (Suc 0)}"
    "fmlookup (rc_payload (?rs ! Suc (Suc 0))) ''cost_cny'' = Some (JFloat (Fin 1))"
    by (auto simp: ended_receipts_def run_receipt_def)
  let ?s = "run_runner ''budget_exhausted'' (Fin 1) (run_controller RUNNING None (run_budget 1 0) [run_item])"
  have "over_cost ?s run_plan"
    unfolding over_cost_def
    by (rule exI [of _ run_item], rule exI [of _ ?rs], rule exI [of _ "?rs ! Suc 0"], rule exI [of _ "?rs ! Suc (Suc 0)"], rule exI [of _ "Fin 1"])
      (use e f ended_list [of "Fin 1" "[7]" "''budget_exhausted''"] in \<open>simp add: run_strategy_def run_spec_def run_runner_def controller_def run_controller_def
        item_get_def run_item_def pending_item_def run_state_def run_budget_def\<close>; simp add: run_plan_def)
  then have "overspent run_spec run_strategy run_plan ?s"
    unfolding overspent_def
    by (intro exI [of _ "[[run_plan]]"] exI [of _ "[]"])
      (simp add: run_strategy_def run_spec_def run_runner_def controller_def run_controller_def)
  moreover have "sg_status run_strategy \<noteq> NOT_YET_LIVE" by (simp add: run_strategy_def)
  ultimately show ?thesis using overspent_campaign_stuck [where ads = "[run_adapters]"] by blast
qed

end
