(* ===== verification/Program_Revision.thy ===== *)
theory Program_Revision
  imports Tournament Bundle
begin

text \<open>
  \<open>src/src/evolve/agent_program/revision.py\<close>: an AgentProgram revision is a directory of four artifacts
  and a manifest with their hashes.  \<open>freeze\<close> writes the files one after the other, the manifest
  last, and loads what it wrote.

  A directory is the map of its files, \<open>None\<close> when the path does not exist; symbolic links are not modelled.
\<close>

section \<open>Revisions\<close>

definition program_artifacts :: "string list" where
  "program_artifacts = [''CAPABILITIES.json'', ''CONTEXT.json'', ''PROGRAM-PROMPT.txt'', ''TOOL-POLICY.json'']"

definition allowed_tools :: "string list" where
  "allowed_tools = [''inspect_workspace'', ''emit_patch'']"

record program_revision =
  pv_root :: string
  pv_program_id :: string
  pv_revision_id :: string
  pv_parent :: "string option"
  pv_prompt :: string
  pv_context :: dict
  pv_tools :: "string list"
  pv_capabilities :: "string list"
  pv_artifacts :: "(string \<times> string) list"
  pv_bundle :: string

definition program_text :: "string \<Rightarrow> json \<Rightarrow> string res" where
  "program_text name j = (case j of JStr s \<Rightarrow> bind (program_unless (\<not> blank s) (name @ '' must be non-empty text'')) (\<lambda>_. Inr s)
     | _ \<Rightarrow> raise AgentProgramViolation (name @ '' must be non-empty text''))"

definition text_items :: "json list \<Rightarrow> string list option" where
  "text_items js = (if list_all is_str js then Some (map py_str js) else None)"

definition check_tools :: "json list \<Rightarrow> string list res" where
  "check_tools js = (case text_items js of
     Some ts \<Rightarrow> bind (program_unless (ts \<noteq> [] \<and> set ts \<subseteq> set allowed_tools \<and> distinct ts) ''AgentProgram tool policy is not allowlisted'') (\<lambda>_. Inr ts)
   | None \<Rightarrow> raise AgentProgramViolation ''AgentProgram tool policy is not allowlisted'')"

definition check_capabilities :: "json list \<Rightarrow> string list res" where
  "check_capabilities js = (case text_items js of
     Some cs \<Rightarrow> bind (program_unless (cs \<noteq> [] \<and> list_all (\<lambda>c. \<not> blank c) cs \<and> distinct cs) ''AgentProgram capabilities are invalid'') (\<lambda>_. Inr cs)
   | None \<Rightarrow> raise AgentProgramViolation ''AgentProgram capabilities are invalid'')"

text \<open>\<open>_validate_projection\<close> over parsed values; it returns the texts it has checked.\<close>

definition validate_projection :: "json \<Rightarrow> json \<Rightarrow> string option \<Rightarrow> string \<Rightarrow> dict \<Rightarrow> json list \<Rightarrow> json list
     \<Rightarrow> (string \<times> string \<times> string list \<times> string list) res" where
  "validate_projection program revision parent prompt context tools capabilities =
     bind (program_text ''program_id'' program) (\<lambda>p.
     bind (program_text ''revision_id'' revision) (\<lambda>r.
     bind (case parent of None \<Rightarrow> Inr () | Some x \<Rightarrow> bind (program_text ''parent_revision_id'' (JStr x)) (\<lambda>x.
       program_unless (x \<noteq> r) ''AgentProgram revision cannot parent itself'')) (\<lambda>_.
     bind (program_text ''program_prompt'' (JStr prompt)) (\<lambda>_.
     bind (program_unless (context \<noteq> fmempty) ''AgentProgram context must be a non-empty object'') (\<lambda>_.
     bind (rewrap (\<lambda>x. x = TypeError \<or> is_value_error x) AgentProgramViolation ''AgentProgram context must be canonical JSON''
       (canonical_json (JObj context))) (\<lambda>_.
     bind (check_tools tools) (\<lambda>ts. bind (check_capabilities capabilities) (\<lambda>cs. Inr (p, r, ts, cs)))))))))"

section \<open>Reading\<close>

text \<open>\<open>read_text\<close>: every line end is read as a line feed.\<close>

fun universal_newlines :: "string \<Rightarrow> string" where
  "universal_newlines [] = []"
| "universal_newlines [c] = [if c = CHR 0x0D then CHR 0x0A else c]"
| "universal_newlines (c # d # s) = (if c = CHR 0x0D then CHR 0x0A # (if d = CHR 0x0A then universal_newlines s else universal_newlines (d # s))
     else c # universal_newlines (d # s))"

definition manifest_fields :: "string list" where
  "manifest_fields = [''schema_version'', ''program_id'', ''revision_id'', ''parent_revision_id'', ''artifacts'']"

definition program_manifest :: "bundle_dir option \<Rightarrow> (dict \<times> string) res" where
  "program_manifest b = (case Option.bind b (\<lambda>d. fmlookup d ''AGENT-PROGRAM.json'') of
     None \<Rightarrow> raise AgentProgramViolation ''AgentProgram revision manifest is unreadable''
   | Some f \<Rightarrow> (case tf_json f of
       None \<Rightarrow> raise AgentProgramViolation ''AgentProgram revision manifest is unreadable''
     | Some (JObj m) \<Rightarrow> bind (program_unless (fmdom' m = set manifest_fields \<and> py_eq (get m ''schema_version'') (JInt 1))
         ''AgentProgram revision manifest is invalid'') (\<lambda>_. Inr (m, file_sha256 f))
     | Some _ \<Rightarrow> raise AgentProgramViolation ''AgentProgram revision manifest is invalid''))"

definition program_file :: "bundle_dir option \<Rightarrow> string \<Rightarrow> text_file option" where
  "program_file b n = Option.bind b (\<lambda>d. fmlookup d n)"

definition program_row :: "bundle_dir option \<Rightarrow> (string \<times> string) list \<Rightarrow> json \<Rightarrow> (string \<times> string) res" where
  "program_row b known j = (case j of JObj e \<Rightarrow>
       if fmdom' e \<noteq> {''path'', ''sha256''} then raise AgentProgramViolation ''AgentProgram artifact entry is invalid''
       else (case get e ''path'' of
         JStr n \<Rightarrow> if n \<notin> set program_artifacts \<or> n \<in> fst ` set known then raise AgentProgramViolation ''AgentProgram artifact set is invalid''
           else (case program_file b n of None \<Rightarrow> raise AgentProgramViolation ''AgentProgram artifact is missing''
             | Some f \<Rightarrow> bind (program_unless (get e ''sha256'' = JStr (file_sha256 f)) ''AgentProgram artifact hash mismatch'') (\<lambda>_. Inr (n, file_sha256 f)))
       | _ \<Rightarrow> raise AgentProgramViolation ''AgentProgram artifact set is invalid'')
     | _ \<Rightarrow> raise AgentProgramViolation ''AgentProgram artifact entry is invalid'')"

fun program_rows :: "bundle_dir option \<Rightarrow> (string \<times> string) list \<Rightarrow> json list \<Rightarrow> (string \<times> string) list res" where
  "program_rows b known [] = Inr known"
| "program_rows b known (j # js) = bind (program_row b known j) (\<lambda>r. program_rows b (known @ [r]) js)"

definition read_rows :: "bundle_dir option \<Rightarrow> dict \<Rightarrow> (string \<times> string) list res" where
  "read_rows b m = (case get m ''artifacts'' of
     JList rows \<Rightarrow> bind (program_unless (length rows = length program_artifacts) ''AgentProgram artifacts are incomplete'') (\<lambda>_.
       bind (program_rows b [] rows) (\<lambda>hs.
       bind (program_unless (fst ` set hs = set program_artifacts) ''AgentProgram artifacts are incomplete'') (\<lambda>_. Inr hs)))
   | _ \<Rightarrow> raise AgentProgramViolation ''AgentProgram artifacts are incomplete'')"

definition program_json :: "bundle_dir option \<Rightarrow> string \<Rightarrow> json res" where
  "program_json b n = (case Option.bind (program_file b n) tf_json of
     None \<Rightarrow> raise AgentProgramViolation ''AgentProgram artifact payload is invalid'' | Some j \<Rightarrow> Inr j)"

definition program_prompt_text :: "bundle_dir option \<Rightarrow> string res" where
  "program_prompt_text b = (case program_file b ''PROGRAM-PROMPT.txt'' of
     None \<Rightarrow> raise AgentProgramViolation ''AgentProgram artifact payload is invalid'' | Some f \<Rightarrow> Inr (universal_newlines (tf_text f)))"

definition load_program :: "string \<Rightarrow> bundle_dir option \<Rightarrow> program_revision res" where
  "load_program root b =
     bind (program_manifest b) (\<lambda>(m, bundle_hash).
     bind (read_rows b m) (\<lambda>hs.
     bind (program_prompt_text b) (\<lambda>prompt.
     bind (program_json b ''CONTEXT.json'') (\<lambda>cj. bind (program_json b ''TOOL-POLICY.json'') (\<lambda>tj. bind (program_json b ''CAPABILITIES.json'') (\<lambda>aj.
     bind (case cj of JObj c \<Rightarrow> Inr c | _ \<Rightarrow> raise AgentProgramViolation ''AgentProgram context must be an object'') (\<lambda>c.
     bind (case (tj, aj) of (JList ts, JList cs) \<Rightarrow> Inr (ts, cs) | _ \<Rightarrow> raise AgentProgramViolation ''AgentProgram policy artifacts must be arrays'') (\<lambda>(ts, cs).
     bind (case get m ''parent_revision_id'' of JNull \<Rightarrow> Inr None | JStr x \<Rightarrow> Inr (Some x)
       | _ \<Rightarrow> raise AgentProgramViolation ''parent_revision_id must be text or null'') (\<lambda>parent.
     bind (validate_projection (get m ''program_id'') (get m ''revision_id'') parent prompt c ts cs) (\<lambda>(p, r, ts, cs).
     Inr \<lparr>pv_root = root, pv_program_id = p, pv_revision_id = r, pv_parent = parent, pv_prompt = prompt, pv_context = c, pv_tools = ts,
       pv_capabilities = cs, pv_artifacts = map (\<lambda>n. (n, the (map_of hs n))) program_artifacts, pv_bundle = bundle_hash\<rparr>))))))))))"

definition artifact_hash :: "program_revision \<Rightarrow> string \<Rightarrow> string res" where
  "artifact_hash v n = (case map_of (pv_artifacts v) n of None \<Rightarrow> raise AgentProgramViolation ''unknown AgentProgram artifact'' | Some h \<Rightarrow> Inr h)"

section \<open>Freezing\<close>

record projection =
  pj_program_id :: string
  pj_revision_id :: string
  pj_parent :: "string option"
  pj_prompt :: string
  pj_context :: dict
  pj_tools :: "string list"
  pj_capabilities :: "string list"

text \<open>The bytes of the artifacts; the prompt is written as it is.\<close>

definition projection_files :: "projection \<Rightarrow> (string \<times> text_file) list res" where
  "projection_files j =
     bind (encoded (JObj (pj_context j))) (\<lambda>c. bind (encoded (str_list (pj_tools j))) (\<lambda>t. bind (encoded (str_list (pj_capabilities j))) (\<lambda>a.
     Inr [(''CAPABILITIES.json'', a), (''CONTEXT.json'', c), (''PROGRAM-PROMPT.txt'', \<lparr>tf_text = pj_prompt j, tf_json = None\<rparr>), (''TOOL-POLICY.json'', t)])))"

definition artifact_row :: "string \<times> text_file \<Rightarrow> json" where
  "artifact_row x = jobj [(''path'', JStr (fst x)), (''sha256'', JStr (file_sha256 (snd x)))]"

definition projection_manifest :: "projection \<Rightarrow> (string \<times> text_file) list \<Rightarrow> text_file res" where
  "projection_manifest j files = encoded (jobj [(''schema_version'', JInt 1), (''program_id'', JStr (pj_program_id j)),
     (''revision_id'', JStr (pj_revision_id j)), (''parent_revision_id'', opt_str (pj_parent j)), (''artifacts'', JList (map artifact_row files))])"

text \<open>\<open>write_file\<close> is one step: a freeze that is stopped leaves the directory with the files written before.\<close>

definition write_file :: "string \<times> text_file \<Rightarrow> (bundle_dir option, unit) op" where
  "write_file x = omodify (map_option (fmupd (fst x) (snd x)))"

fun write_files :: "(string \<times> text_file) list \<Rightarrow> (bundle_dir option, unit) op" where
  "write_files [] = oreturn ()"
| "write_files (x # xs) = obind (write_file x) (\<lambda>_. write_files xs)"

definition begin_freeze :: "projection \<Rightarrow> (bundle_dir option, (string \<times> text_file) list) op" where
  "begin_freeze j = obind (oread (\<lambda>b. program_unless (b = None) ''AgentProgram revision root already exists'')) (\<lambda>c. obind (olift c) (\<lambda>_.
     obind (olift (validate_projection (JStr (pj_program_id j)) (JStr (pj_revision_id j)) (pj_parent j) (pj_prompt j) (pj_context j)
       (map JStr (pj_tools j)) (map JStr (pj_capabilities j)))) (\<lambda>_.
     obind (omodify (\<lambda>_. Some fmempty)) (\<lambda>_.
     obind (olift (projection_files j)) (\<lambda>files.
     obind (olift (projection_manifest j files)) (\<lambda>m. oreturn (files @ [(''AGENT-PROGRAM.json'', m)])))))))"

definition freeze_program :: "string \<Rightarrow> projection \<Rightarrow> (bundle_dir option, program_revision) op" where
  "freeze_program root j = obind (begin_freeze j) (\<lambda>files. obind (write_files files) (\<lambda>_.
     obind (oread (load_program root)) olift))"

text \<open>A freeze that stops after \<open>n\<close> files.\<close>

definition stopped_freeze :: "nat \<Rightarrow> projection \<Rightarrow> bundle_dir option \<Rightarrow> bundle_dir option" where
  "stopped_freeze n j b = (case begin_freeze j b of (b', Inr files) \<Rightarrow> fst (write_files (take n files) b') | (b', Inl e) \<Rightarrow> b')"


text \<open>What \<open>freeze\<close> leaves in the directory, and what \<open>load\<close> makes of it.\<close>

section \<open>Line ends\<close>

lemma universal_newlines_id: "CHR 0x0D \<notin> set s \<Longrightarrow> universal_newlines s = s"
  by (induction s rule: universal_newlines.induct) auto

lemma universal_newlines_no_return: "CHR 0x0D \<notin> set (universal_newlines s)"
  by (induction s rule: universal_newlines.induct) auto

lemma blank_newlines: "blank (universal_newlines s) \<longleftrightarrow> blank s"
  by (induction s rule: universal_newlines.induct) (auto simp: blank_def is_space_def)

section \<open>Checks\<close>

lemma program_unless_eq [res_simps]: "program_unless c m = Inr u \<longleftrightarrow> c"
  by (simp add: program_unless_def require_eq_Inr)

lemma program_unless_simps [simp]: "program_unless True m = Inr ()" "program_unless False m = Inl (Err AgentProgramViolation m)"
  by (simp_all add: program_unless_def)

lemma text_items_texts [simp]: "text_items (map JStr xs) = Some xs"
  by (simp add: text_items_def list_all_iff comp_def)

definition projection_ok :: "projection \<Rightarrow> bool" where
  "projection_ok j \<longleftrightarrow> \<not> blank (pj_program_id j) \<and> \<not> blank (pj_revision_id j)
     \<and> (case pj_parent j of None \<Rightarrow> True | Some x \<Rightarrow> \<not> blank x \<and> x \<noteq> pj_revision_id j) \<and> \<not> blank (pj_prompt j)
     \<and> pj_context j \<noteq> fmempty \<and> finite_json (JObj (pj_context j))
     \<and> pj_tools j \<noteq> [] \<and> set (pj_tools j) \<subseteq> set allowed_tools \<and> distinct (pj_tools j)
     \<and> pj_capabilities j \<noteq> [] \<and> list_all (\<lambda>c. \<not> blank c) (pj_capabilities j) \<and> distinct (pj_capabilities j)"

lemma validate_projection_iff:
  "is_ok (validate_projection (JStr (pj_program_id j)) (JStr (pj_revision_id j)) (pj_parent j) (pj_prompt j) (pj_context j)
     (map JStr (pj_tools j)) (map JStr (pj_capabilities j))) \<longleftrightarrow> projection_ok j"
  by (cases "pj_parent j") (auto simp: is_ok_iff validate_projection_def program_text_def check_tools_def check_capabilities_def
      projection_ok_def canonical_json_def res_simps)

lemma validate_projection_value:
  assumes "validate_projection (JStr p) (JStr r) parent prompt c (map JStr ts) (map JStr cs) = Inr x"
  shows "x = (p, r, ts, cs)"
  using assms by (auto simp: validate_projection_def program_text_def check_tools_def check_capabilities_def res_simps)

lemma validate_projection_newlines:
  "validate_projection p r parent (universal_newlines prompt) c ts cs = validate_projection p r parent prompt c ts cs"
proof -
  have "bind (program_text n (JStr (universal_newlines prompt))) (\<lambda>_. k) = bind (program_text n (JStr prompt)) (\<lambda>_. k)"
    for n and k :: "(string \<times> string \<times> string list \<times> string list) res"
    by (simp add: program_text_def program_unless_def require_def blank_newlines)
  then show ?thesis by (simp only: validate_projection_def)
qed

section \<open>The directory\<close>

lemma write_files_eq: "write_files xs (Some d) = (Some (d ++\<^sub>f fmap_of_list (rev xs)), Inr ())"
proof (induction xs arbitrary: d)
  case (Cons x xs)
  have "fmupd (fst x) (snd x) d ++\<^sub>f fmap_of_list (rev xs) = d ++\<^sub>f fmap_of_list (rev xs @ [x])"
    by (intro fmap_ext) (auto simp: fmlookup_of_list map_of_append map_add_def split: option.split)
  with Cons show ?case by (simp add: write_file_def)
qed simp

definition projection_dir :: "projection \<Rightarrow> (string \<times> text_file) list" where
  "projection_dir j = [(''CAPABILITIES.json'', \<lparr>tf_text = json_text (str_list (pj_capabilities j)) @ [CHR 0x0A], tf_json = Some (str_list (pj_capabilities j))\<rparr>),
     (''CONTEXT.json'', \<lparr>tf_text = json_text (JObj (pj_context j)) @ [CHR 0x0A], tf_json = Some (JObj (pj_context j))\<rparr>),
     (''PROGRAM-PROMPT.txt'', \<lparr>tf_text = pj_prompt j, tf_json = None\<rparr>),
     (''TOOL-POLICY.json'', \<lparr>tf_text = json_text (str_list (pj_tools j)) @ [CHR 0x0A], tf_json = Some (str_list (pj_tools j))\<rparr>)]"

definition manifest_json :: "projection \<Rightarrow> json" where
  "manifest_json j = jobj [(''schema_version'', JInt 1), (''program_id'', JStr (pj_program_id j)),
     (''revision_id'', JStr (pj_revision_id j)), (''parent_revision_id'', opt_str (pj_parent j)), (''artifacts'', JList (map artifact_row (projection_dir j)))]"

definition manifest_file :: "projection \<Rightarrow> text_file" where
  "manifest_file j = \<lparr>tf_text = json_text (manifest_json j) @ [CHR 0x0A], tf_json = Some (manifest_json j)\<rparr>"

lemma manifest_finite: "finite_json (manifest_json j)"
proof -
  have "finite_json (artifact_row x)" for x unfolding artifact_row_def by (rule finite_jobj) simp
  moreover have "finite_json (opt_str p)" for p by (cases p) simp_all
  ultimately show ?thesis unfolding manifest_json_def by (intro finite_jobj) (simp add: projection_dir_def)
qed

lemma begin_freeze_ok:
  assumes "projection_ok j"
  shows "begin_freeze j None = (Some fmempty, Inr (projection_dir j @ [(''AGENT-PROGRAM.json'', manifest_file j)]))"
proof -
  obtain x where v: "validate_projection (JStr (pj_program_id j)) (JStr (pj_revision_id j)) (pj_parent j) (pj_prompt j) (pj_context j)
     (map JStr (pj_tools j)) (map JStr (pj_capabilities j)) = Inr x"
    using assms validate_projection_iff [of j] by (auto simp: is_ok_iff)
  have "finite_json (str_list xs)" for xs by (simp add: str_list_def list_all_iff)
  then have e: "encoded (str_list xs) = Inr \<lparr>tf_text = json_text (str_list xs) @ [CHR 0x0A], tf_json = Some (str_list xs)\<rparr>" for xs
    by (simp add: encoded_def canonical_json_def)
  have f: "projection_files j = Inr (projection_dir j)"
    using assms by (simp add: projection_files_def e projection_dir_def encoded_def [of "JObj _"] canonical_json_def projection_ok_def del: json_text.simps)
  have "projection_manifest j (projection_dir j) = Inr (manifest_file j)"
    using manifest_finite [of j] by (simp add: projection_manifest_def manifest_json_def [symmetric] encoded_def canonical_json_def manifest_file_def)
  then show ?thesis by (simp add: begin_freeze_def v f)
qed

definition frozen_dir :: "projection \<Rightarrow> bundle_dir" where
  "frozen_dir j = fmap_of_list (rev (projection_dir j @ [(''AGENT-PROGRAM.json'', manifest_file j)]))"

definition frozen_program :: "string \<Rightarrow> projection \<Rightarrow> program_revision" where
  "frozen_program root j = \<lparr>pv_root = root, pv_program_id = pj_program_id j, pv_revision_id = pj_revision_id j, pv_parent = pj_parent j,
     pv_prompt = universal_newlines (pj_prompt j), pv_context = pj_context j, pv_tools = pj_tools j, pv_capabilities = pj_capabilities j,
     pv_artifacts = map (\<lambda>(n, f). (n, file_sha256 f)) (projection_dir j), pv_bundle = file_sha256 (manifest_file j)\<rparr>"

lemma frozen_lookup:
  "fmlookup (frozen_dir j) ''AGENT-PROGRAM.json'' = Some (manifest_file j)"
  "(n, f) \<in> set (projection_dir j) \<Longrightarrow> fmlookup (frozen_dir j) n = Some f"
  by (auto simp: frozen_dir_def projection_dir_def fmlookup_of_list)

lemma load_frozen:
  assumes "projection_ok j"
  shows "load_program root (Some (frozen_dir j)) = Inr (frozen_program root j)"
proof -
  obtain x where "validate_projection (JStr (pj_program_id j)) (JStr (pj_revision_id j)) (pj_parent j) (pj_prompt j) (pj_context j)
     (map JStr (pj_tools j)) (map JStr (pj_capabilities j)) = Inr x"
    using assms validate_projection_iff [of j] by (auto simp: is_ok_iff)
  then have v: "validate_projection (JStr (pj_program_id j)) (JStr (pj_revision_id j)) (pj_parent j) (universal_newlines (pj_prompt j)) (pj_context j)
     (map JStr (pj_tools j)) (map JStr (pj_capabilities j)) = Inr (pj_program_id j, pj_revision_id j, pj_tools j, pj_capabilities j)"
    using validate_projection_value by (fastforce simp: validate_projection_newlines)
  obtain m where m: "manifest_json j = JObj m" "fmdom' m = set manifest_fields" "get m ''schema_version'' = JInt 1" "get m ''program_id'' = JStr (pj_program_id j)"
    "get m ''revision_id'' = JStr (pj_revision_id j)" "get m ''parent_revision_id'' = opt_str (pj_parent j)"
    "get m ''artifacts'' = JList (map artifact_row (projection_dir j))"
    by (auto simp: manifest_json_def jobj_def manifest_fields_def get_def)
  have man: "program_manifest (Some (frozen_dir j)) = Inr (m, file_sha256 (manifest_file j))"
    by (simp add: program_manifest_def frozen_lookup(1)) (simp add: manifest_file_def m)
  have row: "program_row (Some (frozen_dir j)) known (artifact_row (n, f)) = Inr (n, file_sha256 f)"
    if "(n, f) \<in> set (projection_dir j)" "n \<notin> fst ` set known" for n f known
  proof -
    have "n \<in> set program_artifacts" using that(1) by (auto simp: projection_dir_def program_artifacts_def)
    then show ?thesis using that by (auto simp: program_row_def artifact_row_def jobj_def program_file_def frozen_lookup(2) get_def)
  qed
  have "program_rows (Some (frozen_dir j)) [] (map artifact_row (projection_dir j)) = Inr (map (\<lambda>(n, f). (n, file_sha256 f)) (projection_dir j))"
    using row by (simp add: projection_dir_def)
  then have rows: "read_rows (Some (frozen_dir j)) m = Inr (map (\<lambda>(n, f). (n, file_sha256 f)) (projection_dir j))"
    by (simp add: read_rows_def m) (auto simp: projection_dir_def program_artifacts_def)
  have files: "program_file (Some (frozen_dir j)) ''PROGRAM-PROMPT.txt'' = Some \<lparr>tf_text = pj_prompt j, tf_json = None\<rparr>"
    "program_json (Some (frozen_dir j)) ''CONTEXT.json'' = Inr (JObj (pj_context j))"
    "program_json (Some (frozen_dir j)) ''TOOL-POLICY.json'' = Inr (str_list (pj_tools j))"
    "program_json (Some (frozen_dir j)) ''CAPABILITIES.json'' = Inr (str_list (pj_capabilities j))"
    by (simp_all add: program_file_def program_json_def frozen_lookup(2) [of "''PROGRAM-PROMPT.txt''"] frozen_lookup(2) [of "''CONTEXT.json''"]
        frozen_lookup(2) [of "''TOOL-POLICY.json''"] frozen_lookup(2) [of "''CAPABILITIES.json''"] projection_dir_def)
  have par: "(case opt_str (pj_parent j) of JNull \<Rightarrow> Inr None | JStr x \<Rightarrow> Inr (Some x) | _ \<Rightarrow> raise AgentProgramViolation ''parent_revision_id must be text or null'') = Inr (pj_parent j)"
    by (cases "pj_parent j") simp_all
  have hs: "map (\<lambda>n. (n, the (map_of (map (\<lambda>(n, f). (n, file_sha256 f)) (projection_dir j)) n))) program_artifacts = map (\<lambda>(n, f). (n, file_sha256 f)) (projection_dir j)"
    by (simp add: projection_dir_def program_artifacts_def)
  show ?thesis
    by (simp add: load_program_def man rows program_prompt_text_def files m(4-6) par)
      (simp add: str_list_def v hs frozen_program_def)
qed

lemma freeze_ok:
  assumes "projection_ok j"
  shows "freeze_program root j None = (Some (frozen_dir j), Inr (frozen_program root j))"
  by (simp add: freeze_program_def obind_Inr [where m = "begin_freeze j" and s = None, OF begin_freeze_ok [OF assms]]
      obind_Inr [where m = "write_files (projection_dir j @ [(''AGENT-PROGRAM.json'', manifest_file j)])" and s = "Some fmempty", OF write_files_eq])
    (use load_frozen [OF assms, of root] in \<open>simp add: frozen_dir_def\<close>)

lemma freeze_invalid: "\<not> projection_ok j \<Longrightarrow> \<not> is_ok (snd (freeze_program root j b))"
  using validate_projection_iff [of j] by (auto simp: freeze_program_def begin_freeze_def obind_def olift_def is_ok_iff split: sum.splits prod.splits)

text \<open>C34: Freezing an AgentProgram under a path that does not exist succeeds exactly for an admissible projection: the directory then
  loads back with the identities, context, tools and capabilities that were frozen, and with the prompt as text mode reads it,
  which is the frozen prompt exactly when that holds no carriage return.\<close>

theorem freeze_loads_back:
  "if projection_ok j
   then freeze_program root j None = (Some (frozen_dir j), Inr (frozen_program root j))
     \<and> load_program root (Some (frozen_dir j)) = Inr (frozen_program root j)
     \<and> (pv_prompt (frozen_program root j) = pj_prompt j \<longleftrightarrow> CHR 0x0D \<notin> set (pj_prompt j))
   else \<not> is_ok (snd (freeze_program root j None))"
  using freeze_ok [of j root] load_frozen [of j root] freeze_invalid [of j root None]
    universal_newlines_id [of "pj_prompt j"] universal_newlines_no_return [of "pj_prompt j"]
  by (auto simp: frozen_program_def)

section \<open>A freeze that stops\<close>

lemma stopped_without_manifest:
  assumes "projection_ok j" and "n \<le> 4"
  shows "\<exists>d. stopped_freeze n j None = Some d \<and> fmlookup d ''AGENT-PROGRAM.json'' = None"
proof -
  have "take n (projection_dir j @ [(''AGENT-PROGRAM.json'', manifest_file j)]) = take n (projection_dir j)"
    using assms(2) take_append [of n "projection_dir j"] by (simp add: projection_dir_def del: json_text.simps take_append)
  then have "stopped_freeze n j None = Some (fmap_of_list (rev (take n (projection_dir j))))"
    by (simp add: stopped_freeze_def begin_freeze_ok [OF assms(1)] write_files_eq)
  moreover have "''AGENT-PROGRAM.json'' \<notin> fst ` set (take n (projection_dir j))"
    by (auto simp: projection_dir_def dest: in_set_takeD)
  ultimately show ?thesis by (simp add: fmlookup_of_list map_of_eq_None_iff)
qed

text \<open>A freeze that stops before its manifest leaves a path that can be neither loaded nor frozen again.\<close>

theorem stopped_freeze_blocks_path:
  assumes "projection_ok j" and "n \<le> 4"
  shows "load_program root (stopped_freeze n j None) = Inl (Err AgentProgramViolation ''AgentProgram revision manifest is unreadable'')
    \<and> freeze_program root k (stopped_freeze n j None) = (stopped_freeze n j None, Inl (Err AgentProgramViolation ''AgentProgram revision root already exists''))"
  using stopped_without_manifest [OF assms]
  by (auto simp: load_program_def program_manifest_def raise_def freeze_program_def begin_freeze_def obind_def)

definition demo_projection :: projection where
  "demo_projection = \<lparr>pj_program_id = ''p'', pj_revision_id = ''r1'', pj_parent = Some ''r0'', pj_prompt = ''fix it'',
     pj_context = fmap_of_list [(''fixture_score'', JInt 1)], pj_tools = [''emit_patch''], pj_capabilities = [''c1'']\<rparr>"

lemma stopped_freeze_blocks_path_witness:
  "load_program ''d'' (stopped_freeze 2 demo_projection None) = Inl (Err AgentProgramViolation ''AgentProgram revision manifest is unreadable'')"
proof -
  have "projection_ok demo_projection" by code_simp
  then show ?thesis using stopped_freeze_blocks_path [of demo_projection 2 "''d''"] by simp
qed

end
