(* ===== verification/Program_Search.thy ===== *)
theory Program_Search
  imports Program_Revision Strategy
begin

text \<open>
  \<open>src/src/evolve/agent_program/fixture.py\<close> and \<open>src/src/evolve/strategies/agent_program.py\<close>: the model
  transport that needs no model, and the strategy that plans a tournament of AgentProgram
  revisions and advises on the search parent.

  Paths are resolved names; \<open>program_files\<close> is what is under them.  The participants of a live decision are texts.
\<close>

record program_files =
  fs_dir :: "string \<Rightarrow> bundle_dir option"
  fs_store :: "string \<Rightarrow> receipt_store option"
  fs_graph :: "string \<Rightarrow> evidence_graph option"

section \<open>The fixture transport\<close>

definition check_fixture_roots :: "(string \<times> string) list \<Rightarrow> unit res" where
  "check_fixture_roots roots = all_checks
     [program_unless (roots \<noteq> []) ''fixture transport requires program revisions'',
      program_unless (list_all (\<lambda>(i, p). \<not> blank i) roots) ''fixture revision identities are invalid'']"

definition program_hashes :: "program_revision \<Rightarrow> (string \<times> json) list res" where
  "program_hashes v =
     bind (artifact_hash v ''PROGRAM-PROMPT.txt'') (\<lambda>p. bind (artifact_hash v ''CONTEXT.json'') (\<lambda>c.
     bind (artifact_hash v ''TOOL-POLICY.json'') (\<lambda>t. bind (artifact_hash v ''CAPABILITIES.json'') (\<lambda>a.
     Inr [(''program_bundle_sha256'', JStr (pv_bundle v)), (''program_prompt_sha256'', JStr p), (''program_context_sha256'', JStr c),
          (''program_tool_policy_sha256'', JStr t), (''program_capabilities_sha256'', JStr a)]))))"

definition finite_score :: "json \<Rightarrow> pyfloat res" where
  "finite_score j = bind (case j of
       JInt i \<Rightarrow> bind (require (finite_float (float_of_int i)) OverflowError ''int too large to convert to float'') (\<lambda>_. Inr (float_of_int i))
     | JFloat f \<Rightarrow> Inr f
     | _ \<Rightarrow> raise AgentProgramViolation ''fixture_score must be finite numeric data'') (\<lambda>f.
     bind (program_unless (finite_float f) ''fixture_score must be finite numeric data'') (\<lambda>_. Inr f))"

definition fixture_projection :: "program_revision \<Rightarrow> execution_plan \<Rightarrow> (string \<times> json) list" where
  "fixture_projection v p =
     [(''program_id'', JStr (pv_program_id v)), (''revision_id'', JStr (pv_revision_id v)), (''parent_revision_id'', opt_str (pv_parent v)),
      (''program_prompt'', JStr (pv_prompt v)), (''program_context'', JObj (pv_context v)), (''program_tool_policy'', str_list (pv_tools v)),
      (''program_capability_revision_ids'', str_list (pv_capabilities v)), (''task_revision_id'', JStr (tr_revision_id (pl_task p))),
      (''task_source_sha256'', JStr (tr_source_sha256 (pl_task p)))]"

definition fixture_patch :: "string \<Rightarrow> string" where
  "fixture_patch h = ''diff --git a/FIXTURE-AGENT-PROGRAM.txt b/FIXTURE-AGENT-PROGRAM.txt'' @ [CHR 0x0A] @ ''new file mode 100644'' @ [CHR 0x0A]
     @ ''--- /dev/null'' @ [CHR 0x0A] @ ''+++ b/FIXTURE-AGENT-PROGRAM.txt'' @ [CHR 0x0A] @ ''@@ -0,0 +1 @@'' @ [CHR 0x0A] @ ''+'' @ h @ [CHR 0x0A]"

definition fixture_infer :: "(string \<times> string) list \<Rightarrow> program_files \<Rightarrow> execution_plan \<Rightarrow> dict \<Rightarrow> dict res" where
  "fixture_infer roots fs p workspace =
     bind (program_unless (tr_cohort (pl_task p) = FEEDBACK) ''fixture AgentProgram is feedback-only'') (\<lambda>_.
     bind (program_unless (meta p ''execution_profile'' = JStr ''fixture'') ''fixture execution profile is missing'') (\<lambda>_.
     bind (case map_of roots (pl_candidate_revision_id p) of None \<Rightarrow> raise AgentProgramViolation ''planned AgentProgram revision is unavailable''
       | Some root \<Rightarrow> load_program root (fs_dir fs root)) (\<lambda>v.
     bind (program_unless (pv_revision_id v = pl_candidate_revision_id p) ''planned AgentProgram revision identity drift'') (\<lambda>_.
     bind (program_hashes v) (\<lambda>hs.
     bind (all_checks (map (\<lambda>(n, h). program_unless (meta p n = h) (''planned '' @ n @ '' identity drift'')) hs)) (\<lambda>_.
     bind (program_unless (get workspace ''task_revision_id'' = JStr (tr_revision_id (pl_task p))) ''fixture workspace task identity drift'') (\<lambda>_.
     bind (program_unless (get workspace ''task_source_sha256'' = JStr (tr_source_sha256 (pl_task p))) ''fixture workspace source identity drift'') (\<lambda>_.
     bind (finite_score (get (pv_context v) ''fixture_score'')) (\<lambda>s.
     bind (content_sha256 (jobj (fixture_projection v p))) (\<lambda>h. let patch = fixture_patch h; ph = sha256_hex (utf8 patch) in
     Inr (fmap_of_list (fixture_projection v p) ++\<^sub>f fmap_of_list ([(''execution_scope'', JStr ''fixture'')] @ hs
       @ [(''program_projection_sha256'', JStr h), (''fixture_score'', JFloat s), (''patch'', JStr patch), (''patch_sha256'', JStr ph),
          (''prediction_sha256'', JStr ph), (''input_tokens'', JInt 0), (''output_tokens'', JInt 0), (''cost_cny'', JInt 0),
          (''network_calls'', JInt 0)]))))))))))))"

section \<open>Planning a tournament\<close>

datatype search_profile = Unprofiled | Fixture | Live

fun profile_json :: "search_profile \<Rightarrow> json" where
  "profile_json Unprofiled = JNull" | "profile_json Fixture = JStr ''fixture''" | "profile_json Live = JStr ''live''"

definition search_required :: "search_profile \<Rightarrow> string list" where
  "search_required pr = [''parent_revision_id'', ''candidate_revision_ids'', ''tournament_id'']
     @ (if pr = Unprofiled then [] else [''execution_profile'', ''revision_roots''])
     @ (if pr = Live then [''claim_evidence_graph_root'', ''claim_receipt_store_root''] else [])"

definition candidate_ids_input :: "strategy_context \<Rightarrow> string list res" where
  "candidate_ids_input c = (case fmlookup (sc_inputs c) ''candidate_revision_ids'' of
     Some (TupleOf js) \<Rightarrow> (case text_items js of Some ts \<Rightarrow> Inr ts | None \<Rightarrow> raise StrategyViolation ''candidate_revision_ids must be a tuple of text'')
   | _ \<Rightarrow> raise StrategyViolation ''candidate_revision_ids must be a tuple of text'')"

definition load_revisions :: "program_files \<Rightarrow> strategy_context \<Rightarrow> search_profile \<Rightarrow> string \<Rightarrow> string list \<Rightarrow> (string \<times> program_revision) list res" where
  "load_revisions fs c pr parent cands =
     bind (strategy_unless (fmlookup (sc_inputs c) ''execution_profile'' = Some (Plain (profile_json pr))) ''AgentProgram execution profile identity mismatch'') (\<lambda>_.
     bind (case fmlookup (sc_inputs c) ''revision_roots'' of Some (Plain (JObj d)) \<Rightarrow> Inr d | _ \<Rightarrow> raise StrategyViolation ''revision_roots must be a mapping'') (\<lambda>roots.
     bind (strategy_unless (fmdom' roots = set (parent # cands)) ''AgentProgram revision roots are incomplete'') (\<lambda>_.
     bind (mapM (\<lambda>i. let root = py_str (get roots i) in bind (rewrap (\<lambda>x. x = AgentProgramViolation) StrategyViolation ''AgentProgram revision is invalid''
       (load_program root (fs_dir fs root))) (\<lambda>v. Inr (i, v))) (parent # cands)) (\<lambda>vs.
     bind (strategy_unless (list_all (\<lambda>(i, v). pv_revision_id v = i) vs) ''AgentProgram revision root identity mismatch'') (\<lambda>_.
     bind (strategy_unless (list_all (\<lambda>(i, v). pv_program_id v = pv_program_id (snd (hd vs))) vs) ''tournament mixes AgentPrograms'') (\<lambda>_.
     bind (strategy_unless (list_all (\<lambda>i. map_option pv_parent (map_of vs i) = Some (Some parent)) cands) ''candidate parent lineage mismatch'') (\<lambda>_.
     Inr vs)))))))"

definition search_metadata :: "string \<Rightarrow> string \<Rightarrow> dict \<Rightarrow> search_profile \<Rightarrow> string \<Rightarrow> (string \<times> program_revision) list \<Rightarrow> nat \<times> string \<Rightarrow> dict res" where
  "search_metadata tid parent generation pr config vs x = (let k = fst x; base = fmap_of_list [(''tournament_id'', JStr tid),
       (''parent_revision_id'', if k = 0 then JNull else JStr parent), (''dag_position'', JInt (int k)), (''generation_config'', JObj generation)] in
     if pr = Unprofiled then Inr base
     else (case map_of vs (snd x) of None \<Rightarrow> raise KeyError (snd x)
       | Some v \<Rightarrow> bind (program_hashes v) (\<lambda>hs. Inr (base ++\<^sub>f fmap_of_list ([(''execution_profile'', profile_json pr)] @ hs
           @ [(''tournament_config_sha256'', JStr config)])))))"

definition search_plans :: "strategy_context \<Rightarrow> string \<Rightarrow> string list \<Rightarrow> string \<Rightarrow> dict \<Rightarrow> (string \<times> program_revision) list \<Rightarrow> search_profile
     \<Rightarrow> execution_plan list res" where
  "search_plans c parent cands tid generation vs pr =
     bind (strategy_unless (tr_cohort (sc_task c) = FEEDBACK) ''AgentProgram search is restricted to feedback tasks'') (\<lambda>_.
     bind (strategy_unless (cands \<noteq> []) ''tournament requires at least one candidate'') (\<lambda>_.
     bind (strategy_unless (distinct (parent # cands)) ''tournament revisions must be unique'') (\<lambda>_.
     bind (content_sha256 (jobj [(''tournament_id'', JStr tid), (''parent_revision_id'', JStr parent), (''candidate_revision_ids'', str_list cands),
       (''generation_config'', JObj generation), (''execution_profile'', profile_json pr)])) (\<lambda>config.
     mapM (\<lambda>(k, i). bind (short_plan_id [sc_campaign_id c, tr_revision_id (sc_task c), tid, i]) (\<lambda>n.
       bind (search_metadata tid parent generation pr config vs (k, i)) (\<lambda>md.
       plan_in ''agent-program-search-v3'' c n i (if k = 0 then ''search-parent'' else ''candidate'') md))) (enumerate 0 (parent # cands))))))"

definition search_plan :: "program_files \<Rightarrow> search_profile \<Rightarrow> strategy_context \<Rightarrow> execution_plan list res" where
  "search_plan fs pr c =
     bind (check_inputs ''agent search inputs invalid'' (search_required pr) [''generation_config''] c) (\<lambda>_.
     bind (candidate_ids_input c) (\<lambda>cands.
     bind (mapping_input ''generation_config'' c) (\<lambda>generation.
     let parent = input_text ''parent_revision_id'' c in
     bind (if pr = Unprofiled then Inr [] else load_revisions fs c pr parent cands) (\<lambda>vs.
     search_plans c parent cands (input_text ''tournament_id'' c) generation vs pr))))"

definition search_build_plans :: "program_files \<Rightarrow> search_profile \<Rightarrow> strategy_context \<Rightarrow> string \<Rightarrow> string list \<Rightarrow> string \<Rightarrow> dict
     \<Rightarrow> string option \<Rightarrow> dict \<Rightarrow> execution_plan list res" where
  "search_build_plans fs pr c parent cands tid generation profile roots = (let c = c\<lparr>sc_phase := EXPERIMENT, sc_inputs := fmap_of_list
       ([(''parent_revision_id'', Plain (JStr parent)), (''candidate_revision_ids'', TupleOf (map JStr cands)),
         (''tournament_id'', Plain (JStr tid)), (''generation_config'', Plain (JObj generation))]
        @ (case profile of None \<Rightarrow> [] | Some x \<Rightarrow> [(''execution_profile'', Plain (JStr x)), (''revision_roots'', Plain (JObj roots))]))\<rparr> in
     bind (check_context c) (\<lambda>_. search_plan fs pr c))"

section \<open>Interpretation\<close>

definition live_kinds :: "string list" where
  "live_kinds = [''workspace'', ''model'', ''native_evaluation'', ''execution_terminal'']"

definition live_observations :: "execution_plan list \<Rightarrow> receipt list \<Rightarrow> dict" where
  "live_observations ps rs = (let own = (\<lambda>i. filter (\<lambda>r. rc_plan_id r = i) rs) in fmap_of_list
     [(''execution_scope'', JStr ''live''), (''participant_revision_ids'', str_list (map pl_candidate_revision_id ps)),
      (''complete_plan_ids'', str_list (filter (\<lambda>i. set live_kinds \<subseteq> rc_kind ` set (own i)) (map pl_plan_id ps))),
      (''plan_receipt_counts'', jobj (map (\<lambda>i. (i, JInt (int (length (own i))))) (map pl_plan_id ps)))])"

definition search_interpret :: "program_files \<Rightarrow> search_profile \<Rightarrow> interpreted \<Rightarrow> strategy_result res" where
  "search_interpret fs pr x = bind (interpretation_inputs x) (\<lambda>(i, rs).
     bind (case (pr, x) of (Live, InContext c _) \<Rightarrow>
         bind (search_plan fs pr c) (\<lambda>ps.
         bind (strategy_unless (rc_plan_id ` set rs \<subseteq> pl_plan_id ` set ps) ''live tournament receipt does not match a planned participant'') (\<lambda>_.
         Inr (live_observations ps rs)))
       | _ \<Rightarrow> Inr (fmap_of_list [(''tournament_receipt_count'', JInt (int (length rs)))])) (\<lambda>seen.
     Inr \<lparr>sr_strategy_id = ''agent-program-search-v3'', sr_campaign_id = i, sr_receipt_ids = map rc_receipt_id rs, sr_observations = seen\<rparr>))"

section \<open>The next action\<close>

definition search_status :: "search_profile \<Rightarrow> strategy_status" where
  "search_status pr = (if pr = Unprofiled then NOT_YET_LIVE else LIVE)"

definition search_advice :: "search_profile \<Rightarrow> string \<Rightarrow> string \<Rightarrow> claim list \<Rightarrow> strategy_decision" where
  "search_advice pr action reason cls = advisory_decision ''agent-program-search-v3'' (search_status pr) action reason cls"

definition fixture_next_action :: "strategy_context \<Rightarrow> claim list \<Rightarrow> tournament_decision option \<Rightarrow> strategy_decision res" where
  "fixture_next_action c cls d =
     bind (strategy_unless (cls = []) ''fixture tournament cannot consume gain claims'') (\<lambda>_. case d of
       None \<Rightarrow> Inr (search_advice Fixture ''await-tournament-decision'' ''fixture executions require a hash-bound tournament decision'' [])
     | Some d \<Rightarrow> bind (strategy_unless (td_scope d = ''fixture'' \<and> fmlookup (sc_inputs c) ''tournament_id'' = Some (Plain (JStr (td_tournament_id d)))
           \<and> fmlookup (sc_inputs c) ''parent_revision_id'' = Some (Plain (JStr (td_parent d)))
           \<and> fmlookup (sc_inputs c) ''candidate_revision_ids'' = Some (TupleOf (map JStr (tl (td_participants d)))))
           ''fixture tournament decision identity mismatch'') (\<lambda>_.
         Inr (search_advice Fixture (if td_advanced d then ''advance-search-parent'' else ''retain-search-parent'')
           (''decision='' @ td_sha256 d @ '';winner='' @ td_winner d @ '';scope=fixture;native_gain_claimed=false'') [])))"

text \<open>The participants of a live decision: \<open>tuple()\<close> of an input that may be absent.\<close>

definition live_participants :: "strategy_context \<Rightarrow> string list res" where
  "live_participants c = (case fmlookup (sc_inputs c) ''candidate_revision_ids'' of
       None \<Rightarrow> Inr [input_text ''parent_revision_id'' c]
     | Some v \<Rightarrow> (case input_json v of JList js \<Rightarrow> (case text_items js of Some ts \<Rightarrow> Inr (input_text ''parent_revision_id'' c # ts)
         | None \<Rightarrow> raise TypeError ''participants are not texts'') | _ \<Rightarrow> raise TypeError ''participants are not texts''))"

definition root_input :: "strategy_context \<Rightarrow> string \<Rightarrow> string option" where
  "root_input c k = (case fmlookup (sc_inputs c) k of Some (Plain (JStr s)) \<Rightarrow> if blank s then None else Some s | _ \<Rightarrow> None)"

text \<open>The plan's own evidence of a claim: every envelope and receipt is of the plan, with one native evaluation.\<close>

definition claim_envelopes :: "evidence_envelope list \<Rightarrow> claim \<Rightarrow> evidence_envelope option list" where
  "claim_envelopes es c = map (evidence_by_id es) (cl_evidence_ids c)"

definition envelope_of_plan :: "receipt list \<Rightarrow> execution_plan \<Rightarrow> evidence_envelope option \<Rightarrow> bool" where
  "envelope_of_plan rs p x = (case x of None \<Rightarrow> False | Some e \<Rightarrow> ev_grade e \<noteq> E0 \<and> get (ev_payload e) ''plan_id'' = JStr (pl_plan_id p)
     \<and> ev_receipt_ids e \<noteq> [] \<and> list_all (\<lambda>i. case receipt_by_id rs i of None \<Rightarrow> False | Some r \<Rightarrow> rc_plan_id r = pl_plan_id p) (ev_receipt_ids e))"

definition native_of :: "receipt list \<Rightarrow> evidence_envelope option list \<Rightarrow> receipt list" where
  "native_of rs xs = filter (\<lambda>r. rc_kind r = ''native_evaluation'') (List.map_filter (receipt_by_id rs)
     (remdups (concat (map (\<lambda>x. case x of None \<Rightarrow> [] | Some e \<Rightarrow> ev_receipt_ids e) xs))))"

definition model_lineage :: "receipt list \<Rightarrow> execution_plan \<Rightarrow> receipt \<Rightarrow> bool" where
  "model_lineage rs p n = (case get (rc_payload n) ''model_receipt_id'' of JStr i \<Rightarrow> (case receipt_by_id rs i of None \<Rightarrow> False
     | Some m \<Rightarrow> let y = rc_payload m; r = get y ''revision_id''; k = get y ''candidate_revision_id''; own = JStr (pl_candidate_revision_id p) in
         rc_kind m = ''model'' \<and> rc_plan_id m = pl_plan_id p \<and> get (rc_payload n) ''model_artifact_sha256'' = JStr (rc_artifact_sha256 m)
         \<and> same_value (get y ''program_bundle_sha256'') (meta p ''program_bundle_sha256'')
         \<and> \<not> (r = JNull \<and> k = JNull) \<and> (r = JNull \<or> r = own) \<and> (k = JNull \<or> k = own))
   | _ \<Rightarrow> False)"

definition claim_of_plan :: "evidence_envelope list \<Rightarrow> receipt list \<Rightarrow> execution_plan list \<Rightarrow> claim \<Rightarrow> bool" where
  "claim_of_plan es rs ps c = (case find (\<lambda>p. pl_candidate_revision_id p = cl_candidate_id c) (rev ps) of None \<Rightarrow> False
     | Some p \<Rightarrow> let xs = claim_envelopes es c in cl_evidence_ids c \<noteq> [] \<and> list_all (envelope_of_plan rs p) xs
         \<and> (case native_of rs xs of [n] \<Rightarrow> model_lineage rs p n | _ \<Rightarrow> False))"

definition bound_claims :: "program_files \<Rightarrow> strategy_context \<Rightarrow> claim list \<Rightarrow> receipt_store \<Rightarrow> evidence_graph \<Rightarrow> bool res" where
  "bound_claims fs c cls st g =
     bind (graph_rebuild st g) (\<lambda>g. bind (latest_claims g) (\<lambda>stored.
     if sort_key cl_claim_id stored \<noteq> cls then Inr False
     else bind (list_evidence g) (\<lambda>es. bind (list_receipts st) (\<lambda>rs. bind (search_plan fs Live c) (\<lambda>ps.
       Inr (list_all (claim_of_plan es rs ps) cls))))))"

definition caught_as_unbound :: "exn \<Rightarrow> bool" where
  "caught_as_unbound x \<longleftrightarrow> is_value_error x \<or> x = IntegrityError \<or> x = ReceiptConflict"

definition claims_bound :: "program_files \<Rightarrow> strategy_context \<Rightarrow> claim list \<Rightarrow> bool res" where
  "claims_bound fs c cls = (case (root_input c ''claim_evidence_graph_root'', root_input c ''claim_receipt_store_root'') of
     (Some gr, Some sr) \<Rightarrow> (case (fs_graph fs gr, fs_store fs sr) of
       (Some g, Some st) \<Rightarrow> (case bound_claims fs c cls st g of Inl e \<Rightarrow> if caught_as_unbound (exn_of e) then Inr False else Inl e | Inr b \<Rightarrow> Inr b)
     | _ \<Rightarrow> Inr False)
   | _ \<Rightarrow> Inr False)"

fun claim_weight :: "claim_classification \<Rightarrow> int" where
  "claim_weight GAIN = 2" | "claim_weight NEUTRAL = 0" | "claim_weight REGRESSION = - 2" | "claim_weight INFRA_FAILURE = - 1"

definition live_score :: "claim list \<Rightarrow> string \<Rightarrow> int" where
  "live_score cls r = sum_list (map (claim_weight \<circ> cl_classification) (filter (\<lambda>c. cl_candidate_id c = r) cls))"

definition live_winner :: "string list \<Rightarrow> (string \<Rightarrow> int) \<Rightarrow> string" where
  "live_winner parts score = (let tied = filter (\<lambda>r. score r = Max (score ` set parts)) parts in
     if hd parts \<in> set tied then hd parts else hd (sort tied))"

definition live_decision_json :: "json \<Rightarrow> string list \<Rightarrow> (string \<times> json) list \<Rightarrow> claim list \<Rightarrow> (string \<Rightarrow> int) \<Rightarrow> string \<Rightarrow> json" where
  "live_decision_json tid parts bundles cls score w = jobj
     [(''tournament_id'', tid), (''execution_scope'', JStr ''live''), (''parent_revision_id'', JStr (hd parts)),
      (''participant_revision_ids'', str_list parts), (''program_bundle_sha256'', JList (map (\<lambda>(r, b). JList [JStr r, b]) bundles)),
      (''claim_ids'', str_list (map cl_claim_id cls)), (''claim_sha256'', routes_json (map (\<lambda>c. (cl_claim_id c, claim_sha256 c)) cls)),
      (''scores'', JList (map (\<lambda>r. JList [JStr r, JInt (score r)]) parts)), (''winner_revision_id'', JStr w)]"

definition live_reason :: "string \<Rightarrow> string \<Rightarrow> string" where
  "live_reason h w = ''decision='' @ h @ '';winner='' @ w @ '';scope=live;promotion_claimed=false''"

definition planned_bundles :: "execution_plan list \<Rightarrow> (string \<times> json) list res" where
  "planned_bundles ps = mapM (\<lambda>p. bind (item (pl_metadata p) ''program_bundle_sha256'') (\<lambda>b. Inr (pl_candidate_revision_id p, b))) ps"

text \<open>\<open>context.inputs.get\<close>, the value as it was given.\<close>

definition input_value_of :: "strategy_context \<Rightarrow> string \<Rightarrow> json" where
  "input_value_of c k = (case fmlookup (sc_inputs c) k of None \<Rightarrow> JNull | Some v \<Rightarrow> input_json v)"

definition live_decide :: "program_files \<Rightarrow> strategy_context \<Rightarrow> string list \<Rightarrow> claim list \<Rightarrow> strategy_decision res" where
  "live_decide fs c parts cls =
     bind (search_plan fs Live c) (\<lambda>ps.
     let score = live_score cls; w = live_winner parts score in
     bind (planned_bundles ps) (\<lambda>bundles.
     bind (content_sha256 (live_decision_json (input_value_of c ''tournament_id'') parts bundles cls score w)) (\<lambda>h.
     Inr (search_advice Live (if w \<noteq> hd parts then ''advance-search-parent'' else ''reject-candidates'') (live_reason h w) cls))))"

definition live_next_action :: "program_files \<Rightarrow> strategy_context \<Rightarrow> claim list \<Rightarrow> strategy_decision res" where
  "live_next_action fs c claims = (let cls = sort_key cl_claim_id claims;
       wait = search_advice Live ''await-tournament-authority'' ''live tournament requires complete participant Claims'' cls in
     bind (live_participants c) (\<lambda>parts.
     if cls = [] \<or> \<not> distinct (map cl_claim_id cls) \<or> length cls \<noteq> length parts \<or> cl_candidate_id ` set cls \<noteq> set parts
       \<or> list_ex (\<lambda>x. cl_grade x = E0) cls then Inr wait
     else bind (claims_bound fs c cls) (\<lambda>b. if b then live_decide fs c parts cls else Inr wait)))"

definition search_next_action :: "program_files \<Rightarrow> search_profile \<Rightarrow> tournament_decision option \<Rightarrow> strategy_context \<Rightarrow> claim list \<Rightarrow> strategy_decision res" where
  "search_next_action fs pr d c cls = (case pr of
     Fixture \<Rightarrow> fixture_next_action c cls d
   | Live \<Rightarrow> live_next_action fs c cls
   | Unprofiled \<Rightarrow> Inr (search_advice pr ''await-tournament-authority'' ''authoritative tournament selection is not yet wired'' cls))"

definition agent_program_search :: "program_files \<Rightarrow> search_profile \<Rightarrow> strategy" where
  "agent_program_search fs pr = \<lparr>sg_strategy_id = ''agent-program-search-v3'', sg_status = search_status pr, sg_plan = search_plan fs pr,
     sg_interpret = search_interpret fs pr, sg_next_action = search_next_action fs pr None\<rparr>"


text \<open>
  What a live tournament decides: the participants are the planned ones, each has exactly one claim,
  each claim rests on the native evaluation of its plan, and the winner has the best claim.
\<close>

section \<open>Plans\<close>

lemma mapM_image: "mapM f xs = Inr ys \<Longrightarrow> (\<And>x y. f x = Inr y \<Longrightarrow> g y = h x) \<Longrightarrow> map g ys = map h xs"
  by (induction xs arbitrary: ys) (auto simp: bind_eq_Inr)

lemma plan_in_candidate: "plan_in sid c i r arm md = Inr p \<Longrightarrow> pl_candidate_revision_id p = r"
  by (auto simp: plan_in_def Let_def bind_eq_Inr)

lemma search_plan_participants:
  assumes "search_plan fs pr c = Inr ps" and "live_participants c = Inr parts"
  shows "map pl_candidate_revision_id ps = parts \<and> distinct parts \<and> 2 \<le> length parts"
proof -
  let ?p = "input_text ''parent_revision_id'' c"
  obtain cands generation vs where c: "candidate_ids_input c = Inr cands"
    and s: "search_plans c ?p cands (input_text ''tournament_id'' c) generation vs pr = Inr ps"
    using assms(1) by (auto simp: search_plan_def bind_eq_Inr Let_def)
  have parts: "parts = ?p # cands"
    using assms(2) c by (auto simp: live_participants_def candidate_ids_input_def split: option.splits input_value.splits)
  obtain config where d: "distinct (?p # cands)" "cands \<noteq> []" and
    m: "mapM (\<lambda>(k, i). bind (short_plan_id [sc_campaign_id c, tr_revision_id (sc_task c), input_text ''tournament_id'' c, i]) (\<lambda>n.
      bind (search_metadata (input_text ''tournament_id'' c) ?p generation pr config vs (k, i)) (\<lambda>md.
      plan_in ''agent-program-search-v3'' c n i (if k = 0 then ''search-parent'' else ''candidate'') md))) (enumerate 0 (?p # cands)) = Inr ps"
    using s by (auto simp: search_plans_def bind_eq_Inr strategy_unless_eq simp del: enumerate_simps)
  have "map pl_candidate_revision_id ps = map snd (enumerate 0 (?p # cands))"
    by (rule mapM_image [OF m]) (auto simp: bind_eq_Inr dest: plan_in_candidate)
  then show ?thesis using d parts by (simp add: Suc_le_eq)
qed

section \<open>Claims\<close>

lemma one_claim_each:
  assumes "distinct parts" and "length cls = length parts" and "cl_candidate_id ` set cls = set parts"
  shows "inj_on cl_candidate_id (set cls)"
proof (rule eq_card_imp_inj_on)
  have "card (set parts) = length parts" using assms(1) by (rule distinct_card)
  moreover have "card (set cls) \<le> length cls" by (rule card_length)
  moreover have "card (cl_candidate_id ` set cls) \<le> card (set cls)" by (rule card_image_le) simp
  ultimately show "card (cl_candidate_id ` set cls) = card (set cls)" using assms(2,3) by simp
qed simp

lemma score_of_claim:
  assumes "inj_on cl_candidate_id (set cls)" and "distinct cls" and "x \<in> set cls"
  shows "live_score cls (cl_candidate_id x) = claim_weight (cl_classification x)"
proof -
  have "filter (\<lambda>c. cl_candidate_id c = cl_candidate_id x) cls = filter (\<lambda>c. c = x) cls"
    using assms(1,3) by (intro filter_cong) (auto dest: inj_onD)
  also have "\<dots> = [x]" using assms(2,3) by (induction cls) (auto simp: filter_empty_conv)
  finally show ?thesis by (simp add: live_score_def)
qed

lemma winner_best:
  assumes "parts \<noteq> []"
  shows "live_winner parts score \<in> set parts" and "r \<in> set parts \<Longrightarrow> score r \<le> score (live_winner parts score)"
    and "live_winner parts score \<noteq> hd parts \<Longrightarrow> score (hd parts) < score (live_winner parts score)"
    and "live_winner parts score \<noteq> hd parts \<Longrightarrow> r \<in> set parts \<Longrightarrow> score r = score (live_winner parts score) \<Longrightarrow> live_winner parts score \<le> r"
proof -
  let ?m = "Max (score ` set parts)" and ?t = "filter (\<lambda>r. score r = Max (score ` set parts)) parts"
  have "?m \<in> score ` set parts" using assms by (intro Max_in) auto
  then have "?t \<noteq> []" by (auto simp: filter_empty_conv)
  then have "sort ?t \<noteq> []" by (metis set_empty set_sort)
  then have "hd (sort ?t) \<in> set (sort ?t)" by (rule hd_in_set)
  then have w: "live_winner parts score \<in> set ?t" by (simp add: live_winner_def Let_def)
  then show "live_winner parts score \<in> set parts" by simp
  have le: "score r \<le> ?m" if "r \<in> set parts" for r using that by simp
  then show "r \<in> set parts \<Longrightarrow> score r \<le> score (live_winner parts score)" using w by simp
  show "live_winner parts score \<le> r" if "live_winner parts score \<noteq> hd parts" "r \<in> set parts" "score r = score (live_winner parts score)"
  proof -
    have l: "live_winner parts score = hd (sort ?t)" using that(1) by (auto simp: live_winner_def Let_def)
    have "r \<in> set (sort ?t)" using that(2,3) w by simp
    moreover have "sorted (sort ?t)" by simp
    ultimately have "hd (sort ?t) \<le> r" by (cases "sort ?t") auto
    then show ?thesis unfolding l .
  qed
  assume "live_winner parts score \<noteq> hd parts"
  then have "hd parts \<notin> set ?t" by (auto simp: live_winner_def Let_def)
  then have "score (hd parts) \<noteq> ?m" using assms by (cases parts) auto
  moreover have "score (hd parts) \<le> ?m" using assms by (intro le) simp
  ultimately show "score (hd parts) < score (live_winner parts score)" using w by simp
qed

text \<open>The order of the outcomes, from the worst to the best; the weights of the strategy follow it.\<close>

fun class_rank :: "claim_classification \<Rightarrow> nat" where
  "class_rank REGRESSION = 0" | "class_rank INFRA_FAILURE = 1" | "class_rank NEUTRAL = 2" | "class_rank GAIN = 3"

lemma weight_rank:
  "claim_weight x \<le> claim_weight y \<longleftrightarrow> class_rank x \<le> class_rank y"
  "claim_weight x < claim_weight y \<longleftrightarrow> class_rank x < class_rank y"
  "claim_weight x = claim_weight y \<longleftrightarrow> class_rank x = class_rank y"
  by (cases x; cases y; simp)+

text \<open>The claims a decision for \<open>w\<close> needs.\<close>

definition earned :: "evidence_envelope list \<Rightarrow> receipt list \<Rightarrow> execution_plan list \<Rightarrow> string list \<Rightarrow> claim list \<Rightarrow> string \<Rightarrow> bool" where
  "earned es rs ps parts cls w \<longleftrightarrow> map pl_candidate_revision_id ps = parts \<and> distinct parts \<and> w \<in> set parts
     \<and> (\<forall>r \<in> set parts. \<exists>x y. {z \<in> set cls. cl_candidate_id z = r} = {x} \<and> {z \<in> set cls. cl_candidate_id z = w} = {y}
        \<and> cl_grade x \<noteq> E0 \<and> claim_of_plan es rs ps x
        \<and> class_rank (cl_classification x) \<le> class_rank (cl_classification y)
        \<and> (r = hd parts \<and> r \<noteq> w \<longrightarrow> class_rank (cl_classification x) < class_rank (cl_classification y))
        \<and> (w \<noteq> hd parts \<and> class_rank (cl_classification x) = class_rank (cl_classification y) \<longrightarrow> w \<le> r))"

lemma earned_winner:
  assumes "search_plan fs pr c = Inr ps" and "live_participants c = Inr parts" and "distinct cls" and "length cls = length parts"
    and "cl_candidate_id ` set cls = set parts" and "\<forall>x \<in> set cls. cl_grade x \<noteq> E0" and "list_all (claim_of_plan es rs ps) cls"
  shows "earned es rs ps parts cls (live_winner parts (live_score cls))"
proof -
  let ?w = "live_winner parts (live_score cls)"
  have p: "map pl_candidate_revision_id ps = parts" "distinct parts" "parts \<noteq> []" using search_plan_participants [OF assms(1,2)] by auto
  have i: "inj_on cl_candidate_id (set cls)" by (rule one_claim_each [OF p(2) assms(4,5)])
  have one: "\<exists>x. x \<in> set cls \<and> {z \<in> set cls. cl_candidate_id z = r} = {x} \<and> live_score cls r = claim_weight (cl_classification x)"
    if r: "r \<in> set parts" for r
  proof -
    from r assms(5) obtain x where x: "x \<in> set cls" "cl_candidate_id x = r" by (metis imageE)
    then have "{z \<in> set cls. cl_candidate_id z = r} = {x}" using i by (auto dest: inj_onD)
    then show ?thesis using x score_of_claim [OF i assms(3) x(1)] by auto
  qed
  obtain y where y: "{z \<in> set cls. cl_candidate_id z = ?w} = {y}" "live_score cls ?w = claim_weight (cl_classification y)"
    using one [OF winner_best(1) [OF p(3)]] by auto
  show ?thesis unfolding earned_def
  proof (intro conjI ballI)
    fix r assume r: "r \<in> set parts"
    from one [OF r] obtain x where x: "x \<in> set cls" "{z \<in> set cls. cl_candidate_id z = r} = {x}" "live_score cls r = claim_weight (cl_classification x)" by auto
    show "\<exists>x y. {z \<in> set cls. cl_candidate_id z = r} = {x} \<and> {z \<in> set cls. cl_candidate_id z = ?w} = {y}
        \<and> cl_grade x \<noteq> E0 \<and> claim_of_plan es rs ps x \<and> class_rank (cl_classification x) \<le> class_rank (cl_classification y)
        \<and> (r = hd parts \<and> r \<noteq> ?w \<longrightarrow> class_rank (cl_classification x) < class_rank (cl_classification y))
        \<and> (?w \<noteq> hd parts \<and> class_rank (cl_classification x) = class_rank (cl_classification y) \<longrightarrow> ?w \<le> r)"
      using x y winner_best(2) [OF p(3) r, of "live_score cls"] winner_best(3) [OF p(3), of "live_score cls"]
        winner_best(4) [OF p(3) _ r, of "live_score cls"] assms(6,7)
      by (intro exI [of _ x] exI [of _ y]) (auto simp: list_all_iff simp flip: weight_rank)
  qed (use p winner_best(1) in auto)
qed

section \<open>The decision\<close>

lemma claims_bound_iff_stored:
  assumes "claims_bound fs c cls = Inr True"
  obtains gr sr g st g' es rs ps stored where "root_input c ''claim_evidence_graph_root'' = Some gr" "root_input c ''claim_receipt_store_root'' = Some sr"
    "fs_graph fs gr = Some g" "fs_store fs sr = Some st" "graph_rebuild st g = Inr g'" "latest_claims g' = Inr stored" "sort_key cl_claim_id stored = cls"
    "list_evidence g' = Inr es" "list_receipts st = Inr rs" "search_plan fs Live c = Inr ps" "list_all (claim_of_plan es rs ps) cls"
  using assms by (fastforce simp: claims_bound_def bound_claims_def bind_eq_Inr split: option.splits sum.splits if_splits)

text \<open>What a decision of the strategy names: the hash of its content, its winner and its claims.\<close>

definition names_winner :: "strategy_context \<Rightarrow> execution_plan list \<Rightarrow> string list \<Rightarrow> claim list \<Rightarrow> string \<Rightarrow> strategy_decision \<Rightarrow> bool" where
  "names_winner c ps parts cls w s \<longleftrightarrow> (\<exists>bs h. planned_bundles ps = Inr bs
     \<and> h = digest (live_decision_json (input_value_of c ''tournament_id'') parts bs cls (live_score cls) w)
     \<and> sd_reason s = ''decision='' @ h @ '';winner='' @ w @ '';scope=live;promotion_claimed=false''
     \<and> sd_action s = (if w = hd parts then ''reject-candidates'' else ''advance-search-parent'') \<and> sd_claim_ids s = map cl_claim_id cls)"

text \<open>The strategy raises, waits, or decides on the stored claims.\<close>

lemma live_decides:
  assumes "search_next_action fs Live d c claims = Inr s" and "sd_action s \<noteq> ''await-tournament-authority''"
  obtains parts w gr sr g st g' stored es rs ps where "live_participants c = Inr parts"
    "root_input c ''claim_evidence_graph_root'' = Some gr" "root_input c ''claim_receipt_store_root'' = Some sr" "fs_graph fs gr = Some g" "fs_store fs sr = Some st"
    "graph_rebuild st g = Inr g'" "latest_claims g' = Inr stored" "sort_key cl_claim_id claims = sort_key cl_claim_id stored"
    "list_evidence g' = Inr es" "list_receipts st = Inr rs" "search_plan fs Live c = Inr ps" "earned es rs ps parts claims w"
    "names_winner c ps parts (sort_key cl_claim_id claims) w s"
proof -
  let ?cls = "sort_key cl_claim_id claims"
  from assms obtain parts where p: "live_participants c = Inr parts"
    by (auto simp: search_next_action_def live_next_action_def bind_eq_Inr Let_def)
  with assms have u: "distinct (map cl_claim_id ?cls)" "length ?cls = length parts" "cl_candidate_id ` set ?cls = set parts"
    "\<not> list_ex (\<lambda>x. cl_grade x = E0) ?cls" "claims_bound fs c ?cls = Inr True" "live_decide fs c parts ?cls = Inr s"
    by (auto simp: search_next_action_def live_next_action_def bind_eq_Inr Let_def search_advice_def advisory_decision_def split: if_splits)
  from claims_bound_iff_stored [OF u(5)] obtain gr sr g st g' es rs ps stored where
    k: "root_input c ''claim_evidence_graph_root'' = Some gr" "root_input c ''claim_receipt_store_root'' = Some sr"
      "fs_graph fs gr = Some g" "fs_store fs sr = Some st" "graph_rebuild st g = Inr g'" "latest_claims g' = Inr stored" "sort_key cl_claim_id stored = ?cls"
      "list_evidence g' = Inr es" "list_receipts st = Inr rs" "search_plan fs Live c = Inr ps" and b: "list_all (claim_of_plan es rs ps) ?cls"
    by metis
  let ?w = "live_winner parts (live_score ?cls)"
  have "earned es rs ps parts ?cls ?w"
    using earned_winner [OF k(10) p _ u(2,3) _ b] u(1,4) by (auto simp: distinct_map list_ex_iff)
  then have e: "earned es rs ps parts claims ?w" by (simp add: earned_def)
  obtain bs where bs: "planned_bundles ps = Inr bs"
    and h: "content_sha256 (live_decision_json (input_value_of c ''tournament_id'') parts bs ?cls (live_score ?cls) ?w)
      = Inr (digest (live_decision_json (input_value_of c ''tournament_id'') parts bs ?cls (live_score ?cls) ?w))"
    and s: "s = search_advice Live (if ?w \<noteq> hd parts then ''advance-search-parent'' else ''reject-candidates'')
      (live_reason (digest (live_decision_json (input_value_of c ''tournament_id'') parts bs ?cls (live_score ?cls) ?w)) ?w) ?cls"
    using u(6) k(10) unfolding live_decide_def Let_def bind_eq_Inr content_sha256_eq_Inr by auto
  have "names_winner c ps parts ?cls ?w s"
    using bs unfolding names_winner_def s search_advice_def advisory_decision_def by (simp add: live_reason_def)
  with that p k e show ?thesis by metis
qed

text \<open>C35: A live tournament either raises, or waits, or decides: then its claims are the latest claims of the evidence graph
  rebuilt over the receipt store, every planned participant has exactly one of them, which rests on the one native evaluation of its plan
  and on a model receipt of its revision and bundle, and the reason of the decision names a participant as the winner, with the hash of the
  tournament, its bundles, claims, scores and that winner: no claim has a better classification than the winner's, the least of the best
  is chosen when the parent is not among them, and the search parent advances only to a revision whose claim is strictly better than the parent's.\<close>

theorem live_decision_outcome:
  "(\<exists>e. search_next_action fs Live d c claims = Inl e)
   \<or> (\<exists>s. search_next_action fs Live d c claims = Inr s \<and> sd_action s = ''await-tournament-authority'')
   \<or> (\<exists>s parts w gr sr g st g' stored es rs ps. search_next_action fs Live d c claims = Inr s \<and> live_participants c = Inr parts
        \<and> root_input c ''claim_evidence_graph_root'' = Some gr \<and> root_input c ''claim_receipt_store_root'' = Some sr
        \<and> fs_graph fs gr = Some g \<and> fs_store fs sr = Some st \<and> graph_rebuild st g = Inr g' \<and> latest_claims g' = Inr stored
        \<and> sort_key cl_claim_id claims = sort_key cl_claim_id stored \<and> list_evidence g' = Inr es \<and> list_receipts st = Inr rs
        \<and> search_plan fs Live c = Inr ps \<and> earned es rs ps parts claims w
        \<and> names_winner c ps parts (sort_key cl_claim_id claims) w s)"
proof (cases "search_next_action fs Live d c claims")
  case (Inr s)
  show ?thesis
  proof (cases "sd_action s = ''await-tournament-authority''")
    case False
    from live_decides [OF Inr False] Inr show ?thesis by metis
  qed (use Inr in simp)
qed simp

end
