(* ===== verification/Portfolio_Log.thy ===== *)
theory Portfolio_Log
  imports Program_Search Registry
begin

text \<open>
  \<open>src/src/evolve/portfolio/orchestrator.py\<close>, first part: the records of a round trip between the
  strategies, and the append-only log that keeps its gaps and its decisions.
\<close>

section \<open>Checks\<close>

definition portfolio_unless :: "bool \<Rightarrow> string \<Rightarrow> unit res" where
  "portfolio_unless c m = require c PortfolioViolation m"

lemma portfolio_unless_eq [res_simps]: "portfolio_unless c m = Inr u \<longleftrightarrow> c"
  by (simp add: portfolio_unless_def require_eq_Inr)

lemma portfolio_unless_True [simp]: "portfolio_unless True m = Inr ()"
  by (simp add: portfolio_unless_def)

lemma portfolio_unless_False [simp]: "portfolio_unless False m = Inl (Err PortfolioViolation m)"
  by (simp add: portfolio_unless_def)

definition portfolio_texts :: "string list \<Rightarrow> unit res" where
  "portfolio_texts xs = portfolio_unless (list_all (\<lambda>x. \<not> blank x) xs) ''portfolio identity must be non-empty text''"

definition portfolio_hashes :: "string list \<Rightarrow> unit res" where
  "portfolio_hashes xs = portfolio_unless (list_all is_sha256 xs) ''portfolio hash must be a literal SHA-256''"

section \<open>Gaps and decisions\<close>

record capability_gap =
  gp_gap_id :: string
  gp_round_trip_id :: string
  gp_program_id :: string
  gp_failed_revision :: string
  gp_failed_bundle :: string
  gp_claim_id :: string
  gp_claim_sha256 :: string
  gp_classification :: string
  gp_evidence_ids :: "string list"
  gp_receipt_ids :: "string list"
  gp_signature :: string

definition check_gap :: "capability_gap \<Rightarrow> unit res" where
  "check_gap g = all_checks
     [portfolio_texts [gp_gap_id g, gp_round_trip_id g, gp_program_id g, gp_failed_revision g, gp_claim_id g, gp_classification g],
      portfolio_hashes [gp_failed_bundle g, gp_claim_sha256 g, gp_signature g],
      portfolio_unless (gp_evidence_ids g \<noteq> [] \<and> gp_receipt_ids g \<noteq> []) ''CapabilityGap authority references are incomplete'']"

definition gap_fields :: "capability_gap \<Rightarrow> (string \<times> json) list" where
  "gap_fields g =
     [(''round_trip_id'', JStr (gp_round_trip_id g)), (''program_id'', JStr (gp_program_id g)),
      (''failed_program_revision_id'', JStr (gp_failed_revision g)), (''failed_program_bundle_sha256'', JStr (gp_failed_bundle g)),
      (''failure_claim_id'', JStr (gp_claim_id g)), (''failure_claim_sha256'', JStr (gp_claim_sha256 g)),
      (''failure_classification'', JStr (gp_classification g)), (''evidence_ids'', str_list (gp_evidence_ids g)),
      (''receipt_ids'', str_list (gp_receipt_ids g)), (''failure_signature_sha256'', JStr (gp_signature g))]"

definition gap_dict :: "capability_gap \<Rightarrow> dict" where
  "gap_dict g = fmap_of_list ((''gap_id'', JStr (gp_gap_id g)) # gap_fields g)"

definition gap_sha256 :: "capability_gap \<Rightarrow> string" where
  "gap_sha256 g = digest (JObj (gap_dict g))"

definition gap_of_dict :: "dict \<Rightarrow> capability_gap res" where
  "gap_of_dict d =
     bind (only_fields [''gap_id'', ''round_trip_id'', ''program_id'', ''failed_program_revision_id'', ''failed_program_bundle_sha256'',
       ''failure_claim_id'', ''failure_claim_sha256'', ''failure_classification'', ''evidence_ids'', ''receipt_ids'', ''failure_signature_sha256''] d) (\<lambda>_.
     bind (the_item d ''gap_id'' str_value) (\<lambda>i. bind (the_item d ''round_trip_id'' str_value) (\<lambda>t.
     bind (the_item d ''program_id'' str_value) (\<lambda>p. bind (the_item d ''failed_program_revision_id'' str_value) (\<lambda>r.
     bind (the_item d ''failed_program_bundle_sha256'' str_value) (\<lambda>b. bind (the_item d ''failure_claim_id'' str_value) (\<lambda>c.
     bind (the_item d ''failure_claim_sha256'' str_value) (\<lambda>ch. bind (the_item d ''failure_classification'' str_value) (\<lambda>k.
     bind (the_item d ''evidence_ids'' text_list) (\<lambda>es. bind (the_item d ''receipt_ids'' text_list) (\<lambda>rs.
     bind (the_item d ''failure_signature_sha256'' str_value) (\<lambda>s.
     let g = \<lparr>gp_gap_id = i, gp_round_trip_id = t, gp_program_id = p, gp_failed_revision = r, gp_failed_bundle = b, gp_claim_id = c,
       gp_claim_sha256 = ch, gp_classification = k, gp_evidence_ids = es, gp_receipt_ids = rs, gp_signature = s\<rparr>
     in bind (check_gap g) (\<lambda>_. Inr g)))))))))))))"

record portfolio_decision =
  pt_decision_id :: string
  pt_round_trip_id :: string
  pt_gap_sha256 :: string
  pt_skill_candidate_id :: string
  pt_skill_revision :: string
  pt_skill_sha256 :: string
  pt_skill_root :: string
  pt_capability_id :: string
  pt_capability_revision :: string
  pt_capability_sha256 :: string
  pt_promotion_id :: string
  pt_program_id :: string
  pt_parent_revision :: string
  pt_program_revision :: string
  pt_program_root :: string
  pt_program_sha256 :: string
  pt_skill_claim_ids :: "string list"
  pt_skill_claim_sha256 :: "(string \<times> string) list"
  pt_skill_store :: string
  pt_skill_graph :: string
  pt_campaign_id :: string
  pt_tournament_id :: string
  pt_tournament_sha256 :: string
  pt_action :: string
  pt_search_parent :: string
  pt_claim_ids :: "string list"
  pt_claim_sha256 :: "(string \<times> string) list"
  pt_store :: string
  pt_graph :: string

definition check_portfolio_decision :: "portfolio_decision \<Rightarrow> unit res" where
  "check_portfolio_decision d = all_checks
     [portfolio_texts [pt_decision_id d, pt_round_trip_id d, pt_skill_candidate_id d, pt_skill_revision d, pt_skill_root d, pt_capability_id d,
        pt_capability_revision d, pt_promotion_id d, pt_program_id d, pt_parent_revision d, pt_program_revision d, pt_program_root d,
        pt_campaign_id d, pt_tournament_id d, pt_action d, pt_search_parent d],
      portfolio_hashes [pt_gap_sha256 d, pt_skill_sha256 d, pt_capability_sha256 d, pt_program_sha256 d, pt_tournament_sha256 d],
      portfolio_unless (pt_skill_claim_ids d \<noteq> [] \<and> pt_claim_ids d \<noteq> []) ''PortfolioDecision Claim authority is incomplete'']"

definition portfolio_decision_dict :: "portfolio_decision \<Rightarrow> dict" where
  "portfolio_decision_dict d = fmap_of_list
     [(''decision_id'', JStr (pt_decision_id d)), (''round_trip_id'', JStr (pt_round_trip_id d)), (''gap_sha256'', JStr (pt_gap_sha256 d)),
      (''skill_candidate_id'', JStr (pt_skill_candidate_id d)), (''skill_candidate_revision_id'', JStr (pt_skill_revision d)),
      (''skill_candidate_bundle_sha256'', JStr (pt_skill_sha256 d)), (''skill_candidate_bundle_root'', JStr (pt_skill_root d)),
      (''capability_id'', JStr (pt_capability_id d)), (''capability_revision_id'', JStr (pt_capability_revision d)),
      (''capability_sha256'', JStr (pt_capability_sha256 d)), (''promotion_decision_id'', JStr (pt_promotion_id d)),
      (''agent_program_id'', JStr (pt_program_id d)), (''parent_program_revision_id'', JStr (pt_parent_revision d)),
      (''candidate_program_revision_id'', JStr (pt_program_revision d)), (''candidate_program_root'', JStr (pt_program_root d)),
      (''candidate_program_bundle_sha256'', JStr (pt_program_sha256 d)), (''skill_claim_ids'', str_list (pt_skill_claim_ids d)),
      (''skill_claim_sha256'', routes_json (pt_skill_claim_sha256 d)), (''skill_receipt_store_root'', JStr (pt_skill_store d)),
      (''skill_evidence_graph_root'', JStr (pt_skill_graph d)), (''tournament_campaign_id'', JStr (pt_campaign_id d)),
      (''tournament_id'', JStr (pt_tournament_id d)), (''tournament_decision_sha256'', JStr (pt_tournament_sha256 d)),
      (''tournament_action'', JStr (pt_action d)), (''search_parent_revision_id'', JStr (pt_search_parent d)),
      (''tournament_claim_ids'', str_list (pt_claim_ids d)), (''tournament_claim_sha256'', routes_json (pt_claim_sha256 d)),
      (''tournament_receipt_store_root'', JStr (pt_store d)), (''tournament_evidence_graph_root'', JStr (pt_graph d))]"

text \<open>A list of pairs of texts, as the reader turns it into tuples.\<close>

definition pair_value :: "json \<Rightarrow> (string \<times> string) res" where
  "pair_value j = (case j of JList [JStr a, JStr b] \<Rightarrow> Inr (a, b) | _ \<Rightarrow> raise TypeError ''not a pair of texts'')"

definition pair_list :: "json \<Rightarrow> (string \<times> string) list res" where
  "pair_list j = (case j of JList js \<Rightarrow> mapM pair_value js | _ \<Rightarrow> raise TypeError ''not iterable'')"

definition portfolio_decision_fields :: "string list" where
  "portfolio_decision_fields =
     [''decision_id'', ''round_trip_id'', ''gap_sha256'', ''skill_candidate_id'', ''skill_candidate_revision_id'', ''skill_candidate_bundle_sha256'',
      ''skill_candidate_bundle_root'', ''capability_id'', ''capability_revision_id'', ''capability_sha256'', ''promotion_decision_id'',
      ''agent_program_id'', ''parent_program_revision_id'', ''candidate_program_revision_id'', ''candidate_program_root'',
      ''candidate_program_bundle_sha256'', ''skill_claim_ids'', ''skill_claim_sha256'', ''skill_receipt_store_root'', ''skill_evidence_graph_root'',
      ''tournament_campaign_id'', ''tournament_id'', ''tournament_decision_sha256'', ''tournament_action'', ''search_parent_revision_id'',
      ''tournament_claim_ids'', ''tournament_claim_sha256'', ''tournament_receipt_store_root'', ''tournament_evidence_graph_root'']"

definition portfolio_decision_of_dict :: "dict \<Rightarrow> portfolio_decision res" where
  "portfolio_decision_of_dict d =
     bind (only_fields portfolio_decision_fields d) (\<lambda>_.
     bind (the_item d ''decision_id'' str_value) (\<lambda>a1. bind (the_item d ''round_trip_id'' str_value) (\<lambda>a2.
     bind (the_item d ''gap_sha256'' str_value) (\<lambda>a3. bind (the_item d ''skill_candidate_id'' str_value) (\<lambda>a4.
     bind (the_item d ''skill_candidate_revision_id'' str_value) (\<lambda>a5. bind (the_item d ''skill_candidate_bundle_sha256'' str_value) (\<lambda>a6.
     bind (the_item d ''skill_candidate_bundle_root'' str_value) (\<lambda>a7. bind (the_item d ''capability_id'' str_value) (\<lambda>a8.
     bind (the_item d ''capability_revision_id'' str_value) (\<lambda>a9. bind (the_item d ''capability_sha256'' str_value) (\<lambda>a10.
     bind (the_item d ''promotion_decision_id'' str_value) (\<lambda>a11. bind (the_item d ''agent_program_id'' str_value) (\<lambda>a12.
     bind (the_item d ''parent_program_revision_id'' str_value) (\<lambda>a13. bind (the_item d ''candidate_program_revision_id'' str_value) (\<lambda>a14.
     bind (the_item d ''candidate_program_root'' str_value) (\<lambda>a15. bind (the_item d ''candidate_program_bundle_sha256'' str_value) (\<lambda>a16.
     bind (the_item d ''skill_claim_ids'' text_list) (\<lambda>a17. bind (the_item d ''skill_claim_sha256'' pair_list) (\<lambda>a18.
     bind (the_item d ''skill_receipt_store_root'' str_value) (\<lambda>a19. bind (the_item d ''skill_evidence_graph_root'' str_value) (\<lambda>a20.
     bind (the_item d ''tournament_campaign_id'' str_value) (\<lambda>a21. bind (the_item d ''tournament_id'' str_value) (\<lambda>a22.
     bind (the_item d ''tournament_decision_sha256'' str_value) (\<lambda>a23. bind (the_item d ''tournament_action'' str_value) (\<lambda>a24.
     bind (the_item d ''search_parent_revision_id'' str_value) (\<lambda>a25. bind (the_item d ''tournament_claim_ids'' text_list) (\<lambda>a26.
     bind (the_item d ''tournament_claim_sha256'' pair_list) (\<lambda>a27. bind (the_item d ''tournament_receipt_store_root'' str_value) (\<lambda>a28.
     bind (the_item d ''tournament_evidence_graph_root'' str_value) (\<lambda>a29.
     let x = \<lparr>pt_decision_id = a1, pt_round_trip_id = a2, pt_gap_sha256 = a3, pt_skill_candidate_id = a4, pt_skill_revision = a5,
       pt_skill_sha256 = a6, pt_skill_root = a7, pt_capability_id = a8, pt_capability_revision = a9, pt_capability_sha256 = a10,
       pt_promotion_id = a11, pt_program_id = a12, pt_parent_revision = a13, pt_program_revision = a14, pt_program_root = a15,
       pt_program_sha256 = a16, pt_skill_claim_ids = a17, pt_skill_claim_sha256 = a18, pt_skill_store = a19, pt_skill_graph = a20,
       pt_campaign_id = a21, pt_tournament_id = a22, pt_tournament_sha256 = a23, pt_action = a24, pt_search_parent = a25,
       pt_claim_ids = a26, pt_claim_sha256 = a27, pt_store = a28, pt_graph = a29\<rparr>
     in bind (check_portfolio_decision x) (\<lambda>_. Inr x)))))))))))))))))))))))))))))))"

section \<open>The log\<close>

record 'r portfolio_type =
  ty_dict :: "'r \<Rightarrow> dict"
  ty_of :: "dict \<Rightarrow> 'r res"
  ty_key :: "'r \<Rightarrow> string"

definition gap_log :: "capability_gap portfolio_type" where
  "gap_log = \<lparr>ty_dict = gap_dict, ty_of = gap_of_dict, ty_key = gp_gap_id\<rparr>"

definition round_log :: "portfolio_decision portfolio_type" where
  "round_log = \<lparr>ty_dict = portfolio_decision_dict, ty_of = portfolio_decision_of_dict, ty_key = pt_round_trip_id\<rparr>"

definition portfolio_line :: "dict \<Rightarrow> json" where
  "portfolio_line d = jobj [(''content_sha256'', JStr (digest (JObj d))), (''value'', JObj d)]"

definition parse_portfolio :: "'r portfolio_type \<Rightarrow> json option \<Rightarrow> 'r res" where
  "parse_portfolio t l = rewrap is_decode_error PortfolioViolation ''invalid portfolio record''
     (case l of None \<Rightarrow> raise ValueError ''Expecting value''
      | Some (JObj d) \<Rightarrow> bind (item d ''value'') (\<lambda>j. case j of
          JObj p \<Rightarrow> bind (ty_of t p) (\<lambda>r. bind (content_sha256 (JObj (ty_dict t r))) (\<lambda>h. bind (item d ''content_sha256'') (\<lambda>e.
            bind (portfolio_unless (e = JStr h) ''portfolio record hash mismatch'') (\<lambda>_. Inr r))))
        | _ \<Rightarrow> raise TypeError ''argument after ** must be a mapping'')
      | Some _ \<Rightarrow> raise TypeError ''indices must be integers'')"

definition portfolio_all :: "'r portfolio_type \<Rightarrow> line_file \<Rightarrow> 'r list res" where
  "portfolio_all t f = bind (mapM (parse_portfolio t) (lf_lines f)) (\<lambda>rs.
     bind (portfolio_unless (distinct (map (ty_key t) rs)) ''duplicate portfolio record identity'') (\<lambda>_. Inr rs))"

definition portfolio_get :: "'r portfolio_type \<Rightarrow> string \<Rightarrow> line_file \<Rightarrow> 'r option res" where
  "portfolio_get t i f = bind (portfolio_all t f) (\<lambda>rs. Inr (find (\<lambda>r. ty_key t r = i) rs))"

definition portfolio_known :: "'r portfolio_type \<Rightarrow> 'r \<Rightarrow> line_file \<Rightarrow> bool res" where
  "portfolio_known t r f = bind (portfolio_get t (ty_key t r) f) (\<lambda>e. case e of
     None \<Rightarrow> Inr False
   | Some x \<Rightarrow> if x = r then Inr True else raise PortfolioViolation ''conflicting immutable portfolio record'')"

definition portfolio_append :: "'r portfolio_type \<Rightarrow> 'r \<Rightarrow> (line_file, bool) op" where
  "portfolio_append t r =
     obind (oread (portfolio_known t r)) (\<lambda>k. obind (olift k) (\<lambda>known.
     if known then oreturn False
     else with_writer PortfolioViolation ''portfolio writer lease is held''
       (obind (oread (portfolio_known t r)) (\<lambda>k. obind (olift k) (\<lambda>known.
        if known then oreturn False
        else obind (olift (content_sha256 (JObj (ty_dict t r)))) (\<lambda>_.
             obind (omodify (\<lambda>f. f\<lparr>lf_lines := lf_lines f @ [stored_line (portfolio_line (ty_dict t r))]\<rparr>)) (\<lambda>_. oreturn True)))))))"


text \<open>
  The logs of the orchestrator are append-only: a locale over the type of a record, whose laws are that a
  valid record is read back from its own form, interpreted for the gaps and for the decisions.
\<close>

section \<open>Records are read back\<close>

lemma gap_decode: "check_gap g = Inr () \<Longrightarrow> gap_of_dict (gap_dict g) = Inr g"
  by (cases g) (simp add: gap_of_dict_def gap_dict_def gap_fields_def the_item_def only_fields_def text_list_roundtrip)

lemma pair_list_routes: "pair_list (routes_json xs) = Inr xs"
proof -
  have "mapM pair_value (map (\<lambda>(a, b). JList [JStr a, JStr b]) xs) = Inr xs"
    by (induction xs) (auto simp: pair_value_def)
  then show ?thesis by (simp add: pair_list_def routes_json_def)
qed

lemma portfolio_decision_decode:
  "check_portfolio_decision d = Inr () \<Longrightarrow> portfolio_decision_of_dict (portfolio_decision_dict d) = Inr d"
  by (cases d) (simp add: portfolio_decision_of_dict_def portfolio_decision_dict_def portfolio_decision_fields_def the_item_def only_fields_def
      text_list_roundtrip pair_list_routes)

lemma gap_finite: "finite_json (JObj (gap_dict g))"
  unfolding gap_dict_def jobj_def [symmetric] by (rule finite_jobj) (simp add: gap_fields_def str_list_def list_all_iff)

lemma portfolio_decision_finite: "finite_json (JObj (portfolio_decision_dict d))"
  unfolding portfolio_decision_dict_def jobj_def [symmetric] by (rule finite_jobj) (simp add: routes_json_def str_list_def list_all_iff case_prod_unfold)

section \<open>The locale\<close>

text \<open>\<open>ok\<close> are the records their constructor accepts.\<close>

locale portfolio_records =
  fixes t :: "'r portfolio_type" and ok :: "'r \<Rightarrow> bool"
  assumes decode_form: "ok r \<Longrightarrow> ty_of t (ty_dict t r) = Inr r"
    and finite_form: "finite_json (JObj (ty_dict t r))"
begin

text \<open>A record whose line is read back as one line.\<close>

definition clean :: "'r \<Rightarrow> bool" where
  "clean r \<longleftrightarrow> ok r \<and> \<not> has_break (json_text (portfolio_line (ty_dict t r)))"

definition add_clean :: "'r \<Rightarrow> (line_file, bool) op" where
  "add_clean r = (if clean r then portfolio_append t r else olift (raise PortfolioViolation ''invalid portfolio record''))"

lemma own_hash: "content_sha256 (JObj (ty_dict t r)) = Inr (digest (JObj (ty_dict t r)))"
  using finite_form by (simp add: content_sha256_def canonical_json_def digest_def)

lemma own_line: "clean r \<Longrightarrow> parse_portfolio t (stored_line (portfolio_line (ty_dict t r))) = Inr r"
  by (simp add: clean_def stored_line_clean del: json_text.simps)
    (simp add: parse_portfolio_def portfolio_line_def jobj_def item_def decode_form own_hash)

lemma known_cases:
  assumes "portfolio_all t f = Inr rs"
  shows "portfolio_known t r f = (case find (\<lambda>x. ty_key t x = ty_key t r) rs of None \<Rightarrow> Inr False
    | Some x \<Rightarrow> if x = r then Inr True else raise PortfolioViolation ''conflicting immutable portfolio record'')"
  using assms by (simp add: portfolio_known_def portfolio_get_def)

lemma all_lines: "portfolio_all t (f\<lparr>lf_locked := b\<rparr>) = portfolio_all t f"
  by (simp add: portfolio_all_def)

lemma known_lines: "portfolio_known t r (f\<lparr>lf_locked := b\<rparr>) = portfolio_known t r f"
  by (simp add: portfolio_known_def portfolio_get_def all_lines)

lemma append_cases:
  "portfolio_append t r f = (case portfolio_known t r f of Inl e \<Rightarrow> (f, Inl e) | Inr True \<Rightarrow> (f, Inr False)
     | Inr False \<Rightarrow> if lf_locked f then (f, Inl (Err PortfolioViolation ''portfolio writer lease is held''))
         else (f\<lparr>lf_lines := lf_lines f @ [stored_line (portfolio_line (ty_dict t r))], lf_locked := False\<rparr>, Inr True))"
  by (auto simp: portfolio_append_def with_writer_def known_lines own_hash obind_olift obind_def olift_def oread_def oreturn_def omodify_def
      split: sum.splits bool.splits)

lemma all_append:
  assumes "portfolio_all t f = Inr rs" and "clean r" and "ty_key t r \<notin> ty_key t ` set rs"
  shows "portfolio_all t (f\<lparr>lf_lines := lf_lines f @ [stored_line (portfolio_line (ty_dict t r))], lf_locked := False\<rparr>) = Inr (rs @ [r])"
proof -
  from assms(1) have m: "mapM (parse_portfolio t) (lf_lines f) = Inr rs" "distinct (map (ty_key t) rs)"
    by (auto simp: portfolio_all_def bind_eq_Inr portfolio_unless_eq)
  have "mapM g (xs @ [l]) = Inr (ys @ [y])" if "mapM g xs = Inr ys" "g l = Inr y" for g :: "json option \<Rightarrow> 'r res" and xs l ys y
    using that by (induction xs arbitrary: ys) (auto simp: bind_eq_Inr)
  with m own_line [OF assms(2)] assms(3) show ?thesis by (simp add: portfolio_all_def portfolio_unless_def)
qed

sublocale append_only "portfolio_all t" add_clean id "ty_key t" "(=)"
proof
  fix f f' rs r and q
  assume rs: "portfolio_all t f = Inr rs" and n: "ty_key t (id r) \<notin> ty_key t ` set rs" and run: "add_clean r f = (f', Inr q)"
  from n have "find (\<lambda>x. ty_key t x = ty_key t r) rs = None" by (auto simp: find_None_iff image_iff)
  then have k: "portfolio_known t r f = Inr False" by (simp add: known_cases [OF rs])
  have c: "clean r" using run by (auto simp: add_clean_def olift_def raise_def split: if_splits)
  from run k c have "f' = f\<lparr>lf_lines := lf_lines f @ [stored_line (portfolio_line (ty_dict t r))], lf_locked := False\<rparr>"
    by (auto simp: add_clean_def append_cases split: if_splits)
  then show "portfolio_all t f' = Inr (rs @ [id r])" using all_append [OF rs c] n by simp
next
  fix f f' rs r e and q :: "bool res"
  assume rs: "portfolio_all t f = Inr rs" and e: "e \<in> set rs" "ty_key t e = ty_key t (id r)" and run: "add_clean r f = (f', q)"
  have d: "distinct (map (ty_key t) rs)" using rs by (auto simp: portfolio_all_def bind_eq_Inr portfolio_unless_eq)
  have "find (\<lambda>x. ty_key t x = ty_key t e) rs = Some e" by (rule find_key_unique [OF d e(1)])
  then have k: "portfolio_known t r f = (if e = r then Inr True else raise PortfolioViolation ''conflicting immutable portfolio record'')"
    using e(2) by (simp add: known_cases [OF rs])
  then show "portfolio_all t f' = Inr rs \<and> (is_ok q \<longrightarrow> e = id r)"
    using run rs by (cases "e = r") (auto simp: add_clean_def append_cases k olift_def raise_def split: if_splits)
next
  fix f f' rs r and x :: err
  assume "portfolio_all t f = Inr rs" and "add_clean r f = (f', Inl x)"
  then show "portfolio_all t f' = Inr rs"
    by (auto simp: add_clean_def append_cases olift_def raise_def split: if_splits sum.splits bool.splits)
next
  fix f rs
  assume "portfolio_all t f = Inr rs"
  then show "distinct (map (ty_key t) rs)" by (auto simp: portfolio_all_def bind_eq_Inr portfolio_unless_eq)
qed

text \<open>A clean record that was appended is found, whether it was there or not.\<close>

lemma appended_found:
  assumes "clean r" and "portfolio_append t r f = (f', Inr b)"
  shows "portfolio_get t (ty_key t r) f' = Inr (Some r)"
proof -
  from assms(2) obtain rs where rs: "portfolio_all t f = Inr rs"
    by (auto simp: append_cases portfolio_known_def portfolio_get_def bind_def split: sum.splits)
  from added_found [OF rs, of r f' b] assms show ?thesis by (auto simp: add_clean_def portfolio_get_def)
qed

end

section \<open>The two logs\<close>

interpretation gl: portfolio_records gap_log "\<lambda>g. check_gap g = Inr ()"
  by unfold_locales (simp_all add: gap_log_def gap_decode gap_finite)

interpretation rd: portfolio_records round_log "\<lambda>d. check_portfolio_decision d = Inr ()"
  by unfold_locales (simp_all add: round_log_def portfolio_decision_decode portfolio_decision_finite)

end
