(* ===== verification/Portfolio.thy ===== *)
theory Portfolio
  imports Portfolio_Log Campaign_Runner
begin

text \<open>
  \<open>src/src/evolve/portfolio/orchestrator.py\<close>, second part: the round trip.  A failure of a program
  becomes a capability gap; the Teacher compiles a skill for it, the skill authority validates it and
  Governance approves it as a capability; the program is composed with the capability, a tournament
  compares it with its parent, and the decision is recorded.

  The outer state is what the three outside parties may change; a path is a resolved name.
\<close>

section \<open>The state\<close>

datatype tree_node = Link | Directory | Content "nat list"

record 'w outer =
  ou_files :: program_files
  ou_trees :: "string \<Rightarrow> (string \<times> tree_node) list option"
  ou_candidates :: line_file
  ou_capabilities :: line_file
  ou_registry_log :: "decision_log option"
  ou_programs :: line_file
  ou_log :: decision_log
  ou_world :: 'w

record 'w portfolio =
  po_root :: string
  po_gaps :: line_file
  po_decisions :: line_file
  po_outer :: "'w outer"

text \<open>The entries of a tree in the order of their paths.\<close>

definition compiled_bundle_sha256 :: "(string \<times> tree_node) list option \<Rightarrow> string res" where
  "compiled_bundle_sha256 t = (case t of None \<Rightarrow> raise PortfolioViolation ''compiled bundle root is not a directory''
     | Some es \<Rightarrow> bind (portfolio_unless (Link \<notin> snd ` set es) ''compiled bundle cannot contain symlinks'') (\<lambda>_.
         let rows = List.map_filter (\<lambda>(p, n). case n of Content b \<Rightarrow> Some (p, sha256_hex b) | _ \<Rightarrow> None) es in
         bind (portfolio_unless (rows \<noteq> []) ''compiled bundle is empty'') (\<lambda>_. content_sha256 (routes_json rows))))"

definition store_at :: "'w outer \<Rightarrow> string \<Rightarrow> receipt_store" where
  "store_at u p = (case fs_store (ou_files u) p of None \<Rightarrow> \<lparr>rs_log = [], rs_artifacts = fmempty, rs_locked = False\<rparr> | Some s \<Rightarrow> s)"

definition graph_at :: "'w outer \<Rightarrow> string \<Rightarrow> evidence_graph" where
  "graph_at u p = (case fs_graph (ou_files u) p of None \<Rightarrow> \<lparr>eg_evidence = [], eg_claims = [], eg_legacy = False\<rparr> | Some g \<Rightarrow> g)"

section \<open>Values at the boundary\<close>

record compiled_candidate =
  kc_candidate_id :: string
  kc_revision_id :: string
  kc_bundle_sha256 :: string
  kc_bundle_root :: string
  kc_source_gap :: string
  kc_active :: bool

definition check_compiled_candidate :: "compiled_candidate \<Rightarrow> unit res" where
  "check_compiled_candidate k = bind (portfolio_texts [kc_candidate_id k, kc_revision_id k]) (\<lambda>_.
     portfolio_hashes [kc_bundle_sha256 k, kc_source_gap k])"

record skill_validation =
  kv_candidate :: candidate_record
  kv_capability :: capability_record
  kv_claims :: "claim list"
  kv_store :: string
  kv_graph :: string

record tournament_authority =
  ta_result :: campaign_run
  ta_store :: string
  ta_graph :: string

record portfolio_request =
  pq_round_trip_id :: string
  pq_parent_root :: string
  pq_failure_claim :: claim
  pq_store :: string
  pq_graph :: string

definition check_portfolio_request :: "portfolio_request \<Rightarrow> unit res" where
  "check_portfolio_request q = portfolio_texts [pq_round_trip_id q]"

record portfolio_result =
  px_gap :: capability_gap
  px_decision :: portfolio_decision
  px_capability :: capability_record
  px_program :: program_revision
  px_replayed :: bool

text \<open>The Teacher, the skill authority and the tournament runner.\<close>

record 'w parties =
  pa_compile :: "capability_gap \<Rightarrow> ('w outer, compiled_candidate) op"
  pa_validate :: "capability_gap \<Rightarrow> compiled_candidate \<Rightarrow> ('w outer, skill_validation) op"
  pa_run :: "program_revision \<Rightarrow> program_revision \<Rightarrow> ('w outer, tournament_authority) op"

section \<open>Parent and gap\<close>

definition program_record_of :: "program_revision \<Rightarrow> program_record res" where
  "program_record_of v = (let r = \<lparr>pr_program_id = pv_program_id v, pr_revision_id = pv_revision_id v, pr_parent_revision_id = pv_parent v,
       pr_capability_revision_ids = pv_capabilities v, pr_artifact_sha256 = pv_bundle v, pr_active = False\<rparr>
     in bind (check_program_record r) (\<lambda>_. Inr r))"

definition portfolio_parent :: "string \<Rightarrow> 'w outer \<Rightarrow> program_revision res" where
  "portfolio_parent root u =
     bind (rewrap (\<lambda>x. x = AgentProgramViolation) PortfolioViolation ''parent AgentProgram failed verification''
       (load_program root (fs_dir (ou_files u) root))) (\<lambda>v.
     bind (registry_get program_registry (pv_program_id v, pv_revision_id v) (ou_programs u)) (\<lambda>r.
     bind (program_record_of v) (\<lambda>x.
     bind (portfolio_unless (r = Some x) ''parent AgentProgram is not registry-authoritative'') (\<lambda>_. Inr v))))"

definition claim_by_id :: "claim list \<Rightarrow> string \<Rightarrow> claim option" where
  "claim_by_id cs i = find (\<lambda>c. cl_claim_id c = i) (rev cs)"

text \<open>The native receipts the evidence of a claim names, in its order, and the model receipt a native receipt names.\<close>

definition native_in :: "receipt list \<Rightarrow> evidence_envelope list \<Rightarrow> receipt list" where
  "native_in rs es = filter (\<lambda>r. rc_kind r = ''native_evaluation'') (List.map_filter (receipt_by_id rs) (concat (map ev_receipt_ids es)))"

definition model_of :: "receipt list \<Rightarrow> receipt \<Rightarrow> receipt option" where
  "model_of rs n = (case get (rc_payload n) ''model_receipt_id'' of JStr i \<Rightarrow> receipt_by_id rs i | _ \<Rightarrow> None)"

definition evaluator_silent :: "receipt \<Rightarrow> bool" where
  "evaluator_silent n \<longleftrightarrow> get (rc_payload n) ''evaluator_error'' \<in> {JNull, JStr []}"

definition lineage_of :: "receipt list \<Rightarrow> string \<Rightarrow> string \<Rightarrow> receipt \<Rightarrow> bool" where
  "lineage_of rs r b n \<longleftrightarrow> (case model_of rs n of None \<Rightarrow> False | Some m \<Rightarrow> rc_kind m = ''model''
     \<and> get (rc_payload n) ''model_artifact_sha256'' = JStr (rc_artifact_sha256 m) \<and> get (rc_payload m) ''revision_id'' = JStr r
     \<and> get (rc_payload m) ''program_bundle_sha256'' = JStr b)"

definition authoritative_failure :: "portfolio_request \<Rightarrow> program_revision \<Rightarrow> claim list \<Rightarrow> claim res" where
  "authoritative_failure q v cs = (let c = pq_failure_claim q in
     bind (portfolio_unless (claim_by_id cs (cl_claim_id c) = Some c) ''failure Claim is not authoritative'') (\<lambda>_.
     bind (portfolio_unless (cl_grade c \<noteq> E0) ''failure Claim evidence grade is insufficient'') (\<lambda>_.
     bind (portfolio_unless (cl_candidate_id c = pv_revision_id v \<and> cl_classification c \<in> {NEUTRAL, REGRESSION})
       ''failure Claim does not bind the parent'') (\<lambda>_. Inr c))))"

definition failure_evidence :: "evidence_envelope list \<Rightarrow> claim \<Rightarrow> evidence_envelope list res" where
  "failure_evidence es c = mapM (\<lambda>i. case evidence_by_id es i of None \<Rightarrow> raise PortfolioViolation ''failure Claim evidence is incomplete'' | Some e \<Rightarrow> Inr e)
     (cl_evidence_ids c)"

definition failure_lineage :: "program_revision \<Rightarrow> receipt list \<Rightarrow> evidence_envelope list \<Rightarrow> (receipt \<times> receipt) res" where
  "failure_lineage v rs sel = (case native_in rs sel of
     [n] \<Rightarrow> (case model_of rs n of
       Some m \<Rightarrow> bind (portfolio_unless (get (rc_payload n) ''resolved'' = JBool False \<and> evaluator_silent n
         \<and> lineage_of rs (pv_revision_id v) (pv_bundle v) n) ''failure native/model lineage is invalid'') (\<lambda>_. Inr (n, m))
     | None \<Rightarrow> raise PortfolioViolation ''failure native/model lineage is invalid'')
   | _ \<Rightarrow> raise PortfolioViolation ''failure Claim must bind one native outcome'')"

definition failure_signature :: "claim \<Rightarrow> receipt \<Rightarrow> receipt \<Rightarrow> string res" where
  "failure_signature c n m = bind (receipt_sha256 n) (\<lambda>nh. bind (receipt_sha256 m) (\<lambda>mh.
     content_sha256 (jobj [(''claim_sha256'', JStr (claim_sha256 c)), (''native_receipt_sha256'', JStr nh), (''model_receipt_sha256'', JStr mh)])))"

text \<open>The claim, the receipts of its evidence with the model's, and the signature of the failure.\<close>

definition failure_facts :: "portfolio_request \<Rightarrow> program_revision \<Rightarrow> 'w outer \<Rightarrow> (claim \<times> string list \<times> string) res" where
  "failure_facts q v u = (let st = store_at u (pq_store q) in
     bind (graph_rebuild st (graph_at u (pq_graph q))) (\<lambda>g.
     bind (latest_claims g) (\<lambda>cs.
     bind (authoritative_failure q v cs) (\<lambda>c.
     bind (list_evidence g) (\<lambda>es.
     bind (failure_evidence es c) (\<lambda>sel.
     bind (list_receipts st) (\<lambda>rs.
     bind (failure_lineage v rs sel) (\<lambda>(n, m).
     bind (failure_signature c n m) (\<lambda>s.
     Inr (c, sort (remdups (concat (map ev_receipt_ids sel) @ [rc_receipt_id m])), s))))))))))"

definition failure_gap :: "portfolio_request \<Rightarrow> program_revision \<Rightarrow> 'w outer \<Rightarrow> capability_gap res" where
  "failure_gap q v u =
     bind (rewrap (\<lambda>x. x \<noteq> PortfolioViolation \<and> (is_value_error x \<or> x = IntegrityError)) PortfolioViolation ''failure Claim is not authoritative''
       (failure_facts q v u)) (\<lambda>(c, ids, s).
     let g = \<lparr>gp_gap_id = [], gp_round_trip_id = pq_round_trip_id q, gp_program_id = pv_program_id v, gp_failed_revision = pv_revision_id v,
       gp_failed_bundle = pv_bundle v, gp_claim_id = cl_claim_id c, gp_claim_sha256 = claim_sha256 c,
       gp_classification = classification_text (cl_classification c), gp_evidence_ids = cl_evidence_ids c, gp_receipt_ids = ids, gp_signature = s\<rparr> in
     bind (content_sha256 (jobj (gap_fields g))) (\<lambda>h. let g = g\<lparr>gp_gap_id := ''gap-'' @ h\<rparr> in bind (check_gap g) (\<lambda>_. Inr g)))"

section \<open>The skill\<close>

definition validate_compiled :: "compiled_candidate \<Rightarrow> capability_gap \<Rightarrow> 'w outer \<Rightarrow> unit res" where
  "validate_compiled k g u =
     bind (portfolio_unless (\<not> kc_active k) ''Teacher candidate must remain inactive'') (\<lambda>_.
     bind (portfolio_unless (kc_source_gap k = gap_sha256 g) ''Teacher candidate gap lineage mismatch'') (\<lambda>_.
     bind (compiled_bundle_sha256 (ou_trees u (kc_bundle_root k))) (\<lambda>h.
     portfolio_unless (h = kc_bundle_sha256 k) ''Teacher candidate bundle hash mismatch'')))"

definition claims_authoritative :: "claim list \<Rightarrow> string \<Rightarrow> string \<Rightarrow> 'w outer \<Rightarrow> unit res" where
  "claims_authoritative cs sr gr u =
     bind (rewrap (\<lambda>x. is_value_error x \<or> x = IntegrityError) PortfolioViolation ''Claim authority replay failed''
       (bind (graph_rebuild (store_at u sr) (graph_at u gr)) latest_claims)) (\<lambda>stored.
     portfolio_unless (distinct (map cl_claim_id cs) \<and> (\<forall>c \<in> set cs. claim_by_id stored (cl_claim_id c) = Some c)) ''Claim is not authoritative'')"

definition consumed :: "bool \<Rightarrow> receipt list \<Rightarrow> receipt list" where
  "consumed b ms = filter (\<lambda>m. get (rc_payload m) ''candidate_consumed'' = JBool b) ms"

definition skill_claim_lineage :: "compiled_candidate \<Rightarrow> receipt list \<Rightarrow> claim \<Rightarrow> unit res" where
  "skill_claim_lineage k rs c = (let ms = filter (\<lambda>r. rc_kind r = ''model'') (List.map_filter (receipt_by_id rs) (cl_receipt_ids c)) in
     bind (portfolio_unless (length ms = 2) ''Skill Claim model lineage is incomplete'') (\<lambda>_.
     portfolio_unless (case (consumed False ms, consumed True ms) of
         ([b], [t]) \<Rightarrow> get (rc_payload b) ''candidate_revision_id'' = JNull \<and> get (rc_payload b) ''candidate_bundle_sha256'' = JNull
           \<and> get (rc_payload t) ''candidate_revision_id'' = JStr (kc_revision_id k)
           \<and> get (rc_payload t) ''candidate_bundle_sha256'' = JStr (kc_bundle_sha256 k)
       | _ \<Rightarrow> False) ''Skill Claim Candidate bundle mismatch''))"

definition skill_lineage :: "compiled_candidate \<Rightarrow> claim list \<Rightarrow> string \<Rightarrow> 'w outer \<Rightarrow> unit res" where
  "skill_lineage k cs sr u = bind (list_receipts (store_at u sr)) (\<lambda>rs. all_checks (map (skill_claim_lineage k rs) cs))"

definition validated_claims :: "compiled_candidate \<Rightarrow> skill_validation \<Rightarrow> 'w outer \<Rightarrow> unit res" where
  "validated_claims k a u = (let d = kv_candidate a; cs = kv_claims a in
     bind (portfolio_unless (cr_candidate_id d = kc_candidate_id k \<and> cr_revision_id d = kc_revision_id k \<and> cr_artifact_sha256 d = kc_bundle_sha256 k
       \<and> \<not> cr_active d) ''validated Candidate bundle identity mismatch'') (\<lambda>_.
     bind (portfolio_unless (cs \<noteq> [] \<and> (\<forall>c \<in> set cs. cl_candidate_id c = kc_candidate_id k \<and> cl_classification c = GAIN \<and> cl_grade c \<in> {E2, E3})
       \<and> set (cr_source_claim_ids d) = cl_claim_id ` set cs) ''Skill validation lacks native GAIN Claims'') (\<lambda>_.
     bind (claims_authoritative cs (kv_store a) (kv_graph a) u) (\<lambda>_. skill_lineage k cs (kv_store a) u))))"

definition approved_capability :: "compiled_candidate \<Rightarrow> skill_validation \<Rightarrow> 'w outer \<Rightarrow> unit res" where
  "approved_capability k a u = (let x = kv_capability a; ids = cl_claim_id ` set (kv_claims a) in
     case cap_promotion_decision_id x of None \<Rightarrow> raise PortfolioViolation ''capability bundle identity mismatch''
     | Some i \<Rightarrow>
        bind (portfolio_unless (\<not> cap_active x \<and> cap_source_candidate_id x = Some (kc_candidate_id k) \<and> cap_revision_id x = kc_revision_id k
          \<and> cap_artifact_sha256 x = kc_bundle_sha256 k \<and> set (cap_evidence_claim_ids x) = ids) ''capability bundle identity mismatch'') (\<lambda>_.
        bind (rewrap is_contract_violation PortfolioViolation ''capability lacks Governance approval'' (case ou_log u of (key, f) \<Rightarrow> verified_approved key i f)) (\<lambda>d.
        portfolio_unless (pd_gate d = APPROVED \<and> pd_grade d = E3 \<and> pd_candidate_id d = kc_candidate_id k \<and> pd_candidate_revision_id d = kc_revision_id k
          \<and> set (pd_claim_ids d) = ids) ''capability Governance identity mismatch'')))"

definition is_registry_violation :: "exn \<Rightarrow> bool" where
  "is_registry_violation x \<longleftrightarrow> x \<in> {RegistryViolation, RegistryConflict, RegistryBusy}"

definition rewrapped :: "(exn \<Rightarrow> bool) \<Rightarrow> exn \<Rightarrow> string \<Rightarrow> ('s, 'a) op \<Rightarrow> ('s, 'a) op" where
  "rewrapped p x m f s = (case f s of (s', r) \<Rightarrow> (s', rewrap p x m r))"

definition append_candidate :: "candidate_record \<Rightarrow> ('w outer, bool) op" where
  "append_candidate r u = (case registry_append candidate_registry r (ou_candidates u) of (f, x) \<Rightarrow> (u\<lparr>ou_candidates := f\<rparr>, x))"

definition append_capability :: "capability_record \<Rightarrow> ('w outer, bool) op" where
  "append_capability r u = (case capability_append (ou_registry_log u) r (ou_capabilities u) of (f, x) \<Rightarrow> (u\<lparr>ou_capabilities := f\<rparr>, x))"

definition append_program :: "program_record \<Rightarrow> ('w outer, bool) op" where
  "append_program r u = (case registry_append program_registry r (ou_programs u) of (f, x) \<Rightarrow> (u\<lparr>ou_programs := f\<rparr>, x))"

definition validate_skill :: "compiled_candidate \<Rightarrow> skill_validation \<Rightarrow> ('w outer, capability_record) op" where
  "validate_skill k a =
     obind (oread (\<lambda>u. bind (validated_claims k a u) (\<lambda>_. approved_capability k a u))) (\<lambda>c. obind (olift c) (\<lambda>_.
     obind (rewrapped is_registry_violation PortfolioViolation ''authoritative registry projection failed''
       (obind (append_candidate (kv_candidate a)) (\<lambda>_. append_capability (kv_capability a)))) (\<lambda>_.
     oreturn (kv_capability a))))"

end
