(* ===== verification/Portfolio_Run.thy ===== *)
theory Portfolio_Run
  imports Portfolio
begin

text \<open>
  \<open>src/src/evolve/portfolio/orchestrator.py\<close>, third part: composing the program, checking the tournament, the
  decision, its replay, and the run.
\<close>

section \<open>The program\<close>

definition portfolio_lineage_json :: "capability_gap \<Rightarrow> compiled_candidate \<Rightarrow> capability_record \<Rightarrow> json" where
  "portfolio_lineage_json g k x = jobj
     [(''gap_sha256'', JStr (gap_sha256 g)), (''skill_candidate_id'', JStr (kc_candidate_id k)), (''skill_candidate_revision_id'', JStr (kc_revision_id k)),
      (''skill_candidate_bundle_sha256'', JStr (kc_bundle_sha256 k)), (''capability_id'', JStr (cap_capability_id x)),
      (''capability_record_sha256'', JStr (digest (JObj (capability_record_dict x))))]"

definition composed_capabilities :: "program_revision \<Rightarrow> capability_record \<Rightarrow> string list" where
  "composed_capabilities v x = pv_capabilities v @ [cap_revision_id x]"

definition composed_revision_id :: "program_revision \<Rightarrow> capability_gap \<Rightarrow> compiled_candidate \<Rightarrow> capability_record \<Rightarrow> string" where
  "composed_revision_id v g k x = ''program-'' @ take 24 (digest (jobj [(''parent_bundle_sha256'', JStr (pv_bundle v)),
     (''capabilities'', str_list (composed_capabilities v x)), (''portfolio_lineage'', portfolio_lineage_json g k x)]))"

definition composed_projection :: "program_revision \<Rightarrow> capability_gap \<Rightarrow> compiled_candidate \<Rightarrow> capability_record \<Rightarrow> projection" where
  "composed_projection v g k x = \<lparr>pj_program_id = pv_program_id v, pj_revision_id = composed_revision_id v g k x, pj_parent = Some (pv_revision_id v),
     pj_prompt = pv_prompt v, pj_context = fmupd ''portfolio_lineage'' (portfolio_lineage_json g k x) (pv_context v), pj_tools = pv_tools v,
     pj_capabilities = composed_capabilities v x\<rparr>"

definition program_path :: "string \<Rightarrow> string \<Rightarrow> string" where
  "program_path root i = root @ ''/agent-program-revisions/'' @ i"

definition freeze_at :: "string \<Rightarrow> projection \<Rightarrow> ('w outer, program_revision) op" where
  "freeze_at p j u = (case freeze_program p j (fs_dir (ou_files u) p) of (b, r) \<Rightarrow>
     (u\<lparr>ou_files := (ou_files u)\<lparr>fs_dir := (fs_dir (ou_files u))(p := b)\<rparr>\<rparr>, r))"

text \<open>An existing directory is loaded, one that does not exist is frozen.\<close>

definition obtain_program :: "string \<Rightarrow> projection \<Rightarrow> ('w outer, program_revision) op" where
  "obtain_program p j u = (case fs_dir (ou_files u) p of
     Some d \<Rightarrow> (u, rewrap (\<lambda>x. x = AgentProgramViolation) PortfolioViolation ''existing AgentProgram is corrupt'' (load_program p (Some d)))
   | None \<Rightarrow> freeze_at p j u)"

definition composed_as :: "projection \<Rightarrow> program_revision \<Rightarrow> bool" where
  "composed_as j w \<longleftrightarrow> pv_program_id w = pj_program_id j \<and> pv_parent w = pj_parent j \<and> pv_prompt w = pj_prompt j
     \<and> py_eq (JObj (pv_context w)) (JObj (pj_context j)) \<and> pv_tools w = pj_tools j \<and> pv_capabilities w = pj_capabilities j"

definition compose_program :: "string \<Rightarrow> program_revision \<Rightarrow> capability_gap \<Rightarrow> compiled_candidate \<Rightarrow> capability_record \<Rightarrow> ('w outer, program_revision) op" where
  "compose_program root v g k x = (let j = composed_projection v g k x in
     obind (olift (portfolio_unless (cap_revision_id x \<notin> set (pv_capabilities v)) ''parent already references the capability'')) (\<lambda>_.
     obind (obtain_program (program_path root (pj_revision_id j)) j) (\<lambda>w.
     obind (olift (portfolio_unless (composed_as j w) ''AgentProgram composition identity mismatch'')) (\<lambda>_.
     obind (olift (program_record_of w)) (\<lambda>r.
     obind (rewrapped is_registry_violation PortfolioViolation ''AgentProgram registry projection failed'' (append_program r)) (\<lambda>_.
     oreturn w))))))"

section \<open>The tournament\<close>

definition expected_bundle :: "program_revision \<Rightarrow> program_revision \<Rightarrow> string \<Rightarrow> string" where
  "expected_bundle v w r = (if r = pv_revision_id w then pv_bundle w else pv_bundle v)"

definition check_tournament_result :: "program_revision \<Rightarrow> program_revision \<Rightarrow> campaign_run \<Rightarrow> unit res" where
  "check_tournament_result v w r = all_checks
     [portfolio_unless (cr_status r = RUN_COMPLETED \<and> length (cr_plans r) = 2 \<and> length (cr_decisions r) = 1
        \<and> map pl_arm (cr_plans r) = [''search-parent'', ''candidate'']
        \<and> map pl_candidate_revision_id (cr_plans r) = [pv_revision_id v, pv_revision_id w]) ''live AgentProgram tournament is incomplete'',
      portfolio_unless (\<forall>p \<in> set (cr_plans r). meta p ''execution_profile'' = JStr ''live''
        \<and> meta p ''program_bundle_sha256'' = JStr (expected_bundle v w (pl_candidate_revision_id p))) ''tournament program bundle mismatch'',
      portfolio_unless (length (cr_claims r) = 2 \<and> cl_candidate_id ` set (cr_claims r) = {pv_revision_id v, pv_revision_id w})
        ''tournament Claims are incomplete'']"

definition native_outcome :: "receipt \<Rightarrow> claim_classification option" where
  "native_outcome n = (if \<not> evaluator_silent n then Some INFRA_FAILURE
     else case get (rc_payload n) ''resolved'' of JBool True \<Rightarrow> Some GAIN | JBool False \<Rightarrow> Some NEUTRAL | _ \<Rightarrow> None)"

definition selected_evidence :: "evidence_envelope list \<Rightarrow> claim \<Rightarrow> evidence_envelope list" where
  "selected_evidence es c = List.map_filter (evidence_by_id es) (cl_evidence_ids c)"

text \<open>What the native evaluation says of a claim, whose envelopes are \<open>sel\<close>; the live check and the replay differ in their messages.\<close>

type_synonym native_messages = "string \<times> string \<times> string \<times> string"

definition live_messages :: native_messages where
  "live_messages = (''tournament Claim lacks native authority'', ''tournament model/native lineage mismatch'',
     ''tournament native outcome is not boolean'', ''tournament Claim classification contradicts native outcome'')"

definition replay_messages :: native_messages where
  "replay_messages = (''portfolio replay native Claim drift'', ''portfolio replay native/model drift'',
     ''portfolio replay Claim classification/native drift'', ''portfolio replay Claim classification/native drift'')"

definition native_claim :: "native_messages \<Rightarrow> program_revision \<Rightarrow> program_revision \<Rightarrow> receipt list \<Rightarrow> evidence_envelope list \<Rightarrow> claim \<Rightarrow> unit res" where
  "native_claim ms v w rs sel c = (case ms of (m1, m2, m3, m4) \<Rightarrow> (case native_in rs sel of
     [n] \<Rightarrow> bind (portfolio_unless (lineage_of rs (cl_candidate_id c) (expected_bundle v w (cl_candidate_id c)) n) m2) (\<lambda>_.
       (case native_outcome n of None \<Rightarrow> raise PortfolioViolation m3
        | Some k \<Rightarrow> portfolio_unless (cl_grade c = E1 \<and> cl_classification c = k) m4))
   | _ \<Rightarrow> raise PortfolioViolation m1))"

definition plan_claim :: "program_revision \<Rightarrow> program_revision \<Rightarrow> execution_plan list \<Rightarrow> evidence_envelope list \<Rightarrow> receipt list \<Rightarrow> claim \<Rightarrow> unit res" where
  "plan_claim v w ps es rs c = (case find (\<lambda>p. pl_candidate_revision_id p = cl_candidate_id c) (rev ps) of
     None \<Rightarrow> raise KeyError (cl_candidate_id c)
   | Some p \<Rightarrow> native_claim live_messages v w rs (filter (\<lambda>e. get (ev_payload e) ''plan_id'' = JStr (pl_plan_id p)) (selected_evidence es c)) c)"

text \<open>The score of a revision: that of its first claim; every participant has one.\<close>

fun portfolio_weight :: "claim_classification \<Rightarrow> int" where
  "portfolio_weight GAIN = 2" | "portfolio_weight NEUTRAL = 0" | "portfolio_weight REGRESSION = - 2" | "portfolio_weight INFRA_FAILURE = - 1"

definition first_score :: "claim list \<Rightarrow> string \<Rightarrow> int" where
  "first_score cls r = (case find (\<lambda>c. cl_candidate_id c = r) cls of None \<Rightarrow> 0 | Some c \<Rightarrow> portfolio_weight (cl_classification c))"

text \<open>The winner and the content the orchestrator computes for itself; the replay computes them in the same way.\<close>

definition portfolio_winner :: "string \<Rightarrow> string \<Rightarrow> (string \<Rightarrow> int) \<Rightarrow> string" where
  "portfolio_winner v w score = (let scores = [(v, score v), (w, score w)]; highest = foldr max (map snd (tl scores)) (snd (hd scores));
       tied = set (map fst (filter (\<lambda>(r, s). s = highest) scores)) in
     if v \<in> tied then v else Min tied)"

definition portfolio_decision_json :: "json \<Rightarrow> string \<Rightarrow> string \<Rightarrow> (string \<times> json) list \<Rightarrow> claim list \<Rightarrow> (string \<Rightarrow> int) \<Rightarrow> string \<Rightarrow> json" where
  "portfolio_decision_json tid v w bundles cls score win = jobj
     [(''tournament_id'', tid), (''execution_scope'', JStr ''live''), (''parent_revision_id'', JStr v),
      (''participant_revision_ids'', JList [JStr v, JStr w]),
      (''program_bundle_sha256'', JList (map (\<lambda>(r, b). JList [JStr r, b]) bundles)),
      (''claim_ids'', JList (map (\<lambda>c. JStr (cl_claim_id c)) cls)),
      (''claim_sha256'', JList (map (\<lambda>c. JList [JStr (cl_claim_id c), JStr (claim_sha256 c)]) cls)),
      (''scores'', JList [JList [JStr v, JInt (score v)], JList [JStr w, JInt (score w)]]),
      (''winner_revision_id'', JStr win)]"

definition expected_reason :: "string \<Rightarrow> string \<Rightarrow> string" where
  "expected_reason h win = ''decision='' @ h @ '';winner='' @ win @ '';scope=live;promotion_claimed=false''"

definition tournament_outcome :: "json \<Rightarrow> program_revision \<Rightarrow> program_revision \<Rightarrow> (string \<times> json) list \<Rightarrow> claim list \<Rightarrow> (string \<times> string \<times> string) res" where
  "tournament_outcome tid v w bundles cls = (let cls = sort_key cl_claim_id cls; score = first_score cls;
       win = portfolio_winner (pv_revision_id v) (pv_revision_id w) score in
     bind (content_sha256 (portfolio_decision_json tid (pv_revision_id v) (pv_revision_id w) bundles cls score win)) (\<lambda>h.
     Inr (if win = pv_revision_id w then ''advance-search-parent'' else ''reject-candidates'', win, h)))"

definition validate_tournament :: "program_revision \<Rightarrow> program_revision \<Rightarrow> tournament_authority \<Rightarrow> 'w outer \<Rightarrow> (string \<times> string \<times> string) res" where
  "validate_tournament v w a u = (let r = ta_result a; cs = cr_claims r; ps = cr_plans r in
     bind (check_tournament_result v w r) (\<lambda>_.
     bind (claims_authoritative cs (ta_store a) (ta_graph a) u) (\<lambda>_.
     bind (list_receipts (store_at u (ta_store a))) (\<lambda>rs.
     bind (list_evidence (graph_at u (ta_graph a))) (\<lambda>es.
     bind (all_checks (map (plan_claim v w ps es rs) cs)) (\<lambda>_.
     bind (tournament_outcome (meta (hd ps) ''tournament_id'') v w (map (\<lambda>p. (pl_candidate_revision_id p, meta p ''program_bundle_sha256'')) ps) cs) (\<lambda>(action, win, h).
     bind (case cr_decisions r of d # _ \<Rightarrow> portfolio_unless (sd_status d = LIVE \<and> sd_action d = action
         \<and> sd_claim_ids d = map cl_claim_id (sort_key cl_claim_id cs) \<and> sd_reason d = expected_reason h win) ''tournament decision is not authority-bound''
       | [] \<Rightarrow> raise IndexError ''decisions'') (\<lambda>_. Inr (action, win, h)))))))))"

section \<open>The decision\<close>

definition claim_hashes :: "claim list \<Rightarrow> (string \<times> string) list" where
  "claim_hashes cs = sort_key fst (sort_key snd (map (\<lambda>c. (cl_claim_id c, claim_sha256 c)) cs))"

definition portfolio_payload :: "portfolio_decision \<Rightarrow> json" where
  "portfolio_payload d = jobj
     [(''round_trip_id'', JStr (pt_round_trip_id d)), (''gap_sha256'', JStr (pt_gap_sha256 d)), (''skill_candidate_bundle_sha256'', JStr (pt_skill_sha256 d)),
      (''capability_sha256'', JStr (pt_capability_sha256 d)), (''candidate_program_bundle_sha256'', JStr (pt_program_sha256 d)),
      (''tournament_campaign_id'', JStr (pt_campaign_id d)), (''tournament_action'', JStr (pt_action d)),
      (''tournament_decision_sha256'', JStr (pt_tournament_sha256 d)), (''search_parent_revision_id'', JStr (pt_search_parent d)),
      (''skill_claim_sha256'', routes_json (pt_skill_claim_sha256 d)), (''tournament_claim_sha256'', routes_json (pt_claim_sha256 d))]"

definition none_empty :: "string option \<Rightarrow> string" where
  "none_empty x = (case x of None \<Rightarrow> [] | Some s \<Rightarrow> s)"

definition make_portfolio_decision :: "portfolio_request \<Rightarrow> capability_gap \<Rightarrow> compiled_candidate \<Rightarrow> skill_validation \<Rightarrow> program_revision
     \<Rightarrow> tournament_authority \<Rightarrow> string \<times> string \<times> string \<Rightarrow> portfolio_decision res" where
  "make_portfolio_decision q g k a w t outcome = (case outcome of (action, win, h) \<Rightarrow>
     let x = kv_capability a; cs = cr_claims (ta_result t) in
     bind (case cr_plans (ta_result t) of [] \<Rightarrow> raise IndexError ''plans'' | p # _ \<Rightarrow> item (pl_metadata p) ''tournament_id'') (\<lambda>tid.
     let d = \<lparr>pt_decision_id = [], pt_round_trip_id = pq_round_trip_id q, pt_gap_sha256 = gap_sha256 g, pt_skill_candidate_id = kc_candidate_id k,
       pt_skill_revision = kc_revision_id k, pt_skill_sha256 = kc_bundle_sha256 k, pt_skill_root = kc_bundle_root k,
       pt_capability_id = cap_capability_id x, pt_capability_revision = cap_revision_id x, pt_capability_sha256 = digest (JObj (capability_record_dict x)),
       pt_promotion_id = none_empty (cap_promotion_decision_id x), pt_program_id = pv_program_id w, pt_parent_revision = none_empty (pv_parent w),
       pt_program_revision = pv_revision_id w, pt_program_root = pv_root w, pt_program_sha256 = pv_bundle w,
       pt_skill_claim_ids = sort (map cl_claim_id (kv_claims a)), pt_skill_claim_sha256 = claim_hashes (kv_claims a), pt_skill_store = kv_store a,
       pt_skill_graph = kv_graph a, pt_campaign_id = cr_campaign_id (ta_result t), pt_tournament_id = py_str tid, pt_tournament_sha256 = h,
       pt_action = action, pt_search_parent = win, pt_claim_ids = sort (map cl_claim_id cs), pt_claim_sha256 = claim_hashes cs,
       pt_store = ta_store t, pt_graph = ta_graph t\<rparr> in
     bind (content_sha256 (portfolio_payload d)) (\<lambda>i. let d = d\<lparr>pt_decision_id := ''portfolio-decision-'' @ i\<rparr> in
     bind (check_portfolio_decision d) (\<lambda>_. Inr d))))"

section \<open>Replay\<close>

definition replayed_capability :: "portfolio_decision \<Rightarrow> 'w outer \<Rightarrow> capability_record res" where
  "replayed_capability d u =
     bind (registry_get capability_registry (pt_capability_id d, pt_capability_revision d) (ou_capabilities u)) (\<lambda>c. case c of
       Some x \<Rightarrow> bind (portfolio_unless (digest (JObj (capability_record_dict x)) = pt_capability_sha256 d \<and> \<not> cap_active x
         \<and> cap_promotion_decision_id x = Some (pt_promotion_id d)) ''portfolio replay capability drift'') (\<lambda>_. Inr x)
     | None \<Rightarrow> raise PortfolioViolation ''portfolio replay capability drift'')"

definition replayed_candidate :: "portfolio_decision \<Rightarrow> 'w outer \<Rightarrow> unit res" where
  "replayed_candidate d u =
     bind (rewrap is_contract_violation PortfolioViolation ''portfolio replay Governance drift''
       (case ou_log u of (key, f) \<Rightarrow> verified_approved key (pt_promotion_id d) f)) (\<lambda>y.
     bind (portfolio_unless (pd_candidate_id y = pt_skill_candidate_id d) ''portfolio replay Candidate drift'') (\<lambda>_.
     bind (registry_get candidate_registry (pt_skill_candidate_id d, pt_skill_revision d) (ou_candidates u)) (\<lambda>c. case c of
       Some x \<Rightarrow> bind (portfolio_unless (cr_artifact_sha256 x = pt_skill_sha256 d) ''portfolio replay Candidate registry drift'') (\<lambda>_.
         bind (compiled_bundle_sha256 (ou_trees u (pt_skill_root d))) (\<lambda>h.
         portfolio_unless (h = pt_skill_sha256 d) ''portfolio replay Candidate registry drift''))
     | None \<Rightarrow> raise PortfolioViolation ''portfolio replay Candidate registry drift'')))"

definition replayed_program :: "portfolio_decision \<Rightarrow> program_revision \<Rightarrow> capability_record \<Rightarrow> 'w outer \<Rightarrow> program_revision res" where
  "replayed_program d v x u =
     bind (rewrap (\<lambda>e. e = AgentProgramViolation) PortfolioViolation ''portfolio replay AgentProgram drift''
       (load_program (pt_program_root d) (fs_dir (ou_files u) (pt_program_root d)))) (\<lambda>w.
     bind (registry_get program_registry (pt_program_id d, pt_program_revision d) (ou_programs u)) (\<lambda>r.
     bind (portfolio_unless (pv_bundle w = pt_program_sha256 d \<and> pv_parent w = Some (pv_revision_id v) \<and> cap_revision_id x \<in> set (pv_capabilities w)
       \<and> (case r of None \<Rightarrow> False | Some y \<Rightarrow> pr_artifact_sha256 y = pv_bundle w)) ''portfolio replay AgentProgram drift'') (\<lambda>_. Inr w)))"

definition replayed_claims :: "string list \<Rightarrow> (string \<times> string) list \<Rightarrow> string \<Rightarrow> string \<Rightarrow> 'w outer \<Rightarrow> claim list res" where
  "replayed_claims ids hashes sr gr u =
     bind (latest_claims (graph_at u gr)) (\<lambda>stored. let cs = filter (\<lambda>c. cl_claim_id c \<in> set ids) stored in
     bind (claims_authoritative cs sr gr u) (\<lambda>_.
     bind (portfolio_unless (claim_hashes cs = hashes) ''portfolio replay Claim drift'') (\<lambda>_. Inr cs)))"

definition replayed_tournament :: "portfolio_decision \<Rightarrow> program_revision \<Rightarrow> program_revision \<Rightarrow> claim list \<Rightarrow> 'w outer \<Rightarrow> unit res" where
  "replayed_tournament d v w cs u =
     bind (portfolio_unless (cl_candidate_id ` set cs = {pv_revision_id v, pv_revision_id w}) ''portfolio replay tournament participants drift'') (\<lambda>_.
     bind (list_receipts (store_at u (pt_store d))) (\<lambda>rs.
     bind (list_evidence (graph_at u (pt_graph d))) (\<lambda>es.
     bind (all_checks (map (\<lambda>c. native_claim replay_messages v w rs (selected_evidence es c) c) cs)) (\<lambda>_.
     bind (tournament_outcome (JStr (pt_tournament_id d)) v w [(pv_revision_id v, JStr (pv_bundle v)), (pv_revision_id w, JStr (pv_bundle w))] cs) (\<lambda>(action, win, h).
     portfolio_unless (pt_search_parent d = win \<and> pt_action d = action \<and> pt_tournament_sha256 d = h) ''portfolio replay tournament decision drift'')))))"

definition portfolio_replay :: "capability_gap \<Rightarrow> portfolio_decision \<Rightarrow> program_revision \<Rightarrow> 'w outer \<Rightarrow> portfolio_result res" where
  "portfolio_replay g d v u =
     bind (portfolio_unless (pt_gap_sha256 d = gap_sha256 g \<and> pt_parent_revision d = pv_revision_id v) ''portfolio replay input identity drift'') (\<lambda>_.
     bind (replayed_capability d u) (\<lambda>x.
     bind (replayed_candidate d u) (\<lambda>_.
     bind (replayed_program d v x u) (\<lambda>w.
     bind (replayed_claims (pt_skill_claim_ids d) (pt_skill_claim_sha256 d) (pt_skill_store d) (pt_skill_graph d) u) (\<lambda>_.
     bind (replayed_claims (pt_claim_ids d) (pt_claim_sha256 d) (pt_store d) (pt_graph d) u) (\<lambda>cs.
     bind (replayed_tournament d v w cs u) (\<lambda>_.
     Inr \<lparr>px_gap = g, px_decision = d, px_capability = x, px_program = w, px_replayed = True\<rparr>)))))))"

section \<open>The run\<close>

definition on_outer :: "('w outer, 'a) op \<Rightarrow> ('w portfolio, 'a) op" where
  "on_outer f s = (case f (po_outer s) of (u, r) \<Rightarrow> (s\<lparr>po_outer := u\<rparr>, r))"

definition on_gaps :: "(line_file, 'a) op \<Rightarrow> ('w portfolio, 'a) op" where
  "on_gaps f s = (case f (po_gaps s) of (l, r) \<Rightarrow> (s\<lparr>po_gaps := l\<rparr>, r))"

definition on_decisions :: "(line_file, 'a) op \<Rightarrow> ('w portfolio, 'a) op" where
  "on_decisions f s = (case f (po_decisions s) of (l, r) \<Rightarrow> (s\<lparr>po_decisions := l\<rparr>, r))"

definition checked :: "('s \<Rightarrow> 'a res) \<Rightarrow> ('s, 'a) op" where
  "checked f s = (s, f s)"

definition fresh_round :: "'w parties \<Rightarrow> portfolio_request \<Rightarrow> program_revision \<Rightarrow> capability_gap \<Rightarrow> string \<Rightarrow> ('w outer, portfolio_decision \<times> portfolio_result) op" where
  "fresh_round pa q v g root =
     obind (pa_compile pa g) (\<lambda>k.
     obind (checked (validate_compiled k g)) (\<lambda>_.
     obind (pa_validate pa g k) (\<lambda>a.
     obind (checked (validate_compiled k g)) (\<lambda>_.
     obind (validate_skill k a) (\<lambda>x.
     obind (compose_program root v g k x) (\<lambda>w.
     obind (pa_run pa v w) (\<lambda>t.
     obind (checked (validate_compiled k g)) (\<lambda>_.
     obind (checked (validate_tournament v w t)) (\<lambda>outcome.
     obind (olift (make_portfolio_decision q g k a w t outcome)) (\<lambda>d.
     oreturn (d, \<lparr>px_gap = g, px_decision = d, px_capability = x, px_program = w, px_replayed = False\<rparr>)))))))))))"

definition portfolio_run :: "'w parties \<Rightarrow> portfolio_request \<Rightarrow> ('w portfolio, portfolio_result) op" where
  "portfolio_run pa q =
     obind (on_outer (checked (portfolio_parent (pq_parent_root q)))) (\<lambda>v.
     obind (on_outer (checked (failure_gap q v))) (\<lambda>g.
     obind (on_gaps (portfolio_append gap_log g)) (\<lambda>_.
     obind (on_decisions (checked (portfolio_get round_log (pq_round_trip_id q)))) (\<lambda>prior. case prior of
       Some d \<Rightarrow> on_outer (checked (portfolio_replay g d v))
     | None \<Rightarrow> obind (oread po_root) (\<lambda>root. obind (on_outer (fresh_round pa q v g root)) (\<lambda>(d, res).
         obind (on_decisions (portfolio_append round_log d)) (\<lambda>_. oreturn res)))))))"

end
