(* ===== verification/Portfolio_Claims.thy ===== *)
theory Portfolio_Claims
  imports Portfolio_Run Portfolio_Log
begin

text \<open>
  What the steps of a round trip establish when they return: the checks of the skill, of the
  composition and of the tournament, each as a fact about the outer state it has read.
\<close>

section \<open>Steps\<close>

lemma checked_eq [simp]: "checked f s = (s, f s)"
  by (simp add: checked_def)

lemma checked_Inr [res_simps]: "checked f s = (s', Inr x) \<longleftrightarrow> s' = s \<and> f s = Inr x"
  by auto

lemma obind_checked: "obind (checked f) g s = (case f s of Inl e \<Rightarrow> (s, Inl e) | Inr x \<Rightarrow> g x s)"
  by (simp add: obind_def)

lemma rewrapped_Inr [res_simps]: "rewrapped p x m f s = (s', Inr y) \<longleftrightarrow> f s = (s', Inr y)"
  by (auto simp: rewrapped_def rewrap_eq_Inr split: prod.splits)

lemma on_outer_Inr: "on_outer f s = (s', Inr x) \<longleftrightarrow> (\<exists>u. f (po_outer s) = (u, Inr x) \<and> s' = s\<lparr>po_outer := u\<rparr>)"
  by (auto simp: on_outer_def split: prod.splits)

lemma on_decisions_Inr: "on_decisions f s = (s', Inr x) \<longleftrightarrow> (\<exists>l. f (po_decisions s) = (l, Inr x) \<and> s' = s\<lparr>po_decisions := l\<rparr>)"
  by (auto simp: on_decisions_def split: prod.splits)

lemma on_gaps_Inr: "on_gaps f s = (s', Inr x) \<longleftrightarrow> (\<exists>l. f (po_gaps s) = (l, Inr x) \<and> s' = s\<lparr>po_gaps := l\<rparr>)"
  by (auto simp: on_gaps_def split: prod.splits)

lemma on_outer_checked: "on_outer (checked f) s = (s, f (po_outer s))"
  by (simp add: on_outer_def)

lemma on_decisions_checked: "on_decisions (checked f) s = (s, f (po_decisions s))"
  by (simp add: on_decisions_def)

lemma on_gaps_frame: "on_gaps f s = (s', r) \<Longrightarrow> po_outer s' = po_outer s \<and> po_decisions s' = po_decisions s \<and> po_root s' = po_root s"
  by (auto simp: on_gaps_def split: prod.splits)

section \<open>The prefix of a run\<close>

text \<open>Parent, gap and the stored decision; only the gaps change.\<close>

definition round_start :: "portfolio_request \<Rightarrow> ('w portfolio, program_revision \<times> capability_gap \<times> portfolio_decision option) op" where
  "round_start q =
     obind (on_outer (checked (portfolio_parent (pq_parent_root q)))) (\<lambda>v.
     obind (on_outer (checked (failure_gap q v))) (\<lambda>g.
     obind (on_gaps (portfolio_append gap_log g)) (\<lambda>_.
     obind (on_decisions (checked (portfolio_get round_log (pq_round_trip_id q)))) (\<lambda>prior. oreturn (v, g, prior)))))"

definition round_rest :: "'w parties \<Rightarrow> portfolio_request \<Rightarrow> program_revision \<times> capability_gap \<times> portfolio_decision option \<Rightarrow> ('w portfolio, portfolio_result) op" where
  "round_rest pa q x = (case x of (v, g, Some d) \<Rightarrow> on_outer (checked (portfolio_replay g d v))
     | (v, g, None) \<Rightarrow> obind (oread po_root) (\<lambda>root. obind (on_outer (fresh_round pa q v g root)) (\<lambda>(d, res).
         obind (on_decisions (portfolio_append round_log d)) (\<lambda>_. oreturn res))))"

lemma run_in_two: "portfolio_run pa q s = obind (round_start q) (round_rest pa q) s"
  by (auto simp: portfolio_run_def round_start_def round_rest_def obind_def oread_def oreturn_def split: prod.splits sum.splits option.splits)

lemma round_start_frame:
  assumes "round_start q s = (s', r)"
  shows "po_outer s' = po_outer s \<and> po_decisions s' = po_decisions s \<and> po_root s' = po_root s"
  using assms by (auto simp: round_start_def obind_def on_outer_checked on_decisions_checked split: prod.splits sum.splits dest: on_gaps_frame)

lemma round_start_Inr:
  assumes "round_start q s = (s', Inr (v, g, prior))"
  shows "portfolio_parent (pq_parent_root q) (po_outer s) = Inr v" and "failure_gap q v (po_outer s) = Inr g"
    and "portfolio_get round_log (pq_round_trip_id q) (po_decisions s) = Inr prior"
    and "\<exists>b. portfolio_append gap_log g (po_gaps s) = (po_gaps s', Inr b)"
proof -
  from assms obtain l b where x: "portfolio_parent (pq_parent_root q) (po_outer s) = Inr v" "failure_gap q v (po_outer s) = Inr g"
    "portfolio_append gap_log g (po_gaps s) = (l, Inr b)" "portfolio_get round_log (pq_round_trip_id q) (po_decisions s) = Inr prior" "s' = s\<lparr>po_gaps := l\<rparr>"
    by (auto simp: round_start_def obind_eq_Inr on_outer_checked on_decisions_checked on_gaps_Inr)
  from x show "portfolio_parent (pq_parent_root q) (po_outer s) = Inr v" "failure_gap q v (po_outer s) = Inr g"
    "portfolio_get round_log (pq_round_trip_id q) (po_decisions s) = Inr prior" by simp_all
  show "\<exists>b. portfolio_append gap_log g (po_gaps s) = (po_gaps s', Inr b)" using x(3,5) by auto
qed

lemma decided_round_frame:
  assumes "portfolio_get round_log (pq_round_trip_id q) (po_decisions s) \<noteq> Inr None"
  shows "po_outer (fst (portfolio_run pa q s)) = po_outer s \<and> po_decisions (fst (portfolio_run pa q s)) = po_decisions s"
proof -
  obtain s' r where st: "round_start q s = (s', r)" by fastforce
  note fr = round_start_frame [OF st]
  show ?thesis
  proof (cases r)
    case (Inl e)
    then show ?thesis using st fr by (simp add: run_in_two obind_def)
  next
    case (Inr x)
    obtain v g prior where x: "x = (v, g, prior)" by (cases x)
    then obtain d where "prior = Some d" using round_start_Inr(3) st Inr assms by (metis option.exhaust)
    then show ?thesis using st fr Inr x by (simp add: run_in_two obind_def round_rest_def on_outer_checked)
  qed
qed

section \<open>What the checks establish\<close>

lemma append_program_frame: "append_program r u = (u', x) \<Longrightarrow> ou_log u' = ou_log u \<and> ou_trees u' = ou_trees u \<and> ou_files u' = ou_files u"
  by (auto simp: append_program_def split: prod.splits)

text \<open>The claims are what the evidence graph, rebuilt over the receipts, holds last.\<close>

definition stored_claims :: "claim list \<Rightarrow> string \<Rightarrow> string \<Rightarrow> 'w outer \<Rightarrow> bool" where
  "stored_claims cs sr gr u \<longleftrightarrow> distinct (map cl_claim_id cs) \<and> (case graph_rebuild (store_at u sr) (graph_at u gr) of Inl e \<Rightarrow> False
     | Inr g \<Rightarrow> (case latest_claims g of Inl e \<Rightarrow> False | Inr stored \<Rightarrow> set cs \<subseteq> set stored))"

lemma claim_by_id_mem: "claim_by_id cs i = Some c \<Longrightarrow> c \<in> set cs \<and> cl_claim_id c = i"
  unfolding claim_by_id_def find_Some_iff by (metis length_rev nth_mem set_rev)

lemma authoritative_stored: "claims_authoritative cs sr gr u = Inr () \<Longrightarrow> stored_claims cs sr gr u"
  by (auto simp: claims_authoritative_def stored_claims_def rewrap_eq_Inr bind_eq_Inr res_simps dest!: claim_by_id_mem)

text \<open>The skill: native gains of its bundle, approved by Governance at the highest grade.\<close>

definition skill_backed :: "compiled_candidate \<Rightarrow> skill_validation \<Rightarrow> 'w outer \<Rightarrow> bool" where
  "skill_backed k a u \<longleftrightarrow> kv_claims a \<noteq> [] \<and> stored_claims (kv_claims a) (kv_store a) (kv_graph a) u
     \<and> (\<forall>c \<in> set (kv_claims a). cl_candidate_id c = kc_candidate_id k \<and> cl_classification c = GAIN \<and> cl_grade c \<in> {E2, E3})
     \<and> cap_source_candidate_id (kv_capability a) = Some (kc_candidate_id k) \<and> cap_artifact_sha256 (kv_capability a) = kc_bundle_sha256 k
     \<and> \<not> cap_active (kv_capability a)
     \<and> (\<exists>i y. cap_promotion_decision_id (kv_capability a) = Some i \<and> verified_approved (fst (ou_log u)) i (snd (ou_log u)) = Inr y
          \<and> pd_gate y = APPROVED \<and> pd_grade y = E3 \<and> pd_candidate_id y = kc_candidate_id k \<and> pd_candidate_revision_id y = kc_revision_id k
          \<and> set (pd_claim_ids y) = cl_claim_id ` set (kv_claims a))"

lemma validate_skill_backed:
  assumes "validate_skill k a u = (u', Inr x)"
  shows "skill_backed k a u \<and> x = kv_capability a \<and> ou_files u' = ou_files u \<and> ou_trees u' = ou_trees u \<and> ou_log u' = ou_log u \<and> ou_programs u' = ou_programs u"
proof -
  from assms have v: "validated_claims k a u = Inr ()" "approved_capability k a u = Inr ()" "x = kv_capability a"
    and w: "\<exists>b. obind (append_candidate (kv_candidate a)) (\<lambda>_. append_capability (kv_capability a)) u = (u', Inr b)"
    by (auto simp: validate_skill_def obind_eq_Inr olift_eq_Inr bind_eq_Inr rewrapped_Inr)
  have f: "ou_files u' = ou_files u \<and> ou_trees u' = ou_trees u \<and> ou_log u' = ou_log u \<and> ou_programs u' = ou_programs u"
    using w by (auto simp: obind_eq_Inr append_candidate_def append_capability_def split: prod.splits)
  have "skill_backed k a u"
    using v(1,2) by (auto simp: skill_backed_def validated_claims_def approved_capability_def Let_def bind_eq_Inr res_simps
        dest!: authoritative_stored split: option.splits prod.splits)
  then show ?thesis using v f by simp
qed

text \<open>The program: the parent with one more capability and the lineage in its context.\<close>

definition composed_from :: "program_revision \<Rightarrow> capability_gap \<Rightarrow> compiled_candidate \<Rightarrow> capability_record \<Rightarrow> program_revision \<Rightarrow> bool" where
  "composed_from v g k x w \<longleftrightarrow> pv_program_id w = pv_program_id v \<and> pv_parent w = Some (pv_revision_id v) \<and> pv_prompt w = pv_prompt v
     \<and> pv_tools w = pv_tools v \<and> pv_capabilities w = pv_capabilities v @ [cap_revision_id x] \<and> cap_revision_id x \<notin> set (pv_capabilities v)
     \<and> py_eq (JObj (pv_context w)) (JObj (fmupd ''portfolio_lineage'' (portfolio_lineage_json g k x) (pv_context v)))"

lemma compose_program_from:
  assumes "compose_program root v g k x u = (u', Inr w)"
  shows "composed_from v g k x w \<and> ou_log u' = ou_log u \<and> ou_trees u' = ou_trees u"
proof -
  let ?j = "composed_projection v g k x"
  from assms obtain u1 b where c: "cap_revision_id x \<notin> set (pv_capabilities v)" "composed_as ?j w"
    "obtain_program (program_path root (pj_revision_id ?j)) ?j u = (u1, Inr w)" and a: "\<exists>r b. append_program r u1 = (u', Inr b)"
    by (auto simp: compose_program_def Let_def obind_eq_Inr olift_eq_Inr rewrapped_Inr portfolio_unless_eq)
  have "ou_log u1 = ou_log u \<and> ou_trees u1 = ou_trees u"
    using c(3) by (auto simp: obtain_program_def freeze_at_def split: option.splits prod.splits)
  then have "ou_log u' = ou_log u \<and> ou_trees u' = ou_trees u" using a by (metis append_program_frame)
  then show ?thesis using c(1,2) by (auto simp: composed_from_def composed_as_def composed_projection_def composed_capabilities_def)
qed

text \<open>The tournament: a native evaluation of each of the two programs, and the winner they give.\<close>

definition tournament_backed :: "program_revision \<Rightarrow> program_revision \<Rightarrow> tournament_authority \<Rightarrow> 'w outer \<Rightarrow> string \<times> string \<times> string \<Rightarrow> bool" where
  "tournament_backed v w t u out \<longleftrightarrow> (let cs = cr_claims (ta_result t); ps = cr_plans (ta_result t) in
     stored_claims cs (ta_store t) (ta_graph t) u \<and> length cs = 2 \<and> cl_candidate_id ` set cs = {pv_revision_id v, pv_revision_id w}
     \<and> (\<exists>rs es. list_receipts (store_at u (ta_store t)) = Inr rs \<and> list_evidence (graph_at u (ta_graph t)) = Inr es
          \<and> (\<forall>c \<in> set cs. plan_claim v w ps es rs c = Inr ()))
     \<and> tournament_outcome (meta (hd ps) ''tournament_id'') v w (map (\<lambda>p. (pl_candidate_revision_id p, meta p ''program_bundle_sha256'')) ps) cs = Inr out)"

lemma validate_tournament_backed:
  assumes "validate_tournament v w t u = Inr out"
  shows "tournament_backed v w t u out"
proof -
  let ?cs = "cr_claims (ta_result t)" and ?ps = "cr_plans (ta_result t)"
  obtain action win h where o: "out = (action, win, h)" by (cases out)
  obtain rs es where r: "check_tournament_result v w (ta_result t) = Inr ()" "claims_authoritative ?cs (ta_store t) (ta_graph t) u = Inr ()"
    "list_receipts (store_at u (ta_store t)) = Inr rs" "list_evidence (graph_at u (ta_graph t)) = Inr es"
    "all_checks (map (plan_claim v w ?ps es rs) ?cs) = Inr ()"
    "tournament_outcome (meta (hd ?ps) ''tournament_id'') v w (map (\<lambda>p. (pl_candidate_revision_id p, meta p ''program_bundle_sha256'')) ?ps) ?cs = Inr out"
    using assms unfolding o validate_tournament_def Let_def by (auto simp: bind_eq_Inr)
  from r(1) have "length ?cs = 2" "cl_candidate_id ` set ?cs = {pv_revision_id v, pv_revision_id w}"
    by (simp_all add: check_tournament_result_def bind_eq_Inr portfolio_unless_eq)
  moreover have "\<forall>c \<in> set ?cs. plan_claim v w ?ps es rs c = Inr ()" using r(5) by (simp add: all_checks_eq_Inr)
  ultimately show ?thesis using authoritative_stored [OF r(2)] r(3,4,6) by (simp add: tournament_backed_def Let_def)
qed


text \<open>
  The properties of a round trip: what a new decision rests on, and when the outside parties are called.
\<close>

section \<open>The run\<close>

lemma run_parts:
  fixes s s' :: "'w portfolio"
  assumes "portfolio_run pa q s = (s', Inr r)"
  obtains (replay) v g d and s1 :: "'w portfolio" where "round_start q s = (s1, Inr (v, g, Some d))" "portfolio_replay g d v (po_outer s1) = Inr r" "s' = s1"
  | (fresh) v g u d l b and s1 :: "'w portfolio" where "round_start q s = (s1, Inr (v, g, None))"
      "fresh_round pa q v g (po_root s1) (po_outer s1) = (u, Inr (d, r))"
      "portfolio_append round_log d (po_decisions s1) = (l, Inr b)" "s' = s1\<lparr>po_outer := u, po_decisions := l\<rparr>"
proof -
  from assms obtain s1 v g prior where st: "round_start q s = (s1, Inr (v, g, prior))" and rest: "round_rest pa q (v, g, prior) s1 = (s', Inr r)"
    by (auto simp: run_in_two obind_eq_Inr)
  show thesis
  proof (cases prior)
    case (Some d)
    with rest have "portfolio_replay g d v (po_outer s1) = Inr r" "s' = s1" by (auto simp: round_rest_def on_outer_checked)
    then show thesis using st Some replay by blast
  next
    case None
    with rest show thesis using st fresh by (auto simp: round_rest_def obind_eq_Inr on_outer_Inr on_decisions_Inr)
  qed
qed

lemma replay_returns: "portfolio_replay g d v u = Inr r \<Longrightarrow> px_replayed r \<and> px_decision r = d"
  by (auto simp: portfolio_replay_def bind_eq_Inr)

lemma returned_is_stored:
  assumes "snd (portfolio_run pa q s) = Inr r" and "portfolio_get round_log (pq_round_trip_id q) (po_decisions s) \<noteq> Inr None"
  shows "px_replayed r \<and> portfolio_get round_log (pq_round_trip_id q) (po_decisions s) = Inr (Some (px_decision r))"
proof -
  obtain s' where "portfolio_run pa q s = (s', Inr r)" using assms(1) by (metis prod.collapse)
  then show ?thesis
  proof (cases rule: run_parts)
    case (replay v g d s1)
    then show ?thesis using round_start_Inr(3) replay_returns by metis
  next
    case (fresh v g u d l b s1)
    then show ?thesis using round_start_Inr(3) assms(2) by metis
  qed
qed

text \<open>Once a decision of a round trip is stored, or the decisions cannot be read, a run calls neither the Teacher, the skill authority
  nor the tournament and writes neither registries nor decisions: it returns that decision marked as replayed, or raises.\<close>

theorem decided_round_calls_nobody:
  "case portfolio_get round_log (pq_round_trip_id q) (po_decisions s) of
     Inr None \<Rightarrow> True
   | stored \<Rightarrow> po_outer (fst (portfolio_run pa q s)) = po_outer s \<and> po_decisions (fst (portfolio_run pa q s)) = po_decisions s
       \<and> (case snd (portfolio_run pa q s) of Inl e \<Rightarrow> True | Inr r \<Rightarrow> px_replayed r \<and> stored = Inr (Some (px_decision r)))"
proof (cases "portfolio_get round_log (pq_round_trip_id q) (po_decisions s) = Inr None")
  case False
  have r: "px_replayed r \<and> portfolio_get round_log (pq_round_trip_id q) (po_decisions s) = Inr (Some (px_decision r))"
    if "snd (portfolio_run pa q s) = Inr r" for r
    using returned_is_stored [of pa q s r] that False by metis
  show ?thesis using decided_round_frame [OF False, of pa] r False
    by (auto split: sum.splits option.splits)
qed simp

text \<open>Everything a new decision rests on, at the outer states where it was checked: \<open>u\<close> is the one the round started in, \<open>u'\<close> the last.\<close>

definition fresh_backed :: "'w parties \<Rightarrow> portfolio_request \<Rightarrow> program_revision \<Rightarrow> portfolio_result \<Rightarrow> 'w outer \<Rightarrow> 'w outer \<Rightarrow> bool" where
  "fresh_backed pa q v r u u' \<longleftrightarrow> (\<exists>k a t u0 u1 u2 action win h.
     pa_compile pa (px_gap r) u = (u0, Inr k) \<and> pa_validate pa (px_gap r) k u0 = (u1, Inr a) \<and> pa_run pa v (px_program r) u2 = (u', Inr t)
     \<and> skill_backed k a u1 \<and> kv_capability a = px_capability r \<and> kc_source_gap k = gap_sha256 (px_gap r)
     \<and> compiled_bundle_sha256 (ou_trees u' (kc_bundle_root k)) = Inr (kc_bundle_sha256 k)
     \<and> composed_from v (px_gap r) k (px_capability r) (px_program r)
     \<and> tournament_backed v (px_program r) t u' (action, win, h)
     \<and> make_portfolio_decision q (px_gap r) k a (px_program r) t (action, win, h) = Inr (px_decision r))"

lemma fresh_round_backed:
  fixes u u' :: "'w outer"
  assumes "fresh_round pa q v g root u = (u', Inr (d, r))"
  shows "px_decision r = d \<and> px_gap r = g \<and> \<not> px_replayed r \<and> fresh_backed pa q v r u u'"
proof -
  from assms obtain k a x w t action win h and u0 u1 u3 u4 :: "'w outer" where p:
    "pa_compile pa g u = (u0, Inr k)" "pa_validate pa g k u0 = (u1, Inr a)" "pa_run pa v w u4 = (u', Inr t)" and c:
    "validate_compiled k g u' = Inr ()" "validate_skill k a u1 = (u3, Inr x)" "compose_program root v g k x u3 = (u4, Inr w)"
    "validate_tournament v w t u' = Inr (action, win, h)" "make_portfolio_decision q g k a w t (action, win, h) = Inr d"
    and r: "r = \<lparr>px_gap = g, px_decision = d, px_capability = x, px_program = w, px_replayed = False\<rparr>"
    by (auto simp: fresh_round_def obind_eq_Inr olift_eq_Inr)
  have "kc_source_gap k = gap_sha256 g" "compiled_bundle_sha256 (ou_trees u' (kc_bundle_root k)) = Inr (kc_bundle_sha256 k)"
    using c(1) by (auto simp: validate_compiled_def bind_eq_Inr portfolio_unless_eq)
  then have "fresh_backed pa q v r u u'" unfolding fresh_backed_def
    using p c(5) validate_skill_backed [OF c(2)] compose_program_from [OF c(3)] validate_tournament_backed [OF c(4)] r by fastforce
  then show ?thesis using r by auto
qed

lemma decision_round_trip: "make_portfolio_decision q g k a w t out = Inr d \<Longrightarrow> pt_round_trip_id d = pq_round_trip_id q"
  by (cases out) (auto simp: make_portfolio_decision_def bind_eq_Inr Let_def)

lemma decision_checked: "make_portfolio_decision q g k a w t out = Inr d \<Longrightarrow> check_portfolio_decision d = Inr ()"
  by (cases out) (auto simp: make_portfolio_decision_def bind_eq_Inr Let_def)

lemma append_fresh:
  assumes "portfolio_get t (ty_key t r) f = Inr None" and "portfolio_append t r f = (f', Inr b)"
  shows "lf_lines f' = lf_lines f @ [stored_line (portfolio_line (ty_dict t r))] \<and> \<not> lf_locked f'"
proof -
  have k: "portfolio_known t r f = Inr False" "portfolio_known t r (f\<lparr>lf_locked := True\<rparr>) = Inr False"
    using assms(1) by (simp_all add: portfolio_known_def portfolio_get_def portfolio_all_def)
  from assms(2) k show ?thesis
    by (auto simp: portfolio_append_def with_writer_def obind_eq_Inr olift_eq_Inr split: if_splits prod.splits)
qed

lemma returned_decision_found:
  assumes "portfolio_run pa q s = (s', Inr r)" and "\<not> has_break (json_text (portfolio_line (portfolio_decision_dict (px_decision r))))"
  shows "portfolio_get round_log (pq_round_trip_id q) (po_decisions s') = Inr (Some (px_decision r))"
  using assms(1)
proof (cases rule: run_parts)
  case (replay v g d s1)
  then show ?thesis using round_start_Inr(3) [OF replay(1)] round_start_frame [OF replay(1)] replay_returns by metis
next
  case (fresh v g u d l b s1)
  from fresh_round_backed [OF fresh(2)] have d: "px_decision r = d" and f: "fresh_backed pa q v r (po_outer s1) u" by auto
  then have "check_portfolio_decision d = Inr ()" "pt_round_trip_id d = pq_round_trip_id q"
    by (auto simp: fresh_backed_def dest: decision_checked decision_round_trip)
  then have "rd.clean d" using assms(2) unfolding rd.clean_def d by (simp add: round_log_def del: json_text.simps)
  from rd.appended_found [OF this fresh(3)] show ?thesis
    using \<open>pt_round_trip_id d = pq_round_trip_id q\<close> fresh(4) d by (simp add: round_log_def)
qed

text \<open>C36: A run raises, or replays the stored decision of its round trip without touching the outside, or returns a new decision, which it has appended to the log.
  A new decision rests on a capability whose skill has stored native gains and a Governance approval at the highest grade, on a program that is the verified parent
  with exactly that capability added, and on a tournament of the two programs whose claims are stored and follow from one native evaluation each.\<close>

theorem portfolio_run_outcome:
  "(\<exists>e. snd (portfolio_run pa q s) = Inl e)
   \<or> (\<exists>r. snd (portfolio_run pa q s) = Inr r \<and> px_replayed r \<and> portfolio_get round_log (pq_round_trip_id q) (po_decisions s) = Inr (Some (px_decision r))
        \<and> po_outer (fst (portfolio_run pa q s)) = po_outer s)
   \<or> (\<exists>r v. snd (portfolio_run pa q s) = Inr r \<and> \<not> px_replayed r
        \<and> portfolio_get round_log (pq_round_trip_id q) (po_decisions s) = Inr None
        \<and> portfolio_parent (pq_parent_root q) (po_outer s) = Inr v \<and> failure_gap q v (po_outer s) = Inr (px_gap r)
        \<and> fresh_backed pa q v r (po_outer s) (po_outer (fst (portfolio_run pa q s)))
        \<and> lf_lines (po_decisions (fst (portfolio_run pa q s)))
            = lf_lines (po_decisions s) @ [stored_line (portfolio_line (portfolio_decision_dict (px_decision r)))])"
proof (cases "snd (portfolio_run pa q s)")
  case (Inr r)
  obtain s' where run: "portfolio_run pa q s = (s', Inr r)" using Inr by (metis prod.collapse)
  then show ?thesis
  proof (cases rule: run_parts)
    case (replay v g d s1)
    then show ?thesis using run round_start_frame [OF replay(1)] round_start_Inr(3) [OF replay(1)] replay_returns [OF replay(2)] by auto
  next
    case (fresh v g u d l b s1)
    note pre = round_start_Inr [OF fresh(1)] and fr = round_start_frame [OF fresh(1)]
    from fresh_round_backed [OF fresh(2)] fr have f: "px_decision r = d" "px_gap r = g" "\<not> px_replayed r" "fresh_backed pa q v r (po_outer s) u" by auto
    then have "pt_round_trip_id d = pq_round_trip_id q" by (auto simp: fresh_backed_def dest: decision_round_trip)
    then have "lf_lines l = lf_lines (po_decisions s) @ [stored_line (portfolio_line (portfolio_decision_dict d))]"
      using append_fresh [OF _ fresh(3)] pre(3) fr by (simp add: round_log_def)
    then show ?thesis using run fresh(4) f pre by auto
  qed
qed simp

text \<open>The decision a log gives for a round trip stays the one it gives, or the log cannot be read, however many lines are added.\<close>

lemma portfolio_get_extended:
  assumes "portfolio_get t i f = Inr (Some d)" and "lf_lines g = lf_lines f @ added"
  shows "portfolio_get t i g = Inr (Some d) \<or> (\<exists>e. portfolio_get t i g = Inl e)"
proof (cases "portfolio_all t g")
  case (Inr zs)
  have split: "mapM h (xs @ ys) = bind (mapM h xs) (\<lambda>as. bind (mapM h ys) (\<lambda>bs. Inr (as @ bs)))" for h :: "json option \<Rightarrow> 'a res" and xs ys
    by (induction xs) (auto simp: bind_def split: sum.splits)
  from assms(1) obtain rs where rs: "mapM (parse_portfolio t) (lf_lines f) = Inr rs" "find (\<lambda>r. ty_key t r = i) rs = Some d"
    by (auto simp: portfolio_get_def portfolio_all_def bind_eq_Inr)
  from Inr obtain ys where "zs = rs @ ys" by (auto simp: portfolio_all_def assms(2) split rs(1) bind_eq_Inr)
  with rs(2) have "find (\<lambda>r. ty_key t r = i) zs = Some d" by (simp add: find_append)
  with Inr show ?thesis by (simp add: portfolio_get_def)
qed (simp add: portfolio_get_def)

lemma broken_log_unreadable:
  assumes "lf_lines g = ls @ None # added"
  shows "\<exists>e. portfolio_get t i g = Inl e"
proof -
  have "\<exists>e. mapM (parse_portfolio t) (ls @ None # added) = Inl e"
  proof (induction ls)
    case Nil
    have "\<exists>e. parse_portfolio t None = Inl e" by (auto simp: parse_portfolio_def rewrap_def raise_def)
    then show ?case by auto
  next
    case (Cons l ls)
    then show ?case by (cases "parse_portfolio t l") auto
  qed
  then show ?thesis by (auto simp: portfolio_get_def portfolio_all_def assms)
qed

lemma returned_decision_stays:
  assumes "portfolio_run pa q s = (s', Inr r)" and "lf_lines g = lf_lines (po_decisions s') @ added"
  shows "portfolio_get round_log (pq_round_trip_id q) g = Inr (Some (px_decision r)) \<or> (\<exists>e. portfolio_get round_log (pq_round_trip_id q) g = Inl e)"
proof (cases "has_break (json_text (portfolio_line (portfolio_decision_dict (px_decision r))))")
  case False
  from portfolio_get_extended [OF returned_decision_found [OF assms(1) False] assms(2)] show ?thesis .
next
  case True
  then have n: "stored_line (portfolio_line (portfolio_decision_dict (px_decision r))) = None" unfolding stored_line_def by simp
  from assms(1) show ?thesis
  proof (cases rule: run_parts)
    case (replay v g' d s1)
    then have "portfolio_get round_log (pq_round_trip_id q) (po_decisions s') = Inr (Some (px_decision r))"
      using round_start_Inr(3) [OF replay(1)] round_start_frame [OF replay(1)] replay_returns by metis
    from portfolio_get_extended [OF this assms(2)] show ?thesis .
  next
    case (fresh v g' u d l b s1)
    from fresh_round_backed [OF fresh(2)] have d: "px_decision r = d" "pt_round_trip_id d = pq_round_trip_id q"
      by (auto simp: fresh_backed_def dest: decision_round_trip)
    then have "lf_lines l = lf_lines (po_decisions s1) @ [None]"
      using append_fresh [OF _ fresh(3)] round_start_Inr(3) [OF fresh(1)] round_start_frame [OF fresh(1)] n by (simp add: round_log_def)
    then have "lf_lines g = lf_lines (po_decisions s1) @ None # added" using assms(2) fresh(4) by simp
    from broken_log_unreadable [OF this] show ?thesis by blast
  qed
qed

text \<open>C37: A round trip is decided once: after a run has returned, the log gives its decision for the round trip, unless the decision holds
  a character at which the reader of the log splits lines, and then the log cannot be read; and in every later state, whatever has become of the
  outside, the root and the log of gaps, whatever lines were added to the log of decisions and whether its lock is held, no run of a request
  of that round trip, with whatever other fields and parties, calls a party or changes the outside or the decisions, and a run that
  returns replays that same decision.\<close>

theorem round_trip_decided_once:
  "case snd (portfolio_run pa q s) of Inl e \<Rightarrow> True
   | Inr r \<Rightarrow> (has_break (json_text (portfolio_line (portfolio_decision_dict (px_decision r))))
         \<or> portfolio_get round_log (pq_round_trip_id q) (po_decisions (fst (portfolio_run pa q s))) = Inr (Some (px_decision r)))
       \<and> (\<forall>u root gaps added locked pa' q'.
            let l = (po_decisions (fst (portfolio_run pa q s)))\<lparr>lf_lines := lf_lines (po_decisions (fst (portfolio_run pa q s))) @ added, lf_locked := locked\<rparr>;
                z = \<lparr>po_root = root, po_gaps = gaps, po_decisions = l, po_outer = u\<rparr>
            in case portfolio_run pa' (q'\<lparr>pq_round_trip_id := pq_round_trip_id q\<rparr>) z of (z', p) \<Rightarrow>
                 po_outer z' = u \<and> po_decisions z' = l \<and> (case p of Inl e \<Rightarrow> True | Inr r' \<Rightarrow> px_replayed r' \<and> px_decision r' = px_decision r))"
proof (cases "snd (portfolio_run pa q s)")
  case (Inr r)
  obtain s' where run: "portfolio_run pa q s = (s', Inr r)" using Inr by (metis prod.collapse)
  have found: "has_break (json_text (portfolio_line (portfolio_decision_dict (px_decision r))))
      \<or> portfolio_get round_log (pq_round_trip_id q) (po_decisions s') = Inr (Some (px_decision r))"
    using returned_decision_found [OF run] by blast
  have later: "po_outer z' = po_outer z \<and> po_decisions z' = po_decisions z \<and> (case p of Inl e \<Rightarrow> True | Inr r' \<Rightarrow> px_replayed r' \<and> px_decision r' = px_decision r)"
    if l: "lf_lines (po_decisions z) = lf_lines (po_decisions s') @ added" and i: "pq_round_trip_id q2 = pq_round_trip_id q"
      and p: "portfolio_run pa' q2 z = (z', p)" for z z' p pa' q2 added
  proof -
    note stays = returned_decision_stays [OF run l, folded i]
    then have n: "portfolio_get round_log (pq_round_trip_id q2) (po_decisions z) \<noteq> Inr None" by auto
    have "px_replayed r' \<and> px_decision r' = px_decision r" if "p = Inr r'" for r'
      using returned_is_stored [of pa' q2 z r'] n p that stays by auto
    then show ?thesis using decided_round_frame [OF n, of pa'] p by (auto split: sum.split)
  qed
  have each: "case portfolio_run pa' (q'\<lparr>pq_round_trip_id := pq_round_trip_id q\<rparr>) z of (z', p) \<Rightarrow>
      po_outer z' = po_outer z \<and> po_decisions z' = po_decisions z \<and> (case p of Inl e \<Rightarrow> True | Inr r' \<Rightarrow> px_replayed r' \<and> px_decision r' = px_decision r)"
    if l: "lf_lines (po_decisions z) = lf_lines (po_decisions s') @ added" for pa' q' z added
  proof (cases "portfolio_run pa' (q'\<lparr>pq_round_trip_id := pq_round_trip_id q\<rparr>) z")
    case (Pair z' p)
    from later [OF l _ Pair] show ?thesis by (simp add: Pair)
  qed
  show ?thesis unfolding run fst_conv snd_conv sum.case Let_def
  proof (intro conjI found allI)
    fix u root gaps added locked pa' q'
    let ?l = "(po_decisions s')\<lparr>lf_lines := lf_lines (po_decisions s') @ added, lf_locked := locked\<rparr>"
    show "case portfolio_run pa' (q'\<lparr>pq_round_trip_id := pq_round_trip_id q\<rparr>) \<lparr>po_root = root, po_gaps = gaps, po_decisions = ?l, po_outer = u\<rparr> of
        (z', p) \<Rightarrow> po_outer z' = u \<and> po_decisions z' = ?l \<and> (case p of Inl e \<Rightarrow> True | Inr r' \<Rightarrow> px_replayed r' \<and> px_decision r' = px_decision r)"
      using each [of "\<lparr>po_root = root, po_gaps = gaps, po_decisions = ?l, po_outer = u\<rparr>" added pa' q'] by simp
  qed
qed simp

end
