(* ===== verification/Portfolio_Replay.thy ===== *)
theory Portfolio_Replay
  imports Portfolio_Claims Program_Search Program_Revision Evidence_Claims
begin

text \<open>
  The three places that decide a tournament agree: the strategy that plans it, the live check of the
  orchestrator and its replay.  What an interrupted composition leaves.
\<close>

section \<open>Claims in order\<close>

lemma sort_key_same:
  assumes "set xs = set ys" and "distinct (map f xs)" and "distinct (map f ys)"
  shows "sort_key f xs = sort_key f ys"
proof -
  have "map f (sort_key f xs) = map f (sort_key f ys)"
    using assms by (intro sorted_distinct_set_unique) (auto simp: distinct_map)
  moreover have "inj_on f (set (sort_key f xs) \<union> set (sort_key f ys))" using assms by (simp add: distinct_map)
  ultimately show ?thesis by (simp add: inj_on_map_eq_map)
qed

lemma claim_hashes_same:
  assumes "set xs = set ys" and "distinct (map cl_claim_id xs)" and "distinct (map cl_claim_id ys)"
  shows "claim_hashes xs = claim_hashes ys"
proof -
  let ?p = "\<lambda>c. (cl_claim_id c, claim_sha256 c)"
  have d: "distinct (map fst (sort_key snd (map ?p zs)))" if "distinct (map cl_claim_id zs)" for zs
  proof -
    have m: "distinct (map fst (map ?p zs))" using that by (simp add: comp_def)
    have "distinct (sort_key snd (map ?p zs))" using m by (metis distinct_map distinct_sort)
    moreover have "inj_on fst (set (sort_key snd (map ?p zs)))" using m by (metis distinct_map set_sort)
    ultimately show ?thesis by (simp add: distinct_map)
  qed
  show ?thesis unfolding claim_hashes_def using assms d by (intro sort_key_same) auto
qed

lemma latest_distinct: "latest_claims g = Inr cs \<Longrightarrow> distinct (map cl_claim_id cs)"
  using clm.keys_distinct by (auto simp: latest_claims_def bind_eq_Inr unsuperseded_def intro: distinct_map_filter)

lemma claim_by_id_distinct: "distinct (map cl_claim_id cs) \<Longrightarrow> c \<in> set cs \<Longrightarrow> claim_by_id cs (cl_claim_id c) = Some c"
proof -
  assume d: "distinct (map cl_claim_id cs)" and c: "c \<in> set cs"
  then have "claim_by_id cs (cl_claim_id c) \<noteq> None" by (auto simp: claim_by_id_def find_None_iff)
  then obtain x where x: "claim_by_id cs (cl_claim_id c) = Some x" by auto
  from claim_by_id_mem [OF this] d c show ?thesis using x by (metis distinct_map inj_onD)
qed

section \<open>The strategy and the orchestrator\<close>

lemma weights_agree: "portfolio_weight k = claim_weight k"
  by (cases k) simp_all

lemma first_score_live:
  assumes "inj_on cl_candidate_id (set cls)" and "distinct cls" and "r \<in> cl_candidate_id ` set cls"
  shows "first_score cls r = live_score cls r"
proof -
  from assms(3) obtain x where x: "x \<in> set cls" "r = cl_candidate_id x" by auto
  have "find (\<lambda>c. cl_candidate_id c = r) cls \<noteq> None" using x by (auto simp: find_None_iff)
  then obtain y where y: "find (\<lambda>c. cl_candidate_id c = r) cls = Some y" by auto
  then have "y \<in> set cls" "cl_candidate_id y = r" unfolding find_Some_iff by (auto intro: nth_mem)
  then have "y = x" using x assms(1) by (metis inj_onD)
  then show ?thesis using y score_of_claim [OF assms(1,2) x(1)] x(2) by (simp add: first_score_def weights_agree)
qed

lemma live_winner_cong: "(\<And>r. r \<in> set parts \<Longrightarrow> f r = g r) \<Longrightarrow> live_winner parts f = live_winner parts g"
proof -
  assume e: "\<And>r. r \<in> set parts \<Longrightarrow> f r = g r"
  then have i: "f ` set parts = g ` set parts" by (auto simp: image_def)
  have "filter (\<lambda>r. f r = Max (f ` set parts)) parts = filter (\<lambda>r. g r = Max (g ` set parts)) parts"
    using e by (intro filter_cong) (simp_all add: i)
  then show ?thesis by (simp add: live_winner_def)
qed

lemma live_json_cong:
  assumes "\<And>r. r \<in> set parts \<Longrightarrow> f r = g r"
  shows "live_decision_json tid parts bs cls f w = live_decision_json tid parts bs cls g w"
proof -
  have m: "map (\<lambda>r. JList [JStr r, JInt (f r)]) parts = map (\<lambda>r. JList [JStr r, JInt (g r)]) parts" using assms by simp
  show ?thesis by (simp only: live_decision_json_def m)
qed

lemma winners_agree:
  assumes "v \<noteq> w"
  shows "portfolio_winner v w score = live_winner [v, w] score"
  using assms by (cases "score v" "score w" rule: linorder_cases)
    (simp_all add: portfolio_winner_def live_winner_def Let_def max_def del: set_map set_filter)

lemma payloads_agree: "portfolio_decision_json tid v w bs cls score x = live_decision_json tid [v, w] bs cls score x"
  unfolding portfolio_decision_json_def live_decision_json_def by (simp add: str_list_def routes_json_def comp_def)

lemma reasons_agree: "expected_reason h x = live_reason h x"
  unfolding expected_reason_def live_reason_def ..

text \<open>What a plan of a live tournament carries: the text of the tournament id and the hash of its program.\<close>

lemma plan_in_metadata: "plan_in sid c i r arm md = Inr p \<Longrightarrow> pl_metadata p = md"
  by (auto simp: plan_in_def Let_def bind_eq_Inr)

lemma search_metadata_live:
  assumes "search_metadata tid parent generation Live config vs x = Inr md"
  shows "get md ''tournament_id'' = JStr tid" and "\<exists>h. fmlookup md ''program_bundle_sha256'' = Some (JStr h)"
  using assms by (auto simp: search_metadata_def program_hashes_def bind_eq_Inr get_def Let_def split: option.splits)

lemma search_plan_metadata:
  assumes "search_plan fs Live c = Inr ps" and "p \<in> set ps"
  shows "meta p ''tournament_id'' = JStr (input_text ''tournament_id'' c)"
    and "\<exists>h. fmlookup (pl_metadata p) ''program_bundle_sha256'' = Some (JStr h)"
proof -
  obtain parent cands generation vs config where
    m: "mapM (\<lambda>(k, i). bind (short_plan_id [sc_campaign_id c, tr_revision_id (sc_task c), input_text ''tournament_id'' c, i]) (\<lambda>n.
      bind (search_metadata (input_text ''tournament_id'' c) parent generation Live config vs (k, i)) (\<lambda>md.
      plan_in ''agent-program-search-v3'' c n i (if k = 0 then ''search-parent'' else ''candidate'') md))) (enumerate 0 (parent # cands)) = Inr ps"
    using assms(1) by (auto simp: search_plan_def search_plans_def bind_eq_Inr Let_def strategy_unless_eq simp del: enumerate_simps)
  from mapM_right [OF m assms(2)] obtain k i md where md: "search_metadata (input_text ''tournament_id'' c) parent generation Live config vs (k, i) = Inr md"
    "pl_metadata p = md" by (fastforce simp: bind_eq_Inr dest: plan_in_metadata simp del: enumerate_simps)
  show "meta p ''tournament_id'' = JStr (input_text ''tournament_id'' c)"
    and "\<exists>h. fmlookup (pl_metadata p) ''program_bundle_sha256'' = Some (JStr h)"
    using search_metadata_live [OF md(1)] md(2) by (simp_all add: meta_def)
qed

lemma planned_bundles_live:
  assumes "search_plan fs Live c = Inr ps"
  shows "planned_bundles ps = Inr (map (\<lambda>p. (pl_candidate_revision_id p, meta p ''program_bundle_sha256'')) ps)"
proof -
  have "bind (item (pl_metadata p) ''program_bundle_sha256'') (\<lambda>b. Inr (pl_candidate_revision_id p, b))
      = Inr (pl_candidate_revision_id p, meta p ''program_bundle_sha256'')" if "p \<in> set ps" for p
    using search_plan_metadata(2) [OF assms that] by (auto simp: item_def meta_def get_def)
  then show ?thesis unfolding planned_bundles_def by (induction ps) simp_all
qed

lemma input_texts: "is_str (input_value_of c k) \<Longrightarrow> input_value_of c k = JStr (input_text k c)"
  by (cases "fmlookup (sc_inputs c) k") (auto simp: input_value_of_def input_text_def elim!: is_str.elims)

text \<open>The payload of a decision in terms of the tournament id it is given.\<close>

lemma payload_finite:
  assumes "list_all (\<lambda>(r, b). finite_json b) bs"
  shows "finite_json (live_decision_json tid parts bs cls score x) \<longleftrightarrow> finite_json tid"
proof
  assume f: "finite_json (live_decision_json tid parts bs cls score x)"
  obtain d where d: "live_decision_json tid parts bs cls score x = JObj d" "get d ''tournament_id'' = tid"
    unfolding live_decision_json_def jobj_def by (auto simp: get_jobj)
  from f have "finite_json (get d ''tournament_id'')" unfolding d(1) by (auto simp: finite_JObj get_def split: option.split)
  then show "finite_json tid" unfolding d(2) .
next
  assume "finite_json tid"
  then show "finite_json (live_decision_json tid parts bs cls score x)"
    unfolding live_decision_json_def by (intro finite_jobj) (use assms in \<open>auto simp: str_list_def routes_json_def list_all_iff\<close>)
qed

lemma payload_id: "live_decision_json t parts bs cls score x = live_decision_json u parts bs cls score x \<longleftrightarrow> t = u"
proof
  let ?j = "\<lambda>t. live_decision_json t parts bs cls score x"
  assume "?j t = ?j u"
  then have "(case ?j t of JObj d \<Rightarrow> get d ''tournament_id'' | j \<Rightarrow> j) = (case ?j u of JObj d \<Rightarrow> get d ''tournament_id'' | j \<Rightarrow> j)" by simp
  then show "t = u" by (simp add: live_decision_json_def jobj_def get_jobj)
qed simp

text \<open>C38: The strategy that plans a live tournament of two programs and the orchestrator that checks its result, which has only the
  plans, decide for themselves and agree: with one claim each they name the same winner and the same action, and hash the same
  content but for the tournament id, which the strategy hashes as it was given and the orchestrator as the text its plans carry;
  so the decision of the strategy is, word for word, the one the orchestrator expects whenever the id is a text, and hashes another
  content, which the orchestrator refuses unless SHA-256 collides, whenever it is not.\<close>

theorem strategy_and_orchestrator_agree:
  assumes "live_participants c = Inr [pv_revision_id v, pv_revision_id w]"
    and "length cs = 2" and "cl_candidate_id ` set cs = {pv_revision_id v, pv_revision_id w}"
  shows "case search_plan fs Live c of
      Inl e \<Rightarrow> live_decide fs c [pv_revision_id v, pv_revision_id w] (sort_key cl_claim_id cs) = Inl e
    | Inr ps \<Rightarrow> \<exists>action win content. tournament_outcome (meta (hd ps) ''tournament_id'') v w
          (map (\<lambda>p. (pl_candidate_revision_id p, meta p ''program_bundle_sha256'')) ps) cs
        = Inr (action, win, digest (content (JStr (input_text ''tournament_id'' c))))
      \<and> (if finite_json (input_value_of c ''tournament_id'')
         then live_decide fs c [pv_revision_id v, pv_revision_id w] (sort_key cl_claim_id cs)
          = Inr (search_advice Live action (expected_reason (digest (content (input_value_of c ''tournament_id''))) win) (sort_key cl_claim_id cs))
         else \<not> is_ok (live_decide fs c [pv_revision_id v, pv_revision_id w] (sort_key cl_claim_id cs)))
      \<and> (content (input_value_of c ''tournament_id'') = content (JStr (input_text ''tournament_id'' c)) \<longleftrightarrow> is_str (input_value_of c ''tournament_id''))"
proof (cases "search_plan fs Live c")
  case (Inl e)
  then show ?thesis by (simp add: live_decide_def)
next
  case (Inr ps)
  note assms = Inr assms
  let ?parts = "[pv_revision_id v, pv_revision_id w]" and ?cls = "sort_key cl_claim_id cs" and ?tid = "input_value_of c ''tournament_id''"
  let ?bs = "map (\<lambda>p. (pl_candidate_revision_id p, meta p ''program_bundle_sha256'')) ps"
  have p: "distinct ?parts" "ps \<noteq> []" using search_plan_participants [OF assms(1,2)] by auto
  then have vw: "pv_revision_id v \<noteq> pv_revision_id w" by simp
  have i: "inj_on cl_candidate_id (set ?cls)" using assms(3,4) p(1) by (intro one_claim_each [of ?parts]) auto
  have "card (set ?cls) = 2" using assms(4) vw card_image [OF i] by simp
  then have "distinct ?cls" using assms(3) by (intro card_distinct) simp
  then have e: "live_score ?cls r = first_score ?cls r" if "r \<in> set ?parts" for r
    using first_score_live [OF i, of r] that assms(4) by auto
  let ?win = "live_winner ?parts (live_score ?cls)" and ?content = "\<lambda>t. live_decision_json t ?parts ?bs ?cls (live_score ?cls) (live_winner ?parts (live_score ?cls))"
  let ?action = "if ?win = pv_revision_id w then ''advance-search-parent'' else ''reject-candidates''"
  have win: "portfolio_winner (pv_revision_id v) (pv_revision_id w) (first_score ?cls) = ?win"
    unfolding winners_agree [OF vw] by (rule live_winner_cong) (simp add: e)
  have js: "portfolio_decision_json t (pv_revision_id v) (pv_revision_id w) ?bs ?cls (first_score ?cls) x = live_decision_json t ?parts ?bs ?cls (live_score ?cls) x" for t x
    unfolding payloads_agree by (rule live_json_cong) (simp add: e)
  have tid: "meta (hd ps) ''tournament_id'' = JStr (input_text ''tournament_id'' c)" using search_plan_metadata(1) [OF assms(1)] p(2) by simp
  have fin: "list_all (\<lambda>(r, b). finite_json b) ?bs"
    using search_plan_metadata(2) [OF assms(1)] by (fastforce simp: list_all_iff meta_def get_def)
  note pf = payload_finite [OF fin]
  have act: "(if ?win \<noteq> hd ?parts then ''advance-search-parent'' else ''reject-candidates'') = ?action"
    using winner_best(1) [of ?parts "live_score ?cls"] vw by auto
  have "tournament_outcome (meta (hd ps) ''tournament_id'') v w ?bs cs = Inr (?action, ?win, digest (?content (JStr (input_text ''tournament_id'' c))))"
    by (simp only: tournament_outcome_def Let_def tid win js content_sha256_eq pf finite_json.simps if_True bind_Inr)
  moreover have "live_decide fs c ?parts ?cls = bind (content_sha256 (?content ?tid)) (\<lambda>h. Inr (search_advice Live ?action (expected_reason h ?win) ?cls))"
    by (simp only: live_decide_def Let_def assms(1) planned_bundles_live [OF assms(1)] bind_Inr act reasons_agree)
  moreover have "is_ok (content_sha256 (?content ?tid)) = finite_json ?tid"
    by (simp add: content_sha256_eq pf)
  moreover have "?content ?tid = ?content (JStr (input_text ''tournament_id'' c)) \<longleftrightarrow> is_str ?tid"
    unfolding payload_id using input_texts [of c "''tournament_id''"] by auto
  ultimately show ?thesis unfolding Inr sum.case
    by (intro exI [of _ ?action] exI [of _ ?win] exI [of _ ?content])
      (auto simp: content_sha256_eq pf bind_def split: sum.splits)
qed

definition parent_claim :: claim where
  "parent_claim = \<lparr>cl_claim_id = ''c2'', cl_candidate_id = ''r0'', cl_grade = E1, cl_classification = NEUTRAL, cl_evidence_ids = [''e0''],
     cl_rationale = ''x'', cl_supersedes_claim_id = None, cl_pair_sha256 = None, cl_receipt_ids = []\<rparr>"

definition rival_claim :: claim where
  "rival_claim = parent_claim\<lparr>cl_claim_id := ''c1'', cl_candidate_id := ''r1'', cl_classification := GAIN\<rparr>"

definition demo_revision :: "string \<Rightarrow> program_revision" where
  "demo_revision i = \<lparr>pv_root = ''d'', pv_program_id = ''p'', pv_revision_id = i, pv_parent = None, pv_prompt = ''x'',
     pv_context = fmap_of_list [(''k'', JInt 1)], pv_tools = [''emit_patch''], pv_capabilities = [''c0''], pv_artifacts = [], pv_bundle = ''b''\<rparr>"

definition tournament_context :: "json \<Rightarrow> strategy_context" where
  "tournament_context tid = \<lparr>sc_campaign_id = ''c'', sc_task = \<lparr>tr_task_id = ''t'', tr_revision_id = ''task'', tr_project = ''pr'', tr_cohort = FEEDBACK,
       tr_source_sha256 = ''h'', tr_evaluator_id = ''e'', tr_source_uri = None\<rparr>,
     sc_model = \<lparr>mi_provider = ''local'', mi_model = ''m'', mi_revision = ''1''\<rparr>, sc_context_policy_id = ''x'', sc_tool_policy_id = ''y'',
     sc_observer_policy_ids = [''o''], sc_limits = \<lparr>el_max_tokens = 1, el_max_seconds = 1, el_max_cost_cny = Fin 0\<rparr>, sc_phase = EXPERIMENT,
     sc_inputs = fmap_of_list [(''parent_revision_id'', Plain (JStr ''r0'')), (''candidate_revision_ids'', TupleOf [JStr ''r1'']),
       (''tournament_id'', Plain tid), (''execution_profile'', Plain (JStr ''live'')),
       (''revision_roots'', Plain (jobj [(''r0'', JStr ''d0''), (''r1'', JStr ''d1'')])),
       (''claim_evidence_graph_root'', Plain (JStr ''g'')), (''claim_receipt_store_root'', Plain (JStr ''s''))]\<rparr>"

lemma strategy_and_orchestrator_agree_witness:
  "\<forall>fs. case search_plan fs Live (tournament_context (JStr ''t'')) of
     Inl e \<Rightarrow> live_decide fs (tournament_context (JStr ''t'')) [''r0'', ''r1''] [rival_claim, parent_claim] = Inl e
   | Inr ps \<Rightarrow> \<exists>action win h. tournament_outcome (meta (hd ps) ''tournament_id'') (demo_revision ''r0'') (demo_revision ''r1'')
         (map (\<lambda>p. (pl_candidate_revision_id p, meta p ''program_bundle_sha256'')) ps) [parent_claim, rival_claim] = Inr (action, win, h)
       \<and> live_decide fs (tournament_context (JStr ''t'')) [''r0'', ''r1''] [rival_claim, parent_claim]
         = Inr (search_advice Live action (expected_reason h win) [rival_claim, parent_claim])"
proof
  fix fs
  let ?c = "tournament_context (JStr ''t'')"
  have s: "sort_key cl_claim_id [parent_claim, rival_claim] = [rival_claim, parent_claim]" by code_simp
  have t: "text_items [JStr ''r1''] = Some [''r1'']" using text_items_texts [of "[''r1'']"] by simp
  have l: "live_participants ?c = Inr [pv_revision_id (demo_revision ''r0''), pv_revision_id (demo_revision ''r1'')]"
    by (simp add: live_participants_def tournament_context_def input_text_def fmlookup_of_list demo_revision_def t)
  have v: "input_value_of ?c ''tournament_id'' = JStr ''t''" "input_text ''tournament_id'' ?c = ''t''"
    by (simp_all add: input_value_of_def input_text_def tournament_context_def fmlookup_of_list)
  have c: "length [parent_claim, rival_claim] = 2"
    "cl_candidate_id ` set [parent_claim, rival_claim] = {pv_revision_id (demo_revision ''r0''), pv_revision_id (demo_revision ''r1'')}"
    by (simp_all add: parent_claim_def rival_claim_def demo_revision_def)
  have r: "pv_revision_id (demo_revision i) = i" for i by (simp add: demo_revision_def)
  show "case search_plan fs Live ?c of
     Inl e \<Rightarrow> live_decide fs ?c [''r0'', ''r1''] [rival_claim, parent_claim] = Inl e
   | Inr ps \<Rightarrow> \<exists>action win h. tournament_outcome (meta (hd ps) ''tournament_id'') (demo_revision ''r0'') (demo_revision ''r1'')
         (map (\<lambda>p. (pl_candidate_revision_id p, meta p ''program_bundle_sha256'')) ps) [parent_claim, rival_claim] = Inr (action, win, h)
       \<and> live_decide fs ?c [''r0'', ''r1''] [rival_claim, parent_claim]
         = Inr (search_advice Live action (expected_reason h win) [rival_claim, parent_claim])"
    using strategy_and_orchestrator_agree [OF l c, of fs] unfolding s v r
    by (cases "search_plan fs Live ?c") auto
qed

section \<open>From the live check to the replay\<close>

text \<open>Evidence of a claim that is of another plan than its own, and a tournament identity that is not a text.\<close>

definition foreign_evidence :: "tournament_authority \<Rightarrow> 'w outer \<Rightarrow> bool" where
  "foreign_evidence t u = (case list_evidence (graph_at u (ta_graph t)) of Inl e \<Rightarrow> False
     | Inr es \<Rightarrow> list_ex (\<lambda>c. list_ex (\<lambda>e. list_ex (\<lambda>p. pl_candidate_revision_id p = cl_candidate_id c
         \<and> get (ev_payload e) ''plan_id'' \<noteq> JStr (pl_plan_id p)) (cr_plans (ta_result t))) (selected_evidence es c)) (cr_claims (ta_result t)))"

definition untyped_identity :: "tournament_authority \<Rightarrow> bool" where
  "untyped_identity t = list_ex (\<lambda>p. \<not> is_str (meta p ''tournament_id'')) (cr_plans (ta_result t))"

lemma rebuild_same: "graph_rebuild st g = Inr g' \<Longrightarrow> g' = g"
  by (auto simp: graph_rebuild_def bind_eq_Inr)

lemma authoritative_replays:
  assumes "claims_authoritative cs sr gr u = Inr ()"
  shows "\<exists>cs'. replayed_claims (sort (map cl_claim_id cs)) (claim_hashes cs) sr gr u = Inr cs' \<and> set cs' = set cs
    \<and> sort_key cl_claim_id cs' = sort_key cl_claim_id cs"
proof -
  let ?g = "graph_at u gr" and ?st = "store_at u sr"
  from assms obtain g stored where g: "graph_rebuild ?st ?g = Inr g" "latest_claims g = Inr stored" "distinct (map cl_claim_id cs)"
    and by_id: "\<And>c. c \<in> set cs \<Longrightarrow> claim_by_id stored (cl_claim_id c) = Some c"
    by (auto simp: claims_authoritative_def rewrap_eq_Inr bind_eq_Inr portfolio_unless_eq)
  note d = latest_distinct [OF g(2)] and l = g(2) [unfolded rebuild_same [OF g(1)]]
  let ?cs = "filter (\<lambda>c. cl_claim_id c \<in> set (sort (map cl_claim_id cs))) stored"
  have set: "set ?cs = set cs"
  proof (intro equalityI subsetI)
    fix x assume "x \<in> set ?cs"
    then obtain c where "c \<in> set cs" "cl_claim_id x = cl_claim_id c" "x \<in> set stored" by auto
    then show "x \<in> set cs" using by_id claim_by_id_distinct [OF d] by (metis option.inject)
  next
    fix c assume "c \<in> set cs"
    then show "c \<in> set ?cs" using by_id claim_by_id_mem by fastforce
  qed
  have dcs: "distinct (map cl_claim_id ?cs)" using d by (rule distinct_map_filter)
  have "claims_authoritative ?cs sr gr u = Inr ()"
    using g claim_by_id_distinct [OF d] dcs by (auto simp: claims_authoritative_def portfolio_unless_def require_def)
  then have "replayed_claims (sort (map cl_claim_id cs)) (claim_hashes cs) sr gr u = Inr ?cs"
    using l claim_hashes_same [OF set dcs g(3)] by (simp add: replayed_claims_def)
  then show ?thesis using set sort_key_same [OF set dcs g(3)] by blast
qed

lemma native_claim_messages: "native_claim ms v w rs sel c = Inr () \<Longrightarrow> native_claim ms' v w rs sel c = Inr ()"
  by (cases ms; cases ms') (auto simp: native_claim_def bind_eq_Inr portfolio_unless_eq split: list.splits option.splits)

lemma plan_claim_replays:
  assumes "plan_claim v w ps es rs c = Inr ()"
    and "\<And>e p. e \<in> set (selected_evidence es c) \<Longrightarrow> p \<in> set ps \<Longrightarrow> pl_candidate_revision_id p = cl_candidate_id c \<Longrightarrow> get (ev_payload e) ''plan_id'' = JStr (pl_plan_id p)"
  shows "native_claim replay_messages v w rs (selected_evidence es c) c = Inr ()"
proof -
  from assms(1) obtain p where f: "find (\<lambda>p. pl_candidate_revision_id p = cl_candidate_id c) (rev ps) = Some p"
    and n: "native_claim live_messages v w rs (filter (\<lambda>e. get (ev_payload e) ''plan_id'' = JStr (pl_plan_id p)) (selected_evidence es c)) c = Inr ()"
    by (auto simp: plan_claim_def raise_def split: option.splits)
  from f have p: "p \<in> set ps" "pl_candidate_revision_id p = cl_candidate_id c"
    unfolding find_Some_iff by (metis length_rev nth_mem set_rev, metis)
  have "filter (\<lambda>e. get (ev_payload e) ''plan_id'' = JStr (pl_plan_id p)) (selected_evidence es c) = selected_evidence es c"
    by (rule filter_True) (use assms(2) p in blast)
  then show ?thesis using native_claim_messages [OF n] by simp
qed

lemma tournament_plans:
  assumes "check_tournament_result v w r = Inr ()" and "pv_revision_id v \<noteq> pv_revision_id w"
  shows "\<exists>p p'. cr_plans r = [p, p'] \<and> map (\<lambda>p. (pl_candidate_revision_id p, meta p ''program_bundle_sha256'')) (cr_plans r)
    = [(pv_revision_id v, JStr (pv_bundle v)), (pv_revision_id w, JStr (pv_bundle w))]"
proof -
  from assms(1) have "length (cr_plans r) = 2" "map pl_candidate_revision_id (cr_plans r) = [pv_revision_id v, pv_revision_id w]"
    "\<forall>p \<in> set (cr_plans r). meta p ''program_bundle_sha256'' = JStr (expected_bundle v w (pl_candidate_revision_id p))"
    by (auto simp: check_tournament_result_def bind_eq_Inr portfolio_unless_eq)
  then show ?thesis using assms(2) by (auto simp: length_Suc_conv numeral_2_eq_2 expected_bundle_def)
qed

lemma decision_tournament:
  assumes "make_portfolio_decision q g k a w t (action, win, h) = Inr d" and "cr_plans (ta_result t) = p # ps" and "is_str (meta p ''tournament_id'')"
  shows "pt_claim_ids d = sort (map cl_claim_id (cr_claims (ta_result t))) \<and> pt_claim_sha256 d = claim_hashes (cr_claims (ta_result t))
    \<and> pt_store d = ta_store t \<and> pt_graph d = ta_graph t \<and> pt_action d = action \<and> pt_search_parent d = win \<and> pt_tournament_sha256 d = h
    \<and> JStr (pt_tournament_id d) = meta p ''tournament_id''"
proof -
  obtain x where x: "meta p ''tournament_id'' = JStr x" using assms(3) by (cases "meta p ''tournament_id''") auto
  then have "item (pl_metadata p) ''tournament_id'' = Inr (JStr x)" by (simp add: meta_def get_def item_def split: option.splits)
  then show ?thesis using assms(1,2) x by (auto simp: make_portfolio_decision_def bind_eq_Inr Let_def)
qed

text \<open>A decision whose tournament the live check has accepted passes the replay of its tournament as long as the store and the graph are as they were, except in
  three cases: the two programs have one revision id, a claim names evidence of another plan (which the live check skips and the replay does not), or the
  tournament id in a plan is not a text (which the decision stores as its text).\<close>

theorem accepted_tournament_replays:
  "case validate_tournament v w t u of Inl e \<Rightarrow> True
   | Inr out \<Rightarrow> (case make_portfolio_decision q g k a w t out of Inl e \<Rightarrow> True
     | Inr d \<Rightarrow> pv_revision_id v = pv_revision_id w \<or> foreign_evidence t u \<or> untyped_identity t
         \<or> (\<exists>cs. replayed_claims (pt_claim_ids d) (pt_claim_sha256 d) (pt_store d) (pt_graph d) u = Inr cs
              \<and> set cs = set (cr_claims (ta_result t)) \<and> replayed_tournament d v w cs u = Inr ()))"
proof (split sum.split, intro conjI allI impI TrueI, split sum.split, intro conjI allI impI TrueI)
  fix out d
  assume v: "validate_tournament v w t u = Inr out" and d: "make_portfolio_decision q g k a w t out = Inr d"
  let ?cs = "cr_claims (ta_result t)" and ?ps = "cr_plans (ta_result t)"
  obtain action win h where o: "out = (action, win, h)" by (cases out)
  obtain rs es where r: "check_tournament_result v w (ta_result t) = Inr ()" "claims_authoritative ?cs (ta_store t) (ta_graph t) u = Inr ()"
    "list_receipts (store_at u (ta_store t)) = Inr rs" "list_evidence (graph_at u (ta_graph t)) = Inr es"
    "all_checks (map (plan_claim v w ?ps es rs) ?cs) = Inr ()"
    "tournament_outcome (meta (hd ?ps) ''tournament_id'') v w (map (\<lambda>p. (pl_candidate_revision_id p, meta p ''program_bundle_sha256'')) ?ps) ?cs = Inr out"
    using v unfolding o validate_tournament_def Let_def by (auto simp: bind_eq_Inr)
  show "pv_revision_id v = pv_revision_id w \<or> foreign_evidence t u \<or> untyped_identity t
     \<or> (\<exists>cs. replayed_claims (pt_claim_ids d) (pt_claim_sha256 d) (pt_store d) (pt_graph d) u = Inr cs
          \<and> set cs = set ?cs \<and> replayed_tournament d v w cs u = Inr ())"
  proof (cases "pv_revision_id v = pv_revision_id w \<or> foreign_evidence t u \<or> untyped_identity t")
    case False
    from tournament_plans [OF r(1)] False obtain p p' where ps: "?ps = [p, p']"
      "map (\<lambda>p. (pl_candidate_revision_id p, meta p ''program_bundle_sha256'')) ?ps = [(pv_revision_id v, JStr (pv_bundle v)), (pv_revision_id w, JStr (pv_bundle w))]" by auto
    from False ps(1) have "is_str (meta p ''tournament_id'')" by (simp add: untyped_identity_def)
    note f = decision_tournament [OF d [unfolded o] ps(1) this]
    from authoritative_replays [OF r(2)] obtain cs where cs: "replayed_claims (sort (map cl_claim_id ?cs)) (claim_hashes ?cs) (ta_store t) (ta_graph t) u = Inr cs"
      "set cs = set ?cs" "sort_key cl_claim_id cs = sort_key cl_claim_id ?cs" by auto
    have n: "native_claim replay_messages v w rs (selected_evidence es c) c = Inr ()" if "c \<in> set ?cs" for c
      using r(5) that False r(4) by (intro plan_claim_replays [of v w ?ps]) (auto simp: all_checks_eq_Inr foreign_evidence_def list_ex_iff)
    have same: "tournament_outcome tid v w bs cs = tournament_outcome tid v w bs ?cs" for tid bs
      by (simp add: tournament_outcome_def cs(3))
    have "cl_candidate_id ` set ?cs = {pv_revision_id v, pv_revision_id w}"
      using r(1) by (simp add: check_tournament_result_def bind_eq_Inr portfolio_unless_eq)
    moreover have "tournament_outcome (JStr (pt_tournament_id d)) v w [(pv_revision_id v, JStr (pv_bundle v)), (pv_revision_id w, JStr (pv_bundle w))] cs = Inr (action, win, h)"
      using r(6) f unfolding same ps(2) o by (simp add: ps(1))
    moreover have "all_checks (map (\<lambda>c. native_claim replay_messages v w rs (selected_evidence es c) c) cs) = Inr ()"
      using n cs(2) by (simp add: all_checks_eq_Inr)
    ultimately have "replayed_tournament d v w cs u = Inr ()"
      using r(3,4) f cs(2) by (simp add: replayed_tournament_def portfolio_unless_def del: all_checks_eq_Inr)
    then show ?thesis using cs f by metis
  qed blast
qed

section \<open>An interrupted composition\<close>

text \<open>C40: A composition that was stopped before the manifest of its program was written is stuck: the directory is named by the parent program, the gap, the skill
  candidate and the capability that are composed, and every later composition of the same four finds it corrupt, raises and changes nothing.  (For another
  gap or parent the directory is another one.)\<close>

theorem interrupted_composition_stuck:
  assumes "cap_revision_id x \<notin> set (pv_capabilities v)" and "projection_ok (composed_projection v g k x)" and "n \<le> 4"
    and "fs_dir (ou_files u) (program_path root (composed_revision_id v g k x)) = stopped_freeze n (composed_projection v g k x) None"
  shows "compose_program root v g k x u = (u, Inl (Err PortfolioViolation ''existing AgentProgram is corrupt''))"
proof -
  let ?j = "composed_projection v g k x" and ?p = "program_path root (composed_revision_id v g k x)"
  from stopped_without_manifest [OF assms(2,3)] obtain b where b: "stopped_freeze n ?j None = Some b" "fmlookup b ''AGENT-PROGRAM.json'' = None" by auto
  then have "load_program ?p (Some b) = Inl (Err AgentProgramViolation ''AgentProgram revision manifest is unreadable'')"
    by (simp add: load_program_def program_manifest_def raise_def)
  then have o: "obtain_program ?p ?j u = (u, Inl (Err PortfolioViolation ''existing AgentProgram is corrupt''))"
    using assms(4) b(1) by (simp add: obtain_program_def rewrap_def)
  have "pj_revision_id ?j = composed_revision_id v g k x" by (simp add: composed_projection_def)
  then show ?thesis using assms(1) by (simp add: compose_program_def Let_def obind_Inl [where m = "obtain_program ?p ?j" and s = u, OF o])
qed

definition demo_gap :: capability_gap where
  "demo_gap = \<lparr>gp_gap_id = ''g'', gp_round_trip_id = ''t'', gp_program_id = ''p'', gp_failed_revision = ''r0'', gp_failed_bundle = ''b'', gp_claim_id = ''c'',
     gp_claim_sha256 = ''h'', gp_classification = ''neutral'', gp_evidence_ids = [''e''], gp_receipt_ids = [''q''], gp_signature = ''s''\<rparr>"

definition demo_skill :: compiled_candidate where
  "demo_skill = \<lparr>kc_candidate_id = ''k'', kc_revision_id = ''k1'', kc_bundle_sha256 = ''h'', kc_bundle_root = ''d'', kc_source_gap = ''h'', kc_active = False\<rparr>"

definition demo_capability :: capability_record where
  "demo_capability = \<lparr>cap_capability_id = ''x'', cap_revision_id = ''k1'', cap_capability_kind = ''skill'', cap_evidence_claim_ids = [''c''],
     cap_artifact_sha256 = ''h'', cap_promotion_decision_id = Some ''i'', cap_source_candidate_id = Some ''k'', cap_active = False\<rparr>"

definition stopped_outer :: "nat \<Rightarrow> unit outer" where
  "stopped_outer n = \<lparr>ou_files = \<lparr>fs_dir = (\<lambda>_. stopped_freeze n (composed_projection (demo_revision ''r0'') demo_gap demo_skill demo_capability) None),
       fs_store = (\<lambda>_. None), fs_graph = (\<lambda>_. None)\<rparr>,
     ou_trees = (\<lambda>_. None), ou_candidates = \<lparr>lf_lines = [], lf_locked = False\<rparr>, ou_capabilities = \<lparr>lf_lines = [], lf_locked = False\<rparr>,
     ou_registry_log = None, ou_programs = \<lparr>lf_lines = [], lf_locked = False\<rparr>, ou_log = (None, \<lparr>lf_lines = [], lf_locked = False\<rparr>), ou_world = ()\<rparr>"

lemma interrupted_composition_stuck_witness:
  "compose_program ''o'' (demo_revision ''r0'') demo_gap demo_skill demo_capability (stopped_outer 2)
    = (stopped_outer 2, Inl (Err PortfolioViolation ''existing AgentProgram is corrupt''))"
proof (rule interrupted_composition_stuck [where n = 2])
  show "cap_revision_id demo_capability \<notin> set (pv_capabilities (demo_revision ''r0''))" by code_simp
  have b: "\<not> blank (composed_revision_id v g k x)" for v g k x by (simp add: composed_revision_id_def blank_def is_space_def Let_def)
  have r: "''r0'' \<noteq> composed_revision_id v g k x" for v g k x by (simp add: composed_revision_id_def)
  have f: "finite_json (JObj (fmupd ''portfolio_lineage'' (portfolio_lineage_json demo_gap demo_skill demo_capability) (pv_context (demo_revision ''r0''))))"
  proof -
    have "finite_json (portfolio_lineage_json demo_gap demo_skill demo_capability)" unfolding portfolio_lineage_json_def by (rule finite_jobj) simp
    then show ?thesis by (auto simp: finite_JObj demo_revision_def)
  qed
  show "projection_ok (composed_projection (demo_revision ''r0'') demo_gap demo_skill demo_capability)"
    using f b r by (simp add: projection_ok_def composed_projection_def composed_capabilities_def) (simp add: demo_revision_def demo_capability_def blank_def is_space_def allowed_tools_def)
qed (simp_all add: stopped_outer_def)

end
