(* ===== verification/Live_Authority.thy ===== *)
theory Live_Authority
  imports Portfolio_Run Campaign_Runner Search_Parent
begin

text \<open>
  \<open>src/src/evolve/campaigns/agent_program_authority.py\<close> and \<open>AuditVerifier\<close> of
  \<open>src/src/evolve/reporting/__init__.py\<close>: what a live AgentProgram campaign recomputes from its stored
  facts before it believes them.

  A root is the list of the parts of its resolved path, without symbolic links; a disk lists the files under it,
  by their relative names, with their bytes.
\<close>

section \<open>Names\<close>

fun split_char :: "char \<Rightarrow> string \<Rightarrow> string list" where
  "split_char c [] = [[]]"
| "split_char c (d # s) = (if d = c then [] # split_char c s
     else (case split_char c s of [] \<Rightarrow> [[d]] | p # ps \<Rightarrow> (d # p) # ps))"

fun resolve_parts :: "string list \<Rightarrow> string list \<Rightarrow> string list" where
  "resolve_parts acc [] = rev acc"
| "resolve_parts acc (p # ps) = (if p = [] \<or> p = ''.'' then resolve_parts acc ps
     else if p = ''..'' then resolve_parts (tl acc) ps else resolve_parts (p # acc) ps)"

text \<open>\<open>(root / name).resolve()\<close>, and its name relative to the root.\<close>

definition entry_path :: "string list \<Rightarrow> string \<Rightarrow> string list" where
  "entry_path root name = resolve_parts (if starts_with ''/'' name then [] else rev root) (split_char CHR ''/'' name)"

definition name_below :: "string list \<Rightarrow> string list \<Rightarrow> string option" where
  "name_below root path = (if take (length root) path = root then Some (join_with ''/'' (drop (length root) path)) else None)"

section \<open>The sealed manifest\<close>

type_synonym disk = "(string \<times> nat list) list"

definition manifest_entry :: "string list \<Rightarrow> disk \<Rightarrow> json \<Rightarrow> unit res" where
  "manifest_entry root d j = (case j of
     JObj e \<Rightarrow> if fmdom' e \<noteq> {''path'', ''sha256''} then raise ContractViolation ''manifest entry format is invalid''
       else (case name_below root (entry_path root (py_str (get e ''path''))) of
         None \<Rightarrow> raise ContractViolation ''manifest path escapes root''
       | Some n \<Rightarrow> (case map_of d n of
           None \<Rightarrow> raise ContractViolation ''manifest artifact missing''
         | Some b \<Rightarrow> violation_unless (get e ''sha256'' = JStr (sha256_hex b)) ''manifest hash mismatch''))
   | _ \<Rightarrow> raise ContractViolation ''manifest entry format is invalid'')"

definition verify_manifest :: "string list \<Rightarrow> disk \<Rightarrow> text_file option \<Rightarrow> int res" where
  "verify_manifest root d f = (case Option.bind f tf_json of
     None \<Rightarrow> raise ContractViolation ''manifest is unreadable''
   | Some (JObj m) \<Rightarrow> (case get m ''entries'' of
       JList es \<Rightarrow> bind (all_checks (map (manifest_entry root d) es)) (\<lambda>_. Inr (int (length es)))
     | _ \<Rightarrow> raise ContractViolation ''manifest entries must be a list'')
   | Some _ \<Rightarrow> raise AttributeError ''get'')"

definition sealed_name :: "string \<Rightarrow> bool" where
  "sealed_name n \<longleftrightarrow> n \<noteq> ''EVIDENCE-MANIFEST.json'' \<and> \<not> starts_with (rev ''.lock'') (rev n)"

definition seal_manifest :: "disk \<Rightarrow> text_file res" where
  "seal_manifest d = encoded (jobj [(''schema_version'', JInt 1),
     (''entries'', JList (map (\<lambda>(n, b). jobj [(''path'', JStr n), (''sha256'', JStr (sha256_hex b))]) (filter (\<lambda>(n, b). sealed_name n) d)))])"

section \<open>The receipts of a plan\<close>

definition live_order :: "(int \<times> string) list" where
  "live_order = zip [1 .. 6] [''workspace'', ''model'', ''external_trace'', ''cost'', ''native_evaluation'', ''execution_terminal'']"

definition check_live_order :: "receipt list \<Rightarrow> execution_plan \<Rightarrow> unit res" where
  "check_live_order rs p = violation_unless (map (\<lambda>r. (rc_sequence r, rc_kind r)) (sort_key rc_sequence (filter (\<lambda>r. rc_plan_id r = pl_plan_id p) rs)) = live_order)
     ''live AgentProgram receipt order drift''"

definition only_kind :: "receipt list \<Rightarrow> execution_plan \<Rightarrow> string \<Rightarrow> receipt res" where
  "only_kind rs p k = (case filter (\<lambda>r. rc_plan_id r = pl_plan_id p \<and> rc_kind r = k) rs of
     [r] \<Rightarrow> Inr r | _ \<Rightarrow> raise ContractViolation ''live AgentProgram runtime projection is incomplete'')"

definition verify_runtime_receipt :: "receipt_store \<Rightarrow> receipt \<Rightarrow> dict \<Rightarrow> unit res" where
  "verify_runtime_receipt st r payload =
     bind (runtime_receipt_identity (rc_campaign_id r) (rc_plan_id r) (rc_sequence r) (rc_kind r) payload) (\<lambda>(artifact, a, i).
     bind (violation_unless (py_eq (JObj (rc_payload r)) (JObj payload) \<and> rc_artifact_sha256 r = a \<and> rc_receipt_id r = i)
       ''live AgentProgram receipt artifact identity drift'') (\<lambda>_.
     bind (read_artifact a st) (\<lambda>b. violation_unless (b = artifact) ''live AgentProgram receipt artifact identity drift'')))"

definition verify_live_receipt :: "string \<Rightarrow> receipt_store \<Rightarrow> receipt \<Rightarrow> dict \<Rightarrow> unit res" where
  "verify_live_receipt what st r payload =
     bind (violation_unless (py_eq (JObj (rc_payload r)) (JObj payload)) (''live AgentProgram '' @ what @ '' receipt drift'')) (\<lambda>_.
     verify_runtime_receipt st r payload)"

definition live_workspace :: "(string \<Rightarrow> string) \<Rightarrow> execution_plan \<Rightarrow> dict" where
  "live_workspace resolve p = fmap_of_list [(''workspace_id'', JStr (''local-file-'' @ pl_plan_id p)), (''task_revision_id'', JStr (tr_revision_id (pl_task p))),
     (''task_source_sha256'', JStr (tr_source_sha256 (pl_task p))),
     (''source_uri'', JStr (resolve (py_str (opt_str (tr_source_uri (pl_task p)))))), (''execution_scope'', JStr ''live'')]"

text \<open>The transport and the evaluator are called again on what the receipts say.\<close>

definition with_identity :: "execution_plan \<Rightarrow> dict \<Rightarrow> dict" where
  "with_identity p out = out ++\<^sub>f fmap_of_list [(''provider'', JStr (mi_provider (pl_model p))),
     (''model'', JStr (mi_model (pl_model p))), (''revision'', JStr (mi_revision (pl_model p)))]"

definition verify_live_calls :: "(execution_plan \<Rightarrow> dict \<Rightarrow> ('w, dict) op) \<Rightarrow> (execution_plan \<Rightarrow> dict \<Rightarrow> dict \<Rightarrow> ('w, dict) op)
     \<Rightarrow> receipt_store \<Rightarrow> execution_plan \<Rightarrow> receipt \<Rightarrow> receipt \<Rightarrow> receipt \<Rightarrow> dict \<Rightarrow> ('w, unit) op" where
  "verify_live_calls infer evaluate st p w m n ws =
     obind (olift (verify_live_receipt ''workspace'' st w ws)) (\<lambda>_.
     obind (infer p ws) (\<lambda>out. let model = with_identity p out in
     obind (olift (verify_live_receipt ''model'' st m model)) (\<lambda>_.
     obind (evaluate p ws model) (\<lambda>out.
     obind (olift (native_execution_identity p)) (\<lambda>idn.
     olift (verify_live_receipt ''native'' st n (fmupd ''evaluator_error'' JNull (out ++\<^sub>f fmap_of_list (idn @ model_link m)))))))))"

definition verify_live_plan :: "(string \<Rightarrow> string) \<Rightarrow> (execution_plan \<Rightarrow> dict \<Rightarrow> ('w, dict) op) \<Rightarrow> (execution_plan \<Rightarrow> dict \<Rightarrow> dict \<Rightarrow> ('w, dict) op)
     \<Rightarrow> receipt_store \<Rightarrow> receipt list \<Rightarrow> execution_plan \<Rightarrow> ('w, unit) op" where
  "verify_live_plan resolve infer evaluate st rs p =
     obind (olift (check_live_order rs p)) (\<lambda>_.
     obind (olift (only_kind rs p ''workspace'')) (\<lambda>w. obind (olift (only_kind rs p ''model'')) (\<lambda>m. obind (olift (only_kind rs p ''native_evaluation'')) (\<lambda>n.
     obind (olift (plan_sha256 p)) (\<lambda>h.
     verify_live_calls infer evaluate st p w m n (fmupd ''plan_sha256'' (JStr h) (live_workspace resolve p)))))))"

fun verify_live_plans :: "(execution_plan \<Rightarrow> ('w, unit) op) \<Rightarrow> execution_plan list \<Rightarrow> ('w, unit) op" where
  "verify_live_plans check [] = oreturn ()"
| "verify_live_plans check (p # ps) = obind (check p) (\<lambda>_. verify_live_plans check ps)"

section \<open>Claims\<close>

definition live_classification :: "receipt \<Rightarrow> claim_classification" where
  "live_classification n = (if \<not> evaluator_silent n then INFRA_FAILURE
     else if get (rc_payload n) ''resolved'' = JBool True then GAIN else NEUTRAL)"

definition live_claim :: "execution_plan \<Rightarrow> evidence_envelope \<Rightarrow> claim_classification \<Rightarrow> claim res" where
  "live_claim p e cls = bind (evidence_sha256 e) (\<lambda>h.
     mk_claim False \<lparr>cl_claim_id = ''claim-'' @ take 24 (digest (jobj [(''tournament_participant_revision_id'', JStr (pl_candidate_revision_id p)),
         (''plan_id'', JStr (pl_plan_id p)), (''evidence_id'', JStr (ev_evidence_id e)), (''evidence_sha256'', JStr h),
         (''classification'', JStr (classification_text cls))])),
       cl_candidate_id = pl_candidate_revision_id p, cl_grade = E1, cl_classification = cls, cl_evidence_ids = [ev_evidence_id e],
       cl_rationale = ''allowlisted local native evaluator participant outcome'', cl_supersedes_claim_id = None, cl_pair_sha256 = None, cl_receipt_ids = []\<rparr>)"

definition project_live_claim :: "evidence_envelope list \<Rightarrow> receipt list \<Rightarrow> execution_plan \<Rightarrow> claim res" where
  "project_live_claim es rs p = (case filter (\<lambda>r. rc_plan_id r = pl_plan_id p \<and> rc_kind r = ''native_evaluation'') rs of
     [n] \<Rightarrow> bind (observe_receipt native_outcome_observer n) (\<lambda>x. case x of
         None \<Rightarrow> raise ContractViolation ''live AgentProgram native observation is missing''
       | Some want \<Rightarrow> (case filter (\<lambda>e. ev_observer_id e = ''native-v1'' \<and> get (ev_payload e) ''plan_id'' = JStr (pl_plan_id p)) es of
           [e] \<Rightarrow> bind (violation_unless (evidence_eq e want) ''live AgentProgram native evidence projection drift'') (\<lambda>_.
             live_claim p e (live_classification n))
         | _ \<Rightarrow> raise ContractViolation ''live AgentProgram native evidence projection drift''))
   | _ \<Rightarrow> raise ContractViolation ''live AgentProgram authority requires one native receipt'')"

fun project_claims :: "bool \<Rightarrow> evidence_envelope list \<Rightarrow> receipt list \<Rightarrow> execution_plan list \<Rightarrow> (evidence_graph, claim list) op" where
  "project_claims add es rs [] = oreturn []"
| "project_claims add es rs (p # ps) = obind (olift (project_live_claim es rs p)) (\<lambda>c.
     obind (if add then obind (append_claim (c, None)) (\<lambda>_. oreturn ()) else oreturn ()) (\<lambda>_.
     obind (project_claims add es rs ps) (\<lambda>cs. oreturn (c # cs))))"

definition project_live_claims :: "bool \<Rightarrow> receipt_store \<Rightarrow> execution_plan list \<Rightarrow> (evidence_graph, claim list) op" where
  "project_live_claims add st ps = obind (oread list_evidence) (\<lambda>l. obind (olift l) (\<lambda>es.
     obind (olift (list_receipts st)) (\<lambda>rs. project_claims add es rs ps)))"

section \<open>The decision\<close>

text \<open>\<open>name, value = item.split("=", 1)\<close>; a later item overrides an earlier one.\<close>

definition name_value :: "string \<Rightarrow> (string \<times> string) option" where
  "name_value s = (if CHR ''='' \<in> set s then Some (takeWhile (\<lambda>c. c \<noteq> CHR ''='') s, tl (dropWhile (\<lambda>c. c \<noteq> CHR ''='') s)) else None)"

definition reason_fields :: "string \<Rightarrow> (string \<times> string) list" where
  "reason_fields s = rev (List.map_filter name_value (split_char CHR '';'' s))"

definition project_live_decision :: "strategy_decision \<Rightarrow> string list \<Rightarrow> (string \<times> string) res" where
  "project_live_decision d parts = (case (map_of (reason_fields (sd_reason d)) ''decision'', map_of (reason_fields (sd_reason d)) ''winner'') of
     (Some h, Some w) \<Rightarrow>
       bind (violation_unless (is_sha256 h \<and> w \<in> set parts) ''live AgentProgram decision projection is invalid'') (\<lambda>_.
       bind (violation_unless (sd_action d = (if w \<noteq> hd parts then ''advance-search-parent'' else ''reject-candidates''))
         ''live AgentProgram decision action drift'') (\<lambda>_. Inr (h, w)))
   | _ \<Rightarrow> raise ContractViolation ''live AgentProgram decision projection is invalid'')"

section \<open>The live search parent\<close>

text \<open>The log of one output root; \<open>None\<close> when the file does not exist.\<close>

record live_advance =
  la_program_id :: string
  la_tournament_id :: string
  la_parent :: string
  la_selected :: string
  la_decision :: string
  la_claim_ids :: "string list"

definition live_event :: "live_advance \<Rightarrow> int \<Rightarrow> json \<Rightarrow> dict" where
  "live_event a n previous = fmap_of_list
     [(''sequence'', JInt n), (''program_id'', JStr (la_program_id a)), (''tournament_id'', JStr (la_tournament_id a)), (''execution_scope'', JStr ''live''),
      (''previous_parent_revision_id'', JStr (la_parent a)), (''selected_revision_id'', JStr (la_selected a)), (''decision_sha256'', JStr (la_decision a)),
      (''claim_ids'', str_list (la_claim_ids a)), (''previous_event_sha256'', previous)]"

definition live_stored :: "dict \<Rightarrow> dict" where
  "live_stored e = fmupd ''event_sha256'' (JStr (digest (JObj e))) e"

definition live_parent_row :: "string \<Rightarrow> dict list \<Rightarrow> json option \<Rightarrow> dict res" where
  "live_parent_row i known l = (case l of
     None \<Rightarrow> raise ContractViolation ''live search-parent event is invalid''
   | Some (JObj e) \<Rightarrow>
       bind (canonical_json (JObj (fmdrop ''event_sha256'' e))) (\<lambda>t.
       bind (violation_unless (get e ''event_sha256'' = JStr (sha256_hex (utf8 t)) \<and> py_eq (get e ''sequence'') (JInt (int (length known) + 1))
         \<and> get e ''execution_scope'' = JStr ''live'' \<and> get e ''program_id'' = JStr i) ''live search-parent hash chain is invalid'') (\<lambda>_.
       bind (violation_unless (get e ''previous_event_sha256'' = last_hash known) ''live search-parent hash chain fork'') (\<lambda>_. Inr e)))
   | Some _ \<Rightarrow> raise AttributeError ''items'')"

fun live_parent_rows :: "string \<Rightarrow> dict list \<Rightarrow> json option list \<Rightarrow> dict list res" where
  "live_parent_rows i known [] = Inr known"
| "live_parent_rows i known (l # ls) = bind (live_parent_row i known l) (\<lambda>e. live_parent_rows i (known @ [e]) ls)"

text \<open>What an append adds to the log: nothing when the decision is replayed.\<close>

definition live_parent_new :: "live_advance \<Rightarrow> dict list \<Rightarrow> dict option res" where
  "live_parent_new a known =
     bind (mapM (\<lambda>e. bind (item e ''tournament_id'') (\<lambda>t. Inr (t, e))) known) (\<lambda>rows.
     case filter (\<lambda>(t, e). t = JStr (la_tournament_id a)) rows of
       [] \<Rightarrow> bind (if known = [] then Inr (JStr (la_parent a)) else item (last known) ''selected_revision_id'') (\<lambda>current.
         bind (violation_unless (current = JStr (la_parent a)) ''live search-parent fork detected'') (\<lambda>_.
         Inr (Some (live_event a (int (length known) + 1) (last_hash known)))))
     | [(t, e)] \<Rightarrow> bind (item e ''decision_sha256'') (\<lambda>h.
         bind (if h = JStr (la_decision a) then bind (item e ''selected_revision_id'') (\<lambda>s. Inr (s = JStr (la_selected a))) else Inr False) (\<lambda>same.
         bind (violation_unless same ''conflicting live tournament decision replay'') (\<lambda>_. Inr None)))
     | _ \<Rightarrow> raise ContractViolation ''conflicting live tournament decision replay'')"

definition append_live_search_parent :: "live_advance \<Rightarrow> (json option list option, unit) op" where
  "append_live_search_parent a = obind (oread (\<lambda>f. bind (live_parent_rows (la_program_id a) [] (case f of None \<Rightarrow> [] | Some ls \<Rightarrow> ls)) (live_parent_new a))) (\<lambda>r.
     obind (olift r) (\<lambda>x. case x of None \<Rightarrow> oreturn ()
     | Some e \<Rightarrow> omodify (\<lambda>f. Some ((case f of None \<Rightarrow> [] | Some ls \<Rightarrow> ls) @ [stored_line (JObj (live_stored e))]))))"

definition verify_live_search_parent :: "live_advance \<Rightarrow> json option list option \<Rightarrow> unit res" where
  "verify_live_search_parent a f = (case f of
     None \<Rightarrow> raise ContractViolation ''live search-parent authority is missing''
   | Some ls \<Rightarrow> if None \<in> set ls then raise ContractViolation ''live search-parent authority is unreadable''
     else (case ls of
       [Some (JObj e)] \<Rightarrow> let want = live_event a 1 JNull in
         violation_unless (py_eq (JObj (fmdrop ''event_sha256'' e)) (JObj want) \<and> get e ''event_sha256'' = JStr (digest (JObj want)))
           ''live search-parent authority drift''
     | _ \<Rightarrow> raise ContractViolation ''live search-parent authority is ambiguous''))"

section \<open>The report\<close>

fun run_status_text :: "campaign_run_status \<Rightarrow> string" where
  "run_status_text RUN_COMPLETED = ''completed''"
| "run_status_text RUN_PARTIAL = ''partial''"
| "run_status_text RUN_COMPATIBILITY = ''compatibility''"
| "run_status_text RUN_NOT_YET_LIVE = ''not-yet-live''"

definition report_claim :: "claim \<Rightarrow> json" where
  "report_claim c = jobj [(''claim_id'', JStr (cl_claim_id c)), (''candidate_id'', JStr (cl_candidate_id c)), (''grade'', JStr (grade_text (cl_grade c))),
     (''classification'', JStr (classification_text (cl_classification c))), (''evidence_ids'', str_list (cl_evidence_ids c))]"

definition bool_list :: "bool list \<Rightarrow> json" where
  "bool_list bs = JList (map JBool bs)"

definition build_live_report :: "campaign_run \<Rightarrow> string \<Rightarrow> string \<Rightarrow> string list \<Rightarrow> string \<Rightarrow> string \<Rightarrow> string \<Rightarrow> strategy_decision
     \<Rightarrow> claim list \<Rightarrow> bool list \<Rightarrow> dict" where
  "build_live_report r strategy_id adapter parts parent selected decision d cls initial = fmap_of_list
     [(''schema_version'', JInt 1), (''campaign_id'', JStr (cr_campaign_id r)), (''status'', JStr (run_status_text (cr_status r))),
      (''strategy_id'', JStr strategy_id), (''execution_scope'', JStr ''live''), (''product_adapter_id'', JStr adapter),
      (''tournament_decision_sha256'', JStr decision), (''participant_revision_ids'', str_list parts),
      (''selected_parent_revision_id'', JStr selected), (''search_parent_advanced'', JBool (selected \<noteq> parent)),
      (''advisory_action'', JStr (sd_action d)), (''initial_execution_replayed'', bool_list initial),
      (''authority_execution_replayed'', bool_list (map er_replayed (cr_executions r))),
      (''receipt_ids'', str_list (map rc_receipt_id (cr_receipts r))), (''claims'', JList (map report_claim cls)),
      (''native_gain_claimed'', JBool (list_ex (\<lambda>c. cl_classification c = GAIN) cls)), (''promotion_eligible'', JBool False),
      (''capability_active'', JBool False), (''holdout_opened'', JBool False)]"

end
