(* ===== verification/Live_Campaign.thy ===== *)
theory Live_Campaign
  imports Live_Authority
begin

text \<open>
  \<open>src/src/evolve/campaigns/agent_program_runtime.py\<close> and \<open>agent_program_live.py\<close>: the transport that loads and
  verifies a whole revision before it is executed, the local product adapters, and a live campaign: a first pass that
  runs the tournament, the projection of its claims, a second pass that decides on them, the seal; and the replay of
  what is sealed.

  The cost limits 0 are the float 0.0 here.
\<close>

section \<open>The outside\<close>

text \<open>
  \<open>le_resolve\<close> and \<open>le_expand\<close> are \<open>Path.resolve\<close> and \<open>Path.expanduser\<close>; \<open>le_read\<close> is the file of a resolved name, its bytes
  and what \<open>json.loads\<close> makes of them, \<open>le_dir\<close> the revision directory of a resolved name.
\<close>

record 'w live_env =
  le_now :: "('w, datetime) op"
  le_resolve :: "string \<Rightarrow> string"
  le_expand :: "string \<Rightarrow> string"
  le_read :: "string \<Rightarrow> 'w \<Rightarrow> (nat list \<times> json option) option"
  le_dir :: "string \<Rightarrow> 'w \<Rightarrow> bundle_dir option"

section \<open>The hash-verified transport\<close>

type_synonym 'w program_executor = "program_revision \<Rightarrow> execution_plan \<Rightarrow> dict \<Rightarrow> ('w, dict) op"

definition check_transport :: "(string \<times> string) list \<Rightarrow> unit res" where
  "check_transport roots = all_checks
     [violation_unless (roots \<noteq> []) ''AgentProgram transport requires revision roots'',
      violation_unless (list_all (\<lambda>(i, p). \<not> blank i) roots) ''AgentProgram revision root identity is invalid'']"

definition transport_revision :: "(string \<times> string) list \<Rightarrow> (string \<Rightarrow> bundle_dir option) \<Rightarrow> execution_plan \<Rightarrow> program_revision res" where
  "transport_revision roots dirs p =
     bind (violation_unless (meta p ''execution_profile'' = JStr ''live'') ''live AgentProgram execution profile is missing'') (\<lambda>_.
     bind (case map_of roots (pl_candidate_revision_id p) of None \<Rightarrow> raise ContractViolation ''planned AgentProgram revision is unavailable''
       | Some root \<Rightarrow> rewrap (\<lambda>x. x = AgentProgramViolation) ContractViolation ''AgentProgram revision failed hash verification''
           (load_program root (dirs root))) (\<lambda>v.
     bind (violation_unless (pv_revision_id v = pl_candidate_revision_id p) ''AgentProgram revision root identity drift'') (\<lambda>_. Inr v)))"

definition check_transport_plan :: "program_revision \<Rightarrow> (string \<times> json) list \<Rightarrow> execution_plan \<Rightarrow> dict \<Rightarrow> unit res" where
  "check_transport_plan v hs p ws = all_checks
     (map (\<lambda>(n, h). violation_unless (meta p n = h) (''planned '' @ n @ '' identity drift'')) hs
      @ [violation_unless (pl_arm p = ''candidate'' \<longrightarrow> meta p ''parent_revision_id'' = opt_str (pv_parent v)) ''planned AgentProgram parent lineage drift'',
         violation_unless (pl_arm p = ''search-parent'' \<longrightarrow> meta p ''parent_revision_id'' = JNull) ''search-parent tournament lineage is invalid'',
         violation_unless (get ws ''task_revision_id'' = JStr (tr_revision_id (pl_task p))) ''AgentProgram workspace task identity drift'',
         violation_unless (get ws ''task_source_sha256'' = JStr (tr_source_sha256 (pl_task p))) ''AgentProgram workspace source identity drift''])"

definition protected_fields :: "program_revision \<Rightarrow> (string \<times> json) list \<Rightarrow> (string \<times> json) list" where
  "protected_fields v hs = [(''execution_scope'', JStr ''live''), (''program_id'', JStr (pv_program_id v)), (''revision_id'', JStr (pv_revision_id v)),
     (''parent_revision_id'', opt_str (pv_parent v))] @ hs"

text \<open>An executor may give a protected field only with its own value.\<close>

fun protect :: "(string \<times> json) list \<Rightarrow> dict \<Rightarrow> dict res" where
  "protect [] d = Inr d"
| "protect ((n, v) # fs) d = bind (violation_unless (case fmlookup d n of None \<Rightarrow> True | Some x \<Rightarrow> py_eq x v) (''AgentProgram executor '' @ n @ '' drift'')) (\<lambda>_.
     protect fs (fmupd n v d))"

definition check_patch :: "dict \<Rightarrow> unit res" where
  "check_patch d = violation_unless (case (get d ''patch'', get d ''patch_sha256'') of
       (JStr t, JStr h) \<Rightarrow> sha256_hex (utf8 t) = h \<and> get d ''prediction_sha256'' = JStr h | _ \<Rightarrow> False) ''AgentProgram executor patch identity drift''"

definition transport_infer :: "'w live_env \<Rightarrow> (string \<times> string) list \<Rightarrow> 'w program_executor \<Rightarrow> execution_plan \<Rightarrow> dict \<Rightarrow> ('w, dict) op" where
  "transport_infer env roots ex p ws =
     obind (oread (\<lambda>w. transport_revision roots (\<lambda>root. le_dir env root w) p)) (\<lambda>v. obind (olift v) (\<lambda>v.
     obind (olift (program_hashes v)) (\<lambda>hs.
     obind (olift (check_transport_plan v hs p ws)) (\<lambda>_.
     obind (ex v p ws) (\<lambda>out.
     obind (olift (protect (protected_fields v hs) out)) (\<lambda>d.
     obind (olift (check_patch d)) (\<lambda>_. oreturn d)))))))"

section \<open>The local adapters\<close>

definition live_adapter_id :: string where "live_adapter_id = ''local-declarative-agent-program-v1''"

definition live_source :: "'w live_env \<Rightarrow> task_revision \<Rightarrow> 'w \<Rightarrow> string res" where
  "live_source env t w = (case tr_source_uri t of
     Some uri \<Rightarrow> if uri = [] then raise ContractViolation ''live AgentProgram source_uri is missing''
       else (case le_read env (le_resolve env uri) w of
         Some (b, j) \<Rightarrow> bind (violation_unless (sha256_hex b = tr_source_sha256 t) ''live AgentProgram source identity drift'') (\<lambda>_. Inr (le_resolve env uri))
       | None \<Rightarrow> raise ContractViolation ''live AgentProgram source identity drift'')
   | None \<Rightarrow> raise ContractViolation ''live AgentProgram source_uri is missing'')"

definition local_materialize :: "'w live_env \<Rightarrow> execution_plan \<Rightarrow> ('w, dict) op" where
  "local_materialize env p = obind (oread (live_source env (pl_task p))) (\<lambda>r. obind (olift r) (\<lambda>_. oreturn (live_workspace (le_resolve env) p)))"

definition local_execution_json :: "program_revision \<Rightarrow> dict \<Rightarrow> json" where
  "local_execution_json v ws = jobj
     [(''adapter_id'', JStr live_adapter_id), (''program_prompt'', JStr (pv_prompt v)), (''program_context'', JObj (pv_context v)),
      (''program_tool_policy'', str_list (pv_tools v)), (''program_capability_revision_ids'', str_list (pv_capabilities v)),
      (''task_revision_id'', get ws ''task_revision_id''), (''task_source_sha256'', get ws ''task_source_sha256'')]"

definition local_output :: "program_revision \<Rightarrow> dict \<Rightarrow> string \<Rightarrow> dict res" where
  "local_output v ws patch = (let h = sha256_hex (utf8 patch) in
     bind (content_sha256 (local_execution_json v ws)) (\<lambda>x. Inr (fmap_of_list
       [(''product_adapter_id'', JStr live_adapter_id), (''program_execution_sha256'', JStr x), (''patch'', JStr patch), (''patch_sha256'', JStr h),
        (''prediction_sha256'', JStr h), (''structural_valid'', JBool True), (''failure_reason'', JNull), (''input_tokens'', JInt 0),
        (''output_tokens'', JInt 0), (''cost_cny'', JInt 0)])))"

definition local_program :: "program_revision \<Rightarrow> dict \<Rightarrow> dict res" where
  "local_program v ws =
     bind (violation_unless (fmdom' (pv_context v) = {''patch''}) ''local declarative AgentProgram context must contain only patch'') (\<lambda>_.
     bind (case get (pv_context v) ''patch'' of JStr t \<Rightarrow> bind (violation_unless (t \<noteq> []) ''local declarative AgentProgram patch is invalid'') (\<lambda>_. Inr t)
       | _ \<Rightarrow> raise ContractViolation ''local declarative AgentProgram patch is invalid'') (\<lambda>patch.
     bind (violation_unless (pv_tools v = [''emit_patch'']) ''local declarative AgentProgram requires emit_patch tool policy'') (\<lambda>_.
     bind (violation_unless (''local-declarative-patch-v1'' \<in> set (pv_capabilities v)) ''local declarative AgentProgram capability is not allowlisted'') (\<lambda>_.
     local_output v ws patch))))"

definition local_executor :: "'w program_executor" where
  "local_executor v p ws = olift (local_program v ws)"

definition live_evaluator_id :: "string \<Rightarrow> string" where
  "live_evaluator_id h = ''local-patch-match-native-v1@sha256:'' @ digest (jobj [(''expected_patch_sha256'', JStr h)])"

definition check_live_evaluator :: "string \<Rightarrow> unit res" where
  "check_live_evaluator h = violation_unless (is_sha256 h) ''expected_patch_sha256 must be literal SHA-256''"

definition local_evaluate :: "string \<Rightarrow> execution_plan \<Rightarrow> dict \<Rightarrow> dict \<Rightarrow> ('w, dict) op" where
  "local_evaluate expected p ws out = olift (
     bind (violation_unless (get ws ''execution_scope'' = JStr ''live'') ''live AgentProgram workspace scope drift'') (\<lambda>_.
     Inr (fmap_of_list [(''resolved'', JBool (get out ''patch_sha256'' = JStr expected)), (''native_valid'', JBool True), (''native_error'', JNull),
       (''regressions'', JList []), (''prediction_sha256'', get out ''patch_sha256''), (''product_adapter_id'', JStr live_adapter_id)])))"

definition local_adapters :: "'w live_env \<Rightarrow> (string \<times> string) list \<Rightarrow> string \<Rightarrow> 'w adapters" where
  "local_adapters env roots expected = \<lparr>ad_remote = False, ad_evaluator_id = live_evaluator_id expected, ad_materialize = local_materialize env,
     ad_infer = transport_infer env roots local_executor, ad_evaluate = local_evaluate expected, ad_clock = le_now env,
     ad_file = (\<lambda>path w. map_option (\<lambda>(b, j). (le_resolve env path, b, j)) (le_read env (le_resolve env path) w)),
     ad_observers = map observe_receipt [external_trace_observer, native_outcome_observer, cost_observer]\<rparr>"

section \<open>The state\<close>

text \<open>
  The output root: the frozen configuration, the result, the manifest, the registry of programs, the search-parent log, and
  the runner with the receipt store, the evidence graph and the checkpoints.  The controller in the runner is the one of the
  last process; every run replaces it.
\<close>

record 'w live_root =
  lv_config :: "nat list option"
  lv_result :: "text_file option"
  lv_manifest :: "text_file option"
  lv_programs :: line_file
  lv_parent :: "json option list option"
  lv_runner :: "'w execution runner"

definition live_world :: "'w live_root \<Rightarrow> 'w" where
  "live_world s = ex_world (rn_world (lv_runner s))"

definition live_store :: "'w live_root \<Rightarrow> receipt_store" where
  "live_store s = ex_store (rn_world (lv_runner s))"

definition live_graph :: "'w live_root \<Rightarrow> evidence_graph" where
  "live_graph s = (case ex_graph (rn_world (lv_runner s)) of None \<Rightarrow> \<lparr>eg_evidence = [], eg_claims = [], eg_legacy = False\<rparr> | Some g \<Rightarrow> g)"

definition on_runner :: "('w execution runner, 'a) op \<Rightarrow> ('w live_root, 'a) op" where
  "on_runner m s = (case m (lv_runner s) of (r, x) \<Rightarrow> (s\<lparr>lv_runner := r\<rparr>, x))"

definition on_live_world :: "('w, 'a) op \<Rightarrow> ('w live_root, 'a) op" where
  "on_live_world m = on_runner (on_runtime (on_world m))"

definition on_live_graph :: "(evidence_graph, 'a) op \<Rightarrow> ('w live_root, 'a) op" where
  "on_live_graph m s = (case m (live_graph s) of (g, x) \<Rightarrow>
     (s\<lparr>lv_runner := (lv_runner s)\<lparr>rn_world := (rn_world (lv_runner s))\<lparr>ex_graph := Some g\<rparr>\<rparr>\<rparr>, x))"

definition on_live_parent :: "(json option list option, 'a) op \<Rightarrow> ('w live_root, 'a) op" where
  "on_live_parent m s = (case m (lv_parent s) of (f, x) \<Rightarrow> (s\<lparr>lv_parent := f\<rparr>, x))"

definition on_live_programs :: "(line_file, 'a) op \<Rightarrow> ('w live_root, 'a) op" where
  "on_live_programs m s = (case m (lv_programs s) of (f, x) \<Rightarrow> (s\<lparr>lv_programs := f\<rparr>, x))"

section \<open>The configuration\<close>

record live_config =
  lc_bytes :: "nat list"
  lc_values :: dict
  lc_revisions :: "program_revision list"
  lc_task :: task_revision
  lc_expected :: string
  lc_generation :: dict

definition live_fields :: "string list" where
  "live_fields = [''schema_version'', ''campaign_id'', ''tournament_id'', ''execution_profile'', ''program_id'', ''product_adapter_id'',
     ''parent_revision_root'', ''candidate_revision_roots'', ''generation_config'', ''task'']"

definition live_task_fields :: "string list" where
  "live_task_fields = [''task_id'', ''revision_id'', ''project'', ''cohort'', ''source_uri'', ''source_sha256'', ''evaluator_id'', ''expected_patch_sha256'']"

definition live_text :: "live_config \<Rightarrow> string \<Rightarrow> string" where
  "live_text c k = py_str (get (lc_values c) k)"

definition live_revisions :: "'w live_env \<Rightarrow> dict \<Rightarrow> 'w \<Rightarrow> program_revision list res" where
  "live_revisions env d w = (case get d ''candidate_revision_roots'' of
     JList (x # xs) \<Rightarrow>
       bind (mapM (\<lambda>j. let root = le_resolve env (le_expand env (py_str j)) in load_program root (le_dir env root w))
         (get d ''parent_revision_root'' # x # xs)) (\<lambda>vs.
       bind (violation_unless (distinct (map pv_revision_id vs)) ''AgentProgram tournament revisions are duplicated'') (\<lambda>_.
       bind (violation_unless (pv_program_id ` set vs = {py_str (get d ''program_id'')}) ''AgentProgram campaign program identity mismatch'') (\<lambda>_.
       bind (violation_unless (list_all (\<lambda>v. pv_parent v = Some (pv_revision_id (hd vs))) (tl vs)) ''AgentProgram candidate parent lineage mismatch'') (\<lambda>_.
       Inr vs))))
   | _ \<Rightarrow> raise ContractViolation ''AgentProgram candidates must be a non-empty list'')"

definition live_mapping :: "json \<Rightarrow> string \<Rightarrow> dict res" where
  "live_mapping j name = (case j of JObj d \<Rightarrow> Inr d | _ \<Rightarrow> raise ContractViolation (name @ '' must be an object''))"

definition cohort_of_text :: "string \<Rightarrow> cohort res" where
  "cohort_of_text s = (case find (\<lambda>c. cohort_text c = s) [FEEDBACK, HOLDOUT, FINAL_SEALED, BURNED] of
     Some c \<Rightarrow> Inr c | None \<Rightarrow> raise ValueError ''is not a valid Cohort'')"

definition live_task :: "'w live_env \<Rightarrow> dict \<Rightarrow> 'w \<Rightarrow> (task_revision \<times> string) res" where
  "live_task env d w =
     bind (live_mapping (get d ''task'') ''task'') (\<lambda>t.
     bind (violation_unless (fmdom' t = set live_task_fields) ''live AgentProgram task fields are invalid'') (\<lambda>_.
     let text = \<lambda>k. py_str (get t k); expected = text ''expected_patch_sha256'' in
     bind (check_live_evaluator expected) (\<lambda>_.
     bind (cohort_of_text (text ''cohort'')) (\<lambda>cohort.
     bind (mk_task_revision \<lparr>tr_task_id = text ''task_id'', tr_revision_id = text ''revision_id'', tr_project = text ''project'', tr_cohort = cohort,
       tr_source_sha256 = text ''source_sha256'', tr_evaluator_id = text ''evaluator_id'', tr_source_uri = Some (text ''source_uri'')\<rparr>) (\<lambda>task.
     bind (violation_unless (tr_cohort task = FEEDBACK \<and> tr_evaluator_id task = live_evaluator_id expected) ''live AgentProgram campaign is feedback-only'') (\<lambda>_.
     bind (live_source env task w) (\<lambda>_. Inr (task, expected))))))))"

definition read_live_config :: "'w live_env \<Rightarrow> string \<Rightarrow> 'w \<Rightarrow> live_config res" where
  "read_live_config env path w = (case le_read env (le_resolve env path) w of
     Some (bytes, Some j) \<Rightarrow> (case j of
       JObj d \<Rightarrow> bind (violation_unless (fmdom' d = set live_fields) ''live AgentProgram campaign config fields are invalid'') (\<lambda>_.
         bind (violation_unless (py_eq (get d ''schema_version'') (JInt 1) \<and> get d ''execution_profile'' = JStr ''live'') ''live AgentProgram campaign profile is invalid'') (\<lambda>_.
         bind (violation_unless (get d ''product_adapter_id'' = JStr live_adapter_id) ''AgentProgram product adapter is not allowlisted'') (\<lambda>_.
         bind (live_revisions env d w) (\<lambda>vs.
         bind (live_task env d w) (\<lambda>(task, expected).
         bind (live_mapping (get d ''generation_config'') ''generation_config'') (\<lambda>generation.
         Inr \<lparr>lc_bytes = bytes, lc_values = d, lc_revisions = vs, lc_task = task, lc_expected = expected, lc_generation = generation\<rparr>))))))
     | _ \<Rightarrow> raise ContractViolation ''live AgentProgram campaign config fields are invalid'')
   | _ \<Rightarrow> raise ContractViolation ''AgentProgram campaign config is unreadable'')"

end
