(* ===== verification/Live_Run.thy ===== *)
theory Live_Run
  imports Live_Campaign
begin

text \<open>
  \<open>run_agent_program_live_campaign\<close> of \<open>src/src/evolve/campaigns/agent_program_live.py\<close>: one call of it, on the
  output root the earlier calls left.

  The argument \<open>disk\<close> is the list of files that a state of the root stands for.
\<close>

section \<open>What a run is about\<close>

definition live_authorization :: "live_config \<Rightarrow> authorization" where
  "live_authorization c = \<lparr>au_authorization_id = ''auth-'' @ take 24 (sha256_hex (lc_bytes c)), au_campaign_id = live_text c ''campaign_id'',
     au_allowed_cohorts = [FEEDBACK], au_max_cost_cny = fzero, au_max_model_calls = int (length (lc_revisions c)),
     au_expires_at = DT 4102444800000000 True, au_remote_calls_allowed = False\<rparr>"

definition live_roots :: "live_config \<Rightarrow> (string \<times> string) list" where
  "live_roots c = map (\<lambda>v. (pv_revision_id v, pv_root v)) (lc_revisions c)"

definition root_file :: "string list \<Rightarrow> string \<Rightarrow> string" where
  "root_file root n = ''/'' @ join_with ''/'' (root @ [n])"

definition live_context :: "string list \<Rightarrow> live_config \<Rightarrow> strategy_context" where
  "live_context root c = \<lparr>sc_campaign_id = live_text c ''campaign_id'', sc_task = lc_task c,
     sc_model = \<lparr>mi_provider = ''local-product'', mi_model = ''declarative-agent-program'', mi_revision = ''v1''\<rparr>,
     sc_context_policy_id = ''local-file-feedback-v1'', sc_tool_policy_id = ''allowlisted-declarative-tools-v1'',
     sc_observer_policy_ids = [''external-trace-v1'', ''native-v1'', ''cost-v1''],
     sc_limits = \<lparr>el_max_tokens = 0, el_max_seconds = 60, el_max_cost_cny = fzero\<rparr>, sc_phase = EXPERIMENT,
     sc_inputs = fmap_of_list
       [(''parent_revision_id'', Plain (JStr (pv_revision_id (hd (lc_revisions c))))),
        (''candidate_revision_ids'', TupleOf (map (JStr \<circ> pv_revision_id) (tl (lc_revisions c)))),
        (''tournament_id'', Plain (JStr (live_text c ''tournament_id''))), (''generation_config'', Plain (JObj (lc_generation c))),
        (''execution_profile'', Plain (JStr ''live'')), (''revision_roots'', Plain (jobj (map (\<lambda>(i, p). (i, JStr p)) (live_roots c)))),
        (''claim_evidence_graph_root'', Plain (JStr (root_file root ''evidence-graph''))),
        (''claim_receipt_store_root'', Plain (JStr (root_file root ''receipt-store'')))]\<rparr>"

definition live_spec :: "string list \<Rightarrow> live_config \<Rightarrow> claim list \<Rightarrow> campaign_spec" where
  "live_spec root c cls = \<lparr>cs_campaign_id = live_text c ''campaign_id'', cs_contexts = [live_context root c],
     cs_authorization = live_authorization c, cs_claims = cls, cs_prediction = None\<rparr>"

section \<open>Opening the root\<close>

definition program_records :: "live_config \<Rightarrow> program_record list res" where
  "program_records c = mapM program_record_of (lc_revisions c)"

fun register_programs :: "program_revision list \<Rightarrow> (line_file, unit) op" where
  "register_programs [] = oreturn ()"
| "register_programs (v # vs) = obind (olift (program_record_of v)) (\<lambda>r. obind (registry_append program_registry r) (\<lambda>_. register_programs vs))"

definition verify_programs :: "live_config \<Rightarrow> line_file \<Rightarrow> unit res" where
  "verify_programs c f = bind (program_records c) (\<lambda>want. bind (registry_all program_registry f) (\<lambda>rs.
     violation_unless (rs = want) ''live AgentProgram registry projection drift''))"

definition check_sealed :: "string list \<Rightarrow> ('w live_root \<Rightarrow> disk) \<Rightarrow> 'w live_root \<Rightarrow> unit res" where
  "check_sealed root disk s =
     bind (violation_unless (lv_config s \<noteq> None \<and> lv_manifest s \<noteq> None) ''live AgentProgram sealed replay is incomplete'') (\<lambda>_.
     bind (verify_manifest root (disk s) (lv_manifest s)) (\<lambda>_. Inr ()))"

definition freeze_config :: "live_config \<Rightarrow> ('w live_root, unit) op" where
  "freeze_config c = omodify (\<lambda>s. case lv_config s of None \<Rightarrow> s\<lparr>lv_config := Some (lc_bytes c)\<rparr> | Some _ \<Rightarrow> s)"

text \<open>Whether the root holds a result.\<close>

definition open_root :: "string list \<Rightarrow> ('w live_root \<Rightarrow> disk) \<Rightarrow> live_config \<Rightarrow> ('w live_root, bool) op" where
  "open_root root disk c =
     obind (oread lv_config) (\<lambda>f. obind (olift (violation_unless (case f of None \<Rightarrow> True | Some b \<Rightarrow> b = lc_bytes c) ''AgentProgram campaign replay config drift'')) (\<lambda>_.
     obind (oread lv_result) (\<lambda>r. case r of
       Some _ \<Rightarrow> obind (oread (check_sealed root disk)) (\<lambda>x. obind (olift x) (\<lambda>_.
         obind (oread (\<lambda>s. verify_programs c (lv_programs s))) (\<lambda>x. obind (olift x) (\<lambda>_. oreturn True))))
     | None \<Rightarrow> obind (freeze_config c) (\<lambda>_. obind (on_live_programs (register_programs (lc_revisions c))) (\<lambda>_. oreturn False)))))"

definition live_controller :: "live_config \<Rightarrow> datetime \<Rightarrow> checkpoint_dir \<Rightarrow> campaign_world res" where
  "live_controller c now d = (let i = live_text c ''campaign_id''; a = live_authorization c in
     bind (checkpoint_path i) (\<lambda>_.
     if fmlookup d i = None then campaign_create i a now True d else bind (campaign_resume i a now d) (\<lambda>x. Inr (x, d))))"

definition open_controller :: "'w live_env \<Rightarrow> live_config \<Rightarrow> ('w live_root, unit) op" where
  "open_controller env c =
     obind (olift (check_authorization (live_authorization c))) (\<lambda>_.
     obind (on_live_world (le_now env)) (\<lambda>now.
     obind (oread (\<lambda>s. live_controller c now (snd (rn_controller (lv_runner s))))) (\<lambda>x. obind (olift x) (\<lambda>w.
     omodify (\<lambda>s. s\<lparr>lv_runner := (lv_runner s)\<lparr>rn_controller := w\<rparr>\<rparr>)))))"

section \<open>A pass of the runner\<close>

definition live_files :: "'w live_env \<Rightarrow> string list \<Rightarrow> 'w live_root \<Rightarrow> program_files" where
  "live_files env root s = \<lparr>fs_dir = (\<lambda>p. le_dir env p (live_world s)),
     fs_store = (\<lambda>p. if p = root_file root ''receipt-store'' then Some (live_store s) else None),
     fs_graph = (\<lambda>p. if p = root_file root ''evidence-graph'' then Some (live_graph s) else None)\<rparr>"

definition live_runtime :: "'w live_env \<Rightarrow> live_config \<Rightarrow> 'w execution runtime_entry" where
  "live_runtime env c = execution_runtime (local_adapters env (live_roots c) (lc_expected c))"

definition run_with :: "'w live_env \<Rightarrow> string list \<Rightarrow> live_config \<Rightarrow> claim list \<Rightarrow> program_files \<Rightarrow> ('w live_root, campaign_run) op" where
  "run_with env root c cls fs = on_runner (runner_run (Some (live_runtime env c)) True (live_spec root c cls) (agent_program_search fs Live))"

text \<open>
  The strategy reads the revision directories, which no pass changes, and, after the last step of the pass, the graph and the
  store: it is the strategy over the files of the end.
\<close>

definition live_pass :: "'w live_env \<Rightarrow> string list \<Rightarrow> live_config \<Rightarrow> claim list \<Rightarrow> ('w live_root, campaign_run) op" where
  "live_pass env root c cls = obind (olift (check_campaign_spec (live_spec root c cls))) (\<lambda>_ s.
     let s' = fst (run_with env root c cls (live_files env root s) s) in
     (s', snd (run_with env root c cls ((live_files env root s')\<lparr>fs_dir := fs_dir (live_files env root s)\<rparr>) s)))"

definition live_outcome :: "campaign_run \<Rightarrow> (strategy_decision \<times> string \<times> string) res" where
  "live_outcome r = bind (project_live_decision (hd (cr_decisions r)) (map pl_candidate_revision_id (cr_plans r))) (\<lambda>(h, w).
     Inr (hd (cr_decisions r), h, w))"

definition live_advanced :: "live_config \<Rightarrow> strategy_decision \<Rightarrow> string \<Rightarrow> string \<Rightarrow> live_advance" where
  "live_advanced c d h w = \<lparr>la_program_id = live_text c ''program_id'', la_tournament_id = live_text c ''tournament_id'',
     la_parent = pv_revision_id (hd (lc_revisions c)), la_selected = w, la_decision = h, la_claim_ids = sd_claim_ids d\<rparr>"

definition live_report :: "live_config \<Rightarrow> campaign_run \<Rightarrow> strategy_decision \<Rightarrow> string \<Rightarrow> string \<Rightarrow> claim list \<Rightarrow> bool list \<Rightarrow> dict" where
  "live_report c r d h w cls initial = build_live_report r ''agent-program-search-v3'' live_adapter_id (map pl_candidate_revision_id (cr_plans r))
     (pv_revision_id (hd (lc_revisions c))) w h d cls initial"

section \<open>The replay of a sealed root\<close>

definition verify_live_runtime :: "'w live_env \<Rightarrow> live_config \<Rightarrow> execution_plan list \<Rightarrow> ('w live_root, unit) op" where
  "verify_live_runtime env c ps = obind (oread live_store) (\<lambda>st. obind (olift (list_receipts st)) (\<lambda>rs.
     on_live_world (verify_live_plans (verify_live_plan (le_resolve env) (transport_infer env (live_roots c) local_executor)
       (local_evaluate (lc_expected c)) st rs) ps)))"

definition sealed_claims :: "'w live_env \<Rightarrow> string list \<Rightarrow> live_config \<Rightarrow> ('w live_root, claim list) op" where
  "sealed_claims env root c =
     obind (oread (\<lambda>s. graph_rebuild (live_store s) (live_graph s))) (\<lambda>x. obind (olift x) (\<lambda>_.
     obind (oread (\<lambda>s. search_plan (live_files env root s) Live (live_context root c))) (\<lambda>x. obind (olift x) (\<lambda>ps.
     obind (verify_live_runtime env c ps) (\<lambda>_.
     obind (oread live_store) (\<lambda>st. obind (on_live_graph (project_live_claims False st ps)) (\<lambda>cls.
     obind (oread (\<lambda>s. latest_claims (live_graph s))) (\<lambda>x. obind (olift x) (\<lambda>latest.
     obind (olift (violation_unless (latest = cls) ''live AgentProgram Claim authority drift'')) (\<lambda>_. oreturn cls))))))))))"

definition check_result :: "dict \<Rightarrow> text_file option \<Rightarrow> unit res" where
  "check_result rep f = (case Option.bind f tf_json of
     None \<Rightarrow> raise ContractViolation ''live AgentProgram sealed result is unreadable''
   | Some j \<Rightarrow> violation_unless (same_value j (JObj rep)) ''live AgentProgram sealed result authority drift'')"

definition live_replay :: "'w live_env \<Rightarrow> string list \<Rightarrow> live_config \<Rightarrow> ('w live_root, dict) op" where
  "live_replay env root c =
     obind (sealed_claims env root c) (\<lambda>cls.
     obind (live_pass env root c cls) (\<lambda>r.
     obind (olift (violation_unless (length (cr_decisions r) = 1 \<and> list_all er_replayed (cr_executions r)) ''live AgentProgram sealed replay was not idempotent'')) (\<lambda>_.
     obind (olift (live_outcome r)) (\<lambda>(d, h, w).
     obind (oread (\<lambda>s. verify_live_search_parent (live_advanced c d h w) (lv_parent s))) (\<lambda>x. obind (olift x) (\<lambda>_.
     let rep = live_report c r d h w cls (map (\<lambda>_. False) (cr_plans r)) in
     obind (oread (\<lambda>s. check_result rep (lv_result s))) (\<lambda>x. obind (olift x) (\<lambda>_. oreturn rep))))))))"

section \<open>A fresh run\<close>

definition live_seal :: "string list \<Rightarrow> ('w live_root \<Rightarrow> disk) \<Rightarrow> ('w live_root, unit) op" where
  "live_seal root disk = obind (oread (\<lambda>s. seal_manifest (disk s))) (\<lambda>x. obind (olift x) (\<lambda>m.
     obind (omodify (\<lambda>s. s\<lparr>lv_manifest := Some m\<rparr>)) (\<lambda>_.
     obind (oread (\<lambda>s. verify_manifest root (disk s) (lv_manifest s))) (\<lambda>x. obind (olift x) (\<lambda>_. oreturn ())))))"

definition first_pass :: "'w live_env \<Rightarrow> string list \<Rightarrow> live_config \<Rightarrow> ('w live_root, campaign_run \<times> claim list) op" where
  "first_pass env root c =
     obind (live_pass env root c []) (\<lambda>r.
     obind (olift (violation_unless (map sd_action (cr_decisions r) = [''await-tournament-authority'']) ''live AgentProgram first pass bypassed Claim authority'')) (\<lambda>_.
     obind (oread live_store) (\<lambda>st. obind (on_live_graph (project_live_claims True st (cr_plans r))) (\<lambda>cls. oreturn (r, cls)))))"

text \<open>The second pass up to the report; then the result is written, and then the seal.\<close>

definition authority_pass :: "'w live_env \<Rightarrow> string list \<Rightarrow> live_config \<Rightarrow> campaign_run \<Rightarrow> claim list \<Rightarrow> ('w live_root, dict) op" where
  "authority_pass env root c first cls =
     obind (live_pass env root c cls) (\<lambda>r.
     obind (olift (violation_unless (length (cr_decisions r) = 1) ''live AgentProgram authority decision is missing'')) (\<lambda>_.
     obind (olift (live_outcome r)) (\<lambda>(d, h, w).
     obind (on_live_parent (append_live_search_parent (live_advanced c d h w))) (\<lambda>_.
     oreturn (live_report c r d h w cls (map er_replayed (cr_executions first)))))))"

definition write_live_result :: "dict \<Rightarrow> ('w live_root, unit) op" where
  "write_live_result rep = obind (olift (encoded (JObj rep))) (\<lambda>f. omodify (\<lambda>s. s\<lparr>lv_result := Some f\<rparr>))"

definition live_fresh :: "'w live_env \<Rightarrow> string list \<Rightarrow> ('w live_root \<Rightarrow> disk) \<Rightarrow> live_config \<Rightarrow> ('w live_root, dict) op" where
  "live_fresh env root disk c =
     obind (first_pass env root c) (\<lambda>(first, cls).
     obind (authority_pass env root c first cls) (\<lambda>rep.
     obind (write_live_result rep) (\<lambda>_.
     obind (live_seal root disk) (\<lambda>_. oreturn rep))))"

definition live_campaign :: "'w live_env \<Rightarrow> string list \<Rightarrow> ('w live_root \<Rightarrow> disk) \<Rightarrow> string \<Rightarrow> ('w live_root, dict) op" where
  "live_campaign env root disk path =
     obind (oread (\<lambda>s. read_live_config env path (live_world s))) (\<lambda>x. obind (olift x) (\<lambda>c.
     obind (open_root root disk c) (\<lambda>sealed.
     obind (open_controller env c) (\<lambda>_.
     obind (olift (check_context (live_context root c))) (\<lambda>_.
     obind (olift (check_transport (live_roots c))) (\<lambda>_.
     if sealed then live_replay env root c else live_fresh env root disk c))))))"

end
