(* ===== verification/Live_Facts.thy ===== *)
theory Live_Facts
  imports Live_Run Runner_Replay
begin

text \<open>
  What the passes of a live campaign keep: the projection of a decision, the operations that only read, and a pass over
  plans that have ended.
\<close>

section \<open>The reason of a decision\<close>

lemma split_char_none: "c \<notin> set s \<Longrightarrow> split_char c s = [s]"
  by (induction s) auto

lemma split_char_nonempty: "split_char c s \<noteq> []"
  by (induction s) (auto split: list.splits)

lemma split_char_first: "c \<notin> set s \<Longrightarrow> split_char c (s @ c # t) = s # split_char c t"
  by (induction s) auto

lemma live_reason_split:
  assumes "CHR '';'' \<notin> set h"
  shows "split_char CHR '';'' (live_reason h w) = (''decision='' @ h) # split_char CHR '';'' (''winner='' @ w @ '';scope=live;promotion_claimed=false'')"
  using split_char_first [of "CHR '';''" "''decision='' @ h" "''winner='' @ w @ '';scope=live;promotion_claimed=false''"] assms
  by (simp add: live_reason_def)

lemma live_reason_rest:
  assumes "CHR '';'' \<notin> set w"
  shows "split_char CHR '';'' (''winner='' @ w @ CHR '';'' # t) = (''winner='' @ w) # split_char CHR '';'' t"
  using split_char_first [of "CHR '';''" "''winner='' @ w" t] assms by simp

lemma hex_no_semicolon: "is_sha256 h \<Longrightarrow> CHR '';'' \<notin> set h"
proof
  assume "is_sha256 h" "CHR '';'' \<in> set h"
  then have "is_hex CHR '';''" by (simp add: is_sha256_def list_all_iff)
  then show False by (simp add: is_hex_def)
qed

lemma name_value_of: "CHR ''='' \<notin> set n \<Longrightarrow> name_value (n @ CHR ''='' # v) = Some (n, v)"
proof -
  assume "CHR ''='' \<notin> set n"
  then have "\<And>c. c \<in> set n \<Longrightarrow> c \<noteq> CHR ''=''" by blast
  then show ?thesis by (simp add: name_value_def takeWhile_append2 dropWhile_append2)
qed

lemma reason_names:
  "name_value (''decision='' @ h) = Some (''decision'', h)" "name_value (''winner='' @ h) = Some (''winner'', h)"
  "name_value ''scope=live'' = Some (''scope'', ''live'')" "name_value ''promotion_claimed=false'' = Some (''promotion_claimed'', ''false'')"
  using name_value_of [of "''decision''" h] name_value_of [of "''winner''" h] name_value_of [of "''scope''" "''live''"]
    name_value_of [of "''promotion_claimed''" "''false''"] by simp_all

lemma map_filter_Cons: "List.map_filter f (x # xs) = (case f x of None \<Rightarrow> List.map_filter f xs | Some y \<Rightarrow> y # List.map_filter f xs)"
  by (simp add: List.map_filter_def split: option.split)

lemma reason_tail: "split_char CHR '';'' ''scope=live;promotion_claimed=false'' = [''scope=live'', ''promotion_claimed=false'']"
  by code_simp

lemma reason_fields_exact:
  assumes "is_sha256 h" and "CHR '';'' \<notin> set w"
  shows "map_of (reason_fields (live_reason h w)) ''decision'' = Some h \<and> map_of (reason_fields (live_reason h w)) ''winner'' = Some w"
proof -
  have "split_char CHR '';'' (live_reason h w) = [''decision='' @ h, ''winner='' @ w, ''scope=live'', ''promotion_claimed=false'']"
    using live_reason_split [OF hex_no_semicolon [OF assms(1)]] live_reason_rest [OF assms(2), of "''scope=live;promotion_claimed=false''"] reason_tail by simp
  then show ?thesis by (simp only: reason_fields_def map_filter_Cons reason_names option.case) simp
qed

lemma reason_fields_forged:
  assumes "is_sha256 h" and "is_sha256 k" and "CHR '';'' \<notin> set v"
  shows "map_of (reason_fields (live_reason h (v @ '';decision='' @ k))) ''decision'' = Some k
    \<and> map_of (reason_fields (live_reason h (v @ '';decision='' @ k))) ''winner'' = Some v"
proof -
  have k: "CHR '';'' \<notin> set (''decision='' @ k)" using hex_no_semicolon [OF assms(2)] by simp
  have "split_char CHR '';'' (live_reason h (v @ '';decision='' @ k)) = [''decision='' @ h, ''winner='' @ v, ''decision='' @ k, ''scope=live'', ''promotion_claimed=false'']"
    using live_reason_split [OF hex_no_semicolon [OF assms(1)], of "v @ '';decision='' @ k"]
      live_reason_rest [OF assms(3), of "''decision='' @ k @ '';scope=live;promotion_claimed=false''"]
      split_char_first [OF k, of "''scope=live;promotion_claimed=false''"] reason_tail by simp
  then show ?thesis by (simp only: reason_fields_def map_filter_Cons reason_names option.case) simp
qed

section \<open>Operations that only read\<close>

definition reads_only :: "('s, 'a) op \<Rightarrow> bool" where
  "reads_only m \<longleftrightarrow> (\<forall>s. fst (m s) = s)"

named_theorems reads \<open>operations that only read\<close>

lemma reads_olift [reads]: "reads_only (olift r)"
  by (simp add: reads_only_def olift_def)

lemma reads_oreturn [reads]: "reads_only (oreturn x)"
  by (simp add: reads_only_def)

lemma reads_oread [reads]: "reads_only (oread f)"
  by (simp add: reads_only_def)

lemma reads_obind: "reads_only m \<Longrightarrow> (\<And>x. reads_only (f x)) \<Longrightarrow> reads_only (obind m f)"
  by (auto simp: reads_only_def obind_def split: prod.splits sum.splits) (metis fst_conv)+

lemma reads_infer: "reads_only (transport_infer env roots local_executor p ws)"
proof -
  have e: "reads_only (local_executor v p ws)" for v by (simp add: reads_only_def local_executor_def olift_def)
  show ?thesis unfolding transport_infer_def by (intro reads_obind reads e)
qed

lemma reads_evaluate: "reads_only (local_evaluate expected p ws out)"
  by (simp add: reads_only_def local_evaluate_def olift_def)

lemma reads_verify_plan: "reads_only (verify_live_plan resolve (transport_infer env roots local_executor) (local_evaluate expected) st rs p)"
  unfolding verify_live_plan_def verify_live_calls_def Let_def by (intro reads_obind reads reads_infer reads_evaluate)

lemma reads_verify_plans:
  assumes "\<And>p. reads_only (check p)"
  shows "reads_only (verify_live_plans check ps)"
proof (induction ps)
  case Nil
  show ?case unfolding verify_live_plans.simps by (rule reads)
next
  case (Cons p ps)
  then show ?case unfolding verify_live_plans.simps by (intro reads_obind assms)
qed

lemma reads_project: "reads_only (project_claims False es rs ps)"
proof (induction ps)
  case Nil
  show ?case unfolding project_claims.simps by (rule reads)
next
  case (Cons p ps)
  have "reads_only (if False then obind (append_claim (c, None)) (\<lambda>_. oreturn ()) else oreturn ())" for c by (simp only: if_False) (rule reads)
  with Cons show ?case unfolding project_claims.simps by (intro reads_obind reads)
qed

lemma reads_project_live: "reads_only (project_live_claims False st ps)"
  unfolding project_live_claims_def by (intro reads_obind reads reads_project)

lemma reads_world:
  assumes "reads_only m"
  shows "reads_only (on_live_world m)"
proof -
  have "fst (m w) = w" for w using assms by (simp add: reads_only_def)
  then show ?thesis by (simp add: reads_only_def on_live_world_def on_runner_def on_runtime_def on_world_def case_prod_unfold)
qed

section \<open>A pass does not depend on what the strategy reads at its end\<close>

lemma search_plan_dir:
  assumes "fs_dir fs = fs_dir fs'"
  shows "search_plan fs pr c = search_plan fs' pr c"
proof -
  have e: "load_revisions fs = load_revisions fs'" by (intro ext) (simp add: load_revisions_def assms)
  show ?thesis unfolding search_plan_def e ..
qed

lemma obind_state: "(\<And>x t. fst (f x t) = fst (g x t)) \<Longrightarrow> fst (obind m f s) = fst (obind m g s)"
  by (simp add: obind_def split: prod.split sum.split)

lemma settle_status: "sg_status st = sg_status st' \<Longrightarrow> settle_campaign st replay f = settle_campaign st' replay f"
  by (simp add: settle_campaign_def run_status_def cong: option.case_cong)

lemma run_live_state:
  assumes "sg_status st = sg_status st'"
  shows "fst (run_live rt spec st pss s) = fst (run_live rt spec st' pss s)"
proof -
  have r: "fst (obind (settle_campaign st replay f) (\<lambda>status. live_result spec st ps ess status f) t)
      = fst (obind (settle_campaign st' replay f) (\<lambda>status. live_result spec st' ps ess status f) t)" for replay f ps ess and t :: "'a runner"
    unfolding settle_status [OF assms] by (intro obind_state) (simp add: live_result_state)
  show ?thesis unfolding run_live_def Let_def
    by (intro obind_state) (simp add: r split: prod.split)
qed

lemma runner_run_state:
  assumes "sg_plan st = sg_plan st'" and "sg_status st = sg_status st'" and "sg_strategy_id st = sg_strategy_id st'" and "sg_status st \<noteq> NOT_YET_LIVE"
  shows "fst (runner_run (Some rt) True spec st s) = fst (runner_run (Some rt) True spec st' s)"
proof -
  have v: "validate_plans spec st ps = validate_plans spec st' ps" for ps using assms(3) by (simp add: validate_plans_def)
  show ?thesis unfolding runner_run_def using assms(1,2,4)
    by (simp add: v) (intro obind_state, simp add: run_live_state [OF assms(2)])
qed

lemma run_with_state:
  assumes "fs_dir fs = fs_dir fs'"
  shows "fst (run_with env root c cls fs s) = fst (run_with env root c cls fs' s)"
proof -
  have p: "sg_plan (agent_program_search fs Live) = sg_plan (agent_program_search fs' Live)"
    by (rule ext) (simp add: agent_program_search_def search_plan_dir [OF assms])
  show ?thesis
    using runner_run_state [OF p, of "live_runtime env c" "live_spec root c cls" "lv_runner s"]
    by (simp add: run_with_def on_runner_def agent_program_search_def search_status_def case_prod_unfold)
qed

text \<open>A pass is one run of the runner, with the files of its end.\<close>

lemma live_pass_run:
  assumes "live_pass env root c cls s = (t, Inr r)"
  shows "run_with env root c cls ((live_files env root t)\<lparr>fs_dir := fs_dir (live_files env root s)\<rparr>) s = (t, Inr r)"
proof -
  let ?t = "fst (run_with env root c cls (live_files env root s) s)"
  from assms have x: "t = ?t" "snd (run_with env root c cls ((live_files env root ?t)\<lparr>fs_dir := fs_dir (live_files env root s)\<rparr>) s) = Inr r"
    by (auto simp: live_pass_def Let_def obind_olift split: sum.splits)
  have "fst (run_with env root c cls ((live_files env root ?t)\<lparr>fs_dir := fs_dir (live_files env root s)\<rparr>) s) = ?t"
    by (rule run_with_state) simp
  with x show ?thesis by (metis prod.collapse)
qed

section \<open>A pass over plans that have ended\<close>

definition ended_in :: "string set \<Rightarrow> 'w execution \<Rightarrow> bool" where
  "ended_in is w \<longleftrightarrow> (\<forall>i \<in> is. settled_in i w)"

lemma ended_same: "same_facts w v \<Longrightarrow> ended_in is w \<Longrightarrow> ended_in is v"
  by (simp add: ended_in_def settled_in_def same_facts_def)

lemma on_controller_world: "rn_world (fst (on_controller m s)) = rn_world s"
  by (simp add: on_controller_apply)

lemma submit_plan_world: "rn_world (fst (submit_plan rt p s)) = rn_world s"
  by (auto simp: submit_plan_def on_controller_apply obind_olift obind_def [of "on_controller _"] split: sum.split prod.split)

lemma record_plan_world: "rn_world (fst (record_plan p e s)) = rn_world s"
  by (auto simp: record_plan_def on_controller_apply obind_olift split: sum.split)

interpretation en: runner_frame "\<lambda>s t. ended_in is (rn_world s) \<longrightarrow> same_facts (rn_world s) (rn_world t)" "execution_runtime ad" spec replay "\<lambda>p. pl_plan_id p \<in> is"
  for "is" ad spec replay
proof (unfold_locales, goal_cases)
  case (1 s)
  then show ?case by (simp add: same_facts_def)
next
  case (2 s t u)
  then show ?case using ended_same by (auto simp: same_facts_def)
next
  case (3 p s s' r)
  obtain t x where t: "(if replay then oreturn () else submit_plan (execution_runtime ad) p) s = (t, x)" by fastforce
  have tw: "rn_world t = rn_world s" using t submit_plan_world [of "execution_runtime ad" p s] by (cases replay) auto
  show ?case
  proof (cases x)
    case (Inl e)
    with 3(2) t tw show ?thesis by (simp add: run_one_def obind_def same_facts_def)
  next
    case (Inr v)
    obtain u y where u: "starting (execution_runtime ad) spec p t = (u, y)" by fastforce
    have k: "same_facts (rn_world t) (rn_world u)" if "ended_in is (rn_world s)"
      using rr.replays [OF _ rr.started_world [OF u]] that 3(1) tw by (simp add: ended_in_def)
    have "rn_world s' = rn_world u"
    proof (cases y)
      case (Inl e)
      with 3(2) t Inr u show ?thesis by (auto simp: run_one_def obind_def)
    next
      case y: (Inr e)
      with 3(2) t Inr u record_plan_world [of p e u] show ?thesis
        by (cases replay; cases "record_plan p e u") (auto simp: run_one_def obind_def split: sum.splits prod.splits)
    qed
    with k tw show ?thesis by simp
  qed
qed

lemma start_campaign_world: "rn_world (fst (start_campaign s)) = rn_world s"
  by (simp add: start_campaign_def on_controller_apply olift_def)

lemma settle_world: "rn_world (fst (settle_campaign st replay f s)) = rn_world s"
  by (auto simp: settle_campaign_def on_controller_apply obind_def [of "on_controller _"] split: option.split sum.split)

lemma run_ended:
  assumes run: "runner_run (Some (execution_runtime ad)) True spec st s = (s', q)" and live: "sg_status st \<noteq> NOT_YET_LIVE"
    and plans: "mapM (sg_plan st) (cs_contexts spec) = Inr pss" and ended: "ended_in (pl_plan_id ` set (concat pss)) (rn_world s)"
  shows "same_facts (rn_world s) (rn_world s')"
  using run live
proof (cases rule: runner_run_live)
  case (refused e)
  then show ?thesis by (simp add: same_facts_def)
next
  case (live pss')
  then have p: "pss' = pss" using plans by simp
  have loop: "same_facts (rn_world s) (rn_world u)"
    if "start_campaign s = (t, Inr ())" "run_contexts (execution_runtime ad) spec replay pss t = (u, x)" for t u x replay
    using en.contexts [OF that(2), of "pl_plan_id ` set (concat pss)"] ended start_campaign_world [of s] that(1) by (simp add: list_all_iff)
  from live(3) show ?thesis unfolding p
  proof (cases rule: run_live_cases)
    case (refused e)
    then show ?thesis by (simp add: same_facts_def)
  next
    case (unstarted e)
    then show ?thesis using start_campaign_world [of s] by (simp add: same_facts_def)
  next
    case (stopped t e)
    then show ?thesis using loop by blast
  next
    case (unsettled t u ess f e)
    then show ?thesis using loop settle_world by (metis fst_conv)
  next
    case (settled t u ess f status)
    then show ?thesis using loop settle_world by (metis fst_conv)
  qed
qed

section \<open>A live decision\<close>

text \<open>What a run of the runner returns.\<close>

lemma runner_run_returns:
  assumes "runner_run (Some rt) True spec st s = (t, Inr r)" and "sg_status st \<noteq> NOT_YET_LIVE"
  shows "\<exists>pss. mapM (sg_plan st) (cs_contexts spec) = Inr pss \<and> cr_plans r = concat pss \<and> next_actions st spec = Inr (cr_decisions r)"
  using assms
proof (cases rule: runner_run_live)
  case (live pss)
  from live(3) obtain ess f status where "live_result spec st (concat pss) ess status f t = (t, Inr r)"
    by (cases rule: run_live_cases) auto
  then show ?thesis using live(1) by (auto simp: live_result_def Let_def obind_eq_Inr olift_eq_Inr)
qed simp

lemma live_participants_of:
  assumes "lc_revisions c \<noteq> []"
  shows "live_participants (live_context root c) = Inr (map pv_revision_id (lc_revisions c))"
proof -
  have t: "text_items (map (JStr \<circ> pv_revision_id) (tl (lc_revisions c))) = Some (map pv_revision_id (tl (lc_revisions c)))"
    using text_items_texts [of "map pv_revision_id (tl (lc_revisions c))"] by simp
  show ?thesis using assms t
    by (cases "lc_revisions c") (simp_all add: live_participants_def live_context_def input_text_def fmlookup_of_list)
qed

lemma pass_decides:
  assumes "live_pass env root c cls s = (t, Inr r)" and "live_outcome r = Inr (d, h, w)" and "lc_revisions c \<noteq> []"
  obtains v es rs ps stored where "list_evidence (live_graph t) = Inr es" "list_receipts (live_store t) = Inr rs" "latest_claims (live_graph t) = Inr stored"
    "sort_key cl_claim_id cls = sort_key cl_claim_id stored" "earned es rs ps (map pv_revision_id (lc_revisions c)) cls v" "w = v \<or> CHR '';'' \<in> set v"
    "w \<in> set (map pv_revision_id (lc_revisions c))" "map pl_candidate_revision_id (cr_plans r) = map pv_revision_id (lc_revisions c)"
proof -
  let ?fs = "(live_files env root t)\<lparr>fs_dir := fs_dir (live_files env root s)\<rparr>"
  let ?st = "agent_program_search ?fs Live" and ?ctx = "live_context root c"
  have "runner_run (Some (live_runtime env c)) True (live_spec root c cls) ?st (lv_runner s) = (lv_runner t, Inr r)"
    using live_pass_run [OF assms(1)] by (auto simp: run_with_def on_runner_def split: prod.splits)
  from runner_run_returns [OF this] obtain ps where p: "search_plan ?fs Live ?ctx = Inr ps" "cr_plans r = ps"
    and d: "mapM (\<lambda>c'. search_next_action ?fs Live None c' cls) [?ctx] = Inr (cr_decisions r)"
    by (auto simp: agent_program_search_def search_status_def live_spec_def next_actions_def bind_eq_Inr)
  from d obtain d' where d': "search_next_action ?fs Live None ?ctx cls = Inr d'" "cr_decisions r = [d']" by (auto simp: bind_eq_Inr)
  have o: "project_live_decision d' (map pl_candidate_revision_id ps) = Inr (h, w)"
    using assms(2) d'(2) p(2) by (auto simp: live_outcome_def bind_eq_Inr)
  note parts = live_participants_of [OF assms(3), of root]
  have pm: "map pl_candidate_revision_id ps = map pv_revision_id (lc_revisions c)" using search_plan_participants [OF p(1) parts] by simp
  have "sd_action d' \<noteq> ''await-tournament-authority''"
    using o by (auto simp: project_live_decision_def bind_eq_Inr violation_unless_eq_Inr split: option.splits if_splits)
  from live_decides [OF d'(1) this] obtain parts' v gr sr g st g' stored es rs ps' where
    x: "live_participants ?ctx = Inr parts'" "fs_graph ?fs gr = Some g" "fs_store ?fs sr = Some st" "graph_rebuild st g = Inr g'" "latest_claims g' = Inr stored"
      "sort_key cl_claim_id cls = sort_key cl_claim_id stored" "list_evidence g' = Inr es" "list_receipts st = Inr rs" "earned es rs ps' parts' cls v"
      "names_winner ?ctx ps' parts' (sort_key cl_claim_id cls) v d'" by metis
  from x(10) obtain k where k: "sd_reason d' = live_reason k v" "is_sha256 k" by (auto simp: names_winner_def live_reason_def)
  have e: "parts' = map pv_revision_id (lc_revisions c)" "g = live_graph t" "st = live_store t" "g' = g"
    using x(1-4) parts by (auto simp: live_files_def graph_rebuild_def bind_eq_Inr split: if_splits)
  have "w = v" if "CHR '';'' \<notin> set v"
    using o reason_fields_exact [OF k(2) that] by (auto simp: project_live_decision_def k(1) bind_eq_Inr)
  moreover have "w \<in> set (map pv_revision_id (lc_revisions c))"
    using o pm by (auto simp: project_live_decision_def bind_eq_Inr violation_unless_eq_Inr split: option.splits)
  ultimately show ?thesis using that x e pm p(2) by metis
qed

end
