(* ===== verification/Live_Claims.thy ===== *)
theory Live_Claims
  imports Live_Facts
begin

text \<open>What a live campaign promises, and what it loses.\<close>

section \<open>What a replay keeps\<close>

definition root_kept :: "'w live_root \<Rightarrow> 'w live_root \<Rightarrow> bool" where
  "root_kept s t \<longleftrightarrow> lv_config t = lv_config s \<and> lv_result t = lv_result s \<and> lv_manifest t = lv_manifest s \<and> lv_programs t = lv_programs s
     \<and> lv_parent t = lv_parent s \<and> live_store t = live_store s \<and> live_graph t = live_graph s
     \<and> ex_calls (rn_world (lv_runner t)) = ex_calls (rn_world (lv_runner s))"

lemma root_kept_refl [simp]: "root_kept s s"
  by (simp add: root_kept_def)

lemma root_kept_trans: "root_kept s t \<Longrightarrow> root_kept t u \<Longrightarrow> root_kept s u"
  by (simp add: root_kept_def)

definition stable_op :: "('w live_root, 'a) op \<Rightarrow> bool" where
  "stable_op m \<longleftrightarrow> (\<forall>s. root_kept s (fst (m s)))"

lemma stableD: "stable_op m \<Longrightarrow> m s = (t, q) \<Longrightarrow> root_kept s t"
  by (metis fst_conv stable_op_def)

lemma stable_reads: "reads_only m \<Longrightarrow> stable_op m"
  by (simp add: reads_only_def stable_op_def)

lemma stable_obind:
  assumes "stable_op m" and "\<And>x. stable_op (f x)"
  shows "stable_op (obind m f)"
  unfolding stable_op_def
proof
  fix s
  obtain t q where t: "m s = (t, q)" by fastforce
  with assms show "root_kept s (fst (obind m f s))"
    by (cases q) (auto simp: obind_def stable_op_def intro: root_kept_trans [OF stableD [OF assms(1) t]] stableD [OF assms(1)])
qed

lemma stable_world: "stable_op (on_live_world m)"
  by (auto simp: stable_op_def root_kept_def on_live_world_def on_runner_def on_runtime_def on_world_def live_store_def live_graph_def split: prod.split)

lemma stable_graph: "reads_only m \<Longrightarrow> stable_op (on_live_graph m)"
  by (simp add: reads_only_def stable_op_def root_kept_def on_live_graph_def live_store_def live_graph_def [of "lv_runner_update _ _"] case_prod_unfold)

lemma stable_controller: "stable_op (omodify (\<lambda>s. s\<lparr>lv_runner := (lv_runner s)\<lparr>rn_controller := w\<rparr>\<rparr>))"
  by (simp add: stable_op_def root_kept_def live_store_def live_graph_def)

lemmas stable_simple = stable_reads [OF reads_olift] stable_reads [OF reads_oread] stable_reads [OF reads_oreturn]

lemma stable_open_controller: "stable_op (open_controller env c)"
  unfolding open_controller_def by (intro stable_obind stable_simple stable_world stable_controller)

lemma stable_sealed_claims: "stable_op (sealed_claims env root c)"
  unfolding sealed_claims_def verify_live_runtime_def
  by (intro stable_obind stable_simple stable_world stable_graph reads_project_live)

lemma open_sealed:
  assumes "lv_result s = Some f" and "open_root root disk c s = (t, q)"
  shows "t = s \<and> (\<forall>b. q = Inr b \<longrightarrow> b)"
  using assms by (auto simp: open_root_def obind_olift split: sum.splits)

section \<open>The plans of a verified root have ended\<close>

lemma order_ends:
  assumes "check_live_order rs p = Inr u"
  shows "\<exists>t \<in> set rs. rc_kind t = ''execution_terminal'' \<and> rc_plan_id t = pl_plan_id p"
proof -
  let ?own = "sort_key rc_sequence (filter (\<lambda>r. rc_plan_id r = pl_plan_id p) rs)"
  have own: "map (\<lambda>r. (rc_sequence r, rc_kind r)) ?own = live_order"
    using assms by (simp add: check_live_order_def violation_unless_eq_Inr)
  have "(6, ''execution_terminal'') \<in> set live_order" by code_simp
  then have "(6, ''execution_terminal'') \<in> (\<lambda>r. (rc_sequence r, rc_kind r)) ` set ?own"
    unfolding own [symmetric] set_map .
  then obtain r where "r \<in> set ?own" "(6, ''execution_terminal'') = (rc_sequence r, rc_kind r)" by (rule imageE)
  then show ?thesis by (intro bexI [of _ r]) simp_all
qed

lemma verified_ended:
  assumes "verify_live_plans (verify_live_plan resolve infer evaluate st rs) ps w = (v, Inr u)" and "p \<in> set ps"
  shows "\<exists>t \<in> set rs. rc_kind t = ''execution_terminal'' \<and> rc_plan_id t = pl_plan_id p"
  using assms
proof (induction ps arbitrary: w)
  case (Cons x xs)
  then show ?case by (auto simp: obind_eq_Inr olift_eq_Inr verify_live_plan_def dest: order_ends)
qed simp

lemma live_world_graph: "live_world (fst (on_live_graph m s)) = live_world s"
  by (simp add: on_live_graph_def live_world_def case_prod_unfold)

lemma live_world_reads: "reads_only m \<Longrightarrow> fst (on_live_world m s) = s"
  using reads_world by (auto simp: reads_only_def)

lemma sealed_claims_ended:
  assumes "sealed_claims env root c s = (t, Inr cls)"
  shows "\<exists>ps. search_plan (live_files env root t) Live (live_context root c) = Inr ps \<and> ended_in (pl_plan_id ` set ps) (rn_world (lv_runner t))"
proof -
  let ?check = "verify_live_plan (le_resolve env) (transport_infer env (live_roots c) local_executor) (local_evaluate (lc_expected c)) (live_store s)"
  obtain ps rs u where ps: "search_plan (live_files env root s) Live (live_context root c) = Inr ps" "list_receipts (live_store s) = Inr rs"
    and v: "on_live_world (verify_live_plans (?check rs) ps) s = (u, Inr ())"
    and g: "on_live_graph (project_live_claims False (live_store u) ps) u = (t, Inr cls)"
    using assms unfolding sealed_claims_def verify_live_runtime_def by (clarsimp simp: obind_eq_Inr olift_eq_Inr)
  have "fst (on_live_world (verify_live_plans (?check rs) ps) s) = s" by (intro live_world_reads reads_verify_plans reads_verify_plan)
  then have us: "u = s" by (simp add: v)
  have w: "verify_live_plans (?check rs) ps (live_world s) = (fst (verify_live_plans (?check rs) ps (live_world s)), Inr ())"
    using v by (auto simp: on_live_world_def on_runner_def on_runtime_def on_world_def live_world_def split: prod.splits)
  have e: "settled_in (pl_plan_id p) (rn_world (lv_runner s))" if "p \<in> set ps" for p
    using verified_ended [OF w that] ps(2) by (auto simp: settled_in_def live_store_def)
  have "ended_in (pl_plan_id ` set ps) (rn_world (lv_runner t))"
    using e g us by (auto simp: ended_in_def settled_in_def on_live_graph_def split: prod.splits)
  moreover have "fs_dir (live_files env root t) = fs_dir (live_files env root s)"
    using live_world_graph [of "project_live_claims False (live_store u) ps" u] g us by (simp add: live_files_def)
  ultimately show ?thesis using ps(1) search_plan_dir [of "live_files env root t" "live_files env root s"] by metis
qed

lemma pass_keeps:
  assumes "live_pass env root c cls s = (t, q)" and "search_plan (live_files env root s) Live (live_context root c) = Inr ps"
    and "ended_in (pl_plan_id ` set ps) (rn_world (lv_runner s))"
  shows "root_kept s t"
proof (cases "check_campaign_spec (live_spec root c cls)")
  case (Inl e)
  with assms(1) show ?thesis by (auto simp: live_pass_def)
next
  case (Inr v)
  let ?st = "agent_program_search (live_files env root s) Live"
  obtain u x where u: "runner_run (Some (execution_runtime (local_adapters env (live_roots c) (lc_expected c)))) True (live_spec root c cls) ?st (lv_runner s) = (u, x)"
    by fastforce
  have t: "t = s\<lparr>lv_runner := u\<rparr>"
    using assms(1) Inr u by (simp add: live_pass_def Let_def run_with_def on_runner_def live_runtime_def)
  have p: "mapM (sg_plan ?st) (cs_contexts (live_spec root c cls)) = Inr [ps]" using assms(2) by (simp add: agent_program_search_def live_spec_def)
  have "same_facts (rn_world (lv_runner s)) (rn_world u)"
    using run_ended [OF u _ p] assms(3) by (simp add: agent_program_search_def search_status_def)
  with t show ?thesis by (simp add: root_kept_def live_store_def live_graph_def same_facts_def)
qed

section \<open>The replay\<close>

lemma live_replay_keeps: "stable_op (live_replay env root c)"
  unfolding stable_op_def
proof
  fix s
  obtain u x where u: "sealed_claims env root c s = (u, x)" by fastforce
  have su: "root_kept s u" by (rule stableD [OF stable_sealed_claims u])
  show "root_kept s (fst (live_replay env root c s))"
  proof (cases x)
    case (Inl e)
    with u su show ?thesis by (simp add: live_replay_def obind_def)
  next
    case (Inr cls)
    obtain t q where t: "live_pass env root c cls u = (t, q)" by fastforce
    from sealed_claims_ended [OF u [unfolded Inr]] pass_keeps [OF t] have "root_kept u t" by blast
    moreover have "fst (live_replay env root c s) = t"
      using u Inr t by (cases q) (auto simp: live_replay_def obind_def [of "sealed_claims _ _ _"] obind_def [of "live_pass _ _ _ _"] obind_olift Let_def split: sum.splits prod.splits)
    ultimately show ?thesis using root_kept_trans [OF su] by simp
  qed
qed

lemma live_replay_result:
  assumes "live_replay env root c s = (t, Inr rep)"
  obtains cls u r d h w where "sealed_claims env root c s = (u, Inr cls)" "live_pass env root c cls u = (t, Inr r)" "length (cr_decisions r) = 1"
    "live_outcome r = Inr (d, h, w)" "rep = live_report c r d h w cls (map (\<lambda>_. False) (cr_plans r))" "check_result rep (lv_result t) = Inr ()"
  using assms by (auto simp: live_replay_def obind_eq_Inr olift_eq_Inr violation_unless_eq_Inr Let_def)

lemma sealed_run_keeps:
  assumes "lv_result s = Some f" and "live_campaign env root disk path s = (t, q)"
  shows "root_kept s t \<and> (\<forall>rep. q = Inr rep \<longrightarrow> (\<exists>c u. live_replay env root c u = (t, Inr rep)))"
proof (cases "read_live_config env path (live_world s)")
  case (Inl e)
  with assms(2) show ?thesis by (auto simp: live_campaign_def)
next
  case (Inr c)
  obtain u x where u: "open_root root disk c s = (u, x)" by fastforce
  note o = open_sealed [OF assms(1) u]
  show ?thesis
  proof (cases x)
    case (Inl e)
    with assms(2) Inr u o show ?thesis by (auto simp: live_campaign_def obind_def [of "open_root _ _ _"])
  next
    case x: (Inr b)
    let ?rest = "obind (open_controller env c) (\<lambda>_. obind (olift (check_context (live_context root c))) (\<lambda>_.
      obind (olift (check_transport (live_roots c))) (\<lambda>_. live_replay env root c)))"
    have r: "?rest s = (t, q)" using assms(2) Inr u x o by (simp add: live_campaign_def obind_def [of "open_root _ _ _"])
    have "stable_op ?rest" by (intro stable_obind stable_simple stable_open_controller live_replay_keeps)
    with stableD r have "root_kept s t" by blast
    moreover have "\<exists>u. live_replay env root c u = (t, Inr rep)" if "q = Inr rep" for rep
      using r that by (auto simp: obind_eq_Inr)
    ultimately show ?thesis by blast
  qed
qed

section \<open>A fresh run\<close>

lemma live_fresh_result:
  assumes "live_fresh env root disk c s = (t, Inr rep)"
  obtains first cls u v r d h w where "first_pass env root c s = (u, Inr (first, cls))" "live_pass env root c cls u = (v, Inr r)"
    "live_outcome r = Inr (d, h, w)" "rep = live_report c r d h w cls (map er_replayed (cr_executions first))"
    "live_store t = live_store v" "live_graph t = live_graph v" "Option.bind (lv_result t) tf_json = Some (JObj rep)"
proof -
  from assms obtain first cls u y z x where p: "first_pass env root c s = (u, Inr (first, cls))" and a: "authority_pass env root c first cls u = (y, Inr rep)"
    and w: "write_live_result rep y = (z, Inr ())" and l: "live_seal root disk z = (t, Inr x)"
    by (auto simp: live_fresh_def obind_eq_Inr)
  from a obtain v r d h w where r: "live_pass env root c cls u = (v, Inr r)" "live_outcome r = Inr (d, h, w)"
      "rep = live_report c r d h w cls (map er_replayed (cr_executions first))" and y: "on_live_parent (append_live_search_parent (live_advanced c d h w)) v = (y, Inr ())"
    by (auto simp: authority_pass_def obind_eq_Inr olift_eq_Inr)
  have "live_store y = live_store v" "live_graph y = live_graph v"
    using y by (auto simp: on_live_parent_def live_store_def live_graph_def split: prod.splits)
  moreover have "live_store z = live_store y" "live_graph z = live_graph y" "Option.bind (lv_result z) tf_json = Some (JObj rep)"
    using w by (auto simp: write_live_result_def obind_eq_Inr olift_eq_Inr encoded_def bind_eq_Inr live_store_def live_graph_def)
  moreover have "live_store t = live_store z" "live_graph t = live_graph z" "lv_result t = lv_result z"
    using l by (auto simp: live_seal_def obind_eq_Inr olift_eq_Inr live_store_def live_graph_def)
  ultimately show ?thesis using that [OF p r] by simp
qed

lemma live_campaign_returns:
  assumes "live_campaign env root disk path s = (t, Inr rep)"
  obtains c u where "read_live_config env path (live_world s) = Inr c" "live_replay env root c u = (t, Inr rep) \<or> live_fresh env root disk c u = (t, Inr rep)"
  using assms by (auto simp: live_campaign_def obind_eq_Inr olift_eq_Inr split: if_splits)

section \<open>Reports\<close>

lemma report_fields:
  "get (live_report c r d h w cls initial) ''selected_parent_revision_id'' = JStr w"
  "get (live_report c r d h w cls initial) ''claims'' = JList (map report_claim cls)"
  "get (live_report c r d h w cls initial) ''native_gain_claimed'' = JBool (list_ex (\<lambda>c. cl_classification c = GAIN) cls)"
  "get (live_report c r d h w cls initial) ''promotion_eligible'' = JBool False"
  "get (live_report c r d h w cls initial) ''capability_active'' = JBool False"
  "get (live_report c r d h w cls initial) ''holdout_opened'' = JBool False"
  "get (live_report c r d h w cls initial) ''initial_execution_replayed'' = bool_list initial"
  by (simp_all add: live_report_def build_live_report_def get_jobj)

lemma live_claim_grade: "live_claim p e k = Inr c \<Longrightarrow> cl_grade c = E1"
  by (auto simp: live_claim_def mk_claim_def bind_eq_Inr)

lemma project_live_claim_grade: "project_live_claim es rs p = Inr c \<Longrightarrow> cl_grade c = E1"
  by (auto simp: project_live_claim_def bind_def live_claim_grade split: list.split_asm option.split_asm sum.split_asm)

lemma project_claims_grade:
  "project_claims add es rs ps g = (g', Inr cls) \<Longrightarrow> list_all (\<lambda>c. cl_grade c = E1) cls"
proof (induction ps arbitrary: g cls)
  case (Cons p ps)
  from Cons.prems obtain c g1 cs where c: "project_live_claim es rs p = Inr c" and r: "project_claims add es rs ps g1 = (g', Inr cs)" "cls = c # cs"
    by (auto simp: obind_eq_Inr olift_eq_Inr)
  with project_live_claim_grade [OF c] Cons.IH [OF r(1)] show ?case by simp
qed simp

lemma project_live_grade:
  assumes "on_live_graph (project_live_claims add st ps) s = (t, Inr cls)"
  shows "list_all (\<lambda>c. cl_grade c = E1) cls"
  using assms project_claims_grade by (auto simp: on_live_graph_def project_live_claims_def obind_eq_Inr olift_eq_Inr split: prod.splits)

lemma passed_claims_grade:
  shows "first_pass env root c s = (t, Inr (first, cls)) \<Longrightarrow> list_all (\<lambda>c. cl_grade c = E1) cls"
    and "sealed_claims env root c s = (t, Inr cls) \<Longrightarrow> list_all (\<lambda>c. cl_grade c = E1) cls"
  by (auto simp: first_pass_def sealed_claims_def obind_eq_Inr olift_eq_Inr dest: project_live_grade)

lemma config_revisions: "read_live_config env path w = Inr c \<Longrightarrow> lc_revisions c \<noteq> []"
  by (auto simp: read_live_config_def live_revisions_def bind_eq_Inr split: option.splits json.splits list.splits dest!: mapM_length)

lemma same_claims: "sort_key f xs = sort_key f ys \<Longrightarrow> set xs = set ys"
  by (metis set_sort)

section \<open>The properties\<close>

text \<open>C39: A call of the live campaign raises or returns a report that rests on what is stored: its claims have grade E1 and are the latest claims of
  the graph, each planned participant has exactly one, bound to the one native evaluation of its plan and to the model receipt of its
  own bundle; the winner has the best classification, and one strictly better than the parent's when it is not the parent; the
  reported search parent is the winner unless the winner's id contains a semicolon, and a participant in any case; no promotion, no
  active capability and no holdout is ever reported.\<close>

theorem live_campaign_outcome:
  "(\<exists>e. snd (live_campaign env root disk path s) = Inl e)
   \<or> (\<exists>t rep c es rs ps stored cls v w. live_campaign env root disk path s = (t, Inr rep) \<and> read_live_config env path (live_world s) = Inr c
        \<and> list_evidence (live_graph t) = Inr es \<and> list_receipts (live_store t) = Inr rs \<and> latest_claims (live_graph t) = Inr stored
        \<and> set cls = set stored \<and> list_all (\<lambda>x. cl_grade x = E1) cls \<and> earned es rs ps (map pv_revision_id (lc_revisions c)) cls v
        \<and> get rep ''selected_parent_revision_id'' = JStr w \<and> w \<in> set (map pv_revision_id (lc_revisions c)) \<and> (w = v \<or> CHR '';'' \<in> set v)
        \<and> get rep ''claims'' = JList (map report_claim cls)
        \<and> get rep ''native_gain_claimed'' = JBool (list_ex (\<lambda>x. cl_classification x = GAIN) cls)
        \<and> get rep ''promotion_eligible'' = JBool False \<and> get rep ''capability_active'' = JBool False \<and> get rep ''holdout_opened'' = JBool False)"
proof (cases "live_campaign env root disk path s")
  case (Pair t q)
  show ?thesis
  proof (cases q)
    case (Inr rep)
    with Pair have l: "live_campaign env root disk path s = (t, Inr rep)" by simp
    from live_campaign_returns [OF l] obtain c u where c: "read_live_config env path (live_world s) = Inr c"
      and r: "live_replay env root c u = (t, Inr rep) \<or> live_fresh env root disk c u = (t, Inr rep)" by blast
    note n = config_revisions [OF c]
    obtain cls v r d h w b y where p: "live_pass env root c cls y = (v, Inr r)" "live_outcome r = Inr (d, h, w)" "rep = live_report c r d h w cls b"
      "live_store t = live_store v" "live_graph t = live_graph v" "list_all (\<lambda>x. cl_grade x = E1) cls"
      using r
    proof
      assume "live_replay env root c u = (t, Inr rep)"
      then show ?thesis
      proof (rule live_replay_result)
        fix cls' y' r' d' h' w'
        assume x: "sealed_claims env root c u = (y', Inr cls')" "live_pass env root c cls' y' = (t, Inr r')" "live_outcome r' = Inr (d', h', w')"
          "rep = live_report c r' d' h' w' cls' (map (\<lambda>_. False) (cr_plans r'))"
        show ?thesis by (rule that [OF x(2-4) refl refl passed_claims_grade(2) [OF x(1)]])
      qed
    next
      assume "live_fresh env root disk c u = (t, Inr rep)"
      then show ?thesis
      proof (rule live_fresh_result)
        fix first cls' y' v' r' d' h' w'
        assume x: "first_pass env root c u = (y', Inr (first, cls'))" "live_pass env root c cls' y' = (v', Inr r')" "live_outcome r' = Inr (d', h', w')"
          "rep = live_report c r' d' h' w' cls' (map er_replayed (cr_executions first))" "live_store t = live_store v'" "live_graph t = live_graph v'"
        show ?thesis by (rule that [OF x(2-6) passed_claims_grade(1) [OF x(1)]])
      qed
    qed
    from pass_decides [OF p(1,2) n] obtain x es rs ps stored where
      "list_evidence (live_graph v) = Inr es" "list_receipts (live_store v) = Inr rs" "latest_claims (live_graph v) = Inr stored"
      "sort_key cl_claim_id cls = sort_key cl_claim_id stored" "earned es rs ps (map pv_revision_id (lc_revisions c)) cls x" "w = x \<or> CHR '';'' \<in> set x"
      "w \<in> set (map pv_revision_id (lc_revisions c))" by metis
    then show ?thesis using l c p(3-6) report_fields same_claims [of cl_claim_id cls stored] by fastforce
  qed (use Pair in simp)
qed

text \<open>Once a root holds a result, a call of the campaign only reads it: whether it returns or raises, the configuration, the result, the
  manifest, the registry, the search-parent log, the receipts, the evidence and the claims stay as they are and no adapter is
  called through the runtime; and what it returns is the result that is stored.\<close>

theorem sealed_run_reads_only:
  "lv_result s = None
   \<or> (case live_campaign env root disk path s of (t, q) \<Rightarrow> root_kept s t
        \<and> (case q of Inl e \<Rightarrow> True | Inr rep \<Rightarrow> \<exists>j. Option.bind (lv_result s) tf_json = Some j \<and> same_value j (JObj rep)))"
proof (cases "lv_result s")
  case (Some f)
  obtain t q where l: "live_campaign env root disk path s = (t, q)" by fastforce
  note k = sealed_run_keeps [OF Some l]
  have "\<exists>j. Option.bind (lv_result s) tf_json = Some j \<and> same_value j (JObj rep)" if "q = Inr rep" for rep
  proof -
    from k that obtain c u where "live_replay env root c u = (t, Inr rep)" by blast
    then have "check_result rep (lv_result t) = Inr ()" by (rule live_replay_result)
    moreover have "lv_result t = lv_result s" using k by (simp add: root_kept_def)
    ultimately show ?thesis by (auto simp: check_result_def violation_unless_eq_Inr split: option.splits)
  qed
  with k l show ?thesis by (auto split: sum.split)
qed simp

section \<open>What a seal loses\<close>

text \<open>Calls that follow, each by its own process in its own environment.\<close>

fun live_calls :: "('w live_env \<times> ('w live_root \<Rightarrow> disk) \<times> string) list \<Rightarrow> string list \<Rightarrow> 'w live_root \<Rightarrow> 'w live_root" where
  "live_calls [] root s = s"
| "live_calls ((env, disk, path) # xs) root s = live_calls xs root (fst (live_campaign env root disk path s))"

lemma live_calls_keep: "lv_result s = Some f \<Longrightarrow> root_kept s (live_calls xs root s)"
proof (induction xs arbitrary: s)
  case (Cons x xs)
  obtain env disk path where x: "x = (env, disk, path)" by (cases x)
  obtain t q where l: "live_campaign env root disk path s = (t, q)" by fastforce
  have k: "root_kept s t" using sealed_run_keeps [OF Cons.prems l] by blast
  then have "lv_result t = Some f" using Cons.prems by (simp add: root_kept_def)
  from root_kept_trans [OF k Cons.IH [OF this]] show ?case by (simp add: x l)
qed simp

lemma bool_list_False: "py_eq (bool_list bs) (bool_list (map (\<lambda>_. False) xs)) \<Longrightarrow> bs = replicate (length bs) False"
proof -
  assume "py_eq (bool_list bs) (bool_list (map (\<lambda>_. False) xs))"
  then have e: "map (\<lambda>b. JInt (if b then 1 else 0)) bs = map (\<lambda>_. JInt 0) xs" by (simp add: py_eq_def bool_list_def comp_def)
  have "b = False" if "b \<in> set bs" for b
  proof -
    have "JInt (if b then 1 else 0) \<in> set (map (\<lambda>_. JInt 0) xs)" unfolding e [symmetric] using that by auto
    then show ?thesis by (auto split: if_splits)
  qed
  then show ?thesis by (metis replicate_length_same)
qed

lemma sealed_never_replayed:
  assumes "lv_result s = Some f" and "tf_json f = Some (JObj rep)" and "live_campaign env root disk path s = (t, Inr rep')"
  shows "\<exists>n. py_eq (get rep ''initial_execution_replayed'') (bool_list (replicate n False))"
proof -
  from sealed_run_keeps [OF assms(1,3)] obtain c u where k: "root_kept s t" and r: "live_replay env root c u = (t, Inr rep')" by blast
  from r obtain w r d h v cls where rep: "rep' = live_report c r d h v cls (map (\<lambda>_. False) (cr_plans r))" and c: "check_result rep' (lv_result t) = Inr ()"
    by (rule live_replay_result)
  have "py_eq (JObj rep) (JObj rep')"
    using c k assms(1,2) by (auto simp: root_kept_def check_result_def violation_unless_eq_Inr same_value_def)
  from py_eq_get [OF this, of "''initial_execution_replayed''"] have "py_eq (get rep ''initial_execution_replayed'') (bool_list (map (\<lambda>_. False) (cr_plans r)))"
    by (simp add: rep report_fields)
  then show ?thesis by (metis map_replicate_const)
qed

text \<open>A seal can be lost for good.  A root whose run stopped between the result and the manifest is never sealed: every call raises and
  changes nothing.  And the report of a run that found executions of an earlier, interrupted run (they are replays in its first pass)
  contradicts every replay, which expects none: after any further calls, by whatever processes, a call raises.\<close>

theorem broken_seal_stays_broken:
  "(case (lv_result s, lv_manifest s) of (Some f, None) \<Rightarrow> \<exists>e. live_campaign env root disk path s = (s, Inl e) | _ \<Rightarrow> True)
   \<and> (case live_campaign env root disk path s of (t, Inl e) \<Rightarrow> True
      | (t, Inr rep) \<Rightarrow> (\<exists>n. py_eq (get rep ''initial_execution_replayed'') (bool_list (replicate n False)))
          \<or> (\<exists>e. snd (live_campaign env' root disk' path' (live_calls xs root t)) = Inl e))"
proof (intro conjI)
  show "case (lv_result s, lv_manifest s) of (Some f, None) \<Rightarrow> \<exists>e. live_campaign env root disk path s = (s, Inl e) | _ \<Rightarrow> True"
  proof (cases "read_live_config env path (live_world s)")
    case (Inr c)
    then show ?thesis
      by (auto simp: live_campaign_def open_root_def check_sealed_def obind_olift violation_unless_def require_def obind_def [of "obind _ _"]
        split: option.split sum.split)
  qed (auto simp: live_campaign_def split: option.split)
  show "case live_campaign env root disk path s of (t, Inl e) \<Rightarrow> True
      | (t, Inr rep) \<Rightarrow> (\<exists>n. py_eq (get rep ''initial_execution_replayed'') (bool_list (replicate n False)))
          \<or> (\<exists>e. snd (live_campaign env' root disk' path' (live_calls xs root t)) = Inl e)"
  proof (cases "live_campaign env root disk path s")
    case (Pair t q)
    show ?thesis
    proof (cases q)
      case (Inr rep)
      with Pair have l: "live_campaign env root disk path s = (t, Inr rep)" by simp
      obtain c u where "live_replay env root c u = (t, Inr rep) \<or> live_fresh env root disk c u = (t, Inr rep)"
        by (rule live_campaign_returns [OF l])
      then show ?thesis
      proof
        assume "live_replay env root c u = (t, Inr rep)"
        then obtain w r d h v cls where "rep = live_report c r d h v cls (map (\<lambda>_. False) (cr_plans r))" by (rule live_replay_result)
        then have "py_eq (get rep ''initial_execution_replayed'') (bool_list (replicate (length (cr_plans r)) False))"
          by (simp add: report_fields map_replicate_const)
        with l show ?thesis by auto
      next
        assume "live_fresh env root disk c u = (t, Inr rep)"
        then obtain f where f: "lv_result t = Some f" "tf_json f = Some (JObj rep)" by (rule live_fresh_result) (auto simp: bind_eq_Some_conv)
        have k: "lv_result (live_calls xs root t) = Some f" using live_calls_keep [OF f(1), of xs root] f(1) by (simp add: root_kept_def)
        show ?thesis
        proof (cases "live_campaign env' root disk' path' (live_calls xs root t)")
          case (Pair z q')
          then show ?thesis using sealed_never_replayed [OF k f(2), of env' root disk' path' z] l by (cases q') auto
        qed
      qed
    qed (use Pair in simp)
  qed
qed

text \<open>The decision is read back from its reason, whose fields a revision id can overwrite: when the winner is named
  \<open>v;decision=k\<close>, for a participant \<open>v\<close> and the digits \<open>k\<close> of a hash, the projection reports the hash \<open>k\<close> and the winner \<open>v\<close>,
  which did not win.  Without a semicolon in the winner's id the projection is the decision.\<close>

theorem semicolon_forges_decision:
  assumes "is_sha256 h" and "is_sha256 k" and "CHR '';'' \<notin> set v" and "CHR '';'' \<notin> set w"
    and "{v, v @ '';decision='' @ k, w} \<subseteq> set parts" and "hd parts \<notin> {v, v @ '';decision='' @ k, w}"
  shows "project_live_decision (search_advice Live ''advance-search-parent'' (live_reason h (v @ '';decision='' @ k)) cls) parts = Inr (k, v)
    \<and> project_live_decision (search_advice Live ''advance-search-parent'' (live_reason h w) cls) parts = Inr (h, w)"
  using assms reason_fields_forged [OF assms(1-3)] reason_fields_exact [OF assms(1,4)]
  by (auto simp: project_live_decision_def search_advice_def advisory_decision_def violation_unless_def)

lemma semicolon_forges_decision_witness:
  "project_live_decision (search_advice Live ''advance-search-parent'' (live_reason (digest JNull) (''a;decision='' @ digest JNull)) [])
      [''parent'', ''a'', ''a;decision='' @ digest JNull] = Inr (digest JNull, ''a'')"
proof -
  have h: "is_sha256 (digest JNull)" by (rule digest_is_sha256)
  have s: "CHR '';'' \<notin> set ''a''" by simp
  have p: "{''a'', ''a'' @ '';decision='' @ digest JNull, ''a''} \<subseteq> set [''parent'', ''a'', ''a;decision='' @ digest JNull]"
    "hd [''parent'', ''a'', ''a;decision='' @ digest JNull] \<notin> {''a'', ''a'' @ '';decision='' @ digest JNull, ''a''}" by simp_all
  from semicolon_forges_decision [OF h h s s p, of "[]"] show ?thesis by simp
qed

end
