(* ===== verification/Spec2Isabelle.thy ===== *)
theory Spec2Isabelle
  imports Ledger_Claims Campaign_Claims Evidence_Properties Promotion_Claims Goal Index_Log Outcome_Claims Feedback Run_Claims Bundle_Claims Tournament_Claims Runner_Replay Portfolio_Claims Portfolio_Replay Live_Claims
begin

text \<open>
  A verification development of the product core of jlens-evolve, \<open>src/src/evolve\<close>: an autonomous
  loop that lets a Teacher model propose a changed harness for a small student model, measures it
  against the unchanged harness on the same tasks, and keeps it only when native evaluations prove a
  gain without a regression.

  The parts and how they interact.  A run (\<open>autonomous/runner.py\<close>) reads a strict configuration
  (\<open>config.py\<close>), selects feedback tasks (\<open>task_selector.py\<close>), runs a baseline, asks the Teacher for
  a candidate, compiles it into assets (\<open>proposals/candidate_chain.py\<close>), screens it, runs a paired
  campaign, verifies the campaign from its stored evidence (\<open>verification.py\<close>), exports the best
  harness (\<open>output.py\<close>), turns the failures into the next round's feedback (\<open>next_round.py\<close>), and
  records the round in a hash-chained index (\<open>state.py\<close>) and a state file (\<open>goal.py\<close>) from which a
  restart recovers.  Below it, the kernel keeps the money and the lifecycle (\<open>kernel/\<close>), the evidence
  package keeps receipts, evidence and claims and grades them (\<open>evidence/\<close>), and governance turns
  graded evidence into signed promotion decisions and registered capabilities (\<open>governance/\<close>,
  \<open>registry/\<close>).  AgentProgram revisions compete in tournaments and their winners are chained in the
  search-parent log (\<open>agent_program/\<close>).

  Theories and sources.
  Ground: \<open>Prelude\<close> (exceptions as values, results, checks, strings), \<open>PyFloat\<close> (IEEE doubles as
  integers in units of 2 to the -1074, with rounding), \<open>Json\<close> (values, Python equality, the canonical
  text), \<open>Sha256\<close> (the hash on 32-bit words), \<open>Contracts\<close> (\<open>contracts.py\<close>), and the contracts that
  components share as locales: \<open>Append_Only\<close> (logs of records with distinct keys), \<open>Chain\<close> (hash
  chains), each interpreted in the component that provides it.  \<open>Line_Break\<close> is what the JSON-lines files
  have in common: they are read with \<open>splitlines()\<close>, which also splits at U+0085, a character that
  \<open>canonical_json\<close> writes as it is.
  Kernel: \<open>Budget\<close>, \<open>Cost_Ledger\<close> with \<open>Cost_Ledger_Facts\<close>, \<open>Ledger_Properties\<close> and
  \<open>Ledger_Claims\<close> (\<open>budget_manager.py\<close>), \<open>Lease\<close>, \<open>Checkpoint\<close>, \<open>Campaign\<close> with
  \<open>Campaign_Claims\<close>.
  Evidence: \<open>Receipt_Store\<close>, \<open>Counterfactual\<close> (\<open>native_pair.py\<close>, \<open>counterfactual.py\<close>),
  \<open>Evidence_Graph\<close>, \<open>Claim_Engine\<close>, \<open>Grade_Machine\<close>; their lemmas in \<open>Evidence_Facts\<close>,
  \<open>Evidence_Claims\<close>, \<open>Evidence_Properties\<close> and \<open>Grade_Facts\<close>; \<open>Evidence_Demo\<close> is one complete
  experiment on which the witnesses run.
  Governance: \<open>Line_Log\<close> (JSON-lines files), \<open>Decisions\<close>, \<open>Governance\<close>, \<open>Registry\<close>, with
  \<open>Governance_Claims\<close> and \<open>Promotion_Claims\<close>.
  Autonomous loop: \<open>Run_Config\<close>, \<open>Task_Selector\<close> with \<open>Selector_Claims\<close>, \<open>Outcome_Verifier\<close> with
  \<open>Outcome_Claims\<close>, \<open>Goal\<close>, \<open>Index_Log\<close>, \<open>Feedback\<close>, \<open>Output\<close>, \<open>Rounds\<close> with \<open>Round_Facts\<close>
  (payloads of the rounds, the state after them and the state recovered from them), \<open>Run\<close>,
  \<open>Run_Round\<close>, \<open>Run_Facts\<close> and \<open>Run_Claims\<close> (the loop over the files of the output directory).
  Candidates: \<open>Teacher_Exchange\<close>, \<open>Compiler\<close> and \<open>Bundle\<close> (\<open>proposals/candidate_chain.py\<close>: the
  exchange a candidate comes from, the change set and its assets, the compiled directory), their lemmas in
  \<open>Bundle_Load\<close> (what is written, and reading it back), \<open>Bundle_Demo\<close> and \<open>Bundle_Claims\<close>.
  Execution: \<open>Execution\<close> (\<open>observers/observer_hub.py\<close>, \<open>runtime/execution_runtime.py\<close>) with \<open>Execution_Facts\<close> (a locale for what every step of an
  execution leaves true, interpreted for the receipts, the calls and the model; what settles a plan),
  \<open>Execution_Calls\<close> and \<open>Execution_Claims\<close>.
  AgentProgram: \<open>Tournament\<close> (\<open>agent_program/tournament.py\<close>), \<open>Search_Parent\<close>
  (\<open>agent_program/search_parent.py\<close>), \<open>Parent_Claims\<close> and \<open>Tournament_Claims\<close>; \<open>Program_Revision\<close>
  (\<open>agent_program/revision.py\<close>: freezing and loading a revision), \<open>Program_Search\<close>
  (\<open>agent_program/fixture.py\<close> and \<open>strategies/agent_program.py\<close>).
  Campaigns: \<open>Strategy\<close> (\<open>strategies/base.py\<close>, \<open>skill_paired.py\<close>, \<open>legacy_import.py\<close>), \<open>Campaign_Runner\<close>
  (\<open>campaigns/runner.py\<close>) with \<open>Runner_Facts\<close> (a locale for what every step of a run keeps),
  \<open>Runner_Claims\<close> and \<open>Runner_Replay\<close> (a locale of runtimes that settle their plans,
  interpreted for the execution runtime).
  Portfolio (\<open>portfolio/orchestrator.py\<close>): \<open>Portfolio_Log\<close> (gaps, decisions and their logs; a
  locale of record types, from which the append-only contract follows),
  \<open>Portfolio\<close> (parent, gap, skill), \<open>Portfolio_Run\<close> (program, tournament, decision, replay, run),
  \<open>Portfolio_Claims\<close> and \<open>Portfolio_Replay\<close>.
  Live campaigns: \<open>Live_Authority\<close> (\<open>campaigns/agent_program_authority.py\<close> and \<open>AuditVerifier\<close> of \<open>reporting/\<close>),
  \<open>Live_Campaign\<close> (\<open>campaigns/agent_program_runtime.py\<close> and the adapters and configuration of \<open>agent_program_live.py\<close>),
  \<open>Live_Run\<close> (the campaign itself), \<open>Live_Facts\<close> and \<open>Live_Claims\<close>.

  How state and operations are read.  A frozen dataclass is a record with its \<open>__post_init__\<close> as a
  \<open>check_\<close> function; a store or manager is a record of the files or fields it owns; an operation
  takes that record and returns the new one with a result, \<open>Inl\<close> an exception or \<open>Inr\<close> a value, so
  an exception raised after a write leaves the write.  A message is the constant part of the
  source's message; the cause of an exception is not kept.  A JSON field where the code relies on a
  type that it does not check raises \<open>TypeError\<close> when the type is wrong.  Costs are doubles with
  round-to-nearest-even; negative zero is not distinguished from zero.  Text is Latin-1.  A file
  the code writes canonically is the value it holds; where the bytes matter the file is its text
  with the value \<open>json.loads\<close> reads from it.  An atomic replacement of a file is one step; a crash
  is a prefix of the steps, with the lock files that were held left behind: the writer lease of the cost
  ledger is such a file, which nothing in the code removes after a crash.  The rows of a compiled router are
  in the order of its canonical JSON file, sorted by key, which is where the code reads them back.  The
  local variables of the run loop that outlive a round, \<open>prescreen\<close> included, are fields of \<open>loop_vars\<close>.  Making a file read-only is a flag.

  What the lemmas show.  The kernel never dispatches a paid operation twice, whatever becomes of the
  disk as long as lines are only appended to the log; an admitted reservation leaves a readable ledger when the
  costs are on one binary grid and the ids contain no U+0085; a lagging head is repaired once the lock of the dead writer
  is gone, and tampering is detected or exhibits a hash collision.
  Campaign accounting is an invariant of every reachable state, by rule induction over the step
  relation.  Claims, grades and decisions are backed by stored evidence, and a capability needs a
  signed approval of a projection that was rebuilt.  The run loop ends within its rounds, its best
  harness only advances, and a restart recovers exactly the counters of the live loop, except after
  an infrastructure failure of a baseline, where no restart is possible.  An execution calls its
  adapters only on stored receipts, never calls the model twice for a plan, and never changes a
  settled plan; a compiled candidate loads back as what was compiled; a tournament winner is best, and
  the search-parent log survives any interleaving of its writers that write no U+0085.  A campaign run that is not
  completed reaches the runtime only after admission, and a completed one replays the plans it completed without a call; a frozen
  revision loads back; a live tournament decides only on stored claims and names the best of them.  A round trip of the
  portfolio is decided once, on what it has verified, and the strategy and the orchestrator, which compute
  the live decision each for itself, agree exactly when the tournament id is a text.  A live campaign reports the
  stored claims of its participants or raises; what its seal and the projection of its decision lose are lemmas of
  \<open>Live_Claims\<close>.

  Bounds and fuel.  The round loop is a recursion over the rounds that are left, at most
  \<open>max_rounds\<close>; its property shows that it needs no more.  Every other loop is a structural recursion
  over the data, except the digit searches of \<open>PyFloat\<close> and \<open>Json\<close>, whose
  bounds (exponents below 400, at most 17 digits) are those of a double.

  Parameters.  The Teacher, the student model, the evaluator, the runtime probe and the file system
  outside the output directory are functions of the world record of \<open>Run\<close>; the model transport, the
  workspace manager, the evaluator and the clock of an execution are the record \<open>adapters\<close>; tokens, times and
  random identifiers are arguments; the Teacher, the skill authority and the tournament runner of the
  portfolio are the record \<open>parties\<close>; paths, files, revision directories and the clock of a live campaign are the record \<open>live_env\<close>.  Collision freedom of SHA-256 is never assumed: a property that
  needs it has the collision as its other case.

  Not modelled: the legacy harness and experiments under \<open>src/engine\<close>, the model transports, the
  executors over subprocesses and servers, the fixture campaign, the command line, the report projector, the task registry.
\<close>

end
